(* ===== verification/Prelude.thy ===== *)
theory Prelude
  imports Main "HOL-Library.List_Lexorder" "HOL-Library.Char_ord" "HOL-Library.Product_Lexorder"
begin

text \<open>
  The shared vocabulary of the development.

  A Go string is a sequence of bytes, so it is modelled by \<^typ>\<open>string\<close> (a list of 8-bit
  characters); Go's \<open><\<close> on strings is the byte-wise lexicographic order, which is the order that
  the theories List-Lexorder and Char-ord put on \<^typ>\<open>string\<close>.
  The first group of definitions models the functions of the Go packages strings and strconv the
  program uses, the second group the two control structures that recur in it: a call chain in
  which every \<^verbatim>\<open>if err != nil { return err }\<close> leaves the function (\<open>bindE\<close>), and a
  \<^verbatim>\<open>for range\<close> loop whose body may return an error (\<open>foreachE\<close>, \<open>foldE\<close>).
  The collections declared first name the simplification rules of these combinators
  (\<open>go_simps\<close>), the unfolding rules of the model's small definitions (\<open>unfolds\<close>) and the
  introduction rules for effect bounds (\<open>effects\<close>).
\<close>

named_theorems go_simps \<open>rewrite rules of the error and loop combinators\<close>
named_theorems unfolds \<open>definitional equations of small helper functions\<close>
named_theorems effects \<open>introduction rules that bound what a computation may do\<close>

section \<open>Go strings\<close>

definition HasPrefix :: "string \<Rightarrow> string \<Rightarrow> bool" where
  "HasPrefix s p \<longleftrightarrow> take (length p) s = p"

definition TrimPrefix :: "string \<Rightarrow> string \<Rightarrow> string" where
  "TrimPrefix s p = (if HasPrefix s p then drop (length p) s else s)"

fun Cut :: "string \<Rightarrow> string \<Rightarrow> string \<times> string \<times> bool" where
  "Cut [] sep = ([], [], sep = [])"
| "Cut (c # s) sep =
     (if HasPrefix (c # s) sep then ([], drop (length sep) (c # s), True)
      else case Cut s sep of (front, rest, found) \<Rightarrow> (c # front, rest, found))"

text \<open>The UTF-8 encodings of the runes for which unicode.IsSpace holds.\<close>

definition spaceRunes :: "string list" where
  "spaceRunes = map (map char_of)
     ([[9], [10], [11], [12], [13], [32], [0xC2, 0x85], [0xC2, 0xA0], [0xE1, 0x9A, 0x80],
       [0xE2, 0x80, 0x80], [0xE2, 0x80, 0x81], [0xE2, 0x80, 0x82], [0xE2, 0x80, 0x83],
       [0xE2, 0x80, 0x84], [0xE2, 0x80, 0x85], [0xE2, 0x80, 0x86], [0xE2, 0x80, 0x87],
       [0xE2, 0x80, 0x88], [0xE2, 0x80, 0x89], [0xE2, 0x80, 0x8A], [0xE2, 0x80, 0xA8],
       [0xE2, 0x80, 0xA9], [0xE2, 0x80, 0xAF], [0xE2, 0x81, 0x9F],
       [0xE3, 0x80, 0x80]] :: nat list list)"

function trimLeading :: "string list \<Rightarrow> string \<Rightarrow> string" where
  "trimLeading cutset s =
     (case find (\<lambda>p. p \<noteq> [] \<and> HasPrefix s p) cutset of
        None \<Rightarrow> s
      | Some p \<Rightarrow> trimLeading cutset (drop (length p) s))"
  by pat_completeness auto
termination
proof (relation "measure (\<lambda>(cutset, s). length s)")
  show "wf (measure (\<lambda>(cutset :: string list, s :: string). length s))" by simp
next
  fix cutset :: "string list" and s p
  assume "find (\<lambda>p. p \<noteq> [] \<and> HasPrefix s p) cutset = Some p"
  then have "p \<noteq> []" and "HasPrefix s p" by (auto simp: find_Some_iff)
  then have "s \<noteq> []" by (auto simp: HasPrefix_def)
  with \<open>p \<noteq> []\<close> show "((cutset, drop (length p) s), (cutset, s))
      \<in> measure (\<lambda>(cutset, s). length s)"
    by simp
qed

declare trimLeading.simps [simp del]

definition TrimSpace :: "string \<Rightarrow> string" where
  "TrimSpace s = rev (trimLeading (map rev spaceRunes) (rev (trimLeading spaceRunes s)))"

definition TrimRightByte :: "string \<Rightarrow> char \<Rightarrow> string" where
  "TrimRightByte s c = rev (dropWhile (\<lambda>x. x = c) (rev s))"

fun Join :: "string list \<Rightarrow> string \<Rightarrow> string" where
  "Join [] sep = []"
| "Join [x] sep = x"
| "Join (x # y # ys) sep = x @ sep @ Join (y # ys) sep"

definition digit :: "nat \<Rightarrow> char" where
  "digit d = char_of (48 + d)"

fun itoa :: "nat \<Rightarrow> string" where
  "itoa n = (if n < 10 then [digit n] else itoa (n div 10) @ [digit (n mod 10)])"

declare itoa.simps [simp del]

definition itoaInt :: "int \<Rightarrow> string" where
  "itoaInt i = (if i < 0 then CHR ''-'' # itoa (nat (- i)) else itoa (nat i))"

section \<open>Errors and loops\<close>

fun bindE :: "'e + 'a \<Rightarrow> ('a \<Rightarrow> 'e + 'b) \<Rightarrow> 'e + 'b" where
  "bindE (Inl e) f = Inl e"
| "bindE (Inr x) f = f x"

fun mapErr :: "('e \<Rightarrow> 'f) \<Rightarrow> 'e + 'a \<Rightarrow> 'f + 'a" where
  "mapErr h (Inl e) = Inl (h e)"
| "mapErr h (Inr x) = Inr x"

definition guardE :: "bool \<Rightarrow> 'e \<Rightarrow> 'e + unit" where
  "guardE ok e = (if ok then Inr () else Inl e)"

fun foreachE :: "('a \<Rightarrow> 'e + unit) \<Rightarrow> 'a list \<Rightarrow> 'e + unit" where
  "foreachE f [] = Inr ()"
| "foreachE f (x # xs) = bindE (f x) (\<lambda>_. foreachE f xs)"

fun foldE :: "('a \<Rightarrow> 's \<Rightarrow> 'e + 's) \<Rightarrow> 'a list \<Rightarrow> 's \<Rightarrow> 'e + 's" where
  "foldE f [] s = Inr s"
| "foldE f (x # xs) s = bindE (f x s) (foldE f xs)"

definition isOk :: "'e + 'a \<Rightarrow> bool" where
  "isOk r = (case r of Inl _ \<Rightarrow> False | Inr _ \<Rightarrow> True)"

lemma bindE_eq_Inr [go_simps]:
  "bindE m f = Inr y \<longleftrightarrow> (\<exists>x. m = Inr x \<and> f x = Inr y)"
  by (cases m) auto

lemma bindE_eq_Inl [go_simps]:
  "bindE m f = Inl e \<longleftrightarrow> m = Inl e \<or> (\<exists>x. m = Inr x \<and> f x = Inl e)"
  by (cases m) auto

lemma mapErr_eq_Inr [go_simps]: "mapErr h m = Inr y \<longleftrightarrow> m = Inr y"
  by (cases m) auto

lemma mapErr_eq_Inl [go_simps]: "mapErr h m = Inl e \<longleftrightarrow> (\<exists>e'. m = Inl e' \<and> e = h e')"
  by (cases m) auto

lemma guardE_eq_Inr [go_simps]: "guardE ok e = Inr u \<longleftrightarrow> ok"
  by (simp add: guardE_def)

lemma guardE_eq_Inl [go_simps]: "guardE ok e = Inl e' \<longleftrightarrow> \<not> ok \<and> e' = e"
  by (auto simp: guardE_def)

lemma foreachE_eq_Inr [go_simps]:
  "foreachE f xs = Inr u \<longleftrightarrow> (\<forall>x \<in> set xs. f x = Inr ())"
  by (induction xs) (auto simp: bindE_eq_Inr)

lemma foreachE_eq_Inl: "foreachE f xs = Inl e \<Longrightarrow> \<exists>x \<in> set xs. f x = Inl e"
  by (induction xs) (auto simp: bindE_eq_Inl)

text \<open>A loop that keeps an element and refuses a second one.\<close>

definition asList :: "'a option \<Rightarrow> 'a list" where
  "asList found = (case found of None \<Rightarrow> [] | Some x \<Rightarrow> [x])"

lemma asList_simps [simp]: "asList None = []" "asList (Some x) = [x]"
  by (simp_all add: asList_def)

lemma foldE_at_most_one:
  assumes "\<And>x kept found. f x kept = Inr found \<longleftrightarrow> P x \<and> kept = None \<and> found = Some x"
    and "foldE f items None = Inr found"
  shows "list_all P items \<and> items = asList found"
proof (cases items)
  case (Cons x rest)
  then have "P x" "foldE f rest (Some x) = Inr found" using assms by (auto simp: bindE_eq_Inr)
  then show ?thesis using Cons assms(1) by (cases rest) (auto simp: bindE_eq_Inr)
qed (use assms(2) in simp)

lemma isOk_simps [simp]: "isOk (Inl e) = False" "isOk (Inr x) = True"
  by (simp_all add: isOk_def)

lemma isOk_iff: "isOk r \<longleftrightarrow> (\<exists>x. r = Inr x)"
  by (cases r) auto

section \<open>Facts about strings\<close>

lemma HasPrefix_append [simp]: "HasPrefix (p @ s) p"
  by (simp add: HasPrefix_def)

lemma HasPrefix_iff: "HasPrefix s p \<longleftrightarrow> (\<exists>r. s = p @ r)"
  by (auto simp: HasPrefix_def) (metis append_take_drop_id)

lemma TrimPrefix_append [simp]: "TrimPrefix (p @ s) p = s"
  by (simp add: TrimPrefix_def)

lemma Cut_first_byte: "c \<notin> set a \<Longrightarrow> Cut (a @ c # b) [c] = (a, b, True)"
  by (induction a) (auto simp: HasPrefix_def)

lemma Cut_reassembles: "Cut s sep = (a, b, True) \<Longrightarrow> s = a @ sep @ b"
proof (induction s arbitrary: a)
  case Nil
  then show ?case by simp
next
  case (Cons c s)
  show ?case
  proof (cases "HasPrefix (c # s) sep")
    case True
    then have "take (length sep) (c # s) = sep" by (simp add: HasPrefix_def)
    with Cons.prems True show ?thesis
      by (auto dest: sym) (metis append_take_drop_id)
  next
    case False
    with Cons.prems obtain a' where "Cut s sep = (a', b, True)" and "a = c # a'"
      by (auto split: prod.splits)
    with Cons.IH show ?thesis by simp
  qed
qed

lemma trimLeading_keeps:
  "c \<in> set s \<Longrightarrow> \<forall>p \<in> set cs. c \<notin> set p \<Longrightarrow> c \<in> set (trimLeading cs s)"
proof (induction cs s rule: trimLeading.induct)
  case (1 cs s)
  show ?case
  proof (cases "find (\<lambda>p. p \<noteq> [] \<and> HasPrefix s p) cs")
    case None
    with "1.prems" show ?thesis by (simp add: trimLeading.simps [of cs s])
  next
    case (Some p)
    then obtain r where "s = p @ r" and "p \<in> set cs"
      by (auto simp: find_Some_iff HasPrefix_iff)
    with "1.prems" have "c \<in> set (drop (length p) s)" by auto
    with "1.IH" [OF Some] "1.prems" Some show ?thesis
      by (simp add: trimLeading.simps [of cs s])
  qed
qed

lemma spaceRunes_bytes:
  "p \<in> set spaceRunes \<Longrightarrow> c \<in> set p \<Longrightarrow> of_char c \<le> (32 :: nat) \<or> 128 \<le> (of_char c :: nat)"
  by (auto simp: spaceRunes_def)

text \<open>A string with a printable ASCII character is not blank.\<close>

lemma TrimSpace_nonblank:
  assumes "c \<in> set s" and "32 < (of_char c :: nat)" and "(of_char c :: nat) < 128"
  shows "TrimSpace s \<noteq> []"
proof -
  have "\<forall>p \<in> set spaceRunes. c \<notin> set p"
    using spaceRunes_bytes assms(2,3) by fastforce
  then have "c \<in> set (TrimSpace s)"
    unfolding TrimSpace_def using assms(1)
    by (simp add: trimLeading_keeps)
  then show ?thesis by auto
qed

lemma digit_inj: "d < 10 \<Longrightarrow> e < 10 \<Longrightarrow> digit d = digit e \<longleftrightarrow> d = e"
  by (auto simp: digit_def dest: arg_cong [where f = "of_char :: char \<Rightarrow> nat"])

lemma digit_eq_iff_code: "d < 10 \<Longrightarrow> of_char (digit d) = (48 + d :: nat)"
  by (simp add: digit_def)

definition isDigit :: "char \<Rightarrow> bool" where
  "isDigit c \<longleftrightarrow> 48 \<le> (of_char c :: nat) \<and> (of_char c :: nat) \<le> 57"

lemma isDigit_digit: "d < 10 \<Longrightarrow> isDigit (digit d)"
  by (simp add: isDigit_def digit_eq_iff_code)

lemma itoa_digits: "\<forall>c \<in> set (itoa n). isDigit c"
proof (induction n rule: itoa.induct)
  case (1 n)
  then show ?case
    by (subst itoa.simps) (auto simp: isDigit_digit)
qed

lemma itoa_nonempty [simp]: "itoa n \<noteq> []"
  by (subst itoa.simps) simp

lemma itoa_inject: "itoa m = itoa n \<longleftrightarrow> m = n"
proof (induction m arbitrary: n rule: itoa.induct)
  case (1 m)
  have eqs: "itoa m = (if m < 10 then [digit m] else itoa (m div 10) @ [digit (m mod 10)])"
    "itoa n = (if n < 10 then [digit n] else itoa (n div 10) @ [digit (n mod 10)])"
    by (rule itoa.simps)+
  show ?case
  proof (cases "m < 10 \<or> n < 10")
    case True
    then show ?thesis
      by (auto simp: eqs digit_inj itoa_nonempty [symmetric])
  next
    case False
    with 1 [of "n div 10"] have "itoa (m div 10) = itoa (n div 10) \<longleftrightarrow> m div 10 = n div 10"
      by simp
    with False have "itoa m = itoa n \<longleftrightarrow> m div 10 = n div 10 \<and> m mod 10 = n mod 10"
      by (simp add: eqs digit_inj)
    then show ?thesis by (metis div_mult_mod_eq)
  qed
qed

section \<open>Sorted lists\<close>

lemma sort_key_Nil_iff [simp]: "sort_key k xs = [] \<longleftrightarrow> xs = []"
  by (metis length_0_conv length_sort)

lemma sort_key_singleton [simp]: "sort_key k xs = [x] \<longleftrightarrow> xs = [x]"
proof
  assume "sort_key k xs = [x]"
  then have "length xs = 1" "set xs = {x}"
    by (metis One_nat_def length_sort list.size(3,4) add_0, metis list.simps(15) set_empty set_sort)
  then show "xs = [x]" by (cases xs) auto
qed simp

lemma sort_key_flipped [simp]: "[] = sort_key k xs \<longleftrightarrow> xs = []" "[x] = sort_key k xs \<longleftrightarrow> xs = [x]"
  by (metis sort_key_Nil_iff, metis sort_key_singleton)

end
