(* ===== verification/Cloud.thy ===== *)
theory Cloud
  imports Prelude
begin

text \<open>
  The provider-neutral types of the package internal/cloud: identities, Gateway and route
  specifications and states (types.go), outcomes (outcome.go) and categorised errors (errors.go).

  A Go error is a value of \<open>go_error\<close>: a tree whose inner nodes are the wrappers of the fmt and
  errors packages and of cloud.ProviderError, and whose leaves are plain errors and the error types
  of the Go library and of Gophercloud that the adapter inspects. The text of an error is not
  modelled; the chain that errors.Is and errors.As walk is, because the classification depends on
  it. A nil error is the absence of a value: a function that returns \<^verbatim>\<open>(T, error)\<close>
  returns \<open>go_error + T\<close> here.
\<close>

section \<open>Identities, specifications and states\<close>

record Identity =
  OpenStackProjectID :: string
  ClusterID :: string
  Controller :: string
  ControllerVersion :: string
  GatewayNamespace :: string
  GatewayName :: string
  GatewayUID :: string
  RouteNamespace :: string
  RouteName :: string
  RouteUID :: string

record GatewaySpec =
  gs_Identity :: Identity
  gs_Provider :: string
  gs_VIPSubnetID :: string
  gs_ExternalNetworkID :: string
  gs_ListenerName :: string
  gs_ListenerPort :: int

record GatewayState =
  st_LoadBalancerID :: string
  st_VIPPortID :: string
  st_VIPAddress :: string
  st_FloatingIPID :: string
  st_FloatingIPAddress :: string
  st_ListenerID :: string

definition emptyGatewayState :: GatewayState where
  "emptyGatewayState = \<lparr>st_LoadBalancerID = [], st_VIPPortID = [], st_VIPAddress = [],
     st_FloatingIPID = [], st_FloatingIPAddress = [], st_ListenerID = []\<rparr>"

record GatewayRequirements =
  gr_Provider :: string
  gr_VIPSubnetID :: string
  gr_ExternalNetworkID :: string
  gr_ListenerPort :: int

definition Address :: "GatewayState \<Rightarrow> string" where
  "Address s = (if st_FloatingIPAddress s \<noteq> [] then st_FloatingIPAddress s else st_VIPAddress s)"

text \<open>PathMatchType is a Go string type: any string may arrive, two of them are supported.\<close>

definition PathMatchExact :: string where "PathMatchExact = ''Exact''"
definition PathMatchPrefix :: string where "PathMatchPrefix = ''PathPrefix''"

record Member =
  m_Address :: string
  m_Port :: int

record RouteSpec =
  rs_Identity :: Identity
  rs_Gateway :: GatewayState
  rs_GatewayRequirements :: GatewayRequirements
  rs_MemberSubnetID :: string
  rs_HealthPath :: string
  rs_Hostname :: string
  rs_PathType :: string
  rs_PathValue :: string
  rs_Members :: "Member list"

record RouteState =
  PoolID :: string
  MemberIDs :: "string list"
  MonitorID :: string
  L7PolicyIDs :: "string list"
  L7RuleIDs :: "string list"

definition emptyRouteState :: RouteState where
  "emptyRouteState = \<lparr>PoolID = [], MemberIDs = [], MonitorID = [], L7PolicyIDs = [], L7RuleIDs = []\<rparr>"

section \<open>Errors\<close>

datatype ErrorCategory =
    Authentication
  | Authorization
  | Quota
  | RateLimit
  | Timeout
  | RetryableService
  | TerminalValidation
  | ResourceFailure
  | OwnershipConflict

text \<open>
  The body of an HTTP response is represented by its JSON value, \<open>None\<close> for a body that is empty or
  not JSON.
\<close>

datatype json =
    JNull
  | JBool bool
  | JNumber string
  | JString string
  | JArray "json list"
  | JObject "(string \<times> json) list"

text \<open>
  \<open>Errorf\<close> is a plain error (errors.New, or fmt.Errorf without a wrapped error), \<open>Wrapf\<close> is
  fmt.Errorf with one \<^verbatim>\<open>%w\<close>, \<open>Joined\<close> is errors.Join. The Gophercloud types come as values
  and as pointers; a pointer may be a typed nil (\<open>None\<close>). \<open>NilDereference\<close> is not an error value
  but the run-time panic of a nil pointer dereference; the model has it at every place where the
  code dereferences a pointer that its type allows to be nil.
\<close>

datatype go_error =
    Errorf
  | NilDereference
  | Wrapf go_error
  | Joined "go_error list"
  | ProviderError ErrorCategory "go_error option"
  | ContextCanceled
  | DeadlineExceeded
  | EOF
  | UnexpectedEOF
  | ErrUnexpectedResponseCode int "json option"
  | ErrUnexpectedResponseCodePtr "(int \<times> json option) option"
  | ErrErrorAfterReauthentication go_error
  | ErrErrorAfterReauthenticationPtr "go_error option"
  | ErrUnableToReauthenticate go_error go_error
  | ErrUnableToReauthenticatePtr "(go_error \<times> go_error) option"
  | ErrTimeOut
  | ErrTimeOutPtr bool
  | ErrInvalidInput
  | ErrInvalidInputPtr bool
  | ErrMissingInput
  | ErrServiceNotFound
  | ErrEndpointNotFound
  | OpenStackErrEndpointNotFound
  | UnknownAuthorityError
  | HostnameError
  | CertificateInvalidError
  | DNSError bool bool \<comment> \<open>IsNotFound, Timeout()\<close>
  | OpError bool go_error \<comment> \<open>Timeout(), the wrapped Err\<close>
  | UrlError go_error \<comment> \<open>the wrapped Err\<close>

type_synonym 'a result = "go_error + 'a"

text \<open>
  The errors that errors.Is and errors.As visit, in their order: the error itself, then depth
  first what its Unwrap method returns. The Gophercloud error types have no Unwrap method.
\<close>

fun errorChain :: "go_error \<Rightarrow> go_error list" where
  "errorChain (Wrapf e) = Wrapf e # errorChain e"
| "errorChain (Joined es) = Joined es # concat (map errorChain es)"
| "errorChain (ProviderError c (Some e)) = ProviderError c (Some e) # errorChain e"
| "errorChain (OpError t e) = OpError t e # errorChain e"
| "errorChain (UrlError e) = UrlError e # errorChain e"
| "errorChain e = [e]"

fun providerCategory :: "go_error \<Rightarrow> ErrorCategory option" where
  "providerCategory (ProviderError c _) = Some c"
| "providerCategory _ = None"

fun firstSome :: "('a \<Rightarrow> 'b option) \<Rightarrow> 'a list \<Rightarrow> 'b option" where
  "firstSome f [] = None"
| "firstSome f (x # xs) = (case f x of Some y \<Rightarrow> Some y | None \<Rightarrow> firstSome f xs)"

definition NewProviderError :: "ErrorCategory \<Rightarrow> go_error \<Rightarrow> go_error" where
  "NewProviderError c e = ProviderError c (Some e)"

definition ErrorCategoryOf :: "go_error \<Rightarrow> ErrorCategory option" where
  "ErrorCategoryOf e = firstSome providerCategory (errorChain e)"

text \<open>
  errors.Is against one of the sentinels: the Is method of ProviderError compares categories along
  the whole chain.
\<close>

definition isCategory :: "go_error \<Rightarrow> ErrorCategory \<Rightarrow> bool" where
  "isCategory e c \<longleftrightarrow> list_ex (\<lambda>x. providerCategory x = Some c) (errorChain e)"

definition ErrOwnershipConflict :: go_error where
  "ErrOwnershipConflict = ProviderError OwnershipConflict None"

text \<open>The recurring \<^verbatim>\<open>fmt.Errorf("%w: ...", cloud.ErrOwnershipConflict, ...)\<close>.\<close>

abbreviation conflict :: go_error where
  "conflict \<equiv> Wrapf ErrOwnershipConflict"

definition errorCategoryMessage :: "ErrorCategory \<Rightarrow> string" where
  "errorCategoryMessage c = (case c of
      Authentication \<Rightarrow> ''OpenStack authentication failed''
    | Authorization \<Rightarrow> ''OpenStack authorization failed''
    | Quota \<Rightarrow> ''OpenStack quota exceeded''
    | RateLimit \<Rightarrow> ''OpenStack rate limit exceeded''
    | Timeout \<Rightarrow> ''OpenStack request timed out''
    | RetryableService \<Rightarrow> ''retryable OpenStack service failure''
    | TerminalValidation \<Rightarrow> ''OpenStack request validation failed''
    | ResourceFailure \<Rightarrow> ''OpenStack resource entered an error state''
    | OwnershipConflict \<Rightarrow> ''OpenStack resource ownership conflict'')"

section \<open>Outcomes\<close>

text \<open>
  OutcomeState is a Go string type; its zero value, which no constructor builds, is \<open>OutcomeUnset\<close>.
  Durations are nanosecond counts.
\<close>

datatype OutcomeState = OutcomeReady | OutcomeProgressing | OutcomeUnset

record Outcome =
  o_State :: OutcomeState
  o_Message :: string
  o_RequeueAfter :: int

definition Validate :: "Outcome \<Rightarrow> unit result" where
  "Validate oc = (case o_State oc of
      OutcomeReady \<Rightarrow> if o_RequeueAfter oc \<noteq> 0 then Inl Errorf else Inr ()
    | OutcomeProgressing \<Rightarrow> Inr ()
    | OutcomeUnset \<Rightarrow> Inl Errorf)"

definition ReadyOutcome :: Outcome where
  "ReadyOutcome = \<lparr>o_State = OutcomeReady, o_Message = [], o_RequeueAfter = 0\<rparr>"

definition ProgressingOutcome :: "string \<Rightarrow> int \<Rightarrow> Outcome" where
  "ProgressingOutcome message requeueAfter =
     \<lparr>o_State = OutcomeProgressing, o_Message = message, o_RequeueAfter = requeueAfter\<rparr>"

record GatewayResult =
  gres_State :: GatewayState
  gres_Outcome :: Outcome

definition GatewayReadyResult :: "GatewayState \<Rightarrow> GatewayResult" where
  "GatewayReadyResult s = \<lparr>gres_State = s, gres_Outcome = ReadyOutcome\<rparr>"

definition GatewayProgressingResult :: "string \<Rightarrow> int \<Rightarrow> GatewayResult" where
  "GatewayProgressingResult message requeueAfter =
     \<lparr>gres_State = emptyGatewayState, gres_Outcome = ProgressingOutcome message requeueAfter\<rparr>"

record RouteResult =
  rres_State :: RouteState
  rres_Outcome :: Outcome

definition RouteReadyResult :: "RouteState \<Rightarrow> RouteResult" where
  "RouteReadyResult s = \<lparr>rres_State = s, rres_Outcome = ReadyOutcome\<rparr>"

definition RouteProgressingResult :: "string \<Rightarrow> int \<Rightarrow> RouteResult" where
  "RouteProgressingResult message requeueAfter =
     \<lparr>rres_State = emptyRouteState, rres_Outcome = ProgressingOutcome message requeueAfter\<rparr>"

section \<open>Validation of identities\<close>

definition ValidateGatewayIdentity :: "Identity \<Rightarrow> unit result" where
  "ValidateGatewayIdentity i =
     foreachE (\<lambda>v. guardE (v \<noteq> []) Errorf)
       [ClusterID i, Controller i, GatewayNamespace i, GatewayName i, GatewayUID i]"

definition ValidateRouteIdentity :: "Identity \<Rightarrow> unit result" where
  "ValidateRouteIdentity i =
     bindE (ValidateGatewayIdentity i) (\<lambda>_.
       foreachE (\<lambda>v. guardE (v \<noteq> []) Errorf) [RouteNamespace i, RouteName i, RouteUID i])"

lemma ValidateGatewayIdentity_ok [go_simps]:
  "ValidateGatewayIdentity i = Inr u \<longleftrightarrow>
     ClusterID i \<noteq> [] \<and> Controller i \<noteq> [] \<and> GatewayNamespace i \<noteq> [] \<and> GatewayName i \<noteq> [] \<and>
     GatewayUID i \<noteq> []"
  by (simp add: ValidateGatewayIdentity_def go_simps del: foreachE.simps)

lemma ValidateRouteIdentity_ok [go_simps]:
  "ValidateRouteIdentity i = Inr u \<longleftrightarrow>
     ValidateGatewayIdentity i = Inr () \<and>
     RouteNamespace i \<noteq> [] \<and> RouteName i \<noteq> [] \<and> RouteUID i \<noteq> []"
  by (auto simp: ValidateRouteIdentity_def go_simps simp del: foreachE.simps)

section \<open>Facts about outcomes and error categories\<close>

lemma outcome_states [simp]:
  "o_State ReadyOutcome = OutcomeReady"
  "o_State (ProgressingOutcome m d) = OutcomeProgressing"
  by (simp_all add: ReadyOutcome_def ProgressingOutcome_def)

lemma constructed_outcomes_valid [simp]:
  "Validate ReadyOutcome = Inr ()" "Validate (ProgressingOutcome m d) = Inr ()"
  by (simp_all add: Validate_def ReadyOutcome_def ProgressingOutcome_def)

lemma firstSome_Some: "firstSome f xs = Some y \<Longrightarrow> \<exists>x \<in> set xs. f x = Some y"
  by (induction xs) (auto split: option.splits)

lemma firstSome_None: "firstSome f xs = None \<longleftrightarrow> (\<forall>x \<in> set xs. f x = None)"
  by (induction xs) (auto split: option.splits)

lemma errorChain_self [simp]: "e \<in> set (errorChain e)"
  by (induction e rule: errorChain.induct) auto

lemma category_of_wrapped [simp]:
  "ErrorCategoryOf (Wrapf e) = ErrorCategoryOf e"
  "ErrorCategoryOf (ProviderError c x) = Some c"
  "ErrorCategoryOf (NewProviderError c e) = Some c"
  "ErrorCategoryOf ErrOwnershipConflict = Some OwnershipConflict"
  by (cases x; simp add: ErrorCategoryOf_def NewProviderError_def ErrOwnershipConflict_def)+

end
