(* ===== verification/Gophercloud.thy ===== *)
theory Gophercloud
  imports Cloud
begin

text \<open>
  The boundary to the Gophercloud library and, behind it, to Octavia and Neutron. None of that code
  is part of the repository, so it enters the model as a parameter: a record of functions, one per
  library call the program makes, each of which acts on a world of arbitrary type \<open>'w\<close> and may
  answer anything, errors included. Nothing is assumed about it here.

  The resource and option records hold the fields the program reads or sets. A page collection
  that a List call returns and an Extract call decodes has the arbitrary type \<open>'p\<close>.
  The datatype \<open>event\<close> names every request with its answer; a computation records the requests
  it issues, in order, which is what the theorems about requests speak about.
\<close>

section \<open>Resources\<close>

record LoadBalancer =
  lb_ID :: string
  lb_ProjectID :: string
  lb_Tags :: "string list"
  lb_VipSubnetID :: string
  lb_VipPortID :: string
  lb_VipAddress :: string
  lb_Provider :: string
  lb_AdminStateUp :: bool
  lb_ProvisioningStatus :: string

record Listener =
  li_ID :: string
  li_ProjectID :: string
  li_Tags :: "string list"
  li_Loadbalancers :: "string list"
  li_Protocol :: string
  li_ProtocolPort :: int
  li_AdminStateUp :: bool
  li_ProvisioningStatus :: string

record Pool =
  po_ID :: string
  po_ProjectID :: string
  po_Tags :: "string list"
  po_Loadbalancers :: "string list"
  po_Protocol :: string
  po_LBMethod :: string
  po_AdminStateUp :: bool
  po_ProvisioningStatus :: string

record PoolMember =
  me_ID :: string
  me_ProjectID :: string
  me_Tags :: "string list"
  me_PoolID :: string
  me_Address :: string
  me_ProtocolPort :: int
  me_SubnetID :: string
  me_AdminStateUp :: bool
  me_ProvisioningStatus :: string

record Monitor =
  mo_ID :: string
  mo_ProjectID :: string
  mo_Tags :: "string list"
  mo_Pools :: "string list"
  mo_Type :: string
  mo_Delay :: int
  mo_Timeout :: int
  mo_MaxRetries :: int
  mo_MaxRetriesDown :: int
  mo_URLPath :: string
  mo_HTTPMethod :: string
  mo_ExpectedCodes :: string
  mo_AdminStateUp :: bool
  mo_ProvisioningStatus :: string

record L7Policy =
  pl_ID :: string
  pl_ProjectID :: string
  pl_Tags :: "string list"
  pl_ListenerID :: string
  pl_Action :: string
  pl_Position :: int
  pl_RedirectPoolID :: string
  pl_AdminStateUp :: bool
  pl_ProvisioningStatus :: string

record L7Rule =
  ru_ID :: string
  ru_ProjectID :: string
  ru_Tags :: "string list"
  ru_RuleType :: string
  ru_CompareType :: string
  ru_Value :: string
  ru_Invert :: bool
  ru_AdminStateUp :: bool
  ru_ProvisioningStatus :: string

record FloatingIP =
  fi_ID :: string
  fi_ProjectID :: string
  fi_TenantID :: string
  fi_Description :: string
  fi_PortID :: string
  fi_FloatingNetworkID :: string
  fi_FloatingIP :: string

section \<open>Request options\<close>

record LoadBalancerListOpts =
  lbl_ProjectID :: string
  lbl_Tags :: "string list"

record LoadBalancerCreateOpts =
  lbc_Name :: string
  lbc_Description :: string
  lbc_VipSubnetID :: string
  lbc_Provider :: string
  lbc_AdminStateUp :: "bool option"
  lbc_Tags :: "string list"

record ScopedListOpts = \<comment> \<open>listeners and pools: by load balancer; health monitors: by pool\<close>
  sl_ParentID :: string
  sl_ProjectID :: string
  sl_Tags :: "string list"

record ListenerCreateOpts =
  lic_LoadbalancerID :: string
  lic_Protocol :: string
  lic_ProtocolPort :: int
  lic_Name :: string
  lic_Description :: string
  lic_AdminStateUp :: "bool option"
  lic_Tags :: "string list"

record PoolCreateOpts =
  poc_LBMethod :: string
  poc_Protocol :: string
  poc_LoadbalancerID :: string
  poc_Name :: string
  poc_Description :: string
  poc_AdminStateUp :: "bool option"
  poc_Tags :: "string list"

record PoolUpdateOpts =
  pou_LBMethod :: string
  pou_AdminStateUp :: "bool option"

record MemberCreateOpts =
  mec_Address :: string
  mec_ProtocolPort :: int
  mec_Name :: string
  mec_SubnetID :: string
  mec_AdminStateUp :: "bool option"
  mec_Tags :: "string list"

record MonitorCreateOpts =
  moc_PoolID :: string
  moc_Type :: string
  moc_Delay :: int
  moc_Timeout :: int
  moc_MaxRetries :: int
  moc_MaxRetriesDown :: int
  moc_URLPath :: string
  moc_HTTPMethod :: string
  moc_ExpectedCodes :: string
  moc_Name :: string
  moc_AdminStateUp :: "bool option"
  moc_Tags :: "string list"

record MonitorUpdateOpts =
  mou_Delay :: int
  mou_Timeout :: int
  mou_MaxRetries :: int
  mou_MaxRetriesDown :: int
  mou_URLPath :: string
  mou_HTTPMethod :: string
  mou_ExpectedCodes :: string
  mou_AdminStateUp :: "bool option"

record PolicyListOpts =
  pll_ListenerID :: string
  pll_ProjectID :: string

record PolicyCreateOpts =
  plc_Name :: string
  plc_ListenerID :: string
  plc_Action :: string
  plc_Position :: int
  plc_Description :: string
  plc_RedirectPoolID :: string
  plc_AdminStateUp :: "bool option"
  plc_Tags :: "string list"

text \<open>In the update options an empty string or zero means that the field is left alone.\<close>

record PolicyUpdateOpts =
  plu_Action :: string
  plu_Position :: int
  plu_RedirectPoolID :: "string option"
  plu_AdminStateUp :: "bool option"

record RuleCreateOpts =
  ruc_RuleType :: string
  ruc_CompareType :: string
  ruc_Value :: string
  ruc_AdminStateUp :: "bool option"
  ruc_Tags :: "string list"

record RuleUpdateOpts =
  ruu_RuleType :: string
  ruu_CompareType :: string
  ruu_Value :: string
  ruu_Invert :: "bool option"
  ruu_AdminStateUp :: "bool option"

record FloatingIPListOpts =
  fil_PortID :: string
  fil_ProjectID :: string

record FloatingIPCreateOpts =
  fic_Description :: string
  fic_FloatingNetworkID :: string
  fic_PortID :: string

section \<open>The library calls\<close>

type_synonym ('w, 'a) call = "'w \<Rightarrow> 'a result \<times> 'w"

record ('w, 'p) loadbalancers_pkg =
  loadbalancers_List :: "LoadBalancerListOpts \<Rightarrow> ('w, 'p) call"
  ExtractLoadBalancers :: "'p \<Rightarrow> LoadBalancer list result"
  loadbalancers_Get :: "string \<Rightarrow> ('w, LoadBalancer) call"
  loadbalancers_Create :: "LoadBalancerCreateOpts \<Rightarrow> ('w, LoadBalancer) call"
  loadbalancers_Update :: "string \<Rightarrow> bool option \<Rightarrow> ('w, LoadBalancer) call"
  loadbalancers_Delete :: "string \<Rightarrow> ('w, unit) call"

record ('w, 'p) listeners_pkg =
  listeners_List :: "ScopedListOpts \<Rightarrow> ('w, 'p) call"
  ExtractListeners :: "'p \<Rightarrow> Listener list result"
  listeners_Create :: "ListenerCreateOpts \<Rightarrow> ('w, Listener) call"
  listeners_Update :: "string \<Rightarrow> bool option \<Rightarrow> ('w, Listener) call"
  listeners_Delete :: "string \<Rightarrow> ('w, unit) call"

record ('w, 'p) pools_pkg =
  pools_List :: "ScopedListOpts \<Rightarrow> ('w, 'p) call"
  ExtractPools :: "'p \<Rightarrow> Pool list result"
  pools_Create :: "PoolCreateOpts \<Rightarrow> ('w, Pool) call"
  pools_Update :: "string \<Rightarrow> PoolUpdateOpts \<Rightarrow> ('w, Pool) call"
  pools_Delete :: "string \<Rightarrow> ('w, unit) call"
  pools_ListMembers :: "string \<Rightarrow> string \<Rightarrow> ('w, 'p) call"
  ExtractMembers :: "'p \<Rightarrow> PoolMember list result"
  pools_CreateMember :: "string \<Rightarrow> MemberCreateOpts \<Rightarrow> ('w, PoolMember) call"
  pools_UpdateMember :: "string \<Rightarrow> string \<Rightarrow> bool option \<Rightarrow> ('w, PoolMember) call"
  pools_DeleteMember :: "string \<Rightarrow> string \<Rightarrow> ('w, unit) call"

record ('w, 'p) monitors_pkg =
  monitors_List :: "ScopedListOpts \<Rightarrow> ('w, 'p) call"
  ExtractMonitors :: "'p \<Rightarrow> Monitor list result"
  monitors_Create :: "MonitorCreateOpts \<Rightarrow> ('w, Monitor) call"
  monitors_Update :: "string \<Rightarrow> MonitorUpdateOpts \<Rightarrow> ('w, Monitor) call"
  monitors_Delete :: "string \<Rightarrow> ('w, unit) call"

record ('w, 'p) l7policies_pkg =
  l7policies_List :: "PolicyListOpts \<Rightarrow> ('w, 'p) call"
  ExtractL7Policies :: "'p \<Rightarrow> L7Policy list result"
  l7policies_Create :: "PolicyCreateOpts \<Rightarrow> ('w, L7Policy) call"
  l7policies_Update :: "string \<Rightarrow> PolicyUpdateOpts \<Rightarrow> ('w, L7Policy) call"
  l7policies_Delete :: "string \<Rightarrow> ('w, unit) call"
  l7policies_ListRules :: "string \<Rightarrow> string \<Rightarrow> ('w, 'p) call"
  ExtractRules :: "'p \<Rightarrow> L7Rule list result"
  l7policies_CreateRule :: "string \<Rightarrow> RuleCreateOpts \<Rightarrow> ('w, L7Rule) call"
  l7policies_UpdateRule :: "string \<Rightarrow> string \<Rightarrow> RuleUpdateOpts \<Rightarrow> ('w, L7Rule) call"
  l7policies_DeleteRule :: "string \<Rightarrow> string \<Rightarrow> ('w, unit) call"

record ('w, 'p) floatingips_pkg =
  floatingips_List :: "FloatingIPListOpts \<Rightarrow> ('w, 'p) call"
  ExtractFloatingIPs :: "'p \<Rightarrow> FloatingIP list result"
  floatingips_Create :: "FloatingIPCreateOpts \<Rightarrow> ('w, FloatingIP) call"
  floatingips_Delete :: "string \<Rightarrow> ('w, unit) call"

record ('w, 'p) gophercloud =
  loadbalancers :: "('w, 'p) loadbalancers_pkg"
  listeners :: "('w, 'p) listeners_pkg"
  pools :: "('w, 'p) pools_pkg"
  monitors :: "('w, 'p) monitors_pkg"
  l7policies :: "('w, 'p) l7policies_pkg"
  floatingips :: "('w, 'p) floatingips_pkg"
  ResponseCodeIs :: "go_error \<Rightarrow> int \<Rightarrow> bool"

section \<open>Requests and their answers\<close>

datatype event =
    EvListLoadBalancers LoadBalancerListOpts "LoadBalancer list result"
  | EvGetLoadBalancer string "LoadBalancer result"
  | EvListListeners ScopedListOpts "Listener list result"
  | EvListPools ScopedListOpts "Pool list result"
  | EvListMembers string string "PoolMember list result"
  | EvListMonitors ScopedListOpts "Monitor list result"
  | EvListPolicies PolicyListOpts "L7Policy list result"
  | EvListRules string string "L7Rule list result"
  | EvListFloatingIPs FloatingIPListOpts "FloatingIP list result"
  | EvCreateLoadBalancer LoadBalancerCreateOpts "LoadBalancer result"
  | EvUpdateLoadBalancer string "bool option" "LoadBalancer result"
  | EvDeleteLoadBalancer string "unit result"
  | EvCreateListener ListenerCreateOpts "Listener result"
  | EvUpdateListener string "bool option" "Listener result"
  | EvDeleteListener string "unit result"
  | EvCreatePool PoolCreateOpts "Pool result"
  | EvUpdatePool string PoolUpdateOpts "Pool result"
  | EvDeletePool string "unit result"
  | EvCreateMember string MemberCreateOpts "PoolMember result"
  | EvUpdateMember string string "bool option" "PoolMember result"
  | EvDeleteMember string string "unit result"
  | EvCreateMonitor MonitorCreateOpts "Monitor result"
  | EvUpdateMonitor string MonitorUpdateOpts "Monitor result"
  | EvDeleteMonitor string "unit result"
  | EvCreatePolicy PolicyCreateOpts "L7Policy result"
  | EvUpdatePolicy string PolicyUpdateOpts "L7Policy result"
  | EvDeletePolicy string "unit result"
  | EvCreateRule string RuleCreateOpts "L7Rule result"
  | EvUpdateRule string string RuleUpdateOpts "L7Rule result"
  | EvDeleteRule string string "unit result"
  | EvCreateFloatingIP FloatingIPCreateOpts "FloatingIP result"
  | EvDeleteFloatingIP string "unit result"

fun mutating :: "event \<Rightarrow> bool" where
  "mutating (EvListLoadBalancers _ _) = False"
| "mutating (EvGetLoadBalancer _ _) = False"
| "mutating (EvListListeners _ _) = False"
| "mutating (EvListPools _ _) = False"
| "mutating (EvListMembers _ _ _) = False"
| "mutating (EvListMonitors _ _) = False"
| "mutating (EvListPolicies _ _) = False"
| "mutating (EvListRules _ _ _) = False"
| "mutating (EvListFloatingIPs _ _) = False"
| "mutating _ = True"

end
