(* ===== verification/Effects.thy ===== *)
theory Effects
  imports Gophercloud
begin

text \<open>
  Computations that talk to OpenStack. A computation maps a state, the world and the trace of
  requests issued so far, to a result and a new state; \<open>bindIO\<close> is Go's call followed by
  \<^verbatim>\<open>if err != nil { return err }\<close>, \<open>resultIO\<close> inspects the error instead.

  Four judgements describe what a computation requests, whatever the services answer.
  \<open>behaves m Q\<close> relates the result of \<open>m\<close> to the requests it adds to the trace;
  \<open>inspects m Q\<close> says that \<open>m\<close> only reads, and that \<open>Q x es\<close> holds when it returns \<open>x\<close> having
  issued \<open>es\<close>; \<open>issues m K J\<close> says that \<open>m\<close> issues at most one mutating request, that this request is
  its last one, that \<open>J\<close> holds of the result, the requests before the mutation and the mutation, and that
  \<open>K\<close> holds of a run that succeeds without one; \<open>mutates m J\<close> says that \<open>m\<close> issues exactly one
  request, a mutating one. Their rules follow the structure of the code, so that
  a fact about a whole operation is found by applying them.

  The locales \<open>read_call\<close> and \<open>write_call\<close> are the interface of the service layer: a call issues one
  request and records its answer.
\<close>

section \<open>Computations\<close>

record 'w io_state =
  world :: 'w
  trace :: "event list"

type_synonym ('w, 'a) io = "'w io_state \<Rightarrow> 'a result \<times> 'w io_state"

definition returnIO :: "'a \<Rightarrow> ('w, 'a) io" where
  "returnIO x = (\<lambda>s. (Inr x, s))"

definition throwIO :: "go_error \<Rightarrow> ('w, 'a) io" where
  "throwIO e = (\<lambda>s. (Inl e, s))"

definition liftE :: "'a result \<Rightarrow> ('w, 'a) io" where
  "liftE r = (\<lambda>s. (r, s))"

definition bindIO :: "('w, 'a) io \<Rightarrow> ('a \<Rightarrow> ('w, 'b) io) \<Rightarrow> ('w, 'b) io" where
  "bindIO m f = (\<lambda>s. case m s of (Inl e, s') \<Rightarrow> (Inl e, s') | (Inr x, s') \<Rightarrow> f x s')"

text \<open>Wrapping or classifying the error of a call, and inspecting it.\<close>

definition mapErrIO :: "(go_error \<Rightarrow> go_error) \<Rightarrow> ('w, 'a) io \<Rightarrow> ('w, 'a) io" where
  "mapErrIO h m = (\<lambda>s. case m s of (r, s') \<Rightarrow> (mapErr h r, s'))"

definition resultIO :: "('a result \<Rightarrow> 'b result) \<Rightarrow> ('w, 'a) io \<Rightarrow> ('w, 'b) io" where
  "resultIO h m = (\<lambda>s. case m s of (r, s') \<Rightarrow> (h r, s'))"

fun foldIO :: "('a \<Rightarrow> 'b \<Rightarrow> ('w, 'b) io) \<Rightarrow> 'a list \<Rightarrow> 'b \<Rightarrow> ('w, 'b) io" where
  "foldIO f [] acc = returnIO acc"
| "foldIO f (x # xs) acc = bindIO (f x acc) (foldIO f xs)"

definition request :: "('a result \<Rightarrow> event) \<Rightarrow> ('w, 'a) call \<Rightarrow> ('w, 'a) io" where
  "request ev c = (\<lambda>s. case c (world s) of
     (r, w) \<Rightarrow> (r, s\<lparr>world := w, trace := trace s @ [ev r]\<rparr>))"

lemma io_simps [go_simps]:
  "returnIO x s = (r, s') \<longleftrightarrow> r = Inr x \<and> s' = s"
  "throwIO e s = (r', s') \<longleftrightarrow> r' = Inl e \<and> s' = s"
  "liftE q s = (r'', s') \<longleftrightarrow> r'' = q \<and> s' = s"
  by (auto simp: returnIO_def throwIO_def liftE_def)

lemma bindIO_ok [go_simps]:
  "bindIO m f s = (Inr y, s') \<longleftrightarrow> (\<exists>x s1. m s = (Inr x, s1) \<and> f x s1 = (Inr y, s'))"
  by (auto simp: bindIO_def split: prod.splits sum.splits)

lemma bindIO_error [go_simps]:
  "bindIO m f s = (Inl e, s') \<longleftrightarrow>
     m s = (Inl e, s') \<or> (\<exists>x s1. m s = (Inr x, s1) \<and> f x s1 = (Inl e, s'))"
  by (auto simp: bindIO_def split: prod.splits sum.splits)

lemma mapErrIO_ok [go_simps]: "mapErrIO h m s = (Inr y, s') \<longleftrightarrow> m s = (Inr y, s')"
  by (auto simp: mapErrIO_def go_simps split: prod.splits)

lemma resultIO_eq [go_simps]: "resultIO h m s = (r, s') \<longleftrightarrow> (\<exists>q. m s = (q, s') \<and> r = h q)"
  by (auto simp: resultIO_def split: prod.splits)

lemma bindIO_laws:
  "bindIO (returnIO x) f = f x" "bindIO (bindIO m k) f = bindIO m (\<lambda>y. bindIO (k y) f)"
  by (auto simp: bindIO_def returnIO_def fun_eq_iff split: prod.splits sum.splits)

section \<open>Judgements on requests\<close>

definition reads :: "event list \<Rightarrow> bool" where
  "reads es \<longleftrightarrow> (\<forall>e \<in> set es. \<not> mutating e)"

definition behaves :: "('w, 'a) io \<Rightarrow> ('a result \<Rightarrow> event list \<Rightarrow> bool) \<Rightarrow> bool" where
  "behaves m Q \<longleftrightarrow> (\<forall>s r s'. m s = (r, s') \<longrightarrow> (\<exists>es. trace s' = trace s @ es \<and> Q r es))"

definition inspects :: "('w, 'a) io \<Rightarrow> ('a \<Rightarrow> event list \<Rightarrow> bool) \<Rightarrow> bool" where
  "inspects m Q \<longleftrightarrow> behaves m (\<lambda>r es. reads es \<and> (\<forall>x. r = Inr x \<longrightarrow> Q x es))"

definition oneMutation ::
  "('a \<Rightarrow> event list \<Rightarrow> bool) \<Rightarrow> ('a result \<Rightarrow> event list \<Rightarrow> event \<Rightarrow> bool) \<Rightarrow> 'a result \<Rightarrow> event list \<Rightarrow> bool" where
  "oneMutation K J r es \<longleftrightarrow> (reads es \<and> (\<forall>x. r = Inr x \<longrightarrow> K x es)) \<or>
     (\<exists>ro e. es = ro @ [e] \<and> reads ro \<and> mutating e \<and> J r ro e)"

definition issues ::
  "('w, 'a) io \<Rightarrow> ('a \<Rightarrow> event list \<Rightarrow> bool) \<Rightarrow> ('a result \<Rightarrow> event list \<Rightarrow> event \<Rightarrow> bool) \<Rightarrow> bool" where
  "issues m K J \<longleftrightarrow> behaves m (oneMutation K J)"

lemma reads_simps [simp]:
  "reads []" "reads (e # es) \<longleftrightarrow> \<not> mutating e \<and> reads es" "reads (xs @ ys) \<longleftrightarrow> reads xs \<and> reads ys"
  by (auto simp: reads_def)

subsection \<open>The general judgement\<close>

lemma behavesI: "(\<And>s r s'. m s = (r, s') \<Longrightarrow> \<exists>es. trace s' = trace s @ es \<and> Q r es) \<Longrightarrow> behaves m Q"
  by (auto simp: behaves_def)

lemma behavesD: "behaves m Q \<Longrightarrow> m s = (r, s') \<Longrightarrow> \<exists>es. trace s' = trace s @ es \<and> Q r es"
  by (auto simp: behaves_def)

lemma behaves_weaken: "behaves m Q \<Longrightarrow> (\<And>r es. Q r es \<Longrightarrow> R r es) \<Longrightarrow> behaves m R"
  by (fastforce simp: behaves_def)

lemma behaves_lift: "behaves (liftE r) Q \<longleftrightarrow> Q r []"
  by (auto simp: behaves_def liftE_def intro: exI [of _ "s\<lparr>trace := []\<rparr>" for s])

lemma liftE_intros: "returnIO x = liftE (Inr x)" "throwIO e = liftE (Inl e)"
  by (auto simp: returnIO_def throwIO_def liftE_def)

lemma behaves_bind:
  assumes m: "behaves m Q" and err: "\<And>e es. Q (Inl e) es \<Longrightarrow> R (Inl e) es"
    and f: "\<And>x es. Q (Inr x) es \<Longrightarrow> behaves (f x) (\<lambda>r es'. R r (es @ es'))"
  shows "behaves (bindIO m f) R"
proof (rule behavesI)
  fix s r s'
  assume run: "bindIO m f s = (r, s')"
  obtain q s1 where ms: "m s = (q, s1)" by fastforce
  with m obtain es where es: "trace s1 = trace s @ es" "Q q es" by (auto dest: behavesD)
  show "\<exists>es. trace s' = trace s @ es \<and> R r es"
  proof (cases q)
    case (Inl e)
    with run ms es err show ?thesis by (auto simp: bindIO_def)
  next
    case (Inr x)
    with run ms have "f x s1 = (r, s')" by (simp add: bindIO_def)
    with f es Inr obtain es' where "trace s' = trace s1 @ es'" "R r (es @ es')"
      by (blast dest: behavesD)
    with es show ?thesis by auto
  qed
qed

lemma behaves_resultIO: "behaves (resultIO h m) Q \<longleftrightarrow> behaves m (\<lambda>r. Q (h r))"
  by (fastforce simp: behaves_def resultIO_def split: prod.splits)

lemma mapErrIO_result: "mapErrIO h m = resultIO (mapErr h) m"
  by (auto simp: mapErrIO_def resultIO_def)

lemma bindIO_liftE: "bindIO m (\<lambda>x. liftE (h x)) = resultIO (\<lambda>r. bindE r h) m"
  by (auto simp: bindIO_def resultIO_def liftE_def split: prod.splits sum.splits)

subsection \<open>Computations that only read\<close>

lemma inspects_weaken:
  "inspects m Q \<Longrightarrow> (\<And>x es. Q x es \<Longrightarrow> reads es \<Longrightarrow> R x es) \<Longrightarrow> inspects m R"
  unfolding inspects_def by (erule behaves_weaken) auto

lemma inspects_lift [effects]: "(\<And>x. r = Inr x \<Longrightarrow> Q x []) \<Longrightarrow> inspects (liftE r) Q"
  by (auto simp: inspects_def behaves_lift)

lemma inspects_return [effects]: "Q x [] \<Longrightarrow> inspects (returnIO x) Q"
  by (auto simp: liftE_intros intro: inspects_lift)

lemma inspects_throw [effects]: "inspects (throwIO e) Q"
  by (auto simp: liftE_intros intro: inspects_lift)

lemma inspects_mapErr [effects]: "inspects m Q \<Longrightarrow> inspects (mapErrIO h m) Q"
  unfolding inspects_def mapErrIO_result behaves_resultIO
  by (erule behaves_weaken) (auto simp: go_simps)

lemma inspects_bind:
  assumes "inspects m Q"
    and "\<And>x es. Q x es \<Longrightarrow> reads es \<Longrightarrow> inspects (f x) (\<lambda>y es'. R y (es @ es'))"
  shows "inspects (bindIO m f) R"
  unfolding inspects_def
  by (rule behaves_bind [OF assms(1) [unfolded inspects_def]])
    (auto intro!: behaves_weaken [OF assms(2) [unfolded inspects_def]])

lemma inspects_bind_lift [effects]:
  "(\<And>x. r = Inr x \<Longrightarrow> inspects (f x) R) \<Longrightarrow> inspects (bindIO (liftE r) f) R"
  by (rule inspects_bind [where Q = "\<lambda>x es. r = Inr x \<and> es = []"]) (auto intro: inspects_lift)

lemma inspects_foldIO:
  assumes "I [] acc []"
    and "\<And>x acc done es. x \<in> set xs \<Longrightarrow> I done acc es \<Longrightarrow> reads es \<Longrightarrow>
      inspects (f x acc) (\<lambda>acc' es'. I (done @ [x]) acc' (es @ es'))"
  shows "inspects (foldIO f xs acc) (I xs)"
proof -
  have "inspects (foldIO f ys acc) (\<lambda>acc' es'. I (done @ ys) acc' (es @ es'))"
    if "set ys \<subseteq> set xs" "I done acc es" "reads es" for ys acc "done" es
    using that
  proof (induction ys arbitrary: acc "done" es)
    case Nil
    then show ?case by (auto intro: effects)
  next
    case (Cons y ys)
    have "inspects (f y acc) (\<lambda>acc' es'. I (done @ [y]) acc' (es @ es'))"
      using Cons.prems by (intro assms(2)) auto
    moreover have "inspects (foldIO f ys x) (\<lambda>acc' es'. I (done @ y # ys) acc' (es @ esa @ es'))"
      if "I (done @ [y]) x (es @ esa)" "reads esa" for x esa
      using Cons.IH [of "done @ [y]" x "es @ esa"] that Cons.prems by simp
    ultimately show ?case by (auto intro: inspects_bind)
  qed
  from this [of xs "[]" acc "[]"] show ?thesis using assms(1) by simp
qed

lemma inspects_conj:
  "inspects m P \<Longrightarrow> inspects m Q \<Longrightarrow> inspects m (\<lambda>x es. P x es \<and> Q x es)"
  by (fastforce simp: inspects_def behaves_def)

lemma inspects_reads: "inspects m Q \<Longrightarrow> m s = (r, s') \<Longrightarrow> \<exists>es. trace s' = trace s @ es \<and> reads es"
  by (auto simp: inspects_def dest!: behavesD)

lemma inspects_ok:
  "inspects m Q \<Longrightarrow> m s = (Inr x, s') \<Longrightarrow> \<exists>es. trace s' = trace s @ es \<and> reads es \<and> Q x es"
  by (auto simp: inspects_def dest!: behavesD)

subsection \<open>Computations with at most one mutation, at the end\<close>

lemma issues_weaken:
  "issues m K J \<Longrightarrow> (\<And>x es. K x es \<Longrightarrow> reads es \<Longrightarrow> K' x es) \<Longrightarrow>
    (\<And>r ro e. J r ro e \<Longrightarrow> mutating e \<Longrightarrow> J' r ro e) \<Longrightarrow> issues m K' J'"
  unfolding issues_def oneMutation_def by (erule behaves_weaken) blast

lemma issues_inspects: "inspects m K \<Longrightarrow> issues m K J"
  unfolding inspects_def issues_def oneMutation_def by (erule behaves_weaken) auto

lemma issues_lift [effects]: "(\<And>x. r = Inr x \<Longrightarrow> K x []) \<Longrightarrow> issues (liftE r) K J"
  by (auto intro!: issues_inspects effects)

lemma issues_return [effects]: "K x [] \<Longrightarrow> issues (returnIO x) K J"
  by (auto intro!: issues_inspects effects)

lemma issues_throw [effects]: "issues (throwIO e) K J"
  by (auto intro!: issues_inspects effects)

lemma issues_mapErr [effects]:
  "issues m K (\<lambda>r. J (mapErr h r)) \<Longrightarrow> issues (mapErrIO h m) K J"
  unfolding issues_def mapErrIO_result behaves_resultIO oneMutation_def
  by (erule behaves_weaken) (auto simp: go_simps)

lemma issues_bind:
  assumes "inspects m Q"
    and "\<And>x es. Q x es \<Longrightarrow> reads es \<Longrightarrow>
      issues (f x) (\<lambda>y es'. K y (es @ es')) (\<lambda>r ro e. J r (es @ ro) e)"
  shows "issues (bindIO m f) K J"
  unfolding issues_def
proof (rule behaves_bind [OF assms(1) [unfolded inspects_def]])
  fix x es assume pre: "reads es \<and> (\<forall>y. Inr x = Inr y \<longrightarrow> Q y es)"
  then have f: "behaves (f x) (oneMutation (\<lambda>y es'. K y (es @ es')) (\<lambda>r ro e. J r (es @ ro) e))"
    using assms(2) [of x es] by (simp add: issues_def)
  show "behaves (f x) (\<lambda>r es'. oneMutation K J r (es @ es'))"
    by (rule behaves_weaken [OF f]) (use pre in \<open>auto simp: oneMutation_def\<close>)
qed (simp add: oneMutation_def)

text \<open>Nothing is requested after a mutation: what follows it only computes a result.\<close>

lemma issues_bind_issues:
  assumes "issues m K0 J0"
    and "\<And>x es. K0 x es \<Longrightarrow> reads es \<Longrightarrow>
      issues (f x) (\<lambda>y es'. K y (es @ es')) (\<lambda>r ro e. J r (es @ ro) e)"
    and "\<And>err ro e. J0 (Inl err) ro e \<Longrightarrow> mutating e \<Longrightarrow> J (Inl err) ro e"
    and "\<And>x ro e. J0 (Inr x) ro e \<Longrightarrow> mutating e \<Longrightarrow> \<exists>r. f x = liftE r \<and> J r ro e"
  shows "issues (bindIO m f) K J"
  unfolding issues_def
proof (rule behaves_bind [OF assms(1) [unfolded issues_def]])
  fix err es assume "oneMutation K0 J0 (Inl err) es"
  then show "oneMutation K J (Inl err) es" using assms(3) by (auto simp: oneMutation_def)
next
  fix x es assume "oneMutation K0 J0 (Inr x) es"
  then consider "reads es" "K0 x es"
    | ro e where "es = ro @ [e]" "reads ro" "mutating e" "J0 (Inr x) ro e"
    by (auto simp: oneMutation_def)
  then show "behaves (f x) (\<lambda>r es'. oneMutation K J r (es @ es'))"
  proof cases
    case 1
    then have "behaves (f x) (oneMutation (\<lambda>y es'. K y (es @ es')) (\<lambda>r ro e. J r (es @ ro) e))"
      using assms(2) [of x es] by (simp add: issues_def)
    then show ?thesis by (rule behaves_weaken) (use 1 in \<open>auto simp: oneMutation_def\<close>)
  next
    case 2
    with assms(4) obtain r where "f x = liftE r" "J r ro e" by blast
    with 2 show ?thesis by (auto simp: behaves_lift oneMutation_def)
  qed
qed

lemma issues_bind_lift [effects]:
  "(\<And>x. r = Inr x \<Longrightarrow> issues (f x) K J) \<Longrightarrow> issues (bindIO (liftE r) f) K J"
  by (rule issues_bind [where Q = "\<lambda>x es. r = Inr x \<and> es = []"]) (auto intro: inspects_lift)

subsection \<open>A mutating request and the inspection of its answer\<close>

definition mutates :: "('w, 'a) io \<Rightarrow> ('a result \<Rightarrow> event \<Rightarrow> bool) \<Rightarrow> bool" where
  "mutates m J \<longleftrightarrow> behaves m (\<lambda>r es. \<exists>e. es = [e] \<and> mutating e \<and> J r e)"

lemma mutates_weaken: "mutates m J \<Longrightarrow> (\<And>r e. J r e \<Longrightarrow> mutating e \<Longrightarrow> J' r e) \<Longrightarrow> mutates m J'"
  unfolding mutates_def by (erule behaves_weaken) auto

lemma mutates_result [effects]: "mutates m (\<lambda>r. J (h r)) \<Longrightarrow> mutates (resultIO h m) J"
  by (simp add: mutates_def behaves_resultIO)

lemma mutates_mapErr [effects]: "mutates m (\<lambda>r. J (mapErr h r)) \<Longrightarrow> mutates (mapErrIO h m) J"
  unfolding mapErrIO_result by (rule mutates_result)

lemma mutates_report [effects]:
  "mutates m (\<lambda>r. J (bindE r (\<lambda>x. Inr (f x)))) \<Longrightarrow> mutates (bindIO m (\<lambda>x. returnIO (f x))) J"
  unfolding liftE_intros bindIO_liftE by (rule mutates_result)

lemma bindIO_check_report:
  "bindIO (liftE v) (\<lambda>_. returnIO y) = liftE (bindE v (\<lambda>_. Inr y))"
  unfolding liftE_intros bindIO_liftE by (auto simp: resultIO_def liftE_def)

lemma mutates_check_report [effects]:
  "mutates m (\<lambda>r. J (bindE r (\<lambda>x. bindE (v x) (\<lambda>_. Inr (f x))))) \<Longrightarrow>
     mutates (bindIO m (\<lambda>x. bindIO (liftE (v x)) (\<lambda>_. returnIO (f x)))) J"
  unfolding bindIO_check_report bindIO_liftE by (rule mutates_result)

lemma issues_mutates: "mutates m (\<lambda>r. J r []) \<Longrightarrow> issues m K J"
  unfolding mutates_def issues_def oneMutation_def by (erule behaves_weaken) auto

section \<open>The interface of the service layer\<close>

locale service_call =
  fixes ev :: "'opts \<Rightarrow> 'a result \<Rightarrow> event"
    and op :: "'opts \<Rightarrow> ('w, 'a) io"
  assumes records: "op opts s = (r, s') \<Longrightarrow> trace s' = trace s @ [ev opts r]"
begin

lemma behaves_call: "behaves (op opts) (\<lambda>r es. es = [ev opts r])"
  by (auto intro: behavesI dest: records)

end

locale read_call = service_call +
  assumes reading: "\<not> mutating (ev opts r)"
begin

lemma inspects_call: "inspects (op opts) (\<lambda>x es. es = [ev opts (Inr x)])"
  unfolding inspects_def by (rule behaves_weaken [OF behaves_call]) (simp add: reading)

lemma inspects_call_then:
  "(\<And>x. inspects (f x) (\<lambda>y es. R y (ev opts (Inr x) # es))) \<Longrightarrow>
     inspects (bindIO (mapErrIO h (op opts)) f) R"
  by (rule inspects_bind [OF inspects_mapErr [OF inspects_call]]) auto

lemma issues_call_then:
  "(\<And>x. issues (f x) (\<lambda>y es. K y (ev opts (Inr x) # es)) (\<lambda>r ro e. J r (ev opts (Inr x) # ro) e)) \<Longrightarrow>
     issues (bindIO (mapErrIO h (op opts)) f) K J"
  by (rule issues_bind [OF inspects_mapErr [OF inspects_call]]) auto

lemma inspects_result: "inspects (resultIO h (op opts)) (\<lambda>y es. \<exists>r. h r = Inr y \<and> es = [ev opts r])"
  unfolding inspects_def behaves_resultIO
  by (rule behaves_weaken [OF behaves_call]) (auto simp: reading)

end

locale write_call = service_call +
  assumes writing: "mutating (ev opts r)"
begin

lemma mutates_call: "(\<And>r. J r (ev opts r)) \<Longrightarrow> mutates (op opts) J"
  unfolding mutates_def
  by (rule behaves_weaken [OF behaves_call]) (auto simp: writing)

end

lemma request_records: "request ev c s = (r, s') \<Longrightarrow> trace s' = trace s @ [ev r]"
  by (auto simp: request_def split: prod.splits)

end
