(* ===== verification/Services.thy ===== *)
theory Services
  imports Effects
begin

text \<open>
  The packages internal/cloud/openstack/octavia and internal/cloud/openstack/neutron: one function
  per request, each a thin wrapper of a Gophercloud call. A List function fetches all pages and
  extracts the items, wrapping either error. The interpretations at the end discharge the service
  interface of the theory Effects for every one of them.
\<close>

section \<open>Octavia\<close>

definition listAll ::
  "('w, 'p) call \<Rightarrow> ('p \<Rightarrow> 'a list result) \<Rightarrow> ('w, 'a list) call" where
  "listAll allPages extract = (\<lambda>w. case allPages w of
     (r, w') \<Rightarrow> (bindE (mapErr Wrapf r) (\<lambda>pages. mapErr Wrapf (extract pages)), w'))"

definition ListLoadBalancers :: "('w, 'p) gophercloud \<Rightarrow> LoadBalancerListOpts \<Rightarrow> ('w, LoadBalancer list) io" where
  "ListLoadBalancers g opts =
     request (EvListLoadBalancers opts) (listAll (loadbalancers_List (loadbalancers g) opts) (ExtractLoadBalancers (loadbalancers g)))"

definition GetLoadBalancer :: "('w, 'p) gophercloud \<Rightarrow> string \<Rightarrow> ('w, LoadBalancer) io" where
  "GetLoadBalancer g i = request (EvGetLoadBalancer i) (loadbalancers_Get (loadbalancers g) i)"

definition CreateLoadBalancer :: "('w, 'p) gophercloud \<Rightarrow> LoadBalancerCreateOpts \<Rightarrow> ('w, LoadBalancer) io" where
  "CreateLoadBalancer g opts = request (EvCreateLoadBalancer opts) (loadbalancers_Create (loadbalancers g) opts)"

definition UpdateLoadBalancer :: "('w, 'p) gophercloud \<Rightarrow> string \<Rightarrow> bool option \<Rightarrow> ('w, LoadBalancer) io" where
  "UpdateLoadBalancer g i adminStateUp = request (EvUpdateLoadBalancer i adminStateUp) (loadbalancers_Update (loadbalancers g) i adminStateUp)"

definition DeleteLoadBalancer :: "('w, 'p) gophercloud \<Rightarrow> string \<Rightarrow> ('w, unit) io" where
  "DeleteLoadBalancer g i = request (EvDeleteLoadBalancer i) (loadbalancers_Delete (loadbalancers g) i)"

definition ListListeners :: "('w, 'p) gophercloud \<Rightarrow> ScopedListOpts \<Rightarrow> ('w, Listener list) io" where
  "ListListeners g opts =
     request (EvListListeners opts) (listAll (listeners_List (listeners g) opts) (ExtractListeners (listeners g)))"

definition CreateListener :: "('w, 'p) gophercloud \<Rightarrow> ListenerCreateOpts \<Rightarrow> ('w, Listener) io" where
  "CreateListener g opts = request (EvCreateListener opts) (listeners_Create (listeners g) opts)"

definition UpdateListener :: "('w, 'p) gophercloud \<Rightarrow> string \<Rightarrow> bool option \<Rightarrow> ('w, Listener) io" where
  "UpdateListener g i adminStateUp = request (EvUpdateListener i adminStateUp) (listeners_Update (listeners g) i adminStateUp)"

definition DeleteListener :: "('w, 'p) gophercloud \<Rightarrow> string \<Rightarrow> ('w, unit) io" where
  "DeleteListener g i = request (EvDeleteListener i) (listeners_Delete (listeners g) i)"

definition ListPools :: "('w, 'p) gophercloud \<Rightarrow> ScopedListOpts \<Rightarrow> ('w, Pool list) io" where
  "ListPools g opts =
     request (EvListPools opts) (listAll (pools_List (pools g) opts) (ExtractPools (pools g)))"

definition CreatePool :: "('w, 'p) gophercloud \<Rightarrow> PoolCreateOpts \<Rightarrow> ('w, Pool) io" where
  "CreatePool g opts = request (EvCreatePool opts) (pools_Create (pools g) opts)"

definition UpdatePool :: "('w, 'p) gophercloud \<Rightarrow> string \<Rightarrow> PoolUpdateOpts \<Rightarrow> ('w, Pool) io" where
  "UpdatePool g i opts = request (EvUpdatePool i opts) (pools_Update (pools g) i opts)"

definition DeletePool :: "('w, 'p) gophercloud \<Rightarrow> string \<Rightarrow> ('w, unit) io" where
  "DeletePool g i = request (EvDeletePool i) (pools_Delete (pools g) i)"

text \<open>Members and rules are listed below one parent; the options hold the project only.\<close>

definition ListMembers :: "('w, 'p) gophercloud \<Rightarrow> string \<Rightarrow> string \<Rightarrow> ('w, PoolMember list) io" where
  "ListMembers g poolID projectID =
     request (EvListMembers poolID projectID)
       (listAll (pools_ListMembers (pools g) poolID projectID) (ExtractMembers (pools g)))"

definition CreateMember :: "('w, 'p) gophercloud \<Rightarrow> string \<Rightarrow> MemberCreateOpts \<Rightarrow> ('w, PoolMember) io" where
  "CreateMember g poolID opts = request (EvCreateMember poolID opts) (pools_CreateMember (pools g) poolID opts)"

definition UpdateMember :: "('w, 'p) gophercloud \<Rightarrow> string \<Rightarrow> string \<Rightarrow> bool option \<Rightarrow> ('w, PoolMember) io" where
  "UpdateMember g poolID memberID adminStateUp = request (EvUpdateMember poolID memberID adminStateUp) (pools_UpdateMember (pools g) poolID memberID adminStateUp)"

definition DeleteMember :: "('w, 'p) gophercloud \<Rightarrow> string \<Rightarrow> string \<Rightarrow> ('w, unit) io" where
  "DeleteMember g poolID memberID = request (EvDeleteMember poolID memberID) (pools_DeleteMember (pools g) poolID memberID)"

definition ListMonitors :: "('w, 'p) gophercloud \<Rightarrow> ScopedListOpts \<Rightarrow> ('w, Monitor list) io" where
  "ListMonitors g opts =
     request (EvListMonitors opts) (listAll (monitors_List (monitors g) opts) (ExtractMonitors (monitors g)))"

definition CreateMonitor :: "('w, 'p) gophercloud \<Rightarrow> MonitorCreateOpts \<Rightarrow> ('w, Monitor) io" where
  "CreateMonitor g opts = request (EvCreateMonitor opts) (monitors_Create (monitors g) opts)"

definition UpdateMonitor :: "('w, 'p) gophercloud \<Rightarrow> string \<Rightarrow> MonitorUpdateOpts \<Rightarrow> ('w, Monitor) io" where
  "UpdateMonitor g i opts = request (EvUpdateMonitor i opts) (monitors_Update (monitors g) i opts)"

definition DeleteMonitor :: "('w, 'p) gophercloud \<Rightarrow> string \<Rightarrow> ('w, unit) io" where
  "DeleteMonitor g i = request (EvDeleteMonitor i) (monitors_Delete (monitors g) i)"

definition ListPolicies :: "('w, 'p) gophercloud \<Rightarrow> PolicyListOpts \<Rightarrow> ('w, L7Policy list) io" where
  "ListPolicies g opts =
     request (EvListPolicies opts) (listAll (l7policies_List (l7policies g) opts) (ExtractL7Policies (l7policies g)))"

definition CreatePolicy :: "('w, 'p) gophercloud \<Rightarrow> PolicyCreateOpts \<Rightarrow> ('w, L7Policy) io" where
  "CreatePolicy g opts = request (EvCreatePolicy opts) (l7policies_Create (l7policies g) opts)"

definition UpdatePolicy :: "('w, 'p) gophercloud \<Rightarrow> string \<Rightarrow> PolicyUpdateOpts \<Rightarrow> ('w, L7Policy) io" where
  "UpdatePolicy g i opts = request (EvUpdatePolicy i opts) (l7policies_Update (l7policies g) i opts)"

definition DeletePolicy :: "('w, 'p) gophercloud \<Rightarrow> string \<Rightarrow> ('w, unit) io" where
  "DeletePolicy g i = request (EvDeletePolicy i) (l7policies_Delete (l7policies g) i)"

definition ListRules :: "('w, 'p) gophercloud \<Rightarrow> string \<Rightarrow> string \<Rightarrow> ('w, L7Rule list) io" where
  "ListRules g policyID projectID =
     request (EvListRules policyID projectID)
       (listAll (l7policies_ListRules (l7policies g) policyID projectID) (ExtractRules (l7policies g)))"

definition CreateRule :: "('w, 'p) gophercloud \<Rightarrow> string \<Rightarrow> RuleCreateOpts \<Rightarrow> ('w, L7Rule) io" where
  "CreateRule g policyID opts = request (EvCreateRule policyID opts) (l7policies_CreateRule (l7policies g) policyID opts)"

definition UpdateRule :: "('w, 'p) gophercloud \<Rightarrow> string \<Rightarrow> string \<Rightarrow> RuleUpdateOpts \<Rightarrow> ('w, L7Rule) io" where
  "UpdateRule g policyID ruleID opts = request (EvUpdateRule policyID ruleID opts) (l7policies_UpdateRule (l7policies g) policyID ruleID opts)"

definition DeleteRule :: "('w, 'p) gophercloud \<Rightarrow> string \<Rightarrow> string \<Rightarrow> ('w, unit) io" where
  "DeleteRule g policyID ruleID = request (EvDeleteRule policyID ruleID) (l7policies_DeleteRule (l7policies g) policyID ruleID)"

section \<open>Neutron\<close>

definition ListFloatingIPs :: "('w, 'p) gophercloud \<Rightarrow> FloatingIPListOpts \<Rightarrow> ('w, FloatingIP list) io" where
  "ListFloatingIPs g opts =
     request (EvListFloatingIPs opts) (listAll (floatingips_List (floatingips g) opts) (ExtractFloatingIPs (floatingips g)))"

definition CreateFloatingIP :: "('w, 'p) gophercloud \<Rightarrow> FloatingIPCreateOpts \<Rightarrow> ('w, FloatingIP) io" where
  "CreateFloatingIP g opts = request (EvCreateFloatingIP opts) (floatingips_Create (floatingips g) opts)"

definition DeleteFloatingIP :: "('w, 'p) gophercloud \<Rightarrow> string \<Rightarrow> ('w, unit) io" where
  "DeleteFloatingIP g i = request (EvDeleteFloatingIP i) (floatingips_Delete (floatingips g) i)"

section \<open>Every function issues one request and records its answer\<close>

lemmas service_defs = ListLoadBalancers_def GetLoadBalancer_def CreateLoadBalancer_def UpdateLoadBalancer_def
  DeleteLoadBalancer_def ListListeners_def CreateListener_def UpdateListener_def
  DeleteListener_def ListPools_def CreatePool_def UpdatePool_def
  DeletePool_def ListMembers_def CreateMember_def UpdateMember_def
  DeleteMember_def ListMonitors_def CreateMonitor_def UpdateMonitor_def
  DeleteMonitor_def ListPolicies_def CreatePolicy_def UpdatePolicy_def
  DeletePolicy_def ListRules_def CreateRule_def UpdateRule_def
  DeleteRule_def ListFloatingIPs_def CreateFloatingIP_def DeleteFloatingIP_def

interpretation listLoadBalancers: read_call EvListLoadBalancers "ListLoadBalancers g" for g
  by unfold_locales (auto simp: service_defs dest: request_records)

interpretation getLoadBalancer: read_call EvGetLoadBalancer "GetLoadBalancer g" for g
  by unfold_locales (auto simp: service_defs dest: request_records)

interpretation createLoadBalancer: write_call EvCreateLoadBalancer "CreateLoadBalancer g" for g
  by unfold_locales (auto simp: service_defs dest: request_records)

interpretation updateLoadBalancer: write_call "\<lambda>(a, b). EvUpdateLoadBalancer a b" "\<lambda>(a, b). UpdateLoadBalancer g a b" for g
  by unfold_locales (auto simp: service_defs dest: request_records)

interpretation deleteLoadBalancer: write_call EvDeleteLoadBalancer "DeleteLoadBalancer g" for g
  by unfold_locales (auto simp: service_defs dest: request_records)

interpretation listListeners: read_call EvListListeners "ListListeners g" for g
  by unfold_locales (auto simp: service_defs dest: request_records)

interpretation createListener: write_call EvCreateListener "CreateListener g" for g
  by unfold_locales (auto simp: service_defs dest: request_records)

interpretation updateListener: write_call "\<lambda>(a, b). EvUpdateListener a b" "\<lambda>(a, b). UpdateListener g a b" for g
  by unfold_locales (auto simp: service_defs dest: request_records)

interpretation deleteListener: write_call EvDeleteListener "DeleteListener g" for g
  by unfold_locales (auto simp: service_defs dest: request_records)

interpretation listPools: read_call EvListPools "ListPools g" for g
  by unfold_locales (auto simp: service_defs dest: request_records)

interpretation createPool: write_call EvCreatePool "CreatePool g" for g
  by unfold_locales (auto simp: service_defs dest: request_records)

interpretation updatePool: write_call "\<lambda>(a, b). EvUpdatePool a b" "\<lambda>(a, b). UpdatePool g a b" for g
  by unfold_locales (auto simp: service_defs dest: request_records)

interpretation deletePool: write_call EvDeletePool "DeletePool g" for g
  by unfold_locales (auto simp: service_defs dest: request_records)

interpretation listMembers: read_call "\<lambda>(a, b). EvListMembers a b" "\<lambda>(a, b). ListMembers g a b" for g
  by unfold_locales (auto simp: service_defs dest: request_records)

interpretation createMember: write_call "\<lambda>(a, b). EvCreateMember a b" "\<lambda>(a, b). CreateMember g a b" for g
  by unfold_locales (auto simp: service_defs dest: request_records)

interpretation updateMember: write_call "\<lambda>(a, b, c). EvUpdateMember a b c" "\<lambda>(a, b, c). UpdateMember g a b c" for g
  by unfold_locales (auto simp: service_defs dest: request_records)

interpretation deleteMember: write_call "\<lambda>(a, b). EvDeleteMember a b" "\<lambda>(a, b). DeleteMember g a b" for g
  by unfold_locales (auto simp: service_defs dest: request_records)

interpretation listMonitors: read_call EvListMonitors "ListMonitors g" for g
  by unfold_locales (auto simp: service_defs dest: request_records)

interpretation createMonitor: write_call EvCreateMonitor "CreateMonitor g" for g
  by unfold_locales (auto simp: service_defs dest: request_records)

interpretation updateMonitor: write_call "\<lambda>(a, b). EvUpdateMonitor a b" "\<lambda>(a, b). UpdateMonitor g a b" for g
  by unfold_locales (auto simp: service_defs dest: request_records)

interpretation deleteMonitor: write_call EvDeleteMonitor "DeleteMonitor g" for g
  by unfold_locales (auto simp: service_defs dest: request_records)

interpretation listPolicies: read_call EvListPolicies "ListPolicies g" for g
  by unfold_locales (auto simp: service_defs dest: request_records)

interpretation createPolicy: write_call EvCreatePolicy "CreatePolicy g" for g
  by unfold_locales (auto simp: service_defs dest: request_records)

interpretation updatePolicy: write_call "\<lambda>(a, b). EvUpdatePolicy a b" "\<lambda>(a, b). UpdatePolicy g a b" for g
  by unfold_locales (auto simp: service_defs dest: request_records)

interpretation deletePolicy: write_call EvDeletePolicy "DeletePolicy g" for g
  by unfold_locales (auto simp: service_defs dest: request_records)

interpretation listRules: read_call "\<lambda>(a, b). EvListRules a b" "\<lambda>(a, b). ListRules g a b" for g
  by unfold_locales (auto simp: service_defs dest: request_records)

interpretation createRule: write_call "\<lambda>(a, b). EvCreateRule a b" "\<lambda>(a, b). CreateRule g a b" for g
  by unfold_locales (auto simp: service_defs dest: request_records)

interpretation updateRule: write_call "\<lambda>(a, b, c). EvUpdateRule a b c" "\<lambda>(a, b, c). UpdateRule g a b c" for g
  by unfold_locales (auto simp: service_defs dest: request_records)

interpretation deleteRule: write_call "\<lambda>(a, b). EvDeleteRule a b" "\<lambda>(a, b). DeleteRule g a b" for g
  by unfold_locales (auto simp: service_defs dest: request_records)

interpretation listFloatingIPs: read_call EvListFloatingIPs "ListFloatingIPs g" for g
  by unfold_locales (auto simp: service_defs dest: request_records)

interpretation createFloatingIP: write_call EvCreateFloatingIP "CreateFloatingIP g" for g
  by unfold_locales (auto simp: service_defs dest: request_records)

interpretation deleteFloatingIP: write_call EvDeleteFloatingIP "DeleteFloatingIP g" for g
  by unfold_locales (auto simp: service_defs dest: request_records)

lemmas read_rules [effects] = listLoadBalancers.inspects_call_then
  getLoadBalancer.inspects_call_then
  listListeners.inspects_call_then
  listPools.inspects_call_then
  listMembers.inspects_call_then [where opts = "(a, b)" for a b, unfolded prod.case]
  listMonitors.inspects_call_then
  listPolicies.inspects_call_then
  listRules.inspects_call_then [where opts = "(a, b)" for a b, unfolded prod.case]
  listFloatingIPs.inspects_call_then

lemmas read_write_rules [effects] = listLoadBalancers.issues_call_then
  getLoadBalancer.issues_call_then
  listListeners.issues_call_then
  listPools.issues_call_then
  listMembers.issues_call_then [where opts = "(a, b)" for a b, unfolded prod.case]
  listMonitors.issues_call_then
  listPolicies.issues_call_then
  listRules.issues_call_then [where opts = "(a, b)" for a b, unfolded prod.case]
  listFloatingIPs.issues_call_then

lemmas write_rules [effects] = createLoadBalancer.mutates_call
  updateLoadBalancer.mutates_call [where opts = "(a, b)" for a b, unfolded prod.case]
  deleteLoadBalancer.mutates_call
  createListener.mutates_call
  updateListener.mutates_call [where opts = "(a, b)" for a b, unfolded prod.case]
  deleteListener.mutates_call
  createPool.mutates_call
  updatePool.mutates_call [where opts = "(a, b)" for a b, unfolded prod.case]
  deletePool.mutates_call
  createMember.mutates_call [where opts = "(a, b)" for a b, unfolded prod.case]
  updateMember.mutates_call [where opts = "(a, b, c)" for a b c, unfolded prod.case]
  deleteMember.mutates_call [where opts = "(a, b)" for a b, unfolded prod.case]
  createMonitor.mutates_call
  updateMonitor.mutates_call [where opts = "(a, b)" for a b, unfolded prod.case]
  deleteMonitor.mutates_call
  createPolicy.mutates_call
  updatePolicy.mutates_call [where opts = "(a, b)" for a b, unfolded prod.case]
  deletePolicy.mutates_call
  createRule.mutates_call [where opts = "(a, b)" for a b, unfolded prod.case]
  updateRule.mutates_call [where opts = "(a, b, c)" for a b c, unfolded prod.case]
  deleteRule.mutates_call [where opts = "(a, b)" for a b, unfolded prod.case]
  createFloatingIP.mutates_call
  deleteFloatingIP.mutates_call

end
