(* ===== verification/Encoding.thy ===== *)
theory Encoding
  imports Prelude "HOL-Library.Word"
begin

unbundle bit_operations_syntax

text \<open>
  The Go library encodings that ownership metadata is built from: base64.RawURLEncoding
  (encoding and the non-strict decoder, which skips carriage returns and line feeds and ignores
  trailing bits), sha256.Sum256 (FIPS 180-4 on 32-bit words) and the hexadecimal rendering of
  \<^verbatim>\<open>%x\<close>. The theory proves that decoding inverts encoding, that the encoding is
  injective, and the lengths that bound a tag.
\<close>

section \<open>Base64, URL alphabet, no padding\<close>

definition b64Alphabet :: string where
  "b64Alphabet = ''ABCDEFGHIJKLMNOPQRSTUVWXYZabcdefghijklmnopqrstuvwxyz0123456789-_''"

definition b64Char :: "nat \<Rightarrow> char" where
  "b64Char i = b64Alphabet ! i"

definition b64Index :: "char \<Rightarrow> nat option" where
  "b64Index c = map_of (zip b64Alphabet [0..<64]) c"

abbreviation byte :: "char \<Rightarrow> nat" where "byte c \<equiv> of_char c"

text \<open>The four six-bit groups of three bytes.\<close>

definition sextet1 :: "nat \<Rightarrow> nat" where "sextet1 a = a div 4"
definition sextet2 :: "nat \<Rightarrow> nat \<Rightarrow> nat" where "sextet2 a b = a mod 4 * 16 + b div 16"
definition sextet3 :: "nat \<Rightarrow> nat \<Rightarrow> nat" where "sextet3 b c = b mod 16 * 4 + c div 64"
definition sextet4 :: "nat \<Rightarrow> nat" where "sextet4 c = c mod 64"

fun EncodeToString :: "string \<Rightarrow> string" where
  "EncodeToString (a # b # c # rest) =
     b64Char (sextet1 (byte a)) # b64Char (sextet2 (byte a) (byte b)) #
     b64Char (sextet3 (byte b) (byte c)) # b64Char (sextet4 (byte c)) # EncodeToString rest"
| "EncodeToString [a, b] =
     [b64Char (sextet1 (byte a)), b64Char (sextet2 (byte a) (byte b)),
      b64Char (sextet3 (byte b) 0)]"
| "EncodeToString [a] = [b64Char (sextet1 (byte a)), b64Char (sextet2 (byte a) 0)]"
| "EncodeToString [] = []"

fun decodeIndices :: "nat list \<Rightarrow> string option" where
  "decodeIndices (i # j # k # l # rest) =
     map_option (\<lambda>s. char_of (i * 4 + j div 16) # char_of (j mod 16 * 16 + k div 4) #
       char_of (k mod 4 * 64 + l) # s) (decodeIndices rest)"
| "decodeIndices [i, j, k] =
     Some [char_of (i * 4 + j div 16), char_of (j mod 16 * 16 + k div 4)]"
| "decodeIndices [i, j] = Some [char_of (i * 4 + j div 16)]"
| "decodeIndices [i] = None"
| "decodeIndices [] = Some []"

definition DecodeString :: "string \<Rightarrow> string option" where
  "DecodeString s =
     (let is = map b64Index (filter (\<lambda>c. c \<noteq> CHR 0x0A \<and> c \<noteq> CHR 0x0D) s)
      in if None \<in> set is then None else decodeIndices (map the is))"

section \<open>SHA-256\<close>

type_synonym u32 = "32 word"

definition shaK :: "u32 list" where
  "shaK = [
    1116352408, 1899447441, 3049323471, 3921009573, 961987163, 1508970993, 2453635748, 2870763221,
    3624381080, 310598401, 607225278, 1426881987, 1925078388, 2162078206, 2614888103, 3248222580,
    3835390401, 4022224774, 264347078, 604807628, 770255983, 1249150122, 1555081692, 1996064986,
    2554220882, 2821834349, 2952996808, 3210313671, 3336571891, 3584528711, 113926993, 338241895,
    666307205, 773529912, 1294757372, 1396182291, 1695183700, 1986661051, 2177026350, 2456956037,
    2730485921, 2820302411, 3259730800, 3345764771, 3516065817, 3600352804, 4094571909, 275423344,
    430227734, 506948616, 659060556, 883997877, 958139571, 1322822218, 1537002063, 1747873779,
    1955562222, 2024104815, 2227730452, 2361852424, 2428436474, 2756734187, 3204031479, 3329325298]"

record shaState =
  hA :: u32
  hB :: u32
  hC :: u32
  hD :: u32
  hE :: u32
  hF :: u32
  hG :: u32
  hH :: u32

definition shaInit :: shaState where
  "shaInit = \<lparr>hA = 0x6a09e667, hB = 0xbb67ae85, hC = 0x3c6ef372, hD = 0xa54ff53a,
     hE = 0x510e527f, hF = 0x9b05688c, hG = 0x1f83d9ab, hH = 0x5be0cd19\<rparr>"

definition rotr :: "nat \<Rightarrow> u32 \<Rightarrow> u32" where
  "rotr n x = drop_bit n x OR push_bit (32 - n) x"

definition bigEndian :: "nat \<Rightarrow> nat \<Rightarrow> string" where
  "bigEndian n v = map (\<lambda>i. char_of (v div 256 ^ (n - 1 - i) mod 256)) [0..<n]"

definition shaPad :: "string \<Rightarrow> string" where
  "shaPad m = m @ [CHR 0x80] @ replicate ((119 - length m mod 64) mod 64) (CHR 0x00) @
     bigEndian 8 (8 * length m)"

fun toWords :: "string \<Rightarrow> u32 list" where
  "toWords (a # b # c # d # rest) =
     word_of_nat (((byte a * 256 + byte b) * 256 + byte c) * 256 + byte d) # toWords rest"
| "toWords _ = []"

fun shaSchedule :: "nat \<Rightarrow> u32 list \<Rightarrow> u32 list" where
  "shaSchedule 0 w = w"
| "shaSchedule (Suc n) w =
     (let t = length w; x = w ! (t - 15); y = w ! (t - 2);
          s0 = rotr 7 x XOR rotr 18 x XOR drop_bit 3 x;
          s1 = rotr 17 y XOR rotr 19 y XOR drop_bit 10 y
      in shaSchedule n (w @ [w ! (t - 16) + s0 + w ! (t - 7) + s1]))"

definition shaRound :: "shaState \<Rightarrow> u32 \<times> u32 \<Rightarrow> shaState" where
  "shaRound s kw =
     (let e = hE s; a = hA s;
          t1 = hH s + (rotr 6 e XOR rotr 11 e XOR rotr 25 e) +
            ((e AND hF s) XOR (NOT e AND hG s)) + fst kw + snd kw;
          t2 = (rotr 2 a XOR rotr 13 a XOR rotr 22 a) +
            ((a AND hB s) XOR (a AND hC s) XOR (hB s AND hC s))
      in \<lparr>hA = t1 + t2, hB = hA s, hC = hB s, hD = hC s,
          hE = hD s + t1, hF = hE s, hG = hF s, hH = hG s\<rparr>)"

definition shaBlock :: "shaState \<Rightarrow> u32 list \<Rightarrow> shaState" where
  "shaBlock s block =
     (let r = foldl shaRound s (zip shaK (shaSchedule 48 block))
      in \<lparr>hA = hA s + hA r, hB = hB s + hB r, hC = hC s + hC r, hD = hD s + hD r,
          hE = hE s + hE r, hF = hF s + hF r, hG = hG s + hG r, hH = hH s + hH r\<rparr>)"

fun shaBlocks :: "nat \<Rightarrow> shaState \<Rightarrow> u32 list \<Rightarrow> shaState" where
  "shaBlocks 0 s ws = s"
| "shaBlocks (Suc n) s ws = shaBlocks n (shaBlock s (take 16 ws)) (drop 16 ws)"

definition Sum256 :: "string \<Rightarrow> string" where
  "Sum256 m =
     (let ws = toWords (shaPad m); r = shaBlocks (length ws div 16) shaInit ws
      in concat (map (\<lambda>w. bigEndian 4 (unat w))
           [hA r, hB r, hC r, hD r, hE r, hF r, hG r, hH r]))"

section \<open>Hexadecimal\<close>

definition hexDigit :: "nat \<Rightarrow> char" where
  "hexDigit n = ''0123456789abcdef'' ! n"

definition hexString :: "string \<Rightarrow> string" where
  "hexString s = concat (map (\<lambda>c. [hexDigit (byte c div 16), hexDigit (byte c mod 16)]) s)"

section \<open>Decoding inverts encoding\<close>

lemma length_b64Alphabet [simp]: "length b64Alphabet = 64"
  by (simp add: b64Alphabet_def)

lemma distinct_b64Alphabet: "distinct b64Alphabet"
  by (simp add: b64Alphabet_def)

lemma b64Index_b64Char [simp]: "i < 64 \<Longrightarrow> b64Index (b64Char i) = Some i"
proof -
  assume "i < 64"
  then have "(b64Char i, i) \<in> set (zip b64Alphabet [0..<64])"
    by (auto simp: set_zip b64Char_def intro!: exI [of _ i])
  moreover have "distinct (map fst (zip b64Alphabet [0..<64]))"
    by (simp add: distinct_b64Alphabet)
  ultimately show ?thesis by (simp add: b64Index_def)
qed

lemma b64Char_not_newline: "i < 64 \<Longrightarrow> b64Char i \<noteq> CHR 0x0A \<and> b64Char i \<noteq> CHR 0x0D"
proof -
  assume "i < 64"
  then have "b64Char i \<in> set b64Alphabet" by (simp add: b64Char_def)
  then show ?thesis by (auto simp: b64Alphabet_def)
qed

lemma sextet1_bound [simp]: "a < 256 \<Longrightarrow> sextet1 a < 64" by (simp add: sextet1_def)

lemma sextet2_bound [simp]: assumes "b < 256" shows "sextet2 a b < 64"
proof -
  have "a mod 4 < 4" "b div 16 < 16" using assms by simp_all
  then show ?thesis by (simp add: sextet2_def)
qed

lemma sextet3_bound [simp]: assumes "c < 256" shows "sextet3 b c < 64"
proof -
  have "b mod 16 < 16" "c div 64 < 4" using assms by simp_all
  then show ?thesis by (simp add: sextet3_def)
qed

lemma reassemble_first [simp]: assumes "b < 256" shows "sextet1 a * 4 + sextet2 a b div 16 = a"
proof -
  have "sextet2 a b div 16 = a mod 4" using assms by (simp add: sextet2_def)
  then show ?thesis by (simp add: sextet1_def)
qed

lemma reassemble_second [simp]: assumes "b < 256" "c < 256" shows "sextet2 a b mod 16 * 16 + sextet3 b c div 4 = b"
proof -
  have "sextet2 a b mod 16 = b div 16" "sextet3 b c div 4 = b mod 16"
    using assms by (simp_all add: sextet2_def sextet3_def)
  then show ?thesis by simp
qed

lemma reassemble_third [simp]: assumes "c < 256" shows "sextet3 b c mod 4 * 64 + sextet4 c = c"
proof -
  have "sextet3 b c mod 4 = c div 64" using assms by (simp add: sextet3_def)
  then show ?thesis by (simp add: sextet4_def)
qed

lemma sextet4_bound [simp]: "sextet4 c < 64"
  by (simp add: sextet4_def)

definition encodeIndices :: "string \<Rightarrow> nat list" where
  "encodeIndices s = map (the \<circ> b64Index) (EncodeToString s)"

lemma EncodeToString_indices:
  "map b64Index (EncodeToString s) = map Some (encodeIndices s)
   \<and> (\<forall>c \<in> set (EncodeToString s). c \<noteq> CHR 0x0A \<and> c \<noteq> CHR 0x0D)"
  by (induction s rule: EncodeToString.induct)
    (simp_all add: encodeIndices_def b64Char_not_newline)

lemma decodeIndices_encodeIndices: "decodeIndices (encodeIndices s) = Some s"
  by (induction s rule: EncodeToString.induct)
    (simp_all add: encodeIndices_def)

lemma DecodeString_EncodeToString: "DecodeString (EncodeToString s) = Some s"
proof -
  have "filter (\<lambda>c. c \<noteq> CHR 0x0A \<and> c \<noteq> CHR 0x0D) (EncodeToString s) = EncodeToString s"
    using EncodeToString_indices [of s] by (simp add: filter_id_conv)
  moreover have "map b64Index (EncodeToString s) = map Some (encodeIndices s)"
    using EncodeToString_indices [of s] by simp
  moreover have "None \<notin> set (map Some (encodeIndices s))" by auto
  ultimately show ?thesis
    by (simp add: DecodeString_def Let_def decodeIndices_encodeIndices o_def)
qed

lemma EncodeToString_inject [simp]: "EncodeToString s = EncodeToString t \<longleftrightarrow> s = t"
  by (metis DecodeString_EncodeToString option.inject)

lemma length_EncodeToString: "length (EncodeToString s) = (length s * 4 + 2) div 3"
  by (induction s rule: EncodeToString.induct) auto

lemma EncodeToString_Nil_iff [simp]: "EncodeToString s = [] \<longleftrightarrow> s = []"
  by (cases s rule: EncodeToString.cases) auto

lemma b64Char_alphabet: "i < 64 \<Longrightarrow> b64Char i \<in> set b64Alphabet"
  by (simp add: b64Char_def)

lemma EncodeToString_alphabet: "set (EncodeToString s) \<subseteq> set b64Alphabet"
  by (induction s rule: EncodeToString.induct)
    (auto simp: b64Char_alphabet)

text \<open>The first character of an encoding carries the upper six bits of the first byte.\<close>

lemma EncodeToString_first: "EncodeToString (c # s) \<noteq> [] \<and> hd (EncodeToString (c # s)) = b64Char (sextet1 (byte c))"
  by (cases "c # s" rule: EncodeToString.cases) auto

section \<open>Lengths of digests\<close>

lemma length_bigEndian [simp]: "length (bigEndian n v) = n"
  by (simp add: bigEndian_def)

lemma length_Sum256 [simp]: "length (Sum256 m) = 32"
  by (simp add: Sum256_def Let_def)

lemma length_hexString [simp]: "length (hexString s) = 2 * length s"
  by (induction s) (simp_all add: hexString_def)

lemma hexDigit_inject: "m < 16 \<Longrightarrow> n < 16 \<Longrightarrow> hexDigit m = hexDigit n \<longleftrightarrow> m = n"
  by (simp add: hexDigit_def nth_eq_iff_index_eq)

lemma hexString_inject [simp]: "hexString s = hexString t \<longleftrightarrow> s = t"
proof (induction s arbitrary: t)
  case Nil
  then show ?case by (cases t) (simp_all add: hexString_def)
next
  case (Cons c s)
  show ?case
  proof (cases t)
    case Nil
    then show ?thesis by (simp add: hexString_def)
  next
    case (Cons d t')
    have "hexString (c # s) = hexString (d # t') \<longleftrightarrow>
        byte c div 16 = byte d div 16 \<and> byte c mod 16 = byte d mod 16 \<and> hexString s = hexString t'"
      using nat_of_char_less_256 [of c] nat_of_char_less_256 [of d]
      by (simp add: hexString_def hexDigit_inject less_mult_imp_div_less)
    also have "\<dots> \<longleftrightarrow> byte c = byte d \<and> s = t'"
      by (metis Cons.IH div_mult_mod_eq)
    finally show ?thesis using Cons by simp
  qed
qed

end
