(* ===== verification/Metadata.thy ===== *)
theory Metadata
  imports Cloud Encoding
begin

text \<open>
  The package internal/cloud/openstack/identity (metadata.go): how an immutable identity is written
  into the tags of an Octavia resource and into the description of a Floating IP, and how the
  controller recognises its own resources again. The wrapper type Identity of that package has one
  unexported field, so it is represented by the wrapped identity itself.

  The lemmas show that tags are never too long (the length check cannot fire), that the tags
  written for an identity are recognised by it and by every other release of the controller, and
  that recognition is sound: a resource tagged for another project, cluster, controller, Gateway
  or route is not matched unless SHA-256 collides. The two ownership schemes, Gateway tags and
  route tags, are instances of one interface, the locale \<open>ownership\<close>.
\<close>

section \<open>Constants\<close>

definition identityPrefix :: string where "identityPrefix = ''gateway-api-openstack.''"
definition maxTagLength :: nat where "maxTagLength = 255"

definition RoleLoadBalancer :: string where "RoleLoadBalancer = ''loadbalancer''"
definition RoleListener :: string where "RoleListener = ''listener''"
definition RoleFloatingIP :: string where "RoleFloatingIP = ''floating-ip''"
definition RolePool :: string where "RolePool = ''pool''"
definition RoleMember :: string where "RoleMember = ''member''"
definition RoleMonitor :: string where "RoleMonitor = ''health-monitor''"
definition RolePolicyExact :: string where "RolePolicyExact = ''l7-policy-exact''"
definition RolePolicyPrefix :: string where "RolePolicyPrefix = ''l7-policy-prefix''"
definition RoleRulePath :: string where "RoleRulePath = ''l7-rule-path''"
definition RoleRuleHost :: string where "RoleRuleHost = ''l7-rule-host''"

lemmas role_defs = RoleLoadBalancer_def RoleListener_def RoleFloatingIP_def RolePool_def
  RoleMember_def RoleMonitor_def RolePolicyExact_def RolePolicyPrefix_def RoleRulePath_def
  RoleRuleHost_def

section \<open>Tags\<close>

definition NewIdentity :: "Identity \<Rightarrow> Identity result" where
  "NewIdentity i = bindE (ValidateGatewayIdentity i) (\<lambda>_. Inr i)"

definition encode :: "string \<Rightarrow> string" where
  "encode v = EncodeToString v"

definition tag :: "string \<Rightarrow> string \<Rightarrow> string" where
  "tag key v =
     (let pre = identityPrefix @ key @ ''=''; encoded = encode v
      in pre @ (if length pre + length encoded > maxTagLength
                then ''sha256-'' @ EncodeToString (Sum256 v) else encoded))"

definition parseIdentityTag :: "string \<Rightarrow> (string \<times> string) option" where
  "parseIdentityTag v =
     (if \<not> HasPrefix v identityPrefix then None
      else case Cut (TrimPrefix v identityPrefix) ''='' of
        (key, encodedValue, found) \<Rightarrow> if \<not> found \<or> key = [] then None else Some (key, encodedValue))"

definition validateTagLengths :: "string list \<Rightarrow> string list result" where
  "validateTagLengths tags =
     bindE (foreachE (\<lambda>v. guardE (length v \<le> maxTagLength) Errorf) tags) (\<lambda>_. Inr tags)"

definition actualByKey :: "string list \<Rightarrow> string \<Rightarrow> string list" where
  "actualByKey actual =
     foldl (\<lambda>m v. case parseIdentityTag v of None \<Rightarrow> m | Some (k, e) \<Rightarrow> m(k := m k @ [e]))
       (\<lambda>_. []) actual"

definition containsAll :: "string list \<Rightarrow> string list \<Rightarrow> bool" where
  "containsAll actual expected =
     list_all (\<lambda>v. case parseIdentityTag v of
        None \<Rightarrow> False
      | Some (k, e) \<Rightarrow> actualByKey actual k = [e]) expected"

definition managedTag :: string where
  "managedTag = identityPrefix @ ''managed=true''"

definition ScopeTags :: "string \<Rightarrow> string \<Rightarrow> string list" where
  "ScopeTags clusterID controller =
     [managedTag, tag ''cluster'' clusterID, tag ''controller'' controller]"

definition identityTags :: "Identity \<Rightarrow> string \<Rightarrow> bool \<Rightarrow> bool \<Rightarrow> string list result" where
  "identityTags i role routeScoped includeVersion =
     (if TrimSpace role = [] then Inl Errorf
      else validateTagLengths
        ([managedTag, tag ''cluster'' (ClusterID i), tag ''controller'' (Controller i),
          tag ''namespace'' (GatewayNamespace i), tag ''name'' (GatewayName i),
          tag ''uid'' (GatewayUID i), tag ''role'' role] @
         (if OpenStackProjectID i \<noteq> [] then [tag ''project'' (OpenStackProjectID i)] else []) @
         (if routeScoped then [tag ''route-namespace'' (RouteNamespace i),
            tag ''route-name'' (RouteName i), tag ''route-uid'' (RouteUID i)] else []) @
         (if includeVersion \<and> ControllerVersion i \<noteq> []
          then [tag ''controller-version'' (ControllerVersion i)] else [])))"

definition GatewayTags :: "Identity \<Rightarrow> string \<Rightarrow> string list result" where
  "GatewayTags i role = identityTags i role False True"

definition RouteTags :: "Identity \<Rightarrow> string \<Rightarrow> string list result" where
  "RouteTags i role = bindE (ValidateRouteIdentity i) (\<lambda>_. identityTags i role True True)"

definition GatewayDiscoveryTags :: "Identity \<Rightarrow> string \<Rightarrow> string list result" where
  "GatewayDiscoveryTags i role =
     (if TrimSpace role = [] then Inl Errorf
      else validateTagLengths
        [managedTag, tag ''cluster'' (ClusterID i), tag ''controller'' (Controller i),
         tag ''namespace'' (GatewayNamespace i), tag ''name'' (GatewayName i), tag ''role'' role])"

definition RouteDiscoveryTags :: "Identity \<Rightarrow> string \<Rightarrow> string list result" where
  "RouteDiscoveryTags i role =
     bindE (ValidateRouteIdentity i) (\<lambda>_.
     bindE (GatewayDiscoveryTags i role) (\<lambda>tags.
       validateTagLengths
         (tags @ [tag ''route-namespace'' (RouteNamespace i), tag ''route-name'' (RouteName i)])))"

definition matchesTags :: "string list \<Rightarrow> string list result \<Rightarrow> bool" where
  "matchesTags actual expected = (case expected of Inl _ \<Rightarrow> False | Inr ts \<Rightarrow> containsAll actual ts)"

definition MatchesGateway :: "Identity \<Rightarrow> string list \<Rightarrow> string \<Rightarrow> bool" where
  "MatchesGateway i tags role = matchesTags tags (identityTags i role False False)"

definition MatchesGatewayDiscovery :: "Identity \<Rightarrow> string list \<Rightarrow> string \<Rightarrow> bool" where
  "MatchesGatewayDiscovery i tags role = matchesTags tags (GatewayDiscoveryTags i role)"

definition MatchesRoute :: "Identity \<Rightarrow> string list \<Rightarrow> string \<Rightarrow> bool" where
  "MatchesRoute i tags role \<longleftrightarrow>
     isOk (ValidateRouteIdentity i) \<and> matchesTags tags (identityTags i role True False)"

definition MatchesRouteDiscovery :: "Identity \<Rightarrow> string list \<Rightarrow> string \<Rightarrow> bool" where
  "MatchesRouteDiscovery i tags role = matchesTags tags (RouteDiscoveryTags i role)"

section \<open>Descriptions\<close>

definition digestInput :: "string list \<Rightarrow> string" where
  "digestInput parts = concat (map (\<lambda>v. itoa (length v) @ '':'' @ v) parts)"

definition description :: "Identity \<Rightarrow> string \<Rightarrow> string \<Rightarrow> bool \<Rightarrow> bool \<Rightarrow> string" where
  "description i scope role includeRoute includeProject =
     (let parts = [ClusterID i, Controller i] @
            (if includeProject then [OpenStackProjectID i] else []) @
            [GatewayNamespace i, GatewayName i, GatewayUID i] @
            (if includeRoute then [RouteNamespace i, RouteName i, RouteUID i] else []) @ [role];
          pre = ''gateway-api-openstack'' @ (if scope \<noteq> [] then '' '' @ scope else [])
      in pre @ ''; identity-sha256='' @ hexString (Sum256 (digestInput parts)) @
         ''; role='' @ encode role)"

definition Description :: "Identity \<Rightarrow> string \<Rightarrow> string" where
  "Description i role =
     (let d = description i [] role True True
      in if ControllerVersion i \<noteq> [] then
           let version = encode (ControllerVersion i);
               version = (if length d + length ''; controller-version='' + length version > maxTagLength
                 then ''sha256-'' @ EncodeToString (Sum256 (ControllerVersion i)) else version)
           in d @ ''; controller-version='' @ version
         else d)"

definition gatewayOnly :: "Identity \<Rightarrow> Identity" where
  "gatewayOnly i = i\<lparr>RouteNamespace := [], RouteName := [], RouteUID := []\<rparr>"

definition GatewayDescription :: "Identity \<Rightarrow> string \<Rightarrow> string" where
  "GatewayDescription i role = Description (gatewayOnly i) role"

definition Phase0Description :: "Identity \<Rightarrow> string \<Rightarrow> string" where
  "Phase0Description i role = description i ''phase-0'' role False False"

definition MatchesDescription :: "Identity \<Rightarrow> string \<Rightarrow> string \<Rightarrow> bool" where
  "MatchesDescription i d role = HasPrefix d (description i [] role True True)"

definition MatchesGatewayDescription :: "Identity \<Rightarrow> string \<Rightarrow> string \<Rightarrow> bool" where
  "MatchesGatewayDescription i d role = MatchesDescription (gatewayOnly i) d role"

section \<open>Parsing inverts tagging\<close>

definition tagEncoding :: "string \<Rightarrow> string \<Rightarrow> string" where
  "tagEncoding key v =
     (if length (identityPrefix @ key @ ''='') + length (encode v) > maxTagLength
      then ''sha256-'' @ EncodeToString (Sum256 v) else encode v)"

lemma tag_eq: "tag key v = identityPrefix @ key @ CHR ''='' # tagEncoding key v"
  by (simp add: tag_def tagEncoding_def Let_def)

lemma parseIdentityTag_tag [simp]:
  "key \<noteq> [] \<Longrightarrow> CHR ''='' \<notin> set key \<Longrightarrow> parseIdentityTag (tag key v) = Some (key, tagEncoding key v)"
  by (simp add: parseIdentityTag_def tag_eq Cut_first_byte)

lemma parseIdentityTag_managed [simp]: "parseIdentityTag managedTag = Some (''managed'', ''true'')"
  using Cut_first_byte [of "CHR ''=''" "''managed''" "''true''"]
  by (simp add: parseIdentityTag_def managedTag_def)

lemma length_tag: "length key \<le> 20 \<Longrightarrow> length (tag key v) \<le> maxTagLength"
  by (simp add: tag_eq tagEncoding_def identityPrefix_def length_EncodeToString maxTagLength_def)

lemma validateTagLengths_ok:
  "validateTagLengths ts = Inr ts' \<longleftrightarrow> ts' = ts \<and> (\<forall>t \<in> set ts. length t \<le> maxTagLength)"
  by (auto simp: validateTagLengths_def go_simps)

lemma length_managedTag: "length managedTag \<le> maxTagLength"
  by (simp add: managedTag_def identityPrefix_def maxTagLength_def)

section \<open>What a tag list says\<close>

type_synonym fields = "(string \<times> string) list"

definition identityFields :: "Identity \<Rightarrow> string \<Rightarrow> bool \<Rightarrow> bool \<Rightarrow> fields" where
  "identityFields i role routeScoped includeVersion =
     [(''cluster'', ClusterID i), (''controller'', Controller i),
      (''namespace'', GatewayNamespace i), (''name'', GatewayName i), (''uid'', GatewayUID i),
      (''role'', role)] @
     (if OpenStackProjectID i \<noteq> [] then [(''project'', OpenStackProjectID i)] else []) @
     (if routeScoped then [(''route-namespace'', RouteNamespace i), (''route-name'', RouteName i),
        (''route-uid'', RouteUID i)] else []) @
     (if includeVersion \<and> ControllerVersion i \<noteq> []
      then [(''controller-version'', ControllerVersion i)] else [])"

definition discoveryFields :: "Identity \<Rightarrow> string \<Rightarrow> bool \<Rightarrow> fields" where
  "discoveryFields i role routeScoped =
     [(''cluster'', ClusterID i), (''controller'', Controller i),
      (''namespace'', GatewayNamespace i), (''name'', GatewayName i), (''role'', role)] @
     (if routeScoped then [(''route-namespace'', RouteNamespace i), (''route-name'', RouteName i)]
      else [])"

definition tagsOf :: "fields \<Rightarrow> string list" where
  "tagsOf fs = managedTag # map (\<lambda>(k, v). tag k v) fs"

definition validKey :: "string \<Rightarrow> bool" where
  "validKey k \<longleftrightarrow> k \<noteq> [] \<and> CHR ''='' \<notin> set k \<and> k \<noteq> ''managed'' \<and> length k \<le> 20"

definition validFields :: "fields \<Rightarrow> bool" where
  "validFields fs \<longleftrightarrow> distinct (map fst fs) \<and> list_all validKey (map fst fs)"

lemma validFields_identity [simp]: "validFields (identityFields i role r v)"
  by (cases r; cases v; cases "OpenStackProjectID i = []"; cases "ControllerVersion i = []")
    (simp_all add: validFields_def validKey_def identityFields_def)

lemma validFields_discovery [simp]: "validFields (discoveryFields i role r)"
  by (cases r) (simp_all add: validFields_def validKey_def discoveryFields_def)

lemma validateTagLengths_tagsOf: "validFields fs \<Longrightarrow> validateTagLengths (tagsOf fs) = Inr (tagsOf fs)"
  by (auto simp: validateTagLengths_ok tagsOf_def length_managedTag validFields_def validKey_def
      list_all_iff intro!: length_tag)

lemma identityTags_eq:
  "identityTags i role r v =
     (if TrimSpace role = [] then Inl Errorf else Inr (tagsOf (identityFields i role r v)))"
  using validateTagLengths_tagsOf [OF validFields_identity [of i role r v]]
  by (auto simp: identityTags_def identityFields_def tagsOf_def)

lemma GatewayDiscoveryTags_eq:
  "GatewayDiscoveryTags i role =
     (if TrimSpace role = [] then Inl Errorf else Inr (tagsOf (discoveryFields i role False)))"
  using validateTagLengths_tagsOf [OF validFields_discovery [of i role False]]
  by (auto simp: GatewayDiscoveryTags_def discoveryFields_def tagsOf_def)

lemma RouteDiscoveryTags_eq:
  "RouteDiscoveryTags i role =
     bindE (ValidateRouteIdentity i) (\<lambda>_.
       if TrimSpace role = [] then Inl Errorf else Inr (tagsOf (discoveryFields i role True)))"
  using validateTagLengths_tagsOf [OF validFields_discovery [of i role True]]
  by (cases "ValidateRouteIdentity i")
    (auto simp: RouteDiscoveryTags_def GatewayDiscoveryTags_eq discoveryFields_def tagsOf_def)

subsection \<open>The multimap that containsAll builds\<close>

lemma actualByKey_snoc:
  "actualByKey (ts @ [t]) k =
     actualByKey ts k @ (case parseIdentityTag t of Some (k', e) \<Rightarrow> if k' = k then [e] else []
        | None \<Rightarrow> [])"
  by (auto simp: actualByKey_def split: option.splits)

lemma actualByKey_Nil [simp]: "actualByKey [] k = []"
  by (simp add: actualByKey_def)

lemma actualByKey_tagsOf:
  "validFields fs \<Longrightarrow> actualByKey (tagsOf fs) k =
     (if k = ''managed'' then [''true'']
      else case map_of fs k of None \<Rightarrow> [] | Some v \<Rightarrow> [tagEncoding k v])"
proof (induction fs rule: rev_induct)
  case Nil
  show ?case
    using actualByKey_snoc [of "[]" managedTag k] by (simp add: tagsOf_def)
next
  case (snoc f fs)
  obtain key v where f: "f = (key, v)" by fastforce
  from snoc.prems have fs: "validFields fs" and key: "validKey key" and new: "key \<notin> fst ` set fs"
    by (auto simp: validFields_def f)
  from new have "map_of fs key = None"
    by (simp add: map_of_eq_None_iff)
  moreover have "tagsOf (fs @ [f]) = tagsOf fs @ [tag key v]"
    by (simp add: tagsOf_def f)
  ultimately show ?case
    using snoc.IH [OF fs] key
    by (auto simp: actualByKey_snoc f validKey_def map_add_def split: option.splits)
qed

definition fieldsMatch :: "string list \<Rightarrow> fields \<Rightarrow> bool" where
  "fieldsMatch actual fs \<longleftrightarrow>
     actualByKey actual ''managed'' = [''true''] \<and>
     (\<forall>(k, v) \<in> set fs. actualByKey actual k = [tagEncoding k v])"

lemma parse_validField:
  "validFields fs \<Longrightarrow> (k, v) \<in> set fs \<Longrightarrow> parseIdentityTag (tag k v) = Some (k, tagEncoding k v)"
  by (rule parseIdentityTag_tag) (auto simp: validFields_def validKey_def list_all_iff)

lemma containsAll_tagsOf:
  assumes "validFields fs"
  shows "containsAll actual (tagsOf fs) \<longleftrightarrow> fieldsMatch actual fs"
proof -
  have "(case parseIdentityTag (tag k v) of None \<Rightarrow> False | Some (k, e) \<Rightarrow> actualByKey actual k = [e])
      \<longleftrightarrow> actualByKey actual k = [tagEncoding k v]" if "(k, v) \<in> set fs" for k v
    using parse_validField [OF assms that] by simp
  then show ?thesis
    by (fastforce simp: containsAll_def tagsOf_def fieldsMatch_def list_all_iff)
qed

lemma fieldsMatch_tagsOf:
  "validFields fs \<Longrightarrow> validFields gs \<Longrightarrow> fieldsMatch (tagsOf gs) fs \<longleftrightarrow>
     (\<forall>(k, v) \<in> set fs. \<exists>w. map_of gs k = Some w \<and> tagEncoding k v = tagEncoding k w)"
  by (fastforce simp: fieldsMatch_def actualByKey_tagsOf validFields_def validKey_def list_all_iff
      split: option.splits)

lemma fieldsMatch_subset:
  "validFields fs \<Longrightarrow> validFields gs \<Longrightarrow> set fs \<subseteq> set gs \<Longrightarrow> fieldsMatch (tagsOf gs) fs"
  by (auto simp: fieldsMatch_tagsOf validFields_def map_of_eq_Some_iff)

lemmas match_defs = MatchesGateway_def MatchesGatewayDiscovery_def MatchesRoute_def
  MatchesRouteDiscovery_def matchesTags_def identityTags_eq GatewayDiscoveryTags_eq
  RouteDiscoveryTags_eq

lemma MatchesGateway_iff:
  "MatchesGateway i ts role \<longleftrightarrow>
     TrimSpace role \<noteq> [] \<and> fieldsMatch ts (identityFields i role False False)"
  by (simp add: match_defs containsAll_tagsOf)

lemma MatchesGatewayDiscovery_iff:
  "MatchesGatewayDiscovery i ts role \<longleftrightarrow>
     TrimSpace role \<noteq> [] \<and> fieldsMatch ts (discoveryFields i role False)"
  by (simp add: match_defs containsAll_tagsOf)

lemma MatchesRoute_iff:
  "MatchesRoute i ts role \<longleftrightarrow>
     isOk (ValidateRouteIdentity i) \<and> TrimSpace role \<noteq> [] \<and>
     fieldsMatch ts (identityFields i role True False)"
  by (auto simp: match_defs containsAll_tagsOf)

lemma MatchesRouteDiscovery_iff:
  "MatchesRouteDiscovery i ts role \<longleftrightarrow>
     isOk (ValidateRouteIdentity i) \<and> TrimSpace role \<noteq> [] \<and>
     fieldsMatch ts (discoveryFields i role True)"
  by (cases "ValidateRouteIdentity i") (auto simp: match_defs containsAll_tagsOf)

lemmas matches_iff = MatchesGateway_iff MatchesGatewayDiscovery_iff MatchesRoute_iff
  MatchesRouteDiscovery_iff

lemma GatewayTags_eq:
  "GatewayTags i role = Inr ts \<longleftrightarrow>
     TrimSpace role \<noteq> [] \<and> ts = tagsOf (identityFields i role False True)"
  by (auto simp: GatewayTags_def identityTags_eq)

lemma RouteTags_eq:
  "RouteTags i role = Inr ts \<longleftrightarrow>
     isOk (ValidateRouteIdentity i) \<and> TrimSpace role \<noteq> [] \<and>
     ts = tagsOf (identityFields i role True True)"
  by (cases "ValidateRouteIdentity i") (auto simp: RouteTags_def identityTags_eq)

section \<open>Encodings tell values apart\<close>

definition asciiOnly :: "string \<Rightarrow> bool" where
  "asciiOnly v \<longleftrightarrow> list_all (\<lambda>c. byte c < 128) v"

text \<open>
  Two values are separable when the only way they could be confused, a SHA-256 collision, does not
  happen. Kubernetes names, namespaces and UIDs and OpenStack project IDs are ASCII.
\<close>

definition separable :: "string \<Rightarrow> string \<Rightarrow> bool" where
  "separable v w \<longleftrightarrow> asciiOnly v \<and> asciiOnly w \<and> (Sum256 v = Sum256 w \<longrightarrow> v = w)"

lemma encode_not_digest:
  assumes "asciiOnly v"
  shows "encode v \<noteq> ''sha256-'' @ x"
proof (cases v)
  case Nil
  then show ?thesis by (simp add: encode_def)
next
  case (Cons c cs)
  with assms have "byte c < 32 * 4" by (simp add: asciiOnly_def)
  then have "sextet1 (byte c) < 32" unfolding sextet1_def by (rule less_mult_imp_div_less)
  then have "b64Char (sextet1 (byte c)) \<in> set (take 32 b64Alphabet)"
    by (auto simp: b64Char_def in_set_conv_nth intro!: exI [of _ "sextet1 (byte c)"])
  then have "b64Char (sextet1 (byte c)) \<noteq> CHR ''s''"
    by (auto simp: b64Alphabet_def)
  moreover have "hd (encode v) = b64Char (sextet1 (byte c))"
    using EncodeToString_first [of c cs] by (simp add: encode_def Cons)
  ultimately show ?thesis by (metis append_Cons list.sel(1))
qed

lemma tagEncoding_inject: "separable v w \<Longrightarrow> tagEncoding k v = tagEncoding k w \<longleftrightarrow> v = w"
  using encode_not_digest [of v] encode_not_digest [of w] encode_not_digest [of v, THEN not_sym]
    encode_not_digest [of w, THEN not_sym]
  by (auto simp: tagEncoding_def separable_def encode_def split: if_splits)

lemma tagEncoding_short:
  assumes "length v \<le> 150" and "length k \<le> 20"
  shows "tagEncoding k v = encode v"
proof -
  have "length (encode v) \<le> (150 * 4 + 2) div 3"
    unfolding encode_def length_EncodeToString using assms(1) by (intro div_le_mono) simp
  with assms(2) show ?thesis
    by (simp add: tagEncoding_def identityPrefix_def maxTagLength_def)
qed

lemma tagEncoding_short_inject:
  "length v \<le> 150 \<Longrightarrow> length w \<le> 150 \<Longrightarrow> length k \<le> 20 \<Longrightarrow> tagEncoding k v = tagEncoding k w \<longleftrightarrow> v = w"
  by (simp add: tagEncoding_short encode_def)

lemma fieldsMatch_same_key:
  "fieldsMatch ts fs \<Longrightarrow> fieldsMatch ts gs \<Longrightarrow> (k, v) \<in> set fs \<Longrightarrow> (k, w) \<in> set gs \<Longrightarrow>
     tagEncoding k v = tagEncoding k w"
  by (fastforce simp: fieldsMatch_def)

lemma role_in_fields:
  "(''role'', role) \<in> set (identityFields i role r v)" "(''role'', role) \<in> set (discoveryFields i role r)"
  by (simp_all add: identityFields_def discoveryFields_def)

section \<open>The interface of an ownership scheme\<close>

text \<open>
  A scheme writes tags when a resource is created and recognises them later. Its clients, the
  observation code of the resource graph, rely on three laws: what an identity wrote it recognises,
  the recorded controller version plays no part, and one tag list cannot be recognised under two
  roles.
\<close>

definition shortRole :: "string \<Rightarrow> bool" where
  "shortRole role \<longleftrightarrow> length role \<le> 150"

locale ownership =
  fixes stamp :: "Identity \<Rightarrow> string \<Rightarrow> string list result"
    and recognises :: "Identity \<Rightarrow> string list \<Rightarrow> string \<Rightarrow> bool"
  assumes recognises_own: "stamp i role = Inr ts \<Longrightarrow> recognises i ts role"
    and version_irrelevant: "recognises (i\<lparr>ControllerVersion := v\<rparr>) ts role = recognises i ts role"
    and one_role: "recognises i ts r \<Longrightarrow> recognises i ts r' \<Longrightarrow> shortRole r \<Longrightarrow> shortRole r' \<Longrightarrow> r = r'"
begin

lemma recognises_other_release:
  "stamp (i\<lparr>ControllerVersion := v\<rparr>) role = Inr ts \<Longrightarrow> recognises i ts role"
  using recognises_own version_irrelevant by blast

lemma other_role_not_recognised:
  "stamp i role = Inr ts \<Longrightarrow> role \<noteq> role' \<Longrightarrow> shortRole role \<Longrightarrow> shortRole role' \<Longrightarrow>
     \<not> recognises i ts role'"
  using recognises_own one_role by blast

lemma find_own_role:
  assumes "stamp i role = Inr ts" "role \<in> set roles" "\<forall>r \<in> set roles. shortRole r"
  shows "find (recognises i ts) roles = Some role"
  using assms
proof (induction roles)
  case (Cons r roles)
  then show ?case
    using recognises_own [of i role ts] other_role_not_recognised [of i role ts r] by auto
qed simp

end

lemma identityFields_version [simp]:
  "identityFields (i\<lparr>ControllerVersion := v\<rparr>) role r False = identityFields i role r False"
  by (simp add: identityFields_def)

lemma discoveryFields_version [simp]:
  "discoveryFields (i\<lparr>ControllerVersion := v\<rparr>) role r = discoveryFields i role r"
  by (simp add: discoveryFields_def)

lemma ValidateRouteIdentity_version [simp]:
  "ValidateRouteIdentity (i\<lparr>ControllerVersion := v\<rparr>) = ValidateRouteIdentity i"
  by (simp add: ValidateRouteIdentity_def ValidateGatewayIdentity_def)

lemma identity_covers:
  "set (identityFields i role r False) \<subseteq> set (identityFields i role r v)"
  "set (identityFields i role False False) \<subseteq> set (identityFields i role r v)"
  "set (discoveryFields i role r) \<subseteq> set (identityFields i role r v)"
  "set (discoveryFields i role False) \<subseteq> set (identityFields i role r v)"
  by (auto simp: identityFields_def discoveryFields_def)

lemma same_role_of_match:
  "fieldsMatch ts fs \<Longrightarrow> fieldsMatch ts gs \<Longrightarrow> (''role'', r) \<in> set fs \<Longrightarrow> (''role'', r') \<in> set gs \<Longrightarrow>
     shortRole r \<Longrightarrow> shortRole r' \<Longrightarrow> r = r'"
  using fieldsMatch_same_key [of ts fs gs "''role''" r r'] tagEncoding_short_inject [of r r' "''role''"]
  by (simp add: shortRole_def)

lemmas scheme_facts = matches_iff GatewayTags_eq RouteTags_eq fieldsMatch_subset identity_covers

interpretation gateway_scheme: ownership GatewayTags MatchesGateway
  by unfold_locales (auto simp: scheme_facts intro: same_role_of_match role_in_fields)

interpretation gateway_discovery: ownership GatewayTags MatchesGatewayDiscovery
  by unfold_locales (auto simp: scheme_facts intro: same_role_of_match role_in_fields)

interpretation route_scheme: ownership RouteTags MatchesRoute
  by unfold_locales (auto simp: scheme_facts intro: same_role_of_match role_in_fields)

interpretation route_discovery: ownership RouteTags MatchesRouteDiscovery
  by unfold_locales (auto simp: scheme_facts intro: same_role_of_match role_in_fields)

interpretation route_in_gateway: ownership RouteTags MatchesGateway
  by unfold_locales (auto simp: scheme_facts intro: same_role_of_match role_in_fields)

lemma shortRole_roles [simp]:
  "shortRole RoleLoadBalancer" "shortRole RoleListener" "shortRole RoleFloatingIP"
  "shortRole RolePool" "shortRole RoleMember" "shortRole RoleMonitor" "shortRole RolePolicyExact"
  "shortRole RolePolicyPrefix" "shortRole RoleRulePath" "shortRole RoleRuleHost"
  by (simp_all add: shortRole_def role_defs)

lemma TrimSpace_roles [simp]:
  "TrimSpace RoleLoadBalancer \<noteq> []" "TrimSpace RoleListener \<noteq> []" "TrimSpace RoleFloatingIP \<noteq> []"
  "TrimSpace RolePool \<noteq> []" "TrimSpace RoleMember \<noteq> []" "TrimSpace RoleMonitor \<noteq> []"
  "TrimSpace RolePolicyExact \<noteq> []" "TrimSpace RolePolicyPrefix \<noteq> []"
  "TrimSpace RoleRulePath \<noteq> []" "TrimSpace RoleRuleHost \<noteq> []"
  by (rule TrimSpace_nonblank [of "CHR ''l''"] TrimSpace_nonblank [of "CHR ''e''"]
      TrimSpace_nonblank [of "CHR ''i''"]; simp add: role_defs; fail)+

lemma GatewayTags_roles_ok [simp]:
  "TrimSpace role \<noteq> [] \<Longrightarrow> isOk (GatewayTags i role)"
  "TrimSpace role \<noteq> [] \<Longrightarrow> isOk (GatewayDiscoveryTags i role)"
  by (simp_all add: GatewayTags_def identityTags_eq GatewayDiscoveryTags_eq)

section \<open>The digest input is uniquely readable\<close>

lemma digestInput_Cons [simp]:
  "digestInput (v # vs) = itoa (length v) @ CHR '':'' # v @ digestInput vs"
  by (simp add: digestInput_def)

lemma digestInput_Nil [simp]: "digestInput [] = []"
  by (simp add: digestInput_def)

lemma not_isDigit_colon [simp]: "\<not> isDigit (CHR '':'')"
  by (simp add: isDigit_def)

lemma takeWhile_itoa: "takeWhile isDigit (itoa n @ CHR '':'' # r) = itoa n"
  using itoa_digits [of n] by (subst takeWhile_append2) auto

lemma digestInput_inject: "digestInput vs = digestInput ws \<longleftrightarrow> vs = ws"
proof (induction vs arbitrary: ws)
  case Nil
  then show ?case by (cases ws) auto
next
  case (Cons v vs)
  show ?case
  proof (cases ws)
    case Nil
    then show ?thesis by simp
  next
    case ws: (Cons w ws')
    show ?thesis
    proof
      assume eq: "digestInput (v # vs) = digestInput ws"
      then have "takeWhile isDigit (digestInput (v # vs)) = takeWhile isDigit (digestInput (w # ws'))"
        by (simp add: ws)
      then have len: "length v = length w"
        by (simp add: takeWhile_itoa itoa_inject)
      with eq have "v @ digestInput vs = w @ digestInput ws'" by (simp add: ws)
      with len have "v = w" and "digestInput vs = digestInput ws'" by simp_all
      then show "v # vs = ws" using Cons.IH [of ws'] by (simp add: ws)
    qed simp
  qed
qed

definition descriptionParts :: "Identity \<Rightarrow> string \<Rightarrow> string list" where
  "descriptionParts i role =
     [ClusterID i, Controller i, OpenStackProjectID i, GatewayNamespace i, GatewayName i,
      GatewayUID i, RouteNamespace i, RouteName i, RouteUID i, role]"

lemma description_eq:
  "description i [] role True True =
     ''gateway-api-openstack; identity-sha256='' @
     hexString (Sum256 (digestInput (descriptionParts i role))) @ ''; role='' @ encode role"
  by (simp add: description_def Let_def descriptionParts_def del: digestInput_Cons)

lemma Description_prefix: "\<exists>r. Description i role = description i [] role True True @ r"
  by (simp add: Description_def Let_def)

lemma description_prefix_digest:
  assumes "HasPrefix (Description j role') (description i [] role True True)"
  shows "Sum256 (digestInput (descriptionParts i role)) =
    Sum256 (digestInput (descriptionParts j role'))"
proof -
  let ?h = "\<lambda>i role. hexString (Sum256 (digestInput (descriptionParts i role)))"
  obtain r where "Description j role' = description j [] role' True True @ r"
    using Description_prefix by blast
  moreover from assms obtain q where
    "Description j role' = description i [] role True True @ q"
    by (auto simp: HasPrefix_iff)
  ultimately have "?h j role' @ ''; role='' @ encode role' @ r = ?h i role @ ''; role='' @ encode role @ q"
    by (simp add: description_eq)
  then have "?h j role' = ?h i role"
    by (simp add: append_eq_append_conv)
  then show ?thesis by simp
qed

section \<open>Properties of ownership metadata\<close>

text \<open>Every tag list the controller writes is accepted by the length check: for any role that is
  not blank, GatewayTags succeeds and no tag exceeds 255 bytes, however long the identity's fields
  are, because a value that would not fit is replaced by its digest.\<close>

theorem tags_always_fit:
  assumes "TrimSpace role \<noteq> []"
  shows "\<exists>ts. GatewayTags i role = Inr ts \<and> (\<forall>t \<in> set ts. length t \<le> maxTagLength)"
  using assms validateTagLengths_tagsOf [of "identityFields i role False True"]
  by (auto simp: GatewayTags_eq validateTagLengths_ok)

theorem tags_always_fit_witness:
  "\<exists>ts. GatewayTags \<lparr>OpenStackProjectID = ''p'', ClusterID = ''c'', Controller = ''k'',
      ControllerVersion = [], GatewayNamespace = ''ns'', GatewayName = replicate 253 (CHR ''g''),
      GatewayUID = ''u'', RouteNamespace = [], RouteName = [], RouteUID = []\<rparr> RoleLoadBalancer = Inr ts
    \<and> (\<forall>t \<in> set ts. length t \<le> maxTagLength)"
  by (rule tags_always_fit) simp

text \<open>A tag can be read back: parsing yields the key it was built from, and unless the value was
  replaced by its digest, base64 decoding yields the value.\<close>

theorem tag_roundtrip:
  assumes "key \<noteq> []" and "CHR ''='' \<notin> set key"
  shows "\<exists>e. parseIdentityTag (tag key v) = Some (key, e) \<and>
    (length identityPrefix + length key + 1 + length (encode v) \<le> maxTagLength \<longrightarrow>
     DecodeString e = Some v)"
  using assms by (auto simp: tagEncoding_def encode_def DecodeString_EncodeToString)

theorem tag_roundtrip_witness:
  "\<exists>e. parseIdentityTag (tag ''uid'' ''8f1c'') = Some (''uid'', e) \<and>
    (length identityPrefix + length ''uid'' + 1 + length (encode ''8f1c'') \<le> maxTagLength \<longrightarrow>
     DecodeString e = Some ''8f1c'')"
  by (rule tag_roundtrip) simp_all

text \<open>A resource that one release of the controller tagged for a route is recognised by every other
  release of it: as part of the route, by route discovery, and as part of the route's Gateway. It is
  recognised under no other role.\<close>

theorem route_tags_recognised:
  assumes "RouteTags (i\<lparr>ControllerVersion := v\<rparr>) role = Inr ts" and "shortRole role"
  shows "MatchesRoute i ts role \<and> MatchesRouteDiscovery i ts role \<and> MatchesGateway i ts role \<and>
    (\<forall>role'. shortRole role' \<and> role' \<noteq> role \<longrightarrow> \<not> MatchesRoute i ts role' \<and>
       \<not> MatchesRouteDiscovery i ts role' \<and> \<not> MatchesGateway i ts role')"
proof -
  note own = route_scheme.recognises_other_release [OF assms(1)]
    route_discovery.recognises_other_release [OF assms(1)]
    route_in_gateway.recognises_other_release [OF assms(1)]
  with assms(2) show ?thesis
    using route_scheme.one_role route_discovery.one_role route_in_gateway.one_role by blast
qed

definition sampleIdentity :: Identity where
  "sampleIdentity = \<lparr>OpenStackProjectID = ''p1'', ClusterID = ''c1'', Controller = ''ex/ctl'',
     ControllerVersion = ''v1'', GatewayNamespace = ''ns'', GatewayName = ''gw'', GatewayUID = ''u1'',
     RouteNamespace = ''ns'', RouteName = ''rt'', RouteUID = ''u2''\<rparr>"

lemma sampleIdentity_valid:
  "isOk (ValidateRouteIdentity sampleIdentity)" "isOk (ValidateGatewayIdentity sampleIdentity)"
  by (simp_all add: isOk_iff go_simps sampleIdentity_def)

lemma sampleIdentity_separable: "separable (f sampleIdentity) (f sampleIdentity) \<longleftrightarrow> asciiOnly (f sampleIdentity)"
  by (auto simp: separable_def)

theorem route_tags_recognised_witness:
  "\<exists>ts. RouteTags (sampleIdentity\<lparr>ControllerVersion := ''v2''\<rparr>) RolePool = Inr ts \<and>
     MatchesRoute sampleIdentity ts RolePool \<and> \<not> MatchesRoute sampleIdentity ts RoleMember"
proof -
  define ts where "ts = tagsOf (identityFields (sampleIdentity\<lparr>ControllerVersion := ''v2''\<rparr>) RolePool True True)"
  have tags: "RouteTags (sampleIdentity\<lparr>ControllerVersion := ''v2''\<rparr>) RolePool = Inr ts"
    by (simp add: RouteTags_eq ts_def sampleIdentity_valid)
  moreover have "RoleMember \<noteq> RolePool" by (simp add: role_defs)
  ultimately show ?thesis
    using route_tags_recognised [OF tags] by auto
qed



text \<open>A Floating IP description is recognised by the identity that wrote it, whatever version it
  records, and by no other: a match means equal cluster, controller, project and Gateway fields,
  unless SHA-256 collides on the two digest inputs.\<close>

theorem description_match_isolates:
  assumes "Sum256 (digestInput (descriptionParts (gatewayOnly i) role)) =
      Sum256 (digestInput (descriptionParts (gatewayOnly j) role')) \<Longrightarrow>
    digestInput (descriptionParts (gatewayOnly i) role) =
      digestInput (descriptionParts (gatewayOnly j) role')"
  shows "MatchesGatewayDescription i (GatewayDescription j role') role \<longleftrightarrow>
    ClusterID i = ClusterID j \<and> Controller i = Controller j \<and>
    OpenStackProjectID i = OpenStackProjectID j \<and> GatewayNamespace i = GatewayNamespace j \<and>
    GatewayName i = GatewayName j \<and> GatewayUID i = GatewayUID j \<and> role = role'"
    (is "?m \<longleftrightarrow> ?same")
proof
  assume ?m
  then have "Sum256 (digestInput (descriptionParts (gatewayOnly i) role)) =
      Sum256 (digestInput (descriptionParts (gatewayOnly j) role'))"
    by (intro description_prefix_digest)
      (simp add: MatchesGatewayDescription_def MatchesDescription_def GatewayDescription_def)
  then have "descriptionParts (gatewayOnly i) role = descriptionParts (gatewayOnly j) role'"
    using assms digestInput_inject by blast
  then show ?same by (simp add: descriptionParts_def gatewayOnly_def)
next
  assume ?same
  then have "description (gatewayOnly i) [] role True True = description (gatewayOnly j) [] role' True True"
    by (simp add: description_eq descriptionParts_def gatewayOnly_def)
  then show ?m
    using Description_prefix [of "gatewayOnly j" role']
    by (auto simp: MatchesGatewayDescription_def MatchesDescription_def GatewayDescription_def
        HasPrefix_iff)
qed

theorem description_match_isolates_witness:
  "MatchesGatewayDescription sampleIdentity
     (GatewayDescription (sampleIdentity\<lparr>ControllerVersion := ''v2'', RouteName := []\<rparr>) RoleFloatingIP)
     RoleFloatingIP"
  using description_match_isolates [of sampleIdentity RoleFloatingIP
      "sampleIdentity\<lparr>ControllerVersion := ''v2'', RouteName := []\<rparr>" RoleFloatingIP]
  by (simp add: descriptionParts_def gatewayOnly_def del: digestInput_Cons)

end
