(* ===== verification/ApiErrors.thy ===== *)
theory ApiErrors
  imports Cloud
begin

text \<open>
  The package internal/cloud/openstack/apierrors (classify.go): the translation of Gophercloud,
  OpenStack and transport failures into the categories the controllers act on. Every exported
  operation of the resource graph passes its error through \<open>Classify\<close>.

  The lemmas show that classification is idempotent, never replaces a category an error already
  carries, terminates on nested reauthentication errors, and treats the HTTP statuses as the
  adapter documents them: 404 and 409 stay unclassified on reads, a 409 on an Octavia mutation is
  retryable.
\<close>

section \<open>Looking into an error\<close>

definition asType :: "(go_error \<Rightarrow> 'a option) \<Rightarrow> go_error \<Rightarrow> 'a option" where
  "asType f e = firstSome f (errorChain e)"

text \<open>
  errors.As for a value type, then for the pointer type: the second attempt stops at the first
  pointer in the chain, which counts only if it is not nil.
\<close>

definition asValueOrPointer ::
  "(go_error \<Rightarrow> 'a option) \<Rightarrow> (go_error \<Rightarrow> 'a option option) \<Rightarrow> go_error \<Rightarrow> 'a option" where
  "asValueOrPointer val ptr e =
     (case asType val e of Some x \<Rightarrow> Some x | None \<Rightarrow> Option.bind (asType ptr e) (\<lambda>p. p))"

fun responseValue :: "go_error \<Rightarrow> (int \<times> json option) option" where
  "responseValue (ErrUnexpectedResponseCode status body) = Some (status, body)"
| "responseValue _ = None"

fun responsePointer :: "go_error \<Rightarrow> (int \<times> json option) option option" where
  "responsePointer (ErrUnexpectedResponseCodePtr p) = Some p"
| "responsePointer _ = None"

fun afterValue :: "go_error \<Rightarrow> go_error option" where
  "afterValue (ErrErrorAfterReauthentication original) = Some original"
| "afterValue _ = None"

fun afterPointer :: "go_error \<Rightarrow> go_error option option" where
  "afterPointer (ErrErrorAfterReauthenticationPtr p) = Some p"
| "afterPointer _ = None"

fun unableValue :: "go_error \<Rightarrow> go_error option" where
  "unableValue (ErrUnableToReauthenticate original reauth) = Some reauth"
| "unableValue _ = None"

fun unablePointer :: "go_error \<Rightarrow> go_error option option" where
  "unablePointer (ErrUnableToReauthenticatePtr p) = Some (map_option snd p)"
| "unablePointer _ = None"

definition errorAfterReauthentication :: "go_error \<Rightarrow> go_error option" where
  "errorAfterReauthentication = asValueOrPointer afterValue afterPointer"

definition reauthenticationFailure :: "go_error \<Rightarrow> go_error option" where
  "reauthenticationFailure = asValueOrPointer unableValue unablePointer"

definition isGophercloudTimeout :: "go_error \<Rightarrow> bool" where
  "isGophercloudTimeout e \<longleftrightarrow> asValueOrPointer
     (\<lambda>x. case x of ErrTimeOut \<Rightarrow> Some () | _ \<Rightarrow> None)
     (\<lambda>x. case x of ErrTimeOutPtr present \<Rightarrow> Some (if present then Some () else None) | _ \<Rightarrow> None) e
     \<noteq> None"

definition isInvalidGophercloudInput :: "go_error \<Rightarrow> bool" where
  "isInvalidGophercloudInput e \<longleftrightarrow>
     asValueOrPointer
       (\<lambda>x. case x of ErrInvalidInput \<Rightarrow> Some () | _ \<Rightarrow> None)
       (\<lambda>x. case x of ErrInvalidInputPtr present \<Rightarrow> Some (if present then Some () else None) | _ \<Rightarrow> None) e
       \<noteq> None \<or>
     list_ex (\<lambda>x. x = ErrMissingInput) (errorChain e) \<or>
     list_ex (\<lambda>x. x = ErrServiceNotFound) (errorChain e) \<or>
     list_ex (\<lambda>x. x = ErrEndpointNotFound) (errorChain e) \<or>
     list_ex (\<lambda>x. x = OpenStackErrEndpointNotFound) (errorChain e)"

text \<open>The Timeout method of the net.Error implementations.\<close>

fun netTimeout :: "go_error \<Rightarrow> bool" where
  "netTimeout (DNSError _ timeout) = timeout"
| "netTimeout (OpError timeout _) = timeout"
| "netTimeout (UrlError e) = netTimeout e"
| "netTimeout DeadlineExceeded = True"
| "netTimeout _ = False"

fun networkError :: "go_error \<Rightarrow> bool option" where
  "networkError (DNSError n t) = Some (netTimeout (DNSError n t))"
| "networkError (OpError t e) = Some (netTimeout (OpError t e))"
| "networkError (UrlError e) = Some (netTimeout (UrlError e))"
| "networkError DeadlineExceeded = Some True"
| "networkError _ = None"

definition urlErrorCategory :: "go_error \<Rightarrow> ErrorCategory option" where
  "urlErrorCategory e =
     (if asType (\<lambda>x. case x of UrlError u \<Rightarrow> Some () | _ \<Rightarrow> None) e \<noteq> None
      then Some TerminalValidation else None)"

definition transportErrorCategory :: "go_error \<Rightarrow> ErrorCategory option" where
  "transportErrorCategory e =
     (if list_ex (\<lambda>x. x = EOF) (errorChain e) \<or> list_ex (\<lambda>x. x = UnexpectedEOF) (errorChain e)
      then Some RetryableService
      else if list_ex (\<lambda>x. x = UnknownAuthorityError) (errorChain e) then Some TerminalValidation
      else if list_ex (\<lambda>x. x = HostnameError) (errorChain e) then Some TerminalValidation
      else if list_ex (\<lambda>x. x = CertificateInvalidError) (errorChain e) then Some TerminalValidation
      else case asType networkError e of
          None \<Rightarrow> urlErrorCategory e
        | Some timeout \<Rightarrow>
            if timeout then Some Timeout
            else case asType (\<lambda>x. case x of DNSError notFound _ \<Rightarrow> Some notFound | _ \<Rightarrow> None) e of
                Some notFound \<Rightarrow> Some (if notFound then TerminalValidation else RetryableService)
              | None \<Rightarrow>
                  if asType (\<lambda>x. case x of OpError _ _ \<Rightarrow> Some () | _ \<Rightarrow> None) e \<noteq> None
                  then Some RetryableService
                  else urlErrorCategory e)"

section \<open>Neutron quota faults\<close>

definition asciiLower :: "char \<Rightarrow> char" where
  "asciiLower c = (if 65 \<le> (of_char c :: nat) \<and> (of_char c :: nat) \<le> 90
     then char_of ((of_char c :: nat) + 32) else c)"

definition equalFold :: "string \<Rightarrow> string \<Rightarrow> bool" where
  "equalFold s t \<longleftrightarrow> map asciiLower s = map asciiLower t"

text \<open>
  json.Unmarshal into the fault structure: a field is found by a case-insensitive key, a later
  duplicate overwrites an earlier one, null leaves a string alone and clears a pointer, and a value
  of another kind is an error. The accumulator is the NeutronError pointer; the boolean of the
  result says whether an error was met.
\<close>

fun unmarshalType :: "(string \<times> json) list \<Rightarrow> string \<Rightarrow> bool \<Rightarrow> string \<times> bool" where
  "unmarshalType [] ty failed = (ty, failed)"
| "unmarshalType ((k, v) # rest) ty failed =
     (if equalFold k ''type'' then
        (case v of
           JString s \<Rightarrow> unmarshalType rest s failed
         | JNull \<Rightarrow> unmarshalType rest ty failed
         | _ \<Rightarrow> unmarshalType rest ty True)
      else unmarshalType rest ty failed)"

fun unmarshalFault :: "(string \<times> json) list \<Rightarrow> string option \<Rightarrow> bool \<Rightarrow> string option \<times> bool" where
  "unmarshalFault [] fault failed = (fault, failed)"
| "unmarshalFault ((k, v) # rest) fault failed =
     (if equalFold k ''NeutronError'' then
        (case v of
           JObject kvs \<Rightarrow>
             (case unmarshalType kvs (case fault of Some ty \<Rightarrow> ty | None \<Rightarrow> []) failed of
                (ty, failed') \<Rightarrow> unmarshalFault rest (Some ty) failed')
         | JNull \<Rightarrow> unmarshalFault rest None failed
         | _ \<Rightarrow> unmarshalFault rest fault True)
      else unmarshalFault rest fault failed)"

definition isNeutronQuotaResponse :: "json option \<Rightarrow> bool" where
  "isNeutronQuotaResponse body = (case body of
      Some (JObject kvs) \<Rightarrow>
        (case unmarshalFault kvs None False of
           (Some ty, False) \<Rightarrow> equalFold (TrimSpace ty) ''OverQuota''
         | _ \<Rightarrow> False)
    | _ \<Rightarrow> False)"

definition categoryForResponse :: "int \<Rightarrow> json option \<Rightarrow> ErrorCategory option" where
  "categoryForResponse status body =
     (if (status = 403 \<or> status = 409) \<and> isNeutronQuotaResponse body then Some Quota
      else if status = 401 then Some Authentication
      else if status = 403 then Some Authorization
      else if status = 404 then None
      else if status = 408 \<or> status = 504 then Some Timeout
      else if status = 409 \<or> status = 412 then None
      else if status = 413 then Some Quota
      else if status = 429 \<or> status = 498 then Some RateLimit
      else if status \<in> {400, 405, 406, 415, 422, 501, 505} then Some TerminalValidation
      else if status \<in> {500, 502, 503} then Some RetryableService
      else None)"

section \<open>Recursion into reauthentication errors\<close>

lemma size_member_le: "x \<in> set xs \<Longrightarrow> size x \<le> size_list size xs"
  by (simp add: size_list_estimation')

lemma errorChain_size: "x \<in> set (errorChain e) \<Longrightarrow> size x \<le> size e"
proof (induction e rule: errorChain.induct)
  case (2 es)
  then show ?case using size_member_le by fastforce
qed auto

lemma asType_member: "asType f e = Some y \<Longrightarrow> \<exists>x \<in> set (errorChain e). f x = Some y"
  by (auto simp: asType_def dest: firstSome_Some)

lemma asValueOrPointer_member:
  "asValueOrPointer val ptr e = Some y \<Longrightarrow>
     \<exists>x \<in> set (errorChain e). val x = Some y \<or> ptr x = Some (Some y)"
  by (fastforce simp: asValueOrPointer_def bind_eq_Some_conv dest: asType_member split: option.splits)

lemma after_size: "errorAfterReauthentication e = Some original \<Longrightarrow> size original < size e"
proof -
  assume "errorAfterReauthentication e = Some original"
  then obtain x where "x \<in> set (errorChain e)" "afterValue x = Some original \<or> afterPointer x = Some (Some original)"
    by (auto simp: errorAfterReauthentication_def dest!: asValueOrPointer_member)
  moreover from this(2) have "size original < size x"
    by (cases x) auto
  ultimately show ?thesis using errorChain_size by fastforce
qed

lemma reauth_size: "reauthenticationFailure e = Some reauth \<Longrightarrow> size reauth < size e"
proof -
  assume "reauthenticationFailure e = Some reauth"
  then obtain x where "x \<in> set (errorChain e)" "unableValue x = Some reauth \<or> unablePointer x = Some (Some reauth)"
    by (auto simp: reauthenticationFailure_def dest!: asValueOrPointer_member)
  moreover from this(2) have "size reauth < size x"
    by (cases x) auto
  ultimately show ?thesis using errorChain_size by fastforce
qed

function openStackResponse :: "go_error \<Rightarrow> (int \<times> json option) option" where
  "openStackResponse e =
     (case asValueOrPointer responseValue responsePointer e of
        Some r \<Rightarrow> Some r
      | None \<Rightarrow> (case errorAfterReauthentication e of
            Some original \<Rightarrow> openStackResponse original
          | None \<Rightarrow> None))"
  by pat_completeness auto
termination by (relation "measure size") (auto dest: after_size)

definition classifyWrappedOpenStackError :: "go_error \<Rightarrow> go_error \<Rightarrow> go_error \<Rightarrow> go_error" where
  "classifyWrappedOpenStackError wrapper cause classified =
     (case ErrorCategoryOf classified of
        None \<Rightarrow> wrapper
      | Some c \<Rightarrow> NewProviderError c (Joined [wrapper, cause]))"

function Classify :: "go_error \<Rightarrow> go_error" where
  "Classify e =
     (if ErrorCategoryOf e \<noteq> None then e
      else if list_ex (\<lambda>x. x = ContextCanceled) (errorChain e) then e
      else if list_ex (\<lambda>x. x = DeadlineExceeded) (errorChain e) \<or> isGophercloudTimeout e
      then NewProviderError Timeout e
      else case errorAfterReauthentication e of
          Some original \<Rightarrow> classifyWrappedOpenStackError e original (Classify original)
        | None \<Rightarrow> (case reauthenticationFailure e of
              Some reauth \<Rightarrow>
                (let category = ErrorCategoryOf (Classify reauth)
                 in if category \<in> {Some Timeout, Some RateLimit, Some RetryableService}
                    then NewProviderError (the category) (Joined [e, reauth])
                    else NewProviderError Authentication (Joined [e, reauth]))
            | None \<Rightarrow> (case openStackResponse e of
                  Some (status, body) \<Rightarrow>
                    (case categoryForResponse status body of
                       None \<Rightarrow> e
                     | Some c \<Rightarrow> NewProviderError c e)
                | None \<Rightarrow>
                    if isInvalidGophercloudInput e then NewProviderError TerminalValidation e
                    else case transportErrorCategory e of
                        Some c \<Rightarrow> NewProviderError c e
                      | None \<Rightarrow> e)))"
  by pat_completeness auto
termination by (relation "measure size") (auto dest: after_size reauth_size)

definition ClassifyOctaviaMutation :: "go_error \<Rightarrow> go_error" where
  "ClassifyOctaviaMutation e = (case openStackResponse e of
      Some (status, _) \<Rightarrow> if status = 409 then NewProviderError RetryableService e else e
    | None \<Rightarrow> e)"

declare openStackResponse.simps [simp del] Classify.simps [simp del]

section \<open>Properties of the classification\<close>

lemma Classify_shape: "Classify e = e \<or> (\<exists>c x. Classify e = NewProviderError c x)"
  by (subst (1 2) Classify.simps)
    (auto simp: Let_def classifyWrappedOpenStackError_def split: option.splits)

lemma Classify_categorised: "ErrorCategoryOf e = Some c \<Longrightarrow> Classify e = e"
  by (subst Classify.simps) simp

text \<open>Classifying twice is classifying once, and an error that already carries a category is left as it is.\<close>

theorem Classify_idempotent:
  "Classify (Classify e) = Classify e \<and>
   (case ErrorCategoryOf e of Some c \<Rightarrow> Classify e = e | None \<Rightarrow> True)"
  using Classify_shape [of e] Classify_categorised [of "Classify e"] Classify_categorised [of e]
  by (auto simp del: category_of_wrapped split: option.split) (metis category_of_wrapped(3))

lemma response_chain [simp]:
  "openStackResponse (ErrUnexpectedResponseCode status body) = Some (status, body)"
  by (subst openStackResponse.simps) (simp add: asValueOrPointer_def asType_def)

lemma asValueOrPointer_Wrapf:
  "val (Wrapf e) = None \<Longrightarrow> ptr (Wrapf e) = None \<Longrightarrow>
     asValueOrPointer val ptr (Wrapf e) = asValueOrPointer val ptr e"
  unfolding asValueOrPointer_def asType_def by (simp split: option.split)

lemma look_through_Wrapf [simp]:
  "errorAfterReauthentication (Wrapf e) = errorAfterReauthentication e"
  "reauthenticationFailure (Wrapf e) = reauthenticationFailure e"
  "isGophercloudTimeout (Wrapf e) = isGophercloudTimeout e"
  by (simp_all add: errorAfterReauthentication_def reauthenticationFailure_def
      isGophercloudTimeout_def asValueOrPointer_Wrapf)

lemma response_Wrapf [simp]: "openStackResponse (Wrapf e) = openStackResponse e"
  unfolding openStackResponse.simps [of "Wrapf e"] openStackResponse.simps [of e]
  by (simp add: asValueOrPointer_Wrapf split: option.split)

lemma plain_response_unwrapped:
  "isGophercloudTimeout (ErrUnexpectedResponseCode status body) = False"
  "errorAfterReauthentication (ErrUnexpectedResponseCode status body) = None"
  "reauthenticationFailure (ErrUnexpectedResponseCode status body) = None"
  "ErrorCategoryOf (ErrUnexpectedResponseCode status body) = None"
  by (simp_all add: isGophercloudTimeout_def asValueOrPointer_def asType_def
      errorAfterReauthentication_def reauthenticationFailure_def ErrorCategoryOf_def)

fun wraps :: "nat \<Rightarrow> go_error \<Rightarrow> go_error" where
  "wraps 0 e = e"
| "wraps (Suc n) e = Wrapf (wraps n e)"

lemma wraps_look_through:
  "ErrorCategoryOf (wraps n e) = ErrorCategoryOf e"
  "openStackResponse (wraps n e) = openStackResponse e"
  "errorAfterReauthentication (wraps n e) = errorAfterReauthentication e"
  "reauthenticationFailure (wraps n e) = reauthenticationFailure e"
  "isGophercloudTimeout (wraps n e) = isGophercloudTimeout e"
  by (induction n) simp_all

lemma wraps_chain: "set (errorChain (wraps n e)) \<subseteq> range Wrapf \<union> set (errorChain e)"
  by (induction n) auto

text \<open>The status of a failed request decides its category however often the error is wrapped: the
  categorised error has exactly the category that categoryForResponse gives, and where it gives none
  (404, 409 and 412 among them) the error stays as it is.\<close>

theorem Classify_response:
  "Classify (wraps n (ErrUnexpectedResponseCode status body)) =
     (case categoryForResponse status body of
        None \<Rightarrow> wraps n (ErrUnexpectedResponseCode status body)
      | Some c \<Rightarrow> NewProviderError c (wraps n (ErrUnexpectedResponseCode status body)))"
proof -
  let ?r = "ErrUnexpectedResponseCode status body"
  have "ContextCanceled \<notin> set (errorChain (wraps n ?r))" "DeadlineExceeded \<notin> set (errorChain (wraps n ?r))"
    using wraps_chain [of n ?r] by auto
  then show ?thesis
    by (subst Classify.simps)
      (auto simp: wraps_look_through plain_response_unwrapped list_ex_iff split: option.splits)
qed

text \<open>The error of an Octavia mutation that was answered with 409 is retryable for the controllers,
  while the same answer to a read is left unclassified.\<close>

theorem conflict_is_retryable_on_mutation:
  "ErrorCategoryOf (Classify (Wrapf (ClassifyOctaviaMutation
      (wraps n (ErrUnexpectedResponseCode 409 None))))) = Some RetryableService
   \<and> ErrorCategoryOf (Classify (wraps n (ErrUnexpectedResponseCode 409 None))) = None"
proof -
  have "ClassifyOctaviaMutation (wraps n (ErrUnexpectedResponseCode 409 None)) =
      NewProviderError RetryableService (wraps n (ErrUnexpectedResponseCode 409 None))"
    by (simp add: ClassifyOctaviaMutation_def wraps_look_through)
  then show ?thesis
    by (simp add: Classify_response Classify_categorised [where c = RetryableService]
        categoryForResponse_def isNeutronQuotaResponse_def wraps_look_through plain_response_unwrapped)
qed

end
