(* ===== verification/GraphProvider.thy ===== *)
theory GraphProvider
  imports Services Metadata ApiErrors
begin

text \<open>
  The shared parts of the package internal/cloud/openstack/graph: the provider and its project
  checks (provider.go), the observation of a load balancer (loadbalancer\_status.go) and the
  lookups of a Gateway's load balancer, listener and Floating IPs that the operations on Gateways
  and routes have in common (delete.go, gateway.go).

  The parameter \<open>g\<close> is the Gophercloud client. A deadline set by operationContext shows in the
  answers of the client and has no other effect on the code.
\<close>

section \<open>The provider\<close>

record ProviderConfig =
  cfg_OperationTimeout :: int
  cfg_PollInterval :: int

record Provider =
  pv_projectID :: string
  pv_operationTimeout :: int
  pv_pollInterval :: int

definition NewProvider :: "string \<Rightarrow> ProviderConfig \<Rightarrow> Provider" where
  "NewProvider clientsProjectID cfg =
     \<lparr>pv_projectID = clientsProjectID,
      pv_operationTimeout = (if cfg_OperationTimeout cfg \<le> 0 then 10 * 60 * 1000000000
        else cfg_OperationTimeout cfg),
      pv_pollInterval = (if cfg_PollInterval cfg \<le> 0 then 2 * 1000000000 else cfg_PollInterval cfg)\<rparr>"

definition identity :: "Provider \<Rightarrow> Identity \<Rightarrow> Identity result" where
  "identity p i =
     (if TrimSpace (pv_projectID p) = [] then Inl Errorf
      else if TrimSpace (OpenStackProjectID i) = [] then Inl Errorf
      else if OpenStackProjectID i \<noteq> pv_projectID p then Inl conflict
      else NewIdentity i)"

definition validateLoadBalancerProject :: "Provider \<Rightarrow> string \<Rightarrow> unit result" where
  "validateLoadBalancerProject p project = guardE (project = pv_projectID p) conflict"

definition validateFloatingIPProject :: "Provider \<Rightarrow> string \<Rightarrow> string \<Rightarrow> unit result" where
  "validateFloatingIPProject p project tenant =
     guardE ((if project = [] then tenant else project) = pv_projectID p) conflict"

definition validateOptionalProject :: "Provider \<Rightarrow> string \<Rightarrow> unit result" where
  "validateOptionalProject p project = guardE (\<not> (project \<noteq> [] \<and> project \<noteq> pv_projectID p)) conflict"

definition isNotFound :: "('w, 'p) gophercloud \<Rightarrow> go_error \<Rightarrow> bool" where
  "isNotFound g e = ResponseCodeIs g e 404"

definition progressingOutcome :: "Provider \<Rightarrow> string \<Rightarrow> Outcome" where
  "progressingOutcome p message = ProgressingOutcome message (pv_pollInterval p)"

text \<open>A deletion whose target is already gone has succeeded.\<close>

definition ignoreNotFound :: "('w, 'p) gophercloud \<Rightarrow> (go_error \<Rightarrow> go_error) \<Rightarrow> unit result \<Rightarrow> unit result" where
  "ignoreNotFound g wrap r = (case r of
      Inl e \<Rightarrow> if \<not> isNotFound g e then Inl (wrap e) else Inr ()
    | Inr u \<Rightarrow> Inr u)"

section \<open>Resource names\<close>

definition validNameByte :: "char \<Rightarrow> bool" where
  "validNameByte c \<longleftrightarrow> (let b = (of_char c :: nat) in
     (65 \<le> b \<and> b \<le> 90) \<or> (97 \<le> b \<and> b \<le> 122) \<or> (48 \<le> b \<and> b \<le> 57) \<or> b = 45)"

text \<open>ReplaceAllString of the runs matched by \<^verbatim>\<open>[^A-Za-z0-9-]+\<close>; the flag says that a run is open.\<close>

fun replaceInvalid :: "bool \<Rightarrow> string \<Rightarrow> string" where
  "replaceInvalid inRun [] = []"
| "replaceInvalid inRun (c # cs) =
     (if validNameByte c then c # replaceInvalid False cs
      else if inRun then replaceInvalid True cs
      else CHR ''-'' # replaceInvalid True cs)"

definition resourceName :: "Identity \<Rightarrow> string \<Rightarrow> string" where
  "resourceName i role =
     (let name = ''gateway-api-openstack'' @ ''-'' @ GatewayNamespace i @ ''-'' @ GatewayName i @ ''-'' @ role;
          name = replaceInvalid False name
      in if length name > 200 then take 200 name else name)"

section \<open>Observing a load balancer\<close>

datatype loadBalancerPhase =
    loadBalancerPhaseActive
  | loadBalancerPhasePending
  | loadBalancerPhaseAbsent

record loadBalancerObservation =
  ob_loadBalancer :: "LoadBalancer option"
  ob_phase :: loadBalancerPhase
  ob_outcome :: Outcome

definition unsetOutcome :: Outcome where
  "unsetOutcome = \<lparr>o_State = OutcomeUnset, o_Message = [], o_RequeueAfter = 0\<rparr>"

definition observeStatus :: "('w, 'p) gophercloud \<Rightarrow> Provider \<Rightarrow> LoadBalancer result \<Rightarrow> loadBalancerObservation result" where
  "observeStatus g p r = (case r of
      Inl e \<Rightarrow>
        if isNotFound g e
        then Inr \<lparr>ob_loadBalancer = None, ob_phase = loadBalancerPhaseAbsent, ob_outcome = unsetOutcome\<rparr>
        else Inl (Wrapf e)
    | Inr lb \<Rightarrow>
        if lb_ProvisioningStatus lb = ''ACTIVE''
        then Inr \<lparr>ob_loadBalancer = Some lb, ob_phase = loadBalancerPhaseActive, ob_outcome = ReadyOutcome\<rparr>
        else if HasPrefix (lb_ProvisioningStatus lb) ''PENDING_''
        then Inr \<lparr>ob_loadBalancer = Some lb, ob_phase = loadBalancerPhasePending,
          ob_outcome = progressingOutcome p (''Octavia load balancer is '' @ lb_ProvisioningStatus lb)\<rparr>
        else Inl (NewProviderError ResourceFailure Errorf))"

definition observeLoadBalancerOnce :: "('w, 'p) gophercloud \<Rightarrow> Provider \<Rightarrow> string \<Rightarrow> ('w, loadBalancerObservation) io" where
  "observeLoadBalancerOnce g p i = resultIO (observeStatus g p) (GetLoadBalancer g i)"

section \<open>Finding the parts of a Gateway\<close>

definition findGatewayLoadBalancer :: "('w, 'p) gophercloud \<Rightarrow> Provider \<Rightarrow> Identity \<Rightarrow> ('w, LoadBalancer option) io" where
  "findGatewayLoadBalancer g p i =
     bindIO (liftE (GatewayDiscoveryTags i RoleLoadBalancer)) (\<lambda>tags.
     bindIO (mapErrIO Wrapf (ListLoadBalancers g \<lparr>lbl_ProjectID = pv_projectID p, lbl_Tags = tags\<rparr>)) (\<lambda>items.
     liftE (case items of
        [] \<Rightarrow> Inr None
      | [item] \<Rightarrow> bindE (validateLoadBalancerProject p (lb_ProjectID item)) (\<lambda>_. Inr (Some item))
      | _ \<Rightarrow> Inl conflict)))"

text \<open>The children of a load balancer, a listener or a pool, listed in the provider's project.\<close>

definition scopedOpts :: "Provider \<Rightarrow> string \<Rightarrow> ScopedListOpts" where
  "scopedOpts p parent = \<lparr>sl_ParentID = parent, sl_ProjectID = pv_projectID p, sl_Tags = []\<rparr>"

definition acceptListener :: "Provider \<Rightarrow> Identity \<Rightarrow> string \<Rightarrow> Listener \<Rightarrow> Listener option \<Rightarrow> Listener option result" where
  "acceptListener p i loadBalancerID listener owned =
     bindE (validateOptionalProject p (li_ProjectID listener)) (\<lambda>_.
     bindE (guardE (MatchesGatewayDiscovery i (li_Tags listener) RoleListener \<and>
       MatchesGateway i (li_Tags listener) RoleListener) conflict) (\<lambda>_.
     bindE (guardE (owned = None) conflict) (\<lambda>_.
     bindE (foreachE (\<lambda>parent. guardE (parent = loadBalancerID) conflict) (li_Loadbalancers listener)) (\<lambda>_.
     Inr (Some listener)))))"

definition findManagedGatewayListener :: "('w, 'p) gophercloud \<Rightarrow> Provider \<Rightarrow> Identity \<Rightarrow> string \<Rightarrow> ('w, Listener option) io" where
  "findManagedGatewayListener g p i loadBalancerID =
     bindIO (mapErrIO Wrapf (ListListeners g (scopedOpts p loadBalancerID))) (\<lambda>listenerList.
     liftE (foldE (acceptListener p i loadBalancerID) listenerList None))"

definition checkFloatingIP :: "Provider \<Rightarrow> Identity \<Rightarrow> string \<Rightarrow> FloatingIP \<Rightarrow> unit result" where
  "checkFloatingIP p i vipPortID item =
     bindE (validateFloatingIPProject p (fi_ProjectID item) (fi_TenantID item)) (\<lambda>_.
     bindE (guardE (MatchesGatewayDescription i (fi_Description item) RoleFloatingIP) conflict) (\<lambda>_.
     guardE (\<not> (fi_PortID item \<noteq> [] \<and> fi_PortID item \<noteq> vipPortID)) conflict))"

definition listGatewayFloatingIPs :: "('w, 'p) gophercloud \<Rightarrow> Provider \<Rightarrow> Identity \<Rightarrow> string \<Rightarrow> ('w, FloatingIP list) io" where
  "listGatewayFloatingIPs g p i vipPortID =
     bindIO (mapErrIO Wrapf (ListFloatingIPs g \<lparr>fil_PortID = vipPortID, fil_ProjectID = []\<rparr>)) (\<lambda>items.
     bindIO (liftE (foreachE (checkFloatingIP p i vipPortID) items)) (\<lambda>_.
     returnIO (sort_key fi_ID items)))"

definition gatewayFloatingIPReadyForTraffic :: "('w, 'p) gophercloud \<Rightarrow> Provider \<Rightarrow> Identity \<Rightarrow> string \<Rightarrow> string \<Rightarrow> ('w, bool) io" where
  "gatewayFloatingIPReadyForTraffic g p i vipPortID externalNetworkID =
     bindIO (listGatewayFloatingIPs g p i vipPortID) (\<lambda>items.
     liftE (if externalNetworkID = [] then Inr (items = [])
       else case items of
          [] \<Rightarrow> Inr False
        | [item] \<Rightarrow> if fi_FloatingNetworkID item \<noteq> externalNetworkID then Inl conflict else Inr True
        | _ \<Rightarrow> Inl conflict))"

section \<open>Enabling a load balancer and a listener\<close>

definition mutationError :: "go_error \<Rightarrow> go_error" where
  "mutationError e = Wrapf (ClassifyOctaviaMutation e)"

definition enableLoadBalancer :: "('w, 'p) gophercloud \<Rightarrow> string \<Rightarrow> ('w, unit) io" where
  "enableLoadBalancer g loadBalancerID =
     bindIO (mapErrIO mutationError (UpdateLoadBalancer g loadBalancerID (Some True))) (\<lambda>_. returnIO ())"

definition enableListener :: "('w, 'p) gophercloud \<Rightarrow> string \<Rightarrow> ('w, unit) io" where
  "enableListener g listenerID =
     bindIO (mapErrIO mutationError (UpdateListener g listenerID (Some True))) (\<lambda>_. returnIO ())"

section \<open>Facts about the shared parts\<close>

lemma identity_ok:
  "identity p i = Inr j \<longleftrightarrow>
     j = i \<and> TrimSpace (pv_projectID p) \<noteq> [] \<and> OpenStackProjectID i = pv_projectID p \<and>
     isOk (ValidateGatewayIdentity i)"
  by (cases "ValidateGatewayIdentity i") (auto simp: identity_def NewIdentity_def)

lemma replaceInvalid_valid: "\<forall>c \<in> set (replaceInvalid inRun s). validNameByte c"
  by (induction s arbitrary: inRun) (auto simp: validNameByte_def)

text \<open>A resource name built from any namespace, name and role consists of letters, digits and
  hyphens only and has at most 200 bytes.\<close>

theorem resourceName_wellformed:
  "list_all validNameByte (resourceName i role) \<and> length (resourceName i role) \<le> 200"
  using replaceInvalid_valid
  by (auto simp: resourceName_def Let_def list_all_iff dest!: in_set_takeD simp del: replaceInvalid.simps)

end
