(* ===== verification/GatewayPlan.thy ===== *)
theory GatewayPlan
  imports GraphProvider
begin

text \<open>
  gateway\_deletion\_plan.go: the plan that deletes everything below a Gateway's load balancer, in
  reverse dependency order. Building it lists the whole graph and refuses to return any work when one
  listed resource is not owned by the Gateway. EnsureGateway builds the same plan to validate the
  graph before it changes anything.

  The lemmas follow the trace of requests: after the plan has been built every answer that was
  received describes owned resources only (\<open>ownedTrace\<close>), and the first step of the plan deletes a
  resource that was listed and that has no children left (\<open>safeStep\<close>).
\<close>

section \<open>Steps and plans\<close>

datatype gatewayDeletionResource =
    gatewayDeletionL7Rule
  | gatewayDeletionL7Policy
  | gatewayDeletionListener
  | gatewayDeletionMonitor
  | gatewayDeletionMember
  | gatewayDeletionPool

record gatewayDeletionStep =
  ds_resource :: gatewayDeletionResource
  ds_resourceID :: string
  ds_parentID :: string

record gatewayDeletionPlan =
  dp_listeners :: "gatewayDeletionStep list"
  dp_routes :: "gatewayDeletionStep list"
  dp_pools :: "gatewayDeletionStep list"

definition hasRouteResources :: "gatewayDeletionPlan \<Rightarrow> bool" where
  "hasRouteResources plan \<longleftrightarrow> dp_routes plan \<noteq> [] \<or> dp_pools plan \<noteq> []"

definition orderedSteps :: "gatewayDeletionPlan \<Rightarrow> gatewayDeletionStep list" where
  "orderedSteps plan = dp_routes plan @ dp_pools plan @ dp_listeners plan"

definition firstStep :: "gatewayDeletionPlan \<Rightarrow> gatewayDeletionStep option" where
  "firstStep plan = (case orderedSteps plan of [] \<Rightarrow> None | step # _ \<Rightarrow> Some step)"

definition matchesAnyGatewayRole :: "Identity \<Rightarrow> string list \<Rightarrow> string list \<Rightarrow> bool" where
  "matchesAnyGatewayRole i tags roles = list_ex (MatchesGateway i tags) roles"

section \<open>Validation of the listed resources\<close>

definition checkDeletionListener :: "Provider \<Rightarrow> Identity \<Rightarrow> string \<Rightarrow> Listener \<Rightarrow> unit result" where
  "checkDeletionListener p i loadBalancerID listener =
     bindE (validateOptionalProject p (li_ProjectID listener)) (\<lambda>_.
     bindE (guardE (MatchesGateway i (li_Tags listener) RoleListener) conflict) (\<lambda>_.
     foreachE (\<lambda>parent. guardE (parent = loadBalancerID) conflict) (li_Loadbalancers listener)))"

definition checkDeletionPolicy :: "Provider \<Rightarrow> Identity \<Rightarrow> string \<Rightarrow> L7Policy \<Rightarrow> unit result" where
  "checkDeletionPolicy p i listenerID policy =
     bindE (validateOptionalProject p (pl_ProjectID policy)) (\<lambda>_.
     bindE (guardE (matchesAnyGatewayRole i (pl_Tags policy) [RolePolicyExact, RolePolicyPrefix]) conflict) (\<lambda>_.
     guardE (\<not> (pl_ListenerID policy \<noteq> [] \<and> pl_ListenerID policy \<noteq> listenerID)) conflict))"

definition checkDeletionRule :: "Provider \<Rightarrow> Identity \<Rightarrow> L7Rule \<Rightarrow> unit result" where
  "checkDeletionRule p i rule =
     bindE (validateOptionalProject p (ru_ProjectID rule)) (\<lambda>_.
     guardE (matchesAnyGatewayRole i (ru_Tags rule) [RoleRulePath, RoleRuleHost]) conflict)"

definition validateGatewayDeletionPool :: "Provider \<Rightarrow> Identity \<Rightarrow> Pool \<Rightarrow> string \<Rightarrow> unit result" where
  "validateGatewayDeletionPool p i pool loadBalancerID =
     bindE (validateOptionalProject p (po_ProjectID pool)) (\<lambda>_.
     bindE (guardE (MatchesGateway i (po_Tags pool) RolePool) conflict) (\<lambda>_.
     foreachE (\<lambda>parent. guardE (parent = loadBalancerID) conflict) (po_Loadbalancers pool)))"

definition checkDeletionMonitor :: "Provider \<Rightarrow> Identity \<Rightarrow> string \<Rightarrow> Monitor \<Rightarrow> unit result" where
  "checkDeletionMonitor p i poolID monitor =
     bindE (validateOptionalProject p (mo_ProjectID monitor)) (\<lambda>_.
     bindE (guardE (MatchesGateway i (mo_Tags monitor) RoleMonitor) conflict) (\<lambda>_.
     foreachE (\<lambda>parent. guardE (parent = poolID) conflict) (mo_Pools monitor)))"

definition checkDeletionMember :: "Provider \<Rightarrow> Identity \<Rightarrow> string \<Rightarrow> PoolMember \<Rightarrow> unit result" where
  "checkDeletionMember p i poolID member =
     bindE (validateOptionalProject p (me_ProjectID member)) (\<lambda>_.
     bindE (guardE (MatchesGateway i (me_Tags member) RoleMember) conflict) (\<lambda>_.
     guardE (\<not> (me_PoolID member \<noteq> [] \<and> me_PoolID member \<noteq> poolID)) conflict))"

section \<open>Building the plan\<close>

definition deletionStep :: "gatewayDeletionResource \<Rightarrow> string \<Rightarrow> string \<Rightarrow> gatewayDeletionStep" where
  "deletionStep resource i parent =
     \<lparr>ds_resource = resource, ds_resourceID = i, ds_parentID = parent\<rparr>"

definition policyOpts :: "Provider \<Rightarrow> string \<Rightarrow> PolicyListOpts" where
  "policyOpts p listenerID = \<lparr>pll_ListenerID = listenerID, pll_ProjectID = pv_projectID p\<rparr>"

definition addPolicySteps :: "('w, 'p) gophercloud \<Rightarrow> Provider \<Rightarrow> Identity \<Rightarrow> string \<Rightarrow> L7Policy \<Rightarrow>
    gatewayDeletionStep list \<Rightarrow> ('w, gatewayDeletionStep list) io" where
  "addPolicySteps g p i listenerID policy plan =
     bindIO (liftE (checkDeletionPolicy p i listenerID policy)) (\<lambda>_.
     bindIO (mapErrIO Wrapf (ListRules g (pl_ID policy) (pv_projectID p))) (\<lambda>ruleList.
     bindIO (liftE (foreachE (checkDeletionRule p i) (sort_key ru_ID ruleList))) (\<lambda>_.
     returnIO (plan @
       map (\<lambda>rule. deletionStep gatewayDeletionL7Rule (ru_ID rule) (pl_ID policy)) (sort_key ru_ID ruleList) @
       [deletionStep gatewayDeletionL7Policy (pl_ID policy) []]))))"

definition buildGatewayRouteDeletionPlan :: "('w, 'p) gophercloud \<Rightarrow> Provider \<Rightarrow> Identity \<Rightarrow> string \<Rightarrow>
    ('w, gatewayDeletionStep list) io" where
  "buildGatewayRouteDeletionPlan g p i listenerID =
     bindIO (mapErrIO Wrapf (ListPolicies g (policyOpts p listenerID))) (\<lambda>policyList.
     foldIO (addPolicySteps g p i listenerID)
       (sort_key (\<lambda>policy. (pl_Position policy, pl_ID policy)) policyList) [])"

definition addListenerSteps :: "('w, 'p) gophercloud \<Rightarrow> Provider \<Rightarrow> Identity \<Rightarrow> string \<Rightarrow> Listener \<Rightarrow>
    gatewayDeletionStep list \<times> gatewayDeletionStep list \<Rightarrow>
    ('w, gatewayDeletionStep list \<times> gatewayDeletionStep list) io" where
  "addListenerSteps g p i loadBalancerID listener plans =
     bindIO (liftE (checkDeletionListener p i loadBalancerID listener)) (\<lambda>_.
     bindIO (buildGatewayRouteDeletionPlan g p i (li_ID listener)) (\<lambda>listenerRoutePlan.
     returnIO (fst plans @ [deletionStep gatewayDeletionListener (li_ID listener) []],
       snd plans @ listenerRoutePlan)))"

definition buildGatewayListenerDeletionPlans :: "('w, 'p) gophercloud \<Rightarrow> Provider \<Rightarrow> Identity \<Rightarrow> string \<Rightarrow>
    ('w, gatewayDeletionStep list \<times> gatewayDeletionStep list) io" where
  "buildGatewayListenerDeletionPlans g p i loadBalancerID =
     bindIO (mapErrIO Wrapf (ListListeners g (scopedOpts p loadBalancerID))) (\<lambda>listenerList.
     foldIO (addListenerSteps g p i loadBalancerID) (sort_key li_ID listenerList) ([], []))"

definition buildGatewayMonitorDeletionPlan :: "('w, 'p) gophercloud \<Rightarrow> Provider \<Rightarrow> Identity \<Rightarrow> string \<Rightarrow>
    ('w, gatewayDeletionStep list) io" where
  "buildGatewayMonitorDeletionPlan g p i poolID =
     bindIO (mapErrIO Wrapf (ListMonitors g (scopedOpts p poolID))) (\<lambda>monitorList.
     bindIO (liftE (foreachE (checkDeletionMonitor p i poolID) (sort_key mo_ID monitorList))) (\<lambda>_.
     returnIO (map (\<lambda>monitor. deletionStep gatewayDeletionMonitor (mo_ID monitor) poolID)
       (sort_key mo_ID monitorList))))"

definition memberOrder :: "PoolMember \<Rightarrow> string \<times> int \<times> string" where
  "memberOrder member = (me_Address member, me_ProtocolPort member, me_ID member)"

definition buildGatewayMemberDeletionPlan :: "('w, 'p) gophercloud \<Rightarrow> Provider \<Rightarrow> Identity \<Rightarrow> string \<Rightarrow>
    ('w, gatewayDeletionStep list) io" where
  "buildGatewayMemberDeletionPlan g p i poolID =
     bindIO (mapErrIO Wrapf (ListMembers g poolID (pv_projectID p))) (\<lambda>memberList.
     bindIO (liftE (foreachE (checkDeletionMember p i poolID) (sort_key memberOrder memberList))) (\<lambda>_.
     returnIO (map (\<lambda>member. deletionStep gatewayDeletionMember (me_ID member) poolID)
       (sort_key memberOrder memberList))))"

definition buildGatewayPoolSubtreeDeletionPlan :: "('w, 'p) gophercloud \<Rightarrow> Provider \<Rightarrow> Identity \<Rightarrow> string \<Rightarrow>
    ('w, gatewayDeletionStep list) io" where
  "buildGatewayPoolSubtreeDeletionPlan g p i poolID =
     bindIO (buildGatewayMonitorDeletionPlan g p i poolID) (\<lambda>monitorPlan.
     bindIO (buildGatewayMemberDeletionPlan g p i poolID) (\<lambda>memberPlan.
     returnIO (monitorPlan @ memberPlan @ [deletionStep gatewayDeletionPool poolID []])))"

definition addPoolSteps :: "('w, 'p) gophercloud \<Rightarrow> Provider \<Rightarrow> Identity \<Rightarrow> string \<Rightarrow> Pool \<Rightarrow>
    gatewayDeletionStep list \<Rightarrow> ('w, gatewayDeletionStep list) io" where
  "addPoolSteps g p i loadBalancerID pool plan =
     bindIO (liftE (validateGatewayDeletionPool p i pool loadBalancerID)) (\<lambda>_.
     bindIO (buildGatewayPoolSubtreeDeletionPlan g p i (po_ID pool)) (\<lambda>subtree.
     returnIO (plan @ subtree)))"

definition buildGatewayPoolDeletionPlan :: "('w, 'p) gophercloud \<Rightarrow> Provider \<Rightarrow> Identity \<Rightarrow> string \<Rightarrow>
    ('w, gatewayDeletionStep list) io" where
  "buildGatewayPoolDeletionPlan g p i loadBalancerID =
     bindIO (mapErrIO Wrapf (ListPools g (scopedOpts p loadBalancerID))) (\<lambda>poolList.
     foldIO (addPoolSteps g p i loadBalancerID) (sort_key po_ID poolList) [])"

definition buildGatewayDeletionPlan :: "('w, 'p) gophercloud \<Rightarrow> Provider \<Rightarrow> Identity \<Rightarrow> string \<Rightarrow>
    ('w, gatewayDeletionPlan) io" where
  "buildGatewayDeletionPlan g p i loadBalancerID =
     bindIO (buildGatewayListenerDeletionPlans g p i loadBalancerID) (\<lambda>(listenerPlan, routePlan).
     bindIO (buildGatewayPoolDeletionPlan g p i loadBalancerID) (\<lambda>poolPlan.
     returnIO \<lparr>dp_listeners = listenerPlan, dp_routes = routePlan, dp_pools = poolPlan\<rparr>))"

lemma parent_simps [simp]:
  "sl_ParentID (scopedOpts p parent) = parent" "pll_ListenerID (policyOpts p parent) = parent"
  by (simp_all add: scopedOpts_def policyOpts_def)

section \<open>Owned answers\<close>

text \<open>
  An answer is owned when every resource it describes carries the complete identity of the Gateway in
  its role, lies in the provider's project as far as the service reports one, and is a child of the
  resource it was listed below.
\<close>

definition inProject :: "Provider \<Rightarrow> string \<Rightarrow> bool" where
  "inProject p project \<longleftrightarrow> project = [] \<or> project = pv_projectID p"

definition ownedLoadBalancer :: "Provider \<Rightarrow> Identity \<Rightarrow> LoadBalancer \<Rightarrow> bool" where
  "ownedLoadBalancer p i lb \<longleftrightarrow>
     lb_ProjectID lb = pv_projectID p \<and> MatchesGateway i (lb_Tags lb) RoleLoadBalancer"

definition ownedListener :: "Provider \<Rightarrow> Identity \<Rightarrow> string \<Rightarrow> Listener \<Rightarrow> bool" where
  "ownedListener p i loadBalancerID x \<longleftrightarrow>
     inProject p (li_ProjectID x) \<and> MatchesGateway i (li_Tags x) RoleListener \<and>
     (\<forall>parent \<in> set (li_Loadbalancers x). parent = loadBalancerID)"

definition ownedPool :: "Provider \<Rightarrow> Identity \<Rightarrow> string \<Rightarrow> Pool \<Rightarrow> bool" where
  "ownedPool p i loadBalancerID x \<longleftrightarrow>
     inProject p (po_ProjectID x) \<and> MatchesGateway i (po_Tags x) RolePool \<and>
     (\<forall>parent \<in> set (po_Loadbalancers x). parent = loadBalancerID)"

definition ownedMember :: "Provider \<Rightarrow> Identity \<Rightarrow> string \<Rightarrow> PoolMember \<Rightarrow> bool" where
  "ownedMember p i poolID x \<longleftrightarrow>
     inProject p (me_ProjectID x) \<and> MatchesGateway i (me_Tags x) RoleMember \<and>
     (me_PoolID x = [] \<or> me_PoolID x = poolID)"

definition ownedMonitor :: "Provider \<Rightarrow> Identity \<Rightarrow> string \<Rightarrow> Monitor \<Rightarrow> bool" where
  "ownedMonitor p i poolID x \<longleftrightarrow>
     inProject p (mo_ProjectID x) \<and> MatchesGateway i (mo_Tags x) RoleMonitor \<and>
     (\<forall>parent \<in> set (mo_Pools x). parent = poolID)"

definition ownedPolicy :: "Provider \<Rightarrow> Identity \<Rightarrow> string \<Rightarrow> L7Policy \<Rightarrow> bool" where
  "ownedPolicy p i listenerID x \<longleftrightarrow>
     inProject p (pl_ProjectID x) \<and>
     (MatchesGateway i (pl_Tags x) RolePolicyExact \<or> MatchesGateway i (pl_Tags x) RolePolicyPrefix) \<and>
     (pl_ListenerID x = [] \<or> pl_ListenerID x = listenerID)"

definition ownedRule :: "Provider \<Rightarrow> Identity \<Rightarrow> L7Rule \<Rightarrow> bool" where
  "ownedRule p i x \<longleftrightarrow>
     inProject p (ru_ProjectID x) \<and>
     (MatchesGateway i (ru_Tags x) RoleRulePath \<or> MatchesGateway i (ru_Tags x) RoleRuleHost)"

definition ownedFloatingIP :: "Provider \<Rightarrow> Identity \<Rightarrow> FloatingIP \<Rightarrow> bool" where
  "ownedFloatingIP p i item \<longleftrightarrow>
     (if fi_ProjectID item = [] then fi_TenantID item else fi_ProjectID item) = pv_projectID p \<and>
     MatchesGatewayDescription i (fi_Description item) RoleFloatingIP"

fun ownedAnswer :: "Provider \<Rightarrow> Identity \<Rightarrow> event \<Rightarrow> bool" where
  "ownedAnswer p i (EvListLoadBalancers opts (Inr items)) \<longleftrightarrow>
     length items \<le> 1 \<and> list_all (ownedLoadBalancer p i) items"
| "ownedAnswer p i (EvGetLoadBalancer loadBalancerID (Inr lb)) \<longleftrightarrow> ownedLoadBalancer p i lb"
| "ownedAnswer p i (EvListListeners opts (Inr items)) \<longleftrightarrow> list_all (ownedListener p i (sl_ParentID opts)) items"
| "ownedAnswer p i (EvListPools opts (Inr items)) \<longleftrightarrow> list_all (ownedPool p i (sl_ParentID opts)) items"
| "ownedAnswer p i (EvListMembers poolID project (Inr items)) \<longleftrightarrow> list_all (ownedMember p i poolID) items"
| "ownedAnswer p i (EvListMonitors opts (Inr items)) \<longleftrightarrow> list_all (ownedMonitor p i (sl_ParentID opts)) items"
| "ownedAnswer p i (EvListPolicies opts (Inr items)) \<longleftrightarrow> list_all (ownedPolicy p i (pll_ListenerID opts)) items"
| "ownedAnswer p i (EvListRules policyID project (Inr items)) \<longleftrightarrow> list_all (ownedRule p i) items"
| "ownedAnswer p i (EvListFloatingIPs opts (Inr items)) \<longleftrightarrow> list_all (ownedFloatingIP p i) items"
| "ownedAnswer p i _ \<longleftrightarrow> True"

definition audited :: "Provider \<Rightarrow> Identity \<Rightarrow> event list \<Rightarrow> bool" where
  "audited p i es \<longleftrightarrow> (\<forall>e \<in> set es. ownedAnswer p i e)"

lemma audited_simps [simp]:
  "audited p i []" "audited p i (e # es) \<longleftrightarrow> ownedAnswer p i e \<and> audited p i es"
  "audited p i (xs @ ys) \<longleftrightarrow> audited p i xs \<and> audited p i ys"
  by (auto simp: audited_def)

lemma project_ok [go_simps]:
  "validateLoadBalancerProject p project = Inr u \<longleftrightarrow> project = pv_projectID p"
  "validateOptionalProject p project = Inr u \<longleftrightarrow> inProject p project"
  "validateFloatingIPProject p project tenant = Inr u \<longleftrightarrow>
     (if project = [] then tenant else project) = pv_projectID p"
  by (auto simp: validateLoadBalancerProject_def validateOptionalProject_def
    validateFloatingIPProject_def inProject_def go_simps)

lemma deletion_checks [go_simps]:
  "checkDeletionListener p i loadBalancerID li = Inr u \<longleftrightarrow> ownedListener p i loadBalancerID li"
  "checkDeletionPolicy p i listenerID pl = Inr u \<longleftrightarrow> ownedPolicy p i listenerID pl"
  "checkDeletionRule p i ru = Inr u \<longleftrightarrow> ownedRule p i ru"
  "validateGatewayDeletionPool p i po loadBalancerID = Inr u \<longleftrightarrow> ownedPool p i loadBalancerID po"
  "checkDeletionMonitor p i poolID mo = Inr u \<longleftrightarrow> ownedMonitor p i poolID mo"
  "checkDeletionMember p i poolID me = Inr u \<longleftrightarrow> ownedMember p i poolID me"
  by (auto simp: checkDeletionListener_def checkDeletionPolicy_def checkDeletionRule_def
    validateGatewayDeletionPool_def checkDeletionMonitor_def checkDeletionMember_def
    matchesAnyGatewayRole_def ownedListener_def ownedPolicy_def ownedRule_def ownedPool_def
    ownedMonitor_def ownedMember_def go_simps)

section \<open>Steps that are ready\<close>

text \<open>
  A step is ready after the requests \<open>es\<close> when its target was listed below the parent the step names
  and the last listing of the target's own children was empty.
\<close>

definition noChildren :: "Provider \<Rightarrow> event list \<Rightarrow> gatewayDeletionStep \<Rightarrow> bool" where
  "noChildren p es step = (case ds_resource step of
      gatewayDeletionL7Policy \<Rightarrow> EvListRules (ds_resourceID step) (pv_projectID p) (Inr []) \<in> set es
    | gatewayDeletionListener \<Rightarrow> EvListPolicies (policyOpts p (ds_resourceID step)) (Inr []) \<in> set es
    | gatewayDeletionPool \<Rightarrow>
        EvListMonitors (scopedOpts p (ds_resourceID step)) (Inr []) \<in> set es \<and>
        EvListMembers (ds_resourceID step) (pv_projectID p) (Inr []) \<in> set es
    | _ \<Rightarrow> True)"

definition listed :: "Provider \<Rightarrow> event list \<Rightarrow> gatewayDeletionStep \<Rightarrow> bool" where
  "listed p es step = (case ds_resource step of
      gatewayDeletionL7Rule \<Rightarrow> \<exists>xs. EvListRules (ds_parentID step) (pv_projectID p) (Inr xs) \<in> set es \<and>
        ds_resourceID step \<in> ru_ID ` set xs
    | gatewayDeletionL7Policy \<Rightarrow> \<exists>opts xs. EvListPolicies opts (Inr xs) \<in> set es \<and> ds_resourceID step \<in> pl_ID ` set xs
    | gatewayDeletionListener \<Rightarrow> \<exists>opts xs. EvListListeners opts (Inr xs) \<in> set es \<and> ds_resourceID step \<in> li_ID ` set xs
    | gatewayDeletionMonitor \<Rightarrow> \<exists>xs. EvListMonitors (scopedOpts p (ds_parentID step)) (Inr xs) \<in> set es \<and>
        ds_resourceID step \<in> mo_ID ` set xs
    | gatewayDeletionMember \<Rightarrow> \<exists>xs. EvListMembers (ds_parentID step) (pv_projectID p) (Inr xs) \<in> set es \<and>
        ds_resourceID step \<in> me_ID ` set xs
    | gatewayDeletionPool \<Rightarrow> \<exists>opts xs. EvListPools opts (Inr xs) \<in> set es \<and> ds_resourceID step \<in> po_ID ` set xs)"

definition headReady :: "Provider \<Rightarrow> event list \<Rightarrow> gatewayDeletionStep list \<Rightarrow> bool" where
  "headReady p es plan \<longleftrightarrow> plan = [] \<or> listed p es (hd plan) \<and> noChildren p es (hd plan)"

lemma listed_mono: "listed p es step \<Longrightarrow> set es \<subseteq> set es' \<Longrightarrow> listed p es' step"
  unfolding listed_def by (auto split: gatewayDeletionResource.splits; blast)

lemma noChildren_mono: "noChildren p es step \<Longrightarrow> set es \<subseteq> set es' \<Longrightarrow> noChildren p es' step"
  unfolding noChildren_def by (auto split: gatewayDeletionResource.splits)

lemma headReady_mono: "headReady p es plan \<Longrightarrow> set es \<subseteq> set es' \<Longrightarrow> headReady p es' plan"
  unfolding headReady_def by (auto intro: listed_mono noChildren_mono)

lemma headReady_append: "headReady p es (xs @ ys) \<longleftrightarrow> (if xs = [] then headReady p es ys else headReady p es xs)"
  by (auto simp: headReady_def)

lemma headReady_Nil [simp]: "headReady p es []"
  by (simp add: headReady_def)


lemma headReady_children:
  assumes "\<And>x. x \<in> set xs \<Longrightarrow> listed p es (f x) \<and> noChildren p es (f x)"
    and "xs = [] \<Longrightarrow> headReady p es ys"
  shows "headReady p es (map f (sort_key k xs) @ ys)"
proof (cases "sort_key k xs")
  case Nil
  then show ?thesis using assms(2) by simp
next
  case (Cons x rest)
  then have "x \<in> set xs" by (metis list.set_intros(1) set_sort)
  then show ?thesis using assms(1) Cons by (simp add: headReady_def)
qed

lemma ready_simps [simp]:
  "ds_resource (deletionStep r x q) = r" "ds_resourceID (deletionStep r x q) = x"
  "ds_parentID (deletionStep r x q) = q"
  by (simp_all add: deletionStep_def)

section \<open>What building the plan establishes\<close>

definition routeStep :: "gatewayDeletionStep \<Rightarrow> bool" where
  "routeStep step \<longleftrightarrow> ds_resource step = gatewayDeletionL7Rule \<or> ds_resource step = gatewayDeletionL7Policy"

lemma addPolicySteps_inspects:
  assumes "EvListPolicies (policyOpts p listenerID) (Inr policies) \<in> set before" "policy \<in> set policies"
    "headReady p before plan" "list_all routeStep plan"
  shows "inspects (addPolicySteps g p i listenerID policy plan) (\<lambda>plan' es.
     ownedPolicy p i listenerID policy \<and> audited p i es \<and> plan' \<noteq> [] \<and> headReady p (before @ es) plan' \<and>
     list_all routeStep plan')"
proof -
  have "headReady p (before @ [EvListRules (pl_ID policy) (pv_projectID p) (Inr rules)])
      (plan @ map (\<lambda>rule. deletionStep gatewayDeletionL7Rule (ru_ID rule) (pl_ID policy)) (sort_key ru_ID rules) @
        [deletionStep gatewayDeletionL7Policy (pl_ID policy) []])" (is "headReady p ?es (plan @ ?steps)") for rules
  proof (cases "plan = []")
    case True
    have "headReady p ?es ?steps"
      by (rule headReady_children) (use assms(1,2) in \<open>auto simp: headReady_def listed_def noChildren_def\<close>)
    with True show ?thesis by simp
  next
    case False
    then show ?thesis using assms(3) by (auto simp: headReady_append intro: headReady_mono)
  qed
  then show ?thesis
    unfolding addPolicySteps_def using assms(4)
    by (intro effects) (auto simp: go_simps list_all_iff routeStep_def)
qed

text \<open>The steps below one listener, and the fact that no step means no policy.\<close>

lemma buildGatewayRouteDeletionPlan_inspects:
  "inspects (buildGatewayRouteDeletionPlan g p i listenerID) (\<lambda>plan es.
     audited p i es \<and> headReady p es plan \<and> list_all routeStep plan \<and>
     (plan = [] \<longrightarrow> es = [EvListPolicies (policyOpts p listenerID) (Inr [])]))"
  unfolding buildGatewayRouteDeletionPlan_def
proof (intro effects)
  fix policies
  let ?ev = "EvListPolicies (policyOpts p listenerID) (Inr policies)"
  let ?sorted = "sort_key (\<lambda>policy. (pl_Position policy, pl_ID policy)) policies"
  let ?I = "\<lambda>done plan es. list_all (ownedPolicy p i listenerID) done \<and> audited p i es \<and>
    headReady p (?ev # es) plan \<and> list_all routeStep plan \<and> (plan = [] \<longrightarrow> done = [] \<and> es = [])"
  have "inspects (foldIO (addPolicySteps g p i listenerID) ?sorted []) (?I ?sorted)"
  proof (rule inspects_foldIO)
    fix policy plan "done" es
    assume "policy \<in> set ?sorted" "?I done plan es"
    then show "inspects (addPolicySteps g p i listenerID policy plan)
        (\<lambda>plan' es'. ?I (done @ [policy]) plan' (es @ es'))"
      by (intro inspects_weaken [OF addPolicySteps_inspects [where policies = policies and before = "?ev # es"]]) auto
  qed simp
  then show "inspects (foldIO (addPolicySteps g p i listenerID) ?sorted []) (\<lambda>plan es.
      audited p i (?ev # es) \<and> headReady p (?ev # es) plan \<and> list_all routeStep plan \<and>
      (plan = [] \<longrightarrow> ?ev # es = [EvListPolicies (policyOpts p listenerID) (Inr [])]))"
    by (rule inspects_weaken) (auto simp: list_all_iff policyOpts_def )
qed

text \<open>Policies were listed below listeners only, and all of those listings were empty.\<close>

definition noPolicies :: "event list \<Rightarrow> bool" where
  "noPolicies es \<longleftrightarrow> (\<forall>opts items. EvListPolicies opts (Inr items) \<in> set es \<longrightarrow> items = [])"

lemma noPolicies_simps [simp]:
  "noPolicies []" "noPolicies (xs @ ys) \<longleftrightarrow> noPolicies xs \<and> noPolicies ys"
  "noPolicies (EvListListeners a b # es) \<longleftrightarrow> noPolicies es"
  "noPolicies (EvListFloatingIPs a' b' # es) \<longleftrightarrow> noPolicies es"
  "noPolicies (EvListLoadBalancers a'' b'' # es) \<longleftrightarrow> noPolicies es"
  "noPolicies (EvGetLoadBalancer x y # es) \<longleftrightarrow> noPolicies es"
  "noPolicies (EvListPolicies c (Inr d) # es) \<longleftrightarrow> d = [] \<and> noPolicies es"
  by (auto simp: noPolicies_def)

definition listenersReady :: "Provider \<Rightarrow> event list \<Rightarrow> gatewayDeletionStep list \<times> gatewayDeletionStep list \<Rightarrow> bool" where
  "listenersReady p es plans \<longleftrightarrow> headReady p es (snd plans) \<and> list_all routeStep (snd plans) \<and>
     (snd plans = [] \<longrightarrow> headReady p es (fst plans) \<and> noPolicies es)"

lemma addListenerSteps_inspects:
  assumes "EvListListeners opts (Inr listenerList) \<in> set before" "listener \<in> set listenerList"
    "listenersReady p before plans"
  shows "inspects (addListenerSteps g p i loadBalancerID listener plans) (\<lambda>plans' es.
     ownedListener p i loadBalancerID listener \<and> audited p i es \<and> fst plans' \<noteq> [] \<and>
     listenersReady p (before @ es) plans')"
proof -
  have "listenersReady p (before @ es)
      (fst plans @ [deletionStep gatewayDeletionListener (li_ID listener) []], snd plans @ route)"
    if "headReady p es route" "list_all routeStep route"
      "route = [] \<longrightarrow> es = [EvListPolicies (policyOpts p (li_ID listener)) (Inr [])]" for route es
    using assms that
    by (auto simp: listenersReady_def headReady_append listed_def noChildren_def intro: headReady_mono)
      (auto simp: headReady_def listed_def noChildren_def)
  then show ?thesis
    unfolding addListenerSteps_def
    by (intro effects inspects_bind [OF buildGatewayRouteDeletionPlan_inspects]) (auto simp: go_simps)
qed

lemma buildGatewayListenerDeletionPlans_inspects:
  "inspects (buildGatewayListenerDeletionPlans g p i loadBalancerID) (\<lambda>plans es.
     audited p i es \<and> listenersReady p es plans \<and>
     (fst plans = [] \<longrightarrow> es = [EvListListeners (scopedOpts p loadBalancerID) (Inr [])]))"
  unfolding buildGatewayListenerDeletionPlans_def
proof (intro effects)
  fix listenerList
  let ?ev = "EvListListeners (scopedOpts p loadBalancerID) (Inr listenerList)"
  let ?sorted = "sort_key li_ID listenerList"
  let ?I = "\<lambda>done plans es. list_all (ownedListener p i loadBalancerID) done \<and> audited p i es \<and>
    listenersReady p (?ev # es) plans \<and> (fst plans = [] \<longrightarrow> done = [] \<and> es = [])"
  have "inspects (foldIO (addListenerSteps g p i loadBalancerID) ?sorted ([], [])) (?I ?sorted)"
  proof (rule inspects_foldIO)
    fix listener plans "done" es
    assume "listener \<in> set ?sorted" "?I done plans es"
    then show "inspects (addListenerSteps g p i loadBalancerID listener plans)
        (\<lambda>plans' es'. ?I (done @ [listener]) plans' (es @ es'))"
      by (intro inspects_weaken [OF addListenerSteps_inspects
        [where listenerList = listenerList and before = "?ev # es"]]) auto
  qed (simp add: listenersReady_def)
  then show "inspects (foldIO (addListenerSteps g p i loadBalancerID) ?sorted ([], [])) (\<lambda>plans es.
      audited p i (?ev # es) \<and> listenersReady p (?ev # es) plans \<and>
      (fst plans = [] \<longrightarrow> ?ev # es = [EvListListeners (scopedOpts p loadBalancerID) (Inr [])]))"
    by (rule inspects_weaken) (auto simp: list_all_iff scopedOpts_def)
qed

text \<open>The steps below one pool; its own step is ready once no child is left.\<close>

lemma buildGatewayMonitorDeletionPlan_inspects:
  "inspects (buildGatewayMonitorDeletionPlan g p i poolID) (\<lambda>plan es.
     audited p i es \<and> headReady p es plan \<and>
     (plan = [] \<longrightarrow> es = [EvListMonitors (scopedOpts p poolID) (Inr [])]))"
proof -
  have "headReady p [EvListMonitors (scopedOpts p poolID) (Inr items)]
      (map (\<lambda>monitor. deletionStep gatewayDeletionMonitor (mo_ID monitor) poolID) (sort_key mo_ID items) @ [])" for items
    by (rule headReady_children) (auto simp: listed_def noChildren_def)
  then show ?thesis
    unfolding buildGatewayMonitorDeletionPlan_def
    by (intro effects) (auto simp: go_simps list_all_iff scopedOpts_def)
qed

lemma buildGatewayMemberDeletionPlan_inspects:
  "inspects (buildGatewayMemberDeletionPlan g p i poolID) (\<lambda>plan es.
     audited p i es \<and> headReady p es plan \<and>
     (plan = [] \<longrightarrow> es = [EvListMembers poolID (pv_projectID p) (Inr [])]))"
proof -
  have "headReady p [EvListMembers poolID (pv_projectID p) (Inr items)]
      (map (\<lambda>member. deletionStep gatewayDeletionMember (me_ID member) poolID) (sort_key memberOrder items) @ [])" for items
    by (rule headReady_children) (auto simp: listed_def noChildren_def)
  then show ?thesis
    unfolding buildGatewayMemberDeletionPlan_def
    by (intro effects) (auto simp: go_simps list_all_iff)
qed

lemma addPoolSteps_inspects:
  assumes "EvListPools opts (Inr poolList) \<in> set before" "pool \<in> set poolList" "headReady p before plan"
  shows "inspects (addPoolSteps g p i loadBalancerID pool plan) (\<lambda>plan' es.
     ownedPool p i loadBalancerID pool \<and> audited p i es \<and> plan' \<noteq> [] \<and> headReady p (before @ es) plan')"
proof -
  have "headReady p (before @ es1 @ es2) (plan @ monitors @ members @ [deletionStep gatewayDeletionPool (po_ID pool) []])"
    if "headReady p es1 monitors" "monitors = [] \<longrightarrow> es1 = [EvListMonitors (scopedOpts p (po_ID pool)) (Inr [])]"
      "headReady p es2 members" "members = [] \<longrightarrow> es2 = [EvListMembers (po_ID pool) (pv_projectID p) (Inr [])]"
    for es1 es2 monitors members
    using assms that
    by (auto simp: headReady_append intro: headReady_mono)
      (auto simp: headReady_def listed_def noChildren_def)
  then show ?thesis
    unfolding addPoolSteps_def buildGatewayPoolSubtreeDeletionPlan_def
    by (intro effects inspects_bind [OF inspects_bind [OF buildGatewayMonitorDeletionPlan_inspects
          inspects_bind [OF buildGatewayMemberDeletionPlan_inspects]]])
      (auto simp: go_simps)
qed

lemma buildGatewayPoolDeletionPlan_inspects:
  "inspects (buildGatewayPoolDeletionPlan g p i loadBalancerID) (\<lambda>plan es.
     audited p i es \<and> headReady p es plan \<and>
     (plan = [] \<longrightarrow> es = [EvListPools (scopedOpts p loadBalancerID) (Inr [])]))"
  unfolding buildGatewayPoolDeletionPlan_def
proof (intro effects)
  fix poolList
  let ?ev = "EvListPools (scopedOpts p loadBalancerID) (Inr poolList)"
  let ?sorted = "sort_key po_ID poolList"
  let ?I = "\<lambda>done plan es. list_all (ownedPool p i loadBalancerID) done \<and> audited p i es \<and>
    headReady p (?ev # es) plan \<and> (plan = [] \<longrightarrow> done = [] \<and> es = [])"
  have "inspects (foldIO (addPoolSteps g p i loadBalancerID) ?sorted []) (?I ?sorted)"
  proof (rule inspects_foldIO)
    fix pool plan "done" es
    assume "pool \<in> set ?sorted" "?I done plan es"
    then show "inspects (addPoolSteps g p i loadBalancerID pool plan)
        (\<lambda>plan' es'. ?I (done @ [pool]) plan' (es @ es'))"
      by (intro inspects_weaken [OF addPoolSteps_inspects [where poolList = poolList and before = "?ev # es"]]) auto
  qed simp
  then show "inspects (foldIO (addPoolSteps g p i loadBalancerID) ?sorted []) (\<lambda>plan es.
      audited p i (?ev # es) \<and> headReady p (?ev # es) plan \<and>
      (plan = [] \<longrightarrow> ?ev # es = [EvListPools (scopedOpts p loadBalancerID) (Inr [])]))"
    by (rule inspects_weaken) (auto simp: list_all_iff scopedOpts_def)
qed

text \<open>
  The whole plan: its first step is ready, a pool or listener is reached only when no policy is left
  in the graph, and an empty plan means that the load balancer has no listener and no pool.
\<close>

definition planReady :: "Provider \<Rightarrow> string \<Rightarrow> event list \<Rightarrow> gatewayDeletionPlan \<Rightarrow> bool" where
  "planReady p loadBalancerID es plan \<longleftrightarrow>
     (\<forall>step. firstStep plan = Some step \<longrightarrow>
        listed p es step \<and> noChildren p es step \<and> (routeStep step \<or> noPolicies es)) \<and>
     (dp_routes plan = [] \<longrightarrow> noPolicies es) \<and>
     (dp_pools plan = [] \<longrightarrow> EvListPools (scopedOpts p loadBalancerID) (Inr []) \<in> set es) \<and>
     (firstStep plan = None \<longrightarrow>
        EvListListeners (scopedOpts p loadBalancerID) (Inr []) \<in> set es \<and>
        EvListPools (scopedOpts p loadBalancerID) (Inr []) \<in> set es)"

definition poolRequest :: "event \<Rightarrow> bool" where
  "poolRequest e = (case e of EvListPools _ _ \<Rightarrow> True | EvListMonitors _ _ \<Rightarrow> True | EvListMembers _ _ _ \<Rightarrow> True | _ \<Rightarrow> False)"

lemma noPolicies_poolRequest: "list_all poolRequest es \<Longrightarrow> noPolicies es"
  by (fastforce simp: noPolicies_def list_all_iff poolRequest_def)

lemma buildGatewayPoolDeletionPlan_requests:
  "inspects (buildGatewayPoolDeletionPlan g p i loadBalancerID) (\<lambda>plan es. list_all poolRequest es)"
proof -
  have "inspects (addPoolSteps g p i loadBalancerID pool plan) (\<lambda>plan es. list_all poolRequest es)" for pool plan
    unfolding addPoolSteps_def buildGatewayPoolSubtreeDeletionPlan_def buildGatewayMonitorDeletionPlan_def
      buildGatewayMemberDeletionPlan_def
    by (intro effects inspects_bind [where Q = "\<lambda>_ es. list_all poolRequest es"])
      (auto simp: poolRequest_def)
  then have "inspects (foldIO (addPoolSteps g p i loadBalancerID) pools plan) (\<lambda>plan es. list_all poolRequest es)" for pools plan
    by (intro inspects_foldIO [where I = "\<lambda>_ _ es. list_all poolRequest es"]) auto
  then show ?thesis
    unfolding buildGatewayPoolDeletionPlan_def by (intro effects) (simp add: poolRequest_def)
qed

lemma planReadyI:
  assumes "listenersReady p es1 (listenerPlan, routePlan)"
    "listenerPlan = [] \<longrightarrow> es1 = [EvListListeners (scopedOpts p loadBalancerID) (Inr [])]"
    "headReady p es2 poolPlan" "poolPlan = [] \<longrightarrow> es2 = [EvListPools (scopedOpts p loadBalancerID) (Inr [])]"
    "list_all poolRequest es2"
  shows "planReady p loadBalancerID (es1 @ es2) \<lparr>dp_listeners = listenerPlan, dp_routes = routePlan, dp_pools = poolPlan\<rparr>"
    (is "planReady _ _ _ ?plan")
proof -
  have "headReady p (es1 @ es2) (routePlan @ poolPlan @ listenerPlan)"
    using assms by (auto simp: headReady_append listenersReady_def intro: headReady_mono)
  then have "listed p (es1 @ es2) step \<and> noChildren p (es1 @ es2) step" if "firstStep ?plan = Some step" for step
    using that by (auto simp: firstStep_def orderedSteps_def headReady_def split: list.splits)
  moreover have noneLeft: "routePlan = [] \<longrightarrow> noPolicies (es1 @ es2)"
    using assms noPolicies_poolRequest by (auto simp: listenersReady_def)
  moreover have "routeStep step \<or> noPolicies (es1 @ es2)" if "firstStep ?plan = Some step" for step
    using that assms(1) noneLeft
    by (cases routePlan) (auto simp: firstStep_def orderedSteps_def listenersReady_def)
  ultimately show ?thesis
    using assms by (auto simp: planReady_def firstStep_def orderedSteps_def split: list.splits)
qed

lemma buildGatewayDeletionPlan_inspects:
  "inspects (buildGatewayDeletionPlan g p i loadBalancerID) (\<lambda>plan es.
     audited p i es \<and> planReady p loadBalancerID es plan)"
  unfolding buildGatewayDeletionPlan_def
proof (rule inspects_bind [OF buildGatewayListenerDeletionPlans_inspects])
  fix plans es
  assume "audited p i es \<and> listenersReady p es plans \<and>
    (fst plans = [] \<longrightarrow> es = [EvListListeners (scopedOpts p loadBalancerID) (Inr [])])"
  moreover obtain ls rs where "plans = (ls, rs)" by fastforce
  ultimately show "inspects (case plans of (listenerPlan, routePlan) \<Rightarrow>
      bindIO (buildGatewayPoolDeletionPlan g p i loadBalancerID) (\<lambda>poolPlan.
      returnIO \<lparr>dp_listeners = listenerPlan, dp_routes = routePlan, dp_pools = poolPlan\<rparr>))
     (\<lambda>plan es'. audited p i (es @ es') \<and> planReady p loadBalancerID (es @ es') plan)"
    using planReadyI
    by (simp, intro effects inspects_bind [OF inspects_conj [OF buildGatewayPoolDeletionPlan_inspects
        buildGatewayPoolDeletionPlan_requests]]) simp
qed

end
