(* ===== verification/GatewayOps.thy ===== *)
theory GatewayOps
  imports GatewayPlan
begin

text \<open>
  The operations on a Gateway: EnsureGateway and GetGateway (gateway.go) and DeleteGateway (delete.go).
  Each call observes the graph and then issues at most one mutation; the controller calls it again
  until the outcome is ready.
\<close>

section \<open>Parts of EnsureGateway\<close>

definition deref :: "'a option \<Rightarrow> 'a result" where
  "deref x = (case x of None \<Rightarrow> Inl NilDereference | Some y \<Rightarrow> Inr y)"

definition ensureNoFloatingIP :: "('w, 'p) gophercloud \<Rightarrow> Provider \<Rightarrow> Identity \<Rightarrow> string \<Rightarrow> ('w, Outcome) io" where
  "ensureNoFloatingIP g p i vipPortID =
     bindIO (listGatewayFloatingIPs g p i vipPortID) (\<lambda>items.
     case items of
        [] \<Rightarrow> returnIO ReadyOutcome
      | item # _ \<Rightarrow>
          bindIO (resultIO (ignoreNotFound g Wrapf) (DeleteFloatingIP g (fi_ID item))) (\<lambda>_.
          returnIO (progressingOutcome p ''Removed a no-longer-configured Floating IP'')))"

definition immutableFieldsMatch :: "Identity \<Rightarrow> GatewaySpec \<Rightarrow> LoadBalancer \<Rightarrow> bool" where
  "immutableFieldsMatch i spec item \<longleftrightarrow>
     \<not> (\<not> MatchesGateway i (lb_Tags item) RoleLoadBalancer \<or> lb_VipSubnetID item \<noteq> gs_VIPSubnetID spec \<or>
        (gs_Provider spec \<noteq> [] \<and> lb_Provider item \<noteq> gs_Provider spec))"

definition observeManagedLoadBalancer :: "('w, 'p) gophercloud \<Rightarrow> Provider \<Rightarrow> Identity \<Rightarrow> GatewaySpec \<Rightarrow>
    LoadBalancer \<Rightarrow> ('w, LoadBalancer option \<times> Outcome) io" where
  "observeManagedLoadBalancer g p i spec item =
     bindIO (liftE (validateLoadBalancerProject p (lb_ProjectID item))) (\<lambda>_.
     bindIO (liftE (guardE (immutableFieldsMatch i spec item) conflict)) (\<lambda>_.
     bindIO (observeLoadBalancerOnce g p (lb_ID item)) (\<lambda>observation.
     liftE (case ob_phase observation of
        loadBalancerPhaseAbsent \<Rightarrow>
          Inr (None, progressingOutcome p ''Octavia load balancer disappeared during observation'')
      | loadBalancerPhasePending \<Rightarrow> Inr (None, ob_outcome observation)
      | loadBalancerPhaseActive \<Rightarrow>
          bindE (deref (ob_loadBalancer observation)) (\<lambda>observed.
          bindE (validateLoadBalancerProject p (lb_ProjectID observed)) (\<lambda>_.
          bindE (guardE (immutableFieldsMatch i spec observed) conflict) (\<lambda>_.
          Inr (Some observed, ReadyOutcome))))))))"

definition loadBalancerCreateOpts :: "Identity \<Rightarrow> GatewaySpec \<Rightarrow> string list \<Rightarrow> LoadBalancerCreateOpts" where
  "loadBalancerCreateOpts i spec tags =
     \<lparr>lbc_Name = resourceName (gs_Identity spec) RoleLoadBalancer,
      lbc_Description = Description i RoleLoadBalancer,
      lbc_VipSubnetID = gs_VIPSubnetID spec,
      lbc_Provider = gs_Provider spec,
      lbc_AdminStateUp = Some True,
      lbc_Tags = tags\<rparr>"

definition ensureLoadBalancer :: "('w, 'p) gophercloud \<Rightarrow> Provider \<Rightarrow> Identity \<Rightarrow> GatewaySpec \<Rightarrow>
    ('w, LoadBalancer option \<times> Outcome) io" where
  "ensureLoadBalancer g p i spec =
     bindIO (liftE (GatewayTags i RoleLoadBalancer)) (\<lambda>tags.
     bindIO (liftE (GatewayDiscoveryTags i RoleLoadBalancer)) (\<lambda>discoveryTags.
     bindIO (mapErrIO Wrapf (ListLoadBalancers g \<lparr>lbl_ProjectID = pv_projectID p, lbl_Tags = discoveryTags\<rparr>)) (\<lambda>items.
     if length items > 1 then throwIO conflict
     else case items of
        item # _ \<Rightarrow> observeManagedLoadBalancer g p i spec item
      | [] \<Rightarrow>
          bindIO (mapErrIO mutationError (CreateLoadBalancer g (loadBalancerCreateOpts i spec tags))) (\<lambda>created.
          bindIO (liftE (validateLoadBalancerProject p (lb_ProjectID created))) (\<lambda>_.
          returnIO (None, progressingOutcome p ''Created Octavia load balancer''))))))"

definition listenerCreateOpts :: "Identity \<Rightarrow> GatewaySpec \<Rightarrow> string \<Rightarrow> string list \<Rightarrow> ListenerCreateOpts" where
  "listenerCreateOpts i spec loadBalancerID tags =
     \<lparr>lic_LoadbalancerID = loadBalancerID,
      lic_Protocol = ''HTTP'',
      lic_ProtocolPort = gs_ListenerPort spec,
      lic_Name = gs_ListenerName spec,
      lic_Description = Description i RoleListener,
      lic_AdminStateUp = Some True,
      lic_Tags = tags\<rparr>"

definition ensureListener :: "('w, 'p) gophercloud \<Rightarrow> Provider \<Rightarrow> Identity \<Rightarrow> GatewaySpec \<Rightarrow> string \<Rightarrow>
    Listener option \<Rightarrow> bool \<Rightarrow> ('w, Listener option \<times> Outcome) io" where
  "ensureListener g p i spec loadBalancerID observed allowAdminRepair = (case observed of
      Some listener \<Rightarrow>
        if \<not> li_AdminStateUp listener then
          if \<not> allowAdminRepair then
            returnIO (Some listener,
              progressingOutcome p ''Waiting for HTTPRoute validation before enabling the Octavia listener'')
          else
            bindIO (enableListener g (li_ID listener)) (\<lambda>_.
            returnIO (None, progressingOutcome p ''Enabled Octavia listener''))
        else returnIO (Some listener, ReadyOutcome)
    | None \<Rightarrow>
        bindIO (liftE (GatewayTags i RoleListener)) (\<lambda>tags.
        bindIO (mapErrIO mutationError (CreateListener g (listenerCreateOpts i spec loadBalancerID tags))) (\<lambda>created.
        returnIO (Some created, progressingOutcome p ''Created Octavia listener''))))"

definition findGatewayListener :: "('w, 'p) gophercloud \<Rightarrow> Provider \<Rightarrow> Identity \<Rightarrow> GatewaySpec \<Rightarrow> string \<Rightarrow>
    ('w, Listener option) io" where
  "findGatewayListener g p i spec loadBalancerID =
     bindIO (findManagedGatewayListener g p i loadBalancerID) (\<lambda>found.
     case found of
        None \<Rightarrow> returnIO None
      | Some item \<Rightarrow>
          if li_Protocol item \<noteq> ''HTTP'' \<or> li_ProtocolPort item \<noteq> gs_ListenerPort spec then throwIO conflict
          else returnIO (Some item))"

definition acceptFloatingIP :: "string \<Rightarrow> FloatingIP \<Rightarrow> FloatingIP option \<Rightarrow> FloatingIP option result" where
  "acceptFloatingIP networkID fip owned =
     bindE (guardE (fi_FloatingNetworkID fip = networkID) conflict) (\<lambda>_.
     bindE (guardE (owned = None) conflict) (\<lambda>_. Inr (Some fip)))"

definition ensureFloatingIP :: "('w, 'p) gophercloud \<Rightarrow> Provider \<Rightarrow> Identity \<Rightarrow> string \<Rightarrow> string \<Rightarrow>
    ('w, FloatingIP option \<times> Outcome) io" where
  "ensureFloatingIP g p i networkID vipPortID =
     bindIO (listGatewayFloatingIPs g p i vipPortID) (\<lambda>floatingIPs.
     bindIO (liftE (foldE (acceptFloatingIP networkID) floatingIPs None)) (\<lambda>owned.
     case owned of
        Some fip \<Rightarrow> returnIO (Some fip, ReadyOutcome)
      | None \<Rightarrow>
          bindIO (mapErrIO Wrapf (CreateFloatingIP g \<lparr>fic_Description = GatewayDescription i RoleFloatingIP,
            fic_FloatingNetworkID = networkID, fic_PortID = vipPortID\<rparr>)) (\<lambda>created.
          bindIO (liftE (validateFloatingIPProject p (fi_ProjectID created) (fi_TenantID created))) (\<lambda>_.
          returnIO (Some created, progressingOutcome p ''Allocated Floating IP'')))))"

section \<open>EnsureGateway\<close>

definition ensureGatewayListener :: "('w, 'p) gophercloud \<Rightarrow> Provider \<Rightarrow> Identity \<Rightarrow> GatewaySpec \<Rightarrow> LoadBalancer \<Rightarrow>
    Listener option \<Rightarrow> bool \<Rightarrow> GatewayState \<Rightarrow> ('w, GatewayResult) io" where
  "ensureGatewayListener g p i spec loadBalancer observedListener hasRoutes state =
     bindIO (ensureListener g p i spec (lb_ID loadBalancer) observedListener (\<not> hasRoutes)) (\<lambda>(found, listenerOutcome).
     if o_State listenerOutcome = OutcomeProgressing
     then returnIO \<lparr>gres_State = state, gres_Outcome = listenerOutcome\<rparr>
     else bindIO (liftE (deref found)) (\<lambda>listener.
     let state = state\<lparr>st_ListenerID := li_ID listener\<rparr> in
     if \<not> lb_AdminStateUp loadBalancer then
       if hasRoutes then
         returnIO \<lparr>gres_State = state, gres_Outcome = progressingOutcome p
           ''Waiting for HTTPRoute validation before enabling the Octavia load balancer''\<rparr>
       else
         bindIO (enableLoadBalancer g (lb_ID loadBalancer)) (\<lambda>_.
         returnIO \<lparr>gres_State = state, gres_Outcome = progressingOutcome p ''Enabled Octavia load balancer''\<rparr>)
     else returnIO (GatewayReadyResult state)))"

definition ensureGatewayFloatingIP :: "('w, 'p) gophercloud \<Rightarrow> Provider \<Rightarrow> Identity \<Rightarrow> GatewaySpec \<Rightarrow> LoadBalancer \<Rightarrow>
    Listener option \<Rightarrow> bool \<Rightarrow> GatewayState \<Rightarrow> ('w, GatewayResult) io" where
  "ensureGatewayFloatingIP g p i spec loadBalancer observedListener hasRoutes state =
     (if gs_ExternalNetworkID spec \<noteq> [] then
       bindIO (ensureFloatingIP g p i (gs_ExternalNetworkID spec) (lb_VipPortID loadBalancer)) (\<lambda>(found, floatingIPOutcome).
       if o_State floatingIPOutcome = OutcomeProgressing
       then returnIO \<lparr>gres_State = state, gres_Outcome = floatingIPOutcome\<rparr>
       else bindIO (liftE (deref found)) (\<lambda>floatingIP.
         ensureGatewayListener g p i spec loadBalancer observedListener hasRoutes
           (state\<lparr>st_FloatingIPID := fi_ID floatingIP, st_FloatingIPAddress := fi_FloatingIP floatingIP\<rparr>)))
     else
       bindIO (ensureNoFloatingIP g p i (lb_VipPortID loadBalancer)) (\<lambda>floatingIPOutcome.
       if o_State floatingIPOutcome = OutcomeProgressing
       then returnIO \<lparr>gres_State = state, gres_Outcome = floatingIPOutcome\<rparr>
       else ensureGatewayListener g p i spec loadBalancer observedListener hasRoutes state))"

definition ensureGatewayGraph :: "('w, 'p) gophercloud \<Rightarrow> Provider \<Rightarrow> Identity \<Rightarrow> GatewaySpec \<Rightarrow> LoadBalancer \<Rightarrow>
    ('w, GatewayResult) io" where
  "ensureGatewayGraph g p i spec loadBalancer =
     (let state = emptyGatewayState\<lparr>st_LoadBalancerID := lb_ID loadBalancer,
            st_VIPPortID := lb_VipPortID loadBalancer, st_VIPAddress := lb_VipAddress loadBalancer\<rparr> in
     bindIO (mapErrIO Wrapf (buildGatewayDeletionPlan g p i (lb_ID loadBalancer))) (\<lambda>deletionPlan.
     bindIO (findGatewayListener g p i spec (lb_ID loadBalancer)) (\<lambda>observedListener.
     ensureGatewayFloatingIP g p i spec loadBalancer observedListener (hasRouteResources deletionPlan) state)))"

definition validateGatewaySpec :: "GatewaySpec \<Rightarrow> unit result" where
  "validateGatewaySpec spec =
     (if TrimSpace (gs_VIPSubnetID spec) = [] then Inl (NewProviderError TerminalValidation Errorf)
      else if gs_ListenerPort spec < 1 \<or> gs_ListenerPort spec > 65535
      then Inl (NewProviderError TerminalValidation Errorf)
      else Inr ())"

definition EnsureGateway :: "('w, 'p) gophercloud \<Rightarrow> Provider \<Rightarrow> GatewaySpec \<Rightarrow> ('w, GatewayResult) io" where
  "EnsureGateway g p spec = mapErrIO Classify (
     bindIO (liftE (identity p (gs_Identity spec))) (\<lambda>i.
     bindIO (liftE (validateGatewaySpec spec)) (\<lambda>_.
     bindIO (ensureLoadBalancer g p i spec) (\<lambda>(loadBalancer, outcome).
     if o_State outcome = OutcomeProgressing
     then returnIO \<lparr>gres_State = emptyGatewayState, gres_Outcome = outcome\<rparr>
     else bindIO (liftE (deref loadBalancer)) (ensureGatewayGraph g p i spec)))))"

section \<open>GetGateway\<close>

definition acceptGatewayFloatingIP :: "FloatingIP \<Rightarrow> GatewayState \<Rightarrow> GatewayState result" where
  "acceptGatewayFloatingIP item state =
     bindE (guardE (st_FloatingIPID state = []) conflict) (\<lambda>_.
     Inr (state\<lparr>st_FloatingIPID := fi_ID item, st_FloatingIPAddress := fi_FloatingIP item\<rparr>))"

definition getActiveGateway :: "('w, 'p) gophercloud \<Rightarrow> Provider \<Rightarrow> Identity \<Rightarrow> LoadBalancer \<Rightarrow>
    ('w, GatewayResult \<times> bool) io" where
  "getActiveGateway g p i loadBalancer =
     bindIO (liftE (validateLoadBalancerProject p (lb_ProjectID loadBalancer))) (\<lambda>_.
     bindIO (liftE (guardE (MatchesGateway i (lb_Tags loadBalancer) RoleLoadBalancer) conflict)) (\<lambda>_.
     if \<not> lb_AdminStateUp loadBalancer then
       returnIO (GatewayProgressingResult ''Octavia load balancer is administratively disabled'' (pv_pollInterval p), True)
     else
     bindIO (findManagedGatewayListener g p i (lb_ID loadBalancer)) (\<lambda>found.
     case found of
        None \<Rightarrow> returnIO (GatewayProgressingResult ''Octavia listener has not been created'' (pv_pollInterval p), True)
      | Some listener \<Rightarrow>
          if li_Protocol listener \<noteq> ''HTTP'' then throwIO conflict
          else if \<not> li_AdminStateUp listener then
            returnIO (GatewayProgressingResult ''Octavia listener is administratively disabled'' (pv_pollInterval p), True)
          else
            let state = emptyGatewayState\<lparr>st_LoadBalancerID := lb_ID loadBalancer,
              st_VIPPortID := lb_VipPortID loadBalancer, st_VIPAddress := lb_VipAddress loadBalancer,
              st_ListenerID := li_ID listener\<rparr> in
            bindIO (listGatewayFloatingIPs g p i (lb_VipPortID loadBalancer)) (\<lambda>floatingIPItems.
            bindIO (liftE (foldE acceptGatewayFloatingIP floatingIPItems state)) (\<lambda>state.
            returnIO (GatewayReadyResult state, True))))))"

text \<open>The zero value \<^verbatim>\<open>GatewayResult{}\<close>.\<close>

definition emptyGatewayResult :: GatewayResult where
  "emptyGatewayResult = \<lparr>gres_State = emptyGatewayState, gres_Outcome = unsetOutcome\<rparr>"

definition GetGateway :: "('w, 'p) gophercloud \<Rightarrow> Provider \<Rightarrow> Identity \<Rightarrow> ('w, GatewayResult \<times> bool) io" where
  "GetGateway g p resourceIdentity = mapErrIO Classify (
     bindIO (liftE (identity p resourceIdentity)) (\<lambda>i.
     bindIO (findGatewayLoadBalancer g p i) (\<lambda>found.
     case found of
        None \<Rightarrow> returnIO (emptyGatewayResult, False)
      | Some loadBalancer \<Rightarrow>
          bindIO (liftE (guardE (MatchesGateway i (lb_Tags loadBalancer) RoleLoadBalancer) conflict)) (\<lambda>_.
          bindIO (observeLoadBalancerOnce g p (lb_ID loadBalancer)) (\<lambda>observation.
          case ob_phase observation of
             loadBalancerPhaseAbsent \<Rightarrow> returnIO (emptyGatewayResult, False)
           | loadBalancerPhasePending \<Rightarrow>
               returnIO (\<lparr>gres_State = emptyGatewayState, gres_Outcome = ob_outcome observation\<rparr>, True)
           | loadBalancerPhaseActive \<Rightarrow>
               bindIO (liftE (deref (ob_loadBalancer observation))) (getActiveGateway g p i))))))"

section \<open>DeleteGateway\<close>

definition deleteGatewayResource :: "('w, 'p) gophercloud \<Rightarrow> gatewayDeletionStep \<Rightarrow> ('w, unit) io" where
  "deleteGatewayResource g step = (case ds_resource step of
      gatewayDeletionL7Rule \<Rightarrow> DeleteRule g (ds_parentID step) (ds_resourceID step)
    | gatewayDeletionL7Policy \<Rightarrow> DeletePolicy g (ds_resourceID step)
    | gatewayDeletionListener \<Rightarrow> DeleteListener g (ds_resourceID step)
    | gatewayDeletionMonitor \<Rightarrow> DeleteMonitor g (ds_resourceID step)
    | gatewayDeletionMember \<Rightarrow> DeleteMember g (ds_parentID step) (ds_resourceID step)
    | gatewayDeletionPool \<Rightarrow> DeletePool g (ds_resourceID step))"

definition executeGatewayDeletionStep :: "('w, 'p) gophercloud \<Rightarrow> gatewayDeletionStep \<Rightarrow> ('w, unit) io" where
  "executeGatewayDeletionStep g step =
     resultIO (ignoreNotFound g mutationError) (deleteGatewayResource g step)"

text \<open>The value of the string type gatewayDeletionResource.\<close>

definition resourceText :: "gatewayDeletionResource \<Rightarrow> string" where
  "resourceText r = (case r of
      gatewayDeletionL7Rule \<Rightarrow> ''L7 rule''
    | gatewayDeletionL7Policy \<Rightarrow> ''L7 policy''
    | gatewayDeletionListener \<Rightarrow> ''listener''
    | gatewayDeletionMonitor \<Rightarrow> ''health monitor''
    | gatewayDeletionMember \<Rightarrow> ''member''
    | gatewayDeletionPool \<Rightarrow> ''pool'')"

definition deleteGatewayGraph :: "('w, 'p) gophercloud \<Rightarrow> Provider \<Rightarrow> Identity \<Rightarrow> LoadBalancer \<Rightarrow> ('w, Outcome) io" where
  "deleteGatewayGraph g p i managedLoadBalancer =
     bindIO (buildGatewayDeletionPlan g p i (lb_ID managedLoadBalancer)) (\<lambda>deletionPlan.
     bindIO (mapErrIO Wrapf (ListFloatingIPs g \<lparr>fil_PortID = lb_VipPortID managedLoadBalancer,
       fil_ProjectID = pv_projectID p\<rparr>)) (\<lambda>floatingIPs.
     bindIO (liftE (foreachE (\<lambda>floatingIP.
       bindE (validateFloatingIPProject p (fi_ProjectID floatingIP) (fi_TenantID floatingIP)) (\<lambda>_.
       guardE (MatchesGatewayDescription i (fi_Description floatingIP) RoleFloatingIP) conflict)) floatingIPs)) (\<lambda>_.
     case firstStep deletionPlan of
        Some step \<Rightarrow>
          bindIO (executeGatewayDeletionStep g step) (\<lambda>_.
          returnIO (progressingOutcome p (''Deleting controller-owned '' @ resourceText (ds_resource step))))
      | None \<Rightarrow>
          (case sort_key fi_ID floatingIPs of
             floatingIP # _ \<Rightarrow>
               bindIO (resultIO (ignoreNotFound g Wrapf) (DeleteFloatingIP g (fi_ID floatingIP))) (\<lambda>_.
               returnIO (progressingOutcome p ''Deleting controller-owned Floating IP''))
           | [] \<Rightarrow>
               bindIO (resultIO (ignoreNotFound g mutationError) (DeleteLoadBalancer g (lb_ID managedLoadBalancer))) (\<lambda>_.
               returnIO (progressingOutcome p ''Deleting Octavia load balancer''))))))"

definition checkDeletingLoadBalancer :: "Provider \<Rightarrow> Identity \<Rightarrow> LoadBalancer \<Rightarrow> LoadBalancer option \<Rightarrow> unit result" where
  "checkDeletingLoadBalancer p i managedLoadBalancer observed = (case observed of
      None \<Rightarrow> Inr ()
    | Some lb \<Rightarrow>
        bindE (guardE (lb_ID lb = lb_ID managedLoadBalancer) conflict) (\<lambda>_.
        bindE (validateLoadBalancerProject p (lb_ProjectID lb)) (\<lambda>_.
        guardE (MatchesGateway i (lb_Tags lb) RoleLoadBalancer) conflict)))"

definition DeleteGateway :: "('w, 'p) gophercloud \<Rightarrow> Provider \<Rightarrow> Identity \<Rightarrow> ('w, Outcome) io" where
  "DeleteGateway g p cloudIdentity = mapErrIO Classify (
     bindIO (liftE (identity p cloudIdentity)) (\<lambda>i.
     bindIO (findGatewayLoadBalancer g p i) (\<lambda>found.
     case found of
        None \<Rightarrow> returnIO ReadyOutcome
      | Some managedLoadBalancer \<Rightarrow>
          bindIO (liftE (guardE (MatchesGateway i (lb_Tags managedLoadBalancer) RoleLoadBalancer) conflict)) (\<lambda>_.
          bindIO (observeLoadBalancerOnce g p (lb_ID managedLoadBalancer)) (\<lambda>observation.
          bindIO (liftE (checkDeletingLoadBalancer p i managedLoadBalancer (ob_loadBalancer observation))) (\<lambda>_.
          case ob_phase observation of
             loadBalancerPhaseAbsent \<Rightarrow> returnIO ReadyOutcome
           | loadBalancerPhasePending \<Rightarrow> returnIO (ob_outcome observation)
           | loadBalancerPhaseActive \<Rightarrow>
               bindIO (liftE (deref (ob_loadBalancer observation))) (deleteGatewayGraph g p i)))))))"

section \<open>What the observations return\<close>

lemma deref_ok [go_simps]: "deref x = Inr y \<longleftrightarrow> x = Some y"
  by (auto simp: deref_def split: option.splits)

lemma progressing_state [simp]: "o_State (progressingOutcome p message) = OutcomeProgressing"
  by (simp add: progressingOutcome_def)

lemma findGatewayLoadBalancer_inspects:
  "inspects (findGatewayLoadBalancer g p i) (\<lambda>found es. \<exists>opts. case found of
      None \<Rightarrow> es = [EvListLoadBalancers opts (Inr [])]
    | Some lb \<Rightarrow> es = [EvListLoadBalancers opts (Inr [lb])] \<and> lb_ProjectID lb = pv_projectID p)"
  unfolding findGatewayLoadBalancer_def
  by (intro effects) (auto simp: go_simps split: list.splits)

lemma observeLoadBalancerOnce_inspects:
  "inspects (observeLoadBalancerOnce g p i) (\<lambda>ob es. \<exists>r. observeStatus g p r = Inr ob \<and> es = [EvGetLoadBalancer i r])"
  unfolding observeLoadBalancerOnce_def by (rule getLoadBalancer.inspects_result)

lemma observeStatus_cases:
  assumes "observeStatus g p r = Inr ob"
  shows "case ob_phase ob of
      loadBalancerPhaseAbsent \<Rightarrow> ob_loadBalancer ob = None \<and> (\<exists>e. r = Inl e \<and> isNotFound g e)
    | loadBalancerPhasePending \<Rightarrow> (\<exists>lb. r = Inr lb \<and> ob_loadBalancer ob = Some lb) \<and>
        (\<exists>message. ob_outcome ob = progressingOutcome p message)
    | loadBalancerPhaseActive \<Rightarrow> \<exists>lb. r = Inr lb \<and> ob_loadBalancer ob = Some lb \<and> lb_ProvisioningStatus lb = ''ACTIVE''"
  using assms by (auto simp: observeStatus_def split: sum.splits if_splits)

lemma acceptListener_ok [go_simps]:
  "acceptListener p i loadBalancerID x owned = Inr found \<longleftrightarrow>
     (ownedListener p i loadBalancerID x \<and> MatchesGatewayDiscovery i (li_Tags x) RoleListener) \<and>
     owned = None \<and> found = Some x"
  by (auto simp: acceptListener_def ownedListener_def go_simps)

lemma findManagedGatewayListener_inspects:
  "inspects (findManagedGatewayListener g p i loadBalancerID) (\<lambda>found es. \<exists>items.
     es = [EvListListeners (scopedOpts p loadBalancerID) (Inr items)] \<and>
     list_all (ownedListener p i loadBalancerID) items \<and>
     (found = None \<and> items = [] \<or> (\<exists>x. found = Some x \<and> items = [x])))"
  unfolding findManagedGatewayListener_def
  by (intro effects) (auto dest!: foldE_at_most_one [OF acceptListener_ok] simp: asList_def list_all_iff split: option.splits)

definition portOpts :: "string \<Rightarrow> FloatingIPListOpts" where
  "portOpts vipPortID = \<lparr>fil_PortID = vipPortID, fil_ProjectID = []\<rparr>"

lemma listGatewayFloatingIPs_inspects:
  "inspects (listGatewayFloatingIPs g p i vipPortID) (\<lambda>found es. \<exists>items.
     es = [EvListFloatingIPs (portOpts vipPortID) (Inr items)] \<and>
     list_all (ownedFloatingIP p i) items \<and> found = sort_key fi_ID items)"
  unfolding listGatewayFloatingIPs_def
  by (intro effects) (auto simp: go_simps checkFloatingIP_def ownedFloatingIP_def list_all_iff portOpts_def)

lemma findGatewayListener_inspects:
  "inspects (findGatewayListener g p i spec loadBalancerID) (\<lambda>found es. \<exists>items.
     es = [EvListListeners (scopedOpts p loadBalancerID) (Inr items)] \<and>
     list_all (ownedListener p i loadBalancerID) items \<and>
     (found = None \<and> items = [] \<or> (\<exists>x. found = Some x \<and> items = [x] \<and>
        li_Protocol x = ''HTTP'' \<and> li_ProtocolPort x = gs_ListenerPort spec)))"
  unfolding findGatewayListener_def
  by (intro inspects_bind [OF findManagedGatewayListener_inspects]) (auto intro!: effects split: option.splits)

lemmas observations = findGatewayLoadBalancer_inspects observeLoadBalancerOnce_inspects
  findManagedGatewayListener_inspects listGatewayFloatingIPs_inspects findGatewayListener_inspects
  buildGatewayDeletionPlan_inspects inspects_mapErr [OF buildGatewayDeletionPlan_inspects]

lemmas observations_then [effects] = observations [THEN inspects_bind] observations [THEN issues_bind]

section \<open>DeleteGateway deletes leaves of the owned graph\<close>

definition reportsProgress :: "('a \<Rightarrow> Outcome) \<Rightarrow> 'a result \<Rightarrow> bool" where
  "reportsProgress outcome r = (case r of Inl e \<Rightarrow> True | Inr x \<Rightarrow> o_State (outcome x) = OutcomeProgressing)"

definition stepReady :: "Provider \<Rightarrow> event list \<Rightarrow> gatewayDeletionStep \<Rightarrow> bool" where
  "stepReady p es step \<longleftrightarrow> listed p es step \<and> noChildren p es step"

definition emptyLoadBalancer :: "Provider \<Rightarrow> event list \<Rightarrow> string \<Rightarrow> bool" where
  "emptyLoadBalancer p es loadBalancerID \<longleftrightarrow>
     EvListListeners (scopedOpts p loadBalancerID) (Inr []) \<in> set es \<and>
     EvListPools (scopedOpts p loadBalancerID) (Inr []) \<in> set es"

text \<open>
  What may be deleted after the requests \<open>es\<close>: a leaf of the graph; a pool or listener only when no
  policy is left that could refer to it; a Floating IP only when the load balancer is empty; the load
  balancer only when in addition its port has no Floating IP.
\<close>

fun leafDeletion :: "Provider \<Rightarrow> event list \<Rightarrow> event \<Rightarrow> bool" where
  "leafDeletion p es (EvDeleteRule policyID i _) \<longleftrightarrow> stepReady p es (deletionStep gatewayDeletionL7Rule i policyID)"
| "leafDeletion p es (EvDeletePolicy i _) \<longleftrightarrow> stepReady p es (deletionStep gatewayDeletionL7Policy i [])"
| "leafDeletion p es (EvDeleteMonitor i _) \<longleftrightarrow>
     (\<exists>poolID. stepReady p es (deletionStep gatewayDeletionMonitor i poolID)) \<and> noPolicies es"
| "leafDeletion p es (EvDeleteMember poolID i _) \<longleftrightarrow>
     stepReady p es (deletionStep gatewayDeletionMember i poolID) \<and> noPolicies es"
| "leafDeletion p es (EvDeletePool i _) \<longleftrightarrow>
     stepReady p es (deletionStep gatewayDeletionPool i []) \<and> noPolicies es"
| "leafDeletion p es (EvDeleteListener i _) \<longleftrightarrow>
     stepReady p es (deletionStep gatewayDeletionListener i []) \<and> noPolicies es"
| "leafDeletion p es (EvDeleteFloatingIP i _) \<longleftrightarrow>
     (\<exists>opts items lb x. EvListFloatingIPs opts (Inr items) \<in> set es \<and> i \<in> fi_ID ` set items \<and>
        EvGetLoadBalancer x (Inr lb) \<in> set es \<and> emptyLoadBalancer p es (lb_ID lb))"
| "leafDeletion p es (EvDeleteLoadBalancer i _) \<longleftrightarrow>
     (\<exists>lb opts. EvGetLoadBalancer i (Inr lb) \<in> set es \<and> lb_ID lb = i \<and> lb_ProvisioningStatus lb = ''ACTIVE'' \<and>
        emptyLoadBalancer p es i \<and> fil_PortID opts = lb_VipPortID lb \<and> EvListFloatingIPs opts (Inr []) \<in> set es)"
| "leafDeletion p es _ \<longleftrightarrow> False"

definition gatewayGone :: "('w, 'p) gophercloud \<Rightarrow> event list \<Rightarrow> bool" where
  "gatewayGone g es \<longleftrightarrow> (\<exists>opts. EvListLoadBalancers opts (Inr []) \<in> set es) \<or>
     (\<exists>i e. EvGetLoadBalancer i (Inl e) \<in> set es \<and> isNotFound g e)"

lemma stepReady_parent:
  assumes "stepReady p es step"
  shows "case ds_resource step of
      gatewayDeletionL7Policy \<Rightarrow> stepReady p es (deletionStep gatewayDeletionL7Policy (ds_resourceID step) [])
    | gatewayDeletionListener \<Rightarrow> stepReady p es (deletionStep gatewayDeletionListener (ds_resourceID step) [])
    | gatewayDeletionPool \<Rightarrow> stepReady p es (deletionStep gatewayDeletionPool (ds_resourceID step) [])
    | r \<Rightarrow> stepReady p es (deletionStep r (ds_resourceID step) (ds_parentID step))"
  using assms by (cases "ds_resource step") (simp_all add: stepReady_def listed_def noChildren_def)

lemma deleteGatewayResource_mutates:
  assumes "stepReady p es step" and "routeStep step \<or> noPolicies es"
  shows "mutates (deleteGatewayResource g step) (\<lambda>r e. leafDeletion p es e)"
  unfolding deleteGatewayResource_def
  using stepReady_parent [OF assms(1)] assms(2)
  by (cases "ds_resource step") (auto intro!: effects simp: routeStep_def)

lemma reportsProgress_simps [simp]:
  "reportsProgress f (mapErr h r) = reportsProgress f r"
  "reportsProgress f (bindE q k) \<longleftrightarrow> (\<forall>x. q = Inr x \<longrightarrow> reportsProgress f (k x))"
  "reportsProgress f (Inr y) \<longleftrightarrow> o_State (f y) = OutcomeProgressing" "reportsProgress f (Inl e)"
  by (cases r; cases q; simp add: reportsProgress_def)+

lemma planReady_step:
  assumes "planReady p loadBalancerID es plan" "firstStep plan = Some step" "noPolicies before" "noPolicies after"
  shows "stepReady p (before @ es @ after) step" "routeStep step \<or> noPolicies (before @ es @ after)"
  using assms by (auto simp: planReady_def stepReady_def intro: listed_mono noChildren_mono)

lemma planReady_empty:
  "planReady p loadBalancerID es plan \<Longrightarrow> firstStep plan = None \<Longrightarrow> emptyLoadBalancer p (before @ es @ after) loadBalancerID"
  by (auto simp: planReady_def emptyLoadBalancer_def)

lemma executeGatewayDeletionStep_mutates:
  assumes "planReady p loadBalancerID es plan" "firstStep plan = Some step" "noPolicies before" "noPolicies after"
  shows "mutates (executeGatewayDeletionStep g step) (\<lambda>r. leafDeletion p (before @ es @ after))"
  unfolding executeGatewayDeletionStep_def
  by (intro effects deleteGatewayResource_mutates planReady_step [OF assms])

lemma last_deletions:
  assumes "planReady p (lb_ID lb) es plan" "firstStep plan = None"
    and "EvGetLoadBalancer (lb_ID lb) (Inr lb) \<in> set before" "lb_ProvisioningStatus lb = ''ACTIVE''"
  shows "leafDeletion p (before @ es @ [EvListFloatingIPs \<lparr>fil_PortID = lb_VipPortID lb, fil_ProjectID = j\<rparr> (Inr [])])
      (EvDeleteLoadBalancer (lb_ID lb) r)"
    and "sort_key fi_ID items = item # rest \<Longrightarrow>
      leafDeletion p (before @ es @ [EvListFloatingIPs opts (Inr items)]) (EvDeleteFloatingIP (fi_ID item) r)"
proof -
  show "leafDeletion p (before @ es @ [EvListFloatingIPs \<lparr>fil_PortID = lb_VipPortID lb, fil_ProjectID = j\<rparr> (Inr [])])
      (EvDeleteLoadBalancer (lb_ID lb) r)"
    using assms(3,4) planReady_empty [OF assms(1,2)]
    by (auto intro!: exI [of _ lb] exI [of _ "\<lparr>fil_PortID = lb_VipPortID lb, fil_ProjectID = j\<rparr>"])
  assume "sort_key fi_ID items = item # rest"
  then have "item \<in> set items" by (metis list.set_intros(1) set_sort)
  then show "leafDeletion p (before @ es @ [EvListFloatingIPs opts (Inr items)]) (EvDeleteFloatingIP (fi_ID item) r)"
    using assms(3) planReady_empty [OF assms(1,2)] by fastforce
qed

lemma deleteGatewayGraph_issues:
  assumes "EvGetLoadBalancer (lb_ID lb) (Inr lb) \<in> set before" "lb_ProvisioningStatus lb = ''ACTIVE''"
    "noPolicies before"
  shows "issues (deleteGatewayGraph g p i lb) (\<lambda>_ _. False) (\<lambda>r ro e.
     audited p i ro \<and> leafDeletion p (before @ ro) e \<and> reportsProgress id r)"
  unfolding deleteGatewayGraph_def using assms
  by (intro effects)
    (auto intro!: effects issues_mutates executeGatewayDeletionStep_mutates last_deletions
      simp: go_simps list_all_iff ownedFloatingIP_def simp del: leafDeletion.simps split: option.splits list.splits)

lemma checkDeletingLoadBalancer_ok [go_simps]:
  "checkDeletingLoadBalancer p i managed (Some lb) = Inr u \<longleftrightarrow> lb_ID lb = lb_ID managed \<and> ownedLoadBalancer p i lb"
  by (auto simp: checkDeletingLoadBalancer_def ownedLoadBalancer_def go_simps)

lemma gatewayGone_simps [simp]:
  "gatewayGone g [EvListLoadBalancers opts (Inr [])]"
  "isNotFound g e \<Longrightarrow> gatewayGone g [ev, EvGetLoadBalancer i (Inl e)]"
  by (auto simp: gatewayGone_def)

lemma deleteGatewayGraph_after:
  assumes "lb_ID lb = lb_ID managed" "lb_ProvisioningStatus lb = ''ACTIVE''"
  shows "issues (deleteGatewayGraph g p i lb) K (\<lambda>r ro e.
     audited p i ro \<and>
     leafDeletion p (EvListLoadBalancers opts (Inr [managed]) # EvGetLoadBalancer (lb_ID managed) (Inr lb) # ro) e \<and>
     reportsProgress id r)"
  by (rule issues_weaken [OF deleteGatewayGraph_issues
        [where before = "[EvListLoadBalancers opts (Inr [managed]), EvGetLoadBalancer (lb_ID managed) (Inr lb)]"]])
    (use assms in \<open>auto simp del: leafDeletion.simps\<close>)

text \<open>
  C3. DeleteGateway issues at most one mutating request, as its last request, whatever OpenStack answers.
  Before it, every resource that any answer described was found to belong to the Gateway. The request
  deletes a leaf of that graph: rules before policies, policies before pools and listeners, the Floating
  IP after these, and the load balancer, without cascade, last. Afterwards the outcome is progressing.
  Without a mutation, readiness is reported only if OpenStack showed no load balancer of the Gateway.
\<close>

theorem DeleteGateway_safe:
  "issues (DeleteGateway g p i)
     (\<lambda>outcome es. o_State outcome = OutcomeProgressing \<or> outcome = ReadyOutcome \<and> gatewayGone g es)
     (\<lambda>r ro e. audited p i ro \<and> leafDeletion p ro e \<and> reportsProgress id r)"
  unfolding DeleteGateway_def
  by (intro effects)
    (auto intro!: effects deleteGatewayGraph_after simp: go_simps identity_ok ownedLoadBalancer_def
      simp del: leafDeletion.simps split: option.splits loadBalancerPhase.splits dest!: observeStatus_cases)

section \<open>GetGateway observes\<close>

text \<open>The requests \<open>es\<close> show an active load balancer with one enabled HTTP listener.\<close>

definition serving :: "Provider \<Rightarrow> event list \<Rightarrow> LoadBalancer \<Rightarrow> Listener \<Rightarrow> bool" where
  "serving p es lb listener \<longleftrightarrow>
     (\<exists>x. EvGetLoadBalancer x (Inr lb) \<in> set es) \<and>
     lb_ProvisioningStatus lb = ''ACTIVE'' \<and> lb_AdminStateUp lb \<and>
     EvListListeners (scopedOpts p (lb_ID lb)) (Inr [listener]) \<in> set es \<and>
     li_Protocol listener = ''HTTP'' \<and> li_AdminStateUp listener"

definition gatewayStateOf :: "LoadBalancer \<Rightarrow> Listener \<Rightarrow> FloatingIP option \<Rightarrow> GatewayState" where
  "gatewayStateOf lb listener fip =
     \<lparr>st_LoadBalancerID = lb_ID lb, st_VIPPortID = lb_VipPortID lb, st_VIPAddress = lb_VipAddress lb,
      st_FloatingIPID = (case fip of None \<Rightarrow> [] | Some item \<Rightarrow> fi_ID item),
      st_FloatingIPAddress = (case fip of None \<Rightarrow> [] | Some item \<Rightarrow> fi_FloatingIP item),
      st_ListenerID = li_ID listener\<rparr>"

definition discovered :: "('w, 'p) gophercloud \<Rightarrow> Provider \<Rightarrow> Identity \<Rightarrow> event list \<Rightarrow> GatewayResult \<Rightarrow> bool \<Rightarrow> bool" where
  "discovered g p i es res found = (case o_State (gres_Outcome res) of
      OutcomeReady \<Rightarrow> found \<and> audited p i es \<and>
        (\<exists>lb listener fip items. serving p es lb listener \<and> gres_State res = gatewayStateOf lb listener fip \<and>
           EvListFloatingIPs (portOpts (lb_VipPortID lb)) (Inr items) \<in> set es \<and>
           (case fip of None \<Rightarrow> items = [] | Some item \<Rightarrow> item \<in> set items))
    | OutcomeProgressing \<Rightarrow> found
    | OutcomeUnset \<Rightarrow> \<not> found \<and> gatewayGone g es)"

lemma acceptGatewayFloatingIP_ok [go_simps]:
  "acceptGatewayFloatingIP item state = Inr state' \<longleftrightarrow> st_FloatingIPID state = [] \<and>
     state' = state\<lparr>st_FloatingIPID := fi_ID item, st_FloatingIPAddress := fi_FloatingIP item\<rparr>"
  by (auto simp: acceptGatewayFloatingIP_def go_simps)

lemma acceptGatewayFloatingIP_fold:
  "foldE acceptGatewayFloatingIP items state = Inr state' \<Longrightarrow>
     (items = [] \<and> state' = state) \<or>
     (\<exists>item \<in> set items. state' = state\<lparr>st_FloatingIPID := fi_ID item, st_FloatingIPAddress := fi_FloatingIP item\<rparr>)"
  by (induction items arbitrary: state) (fastforce simp: go_simps)+

lemma discovered_progressing [simp]:
  "discovered g p i es (GatewayProgressingResult message d) True"
  "discovered g p i es \<lparr>gres_State = s, gres_Outcome = progressingOutcome p message\<rparr> True"
  by (simp_all add: discovered_def GatewayProgressingResult_def)

lemma discovered_ready:
  assumes "EvGetLoadBalancer x (Inr lb) \<in> set before" "lb_ProvisioningStatus lb = ''ACTIVE''" "lb_AdminStateUp lb"
    and "li_Protocol listener = ''HTTP''" "li_AdminStateUp listener" "audited p i before"
    "ownedListener p i (lb_ID lb) listener" "list_all (ownedFloatingIP p i) items"
    and fold: "foldE acceptGatewayFloatingIP (sort_key fi_ID items) (gatewayStateOf lb listener None) = Inr state"
  shows "discovered g p i (before @ [EvListListeners (scopedOpts p (lb_ID lb)) (Inr [listener]),
     EvListFloatingIPs (portOpts (lb_VipPortID lb)) (Inr items)]) (GatewayReadyResult state) True"
    (is "discovered g p i ?es _ _")
proof -
  have "serving p ?es lb listener" using assms by (auto simp: serving_def)
  moreover have "audited p i ?es" using assms by simp
  moreover have "\<exists>fip. state = gatewayStateOf lb listener fip \<and>
      (case fip of None \<Rightarrow> items = [] | Some item \<Rightarrow> item \<in> set items)"
    using acceptGatewayFloatingIP_fold [OF fold]
  proof (elim disjE bexE)
    fix item assume "item \<in> set (sort_key fi_ID items)" and "state = (gatewayStateOf lb listener None)
      \<lparr>st_FloatingIPID := fi_ID item, st_FloatingIPAddress := fi_FloatingIP item\<rparr>"
    then show ?thesis by (intro exI [of _ "Some item"]) (simp add: gatewayStateOf_def)
  qed (auto intro: exI [of _ None])
  moreover have "EvListFloatingIPs (portOpts (lb_VipPortID lb)) (Inr items) \<in> set ?es" by simp
  ultimately show ?thesis
    unfolding discovered_def GatewayReadyResult_def by fastforce
qed

lemma getActiveGateway_inspects:
  assumes "EvGetLoadBalancer x (Inr lb) \<in> set before" "lb_ProvisioningStatus lb = ''ACTIVE''"
    "ownedLoadBalancer p i lb \<Longrightarrow> audited p i before"
  shows "inspects (getActiveGateway g p i lb) (\<lambda>y es. discovered g p i (before @ es) (fst y) (snd y))"
  unfolding getActiveGateway_def using assms
  by (intro effects)
    (auto intro!: effects discovered_ready split: option.splits
      simp: go_simps Let_def gatewayStateOf_def emptyGatewayState_def ownedLoadBalancer_def)

lemma getActiveGateway_after:
  assumes "lb_ProvisioningStatus lb = ''ACTIVE''" "ownedLoadBalancer p i managed"
  shows "inspects (getActiveGateway g p i lb) (\<lambda>y es. discovered g p i
     (EvListLoadBalancers opts (Inr [managed]) # EvGetLoadBalancer (lb_ID managed) (Inr lb) # es) (fst y) (snd y))"
  using getActiveGateway_inspects
    [where before = "[EvListLoadBalancers opts (Inr [managed]), EvGetLoadBalancer (lb_ID managed) (Inr lb)]"] assms
  by fastforce

lemma discovered_absent [simp]: "discovered g p i es emptyGatewayResult False \<longleftrightarrow> gatewayGone g es"
  by (simp add: discovered_def emptyGatewayResult_def unsetOutcome_def)

text \<open>
  GetGateway only reads. It reports a ready Gateway only when every answer described resources of
  that Gateway, the load balancer is active and enabled with one enabled HTTP listener, and the
  reported state holds the identifiers and addresses that were observed; it reports no Gateway only if
  OpenStack showed none.
\<close>

theorem GetGateway_readonly:
  "inspects (GetGateway g p i) (\<lambda>(res, found) es. discovered g p i es res found)"
  unfolding GetGateway_def
  by (intro effects)
    (auto intro!: effects getActiveGateway_after simp: case_prod_beta go_simps identity_ok ownedLoadBalancer_def
      split: option.splits loadBalancerPhase.splits dest!: observeStatus_cases)

section \<open>EnsureGateway repairs one thing at a time\<close>

definition routeFree :: "Provider \<Rightarrow> event list \<Rightarrow> string \<Rightarrow> bool" where
  "routeFree p es loadBalancerID \<longleftrightarrow> noPolicies es \<and> EvListPools (scopedOpts p loadBalancerID) (Inr []) \<in> set es"

text \<open>
  What EnsureGateway may change after the requests \<open>es\<close>: it creates what a listing showed to be
  missing, marked as owned by the Gateway; it deletes a listed Floating IP when none is configured;
  and it enables a disabled listener or load balancer only when the graph holds no route resources.
\<close>

fun gatewayRepair :: "Provider \<Rightarrow> Identity \<Rightarrow> GatewaySpec \<Rightarrow> event list \<Rightarrow> event \<Rightarrow> bool" where
  "gatewayRepair p i spec es (EvCreateLoadBalancer opts _) \<longleftrightarrow>
     (\<exists>tags. GatewayDiscoveryTags i RoleLoadBalancer = Inr tags \<and>
        EvListLoadBalancers \<lparr>lbl_ProjectID = pv_projectID p, lbl_Tags = tags\<rparr> (Inr []) \<in> set es) \<and>
     MatchesGateway i (lbc_Tags opts) RoleLoadBalancer \<and>
     lbc_VipSubnetID opts = gs_VIPSubnetID spec \<and> lbc_Provider opts = gs_Provider spec"
| "gatewayRepair p i spec es (EvCreateFloatingIP opts _) \<longleftrightarrow>
     EvListFloatingIPs (portOpts (fic_PortID opts)) (Inr []) \<in> set es \<and>
     MatchesGatewayDescription i (fic_Description opts) RoleFloatingIP \<and>
     fic_FloatingNetworkID opts = gs_ExternalNetworkID spec \<and> gs_ExternalNetworkID spec \<noteq> []"
| "gatewayRepair p i spec es (EvDeleteFloatingIP floatingIPID _) \<longleftrightarrow>
     gs_ExternalNetworkID spec = [] \<and>
     (\<exists>opts items. EvListFloatingIPs opts (Inr items) \<in> set es \<and> floatingIPID \<in> fi_ID ` set items)"
| "gatewayRepair p i spec es (EvCreateListener opts _) \<longleftrightarrow>
     EvListListeners (scopedOpts p (lic_LoadbalancerID opts)) (Inr []) \<in> set es \<and>
     MatchesGateway i (lic_Tags opts) RoleListener \<and>
     lic_Protocol opts = ''HTTP'' \<and> lic_ProtocolPort opts = gs_ListenerPort spec"
| "gatewayRepair p i spec es (EvUpdateListener listenerID up _) \<longleftrightarrow> up = Some True \<and>
     (\<exists>loadBalancerID listener. EvListListeners (scopedOpts p loadBalancerID) (Inr [listener]) \<in> set es \<and>
        li_ID listener = listenerID \<and> \<not> li_AdminStateUp listener \<and> routeFree p es loadBalancerID)"
| "gatewayRepair p i spec es (EvUpdateLoadBalancer loadBalancerID up _) \<longleftrightarrow> up = Some True \<and>
     (\<exists>x lb. EvGetLoadBalancer x (Inr lb) \<in> set es \<and> lb_ID lb = loadBalancerID \<and> \<not> lb_AdminStateUp lb \<and>
        routeFree p es loadBalancerID)"
| "gatewayRepair p i spec es _ \<longleftrightarrow> False"

text \<open>Readiness: the observed graph is owned, serves traffic and is the one the specification asks for.\<close>

definition convergedGateway :: "Provider \<Rightarrow> Identity \<Rightarrow> GatewaySpec \<Rightarrow> event list \<Rightarrow> GatewayState \<Rightarrow> bool" where
  "convergedGateway p i spec es state \<longleftrightarrow> audited p i es \<and>
     (\<exists>lb listener fip. serving p es lb listener \<and> state = gatewayStateOf lb listener fip \<and>
        li_ProtocolPort listener = gs_ListenerPort spec \<and> lb_VipSubnetID lb = gs_VIPSubnetID spec \<and>
        (case fip of
           None \<Rightarrow> gs_ExternalNetworkID spec = [] \<and> EvListFloatingIPs (portOpts (lb_VipPortID lb)) (Inr []) \<in> set es
         | Some item \<Rightarrow> gs_ExternalNetworkID spec \<noteq> [] \<and> fi_FloatingNetworkID item = gs_ExternalNetworkID spec \<and>
             EvListFloatingIPs (portOpts (lb_VipPortID lb)) (Inr [item]) \<in> set es))"

definition ensured :: "Provider \<Rightarrow> Identity \<Rightarrow> GatewaySpec \<Rightarrow> event list \<Rightarrow> GatewayResult \<Rightarrow> bool" where
  "ensured p i spec es res = (case o_State (gres_Outcome res) of
      OutcomeReady \<Rightarrow> convergedGateway p i spec es (gres_State res)
    | OutcomeProgressing \<Rightarrow> True
    | OutcomeUnset \<Rightarrow> False)"

lemma immutableFieldsMatch_ok [go_simps]:
  "immutableFieldsMatch i spec lb \<longleftrightarrow> MatchesGateway i (lb_Tags lb) RoleLoadBalancer \<and>
     lb_VipSubnetID lb = gs_VIPSubnetID spec \<and> (gs_Provider spec = [] \<or> lb_Provider lb = gs_Provider spec)"
  by (auto simp: immutableFieldsMatch_def)

definition foundLoadBalancer :: "Provider \<Rightarrow> Identity \<Rightarrow> GatewaySpec \<Rightarrow> event list \<Rightarrow> LoadBalancer \<Rightarrow> bool" where
  "foundLoadBalancer p i spec es lb \<longleftrightarrow>
     (\<exists>opts managed. es = [EvListLoadBalancers opts (Inr [managed]), EvGetLoadBalancer (lb_ID managed) (Inr lb)] \<and>
        ownedLoadBalancer p i managed \<and> ownedLoadBalancer p i lb) \<and>
     lb_ProvisioningStatus lb = ''ACTIVE'' \<and> lb_VipSubnetID lb = gs_VIPSubnetID spec"

lemma observeManagedLoadBalancer_inspects:
  "inspects (observeManagedLoadBalancer g p i spec item) (\<lambda>y es.
     o_State (snd y) = OutcomeProgressing \<or>
     (\<exists>lb. y = (Some lb, ReadyOutcome) \<and>
        foundLoadBalancer p i spec (EvListLoadBalancers opts (Inr [item]) # es) lb))"
  unfolding observeManagedLoadBalancer_def
  by (intro effects)
    (auto simp: go_simps ownedLoadBalancer_def foundLoadBalancer_def
      split: loadBalancerPhase.splits dest!: observeStatus_cases)

lemma ensureLoadBalancer_issues:
  "issues (ensureLoadBalancer g p i spec)
     (\<lambda>y es. o_State (snd y) = OutcomeProgressing \<or>
        (\<exists>lb. y = (Some lb, ReadyOutcome) \<and> foundLoadBalancer p i spec es lb))
     (\<lambda>r ro e. audited p i ro \<and> gatewayRepair p i spec ro e \<and> reportsProgress snd r)"
  unfolding ensureLoadBalancer_def
  by (intro effects)
    (auto intro: issues_inspects observeManagedLoadBalancer_inspects intro!: effects
      issues_mutates [of "bindIO (mapErrIO h m) f" for h m f]
      simp: gateway_scheme.recognises_own loadBalancerCreateOpts_def split: list.splits)

lemma repair_enable:
  "EvGetLoadBalancer x (Inr lb) \<in> set es \<Longrightarrow> \<not> lb_AdminStateUp lb \<Longrightarrow> routeFree p es (lb_ID lb) \<Longrightarrow>
     gatewayRepair p i spec es (EvUpdateLoadBalancer (lb_ID lb) (Some True) r)"
  "EvListListeners (scopedOpts p parent) (Inr [listener]) \<in> set es \<Longrightarrow> \<not> li_AdminStateUp listener \<Longrightarrow>
     routeFree p es parent \<Longrightarrow> gatewayRepair p i spec es (EvUpdateListener (li_ID listener) (Some True) r')"
  by auto

lemma ensureGatewayListener_issues:
  assumes "\<not> hasRoutes \<Longrightarrow> routeFree p before (lb_ID lb)" "EvGetLoadBalancer x (Inr lb) \<in> set before"
    "EvListListeners (scopedOpts p (lb_ID lb)) (Inr (case observed of None \<Rightarrow> [] | Some listener \<Rightarrow> [listener])) \<in> set before"
  shows "issues (ensureGatewayListener g p i spec lb observed hasRoutes state)
    (\<lambda>res es. es = [] \<and> (o_State (gres_Outcome res) = OutcomeProgressing \<or>
       (\<exists>listener. observed = Some listener \<and> li_AdminStateUp listener \<and> lb_AdminStateUp lb \<and>
          res = GatewayReadyResult (state\<lparr>st_ListenerID := li_ID listener\<rparr>))))
    (\<lambda>r ro e. ro = [] \<and> gatewayRepair p i spec before e \<and> reportsProgress gres_Outcome r)"
proof (cases observed)
  case None
  with assms(3) show ?thesis
    by (auto intro!: effects issues_mutates [of "bindIO (mapErrIO h m) f" for h m f]
      simp: ensureGatewayListener_def ensureListener_def bindIO_laws gateway_scheme.recognises_own listenerCreateOpts_def)
next
  case (Some listener)
  with assms show ?thesis
    by (cases "li_AdminStateUp listener"; cases hasRoutes; cases "lb_AdminStateUp lb")
      (auto intro!: effects issues_mutates [of "bindIO (mapErrIO h m) f" for h m f] repair_enable
        simp del: gatewayRepair.simps simp: ensureGatewayListener_def ensureListener_def enableListener_def enableLoadBalancer_def
          bindIO_laws Let_def deref_def liftE_intros [symmetric])
qed

lemma acceptFloatingIP_ok [go_simps]:
  "acceptFloatingIP networkID fip owned = Inr found \<longleftrightarrow>
     fi_FloatingNetworkID fip = networkID \<and> owned = None \<and> found = Some fip"
  by (auto simp: acceptFloatingIP_def go_simps)

text \<open>The floating IP that the specification asks for was the only one observed on the port.\<close>

definition floatingIPObserved :: "GatewaySpec \<Rightarrow> event list \<Rightarrow> string \<Rightarrow> FloatingIP option \<Rightarrow> bool" where
  "floatingIPObserved spec es vipPortID fip = (case fip of
      None \<Rightarrow> gs_ExternalNetworkID spec = [] \<and> EvListFloatingIPs (portOpts vipPortID) (Inr []) \<in> set es
    | Some item \<Rightarrow> gs_ExternalNetworkID spec \<noteq> [] \<and> fi_FloatingNetworkID item = gs_ExternalNetworkID spec \<and>
        EvListFloatingIPs (portOpts vipPortID) (Inr [item]) \<in> set es)"

lemma convergedGatewayI:
  assumes "audited p i es" "serving p es lb listener" "li_ProtocolPort listener = gs_ListenerPort spec"
    "lb_VipSubnetID lb = gs_VIPSubnetID spec" "floatingIPObserved spec es (lb_VipPortID lb) fip"
  shows "convergedGateway p i spec es (gatewayStateOf lb listener fip)"
  using assms unfolding convergedGateway_def floatingIPObserved_def by blast

lemma ensureGatewayListener_after:
  assumes "audited p i before" "planReady p (lb_ID lb) es plan" "set es \<subseteq> set before"
    and "noPolicies es \<Longrightarrow> noPolicies before"
    and "EvGetLoadBalancer x (Inr lb) \<in> set before" "lb_ProvisioningStatus lb = ''ACTIVE''"
    and "lb_VipSubnetID lb = gs_VIPSubnetID spec"
    and "EvListListeners (scopedOpts p (lb_ID lb)) (Inr (case observed of None \<Rightarrow> [] | Some listener \<Rightarrow> [listener])) \<in> set before"
    and "\<And>listener. observed = Some listener \<Longrightarrow> li_Protocol listener = ''HTTP'' \<and> li_ProtocolPort listener = gs_ListenerPort spec"
    and "floatingIPObserved spec before (lb_VipPortID lb) fip"
    and "\<And>listener. state\<lparr>st_ListenerID := li_ID listener\<rparr> = gatewayStateOf lb listener fip"
  shows "issues (ensureGatewayListener g p i spec lb observed (hasRouteResources plan) state)
    (\<lambda>res es. es = [] \<and> ensured p i spec before res)
    (\<lambda>r ro e. ro = [] \<and> gatewayRepair p i spec before e \<and> reportsProgress gres_Outcome r)"
proof -
  have "routeFree p before (lb_ID lb)" if "\<not> hasRouteResources plan"
    using that assms(2-4) by (auto simp: hasRouteResources_def planReady_def routeFree_def)
  moreover have "ensured p i spec before (GatewayReadyResult (gatewayStateOf lb listener fip))"
    if "observed = Some listener" "li_AdminStateUp listener" "lb_AdminStateUp lb" for listener
    using assms that unfolding ensured_def GatewayReadyResult_def
    by (auto intro!: convergedGatewayI simp: serving_def)
  ultimately show ?thesis
    using assms
    by (intro issues_weaken [OF ensureGatewayListener_issues [where before = before and x = x]])
      (auto simp: ensured_def simp del: gatewayRepair.simps)
qed

lemma ensured_progressing [simp]:
  "o_State (gres_Outcome res) = OutcomeProgressing \<Longrightarrow> ensured p i spec es res"
  by (simp add: ensured_def)

text \<open>The graph that EnsureGateway has observed before it looks at Floating IPs.\<close>

definition observedGraph :: "Provider \<Rightarrow> Identity \<Rightarrow> GatewaySpec \<Rightarrow> LoadBalancer \<Rightarrow> event list \<Rightarrow> gatewayDeletionPlan \<Rightarrow>
    Listener option \<Rightarrow> bool" where
  "observedGraph p i spec lb before plan observed \<longleftrightarrow> audited p i before \<and>
     (\<exists>es. planReady p (lb_ID lb) es plan \<and> set es \<subseteq> set before \<and> (noPolicies es \<longrightarrow> noPolicies before)) \<and>
     (\<exists>x. EvGetLoadBalancer x (Inr lb) \<in> set before) \<and> lb_ProvisioningStatus lb = ''ACTIVE'' \<and>
     lb_VipSubnetID lb = gs_VIPSubnetID spec \<and>
     EvListListeners (scopedOpts p (lb_ID lb)) (Inr (case observed of None \<Rightarrow> [] | Some listener \<Rightarrow> [listener])) \<in> set before \<and>
     (\<forall>listener. observed = Some listener \<longrightarrow> li_Protocol listener = ''HTTP'' \<and> li_ProtocolPort listener = gs_ListenerPort spec)"

lemma ensureGatewayListener_observed:
  assumes "observedGraph p i spec lb before plan observed" "list_all (ownedFloatingIP p i) items"
    and "floatingIPObserved spec [EvListFloatingIPs opts (Inr items)] (lb_VipPortID lb) fip"
    and "\<And>listener. state\<lparr>st_ListenerID := li_ID listener\<rparr> = gatewayStateOf lb listener fip"
  shows "issues (ensureGatewayListener g p i spec lb observed (hasRouteResources plan) state)
    (\<lambda>res es. ensured p i spec (before @ EvListFloatingIPs opts (Inr items) # es) res)
    (\<lambda>r ro e. audited p i ro \<and> gatewayRepair p i spec (before @ EvListFloatingIPs opts (Inr items) # ro) e \<and>
       reportsProgress gres_Outcome r)"
proof -
  obtain es x where es: "planReady p (lb_ID lb) es plan" "set es \<subseteq> set before" "noPolicies es \<longrightarrow> noPolicies before"
    "EvGetLoadBalancer x (Inr lb) \<in> set before"
    using assms(1) by (auto simp: observedGraph_def)
  have "floatingIPObserved spec (before @ [EvListFloatingIPs opts (Inr items)]) (lb_VipPortID lb) fip"
    using assms(3) by (auto simp: floatingIPObserved_def split: option.splits)
  with assms es show ?thesis
    by (intro issues_weaken [OF ensureGatewayListener_after
          [where before = "before @ [EvListFloatingIPs opts (Inr items)]" and es = es and x = x and fip = fip]])
      (auto simp: observedGraph_def simp del: gatewayRepair.simps)
qed

lemma own_description [simp]: "MatchesGatewayDescription i (GatewayDescription i role) role"
  using Description_prefix [of "gatewayOnly i" role]
  by (auto simp: MatchesGatewayDescription_def GatewayDescription_def MatchesDescription_def HasPrefix_iff)

lemma repair_deleteFloatingIP:
  assumes "gs_ExternalNetworkID spec = []" "sort_key fi_ID items = item # rest"
  shows "gatewayRepair p i spec (before @ [EvListFloatingIPs opts (Inr items)]) (EvDeleteFloatingIP (fi_ID item) r)"
proof -
  have "item \<in> set items" using assms(2) by (metis list.set_intros(1) set_sort)
  then show ?thesis using assms(1) by auto
qed

lemma ensureGatewayFloatingIP_issues:
  assumes "observedGraph p i spec lb before plan observed"
    and "\<And>listener. state\<lparr>st_ListenerID := li_ID listener\<rparr> = gatewayStateOf lb listener None"
  shows "issues (ensureGatewayFloatingIP g p i spec lb observed (hasRouteResources plan) state)
    (\<lambda>res es. ensured p i spec (before @ es) res)
    (\<lambda>r ro e. audited p i ro \<and> gatewayRepair p i spec (before @ ro) e \<and> reportsProgress gres_Outcome r)"
proof (cases "gs_ExternalNetworkID spec = []")
  case True
  then show ?thesis
    using assms unfolding ensureGatewayFloatingIP_def ensureNoFloatingIP_def bindIO_laws
    by (simp, intro effects)
      (auto intro!: effects issues_mutates [of "bindIO (resultIO h m) f" for h m f] repair_deleteFloatingIP
        ensureGatewayListener_observed [where fip = None and items = "[]"]
        simp: bindIO_laws floatingIPObserved_def simp del: gatewayRepair.simps split: list.splits)
next
  case False
  have "state\<lparr>st_FloatingIPID := fi_ID x, st_FloatingIPAddress := fi_FloatingIP x, st_ListenerID := li_ID listener\<rparr> =
      gatewayStateOf lb listener (Some x)" for x listener
    using arg_cong [OF assms(2) [of listener], of "\<lambda>s. s\<lparr>st_FloatingIPID := fi_ID x, st_FloatingIPAddress := fi_FloatingIP x\<rparr>"]
    by (cases state) (simp add: gatewayStateOf_def)
  with False show ?thesis
    using assms(1) unfolding ensureGatewayFloatingIP_def ensureFloatingIP_def bindIO_laws
    by (simp, intro effects)
      (auto intro!: effects issues_mutates [of "bindIO (mapErrIO h m) f" for h m f]
        ensureGatewayListener_observed [where fip = "Some item" and items = "[item]" for item]
        simp: bindIO_laws floatingIPObserved_def deref_def split: option.splits dest!: foldE_at_most_one [OF acceptFloatingIP_ok])
qed

lemma ensureGatewayGraph_issues:
  assumes "foundLoadBalancer p i spec before lb"
  shows "issues (ensureGatewayGraph g p i spec lb)
    (\<lambda>res es. ensured p i spec (before @ es) res)
    (\<lambda>r ro e. audited p i (before @ ro) \<and> gatewayRepair p i spec (before @ ro) e \<and> reportsProgress gres_Outcome r)"
  unfolding ensureGatewayGraph_def Let_def
proof (intro effects)
  fix plan es observed es'
  assume plan: "audited p i es \<and> planReady p (lb_ID lb) es plan"
    and listener: "\<exists>items. es' = [EvListListeners (scopedOpts p (lb_ID lb)) (Inr items)] \<and>
      list_all (ownedListener p i (lb_ID lb)) items \<and>
      (observed = None \<and> items = [] \<or> (\<exists>x. observed = Some x \<and> items = [x] \<and>
         li_Protocol x = ''HTTP'' \<and> li_ProtocolPort x = gs_ListenerPort spec))"
  have "audited p i before" "noPolicies before" "\<exists>x. EvGetLoadBalancer x (Inr lb) \<in> set before"
    using assms by (auto simp: foundLoadBalancer_def)
  then have "observedGraph p i spec lb (before @ es @ es') plan observed"
    unfolding observedGraph_def
    using plan listener assms
    by (intro conjI exI [of _ es]) (auto simp: foundLoadBalancer_def)
  then show "issues (ensureGatewayFloatingIP g p i spec lb observed (hasRouteResources plan)
      (emptyGatewayState\<lparr>st_LoadBalancerID := lb_ID lb, st_VIPPortID := lb_VipPortID lb, st_VIPAddress := lb_VipAddress lb\<rparr>))
     (\<lambda>res es''. ensured p i spec (before @ es @ es' @ es'') res)
     (\<lambda>r ro e. audited p i (before @ es @ es' @ ro) \<and> gatewayRepair p i spec (before @ es @ es' @ ro) e \<and>
        reportsProgress gres_Outcome r)"
    by (intro issues_weaken [OF ensureGatewayFloatingIP_issues [where before = "before @ es @ es'"]])
      (auto simp: observedGraph_def gatewayStateOf_def emptyGatewayState_def simp del: gatewayRepair.simps)
qed

text \<open>
  C4. EnsureGateway issues at most one mutating request, as its last request, whatever OpenStack answers.
  Before it every answer described resources of the Gateway only; the request creates something that a
  listing showed to be missing, with the Gateway's identity on it, or repairs the observed graph, and
  nothing is enabled while route resources exist. Afterwards the outcome is progressing. Without a
  mutation, readiness is reported only for an owned graph that serves the specification, and the
  reported state is the one observed.
\<close>

theorem EnsureGateway_safe:
  "issues (EnsureGateway g p spec)
     (\<lambda>res es. ensured p (gs_Identity spec) spec es res)
     (\<lambda>r ro e. audited p (gs_Identity spec) ro \<and> gatewayRepair p (gs_Identity spec) spec ro e \<and>
        reportsProgress gres_Outcome r)"
  unfolding EnsureGateway_def
proof (intro effects)
  fix i u
  assume "identity p (gs_Identity spec) = Inr i"
  then have i: "gs_Identity spec = i" by (simp add: identity_ok)
  show "issues (bindIO (ensureLoadBalancer g p i spec) (\<lambda>(loadBalancer, outcome).
     if o_State outcome = OutcomeProgressing
     then returnIO \<lparr>gres_State = emptyGatewayState, gres_Outcome = outcome\<rparr>
     else bindIO (liftE (deref loadBalancer)) (ensureGatewayGraph g p i spec)))
     (\<lambda>res es. ensured p (gs_Identity spec) spec es res)
     (\<lambda>r ro e. audited p (gs_Identity spec) ro \<and> gatewayRepair p (gs_Identity spec) spec ro e \<and>
        reportsProgress gres_Outcome (mapErr Classify r))"
    unfolding i
    by (rule issues_bind_issues [OF ensureLoadBalancer_issues])
      (auto intro!: effects ensureGatewayGraph_issues [where before = es for es, simplified] simp: go_simps liftE_intros
        simp del: gatewayRepair.simps)
qed

end
