(* ===== verification/Netip.thy ===== *)
theory Netip
  imports Encoding
begin

text \<open>
  The part of Go's net/netip package that the route code uses: ParseAddr, the String method of Addr
  and of AddrPort. Route members are compared by the text that these produce, so a member that is
  spelled differently by OpenStack and by the EndpointSlice is recognised as the same one.

  An address is an IPv4 address of four octets or an IPv6 address of eight 16-bit groups with a zone.
\<close>

datatype Addr =
    Addr4 "nat list"
  | Addr6 "nat list" string

section \<open>Parsing\<close>

definition digitValue :: "char \<Rightarrow> nat" where
  "digitValue c = of_char c - 48"

definition isDecimal :: "char \<Rightarrow> bool" where
  "isDecimal c \<longleftrightarrow> 48 \<le> (of_char c :: nat) \<and> (of_char c :: nat) \<le> 57"

text \<open>
  parseIPv4Fields: \<open>digLen\<close> and \<open>val\<close> describe the current octet, \<open>octets\<close> holds the octets already read.
\<close>

fun parseIPv4Fields :: "string \<Rightarrow> nat \<Rightarrow> nat \<Rightarrow> nat list \<Rightarrow> nat list option" where
  "parseIPv4Fields [] digLen val octets =
     (if length octets < 3 then None else Some (octets @ [val]))"
| "parseIPv4Fields (c # cs) digLen val octets =
     (if isDecimal c then
        if digLen = 1 \<and> val = 0 then None
        else let val = val * 10 + digitValue c in
          if val > 255 then None else parseIPv4Fields cs (digLen + 1) val octets
      else if c = CHR ''.'' then
        if digLen = 0 \<or> cs = [] then None
        else if length octets = 3 then None
        else parseIPv4Fields cs 0 0 (octets @ [val])
      else None)"

definition hexValue :: "char \<Rightarrow> nat option" where
  "hexValue c = (let b = (of_char c :: nat) in
     if 48 \<le> b \<and> b \<le> 57 then Some (b - 48)
     else if 97 \<le> b \<and> b \<le> 102 then Some (b - 97 + 10)
     else if 65 \<le> b \<and> b \<le> 70 then Some (b - 65 + 10)
     else None)"

text \<open>The leading hexadecimal digits of a group: their number, their value, and the rest; at most four.\<close>

fun hexGroup :: "string \<Rightarrow> nat \<Rightarrow> nat \<Rightarrow> (nat \<times> nat \<times> string) option" where
  "hexGroup [] off acc = Some (off, acc, [])"
| "hexGroup (c # cs) off acc = (case hexValue c of
      None \<Rightarrow> Some (off, acc, c # cs)
    | Some v \<Rightarrow> if off > 3 then None else hexGroup cs (off + 1) (acc * 16 + v))"

text \<open>
  The loop of parseIPv6 over the text \<open>s\<close>: the groups read so far, the position of the ellipsis among
  them, and the text left over. Two octets of an embedded IPv4 address make one group. At most
  eight groups are read, which is the bound of the recursion.
\<close>

fun parseGroups :: "nat \<Rightarrow> string \<Rightarrow> nat list \<Rightarrow> nat option \<Rightarrow> (nat list \<times> nat option \<times> string) option" where
  "parseGroups 0 s groups ellipsis = Some (groups, ellipsis, s)"
| "parseGroups (Suc left) s groups ellipsis = (case hexGroup s 0 0 of
      None \<Rightarrow> None
    | Some (off, acc, rest) \<Rightarrow>
        if off = 0 then None
        else case rest of
           [] \<Rightarrow> Some (groups @ [acc], ellipsis, [])
         | c # cs \<Rightarrow>
             if c = CHR ''.'' then
               if ellipsis = None \<and> length groups \<noteq> 6 then None
               else if length groups > 6 then None
               else case parseIPv4Fields s 0 0 [] of
                   Some [a, b, d, e] \<Rightarrow> Some (groups @ [a * 256 + b, d * 256 + e], ellipsis, [])
                 | _ \<Rightarrow> None
             else if c \<noteq> CHR '':'' \<or> cs = [] then None
             else if hd cs = CHR '':'' then
               if ellipsis \<noteq> None then None
               else if tl cs = [] then Some (groups @ [acc], Some (length groups + 1), [])
               else parseGroups left (tl cs) (groups @ [acc]) (Some (length groups + 1))
             else parseGroups left cs (groups @ [acc]) ellipsis)"

definition expandEllipsis :: "nat list \<Rightarrow> nat option \<Rightarrow> nat list option" where
  "expandEllipsis groups ellipsis =
     (if length groups < 8 then
        (case ellipsis of
           None \<Rightarrow> None
         | Some e \<Rightarrow> Some (take e groups @ replicate (8 - length groups) 0 @ drop e groups))
      else if ellipsis \<noteq> None then None
      else Some groups)"

definition parseIPv6 :: "string \<Rightarrow> Addr option" where
  "parseIPv6 text = (let s = takeWhile (\<lambda>c. c \<noteq> CHR ''%'') text;
          afterwards = dropWhile (\<lambda>c. c \<noteq> CHR ''%'') text;
          zone = drop 1 afterwards in
     if afterwards \<noteq> [] \<and> zone = [] then None
     else let leading = HasPrefix s ''::'';
              s = (if leading then drop 2 s else s);
              ellipsis = (if leading then Some 0 else None) in
       if leading \<and> s = [] then Some (Addr6 (replicate 8 0) zone)
       else case parseGroups 8 s [] ellipsis of
           Some (groups, ellipsis, []) \<Rightarrow> map_option (\<lambda>gs. Addr6 gs zone) (expandEllipsis groups ellipsis)
         | _ \<Rightarrow> None)"

definition ParseAddr :: "string \<Rightarrow> Addr option" where
  "ParseAddr s = (case find (\<lambda>c. c = CHR ''.'' \<or> c = CHR '':'' \<or> c = CHR ''%'') s of
      None \<Rightarrow> None
    | Some c \<Rightarrow>
        if c = CHR ''.'' then map_option Addr4 (parseIPv4Fields s 0 0 [])
        else if c = CHR '':'' then parseIPv6 s
        else None)"

section \<open>Printing\<close>

definition string4 :: "nat list \<Rightarrow> string" where
  "string4 octets = Join (map itoa octets) ''.''"

fun hexGroupText :: "nat \<Rightarrow> string" where
  "hexGroupText n = (if n < 16 then [hexDigit n] else hexGroupText (n div 16) @ [hexDigit (n mod 16)])"

declare hexGroupText.simps [simp del]

text \<open>The first longest run of at least two zero groups, as its start and length.\<close>

definition zeroRunAt :: "nat list \<Rightarrow> nat \<Rightarrow> nat" where
  "zeroRunAt groups i = length (takeWhile (\<lambda>g. g = 0) (drop i groups))"

definition longestZeroRun :: "nat list \<Rightarrow> (nat \<times> nat) option" where
  "longestZeroRun groups = fold (\<lambda>i best.
     let l = zeroRunAt groups i in
     if l \<ge> 2 \<and> l > (case best of None \<Rightarrow> 0 | Some (_, len) \<Rightarrow> len) then Some (i, l) else best) [0..<8] None"

definition string6 :: "nat list \<Rightarrow> string" where
  "string6 groups = (case longestZeroRun groups of
      None \<Rightarrow> Join (map hexGroupText groups) '':''
    | Some (start, len) \<Rightarrow>
        Join (map hexGroupText (take start groups)) '':'' @ ''::'' @
        Join (map hexGroupText (drop (start + len) groups)) '':'')"

definition is4In6 :: "nat list \<Rightarrow> bool" where
  "is4In6 groups \<longleftrightarrow> take 6 groups = [0, 0, 0, 0, 0, 65535]"

definition withZone :: "string \<Rightarrow> string \<Rightarrow> string" where
  "withZone text zone = (if zone = [] then text else text @ ''%'' @ zone)"

fun AddrString :: "Addr \<Rightarrow> string" where
  "AddrString (Addr4 octets) = string4 octets"
| "AddrString (Addr6 groups zone) = withZone
     (if is4In6 groups
      then ''::ffff:'' @ string4 (concat (map (\<lambda>g. [g div 256, g mod 256]) (drop 6 groups)))
      else string6 groups) zone"

text \<open>The port of an AddrPort is a uint16; callers pass values from 1 to 65535.\<close>

definition AddrPortString :: "Addr \<Rightarrow> nat \<Rightarrow> string" where
  "AddrPortString a port = (case a of
      Addr4 octets \<Rightarrow> string4 octets
    | Addr6 _ _ \<Rightarrow> ''['' @ AddrString a @ '']'') @ '':'' @ itoa port"

section \<open>IPv4 addresses are read back\<close>

lemma isDecimal_digit [simp]: "d < 10 \<Longrightarrow> isDecimal (digit d) \<and> digitValue (digit d) = d"
  by (simp add: isDecimal_def digitValue_def digit_def)

end
