(* ===== verification/RoutePlan.thy ===== *)
theory RoutePlan
  imports GraphProvider Netip "HOL-Library.AList"
begin

text \<open>
  The desired route (route.go) and the plans that turn an observed route graph into it or remove it
  (route\_graph.go). Everything here is pure: the observation and the execution of the first step of a
  plan are in the theory RouteOps.

  A Go map that the code builds and iterates over in sorted order is an association list.
\<close>

section \<open>Constants of the Octavia API\<close>

definition CompareTypeEqual :: string where "CompareTypeEqual = ''EQUAL_TO''"
definition CompareTypeStartWith :: string where "CompareTypeStartWith = ''STARTS_WITH''"
definition TypePath :: string where "TypePath = ''PATH''"
definition TypeHostName :: string where "TypeHostName = ''HOST_NAME''"
definition ActionRedirectToPool :: string where "ActionRedirectToPool = ''REDIRECT_TO_POOL''"
definition LBMethodRoundRobin :: string where "LBMethodRoundRobin = ''ROUND_ROBIN''"
definition ProtocolHTTP :: string where "ProtocolHTTP = ''HTTP''"
definition MonitorTypeHTTP :: string where "MonitorTypeHTTP = ''HTTP''"
definition MethodGet :: string where "MethodGet = ''GET''"

definition routeMonitorDelay :: int where "routeMonitorDelay = 10"
definition routeMonitorTimeout :: int where "routeMonitorTimeout = 5"
definition routeMonitorMaxRetries :: int where "routeMonitorMaxRetries = 3"
definition routeMonitorMaxRetriesDown :: int where "routeMonitorMaxRetriesDown = 3"
definition routeMonitorExpectedCodes :: string where "routeMonitorExpectedCodes = ''200-399''"

section \<open>The desired route\<close>

record desiredPolicy =
  dp_role :: string
  dp_position :: int
  dp_compareType :: string
  dp_path :: string

record desiredRule =
  dr_role :: string
  dr_ruleType :: string
  dr_compareType :: string
  dr_value :: string

record desiredRoute =
  want_identity :: Identity
  want_spec :: RouteSpec
  want_members :: "Member list"
  want_healthPath :: string
  want_policies :: "desiredPolicy list"

definition desiredPolicyOf :: "string \<Rightarrow> int \<Rightarrow> string \<Rightarrow> string \<Rightarrow> desiredPolicy" where
  "desiredPolicyOf role position compareType path =
     \<lparr>dp_role = role, dp_position = position, dp_compareType = compareType, dp_path = path\<rparr>"

definition policiesFor :: "RouteSpec \<Rightarrow> desiredPolicy list" where
  "policiesFor spec =
     (let path = (if rs_PathValue spec = [] then ''/'' else rs_PathValue spec) in
      if rs_PathType spec = PathMatchExact then [desiredPolicyOf RolePolicyExact 1 CompareTypeEqual path]
      else let path = TrimRightByte path (CHR ''/'');
               path = (if path = [] then ''/'' else path) in
        if path = ''/'' then [desiredPolicyOf RolePolicyPrefix 1 CompareTypeStartWith ''/'']
        else [desiredPolicyOf RolePolicyExact 1 CompareTypeEqual path,
              desiredPolicyOf RolePolicyPrefix 2 CompareTypeStartWith (path @ ''/'')])"

definition rulesFor :: "desiredPolicy \<Rightarrow> string \<Rightarrow> desiredRule list" where
  "rulesFor policy hostname =
     \<lparr>dr_role = RoleRulePath, dr_ruleType = TypePath, dr_compareType = dp_compareType policy, dr_value = dp_path policy\<rparr> #
     (if hostname \<noteq> [] then
        [\<lparr>dr_role = RoleRuleHost, dr_ruleType = TypeHostName, dr_compareType = CompareTypeEqual, dr_value = hostname\<rparr>]
      else [])"

definition memberKey :: "string \<Rightarrow> int \<Rightarrow> string" where
  "memberKey address port = (case ParseAddr address of
      Some parsed \<Rightarrow>
        if port < 1 \<or> port > 65535 then address @ '':'' @ itoaInt port
        else AddrPortString parsed (nat port)
    | None \<Rightarrow> address @ '':'' @ itoaInt port)"

definition invalid :: "go_error" where
  "invalid = NewProviderError TerminalValidation Errorf"

definition addMember :: "Member \<Rightarrow> (string \<times> Member) list \<Rightarrow> (string \<times> Member) list result" where
  "addMember member membersByKey =
     (if m_Port member < 1 \<or> m_Port member > 65535 then Inl invalid
      else case ParseAddr (m_Address member) of
          None \<Rightarrow> Inl (NewProviderError TerminalValidation (Wrapf Errorf))
        | Some address \<Rightarrow>
            let member = member\<lparr>m_Address := AddrString address\<rparr> in
            Inr (AList.update (memberKey (m_Address member) (m_Port member)) member membersByKey))"

text \<open>The values of a map in the order of its sorted keys.\<close>

definition sortedValues :: "(string \<times> 'a) list \<Rightarrow> 'a list" where
  "sortedValues table = map (\<lambda>key. the (map_of table key)) (sort (map fst table))"

definition buildDesiredRoute :: "Provider \<Rightarrow> RouteSpec \<Rightarrow> desiredRoute result" where
  "buildDesiredRoute p spec =
     bindE (identity p (rs_Identity spec)) (\<lambda>i.
     bindE (foreachE (\<lambda>role. mapErr (\<lambda>e. NewProviderError TerminalValidation (Wrapf e))
         (bindE (RouteTags i role) (\<lambda>_. Inr ())))
       [RolePool, RoleMember, RoleMonitor, RolePolicyExact, RolePolicyPrefix, RoleRulePath, RoleRuleHost]) (\<lambda>_.
     bindE (guardE (TrimSpace (gr_Provider (rs_GatewayRequirements spec)) \<noteq> []) invalid) (\<lambda>_.
     bindE (guardE (TrimSpace (gr_VIPSubnetID (rs_GatewayRequirements spec)) \<noteq> []) invalid) (\<lambda>_.
     bindE (guardE (\<not> (gr_ListenerPort (rs_GatewayRequirements spec) < 1 \<or>
       gr_ListenerPort (rs_GatewayRequirements spec) > 65535)) invalid) (\<lambda>_.
     bindE (guardE (rs_Members spec \<noteq> []) invalid) (\<lambda>_.
     bindE (guardE (TrimSpace (rs_MemberSubnetID spec) \<noteq> []) invalid) (\<lambda>_.
     bindE (guardE (rs_PathType spec = PathMatchExact \<or> rs_PathType spec = PathMatchPrefix) invalid) (\<lambda>_.
     bindE (foldE addMember (rs_Members spec) []) (\<lambda>membersByKey.
     let healthPath = (if rs_HealthPath spec = [] then ''/'' else rs_HealthPath spec) in
     bindE (guardE (HasPrefix healthPath ''/'') invalid) (\<lambda>_.
     Inr \<lparr>want_identity = i, want_spec = spec, want_members = sortedValues membersByKey,
       want_healthPath = healthPath, want_policies = policiesFor spec\<rparr>))))))))))"

section \<open>The observed route graph\<close>

record observedRouteRule =
  or_rule :: L7Rule
  or_role :: string

record observedRoutePolicy =
  op_policy :: L7Policy
  op_role :: string
  op_rules :: "observedRouteRule list"

record observedRouteGraph =
  og_pool :: "Pool option"
  og_members :: "PoolMember list"
  og_monitor :: "Monitor option"
  og_policies :: "observedRoutePolicy list"

section \<open>Mutations\<close>

datatype routeMutationKind =
    routeMutationCreatePool
  | routeMutationUpdatePool
  | routeMutationDeleteMember
  | routeMutationCreateMember
  | routeMutationUpdateMember
  | routeMutationCreateMonitor
  | routeMutationUpdateMonitor
  | routeMutationDisablePolicy
  | routeMutationDeleteRule
  | routeMutationDeletePolicy
  | routeMutationCreatePolicy
  | routeMutationUpdatePolicy
  | routeMutationCreateRule
  | routeMutationUpdateRule
  | routeMutationEnablePolicy
  | routeMutationDeleteMonitor
  | routeMutationDeletePool

record routeMutation =
  rm_kind :: routeMutationKind
  rm_id :: string
  rm_parentID :: string
  rm_member :: Member
  rm_policy :: desiredPolicy
  rm_rule :: desiredRule

text \<open>A composite literal that sets the kind, the id and the parent, the other fields being zero.\<close>

definition mutation :: "routeMutationKind \<Rightarrow> string \<Rightarrow> string \<Rightarrow> routeMutation" where
  "mutation kind i parent =
     \<lparr>rm_kind = kind, rm_id = i, rm_parentID = parent, rm_member = \<lparr>m_Address = [], m_Port = 0\<rparr>,
      rm_policy = desiredPolicyOf [] 0 [] [],
      rm_rule = \<lparr>dr_role = [], dr_ruleType = [], dr_compareType = [], dr_value = []\<rparr>\<rparr>"

definition message :: "routeMutation \<Rightarrow> string" where
  "message s = (case rm_kind s of
      routeMutationCreatePool \<Rightarrow> ''Created Octavia pool''
    | routeMutationUpdatePool \<Rightarrow> ''Updated Octavia pool''
    | routeMutationDeleteMember \<Rightarrow> ''Deleted stale Octavia member''
    | routeMutationCreateMember \<Rightarrow> ''Created Octavia member''
    | routeMutationUpdateMember \<Rightarrow> ''Updated Octavia member''
    | routeMutationCreateMonitor \<Rightarrow> ''Created Octavia health monitor''
    | routeMutationUpdateMonitor \<Rightarrow> ''Updated Octavia health monitor''
    | routeMutationDisablePolicy \<Rightarrow> ''Disabled Octavia L7 policy before changing rules''
    | routeMutationDeleteRule \<Rightarrow> ''Deleted Octavia L7 rule''
    | routeMutationDeletePolicy \<Rightarrow> ''Deleted Octavia L7 policy''
    | routeMutationCreatePolicy \<Rightarrow> ''Created Octavia L7 policy''
    | routeMutationUpdatePolicy \<Rightarrow> ''Updated Octavia L7 policy''
    | routeMutationCreateRule \<Rightarrow> ''Created Octavia L7 rule''
    | routeMutationUpdateRule \<Rightarrow> ''Updated Octavia L7 rule''
    | routeMutationEnablePolicy \<Rightarrow> ''Enabled converged Octavia L7 policy''
    | routeMutationDeleteMonitor \<Rightarrow> ''Deleted Octavia health monitor''
    | routeMutationDeletePool \<Rightarrow> ''Deleted Octavia pool'')"

section \<open>The plan that ensures a route\<close>

definition tableOf :: "('a \<Rightarrow> string) \<Rightarrow> 'a list \<Rightarrow> (string \<times> 'a) list" where
  "tableOf key xs = fold (\<lambda>x. AList.update (key x) x) xs []"

text \<open>
  The loop over the observed members: the plan, the identifiers of the members that stay, and the
  desired members not seen yet.
\<close>

type_synonym memberPlan = "routeMutation list \<times> string list \<times> (string \<times> Member) list"

definition planMember :: "desiredRoute \<Rightarrow> string \<Rightarrow> PoolMember \<Rightarrow> memberPlan \<Rightarrow> memberPlan" where
  "planMember desired poolID member acc = (case acc of (plan, ids, desiredMembers) \<Rightarrow>
     let key = memberKey (me_Address member) (me_ProtocolPort member) in
     if map_of desiredMembers key = None \<or> me_SubnetID member \<noteq> rs_MemberSubnetID (want_spec desired)
     then (plan @ [mutation routeMutationDeleteMember (me_ID member) poolID], ids, desiredMembers)
     else (plan @ (if \<not> me_AdminStateUp member
             then [mutation routeMutationUpdateMember (me_ID member) poolID] else []),
           ids @ [me_ID member], AList.delete key desiredMembers))"

definition desiredMemberTable :: "desiredRoute \<Rightarrow> (string \<times> Member) list" where
  "desiredMemberTable desired = tableOf (\<lambda>member. memberKey (m_Address member) (m_Port member)) (want_members desired)"

definition planMembers :: "desiredRoute \<Rightarrow> string \<Rightarrow> PoolMember list \<Rightarrow> memberPlan" where
  "planMembers desired poolID members = fold (planMember desired poolID) members ([], [], desiredMemberTable desired)"

definition monitorMatches :: "desiredRoute \<Rightarrow> Monitor \<Rightarrow> bool" where
  "monitorMatches desired monitor \<longleftrightarrow>
     \<not> (mo_Delay monitor \<noteq> routeMonitorDelay \<or> mo_Timeout monitor \<noteq> routeMonitorTimeout \<or>
        mo_MaxRetries monitor \<noteq> routeMonitorMaxRetries \<or> mo_MaxRetriesDown monitor \<noteq> routeMonitorMaxRetriesDown \<or>
        mo_URLPath monitor \<noteq> want_healthPath desired \<or> mo_HTTPMethod monitor \<noteq> MethodGet \<or>
        mo_ExpectedCodes monitor \<noteq> routeMonitorExpectedCodes \<or> \<not> mo_AdminStateUp monitor)"

definition planMonitor :: "desiredRoute \<Rightarrow> string \<Rightarrow> Monitor option \<Rightarrow> (routeMutation list \<times> string) result" where
  "planMonitor desired poolID observed = (case observed of
      None \<Rightarrow> Inr ([mutation routeMutationCreateMonitor [] poolID], [])
    | Some monitor \<Rightarrow>
        if mo_Type monitor \<noteq> MonitorTypeHTTP then Inl conflict
        else Inr (if \<not> monitorMatches desired monitor
          then [mutation routeMutationUpdateMonitor (mo_ID monitor) poolID] else [], mo_ID monitor))"

text \<open>The plan for the pool and its children, and the part of the state that describes them.\<close>

definition planPool :: "desiredRoute \<Rightarrow> observedRouteGraph \<Rightarrow> (routeMutation list \<times> RouteState) result" where
  "planPool desired actual = (case og_pool actual of
      None \<Rightarrow> Inr ([mutation routeMutationCreatePool [] []], emptyRouteState)
    | Some pool \<Rightarrow>
        if po_Protocol pool \<noteq> ProtocolHTTP then Inl conflict
        else case planMembers desired (po_ID pool) (og_members actual) of (memberPlan, ids, missing) \<Rightarrow>
        bindE (planMonitor desired (po_ID pool) (og_monitor actual)) (\<lambda>(monitorPlan, monitorID).
        Inr ((if po_LBMethod pool \<noteq> LBMethodRoundRobin \<or> \<not> po_AdminStateUp pool
                then [mutation routeMutationUpdatePool (po_ID pool) []] else []) @
             memberPlan @
             map (\<lambda>member. (mutation routeMutationCreateMember [] (po_ID pool))\<lparr>rm_member := member\<rparr>) (sortedValues missing) @
             monitorPlan,
           emptyRouteState\<lparr>PoolID := po_ID pool, MemberIDs := ids, MonitorID := monitorID\<rparr>)))"

text \<open>The plan for the rules of one policy: the plan, the rule identifiers, the rules not wanted.\<close>

type_synonym rulePlan = "routeMutation list \<times> string list \<times> (string \<times> observedRouteRule) list"

definition ruleMatches :: "desiredRule \<Rightarrow> L7Rule \<Rightarrow> bool" where
  "ruleMatches wanted rule \<longleftrightarrow>
     \<not> (ru_RuleType rule \<noteq> dr_ruleType wanted \<or> ru_CompareType rule \<noteq> dr_compareType wanted \<or>
        ru_Value rule \<noteq> dr_value wanted \<or> ru_Invert rule \<or> \<not> ru_AdminStateUp rule)"

definition planRule :: "string \<Rightarrow> desiredRule \<Rightarrow> rulePlan \<Rightarrow> rulePlan" where
  "planRule policyID wanted acc = (case acc of (plan, ids, actualRules) \<Rightarrow>
     case map_of actualRules (dr_role wanted) of
        None \<Rightarrow> (plan @ [(mutation routeMutationCreateRule [] policyID)\<lparr>rm_rule := wanted\<rparr>], ids, actualRules)
      | Some observed \<Rightarrow>
          (plan @ (if \<not> ruleMatches wanted (or_rule observed)
             then [(mutation routeMutationUpdateRule (ru_ID (or_rule observed)) policyID)\<lparr>rm_rule := wanted\<rparr>] else []),
           ids @ [ru_ID (or_rule observed)], AList.delete (dr_role wanted) actualRules))"

definition policyMatches :: "desiredPolicy \<Rightarrow> string \<Rightarrow> L7Policy \<Rightarrow> bool" where
  "policyMatches wanted poolID policy \<longleftrightarrow>
     \<not> (pl_Action policy \<noteq> ActionRedirectToPool \<or> pl_RedirectPoolID policy \<noteq> poolID \<or>
        pl_Position policy \<noteq> dp_position wanted)"

type_synonym policyPlan = "routeMutation list \<times> string list \<times> string list \<times> bool"

definition planPolicy :: "string \<Rightarrow> string \<Rightarrow> (string \<times> observedRoutePolicy) list \<Rightarrow> desiredPolicy \<Rightarrow> policyPlan \<Rightarrow> policyPlan" where
  "planPolicy hostname poolID actualPolicies wanted acc = (case acc of (plan, policyIDs, ruleIDs, semanticDiff) \<Rightarrow>
     case map_of actualPolicies (dp_role wanted) of
        None \<Rightarrow> (plan @ [(mutation routeMutationCreatePolicy [] poolID)\<lparr>rm_policy := wanted\<rparr>], policyIDs, ruleIDs, True)
      | Some observed \<Rightarrow>
          let policy = op_policy observed;
              update = (if \<not> policyMatches wanted poolID policy
                then [(mutation routeMutationUpdatePolicy (pl_ID policy) poolID)\<lparr>rm_policy := wanted\<rparr>] else []) in
          case fold (planRule (pl_ID policy)) (rulesFor wanted hostname) ([], [], tableOf or_role (op_rules observed)) of
            (rulePlan, ids, stale) \<Rightarrow>
              let stalePlan = map (\<lambda>rule. mutation routeMutationDeleteRule (ru_ID (or_rule rule)) (pl_ID policy))
                    (sort_key (\<lambda>rule. ru_ID (or_rule rule)) (map snd stale)) in
              (plan @ update @ rulePlan @ stalePlan, policyIDs @ [pl_ID policy], ruleIDs @ ids,
               semanticDiff \<or> update \<noteq> [] \<or> rulePlan \<noteq> [] \<or> stalePlan \<noteq> []))"

definition stalePolicyPlan :: "observedRoutePolicy \<Rightarrow> routeMutation list" where
  "stalePolicyPlan policy =
     map (\<lambda>rule. mutation routeMutationDeleteRule (ru_ID (or_rule rule)) (pl_ID (op_policy policy))) (op_rules policy) @
     [mutation routeMutationDeletePolicy (pl_ID (op_policy policy)) []]"

definition buildRoutePolicyPlan :: "desiredRoute \<Rightarrow> observedRoutePolicy list \<Rightarrow> string \<Rightarrow> policyPlan" where
  "buildRoutePolicyPlan desired actual poolID =
     (let desiredPolicies = tableOf dp_role (want_policies desired);
          stale = filter (\<lambda>policy. map_of desiredPolicies (op_role policy) = None) actual in
      fold (planPolicy (rs_Hostname (want_spec desired)) poolID (tableOf op_role actual)) (want_policies desired)
        (concat (map stalePolicyPlan stale), [], [], stale \<noteq> []))"

definition disablePlan :: "observedRoutePolicy list \<Rightarrow> routeMutation list" where
  "disablePlan policies = map (\<lambda>policy. mutation routeMutationDisablePolicy (pl_ID (op_policy policy)) [])
     (filter (\<lambda>policy. pl_AdminStateUp (op_policy policy)) policies)"

text \<open>The first disabled policy, in the order of the desired policies.\<close>

definition policyToEnable :: "desiredRoute \<Rightarrow> observedRoutePolicy list \<Rightarrow> observedRoutePolicy option" where
  "policyToEnable desired policies = find (\<lambda>_. True)
     (concat (map (\<lambda>wanted. filter (\<lambda>policy. op_role policy = dp_role wanted \<and> \<not> pl_AdminStateUp (op_policy policy)) policies)
       (want_policies desired)))"

definition buildRouteEnsurePlan :: "desiredRoute \<Rightarrow> observedRouteGraph \<Rightarrow> (routeMutation list \<times> RouteState) result" where
  "buildRouteEnsurePlan desired actual =
     bindE (planPool desired actual) (\<lambda>(nonPolicyPlan, state).
     case buildRoutePolicyPlan desired (og_policies actual) (PoolID state) of
       (policyPlan, policyIDs, ruleIDs, semanticDiff) \<Rightarrow>
         let state = state\<lparr>L7PolicyIDs := policyIDs, L7RuleIDs := ruleIDs\<rparr> in
         if semanticDiff then Inr (disablePlan (og_policies actual) @ nonPolicyPlan @ policyPlan, state)
         else if nonPolicyPlan \<noteq> [] then Inr (nonPolicyPlan, state)
         else case policyToEnable desired (og_policies actual) of
             Some policy \<Rightarrow> Inr ([mutation routeMutationEnablePolicy (pl_ID (op_policy policy)) []], state)
           | None \<Rightarrow> Inr ([], state))"

section \<open>The plan that deletes a route\<close>

text \<open>
  The code dereferences the pool for every monitor and member; the observation yields these only
  together with a pool.
\<close>

definition poolOf :: "observedRouteGraph \<Rightarrow> string result" where
  "poolOf actual = (case og_pool actual of None \<Rightarrow> Inl NilDereference | Some pool \<Rightarrow> Inr (po_ID pool))"

definition buildRouteDeletionPlan :: "observedRouteGraph \<Rightarrow> routeMutation list result" where
  "buildRouteDeletionPlan actual =
     bindE (case og_monitor actual of
        None \<Rightarrow> Inr []
      | Some monitor \<Rightarrow> bindE (poolOf actual) (\<lambda>poolID.
          Inr [mutation routeMutationDeleteMonitor (mo_ID monitor) poolID])) (\<lambda>monitorPlan.
     bindE (if og_members actual = [] then Inr [] else bindE (poolOf actual) (\<lambda>poolID.
       Inr (map (\<lambda>member. mutation routeMutationDeleteMember (me_ID member) poolID) (og_members actual)))) (\<lambda>memberPlan.
     Inr (disablePlan (og_policies actual) @
       concat (map (\<lambda>policy. map (\<lambda>rule.
         mutation routeMutationDeleteRule (ru_ID (or_rule rule)) (pl_ID (op_policy policy))) (op_rules policy)) (og_policies actual)) @
       map (\<lambda>policy. mutation routeMutationDeletePolicy (pl_ID (op_policy policy)) []) (og_policies actual) @
       monitorPlan @ memberPlan @
       (case og_pool actual of None \<Rightarrow> [] | Some pool \<Rightarrow> [mutation routeMutationDeletePool (po_ID pool) []]))))"

definition isRouteDeletion :: "routeMutationKind \<Rightarrow> bool" where
  "isRouteDeletion kind \<longleftrightarrow> kind \<in> {routeMutationDeleteMember, routeMutationDeleteRule, routeMutationDeletePolicy,
     routeMutationDeleteMonitor, routeMutationDeletePool}"

section \<open>Tables\<close>

lemma update_fresh: "k \<notin> fst ` set table \<Longrightarrow> AList.update k v table = table @ [(k, v)]"
  by (induction table) auto

lemma tableOf_distinct: "distinct (map key xs) \<Longrightarrow> tableOf key xs = map (\<lambda>x. (key x, x)) xs"
proof -
  have "distinct (map fst acc @ map key xs) \<Longrightarrow>
      fold (\<lambda>x. AList.update (key x) x) xs acc = acc @ map (\<lambda>x. (key x, x)) xs" for acc
    by (induction xs arbitrary: acc) (auto simp: update_fresh)
  from this [of "[]"] show "distinct (map key xs) \<Longrightarrow> ?thesis" by (simp add: tableOf_def)
qed

lemma map_of_table:
  "distinct (map key xs) \<Longrightarrow> map_of (map (\<lambda>x. (key x, x)) xs) k = Some x \<longleftrightarrow> x \<in> set xs \<and> key x = k"
  by (auto simp: distinct_map inj_on_def map_of_eq_Some_iff image_def o_def)

lemma sortedValues_Nil [simp]: "sortedValues table = [] \<longleftrightarrow> table = []"
  by (simp add: sortedValues_def)

lemma keys_tableOf: "fst ` set (tableOf key xs) = key ` set xs"
proof -
  have "fst ` set (fold (\<lambda>x. AList.update (key x) x) xs acc) = fst ` set acc \<union> key ` set xs" for acc
    by (induction xs arbitrary: acc) (auto simp: AList.dom_update [unfolded dom_map_of_conv_image_fst])
  from this [of "[]"] show ?thesis by (simp add: tableOf_def)
qed

lemma keys_delete: "fst ` set (AList.delete k table) = fst ` set table - {k}"
  by (auto simp: AList.delete_eq)

text \<open>Matching observed items with wanted ones by a role that occurs once.\<close>

lemma matching_iff:
  assumes "inj_on f A"
  shows "(\<forall>w \<in> W. \<exists>x \<in> A. f x = g w \<and> M w x) \<and> f ` A \<subseteq> g ` W \<longleftrightarrow>
    f ` A = g ` W \<and> (\<forall>x \<in> A. \<forall>w \<in> W. f x = g w \<longrightarrow> M w x)" (is "?l \<longleftrightarrow> ?r")
proof
  assume l: ?l
  then have "f ` A = g ` W" by (metis image_eqI image_subsetI subset_antisym)
  moreover have "M w x" if "x \<in> A" "w \<in> W" "f x = g w" for x w
    using l that assms by (metis inj_onD)
  ultimately show ?r by blast
next
  assume r: ?r
  then show ?l by (metis image_iff order_refl)
qed

section \<open>An empty plan means a converged graph\<close>

definition memberKeyOf :: "PoolMember \<Rightarrow> string" where
  "memberKeyOf member = memberKey (me_Address member) (me_ProtocolPort member)"

definition desiredKey :: "Member \<Rightarrow> string" where
  "desiredKey member = memberKey (m_Address member) (m_Port member)"

text \<open>What an observation and a desired route always satisfy.\<close>

definition wellFormedGraph :: "observedRouteGraph \<Rightarrow> bool" where
  "wellFormedGraph actual \<longleftrightarrow> distinct (map memberKeyOf (og_members actual)) \<and>
     distinct (map op_role (og_policies actual)) \<and>
     (\<forall>policy \<in> set (og_policies actual). distinct (map or_role (op_rules policy)))"

definition membersConverged :: "desiredRoute \<Rightarrow> PoolMember list \<Rightarrow> bool" where
  "membersConverged desired members \<longleftrightarrow>
     memberKeyOf ` set members = desiredKey ` set (want_members desired) \<and>
     (\<forall>member \<in> set members. me_SubnetID member = rs_MemberSubnetID (want_spec desired) \<and> me_AdminStateUp member)"

definition poolConverged :: "desiredRoute \<Rightarrow> observedRouteGraph \<Rightarrow> bool" where
  "poolConverged desired actual \<longleftrightarrow>
     (\<exists>pool monitor. og_pool actual = Some pool \<and> po_Protocol pool = ProtocolHTTP \<and>
        po_LBMethod pool = LBMethodRoundRobin \<and> po_AdminStateUp pool \<and>
        membersConverged desired (og_members actual) \<and>
        og_monitor actual = Some monitor \<and> mo_Type monitor = MonitorTypeHTTP \<and> monitorMatches desired monitor)"

definition rulesConverged :: "desiredRoute \<Rightarrow> desiredPolicy \<Rightarrow> observedRoutePolicy \<Rightarrow> bool" where
  "rulesConverged desired wanted policy \<longleftrightarrow>
     or_role ` set (op_rules policy) = dr_role ` set (rulesFor wanted (rs_Hostname (want_spec desired))) \<and>
     (\<forall>rule \<in> set (op_rules policy). \<forall>wantedRule \<in> set (rulesFor wanted (rs_Hostname (want_spec desired))).
        or_role rule = dr_role wantedRule \<longrightarrow> ruleMatches wantedRule (or_rule rule))"

definition policiesConverged :: "desiredRoute \<Rightarrow> string \<Rightarrow> observedRoutePolicy list \<Rightarrow> bool" where
  "policiesConverged desired poolID policies \<longleftrightarrow>
     op_role ` set policies = dp_role ` set (want_policies desired) \<and>
     (\<forall>policy \<in> set policies. \<forall>wanted \<in> set (want_policies desired). op_role policy = dp_role wanted \<longrightarrow>
        policyMatches wanted poolID (op_policy policy) \<and> rulesConverged desired wanted policy)"

definition poolIDOf :: "observedRouteGraph \<Rightarrow> string" where
  "poolIDOf actual = (case og_pool actual of None \<Rightarrow> [] | Some pool \<Rightarrow> po_ID pool)"

definition allEnabled :: "observedRoutePolicy list \<Rightarrow> bool" where
  "allEnabled policies \<longleftrightarrow> (\<forall>policy \<in> set policies. pl_AdminStateUp (op_policy policy))"

definition allDisabled :: "observedRoutePolicy list \<Rightarrow> bool" where
  "allDisabled policies \<longleftrightarrow> (\<forall>policy \<in> set policies. \<not> pl_AdminStateUp (op_policy policy))"

text \<open>Members.\<close>

lemma planMember_fold:
  assumes "fold (planMember desired poolID) members (plan0, ids0, wanted) = (plan, ids, missing)"
    and "distinct (map memberKeyOf members)"
  shows "(plan = [] \<longleftrightarrow> plan0 = [] \<and> (\<forall>member \<in> set members. memberKeyOf member \<in> fst ` set wanted \<and>
      me_SubnetID member = rs_MemberSubnetID (want_spec desired) \<and> me_AdminStateUp member)) \<and>
    (plan = [] \<longrightarrow> fst ` set missing = fst ` set wanted - memberKeyOf ` set members)"
  using assms
proof (induction members arbitrary: plan0 ids0 wanted)
  case (Cons member members)
  let ?key = "memberKeyOf member"
  obtain plan1 ids1 wanted1 where step: "planMember desired poolID member (plan0, ids0, wanted) = (plan1, ids1, wanted1)"
    using prod_cases3 by blast
  have rest: "fold (planMember desired poolID) members (plan1, ids1, wanted1) = (plan, ids, missing)"
    using Cons.prems(1) step by simp
  note IH = Cons.IH [OF rest]
  consider (kept) "?key \<in> fst ` set wanted" "me_SubnetID member = rs_MemberSubnetID (want_spec desired)"
      "plan1 = plan0 @ (if me_AdminStateUp member then [] else [mutation routeMutationUpdateMember (me_ID member) poolID])"
      "fst ` set wanted1 = fst ` set wanted - {?key}"
    | (dropped) "plan1 \<noteq> []" "\<not> (?key \<in> fst ` set wanted \<and> me_SubnetID member = rs_MemberSubnetID (want_spec desired))"
    using step
    by (auto simp: planMember_def memberKeyOf_def Let_def map_of_eq_None_iff
      keys_delete split: if_splits)
  then show ?case
  proof cases
    case kept
    have fresh: "?key \<notin> memberKeyOf ` set members" and dist: "distinct (map memberKeyOf members)"
      using Cons.prems(2) by auto
    then have keep: "memberKeyOf m \<in> fst ` set wanted1 \<longleftrightarrow> memberKeyOf m \<in> fst ` set wanted" if "m \<in> set members" for m
      using that kept(4) by (metis Diff_iff imageI singletonD)
    have "plan = [] \<longleftrightarrow> plan1 = [] \<and> (\<forall>m \<in> set members. memberKeyOf m \<in> fst ` set wanted \<and>
        me_SubnetID m = rs_MemberSubnetID (want_spec desired) \<and> me_AdminStateUp m)"
      using conjunct1 [OF IH [OF dist]] by (simp only: keep cong: ball_cong)
    moreover have "plan = [] \<longrightarrow> fst ` set missing = fst ` set wanted - memberKeyOf ` set (member # members)"
      using conjunct2 [OF IH [OF dist]] unfolding kept(4) list.set image_insert by blast
    ultimately show ?thesis using kept(1,2,3) by simp
  next
    case dropped
    moreover have "plan = [] \<longleftrightarrow> plan1 = [] \<and> (\<forall>m \<in> set members. memberKeyOf m \<in> fst ` set wanted1 \<and>
        me_SubnetID m = rs_MemberSubnetID (want_spec desired) \<and> me_AdminStateUp m)"
      using IH Cons.prems(2) by simp
    ultimately show ?thesis by auto
  qed
qed simp

lemma planPool_empty:
  assumes "planPool desired actual = Inr (plan, state)" "distinct (map memberKeyOf (og_members actual))"
  shows "plan = [] \<longleftrightarrow> poolConverged desired actual" and "PoolID state = poolIDOf actual"
proof -
  have "(plan = [] \<longleftrightarrow> poolConverged desired actual) \<and> PoolID state = poolIDOf actual"
  proof (cases "og_pool actual")
    case None
    then show ?thesis
      using assms(1) by (auto simp: planPool_def poolConverged_def poolIDOf_def emptyRouteState_def)
  next
    case (Some pool)
    obtain memberPlan ids missing where members:
      "planMembers desired (po_ID pool) (og_members actual) = (memberPlan, ids, missing)"
      using prod_cases3 by blast
    have "memberPlan = [] \<and> missing = [] \<longleftrightarrow> membersConverged desired (og_members actual)"
      using planMember_fold [OF members [unfolded planMembers_def] assms(2)]
      unfolding membersConverged_def desiredMemberTable_def keys_tableOf desiredKey_def [symmetric] by auto
    then show ?thesis
      using Some assms(1) members
      by (auto simp: planPool_def planMonitor_def poolConverged_def poolIDOf_def emptyRouteState_def
        go_simps split: option.splits if_splits)
  qed
  then show "plan = [] \<longleftrightarrow> poolConverged desired actual" and "PoolID state = poolIDOf actual" by auto
qed

text \<open>Rules.\<close>

lemma planRule_fold:
  assumes "fold (planRule policyID) wanted (plan0, ids0, table) = (plan, ids, stale)" "distinct (map dr_role wanted)"
  shows "(plan = [] \<longleftrightarrow> plan0 = [] \<and>
      (\<forall>w \<in> set wanted. \<exists>rule. map_of table (dr_role w) = Some rule \<and> ruleMatches w (or_rule rule))) \<and>
    (plan = [] \<longrightarrow> fst ` set stale = fst ` set table - dr_role ` set wanted)"
  using assms
proof (induction wanted arbitrary: plan0 ids0 table)
  case (Cons w wanted)
  obtain plan1 ids1 table1 where step: "planRule policyID w (plan0, ids0, table) = (plan1, ids1, table1)"
    using prod_cases3 by blast
  have rest: "fold (planRule policyID) wanted (plan1, ids1, table1) = (plan, ids, stale)"
    using Cons.prems(1) step by simp
  have fresh: "dr_role w \<notin> dr_role ` set wanted" and dist: "distinct (map dr_role wanted)"
    using Cons.prems(2) by auto
  note IH = Cons.IH [OF rest dist]
  show ?case
  proof (cases "map_of table (dr_role w)")
    case None
    then have "plan1 \<noteq> []" using step by (auto simp: planRule_def)
    with None IH show ?thesis by auto
  next
    case (Some rule)
    have p1: "plan1 = [] \<longleftrightarrow> plan0 = [] \<and> ruleMatches w (or_rule rule)" and t1: "table1 = AList.delete (dr_role w) table"
      using step Some by (auto simp: planRule_def split: if_splits)
    have same: "map_of table1 (dr_role v) = map_of table (dr_role v)" if "v \<in> set wanted" for v
      using that fresh unfolding t1 AList.delete_conv by (auto simp: image_iff)
    have "plan = [] \<longleftrightarrow> plan1 = [] \<and>
        (\<forall>v \<in> set wanted. \<exists>rule. map_of table (dr_role v) = Some rule \<and> ruleMatches v (or_rule rule))"
      using conjunct1 [OF IH] by (simp only: same cong: ball_cong)
    moreover have "plan = [] \<longrightarrow> fst ` set stale = fst ` set table - dr_role ` set (w # wanted)"
      using conjunct2 [OF IH] unfolding t1 keys_delete list.set image_insert by blast
    ultimately show ?thesis using p1 Some by simp
  qed
qed simp

lemma rulesFor_distinct: "distinct (map dr_role (rulesFor wanted hostname))"
  by (simp add: rulesFor_def role_defs)

lemma planRules_empty:
  assumes "fold (planRule policyID) (rulesFor wanted (rs_Hostname (want_spec desired)))
      ([], [], tableOf or_role (op_rules policy)) = (plan, ids, stale)"
    and dist: "distinct (map or_role (op_rules policy))"
  shows "plan = [] \<and> stale = [] \<longleftrightarrow> rulesConverged desired wanted policy"
proof -
  let ?rules = "rulesFor wanted (rs_Hostname (want_spec desired))"
  have iffs: "plan = [] \<longleftrightarrow> (\<forall>w \<in> set ?rules. \<exists>rule \<in> set (op_rules policy). or_role rule = dr_role w \<and>
        ruleMatches w (or_rule rule))"
    and stale: "plan = [] \<longrightarrow> fst ` set stale = or_role ` set (op_rules policy) - dr_role ` set ?rules"
    using planRule_fold [OF assms(1) rulesFor_distinct]
    unfolding keys_tableOf by (simp_all add: tableOf_distinct [OF dist] map_of_table [OF dist] conj_assoc Bex_def)
  have "stale = [] \<longleftrightarrow> or_role ` set (op_rules policy) \<subseteq> dr_role ` set ?rules" if "plan = []"
    using stale that by (metis Diff_eq_empty_iff image_is_empty set_empty)
  then have "plan = [] \<and> stale = [] \<longleftrightarrow> plan = [] \<and> or_role ` set (op_rules policy) \<subseteq> dr_role ` set ?rules"
    by blast
  also have "\<dots> \<longleftrightarrow> rulesConverged desired wanted policy"
    unfolding iffs rulesConverged_def using dist
    by (intro matching_iff [where M = "\<lambda>w rule. ruleMatches w (or_rule rule)"]) (simp add: distinct_map)
  finally show ?thesis .
qed

text \<open>Policies: the flag of the code says whether the plan is empty.\<close>

lemma planPolicy_fold:
  assumes "fold (planPolicy hostname poolID table) wanted (plan0, pids0, rids0, diff0) = (plan, pids, rids, diff)"
    and "diff0 \<longleftrightarrow> plan0 \<noteq> []"
  shows "(diff \<longleftrightarrow> plan \<noteq> []) \<and> (plan = [] \<longleftrightarrow> plan0 = [] \<and>
    (\<forall>w \<in> set wanted. \<exists>policy. map_of table (dp_role w) = Some policy \<and> policyMatches w poolID (op_policy policy) \<and>
       (case fold (planRule (pl_ID (op_policy policy))) (rulesFor w hostname) ([], [], tableOf or_role (op_rules policy)) of
          (rulePlan, ids, stale) \<Rightarrow> rulePlan = [] \<and> stale = [])))"
  using assms
proof (induction wanted arbitrary: plan0 pids0 rids0 diff0)
  case (Cons w wanted)
  obtain plan1 pids1 rids1 diff1 where step:
    "planPolicy hostname poolID table w (plan0, pids0, rids0, diff0) = (plan1, pids1, rids1, diff1)"
    using prod_cases4 by blast
  have rest: "fold (planPolicy hostname poolID table) wanted (plan1, pids1, rids1, diff1) = (plan, pids, rids, diff)"
    using Cons.prems(1) step by simp
  have d1: "diff1 \<longleftrightarrow> plan1 \<noteq> []"
    using step Cons.prems(2) by (auto simp: planPolicy_def Let_def split: option.splits prod.splits)
  have p1: "plan1 = [] \<longleftrightarrow> plan0 = [] \<and> (\<exists>policy. map_of table (dp_role w) = Some policy \<and>
      policyMatches w poolID (op_policy policy) \<and>
      (case fold (planRule (pl_ID (op_policy policy))) (rulesFor w hostname) ([], [], tableOf or_role (op_rules policy)) of
         (rulePlan, ids, stale) \<Rightarrow> rulePlan = [] \<and> stale = []))"
    using step by (auto simp: planPolicy_def Let_def split: option.splits prod.splits if_splits)
  show ?case using Cons.IH [OF rest d1] p1 by simp
qed simp

lemma buildRoutePolicyPlan_empty:
  assumes "buildRoutePolicyPlan desired actual poolID = (plan, pids, rids, diff)"
    and dist: "distinct (map op_role actual)" "\<forall>policy \<in> set actual. distinct (map or_role (op_rules policy))"
  shows "diff \<longleftrightarrow> plan \<noteq> []" and "plan = [] \<longleftrightarrow> policiesConverged desired poolID actual"
proof -
  let ?stale = "filter (\<lambda>policy. map_of (tableOf dp_role (want_policies desired)) (op_role policy) = None) actual"
  let ?M = "\<lambda>w policy. policyMatches w poolID (op_policy policy) \<and> rulesConverged desired w policy"
  have fold: "fold (planPolicy (rs_Hostname (want_spec desired)) poolID (tableOf op_role actual)) (want_policies desired)
      (concat (map stalePolicyPlan ?stale), [], [], ?stale \<noteq> []) = (plan, pids, rids, diff)"
    using assms(1) by (simp add: buildRoutePolicyPlan_def Let_def)
  have stale: "concat (map stalePolicyPlan ?stale) = [] \<longleftrightarrow> ?stale = []"
    by (cases ?stale) (auto simp: stalePolicyPlan_def)
  have stale_iff: "?stale = [] \<longleftrightarrow> op_role ` set actual \<subseteq> dp_role ` set (want_policies desired)"
    by (auto simp: filter_empty_conv map_of_eq_None_iff keys_tableOf)
  have rules: "(case fold (planRule (pl_ID (op_policy policy))) (rulesFor w (rs_Hostname (want_spec desired)))
        ([], [], tableOf or_role (op_rules policy)) of (rulePlan, ids, stale) \<Rightarrow> rulePlan = [] \<and> stale = []) \<longleftrightarrow>
      rulesConverged desired w policy" if "policy \<in> set actual" for policy w
    using dist(2) that planRules_empty by (fastforce split: prod.splits)
  have "(diff \<longleftrightarrow> plan \<noteq> []) \<and> (plan = [] \<longleftrightarrow> ?stale = [] \<and>
      (\<forall>w \<in> set (want_policies desired). \<exists>policy \<in> set actual. op_role policy = dp_role w \<and> ?M w policy))"
    using planPolicy_fold [OF fold] rules unfolding stale
    by (simp add: tableOf_distinct [OF dist(1)] map_of_table [OF dist(1)] Bex_def conj_assoc cong: conj_cong)
  then show "diff \<longleftrightarrow> plan \<noteq> []" and "plan = [] \<longleftrightarrow> policiesConverged desired poolID actual"
    unfolding policiesConverged_def stale_iff
    using matching_iff [where f = op_role and A = "set actual" and W = "set (want_policies desired)" and g = dp_role and M = ?M]
      dist(1) by (auto simp: distinct_map)
qed

lemma policyToEnable_None:
  assumes "policiesConverged desired poolID policies"
  shows "policyToEnable desired policies = None \<longleftrightarrow> allEnabled policies"
proof -
  have "\<exists>wanted \<in> set (want_policies desired). op_role policy = dp_role wanted" if "policy \<in> set policies" for policy
    using assms that unfolding policiesConverged_def by (metis image_iff)
  then show ?thesis
    unfolding policyToEnable_def allEnabled_def find_None_iff by auto
qed

lemma policyToEnable_Some:
  "policyToEnable desired policies = Some policy \<Longrightarrow> policy \<in> set policies \<and> \<not> pl_AdminStateUp (op_policy policy)"
  by (auto simp: policyToEnable_def find_Some_iff dest!: nth_mem)

lemma disablePlan_Nil [simp]: "disablePlan policies = [] \<longleftrightarrow> allDisabled policies"
  by (auto simp: disablePlan_def allDisabled_def filter_empty_conv)

text \<open>The graph as the route specification wants it.\<close>

definition convergedRoute :: "desiredRoute \<Rightarrow> observedRouteGraph \<Rightarrow> bool" where
  "convergedRoute desired actual \<longleftrightarrow> poolConverged desired actual \<and>
     policiesConverged desired (poolIDOf actual) (og_policies actual) \<and> allEnabled (og_policies actual)"

text \<open>
  The plan by cases: the parts of the plan are empty exactly when the corresponding part of the graph
  has converged.
\<close>

lemma ensurePlan_cases:
  assumes "buildRouteEnsurePlan desired actual = Inr (plan, state)" "wellFormedGraph actual"
  obtains (change) poolPlan policyPlan poolState where
      "\<not> policiesConverged desired (poolIDOf actual) (og_policies actual)"
      "plan = disablePlan (og_policies actual) @ poolPlan @ policyPlan" "policyPlan \<noteq> []"
      "planPool desired actual = Inr (poolPlan, poolState)"
      "policyPlan = fst (buildRoutePolicyPlan desired (og_policies actual) (poolIDOf actual))"
      "poolPlan = [] \<longleftrightarrow> poolConverged desired actual"
    | (pool) poolState where
      "policiesConverged desired (poolIDOf actual) (og_policies actual)" "\<not> poolConverged desired actual"
      "planPool desired actual = Inr (plan, poolState)" "plan \<noteq> []"
    | (enable) policy where
      "policiesConverged desired (poolIDOf actual) (og_policies actual)" "poolConverged desired actual"
      "policy \<in> set (og_policies actual)" "\<not> pl_AdminStateUp (op_policy policy)"
      "plan = [mutation routeMutationEnablePolicy (pl_ID (op_policy policy)) []]"
    | (converged) "convergedRoute desired actual" "plan = []"
proof -
  have wf: "distinct (map memberKeyOf (og_members actual))" "distinct (map op_role (og_policies actual))"
    "\<forall>policy \<in> set (og_policies actual). distinct (map or_role (op_rules policy))"
    using assms(2) by (auto simp: wellFormedGraph_def)
  obtain poolPlan poolState where pool: "planPool desired actual = Inr (poolPlan, poolState)"
    using assms(1) by (auto simp: buildRouteEnsurePlan_def go_simps)
  note poolFacts = planPool_empty [OF pool wf(1)]
  obtain policyPlan pids rids diff where policy:
    "buildRoutePolicyPlan desired (og_policies actual) (poolIDOf actual) = (policyPlan, pids, rids, diff)"
    using prod_cases4 by blast
  note policyFacts = buildRoutePolicyPlan_empty [OF policy wf(2,3)]
  have plan: "plan = (if policyPlan \<noteq> [] then disablePlan (og_policies actual) @ poolPlan @ policyPlan
      else if poolPlan \<noteq> [] then poolPlan
      else case policyToEnable desired (og_policies actual) of
          Some policy \<Rightarrow> [mutation routeMutationEnablePolicy (pl_ID (op_policy policy)) []]
        | None \<Rightarrow> [])"
    using assms(1) pool policy policyFacts(1) poolFacts(2)
    by (auto simp: buildRouteEnsurePlan_def Let_def split: if_splits option.splits)
  show thesis
  proof (cases "policyPlan = []")
    case False
    show thesis
    proof (rule change)
      show "\<not> policiesConverged desired (poolIDOf actual) (og_policies actual)" using False policyFacts(2) by simp
      show "plan = disablePlan (og_policies actual) @ poolPlan @ policyPlan" using False plan by simp
      show "policyPlan = fst (buildRoutePolicyPlan desired (og_policies actual) (poolIDOf actual))"
        using policy by simp
    qed (rule False pool poolFacts(1))+
  next
    case same: True
    then have conv: "policiesConverged desired (poolIDOf actual) (og_policies actual)" using policyFacts(2) by simp
    show thesis
    proof (cases "poolPlan = []")
      case False
      then show thesis using pool plan same conv poolFacts(1) by (intro that(2)) auto
    next
      case True
      then have poolConv: "poolConverged desired actual" using poolFacts(1) by simp
      show thesis
      proof (cases "policyToEnable desired (og_policies actual)")
        case None
        then show thesis
          using conv poolConv plan same True policyToEnable_None [OF conv]
          by (intro converged) (auto simp: convergedRoute_def)
      next
        case (Some policy)
        then show thesis
          using policyToEnable_Some [OF Some] conv poolConv plan same True by (intro enable) auto
      qed
    qed
  qed
qed

section \<open>What the steps of a plan refer to\<close>

definition poolKind :: "routeMutationKind \<Rightarrow> bool" where
  "poolKind kind \<longleftrightarrow> kind \<in> {routeMutationCreatePool, routeMutationUpdatePool, routeMutationDeleteMember,
     routeMutationCreateMember, routeMutationUpdateMember, routeMutationCreateMonitor, routeMutationUpdateMonitor}"

definition policyKind :: "routeMutationKind \<Rightarrow> bool" where
  "policyKind kind \<longleftrightarrow> kind \<in> {routeMutationDeleteRule, routeMutationDeletePolicy, routeMutationCreatePolicy,
     routeMutationUpdatePolicy, routeMutationCreateRule, routeMutationUpdateRule}"

definition policyIDs :: "observedRouteGraph \<Rightarrow> string set" where
  "policyIDs actual = (\<lambda>policy. pl_ID (op_policy policy)) ` set (og_policies actual)"

definition ruleIDsOf :: "observedRoutePolicy \<Rightarrow> string set" where
  "ruleIDsOf policy = (\<lambda>rule. ru_ID (or_rule rule)) ` set (op_rules policy)"

text \<open>
  A step refers to the observed graph: it creates something that is missing below an observed parent,
  or its target is an observed resource below the parent it names.
\<close>

definition targetsGraph :: "observedRouteGraph \<Rightarrow> routeMutation \<Rightarrow> bool" where
  "targetsGraph actual m = (case rm_kind m of
      routeMutationCreatePool \<Rightarrow> og_pool actual = None
    | routeMutationUpdatePool \<Rightarrow> \<exists>pool. og_pool actual = Some pool \<and> rm_id m = po_ID pool
    | routeMutationDeletePool \<Rightarrow> \<exists>pool. og_pool actual = Some pool \<and> rm_id m = po_ID pool
    | routeMutationDeleteMember \<Rightarrow> \<exists>pool. og_pool actual = Some pool \<and> rm_parentID m = po_ID pool \<and>
        rm_id m \<in> me_ID ` set (og_members actual)
    | routeMutationUpdateMember \<Rightarrow> \<exists>pool. og_pool actual = Some pool \<and> rm_parentID m = po_ID pool \<and>
        rm_id m \<in> me_ID ` set (og_members actual)
    | routeMutationCreateMember \<Rightarrow> \<exists>pool. og_pool actual = Some pool \<and> rm_parentID m = po_ID pool
    | routeMutationCreateMonitor \<Rightarrow> og_monitor actual = None \<and>
        (\<exists>pool. og_pool actual = Some pool \<and> rm_parentID m = po_ID pool)
    | routeMutationUpdateMonitor \<Rightarrow> \<exists>monitor. og_monitor actual = Some monitor \<and> rm_id m = mo_ID monitor
    | routeMutationDeleteMonitor \<Rightarrow> \<exists>monitor. og_monitor actual = Some monitor \<and> rm_id m = mo_ID monitor
    | routeMutationCreatePolicy \<Rightarrow> rm_parentID m = poolIDOf actual \<and>
        dp_role (rm_policy m) \<notin> op_role ` set (og_policies actual)
    | routeMutationUpdatePolicy \<Rightarrow> rm_id m \<in> policyIDs actual \<and> rm_parentID m = poolIDOf actual
    | routeMutationCreateRule \<Rightarrow> rm_parentID m \<in> policyIDs actual
    | routeMutationDeleteRule \<Rightarrow> \<exists>policy \<in> set (og_policies actual). rm_parentID m = pl_ID (op_policy policy) \<and>
        rm_id m \<in> ruleIDsOf policy
    | routeMutationUpdateRule \<Rightarrow> \<exists>policy \<in> set (og_policies actual). rm_parentID m = pl_ID (op_policy policy) \<and>
        rm_id m \<in> ruleIDsOf policy
    | _ \<Rightarrow> rm_id m \<in> policyIDs actual)"

lemma mutation_simps [simp]:
  "rm_kind (mutation kind i parent) = kind" "rm_id (mutation kind i parent) = i"
  "rm_parentID (mutation kind i parent) = parent"
  by (simp_all add: mutation_def)

lemma set_update: "set (AList.update k v table) \<subseteq> insert (k, v) (set table)"
  by (induction table) auto

lemma tableOf_member: "(k, x) \<in> set (tableOf key xs) \<Longrightarrow> x \<in> set xs \<and> key x = k"
proof -
  have "(k, x) \<in> set (fold (\<lambda>x. AList.update (key x) x) xs acc) \<Longrightarrow> (k, x) \<in> set acc \<or> x \<in> set xs \<and> key x = k" for acc
    by (induction xs arbitrary: acc) (auto dest!: set_update [THEN subsetD])
  from this [of "[]"] show "(k, x) \<in> set (tableOf key xs) \<Longrightarrow> ?thesis" by (simp add: tableOf_def)
qed

lemma planMember_targets:
  assumes "og_pool actual = Some pool" "set members \<subseteq> set (og_members actual)"
  shows "\<forall>m \<in> set (fst (fold (planMember desired (po_ID pool)) members acc)).
    m \<in> set (fst acc) \<or> poolKind (rm_kind m) \<and> targetsGraph actual m"
  using assms(2)
proof (induction members arbitrary: acc)
  case (Cons member members)
  have "\<forall>m \<in> set (fst (planMember desired (po_ID pool) member acc)).
      m \<in> set (fst acc) \<or> poolKind (rm_kind m) \<and> targetsGraph actual m"
    using Cons.prems assms(1)
    by (auto simp: planMember_def Let_def poolKind_def targetsGraph_def split: prod.splits if_splits)
  with Cons show ?case by fastforce
qed simp

lemma planPool_targets:
  assumes "planPool desired actual = Inr (plan, state)" "m \<in> set plan"
  shows "poolKind (rm_kind m) \<and> targetsGraph actual m"
proof (cases "og_pool actual")
  case None
  with assms show ?thesis by (auto simp: planPool_def poolKind_def targetsGraph_def)
next
  case (Some pool)
  obtain memberPlan ids missing where members:
    "planMembers desired (po_ID pool) (og_members actual) = (memberPlan, ids, missing)"
    using prod_cases3 by blast
  have "\<forall>m \<in> set memberPlan. poolKind (rm_kind m) \<and> targetsGraph actual m"
    using planMember_targets [OF Some order_refl, of desired "([], [], desiredMemberTable desired)"] members
    by (simp add: planMembers_def)
  then show ?thesis
    using assms Some members
    by (auto simp: planPool_def planMonitor_def go_simps poolKind_def targetsGraph_def split: option.splits if_splits)
qed

lemma planRule_targets:
  assumes "policy \<in> set (og_policies actual)" "\<forall>k rule. (k, rule) \<in> set table \<longrightarrow> rule \<in> set (op_rules policy)"
    "fold (planRule (pl_ID (op_policy policy))) wanted (plan0, ids0, table) = (plan, ids, stale)"
  shows "(\<forall>m \<in> set plan. m \<in> set plan0 \<or> policyKind (rm_kind m) \<and> targetsGraph actual m) \<and>
    (\<forall>k rule. (k, rule) \<in> set stale \<longrightarrow> rule \<in> set (op_rules policy))"
  using assms(2,3)
proof (induction wanted arbitrary: plan0 ids0 table)
  case (Cons w wanted)
  obtain plan1 ids1 table1 where step:
    "planRule (pl_ID (op_policy policy)) w (plan0, ids0, table) = (plan1, ids1, table1)"
    using prod_cases3 by blast
  have "\<forall>k rule. (k, rule) \<in> set table1 \<longrightarrow> rule \<in> set (op_rules policy)"
    using step Cons.prems(1) by (auto simp: planRule_def AList.delete_eq split: option.splits)
  moreover have "m \<in> set plan0 \<or> policyKind (rm_kind m) \<and> targetsGraph actual m" if "m \<in> set plan1" for m
    using step Cons.prems(1) that assms(1)
    by (auto simp: planRule_def policyKind_def targetsGraph_def policyIDs_def ruleIDsOf_def
      split: option.splits if_splits dest!: map_of_SomeD intro!: bexI [of _ policy])
  ultimately show ?case using Cons.IH [of table1 plan1 ids1] Cons.prems(2) step by fastforce
qed auto

lemma planPolicy_targets:
  assumes "\<forall>k policy. (k, policy) \<in> set table \<longrightarrow> policy \<in> set (og_policies actual)"
    "fst ` set table = op_role ` set (og_policies actual)"
  shows "\<forall>m \<in> set (fst (fold (planPolicy hostname (poolIDOf actual) table) wanted acc)).
    m \<in> set (fst acc) \<or> policyKind (rm_kind m) \<and> targetsGraph actual m"
proof (induction wanted arbitrary: acc)
  case (Cons w wanted)
  have "m \<in> set (fst acc) \<or> policyKind (rm_kind m) \<and> targetsGraph actual m"
    if m: "m \<in> set (fst (planPolicy hostname (poolIDOf actual) table w acc))" for m
  proof (cases "map_of table (dp_role w)")
    case None
    then have "dp_role w \<notin> op_role ` set (og_policies actual)" using assms(2) by (simp add: map_of_eq_None_iff)
    with None m show ?thesis by (auto simp: planPolicy_def policyKind_def targetsGraph_def split: prod.splits)
  next
    case (Some policy)
    then have policy: "policy \<in> set (og_policies actual)" using assms(1) by (auto dest: map_of_SomeD)
    obtain plan ids stale where rules: "fold (planRule (pl_ID (op_policy policy))) (rulesFor w hostname)
        ([], [], tableOf or_role (op_rules policy)) = (plan, ids, stale)"
      using prod_cases3 by blast
    have "(\<forall>m \<in> set plan. policyKind (rm_kind m) \<and> targetsGraph actual m) \<and>
        (\<forall>k rule. (k, rule) \<in> set stale \<longrightarrow> rule \<in> set (op_rules policy))"
      using planRule_targets [OF policy _ rules] tableOf_member by fastforce
    with Some m rules policy show ?thesis
      by (auto simp: planPolicy_def Let_def policyKind_def targetsGraph_def policyIDs_def ruleIDsOf_def
        split: prod.splits if_splits intro!: bexI [of _ policy])
  qed
  with Cons show ?case by fastforce
qed simp

lemma buildRoutePolicyPlan_targets:
  assumes "m \<in> set (fst (buildRoutePolicyPlan desired (og_policies actual) (poolIDOf actual)))"
  shows "policyKind (rm_kind m) \<and> targetsGraph actual m"
proof -
  have "policyKind (rm_kind m) \<and> targetsGraph actual m"
    if "policy \<in> set (og_policies actual)" "m \<in> set (stalePolicyPlan policy)" for policy
    using that by (auto simp: stalePolicyPlan_def policyKind_def targetsGraph_def policyIDs_def ruleIDsOf_def
      intro!: bexI [of _ policy])
  moreover have table: "\<forall>k policy. (k, policy) \<in> set (tableOf op_role (og_policies actual)) \<longrightarrow>
      policy \<in> set (og_policies actual)"
    using tableOf_member by metis
  ultimately show ?thesis
    using bspec [OF planPolicy_targets [OF table keys_tableOf] assms [unfolded buildRoutePolicyPlan_def Let_def]]
    by auto
qed

lemma disablePlan_targets:
  "m \<in> set (disablePlan (og_policies actual)) \<Longrightarrow> rm_kind m = routeMutationDisablePolicy \<and> targetsGraph actual m"
  by (auto simp: disablePlan_def targetsGraph_def policyIDs_def)

section \<open>Properties of the plans\<close>

text \<open>
  Traffic safety of a step: policies and rules change only while every observed policy is disabled and
  the pool is complete; a policy is enabled only when everything else has converged; and the pool or
  its children change only while no policy is enabled or the policies are as they should be.
\<close>

definition trafficSafe :: "desiredRoute \<Rightarrow> observedRouteGraph \<Rightarrow> routeMutation \<Rightarrow> bool" where
  "trafficSafe desired actual m \<longleftrightarrow>
     (if policyKind (rm_kind m) then allDisabled (og_policies actual) \<and> poolConverged desired actual
      else if rm_kind m = routeMutationEnablePolicy then
        poolConverged desired actual \<and> policiesConverged desired (poolIDOf actual) (og_policies actual)
      else if poolKind (rm_kind m) then
        allDisabled (og_policies actual) \<or> policiesConverged desired (poolIDOf actual) (og_policies actual)
      else rm_kind m = routeMutationDisablePolicy)"

lemma kinds_disjoint [simp]:
  "poolKind kind \<Longrightarrow> \<not> policyKind kind \<and> kind \<noteq> routeMutationEnablePolicy"
  "\<not> policyKind routeMutationEnablePolicy" "\<not> policyKind routeMutationDisablePolicy"
  "\<not> poolKind routeMutationDisablePolicy"
  by (auto simp: poolKind_def policyKind_def)

lemma ensurePlan_head:
  assumes "buildRouteEnsurePlan desired actual = Inr (m # rest, state)" "wellFormedGraph actual"
  shows "trafficSafe desired actual m \<and> targetsGraph actual m"
  using assms
proof (cases rule: ensurePlan_cases)
  case (change poolPlan policyPlan poolState)
  show ?thesis
  proof (cases "disablePlan (og_policies actual)")
    case (Cons d ds)
    then have "m \<in> set (disablePlan (og_policies actual))" using change(2) by simp
    then show ?thesis using disablePlan_targets by (auto simp: trafficSafe_def)
  next
    case Nil
    then have disabled: "allDisabled (og_policies actual)" by simp
    show ?thesis
    proof (cases poolPlan)
      case (Cons d ds)
      then have "m \<in> set poolPlan" using change(2) Nil by simp
      then show ?thesis using planPool_targets [OF change(4)] disabled by (auto simp: trafficSafe_def)
    next
      case empty: Nil
      then have "m \<in> set policyPlan" using change(2) Nil by (metis append_Nil list.set_intros(1))
      then show ?thesis
        using buildRoutePolicyPlan_targets disabled change(5,6) empty by (auto simp: trafficSafe_def)
    qed
  qed
next
  case (pool poolState)
  then show ?thesis using planPool_targets [OF pool(3)] by (auto simp: trafficSafe_def)
next
  case (enable policy)
  then show ?thesis by (auto simp: trafficSafe_def targetsGraph_def policyIDs_def)
next
  case converged
  then show ?thesis by simp
qed

text \<open>A deletion step removes a leaf, and nothing is removed while a policy is enabled.\<close>

definition routeLeaf :: "observedRouteGraph \<Rightarrow> routeMutation \<Rightarrow> bool" where
  "routeLeaf actual m = (case rm_kind m of
      routeMutationDisablePolicy \<Rightarrow> True
    | routeMutationDeleteRule \<Rightarrow> allDisabled (og_policies actual)
    | routeMutationDeletePolicy \<Rightarrow> allDisabled (og_policies actual) \<and> (\<forall>policy \<in> set (og_policies actual). op_rules policy = [])
    | routeMutationDeleteMonitor \<Rightarrow> og_policies actual = []
    | routeMutationDeleteMember \<Rightarrow> og_policies actual = [] \<and> og_monitor actual = None
    | routeMutationDeletePool \<Rightarrow> og_policies actual = [] \<and> og_monitor actual = None \<and> og_members actual = []
    | _ \<Rightarrow> False)"

definition childrenNeedPool :: "observedRouteGraph \<Rightarrow> bool" where
  "childrenNeedPool actual \<longleftrightarrow> og_pool actual \<noteq> None \<or> og_members actual = [] \<and> og_monitor actual = None"

lemma deletionPlan_total:
  "childrenNeedPool actual \<Longrightarrow> \<exists>plan. buildRouteDeletionPlan actual = Inr plan"
  by (auto simp: buildRouteDeletionPlan_def childrenNeedPool_def poolOf_def split: option.splits)

lemma deletionPlan_empty:
  "buildRouteDeletionPlan actual = Inr [] \<Longrightarrow>
     og_pool actual = None \<and> og_members actual = [] \<and> og_monitor actual = None \<and> og_policies actual = []"
  by (auto simp: buildRouteDeletionPlan_def go_simps split: option.splits if_splits)

lemma deletionPlan_head:
  assumes "buildRouteDeletionPlan actual = Inr (m # rest)"
  shows "routeLeaf actual m \<and> targetsGraph actual m"
proof -
  let ?rules = "concat (map (\<lambda>policy. map (\<lambda>rule.
    mutation routeMutationDeleteRule (ru_ID (or_rule rule)) (pl_ID (op_policy policy))) (op_rules policy)) (og_policies actual))"
  let ?tail = "\<lambda>monitorPlan memberPlan. map (\<lambda>policy. mutation routeMutationDeletePolicy (pl_ID (op_policy policy)) []) (og_policies actual) @
    monitorPlan @ memberPlan @ (case og_pool actual of None \<Rightarrow> [] | Some pool \<Rightarrow> [mutation routeMutationDeletePool (po_ID pool) []])"
  obtain monitorPlan memberPlan where
    monitor: "monitorPlan = (case og_monitor actual of None \<Rightarrow> [] | Some monitor \<Rightarrow>
      [mutation routeMutationDeleteMonitor (mo_ID monitor) (poolIDOf actual)])" and
    member: "memberPlan = map (\<lambda>member. mutation routeMutationDeleteMember (me_ID member) (poolIDOf actual)) (og_members actual)" and
    pools: "og_members actual \<noteq> [] \<longrightarrow> og_pool actual \<noteq> None" and
    plan: "m # rest = disablePlan (og_policies actual) @ ?rules @ ?tail monitorPlan memberPlan"
    using assms
    by (auto simp: buildRouteDeletionPlan_def poolOf_def poolIDOf_def go_simps split: option.splits if_splits)
  show ?thesis
  proof (cases "disablePlan (og_policies actual)")
    case (Cons d ds)
    then have "m \<in> set (disablePlan (og_policies actual))" using plan by simp
    then show ?thesis using disablePlan_targets by (auto simp: routeLeaf_def)
  next
    case Nil
    then have disabled: "allDisabled (og_policies actual)" by simp
    show ?thesis
    proof (cases ?rules)
      case (Cons d ds)
      then have "m \<in> set ?rules" using plan Nil by simp
      then show ?thesis
        using disabled by (fastforce simp: routeLeaf_def targetsGraph_def ruleIDsOf_def)
    next
      case noRules: Nil
      then have "\<forall>policy \<in> set (og_policies actual). op_rules policy = []" by simp
      moreover have "m # rest = ?tail monitorPlan memberPlan" using plan Nil noRules by simp
      ultimately show ?thesis
        using disabled monitor member pools
        by (cases "og_policies actual"; cases "og_monitor actual"; cases "og_members actual"; cases "og_pool actual")
          (auto simp: routeLeaf_def targetsGraph_def policyIDs_def poolIDOf_def)
    qed
  qed
qed

subsection \<open>A sample route\<close>

definition sampleSpec :: RouteSpec where
  "sampleSpec =
     \<lparr>rs_Identity = sampleIdentity, rs_Gateway = emptyGatewayState,
      rs_GatewayRequirements = \<lparr>gr_Provider = ''ovn'', gr_VIPSubnetID = ''s1'', gr_ExternalNetworkID = [], gr_ListenerPort = 80\<rparr>,
      rs_MemberSubnetID = ''s2'', rs_HealthPath = ''/h'', rs_Hostname = ''a.b'', rs_PathType = PathMatchPrefix,
      rs_PathValue = ''/foo/'', rs_Members = [\<lparr>m_Address = ''10.0.0.5'', m_Port = 8080\<rparr>]\<rparr>"

definition sampleDesired :: desiredRoute where
  "sampleDesired =
     \<lparr>want_identity = sampleIdentity, want_spec = sampleSpec,
      want_members = [\<lparr>m_Address = ''10.0.0.5'', m_Port = 8080\<rparr>], want_healthPath = ''/h'',
      want_policies = policiesFor sampleSpec\<rparr>"

definition samplePolicy :: "string \<Rightarrow> string \<Rightarrow> int \<Rightarrow> string \<Rightarrow> string \<Rightarrow> bool \<Rightarrow> observedRoutePolicy" where
  "samplePolicy i role position compare path up =
     \<lparr>op_policy = \<lparr>pl_ID = i, pl_ProjectID = ''p1'', pl_Tags = [], pl_ListenerID = ''li'', pl_Action = ActionRedirectToPool,
        pl_Position = position, pl_RedirectPoolID = ''po'', pl_AdminStateUp = up, pl_ProvisioningStatus = ''ACTIVE''\<rparr>,
      op_role = role,
      op_rules =
        [\<lparr>or_rule = \<lparr>ru_ID = i @ ''r'', ru_ProjectID = ''p1'', ru_Tags = [], ru_RuleType = TypePath, ru_CompareType = compare,
            ru_Value = path, ru_Invert = False, ru_AdminStateUp = True, ru_ProvisioningStatus = ''ACTIVE''\<rparr>,
          or_role = RoleRulePath\<rparr>,
         \<lparr>or_rule = \<lparr>ru_ID = i @ ''h'', ru_ProjectID = ''p1'', ru_Tags = [], ru_RuleType = TypeHostName,
            ru_CompareType = CompareTypeEqual, ru_Value = ''a.b'', ru_Invert = False, ru_AdminStateUp = True,
            ru_ProvisioningStatus = ''ACTIVE''\<rparr>,
          or_role = RoleRuleHost\<rparr>]\<rparr>"

definition sampleGraph :: "bool \<Rightarrow> string \<Rightarrow> observedRouteGraph" where
  "sampleGraph up exactPath =
     \<lparr>og_pool = Some \<lparr>po_ID = ''po'', po_ProjectID = ''p1'', po_Tags = [], po_Loadbalancers = [], po_Protocol = ProtocolHTTP,
        po_LBMethod = LBMethodRoundRobin, po_AdminStateUp = True, po_ProvisioningStatus = ''ACTIVE''\<rparr>,
      og_members = [\<lparr>me_ID = ''m1'', me_ProjectID = ''p1'', me_Tags = [], me_PoolID = ''po'', me_Address = ''10.0.0.5'',
        me_ProtocolPort = 8080, me_SubnetID = ''s2'', me_AdminStateUp = True, me_ProvisioningStatus = ''ACTIVE''\<rparr>],
      og_monitor = Some \<lparr>mo_ID = ''mo'', mo_ProjectID = ''p1'', mo_Tags = [], mo_Pools = [], mo_Type = MonitorTypeHTTP,
        mo_Delay = 10, mo_Timeout = 5, mo_MaxRetries = 3, mo_MaxRetriesDown = 3, mo_URLPath = ''/h'',
        mo_HTTPMethod = MethodGet, mo_ExpectedCodes = routeMonitorExpectedCodes, mo_AdminStateUp = True,
        mo_ProvisioningStatus = ''ACTIVE''\<rparr>,
      og_policies = [samplePolicy ''l1'' RolePolicyExact 1 CompareTypeEqual exactPath up,
        samplePolicy ''l2'' RolePolicyPrefix 2 CompareTypeStartWith ''/foo/'' up]\<rparr>"

lemmas sample_defs = sampleDesired_def sampleGraph_def samplePolicy_def

lemma sample_policies:
  "policiesFor sampleSpec = [desiredPolicyOf RolePolicyExact 1 CompareTypeEqual ''/foo'',
     desiredPolicyOf RolePolicyPrefix 2 CompareTypeStartWith ''/foo/'']"
  by (simp add: policiesFor_def sampleSpec_def Let_def TrimRightByte_def PathMatchPrefix_def PathMatchExact_def)

lemma sample_wellFormed: "wellFormedGraph (sampleGraph up path)"
  by (simp add: wellFormedGraph_def sample_defs role_defs)

lemmas plan_defs = buildRouteEnsurePlan_def planPool_def planMembers_def planMember_def desiredMemberTable_def
  planMonitor_def monitorMatches_def buildRoutePolicyPlan_def planPolicy_def planRule_def policyMatches_def
  ruleMatches_def tableOf_def policyToEnable_def disablePlan_def sortedValues_def rulesFor_def desiredPolicyOf_def
  routeMonitorDelay_def routeMonitorTimeout_def routeMonitorMaxRetries_def routeMonitorMaxRetriesDown_def

lemma sample_roles: "RolePolicyExact \<noteq> RolePolicyPrefix" "RoleRulePath \<noteq> RoleRuleHost"
  by (simp_all add: role_defs)

lemma sample_spec [simp]:
  "rs_MemberSubnetID sampleSpec = ''s2''" "rs_Hostname sampleSpec = ''a.b''"
  by (simp_all add: sampleSpec_def)

lemma sample_converged_plan: "\<exists>state. buildRouteEnsurePlan sampleDesired (sampleGraph True ''/foo'') = Inr ([], state)"
  by (simp add: plan_defs sample_defs sample_policies sample_roles sample_roles [symmetric] Let_def emptyRouteState_def)

lemma sample_changed_plan:
  "\<exists>rest state. buildRouteEnsurePlan sampleDesired (sampleGraph False ''/bar'') =
     Inr ((mutation routeMutationUpdateRule ''l1r'' ''l1'')\<lparr>rm_rule :=
       \<lparr>dr_role = RoleRulePath, dr_ruleType = TypePath, dr_compareType = CompareTypeEqual, dr_value = ''/foo''\<rparr>\<rparr> # rest, state)"
  by (simp add: plan_defs sample_defs sample_policies sample_roles sample_roles [symmetric] Let_def emptyRouteState_def)

text \<open>
  C22. The ensure plan is empty exactly when the observed graph is the desired one: one enabled HTTP pool
  with exactly the desired members, the desired health monitor, and exactly the desired policies and
  rules, all enabled. So a route is never reported ready too early, and a converged route is left alone.
\<close>

theorem ensure_plan_empty_iff_converged:
  assumes "buildRouteEnsurePlan desired actual = Inr (plan, state)" and "wellFormedGraph actual"
  shows "plan = [] \<longleftrightarrow> convergedRoute desired actual"
  using assms by (cases rule: ensurePlan_cases) (auto simp: convergedRoute_def allEnabled_def)

theorem ensure_plan_empty_iff_converged_witness:
  "convergedRoute sampleDesired (sampleGraph True ''/foo'')"
  using sample_converged_plan ensure_plan_empty_iff_converged sample_wellFormed by blast

text \<open>
  C21. The first step of an ensure plan, the only one that is executed, is safe for traffic: policies and
  rules change only while all policies are disabled and the pool is complete, a policy is enabled only
  when pool, members, monitor, policies and rules have converged, and the step refers to the observed graph.
\<close>

theorem ensure_plan_traffic_safe:
  assumes "buildRouteEnsurePlan desired actual = Inr (m # rest, state)" and "wellFormedGraph actual"
  shows "trafficSafe desired actual m \<and> targetsGraph actual m"
  by (rule ensurePlan_head [OF assms])

theorem ensure_plan_traffic_safe_witness:
  "allDisabled (og_policies (sampleGraph False ''/bar'')) \<and> poolConverged sampleDesired (sampleGraph False ''/bar'')"
proof -
  obtain rest state where plan: "buildRouteEnsurePlan sampleDesired (sampleGraph False ''/bar'') =
     Inr ((mutation routeMutationUpdateRule ''l1r'' ''l1'')\<lparr>rm_rule :=
       \<lparr>dr_role = RoleRulePath, dr_ruleType = TypePath, dr_compareType = CompareTypeEqual, dr_value = ''/foo''\<rparr>\<rparr> # rest, state)"
    using sample_changed_plan by blast
  from ensure_plan_traffic_safe [OF plan sample_wellFormed] show ?thesis
    by (simp add: trafficSafe_def policyKind_def)
qed

text \<open>
  The first step of a deletion plan removes a leaf of the observed graph: rules and policies only
  after all policies were disabled, policies only without rules, then monitor, members and pool in this
  order; and it refers to an observed resource.
\<close>

theorem deletion_plan_removes_leaf:
  assumes "buildRouteDeletionPlan actual = Inr (m # rest)"
  shows "routeLeaf actual m \<and> targetsGraph actual m"
  by (rule deletionPlan_head [OF assms])

theorem deletion_plan_removes_leaf_witness:
  "routeLeaf (sampleGraph True ''/foo'') (mutation routeMutationDisablePolicy ''l1'' [])"
  using deletion_plan_removes_leaf
    [of "sampleGraph True ''/foo''" "mutation routeMutationDisablePolicy ''l1'' []"]
  by (simp add: buildRouteDeletionPlan_def sample_defs poolOf_def disablePlan_def)

section \<open>Path matching\<close>

text \<open>
  What the L7 policies of a route match, and the PathPrefix match of the Gateway API: element by
  element, where elements are separated by slashes.
\<close>

definition matchesPath :: "desiredPolicy \<Rightarrow> string \<Rightarrow> bool" where
  "matchesPath policy path =
     (if dp_compareType policy = CompareTypeEqual then path = dp_path policy else HasPrefix path (dp_path policy))"

fun pathElements :: "string \<Rightarrow> string list" where
  "pathElements [] = [[]]"
| "pathElements (c # cs) =
     (if c = CHR ''/'' then [] # pathElements cs
      else case pathElements cs of x # xs \<Rightarrow> (c # x) # xs | [] \<Rightarrow> [[c]])"

definition elementPrefix :: "string \<Rightarrow> string \<Rightarrow> bool" where
  "elementPrefix v path \<longleftrightarrow>
     take (length (pathElements v)) (pathElements path) = pathElements v"

lemma pathElements_nonempty [simp]: "pathElements s \<noteq> []"
  by (induction s) (auto split: list.splits)

lemma pathElements_slash: "pathElements (v @ CHR ''/'' # r) = pathElements v @ pathElements r"
  by (induction v) (auto split: list.splits simp: neq_Nil_conv)

lemma Join_pathElements: "Join (pathElements s) ''/'' = s"
proof (induction s)
  case (Cons c s)
  then show ?case by (cases "pathElements s"; cases "tl (pathElements s)") (auto split: list.splits)
qed simp

lemma Join_append: "xs \<noteq> [] \<Longrightarrow> ys \<noteq> [] \<Longrightarrow> Join (xs @ ys) sep = Join xs sep @ sep @ Join ys sep"
  by (induction xs sep rule: Join.induct) (auto simp: neq_Nil_conv)

lemma elementPrefix_iff: "elementPrefix v path \<longleftrightarrow> path = v \<or> HasPrefix path (v @ ''/'')"
proof
  assume "elementPrefix v path"
  then obtain ys where path: "pathElements path = pathElements v @ ys"
    unfolding elementPrefix_def by (metis append_take_drop_id)
  show "path = v \<or> HasPrefix path (v @ ''/'')"
  proof (cases "ys = []")
    case True
    then show ?thesis using path Join_pathElements by (metis append_Nil2)
  next
    case False
    then have "path = v @ ''/'' @ Join ys ''/''"
      using arg_cong [OF path, of "\<lambda>xs. Join xs ''/''"] by (simp add: Join_pathElements Join_append)
    then show ?thesis by (simp add: HasPrefix_iff)
  qed
next
  assume "path = v \<or> HasPrefix path (v @ ''/'')"
  then show "elementPrefix v path"
    by (auto simp: elementPrefix_def HasPrefix_iff pathElements_slash)
qed

text \<open>
  C23. The policies that policiesFor derives from a route match a request path exactly as the Gateway
  API says: Exact matches the path itself, PathPrefix matches element by element with trailing slashes
  of the value ignored, so that \<open>/foo\<close> matches \<open>/foo\<close> and \<open>/foo/bar\<close> but not \<open>/foobar\<close>.
\<close>

theorem policies_match_gateway_api:
  assumes "HasPrefix path ''/''"
  shows "list_ex (\<lambda>policy. matchesPath policy path) (policiesFor spec) \<longleftrightarrow>
    (if rs_PathType spec = PathMatchExact
     then path = (if rs_PathValue spec = [] then ''/'' else rs_PathValue spec)
     else elementPrefix (TrimRightByte (rs_PathValue spec) (CHR ''/'')) path)"
proof -
  let ?v = "TrimRightByte (rs_PathValue spec) (CHR ''/'')"
  have "dropWhile (\<lambda>x. x = c) xs \<noteq> [c]" for c :: char and xs
    by (induction xs) auto
  then have noSlash: "?v \<noteq> ''/''" by (simp add: TrimRightByte_def)
  have trim: "TrimRightByte (if rs_PathValue spec = [] then ''/'' else rs_PathValue spec) (CHR ''/'') = ?v"
    by (simp add: TrimRightByte_def)
  show ?thesis
  proof (cases "rs_PathType spec = PathMatchExact")
    case True
    then show ?thesis
      by (simp add: policiesFor_def Let_def matchesPath_def desiredPolicyOf_def del: if_split)
  next
    case False
    have kinds: "CompareTypeStartWith \<noteq> CompareTypeEqual"
      by (simp add: CompareTypeEqual_def CompareTypeStartWith_def)
    have "policiesFor spec =
        (if ?v = [] then [desiredPolicyOf RolePolicyPrefix 1 CompareTypeStartWith ''/'']
         else [desiredPolicyOf RolePolicyExact 1 CompareTypeEqual ?v,
           desiredPolicyOf RolePolicyPrefix 2 CompareTypeStartWith (?v @ ''/'')])"
      using False noSlash unfolding policiesFor_def Let_def trim by simp
    then show ?thesis
      using False assms kinds by (simp add: matchesPath_def desiredPolicyOf_def elementPrefix_iff)
  qed
qed

theorem policies_match_gateway_api_witness:
  "list_ex (\<lambda>policy. matchesPath policy ''/foo/x'') (policiesFor sampleSpec) \<and>
   \<not> list_ex (\<lambda>policy. matchesPath policy ''/foobar'') (policiesFor sampleSpec)"
  using policies_match_gateway_api [of "''/foo/x''" sampleSpec] policies_match_gateway_api [of "''/foobar''" sampleSpec]
  by (simp add: HasPrefix_def sampleSpec_def PathMatchPrefix_def PathMatchExact_def elementPrefix_def TrimRightByte_def)

end
