(* ===== verification/RouteOps.thy ===== *)
theory RouteOps
  imports GatewayOps RoutePlan
begin

text \<open>
  The operations on a route: EnsureRoute (route.go), DeleteRoute (delete.go), and the observation of the
  route graph and the execution of one step (route\_graph.go). Like the operations on Gateways, each
  observes everything first and then issues at most one mutation.
\<close>

section \<open>Observing the Gateway of a route\<close>

record routeGatewayObservation =
  rg_state :: GatewayState
  rg_outcome :: Outcome
  rg_loadBalancerAdminStateUp :: bool
  rg_listenerAdminStateUp :: bool

definition emptyRouteGateway :: routeGatewayObservation where
  "emptyRouteGateway = \<lparr>rg_state = emptyGatewayState, rg_outcome = unsetOutcome,
     rg_loadBalancerAdminStateUp = False, rg_listenerAdminStateUp = False\<rparr>"

definition observeActiveRouteGateway :: "('w, 'p) gophercloud \<Rightarrow> Provider \<Rightarrow> Identity \<Rightarrow> GatewayRequirements option \<Rightarrow>
    bool \<Rightarrow> LoadBalancer \<Rightarrow> ('w, routeGatewayObservation \<times> bool) io" where
  "observeActiveRouteGateway g p i requirements requireListener loadBalancer =
     bindIO (liftE (validateLoadBalancerProject p (lb_ProjectID loadBalancer))) (\<lambda>_.
     bindIO (liftE (guardE (MatchesGateway i (lb_Tags loadBalancer) RoleLoadBalancer) conflict)) (\<lambda>_.
     bindIO (liftE (guardE (\<not> (case requirements of None \<Rightarrow> False | Some req \<Rightarrow>
       lb_Provider loadBalancer \<noteq> gr_Provider req \<or> lb_VipSubnetID loadBalancer \<noteq> gr_VIPSubnetID req)) conflict)) (\<lambda>_.
     let state = emptyGatewayState\<lparr>st_LoadBalancerID := lb_ID loadBalancer,
       st_VIPPortID := lb_VipPortID loadBalancer, st_VIPAddress := lb_VipAddress loadBalancer\<rparr> in
     bindIO (findManagedGatewayListener g p i (lb_ID loadBalancer)) (\<lambda>found.
     case found of
        None \<Rightarrow>
          returnIO (emptyRouteGateway\<lparr>rg_state := state, rg_outcome :=
            (if requireListener then progressingOutcome p ''Octavia listener has not been created'' else ReadyOutcome)\<rparr>, True)
      | Some listener \<Rightarrow>
          if li_Protocol listener \<noteq> ''HTTP'' then throwIO conflict
          else if (case requirements of None \<Rightarrow> False | Some req \<Rightarrow> li_ProtocolPort listener \<noteq> gr_ListenerPort req)
          then throwIO conflict
          else returnIO (\<lparr>rg_state = state\<lparr>st_ListenerID := li_ID listener\<rparr>, rg_outcome = ReadyOutcome,
            rg_loadBalancerAdminStateUp = lb_AdminStateUp loadBalancer,
            rg_listenerAdminStateUp = li_AdminStateUp listener\<rparr>, True)))))"

definition observeRouteGateway :: "('w, 'p) gophercloud \<Rightarrow> Provider \<Rightarrow> Identity \<Rightarrow> GatewayRequirements option \<Rightarrow>
    bool \<Rightarrow> ('w, routeGatewayObservation \<times> bool) io" where
  "observeRouteGateway g p i requirements requireListener =
     bindIO (findGatewayLoadBalancer g p i) (\<lambda>found.
     case found of
        None \<Rightarrow> returnIO (emptyRouteGateway, False)
      | Some loadBalancer \<Rightarrow>
          bindIO (liftE (guardE (MatchesGateway i (lb_Tags loadBalancer) RoleLoadBalancer) conflict)) (\<lambda>_.
          bindIO (observeLoadBalancerOnce g p (lb_ID loadBalancer)) (\<lambda>observation.
          case ob_phase observation of
             loadBalancerPhaseAbsent \<Rightarrow> returnIO (emptyRouteGateway, False)
           | loadBalancerPhasePending \<Rightarrow> returnIO (emptyRouteGateway\<lparr>rg_outcome := ob_outcome observation\<rparr>, True)
           | loadBalancerPhaseActive \<Rightarrow>
               bindIO (liftE (deref (ob_loadBalancer observation)))
                 (observeActiveRouteGateway g p i requirements requireListener))))"

section \<open>Observing the route graph\<close>

definition acceptRoutePool :: "Provider \<Rightarrow> Identity \<Rightarrow> string \<Rightarrow> Pool \<Rightarrow> Pool option \<Rightarrow> Pool option result" where
  "acceptRoutePool p i loadBalancerID pool found =
     bindE (validateOptionalProject p (po_ProjectID pool)) (\<lambda>_.
     bindE (guardE (MatchesRouteDiscovery i (po_Tags pool) RolePool \<and> MatchesRoute i (po_Tags pool) RolePool) conflict) (\<lambda>_.
     bindE (foreachE (\<lambda>parent. guardE (parent = loadBalancerID) conflict) (po_Loadbalancers pool)) (\<lambda>_.
     bindE (guardE (found = None) conflict) (\<lambda>_. Inr (Some pool)))))"

text \<open>A lookup in a map of strings yields the empty string when the key is absent.\<close>

definition lookupID :: "(string \<times> string) list \<Rightarrow> string \<Rightarrow> string" where
  "lookupID table key = (case map_of table key of None \<Rightarrow> [] | Some v \<Rightarrow> v)"

definition acceptRouteMember :: "Provider \<Rightarrow> Identity \<Rightarrow> string \<Rightarrow> PoolMember \<Rightarrow>
    PoolMember list \<times> (string \<times> string) list \<Rightarrow> (PoolMember list \<times> (string \<times> string) list) result" where
  "acceptRouteMember p i poolID member acc =
     bindE (validateOptionalProject p (me_ProjectID member)) (\<lambda>_.
     bindE (guardE (MatchesRoute i (me_Tags member) RoleMember) conflict) (\<lambda>_.
     bindE (guardE (\<not> (me_PoolID member \<noteq> [] \<and> me_PoolID member \<noteq> poolID)) conflict) (\<lambda>_.
     case ParseAddr (me_Address member) of
        None \<Rightarrow> Inl conflict
      | Some address \<Rightarrow>
          if me_ProtocolPort member < 1 \<or> me_ProtocolPort member > 65535 then Inl conflict
          else let member = member\<lparr>me_Address := AddrString address\<rparr>;
                   key = memberKey (me_Address member) (me_ProtocolPort member) in
            if lookupID (snd acc) key \<noteq> [] then Inl conflict
            else Inr (fst acc @ [member], AList.update key (me_ID member) (snd acc)))))"

definition acceptRouteMonitor :: "Provider \<Rightarrow> Identity \<Rightarrow> string \<Rightarrow> Monitor \<Rightarrow> Monitor option \<Rightarrow> Monitor option result" where
  "acceptRouteMonitor p i poolID monitor found =
     bindE (validateOptionalProject p (mo_ProjectID monitor)) (\<lambda>_.
     bindE (guardE (MatchesRoute i (mo_Tags monitor) RoleMonitor) conflict) (\<lambda>_.
     bindE (foreachE (\<lambda>parent. guardE (parent = poolID) conflict) (mo_Pools monitor)) (\<lambda>_.
     bindE (guardE (found = None) conflict) (\<lambda>_. Inr (Some monitor)))))"

definition routeMemberOrder :: "PoolMember \<Rightarrow> string \<times> int \<times> string" where
  "routeMemberOrder member = (me_Address member, me_ProtocolPort member, me_ID member)"

definition observeRoutePoolChildren :: "('w, 'p) gophercloud \<Rightarrow> Provider \<Rightarrow> Identity \<Rightarrow> string \<Rightarrow>
    ('w, PoolMember list \<times> Monitor option) io" where
  "observeRoutePoolChildren g p i poolID =
     bindIO (mapErrIO Wrapf (ListMembers g poolID (pv_projectID p))) (\<lambda>memberList.
     bindIO (liftE (foldE (acceptRouteMember p i poolID) (sort_key routeMemberOrder memberList) ([], []))) (\<lambda>(members, _).
     bindIO (mapErrIO Wrapf (ListMonitors g (scopedOpts p poolID))) (\<lambda>monitorItems.
     bindIO (liftE (foldE (acceptRouteMonitor p i poolID) (sort_key mo_ID monitorItems) None)) (\<lambda>monitor.
     returnIO (members, monitor)))))"

fun roleOf :: "Identity \<Rightarrow> string list \<Rightarrow> string list \<Rightarrow> string result" where
  "roleOf i tags [] = Inl conflict"
| "roleOf i tags (role # roles) =
     (if MatchesRoute i tags role then Inr role
      else if MatchesRouteDiscovery i tags role then Inl conflict
      else roleOf i tags roles)"

definition routePolicyRole :: "Identity \<Rightarrow> string list \<Rightarrow> string result" where
  "routePolicyRole i tags = roleOf i tags [RolePolicyExact, RolePolicyPrefix]"

definition routeRuleRole :: "Identity \<Rightarrow> string list \<Rightarrow> string result" where
  "routeRuleRole i tags = roleOf i tags [RoleRulePath, RoleRuleHost]"

definition acceptRouteRule :: "Provider \<Rightarrow> Identity \<Rightarrow> L7Rule \<Rightarrow> observedRouteRule list \<times> (string \<times> string) list \<Rightarrow>
    (observedRouteRule list \<times> (string \<times> string) list) result" where
  "acceptRouteRule p i rule acc =
     bindE (validateOptionalProject p (ru_ProjectID rule)) (\<lambda>_.
     bindE (mapErr Wrapf (routeRuleRole i (ru_Tags rule))) (\<lambda>role.
     if lookupID (snd acc) role \<noteq> [] then Inl conflict
     else Inr (fst acc @ [\<lparr>or_rule = rule, or_role = role\<rparr>], AList.update role (ru_ID rule) (snd acc))))"

definition observeRoutePolicy :: "('w, 'p) gophercloud \<Rightarrow> Provider \<Rightarrow> Identity \<Rightarrow> string \<Rightarrow> L7Policy \<Rightarrow>
    observedRoutePolicy list \<times> (string \<times> string) list \<Rightarrow>
    ('w, observedRoutePolicy list \<times> (string \<times> string) list) io" where
  "observeRoutePolicy g p i listenerID item acc =
     bindIO (liftE (bindE (validateOptionalProject p (pl_ProjectID item)) (\<lambda>_.
       bindE (mapErr Wrapf (routePolicyRole i (pl_Tags item))) (\<lambda>role.
       bindE (guardE (lookupID (snd acc) role = []) conflict) (\<lambda>_.
       bindE (guardE (\<not> (pl_ListenerID item \<noteq> [] \<and> pl_ListenerID item \<noteq> listenerID)) conflict) (\<lambda>_.
       Inr role)))))) (\<lambda>role.
     bindIO (mapErrIO Wrapf (ListRules g (pl_ID item) (pv_projectID p))) (\<lambda>ruleItems.
     bindIO (liftE (foldE (acceptRouteRule p i) (sort_key ru_ID ruleItems) ([], []))) (\<lambda>(observedRules, _).
     returnIO (fst acc @ [\<lparr>op_policy = item, op_role = role, op_rules = observedRules\<rparr>],
       AList.update role (pl_ID item) (snd acc)))))"

definition observeRoutePolicies :: "('w, 'p) gophercloud \<Rightarrow> Provider \<Rightarrow> Identity \<Rightarrow> string \<Rightarrow>
    ('w, observedRoutePolicy list) io" where
  "observeRoutePolicies g p i listenerID =
     bindIO (mapErrIO Wrapf (ListPolicies g (policyOpts p listenerID))) (\<lambda>items.
     bindIO (foldIO (observeRoutePolicy g p i listenerID)
       (sort_key (\<lambda>item. (pl_Position item, pl_ID item)) items) ([], [])) (\<lambda>(policies, _).
     returnIO policies))"

definition observeRouteGraph :: "('w, 'p) gophercloud \<Rightarrow> Provider \<Rightarrow> Identity \<Rightarrow> GatewayState \<Rightarrow> ('w, observedRouteGraph) io" where
  "observeRouteGraph g p i gateway =
     bindIO (mapErrIO Wrapf (ListPools g (scopedOpts p (st_LoadBalancerID gateway)))) (\<lambda>poolItems.
     bindIO (liftE (foldE (acceptRoutePool p i (st_LoadBalancerID gateway)) (sort_key po_ID poolItems) None)) (\<lambda>pool.
     bindIO (case pool of None \<Rightarrow> returnIO ([], None) | Some found \<Rightarrow> observeRoutePoolChildren g p i (po_ID found)) (\<lambda>(members, monitor).
     bindIO (if st_ListenerID gateway \<noteq> [] then observeRoutePolicies g p i (st_ListenerID gateway) else returnIO []) (\<lambda>policies.
     returnIO \<lparr>og_pool = pool, og_members = members, og_monitor = monitor, og_policies = policies\<rparr>))))"

section \<open>Executing one step\<close>

definition discard :: "('w, 'a) io \<Rightarrow> ('w, unit) io" where
  "discard m = bindIO m (\<lambda>_. returnIO ())"

definition monitorCreateOpts :: "desiredRoute \<Rightarrow> routeMutation \<Rightarrow> string list \<Rightarrow> MonitorCreateOpts" where
  "monitorCreateOpts desired step tags =
     \<lparr>moc_PoolID = rm_parentID step, moc_Type = MonitorTypeHTTP, moc_Delay = routeMonitorDelay,
      moc_Timeout = routeMonitorTimeout, moc_MaxRetries = routeMonitorMaxRetries,
      moc_MaxRetriesDown = routeMonitorMaxRetriesDown, moc_URLPath = want_healthPath desired,
      moc_HTTPMethod = MethodGet, moc_ExpectedCodes = routeMonitorExpectedCodes,
      moc_Name = resourceName (rs_Identity (want_spec desired)) RoleMonitor,
      moc_AdminStateUp = Some True, moc_Tags = tags\<rparr>"

definition monitorUpdateOpts :: "desiredRoute \<Rightarrow> MonitorUpdateOpts" where
  "monitorUpdateOpts desired =
     \<lparr>mou_Delay = routeMonitorDelay, mou_Timeout = routeMonitorTimeout, mou_MaxRetries = routeMonitorMaxRetries,
      mou_MaxRetriesDown = routeMonitorMaxRetriesDown, mou_URLPath = want_healthPath desired,
      mou_HTTPMethod = MethodGet, mou_ExpectedCodes = routeMonitorExpectedCodes, mou_AdminStateUp = Some True\<rparr>"

definition adminStateOpts :: "bool \<Rightarrow> PolicyUpdateOpts" where
  "adminStateOpts up = \<lparr>plu_Action = [], plu_Position = 0, plu_RedirectPoolID = None, plu_AdminStateUp = Some up\<rparr>"

definition policyCreateOpts :: "desiredRoute \<Rightarrow> routeMutation \<Rightarrow> string list \<Rightarrow> PolicyCreateOpts" where
  "policyCreateOpts desired step tags =
     \<lparr>plc_Name = resourceName (rs_Identity (want_spec desired)) (dp_role (rm_policy step)),
      plc_ListenerID = st_ListenerID (rs_Gateway (want_spec desired)), plc_Action = ActionRedirectToPool,
      plc_Position = dp_position (rm_policy step),
      plc_Description = Description (want_identity desired) (dp_role (rm_policy step)),
      plc_RedirectPoolID = rm_parentID step, plc_AdminStateUp = Some False, plc_Tags = tags\<rparr>"

definition poolCreateOpts :: "desiredRoute \<Rightarrow> string list \<Rightarrow> PoolCreateOpts" where
  "poolCreateOpts desired tags =
     \<lparr>poc_LBMethod = LBMethodRoundRobin, poc_Protocol = ProtocolHTTP,
      poc_LoadbalancerID = st_LoadBalancerID (rs_Gateway (want_spec desired)),
      poc_Name = resourceName (rs_Identity (want_spec desired)) RolePool,
      poc_Description = Description (want_identity desired) RolePool,
      poc_AdminStateUp = Some True, poc_Tags = tags\<rparr>"

definition memberCreateOpts :: "desiredRoute \<Rightarrow> routeMutation \<Rightarrow> string list \<Rightarrow> MemberCreateOpts" where
  "memberCreateOpts desired step tags =
     \<lparr>mec_Address = m_Address (rm_member step), mec_ProtocolPort = m_Port (rm_member step),
      mec_Name = resourceName (rs_Identity (want_spec desired)) RoleMember,
      mec_SubnetID = rs_MemberSubnetID (want_spec desired), mec_AdminStateUp = Some True, mec_Tags = tags\<rparr>"

definition ruleCreateOpts :: "routeMutation \<Rightarrow> string list \<Rightarrow> RuleCreateOpts" where
  "ruleCreateOpts step tags =
     \<lparr>ruc_RuleType = dr_ruleType (rm_rule step), ruc_CompareType = dr_compareType (rm_rule step),
      ruc_Value = dr_value (rm_rule step), ruc_AdminStateUp = Some True, ruc_Tags = tags\<rparr>"

definition ruleUpdateOpts :: "routeMutation \<Rightarrow> RuleUpdateOpts" where
  "ruleUpdateOpts step =
     \<lparr>ruu_RuleType = dr_ruleType (rm_rule step), ruu_CompareType = dr_compareType (rm_rule step),
      ruu_Value = dr_value (rm_rule step), ruu_Invert = Some False, ruu_AdminStateUp = Some True\<rparr>"

definition policyUpdateOpts :: "routeMutation \<Rightarrow> PolicyUpdateOpts" where
  "policyUpdateOpts step =
     \<lparr>plu_Action = ActionRedirectToPool, plu_Position = dp_position (rm_policy step),
      plu_RedirectPoolID = Some (rm_parentID step), plu_AdminStateUp = Some False\<rparr>"

text \<open>The tags of a resource that a step creates; the other steps need none.\<close>

definition routeMutationTags :: "desiredRoute \<Rightarrow> routeMutation \<Rightarrow> string list result" where
  "routeMutationTags desired step = (case rm_kind step of
      routeMutationCreatePool \<Rightarrow> RouteTags (want_identity desired) RolePool
    | routeMutationCreateMember \<Rightarrow> RouteTags (want_identity desired) RoleMember
    | routeMutationCreateMonitor \<Rightarrow> RouteTags (want_identity desired) RoleMonitor
    | routeMutationCreatePolicy \<Rightarrow> RouteTags (want_identity desired) (dp_role (rm_policy step))
    | routeMutationCreateRule \<Rightarrow> RouteTags (want_identity desired) (dr_role (rm_rule step))
    | _ \<Rightarrow> Inr [])"

definition routeMutationCall :: "('w, 'p) gophercloud \<Rightarrow> desiredRoute \<Rightarrow> routeMutation \<Rightarrow> string list \<Rightarrow> ('w, unit) io" where
  "routeMutationCall g desired step tags = (case rm_kind step of
      routeMutationCreatePool \<Rightarrow> discard (CreatePool g (poolCreateOpts desired tags))
    | routeMutationUpdatePool \<Rightarrow>
        discard (UpdatePool g (rm_id step) \<lparr>pou_LBMethod = LBMethodRoundRobin, pou_AdminStateUp = Some True\<rparr>)
    | routeMutationDeleteMember \<Rightarrow> DeleteMember g (rm_parentID step) (rm_id step)
    | routeMutationCreateMember \<Rightarrow> discard (CreateMember g (rm_parentID step) (memberCreateOpts desired step tags))
    | routeMutationUpdateMember \<Rightarrow> discard (UpdateMember g (rm_parentID step) (rm_id step) (Some True))
    | routeMutationCreateMonitor \<Rightarrow> discard (CreateMonitor g (monitorCreateOpts desired step tags))
    | routeMutationUpdateMonitor \<Rightarrow> discard (UpdateMonitor g (rm_id step) (monitorUpdateOpts desired))
    | routeMutationDisablePolicy \<Rightarrow> discard (UpdatePolicy g (rm_id step) (adminStateOpts False))
    | routeMutationDeleteRule \<Rightarrow> DeleteRule g (rm_parentID step) (rm_id step)
    | routeMutationDeletePolicy \<Rightarrow> DeletePolicy g (rm_id step)
    | routeMutationCreatePolicy \<Rightarrow> discard (CreatePolicy g (policyCreateOpts desired step tags))
    | routeMutationUpdatePolicy \<Rightarrow> discard (UpdatePolicy g (rm_id step) (policyUpdateOpts step))
    | routeMutationCreateRule \<Rightarrow> discard (CreateRule g (rm_parentID step) (ruleCreateOpts step tags))
    | routeMutationUpdateRule \<Rightarrow> discard (UpdateRule g (rm_parentID step) (rm_id step) (ruleUpdateOpts step))
    | routeMutationEnablePolicy \<Rightarrow> discard (UpdatePolicy g (rm_id step) (adminStateOpts True))
    | routeMutationDeleteMonitor \<Rightarrow> DeleteMonitor g (rm_id step)
    | routeMutationDeletePool \<Rightarrow> DeletePool g (rm_id step))"

definition routeMutationResult :: "('w, 'p) gophercloud \<Rightarrow> routeMutation \<Rightarrow> unit result \<Rightarrow> unit result" where
  "routeMutationResult g step r = (case r of
      Inl e \<Rightarrow> if isNotFound g e \<and> isRouteDeletion (rm_kind step) then Inr () else Inl (mutationError e)
    | Inr u \<Rightarrow> Inr u)"

definition executeRouteMutation :: "('w, 'p) gophercloud \<Rightarrow> desiredRoute \<Rightarrow> routeMutation \<Rightarrow> ('w, unit) io" where
  "executeRouteMutation g desired step =
     bindIO (liftE (routeMutationTags desired step)) (\<lambda>tags.
     resultIO (routeMutationResult g step) (routeMutationCall g desired step tags))"

section \<open>EnsureRoute\<close>

text \<open>The zero value of an outcome stands for no repair, flagged by False.\<close>

definition repairRouteGatewayAdminState :: "('w, 'p) gophercloud \<Rightarrow> Provider \<Rightarrow> Identity \<Rightarrow> GatewayRequirements \<Rightarrow>
    routeGatewayObservation \<Rightarrow> ('w, Outcome \<times> bool) io" where
  "repairRouteGatewayAdminState g p i requirements gateway =
     (if rg_listenerAdminStateUp gateway \<and> rg_loadBalancerAdminStateUp gateway then returnIO (unsetOutcome, False)
      else
        bindIO (gatewayFloatingIPReadyForTraffic g p i (st_VIPPortID (rg_state gateway)) (gr_ExternalNetworkID requirements))
          (\<lambda>floatingIPReady.
        if \<not> floatingIPReady then
          returnIO (progressingOutcome p ''Waiting for Gateway Floating IP reconciliation before restoring traffic'', True)
        else if \<not> rg_listenerAdminStateUp gateway then
          bindIO (enableListener g (st_ListenerID (rg_state gateway))) (\<lambda>_.
          returnIO (progressingOutcome p ''Enabled Octavia listener after validating the HTTPRoute graph'', True))
        else
          bindIO (enableLoadBalancer g (st_LoadBalancerID (rg_state gateway))) (\<lambda>_.
          returnIO (progressingOutcome p ''Enabled Octavia load balancer after validating the HTTPRoute graph'', True))))"

text \<open>What EnsureRoute does once the Gateway of the route is known and ready.\<close>

definition ensureRouteGraph :: "('w, 'p) gophercloud \<Rightarrow> Provider \<Rightarrow> desiredRoute \<Rightarrow> routeGatewayObservation \<Rightarrow>
    ('w, RouteResult) io" where
  "ensureRouteGraph g p desired gateway =
     bindIO (observeRouteGraph g p (want_identity desired) (rg_state gateway)) (\<lambda>actual.
     bindIO (liftE (buildRouteEnsurePlan desired actual)) (\<lambda>(plan, state).
     case plan of
        [] \<Rightarrow>
          bindIO (repairRouteGatewayAdminState g p (want_identity desired)
              (rs_GatewayRequirements (want_spec desired)) gateway) (\<lambda>(outcome, repaired).
          returnIO (if repaired then \<lparr>rres_State = state, rres_Outcome = outcome\<rparr> else RouteReadyResult state))
      | step # _ \<Rightarrow>
          bindIO (executeRouteMutation g desired step) (\<lambda>_.
          returnIO \<lparr>rres_State = state, rres_Outcome = progressingOutcome p (message step)\<rparr>)))"

definition sameGatewayIDs :: "GatewayState \<Rightarrow> GatewayState \<Rightarrow> bool" where
  "sameGatewayIDs wanted state \<longleftrightarrow>
     \<not> (st_LoadBalancerID wanted \<noteq> [] \<and> st_LoadBalancerID wanted \<noteq> st_LoadBalancerID state \<or>
        st_ListenerID wanted \<noteq> [] \<and> st_ListenerID wanted \<noteq> st_ListenerID state)"

definition EnsureRoute :: "('w, 'p) gophercloud \<Rightarrow> Provider \<Rightarrow> RouteSpec \<Rightarrow> ('w, RouteResult) io" where
  "EnsureRoute g p spec = mapErrIO Classify (
     bindIO (liftE (buildDesiredRoute p spec)) (\<lambda>desired.
     bindIO (mapErrIO Wrapf (observeRouteGateway g p (want_identity desired)
         (Some (rs_GatewayRequirements (want_spec desired))) True)) (\<lambda>(gateway, found).
     if \<not> found then
       returnIO (RouteProgressingResult ''Controller-owned Octavia load balancer has not been created'' (pv_pollInterval p))
     else if o_State (rg_outcome gateway) = OutcomeProgressing then
       returnIO \<lparr>rres_State = emptyRouteState, rres_Outcome = rg_outcome gateway\<rparr>
     else if \<not> sameGatewayIDs (rs_Gateway (want_spec desired)) (rg_state gateway) then throwIO conflict
     else ensureRouteGraph g p (desired\<lparr>want_spec := (want_spec desired)\<lparr>rs_Gateway := rg_state gateway\<rparr>\<rparr>) gateway)))"

section \<open>DeleteRoute\<close>

text \<open>The desired route of a deletion: the fields that the code leaves out are zero.\<close>

definition deletedRoute :: "Identity \<Rightarrow> Identity \<Rightarrow> GatewayState \<Rightarrow> desiredRoute" where
  "deletedRoute i resourceIdentity gateway =
     \<lparr>want_identity = i,
      want_spec =
        \<lparr>rs_Identity = resourceIdentity, rs_Gateway = gateway,
         rs_GatewayRequirements = \<lparr>gr_Provider = [], gr_VIPSubnetID = [], gr_ExternalNetworkID = [], gr_ListenerPort = 0\<rparr>,
         rs_MemberSubnetID = [], rs_HealthPath = [], rs_Hostname = [], rs_PathType = [], rs_PathValue = [], rs_Members = []\<rparr>,
      want_members = [], want_healthPath = [], want_policies = []\<rparr>"

definition deleteRouteGraph :: "('w, 'p) gophercloud \<Rightarrow> Provider \<Rightarrow> Identity \<Rightarrow> Identity \<Rightarrow> GatewayState \<Rightarrow> ('w, Outcome) io" where
  "deleteRouteGraph g p i resourceIdentity gateway =
     bindIO (observeRouteGraph g p i gateway) (\<lambda>actual.
     bindIO (liftE (buildRouteDeletionPlan actual)) (\<lambda>plan.
     case plan of
        [] \<Rightarrow> returnIO ReadyOutcome
      | step # _ \<Rightarrow>
          bindIO (executeRouteMutation g (deletedRoute i resourceIdentity gateway) step) (\<lambda>_.
          returnIO (progressingOutcome p (message step)))))"

definition DeleteRoute :: "('w, 'p) gophercloud \<Rightarrow> Provider \<Rightarrow> Identity \<Rightarrow> ('w, Outcome) io" where
  "DeleteRoute g p resourceIdentity = mapErrIO Classify (
     bindIO (liftE (identity p resourceIdentity)) (\<lambda>i.
     bindIO (mapErrIO Wrapf (observeRouteGateway g p i None False)) (\<lambda>(gateway, found).
     if \<not> found then returnIO ReadyOutcome
     else if o_State (rg_outcome gateway) = OutcomeProgressing then returnIO (rg_outcome gateway)
     else deleteRouteGraph g p i resourceIdentity (rg_state gateway))))"

end
