(* ===== verification/RouteSafety.thy ===== *)
theory RouteSafety
  imports RouteOps
begin

text \<open>
  What EnsureRoute and DeleteRoute promise. The observation of the route graph is related to the answers
  it was built from (\<open>observedRoute\<close>), every answer describes resources of the route only
  (\<open>routeAudited\<close>), and the one mutation that may follow performs the first step of a plan for that
  observation (\<open>performs\<close>), so that the facts about plans of the theory RoutePlan hold for the requests
  that OpenStack receives.
\<close>

section \<open>Answers that describe resources of the route\<close>

definition routePool :: "Provider \<Rightarrow> Identity \<Rightarrow> string \<Rightarrow> Pool \<Rightarrow> bool" where
  "routePool p i loadBalancerID x \<longleftrightarrow> inProject p (po_ProjectID x) \<and> MatchesRoute i (po_Tags x) RolePool \<and>
     (\<forall>parent \<in> set (po_Loadbalancers x). parent = loadBalancerID)"

definition routeMember :: "Provider \<Rightarrow> Identity \<Rightarrow> string \<Rightarrow> PoolMember \<Rightarrow> bool" where
  "routeMember p i poolID x \<longleftrightarrow> inProject p (me_ProjectID x) \<and> MatchesRoute i (me_Tags x) RoleMember \<and>
     (me_PoolID x = [] \<or> me_PoolID x = poolID)"

definition routeMonitor :: "Provider \<Rightarrow> Identity \<Rightarrow> string \<Rightarrow> Monitor \<Rightarrow> bool" where
  "routeMonitor p i poolID x \<longleftrightarrow> inProject p (mo_ProjectID x) \<and> MatchesRoute i (mo_Tags x) RoleMonitor \<and>
     (\<forall>parent \<in> set (mo_Pools x). parent = poolID)"

definition routePolicy :: "Provider \<Rightarrow> Identity \<Rightarrow> string \<Rightarrow> L7Policy \<Rightarrow> bool" where
  "routePolicy p i listenerID x \<longleftrightarrow> inProject p (pl_ProjectID x) \<and>
     (MatchesRoute i (pl_Tags x) RolePolicyExact \<or> MatchesRoute i (pl_Tags x) RolePolicyPrefix) \<and>
     (pl_ListenerID x = [] \<or> pl_ListenerID x = listenerID)"

definition routeRule :: "Provider \<Rightarrow> Identity \<Rightarrow> L7Rule \<Rightarrow> bool" where
  "routeRule p i x \<longleftrightarrow> inProject p (ru_ProjectID x) \<and>
     (MatchesRoute i (ru_Tags x) RoleRulePath \<or> MatchesRoute i (ru_Tags x) RoleRuleHost)"

fun routeAnswer :: "Provider \<Rightarrow> Identity \<Rightarrow> event \<Rightarrow> bool" where
  "routeAnswer p i (EvListPools opts (Inr items)) \<longleftrightarrow> list_all (routePool p i (sl_ParentID opts)) items"
| "routeAnswer p i (EvListMembers poolID project (Inr items)) \<longleftrightarrow> list_all (routeMember p i poolID) items"
| "routeAnswer p i (EvListMonitors opts (Inr items)) \<longleftrightarrow> list_all (routeMonitor p i (sl_ParentID opts)) items"
| "routeAnswer p i (EvListPolicies opts (Inr items)) \<longleftrightarrow> list_all (routePolicy p i (pll_ListenerID opts)) items"
| "routeAnswer p i (EvListRules policyID project (Inr items)) \<longleftrightarrow> list_all (routeRule p i) items"
| "routeAnswer p i e \<longleftrightarrow> ownedAnswer p i e"

definition routeAudited :: "Provider \<Rightarrow> Identity \<Rightarrow> event list \<Rightarrow> bool" where
  "routeAudited p i es \<longleftrightarrow> (\<forall>e \<in> set es. routeAnswer p i e)"

lemma routeAudited_simps [simp]:
  "routeAudited p i []" "routeAudited p i (e # es) \<longleftrightarrow> routeAnswer p i e \<and> routeAudited p i es"
  "routeAudited p i (xs @ ys) \<longleftrightarrow> routeAudited p i xs \<and> routeAudited p i ys"
  by (auto simp: routeAudited_def)

section \<open>The graph and the answers it was built from\<close>

definition canonicalMember :: "PoolMember \<Rightarrow> PoolMember" where
  "canonicalMember member = (case ParseAddr (me_Address member) of
      None \<Rightarrow> member | Some address \<Rightarrow> member\<lparr>me_Address := AddrString address\<rparr>)"

definition observedPool :: "Provider \<Rightarrow> string \<Rightarrow> event list \<Rightarrow> observedRouteGraph \<Rightarrow> bool" where
  "observedPool p loadBalancerID es actual \<longleftrightarrow>
     EvListPools (scopedOpts p loadBalancerID) (Inr (asList (og_pool actual))) \<in> set es \<and>
     (case og_pool actual of
        None \<Rightarrow> og_members actual = [] \<and> og_monitor actual = None
      | Some pool \<Rightarrow>
          (\<exists>items. EvListMembers (po_ID pool) (pv_projectID p) (Inr items) \<in> set es \<and>
             og_members actual = map canonicalMember (sort_key routeMemberOrder items)) \<and>
          EvListMonitors (scopedOpts p (po_ID pool)) (Inr (asList (og_monitor actual))) \<in> set es)"

definition observedPolicy :: "Provider \<Rightarrow> Identity \<Rightarrow> event list \<Rightarrow> observedRoutePolicy \<Rightarrow> bool" where
  "observedPolicy p i es policy \<longleftrightarrow> MatchesRoute i (pl_Tags (op_policy policy)) (op_role policy) \<and>
     (\<exists>items. EvListRules (pl_ID (op_policy policy)) (pv_projectID p) (Inr items) \<in> set es \<and>
        map or_rule (op_rules policy) = sort_key ru_ID items) \<and>
     (\<forall>rule \<in> set (op_rules policy). MatchesRoute i (ru_Tags (or_rule rule)) (or_role rule))"

definition policyOrder :: "L7Policy \<Rightarrow> int \<times> string" where
  "policyOrder item = (pl_Position item, pl_ID item)"

definition observedPolicies :: "Provider \<Rightarrow> Identity \<Rightarrow> string \<Rightarrow> event list \<Rightarrow> observedRoutePolicy list \<Rightarrow> bool" where
  "observedPolicies p i listenerID es policies \<longleftrightarrow>
     (if listenerID = [] then policies = []
      else (\<exists>items. EvListPolicies (policyOpts p listenerID) (Inr items) \<in> set es \<and>
         map op_policy policies = sort_key policyOrder items) \<and>
       (\<forall>policy \<in> set policies. observedPolicy p i es policy))"

definition observedRoute :: "Provider \<Rightarrow> Identity \<Rightarrow> GatewayState \<Rightarrow> event list \<Rightarrow> observedRouteGraph \<Rightarrow> bool" where
  "observedRoute p i gateway es actual \<longleftrightarrow> observedPool p (st_LoadBalancerID gateway) es actual \<and>
     observedPolicies p i (st_ListenerID gateway) es (og_policies actual)"

text \<open>
  The code finds duplicates by looking for a recorded identifier that is not empty, so that it relies on
  Octavia naming every resource.
\<close>

definition namedGraph :: "observedRouteGraph \<Rightarrow> bool" where
  "namedGraph actual \<longleftrightarrow> (\<forall>member \<in> set (og_members actual). me_ID member \<noteq> []) \<and>
     (\<forall>policy \<in> set (og_policies actual). pl_ID (op_policy policy) \<noteq> [] \<and>
        (\<forall>rule \<in> set (op_rules policy). ru_ID (or_rule rule) \<noteq> []))"

subsection \<open>Loops that refuse a second element with the same key\<close>

definition tracked :: "('a \<Rightarrow> string) \<Rightarrow> ('a \<Rightarrow> string) \<Rightarrow> 'a list \<Rightarrow> (string \<times> string) list \<Rightarrow> bool" where
  "tracked name key ys table \<longleftrightarrow> ((\<forall>y \<in> set ys. name y \<noteq> []) \<longrightarrow>
     distinct (map key ys) \<and> (\<forall>y \<in> set ys. lookupID table (key y) \<noteq> []))"

lemma lookupID_simps [simp]:
  "lookupID [] key = []" "lookupID (AList.update k v table) key = (if key = k then v else lookupID table key)"
  by (simp_all add: lookupID_def update_conv)

lemma tracked_Nil [simp]: "tracked name key [] table"
  by (simp add: tracked_def)

lemma tracked_step:
  "tracked name key ys table \<Longrightarrow> lookupID table (key y) = [] \<Longrightarrow>
     tracked name key (ys @ [y]) (AList.update (key y) (name y) table)"
  by (auto simp: tracked_def)

lemma tracked_fold:
  assumes step: "\<And>x ys table r. f x (ys, table) = Inr r \<Longrightarrow> P x \<and> lookupID table (key (h x)) = [] \<and>
      r = (ys @ [h x], AList.update (key (h x)) (name (h x)) table)"
    and "foldE f xs (ys, table) = Inr (zs, table')" "tracked name key ys table"
  shows "(\<forall>x \<in> set xs. P x) \<and> zs = ys @ map h xs \<and> tracked name key zs table'"
  using assms(2,3)
proof (induction xs arbitrary: ys table)
  case (Cons x xs)
  then obtain r where "f x (ys, table) = Inr r" and rest: "foldE f xs r = Inr (zs, table')"
    by (auto simp: go_simps)
  then have x: "P x" "lookupID table (key (h x)) = []"
    "foldE f xs (ys @ [h x], AList.update (key (h x)) (name (h x)) table) = Inr (zs, table')"
    using step by blast+
  show ?case using Cons.IH [OF x(3) tracked_step [OF Cons.prems(2) x(2)]] x(1) by auto
qed simp

subsection \<open>The pool and its children\<close>

lemma acceptRoutePool_ok [go_simps]:
  "acceptRoutePool p i loadBalancerID pool kept = Inr found \<longleftrightarrow>
     (routePool p i loadBalancerID pool \<and> MatchesRouteDiscovery i (po_Tags pool) RolePool) \<and> kept = None \<and> found = Some pool"
  by (auto simp: acceptRoutePool_def routePool_def go_simps)

lemma acceptRouteMonitor_ok [go_simps]:
  "acceptRouteMonitor p i poolID monitor kept = Inr found \<longleftrightarrow>
     routeMonitor p i poolID monitor \<and> kept = None \<and> found = Some monitor"
  by (auto simp: acceptRouteMonitor_def routeMonitor_def go_simps)

lemma acceptRouteMember_ok:
  "acceptRouteMember p i poolID member (ys, table) = Inr r \<Longrightarrow>
     routeMember p i poolID member \<and> lookupID table (memberKeyOf (canonicalMember member)) = [] \<and>
     r = (ys @ [canonicalMember member],
       AList.update (memberKeyOf (canonicalMember member)) (me_ID (canonicalMember member)) table)"
  by (auto simp: acceptRouteMember_def routeMember_def canonicalMember_def memberKeyOf_def Let_def go_simps
    split: option.splits if_splits)

lemma acceptRouteMember_fold:
  assumes "foldE (acceptRouteMember p i poolID) items ([], []) = Inr (members, table)"
  shows "(\<forall>x \<in> set items. routeMember p i poolID x) \<and> members = map canonicalMember items \<and>
    tracked me_ID memberKeyOf members table"
  using tracked_fold [where f = "acceptRouteMember p i poolID" and P = "routeMember p i poolID" and h = canonicalMember
      and key = memberKeyOf and name = me_ID, OF acceptRouteMember_ok assms] by auto

lemma sort_key_asList [simp]: "sort_key k xs = asList found \<longleftrightarrow> xs = asList found"
  by (cases found) auto

lemma observeRoutePoolChildren_inspects:
  "inspects (observeRoutePoolChildren g p i poolID) (\<lambda>(members, monitor) es. routeAudited p i es \<and>
     (\<exists>items. EvListMembers poolID (pv_projectID p) (Inr items) \<in> set es \<and>
        members = map canonicalMember (sort_key routeMemberOrder items)) \<and>
     EvListMonitors (scopedOpts p poolID) (Inr (asList monitor)) \<in> set es \<and>
     (\<exists>table. tracked me_ID memberKeyOf members table))"
  unfolding observeRoutePoolChildren_def
  by (intro effects)
    (auto intro!: effects simp: list_all_iff
      dest!: acceptRouteMember_fold foldE_at_most_one [OF acceptRouteMonitor_ok])

subsection \<open>Policies and rules\<close>

lemma roleOf_ok: "roleOf i tags roles = Inr role \<Longrightarrow> role \<in> set roles \<and> MatchesRoute i tags role"
  by (induction roles) (auto split: if_splits)

lemma routeRoles_ok:
  "routePolicyRole i tags = Inr role \<Longrightarrow> MatchesRoute i tags role \<and> (role = RolePolicyExact \<or> role = RolePolicyPrefix)"
  "routeRuleRole i tags = Inr role \<Longrightarrow> MatchesRoute i tags role \<and> (role = RoleRulePath \<or> role = RoleRuleHost)"
  using roleOf_ok by (fastforce simp: routePolicyRole_def routeRuleRole_def simp del: roleOf.simps)+

definition observedRule :: "Identity \<Rightarrow> L7Rule \<Rightarrow> observedRouteRule" where
  "observedRule i rule = \<lparr>or_rule = rule, or_role = (case routeRuleRole i (ru_Tags rule) of Inl _ \<Rightarrow> [] | Inr role \<Rightarrow> role)\<rparr>"

lemma acceptRouteRule_ok:
  assumes "acceptRouteRule p i rule (ys, table) = Inr r"
  shows "(routeRule p i rule \<and> MatchesRoute i (ru_Tags rule) (or_role (observedRule i rule))) \<and>
    lookupID table (or_role (observedRule i rule)) = [] \<and>
    r = (ys @ [observedRule i rule], AList.update (or_role (observedRule i rule)) (ru_ID (or_rule (observedRule i rule))) table)"
  using assms routeRoles_ok(2)
  by (auto simp: acceptRouteRule_def routeRule_def observedRule_def go_simps split: if_splits)

lemma acceptRouteRule_fold:
  assumes "foldE (acceptRouteRule p i) items ([], []) = Inr (rules, table)"
  shows "list_all (routeRule p i) items \<and> map or_rule rules = items \<and>
    (\<forall>rule \<in> set rules. MatchesRoute i (ru_Tags (or_rule rule)) (or_role rule)) \<and>
    tracked (\<lambda>rule. ru_ID (or_rule rule)) or_role rules table"
proof -
  have rule: "or_rule (observedRule i rule) = rule" for rule by (simp add: observedRule_def)
  have "(\<forall>x \<in> set items. routeRule p i x \<and> MatchesRoute i (ru_Tags x) (or_role (observedRule i x))) \<and>
      rules = [] @ map (observedRule i) items \<and> tracked (\<lambda>rule. ru_ID (or_rule rule)) or_role rules table"
    by (rule tracked_fold [where f = "acceptRouteRule p i" and h = "observedRule i", OF _ assms])
      (auto dest: acceptRouteRule_ok)
  then show ?thesis by (auto simp: list_all_iff rule comp_def)
qed

text \<open>The invariant of the loop over the policies, after the policies \<open>seen\<close>.\<close>

definition policiesSeen :: "Provider \<Rightarrow> Identity \<Rightarrow> string \<Rightarrow> L7Policy list \<Rightarrow>
    observedRoutePolicy list \<times> (string \<times> string) list \<Rightarrow> event list \<Rightarrow> bool" where
  "policiesSeen p i listenerID seen acc es \<longleftrightarrow> routeAudited p i es \<and>
     list_all (routePolicy p i listenerID) seen \<and> map op_policy (fst acc) = seen \<and>
     (\<forall>policy \<in> set (fst acc). observedPolicy p i es policy \<and>
        (\<exists>table. tracked (\<lambda>rule. ru_ID (or_rule rule)) or_role (op_rules policy) table)) \<and>
     tracked (\<lambda>policy. pl_ID (op_policy policy)) op_role (fst acc) (snd acc)"

lemma observedPolicy_mono: "observedPolicy p i es policy \<Longrightarrow> set es \<subseteq> set es' \<Longrightarrow> observedPolicy p i es' policy"
  by (auto simp: observedPolicy_def)

lemma policiesSeen_after:
  "policiesSeen p i listenerID seen acc es \<Longrightarrow> routeAnswer p i e \<Longrightarrow> policiesSeen p i listenerID seen acc (e # es)"
  by (auto simp: policiesSeen_def intro: observedPolicy_mono)

lemma observeRoutePolicy_inspects:
  assumes "policiesSeen p i listenerID seen acc es"
  shows "inspects (observeRoutePolicy g p i listenerID item acc)
    (\<lambda>acc' es'. policiesSeen p i listenerID (seen @ [item]) acc' (es @ es'))"
  unfolding observeRoutePolicy_def
proof (intro effects)
  fix role ruleItems and rules :: "observedRouteRule list \<times> (string \<times> string) list"
  let ?ev = "EvListRules (pl_ID item) (pv_projectID p) (Inr ruleItems)"
    and ?policy = "\<lparr>op_policy = item, op_role = role, op_rules = fst rules\<rparr>"
  assume "bindE (validateOptionalProject p (pl_ProjectID item)) (\<lambda>_.
       bindE (mapErr Wrapf (routePolicyRole i (pl_Tags item))) (\<lambda>role.
       bindE (guardE (lookupID (snd acc) role = []) conflict) (\<lambda>_.
       bindE (guardE (\<not> (pl_ListenerID item \<noteq> [] \<and> pl_ListenerID item \<noteq> listenerID)) conflict) (\<lambda>_. Inr role)))) = Inr role"
    and rules: "foldE (acceptRouteRule p i) (sort_key ru_ID ruleItems) ([], []) = Inr rules"
  then have item: "routePolicy p i listenerID item" "MatchesRoute i (pl_Tags item) role" "lookupID (snd acc) role = []"
    using routeRoles_ok(1) by (auto simp: routePolicy_def go_simps)
  obtain observedRules table where fold: "rules = (observedRules, table)" by fastforce
  note rules = acceptRouteRule_fold [OF rules [unfolded fold]]
  have "observedPolicy p i (es @ [?ev]) ?policy"
    using item(2) rules fold by (auto simp: observedPolicy_def)
  moreover have "tracked (\<lambda>policy. pl_ID (op_policy policy)) op_role (fst acc @ [?policy]) (AList.update role (pl_ID item) (snd acc))"
    using tracked_step [of "\<lambda>policy. pl_ID (op_policy policy)" op_role "fst acc" "snd acc" ?policy] assms item(3)
    by (simp add: policiesSeen_def)
  moreover have "routeAnswer p i ?ev" using rules by (simp add: list_all_iff)
  ultimately have "policiesSeen p i listenerID (seen @ [item])
      (fst acc @ [?policy], AList.update role (pl_ID item) (snd acc)) (es @ [?ev])"
    using assms item(1) rules fold unfolding policiesSeen_def
    by (auto intro: observedPolicy_mono simp del: routeAnswer.simps)
  then show "inspects (case rules of (observedRules, _) \<Rightarrow>
      returnIO (fst acc @ [\<lparr>op_policy = item, op_role = role, op_rules = observedRules\<rparr>], AList.update role (pl_ID item) (snd acc)))
     (\<lambda>acc' es'. policiesSeen p i listenerID (seen @ [item]) acc' (es @ ?ev # es'))"
    by (auto simp: fold intro!: effects)
qed

lemma observeRoutePolicies_inspects:
  "inspects (observeRoutePolicies g p i listenerID) (\<lambda>policies es. routeAudited p i es \<and>
     (\<exists>items. EvListPolicies (policyOpts p listenerID) (Inr items) \<in> set es \<and>
        map op_policy policies = sort_key policyOrder items) \<and>
     (\<exists>table. policiesSeen p i listenerID (map op_policy policies) (policies, table) es))"
  unfolding observeRoutePolicies_def policyOrder_def [symmetric]
proof (intro effects)
  fix items
  let ?ev = "EvListPolicies (policyOpts p listenerID) (Inr items)"
  have "inspects (foldIO (observeRoutePolicy g p i listenerID) (sort_key policyOrder items) ([], []))
     (policiesSeen p i listenerID (sort_key policyOrder items))"
    by (rule inspects_foldIO) (simp add: policiesSeen_def, rule observeRoutePolicy_inspects)
  then show "inspects (bindIO (foldIO (observeRoutePolicy g p i listenerID) (sort_key policyOrder items) ([], []))
      (\<lambda>(policies, _). returnIO policies))
     (\<lambda>policies es. routeAudited p i (?ev # es) \<and>
       (\<exists>items'. EvListPolicies (policyOpts p listenerID) (Inr items') \<in> set (?ev # es) \<and>
          map op_policy policies = sort_key policyOrder items') \<and>
       (\<exists>table. policiesSeen p i listenerID (map op_policy policies) (policies, table) (?ev # es)))"
  proof (rule inspects_bind)
    fix acc es
    assume seen: "policiesSeen p i listenerID (sort_key policyOrder items) acc es"
    then have acc: "map op_policy (fst acc) = sort_key policyOrder items" "routeAnswer p i ?ev" "routeAudited p i es"
      by (auto simp: policiesSeen_def list_all_iff)
    then have "policiesSeen p i listenerID (map op_policy (fst acc)) (fst acc, snd acc) (?ev # es)"
      using policiesSeen_after [OF seen] by simp
    with acc show "inspects (case acc of (policies, _) \<Rightarrow> returnIO policies) (\<lambda>policies es'. routeAudited p i (?ev # es @ es') \<and>
       (\<exists>items'. EvListPolicies (policyOpts p listenerID) (Inr items') \<in> set (?ev # es @ es') \<and>
          map op_policy policies = sort_key policyOrder items') \<and>
       (\<exists>table. policiesSeen p i listenerID (map op_policy policies) (policies, table) (?ev # es @ es')))"
      by (auto simp: case_prod_beta intro!: effects exI [of _ "snd acc"])
  qed
qed

subsection \<open>The whole graph\<close>

definition observation :: "Provider \<Rightarrow> Identity \<Rightarrow> GatewayState \<Rightarrow> event list \<Rightarrow> observedRouteGraph \<Rightarrow> bool" where
  "observation p i gateway es actual \<longleftrightarrow> observedRoute p i gateway es actual \<and> childrenNeedPool actual \<and>
     (namedGraph actual \<longrightarrow> wellFormedGraph actual)"

lemma observation_mono:
  "observation p i gateway es actual \<Longrightarrow> set es \<subseteq> set es' \<Longrightarrow> observation p i gateway es' actual"
  by (fastforce simp: observation_def observedRoute_def observedPool_def observedPolicies_def
    intro: observedPolicy_mono split: option.splits if_splits)

lemma tracked_distinct: "tracked name key ys table \<Longrightarrow> \<forall>y \<in> set ys. name y \<noteq> [] \<Longrightarrow> distinct (map key ys)"
  by (simp add: tracked_def)

lemma wellFormed_of_tracked:
  assumes "tracked me_ID memberKeyOf (og_members actual) table" "policiesSeen p i listenerID seen (og_policies actual, table') es"
  shows "namedGraph actual \<longrightarrow> wellFormedGraph actual"
  using assms tracked_distinct unfolding namedGraph_def wellFormedGraph_def policiesSeen_def
  by (metis fst_conv)

lemma childrenOf_inspects:
  "inspects (case pool of None \<Rightarrow> returnIO ([], None) | Some found \<Rightarrow> observeRoutePoolChildren g p i (po_ID found))
    (\<lambda>(members, monitor) es. routeAudited p i es \<and> (\<exists>table. tracked me_ID memberKeyOf members table) \<and>
      (case pool of None \<Rightarrow> members = [] \<and> monitor = None
       | Some found \<Rightarrow>
          (\<exists>items. EvListMembers (po_ID found) (pv_projectID p) (Inr items) \<in> set es \<and>
             members = map canonicalMember (sort_key routeMemberOrder items)) \<and>
          EvListMonitors (scopedOpts p (po_ID found)) (Inr (asList monitor)) \<in> set es))"
proof (cases pool)
  case None
  then show ?thesis by (auto intro!: effects)
next
  case (Some found)
  then show ?thesis
    by (auto intro!: inspects_weaken [OF observeRoutePoolChildren_inspects])
qed

lemma policiesOf_inspects:
  "inspects (if listenerID \<noteq> [] then observeRoutePolicies g p i listenerID else returnIO [])
    (\<lambda>policies es. routeAudited p i es \<and> observedPolicies p i listenerID es policies \<and>
      (\<exists>seen table. policiesSeen p i listenerID seen (policies, table) es))"
proof (cases "listenerID = []")
  case True
  then show ?thesis
    by (auto intro!: effects exI [of _ "[]"] simp: observedPolicies_def policiesSeen_def)
next
  case False
  then show ?thesis
    by (simp, intro inspects_weaken [OF observeRoutePolicies_inspects])
      (fastforce simp: observedPolicies_def policiesSeen_def)
qed

lemma observationI:
  assumes "poolItems = asList pool" "\<exists>table. tracked me_ID memberKeyOf members table"
    "case pool of None \<Rightarrow> members = [] \<and> monitor = None
       | Some found \<Rightarrow>
          (\<exists>items. EvListMembers (po_ID found) (pv_projectID p) (Inr items) \<in> set es \<and>
             members = map canonicalMember (sort_key routeMemberOrder items)) \<and>
          EvListMonitors (scopedOpts p (po_ID found)) (Inr (asList monitor)) \<in> set es"
    "observedPolicies p i (st_ListenerID gateway) es' policies"
    "\<exists>seen table. policiesSeen p i (st_ListenerID gateway) seen (policies, table) es'"
  shows "observation p i gateway (EvListPools (scopedOpts p (st_LoadBalancerID gateway)) (Inr poolItems) # es @ es')
    \<lparr>og_pool = pool, og_members = members, og_monitor = monitor, og_policies = policies\<rparr>" (is "observation p i gateway ?es ?graph")
proof -
  have "observedPool p (st_LoadBalancerID gateway) ?es ?graph" "childrenNeedPool ?graph"
    using assms(1,3) by (auto simp: observedPool_def childrenNeedPool_def split: option.splits)
  moreover have "observedPolicies p i (st_ListenerID gateway) ?es policies"
    using assms(4) by (auto simp: observedPolicies_def intro: observedPolicy_mono split: if_splits)
  moreover have "namedGraph ?graph \<longrightarrow> wellFormedGraph ?graph"
    using assms(2,5) wellFormed_of_tracked [where actual = ?graph] by fastforce
  ultimately show ?thesis by (simp add: observation_def observedRoute_def)
qed

lemma observeRouteGraph_inspects:
  "inspects (observeRouteGraph g p i gateway) (\<lambda>actual es. routeAudited p i es \<and> observation p i gateway es actual)"
  unfolding observeRouteGraph_def
proof (intro effects inspects_bind [OF childrenOf_inspects], unfold case_prod_beta,
    intro inspects_bind [OF policiesOf_inspects] inspects_return, goal_cases)
  case (1 poolItems pool children es policies es')
  then have "poolItems = asList pool" "list_all (routePool p i (st_LoadBalancerID gateway)) poolItems"
    using foldE_at_most_one [OF acceptRoutePool_ok 1(1)] by (auto simp: list_all_iff)
  then show ?case using 1 by (auto intro!: observationI)
qed

section \<open>The Gateway of a route\<close>

definition servesRequirements :: "LoadBalancer \<Rightarrow> Listener option \<Rightarrow> GatewayRequirements option \<Rightarrow> bool" where
  "servesRequirements lb found requirements = (case requirements of
      None \<Rightarrow> True
    | Some req \<Rightarrow> lb_Provider lb = gr_Provider req \<and> lb_VipSubnetID lb = gr_VIPSubnetID req \<and>
        (case found of None \<Rightarrow> False | Some listener \<Rightarrow> li_ProtocolPort listener = gr_ListenerPort req))"

text \<open>The observation of a Gateway that is ready for routes, and the answers that show it.\<close>

definition routeGateway :: "Provider \<Rightarrow> GatewayRequirements option \<Rightarrow> event list \<Rightarrow> routeGatewayObservation \<Rightarrow> bool" where
  "routeGateway p requirements es gateway \<longleftrightarrow>
     (\<exists>x lb found. EvGetLoadBalancer x (Inr lb) \<in> set es \<and> lb_ProvisioningStatus lb = ''ACTIVE'' \<and>
        EvListListeners (scopedOpts p (lb_ID lb)) (Inr (asList found)) \<in> set es \<and>
        servesRequirements lb found requirements \<and>
        st_LoadBalancerID (rg_state gateway) = lb_ID lb \<and> st_VIPPortID (rg_state gateway) = lb_VipPortID lb \<and>
        (case found of
           None \<Rightarrow> st_ListenerID (rg_state gateway) = []
         | Some listener \<Rightarrow> li_Protocol listener = ''HTTP'' \<and> st_ListenerID (rg_state gateway) = li_ID listener \<and>
             rg_loadBalancerAdminStateUp gateway = lb_AdminStateUp lb \<and>
             rg_listenerAdminStateUp gateway = li_AdminStateUp listener))"

lemma routeGateway_mono: "routeGateway p req es gateway \<Longrightarrow> set es \<subseteq> set es' \<Longrightarrow> routeGateway p req es' gateway"
  unfolding routeGateway_def by blast

lemma routeGatewayI:
  assumes "lb_ProvisioningStatus lb = ''ACTIVE''" "servesRequirements lb (Some listener) req" "li_Protocol listener = ''HTTP''"
  shows "routeGateway p req (before @ EvGetLoadBalancer x (Inr lb) # EvListListeners (scopedOpts p (lb_ID lb)) (Inr [listener]) # es)
    \<lparr>rg_state = emptyGatewayState\<lparr>st_LoadBalancerID := lb_ID lb, st_VIPPortID := lb_VipPortID lb,
        st_VIPAddress := lb_VipAddress lb, st_ListenerID := li_ID listener\<rparr>, rg_outcome = ReadyOutcome,
      rg_loadBalancerAdminStateUp = lb_AdminStateUp lb, rg_listenerAdminStateUp = li_AdminStateUp listener\<rparr>"
  unfolding routeGateway_def
  by (rule exI [of _ x], rule exI [of _ lb], rule exI [of _ "Some listener"]) (use assms in simp)

lemma routeGateway_without_listener:
  assumes "lb_ProvisioningStatus lb = ''ACTIVE''"
  shows "routeGateway p None (before @ EvGetLoadBalancer x (Inr lb) # EvListListeners (scopedOpts p (lb_ID lb)) (Inr []) # es)
    (emptyRouteGateway\<lparr>rg_state := emptyGatewayState\<lparr>st_LoadBalancerID := lb_ID lb, st_VIPPortID := lb_VipPortID lb,
        st_VIPAddress := lb_VipAddress lb\<rparr>, rg_outcome := ReadyOutcome\<rparr>)"
  unfolding routeGateway_def
  by (rule exI [of _ x], rule exI [of _ lb], rule exI [of _ None])
    (use assms in \<open>simp add: servesRequirements_def emptyGatewayState_def\<close>)

definition gatewayObserved :: "('w, 'p) gophercloud \<Rightarrow> Provider \<Rightarrow> Identity \<Rightarrow> GatewayRequirements option \<Rightarrow> event list \<Rightarrow>
    routeGatewayObservation \<times> bool \<Rightarrow> bool" where
  "gatewayObserved g p i requirements es y \<longleftrightarrow>
     (if snd y then o_State (rg_outcome (fst y)) = OutcomeProgressing \<or>
        rg_outcome (fst y) = ReadyOutcome \<and> routeAudited p i es \<and> routeGateway p requirements es (fst y)
      else gatewayGone g es)"

lemma observeActiveRouteGateway_inspects:
  assumes "lb_ProvisioningStatus lb = ''ACTIVE''" "ownedLoadBalancer p i managed"
    "requireListener \<or> requirements = None"
  shows "inspects (observeActiveRouteGateway g p i requirements requireListener lb)
    (\<lambda>y es. gatewayObserved g p i requirements
       (EvListLoadBalancers opts (Inr [managed]) # EvGetLoadBalancer x (Inr lb) # es) y)"
  unfolding observeActiveRouteGateway_def Let_def using assms
  by (intro effects)
    (auto intro!: effects routeGatewayI [where before = "[ev]" for ev, simplified]
        routeGateway_without_listener [where before = "[ev]" for ev, simplified]
      simp: go_simps gatewayObserved_def ownedLoadBalancer_def servesRequirements_def split: option.splits)

lemma gatewayObserved_simps [simp]:
  "gatewayObserved g p i requirements es (gateway, False) \<longleftrightarrow> gatewayGone g es"
  "o_State (rg_outcome gateway) = OutcomeProgressing \<Longrightarrow> gatewayObserved g p i requirements es (gateway, True)"
  by (simp_all add: gatewayObserved_def)

lemma observeRouteGateway_inspects:
  assumes "requireListener \<or> requirements = None"
  shows "inspects (observeRouteGateway g p i requirements requireListener)
    (\<lambda>y es. gatewayObserved g p i requirements es y)"
  unfolding observeRouteGateway_def
proof (intro effects, goal_cases)
  case (1 found es)
  show ?case
  proof (cases found)
    case None
    then show ?thesis using 1 by (auto intro!: effects)
  next
    case (Some managed)
    with 1 obtain opts where es: "es = [EvListLoadBalancers opts (Inr [managed])]" "lb_ProjectID managed = pv_projectID p"
      by auto
    show ?thesis unfolding Some option.case
    proof (intro effects, goal_cases)
      case (1 u observation es')
      then obtain r where r: "observeStatus g p r = Inr observation" "es' = [EvGetLoadBalancer (lb_ID managed) r]" by auto
      have "ownedLoadBalancer p i managed" using 1 es by (simp add: ownedLoadBalancer_def go_simps)
      then show ?case
        using observeStatus_cases [OF r(1)] assms unfolding es(1) r(2)
        by (cases "ob_phase observation") (auto intro!: effects observeActiveRouteGateway_inspects simp: go_simps)
    qed
  qed
qed

section \<open>The request that performs a step\<close>

fun performs :: "desiredRoute \<Rightarrow> routeMutation \<Rightarrow> event \<Rightarrow> bool" where
  "performs desired m (EvCreatePool opts _) \<longleftrightarrow> rm_kind m = routeMutationCreatePool \<and>
     MatchesRoute (want_identity desired) (poc_Tags opts) RolePool \<and>
     poc_LoadbalancerID opts = st_LoadBalancerID (rs_Gateway (want_spec desired)) \<and>
     poc_Protocol opts = ProtocolHTTP \<and> poc_LBMethod opts = LBMethodRoundRobin \<and> poc_AdminStateUp opts = Some True"
| "performs desired m (EvUpdatePool i opts _) \<longleftrightarrow> rm_kind m = routeMutationUpdatePool \<and> i = rm_id m \<and>
     pou_LBMethod opts = LBMethodRoundRobin \<and> pou_AdminStateUp opts = Some True"
| "performs desired m (EvDeletePool i _) \<longleftrightarrow> rm_kind m = routeMutationDeletePool \<and> i = rm_id m"
| "performs desired m (EvCreateMember poolID opts _) \<longleftrightarrow> rm_kind m = routeMutationCreateMember \<and> poolID = rm_parentID m \<and>
     MatchesRoute (want_identity desired) (mec_Tags opts) RoleMember \<and>
     mec_Address opts = m_Address (rm_member m) \<and> mec_ProtocolPort opts = m_Port (rm_member m) \<and>
     mec_SubnetID opts = rs_MemberSubnetID (want_spec desired) \<and> mec_AdminStateUp opts = Some True"
| "performs desired m (EvUpdateMember poolID i up _) \<longleftrightarrow> rm_kind m = routeMutationUpdateMember \<and>
     poolID = rm_parentID m \<and> i = rm_id m \<and> up = Some True"
| "performs desired m (EvDeleteMember poolID i _) \<longleftrightarrow> rm_kind m = routeMutationDeleteMember \<and>
     poolID = rm_parentID m \<and> i = rm_id m"
| "performs desired m (EvCreateMonitor opts _) \<longleftrightarrow> rm_kind m = routeMutationCreateMonitor \<and>
     moc_PoolID opts = rm_parentID m \<and> MatchesRoute (want_identity desired) (moc_Tags opts) RoleMonitor \<and>
     moc_Type opts = MonitorTypeHTTP \<and> moc_URLPath opts = want_healthPath desired \<and> moc_AdminStateUp opts = Some True"
| "performs desired m (EvUpdateMonitor i opts _) \<longleftrightarrow> rm_kind m = routeMutationUpdateMonitor \<and> i = rm_id m \<and>
     mou_URLPath opts = want_healthPath desired \<and> mou_AdminStateUp opts = Some True"
| "performs desired m (EvDeleteMonitor i _) \<longleftrightarrow> rm_kind m = routeMutationDeleteMonitor \<and> i = rm_id m"
| "performs desired m (EvCreatePolicy opts _) \<longleftrightarrow> rm_kind m = routeMutationCreatePolicy \<and>
     plc_ListenerID opts = st_ListenerID (rs_Gateway (want_spec desired)) \<and> plc_RedirectPoolID opts = rm_parentID m \<and>
     MatchesRoute (want_identity desired) (plc_Tags opts) (dp_role (rm_policy m)) \<and>
     plc_Position opts = dp_position (rm_policy m) \<and> plc_AdminStateUp opts = Some False"
| "performs desired m (EvUpdatePolicy i opts _) \<longleftrightarrow> i = rm_id m \<and>
     (if rm_kind m = routeMutationUpdatePolicy
      then opts = policyUpdateOpts m
      else rm_kind m = routeMutationDisablePolicy \<and> opts = adminStateOpts False \<or>
        rm_kind m = routeMutationEnablePolicy \<and> opts = adminStateOpts True)"
| "performs desired m (EvDeletePolicy i _) \<longleftrightarrow> rm_kind m = routeMutationDeletePolicy \<and> i = rm_id m"
| "performs desired m (EvCreateRule policyID opts _) \<longleftrightarrow> rm_kind m = routeMutationCreateRule \<and> policyID = rm_parentID m \<and>
     MatchesRoute (want_identity desired) (ruc_Tags opts) (dr_role (rm_rule m)) \<and>
     ruc_RuleType opts = dr_ruleType (rm_rule m) \<and> ruc_CompareType opts = dr_compareType (rm_rule m) \<and>
     ruc_Value opts = dr_value (rm_rule m) \<and> ruc_AdminStateUp opts = Some True"
| "performs desired m (EvUpdateRule policyID i opts _) \<longleftrightarrow> rm_kind m = routeMutationUpdateRule \<and>
     policyID = rm_parentID m \<and> i = rm_id m \<and> opts = ruleUpdateOpts m"
| "performs desired m (EvDeleteRule policyID i _) \<longleftrightarrow> rm_kind m = routeMutationDeleteRule \<and>
     policyID = rm_parentID m \<and> i = rm_id m"
| "performs desired m _ \<longleftrightarrow> False"

lemmas opts_defs = poolCreateOpts_def memberCreateOpts_def monitorCreateOpts_def monitorUpdateOpts_def
  policyCreateOpts_def ruleCreateOpts_def

lemma mutates_discard [effects]: "mutates m (\<lambda>r. J (bindE r (\<lambda>_. Inr ()))) \<Longrightarrow> mutates (discard m) J"
  unfolding discard_def by (rule mutates_report)

lemma routeMutationCall_mutates:
  assumes "routeMutationTags desired step = Inr tags"
  shows "mutates (routeMutationCall g desired step tags) (\<lambda>r. performs desired step)"
  using assms route_scheme.recognises_own
  by (cases "rm_kind step")
    (auto simp: routeMutationCall_def routeMutationTags_def opts_defs intro!: effects)

lemma executeRouteMutation_issues:
  "issues (executeRouteMutation g desired step) (\<lambda>_ _. False) (\<lambda>r ro e. ro = [] \<and> performs desired step e)"
  unfolding executeRouteMutation_def
  by (intro effects issues_mutates) (auto intro: mutates_weaken [OF routeMutationCall_mutates])

section \<open>EnsureRoute and DeleteRoute\<close>

definition floatingIPReady :: "event list \<Rightarrow> string \<Rightarrow> string \<Rightarrow> bool" where
  "floatingIPReady es vipPortID networkID \<longleftrightarrow> (\<exists>items. EvListFloatingIPs (portOpts vipPortID) (Inr items) \<in> set es \<and>
     (if networkID = [] then items = [] else \<exists>item. items = [item] \<and> fi_FloatingNetworkID item = networkID))"

fun enablesGateway :: "routeGatewayObservation \<Rightarrow> event \<Rightarrow> bool" where
  "enablesGateway gateway (EvUpdateListener i up _) \<longleftrightarrow> up = Some True \<and>
     i = st_ListenerID (rg_state gateway) \<and> \<not> rg_listenerAdminStateUp gateway"
| "enablesGateway gateway (EvUpdateLoadBalancer i up _) \<longleftrightarrow> up = Some True \<and>
     i = st_LoadBalancerID (rg_state gateway) \<and> rg_listenerAdminStateUp gateway \<and> \<not> rg_loadBalancerAdminStateUp gateway"
| "enablesGateway gateway _ \<longleftrightarrow> False"

text \<open>
  What EnsureRoute may request: the first step of a plan, safe for traffic and for the observed graph;
  or, once the graph has converged and the Floating IP is as configured, enabling the listener and then
  the load balancer.
\<close>

definition routeChange :: "desiredRoute \<Rightarrow> routeGatewayObservation \<Rightarrow> observedRouteGraph \<Rightarrow> event list \<Rightarrow> event \<Rightarrow> bool" where
  "routeChange desired gateway actual es e \<longleftrightarrow>
     (\<exists>m. performs desired m e \<and> (namedGraph actual \<longrightarrow> trafficSafe desired actual m \<and> targetsGraph actual m)) \<or>
     enablesGateway gateway e \<and> (namedGraph actual \<longrightarrow> convergedRoute desired actual) \<and>
       floatingIPReady es (st_VIPPortID (rg_state gateway)) (gr_ExternalNetworkID (rs_GatewayRequirements (want_spec desired)))"

definition routeReady :: "desiredRoute \<Rightarrow> routeGatewayObservation \<Rightarrow> observedRouteGraph \<Rightarrow> RouteResult \<Rightarrow> bool" where
  "routeReady desired gateway actual res \<longleftrightarrow>
     rg_listenerAdminStateUp gateway \<and> rg_loadBalancerAdminStateUp gateway \<and>
     (namedGraph actual \<longrightarrow> convergedRoute desired actual) \<and>
     res = RouteReadyResult (rres_State res) \<and> buildRouteEnsurePlan desired actual = Inr ([], rres_State res)"

definition routeBasis :: "Provider \<Rightarrow> RouteSpec \<Rightarrow> event list \<Rightarrow> desiredRoute \<Rightarrow> routeGatewayObservation \<Rightarrow> observedRouteGraph \<Rightarrow> bool" where
  "routeBasis p spec es desired gateway actual \<longleftrightarrow> routeAudited p (rs_Identity spec) es \<and>
     (\<exists>d. buildDesiredRoute p spec = Inr d \<and> desired = d\<lparr>want_spec := (want_spec d)\<lparr>rs_Gateway := rg_state gateway\<rparr>\<rparr>) \<and>
     routeGateway p (Some (rs_GatewayRequirements spec)) es gateway \<and>
     observation p (rs_Identity spec) (rg_state gateway) es actual"

lemma gatewayFloatingIPReadyForTraffic_inspects:
  "inspects (gatewayFloatingIPReadyForTraffic g p i vipPortID networkID)
     (\<lambda>ready es. routeAudited p i es \<and> (ready \<longrightarrow> floatingIPReady es vipPortID networkID))"
  unfolding gatewayFloatingIPReadyForTraffic_def
  by (intro effects) (auto simp: floatingIPReady_def split: if_splits list.splits)

lemma repairRouteGatewayAdminState_issues:
  "issues (repairRouteGatewayAdminState g p i requirements gateway)
     (\<lambda>y es. if snd y then o_State (fst y) = OutcomeProgressing
        else es = [] \<and> rg_listenerAdminStateUp gateway \<and> rg_loadBalancerAdminStateUp gateway)
     (\<lambda>r ro e. routeAudited p i ro \<and> enablesGateway gateway e \<and>
        floatingIPReady ro (st_VIPPortID (rg_state gateway)) (gr_ExternalNetworkID requirements) \<and>
        (\<forall>y. r = Inr y \<longrightarrow> snd y \<and> o_State (fst y) = OutcomeProgressing))"
  unfolding repairRouteGatewayAdminState_def enableListener_def enableLoadBalancer_def bindIO_laws
  by (auto intro!: effects issues_bind [OF gatewayFloatingIPReadyForTraffic_inspects]
    issues_mutates [of "bindIO (mapErrIO h m) f" for h m f] simp: bindIO_laws go_simps)

lemma ensurePlan_head_named:
  "buildRouteEnsurePlan desired actual = Inr (m # rest, state) \<Longrightarrow> observation p i gateway es actual \<Longrightarrow>
     namedGraph actual \<longrightarrow> trafficSafe desired actual m \<and> targetsGraph actual m"
  using ensurePlan_head by (auto simp: observation_def)

lemma ensurePlan_empty_named:
  "buildRouteEnsurePlan desired actual = Inr ([], state) \<Longrightarrow> observation p i gateway es actual \<Longrightarrow>
     namedGraph actual \<longrightarrow> convergedRoute desired actual"
  by (auto simp: observation_def elim: ensurePlan_cases)

lemma executeRouteMutation_then:
  assumes "\<And>e. performs desired step e \<Longrightarrow> J (Inr y) e" "\<And>err e. performs desired step e \<Longrightarrow> J (Inl err) e"
  shows "issues (bindIO (executeRouteMutation g desired step) (\<lambda>_. returnIO y)) K (\<lambda>r ro e. ro = [] \<and> J r e)"
  by (rule issues_bind_issues [OF executeRouteMutation_issues]) (use assms in \<open>auto simp: liftE_intros\<close>)

lemma ensureRouteGraph_issues:
  "issues (ensureRouteGraph g p desired gateway)
    (\<lambda>res es. o_State (rres_Outcome res) = OutcomeProgressing \<or>
       (\<exists>actual. routeAudited p (want_identity desired) es \<and> observation p (want_identity desired) (rg_state gateway) es actual \<and>
          routeReady desired gateway actual res))
    (\<lambda>r ro e. routeAudited p (want_identity desired) ro \<and> reportsProgress rres_Outcome r \<and>
       (\<exists>actual. observation p (want_identity desired) (rg_state gateway) ro actual \<and> routeChange desired gateway actual ro e))"
  unfolding ensureRouteGraph_def
proof (rule issues_bind [OF observeRouteGraph_inspects], rule issues_bind_lift, unfold case_prod_beta, goal_cases)
  case (1 actual es y)
  obtain plan state where y: "y = (plan, state)" by fastforce
  note plan = 1(3) [unfolded y] and seen = conjunct2 [OF 1(1)]
  show ?case
  proof (cases plan)
    case Nil
    let ?req = "rs_GatewayRequirements (want_spec desired)"
    have conv: "namedGraph actual \<longrightarrow> convergedRoute desired actual"
      using ensurePlan_empty_named [OF plan [unfolded Nil] seen] .
    have change: "routeChange desired gateway actual (es @ ro) e"
      if "enablesGateway gateway e" "floatingIPReady ro (st_VIPPortID (rg_state gateway)) (gr_ExternalNetworkID ?req)" for ro e
      using that conv unfolding routeChange_def floatingIPReady_def by auto
    show ?thesis unfolding y Nil fst_conv snd_conv list.case
      by (rule issues_bind_issues [OF repairRouteGatewayAdminState_issues])
        (use 1(1) conv plan Nil change in \<open>auto intro!: effects exI [of _ actual] exI [of _ "Inr x" for x]
          observation_mono [OF seen] simp: routeReady_def RouteReadyResult_def liftE_intros split: if_splits\<close>)
  next
    case (Cons m rest)
    have safe: "namedGraph actual \<longrightarrow> trafficSafe desired actual m \<and> targetsGraph actual m"
      using ensurePlan_head_named [OF plan [unfolded Cons] seen] .
    show ?thesis unfolding y Cons fst_conv snd_conv list.case
      by (rule issues_weaken [OF executeRouteMutation_then
            [where K = "\<lambda>_ _. False" and J = "\<lambda>r e. performs desired m e \<and> reportsProgress rres_Outcome r"]])
        (use 1(1) safe in \<open>auto simp: routeChange_def simp del: performs.simps\<close>)
  qed
qed

lemma buildDesiredRoute_ok:
  "buildDesiredRoute p spec = Inr desired \<Longrightarrow> want_identity desired = rs_Identity spec \<and> want_spec desired = spec"
  by (auto simp: buildDesiredRoute_def Let_def go_simps identity_ok)

definition routeEnsured :: "Provider \<Rightarrow> RouteSpec \<Rightarrow> event list \<Rightarrow> RouteResult \<Rightarrow> bool" where
  "routeEnsured p spec es res \<longleftrightarrow> o_State (rres_Outcome res) = OutcomeProgressing \<or>
     (\<exists>desired gateway actual. routeBasis p spec es desired gateway actual \<and> routeReady desired gateway actual res)"

definition routeChanged :: "Provider \<Rightarrow> RouteSpec \<Rightarrow> event list \<Rightarrow> event \<Rightarrow> bool" where
  "routeChanged p spec es e \<longleftrightarrow>
     (\<exists>desired gateway actual. routeBasis p spec es desired gateway actual \<and> routeChange desired gateway actual es e)"

lemma routeEnsured_progressing [simp]:
  "o_State (rres_Outcome res) = OutcomeProgressing \<Longrightarrow> routeEnsured p spec es res"
  by (simp add: routeEnsured_def)

lemma routeBasisI:
  assumes "buildDesiredRoute p spec = Inr d" "routeAudited p (rs_Identity spec) before"
    "routeGateway p (Some (rs_GatewayRequirements spec)) before gateway" "routeAudited p (rs_Identity spec) es"
    "observation p (rs_Identity spec) (rg_state gateway) es actual"
  shows "routeBasis p spec (before @ es) (d\<lparr>want_spec := spec\<lparr>rs_Gateway := rg_state gateway\<rparr>\<rparr>) gateway actual"
  using assms buildDesiredRoute_ok [OF assms(1)] unfolding routeBasis_def
  by (auto intro: routeGateway_mono observation_mono)

lemma routeChange_mono:
  "routeChange desired gateway actual es e \<Longrightarrow> set es \<subseteq> set es' \<Longrightarrow> routeChange desired gateway actual es' e"
  unfolding routeChange_def floatingIPReady_def by blast

lemma ensureRouteGraph_after:
  assumes "buildDesiredRoute p spec = Inr d" "routeAudited p (rs_Identity spec) before"
    "routeGateway p (Some (rs_GatewayRequirements spec)) before gateway"
  shows "issues (ensureRouteGraph g p (d\<lparr>want_spec := spec\<lparr>rs_Gateway := rg_state gateway\<rparr>\<rparr>) gateway)
    (\<lambda>res es. routeEnsured p spec (before @ es) res)
    (\<lambda>r ro e. routeChanged p spec (before @ ro) e \<and> reportsProgress rres_Outcome r)"
proof (rule issues_weaken [OF ensureRouteGraph_issues], goal_cases)
  case (1 res es)
  then show ?case
    using buildDesiredRoute_ok [OF assms(1)] routeBasisI [OF assms] unfolding routeEnsured_def by fastforce
next
  case (2 r ro e)
  then obtain actual where actual: "observation p (rs_Identity spec) (rg_state gateway) ro actual"
    "routeChange (d\<lparr>want_spec := spec\<lparr>rs_Gateway := rg_state gateway\<rparr>\<rparr>) gateway actual ro e"
    "routeAudited p (rs_Identity spec) ro" "reportsProgress rres_Outcome r"
    using buildDesiredRoute_ok [OF assms(1)] by auto
  have "routeChange (d\<lparr>want_spec := spec\<lparr>rs_Gateway := rg_state gateway\<rparr>\<rparr>) gateway actual (before @ ro) e"
    by (rule routeChange_mono [OF actual(2)]) auto
  then show ?case
    using routeBasisI [OF assms actual(3,1)] actual(4) unfolding routeChanged_def by blast
qed


text \<open>What a deletion leaves when it is done: no Gateway, or one with an empty route graph.\<close>

definition emptyGraph :: observedRouteGraph where
  "emptyGraph = \<lparr>og_pool = None, og_members = [], og_monitor = None, og_policies = []\<rparr>"

definition routeGone :: "('w, 'p) gophercloud \<Rightarrow> Provider \<Rightarrow> Identity \<Rightarrow> event list \<Rightarrow> bool" where
  "routeGone g p i es \<longleftrightarrow> gatewayGone g es \<or>
     (\<exists>gateway. routeGateway p None es gateway \<and> observedRoute p i (rg_state gateway) es emptyGraph)"

definition routeDeletion :: "Provider \<Rightarrow> Identity \<Rightarrow> event list \<Rightarrow> event \<Rightarrow> bool" where
  "routeDeletion p i es e \<longleftrightarrow> routeAudited p i es \<and>
     (\<exists>gateway actual m. routeGateway p None es gateway \<and> observedRoute p i (rg_state gateway) es actual \<and>
        routeLeaf actual m \<and> targetsGraph actual m \<and> performs (deletedRoute i i (rg_state gateway)) m e)"

lemma deleteRouteGraph_issues:
  assumes "routeAudited p i before" "routeGateway p None before gateway"
  shows "issues (deleteRouteGraph g p i i (rg_state gateway))
    (\<lambda>outcome es. outcome = ReadyOutcome \<and> routeGone g p i (before @ es))
    (\<lambda>r ro e. routeDeletion p i (before @ ro) e \<and> reportsProgress id r)"
  unfolding deleteRouteGraph_def
proof (rule issues_bind [OF observeRouteGraph_inspects], rule issues_bind_lift, goal_cases)
  case (1 actual es plan)
  have gateway: "routeGateway p None (before @ es) gateway" by (rule routeGateway_mono [OF assms(2)]) auto
  have "observation p i (rg_state gateway) (before @ es) actual" by (rule observation_mono [OF conjunct2 [OF 1(1)]]) auto
  then have seen: "observedRoute p i (rg_state gateway) (before @ es) actual" by (simp add: observation_def)
  show ?case
  proof (cases plan)
    case Nil
    have "actual = emptyGraph" using deletionPlan_empty [OF 1(3) [unfolded Nil]] by (simp add: emptyGraph_def)
    then show ?thesis using gateway seen Nil by (auto intro!: effects simp: routeGone_def)
  next
    case (Cons m rest)
    have "routeLeaf actual m \<and> targetsGraph actual m" using deletionPlan_head [OF 1(3) [unfolded Cons]] .
    then have "routeDeletion p i (before @ es) e" if "performs (deletedRoute i i (rg_state gateway)) m e" for e
      using that gateway seen 1(1) assms(1) unfolding routeDeletion_def by auto
    then show ?thesis unfolding Cons list.case
      by (intro issues_weaken [OF executeRouteMutation_then
            [where K = "\<lambda>_ _. False" and J = "\<lambda>r e. routeDeletion p i (before @ es) e \<and> reportsProgress id r"]]) auto
  qed
qed

text \<open>
  C2. DeleteRoute issues at most one mutating request, as its last request, whatever OpenStack answers.
  Before it, every answer described resources of the route and of its Gateway only. The request removes
  a leaf of the observed graph, or disables a policy first, and the outcome is progressing. Without a
  mutation, readiness is reported only if the Gateway is gone or the graph of the route is empty.
\<close>

theorem DeleteRoute_safe:
  "issues (DeleteRoute g p i)
     (\<lambda>outcome es. o_State outcome = OutcomeProgressing \<or> outcome = ReadyOutcome \<and> routeGone g p i es)
     (\<lambda>r ro e. routeDeletion p i ro e \<and> reportsProgress id r)"
  unfolding DeleteRoute_def
proof (intro effects, rule issues_bind [OF inspects_mapErr [OF observeRouteGateway_inspects]], simp,
    unfold case_prod_beta, goal_cases)
  case (1 j y es)
  then have j: "j = i" by (simp add: identity_ok)
  have "issues (deleteRouteGraph g p i i (rg_state (fst y)))
    (\<lambda>outcome es'. o_State outcome = OutcomeProgressing \<or> outcome = ReadyOutcome \<and> routeGone g p i (es @ es'))
    (\<lambda>r ro e. routeDeletion p i (es @ ro) e \<and> reportsProgress id r)"
    if "snd y" "o_State (rg_outcome (fst y)) \<noteq> OutcomeProgressing"
    by (rule issues_weaken [OF deleteRouteGraph_issues]) (use 1 j that in \<open>auto simp: gatewayObserved_def\<close>)
  then show ?case
    using 1 j by (auto intro!: effects simp: gatewayObserved_def routeGone_def split: if_splits)
qed

text \<open>
  The observation of a route graph only reads. The graph it returns is the one the answers describe:
  pool, canonical members, monitor, policies and rules in a fixed order with the roles their tags
  record. Members and monitor occur only below a pool, so that the deletion plan never dereferences a
  missing pool, and no two members, policies or rules of one policy have the same key when every resource
  has an identifier.
\<close>

theorem observed_graph_invariant:
  "inspects (observeRouteGraph g p i gateway) (\<lambda>actual es. routeAudited p i es \<and> observation p i gateway es actual \<and>
     isOk (buildRouteDeletionPlan actual))"
  by (rule inspects_weaken [OF observeRouteGraph_inspects])
    (auto simp: observation_def isOk_iff dest: deletionPlan_total)

section \<open>The deletion plan is complete\<close>

text \<open>The order in which the resources of a route are removed.\<close>

definition deletionRank :: "routeMutationKind \<Rightarrow> nat" where
  "deletionRank kind = (case kind of
      routeMutationDisablePolicy \<Rightarrow> 0
    | routeMutationDeleteRule \<Rightarrow> 1
    | routeMutationDeletePolicy \<Rightarrow> 2
    | routeMutationDeleteMonitor \<Rightarrow> 3
    | routeMutationDeleteMember \<Rightarrow> 4
    | routeMutationDeletePool \<Rightarrow> 5
    | _ \<Rightarrow> 6)"

definition stepsOf :: "routeMutationKind \<Rightarrow> routeMutation list \<Rightarrow> (string \<times> string) list" where
  "stepsOf kind plan = map (\<lambda>m. (rm_parentID m, rm_id m)) (filter (\<lambda>m. rm_kind m = kind) plan)"

lemma stepsOf_append [simp]: "stepsOf kind (xs @ ys) = stepsOf kind xs @ stepsOf kind ys"
  by (simp add: stepsOf_def)

lemma stepsOf_mutations [simp]:
  "stepsOf kind (map (\<lambda>x. mutation kind' (i x) (parent x)) xs) =
     (if kind' = kind then map (\<lambda>x. (parent x, i x)) xs else [])"
  by (auto simp: stepsOf_def filter_empty_conv comp_def)

lemma stepsOf_concat [simp]: "stepsOf kind (concat xss) = concat (map (stepsOf kind) xss)"
  by (induction xss) (auto simp: stepsOf_def)

definition rulesOf :: "observedRoutePolicy \<Rightarrow> (string \<times> string) list" where
  "rulesOf policy = map (\<lambda>rule. (pl_ID (op_policy policy), ru_ID (or_rule rule))) (op_rules policy)"

lemma deletionPlan_shape:
  assumes "buildRouteDeletionPlan actual = Inr plan"
  shows "plan = disablePlan (og_policies actual) @
    concat (map (\<lambda>policy. map (\<lambda>rule. mutation routeMutationDeleteRule (ru_ID (or_rule rule)) (pl_ID (op_policy policy)))
      (op_rules policy)) (og_policies actual)) @
    map (\<lambda>policy. mutation routeMutationDeletePolicy (pl_ID (op_policy policy)) []) (og_policies actual) @
    map (\<lambda>monitor. mutation routeMutationDeleteMonitor (mo_ID monitor) (poolIDOf actual)) (asList (og_monitor actual)) @
    map (\<lambda>member. mutation routeMutationDeleteMember (me_ID member) (poolIDOf actual)) (og_members actual) @
    map (\<lambda>pool. mutation routeMutationDeletePool (po_ID pool) []) (asList (og_pool actual))"
  using assms
  by (auto simp: buildRouteDeletionPlan_def poolOf_def poolIDOf_def go_simps split: option.splits if_splits)

lemma sorted_constant: "(\<And>x. x \<in> set xs \<Longrightarrow> x = c) \<Longrightarrow> sorted xs"
  by (induction xs) auto

text \<open>
  A deletion plan is complete and ordered: for every rule, policy, monitor, member and pool of the
  observed graph it has exactly one step, which names the parent the resource was observed below, and
  the steps are ordered so that every resource follows all its children.
\<close>

theorem deletion_plan_complete:
  assumes "buildRouteDeletionPlan actual = Inr plan"
  shows "stepsOf routeMutationDeleteRule plan = concat (map rulesOf (og_policies actual)) \<and>
    stepsOf routeMutationDeletePolicy plan = map (\<lambda>policy. ([], pl_ID (op_policy policy))) (og_policies actual) \<and>
    stepsOf routeMutationDeleteMonitor plan = map (\<lambda>monitor. (poolIDOf actual, mo_ID monitor)) (asList (og_monitor actual)) \<and>
    stepsOf routeMutationDeleteMember plan = map (\<lambda>member. (poolIDOf actual, me_ID member)) (og_members actual) \<and>
    stepsOf routeMutationDeletePool plan = map (\<lambda>pool. ([], po_ID pool)) (asList (og_pool actual)) \<and>
    sorted (map (\<lambda>m. deletionRank (rm_kind m)) plan)"
proof -
  have rank: "sorted (map (\<lambda>m. deletionRank (rm_kind m)) plan)"
    unfolding deletionPlan_shape [OF assms] disablePlan_def map_append sorted_append set_append
    by (intro conjI sorted_constant) (auto simp: deletionRank_def)
  show ?thesis
    by (intro conjI rank; unfold deletionPlan_shape [OF assms] disablePlan_def rulesOf_def) (simp_all add: comp_def)
qed

text \<open>A policy with two rules, a monitor, a member and the pool.\<close>

theorem deletion_plan_complete_witness:
  "\<exists>plan. buildRouteDeletionPlan (sampleGraph False ''/foo'') = Inr plan \<and>
     stepsOf routeMutationDeleteMember plan = [(''po'', ''m1'')] \<and> sorted (map (\<lambda>m. deletionRank (rm_kind m)) plan)"
proof -
  obtain plan where plan: "buildRouteDeletionPlan (sampleGraph False ''/foo'') = Inr plan"
    using deletionPlan_total [of "sampleGraph False ''/foo''"] by (auto simp: childrenNeedPool_def sampleGraph_def)
  from deletion_plan_complete [OF plan] plan show ?thesis
    by (auto simp: sampleGraph_def poolIDOf_def)
qed

end
