(* ===== verification/AuditReport.thy ===== *)
theory AuditReport
  imports Cloud "HOL-Library.Multiset"
begin

text \<open>
  The package internal/audit: the data that the read-only ownership audit exchanges (types.go) and the
  report it prints (report.go). Dispositions and assessments are Go string types, so that any string may
  arrive and the constants below are the ones the code knows.
\<close>

section \<open>types.go\<close>

record Scope =
  sc_ClusterID :: string
  sc_ControllerName :: string
  sc_OpenStackProjectID :: string

definition nonBlank :: "string \<Rightarrow> unit result" where
  "nonBlank v = guardE (TrimSpace v \<noteq> []) Errorf"

definition ValidateScope :: "Scope \<Rightarrow> unit result" where
  "ValidateScope s = foreachE nonBlank [sc_ClusterID s, sc_ControllerName s, sc_OpenStackProjectID s]"

record ObjectReference =
  obj_APIVersion :: string
  obj_Kind :: string
  obj_Namespace :: string
  obj_Name :: string
  obj_UID :: string

record OwnershipRecord =
  rec_Identity :: Identity
  rec_Objects :: "ObjectReference list"

record KubernetesIssue =
  iss_Object :: ObjectReference
  iss_Reason :: string
  iss_Message :: string

record KubernetesSnapshot =
  snap_Records :: "OwnershipRecord list"
  snap_Issues :: "KubernetesIssue list"

definition DispositionMatched :: string where "DispositionMatched = ''matched''"
definition DispositionOrphanCandidate :: string where "DispositionOrphanCandidate = ''orphanCandidate''"
definition DispositionStaleUID :: string where "DispositionStaleUID = ''staleUID''"
definition DispositionOwnershipConflict :: string where "DispositionOwnershipConflict = ''ownershipConflict''"
definition DispositionUnresolved :: string where "DispositionUnresolved = ''unresolved''"

lemmas disposition_defs = DispositionMatched_def DispositionOrphanCandidate_def DispositionStaleUID_def
  DispositionOwnershipConflict_def DispositionUnresolved_def

record ResourceFinding =
  rf_Service :: string
  rf_Type :: string
  rf_ID :: string
  rf_ParentID :: string
  rf_Role :: string
  rf_ProvisioningStatus :: string
  rf_Disposition :: string
  rf_Reason :: string
  rf_Message :: string
  rf_Objects :: "ObjectReference list"

record Inventory =
  inv_Resources :: "ResourceFinding list"
  inv_Limitations :: "string list"

definition zeroByte :: string where "zeroByte = [CHR 0x00]"

definition objectKey :: "ObjectReference \<Rightarrow> string" where
  "objectKey x = Join [obj_APIVersion x, obj_Kind x, obj_Namespace x, obj_Name x, obj_UID x] zeroByte"

text \<open>slices.CompactFunc keeps the first element of every run of equal elements.\<close>

fun compactBy :: "('a \<Rightarrow> 'k) \<Rightarrow> 'a list \<Rightarrow> 'a list" where
  "compactBy key (x # y # xs) = (if key x = key y then compactBy key (x # xs) else x # compactBy key (y # xs))"
| "compactBy key xs = xs"

definition SortObjectReferences :: "ObjectReference list \<Rightarrow> ObjectReference list" where
  "SortObjectReferences objects = compactBy objectKey (sort_key objectKey objects)"

section \<open>report.go\<close>

text \<open>A point in time: nanoseconds since January 1, year 1, 00:00:00 UTC, and the location it is shown in.\<close>

record Time =
  tm_instant :: int
  tm_location :: string

definition IsZero :: "Time \<Rightarrow> bool" where
  "IsZero t \<longleftrightarrow> tm_instant t = 0"

definition UTC :: "Time \<Rightarrow> Time" where
  "UTC t = t\<lparr>tm_location := ''UTC''\<rparr>"

definition ReportFormatVersion :: string where "ReportFormatVersion = ''v1alpha1''"
definition AssessmentComplete :: string where "AssessmentComplete = ''complete''"
definition AssessmentIncomplete :: string where "AssessmentIncomplete = ''incomplete''"
definition readOnlyAdvisory :: string where
  "readOnlyAdvisory = ''This command only reads Kubernetes and OpenStack. The report does not authorize adoption, deletion, or finalizer removal.''"
definition consistencyAdvisory :: string where
  "consistencyAdvisory = ''Kubernetes and OpenStack are listed separately. Let reconciliation settle and run the audit again before acting on a finding.''"
definition sharingAdvisory :: string where
  "sharingAdvisory = ''This report contains local resource and Kubernetes object identifiers. Review and sanitize it before sharing.''"
definition invalidBindingAdvisory :: string where
  "invalidBindingAdvisory = ''At least one Kubernetes binding is invalid. Restore its metadata before evaluating orphan candidates.''"
definition desiredGraphLimitation :: string where
  "desiredGraphLimitation = ''The audit does not verify that every Kubernetes binding has a complete desired OpenStack graph.''"
definition gatewayAPIVersion :: string where "gatewayAPIVersion = ''gateway.networking.k8s.io/v1''"

record Summary =
  sum_KubernetesBindings :: nat
  sum_KubernetesIssues :: nat
  sum_OpenStackResources :: nat
  sum_Matched :: nat
  sum_OrphanCandidates :: nat
  sum_StaleUIDs :: nat
  sum_OwnershipConflicts :: nat
  sum_Unresolved :: nat

record ReportScope =
  rsc_ClusterID :: string
  rsc_ControllerName :: string

record Report =
  rep_FormatVersion :: string
  rep_ToolVersion :: string
  rep_GeneratedAt :: Time
  rep_Scope :: ReportScope
  rep_Assessment :: string
  rep_Summary :: Summary
  rep_KubernetesIssues :: "KubernetesIssue list"
  rep_Resources :: "ResourceFinding list"
  rep_Advisories :: "string list"
  rep_Limitations :: "string list"

definition HasFindings :: "Report \<Rightarrow> bool" where
  "HasFindings r \<longleftrightarrow> sum_KubernetesIssues (rep_Summary r) > 0 \<or> sum_OrphanCandidates (rep_Summary r) > 0 \<or>
     sum_StaleUIDs (rep_Summary r) > 0 \<or> sum_OwnershipConflicts (rep_Summary r) > 0 \<or> sum_Unresolved (rep_Summary r) > 0"

definition validateObjectReference :: "ObjectReference \<Rightarrow> unit result" where
  "validateObjectReference x = foreachE nonBlank [obj_APIVersion x, obj_Kind x, obj_Name x, obj_UID x]"

definition objectMatchesIdentity :: "ObjectReference \<Rightarrow> Identity \<Rightarrow> bool \<Rightarrow> bool" where
  "objectMatchesIdentity x i isRoute =
     (if obj_APIVersion x \<noteq> gatewayAPIVersion then False
      else if isRoute then obj_Kind x = ''HTTPRoute'' \<and> obj_Namespace x = RouteNamespace i \<and>
        obj_Name x = RouteName i \<and> obj_UID x = RouteUID i
      else obj_Kind x = ''Gateway'' \<and> obj_Namespace x = GatewayNamespace i \<and>
        obj_Name x = GatewayName i \<and> obj_UID x = GatewayUID i)"

definition isRouteIdentity :: "Identity \<Rightarrow> bool" where
  "isRouteIdentity i \<longleftrightarrow> RouteNamespace i \<noteq> [] \<or> RouteName i \<noteq> [] \<or> RouteUID i \<noteq> []"

definition inScope :: "Scope \<Rightarrow> Identity \<Rightarrow> bool" where
  "inScope scope i \<longleftrightarrow> \<not> (ClusterID i \<noteq> sc_ClusterID scope \<or> Controller i \<noteq> sc_ControllerName scope \<or>
     OpenStackProjectID i \<noteq> sc_OpenStackProjectID scope)"

definition validateRecord :: "Scope \<Rightarrow> OwnershipRecord \<Rightarrow> unit result" where
  "validateRecord scope r =
     bindE (guardE (inScope scope (rec_Identity r)) Errorf) (\<lambda>_.
     bindE (mapErr Wrapf (if isRouteIdentity (rec_Identity r) then ValidateRouteIdentity (rec_Identity r)
       else ValidateGatewayIdentity (rec_Identity r))) (\<lambda>_.
     bindE (guardE (length (rec_Objects r) = 1) Errorf) (\<lambda>_.
     bindE (foreachE (\<lambda>x. mapErr Wrapf (validateObjectReference x)) (rec_Objects r)) (\<lambda>_.
     guardE (objectMatchesIdentity (rec_Objects r ! 0) (rec_Identity r) (isRouteIdentity (rec_Identity r))) Errorf))))"

definition validateIssue :: "KubernetesIssue \<Rightarrow> unit result" where
  "validateIssue issue =
     bindE (mapErr Wrapf (validateObjectReference (iss_Object issue))) (\<lambda>_.
     guardE (\<not> (TrimSpace (iss_Reason issue) = [] \<or> TrimSpace (iss_Message issue) = [])) Errorf)"

definition validateSnapshot :: "Scope \<Rightarrow> KubernetesSnapshot \<Rightarrow> unit result" where
  "validateSnapshot scope snapshot =
     bindE (foreachE (validateRecord scope) (snap_Records snapshot)) (\<lambda>_.
     foreachE validateIssue (snap_Issues snapshot))"

definition resourceKey :: "ResourceFinding \<Rightarrow> string" where
  "resourceKey finding = Join [rf_Service finding, rf_Type finding, rf_ID finding] zeroByte"

definition knownDisposition :: "string \<Rightarrow> bool" where
  "knownDisposition d \<longleftrightarrow> d = DispositionMatched \<or> d = DispositionOrphanCandidate \<or> d = DispositionStaleUID \<or>
     d = DispositionOwnershipConflict \<or> d = DispositionUnresolved"

definition validateFinding :: "ResourceFinding \<Rightarrow> string list \<Rightarrow> string list result" where
  "validateFinding finding seenResources =
     bindE (guardE (\<not> (TrimSpace (rf_Service finding) = [] \<or> TrimSpace (rf_Type finding) = [] \<or>
       TrimSpace (rf_ID finding) = [] \<or> TrimSpace (rf_Reason finding) = [] \<or> TrimSpace (rf_Message finding) = [])) Errorf) (\<lambda>_.
     bindE (guardE (knownDisposition (rf_Disposition finding)) Errorf) (\<lambda>_.
     bindE (guardE (resourceKey finding \<notin> set seenResources) Errorf) (\<lambda>_.
     bindE (foreachE (\<lambda>x. mapErr Wrapf (validateObjectReference x)) (rf_Objects finding)) (\<lambda>_.
     Inr (resourceKey finding # seenResources)))))"

definition validateInventory :: "Inventory \<Rightarrow> unit result" where
  "validateInventory inventory =
     bindE (foldE validateFinding (inv_Resources inventory) []) (\<lambda>_.
     foreachE nonBlank (inv_Limitations inventory))"

definition countFinding :: "ResourceFinding \<Rightarrow> Summary \<Rightarrow> Summary" where
  "countFinding finding s =
     (if rf_Disposition finding = DispositionMatched then s\<lparr>sum_Matched := sum_Matched s + 1\<rparr>
      else if rf_Disposition finding = DispositionOrphanCandidate then s\<lparr>sum_OrphanCandidates := sum_OrphanCandidates s + 1\<rparr>
      else if rf_Disposition finding = DispositionStaleUID then s\<lparr>sum_StaleUIDs := sum_StaleUIDs s + 1\<rparr>
      else if rf_Disposition finding = DispositionOwnershipConflict then s\<lparr>sum_OwnershipConflicts := sum_OwnershipConflicts s + 1\<rparr>
      else if rf_Disposition finding = DispositionUnresolved then s\<lparr>sum_Unresolved := sum_Unresolved s + 1\<rparr>
      else s)"

definition summarize :: "OwnershipRecord list \<Rightarrow> KubernetesIssue list \<Rightarrow> ResourceFinding list \<Rightarrow> Summary" where
  "summarize records issues resources =
     fold countFinding resources
       \<lparr>sum_KubernetesBindings = length records, sum_KubernetesIssues = length issues,
        sum_OpenStackResources = length resources, sum_Matched = 0, sum_OrphanCandidates = 0, sum_StaleUIDs = 0,
        sum_OwnershipConflicts = 0, sum_Unresolved = 0\<rparr>"

definition issueOrder :: "KubernetesIssue \<Rightarrow> string \<times> string" where
  "issueOrder issue = (objectKey (iss_Object issue), iss_Reason issue @ zeroByte @ iss_Message issue)"

definition copyAndSortIssues :: "KubernetesIssue list \<Rightarrow> KubernetesIssue list" where
  "copyAndSortIssues issues = sort_key issueOrder issues"

definition findingOrder :: "ResourceFinding \<Rightarrow> string" where
  "findingOrder x = Join [rf_Service x, rf_Type x, rf_ID x, rf_ParentID x, rf_Role x, rf_Disposition x] zeroByte"

definition normalizeFinding :: "ResourceFinding \<Rightarrow> ResourceFinding" where
  "normalizeFinding x = x\<lparr>rf_Objects := SortObjectReferences (rf_Objects x)\<rparr>"

definition copyAndSortFindings :: "ResourceFinding list \<Rightarrow> ResourceFinding list" where
  "copyAndSortFindings findings = sort_key findingOrder (map normalizeFinding findings)"

definition sortUniqueStrings :: "string list \<Rightarrow> string list" where
  "sortUniqueStrings values = compactBy id (sort values)"

definition BuildReport :: "Time \<Rightarrow> string \<Rightarrow> Scope \<Rightarrow> KubernetesSnapshot \<Rightarrow> Inventory \<Rightarrow> Report result" where
  "BuildReport generatedAt toolVersion scope snapshot inventory =
     bindE (guardE (\<not> IsZero generatedAt) Errorf) (\<lambda>_.
     bindE (guardE (TrimSpace toolVersion \<noteq> []) Errorf) (\<lambda>_.
     bindE (mapErr Wrapf (ValidateScope scope)) (\<lambda>_.
     bindE (validateSnapshot scope snapshot) (\<lambda>_.
     bindE (validateInventory inventory) (\<lambda>_.
     let issues = copyAndSortIssues (snap_Issues snapshot);
         resources = copyAndSortFindings (inv_Resources inventory) in
     Inr \<lparr>rep_FormatVersion = ReportFormatVersion, rep_ToolVersion = toolVersion, rep_GeneratedAt = UTC generatedAt,
       rep_Scope = \<lparr>rsc_ClusterID = sc_ClusterID scope, rsc_ControllerName = sc_ControllerName scope\<rparr>,
       rep_Assessment = (if issues \<noteq> [] then AssessmentIncomplete else AssessmentComplete),
       rep_Summary = summarize (snap_Records snapshot) issues resources,
       rep_KubernetesIssues = issues, rep_Resources = resources,
       rep_Advisories = [readOnlyAdvisory, consistencyAdvisory, sharingAdvisory] @
         (if issues \<noteq> [] then [invalidBindingAdvisory] else []),
       rep_Limitations = sortUniqueStrings (inv_Limitations inventory @ [desiredGraphLimitation])\<rparr>)))))"

section \<open>Sorted object references\<close>

lemma set_compactBy: "set (compactBy key xs) \<subseteq> set xs"
  by (induction key xs rule: compactBy.induct) auto

lemma keys_compactBy: "key ` set (compactBy key xs) = key ` set xs"
  by (induction key xs rule: compactBy.induct) auto

lemma hd_compactBy: "xs \<noteq> [] \<Longrightarrow> compactBy key xs \<noteq> [] \<and> hd (compactBy key xs) = hd xs"
  by (induction key xs rule: compactBy.induct) auto

lemma compactBy_strict:
  fixes key :: "'a \<Rightarrow> 'k :: linorder"
  assumes "sorted (map key xs)"
  shows "sorted_wrt (<) (map key (compactBy key xs))"
  using assms
proof (induction key xs rule: compactBy.induct)
  case (1 key x y xs)
  show ?case
  proof (cases "key x = key y")
    case True
    then show ?thesis using 1 by simp
  next
    case False
    have "key x < key z" if "z \<in> set (compactBy key (y # xs))" for z
    proof -
      have "z = y \<or> z \<in> set xs" using that set_compactBy [of key "y # xs"] by auto
      then have "key y \<le> key z" "key x \<le> key y" using "1.prems" by auto
      then show ?thesis using False by simp
    qed
    then show ?thesis using 1 False by (simp add: sorted_wrt_map)
  qed
qed auto

lemma compactBy_strict_id:
  fixes key :: "'a \<Rightarrow> 'k :: linorder"
  shows "sorted_wrt (<) (map key xs) \<Longrightarrow> compactBy key xs = xs"
  by (induction key xs rule: compactBy.induct) auto

text \<open>
  SortObjectReferences returns references of its argument in strictly increasing order of their keys,
  so without duplicates, none of the keys is lost, and sorting again changes nothing.
\<close>

theorem SortObjectReferences_canonical:
  "sorted_wrt (<) (map objectKey (SortObjectReferences xs)) \<and>
   objectKey ` set (SortObjectReferences xs) = objectKey ` set xs \<and> set (SortObjectReferences xs) \<subseteq> set xs \<and>
   SortObjectReferences (SortObjectReferences xs) = SortObjectReferences xs"
proof -
  have strict: "sorted_wrt (<) (map objectKey (SortObjectReferences xs))"
    unfolding SortObjectReferences_def by (rule compactBy_strict) simp
  then have "sorted (map objectKey (SortObjectReferences xs))"
    by (rule strict_sorted_imp_sorted)
  then have "sort_key objectKey (SortObjectReferences xs) = SortObjectReferences xs"
    by (rule sort_key_id_if_sorted)
  then have "SortObjectReferences (SortObjectReferences xs) = SortObjectReferences xs"
    using compactBy_strict_id [OF strict] by (simp add: SortObjectReferences_def [of "SortObjectReferences xs"])
  then show ?thesis
    using strict keys_compactBy [of objectKey "sort_key objectKey xs"] set_compactBy [of objectKey "sort_key objectKey xs"]
    by (simp add: SortObjectReferences_def)
qed

section \<open>Reports\<close>

lemma distinct_dispositions:
  "distinct [DispositionMatched, DispositionOrphanCandidate, DispositionStaleUID, DispositionOwnershipConflict, DispositionUnresolved]"
  by (simp add: disposition_defs)

definition countOf :: "string \<Rightarrow> ResourceFinding list \<Rightarrow> nat" where
  "countOf d resources = length (filter (\<lambda>finding. rf_Disposition finding = d) resources)"

lemma countOf_simps [simp]:
  "countOf d [] = 0" "countOf d (x # xs) = (if rf_Disposition x = d then 1 else 0) + countOf d xs"
  by (simp_all add: countOf_def)

lemma fold_countFinding:
  "fold countFinding resources s = s\<lparr>sum_Matched := sum_Matched s + countOf DispositionMatched resources,
     sum_OrphanCandidates := sum_OrphanCandidates s + countOf DispositionOrphanCandidate resources,
     sum_StaleUIDs := sum_StaleUIDs s + countOf DispositionStaleUID resources,
     sum_OwnershipConflicts := sum_OwnershipConflicts s + countOf DispositionOwnershipConflict resources,
     sum_Unresolved := sum_Unresolved s + countOf DispositionUnresolved resources\<rparr>"
proof (induction resources arbitrary: s)
  case (Cons x resources)
  show ?case
    unfolding fold_simps comp_apply Cons.IH countOf_simps
    by (cases s) (use distinct_dispositions in \<open>auto simp: countFinding_def\<close>)
qed simp

lemma countOf_mset: "countOf d xs = size (filter_mset (\<lambda>finding. rf_Disposition finding = d) (mset xs))"
  by (simp add: countOf_def flip: mset_filter)

lemma countOf_sorted: "countOf d (copyAndSortFindings xs) = countOf d xs"
  unfolding copyAndSortFindings_def countOf_mset mset_sort
  by (induction xs) (auto simp: normalizeFinding_def)

lemma length_copyAndSort: "length (copyAndSortFindings xs) = length xs" "length (copyAndSortIssues ys) = length ys"
  by (simp_all add: copyAndSortFindings_def copyAndSortIssues_def)

lemma countOf_total:
  "\<forall>x \<in> set xs. knownDisposition (rf_Disposition x) \<Longrightarrow>
    countOf DispositionMatched xs + countOf DispositionOrphanCandidate xs + countOf DispositionStaleUID xs +
    countOf DispositionOwnershipConflict xs + countOf DispositionUnresolved xs = length xs"
proof (induction xs)
  case (Cons x xs)
  have "knownDisposition (rf_Disposition x)" using Cons.prems by simp
  then show ?case
    unfolding knownDisposition_def using Cons by (elim disjE) (simp_all add: disposition_defs)
qed simp

definition acceptable :: "ResourceFinding \<Rightarrow> bool" where
  "acceptable x \<longleftrightarrow> isOk (validateFinding x [])"

lemma validateFinding_ok:
  "validateFinding x seen = Inr s \<longleftrightarrow> s = resourceKey x # seen \<and> resourceKey x \<notin> set seen \<and> acceptable x"
  by (auto simp: validateFinding_def acceptable_def isOk_iff go_simps)

lemma validateFinding_fold:
  "foldE validateFinding xs seen = Inr seen' \<longleftrightarrow>
     seen' = rev (map resourceKey xs) @ seen \<and> distinct (map resourceKey xs) \<and>
     (\<forall>x \<in> set xs. resourceKey x \<notin> set seen \<and> acceptable x)"
proof (induction xs arbitrary: seen)
  case (Cons x xs)
  have "foldE validateFinding (x # xs) seen = Inr seen' \<longleftrightarrow> resourceKey x \<notin> set seen \<and> acceptable x \<and>
      foldE validateFinding xs (resourceKey x # seen) = Inr seen'"
    by (auto simp: go_simps validateFinding_ok)
  then show ?case unfolding Cons.IH by (auto simp del: go_simps) (metis imageI)
qed auto

lemma BuildReport_ok:
  "BuildReport generatedAt toolVersion scope snapshot inventory = Inr r \<Longrightarrow>
     validateInventory inventory = Inr () \<and>
     rep_KubernetesIssues r = copyAndSortIssues (snap_Issues snapshot) \<and>
     rep_Resources r = copyAndSortFindings (inv_Resources inventory) \<and>
     rep_Assessment r = (if snap_Issues snapshot \<noteq> [] then AssessmentIncomplete else AssessmentComplete) \<and>
     rep_Summary r = summarize (snap_Records snapshot) (rep_KubernetesIssues r) (rep_Resources r)"
  by (auto simp: BuildReport_def Let_def copyAndSortIssues_def go_simps split del: if_split)

lemma isOk_bindE: "isOk (bindE m f) \<longleftrightarrow> (\<exists>x. m = Inr x \<and> isOk (f x))"
  by (cases m) auto

lemma BuildReport_isOk:
  "isOk (BuildReport generatedAt toolVersion scope snapshot inventory) \<longleftrightarrow>
     \<not> IsZero generatedAt \<and> TrimSpace toolVersion \<noteq> [] \<and> isOk (ValidateScope scope) \<and>
     isOk (validateSnapshot scope snapshot) \<and> isOk (validateInventory inventory)"
  by (auto simp: BuildReport_def isOk_bindE Let_def go_simps) (auto simp: isOk_iff)

lemma acceptable_disposition: "acceptable x \<Longrightarrow> knownDisposition (rf_Disposition x)"
  by (auto simp: acceptable_def validateFinding_def isOk_iff go_simps)

lemma countOf_zero: "countOf d xs = 0 \<longleftrightarrow> (\<forall>x \<in> set xs. rf_Disposition x \<noteq> d)"
  by (auto simp: countOf_def filter_empty_conv)

definition sumOfDispositions :: "Summary \<Rightarrow> nat" where
  "sumOfDispositions s = sum_Matched s + sum_OrphanCandidates s + sum_StaleUIDs s + sum_OwnershipConflicts s + sum_Unresolved s"

text \<open>
  A report accounts for everything it was built from: its resources are the findings of the
  inventory, none lost and none invented, in order; the five counts of the summary add up to their
  number; HasFindings holds exactly if a Kubernetes binding was invalid or some resource is not matched;
  and the assessment is complete exactly if no binding was invalid.
\<close>

theorem report_accounts:
  assumes "BuildReport generatedAt toolVersion scope snapshot inventory = Inr r"
  shows "mset (rep_Resources r) = image_mset normalizeFinding (mset (inv_Resources inventory)) \<and>
    sorted (map findingOrder (rep_Resources r)) \<and>
    sumOfDispositions (rep_Summary r) = length (inv_Resources inventory) \<and>
    sum_OpenStackResources (rep_Summary r) = length (inv_Resources inventory) \<and>
    sum_Matched (rep_Summary r) = countOf DispositionMatched (inv_Resources inventory) \<and>
    (HasFindings r \<longleftrightarrow> snap_Issues snapshot \<noteq> [] \<or>
       (\<exists>finding \<in> set (inv_Resources inventory). rf_Disposition finding \<noteq> DispositionMatched)) \<and>
    (rep_Assessment r = AssessmentComplete \<longleftrightarrow> snap_Issues snapshot = [])"
proof -
  let ?xs = "inv_Resources inventory" and ?s = "rep_Summary r"
  note r = BuildReport_ok [OF assms]
  have known: "\<forall>x \<in> set ?xs. knownDisposition (rf_Disposition x)"
    using r by (auto simp: validateInventory_def go_simps validateFinding_fold intro: acceptable_disposition)
  have s: "?s = \<lparr>sum_KubernetesBindings = length (snap_Records snapshot), sum_KubernetesIssues = length (snap_Issues snapshot),
      sum_OpenStackResources = length ?xs, sum_Matched = countOf DispositionMatched ?xs,
      sum_OrphanCandidates = countOf DispositionOrphanCandidate ?xs, sum_StaleUIDs = countOf DispositionStaleUID ?xs,
      sum_OwnershipConflicts = countOf DispositionOwnershipConflict ?xs, sum_Unresolved = countOf DispositionUnresolved ?xs\<rparr>"
    using r unfolding summarize_def fold_countFinding by (simp add: countOf_sorted length_copyAndSort)
  have "HasFindings r \<longleftrightarrow> snap_Issues snapshot \<noteq> [] \<or> countOf DispositionMatched ?xs \<noteq> length ?xs"
    using countOf_total [OF known] by (auto simp: HasFindings_def s)
  also have "countOf DispositionMatched ?xs \<noteq> length ?xs \<longleftrightarrow> (\<exists>finding \<in> set ?xs. rf_Disposition finding \<noteq> DispositionMatched)"
    unfolding countOf_def by (metis (mono_tags, lifting) filter_True length_filter_less less_irrefl)
  finally have findings: "HasFindings r \<longleftrightarrow> snap_Issues snapshot \<noteq> [] \<or>
      (\<exists>finding \<in> set ?xs. rf_Disposition finding \<noteq> DispositionMatched)" .
  have "rep_Resources r = copyAndSortFindings ?xs"
    and "rep_Assessment r = (if snap_Issues snapshot \<noteq> [] then AssessmentIncomplete else AssessmentComplete)"
    using r by auto
  then show ?thesis
    unfolding s sumOfDispositions_def findings using countOf_total [OF known]
    by (simp add: copyAndSortFindings_def AssessmentComplete_def AssessmentIncomplete_def)
qed

definition sampleFinding :: "string \<Rightarrow> string \<Rightarrow> ResourceFinding" where
  "sampleFinding i disposition = \<lparr>rf_Service = ''Octavia'', rf_Type = ''Pool'', rf_ID = i, rf_ParentID = [], rf_Role = ''pool'',
     rf_ProvisioningStatus = ''ACTIVE'', rf_Disposition = disposition, rf_Reason = ''r'', rf_Message = ''m'', rf_Objects = []\<rparr>"

theorem report_accounts_witness:
  "\<exists>r. BuildReport \<lparr>tm_instant = 1, tm_location = []\<rparr> ''v1''
      \<lparr>sc_ClusterID = ''c'', sc_ControllerName = ''k'', sc_OpenStackProjectID = ''p''\<rparr> \<lparr>snap_Records = [], snap_Issues = []\<rparr>
      \<lparr>inv_Resources = [sampleFinding ''b'' DispositionMatched, sampleFinding ''a'' DispositionStaleUID], inv_Limitations = []\<rparr> = Inr r \<and>
    HasFindings r \<and> sumOfDispositions (rep_Summary r) = 2"
proof -
  let ?inv = "\<lparr>inv_Resources = [sampleFinding ''b'' DispositionMatched, sampleFinding ''a'' DispositionStaleUID], inv_Limitations = []\<rparr>"
  have trims: "TrimSpace ''v1'' \<noteq> []" "TrimSpace ''c'' \<noteq> []" "TrimSpace ''k'' \<noteq> []" "TrimSpace ''p'' \<noteq> []"
    "TrimSpace ''Octavia'' \<noteq> []" "TrimSpace ''Pool'' \<noteq> []" "TrimSpace ''a'' \<noteq> []" "TrimSpace ''b'' \<noteq> []"
    "TrimSpace ''r'' \<noteq> []" "TrimSpace ''m'' \<noteq> []"
    by (rule TrimSpace_nonblank [of "hd s" s for s]; simp; fail)+
  then have "isOk (BuildReport \<lparr>tm_instant = 1, tm_location = []\<rparr> ''v1''
      \<lparr>sc_ClusterID = ''c'', sc_ControllerName = ''k'', sc_OpenStackProjectID = ''p''\<rparr> \<lparr>snap_Records = [], snap_Issues = []\<rparr> ?inv)"
    unfolding BuildReport_isOk
    by (simp add: IsZero_def ValidateScope_def nonBlank_def guardE_def validateSnapshot_def validateInventory_def
      validateFinding_def sampleFinding_def knownDisposition_def resourceKey_def)
  then obtain r where r: "BuildReport \<lparr>tm_instant = 1, tm_location = []\<rparr> ''v1''
      \<lparr>sc_ClusterID = ''c'', sc_ControllerName = ''k'', sc_OpenStackProjectID = ''p''\<rparr> \<lparr>snap_Records = [], snap_Issues = []\<rparr> ?inv = Inr r"
    unfolding isOk_iff by blast
  have "HasFindings r" "sumOfDispositions (rep_Summary r) = 2"
    using report_accounts [OF r] by (simp_all add: sampleFinding_def disposition_defs)
  with r show ?thesis by blast
qed

section \<open>What a report accepts\<close>

definition blank :: "string \<Rightarrow> bool" where
  "blank v \<longleftrightarrow> TrimSpace v = []"

definition completeObject :: "ObjectReference \<Rightarrow> bool" where
  "completeObject x \<longleftrightarrow> \<not> blank (obj_APIVersion x) \<and> \<not> blank (obj_Kind x) \<and> \<not> blank (obj_Name x) \<and> \<not> blank (obj_UID x)"

text \<open>A record is evidence for the one object that its identity describes.\<close>

definition evidence :: "Scope \<Rightarrow> OwnershipRecord \<Rightarrow> bool" where
  "evidence scope r \<longleftrightarrow> (let i = rec_Identity r in
     ClusterID i = sc_ClusterID scope \<and> Controller i = sc_ControllerName scope \<and>
     OpenStackProjectID i = sc_OpenStackProjectID scope \<and>
     isOk (if isRouteIdentity i then ValidateRouteIdentity i else ValidateGatewayIdentity i) \<and>
     (\<exists>x. rec_Objects r = [x] \<and> completeObject x \<and> objectMatchesIdentity x i (isRouteIdentity i)))"

definition completeIssue :: "KubernetesIssue \<Rightarrow> bool" where
  "completeIssue x \<longleftrightarrow> completeObject (iss_Object x) \<and> \<not> blank (iss_Reason x) \<and> \<not> blank (iss_Message x)"

definition completeFinding :: "ResourceFinding \<Rightarrow> bool" where
  "completeFinding x \<longleftrightarrow> \<not> blank (rf_Service x) \<and> \<not> blank (rf_Type x) \<and> \<not> blank (rf_ID x) \<and> \<not> blank (rf_Reason x) \<and>
     \<not> blank (rf_Message x) \<and> knownDisposition (rf_Disposition x) \<and> list_all completeObject (rf_Objects x)"

lemma validateObjectReference_ok [go_simps]: "validateObjectReference x = Inr u \<longleftrightarrow> completeObject x"
  by (auto simp: validateObjectReference_def completeObject_def nonBlank_def blank_def go_simps)

lemma validateRecord_ok [go_simps]: "validateRecord scope r = Inr u \<longleftrightarrow> evidence scope r"
  by (auto simp: validateRecord_def evidence_def inScope_def Let_def go_simps isOk_iff length_Suc_conv)

lemma acceptable_complete: "acceptable x \<longleftrightarrow> completeFinding x"
  by (auto simp: acceptable_def completeFinding_def validateFinding_def blank_def isOk_iff go_simps list_all_iff)

lemma validateSnapshot_ok:
  "isOk (validateSnapshot scope snapshot) \<longleftrightarrow>
     list_all (evidence scope) (snap_Records snapshot) \<and> list_all completeIssue (snap_Issues snapshot)"
  by (auto simp: validateSnapshot_def validateIssue_def completeIssue_def blank_def isOk_iff go_simps list_all_iff)

text \<open>
  BuildReport succeeds exactly on complete evidence: a generation time and tool version, a scope
  without blank field, records that lie in the scope and describe exactly the one object they name,
  complete issues, complete findings with a known disposition for distinct resources, and no blank
  limitation.
\<close>

theorem BuildReport_accepts:
  "isOk (BuildReport generatedAt toolVersion scope snapshot inventory) \<longleftrightarrow>
     tm_instant generatedAt \<noteq> 0 \<and> \<not> blank toolVersion \<and>
     list_all (\<lambda>v. \<not> blank v) [sc_ClusterID scope, sc_ControllerName scope, sc_OpenStackProjectID scope] \<and>
     list_all (evidence scope) (snap_Records snapshot) \<and> list_all completeIssue (snap_Issues snapshot) \<and>
     list_all completeFinding (inv_Resources inventory) \<and> distinct (map resourceKey (inv_Resources inventory)) \<and>
     list_all (\<lambda>v. \<not> blank v) (inv_Limitations inventory)"
proof -
  note validateSnapshot_ok
  moreover have "isOk (validateInventory inventory) \<longleftrightarrow> list_all completeFinding (inv_Resources inventory) \<and>
      distinct (map resourceKey (inv_Resources inventory)) \<and> list_all (\<lambda>v. \<not> blank v) (inv_Limitations inventory)"
    by (auto simp: validateInventory_def nonBlank_def blank_def isOk_iff go_simps list_all_iff validateFinding_fold acceptable_complete)
  moreover have "isOk (ValidateScope scope) \<longleftrightarrow>
      list_all (\<lambda>v. \<not> blank v) [sc_ClusterID scope, sc_ControllerName scope, sc_OpenStackProjectID scope]"
    by (auto simp: ValidateScope_def nonBlank_def blank_def isOk_iff go_simps)
  ultimately show ?thesis
    unfolding BuildReport_isOk IsZero_def blank_def by auto
qed

end
