(* ===== verification/Scanner.thy ===== *)
theory Scanner
  imports Services Metadata ApiErrors AuditReport "HOL-Library.AList"
begin

text \<open>
  internal/cloud/openstack/inventory/scanner.go: the read-only scan that collects every OpenStack resource
  that may belong to one controller installation. A candidate set is a Go map keyed by service, type and
  identifier, here an association list; sets of identifiers are sets. The classification of the
  candidates is in the theory Classification.
\<close>

section \<open>Constants\<close>

definition auditServiceOctavia :: string where "auditServiceOctavia = ''Octavia''"
definition auditServiceNeutron :: string where "auditServiceNeutron = ''Neutron''"
definition auditTypeLoadBalancer :: string where "auditTypeLoadBalancer = ''LoadBalancer''"
definition auditTypeListener :: string where "auditTypeListener = ''Listener''"
definition auditTypePool :: string where "auditTypePool = ''Pool''"
definition auditTypeMember :: string where "auditTypeMember = ''Member''"
definition auditTypeMonitor :: string where "auditTypeMonitor = ''HealthMonitor''"
definition auditTypeL7Policy :: string where "auditTypeL7Policy = ''L7Policy''"
definition auditTypeL7Rule :: string where "auditTypeL7Rule = ''L7Rule''"
definition auditTypeFloatingIP :: string where "auditTypeFloatingIP = ''FloatingIP''"

lemmas audit_type_defs = auditTypeLoadBalancer_def auditTypeListener_def auditTypePool_def auditTypeMember_def
  auditTypeMonitor_def auditTypeL7Policy_def auditTypeL7Rule_def auditTypeFloatingIP_def

definition auditInventoryLimitations :: "string list" where
  "auditInventoryLimitations =
     [''Resources whose cluster or controller identity tags were removed cannot be found by the scoped Octavia queries.'',
      ''Members and L7 rules are scanned only beneath trusted pools and policies. A child whose complete ancestor chain lost its controller identity may not appear.'',
      ''An unmatched detached Floating IP cannot be attributed to a cluster or controller from its description digest and is omitted.'']"

section \<open>The scanner and its records\<close>

text \<open>The service clients: which of the two the caller has configured, and the authenticated project.\<close>

record ServiceClients =
  cl_LoadBalancer :: bool
  cl_Network :: bool
  cl_ProjectID :: string

record Scanner =
  sn_octavia :: bool
  sn_neutron :: bool
  sn_projectID :: string
  sn_operationTimeout :: int

definition NewScanner :: "ServiceClients \<Rightarrow> int \<Rightarrow> Scanner" where
  "NewScanner serviceClients operationTimeout =
     \<lparr>sn_octavia = cl_LoadBalancer serviceClients, sn_neutron = cl_Network serviceClients,
      sn_projectID = cl_ProjectID serviceClients,
      sn_operationTimeout = (if operationTimeout \<le> 0 then 10 * 60 * 1000000000 else operationTimeout)\<rparr>"

record preparedAuditRecord =
  pr_record :: OwnershipRecord
  pr_identity :: Identity
  pr_isRoute :: bool

definition prepareAuditRecord :: "Scope \<Rightarrow> OwnershipRecord \<Rightarrow> preparedAuditRecord list \<Rightarrow> preparedAuditRecord list result" where
  "prepareAuditRecord scope r prepared =
     (if ClusterID (rec_Identity r) \<noteq> sc_ClusterID scope \<or> Controller (rec_Identity r) \<noteq> sc_ControllerName scope \<or>
         OpenStackProjectID (rec_Identity r) \<noteq> sc_OpenStackProjectID scope
      then Inl Errorf
      else
        bindE (mapErr Wrapf (if isRouteIdentity (rec_Identity r) then ValidateRouteIdentity (rec_Identity r)
          else ValidateGatewayIdentity (rec_Identity r))) (\<lambda>_.
        bindE (mapErr Wrapf (NewIdentity (rec_Identity r))) (\<lambda>i.
        Inr (prepared @ [\<lparr>pr_record = r\<lparr>rec_Objects := SortObjectReferences (rec_Objects r)\<rparr>, pr_identity = i,
          pr_isRoute = isRouteIdentity (rec_Identity r)\<rparr>]))))"

definition prepareAuditRecords :: "Scope \<Rightarrow> OwnershipRecord list \<Rightarrow> preparedAuditRecord list result" where
  "prepareAuditRecords scope records = foldE (prepareAuditRecord scope) records []"

section \<open>Candidates\<close>

record auditCandidate =
  ac_service :: string
  ac_resourceType :: string
  ac_id :: string
  ac_projectID :: string
  ac_tenantID :: string
  ac_provider :: string
  ac_provisioningStatus :: string
  ac_tags :: "string list"
  ac_description :: string
  ac_portID :: string
  ac_redirectPoolID :: string
  ac_reportedParents :: "string set"
  ac_observedParents :: "string set"
  ac_observationChanged :: bool

type_synonym auditCandidateSet = "(string \<times> auditCandidate) list"

text \<open>The composite literals of the scan: the fields that are not given are zero.\<close>

definition candidateOf :: "string \<Rightarrow> string \<Rightarrow> string \<Rightarrow> auditCandidate" where
  "candidateOf service resourceType i =
     \<lparr>ac_service = service, ac_resourceType = resourceType, ac_id = i, ac_projectID = [], ac_tenantID = [], ac_provider = [],
      ac_provisioningStatus = [], ac_tags = [], ac_description = [], ac_portID = [], ac_redirectPoolID = [],
      ac_reportedParents = {}, ac_observedParents = {}, ac_observationChanged = False\<rparr>"

definition candidateKey :: "auditCandidate \<Rightarrow> string" where
  "candidateKey c = ac_service c @ zeroByte @ ac_resourceType c @ zeroByte @ ac_id c"

definition mergeCandidate :: "auditCandidate \<Rightarrow> auditCandidate \<Rightarrow> auditCandidate" where
  "mergeCandidate existing candidate =
     existing\<lparr>ac_observationChanged := ac_observationChanged existing \<or>
         ac_projectID existing \<noteq> ac_projectID candidate \<or> ac_tenantID existing \<noteq> ac_tenantID candidate \<or>
         ac_provider existing \<noteq> ac_provider candidate \<or> ac_tags existing \<noteq> ac_tags candidate \<or>
         ac_description existing \<noteq> ac_description candidate \<or> ac_portID existing \<noteq> ac_portID candidate \<or>
         ac_redirectPoolID existing \<noteq> ac_redirectPoolID candidate \<or>
         ac_provisioningStatus existing \<noteq> ac_provisioningStatus candidate,
       ac_reportedParents := ac_reportedParents existing \<union> ac_reportedParents candidate,
       ac_observedParents := ac_observedParents existing \<union> ac_observedParents candidate\<rparr>"

definition addCandidate :: "auditCandidate \<Rightarrow> auditCandidateSet \<Rightarrow> auditCandidateSet" where
  "addCandidate candidate s =
     (let candidate = candidate\<lparr>ac_tags := sort (ac_tags candidate)\<rparr>; key = candidateKey candidate in
      AList.update key (case map_of s key of None \<Rightarrow> candidate | Some existing \<Rightarrow> mergeCandidate existing candidate) s)"

definition candidateProject :: "auditCandidate \<Rightarrow> string" where
  "candidateProject c = (if ac_projectID c = [] then ac_tenantID c else ac_projectID c)"

definition scopedIDs :: "auditCandidateSet \<Rightarrow> string \<Rightarrow> string list \<Rightarrow> string \<Rightarrow> string set" where
  "scopedIDs s resourceType scopeTags projectID =
     ac_id ` {c \<in> snd ` set s. ac_resourceType c = resourceType \<and> candidateProject c = projectID \<and> containsAll (ac_tags c) scopeTags}"

definition singletonStringSet :: "string \<Rightarrow> string set" where
  "singletonStringSet v = (if v = [] then {} else {v})"

definition singletonStringSetIf :: "bool \<Rightarrow> string \<Rightarrow> string set" where
  "singletonStringSetIf include v = (if \<not> include then {} else singletonStringSet v)"

definition sortedSetValues :: "string set \<Rightarrow> string list" where
  "sortedSetValues values = sorted_list_of_set values"

section \<open>Collecting the candidates\<close>

definition loadBalancerCandidate :: "LoadBalancer \<Rightarrow> auditCandidate" where
  "loadBalancerCandidate item = (candidateOf auditServiceOctavia auditTypeLoadBalancer (lb_ID item))
     \<lparr>ac_projectID := lb_ProjectID item, ac_provider := lb_Provider item,
      ac_provisioningStatus := lb_ProvisioningStatus item, ac_tags := lb_Tags item, ac_portID := lb_VipPortID item\<rparr>"

definition collectAuditLoadBalancers :: "('w, 'p) gophercloud \<Rightarrow> Scanner \<Rightarrow> string list \<Rightarrow> auditCandidateSet \<Rightarrow>
    ('w, auditCandidateSet) io" where
  "collectAuditLoadBalancers g p scopeTags candidates =
     bindIO (mapErrIO Wrapf (ListLoadBalancers g \<lparr>lbl_ProjectID = sn_projectID p, lbl_Tags = scopeTags\<rparr>)) (\<lambda>items.
     returnIO (fold (\<lambda>item. addCandidate (loadBalancerCandidate item)) items candidates))"

definition listenerCandidate :: "string \<Rightarrow> Listener \<Rightarrow> auditCandidate" where
  "listenerCandidate observedParent item = (candidateOf auditServiceOctavia auditTypeListener (li_ID item))
     \<lparr>ac_projectID := li_ProjectID item, ac_provisioningStatus := li_ProvisioningStatus item, ac_tags := li_Tags item,
      ac_reportedParents := set (li_Loadbalancers item), ac_observedParents := singletonStringSet observedParent\<rparr>"

definition listAuditListeners :: "('w, 'p) gophercloud \<Rightarrow> ScopedListOpts \<Rightarrow> string \<Rightarrow> auditCandidateSet \<Rightarrow> ('w, auditCandidateSet) io" where
  "listAuditListeners g opts observedParent candidates =
     bindIO (mapErrIO Wrapf (ListListeners g opts)) (\<lambda>items.
     returnIO (fold (\<lambda>item. addCandidate (listenerCandidate observedParent item)) items candidates))"

definition taggedOpts :: "Scanner \<Rightarrow> string list \<Rightarrow> ScopedListOpts" where
  "taggedOpts p scopeTags = \<lparr>sl_ParentID = [], sl_ProjectID = sn_projectID p, sl_Tags = scopeTags\<rparr>"

definition belowOpts :: "Scanner \<Rightarrow> string \<Rightarrow> ScopedListOpts" where
  "belowOpts p parent = \<lparr>sl_ParentID = parent, sl_ProjectID = sn_projectID p, sl_Tags = []\<rparr>"

definition collectAuditListeners :: "('w, 'p) gophercloud \<Rightarrow> Scanner \<Rightarrow> string list \<Rightarrow> string set \<Rightarrow> auditCandidateSet \<Rightarrow>
    ('w, auditCandidateSet) io" where
  "collectAuditListeners g p scopeTags loadBalancerIDs candidates =
     bindIO (listAuditListeners g (taggedOpts p scopeTags) [] candidates)
       (foldIO (\<lambda>loadBalancerID. listAuditListeners g (belowOpts p loadBalancerID) loadBalancerID)
         (sortedSetValues loadBalancerIDs))"

definition poolCandidate :: "string \<Rightarrow> Pool \<Rightarrow> auditCandidate" where
  "poolCandidate observedParent item = (candidateOf auditServiceOctavia auditTypePool (po_ID item))
     \<lparr>ac_projectID := po_ProjectID item, ac_provisioningStatus := po_ProvisioningStatus item, ac_tags := po_Tags item,
      ac_reportedParents := set (po_Loadbalancers item), ac_observedParents := singletonStringSet observedParent\<rparr>"

definition listAuditPools :: "('w, 'p) gophercloud \<Rightarrow> ScopedListOpts \<Rightarrow> string \<Rightarrow> auditCandidateSet \<Rightarrow> ('w, auditCandidateSet) io" where
  "listAuditPools g opts observedParent candidates =
     bindIO (mapErrIO Wrapf (ListPools g opts)) (\<lambda>items.
     returnIO (fold (\<lambda>item. addCandidate (poolCandidate observedParent item)) items candidates))"

definition collectAuditPools :: "('w, 'p) gophercloud \<Rightarrow> Scanner \<Rightarrow> string list \<Rightarrow> string set \<Rightarrow> auditCandidateSet \<Rightarrow>
    ('w, auditCandidateSet) io" where
  "collectAuditPools g p scopeTags loadBalancerIDs candidates =
     bindIO (listAuditPools g (taggedOpts p scopeTags) [] candidates)
       (foldIO (\<lambda>loadBalancerID. listAuditPools g (belowOpts p loadBalancerID) loadBalancerID)
         (sortedSetValues loadBalancerIDs))"

definition policyCandidate :: "string set \<Rightarrow> L7Policy \<Rightarrow> auditCandidate" where
  "policyCandidate listenerIDs item = (candidateOf auditServiceOctavia auditTypeL7Policy (pl_ID item))
     \<lparr>ac_projectID := pl_ProjectID item, ac_provisioningStatus := pl_ProvisioningStatus item, ac_tags := pl_Tags item,
      ac_redirectPoolID := pl_RedirectPoolID item, ac_reportedParents := singletonStringSet (pl_ListenerID item),
      ac_observedParents := singletonStringSetIf (pl_ListenerID item \<in> listenerIDs) (pl_ListenerID item)\<rparr>"

definition collectAuditPolicies :: "('w, 'p) gophercloud \<Rightarrow> Scanner \<Rightarrow> string list \<Rightarrow> string set \<Rightarrow> auditCandidateSet \<Rightarrow>
    ('w, auditCandidateSet) io" where
  "collectAuditPolicies g p scopeTags listenerIDs candidates =
     bindIO (mapErrIO Wrapf (ListPolicies g \<lparr>pll_ListenerID = [], pll_ProjectID = sn_projectID p\<rparr>)) (\<lambda>items.
     returnIO (fold (\<lambda>item candidates.
       if \<not> containsAll (pl_Tags item) scopeTags \<and> pl_ListenerID item \<notin> listenerIDs then candidates
       else addCandidate (policyCandidate listenerIDs item) candidates) items candidates))"

definition memberCandidate :: "string \<Rightarrow> PoolMember \<Rightarrow> auditCandidate" where
  "memberCandidate poolID item = (candidateOf auditServiceOctavia auditTypeMember (me_ID item))
     \<lparr>ac_projectID := me_ProjectID item, ac_provisioningStatus := me_ProvisioningStatus item, ac_tags := me_Tags item,
      ac_reportedParents := singletonStringSet (me_PoolID item), ac_observedParents := singletonStringSet poolID\<rparr>"

definition collectAuditMembers :: "('w, 'p) gophercloud \<Rightarrow> Scanner \<Rightarrow> string set \<Rightarrow> auditCandidateSet \<Rightarrow> ('w, auditCandidateSet) io" where
  "collectAuditMembers g p poolIDs candidates =
     foldIO (\<lambda>poolID candidates.
       bindIO (mapErrIO Wrapf (ListMembers g poolID (sn_projectID p))) (\<lambda>items.
       returnIO (fold (\<lambda>item. addCandidate (memberCandidate poolID item)) items candidates)))
     (sortedSetValues poolIDs) candidates"

definition monitorCandidate :: "string \<Rightarrow> Monitor \<Rightarrow> auditCandidate" where
  "monitorCandidate observedParent item = (candidateOf auditServiceOctavia auditTypeMonitor (mo_ID item))
     \<lparr>ac_projectID := mo_ProjectID item, ac_provisioningStatus := mo_ProvisioningStatus item, ac_tags := mo_Tags item,
      ac_reportedParents := set (mo_Pools item), ac_observedParents := singletonStringSet observedParent\<rparr>"

definition listAuditMonitors :: "('w, 'p) gophercloud \<Rightarrow> ScopedListOpts \<Rightarrow> string \<Rightarrow> auditCandidateSet \<Rightarrow> ('w, auditCandidateSet) io" where
  "listAuditMonitors g opts observedParent candidates =
     bindIO (mapErrIO Wrapf (ListMonitors g opts)) (\<lambda>items.
     returnIO (fold (\<lambda>item. addCandidate (monitorCandidate observedParent item)) items candidates))"

definition collectAuditMonitors :: "('w, 'p) gophercloud \<Rightarrow> Scanner \<Rightarrow> string list \<Rightarrow> string set \<Rightarrow> auditCandidateSet \<Rightarrow>
    ('w, auditCandidateSet) io" where
  "collectAuditMonitors g p scopeTags poolIDs candidates =
     bindIO (listAuditMonitors g (taggedOpts p scopeTags) [] candidates)
       (foldIO (\<lambda>poolID. listAuditMonitors g (belowOpts p poolID) poolID) (sortedSetValues poolIDs))"

definition ruleCandidate :: "string \<Rightarrow> L7Rule \<Rightarrow> auditCandidate" where
  "ruleCandidate policyID item = (candidateOf auditServiceOctavia auditTypeL7Rule (ru_ID item))
     \<lparr>ac_projectID := ru_ProjectID item, ac_provisioningStatus := ru_ProvisioningStatus item, ac_tags := ru_Tags item,
      ac_observedParents := singletonStringSet policyID\<rparr>"

definition collectAuditRules :: "('w, 'p) gophercloud \<Rightarrow> Scanner \<Rightarrow> string set \<Rightarrow> auditCandidateSet \<Rightarrow> ('w, auditCandidateSet) io" where
  "collectAuditRules g p policyIDs candidates =
     foldIO (\<lambda>policyID candidates.
       bindIO (mapErrIO Wrapf (ListRules g policyID (sn_projectID p))) (\<lambda>items.
       returnIO (fold (\<lambda>item. addCandidate (ruleCandidate policyID item)) items candidates)))
     (sortedSetValues policyIDs) candidates"

definition descriptionPrefix :: string where
  "descriptionPrefix = ''gateway-api-openstack; identity-sha256=''"

definition auditDescriptionMatchesRecord :: "string \<Rightarrow> preparedAuditRecord list \<Rightarrow> bool" where
  "auditDescriptionMatchesRecord d records =
     (if \<not> HasPrefix d descriptionPrefix then False
      else list_ex (\<lambda>r. MatchesGatewayDescription (pr_identity r) d RoleFloatingIP) records)"

definition loadBalancersByPort :: "auditCandidateSet \<Rightarrow> string set \<Rightarrow> string \<Rightarrow> string set" where
  "loadBalancersByPort candidates loadBalancerIDs portID =
     ac_id ` {c \<in> snd ` set candidates. ac_resourceType c = auditTypeLoadBalancer \<and> ac_portID c \<noteq> [] \<and>
       ac_id c \<in> loadBalancerIDs \<and> ac_portID c = portID}"

definition floatingIPCandidate :: "string set \<Rightarrow> FloatingIP \<Rightarrow> auditCandidate" where
  "floatingIPCandidate parents item = (candidateOf auditServiceNeutron auditTypeFloatingIP (fi_ID item))
     \<lparr>ac_projectID := fi_ProjectID item, ac_tenantID := fi_TenantID item, ac_description := fi_Description item,
      ac_portID := fi_PortID item, ac_reportedParents := parents\<rparr>"

definition collectAuditFloatingIPs :: "('w, 'p) gophercloud \<Rightarrow> Scanner \<Rightarrow> string set \<Rightarrow> preparedAuditRecord list \<Rightarrow>
    auditCandidateSet \<Rightarrow> ('w, auditCandidateSet) io" where
  "collectAuditFloatingIPs g p loadBalancerIDs records candidates =
     (let byPort = loadBalancersByPort candidates loadBalancerIDs in
      bindIO (mapErrIO Wrapf (ListFloatingIPs g \<lparr>fil_PortID = [], fil_ProjectID = sn_projectID p\<rparr>)) (\<lambda>items.
      returnIO (fold (\<lambda>item candidates.
        if byPort (fi_PortID item) = {} \<and> \<not> auditDescriptionMatchesRecord (fi_Description item) records then candidates
        else addCandidate (floatingIPCandidate (byPort (fi_PortID item)) item) candidates) items candidates)))"

end
