(* ===== verification/Classification.thy ===== *)
theory Classification
  imports Scanner
begin

text \<open>
  internal/cloud/openstack/inventory/classification.go: what the audit can prove about each candidate. A
  candidate is compared with the durable Kubernetes bindings, then duplicates are marked and a finding
  about a parent is passed on to the children that would otherwise be matched. Scan (scanner.go) composes
  the collection of the theory Scanner with it.
\<close>

section \<open>Reasons\<close>

definition auditReasonExactBinding :: string where "auditReasonExactBinding = ''ExactBinding''"
definition auditReasonNoBinding :: string where "auditReasonNoBinding = ''NoBinding''"
definition auditReasonStaleUID :: string where "auditReasonStaleUID = ''StaleUID''"
definition auditReasonInvalidIdentity :: string where "auditReasonInvalidIdentity = ''InvalidIdentity''"
definition auditReasonProjectMismatch :: string where "auditReasonProjectMismatch = ''ProjectMismatch''"
definition auditReasonProjectNotReported :: string where "auditReasonProjectNotReported = ''ProjectNotReported''"
definition auditReasonParentMismatch :: string where "auditReasonParentMismatch = ''ParentMismatch''"
definition auditReasonMissingParent :: string where "auditReasonMissingParent = ''MissingParent''"
definition auditReasonMissingGatewayBinding :: string where "auditReasonMissingGatewayBinding = ''MissingGatewayBinding''"
definition auditReasonObservationChanged :: string where "auditReasonObservationChanged = ''ObservationChanged''"
definition auditReasonParentNotObserved :: string where "auditReasonParentNotObserved = ''ParentNotObserved''"
definition auditReasonDuplicateIdentity :: string where "auditReasonDuplicateIdentity = ''DuplicateIdentity''"
definition auditReasonDetachedFloatingIP :: string where "auditReasonDetachedFloatingIP = ''DetachedFloatingIP''"
definition auditReasonUnattributed :: string where "auditReasonUnattributed = ''UnattributedDescription''"
definition auditReasonProviderNotReported :: string where "auditReasonProviderNotReported = ''ProviderNotReported''"
definition auditReasonMissingBackendPool :: string where "auditReasonMissingBackendPool = ''MissingBackendPool''"
definition auditReasonParentConflict :: string where "auditReasonParentConflict = ''ParentConflict''"
definition auditReasonParentUnresolved :: string where "auditReasonParentUnresolved = ''ParentUnresolved''"

record classifiedAuditCandidate =
  cc_candidate :: auditCandidate
  cc_finding :: ResourceFinding

definition auditFinding :: "ResourceFinding \<Rightarrow> string \<Rightarrow> string \<Rightarrow> string \<Rightarrow> ResourceFinding" where
  "auditFinding finding disposition reason message =
     finding\<lparr>rf_Disposition := disposition, rf_Reason := reason, rf_Message := message\<rparr>"

section \<open>Identity tags\<close>

definition tagValues :: "string list \<Rightarrow> string \<Rightarrow> string list" where
  "tagValues tags wantedKey =
     List.map_filter (\<lambda>v. case parseIdentityTag v of Some (key, encodedValue) \<Rightarrow>
       if key = wantedKey then Some encodedValue else None | None \<Rightarrow> None) tags"

text \<open>The last value found is returned with the flag that says whether it was the only one.\<close>

definition singleAuditTagValue :: "string list \<Rightarrow> string \<Rightarrow> string \<times> bool" where
  "singleAuditTagValue tags wantedKey = (let found = tagValues tags wantedKey in
     (if found = [] then [] else last found, length found = 1))"

definition validAuditEncodedValue :: "string \<Rightarrow> bool" where
  "validAuditEncodedValue v =
     (if HasPrefix v ''sha256-''
      then (case DecodeString (TrimPrefix v ''sha256-'') of None \<Rightarrow> False | Some decoded \<Rightarrow> length decoded = 32)
      else DecodeString v \<noteq> None)"

definition gatewayKeys :: "string list" where
  "gatewayKeys = [''managed'', ''cluster'', ''controller'', ''project'', ''namespace'', ''name'', ''uid'']"

definition routeKeys :: "string list" where
  "routeKeys = [''route-namespace'', ''route-name'', ''route-uid'']"

text \<open>The errors of this file become the message of a finding; they are their texts.\<close>

definition checkIdentityKey :: "string list \<Rightarrow> string \<Rightarrow> string + unit" where
  "checkIdentityKey tags key = (case singleAuditTagValue tags key of (v, ok) \<Rightarrow>
     if \<not> ok \<or> v = [] then Inl (''resource has a missing or duplicate '' @ key @ '' identity tag'')
     else if key = ''managed'' \<and> v \<noteq> ''true'' then Inl ''resource managed identity tag is not true''
     else if key \<noteq> ''managed'' \<and> \<not> validAuditEncodedValue v
     then Inl (''resource has an invalid '' @ key @ '' identity tag'')
     else Inr ())"

definition validateAuditIdentityTags :: "string list \<Rightarrow> bool \<Rightarrow> string + unit" where
  "validateAuditIdentityTags tags routeScoped =
     foreachE (checkIdentityKey tags) (gatewayKeys @ [''role''] @ (if routeScoped then routeKeys else []))"

definition auditCandidateRole :: "string \<Rightarrow> string list \<Rightarrow> string + (string \<times> bool)" where
  "auditCandidateRole resourceType tags = (case singleAuditTagValue tags ''role'' of (encodedRole, ok) \<Rightarrow>
     if \<not> ok then Inl ''resource has a missing or duplicate role identity tag''
     else case DecodeString encodedRole of
        None \<Rightarrow> Inl ''resource has an invalid role identity tag''
      | Some role \<Rightarrow>
          let (valid, routeScoped) =
            (if resourceType = auditTypeLoadBalancer then (role = RoleLoadBalancer, False)
             else if resourceType = auditTypeListener then (role = RoleListener, False)
             else if resourceType = auditTypePool then (role = RolePool, True)
             else if resourceType = auditTypeMember then (role = RoleMember, True)
             else if resourceType = auditTypeMonitor then (role = RoleMonitor, True)
             else if resourceType = auditTypeL7Policy then (role = RolePolicyExact \<or> role = RolePolicyPrefix, True)
             else if resourceType = auditTypeL7Rule then (role = RoleRulePath \<or> role = RoleRuleHost, True)
             else (False, False)) in
          if \<not> valid then Inl ''resource role does not match its OpenStack type'' else Inr (role, routeScoped))"

definition auditTagValuesEqual :: "string list \<Rightarrow> string list \<Rightarrow> string list \<Rightarrow> bool" where
  "auditTagValuesEqual left right keys = list_all (\<lambda>key.
     case singleAuditTagValue left key of (leftValue, leftOK) \<Rightarrow>
     case singleAuditTagValue right key of (rightValue, rightOK) \<Rightarrow>
       \<not> (\<not> leftOK \<or> \<not> rightOK \<or> leftValue \<noteq> rightValue)) keys"

text \<open>A key that occurs twice has the empty value.\<close>

definition uniqueAuditTags :: "string list \<Rightarrow> string \<Rightarrow> string" where
  "uniqueAuditTags tags key = (case tagValues tags key of [] \<Rightarrow> [] | [v] \<Rightarrow> v | _ \<Rightarrow> [])"

section \<open>Matching records\<close>

definition sameAuditOwnershipIdentity :: "Identity \<Rightarrow> Identity \<Rightarrow> bool" where
  "sameAuditOwnershipIdentity left right \<longleftrightarrow> left\<lparr>ControllerVersion := []\<rparr> = right\<lparr>ControllerVersion := []\<rparr>"

fun appendUniqueAuditRecord :: "preparedAuditRecord list \<Rightarrow> preparedAuditRecord \<Rightarrow> preparedAuditRecord list" where
  "appendUniqueAuditRecord [] candidate = [candidate]"
| "appendUniqueAuditRecord (r # records) candidate =
     (if sameAuditOwnershipIdentity (rec_Identity (pr_record r)) (rec_Identity (pr_record candidate))
      then r\<lparr>pr_record := (pr_record r)\<lparr>rec_Objects :=
        SortObjectReferences (rec_Objects (pr_record r) @ rec_Objects (pr_record candidate))\<rparr>\<rparr> # records
      else r # appendUniqueAuditRecord records candidate)"

type_synonym recordMatches = "preparedAuditRecord list \<times> preparedAuditRecord list \<times> preparedAuditRecord list"

definition matchAuditRecord :: "string list \<Rightarrow> string \<Rightarrow> bool \<Rightarrow> preparedAuditRecord \<Rightarrow> recordMatches \<Rightarrow> recordMatches" where
  "matchAuditRecord tags role routeScoped r acc = (case acc of (exact, discovery, routeGateway) \<Rightarrow>
     if routeScoped then
       if \<not> pr_isRoute r then acc
       else if MatchesRoute (pr_identity r) tags role then (appendUniqueAuditRecord exact r, discovery, routeGateway)
       else if MatchesRouteDiscovery (pr_identity r) tags role then (exact, appendUniqueAuditRecord discovery r, routeGateway)
       else acc
     else if pr_isRoute r then
       if MatchesGateway (pr_identity r) tags role then (exact, discovery, appendUniqueAuditRecord routeGateway r) else acc
     else if MatchesGateway (pr_identity r) tags role then (appendUniqueAuditRecord exact r, discovery, routeGateway)
     else if MatchesGatewayDiscovery (pr_identity r) tags role then (exact, appendUniqueAuditRecord discovery r, routeGateway)
     else acc)"

definition matchingAuditRecords :: "preparedAuditRecord list \<Rightarrow> string list \<Rightarrow> string \<Rightarrow> bool \<Rightarrow> recordMatches" where
  "matchingAuditRecords records tags role routeScoped = fold (matchAuditRecord tags role routeScoped) records ([], [], [])"

definition auditObjects :: "preparedAuditRecord list \<Rightarrow> ObjectReference list" where
  "auditObjects records = SortObjectReferences (concat (map (\<lambda>r. rec_Objects (pr_record r)) records))"

definition onlyAuditUIDsDiffer :: "string list \<Rightarrow> preparedAuditRecord \<Rightarrow> string \<Rightarrow> bool \<Rightarrow> bool" where
  "onlyAuditUIDsDiffer tags r role routeScoped =
     (case (if routeScoped then RouteTags (pr_identity r) role else GatewayTags (pr_identity r) role) of
        Inl _ \<Rightarrow> False
      | Inr expectedTags \<Rightarrow>
          let differences = filter (\<lambda>key. uniqueAuditTags tags key \<noteq> uniqueAuditTags expectedTags key)
            (gatewayKeys @ [''role''] @ routeKeys) in
          if differences = [] then False
          else list_all (\<lambda>key. key = ''uid'' \<or> key = ''route-uid'') differences)"

section \<open>Parents\<close>

definition auditCandidateParent :: "auditCandidate \<Rightarrow> string \<times> string" where
  "auditCandidateParent candidate =
     (let reported = sortedSetValues (ac_reportedParents candidate);
          observed = sortedSetValues (ac_observedParents candidate) in
      if length reported > 1 \<or> length observed > 1
      then ([], ''Resource reports more than one parent in a graph that requires one'')
      else if length reported = 1 \<and> length observed = 1 \<and> reported ! 0 \<noteq> observed ! 0
      then ([], ''Resource reports a different parent from the collection in which it was observed'')
      else if length observed = 1 then (observed ! 0, [])
      else if length reported = 1 then (reported ! 0, [])
      else ([], []))"

definition auditResourceNeedsParent :: "string \<Rightarrow> bool" where
  "auditResourceNeedsParent t \<longleftrightarrow> t \<in> {auditTypeListener, auditTypePool, auditTypeMember, auditTypeMonitor,
     auditTypeL7Policy, auditTypeL7Rule}"

definition auditResourceRequiresParentObservation :: "string \<Rightarrow> bool" where
  "auditResourceRequiresParentObservation t \<longleftrightarrow> t \<in> {auditTypeListener, auditTypePool, auditTypeMonitor}"

definition auditParentType :: "string \<Rightarrow> string" where
  "auditParentType t =
     (if t \<in> {auditTypeListener, auditTypePool, auditTypeFloatingIP} then auditTypeLoadBalancer
      else if t \<in> {auditTypeMember, auditTypeMonitor} then auditTypePool
      else if t = auditTypeL7Policy then auditTypeListener
      else if t = auditTypeL7Rule then auditTypeL7Policy
      else [])"

definition findCandidate :: "auditCandidateSet \<Rightarrow> string \<Rightarrow> string \<Rightarrow> auditCandidate option" where
  "findCandidate candidates t i = find (\<lambda>c. ac_resourceType c = t \<and> ac_id c = i) (map snd candidates)"

definition auditCandidateExists :: "auditCandidateSet \<Rightarrow> string \<Rightarrow> string \<Rightarrow> bool" where
  "auditCandidateExists candidates t i \<longleftrightarrow> findCandidate candidates t i \<noteq> None"

definition auditParentCandidate :: "auditCandidateSet \<Rightarrow> string \<Rightarrow> string \<Rightarrow> auditCandidate option" where
  "auditParentCandidate candidates childType parentID = findCandidate candidates (auditParentType childType) parentID"

definition auditParentExists :: "auditCandidateSet \<Rightarrow> string \<Rightarrow> string \<Rightarrow> bool" where
  "auditParentExists candidates childType parentID \<longleftrightarrow> auditParentCandidate candidates childType parentID \<noteq> None"

definition validateAuditParentIdentity :: "auditCandidateSet \<Rightarrow> auditCandidate \<Rightarrow> string \<Rightarrow> string + unit" where
  "validateAuditParentIdentity candidates child parentID =
     (case auditParentCandidate candidates (ac_resourceType child) parentID of
        None \<Rightarrow> Inr ()
      | Some parent \<Rightarrow>
          guardE (auditTagValuesEqual (ac_tags child) (ac_tags parent)
            (gatewayKeys @ (if ac_resourceType child \<in> {auditTypeMember, auditTypeMonitor, auditTypeL7Rule} then routeKeys else [])))
            ''resource identity does not match its scoped parent'')"

definition validateAuditPolicyPool :: "auditCandidateSet \<Rightarrow> auditCandidate \<Rightarrow> string \<Rightarrow> string + unit" where
  "validateAuditPolicyPool candidates policy poolID = (case findCandidate candidates auditTypePool poolID of
      None \<Rightarrow> Inr ()
    | Some pool \<Rightarrow> guardE (auditTagValuesEqual (ac_tags policy) (ac_tags pool) (gatewayKeys @ routeKeys))
        ''policy identity does not match its redirect pool'')"

section \<open>Floating IPs\<close>

definition floatingIPMatch :: "string \<Rightarrow> preparedAuditRecord \<Rightarrow> preparedAuditRecord list \<times> preparedAuditRecord list \<Rightarrow>
    preparedAuditRecord list \<times> preparedAuditRecord list" where
  "floatingIPMatch d r acc = (case acc of (exactGateway, routeGateway) \<Rightarrow>
     if \<not> MatchesGatewayDescription (pr_identity r) d RoleFloatingIP then acc
     else if pr_isRoute r then (exactGateway, appendUniqueAuditRecord routeGateway r)
     else (appendUniqueAuditRecord exactGateway r, routeGateway))"

definition parentMatches :: "auditCandidateSet \<Rightarrow> string \<Rightarrow> preparedAuditRecord \<Rightarrow> bool" where
  "parentMatches candidates parentID r = (case auditParentCandidate candidates auditTypeFloatingIP parentID of
      None \<Rightarrow> False
    | Some parent \<Rightarrow> MatchesGateway (pr_identity r) (ac_tags parent) RoleLoadBalancer)"

definition classifyAuditFloatingIP :: "auditCandidateSet \<Rightarrow> auditCandidate \<Rightarrow> ResourceFinding \<Rightarrow> preparedAuditRecord list \<Rightarrow>
    ResourceFinding" where
  "classifyAuditFloatingIP candidates candidate finding records =
     (if \<not> HasPrefix (ac_description candidate) descriptionPrefix
      then auditFinding finding DispositionOwnershipConflict auditReasonInvalidIdentity
        ''Floating IP attached to a managed VIP port does not carry the expected ownership description''
      else case fold (floatingIPMatch (ac_description candidate)) records ([], []) of (exactGateway, routeGateway) \<Rightarrow>
      let parentID = fst (auditCandidateParent candidate) in
      if length exactGateway > 1
      then auditFinding (finding\<lparr>rf_Objects := auditObjects exactGateway\<rparr>) DispositionOwnershipConflict auditReasonInvalidIdentity
        ''More than one durable Gateway binding matches this Floating IP''
      else if length exactGateway = 1 \<and> parentID = []
      then auditFinding (finding\<lparr>rf_Objects := auditObjects exactGateway\<rparr>) DispositionUnresolved auditReasonDetachedFloatingIP
        ''Floating IP matches a Gateway binding but is detached from the scoped load balancer VIP port''
      else if length exactGateway = 1
      then (let finding = finding\<lparr>rf_Objects := auditObjects exactGateway\<rparr> in
        if \<not> auditParentExists candidates auditTypeFloatingIP parentID
        then auditFinding finding DispositionUnresolved auditReasonMissingParent
          ''Floating IP matches a binding, but its load balancer is not present in the scoped inventory''
        else if \<not> parentMatches candidates parentID (exactGateway ! 0)
        then auditFinding finding DispositionOwnershipConflict auditReasonParentMismatch
          ''Floating IP binding does not match the identity of its attached load balancer''
        else auditFinding finding DispositionMatched auditReasonExactBinding
          ''Floating IP matches a current Gateway ownership binding and VIP port'')
      else if routeGateway \<noteq> []
      then (let finding = finding\<lparr>rf_Objects := auditObjects routeGateway\<rparr> in
        if parentID \<noteq> [] \<and> \<not> parentMatches candidates parentID (routeGateway ! 0)
        then auditFinding finding DispositionOwnershipConflict auditReasonParentMismatch
          ''Floating IP route binding does not match the identity of its attached load balancer''
        else auditFinding finding DispositionUnresolved auditReasonMissingGatewayBinding
          ''An HTTPRoute binding refers to this Floating IP identity, but no durable Gateway binding matches it'')
      else if parentID \<noteq> []
      then auditFinding finding DispositionUnresolved auditReasonUnattributed
        ''Floating IP is attached to a scoped load balancer, but its description digest does not match a current Gateway binding''
      else auditFinding finding DispositionUnresolved auditReasonUnattributed
        ''Detached Floating IP has a controller description whose project, cluster, and object identity cannot be recovered'')"

section \<open>One candidate\<close>

text \<open>The verdict of the records that match; the last check asks for the parent of a matched resource.\<close>

definition bindingVerdict :: "auditCandidateSet \<Rightarrow> auditCandidate \<Rightarrow> string \<Rightarrow> string \<Rightarrow> bool \<Rightarrow> recordMatches \<Rightarrow> ResourceFinding \<Rightarrow>
    ResourceFinding" where
  "bindingVerdict candidates candidate parentID role routeScoped matches finding =
     (case matches of (exact, discovery, routeGateway) \<Rightarrow>
      if length exact > 1
      then auditFinding (finding\<lparr>rf_Objects := auditObjects exact\<rparr>) DispositionOwnershipConflict auditReasonInvalidIdentity
        ''More than one durable Kubernetes binding exactly matches this resource''
      else if length exact = 1
      then (let finding = finding\<lparr>rf_Objects := auditObjects exact\<rparr> in
        if auditResourceNeedsParent (ac_resourceType candidate) \<and>
           (parentID = [] \<or> \<not> auditParentExists candidates (ac_resourceType candidate) parentID)
        then auditFinding finding DispositionUnresolved auditReasonMissingParent
          ''Resource matches a binding, but its expected parent is not present in the scoped inventory''
        else auditFinding finding DispositionMatched auditReasonExactBinding
          ''Resource matches a current Kubernetes ownership binding'')
      else if \<not> routeScoped \<and> routeGateway \<noteq> []
      then auditFinding (finding\<lparr>rf_Objects := auditObjects routeGateway\<rparr>) DispositionUnresolved auditReasonMissingGatewayBinding
        ''An HTTPRoute binding refers to this Gateway identity, but no durable Gateway binding matches it''
      else if length discovery > 1
      then auditFinding (finding\<lparr>rf_Objects := auditObjects discovery\<rparr>) DispositionOwnershipConflict auditReasonInvalidIdentity
        ''Stable Kubernetes object names match more than one durable binding''
      else if length discovery = 1
      then (let finding = finding\<lparr>rf_Objects := auditObjects discovery\<rparr> in
        if onlyAuditUIDsDiffer (ac_tags candidate) (discovery ! 0) role routeScoped
        then auditFinding finding DispositionStaleUID auditReasonStaleUID
          ''Resource names match a current binding, but a Kubernetes UID differs''
        else auditFinding finding DispositionOwnershipConflict auditReasonInvalidIdentity
          ''Stable object names match a current binding, but another immutable identity field differs'')
      else auditFinding finding DispositionOrphanCandidate auditReasonNoBinding
        ''Resource belongs to this controller scope, but no current durable binding matches it'')"

text \<open>The checks on the graph around a candidate whose own tags are well-formed.\<close>

definition graphVerdict :: "auditCandidateSet \<Rightarrow> auditCandidate \<Rightarrow> string \<Rightarrow> (string \<times> string \<times> string) option" where
  "graphVerdict candidates candidate parentID =
     (let t = ac_resourceType candidate in
      if t = auditTypeLoadBalancer \<and> ac_provider candidate = []
      then Some (DispositionUnresolved, auditReasonProviderNotReported, ''OpenStack did not report the load balancer provider'')
      else if t = auditTypeLoadBalancer \<and> ac_provider candidate \<noteq> ''amphora''
      then Some (DispositionOwnershipConflict, auditReasonInvalidIdentity, ''Managed load balancer does not use the Amphora provider'')
      else if parentID \<noteq> [] \<and> auditResourceRequiresParentObservation t \<and> auditParentExists candidates t parentID \<and>
        ac_observedParents candidate = {}
      then Some (DispositionUnresolved, auditReasonParentNotObserved,
        ''Resource reported a scoped parent but was absent from the parent-scoped observation'')
      else case (if parentID \<noteq> [] then validateAuditParentIdentity candidates candidate parentID else Inr ()) of
         Inl message \<Rightarrow> Some (DispositionOwnershipConflict, auditReasonParentMismatch, message)
       | Inr _ \<Rightarrow>
           if t \<noteq> auditTypeL7Policy then None
           else if ac_redirectPoolID candidate = []
           then Some (DispositionUnresolved, auditReasonMissingBackendPool, ''L7 policy does not report its redirect pool'')
           else if \<not> auditCandidateExists candidates auditTypePool (ac_redirectPoolID candidate)
           then Some (DispositionUnresolved, auditReasonMissingBackendPool,
             ''L7 policy redirect pool is not present in the scoped inventory'')
           else case validateAuditPolicyPool candidates candidate (ac_redirectPoolID candidate) of
              Inl message \<Rightarrow> Some (DispositionOwnershipConflict, auditReasonParentMismatch, message)
            | Inr _ \<Rightarrow> None)"

definition classifyTagged :: "auditCandidateSet \<Rightarrow> auditCandidate \<Rightarrow> preparedAuditRecord list \<Rightarrow> string \<Rightarrow> string \<Rightarrow> ResourceFinding \<Rightarrow>
    ResourceFinding" where
  "classifyTagged candidates candidate records scopeProjectID parentID finding =
     (case auditCandidateRole (ac_resourceType candidate) (ac_tags candidate) of
        Inl message \<Rightarrow> auditFinding finding DispositionOwnershipConflict auditReasonInvalidIdentity message
      | Inr (role, routeScoped) \<Rightarrow>
          let finding = finding\<lparr>rf_Role := role\<rparr> in
          case validateAuditIdentityTags (ac_tags candidate) routeScoped of
             Inl message \<Rightarrow> auditFinding finding DispositionOwnershipConflict auditReasonInvalidIdentity message
           | Inr _ \<Rightarrow>
               if \<not> containsAll (ac_tags candidate) [tag ''project'' scopeProjectID]
               then auditFinding finding DispositionOwnershipConflict auditReasonProjectMismatch
                 ''Resource identity tag does not match the authenticated audit project''
               else case matchingAuditRecords records (ac_tags candidate) role routeScoped of (exact, discovery, routeGateway) \<Rightarrow>
               let finding = (if exact \<noteq> [] then finding\<lparr>rf_Objects := auditObjects exact\<rparr>
                   else if routeGateway \<noteq> [] then finding\<lparr>rf_Objects := auditObjects routeGateway\<rparr>
                   else if discovery \<noteq> [] then finding\<lparr>rf_Objects := auditObjects discovery\<rparr>
                   else finding) in
               case graphVerdict candidates candidate parentID of
                  Some (disposition, reason, message) \<Rightarrow> auditFinding finding disposition reason message
                | None \<Rightarrow> bindingVerdict candidates candidate parentID role routeScoped (exact, discovery, routeGateway) finding)"

definition classifyAuditCandidate :: "auditCandidateSet \<Rightarrow> preparedAuditRecord list \<Rightarrow> string list \<Rightarrow> string \<Rightarrow> auditCandidate \<Rightarrow>
    ResourceFinding" where
  "classifyAuditCandidate candidates records scopeTags scopeProjectID candidate =
     (case auditCandidateParent candidate of (parentID, parentReason) \<Rightarrow>
      let finding = \<lparr>rf_Service = ac_service candidate, rf_Type = ac_resourceType candidate, rf_ID = ac_id candidate,
            rf_ParentID = parentID, rf_Role = [], rf_ProvisioningStatus = ac_provisioningStatus candidate,
            rf_Disposition = [], rf_Reason = [], rf_Message = [], rf_Objects = []\<rparr>;
          resourceProjectID = candidateProject candidate in
      if TrimSpace (ac_id candidate) = []
      then auditFinding finding DispositionOwnershipConflict auditReasonInvalidIdentity ''OpenStack resource does not report an ID''
      else if ac_observationChanged candidate
      then auditFinding finding DispositionUnresolved auditReasonObservationChanged
        ''Resource identity or relationship changed while the inventory was being collected''
      else if resourceProjectID = []
      then auditFinding finding DispositionUnresolved auditReasonProjectNotReported ''OpenStack did not report the resource project''
      else if resourceProjectID \<noteq> scopeProjectID
      then auditFinding finding DispositionOwnershipConflict auditReasonProjectMismatch
        ''Resource project differs from the authenticated audit project''
      else if parentReason \<noteq> []
      then auditFinding finding DispositionOwnershipConflict auditReasonParentMismatch parentReason
      else if ac_resourceType candidate = auditTypeFloatingIP
      then classifyAuditFloatingIP candidates candidate (finding\<lparr>rf_Role := RoleFloatingIP\<rparr>) records
      else if \<not> containsAll (ac_tags candidate) scopeTags
      then auditFinding finding DispositionOwnershipConflict auditReasonInvalidIdentity
        ''Resource was discovered in a managed graph but does not carry the controller scope identity''
      else classifyTagged candidates candidate records scopeProjectID parentID finding)"

section \<open>All candidates\<close>

definition auditResourceOrder :: "string \<Rightarrow> nat" where
  "auditResourceOrder t =
     (if t = auditTypeLoadBalancer then 0 else if t = auditTypeListener then 1 else if t = auditTypePool then 2
      else if t = auditTypeMember then 3 else if t = auditTypeMonitor then 4 else if t = auditTypeL7Policy then 5
      else if t = auditTypeL7Rule then 6 else if t = auditTypeFloatingIP then 7 else 99)"

definition auditCardinalityKey :: "classifiedAuditCandidate \<Rightarrow> string" where
  "auditCardinalityKey item = (let candidate = cc_candidate item; t = ac_resourceType candidate in
     if rf_Disposition (cc_finding item) = DispositionOwnershipConflict \<or> t = auditTypeMember then []
     else if t = auditTypeFloatingIP then
       (case Cut (ac_description candidate) ''; controller-version='' of (d, _, _) \<Rightarrow>
          if d = [] then [] else t @ zeroByte @ d)
     else
       let stableKeys = [''cluster'', ''controller'', ''namespace'', ''name'', ''role''] @
         (if t \<in> {auditTypePool, auditTypeMonitor, auditTypeL7Policy, auditTypeL7Rule} then [''route-namespace'', ''route-name''] else [])
       in if \<not> list_all (\<lambda>key. snd (singleAuditTagValue (ac_tags candidate) key)) stableKeys then []
       else Join ([t] @ map (\<lambda>key. fst (singleAuditTagValue (ac_tags candidate) key)) stableKeys @
         (if t = auditTypeL7Rule then [rf_ParentID (cc_finding item)] else [])) zeroByte)"

definition markDuplicateAuditIdentities :: "classifiedAuditCandidate list \<Rightarrow> classifiedAuditCandidate list" where
  "markDuplicateAuditIdentities classified =
     map (\<lambda>item. let key = auditCardinalityKey item in
       if key = [] \<or> length (filter (\<lambda>other. auditCardinalityKey other = key) classified) < 2 then item
       else item\<lparr>cc_finding := auditFinding (cc_finding item) DispositionOwnershipConflict auditReasonDuplicateIdentity
         ''More than one OpenStack resource has the same logical controller identity''\<rparr>) classified"

text \<open>The findings by type and identifier; the map holds the last finding of a key.\<close>

definition byResource :: "classifiedAuditCandidate list \<Rightarrow> string \<Rightarrow> ResourceFinding option" where
  "byResource classified key =
     map_option cc_finding (find (\<lambda>item. rf_Type (cc_finding item) @ zeroByte @ rf_ID (cc_finding item) = key) (rev classified))"

definition parentReferences :: "classifiedAuditCandidate \<Rightarrow> (string \<times> string) list" where
  "parentReferences item =
     (auditParentType (rf_Type (cc_finding item)), rf_ParentID (cc_finding item)) #
     (if rf_Type (cc_finding item) = auditTypeL7Policy then [(auditTypePool, ac_redirectPoolID (cc_candidate item))] else [])"

fun inheritFinding :: "classifiedAuditCandidate list \<Rightarrow> ResourceFinding \<Rightarrow> (string \<times> string) list \<Rightarrow> ResourceFinding" where
  "inheritFinding classified finding [] = finding"
| "inheritFinding classified finding ((t, i) # refs) =
     (if t = [] \<or> i = [] then inheritFinding classified finding refs
      else case byResource classified (t @ zeroByte @ i) of
         None \<Rightarrow> inheritFinding classified finding refs
       | Some parent \<Rightarrow>
           if rf_Disposition parent = DispositionMatched then inheritFinding classified finding refs
           else if rf_Disposition parent = DispositionOwnershipConflict
           then auditFinding finding DispositionOwnershipConflict auditReasonParentConflict ''Resource parent has an ownership conflict''
           else auditFinding finding DispositionUnresolved auditReasonParentUnresolved
             ''Resource parent is not fully matched to a current binding'')"

definition propagateItem :: "nat \<Rightarrow> nat \<Rightarrow> classifiedAuditCandidate list \<Rightarrow> classifiedAuditCandidate list" where
  "propagateItem order index classified = (let item = classified ! index in
     if auditResourceOrder (rf_Type (cc_finding item)) \<noteq> order \<or> rf_Disposition (cc_finding item) \<noteq> DispositionMatched
     then classified
     else classified[index := item\<lparr>cc_finding := inheritFinding classified (cc_finding item) (parentReferences item)\<rparr>])"

definition propagateAuditParentFindings :: "classifiedAuditCandidate list \<Rightarrow> classifiedAuditCandidate list" where
  "propagateAuditParentFindings classified =
     fold (\<lambda>order. fold (propagateItem order) [0..<length classified])
       [1..<auditResourceOrder auditTypeFloatingIP + 1] classified"

text \<open>The text that the format verb \<^verbatim>\<open>%02d\<close> prints.\<close>

definition twoDigits :: "nat \<Rightarrow> string" where
  "twoDigits n = (if n < 10 then ''0'' else []) @ itoa n"

definition classifiedOrder :: "classifiedAuditCandidate \<Rightarrow> string" where
  "classifiedOrder item = (let finding = cc_finding item in
     rf_Service finding @ zeroByte @ twoDigits (auditResourceOrder (rf_Type finding)) @ zeroByte @ rf_ParentID finding @
     zeroByte @ rf_ID finding)"

definition classifyAuditCandidates :: "auditCandidateSet \<Rightarrow> preparedAuditRecord list \<Rightarrow> string list \<Rightarrow> string \<Rightarrow> ResourceFinding list" where
  "classifyAuditCandidates candidates records scopeTags scopeProjectID =
     map (\<lambda>item. (cc_finding item)\<lparr>rf_Objects := SortObjectReferences (rf_Objects (cc_finding item))\<rparr>)
       (sort_key classifiedOrder (propagateAuditParentFindings (markDuplicateAuditIdentities
         (map (\<lambda>(_, candidate). \<lparr>cc_candidate = candidate,
           cc_finding = classifyAuditCandidate candidates records scopeTags scopeProjectID candidate\<rparr>) candidates))))"

section \<open>The scan\<close>

definition Scan :: "('w, 'p) gophercloud \<Rightarrow> Scanner \<Rightarrow> Scope \<Rightarrow> OwnershipRecord list \<Rightarrow> ('w, Inventory) io" where
  "Scan g p scope records = mapErrIO Classify (
     bindIO (liftE (mapErr (NewProviderError TerminalValidation) (ValidateScope scope))) (\<lambda>_.
     bindIO (liftE (guardE (sc_OpenStackProjectID scope = sn_projectID p) conflict)) (\<lambda>_.
     bindIO (liftE (guardE (\<not> (\<not> sn_octavia p \<or> \<not> sn_neutron p)) (NewProviderError TerminalValidation Errorf))) (\<lambda>_.
     bindIO (liftE (mapErr (NewProviderError TerminalValidation) (prepareAuditRecords scope records))) (\<lambda>preparedRecords.
     let scopeTags = ScopeTags (sc_ClusterID scope) (sc_ControllerName scope) in
     bindIO (collectAuditLoadBalancers g p scopeTags []) (\<lambda>candidates.
     let loadBalancerIDs = scopedIDs candidates auditTypeLoadBalancer scopeTags (sn_projectID p) in
     bindIO (collectAuditListeners g p scopeTags loadBalancerIDs candidates) (\<lambda>candidates.
     bindIO (collectAuditPools g p scopeTags loadBalancerIDs candidates) (\<lambda>candidates.
     let listenerIDs = scopedIDs candidates auditTypeListener scopeTags (sn_projectID p);
         poolIDs = scopedIDs candidates auditTypePool scopeTags (sn_projectID p) in
     bindIO (collectAuditPolicies g p scopeTags listenerIDs candidates) (\<lambda>candidates.
     bindIO (collectAuditMembers g p poolIDs candidates) (\<lambda>candidates.
     bindIO (collectAuditMonitors g p scopeTags poolIDs candidates) (\<lambda>candidates.
     let policyIDs = scopedIDs candidates auditTypeL7Policy scopeTags (sn_projectID p) in
     bindIO (collectAuditRules g p policyIDs candidates) (\<lambda>candidates.
     bindIO (collectAuditFloatingIPs g p loadBalancerIDs preparedRecords candidates) (\<lambda>candidates.
     returnIO \<lparr>inv_Resources = classifyAuditCandidates candidates preparedRecords scopeTags (sc_OpenStackProjectID scope),
       inv_Limitations = auditInventoryLimitations\<rparr>)))))))))))))"

end
