(* ===== verification/InventoryFacts.thy ===== *)
theory InventoryFacts
  imports Classification
begin

text \<open>
  What the ownership inventory promises: the scan only reads and accounts for every resource that was
  listed; a matched resource has exactly one binding and lies below matched parents; an orphan candidate
  has no binding at all; and a report can be built from the result of a scan.
\<close>

section \<open>Candidates account for what was listed\<close>

definition resourceKinds :: "(string \<times> string) set" where
  "resourceKinds = {(auditServiceOctavia, auditTypeLoadBalancer), (auditServiceOctavia, auditTypeListener),
     (auditServiceOctavia, auditTypePool), (auditServiceOctavia, auditTypeMember), (auditServiceOctavia, auditTypeMonitor),
     (auditServiceOctavia, auditTypeL7Policy), (auditServiceOctavia, auditTypeL7Rule), (auditServiceNeutron, auditTypeFloatingIP)}"

definition resourceOf :: "auditCandidate \<Rightarrow> string \<times> string" where
  "resourceOf c = (ac_resourceType c, ac_id c)"

definition wellTyped :: "auditCandidate \<Rightarrow> bool" where
  "wellTyped c \<longleftrightarrow> (ac_service c, ac_resourceType c) \<in> resourceKinds"

definition candidateSet :: "auditCandidateSet \<Rightarrow> bool" where
  "candidateSet s \<longleftrightarrow> distinct (map fst s) \<and> (\<forall>(key, c) \<in> set s. key = candidateKey c \<and> wellTyped c)"

definition resourcesOf :: "auditCandidateSet \<Rightarrow> (string \<times> string) set" where
  "resourcesOf s = (\<lambda>(_, c). resourceOf c) ` set s"

lemma zero_split:
  assumes "CHR 0x00 \<notin> set a" "CHR 0x00 \<notin> set b" "a @ zeroByte @ x = b @ zeroByte @ y"
  shows "a = b \<and> x = y"
  using assms
proof (induction a arbitrary: b)
  case Nil
  then show ?case by (cases b) (auto simp: zeroByte_def)
next
  case (Cons c a)
  then show ?case by (cases b) (auto simp: zeroByte_def)
qed

lemma kinds_zero: "(service, t) \<in> resourceKinds \<Longrightarrow> CHR 0x00 \<notin> set service \<and> CHR 0x00 \<notin> set t"
  by (auto simp: resourceKinds_def audit_type_defs auditServiceOctavia_def auditServiceNeutron_def)

lemma candidateKey_inj:
  assumes "wellTyped c" "wellTyped d" "candidateKey c = candidateKey d"
  shows "ac_service c = ac_service d \<and> resourceOf c = resourceOf d"
proof -
  note zeros = kinds_zero [OF assms(1) [unfolded wellTyped_def]] kinds_zero [OF assms(2) [unfolded wellTyped_def]]
  then have "ac_service c = ac_service d \<and> ac_resourceType c @ zeroByte @ ac_id c = ac_resourceType d @ zeroByte @ ac_id d"
    using assms(3) unfolding candidateKey_def by (intro zero_split) auto
  then show ?thesis using zeros zero_split unfolding resourceOf_def by blast
qed

lemma mergeCandidate_same [simp]:
  "candidateKey (mergeCandidate c d) = candidateKey c" "wellTyped (mergeCandidate c d) = wellTyped c"
  "resourceOf (mergeCandidate c d) = resourceOf c"
  by (simp_all add: mergeCandidate_def candidateKey_def wellTyped_def resourceOf_def)

lemma tags_same [simp]:
  "candidateKey (c\<lparr>ac_tags := ts\<rparr>) = candidateKey c" "wellTyped (c\<lparr>ac_tags := ts\<rparr>) = wellTyped c"
  "resourceOf (c\<lparr>ac_tags := ts\<rparr>) = resourceOf c"
  by (simp_all add: candidateKey_def wellTyped_def resourceOf_def)

lemma set_AList_update:
  "distinct (map fst s) \<Longrightarrow> set (AList.update k v s) = insert (k, v) {(k', v') \<in> set s. k' \<noteq> k}"
  by (induction s) (auto simp: image_iff)

lemma addCandidate_set:
  assumes "candidateSet s" "wellTyped c"
  shows "candidateSet (addCandidate c s) \<and> resourcesOf (addCandidate c s) = insert (resourceOf c) (resourcesOf s)"
proof -
  let ?c = "c\<lparr>ac_tags := sort (ac_tags c)\<rparr>"
  let ?k = "candidateKey c"
  define v where "v = (case map_of s ?k of None \<Rightarrow> ?c | Some existing \<Rightarrow> mergeCandidate existing ?c)"
  have keys: "key = candidateKey d \<and> wellTyped d" if "(key, d) \<in> set s" for key d
    using assms(1) that by (auto simp: candidateSet_def)
  have v: "candidateKey v = ?k \<and> wellTyped v \<and> resourceOf v = resourceOf c"
  proof (cases "map_of s ?k")
    case None
    then show ?thesis using assms(2) by (simp add: v_def)
  next
    case (Some existing)
    then have "?k = candidateKey existing \<and> wellTyped existing" using keys map_of_SomeD by metis
    then show ?thesis using Some candidateKey_inj [of existing c] assms(2) by (simp add: v_def)
  qed
  have add: "addCandidate c s = AList.update ?k v s" by (simp add: addCandidate_def Let_def v_def)
  have distinct: "distinct (map fst s)" using assms(1) by (simp add: candidateSet_def)
  have elems: "set (addCandidate c s) = insert (?k, v) {(k', v') \<in> set s. k' \<noteq> ?k}"
    unfolding add by (rule set_AList_update [OF distinct])
  have "candidateSet (addCandidate c s)"
    unfolding candidateSet_def elems using v keys by (auto simp: add distinct distinct_update)
  moreover have "resourceOf d = resourceOf c" if "(?k, d) \<in> set s" for d
    using keys [OF that] candidateKey_inj [of d c] assms(2) by auto
  then have "resourcesOf (addCandidate c s) = insert (resourceOf c) (resourcesOf s)"
    unfolding resourcesOf_def elems using v by (auto simp: image_iff) (metis (no_types, lifting) case_prodI2 prod.inject)+
  ultimately show ?thesis by simp
qed

lemma fold_addCandidate:
  assumes "candidateSet s" "\<And>x. wellTyped (f x)" "\<And>x. resourceOf (f x) = (t, name x)"
  shows "candidateSet (fold (\<lambda>x s. if skip x then s else addCandidate (f x) s) xs s) \<and>
    resourcesOf (fold (\<lambda>x s. if skip x then s else addCandidate (f x) s) xs s) =
      (\<lambda>x. (t, name x)) ` {x \<in> set xs. \<not> skip x} \<union> resourcesOf s"
  using assms(1)
proof (induction xs arbitrary: s)
  case (Cons x xs)
  then show ?case
    using Cons.IH [OF Cons.prems] Cons.IH [of "addCandidate (f x) s"] addCandidate_set [OF Cons.prems assms(2) [of x]] assms(3)
    by (cases "skip x") auto
qed simp

lemmas fold_addAll = fold_addCandidate [where skip = "\<lambda>_. False", simplified]

lemmas candidate_defs = loadBalancerCandidate_def listenerCandidate_def poolCandidate_def policyCandidate_def
  memberCandidate_def monitorCandidate_def ruleCandidate_def floatingIPCandidate_def

lemma candidates_typed [simp]:
  "wellTyped (loadBalancerCandidate a)" "wellTyped (listenerCandidate x b)" "wellTyped (poolCandidate x c)"
  "wellTyped (policyCandidate ids d)" "wellTyped (memberCandidate x e)" "wellTyped (monitorCandidate x f)"
  "wellTyped (ruleCandidate x h)" "wellTyped (floatingIPCandidate ids i)"
  by (simp_all add: candidate_defs candidateOf_def wellTyped_def resourceKinds_def)

lemma candidates_resource [simp]:
  "resourceOf (loadBalancerCandidate a) = (auditTypeLoadBalancer, lb_ID a)"
  "resourceOf (listenerCandidate x b) = (auditTypeListener, li_ID b)"
  "resourceOf (poolCandidate x c) = (auditTypePool, po_ID c)"
  "resourceOf (policyCandidate ids d) = (auditTypeL7Policy, pl_ID d)"
  "resourceOf (memberCandidate x e) = (auditTypeMember, me_ID e)"
  "resourceOf (monitorCandidate x f) = (auditTypeMonitor, mo_ID f)"
  "resourceOf (ruleCandidate x h) = (auditTypeL7Rule, ru_ID h)"
  "resourceOf (floatingIPCandidate ids i) = (auditTypeFloatingIP, fi_ID i)"
  by (simp_all add: candidate_defs candidateOf_def resourceOf_def)

text \<open>
  The resources that an answer describes, and those among them that the inventory must contain: policies
  and Floating IPs are listed for the whole project and may belong to others.
\<close>

fun describes :: "event \<Rightarrow> (string \<times> string) set" where
  "describes (EvListLoadBalancers _ (Inr items)) = (\<lambda>x. (auditTypeLoadBalancer, lb_ID x)) ` set items"
| "describes (EvListListeners _ (Inr items)) = (\<lambda>x. (auditTypeListener, li_ID x)) ` set items"
| "describes (EvListPools _ (Inr items)) = (\<lambda>x. (auditTypePool, po_ID x)) ` set items"
| "describes (EvListMembers _ _ (Inr items)) = (\<lambda>x. (auditTypeMember, me_ID x)) ` set items"
| "describes (EvListMonitors _ (Inr items)) = (\<lambda>x. (auditTypeMonitor, mo_ID x)) ` set items"
| "describes (EvListPolicies _ (Inr items)) = (\<lambda>x. (auditTypeL7Policy, pl_ID x)) ` set items"
| "describes (EvListRules _ _ (Inr items)) = (\<lambda>x. (auditTypeL7Rule, ru_ID x)) ` set items"
| "describes (EvListFloatingIPs _ (Inr items)) = (\<lambda>x. (auditTypeFloatingIP, fi_ID x)) ` set items"
| "describes _ = {}"

definition described :: "event list \<Rightarrow> (string \<times> string) set" where
  "described es = (\<Union>e \<in> set es. describes e)"

definition required :: "event list \<Rightarrow> (string \<times> string) set" where
  "required es = {(t, i) \<in> described es. t \<noteq> auditTypeL7Policy \<and> t \<noteq> auditTypeFloatingIP}"

definition accounts :: "event list \<Rightarrow> auditCandidateSet \<Rightarrow> bool" where
  "accounts es s \<longleftrightarrow> candidateSet s \<and> required es \<subseteq> resourcesOf s \<and> resourcesOf s \<subseteq> described es"

lemma described_simps [simp]:
  "described [] = {}" "described (e # es) = describes e \<union> described es" "described (xs @ ys) = described xs \<union> described ys"
  by (auto simp: described_def)

lemma required_append [simp]: "required (xs @ ys) = required xs \<union> required ys"
  by (auto simp: required_def)

lemma types_distinct [simp]:
  "auditTypeL7Policy \<noteq> auditTypeFloatingIP" "auditTypeFloatingIP \<noteq> auditTypeL7Policy"
  "auditTypeLoadBalancer \<noteq> auditTypeL7Policy" "auditTypeLoadBalancer \<noteq> auditTypeFloatingIP"
  "auditTypeListener \<noteq> auditTypeL7Policy" "auditTypeListener \<noteq> auditTypeFloatingIP"
  "auditTypePool \<noteq> auditTypeL7Policy" "auditTypePool \<noteq> auditTypeFloatingIP"
  "auditTypeMember \<noteq> auditTypeL7Policy" "auditTypeMember \<noteq> auditTypeFloatingIP"
  "auditTypeMonitor \<noteq> auditTypeL7Policy" "auditTypeMonitor \<noteq> auditTypeFloatingIP"
  "auditTypeL7Rule \<noteq> auditTypeL7Policy" "auditTypeL7Rule \<noteq> auditTypeFloatingIP"
  by (simp_all add: audit_type_defs)

text \<open>Adding the resources of one answer keeps the account.\<close>

lemma accounts_add:
  assumes "accounts es s" "\<And>x. wellTyped (f x)" "\<And>x. resourceOf (f x) = (t, name x)"
    "describes e = (\<lambda>x. (t, name x)) ` set items" "(\<exists>x \<in> set items. skip x) \<Longrightarrow> t = auditTypeL7Policy \<or> t = auditTypeFloatingIP"
  shows "accounts (es @ [e]) (fold (\<lambda>x s. if skip x then s else addCandidate (f x) s) items s)"
proof -
  have "candidateSet s" using assms(1) by (simp add: accounts_def)
  note fold = fold_addCandidate [where f = f and name = name and t = t and xs = items and skip = skip, OF this assms(2,3)]
  show ?thesis
    using fold assms(1,4,5) unfolding accounts_def required_def by (auto simp: subset_iff)
qed

lemmas accounts_addAll = accounts_add [where skip = "\<lambda>_. False", simplified]

section \<open>The scan only reads\<close>

text \<open>Every collector keeps the account of what has been listed so far.\<close>

lemma listAuditListeners_accounts:
  "accounts es s \<Longrightarrow> inspects (listAuditListeners g opts parent s) (\<lambda>s' es'. accounts (es @ es') s')"
  unfolding listAuditListeners_def by (intro effects) (auto intro!: accounts_addAll)

lemma listAuditPools_accounts:
  "accounts es s \<Longrightarrow> inspects (listAuditPools g opts parent s) (\<lambda>s' es'. accounts (es @ es') s')"
  unfolding listAuditPools_def by (intro effects) (auto intro!: accounts_addAll)

lemma listAuditMonitors_accounts:
  "accounts es s \<Longrightarrow> inspects (listAuditMonitors g opts parent s) (\<lambda>s' es'. accounts (es @ es') s')"
  unfolding listAuditMonitors_def by (intro effects) (auto intro!: accounts_addAll)

lemma accounts_foldIO:
  assumes "accounts es s" "\<And>x s es. accounts es s \<Longrightarrow> inspects (f x s) (\<lambda>s' es'. accounts (es @ es') s')"
  shows "inspects (foldIO f xs s) (\<lambda>s' es'. accounts (es @ es') s')"
  by (rule inspects_foldIO [where I = "\<lambda>_ s' es'. accounts (es @ es') s'"])
    (use assms(1) assms(2) [where es = "es @ es'" for es', simplified] in auto)

lemma collect_twice:
  assumes "accounts es s" "\<And>s es. accounts es s \<Longrightarrow> inspects (m s) (\<lambda>s' es'. accounts (es @ es') s')"
    "\<And>x s es. accounts es s \<Longrightarrow> inspects (f x s) (\<lambda>s' es'. accounts (es @ es') s')"
  shows "inspects (bindIO (m s) (foldIO f xs)) (\<lambda>s' es'. accounts (es @ es') s')"
  by (rule inspects_bind [OF assms(2) [OF assms(1)]])
    (use accounts_foldIO [OF _ assms(3)] in \<open>fastforce intro: inspects_weaken\<close>)

lemma collect_accounts:
  assumes "accounts es s"
  shows "inspects (collectAuditLoadBalancers g p scopeTags s) (\<lambda>s' es'. accounts (es @ es') s')"
    and "inspects (collectAuditListeners g p scopeTags ids s) (\<lambda>s' es'. accounts (es @ es') s')"
    and "inspects (collectAuditPools g p scopeTags ids s) (\<lambda>s' es'. accounts (es @ es') s')"
    and "inspects (collectAuditPolicies g p scopeTags ids s) (\<lambda>s' es'. accounts (es @ es') s')"
    and "inspects (collectAuditMembers g p ids s) (\<lambda>s' es'. accounts (es @ es') s')"
    and "inspects (collectAuditMonitors g p scopeTags ids s) (\<lambda>s' es'. accounts (es @ es') s')"
    and "inspects (collectAuditRules g p ids s) (\<lambda>s' es'. accounts (es @ es') s')"
    and "inspects (collectAuditFloatingIPs g p ids records s) (\<lambda>s' es'. accounts (es @ es') s')"
proof -
  show "inspects (collectAuditLoadBalancers g p scopeTags s) (\<lambda>s' es'. accounts (es @ es') s')"
    unfolding collectAuditLoadBalancers_def using assms by (intro effects) (auto intro!: accounts_addAll)
  show "inspects (collectAuditListeners g p scopeTags ids s) (\<lambda>s' es'. accounts (es @ es') s')"
    unfolding collectAuditListeners_def by (intro collect_twice assms listAuditListeners_accounts)
  show "inspects (collectAuditPools g p scopeTags ids s) (\<lambda>s' es'. accounts (es @ es') s')"
    unfolding collectAuditPools_def by (intro collect_twice assms listAuditPools_accounts)
  show "inspects (collectAuditMonitors g p scopeTags ids s) (\<lambda>s' es'. accounts (es @ es') s')"
    unfolding collectAuditMonitors_def by (intro collect_twice assms listAuditMonitors_accounts)
  show "inspects (collectAuditMembers g p ids s) (\<lambda>s' es'. accounts (es @ es') s')"
    unfolding collectAuditMembers_def
    by (rule accounts_foldIO [OF assms], intro effects) (auto intro!: accounts_addAll)
  show "inspects (collectAuditRules g p ids s) (\<lambda>s' es'. accounts (es @ es') s')"
    unfolding collectAuditRules_def
    by (rule accounts_foldIO [OF assms], intro effects) (auto intro!: accounts_addAll)
  show "inspects (collectAuditPolicies g p scopeTags ids s) (\<lambda>s' es'. accounts (es @ es') s')"
    unfolding collectAuditPolicies_def using assms by (intro effects) (auto intro!: accounts_add)
  show "inspects (collectAuditFloatingIPs g p ids records s) (\<lambda>s' es'. accounts (es @ es') s')"
    unfolding collectAuditFloatingIPs_def Let_def using assms by (intro effects) (auto intro!: accounts_add)
qed

subsection \<open>Findings keep the name of their resource\<close>

definition findingName :: "ResourceFinding \<Rightarrow> string \<times> string \<times> string" where
  "findingName f = (rf_Service f, rf_Type f, rf_ID f)"

definition candidateName :: "auditCandidate \<Rightarrow> string \<times> string \<times> string" where
  "candidateName c = (ac_service c, ac_resourceType c, ac_id c)"

lemma findingName_simps [simp]:
  "findingName (auditFinding f disposition reason msg) = findingName f"
  "findingName (f\<lparr>rf_Objects := xs\<rparr>) = findingName f" "findingName (f\<lparr>rf_Role := role\<rparr>) = findingName f"
  by (simp_all add: findingName_def auditFinding_def)

lemma classify_parts_name [simp]:
  "findingName (bindingVerdict candidates candidate parentID role routeScoped matches finding) = findingName finding"
  "findingName (classifyTagged candidates candidate records scopeProjectID parentID finding) = findingName finding"
  "findingName (classifyAuditFloatingIP candidates candidate finding records) = findingName finding"
proof -
  show binding: "findingName (bindingVerdict candidates candidate parentID role routeScoped matches finding) = findingName finding"
    for role routeScoped matches finding
    by (simp add: bindingVerdict_def Let_def split: prod.splits)
  show "findingName (classifyTagged candidates candidate records scopeProjectID parentID finding) = findingName finding"
    by (simp add: classifyTagged_def Let_def binding split: prod.splits sum.splits option.splits)
  show "findingName (classifyAuditFloatingIP candidates candidate finding records) = findingName finding"
    by (simp add: classifyAuditFloatingIP_def Let_def split: prod.splits)
qed

lemma classifyAuditCandidate_name [simp]:
  "findingName (classifyAuditCandidate candidates records scopeTags scopeProjectID c) = candidateName c"
  by (simp add: classifyAuditCandidate_def Let_def split: prod.splits)
    (simp add: findingName_def candidateName_def)

lemma inheritFinding_name [simp]: "findingName (inheritFinding classified finding refs) = findingName finding"
  by (induction classified finding refs rule: inheritFinding.induct) (auto split: option.splits)

text \<open>
  An item is changed in its finding only; the finding keeps its name and parent and becomes a conflict or
  unresolved if it changes.
\<close>

definition sameItem :: "classifiedAuditCandidate \<Rightarrow> classifiedAuditCandidate \<Rightarrow> bool" where
  "sameItem a b \<longleftrightarrow> cc_candidate a = cc_candidate b \<and> findingName (cc_finding a) = findingName (cc_finding b) \<and>
     rf_ParentID (cc_finding a) = rf_ParentID (cc_finding b) \<and>
     (cc_finding b = cc_finding a \<or>
       rf_Disposition (cc_finding b) \<in> {DispositionOwnershipConflict, DispositionUnresolved})"

lemma auditFinding_parent [simp]: "rf_ParentID (auditFinding f disposition reason msg) = rf_ParentID f"
  by (simp add: auditFinding_def)

lemma inheritFinding_parent [simp]: "rf_ParentID (inheritFinding classified finding refs) = rf_ParentID finding"
  by (induction classified finding refs rule: inheritFinding.induct) (auto split: option.splits)

lemma auditFinding_disposition [simp]: "rf_Disposition (auditFinding f disposition reason msg) = disposition"
  by (simp add: auditFinding_def)

lemma inheritFinding_finding:
  "inheritFinding classified finding refs = finding \<or>
     rf_Disposition (inheritFinding classified finding refs) \<in> {DispositionOwnershipConflict, DispositionUnresolved}"
  by (induction classified finding refs rule: inheritFinding.induct) (auto split: option.splits)

lemma sameItem_refl [simp]: "sameItem a a"
  by (simp add: sameItem_def)

lemma sameItem_trans: "sameItem a b \<Longrightarrow> sameItem b c \<Longrightarrow> sameItem a c"
  unfolding sameItem_def by metis

lemma markDuplicate_same: "list_all2 sameItem classified (markDuplicateAuditIdentities classified)"
  by (auto simp: markDuplicateAuditIdentities_def list_all2_map2 list_all2_same sameItem_def Let_def)

lemma inherit_same: "sameItem item (item\<lparr>cc_finding := inheritFinding classified (cc_finding item) refs\<rparr>)"
  using inheritFinding_finding by (simp add: sameItem_def)

lemma propagateItem_same: "list_all2 sameItem classified (propagateItem order index classified)"
  by (cases "index < length classified")
    (auto simp: propagateItem_def Let_def list_all2_conv_all_nth nth_list_update inherit_same)

lemma fold_same:
  assumes "\<And>x s. list_all2 sameItem s (f x s)"
  shows "list_all2 sameItem s (fold f xs s)"
proof (induction xs arbitrary: s)
  case (Cons x xs)
  show ?case using list_all2_trans [OF sameItem_trans assms Cons.IH [of "f x s"]] by simp
qed (simp add: list_all2_same)

lemma propagate_same: "list_all2 sameItem classified (propagateAuditParentFindings classified)"
  unfolding propagateAuditParentFindings_def by (intro fold_same propagateItem_same)

definition settled :: "auditCandidateSet \<Rightarrow> preparedAuditRecord list \<Rightarrow> string list \<Rightarrow> string \<Rightarrow> classifiedAuditCandidate list" where
  "settled candidates records scopeTags scopeProjectID =
     propagateAuditParentFindings (markDuplicateAuditIdentities (map (\<lambda>(_, candidate).
       \<lparr>cc_candidate = candidate, cc_finding = classifyAuditCandidate candidates records scopeTags scopeProjectID candidate\<rparr>) candidates))"

lemma settled_same:
  "list_all2 sameItem (map (\<lambda>(_, candidate). \<lparr>cc_candidate = candidate,
      cc_finding = classifyAuditCandidate candidates records scopeTags scopeProjectID candidate\<rparr>) candidates)
    (settled candidates records scopeTags scopeProjectID)"
  unfolding settled_def by (rule list_all2_trans [OF sameItem_trans markDuplicate_same propagate_same])

lemma map_settled:
  assumes "\<And>a b. sameItem a b \<Longrightarrow> h a = h b"
  shows "map h (settled candidates records scopeTags scopeProjectID) =
    map h (map (\<lambda>(_, candidate). \<lparr>cc_candidate = candidate,
      cc_finding = classifyAuditCandidate candidates records scopeTags scopeProjectID candidate\<rparr>) candidates)"
  using settled_same [of candidates records scopeTags scopeProjectID] assms
  by (auto simp: list_all2_conv_all_nth intro!: nth_equalityI)

lemma settled_names:
  "map (\<lambda>item. findingName (cc_finding item)) (settled candidates records scopeTags scopeProjectID) =
     map (\<lambda>(_, c). candidateName c) candidates"
  by (subst map_settled) (auto simp: sameItem_def comp_def case_prod_beta)

lemma classify_names:
  "mset (map findingName (classifyAuditCandidates candidates records scopeTags scopeProjectID)) =
     mset (map (\<lambda>(_, c). candidateName c) candidates)"
proof -
  have "map findingName (classifyAuditCandidates candidates records scopeTags scopeProjectID) =
      map (\<lambda>item. findingName (cc_finding item)) (sort_key classifiedOrder (settled candidates records scopeTags scopeProjectID))"
    by (simp add: classifyAuditCandidates_def settled_def comp_def)
  then have "mset (map findingName (classifyAuditCandidates candidates records scopeTags scopeProjectID)) =
      mset (map (\<lambda>item. findingName (cc_finding item)) (settled candidates records scopeTags scopeProjectID))"
    by simp
  then show ?thesis unfolding settled_names .
qed

definition inventoryAccounts :: "event list \<Rightarrow> Inventory \<Rightarrow> bool" where
  "inventoryAccounts es inventory \<longleftrightarrow>
     required es \<subseteq> (\<lambda>f. (rf_Type f, rf_ID f)) ` set (inv_Resources inventory) \<and>
     (\<lambda>f. (rf_Type f, rf_ID f)) ` set (inv_Resources inventory) \<subseteq> described es \<and>
     distinct (map resourceKey (inv_Resources inventory))"

lemma classify_accounts:
  assumes "accounts es candidates"
  shows "inventoryAccounts es \<lparr>inv_Resources = classifyAuditCandidates candidates records scopeTags scopeProjectID, inv_Limitations = ls\<rparr>"
proof -
  let ?fs = "classifyAuditCandidates candidates records scopeTags scopeProjectID"
  let ?key = "\<lambda>(service, t, i). service @ zeroByte @ t @ zeroByte @ i"
  have set: "findingName ` set ?fs = (\<lambda>(_, c). candidateName c) ` set candidates"
    using arg_cong [OF classify_names, of set_mset] by simp
  have "(\<lambda>f. (rf_Type f, rf_ID f)) ` set ?fs = snd ` findingName ` set ?fs"
    by (simp add: findingName_def image_image)
  also have "\<dots> = resourcesOf candidates"
    unfolding set resourcesOf_def by (force simp: candidateName_def resourceOf_def)
  finally have resources: "(\<lambda>f. (rf_Type f, rf_ID f)) ` set ?fs = resourcesOf candidates" .
  have "resourceKey = ?key \<circ> findingName" by (simp add: fun_eq_iff resourceKey_def findingName_def)
  then have "mset (map resourceKey ?fs) = image_mset ?key (mset (map findingName ?fs))"
    by (simp add: multiset.map_comp)
  also have "\<dots> = mset (map (\<lambda>(_, c). candidateKey c) candidates)"
    unfolding classify_names
    by (auto simp: candidateName_def candidateKey_def multiset.map_comp comp_def intro!: image_mset_cong)
  also have "map (\<lambda>(_, c). candidateKey c) candidates = map fst candidates"
    using assms by (auto simp: accounts_def candidateSet_def)
  finally have "distinct (map resourceKey ?fs)"
    using assms mset_eq_imp_distinct_iff by (auto simp: accounts_def candidateSet_def simp del: mset_map)
  with assms show ?thesis unfolding inventoryAccounts_def by (simp add: accounts_def resources)
qed

lemma accounts_Nil [simp]: "accounts [] []"
  by (simp add: accounts_def candidateSet_def required_def resourcesOf_def)

lemma bind_accounts:
  assumes "\<And>s es. accounts es s \<Longrightarrow> inspects (m s) (\<lambda>s' es'. accounts (es @ es') s')"
    and "\<And>s' es. accounts es s' \<Longrightarrow> inspects (f s') (\<lambda>y es'. R y (es @ es'))" and "accounts es s"
  shows "inspects (bindIO (m s) f) (\<lambda>y es'. R y (es @ es'))"
  by (rule inspects_bind [OF assms(1) [OF assms(3)]]) (use assms(2) in fastforce)

lemmas collect_rules = bind_accounts [OF collect_accounts(1)] bind_accounts [OF collect_accounts(2)]
  bind_accounts [OF collect_accounts(3)] bind_accounts [OF collect_accounts(4)] bind_accounts [OF collect_accounts(5)]
  bind_accounts [OF collect_accounts(6)] bind_accounts [OF collect_accounts(7)] bind_accounts [OF collect_accounts(8)]

text \<open>What holds of the classification of every account holds of the result of a scan.\<close>

lemma Scan_inspects:
  assumes "\<And>es candidates prepared scopeTags projectID. accounts es candidates \<Longrightarrow>
    Q \<lparr>inv_Resources = classifyAuditCandidates candidates prepared scopeTags projectID, inv_Limitations = auditInventoryLimitations\<rparr> es"
  shows "inspects (Scan g p scope records) Q"
  unfolding Scan_def Let_def
  by (intro inspects_mapErr inspects_bind_lift collect_rules [where es = "[]" and R = Q, simplified]
      collect_rules [where R = Q] inspects_return)
    (auto intro: assms)

text \<open>
  Scan only reads, whatever OpenStack answers, and accounts for what it has read: every load balancer,
  listener, pool, member, health monitor and rule that was listed has a finding, no finding is about a
  resource that was not listed, and no resource has two findings.
\<close>

theorem Scan_readonly:
  "inspects (Scan g p scope records) (\<lambda>inventory es. inventoryAccounts es inventory)"
  by (rule Scan_inspects) (rule classify_accounts)

end
