(* ===== verification/InventorySound.thy ===== *)
theory InventorySound
  imports InventoryFacts
begin

text \<open>
  The verdicts of the inventory are sound: a finding says matched only if exactly one binding owns the
  resource and all its parents are matched, and orphan candidate only if no binding refers to it.
\<close>

section \<open>Records that match\<close>

definition ownershipIdentity :: "preparedAuditRecord \<Rightarrow> Identity" where
  "ownershipIdentity r = (rec_Identity (pr_record r))\<lparr>ControllerVersion := []\<rparr>"

definition uniqueRecords :: "preparedAuditRecord list \<Rightarrow> preparedAuditRecord list" where
  "uniqueRecords rs = fold (\<lambda>r acc. appendUniqueAuditRecord acc r) rs []"

lemma appendUnique_identities:
  "map ownershipIdentity (appendUniqueAuditRecord acc r) =
     (if ownershipIdentity r \<in> ownershipIdentity ` set acc then map ownershipIdentity acc
      else map ownershipIdentity acc @ [ownershipIdentity r])"
  by (induction acc) (auto simp: sameAuditOwnershipIdentity_def ownershipIdentity_def)

lemma uniqueRecords_identities:
  "distinct (map ownershipIdentity (uniqueRecords rs)) \<and>
   set (map ownershipIdentity (uniqueRecords rs)) = ownershipIdentity ` set rs"
proof -
  have "distinct (map ownershipIdentity acc) \<Longrightarrow>
      distinct (map ownershipIdentity (fold (\<lambda>r acc. appendUniqueAuditRecord acc r) rs acc)) \<and>
      set (map ownershipIdentity (fold (\<lambda>r acc. appendUniqueAuditRecord acc r) rs acc)) =
        ownershipIdentity ` set acc \<union> ownershipIdentity ` set rs" for acc
  proof (induction rs arbitrary: acc)
    case (Cons r rs)
    have "distinct (map ownershipIdentity (appendUniqueAuditRecord acc r))"
      and "ownershipIdentity ` set (appendUniqueAuditRecord acc r) = insert (ownershipIdentity r) (ownershipIdentity ` set acc)"
      using Cons.prems appendUnique_identities [of acc r]
      by (auto simp flip: set_map split: if_splits)
    then show ?case using Cons.IH by auto
  qed simp
  from this [of "[]"] show ?thesis by (simp add: uniqueRecords_def)
qed

lemma uniqueRecords_Nil: "uniqueRecords rs = [] \<longleftrightarrow> rs = []"
  using uniqueRecords_identities [of rs] by (metis image_is_empty list.map_disc_iff set_empty)

lemma uniqueRecords_matches: "pr_identity ` set (uniqueRecords rs) \<subseteq> pr_identity ` set rs"
proof -
  have add: "pr_identity ` set (appendUniqueAuditRecord acc r) \<subseteq> insert (pr_identity r) (pr_identity ` set acc)" for acc r
    by (induction acc) auto
  have "pr_identity ` set (fold (\<lambda>r acc. appendUniqueAuditRecord acc r) rs acc) \<subseteq> pr_identity ` set acc \<union> pr_identity ` set rs" for acc
  proof (induction rs arbitrary: acc)
    case (Cons r rs)
    have "pr_identity ` set (fold (\<lambda>r acc. appendUniqueAuditRecord acc r) (r # rs) acc) \<subseteq>
        pr_identity ` set (appendUniqueAuditRecord acc r) \<union> pr_identity ` set rs"
      using Cons.IH [of "appendUniqueAuditRecord acc r"] by simp
    with add [of acc r] show ?case by (simp only: list.set(2) image_insert) blast
  qed simp
  from this [of "[]"] show ?thesis by (simp add: uniqueRecords_def)
qed

definition oneIdentity :: "preparedAuditRecord list \<Rightarrow> bool" where
  "oneIdentity rs \<longleftrightarrow> (\<exists>i. ownershipIdentity ` set rs = {i})"

lemma uniqueRecords_single: "length (uniqueRecords rs) = 1 \<longleftrightarrow> oneIdentity rs"
proof -
  have "length (uniqueRecords rs) = card (ownershipIdentity ` set rs)"
    using uniqueRecords_identities [of rs] by (metis distinct_card length_map)
  then show ?thesis unfolding oneIdentity_def by (simp add: card_1_singleton_iff)
qed

definition exactMatch :: "string list \<Rightarrow> string \<Rightarrow> bool \<Rightarrow> preparedAuditRecord \<Rightarrow> bool" where
  "exactMatch tags role routeScoped r \<longleftrightarrow>
     (if routeScoped then pr_isRoute r \<and> MatchesRoute (pr_identity r) tags role
      else \<not> pr_isRoute r \<and> MatchesGateway (pr_identity r) tags role)"

definition discoveryMatch :: "string list \<Rightarrow> string \<Rightarrow> bool \<Rightarrow> preparedAuditRecord \<Rightarrow> bool" where
  "discoveryMatch tags role routeScoped r \<longleftrightarrow> \<not> exactMatch tags role routeScoped r \<and>
     (if routeScoped then pr_isRoute r \<and> MatchesRouteDiscovery (pr_identity r) tags role
      else \<not> pr_isRoute r \<and> MatchesGatewayDiscovery (pr_identity r) tags role)"

definition routeGatewayMatch :: "string list \<Rightarrow> string \<Rightarrow> bool \<Rightarrow> preparedAuditRecord \<Rightarrow> bool" where
  "routeGatewayMatch tags role routeScoped r \<longleftrightarrow> \<not> routeScoped \<and> pr_isRoute r \<and> MatchesGateway (pr_identity r) tags role"

lemma matchingAuditRecords_eq:
  "matchingAuditRecords records tags role routeScoped =
     (uniqueRecords (filter (exactMatch tags role routeScoped) records),
      uniqueRecords (filter (discoveryMatch tags role routeScoped) records),
      uniqueRecords (filter (routeGatewayMatch tags role routeScoped) records))"
proof -
  let ?u = "\<lambda>acc rs. fold (\<lambda>r acc. appendUniqueAuditRecord acc r) rs acc"
  have step: "matchAuditRecord tags role routeScoped r (a, b, c) =
      (if exactMatch tags role routeScoped r then (appendUniqueAuditRecord a r, b, c)
       else if discoveryMatch tags role routeScoped r then (a, appendUniqueAuditRecord b r, c)
       else if routeGatewayMatch tags role routeScoped r then (a, b, appendUniqueAuditRecord c r)
       else (a, b, c))" for r a b c
    by (auto simp: matchAuditRecord_def exactMatch_def discoveryMatch_def routeGatewayMatch_def)
  have excl: "exactMatch tags role routeScoped r \<Longrightarrow> \<not> discoveryMatch tags role routeScoped r \<and> \<not> routeGatewayMatch tags role routeScoped r"
    "discoveryMatch tags role routeScoped r \<Longrightarrow> \<not> routeGatewayMatch tags role routeScoped r" for r
    by (auto simp: exactMatch_def discoveryMatch_def routeGatewayMatch_def split: if_splits)
  have "fold (matchAuditRecord tags role routeScoped) records (a, b, c) =
      (?u a (filter (exactMatch tags role routeScoped) records), ?u b (filter (discoveryMatch tags role routeScoped) records),
       ?u c (filter (routeGatewayMatch tags role routeScoped) records))" for a b c
  proof (induction records arbitrary: a b c)
    case (Cons r records)
    show ?case unfolding fold_simps comp_apply step using Cons.IH excl [of r] by auto
  qed simp
  from this [of "[]" "[]" "[]"] show ?thesis by (simp add: matchingAuditRecords_def uniqueRecords_def)
qed

section \<open>A matched candidate\<close>

text \<open>
  A candidate with tags is bound when its tags carry the scope and a complete identity for its type, the
  records that match it exactly have one identity, and its parent is a candidate with the same identity.
\<close>

definition parentAgrees :: "auditCandidateSet \<Rightarrow> auditCandidate \<Rightarrow> bool" where
  "parentAgrees candidates c \<longleftrightarrow>
     (\<exists>parent. auditParentCandidate candidates (ac_resourceType c) (fst (auditCandidateParent c)) = Some parent \<and>
        auditTagValuesEqual (ac_tags c) (ac_tags parent) gatewayKeys)"

definition bound :: "auditCandidateSet \<Rightarrow> preparedAuditRecord list \<Rightarrow> string list \<Rightarrow> string \<Rightarrow> auditCandidate \<Rightarrow> bool" where
  "bound candidates records scopeTags scopeProjectID c \<longleftrightarrow> containsAll (ac_tags c) scopeTags \<and>
     containsAll (ac_tags c) [tag ''project'' scopeProjectID] \<and>
     (\<exists>role routeScoped. auditCandidateRole (ac_resourceType c) (ac_tags c) = Inr (role, routeScoped) \<and>
        isOk (validateAuditIdentityTags (ac_tags c) routeScoped) \<and>
        oneIdentity (filter (exactMatch (ac_tags c) role routeScoped) records)) \<and>
     (auditResourceNeedsParent (ac_resourceType c) \<longrightarrow> parentAgrees candidates c)"

text \<open>A Floating IP is bound by its description and by the identity of the load balancer it is attached to.\<close>

definition describedBy :: "string \<Rightarrow> preparedAuditRecord \<Rightarrow> bool" where
  "describedBy d r \<longleftrightarrow> MatchesGatewayDescription (pr_identity r) d RoleFloatingIP \<and> \<not> pr_isRoute r"

definition boundFloatingIP :: "auditCandidateSet \<Rightarrow> preparedAuditRecord list \<Rightarrow> auditCandidate \<Rightarrow> bool" where
  "boundFloatingIP candidates records c \<longleftrightarrow>
     oneIdentity (filter (describedBy (ac_description c)) records) \<and>
     (\<exists>parent r. auditParentCandidate candidates auditTypeFloatingIP (fst (auditCandidateParent c)) = Some parent \<and>
        r \<in> set records \<and> describedBy (ac_description c) r \<and> MatchesGateway (pr_identity r) (ac_tags parent) RoleLoadBalancer)"

definition provenCandidate :: "auditCandidateSet \<Rightarrow> preparedAuditRecord list \<Rightarrow> string list \<Rightarrow> string \<Rightarrow> auditCandidate \<Rightarrow> bool" where
  "provenCandidate candidates records scopeTags scopeProjectID c \<longleftrightarrow> TrimSpace (ac_id c) \<noteq> [] \<and> \<not> ac_observationChanged c \<and>
     candidateProject c = scopeProjectID \<and>
     (if ac_resourceType c = auditTypeFloatingIP then boundFloatingIP candidates records c
      else bound candidates records scopeTags scopeProjectID c)"

text \<open>An unreferenced candidate: complete identity in the scope, and no record matches it in any way.\<close>

definition unreferenced :: "preparedAuditRecord list \<Rightarrow> string list \<Rightarrow> string \<Rightarrow> auditCandidate \<Rightarrow> bool" where
  "unreferenced records scopeTags scopeProjectID c \<longleftrightarrow> candidateProject c = scopeProjectID \<and> containsAll (ac_tags c) scopeTags \<and>
     (\<exists>role routeScoped. auditCandidateRole (ac_resourceType c) (ac_tags c) = Inr (role, routeScoped) \<and>
        isOk (validateAuditIdentityTags (ac_tags c) routeScoped) \<and>
        (\<forall>r \<in> set records. \<not> exactMatch (ac_tags c) role routeScoped r \<and> \<not> discoveryMatch (ac_tags c) role routeScoped r \<and>
           \<not> routeGatewayMatch (ac_tags c) role routeScoped r))"

lemma disposition_simps [simp]:
  "DispositionOwnershipConflict \<noteq> DispositionMatched" "DispositionUnresolved \<noteq> DispositionMatched"
  "DispositionStaleUID \<noteq> DispositionMatched" "DispositionOrphanCandidate \<noteq> DispositionMatched"
  "DispositionOwnershipConflict \<noteq> DispositionOrphanCandidate" "DispositionUnresolved \<noteq> DispositionOrphanCandidate"
  "DispositionStaleUID \<noteq> DispositionOrphanCandidate" "DispositionMatched \<noteq> DispositionOrphanCandidate"
  "DispositionMatched \<noteq> DispositionOwnershipConflict" "DispositionMatched \<noteq> DispositionUnresolved"
  "DispositionOrphanCandidate \<noteq> DispositionOwnershipConflict" "DispositionOrphanCandidate \<noteq> DispositionUnresolved"
  by (simp_all add: auditFinding_def disposition_defs)

lemma graphVerdict_disposition:
  "graphVerdict candidates c parentID = Some (d, reason, msg) \<Longrightarrow> d = DispositionUnresolved \<or> d = DispositionOwnershipConflict"
  by (auto simp: graphVerdict_def Let_def split: if_splits sum.splits)

lemma auditTagValuesEqual_append:
  "auditTagValuesEqual xs ys (ks @ ls) \<longleftrightarrow> auditTagValuesEqual xs ys ks \<and> auditTagValuesEqual xs ys ls"
  by (simp add: auditTagValuesEqual_def)

lemma graphVerdict_parent:
  assumes "graphVerdict candidates c parentID = None" "parentID \<noteq> []"
    "auditParentCandidate candidates (ac_resourceType c) parentID = Some parent"
  shows "auditTagValuesEqual (ac_tags c) (ac_tags parent) gatewayKeys"
proof -
  have "isOk (validateAuditParentIdentity candidates c parentID)"
    using assms(1,2) by (auto simp: graphVerdict_def Let_def split: if_splits sum.splits)
  then show ?thesis
    using assms(3) by (simp add: validateAuditParentIdentity_def isOk_iff go_simps auditTagValuesEqual_append)
qed

lemma bindingVerdict_matched:
  "rf_Disposition (bindingVerdict candidates c parentID role routeScoped (exact, discovery, routeGateway) finding) = DispositionMatched \<Longrightarrow>
     length exact = 1 \<and> (auditResourceNeedsParent (ac_resourceType c) \<longrightarrow>
       parentID \<noteq> [] \<and> auditParentExists candidates (ac_resourceType c) parentID)"
  by (auto simp: bindingVerdict_def Let_def split: if_splits)

lemma bindingVerdict_orphan:
  "rf_Disposition (bindingVerdict candidates c parentID role routeScoped (exact, discovery, routeGateway) finding) = DispositionOrphanCandidate \<Longrightarrow>
     exact = [] \<and> discovery = [] \<and> (routeScoped \<or> routeGateway = [])"
  by (auto simp: bindingVerdict_def Let_def split: if_splits)
    (metis One_nat_def length_0_conv less_Suc0 linorder_neqE_nat)+

lemma classifyTagged_verdict:
  assumes "rf_Disposition (classifyTagged candidates c records scopeProjectID parentID finding) = d"
    "d = DispositionMatched \<or> d = DispositionOrphanCandidate"
  obtains role routeScoped finding' where
    "auditCandidateRole (ac_resourceType c) (ac_tags c) = Inr (role, routeScoped)"
    "isOk (validateAuditIdentityTags (ac_tags c) routeScoped)"
    "containsAll (ac_tags c) [tag ''project'' scopeProjectID]" "graphVerdict candidates c parentID = None"
    "rf_Disposition (bindingVerdict candidates c parentID role routeScoped
       (matchingAuditRecords records (ac_tags c) role routeScoped) finding') = d"
proof -
  obtain role routeScoped where role: "auditCandidateRole (ac_resourceType c) (ac_tags c) = Inr (role, routeScoped)"
    using assms by (auto simp: classifyTagged_def split: sum.splits)
  obtain exact discovery routeGateway where m:
    "matchingAuditRecords records (ac_tags c) role routeScoped = (exact, discovery, routeGateway)"
    using prod_cases3 by blast
  have valid: "isOk (validateAuditIdentityTags (ac_tags c) routeScoped)"
    using assms role by (auto simp: classifyTagged_def Let_def isOk_iff split: sum.splits)
  have project: "containsAll (ac_tags c) [tag ''project'' scopeProjectID]"
    using assms role valid by (auto simp: classifyTagged_def Let_def isOk_iff split: if_splits)
  have graph: "graphVerdict candidates c parentID = None"
  proof (rule ccontr)
    assume "graphVerdict candidates c parentID \<noteq> None"
    then obtain d' reason msg where v: "graphVerdict candidates c parentID = Some (d', reason, msg)" by auto
    then have "rf_Disposition (classifyTagged candidates c records scopeProjectID parentID finding) = d'"
      using role valid project m by (auto simp: classifyTagged_def Let_def isOk_iff)
    then show False using graphVerdict_disposition [OF v] assms by auto
  qed
  show thesis
    by (rule that [OF role valid project graph])
      (use assms(1) role valid project graph m in \<open>auto simp: classifyTagged_def Let_def isOk_iff\<close>)
qed

lemma classifyAuditCandidate_verdict:
  assumes "rf_Disposition (classifyAuditCandidate candidates records scopeTags scopeProjectID c) = d"
    "d = DispositionMatched \<or> d = DispositionOrphanCandidate"
  shows "TrimSpace (ac_id c) \<noteq> [] \<and> \<not> ac_observationChanged c \<and> candidateProject c = scopeProjectID \<and>
    (if ac_resourceType c = auditTypeFloatingIP
     then \<exists>finding. rf_Disposition (classifyAuditFloatingIP candidates c finding records) = d
     else containsAll (ac_tags c) scopeTags \<and>
       (\<exists>finding. rf_Disposition (classifyTagged candidates c records scopeProjectID (fst (auditCandidateParent c)) finding) = d))"
  using assms by (auto simp: classifyAuditCandidate_def Let_def split: prod.splits if_splits)

lemma classify_tagged_matched:
  assumes "rf_Disposition (classifyTagged candidates c records scopeProjectID (fst (auditCandidateParent c)) finding) = DispositionMatched"
    "containsAll (ac_tags c) scopeTags"
  shows "bound candidates records scopeTags scopeProjectID c"
proof -
  obtain role routeScoped finding' where v:
    "auditCandidateRole (ac_resourceType c) (ac_tags c) = Inr (role, routeScoped)"
    "isOk (validateAuditIdentityTags (ac_tags c) routeScoped)"
    "containsAll (ac_tags c) [tag ''project'' scopeProjectID]" "graphVerdict candidates c (fst (auditCandidateParent c)) = None"
    "rf_Disposition (bindingVerdict candidates c (fst (auditCandidateParent c)) role routeScoped
       (matchingAuditRecords records (ac_tags c) role routeScoped) finding') = DispositionMatched"
    using classifyTagged_verdict [OF assms(1)] by auto
  note m = bindingVerdict_matched [OF v(5) [unfolded matchingAuditRecords_eq]]
  have "parentAgrees candidates c" if "auditResourceNeedsParent (ac_resourceType c)"
    using m that graphVerdict_parent [OF v(4)] by (auto simp: parentAgrees_def auditParentExists_def)
  then show ?thesis
    using v(1-3) assms(2) m unfolding bound_def uniqueRecords_single by auto
qed

lemma classify_tagged_orphan:
  assumes "rf_Disposition (classifyTagged candidates c records scopeProjectID (fst (auditCandidateParent c)) finding) = DispositionOrphanCandidate"
    "containsAll (ac_tags c) scopeTags" "candidateProject c = scopeProjectID"
  shows "unreferenced records scopeTags scopeProjectID c"
proof -
  obtain role routeScoped finding' where v:
    "auditCandidateRole (ac_resourceType c) (ac_tags c) = Inr (role, routeScoped)"
    "isOk (validateAuditIdentityTags (ac_tags c) routeScoped)"
    "containsAll (ac_tags c) [tag ''project'' scopeProjectID]" "graphVerdict candidates c (fst (auditCandidateParent c)) = None"
    "rf_Disposition (bindingVerdict candidates c (fst (auditCandidateParent c)) role routeScoped
       (matchingAuditRecords records (ac_tags c) role routeScoped) finding') = DispositionOrphanCandidate"
    using classifyTagged_verdict [OF assms(1)] by auto
  note m = bindingVerdict_orphan [OF v(5) [unfolded matchingAuditRecords_eq]]
  have "\<not> exactMatch (ac_tags c) role routeScoped r \<and> \<not> discoveryMatch (ac_tags c) role routeScoped r \<and>
      \<not> routeGatewayMatch (ac_tags c) role routeScoped r" if "r \<in> set records" for r
    using m that unfolding uniqueRecords_Nil filter_empty_conv by (auto simp: routeGatewayMatch_def)
  then show ?thesis using v(1,2) assms(2,3) unfolding unreferenced_def by blast
qed

lemma floatingIP_fold:
  "fold (floatingIPMatch d) records ([], []) =
     (uniqueRecords (filter (describedBy d) records),
      uniqueRecords (filter (\<lambda>r. MatchesGatewayDescription (pr_identity r) d RoleFloatingIP \<and> pr_isRoute r) records))"
proof -
  let ?u = "\<lambda>acc rs. fold (\<lambda>r acc. appendUniqueAuditRecord acc r) rs acc"
  have "fold (floatingIPMatch d) records (a, b) =
      (?u a (filter (describedBy d) records),
       ?u b (filter (\<lambda>r. MatchesGatewayDescription (pr_identity r) d RoleFloatingIP \<and> pr_isRoute r) records))" for a b
    by (induction records arbitrary: a b) (auto simp: floatingIPMatch_def describedBy_def)
  then show ?thesis by (simp add: uniqueRecords_def)
qed

lemma floatingIP_matched:
  assumes "rf_Disposition (classifyAuditFloatingIP candidates c finding records) = DispositionMatched"
  shows "length (uniqueRecords (filter (describedBy (ac_description c)) records)) = 1 \<and>
    parentMatches candidates (fst (auditCandidateParent c)) (uniqueRecords (filter (describedBy (ac_description c)) records) ! 0)"
  using assms unfolding classifyAuditFloatingIP_def floatingIP_fold by (auto simp: Let_def split: if_splits)

lemma classify_floatingIP:
  "rf_Disposition (classifyAuditFloatingIP candidates c finding records) = DispositionMatched \<Longrightarrow> boundFloatingIP candidates records c"
  "rf_Disposition (classifyAuditFloatingIP candidates c finding records) \<noteq> DispositionOrphanCandidate"
proof -
  let ?rs = "filter (describedBy (ac_description c)) records"
  assume "rf_Disposition (classifyAuditFloatingIP candidates c finding records) = DispositionMatched"
  note m = floatingIP_matched [OF this]
  then have "uniqueRecords ?rs ! 0 \<in> set (uniqueRecords ?rs)" by simp
  then obtain r where "r \<in> set ?rs" "pr_identity r = pr_identity (uniqueRecords ?rs ! 0)"
    using uniqueRecords_matches [of ?rs] by (metis imageE image_eqI subsetD)
  then show "boundFloatingIP candidates records c"
    using m unfolding boundFloatingIP_def uniqueRecords_single by (auto simp: parentMatches_def split: option.splits)
qed (auto simp: classifyAuditFloatingIP_def floatingIP_fold Let_def split: if_splits)

lemma classify_matched:
  assumes "rf_Disposition (classifyAuditCandidate candidates records scopeTags scopeProjectID c) = DispositionMatched"
  shows "provenCandidate candidates records scopeTags scopeProjectID c"
  using classifyAuditCandidate_verdict [OF assms] classify_tagged_matched classify_floatingIP(1)
  unfolding provenCandidate_def by (simp split: if_splits) blast+

lemma classify_orphan:
  assumes "rf_Disposition (classifyAuditCandidate candidates records scopeTags scopeProjectID c) = DispositionOrphanCandidate"
  shows "unreferenced records scopeTags scopeProjectID c"
  using classifyAuditCandidate_verdict [OF assms] classify_tagged_orphan classify_floatingIP(2)
  by (simp split: if_splits) blast

section \<open>Parents of a matched resource\<close>

definition itemOrder :: "classifiedAuditCandidate \<Rightarrow> nat" where
  "itemOrder item = auditResourceOrder (rf_Type (cc_finding item))"

definition isMatched :: "classifiedAuditCandidate \<Rightarrow> bool" where
  "isMatched item \<longleftrightarrow> rf_Disposition (cc_finding item) = DispositionMatched"

text \<open>Every parent of an item that the inventory knows is matched.\<close>

definition referenceMatched :: "classifiedAuditCandidate list \<Rightarrow> string \<times> string \<Rightarrow> bool" where
  "referenceMatched classified = (\<lambda>(t, i). t = [] \<or> i = [] \<or> (case byResource classified (t @ zeroByte @ i) of
      None \<Rightarrow> True | Some parent \<Rightarrow> rf_Disposition parent = DispositionMatched))"

definition parentsMatched :: "classifiedAuditCandidate list \<Rightarrow> classifiedAuditCandidate \<Rightarrow> bool" where
  "parentsMatched classified item \<longleftrightarrow> (\<forall>ref \<in> set (parentReferences item). referenceMatched classified ref)"

definition knownItems :: "classifiedAuditCandidate list \<Rightarrow> bool" where
  "knownItems classified \<longleftrightarrow> (\<forall>item \<in> set classified. rf_Type (cc_finding item) \<in> snd ` resourceKinds)"

lemma inheritFinding_matched:
  "rf_Disposition (inheritFinding classified finding refs) = DispositionMatched \<Longrightarrow> \<forall>ref \<in> set refs. referenceMatched classified ref"
  by (induction classified finding refs rule: inheritFinding.induct)
    (auto simp: referenceMatched_def split: if_splits option.splits)

lemma kinds_types: "snd ` resourceKinds = {auditTypeLoadBalancer, auditTypeListener, auditTypePool, auditTypeMember,
    auditTypeMonitor, auditTypeL7Policy, auditTypeL7Rule, auditTypeFloatingIP}"
  by (auto simp: resourceKinds_def)

lemma parentReferences_order:
  assumes "rf_Type (cc_finding item) \<in> snd ` resourceKinds" "(t, i) \<in> set (parentReferences item)" "t \<noteq> []"
  shows "auditResourceOrder t < itemOrder item \<and> CHR 0x00 \<notin> set t"
  using assms unfolding kinds_types
  by (elim insertE emptyE)
    (simp_all add: parentReferences_def auditParentType_def itemOrder_def auditResourceOrder_def audit_type_defs, auto)

lemma known_order: "t \<in> snd ` resourceKinds \<Longrightarrow> auditResourceOrder t \<le> 7 \<and> CHR 0x00 \<notin> set t"
  unfolding kinds_types by (elim insertE emptyE) (simp_all add: auditResourceOrder_def audit_type_defs)

text \<open>One phase changes items of its own order only.\<close>

definition phaseRel :: "nat \<Rightarrow> classifiedAuditCandidate \<Rightarrow> classifiedAuditCandidate \<Rightarrow> bool" where
  "phaseRel k a b \<longleftrightarrow> sameItem a b \<and> (itemOrder a \<noteq> k \<longrightarrow> a = b)"

lemma phaseRel_trans: "phaseRel k a b \<Longrightarrow> phaseRel k b c \<Longrightarrow> phaseRel k a c"
  unfolding phaseRel_def by (metis sameItem_trans)

lemma phases_trans: "list_all2 (phaseRel k) xs ys \<Longrightarrow> list_all2 (phaseRel k) ys zs \<Longrightarrow> list_all2 (phaseRel k) xs zs"
  using list_all2_trans [of "phaseRel k" "phaseRel k" "phaseRel k"] phaseRel_trans by blast

lemma phaseRel_refl [simp]: "phaseRel k a a"
  by (simp add: phaseRel_def)

lemma propagateItem_phase: "list_all2 (phaseRel k) classified (propagateItem k index classified)"
  by (cases "index < length classified")
    (auto simp: propagateItem_def Let_def list_all2_conv_all_nth nth_list_update phaseRel_def inherit_same itemOrder_def)

lemma find_list_all2:
  "list_all2 R xs ys \<Longrightarrow> (\<And>a b. R a b \<Longrightarrow> P a = P b) \<Longrightarrow> rel_option R (find P xs) (find P ys)"
  by (induction rule: list_all2_induct) auto

lemma byResource_phase:
  assumes "list_all2 (phaseRel k) s s'" "knownItems s" "auditResourceOrder t \<noteq> k" "CHR 0x00 \<notin> set t"
  shows "byResource s (t @ zeroByte @ i) = byResource s' (t @ zeroByte @ i)"
proof -
  let ?P = "\<lambda>item. rf_Type (cc_finding item) @ zeroByte @ rf_ID (cc_finding item) = t @ zeroByte @ i"
  have rel: "rel_option (phaseRel k) (find ?P (rev s)) (find ?P (rev s'))"
    by (rule find_list_all2) (use assms(1) in \<open>auto simp: list_all2_rev phaseRel_def sameItem_def findingName_def\<close>)
  show ?thesis
  proof (cases "find ?P (rev s)")
    case None
    then show ?thesis using rel by (auto simp: byResource_def option.rel_sel)
  next
    case (Some a)
    then have "a \<in> set s" and eq: "?P a" by (auto simp: find_Some_iff) (metis nth_mem length_rev set_rev)
    then have "rf_Type (cc_finding a) = t"
      using zero_split [OF _ assms(4) eq] known_order assms(2) by (auto simp: knownItems_def)
    then have "itemOrder a \<noteq> k" using assms(3) by (simp add: itemOrder_def)
    then show ?thesis using rel Some by (auto simp: byResource_def option_rel_Some1 phaseRel_def)
  qed
qed

lemma sameItem_facts:
  assumes "sameItem a b"
  shows "itemOrder a = itemOrder b" "parentReferences a = parentReferences b" "rf_Type (cc_finding a) = rf_Type (cc_finding b)"
    "cc_candidate a = cc_candidate b" "isMatched b \<Longrightarrow> cc_finding a = cc_finding b"
  using assms by (auto simp: sameItem_def itemOrder_def parentReferences_def findingName_def isMatched_def)

lemma sameItem_known:
  assumes "list_all2 sameItem s s'"
  shows "knownItems s \<longleftrightarrow> knownItems s'"
proof -
  have "map (\<lambda>item. rf_Type (cc_finding item)) s = map (\<lambda>item. rf_Type (cc_finding item)) s'"
    using assms sameItem_facts(3) by (induction rule: list_all2_induct) simp_all
  then have "(\<lambda>item. rf_Type (cc_finding item)) ` set s = (\<lambda>item. rf_Type (cc_finding item)) ` set s'" by (metis set_map)
  moreover have "knownItems s \<longleftrightarrow> (\<lambda>item. rf_Type (cc_finding item)) ` set s \<subseteq> snd ` resourceKinds" for s
    by (auto simp: knownItems_def)
  ultimately show ?thesis by simp
qed

lemma phase_known: "list_all2 (phaseRel k) s s' \<Longrightarrow> knownItems s \<Longrightarrow> knownItems s'"
  using sameItem_known list_all2_mono [of "phaseRel k" s s' sameItem] phaseRel_def by blast

lemma parentsMatched_phase:
  assumes "list_all2 (phaseRel k) s s'" "knownItems s" "rf_Type (cc_finding item) \<in> snd ` resourceKinds" "itemOrder item \<le> k"
  shows "parentsMatched s item \<longleftrightarrow> parentsMatched s' item"
proof -
  have "referenceMatched s (t, i) \<longleftrightarrow> referenceMatched s' (t, i)" if "(t, i) \<in> set (parentReferences item)" for t i
  proof (cases "t = []")
    case False
    with parentReferences_order [OF assms(3) that] assms(4)
    have "byResource s (t @ zeroByte @ i) = byResource s' (t @ zeroByte @ i)"
      by (intro byResource_phase [OF assms(1,2)]) auto
    then show ?thesis by (simp add: referenceMatched_def)
  qed (simp add: referenceMatched_def)
  then show ?thesis unfolding parentsMatched_def by (auto simp: Ball_def)
qed

lemma fold_propagateItem:
  assumes "m \<le> length s" "knownItems s"
  shows "list_all2 (phaseRel k) s (fold (propagateItem k) [0..<m] s) \<and>
    (\<forall>i < m. let s' = fold (propagateItem k) [0..<m] s in
       itemOrder (s' ! i) = k \<and> isMatched (s' ! i) \<longrightarrow> parentsMatched s' (s' ! i))"
  using assms(1)
proof (induction m)
  case 0
  then show ?case by (simp add: list_all2_same)
next
  case (Suc m)
  define s1 where "s1 = fold (propagateItem k) [0..<m] s"
  define s2 where "s2 = propagateItem k m s1"
  have fold: "fold (propagateItem k) [0..<Suc m] s = s2" by (simp add: s1_def s2_def)
  have IH: "list_all2 (phaseRel k) s s1"
    "\<And>i. i < m \<Longrightarrow> itemOrder (s1 ! i) = k \<Longrightarrow> isMatched (s1 ! i) \<Longrightarrow> parentsMatched s1 (s1 ! i)"
    using Suc by (auto simp: s1_def Let_def)
  have step: "list_all2 (phaseRel k) s1 s2" unfolding s2_def by (rule propagateItem_phase)
  have known: "knownItems s1" "knownItems s2" using phase_known IH(1) step assms(2) by blast+
  have len: "m < length s1" "length s2 = length s1"
    using Suc.prems list_all2_lengthD [OF IH(1)] list_all2_lengthD [OF step] by auto
  have transfer: "parentsMatched s1 (s2 ! i) \<Longrightarrow> parentsMatched s2 (s2 ! i)" if "i < Suc m" "itemOrder (s2 ! i) = k" for i
    using parentsMatched_phase [OF step known(1)] known(2) that len by (auto simp: knownItems_def)
  have goal: "parentsMatched s2 (s2 ! i)" if i: "i < Suc m" "itemOrder (s2 ! i) = k" "isMatched (s2 ! i)" for i
  proof (cases "i = m")
    case False
    then have "s2 ! i = s1 ! i" by (simp add: s2_def propagateItem_def Let_def)
    then show ?thesis using IH(2) [of i] transfer [of i] i False by (auto simp: less_Suc_eq)
  next
    case True
    let ?f = "inheritFinding s1 (cc_finding (s1 ! m)) (parentReferences (s1 ! m))"
    have "sameItem (s1 ! m) (s2 ! m)" using step len(1) by (auto simp: list_all2_conv_all_nth phaseRel_def)
    then have "itemOrder (s1 ! m) = k" "isMatched (s1 ! m)" and refs: "parentReferences (s2 ! m) = parentReferences (s1 ! m)"
      using sameItem_facts [of "s1 ! m" "s2 ! m"] i True by (auto simp: isMatched_def)
    then have "s2 ! m = (s1 ! m)\<lparr>cc_finding := ?f\<rparr>"
      using len(1) by (simp add: s2_def propagateItem_def Let_def itemOrder_def isMatched_def)
    then have "parentsMatched s1 (s2 ! m)"
      using inheritFinding_matched [of s1 "cc_finding (s1 ! m)"] i True refs
      by (auto simp: parentsMatched_def isMatched_def)
    then show ?thesis using transfer i True by blast
  qed
  show ?case
    unfolding fold Let_def using phases_trans [OF IH(1) step] goal by blast
qed

definition matchedBelow :: "nat \<Rightarrow> classifiedAuditCandidate list \<Rightarrow> bool" where
  "matchedBelow k s \<longleftrightarrow> knownItems s \<and> (\<forall>item \<in> set s. itemOrder item \<le> k \<and> isMatched item \<longrightarrow> parentsMatched s item)"

lemma matchedBelow_step:
  assumes "matchedBelow k s"
  shows "matchedBelow (Suc k) (fold (propagateItem (Suc k)) [0..<length s] s)"
proof -
  define s' where "s' = fold (propagateItem (Suc k)) [0..<length s] s"
  have known: "knownItems s" using assms by (simp add: matchedBelow_def)
  note phase = fold_propagateItem [OF le_refl this, of "Suc k", folded s'_def, unfolded Let_def]
  note rel = conjunct1 [OF phase]
  have known': "knownItems s'" by (rule phase_known [OF rel known])
  have "parentsMatched s' (s' ! i)" if i: "i < length s'" "itemOrder (s' ! i) \<le> Suc k" "isMatched (s' ! i)" for i
  proof (cases "itemOrder (s' ! i) = Suc k")
    case True
    then show ?thesis using phase i list_all2_lengthD [OF rel] by auto
  next
    case False
    have "phaseRel (Suc k) (s ! i) (s' ! i)" using rel i(1) by (simp add: list_all2_conv_all_nth)
    then have same: "s ! i = s' ! i" using False sameItem_facts(1) unfolding phaseRel_def by metis
    then have "parentsMatched s (s' ! i)"
      using assms i False list_all2_lengthD [OF rel] unfolding matchedBelow_def by (metis le_SucE nth_mem)
    then show ?thesis
      using parentsMatched_phase [OF rel known, of "s' ! i"] i known' by (auto simp: knownItems_def)
  qed
  then show ?thesis
    using known' unfolding s'_def matchedBelow_def by (auto simp: in_set_conv_nth)
qed

lemma matchedBelow_start: "knownItems s \<Longrightarrow> matchedBelow 0 s"
  unfolding matchedBelow_def parentsMatched_def knownItems_def using parentReferences_order
  by (auto simp: referenceMatched_def) (metis not_less0)

lemma matchedBelow_phases:
  "matchedBelow 0 s \<Longrightarrow> matchedBelow k (fold (\<lambda>order. fold (propagateItem order) [0..<length s]) [1..<Suc k] s)
     \<and> length (fold (\<lambda>order. fold (propagateItem order) [0..<length s]) [1..<Suc k] s) = length s"
proof (induction k)
  case (Suc k)
  then show ?case
    using matchedBelow_step [of k "fold (\<lambda>order. fold (propagateItem order) [0..<length s]) [1..<Suc k] s"]
      fold_propagateItem [OF le_refl, of "fold (\<lambda>order. fold (propagateItem order) [0..<length s]) [1..<Suc k] s" "Suc k"]
    by (auto simp: matchedBelow_def dest!: list_all2_lengthD)
qed simp

lemma propagate_matched:
  assumes "knownItems s"
  shows "matchedBelow 7 (propagateAuditParentFindings s)"
  using conjunct1 [OF matchedBelow_phases [OF matchedBelow_start [OF assms], of 7]]
  by (simp add: propagateAuditParentFindings_def auditResourceOrder_def audit_type_defs)

section \<open>The verdicts\<close>

definition candidateItem :: "auditCandidateSet \<Rightarrow> preparedAuditRecord list \<Rightarrow> string list \<Rightarrow> string \<Rightarrow> auditCandidate \<Rightarrow>
    classifiedAuditCandidate" where
  "candidateItem candidates records scopeTags scopeProjectID c =
     \<lparr>cc_candidate = c, cc_finding = classifyAuditCandidate candidates records scopeTags scopeProjectID c\<rparr>"

text \<open>What a finding promises about the resource it names.\<close>

definition verdictHolds :: "auditCandidateSet \<Rightarrow> preparedAuditRecord list \<Rightarrow> string list \<Rightarrow> string \<Rightarrow> ResourceFinding \<Rightarrow> bool" where
  "verdictHolds candidates records scopeTags scopeProjectID f \<longleftrightarrow>
     (\<exists>c \<in> snd ` set candidates. candidateName c = findingName f \<and>
        (if rf_Disposition f = DispositionMatched then provenCandidate candidates records scopeTags scopeProjectID c
         else if rf_Disposition f = DispositionOrphanCandidate then unreferenced records scopeTags scopeProjectID c
         else True))"

lemma settled_items:
  assumes "item \<in> set (settled candidates records scopeTags scopeProjectID)"
  shows "\<exists>c \<in> snd ` set candidates. sameItem (candidateItem candidates records scopeTags scopeProjectID c) item"
proof -
  have rel: "list_all2 (\<lambda>x. sameItem (candidateItem candidates records scopeTags scopeProjectID (snd x))) candidates
      (settled candidates records scopeTags scopeProjectID)"
    using settled_same [of candidates records scopeTags scopeProjectID]
    unfolding candidateItem_def list_all2_map1 by (simp add: case_prod_beta')
  obtain i where "i < length (settled candidates records scopeTags scopeProjectID)"
    "item = settled candidates records scopeTags scopeProjectID ! i"
    using assms by (auto simp: in_set_conv_nth)
  then show ?thesis
    using list_all2_nthD2 [OF rel] list_all2_lengthD [OF rel] by (intro bexI [of _ "snd (candidates ! i)"]) auto
qed

lemma item_verdict:
  assumes "sameItem (candidateItem candidates records scopeTags scopeProjectID c) item" "c \<in> snd ` set candidates"
  shows "verdictHolds candidates records scopeTags scopeProjectID (cc_finding item)"
proof -
  let ?f = "classifyAuditCandidate candidates records scopeTags scopeProjectID c"
  have name: "candidateName c = findingName (cc_finding item)"
    and kept: "cc_finding item = ?f \<or> rf_Disposition (cc_finding item) \<in> {DispositionOwnershipConflict, DispositionUnresolved}"
    using assms(1) by (auto simp: sameItem_def candidateItem_def)
  from kept have "rf_Disposition (cc_finding item) = DispositionMatched \<Longrightarrow> provenCandidate candidates records scopeTags scopeProjectID c"
    "rf_Disposition (cc_finding item) = DispositionOrphanCandidate \<Longrightarrow> unreferenced records scopeTags scopeProjectID c"
    using classify_matched classify_orphan by auto
  with name assms(2) show ?thesis unfolding verdictHolds_def by auto
qed

lemma verdictHolds_objects [simp]:
  "verdictHolds candidates records scopeTags scopeProjectID (f\<lparr>rf_Objects := xs\<rparr>) = verdictHolds candidates records scopeTags scopeProjectID f"
  by (simp add: verdictHolds_def)

text \<open>
  C24. The verdicts of the classification are sound. A finding says matched only if the resource reports an
  identifier and the audited project, did not change during the collection, carries the scope and a
  complete identity, exactly one identity of the current bindings matches it and its parent was observed
  with the same Gateway identity (a Floating IP: its description names exactly one binding, which also owns
  the load balancer it is attached to). A finding says orphan candidate only if the resource carries the scope and a
  complete identity of the project and no current binding matches it in any way.
\<close>

theorem classifyAuditCandidates_sound:
  "list_all (verdictHolds candidates records scopeTags scopeProjectID)
     (classifyAuditCandidates candidates records scopeTags scopeProjectID)"
  unfolding classifyAuditCandidates_def settled_def [symmetric] list_all_iff
  using settled_items item_verdict by fastforce

text \<open>In a list of findings, no matched resource lies below a parent that is not matched.\<close>

definition matchedBelowParents :: "ResourceFinding list \<Rightarrow> bool" where
  "matchedBelowParents fs \<longleftrightarrow> (\<forall>f \<in> set fs. \<forall>parent \<in> set fs.
     rf_Disposition f = DispositionMatched \<and> rf_Type parent = auditParentType (rf_Type f) \<and> rf_ID parent = rf_ParentID f \<and>
     rf_ID parent \<noteq> [] \<longrightarrow> rf_Disposition parent = DispositionMatched)"

lemma kind_service: "(service, t) \<in> resourceKinds \<Longrightarrow> (service', t) \<in> resourceKinds \<Longrightarrow> service = service'"
  by (auto simp: resourceKinds_def audit_type_defs)

lemma settled_typed:
  assumes "candidateSet candidates" "item \<in> set (settled candidates records scopeTags scopeProjectID)"
  shows "(rf_Service (cc_finding item), rf_Type (cc_finding item)) \<in> resourceKinds"
proof -
  obtain c where c: "c \<in> snd ` set candidates" "sameItem (candidateItem candidates records scopeTags scopeProjectID c) item"
    using settled_items [OF assms(2)] by auto
  then have "wellTyped c" "candidateName c = findingName (cc_finding item)"
    using assms(1) by (auto simp: candidateSet_def sameItem_def candidateItem_def)
  then show ?thesis by (simp add: wellTyped_def candidateName_def findingName_def)
qed

lemma settled_distinct:
  assumes "candidateSet candidates"
  shows "distinct (map (\<lambda>item. findingName (cc_finding item)) (settled candidates records scopeTags scopeProjectID))"
proof -
  have "map fst candidates = map (\<lambda>(service, t, i). service @ zeroByte @ t @ zeroByte @ i) (map (\<lambda>(_, c). candidateName c) candidates)"
    using assms by (auto simp: candidateSet_def candidateKey_def candidateName_def)
  moreover have "distinct (map fst candidates)" using assms by (simp add: candidateSet_def)
  ultimately have "distinct (map (\<lambda>(service, t, i). service @ zeroByte @ t @ zeroByte @ i) (map (\<lambda>(_, c). candidateName c) candidates))"
    by (simp only:)
  then show ?thesis unfolding settled_names by (rule conjunct1 [OF iffD1 [OF distinct_map]])
qed

lemma markDuplicate_known:
  assumes "candidateSet candidates"
  shows "knownItems (settled candidates records scopeTags scopeProjectID)"
    and "matchedBelow 7 (settled candidates records scopeTags scopeProjectID)"
proof -
  show known: "knownItems (settled candidates records scopeTags scopeProjectID)"
    unfolding knownItems_def using settled_typed [OF assms] by (metis image_eqI snd_conv)
  let ?s = "markDuplicateAuditIdentities (map (\<lambda>(_, candidate). \<lparr>cc_candidate = candidate,
    cc_finding = classifyAuditCandidate candidates records scopeTags scopeProjectID candidate\<rparr>) candidates)"
  have "list_all2 sameItem ?s (settled candidates records scopeTags scopeProjectID)"
    unfolding settled_def by (rule propagate_same)
  then have "knownItems ?s"
    using known sameItem_known by blast
  then show "matchedBelow 7 (settled candidates records scopeTags scopeProjectID)"
    unfolding settled_def by (rule propagate_matched)
qed

lemma byResource_settled:
  assumes "candidateSet candidates" "item \<in> set (settled candidates records scopeTags scopeProjectID)"
  shows "byResource (settled candidates records scopeTags scopeProjectID)
    (rf_Type (cc_finding item) @ zeroByte @ rf_ID (cc_finding item)) = Some (cc_finding item)"
proof -
  let ?s = "settled candidates records scopeTags scopeProjectID"
  let ?P = "\<lambda>x. rf_Type (cc_finding x) @ zeroByte @ rf_ID (cc_finding x) =
    rf_Type (cc_finding item) @ zeroByte @ rf_ID (cc_finding item)"
  have unique: "x = item" if "x \<in> set ?s" "?P x" for x
  proof -
    note kinds = settled_typed [OF assms(1) that(1)] settled_typed [OF assms]
    have "rf_Type (cc_finding x) = rf_Type (cc_finding item) \<and> rf_ID (cc_finding x) = rf_ID (cc_finding item)"
      using zero_split [OF _ _ that(2)] kinds_zero kinds by blast
    then have "findingName (cc_finding x) = findingName (cc_finding item)"
      using kinds kind_service by (auto simp: findingName_def)
    then show ?thesis
      using settled_distinct [OF assms(1)] that(1) assms(2) by (auto simp: distinct_map dest: inj_onD)
  qed
  obtain x where "find ?P (rev ?s) = Some x" using assms(2) by (cases "find ?P (rev ?s)") (auto simp: find_None_iff)
  moreover from this have "x \<in> set ?s" "?P x" by (auto simp: find_Some_iff) (metis nth_mem length_rev set_rev)
  ultimately show ?thesis using unique [of x] by (simp add: byResource_def)
qed

lemma classify_parents:
  assumes "candidateSet candidates"
  shows "matchedBelowParents (classifyAuditCandidates candidates records scopeTags scopeProjectID)"
proof -
  let ?s = "settled candidates records scopeTags scopeProjectID"
  have "rf_Disposition (cc_finding b) = DispositionMatched"
    if ab: "a \<in> set ?s" "b \<in> set ?s" "isMatched a" "rf_Type (cc_finding b) = auditParentType (rf_Type (cc_finding a))"
      "rf_ID (cc_finding b) = rf_ParentID (cc_finding a)" "rf_ParentID (cc_finding a) \<noteq> []" for a b
  proof -
    have "itemOrder a \<le> 7"
      using known_order [OF image_eqI [OF _ settled_typed [OF assms ab(1)]]] by (simp add: itemOrder_def)
    then have "parentsMatched ?s a" using markDuplicate_known(2) [OF assms] ab(1,3) by (auto simp: matchedBelow_def)
    then have "referenceMatched ?s (rf_Type (cc_finding b), rf_ID (cc_finding b))"
      using ab(4,5) by (simp add: parentsMatched_def parentReferences_def)
    moreover have "rf_Type (cc_finding b) \<noteq> []"
      using settled_typed [OF assms ab(2)] by (auto simp: resourceKinds_def audit_type_defs)
    ultimately show ?thesis
      using ab(5,6) byResource_settled [OF assms ab(2)] by (simp add: referenceMatched_def)
  qed
  note step = this
  let ?strip = "\<lambda>item. (cc_finding item)\<lparr>rf_Objects := SortObjectReferences (rf_Objects (cc_finding item))\<rparr>"
  have set: "set (classifyAuditCandidates candidates records scopeTags scopeProjectID) = ?strip ` set ?s"
    by (simp add: classifyAuditCandidates_def settled_def)
  have strip: "rf_Disposition (?strip a) = rf_Disposition (cc_finding a)" "rf_Type (?strip a) = rf_Type (cc_finding a)"
    "rf_ID (?strip a) = rf_ID (cc_finding a)" "rf_ParentID (?strip a) = rf_ParentID (cc_finding a)" for a
    by simp_all
  show ?thesis
    unfolding matchedBelowParents_def set
    by (intro ballI impI, elim imageE conjE, simp only: strip) (rule step [unfolded isMatched_def], assumption+)
qed

text \<open>
  In the inventory of a scan no matched resource lies below a parent that is not matched: the parent
  findings are settled from the load balancers downwards, so a conflict, a stale or an unresolved finding
  reaches every resource of the graph below it.
\<close>

theorem Scan_parents_matched:
  "inspects (Scan g p scope records) (\<lambda>inventory _. matchedBelowParents (inv_Resources inventory))"
  by (rule Scan_inspects) (simp add: accounts_def classify_parents)

end
