(* ===== verification/TransitionSystems.thy ===== *)
theory TransitionSystems
  imports Prelude
begin

text \<open>
  Transition systems: reachable states, invariants and forward simulations. The concurrent parts of the
  program are step relations on an explicit state; what they promise is proved through the locales below.
\<close>

inductive reachable :: "('s \<Rightarrow> bool) \<Rightarrow> ('s \<Rightarrow> 's \<Rightarrow> bool) \<Rightarrow> 's \<Rightarrow> bool" for initial step where
  reachable_start: "initial s \<Longrightarrow> reachable initial step s"
| reachable_next: "reachable initial step s \<Longrightarrow> step s s' \<Longrightarrow> reachable initial step s'"

definition always :: "('s \<Rightarrow> bool) \<Rightarrow> ('s \<Rightarrow> 's \<Rightarrow> bool) \<Rightarrow> ('s \<Rightarrow> bool) \<Rightarrow> bool" where
  "always initial step P \<longleftrightarrow> (\<forall>s. reachable initial step s \<longrightarrow> P s)"

definition canReach :: "('s \<Rightarrow> 's \<Rightarrow> bool) \<Rightarrow> 's \<Rightarrow> ('s \<Rightarrow> bool) \<Rightarrow> bool" where
  "canReach step s P \<longleftrightarrow> (\<exists>s'. step\<^sup>*\<^sup>* s s' \<and> P s')"

lemma canReach_now: "P s \<Longrightarrow> canReach step s P"
  unfolding canReach_def by blast

lemma canReach_step: "step s s' \<Longrightarrow> canReach step s' P \<Longrightarrow> canReach step s P"
  unfolding canReach_def by (meson converse_rtranclp_into_rtranclp)

lemma canReach_trans: "canReach step s Q \<Longrightarrow> (\<And>s'. Q s' \<Longrightarrow> canReach step s' P) \<Longrightarrow> canReach step s P"
  unfolding canReach_def by (meson rtranclp_trans)

text \<open>A refinement: every reachable state of the program is related to a reachable state of its specification.\<close>

definition refines :: "('s \<Rightarrow> bool) \<Rightarrow> ('s \<Rightarrow> 's \<Rightarrow> bool) \<Rightarrow> ('a \<Rightarrow> bool) \<Rightarrow> ('a \<Rightarrow> 'a \<Rightarrow> bool) \<Rightarrow> ('s \<Rightarrow> 'a \<Rightarrow> bool) \<Rightarrow> bool" where
  "refines initial step specInitial specStep R \<longleftrightarrow>
     (\<forall>s. reachable initial step s \<longrightarrow> (\<exists>a. reachable specInitial specStep a \<and> R s a))"

locale inductive_invariant =
  fixes initial :: "'s \<Rightarrow> bool" and step :: "'s \<Rightarrow> 's \<Rightarrow> bool" and ok :: "'s \<Rightarrow> bool"
  assumes initially: "initial s \<Longrightarrow> ok s"
    and preserved: "ok s \<Longrightarrow> step s s' \<Longrightarrow> ok s'"
begin

lemma reachable_ok: "reachable initial step s \<Longrightarrow> ok s"
  by (induction rule: reachable.induct) (auto intro: initially preserved)

lemma always_weaken: "(\<And>s. ok s \<Longrightarrow> P s) \<Longrightarrow> always initial step P"
  unfolding always_def using reachable_ok by blast

end

locale forward_simulation = inductive_invariant initial step ok
  for initial :: "'s \<Rightarrow> bool" and step :: "'s \<Rightarrow> 's \<Rightarrow> bool" and ok :: "'s \<Rightarrow> bool" +
  fixes specInitial :: "'a \<Rightarrow> bool" and specStep :: "'a \<Rightarrow> 'a \<Rightarrow> bool" and R :: "'s \<Rightarrow> 'a \<Rightarrow> bool"
  assumes related_start: "initial s \<Longrightarrow> \<exists>a. specInitial a \<and> R s a"
    and related_step: "ok s \<Longrightarrow> R s a \<Longrightarrow> step s s' \<Longrightarrow> R s' a \<or> (\<exists>a'. specStep a a' \<and> R s' a')"
begin

lemma simulates: "reachable initial step s \<Longrightarrow> \<exists>a. reachable specInitial specStep a \<and> R s a"
proof (induction rule: reachable.induct)
  case (reachable_start s)
  then show ?case using related_start reachable.reachable_start by metis
next
  case (reachable_next s s')
  then show ?case using related_step [OF reachable_ok] reachable.reachable_next by metis
qed

lemma refinement: "refines initial step specInitial specStep R"
  unfolding refines_def using simulates by blast

end

end
