(* ===== verification/Coordinator.thy ===== *)
theory Coordinator
  imports TransitionSystems
begin

text \<open>
  internal/controller/graph/coordinator.go: the lock that serialises the reconciliation of one Gateway
  graph. The map of entries holds pointers, and an entry is dropped when its last user leaves, so entries
  are addresses into an explicit heap. The channel ready has capacity one; it holds the right to proceed.
  Calls of acquire and of the functions it returns run concurrently: each call has a program counter, and
  a step runs one call up to its next communication: a section under the mutex, a send or a receive.
\<close>

section \<open>The coordinator\<close>

datatype acquireError = errEmptyGatewayUID | ErrCoordinatorRequired | ContextError

record graphCoordinatorEntry =
  en_ready :: nat
  en_refs :: int

record Coordinator =
  co_entries :: "string \<rightharpoonup> nat"
  co_heap :: "nat \<Rightarrow> graphCoordinatorEntry"
  co_fresh :: nat

definition emptyCoordinator :: Coordinator where
  "emptyCoordinator = \<lparr>co_entries = Map.empty, co_heap = (\<lambda>_. \<lparr>en_ready = 0, en_refs = 0\<rparr>), co_fresh = 0\<rparr>"

text \<open>
  A new entry is allocated with one value in its channel; the reference is counted in the same section.
\<close>

definition updateEntry :: "nat \<Rightarrow> (graphCoordinatorEntry \<Rightarrow> graphCoordinatorEntry) \<Rightarrow> Coordinator \<Rightarrow> Coordinator" where
  "updateEntry a f c = c\<lparr>co_heap := (co_heap c)(a := f (co_heap c a))\<rparr>"

definition addReference :: "int \<Rightarrow> graphCoordinatorEntry \<Rightarrow> graphCoordinatorEntry" where
  "addReference n e = e\<lparr>en_refs := en_refs e + n\<rparr>"

definition retain :: "string \<Rightarrow> Coordinator \<Rightarrow> nat \<times> Coordinator" where
  "retain gatewayUID c =
     (case co_entries c gatewayUID of
        Some entry \<Rightarrow> (entry, updateEntry entry (addReference 1) c)
      | None \<Rightarrow> (let entry = co_fresh c;
            c = c\<lparr>co_heap := (co_heap c)(entry := \<lparr>en_ready = 1, en_refs = 0\<rparr>),
              co_entries := (co_entries c)(gatewayUID \<mapsto> entry), co_fresh := Suc entry\<rparr>
          in (entry, updateEntry entry (addReference 1) c)))"

definition releaseReference :: "string \<Rightarrow> nat \<Rightarrow> Coordinator \<Rightarrow> Coordinator" where
  "releaseReference gatewayUID entry c =
     (let c = updateEntry entry (addReference (- 1)) c in
      if en_refs (co_heap c entry) = 0 \<and> co_entries c gatewayUID = Some entry
      then c\<lparr>co_entries := (co_entries c)(gatewayUID := None)\<rparr> else c)"

text \<open>Communication on the channel of capacity one; \<^term>\<open>None\<close> is a call that blocks.\<close>

definition sendReady :: "nat \<Rightarrow> Coordinator \<Rightarrow> Coordinator option" where
  "sendReady entry c =
     (if en_ready (co_heap c entry) < 1 then Some (updateEntry entry (\<lambda>e. e\<lparr>en_ready := en_ready e + 1\<rparr>) c) else None)"

definition receiveReady :: "nat \<Rightarrow> Coordinator \<Rightarrow> Coordinator option" where
  "receiveReady entry c =
     (if en_ready (co_heap c entry) > 0 then Some (updateEntry entry (\<lambda>e. e\<lparr>en_ready := en_ready e - 1\<rparr>) c) else None)"

section \<open>Calls\<close>

text \<open>
  The program counter of a call with the variables that are live there. After Entered the call has passed
  its checks; after Waiting it has a reference and is in the select statement; Received has taken the
  value and still checks its context; GivingBack and Leaving are the ways out with an error; Holding has
  returned the release function; Releasing and Dropping are the two statements of that function.
\<close>

datatype phase =
    Idle
  | Entered string
  | Waiting string nat
  | Received string nat
  | GivingBack string nat
  | Leaving string nat
  | Holding string nat
  | Releasing string nat
  | Dropping string nat
  | Failed acquireError
  | Released

record system =
  sy_coordinator :: Coordinator
  sy_phase :: "nat \<Rightarrow> phase"
  sy_contextDone :: "nat \<Rightarrow> bool"

datatype action = Call bool string | Cancel | Retain | Receive | Abandon | Check | GiveBack | Leave | Release | SendBack | Drop

text \<open>Acquire and the checks of acquire.\<close>

definition Acquire :: "bool \<Rightarrow> string \<Rightarrow> bool \<Rightarrow> phase" where
  "Acquire coordinator gatewayUID contextDone =
     (if \<not> coordinator then Failed ErrCoordinatorRequired
      else if gatewayUID = [] then Failed errEmptyGatewayUID
      else if contextDone then Failed ContextError
      else Entered gatewayUID)"

definition moveTo :: "nat \<Rightarrow> phase \<Rightarrow> Coordinator \<Rightarrow> system \<Rightarrow> system" where
  "moveTo t p c s = s\<lparr>sy_coordinator := c, sy_phase := (sy_phase s)(t := p)\<rparr>"

text \<open>
  One step of call t. Both branches of the select statement may be taken when both are ready. The release
  function runs its body once: a second call finds the phase past Holding and does nothing.
\<close>

fun act :: "action \<Rightarrow> nat \<Rightarrow> system \<Rightarrow> system option" where
  "act (Call coordinator u) t s =
     (if sy_phase s t = Idle then Some (moveTo t (Acquire coordinator u (sy_contextDone s t)) (sy_coordinator s) s) else None)"
| "act Cancel t s = Some (s\<lparr>sy_contextDone := (sy_contextDone s)(t := True)\<rparr>)"
| "act Retain t s = (case sy_phase s t of
     Entered u \<Rightarrow> (case retain u (sy_coordinator s) of (entry, c) \<Rightarrow> Some (moveTo t (Waiting u entry) c s)) | _ \<Rightarrow> None)"
| "act Abandon t s = (case sy_phase s t of
     Waiting u a \<Rightarrow> if sy_contextDone s t then Some (moveTo t (Leaving u a) (sy_coordinator s) s) else None | _ \<Rightarrow> None)"
| "act Receive t s = (case sy_phase s t of
     Waiting u a \<Rightarrow> map_option (\<lambda>c. moveTo t (Received u a) c s) (receiveReady a (sy_coordinator s)) | _ \<Rightarrow> None)"
| "act Check t s = (case sy_phase s t of
     Received u a \<Rightarrow> Some (moveTo t (if sy_contextDone s t then GivingBack u a else Holding u a) (sy_coordinator s) s) | _ \<Rightarrow> None)"
| "act GiveBack t s = (case sy_phase s t of
     GivingBack u a \<Rightarrow> map_option (\<lambda>c. moveTo t (Leaving u a) c s) (sendReady a (sy_coordinator s)) | _ \<Rightarrow> None)"
| "act Leave t s = (case sy_phase s t of
     Leaving u a \<Rightarrow> Some (moveTo t (Failed ContextError) (releaseReference u a (sy_coordinator s)) s) | _ \<Rightarrow> None)"
| "act Release t s = (case sy_phase s t of
     Holding u a \<Rightarrow> Some (moveTo t (Releasing u a) (sy_coordinator s) s) | _ \<Rightarrow> Some s)"
| "act SendBack t s = (case sy_phase s t of
     Releasing u a \<Rightarrow> map_option (\<lambda>c. moveTo t (Dropping u a) c s) (sendReady a (sy_coordinator s)) | _ \<Rightarrow> None)"
| "act Drop t s = (case sy_phase s t of
     Dropping u a \<Rightarrow> Some (moveTo t Released (releaseReference u a (sy_coordinator s)) s) | _ \<Rightarrow> None)"

inductive coordinatorStep :: "system \<Rightarrow> system \<Rightarrow> bool" where
  "act a t s = Some s' \<Longrightarrow> coordinatorStep s s'"

inductive_simps coordinatorStep_iff: "coordinatorStep s s'"

definition coordinatorInitial :: "system \<Rightarrow> bool" where
  "coordinatorInitial s \<longleftrightarrow> sy_coordinator s = emptyCoordinator \<and> sy_phase s = (\<lambda>_. Idle) \<and> sy_contextDone s = (\<lambda>_. False)"

section \<open>The invariant\<close>

text \<open>The entry a call refers to, and the entry whose value it has taken.\<close>

fun refersTo :: "phase \<Rightarrow> (string \<times> nat) option" where
  "refersTo (Waiting u a) = Some (u, a)"
| "refersTo (Received u a) = Some (u, a)"
| "refersTo (GivingBack u a) = Some (u, a)"
| "refersTo (Leaving u a) = Some (u, a)"
| "refersTo (Holding u a) = Some (u, a)"
| "refersTo (Releasing u a) = Some (u, a)"
| "refersTo (Dropping u a) = Some (u, a)"
| "refersTo _ = None"

fun owns :: "phase \<Rightarrow> (string \<times> nat) option" where
  "owns (Received u a) = Some (u, a)"
| "owns (GivingBack u a) = Some (u, a)"
| "owns (Holding u a) = Some (u, a)"
| "owns (Releasing u a) = Some (u, a)"
| "owns _ = None"

lemma owns_refersTo: "owns p = Some x \<Longrightarrow> refersTo p = Some x"
  by (cases p) auto

definition calls :: "(phase \<Rightarrow> (string \<times> nat) option) \<Rightarrow> (nat \<Rightarrow> phase) \<Rightarrow> string \<times> nat \<Rightarrow> nat set" where
  "calls f ph x = {t. f (ph t) = Some x}"

definition active :: "(nat \<Rightarrow> phase) \<Rightarrow> nat set" where
  "active ph = {t. ph t \<noteq> Idle}"

text \<open>
  The entry of a Gateway is alive exactly while calls refer to it and counts them; its value is either in
  the channel or taken by exactly one call.
\<close>

definition entryOK :: "Coordinator \<Rightarrow> (nat \<Rightarrow> phase) \<Rightarrow> string \<Rightarrow> nat \<Rightarrow> bool" where
  "entryOK c ph u a \<longleftrightarrow> a < co_fresh c \<and> en_refs (co_heap c a) = int (card (calls refersTo ph (u, a))) \<and>
     calls refersTo ph (u, a) \<noteq> {} \<and> en_ready (co_heap c a) + card (calls owns ph (u, a)) = 1"

definition coordinatorOK :: "Coordinator \<Rightarrow> (nat \<Rightarrow> phase) \<Rightarrow> bool" where
  "coordinatorOK c ph \<longleftrightarrow> finite (active ph) \<and>
     (\<forall>t u a. refersTo (ph t) = Some (u, a) \<longrightarrow> co_entries c u = Some a) \<and>
     (\<forall>u a. co_entries c u = Some a \<longrightarrow> entryOK c ph u a) \<and>
     (\<forall>u v a. co_entries c u = Some a \<and> co_entries c v = Some a \<longrightarrow> u = v)"

lemma calls_update:
  "calls f (ph(t := p)) x = (if f p = Some x then insert t (calls f ph x) else calls f ph x - {t})"
  by (auto simp: calls_def)

lemma calls_finite: "finite (active ph) \<Longrightarrow> f Idle = None \<Longrightarrow> finite (calls f ph x)"
  by (rule finite_subset [of _ "active ph"]) (auto simp: calls_def active_def)

lemma active_update: "finite (active ph) \<Longrightarrow> finite (active (ph(t := p)))"
  by (rule finite_subset [of _ "insert t (active ph)"]) (auto simp: active_def)

text \<open>Counting the calls when one of them moves.\<close>

lemma card_calls_update:
  assumes "finite (active ph)" "f Idle = None"
  shows "int (card (calls f (ph(t := p)) x)) =
    int (card (calls f ph x)) + of_bool (f p = Some x) - of_bool (f (ph t) = Some x)"
proof -
  have "finite (calls f ph x)" using calls_finite assms by blast
  moreover have "t \<in> calls f ph x \<longleftrightarrow> f (ph t) = Some x" by (simp add: calls_def)
  moreover have "card (calls f ph x) > 0" if "f (ph t) = Some x"
    using that calculation by (auto simp: card_gt_0_iff)
  ultimately show ?thesis
    by (cases "f (ph t) = Some x") (auto simp: calls_update card_Diff_singleton insert_absorb of_nat_diff)
qed

lemma coordinatorOK_entry:
  assumes "coordinatorOK c ph" "refersTo (ph t) = Some (u, a)"
  shows "co_entries c u = Some a \<and> entryOK c ph u a"
  using assms unfolding coordinatorOK_def by blast

text \<open>A call that moves between phases with the same entry and value keeps the invariant.\<close>

lemma move_same:
  assumes "coordinatorOK c ph" "refersTo p = refersTo (ph t)" "owns p = owns (ph t)"
  shows "coordinatorOK c (ph(t := p))"
proof -
  have "calls refersTo (ph(t := p)) x = calls refersTo ph x" "calls owns (ph(t := p)) x = calls owns ph x" for x
    using assms(2,3) by (auto simp: calls_def)
  then show ?thesis
    using assms unfolding coordinatorOK_def entryOK_def by (auto simp: active_update)
qed

lemma updateEntry_simps [simp]:
  "co_entries (updateEntry a f c) = co_entries c" "co_fresh (updateEntry a f c) = co_fresh c"
  "co_heap (updateEntry a f c) b = (if b = a then f (co_heap c a) else co_heap c b)"
  by (simp_all add: updateEntry_def)

lemma addReference_simps [simp]: "en_ready (addReference n e) = en_ready e" "en_refs (addReference n e) = en_refs e + n"
  by (simp_all add: addReference_def)

text \<open>Taking or returning the value of an entry.\<close>

lemma move_value:
  assumes ok: "coordinatorOK c ph" and refs: "refersTo (ph t) = Some (u, a)" "refersTo p = Some (u, a)"
    and owned: "owns (ph t) = (if n = 1 then None else Some (u, a))" "owns p = (if n = 1 then Some (u, a) else None)"
    and amounts: "int k = int (en_ready (co_heap c a)) - n" "n = 1 \<or> n = - 1"
  shows "coordinatorOK (updateEntry a (\<lambda>e. e\<lparr>en_ready := k\<rparr>) c) (ph(t := p))"
proof -
  have fin: "finite (active ph)" using ok by (simp add: coordinatorOK_def)
  have r: "calls refersTo (ph(t := p)) x = calls refersTo ph x" for x using refs by (auto simp: calls_def)
  have o: "int (card (calls owns (ph(t := p)) x)) = int (card (calls owns ph x)) + (if x = (u, a) then n else 0)" for x
    using card_calls_update [OF fin, of owns t p x] owned amounts(2) by (auto split: if_splits)
  note entry = coordinatorOK_entry [OF ok refs(1)]
  have "entryOK (updateEntry a (\<lambda>e. e\<lparr>en_ready := k\<rparr>) c) (ph(t := p)) v b" if b: "co_entries c v = Some b" for v b
  proof -
    have old: "entryOK c ph v b" and inj: "b = a \<Longrightarrow> v = u" using ok b entry unfolding coordinatorOK_def by blast+
    then show ?thesis
      using o [of "(v, b)"] amounts(1) unfolding entryOK_def r by (cases "b = a") auto
  qed
  then show ?thesis
    using ok refs unfolding coordinatorOK_def by (auto simp: active_update)
qed

lemma retain_ok:
  assumes ok: "coordinatorOK c ph" and p: "refersTo (ph t) = None" "owns (ph t) = None" and r: "retain u c = (entry, c')"
  shows "coordinatorOK c' (ph(t := Waiting u entry))"
proof -
  let ?ph = "ph(t := Waiting u entry)"
  have fin: "finite (active ph)" using ok by (simp add: coordinatorOK_def)
  have refs: "int (card (calls refersTo ?ph x)) = int (card (calls refersTo ph x)) + of_bool (x = (u, entry))"
    and owned: "calls owns ?ph x = calls owns ph x" for x
    using card_calls_update [OF fin, of refersTo t "Waiting u entry" x] p by (auto simp: calls_def)
  have some: "calls refersTo ph x \<noteq> {} \<Longrightarrow> calls refersTo ?ph x \<noteq> {}" "calls refersTo ?ph (u, entry) \<noteq> {}" for x
  proof -
    assume "calls refersTo ph x \<noteq> {}"
    then obtain t' where "refersTo (ph t') = Some x" by (auto simp: calls_def)
    then have "t' \<in> calls refersTo ?ph x" using p(1) by (auto simp: calls_def)
    then show "calls refersTo ?ph x \<noteq> {}" by blast
  qed (auto simp: calls_def)
  show ?thesis
  proof (cases "co_entries c u")
    case (Some b)
    then have c': "entry = b" "c' = updateEntry b (addReference 1) c" using r by (auto simp: retain_def)
    have "entryOK c' ?ph v d" if d: "co_entries c v = Some d" for v d
    proof -
      have old: "entryOK c ph v d" and inj: "d = b \<Longrightarrow> v = u" using ok d Some unfolding coordinatorOK_def by blast+
      then show ?thesis
        using refs [of "(v, d)"] some(1) [of "(v, d)"] unfolding entryOK_def owned unfolding c' by auto
    qed
    then show ?thesis using ok Some unfolding coordinatorOK_def by (auto simp: active_update c')
  next
    case None
    let ?a = "co_fresh c"
    have c': "entry = ?a" "co_entries c' = (co_entries c)(u \<mapsto> ?a)" "co_fresh c' = Suc ?a"
      "co_heap c' ?a = \<lparr>en_ready = 1, en_refs = 1\<rparr>" "\<And>b. b \<noteq> ?a \<Longrightarrow> co_heap c' b = co_heap c b"
      using r None by (auto simp: retain_def Let_def addReference_def)
    have less: "b < ?a" if "co_entries c v = Some b" for v b
      using ok that by (auto simp: coordinatorOK_def entryOK_def)
    have none: "calls refersTo ph (u, ?a) = {}" "calls owns ph (u, ?a) = {}"
      using ok None owns_refersTo unfolding coordinatorOK_def calls_def by fastforce+
    have "entryOK c' ?ph v d" if "co_entries c' v = Some d" for v d
    proof (cases "v = u")
      case True
      then have d: "d = ?a" using that c' by simp
      have refs1: "int (card (calls refersTo ?ph (u, ?a))) = 1" using refs [of "(u, ?a)"] by (simp add: none c'(1))
      show ?thesis
        unfolding True d entryOK_def owned none c'(3,4) refs1 using some(2) by (simp add: c'(1))
    next
      case False
      then have d: "co_entries c v = Some d" using that c' by simp
      then have "entryOK c ph v d" "d \<noteq> ?a" using ok less unfolding coordinatorOK_def by auto
      then show ?thesis
        using refs [of "(v, d)"] some(1) [of "(v, d)"] False c' unfolding entryOK_def owned by auto
    qed
    then show ?thesis
      using ok less None unfolding coordinatorOK_def by (auto simp: active_update c')
  qed
qed

lemma release_ok:
  assumes ok: "coordinatorOK c ph" and p: "refersTo (ph t) = Some (u, a)" "owns (ph t) = None" "refersTo q = None" "owns q = None"
  shows "coordinatorOK (releaseReference u a c) (ph(t := q))"
proof -
  let ?ph = "ph(t := q)"
  have fin: "finite (active ph)" "finite (active ?ph)" using ok by (auto simp: coordinatorOK_def active_update)
  note entry = coordinatorOK_entry [OF ok p(1)]
  have refs: "int (card (calls refersTo ?ph x)) = int (card (calls refersTo ph x)) - of_bool (x = (u, a))"
    and owned: "calls owns ?ph x = calls owns ph x" for x
    using card_calls_update [OF fin(1), of refersTo t q x] p by (auto simp: calls_def)
  have empty: "calls refersTo ?ph x = {} \<longleftrightarrow> card (calls refersTo ?ph x) = 0" for x
    using calls_finite [OF fin(2), of refersTo x] by simp
  let ?c = "releaseReference u a c"
  have c: "co_fresh ?c = co_fresh c" "co_heap ?c = (co_heap c)(a := addReference (- 1) (co_heap c a))"
    "co_entries ?c = (if card (calls refersTo ph (u, a)) = 1 then (co_entries c)(u := None) else co_entries c)"
    using entry by (auto simp: releaseReference_def Let_def entryOK_def fun_eq_iff)
  have kept: "entryOK ?c ?ph v b" if b: "co_entries ?c v = Some b" for v b
  proof -
    have b': "co_entries c v = Some b" and "card (calls refersTo ph (u, a)) = 1 \<Longrightarrow> v \<noteq> u"
      using b unfolding c by (auto split: if_splits)
    moreover from b' have old: "entryOK c ph v b" and inj: "b = a \<Longrightarrow> v = u"
      using ok entry unfolding coordinatorOK_def by blast+
    moreover have "card (calls refersTo ph (v, b)) \<noteq> 0"
      using old calls_finite [OF fin(1), of refersTo "(v, b)"] by (simp add: entryOK_def)
    ultimately show ?thesis
      using refs [of "(v, b)"] unfolding entryOK_def owned empty c by (auto simp: of_bool_def split: if_splits)
  qed
  have "co_entries ?c v = Some b" if v: "refersTo (?ph t') = Some (v, b)" for t' v b
  proof -
    have t': "t' \<noteq> t" "refersTo (ph t') = Some (v, b)" using v p(3) by (auto split: if_splits)
    then have "co_entries c v = Some b" using ok unfolding coordinatorOK_def by blast
    moreover have "v = u \<Longrightarrow> card (calls refersTo ph (u, a)) \<noteq> 1"
    proof
      assume "v = u" "card (calls refersTo ph (u, a)) = 1"
      moreover have "t' \<in> calls refersTo ph (u, a)" "t \<in> calls refersTo ph (u, a)"
        using t' \<open>v = u\<close> p(1) entry \<open>co_entries c v = Some b\<close> by (auto simp: calls_def)
      ultimately show False using t'(1) by (auto simp: card_1_singleton_iff)
    qed
    ultimately show ?thesis unfolding c by auto
  qed
  then show ?thesis
    using ok kept fin(2) unfolding coordinatorOK_def c(3) by (auto split: if_splits)
qed

definition systemOK :: "system \<Rightarrow> bool" where
  "systemOK s \<longleftrightarrow> coordinatorOK (sy_coordinator s) (sy_phase s)"

lemma moveTo_simps [simp]:
  "sy_coordinator (moveTo t p c s) = c" "sy_phase (moveTo t p c s) = (sy_phase s)(t := p)"
  "sy_contextDone (moveTo t p c s) = sy_contextDone s"
  by (simp_all add: moveTo_def)

lemma Acquire_phases [simp]: "refersTo (Acquire b u d) = None" "owns (Acquire b u d) = None"
  by (simp_all add: Acquire_def)

lemma receive_ok:
  assumes "coordinatorOK c ph" "ph t = Waiting u a" "receiveReady a c = Some c'"
  shows "coordinatorOK c' (ph(t := Received u a))"
proof -
  have "c' = updateEntry a (\<lambda>e. e\<lparr>en_ready := en_ready (co_heap c a) - 1\<rparr>) c" "en_ready (co_heap c a) > 0"
    using assms(3) by (auto simp: receiveReady_def updateEntry_def split: if_splits)
  then show ?thesis
    using move_value [OF assms(1), of t u a "Received u a" 1 "en_ready (co_heap c a) - 1"] assms(2) by simp
qed

lemma send_ok:
  assumes "coordinatorOK c ph" "owns (ph t) = Some (u, a)" "refersTo p = Some (u, a)" "owns p = None" "sendReady a c = Some c'"
  shows "coordinatorOK c' (ph(t := p))"
proof -
  have "c' = updateEntry a (\<lambda>e. e\<lparr>en_ready := en_ready (co_heap c a) + 1\<rparr>) c"
    using assms(5) by (auto simp: sendReady_def updateEntry_def split: if_splits)
  then show ?thesis
    using move_value [OF assms(1), of t u a p "- 1" "en_ready (co_heap c a) + 1"] assms(2-4) owns_refersTo by simp
qed

lemma systemOK_step:
  assumes "systemOK s" "act a t s = Some s'"
  shows "systemOK s'"
proof -
  note ok = assms(1) [unfolded systemOK_def]
  show ?thesis
  proof (cases a)
    case (Call b u)
    then show ?thesis
      using assms(2) move_same [OF ok, where p = "Acquire b u (sy_contextDone s t)" and t = t]
      by (auto simp: systemOK_def split: if_splits)
  next
    case Retain
    then obtain u entry c where "sy_phase s t = Entered u" "retain u (sy_coordinator s) = (entry, c)"
      "s' = moveTo t (Waiting u entry) c s"
      using assms(2) by (auto split: phase.splits prod.splits)
    then show ?thesis using retain_ok [OF ok, of t u entry c] by (simp add: systemOK_def)
  next
    case Receive
    then show ?thesis using assms(2) receive_ok [OF ok, of t] by (auto simp: systemOK_def split: phase.splits)
  next
    case GiveBack
    then show ?thesis
      using assms(2) send_ok [OF ok, of t _ _ "Leaving u a" for u a] by (auto simp: systemOK_def split: phase.splits)
  next
    case SendBack
    then show ?thesis
      using assms(2) send_ok [OF ok, of t _ _ "Dropping u a" for u a] by (auto simp: systemOK_def split: phase.splits)
  next
    case Leave
    then show ?thesis
      using assms(2) release_ok [OF ok, of t _ _ "Failed ContextError"] by (auto simp: systemOK_def split: phase.splits)
  next
    case Drop
    then show ?thesis
      using assms(2) release_ok [OF ok, of t _ _ Released] by (auto simp: systemOK_def split: phase.splits)
  qed (use assms(2) ok in \<open>auto simp: systemOK_def intro!: move_same split: phase.splits if_splits\<close>)
qed

lemma systemOK_initial: "coordinatorInitial s \<Longrightarrow> systemOK s"
  by (simp add: coordinatorInitial_def systemOK_def coordinatorOK_def emptyCoordinator_def active_def)

interpretation coordinator: inductive_invariant coordinatorInitial coordinatorStep systemOK
  by unfold_locales (auto simp: coordinatorStep_iff intro: systemOK_initial systemOK_step)

section \<open>What the coordinator promises\<close>

subsection \<open>Mutual exclusion\<close>

text \<open>The Gateway whose graph a call may change: from the check of its context to the return of the value.\<close>

fun holds :: "phase \<Rightarrow> string option" where
  "holds (Holding u a) = Some u"
| "holds (Releasing u a) = Some u"
| "holds _ = None"

lemma holds_owns: "holds p = Some u \<Longrightarrow> \<exists>a. owns p = Some (u, a)"
  by (cases p) auto

lemma owner_unique:
  assumes "systemOK s" "owns (sy_phase s t) = Some (u, a)" "owns (sy_phase s t') = Some (u, b)"
  shows "t = t' \<and> a = b \<and> en_ready (co_heap (sy_coordinator s) a) = 0"
proof -
  let ?c = "sy_coordinator s" and ?ph = "sy_phase s"
  note ok = assms(1) [unfolded systemOK_def]
  note e = coordinatorOK_entry [OF ok owns_refersTo [OF assms(2)]] coordinatorOK_entry [OF ok owns_refersTo [OF assms(3)]]
  then have ab: "a = b" by simp
  have fin: "finite (calls owns ?ph (u, a))" using ok calls_finite [of ?ph owns] by (simp add: coordinatorOK_def)
  have "{t, t'} \<subseteq> calls owns ?ph (u, a)" using assms(2,3) ab by (simp add: calls_def)
  then have "card {t, t'} \<le> card (calls owns ?ph (u, a))" by (rule card_mono [OF fin])
  moreover have "card (calls owns ?ph (u, a)) \<le> 1" "en_ready (co_heap ?c a) + card (calls owns ?ph (u, a)) = 1"
    using e(1) by (auto simp: entryOK_def)
  ultimately show ?thesis using ab by (cases "t = t'") auto
qed

definition exclusive :: "system \<Rightarrow> bool" where
  "exclusive s \<longleftrightarrow> (\<forall>t t' u. holds (sy_phase s t) = Some u \<and> holds (sy_phase s t') = Some u \<longrightarrow> t = t')"

text \<open>
  C25. Two calls never hold the graph of one Gateway at the same time, in any interleaving of calls,
  cancellations and releases.
\<close>

theorem coordinator_exclusive: "always coordinatorInitial coordinatorStep exclusive"
  by (rule coordinator.always_weaken) (use holds_owns owner_unique in \<open>unfold exclusive_def, blast\<close>)

subsection \<open>Entries do not leak\<close>

definition referenceCounted :: "system \<Rightarrow> bool" where
  "referenceCounted s \<longleftrightarrow> (\<forall>u. case co_entries (sy_coordinator s) u of
      None \<Rightarrow> (\<forall>t a. refersTo (sy_phase s t) \<noteq> Some (u, a))
    | Some a \<Rightarrow> en_refs (co_heap (sy_coordinator s) a) = int (card {t. refersTo (sy_phase s t) = Some (u, a)}) \<and>
        en_refs (co_heap (sy_coordinator s) a) > 0)"

lemma systemOK_counted: "systemOK s \<Longrightarrow> referenceCounted s"
proof -
  assume "systemOK s"
  then have ok: "coordinatorOK (sy_coordinator s) (sy_phase s)" by (simp add: systemOK_def)
  then have fin: "finite (active (sy_phase s))" by (simp add: coordinatorOK_def)
  have "entryOK (sy_coordinator s) (sy_phase s) u a" if "co_entries (sy_coordinator s) u = Some a" for u a
    using ok that unfolding coordinatorOK_def by blast
  moreover have "card (calls refersTo (sy_phase s) x) > 0" if "calls refersTo (sy_phase s) x \<noteq> {}" for x
    using that calls_finite [OF fin, of refersTo x] by (simp add: card_gt_0_iff)
  moreover have "co_entries (sy_coordinator s) u = Some a" if "refersTo (sy_phase s t) = Some (u, a)" for t u a
    using ok that unfolding coordinatorOK_def by blast
  ultimately show "referenceCounted s"
    unfolding referenceCounted_def entryOK_def calls_def by (fastforce split: option.splits)
qed

text \<open>
  The map has an entry for a Gateway exactly while a call refers to it, and the entry counts these
  calls, so a Gateway that nobody works on occupies no memory.
\<close>

theorem coordinator_counts_references: "always coordinatorInitial coordinatorStep referenceCounted"
  by (rule coordinator.always_weaken) (rule systemOK_counted)

subsection \<open>Every call can return\<close>

definition finished :: "phase \<Rightarrow> bool" where
  "finished p \<longleftrightarrow> (case p of Holding _ _ \<Rightarrow> True | Failed _ \<Rightarrow> True | Released \<Rightarrow> True | _ \<Rightarrow> False)"

text \<open>A call that has the value can always send it back: the channel is empty.\<close>

lemma send_enabled: "systemOK s \<Longrightarrow> owns (sy_phase s t) = Some (u, a) \<Longrightarrow> \<exists>c. sendReady a (sy_coordinator s) = Some c"
  using owner_unique by (auto simp: sendReady_def)

lemma act_canReach:
  assumes "act a t s = Some s'" "canReach coordinatorStep s' P"
  shows "canReach coordinatorStep s P"
  using canReach_step [of coordinatorStep] coordinatorStep.intros assms by blast

lemma leaving_finishes: "sy_phase s t = Leaving u a \<Longrightarrow> canReach coordinatorStep s (\<lambda>s. finished (sy_phase s t))"
  by (rule act_canReach [where a = Leave and t = t]) (auto simp: finished_def intro: canReach_now)

lemma givingBack_finishes:
  assumes "systemOK s" "sy_phase s t = GivingBack u a"
  shows "canReach coordinatorStep s (\<lambda>s. finished (sy_phase s t))"
proof -
  obtain c where "sendReady a (sy_coordinator s) = Some c" using send_enabled [OF assms(1), of t u a] assms(2) by auto
  then have step: "act GiveBack t s = Some (moveTo t (Leaving u a) c s)" using assms(2) by simp
  show ?thesis by (rule act_canReach [OF step leaving_finishes]) simp
qed

lemma received_finishes:
  assumes "systemOK s" "sy_phase s t = Received u a"
  shows "canReach coordinatorStep s (\<lambda>s. finished (sy_phase s t))"
proof -
  let ?s = "moveTo t (if sy_contextDone s t then GivingBack u a else Holding u a) (sy_coordinator s) s"
  have step: "act Check t s = Some ?s" using assms(2) by simp
  have "canReach coordinatorStep ?s (\<lambda>s. finished (sy_phase s t))"
  proof (cases "sy_contextDone s t")
    case True
    then show ?thesis using givingBack_finishes [OF systemOK_step [OF assms(1) step], of t u a] by simp
  qed (auto simp: finished_def intro: canReach_now)
  with step show ?thesis by (rule act_canReach)
qed

text \<open>From any state the owner of a value can give it back without touching the other calls.\<close>

definition offers :: "nat \<Rightarrow> string \<Rightarrow> nat \<Rightarrow> system \<Rightarrow> bool" where
  "offers t u a s \<longleftrightarrow> systemOK s \<and> sy_phase s t = Waiting u a \<and> en_ready (co_heap (sy_coordinator s) a) > 0"

lemma send_offers:
  assumes "systemOK s" "owns (sy_phase s o') = Some (u, a)" "sy_phase s t = Waiting u a" "t \<noteq> o'"
    "\<And>c. sendReady a (sy_coordinator s) = Some c \<Longrightarrow> act b o' s = Some (moveTo o' p c s)"
  shows "canReach coordinatorStep s (offers t u a)"
proof -
  obtain c where c: "sendReady a (sy_coordinator s) = Some c" using send_enabled [OF assms(1,2)] by auto
  have "en_ready (co_heap c a) > 0" using c by (auto simp: sendReady_def split: if_splits)
  then have "offers t u a (moveTo o' p c s)"
    using systemOK_step [OF assms(1) assms(5) [OF c]] assms(3,4) by (simp add: offers_def)
  then show ?thesis by (intro act_canReach [OF assms(5) [OF c] canReach_now])
qed

lemma owner_offers:
  assumes "systemOK s" "owns (sy_phase s o') = Some (u, a)" "sy_phase s t = Waiting u a"
  shows "canReach coordinatorStep s (offers t u a)"
proof -
  have ne: "t \<noteq> o'" using assms(2,3) by auto
  have releasing: "canReach coordinatorStep s (offers t u a)"
    if "systemOK s" "sy_phase s o' = Releasing u a" "sy_phase s t = Waiting u a" for s
    by (rule send_offers [where o' = o' and b = SendBack and p = "Dropping u a"]) (use that ne in auto)
  have giving: "canReach coordinatorStep s (offers t u a)"
    if "systemOK s" "sy_phase s o' = GivingBack u a" "sy_phase s t = Waiting u a" for s
    by (rule send_offers [where o' = o' and b = GiveBack and p = "Leaving u a"]) (use that ne in auto)
  have holding: "canReach coordinatorStep s (offers t u a)"
    if h: "systemOK s" "sy_phase s o' = Holding u a" "sy_phase s t = Waiting u a" for s
  proof -
    have step: "act Release o' s = Some (moveTo o' (Releasing u a) (sy_coordinator s) s)" using h(2) by simp
    show ?thesis using act_canReach [OF step releasing] systemOK_step [OF h(1) step] h(3) ne by simp
  qed
  show ?thesis
  proof (cases "sy_phase s o'")
    case (Received u' a')
    let ?s = "moveTo o' (if sy_contextDone s o' then GivingBack u a else Holding u a) (sy_coordinator s) s"
    have step: "act Check o' s = Some ?s" using Received assms(2) by simp
    have ok: "systemOK ?s" by (rule systemOK_step [OF assms(1) step])
    show ?thesis
      by (rule act_canReach [OF step], cases "sy_contextDone s o'")
        (use ok giving [of ?s] holding [of ?s] assms(3) ne in auto)
  qed (use assms releasing giving holding in auto)
qed

lemma offered_finishes:
  assumes "offers t u a s"
  shows "canReach coordinatorStep s (\<lambda>s. finished (sy_phase s t))"
proof -
  obtain c where c: "receiveReady a (sy_coordinator s) = Some c" using assms by (auto simp: offers_def receiveReady_def)
  then have step: "act Receive t s = Some (moveTo t (Received u a) c s)" using assms by (simp add: offers_def)
  have "systemOK (moveTo t (Received u a) c s)" using systemOK_step [OF _ step] assms by (simp add: offers_def)
  then show ?thesis by (rule act_canReach [OF step received_finishes]) simp
qed

lemma waiting_finishes:
  assumes "systemOK s" "sy_phase s t = Waiting u a"
  shows "canReach coordinatorStep s (\<lambda>s. finished (sy_phase s t))"
proof (cases "en_ready (co_heap (sy_coordinator s) a) > 0")
  case True
  then show ?thesis using offered_finishes assms by (auto simp: offers_def)
next
  case False
  have "entryOK (sy_coordinator s) (sy_phase s) u a"
    using coordinatorOK_entry [of "sy_coordinator s" "sy_phase s" t u a] assms by (simp add: systemOK_def)
  then have "card (calls owns (sy_phase s) (u, a)) = 1" using False by (simp add: entryOK_def)
  then obtain o' where "owns (sy_phase s o') = Some (u, a)" by (auto simp: card_1_singleton_iff calls_def)
  then have "canReach coordinatorStep s (offers t u a)" by (rule owner_offers [OF assms(1) _ assms(2)])
  then show ?thesis by (rule canReach_trans) (rule offered_finishes)
qed

definition mayFinish :: "system \<Rightarrow> bool" where
  "mayFinish s \<longleftrightarrow> (\<forall>t. sy_phase s t \<noteq> Idle \<longrightarrow> canReach coordinatorStep s (\<lambda>s'. finished (sy_phase s' t)))"

lemma systemOK_mayFinish:
  assumes "systemOK s"
  shows "mayFinish s"
  unfolding mayFinish_def
proof (intro allI impI)
  fix t
  assume started: "sy_phase s t \<noteq> Idle"
  let ?goal = "\<lambda>s. finished (sy_phase s t)"
  have dropping: "canReach coordinatorStep s ?goal" if "sy_phase s t = Dropping u a" for s u a
    by (rule act_canReach [where a = Drop and t = t]) (use that in \<open>auto simp: finished_def intro: canReach_now\<close>)
  show "canReach coordinatorStep s ?goal"
  proof (cases "sy_phase s t")
    case (Entered u)
    obtain entry c where r: "retain u (sy_coordinator s) = (entry, c)" by fastforce
    have step: "act Retain t s = Some (moveTo t (Waiting u entry) c s)" using Entered r by simp
    show ?thesis using act_canReach [OF step waiting_finishes] systemOK_step [OF assms step] by simp
  next
    case (Releasing u a)
    obtain c where "sendReady a (sy_coordinator s) = Some c" using send_enabled [OF assms, of t u a] Releasing by auto
    then have step: "act SendBack t s = Some (moveTo t (Dropping u a) c s)" using Releasing by simp
    show ?thesis using act_canReach [OF step dropping] by simp
  qed (use assms started dropping waiting_finishes received_finishes givingBack_finishes leaving_finishes
      in \<open>auto simp: finished_def intro: canReach_now\<close>)
qed


subsection \<open>One lock per Gateway\<close>

text \<open>The specification: at most one call holds each Gateway; it takes the lock when nobody has it.\<close>

inductive lockStep :: "(string \<rightharpoonup> nat) \<Rightarrow> (string \<rightharpoonup> nat) \<Rightarrow> bool" where
  lock: "h u = None \<Longrightarrow> lockStep h (h(u \<mapsto> t))"
| unlock: "h u = Some t \<Longrightarrow> lockStep h (h(u := None))"

definition lockInitial :: "(string \<rightharpoonup> nat) \<Rightarrow> bool" where
  "lockInitial h \<longleftrightarrow> h = Map.empty"

definition locksAgree :: "system \<Rightarrow> (string \<rightharpoonup> nat) \<Rightarrow> bool" where
  "locksAgree s h \<longleftrightarrow> (\<forall>t u. h u = Some t \<longleftrightarrow> holds (sy_phase s t) = Some u)"

lemma locksAgree_same: "locksAgree s h \<Longrightarrow> holds p = holds (sy_phase s t) \<Longrightarrow> locksAgree (moveTo t p c s) h"
  by (simp add: locksAgree_def)

lemma locksAgree_lock:
  assumes "systemOK s" "locksAgree s h" "sy_phase s t = Received u a"
  shows "lockStep h (h(u \<mapsto> t)) \<and> locksAgree (moveTo t (Holding u a) c s) (h(u \<mapsto> t))"
proof -
  have "holds (sy_phase s t') \<noteq> Some u" for t'
  proof
    assume h: "holds (sy_phase s t') = Some u"
    then obtain b where "owns (sy_phase s t') = Some (u, b)" using holds_owns by blast
    then have "t = t'" using owner_unique [OF assms(1), of t u a t' b] assms(3) by simp
    then show False using h assms(3) by simp
  qed
  moreover from this have "h u = None" using assms(2) unfolding locksAgree_def by (metis not_None_eq)
  ultimately show ?thesis
    using assms(2,3) by (auto simp: locksAgree_def intro: lockStep.lock)
qed

lemma locksAgree_unlock:
  assumes "systemOK s" "locksAgree s h" "sy_phase s t = Releasing u a"
  shows "lockStep h (h(u := None)) \<and> locksAgree (moveTo t (Dropping u a) c s) (h(u := None))"
proof -
  have h: "h u = Some t" using assms(2,3) by (simp add: locksAgree_def)
  then have "t' = t" if "holds (sy_phase s t') = Some u" for t'
    using that assms(2) unfolding locksAgree_def by (metis option.inject)
  then have "locksAgree (moveTo t (Dropping u a) c s) (h(u := None))"
    using assms(2,3) by (auto simp: locksAgree_def)
  then show ?thesis using lockStep.unlock [of h, OF h] by simp
qed

lemma locksAgree_step:
  assumes "systemOK s" "locksAgree s h" "act a t s = Some s'"
  shows "locksAgree s' h \<or> (\<exists>h'. lockStep h h' \<and> locksAgree s' h')"
proof (cases a)
  case (Call b u)
  then show ?thesis
    using assms(2,3) locksAgree_same [of s h _ t] by (auto simp: Acquire_def split: if_splits)
next
  case Cancel
  then show ?thesis using assms(2,3) by (auto simp: locksAgree_def)
next
  case Check
  then obtain u b where p: "sy_phase s t = Received u b" using assms(3) by (auto split: phase.splits)
  show ?thesis
  proof (cases "sy_contextDone s t")
    case True
    then show ?thesis using Check assms(2,3) p locksAgree_same [of s h _ t] by auto
  next
    case False
    then have "s' = moveTo t (Holding u b) (sy_coordinator s) s" using Check assms(3) p by simp
    then show ?thesis using locksAgree_lock [OF assms(1,2) p] by blast
  qed
next
  case SendBack
  then obtain u b c where p: "sy_phase s t = Releasing u b" "s' = moveTo t (Dropping u b) c s"
    using assms(3) by (auto split: phase.splits)
  then show ?thesis using locksAgree_unlock [OF assms(1,2) p(1)] by blast
qed (use assms(2,3) locksAgree_same [of s h _ t] in \<open>auto split: phase.splits prod.splits if_splits\<close>)

interpretation coordinator_locks:
  forward_simulation coordinatorInitial coordinatorStep systemOK lockInitial lockStep locksAgree
proof
  show "\<exists>h. lockInitial h \<and> locksAgree s h" if "coordinatorInitial s" for s
    using that by (auto simp: coordinatorInitial_def lockInitial_def locksAgree_def)
  show "locksAgree s' h \<or> (\<exists>h'. lockStep h h' \<and> locksAgree s' h')"
    if "systemOK s" "locksAgree s h" "coordinatorStep s s'" for s h s'
    using that(3) locksAgree_step [OF that(1,2)] unfolding coordinatorStep_iff by blast
qed


end
