(* ===== verification/Kubernetes.thy ===== *)
theory Kubernetes
  imports Cloud
begin

text \<open>
  The parts of the Kubernetes and Gateway API objects that the controllers read and write, and the
  third-party functions on them that they call. A map of annotations is a partial function; reading a
  missing key gives the empty string. The helpers of controller-runtime on finalizers are not part of
  this program: they are the fields of a record that every user takes as an argument, and the laws the
  program relies on are \<open>finalizerLaws\<close>.
\<close>

record ObjectMeta =
  om_Namespace :: string
  om_Name :: string
  om_UID :: string
  om_ResourceVersion :: string
  om_Generation :: int
  om_CreationTimestamp :: int
  om_DeletionTimestamp :: "int option"
  om_Annotations :: "string \<rightharpoonup> string"
  om_Finalizers :: "string list"

definition om_Deleting :: "ObjectMeta \<Rightarrow> bool" where
  "om_Deleting m \<longleftrightarrow> om_DeletionTimestamp m \<noteq> None"

lemma om_Deleting_simps [simp]:
  "om_Deleting (m\<lparr>om_Annotations := annotations\<rparr>) = om_Deleting m" "om_Deleting (m\<lparr>om_Finalizers := finalizers\<rparr>) = om_Deleting m"
  "om_Deleting (m\<lparr>om_DeletionTimestamp := t\<rparr>) = (t \<noteq> None)" "om_Deleting (m\<lparr>om_Namespace := namespace\<rparr>) = om_Deleting m"
  "om_Deleting \<lparr>om_Namespace = namespace, om_Name = name, om_UID = uid, om_ResourceVersion = version, om_Generation = generation,
     om_CreationTimestamp = created, om_DeletionTimestamp = t, om_Annotations = annotations, om_Finalizers = finalizers\<rparr> = (t \<noteq> None)"
  by (simp_all add: om_Deleting_def)

definition annotation :: "ObjectMeta \<Rightarrow> string \<Rightarrow> string" where
  "annotation m key = (case om_Annotations m key of None \<Rightarrow> [] | Some v \<Rightarrow> v)"

record finalizerUtil =
  ContainsFinalizer :: "ObjectMeta \<Rightarrow> string \<Rightarrow> bool"
  AddFinalizer :: "ObjectMeta \<Rightarrow> string \<Rightarrow> ObjectMeta"
  RemoveFinalizer :: "ObjectMeta \<Rightarrow> string \<Rightarrow> ObjectMeta"

text \<open>
  The documented behaviour: the functions test, add and remove one finalizer and change nothing else of
  the object.
\<close>

definition sameButFinalizers :: "ObjectMeta \<Rightarrow> ObjectMeta \<Rightarrow> bool" where
  "sameButFinalizers m m' \<longleftrightarrow> m\<lparr>om_Finalizers := []\<rparr> = m'\<lparr>om_Finalizers := []\<rparr>"

definition finalizerLaws :: "finalizerUtil \<Rightarrow> bool" where
  "finalizerLaws k \<longleftrightarrow> (\<forall>m f. (ContainsFinalizer k m f \<longleftrightarrow> f \<in> set (om_Finalizers m)) \<and>
     set (om_Finalizers (AddFinalizer k m f)) = insert f (set (om_Finalizers m)) \<and>
     set (om_Finalizers (RemoveFinalizer k m f)) = set (om_Finalizers m) - {f} \<and>
     sameButFinalizers m (AddFinalizer k m f) \<and> sameButFinalizers m (RemoveFinalizer k m f))"

lemma finalizerLaws_rules:
  assumes "finalizerLaws k"
  shows "ContainsFinalizer k m f \<longleftrightarrow> f \<in> set (om_Finalizers m)"
    "set (om_Finalizers (AddFinalizer k m f)) = insert f (set (om_Finalizers m))"
    "set (om_Finalizers (RemoveFinalizer k m f)) = set (om_Finalizers m) - {f}"
    "sameButFinalizers m (AddFinalizer k m f)" "sameButFinalizers m (RemoveFinalizer k m f)"
  using assms unfolding finalizerLaws_def by blast+

lemma sameButFinalizers_fields:
  assumes "sameButFinalizers m m'"
  shows "om_Namespace m' = om_Namespace m" "om_Name m' = om_Name m" "om_UID m' = om_UID m"
    "om_Annotations m' = om_Annotations m" "om_Generation m' = om_Generation m" "om_Deleting m' = om_Deleting m"
  using assms unfolding sameButFinalizers_def om_Deleting_def
  by (metis ObjectMeta.select_convs ObjectMeta.surjective ObjectMeta.update_convs)+

text \<open>An implementation that satisfies the laws.\<close>

definition listFinalizers :: finalizerUtil where
  "listFinalizers = \<lparr>ContainsFinalizer = (\<lambda>m f. f \<in> set (om_Finalizers m)),
     AddFinalizer = (\<lambda>m f. if f \<in> set (om_Finalizers m) then m else m\<lparr>om_Finalizers := om_Finalizers m @ [f]\<rparr>),
     RemoveFinalizer = (\<lambda>m f. m\<lparr>om_Finalizers := filter (\<lambda>x. x \<noteq> f) (om_Finalizers m)\<rparr>)\<rparr>"

lemma listFinalizers_laws: "finalizerLaws listFinalizers"
  by (auto simp: finalizerLaws_def listFinalizers_def sameButFinalizers_def)

section \<open>Conditions\<close>

text \<open>metav1.ConditionStatus and metav1.Condition.\<close>

datatype ConditionStatus = ConditionTrue | ConditionFalse | ConditionUnknown

record StatusCondition =
  co_Type :: string
  co_Status :: ConditionStatus
  co_ObservedGeneration :: int
  co_LastTransitionTime :: int
  co_Reason :: string
  co_Message :: string

text \<open>
  The helpers of apimachinery on conditions, a parameter like the helpers on finalizers. After setting a
  condition, it is found with the values set, and the conditions of other types are unchanged.
\<close>

record conditionUtil =
  FindStatusCondition :: "StatusCondition list \<Rightarrow> string \<Rightarrow> StatusCondition option"
  SetStatusCondition :: "StatusCondition list \<Rightarrow> StatusCondition \<Rightarrow> StatusCondition list"

definition conditionLaws :: "conditionUtil \<Rightarrow> bool" where
  "conditionLaws u \<longleftrightarrow> (\<forall>cs c t. (case FindStatusCondition u (SetStatusCondition u cs c) t of
      None \<Rightarrow> t \<noteq> co_Type c \<and> FindStatusCondition u cs t = None
    | Some d \<Rightarrow> if t = co_Type c then d\<lparr>co_LastTransitionTime := 0\<rparr> = c\<lparr>co_LastTransitionTime := 0\<rparr>
        else FindStatusCondition u cs t = Some d))"

lemma conditionLaws_same:
  assumes "conditionLaws u"
  obtains d where "FindStatusCondition u (SetStatusCondition u cs c) (co_Type c) = Some d" "co_Status d = co_Status c"
    "co_Reason d = co_Reason c" "co_Message d = co_Message c" "co_ObservedGeneration d = co_ObservedGeneration c"
proof -
  have "case FindStatusCondition u (SetStatusCondition u cs c) (co_Type c) of
      None \<Rightarrow> co_Type c \<noteq> co_Type c \<and> FindStatusCondition u cs (co_Type c) = None
    | Some d \<Rightarrow> if co_Type c = co_Type c then d\<lparr>co_LastTransitionTime := 0\<rparr> = c\<lparr>co_LastTransitionTime := 0\<rparr>
        else FindStatusCondition u cs (co_Type c) = Some d"
    using assms unfolding conditionLaws_def by blast
  then obtain d where d: "FindStatusCondition u (SetStatusCondition u cs c) (co_Type c) = Some d"
    "d\<lparr>co_LastTransitionTime := 0\<rparr> = c\<lparr>co_LastTransitionTime := 0\<rparr>" by (auto split: option.splits)
  have "co_Status d = co_Status c" "co_Reason d = co_Reason c" "co_Message d = co_Message c" "co_ObservedGeneration d = co_ObservedGeneration c"
    using d(2) by (metis StatusCondition.select_convs StatusCondition.surjective StatusCondition.update_convs(4))+
  with d(1) that show thesis by blast
qed

lemma conditionLaws_other:
  assumes "conditionLaws u" "t \<noteq> co_Type c"
  shows "FindStatusCondition u (SetStatusCondition u cs c) t = FindStatusCondition u cs t"
proof -
  have "case FindStatusCondition u (SetStatusCondition u cs c) t of
      None \<Rightarrow> t \<noteq> co_Type c \<and> FindStatusCondition u cs t = None
    | Some d \<Rightarrow> if t = co_Type c then d\<lparr>co_LastTransitionTime := 0\<rparr> = c\<lparr>co_LastTransitionTime := 0\<rparr>
        else FindStatusCondition u cs t = Some d"
    using assms(1) unfolding conditionLaws_def by blast
  with assms(2) show ?thesis by (simp split: option.splits)
qed

text \<open>An implementation of the laws: a list with one condition per type.\<close>

fun setInList :: "StatusCondition list \<Rightarrow> StatusCondition \<Rightarrow> StatusCondition list" where
  "setInList [] c = [c]"
| "setInList (d # ds) c = (if co_Type d = co_Type c then c # ds else d # setInList ds c)"

definition listConditions :: conditionUtil where
  "listConditions = \<lparr>FindStatusCondition = (\<lambda>cs t. find (\<lambda>c. co_Type c = t) cs), SetStatusCondition = setInList\<rparr>"

lemma find_setInList: "find (\<lambda>d. co_Type d = t) (setInList cs c) = (if t = co_Type c then Some c else find (\<lambda>d. co_Type d = t) cs)"
  by (induction cs) auto

lemma listConditions_laws: "conditionLaws listConditions"
  by (auto simp: conditionLaws_def listConditions_def find_setInList split: option.splits)

end
