(* ===== verification/ProviderOutcomes.thy ===== *)
theory ProviderOutcomes
  imports Kubernetes "HOL-Library.Word" "HOL-Library.Signed_Division"
begin

unbundle bit_operations_syntax

text \<open>
  internal/controller/provider_outcomes.go: when a reconciler runs again after the provider made progress
  or failed, and what it reports. Durations are int64 nanosecond counts; the arithmetic of the jitter is
  written with its wrap-around, and shown not to wrap.
\<close>

section \<open>Stable jitter\<close>

definition int64 :: "int \<Rightarrow> int" where
  "int64 x = (x + 2 ^ 63) mod 2 ^ 64 - 2 ^ 63"

definition isInt64 :: "int \<Rightarrow> bool" where
  "isInt64 x \<longleftrightarrow> - (2 ^ 63) \<le> x \<and> x < 2 ^ 63"

definition maximumDuration :: int where
  "maximumDuration = 2 ^ 63 - 1"

text \<open>FNV-1a with 32 bits, as hash/fnv computes it.\<close>

definition fnv32a :: "string \<Rightarrow> 32 word" where
  "fnv32a key = fold (\<lambda>c hash. (hash XOR of_char c) * 16777619) key 2166136261"

definition offsetPermille :: "string \<Rightarrow> int" where
  "offsetPermille key = int64 (uint (fnv32a key mod 401) - 200)"

definition jitterDelta :: "int \<Rightarrow> int \<Rightarrow> int" where
  "jitterDelta baseValue offset =
     int64 (int64 ((baseValue sdiv 1000) * offset) + int64 ((baseValue smod 1000) * offset) sdiv 1000)"

definition stableJitter :: "int \<Rightarrow> string \<Rightarrow> int" where
  "stableJitter base key =
     (if base \<le> 0 then base
      else let delta = jitterDelta base (offsetPermille key) in
        if delta > 0 \<and> base > int64 (maximumDuration - delta) then maximumDuration
        else int64 (base + delta))"

section \<open>Constants\<close>

definition second :: int where "second = 1000000000"
definition minimumProviderProgressRequeue :: int where "minimumProviderProgressRequeue = second"
definition defaultProviderProgressRequeue :: int where "defaultProviderProgressRequeue = 5 * second"
definition maximumProviderProgressRequeue :: int where "maximumProviderProgressRequeue = 30 * second"
definition providerFailureRequeue :: int where "providerFailureRequeue = 2 * 60 * second"
definition ownershipConflictRequeue :: int where "ownershipConflictRequeue = 10 * 60 * second"

lemmas requeue_defs = second_def minimumProviderProgressRequeue_def defaultProviderProgressRequeue_def
  maximumProviderProgressRequeue_def providerFailureRequeue_def ownershipConflictRequeue_def

definition ProviderReasonAuthenticationFailed :: string where "ProviderReasonAuthenticationFailed = ''AuthenticationFailed''"
definition ProviderReasonAuthorizationFailed :: string where "ProviderReasonAuthorizationFailed = ''AuthorizationFailed''"
definition ProviderReasonQuotaExceeded :: string where "ProviderReasonQuotaExceeded = ''QuotaExceeded''"
definition ProviderReasonRateLimited :: string where "ProviderReasonRateLimited = ''RateLimited''"
definition ProviderReasonRequestTimedOut :: string where "ProviderReasonRequestTimedOut = ''RequestTimedOut''"
definition ProviderReasonUnavailable :: string where "ProviderReasonUnavailable = ''ProviderUnavailable''"
definition ProviderReasonInvalidConfiguration :: string where "ProviderReasonInvalidConfiguration = ''InvalidProviderConfiguration''"
definition ProviderReasonResourceFailed :: string where "ProviderReasonResourceFailed = ''ResourceFailed''"
definition ProviderReasonOwnershipConflict :: string where "ProviderReasonOwnershipConflict = ''OwnershipConflict''"

section \<open>Progress\<close>

definition ProviderProgressRequeueAfter :: "Outcome \<Rightarrow> string \<Rightarrow> int" where
  "ProviderProgressRequeueAfter outcome uid =
     (let interval =
        (if o_RequeueAfter outcome \<le> 0 then defaultProviderProgressRequeue
         else if o_RequeueAfter outcome < minimumProviderProgressRequeue then minimumProviderProgressRequeue
         else if o_RequeueAfter outcome > maximumProviderProgressRequeue then maximumProviderProgressRequeue
         else o_RequeueAfter outcome);
          requeueAfter = stableJitter interval (uid @ ''/progress'') in
      if requeueAfter < minimumProviderProgressRequeue then minimumProviderProgressRequeue
      else if requeueAfter > maximumProviderProgressRequeue then maximumProviderProgressRequeue
      else requeueAfter)"

definition OpenStackResyncAfter :: "int \<Rightarrow> string \<Rightarrow> int" where
  "OpenStackResyncAfter interval uid = stableJitter interval (uid @ ''/resync'')"

definition ProviderProgressMessage :: "Outcome \<Rightarrow> string \<Rightarrow> string" where
  "ProviderProgressMessage outcome fallback =
     (let msg = TrimSpace (o_Message outcome) in if msg \<noteq> [] then msg else fallback)"

section \<open>Failures\<close>

record ProviderFailurePolicy =
  fp_Category :: ErrorCategory
  fp_ConditionStatus :: ConditionStatus
  fp_Reason :: string
  fp_Message :: string
  fp_ReturnError :: bool
  fp_RequeueAfter :: int
  fp_EmitEvent :: bool
  fp_AdvancesObservedGeneration :: bool

text \<open>The policy with the category set and the other fields zero, and what each case of the switch assigns.\<close>

definition failurePolicy :: "ErrorCategory \<Rightarrow> ConditionStatus \<Rightarrow> string \<Rightarrow> string \<Rightarrow> bool \<Rightarrow> int \<Rightarrow> bool \<Rightarrow> bool \<Rightarrow> ProviderFailurePolicy" where
  "failurePolicy category status reason msg returnError requeueAfter emitEvent advances =
     \<lparr>fp_Category = category, fp_ConditionStatus = status, fp_Reason = reason, fp_Message = msg, fp_ReturnError = returnError,
      fp_RequeueAfter = requeueAfter, fp_EmitEvent = emitEvent, fp_AdvancesObservedGeneration = advances\<rparr>"

definition policyFor :: "ErrorCategory \<Rightarrow> ProviderFailurePolicy" where
  "policyFor category = (case category of
     Authentication \<Rightarrow> failurePolicy category ConditionUnknown ProviderReasonAuthenticationFailed
       ''The controller could not authenticate to OpenStack'' False providerFailureRequeue True False
   | Authorization \<Rightarrow> failurePolicy category ConditionUnknown ProviderReasonAuthorizationFailed
       ''OpenStack denied the requested operation'' False providerFailureRequeue True False
   | Quota \<Rightarrow> failurePolicy category ConditionFalse ProviderReasonQuotaExceeded
       ''OpenStack quota is insufficient for the requested resources'' False providerFailureRequeue True True
   | RateLimit \<Rightarrow> failurePolicy category ConditionUnknown ProviderReasonRateLimited
       ''OpenStack rate limited the requested operation'' True 0 False False
   | Timeout \<Rightarrow> failurePolicy category ConditionUnknown ProviderReasonRequestTimedOut
       ''The OpenStack request timed out'' True 0 False False
   | RetryableService \<Rightarrow> failurePolicy category ConditionUnknown ProviderReasonUnavailable
       ''OpenStack could not complete the request'' True 0 False False
   | TerminalValidation \<Rightarrow> failurePolicy category ConditionFalse ProviderReasonInvalidConfiguration
       ''OpenStack rejected the requested configuration'' False 0 True True
   | ResourceFailure \<Rightarrow> failurePolicy category ConditionFalse ProviderReasonResourceFailed
       ''An OpenStack resource entered an error state'' False providerFailureRequeue True True
   | OwnershipConflict \<Rightarrow> failurePolicy category ConditionFalse ProviderReasonOwnershipConflict
       ''The OpenStack resource identity does not match the controller binding'' False ownershipConflictRequeue True True)"

definition ProviderFailurePolicyFor :: "go_error \<Rightarrow> ProviderFailurePolicy option" where
  "ProviderFailurePolicyFor err = map_option policyFor (ErrorCategoryOf err)"

definition ProviderCleanupFailurePolicy :: "ProviderFailurePolicy \<Rightarrow> string \<Rightarrow> ProviderFailurePolicy" where
  "ProviderCleanupFailurePolicy policy resourceKind = policy\<lparr>fp_Message := resourceKind @ (case fp_Category policy of
     Authentication \<Rightarrow> '' cleanup cannot continue because OpenStack authentication failed''
   | Authorization \<Rightarrow> '' cleanup cannot continue because OpenStack denied the delete operation''
   | Quota \<Rightarrow> '' cleanup cannot continue because OpenStack reported insufficient quota''
   | RateLimit \<Rightarrow> '' cleanup is waiting for the OpenStack rate limit to clear''
   | Timeout \<Rightarrow> '' cleanup is waiting after an OpenStack request timed out''
   | RetryableService \<Rightarrow> '' cleanup is waiting for OpenStack to become available''
   | TerminalValidation \<Rightarrow> '' cleanup cannot continue because OpenStack rejected the delete operation''
   | ResourceFailure \<Rightarrow> '' cleanup cannot continue because an OpenStack resource is in an error state''
   | OwnershipConflict \<Rightarrow> '' cleanup cannot continue because the OpenStack resource identity does not match the controller binding'')\<rparr>"

record providerReconcileError =
  pre_message :: string
  pre_cause :: go_error

text \<open>ctrl.Result with the fields the code uses, and the returned error.\<close>

record ctrlResult =
  cr_Requeue :: bool
  cr_RequeueAfter :: int

type_synonym reconcileResult = "ctrlResult \<times> providerReconcileError option"

definition SafeProviderReconcileError :: "ProviderFailurePolicy \<Rightarrow> go_error \<Rightarrow> providerReconcileError" where
  "SafeProviderReconcileError policy cause = \<lparr>pre_message = fp_Message policy, pre_cause = cause\<rparr>"

definition categoryText :: "ErrorCategory \<Rightarrow> string" where
  "categoryText c = (case c of Authentication \<Rightarrow> ''Authentication'' | Authorization \<Rightarrow> ''Authorization'' | Quota \<Rightarrow> ''Quota''
     | RateLimit \<Rightarrow> ''RateLimit'' | Timeout \<Rightarrow> ''Timeout'' | RetryableService \<Rightarrow> ''RetryableService''
     | TerminalValidation \<Rightarrow> ''TerminalValidation'' | ResourceFailure \<Rightarrow> ''ResourceFailure''
     | OwnershipConflict \<Rightarrow> ''OwnershipConflict'')"

definition providerFailureResultForOperation :: "ProviderFailurePolicy \<Rightarrow> go_error \<Rightarrow> string \<Rightarrow> bool \<Rightarrow> reconcileResult" where
  "providerFailureResultForOperation policy cause key finalizing =
     (if fp_ReturnError policy then (\<lparr>cr_Requeue = False, cr_RequeueAfter = 0\<rparr>, Some (SafeProviderReconcileError policy cause))
      else let requeueAfter = (if finalizing \<and> fp_RequeueAfter policy = 0 then providerFailureRequeue else fp_RequeueAfter policy) in
        if requeueAfter = 0 then (\<lparr>cr_Requeue = False, cr_RequeueAfter = 0\<rparr>, None)
        else (\<lparr>cr_Requeue = False, cr_RequeueAfter = stableJitter requeueAfter (key @ ''/'' @ categoryText (fp_Category policy))\<rparr>, None))"

definition ProviderFailureResult :: "ProviderFailurePolicy \<Rightarrow> go_error \<Rightarrow> string \<Rightarrow> reconcileResult" where
  "ProviderFailureResult policy cause key = providerFailureResultForOperation policy cause key False"

definition ProviderFinalizationFailureResult :: "ProviderFailurePolicy \<Rightarrow> go_error \<Rightarrow> string \<Rightarrow> reconcileResult" where
  "ProviderFinalizationFailureResult policy cause key = providerFailureResultForOperation policy cause key True"

section \<open>The jitter does not wrap\<close>

lemma int64_id [simp]: "isInt64 x \<Longrightarrow> int64 x = x"
  by (simp add: int64_def isInt64_def)

lemma isInt64_abs: "\<bar>x\<bar> < 2 ^ 63 \<Longrightarrow> isInt64 x"
  unfolding isInt64_def by (simp only: abs_less_iff) simp

lemma offsetPermille_bounds: "- 200 \<le> offsetPermille key \<and> offsetPermille key \<le> 200"
proof -
  have "uint (fnv32a key mod 401) < 401"
    by (simp add: uint_mod_distrib)
  moreover have "0 \<le> uint (fnv32a key mod 401)" by simp
  ultimately have "isInt64 (uint (fnv32a key mod 401) - 200)" by (simp add: isInt64_def)
  then show ?thesis
    using \<open>uint (fnv32a key mod 401) < 401\<close> by (simp add: offsetPermille_def)
qed

text \<open>Division of Go truncates towards zero.\<close>

lemma sdiv_bound:
  fixes x :: int
  shows "\<bar>x sdiv 1000\<bar> \<le> \<bar>x\<bar> div 1000"
  by (simp add: signed_divide_int_def sgn_mult abs_mult)

lemma scaled_bound:
  fixes x off :: int
  shows "0 \<le> x \<Longrightarrow> \<bar>off\<bar> \<le> 200 \<Longrightarrow> \<bar>x * off\<bar> \<le> x * 200"
  by (simp add: abs_mult mult_left_mono)

lemma jitterDelta_exact:
  assumes "0 < b" "b < 2 ^ 63" "\<bar>off\<bar> \<le> 200"
  shows "jitterDelta b off = b div 1000 * off + (b mod 1000 * off) sdiv 1000 \<and> \<bar>jitterDelta b off\<bar> \<le> b div 5"
proof -
  have pos: "0 \<le> b div 1000" "0 \<le> b mod 1000" using assms(1) by simp_all
  have div: "b sdiv 1000 = b div 1000" "b smod 1000 = b mod 1000"
    using assms(1) by (simp_all add: signed_divide_int_def signed_modulo_int_def minus_div_mult_eq_mod)
  note first = scaled_bound [OF pos(1) assms(3)] and rest = scaled_bound [OF pos(2) assms(3)]
  from rest have second': "\<bar>(b mod 1000 * off) sdiv 1000\<bar> \<le> (b mod 1000 * 200) div 1000"
    using sdiv_bound [of "b mod 1000 * off"] by (meson order_trans zdiv_mono1 zero_less_numeral)
  have sum: "b div 1000 * 200 + (b mod 1000 * 200) div 1000 = b div 5"
  proof -
    have "(b mod 1000 * 200) div (5 * 200) = b mod 1000 div 5" by (rule div_mult_mult2) simp
    moreover have "(b mod 1000 + (b div 1000 * 200) * 5) div 5 = b div 1000 * 200 + b mod 1000 div 5"
      by (rule div_mult_self1) simp
    moreover have "b mod 1000 + (b div 1000 * 200) * 5 = b" using mod_div_mult_eq [of b 1000] by simp
    ultimately show ?thesis by simp
  qed
  have bound: "\<bar>b div 1000 * off + (b mod 1000 * off) sdiv 1000\<bar> \<le> b div 5"
    using order_trans [OF abs_triangle_ineq add_mono [OF first second']] unfolding sum .
  have "b mod 1000 < 1000" "0 \<le> b mod 1000 * 200 div 1000" "b div 5 \<le> b" using assms(1) by simp_all
  then have "b mod 1000 * 200 < 200000" "b div 1000 * 200 \<le> b" using sum by linarith+
  then have small: "b div 1000 * 200 < 2 ^ 63" "b mod 1000 * 200 < 2 ^ 63" "b div 5 < 2 ^ 63"
    using assms(2) \<open>b div 5 \<le> b\<close> by (simp_all only: power_numeral) simp_all
  note isInt64_abs [OF le_less_trans [OF first small(1)]] isInt64_abs [OF le_less_trans [OF rest small(2)]]
    isInt64_abs [OF le_less_trans [OF bound small(3)]]
  then have "jitterDelta b off = b div 1000 * off + (b mod 1000 * off) sdiv 1000"
    unfolding jitterDelta_def div by (simp only: int64_id)
  with bound show ?thesis by (simp only:)
qed

lemma stableJitter_exact:
  assumes "0 < b" "b < 2 ^ 63"
  shows "stableJitter b key = min maximumDuration (b + jitterDelta b (offsetPermille key))"
    and "\<bar>jitterDelta b (offsetPermille key)\<bar> \<le> b div 5"
proof -
  let ?d = "jitterDelta b (offsetPermille key)"
  show d: "\<bar>?d\<bar> \<le> b div 5"
    using offsetPermille_bounds [of key] by (intro conjunct2 [OF jitterDelta_exact [OF assms]]) linarith
  then have le: "?d \<le> b" "- ?d \<le> b" using assms(1) by linarith+
  have "int64 (b + ?d) = b + ?d" if "b + ?d \<le> maximumDuration"
    using that le assms(1) by (intro int64_id) (simp add: isInt64_def maximumDuration_def)
  moreover have "int64 (maximumDuration - ?d) = maximumDuration - ?d" if "?d > 0"
    using that le assms by (intro int64_id) (simp add: isInt64_def maximumDuration_def)
  moreover have "b \<le> maximumDuration" using assms(2) by (simp add: maximumDuration_def)
  ultimately show "stableJitter b key = min maximumDuration (b + ?d)"
    using assms(1) unfolding stableJitter_def by (cases "?d > 0") (auto simp: Let_def min_def)
qed



text \<open>
  After progress a reconciler runs again in one to thirty seconds, whatever the provider asks for.
\<close>

theorem progress_requeue_bounds:
  "minimumProviderProgressRequeue \<le> ProviderProgressRequeueAfter outcome uid \<and>
   ProviderProgressRequeueAfter outcome uid \<le> maximumProviderProgressRequeue"
  by (simp add: ProviderProgressRequeueAfter_def Let_def requeue_defs)

section \<open>No failure is forgotten\<close>

definition retried :: "reconcileResult \<Rightarrow> bool" where
  "retried res \<longleftrightarrow> (case res of (r, err) \<Rightarrow> err \<noteq> None \<or> cr_RequeueAfter r > 0)"

definition explained :: "string \<Rightarrow> reconcileResult \<Rightarrow> bool" where
  "explained msg res \<longleftrightarrow> (case res of (_, None) \<Rightarrow> True | (_, Some e) \<Rightarrow> pre_message e = msg)"

lemma jitter_positive: "0 < b \<Longrightarrow> b < 2 ^ 63 \<Longrightarrow> 0 < stableJitter b key"
  using stableJitter_exact [of b key] by (auto simp: min_def maximumDuration_def abs_le_iff)

lemma policy_requeue:
  "fp_ReturnError (policyFor c) \<longleftrightarrow> c \<in> {RateLimit, Timeout, RetryableService}"
  "fp_RequeueAfter (policyFor c) = (if c \<in> {RateLimit, Timeout, RetryableService, TerminalValidation} then 0
     else if c = OwnershipConflict then ownershipConflictRequeue else providerFailureRequeue)"
  by (cases c; simp add: policyFor_def failurePolicy_def)+

lemma cleanup_policy [simp]:
  "fp_ReturnError (ProviderCleanupFailurePolicy policy kind) = fp_ReturnError policy"
  "fp_RequeueAfter (ProviderCleanupFailurePolicy policy kind) = fp_RequeueAfter policy"
  by (simp_all add: ProviderCleanupFailurePolicy_def)

text \<open>
  A classified failure is retried: during finalization always, otherwise unless the request was
  invalid and only a change of the input can help. The error given to the work queue has the message of
  the policy, and nothing of the text of the cause.
\<close>

theorem failures_are_retried:
  assumes "ErrorCategoryOf err = Some category"
  shows "ProviderFailurePolicyFor err = Some (policyFor category) \<and>
    (retried (ProviderFailureResult (policyFor category) cause key) \<longleftrightarrow> category \<noteq> TerminalValidation) \<and>
    retried (ProviderFinalizationFailureResult (policyFor category) cause key) \<and>
    retried (ProviderFinalizationFailureResult (ProviderCleanupFailurePolicy (policyFor category) kind) cause key) \<and>
    explained (fp_Message (policyFor category)) (ProviderFailureResult (policyFor category) cause key)"
proof -
  have positive: "0 < stableJitter ownershipConflictRequeue k \<and> 0 < stableJitter providerFailureRequeue k" for k
    using jitter_positive by (simp add: requeue_defs)
  have zero: "providerFailureRequeue \<noteq> 0" "ownershipConflictRequeue \<noteq> 0" by (simp_all add: requeue_defs)
  have retried: "retried (providerFailureResultForOperation policy cause key finalizing) \<longleftrightarrow> finalizing \<or> category \<noteq> TerminalValidation"
    if "fp_ReturnError policy \<longleftrightarrow> category \<in> {RateLimit, Timeout, RetryableService}"
      "fp_RequeueAfter policy = (if category \<in> {RateLimit, Timeout, RetryableService, TerminalValidation} then 0
         else if category = OwnershipConflict then ownershipConflictRequeue else providerFailureRequeue)" for policy finalizing
    using that positive zero
    by (cases "fp_ReturnError policy"; cases "category = TerminalValidation"; cases "category = OwnershipConflict")
      (auto simp: retried_def providerFailureResultForOperation_def Let_def)
  have "explained (fp_Message policy) (providerFailureResultForOperation policy cause key False)" for policy
    by (simp add: explained_def providerFailureResultForOperation_def SafeProviderReconcileError_def Let_def)
  then show ?thesis
    using assms retried [of "policyFor category"] retried [of "ProviderCleanupFailurePolicy (policyFor category) kind"]
    by (simp add: ProviderFailurePolicyFor_def ProviderFailureResult_def ProviderFinalizationFailureResult_def policy_requeue)
qed

theorem failures_are_retried_witness:
  "ErrorCategoryOf (Wrapf ErrOwnershipConflict) = Some OwnershipConflict \<and>
   retried (ProviderFinalizationFailureResult (policyFor OwnershipConflict) Errorf ''gateway/uid-1'')"
  using failures_are_retried [of "Wrapf ErrOwnershipConflict" OwnershipConflict Errorf "''gateway/uid-1''" "''Gateway''"] by simp

end
