(* ===== verification/GatewayAPI.thy ===== *)
theory GatewayAPI
  imports Kubernetes
begin

text \<open>
  The Gateway API and core Kubernetes types that the reconcilers read, with the fields they use. A pointer
  to a scalar is an option. A field that is only compared with nil is a boolean that says it is set, and a
  list of which only the length is used is its length.
\<close>

definition GroupName :: string where "GroupName = ''gateway.networking.k8s.io''"
definition HTTPProtocolType :: string where "HTTPProtocolType = ''HTTP''"
definition NamespacesFromSame :: string where "NamespacesFromSame = ''Same''"

record RouteGroupKind =
  rk_Group :: "string option"
  rk_Kind :: string

record AllowedRoutes =
  ar_NamespacesFrom :: "string option"
  ar_Kinds :: "RouteGroupKind list"

record GatewayListener =
  gl_Name :: string
  gl_Hostname :: "string option"
  gl_Port :: int
  gl_Protocol :: string
  gl_TLS :: bool
  gl_AllowedRoutes :: "AllowedRoutes option"

record ListenerStatus =
  ls_Name :: string
  ls_SupportedKinds :: "RouteGroupKind list"
  ls_AttachedRoutes :: int
  ls_Conditions :: "StatusCondition list"

record Gateway =
  gw_Meta :: ObjectMeta
  gw_GatewayClassName :: string
  gw_Addresses :: nat
  gw_Infrastructure :: bool
  gw_AllowedListeners :: bool
  gw_TLS :: bool
  gw_Listeners :: "GatewayListener list"
  gw_Conditions :: "StatusCondition list"
  gw_StatusAddresses :: "(string option \<times> string) list"
  gw_ListenerStatuses :: "ListenerStatus list"

record GatewayClass =
  gc_Meta :: ObjectMeta
  gc_ControllerName :: string
  gc_ParametersRef :: bool
  gc_SupportedFeatures :: "string list"
  gc_Conditions :: "StatusCondition list"

abbreviation gc_Name :: "GatewayClass \<Rightarrow> string" where
  "gc_Name gatewayClass \<equiv> om_Name (gc_Meta gatewayClass)"

abbreviation gc_Generation :: "GatewayClass \<Rightarrow> int" where
  "gc_Generation gatewayClass \<equiv> om_Generation (gc_Meta gatewayClass)"

record ParentReference =
  pa_Group :: "string option"
  pa_Kind :: "string option"
  pa_Namespace :: "string option"
  pa_Name :: string
  pa_SectionName :: "string option"
  pa_Port :: "int option"

record HTTPPathMatch =
  pm_Type :: "string option"
  pm_Value :: "string option"

record HTTPRouteMatch =
  ma_Path :: "HTTPPathMatch option"
  ma_Headers :: nat
  ma_QueryParams :: nat
  ma_Method :: bool

record HTTPBackendRef =
  br_Group :: "string option"
  br_Kind :: "string option"
  br_Namespace :: "string option"
  br_Name :: string
  br_Port :: "int option"
  br_Weight :: "int option"
  br_Filters :: nat

record HTTPRouteRule =
  hr_Name :: bool
  hr_Matches :: "HTTPRouteMatch list"
  hr_Filters :: nat
  hr_BackendRefs :: "HTTPBackendRef list"
  hr_Timeouts :: bool
  hr_Retry :: bool
  hr_SessionPersistence :: bool

record RouteParentStatus =
  ps_ParentRef :: ParentReference
  ps_ControllerName :: string
  ps_Conditions :: "StatusCondition list"

record HTTPRoute =
  ht_Meta :: ObjectMeta
  ht_ParentRefs :: "ParentReference list"
  ht_Hostnames :: "string list"
  ht_Rules :: "HTTPRouteRule list"
  ht_Parents :: "RouteParentStatus list"

record ServicePort =
  sp_Port :: int
  sp_Protocol :: string
  sp_AppProtocol :: "string option"
  sp_NodePort :: int

record Service =
  sv_Namespace :: string
  sv_Name :: string
  sv_Type :: string
  sv_ExternalTrafficPolicy :: string
  sv_Ports :: "ServicePort list"

record Endpoint =
  ep_Ready :: "bool option"
  ep_Terminating :: "bool option"
  ep_NodeName :: "string option"

record Node =
  no_Name :: string
  no_Deleting :: bool
  no_Unschedulable :: bool
  no_Conditions :: "(string \<times> string) list"
  no_Addresses :: "(string \<times> string) list"

text \<open>The metadata of a CustomResourceDefinition.\<close>

record CustomResource =
  crd_Name :: string
  crd_Deleting :: bool
  crd_Annotations :: "string \<rightharpoonup> string"

text \<open>
  The API reader: the answers to the requests the code sends. The error of a read is not found or another
  one, which is what apierrors.IsNotFound tells apart. \<open>rd_Indexed\<close> lists the HTTPRoutes of all namespaces with a value of
  a field index.
\<close>

datatype readError = NotFound | ReadFailed

record apiReader =
  rd_Gateway :: "string \<Rightarrow> string \<Rightarrow> readError + Gateway"
  rd_GatewayClass :: "string \<Rightarrow> readError + GatewayClass"
  rd_Service :: "string \<Rightarrow> string \<Rightarrow> readError + Service"
  rd_EndpointSlices :: "string \<Rightarrow> string \<Rightarrow> readError + Endpoint list list"
  rd_Nodes :: "readError + Node list"
  rd_HTTPRoutes :: "string \<Rightarrow> readError + HTTPRoute list"
  rd_HTTPRoute :: "string \<Rightarrow> string \<Rightarrow> readError + HTTPRoute"
  rd_CustomResources :: "readError + CustomResource list"
  rd_Indexed :: "string \<Rightarrow> string \<Rightarrow> readError + HTTPRoute list"

end
