(* ===== verification/Bindings.thy ===== *)
theory Bindings
  imports Kubernetes Encoding AuditReport
begin

text \<open>
  The durable bindings: internal/controller/config.go (configuration, finalizers and annotation keys),
  identity.go, binding.go, the metadata operations of httproute/httproute\_binding.go and
  gateway/gateway\_binding.go, and ownershipaudit/collector.go, which reads all bindings for the audit. The
  text of errors is not modelled.
\<close>

section \<open>Configuration\<close>

definition MemberModeNodePort :: string where "MemberModeNodePort = ''NodePort''"
definition NodeInternalIP :: string where "NodeInternalIP = ''InternalIP''"
definition NodeExternalIP :: string where "NodeExternalIP = ''ExternalIP''"
definition DefaultOpenStackResyncInterval :: int where "DefaultOpenStackResyncInterval = 10 * 60 * 1000000000"

record Config =
  cf_ControllerName :: string
  cf_ControllerVersion :: string
  cf_OpenStackProjectID :: string
  cf_ClusterID :: string
  cf_Provider :: string
  cf_VIPSubnetID :: string
  cf_ExternalNetworkID :: string
  cf_MemberSubnetID :: string
  cf_MemberMode :: string
  cf_NodeAddressType :: string
  cf_HealthPath :: string
  cf_OpenStackResyncInterval :: int

text \<open>
  The pattern of a controller name: labels of lower-case letters, digits and inner hyphens, separated by
  dots, a slash, and a non-empty path. The slash does not occur in a label, so the first slash separates.
\<close>

definition isLowerAlnum :: "char \<Rightarrow> bool" where
  "isLowerAlnum c \<longleftrightarrow> CHR ''a'' \<le> c \<and> c \<le> CHR ''z'' \<or> CHR ''0'' \<le> c \<and> c \<le> CHR ''9''"

definition domainLabel :: "string \<Rightarrow> bool" where
  "domainLabel s \<longleftrightarrow> s \<noteq> [] \<and> list_all (\<lambda>c. isLowerAlnum c \<or> c = CHR ''-'') s \<and> isLowerAlnum (hd s) \<and> isLowerAlnum (last s)"

fun splitOn :: "char \<Rightarrow> string \<Rightarrow> string list" where
  "splitOn sep [] = [[]]"
| "splitOn sep (c # s) = (if c = sep then [] # splitOn sep s else
     (case splitOn sep s of [] \<Rightarrow> [[c]] | x # xs \<Rightarrow> (c # x) # xs))"

definition pathChar :: "char \<Rightarrow> bool" where
  "pathChar c \<longleftrightarrow> CHR ''A'' \<le> c \<and> c \<le> CHR ''Z'' \<or> CHR ''a'' \<le> c \<and> c \<le> CHR ''z'' \<or> CHR ''0'' \<le> c \<and> c \<le> CHR ''9'' \<or>
     c \<in> set ''/-._~%!$&()*+,;=:'' \<or> c = CHR 0x27"

definition gatewayControllerNamePattern :: "string \<Rightarrow> bool" where
  "gatewayControllerNamePattern name = (case Cut name ''/'' of (domain, path, found) \<Rightarrow>
     found \<and> list_all domainLabel (splitOn CHR ''.'' domain) \<and> path \<noteq> [] \<and> list_all pathChar path)"

definition IsValidControllerName :: "string \<Rightarrow> bool" where
  "IsValidControllerName name \<longleftrightarrow> length name \<le> 253 \<and> gatewayControllerNamePattern name"

definition ValidateConfig :: "Config \<Rightarrow> unit result" where
  "ValidateConfig c =
     bindE (guardE (IsValidControllerName (cf_ControllerName c)) Errorf) (\<lambda>_.
     bindE (foreachE (\<lambda>v. guardE (TrimSpace v \<noteq> []) Errorf)
       [cf_ClusterID c, cf_Provider c, cf_VIPSubnetID c, cf_MemberSubnetID c]) (\<lambda>_.
     bindE (guardE (cf_Provider c = ''amphora'') Errorf) (\<lambda>_.
     bindE (guardE (cf_MemberMode c = MemberModeNodePort) Errorf) (\<lambda>_.
     bindE (guardE (\<not> (cf_NodeAddressType c \<noteq> NodeInternalIP \<and> cf_NodeAddressType c \<noteq> NodeExternalIP)) Errorf) (\<lambda>_.
     bindE (guardE (HasPrefix (cf_HealthPath c) ''/'') Errorf) (\<lambda>_.
     guardE (\<not> cf_OpenStackResyncInterval c \<le> 0) Errorf))))))"

subsection \<open>Finalizers and annotation keys\<close>

definition Domain :: "Config \<Rightarrow> string" where
  "Domain c = fst (Cut (cf_ControllerName c) ''/'')"

definition controllerKey :: "Config \<Rightarrow> string" where
  "controllerKey c = hexString (take 6 (Sum256 (cf_ControllerName c)))"

definition GatewayFinalizer :: "Config \<Rightarrow> string" where
  "GatewayFinalizer c = Domain c @ ''/gateway-finalizer-'' @ controllerKey c"

definition RouteFinalizer :: "Config \<Rightarrow> string" where
  "RouteFinalizer c = Domain c @ ''/httproute-finalizer-'' @ controllerKey c"

definition RouteBindingFinalizerPrefix :: "Config \<Rightarrow> string" where
  "RouteBindingFinalizerPrefix c = Domain c @ ''/httproute-binding-'' @ controllerKey c @ ''-''"

definition RouteBindingFinalizer :: "Config \<Rightarrow> string \<Rightarrow> string \<Rightarrow> string \<Rightarrow> string \<Rightarrow> string \<Rightarrow> string" where
  "RouteBindingFinalizer c clusterID projectID gatewayNamespace gatewayName gatewayUID =
     RouteBindingFinalizerPrefix c @
     hexString (take 6 (Sum256 (Join [clusterID, projectID, gatewayNamespace, gatewayName, gatewayUID] zeroByte)))"

definition RouteGatewayNamespaceAnnotation :: "Config \<Rightarrow> string" where
  "RouteGatewayNamespaceAnnotation c = Domain c @ ''/route-gateway-namespace-'' @ controllerKey c"

definition RouteGatewayNameAnnotation :: "Config \<Rightarrow> string" where
  "RouteGatewayNameAnnotation c = Domain c @ ''/route-gateway-name-'' @ controllerKey c"

definition RouteGatewayUIDAnnotation :: "Config \<Rightarrow> string" where
  "RouteGatewayUIDAnnotation c = Domain c @ ''/route-gateway-uid-'' @ controllerKey c"

definition GatewayListenerPortAnnotation :: "Config \<Rightarrow> string" where
  "GatewayListenerPortAnnotation c = Domain c @ ''/gateway-listener-port-'' @ controllerKey c"

definition GatewayClusterIDAnnotation :: "Config \<Rightarrow> string" where
  "GatewayClusterIDAnnotation c = Domain c @ ''/gateway-cluster-id-'' @ controllerKey c"

definition GatewayProjectIDAnnotation :: "Config \<Rightarrow> string" where
  "GatewayProjectIDAnnotation c = Domain c @ ''/gateway-project-id-'' @ controllerKey c"

definition RouteClusterIDAnnotation :: "Config \<Rightarrow> string" where
  "RouteClusterIDAnnotation c = Domain c @ ''/route-cluster-id-'' @ controllerKey c"

definition RouteProjectIDAnnotation :: "Config \<Rightarrow> string" where
  "RouteProjectIDAnnotation c = Domain c @ ''/route-project-id-'' @ controllerKey c"

definition RouteCleanupFailureAnnotation :: "Config \<Rightarrow> string" where
  "RouteCleanupFailureAnnotation c = Domain c @ ''/httproute-cleanup-failure-'' @ controllerKey c"

lemmas key_defs = GatewayFinalizer_def RouteFinalizer_def RouteBindingFinalizerPrefix_def
  RouteGatewayNamespaceAnnotation_def RouteGatewayNameAnnotation_def RouteGatewayUIDAnnotation_def
  GatewayListenerPortAnnotation_def GatewayClusterIDAnnotation_def GatewayProjectIDAnnotation_def
  RouteClusterIDAnnotation_def RouteProjectIDAnnotation_def RouteCleanupFailureAnnotation_def

section \<open>Identities\<close>

definition GatewayIdentity :: "Config \<Rightarrow> ObjectMeta \<Rightarrow> Identity" where
  "GatewayIdentity cfg gateway =
     \<lparr>OpenStackProjectID = cf_OpenStackProjectID cfg, ClusterID = cf_ClusterID cfg, Controller = cf_ControllerName cfg,
      ControllerVersion = cf_ControllerVersion cfg, GatewayNamespace = om_Namespace gateway, GatewayName = om_Name gateway,
      GatewayUID = om_UID gateway, RouteNamespace = [], RouteName = [], RouteUID = []\<rparr>"

definition RouteIdentity :: "Config \<Rightarrow> ObjectMeta \<Rightarrow> ObjectMeta \<Rightarrow> Identity" where
  "RouteIdentity cfg gateway route = (GatewayIdentity cfg gateway)
     \<lparr>RouteNamespace := om_Namespace route, RouteName := om_Name route, RouteUID := om_UID route\<rparr>"

section \<open>Gateway bindings\<close>

definition gatewayBindingKeys :: "Config \<Rightarrow> string list" where
  "gatewayBindingKeys c = [GatewayListenerPortAnnotation c, GatewayClusterIDAnnotation c, GatewayProjectIDAnnotation c]"

definition ValidateGatewayBinding :: "finalizerUtil \<Rightarrow> Config \<Rightarrow> ObjectMeta \<Rightarrow> unit result" where
  "ValidateGatewayBinding k c gateway =
     (let bindingValues = map (annotation gateway) (gatewayBindingKeys c);
          populatedBindingCount = length (filter (\<lambda>v. v \<noteq> []) bindingValues) in
      if populatedBindingCount \<noteq> length bindingValues \<and>
         (populatedBindingCount \<noteq> 0 \<or> ContainsFinalizer k gateway (GatewayFinalizer c)) then Inl Errorf
      else if annotation gateway (GatewayClusterIDAnnotation c) \<noteq> [] \<and>
         annotation gateway (GatewayClusterIDAnnotation c) \<noteq> cf_ClusterID c then Inl Errorf
      else if annotation gateway (GatewayProjectIDAnnotation c) \<noteq> [] \<and>
         annotation gateway (GatewayProjectIDAnnotation c) \<noteq> cf_OpenStackProjectID c then Inl Errorf
      else Inr ())"

definition GatewayHasControllerBinding :: "finalizerUtil \<Rightarrow> Config \<Rightarrow> ObjectMeta \<Rightarrow> bool" where
  "GatewayHasControllerBinding k c gateway \<longleftrightarrow> ContainsFinalizer k gateway (GatewayFinalizer c) \<or>
     list_ex (\<lambda>key. annotation gateway key \<noteq> []) (gatewayBindingKeys c)"

definition GatewayBindingMetadataEqual :: "finalizerUtil \<Rightarrow> Config \<Rightarrow> ObjectMeta \<Rightarrow> ObjectMeta \<Rightarrow> bool" where
  "GatewayBindingMetadataEqual k c left right \<longleftrightarrow>
     ContainsFinalizer k left (GatewayFinalizer c) = ContainsFinalizer k right (GatewayFinalizer c) \<and>
     list_all (\<lambda>key. annotation left key = annotation right key) (gatewayBindingKeys c)"

definition StoredGatewayIdentity :: "Config \<Rightarrow> ObjectMeta \<Rightarrow> Identity" where
  "StoredGatewayIdentity c gateway =
     (let i = GatewayIdentity c gateway;
          cluster = annotation gateway (GatewayClusterIDAnnotation c);
          project = annotation gateway (GatewayProjectIDAnnotation c);
          i = (if cluster \<noteq> [] then i\<lparr>ClusterID := cluster\<rparr> else i) in
      if project \<noteq> [] then i\<lparr>OpenStackProjectID := project\<rparr> else i)"

definition SameGatewayIdentity :: "Identity \<Rightarrow> Identity \<Rightarrow> bool" where
  "SameGatewayIdentity left right \<longleftrightarrow> GatewayNamespace left = GatewayNamespace right \<and>
     GatewayName left = GatewayName right \<and> GatewayUID left = GatewayUID right"

text \<open>The metadata that bindGateway writes; observing, sealing and patching the object are not modelled.\<close>

definition applyGatewayBinding :: "finalizerUtil \<Rightarrow> Config \<Rightarrow> string \<Rightarrow> ObjectMeta \<Rightarrow> ObjectMeta" where
  "applyGatewayBinding k c desiredListenerPort gateway =
     AddFinalizer k (gateway\<lparr>om_Annotations := (om_Annotations gateway)(GatewayListenerPortAnnotation c \<mapsto> desiredListenerPort,
       GatewayClusterIDAnnotation c \<mapsto> cf_ClusterID c, GatewayProjectIDAnnotation c \<mapsto> cf_OpenStackProjectID c)\<rparr>)
     (GatewayFinalizer c)"

section \<open>Route bindings\<close>

definition isBindingFinalizer :: "Config \<Rightarrow> string \<Rightarrow> bool" where
  "isBindingFinalizer c f \<longleftrightarrow> HasPrefix f (RouteBindingFinalizerPrefix c)"

definition hasRouteBindingFinalizer :: "Config \<Rightarrow> ObjectMeta \<Rightarrow> bool" where
  "hasRouteBindingFinalizer c route = list_ex (isBindingFinalizer c) (om_Finalizers route)"

definition routeHasBindingAnnotations :: "Config \<Rightarrow> ObjectMeta \<Rightarrow> bool" where
  "routeHasBindingAnnotations c route = list_ex (\<lambda>key. annotation route key \<noteq> [])
     [RouteGatewayNamespaceAnnotation c, RouteGatewayNameAnnotation c, RouteGatewayUIDAnnotation c,
      RouteClusterIDAnnotation c, RouteProjectIDAnnotation c]"

definition RouteHasControllerBinding :: "finalizerUtil \<Rightarrow> Config \<Rightarrow> ObjectMeta \<Rightarrow> bool" where
  "RouteHasControllerBinding k c route \<longleftrightarrow> ContainsFinalizer k route (RouteFinalizer c) \<or>
     hasRouteBindingFinalizer c route \<or> routeHasBindingAnnotations c route"

definition orElse :: "string \<Rightarrow> string \<Rightarrow> string" where
  "orElse v fallback = (if v = [] then fallback else v)"

definition annotatedIdentity :: "Config \<Rightarrow> ObjectMeta \<Rightarrow> Identity" where
  "annotatedIdentity c route =
     \<lparr>OpenStackProjectID = orElse (annotation route (RouteProjectIDAnnotation c)) (cf_OpenStackProjectID c),
      ClusterID = orElse (annotation route (RouteClusterIDAnnotation c)) (cf_ClusterID c),
      Controller = cf_ControllerName c, ControllerVersion = cf_ControllerVersion c,
      GatewayNamespace = annotation route (RouteGatewayNamespaceAnnotation c),
      GatewayName = annotation route (RouteGatewayNameAnnotation c),
      GatewayUID = annotation route (RouteGatewayUIDAnnotation c),
      RouteNamespace = om_Namespace route, RouteName = om_Name route, RouteUID = om_UID route\<rparr>"

definition bindingFinalizerOf :: "Config \<Rightarrow> Identity \<Rightarrow> string" where
  "bindingFinalizerOf c i =
     RouteBindingFinalizer c (ClusterID i) (OpenStackProjectID i) (GatewayNamespace i) (GatewayName i) (GatewayUID i)"

definition StoredRouteIdentity :: "finalizerUtil \<Rightarrow> Config \<Rightarrow> ObjectMeta \<Rightarrow> Identity option result" where
  "StoredRouteIdentity k c route =
     (let stored = map (annotation route) [RouteGatewayNamespaceAnnotation c, RouteGatewayNameAnnotation c, RouteGatewayUIDAnnotation c];
          empty = length (filter (\<lambda>v. v = []) stored) in
      if empty = length stored then
        (if annotation route (RouteClusterIDAnnotation c) \<noteq> [] \<or> annotation route (RouteProjectIDAnnotation c) \<noteq> [] \<or>
            hasRouteBindingFinalizer c route then Inl Errorf
         else Inr None)
      else if empty \<noteq> 0 then Inl Errorf
      else let i = annotatedIdentity c route; expectedBindingFinalizer = bindingFinalizerOf c i in
        bindE (guardE (ClusterID i = cf_ClusterID c) Errorf) (\<lambda>_.
        bindE (guardE (OpenStackProjectID i = cf_OpenStackProjectID c) Errorf) (\<lambda>_.
        bindE (ValidateRouteIdentity i) (\<lambda>_.
        bindE (guardE (\<not> (ContainsFinalizer k route (RouteFinalizer c) \<and> \<not> ContainsFinalizer k route expectedBindingFinalizer)) Errorf) (\<lambda>_.
        bindE (foreachE (\<lambda>f. guardE (\<not> (isBindingFinalizer c f \<and> f \<noteq> expectedBindingFinalizer)) Errorf) (om_Finalizers route)) (\<lambda>_.
        Inr (Some i)))))))"

text \<open>The metadata operations of the HTTPRoute reconciler.\<close>

definition removeStaleRouteBindingFinalizers :: "Config \<Rightarrow> string \<Rightarrow> ObjectMeta \<Rightarrow> ObjectMeta" where
  "removeStaleRouteBindingFinalizers c expected route =
     route\<lparr>om_Finalizers := filter (\<lambda>f. \<not> (isBindingFinalizer c f \<and> f \<noteq> expected)) (om_Finalizers route)\<rparr>"

definition applyRouteBinding :: "finalizerUtil \<Rightarrow> Config \<Rightarrow> ObjectMeta \<Rightarrow> ObjectMeta \<Rightarrow> ObjectMeta" where
  "applyRouteBinding k c gateway route =
     (let route = route\<lparr>om_Annotations := (om_Annotations route)
            (RouteGatewayNamespaceAnnotation c \<mapsto> om_Namespace gateway, RouteGatewayNameAnnotation c \<mapsto> om_Name gateway,
             RouteGatewayUIDAnnotation c \<mapsto> om_UID gateway, RouteClusterIDAnnotation c \<mapsto> cf_ClusterID c,
             RouteProjectIDAnnotation c \<mapsto> cf_OpenStackProjectID c, RouteCleanupFailureAnnotation c := None)\<rparr>;
          bindingFinalizer = RouteBindingFinalizer c (cf_ClusterID c) (cf_OpenStackProjectID c)
            (om_Namespace gateway) (om_Name gateway) (om_UID gateway) in
      AddFinalizer k (AddFinalizer k (removeStaleRouteBindingFinalizers c bindingFinalizer route) bindingFinalizer) (RouteFinalizer c))"

definition removeRouteBindingFinalizers :: "finalizerUtil \<Rightarrow> Config \<Rightarrow> ObjectMeta \<Rightarrow> ObjectMeta" where
  "removeRouteBindingFinalizers k c route =
     fold (\<lambda>f route. if isBindingFinalizer c f then RemoveFinalizer k route f else route) (om_Finalizers route) route"

definition clearRouteBinding :: "finalizerUtil \<Rightarrow> Config \<Rightarrow> ObjectMeta \<Rightarrow> ObjectMeta" where
  "clearRouteBinding k c route =
     (let route = removeRouteBindingFinalizers k c (RemoveFinalizer k route (RouteFinalizer c)) in
      route\<lparr>om_Annotations := (om_Annotations route)(RouteGatewayNamespaceAnnotation c := None,
        RouteGatewayNameAnnotation c := None, RouteGatewayUIDAnnotation c := None, RouteClusterIDAnnotation c := None,
        RouteProjectIDAnnotation c := None, RouteCleanupFailureAnnotation c := None)\<rparr>)"

definition routeBindingMetadataEqual :: "ObjectMeta \<Rightarrow> ObjectMeta \<Rightarrow> bool" where
  "routeBindingMetadataEqual left right \<longleftrightarrow> om_Annotations left = om_Annotations right \<and> om_Finalizers left = om_Finalizers right"

definition sameHTTPRouteRevision :: "ObjectMeta \<Rightarrow> string \<Rightarrow> int \<Rightarrow> bool \<Rightarrow> bool" where
  "sameHTTPRouteRevision route uid generation isDeleting \<longleftrightarrow>
     om_UID route = uid \<and> om_Generation route = generation \<and> om_Deleting route = isDeleting"

section \<open>Collecting the bindings\<close>

definition invalidBindingReason :: string where "invalidBindingReason = ''InvalidBinding''"
definition invalidBindingMessage :: string where
  "invalidBindingMessage = ''Controller binding is incomplete or does not match the configured cluster and OpenStack project''"

definition gatewayAuditReference :: "ObjectMeta \<Rightarrow> ObjectReference" where
  "gatewayAuditReference gateway = \<lparr>obj_APIVersion = gatewayAPIVersion, obj_Kind = ''Gateway'', obj_Namespace = om_Namespace gateway,
     obj_Name = om_Name gateway, obj_UID = om_UID gateway\<rparr>"

definition routeAuditReference :: "ObjectMeta \<Rightarrow> ObjectReference" where
  "routeAuditReference route = \<lparr>obj_APIVersion = gatewayAPIVersion, obj_Kind = ''HTTPRoute'', obj_Namespace = om_Namespace route,
     obj_Name = om_Name route, obj_UID = om_UID route\<rparr>"

definition invalidBindingIssue :: "ObjectReference \<Rightarrow> KubernetesIssue" where
  "invalidBindingIssue ref = \<lparr>iss_Object = ref, iss_Reason = invalidBindingReason, iss_Message = invalidBindingMessage\<rparr>"

definition addRecord :: "Identity \<Rightarrow> ObjectReference \<Rightarrow> KubernetesSnapshot \<Rightarrow> KubernetesSnapshot" where
  "addRecord i ref snapshot = snapshot\<lparr>snap_Records := snap_Records snapshot @ [\<lparr>rec_Identity = i, rec_Objects = [ref]\<rparr>]\<rparr>"

definition addIssue :: "ObjectReference \<Rightarrow> KubernetesSnapshot \<Rightarrow> KubernetesSnapshot" where
  "addIssue ref snapshot = snapshot\<lparr>snap_Issues := snap_Issues snapshot @ [invalidBindingIssue ref]\<rparr>"

definition collectGateway :: "finalizerUtil \<Rightarrow> Config \<Rightarrow> ObjectMeta \<Rightarrow> KubernetesSnapshot \<Rightarrow> KubernetesSnapshot" where
  "collectGateway k c gateway snapshot =
     (if \<not> GatewayHasControllerBinding k c gateway then snapshot
      else if \<not> isOk (ValidateGatewayBinding k c gateway) then addIssue (gatewayAuditReference gateway) snapshot
      else if \<not> isOk (ValidateGatewayIdentity (StoredGatewayIdentity c gateway)) then addIssue (gatewayAuditReference gateway) snapshot
      else addRecord (StoredGatewayIdentity c gateway) (gatewayAuditReference gateway) snapshot)"

definition collectRoute :: "finalizerUtil \<Rightarrow> Config \<Rightarrow> ObjectMeta \<Rightarrow> KubernetesSnapshot \<Rightarrow> KubernetesSnapshot" where
  "collectRoute k c route snapshot =
     (if \<not> RouteHasControllerBinding k c route then snapshot
      else case StoredRouteIdentity k c route of
         Inr (Some i) \<Rightarrow> addRecord i (routeAuditReference route) snapshot
       | _ \<Rightarrow> addIssue (routeAuditReference route) snapshot)"

definition ownershipRecordSortKey :: "OwnershipRecord \<Rightarrow> string" where
  "ownershipRecordSortKey r = (case rec_Objects r of [] \<Rightarrow> [] | ref # _ \<Rightarrow> objectKey ref)"

definition sortOwnershipSnapshot :: "KubernetesSnapshot \<Rightarrow> KubernetesSnapshot" where
  "sortOwnershipSnapshot snapshot =
     \<lparr>snap_Records = sort_key ownershipRecordSortKey
        (map (\<lambda>r. r\<lparr>rec_Objects := SortObjectReferences (rec_Objects r)\<rparr>) (snap_Records snapshot)),
      snap_Issues = sort_key (\<lambda>issue. objectKey (iss_Object issue)) (snap_Issues snapshot)\<rparr>"

definition snapshotScope :: "Config \<Rightarrow> Scope" where
  "snapshotScope c = \<lparr>sc_ClusterID = cf_ClusterID c, sc_ControllerName = cf_ControllerName c, sc_OpenStackProjectID = cf_OpenStackProjectID c\<rparr>"

definition validateOwnershipSnapshotConfig :: "Config \<Rightarrow> unit result" where
  "validateOwnershipSnapshotConfig c =
     bindE (guardE (IsValidControllerName (cf_ControllerName c)) Errorf) (\<lambda>_. mapErr Wrapf (ValidateScope (snapshotScope c)))"

text \<open>The reader of the Kubernetes API is the answers to its two list requests; \<^term>\<open>None\<close> is a nil reader.\<close>

definition CollectOwnershipSnapshot :: "finalizerUtil \<Rightarrow> (ObjectMeta list result \<times> ObjectMeta list result) option \<Rightarrow> Config \<Rightarrow>
    KubernetesSnapshot result" where
  "CollectOwnershipSnapshot k reader c = (case reader of
      None \<Rightarrow> Inl Errorf
    | Some (listGateways, listRoutes) \<Rightarrow>
        bindE (validateOwnershipSnapshotConfig c) (\<lambda>_.
        bindE (mapErr Wrapf listGateways) (\<lambda>gateways.
        bindE (mapErr Wrapf listRoutes) (\<lambda>routes.
        Inr (sortOwnershipSnapshot (fold (collectRoute k c) routes (fold (collectGateway k c) gateways
          \<lparr>snap_Records = [], snap_Issues = []\<rparr>)))))))"

section \<open>Binding and unbinding a route\<close>

text \<open>The keys of one controller are pairwise different, and no key is a binding finalizer.\<close>

lemma keys_distinct:
  "distinct [RouteGatewayNamespaceAnnotation c, RouteGatewayNameAnnotation c, RouteGatewayUIDAnnotation c,
     RouteClusterIDAnnotation c, RouteProjectIDAnnotation c, RouteCleanupFailureAnnotation c,
     GatewayListenerPortAnnotation c, GatewayClusterIDAnnotation c, GatewayProjectIDAnnotation c]"
  by (simp add: key_defs)

lemma RouteFinalizer_not_binding: "\<not> isBindingFinalizer c (RouteFinalizer c)"
  by (simp add: isBindingFinalizer_def HasPrefix_iff key_defs)

lemma binding_isBindingFinalizer [simp]: "isBindingFinalizer c (RouteBindingFinalizer c a b d e f)"
  by (simp add: isBindingFinalizer_def RouteBindingFinalizer_def)

lemma applyRouteBinding_fields:
  assumes "finalizerLaws k"
  shows "om_Namespace (applyRouteBinding k c gateway route) = om_Namespace route"
    "om_Name (applyRouteBinding k c gateway route) = om_Name route" "om_UID (applyRouteBinding k c gateway route) = om_UID route"
    "om_Annotations (applyRouteBinding k c gateway route) = (om_Annotations route)
       (RouteGatewayNamespaceAnnotation c \<mapsto> om_Namespace gateway, RouteGatewayNameAnnotation c \<mapsto> om_Name gateway,
        RouteGatewayUIDAnnotation c \<mapsto> om_UID gateway, RouteClusterIDAnnotation c \<mapsto> cf_ClusterID c,
        RouteProjectIDAnnotation c \<mapsto> cf_OpenStackProjectID c, RouteCleanupFailureAnnotation c := None)"
    "set (om_Finalizers (applyRouteBinding k c gateway route)) =
       {RouteFinalizer c, bindingFinalizerOf c (RouteIdentity c gateway route)} \<union> {f \<in> set (om_Finalizers route). \<not> isBindingFinalizer c f}"
  unfolding applyRouteBinding_def Let_def removeStaleRouteBindingFinalizers_def finalizerLaws_rules(2) [OF assms]
    sameButFinalizers_fields [OF finalizerLaws_rules(4) [OF assms]]
  by (simp_all add: bindingFinalizerOf_def RouteIdentity_def GatewayIdentity_def) auto

lemma applied_annotations:
  assumes "finalizerLaws k"
  shows "annotation (applyRouteBinding k c gateway route) (RouteGatewayNamespaceAnnotation c) = om_Namespace gateway"
    "annotation (applyRouteBinding k c gateway route) (RouteGatewayNameAnnotation c) = om_Name gateway"
    "annotation (applyRouteBinding k c gateway route) (RouteGatewayUIDAnnotation c) = om_UID gateway"
    "annotation (applyRouteBinding k c gateway route) (RouteClusterIDAnnotation c) = cf_ClusterID c"
    "annotation (applyRouteBinding k c gateway route) (RouteProjectIDAnnotation c) = cf_OpenStackProjectID c"
  unfolding annotation_def applyRouteBinding_fields(4) [OF assms] using keys_distinct [of c] by (auto simp: fun_upd_def)

lemma applied_identity:
  assumes "finalizerLaws k"
  shows "annotatedIdentity c (applyRouteBinding k c gateway route) = RouteIdentity c gateway route"
  using applied_annotations [OF assms] applyRouteBinding_fields(1-3) [OF assms]
  by (simp add: annotatedIdentity_def RouteIdentity_def GatewayIdentity_def orElse_def)

text \<open>Exactly what StoredRouteIdentity accepts.\<close>

definition boundTo :: "finalizerUtil \<Rightarrow> Config \<Rightarrow> ObjectMeta \<Rightarrow> Identity \<Rightarrow> bool" where
  "boundTo k c route i \<longleftrightarrow> i = annotatedIdentity c route \<and> ClusterID i = cf_ClusterID c \<and> OpenStackProjectID i = cf_OpenStackProjectID c \<and>
     isOk (ValidateRouteIdentity i) \<and>
     (ContainsFinalizer k route (RouteFinalizer c) \<longrightarrow> ContainsFinalizer k route (bindingFinalizerOf c i)) \<and>
     (\<forall>f \<in> set (om_Finalizers route). isBindingFinalizer c f \<longrightarrow> f = bindingFinalizerOf c i)"

lemma StoredRouteIdentity_Some: "StoredRouteIdentity k c route = Inr (Some i) \<longleftrightarrow> boundTo k c route i"
proof -
  have three: "isOk (ValidateRouteIdentity (annotatedIdentity c route)) \<Longrightarrow>
      annotation route (RouteGatewayNamespaceAnnotation c) \<noteq> [] \<and> annotation route (RouteGatewayNameAnnotation c) \<noteq> [] \<and>
      annotation route (RouteGatewayUIDAnnotation c) \<noteq> []"
    by (auto simp: isOk_iff go_simps annotatedIdentity_def)
  show ?thesis
    unfolding StoredRouteIdentity_def Let_def boundTo_def
    using three by (auto simp: go_simps isOk_iff split: if_splits)
qed

lemma StoredRouteIdentity_None:
  "StoredRouteIdentity k c route = Inr None \<longleftrightarrow> \<not> routeHasBindingAnnotations c route \<and> \<not> hasRouteBindingFinalizer c route"
  unfolding StoredRouteIdentity_def Let_def routeHasBindingAnnotations_def
  by (auto simp: go_simps split: if_splits)

lemma applied_boundTo:
  assumes "finalizerLaws k" "isOk (ValidateRouteIdentity (RouteIdentity c gateway route))"
  shows "boundTo k c (applyRouteBinding k c gateway route) (RouteIdentity c gateway route)"
  unfolding boundTo_def applied_identity [OF assms(1)] finalizerLaws_rules(1) [OF assms(1)] applyRouteBinding_fields(5) [OF assms(1)]
  using assms(2) RouteFinalizer_not_binding by (auto simp: RouteIdentity_def GatewayIdentity_def)

text \<open>
  C32. Binding a route stores its identity: after applyRouteBinding, whatever binding the route had
  before, StoredRouteIdentity returns exactly the identity of the route in the graph of the Gateway.
\<close>

theorem route_binding_roundtrip:
  assumes "finalizerLaws k" "isOk (ValidateRouteIdentity (RouteIdentity c gateway route))"
  shows "StoredRouteIdentity k c (applyRouteBinding k c gateway route) = Inr (Some (RouteIdentity c gateway route)) \<and>
    RouteHasControllerBinding k c (applyRouteBinding k c gateway route)"
  using applied_boundTo [OF assms] applyRouteBinding_fields(5) [OF assms(1)]
  by (simp add: StoredRouteIdentity_Some RouteHasControllerBinding_def finalizerLaws_rules(1) [OF assms(1)])

definition sampleConfig :: Config where
  "sampleConfig = \<lparr>cf_ControllerName = ''example.com/openstack'', cf_ControllerVersion = ''v1'', cf_OpenStackProjectID = ''project-1'',
     cf_ClusterID = ''cluster-1'', cf_Provider = ''amphora'', cf_VIPSubnetID = ''subnet-1'', cf_ExternalNetworkID = [],
     cf_MemberSubnetID = ''subnet-2'', cf_MemberMode = ''NodePort'', cf_NodeAddressType = ''InternalIP'', cf_HealthPath = ''/'',
     cf_OpenStackResyncInterval = 600000000000\<rparr>"

definition sampleMeta :: "string \<Rightarrow> string \<Rightarrow> ObjectMeta" where
  "sampleMeta name uid = \<lparr>om_Namespace = ''default'', om_Name = name, om_UID = uid, om_ResourceVersion = ''1'', om_Generation = 1, om_CreationTimestamp = 0,
     om_DeletionTimestamp = None, om_Annotations = Map.empty, om_Finalizers = []\<rparr>"

theorem route_binding_roundtrip_witness:
  "StoredRouteIdentity listFinalizers sampleConfig
     (applyRouteBinding listFinalizers sampleConfig (sampleMeta ''gw'' ''uid-1'') (sampleMeta ''route'' ''uid-2'')) =
   Inr (Some (RouteIdentity sampleConfig (sampleMeta ''gw'' ''uid-1'') (sampleMeta ''route'' ''uid-2'')))"
  using route_binding_roundtrip [OF listFinalizers_laws, of sampleConfig "sampleMeta ''gw'' ''uid-1''" "sampleMeta ''route'' ''uid-2''"]
  by (simp add: isOk_iff go_simps RouteIdentity_def GatewayIdentity_def sampleConfig_def sampleMeta_def)

text \<open>Removing the binding.\<close>

lemma fold_RemoveFinalizer:
  assumes "finalizerLaws k"
  shows "let r = fold (\<lambda>f r. if isBindingFinalizer c f then RemoveFinalizer k r f else r) fs route in
    set (om_Finalizers r) = set (om_Finalizers route) - {f \<in> set fs. isBindingFinalizer c f} \<and> sameButFinalizers route r"
proof (induction fs arbitrary: route)
  case (Cons f fs)
  show ?case
    using Cons.IH [of route] Cons.IH [of "RemoveFinalizer k route f"] finalizerLaws_rules(3,5) [OF assms, of route f]
    by (cases "isBindingFinalizer c f") (auto simp: Let_def sameButFinalizers_def)
qed (simp add: sameButFinalizers_def)

lemma clearRouteBinding_fields:
  assumes "finalizerLaws k"
  shows "set (om_Finalizers (clearRouteBinding k c route)) = {f \<in> set (om_Finalizers route). f \<noteq> RouteFinalizer c \<and> \<not> isBindingFinalizer c f}"
    "om_Annotations (clearRouteBinding k c route) = (om_Annotations route)(RouteGatewayNamespaceAnnotation c := None,
       RouteGatewayNameAnnotation c := None, RouteGatewayUIDAnnotation c := None, RouteClusterIDAnnotation c := None,
       RouteProjectIDAnnotation c := None, RouteCleanupFailureAnnotation c := None)"
proof -
  define r where "r = removeRouteBindingFinalizers k c (RemoveFinalizer k route (RouteFinalizer c))"
  have "set (om_Finalizers r) = set (om_Finalizers route) - {RouteFinalizer c} - {f. isBindingFinalizer c f} \<and>
      sameButFinalizers (RemoveFinalizer k route (RouteFinalizer c)) r"
    using fold_RemoveFinalizer [OF assms, where route = "RemoveFinalizer k route (RouteFinalizer c)"]
      finalizerLaws_rules(3) [OF assms]
    unfolding r_def removeRouteBindingFinalizers_def Let_def by auto
  then show "set (om_Finalizers (clearRouteBinding k c route)) = {f \<in> set (om_Finalizers route). f \<noteq> RouteFinalizer c \<and> \<not> isBindingFinalizer c f}"
    "om_Annotations (clearRouteBinding k c route) = (om_Annotations route)(RouteGatewayNamespaceAnnotation c := None,
       RouteGatewayNameAnnotation c := None, RouteGatewayUIDAnnotation c := None, RouteClusterIDAnnotation c := None,
       RouteProjectIDAnnotation c := None, RouteCleanupFailureAnnotation c := None)"
    using sameButFinalizers_fields(4) [of "RemoveFinalizer k route (RouteFinalizer c)" r]
      sameButFinalizers_fields(4) [OF finalizerLaws_rules(5) [OF assms], of route "RouteFinalizer c"]
    by (auto simp: clearRouteBinding_def Let_def r_def)
qed

lemma cleared_annotations: "om_Annotations m key = None \<Longrightarrow> annotation m key = []"
  by (simp add: annotation_def)

text \<open>
  Clearing a binding, however damaged it is, leaves a route that this controller does not consider
  bound, and touches nothing else: the finalizers of others and the annotations under other keys stay.
\<close>

theorem clearRouteBinding_complete:
  assumes "finalizerLaws k"
  shows "\<not> RouteHasControllerBinding k c (clearRouteBinding k c route) \<and>
    StoredRouteIdentity k c (clearRouteBinding k c route) = Inr None \<and>
    {f \<in> set (om_Finalizers route). f \<noteq> RouteFinalizer c \<and> \<not> isBindingFinalizer c f} = set (om_Finalizers (clearRouteBinding k c route)) \<and>
    (\<forall>key. key \<notin> {RouteGatewayNamespaceAnnotation c, RouteGatewayNameAnnotation c, RouteGatewayUIDAnnotation c,
        RouteClusterIDAnnotation c, RouteProjectIDAnnotation c, RouteCleanupFailureAnnotation c} \<longrightarrow>
      om_Annotations (clearRouteBinding k c route) key = om_Annotations route key)"
proof -
  have "\<not> routeHasBindingAnnotations c (clearRouteBinding k c route)"
    by (simp add: routeHasBindingAnnotations_def cleared_annotations clearRouteBinding_fields(2) [OF assms])
  moreover have "\<not> hasRouteBindingFinalizer c (clearRouteBinding k c route)"
    by (simp add: hasRouteBindingFinalizer_def list_ex_iff clearRouteBinding_fields(1) [OF assms])
  ultimately show ?thesis
    by (simp add: RouteHasControllerBinding_def StoredRouteIdentity_None finalizerLaws_rules(1) [OF assms] clearRouteBinding_fields [OF assms])
qed

theorem clearRouteBinding_complete_witness:
  "StoredRouteIdentity listFinalizers sampleConfig (clearRouteBinding listFinalizers sampleConfig
     (applyRouteBinding listFinalizers sampleConfig (sampleMeta ''gw'' ''uid-1'') (sampleMeta ''route'' ''uid-2''))) = Inr None"
  using clearRouteBinding_complete [OF listFinalizers_laws] by blast

definition bindingDigest :: "Identity \<Rightarrow> string" where
  "bindingDigest i = take 6 (Sum256 (Join [ClusterID i, OpenStackProjectID i, GatewayNamespace i, GatewayName i, GatewayUID i] zeroByte))"

lemma bindingFinalizerOf_inject: "bindingFinalizerOf c i = bindingFinalizerOf c j \<longleftrightarrow> bindingDigest i = bindingDigest j"
  by (simp add: bindingFinalizerOf_def RouteBindingFinalizer_def bindingDigest_def)

text \<open>
  C31. A changed binding is refused. When the annotations of a bound route are edited in any way and its
  finalizers are not, StoredRouteIdentity fails or returns an identity whose cluster and project are those
  of the controller and whose Gateway has the digest of the Gateway the route was bound to.
\<close>

theorem tampered_binding_refused:
  assumes "finalizerLaws k" "om_Finalizers tampered = om_Finalizers (applyRouteBinding k c gateway route)"
  shows "case StoredRouteIdentity k c tampered of
      Inl _ \<Rightarrow> True
    | Inr None \<Rightarrow> False
    | Inr (Some i) \<Rightarrow> ClusterID i = cf_ClusterID c \<and> OpenStackProjectID i = cf_OpenStackProjectID c \<and>
        bindingDigest i = bindingDigest (RouteIdentity c gateway route)"
proof -
  have f: "bindingFinalizerOf c (RouteIdentity c gateway route) \<in> set (om_Finalizers tampered)"
    unfolding assms(2) applyRouteBinding_fields(5) [OF assms(1)] by simp
  have binding: "isBindingFinalizer c (bindingFinalizerOf c (RouteIdentity c gateway route))" by (simp add: bindingFinalizerOf_def)
  with f have "StoredRouteIdentity k c tampered \<noteq> Inr None"
    unfolding StoredRouteIdentity_None hasRouteBindingFinalizer_def list_ex_iff by blast
  moreover have "ClusterID i = cf_ClusterID c \<and> OpenStackProjectID i = cf_OpenStackProjectID c \<and>
      bindingDigest i = bindingDigest (RouteIdentity c gateway route)" if "StoredRouteIdentity k c tampered = Inr (Some i)" for i
    using that f binding unfolding StoredRouteIdentity_Some boundTo_def by (metis bindingFinalizerOf_inject)
  ultimately show ?thesis by (auto split: sum.splits option.splits)
qed

theorem tampered_binding_refused_witness:
  "\<exists>tampered. om_Annotations tampered = Map.empty \<and>
     om_Finalizers tampered = om_Finalizers (applyRouteBinding listFinalizers sampleConfig (sampleMeta ''gw'' ''uid-1'') (sampleMeta ''r'' ''uid-2'')) \<and>
     StoredRouteIdentity listFinalizers sampleConfig tampered \<noteq> Inr None"
  using tampered_binding_refused [OF listFinalizers_laws, of
    "(applyRouteBinding listFinalizers sampleConfig (sampleMeta ''gw'' ''uid-1'') (sampleMeta ''r'' ''uid-2''))\<lparr>om_Annotations := Map.empty\<rparr>"
    sampleConfig "sampleMeta ''gw'' ''uid-1''" "sampleMeta ''r'' ''uid-2''"]
  by (intro exI [of _ "(applyRouteBinding listFinalizers sampleConfig (sampleMeta ''gw'' ''uid-1'') (sampleMeta ''r'' ''uid-2''))\<lparr>om_Annotations := Map.empty\<rparr>"])
    (auto split: sum.splits option.splits)

section \<open>Binding a Gateway\<close>

lemma gateway_keys_distinct:
  "GatewayListenerPortAnnotation c \<noteq> GatewayClusterIDAnnotation c" "GatewayListenerPortAnnotation c \<noteq> GatewayProjectIDAnnotation c"
  "GatewayClusterIDAnnotation c \<noteq> GatewayProjectIDAnnotation c"
  using keys_distinct [of c] by auto

lemma applied_gateway_annotations:
  assumes "finalizerLaws k"
  shows "annotation (applyGatewayBinding k c port gateway) (GatewayListenerPortAnnotation c) = port"
    "annotation (applyGatewayBinding k c port gateway) (GatewayClusterIDAnnotation c) = cf_ClusterID c"
    "annotation (applyGatewayBinding k c port gateway) (GatewayProjectIDAnnotation c) = cf_OpenStackProjectID c"
  unfolding annotation_def applyGatewayBinding_def sameButFinalizers_fields [OF finalizerLaws_rules(4) [OF assms]]
  using gateway_keys_distinct [of c] by auto

lemma applied_gateway_valid:
  assumes "finalizerLaws k"
  shows "isOk (ValidateGatewayBinding k c (applyGatewayBinding k c port gateway)) \<longleftrightarrow> port \<noteq> [] \<and> cf_ClusterID c \<noteq> [] \<and> cf_OpenStackProjectID c \<noteq> []"
proof -
  have "ContainsFinalizer k (applyGatewayBinding k c port gateway) (GatewayFinalizer c)"
    by (simp add: finalizerLaws_rules(1,2) [OF assms] applyGatewayBinding_def)
  then show ?thesis by (simp add: ValidateGatewayBinding_def Let_def gatewayBindingKeys_def applied_gateway_annotations [OF assms])
qed

text \<open>
  Binding a Gateway stores its identity: with a listener port, cluster and project the written
  metadata is a complete binding that validates, is recognised as one of this controller and stands for the
  identity of the Gateway; without one of the three it is recognised and refused.
\<close>

theorem gateway_binding_roundtrip:
  assumes "finalizerLaws k"
  shows "(isOk (ValidateGatewayBinding k c (applyGatewayBinding k c port gateway)) \<longleftrightarrow>
      port \<noteq> [] \<and> cf_ClusterID c \<noteq> [] \<and> cf_OpenStackProjectID c \<noteq> []) \<and>
    GatewayHasControllerBinding k c (applyGatewayBinding k c port gateway) \<and>
    StoredGatewayIdentity c (applyGatewayBinding k c port gateway) = GatewayIdentity c gateway"
proof -
  have has: "ContainsFinalizer k (applyGatewayBinding k c port gateway) (GatewayFinalizer c)"
    by (simp add: finalizerLaws_rules(1,2) [OF assms] applyGatewayBinding_def)
  have "StoredGatewayIdentity c (applyGatewayBinding k c port gateway) = GatewayIdentity c gateway"
    using sameButFinalizers_fields [OF finalizerLaws_rules(4) [OF assms]]
    by (simp add: StoredGatewayIdentity_def Let_def applied_gateway_annotations [OF assms])
      (simp add: GatewayIdentity_def applyGatewayBinding_def)
  then show ?thesis
    using has by (simp add: applied_gateway_valid [OF assms] GatewayHasControllerBinding_def)
qed

theorem gateway_binding_roundtrip_witness:
  "isOk (ValidateGatewayBinding listFinalizers sampleConfig
     (applyGatewayBinding listFinalizers sampleConfig ''80'' (sampleMeta ''gw'' ''uid-1'')))"
  using gateway_binding_roundtrip [OF listFinalizers_laws, of sampleConfig "''80''" "sampleMeta ''gw'' ''uid-1''"]
  by (simp add: sampleConfig_def)

section \<open>Every binding is collected\<close>

text \<open>What the audit relies on of Kubernetes: an object has a name and a UID that are not blank.\<close>

definition named :: "ObjectMeta \<Rightarrow> bool" where
  "named m \<longleftrightarrow> \<not> blank (om_Name m) \<and> \<not> blank (om_UID m)"

text \<open>A snapshot under construction: valid evidence for so many objects.\<close>

definition snapshotOK :: "Config \<Rightarrow> nat \<Rightarrow> KubernetesSnapshot \<Rightarrow> bool" where
  "snapshotOK c n s \<longleftrightarrow> list_all (evidence (snapshotScope c)) (snap_Records s) \<and> list_all completeIssue (snap_Issues s) \<and>
     length (snap_Records s) + length (snap_Issues s) = n"

lemma not_blank_literals [simp]:
  "\<not> blank ''Gateway''" "\<not> blank ''HTTPRoute''" "\<not> blank gatewayAPIVersion" "\<not> blank invalidBindingReason" "\<not> blank invalidBindingMessage"
  unfolding blank_def gatewayAPIVersion_def invalidBindingReason_def invalidBindingMessage_def
  by (rule TrimSpace_nonblank [of "hd s" s for s]; simp)+

lemma addIssue_ok: "snapshotOK c n s \<Longrightarrow> completeObject ref \<Longrightarrow> snapshotOK c (Suc n) (addIssue ref s)"
  by (simp add: snapshotOK_def addIssue_def completeIssue_def invalidBindingIssue_def)

lemma addRecord_ok:
  "snapshotOK c n s \<Longrightarrow> evidence (snapshotScope c) \<lparr>rec_Identity = i, rec_Objects = [ref]\<rparr> \<Longrightarrow> snapshotOK c (Suc n) (addRecord i ref s)"
  by (simp add: snapshotOK_def addRecord_def)

lemma references_complete:
  "named m \<Longrightarrow> completeObject (gatewayAuditReference m)" "named m \<Longrightarrow> completeObject (routeAuditReference m)"
  by (simp_all add: named_def completeObject_def gatewayAuditReference_def routeAuditReference_def)

lemma gateway_evidence:
  assumes "named gateway" "isOk (ValidateGatewayBinding k c gateway)" "isOk (ValidateGatewayIdentity (StoredGatewayIdentity c gateway))"
  shows "evidence (snapshotScope c) \<lparr>rec_Identity = StoredGatewayIdentity c gateway, rec_Objects = [gatewayAuditReference gateway]\<rparr>"
proof -
  have "ClusterID (StoredGatewayIdentity c gateway) = cf_ClusterID c" "OpenStackProjectID (StoredGatewayIdentity c gateway) = cf_OpenStackProjectID c"
    using assms(2) by (auto simp: ValidateGatewayBinding_def Let_def StoredGatewayIdentity_def GatewayIdentity_def split: if_splits)
  moreover have "\<not> isRouteIdentity (StoredGatewayIdentity c gateway)" "Controller (StoredGatewayIdentity c gateway) = cf_ControllerName c"
    "GatewayNamespace (StoredGatewayIdentity c gateway) = om_Namespace gateway" "GatewayName (StoredGatewayIdentity c gateway) = om_Name gateway"
    "GatewayUID (StoredGatewayIdentity c gateway) = om_UID gateway"
    by (simp_all add: StoredGatewayIdentity_def GatewayIdentity_def Let_def isRouteIdentity_def)
  moreover have "completeObject (gatewayAuditReference gateway)" by (rule references_complete(1) [OF assms(1)])
  ultimately show ?thesis
    using assms(3) by (simp add: evidence_def snapshotScope_def objectMatchesIdentity_def) (simp add: gatewayAuditReference_def)
qed

lemma route_evidence:
  assumes "named route" "StoredRouteIdentity k c route = Inr (Some i)"
  shows "evidence (snapshotScope c) \<lparr>rec_Identity = i, rec_Objects = [routeAuditReference route]\<rparr>"
proof -
  have b: "boundTo k c route i" using assms(2) by (simp add: StoredRouteIdentity_Some)
  then have i: "RouteNamespace i = om_Namespace route" "RouteName i = om_Name route" "RouteUID i = om_UID route"
    "Controller i = cf_ControllerName c" "ClusterID i = cf_ClusterID c" "OpenStackProjectID i = cf_OpenStackProjectID c"
    "isOk (ValidateRouteIdentity i)"
    by (auto simp: boundTo_def annotatedIdentity_def)
  have "isRouteIdentity i" using i(7) by (auto simp: isOk_iff go_simps isRouteIdentity_def)
  with i references_complete(2) [OF assms(1)] show ?thesis
    by (simp add: evidence_def snapshotScope_def objectMatchesIdentity_def) (simp add: routeAuditReference_def)
qed

lemma collectGateway_ok:
  assumes "snapshotOK c n s" "named gateway"
  shows "snapshotOK c (if GatewayHasControllerBinding k c gateway then Suc n else n) (collectGateway k c gateway s)"
  using assms addIssue_ok addRecord_ok gateway_evidence references_complete(1) by (simp add: collectGateway_def)

lemma collectRoute_ok:
  assumes "snapshotOK c n s" "named route"
  shows "snapshotOK c (if RouteHasControllerBinding k c route then Suc n else n) (collectRoute k c route s)"
  using assms addIssue_ok addRecord_ok route_evidence references_complete(2)
  by (auto simp: collectRoute_def split: sum.splits option.splits)

lemma fold_collect_ok:
  assumes "\<And>m n s. snapshotOK c n s \<Longrightarrow> named m \<Longrightarrow> snapshotOK c (if P m then Suc n else n) (f m s)"
    "list_all named ms" "snapshotOK c n s"
  shows "snapshotOK c (n + length (filter P ms)) (fold f ms s)"
  using assms(2,3)
proof (induction ms arbitrary: n s)
  case (Cons m ms)
  then show ?case using Cons.IH [OF _ assms(1) [of n s m]] by (auto split: if_splits)
qed simp

lemma sorted_snapshot_ok:
  assumes "snapshotOK c n s"
  shows "snapshotOK c n (sortOwnershipSnapshot s)"
proof -
  have "r\<lparr>rec_Objects := SortObjectReferences (rec_Objects r)\<rparr> = r" if "evidence sc r" for sc r
    using that by (auto simp: evidence_def Let_def SortObjectReferences_def)
  then have "map (\<lambda>r. r\<lparr>rec_Objects := SortObjectReferences (rec_Objects r)\<rparr>) (snap_Records s) = snap_Records s"
    using assms by (auto simp: snapshotOK_def list_all_iff intro!: map_idI)
  then show ?thesis using assms by (simp add: snapshotOK_def sortOwnershipSnapshot_def list_all_iff)
qed

text \<open>
  The snapshot of the bindings is complete and fit for the report: every Gateway and HTTPRoute with any
  trace of a binding of this controller is counted exactly once, as evidence or as an issue, and the
  validation of the report accepts the snapshot in the scope of the configuration.
\<close>

theorem collected_snapshot_accepted:
  assumes "CollectOwnershipSnapshot k (Some (Inr gateways, Inr routes)) c = Inr snapshot" "list_all named (gateways @ routes)"
  shows "isOk (validateSnapshot (snapshotScope c) snapshot) \<and>
    length (snap_Records snapshot) + length (snap_Issues snapshot) =
      length (filter (GatewayHasControllerBinding k c) gateways) + length (filter (RouteHasControllerBinding k c) routes)"
proof -
  let ?s = "fold (collectRoute k c) routes (fold (collectGateway k c) gateways \<lparr>snap_Records = [], snap_Issues = []\<rparr>)"
  have "snapshotOK c (0 + length (filter (GatewayHasControllerBinding k c) gateways))
      (fold (collectGateway k c) gateways \<lparr>snap_Records = [], snap_Issues = []\<rparr>)"
    by (rule fold_collect_ok, rule collectGateway_ok) (use assms(2) in \<open>auto simp: snapshotOK_def\<close>)
  from fold_collect_ok [where f = "collectRoute k c", OF collectRoute_ok _ this, where ms = routes] assms(2)
  have "snapshotOK c (length (filter (GatewayHasControllerBinding k c) gateways) + length (filter (RouteHasControllerBinding k c) routes)) ?s"
    by simp
  moreover have "snapshot = sortOwnershipSnapshot ?s" using assms(1) by (simp add: CollectOwnershipSnapshot_def go_simps)
  ultimately show ?thesis
    using sorted_snapshot_ok [of c _ ?s] unfolding validateSnapshot_ok snapshotOK_def by blast
qed

lemma sample_config_valid: "validateOwnershipSnapshotConfig sampleConfig = Inr ()"
proof -
  have "IsValidControllerName ''example.com/openstack''"
    by (simp add: IsValidControllerName_def gatewayControllerNamePattern_def HasPrefix_def domainLabel_def isLowerAlnum_def
        pathChar_def less_eq_char_def)
  moreover have "TrimSpace ''cluster-1'' \<noteq> []" "TrimSpace ''example.com/openstack'' \<noteq> []" "TrimSpace ''project-1'' \<noteq> []"
    by (rule TrimSpace_nonblank [of "hd s" s for s]; simp)+
  ultimately show ?thesis
    by (simp add: validateOwnershipSnapshotConfig_def sampleConfig_def ValidateScope_def snapshotScope_def nonBlank_def go_simps)
qed

theorem collected_snapshot_accepted_witness:
  "\<exists>snapshot. CollectOwnershipSnapshot listFinalizers (Some (Inr [applyGatewayBinding listFinalizers sampleConfig ''80'' (sampleMeta ''gw'' ''uid-1'')],
       Inr [])) sampleConfig = Inr snapshot \<and> isOk (validateSnapshot (snapshotScope sampleConfig) snapshot)"
proof -
  let ?gw = "applyGatewayBinding listFinalizers sampleConfig ''80'' (sampleMeta ''gw'' ''uid-1'')"
  have "om_Name ?gw = ''gw''" "om_UID ?gw = ''uid-1''"
    by (simp_all add: applyGatewayBinding_def listFinalizers_def sampleMeta_def)
  moreover have "\<not> blank ''gw''" "\<not> blank ''uid-1''"
    unfolding blank_def by (rule TrimSpace_nonblank [of "hd s" s for s]; simp)+
  ultimately have "list_all named [?gw]" by (simp add: named_def)
  moreover obtain snapshot where "CollectOwnershipSnapshot listFinalizers (Some (Inr [?gw], Inr [])) sampleConfig = Inr snapshot"
    by (simp add: CollectOwnershipSnapshot_def sample_config_valid go_simps)
  ultimately show ?thesis using collected_snapshot_accepted [of listFinalizers "[?gw]" "[]" sampleConfig] by auto
qed

end
