(* ===== verification/RouteModel.thy ===== *)
theory RouteModel
  imports GatewayAPI Bindings RoutePlan
begin

text \<open>
  From Kubernetes objects to the specification of a route: internal/controller/parentref.go and
  httproute/httproute\_parent.go (which Gateway a route is attached to), httproute\_model.go and
  httproute\_backend.go (the route specification with its NodePort members), httproute\_selection.go (which of
  several routes is attached) and gateway/gateway\_validation.go (which Gateways are supported). Of an error
  the kind is modelled, not the text. The reader answers every request; a cached and a live reader are two
  readers.
\<close>

section \<open>Errors\<close>

datatype routeErrorKind = routeErrorUnsupported | routeErrorInvalidKind | routeErrorRefNotPermitted |
  routeErrorUnsupportedProtocol | routeErrorNoMatchingParent | routeErrorNotAllowed | routeErrorPending

datatype routeError = routeBuildError routeErrorKind | wrappedReadError readError

section \<open>Parent references\<close>

definition orDefault :: "'a option \<Rightarrow> 'a \<Rightarrow> 'a" where
  "orDefault p d = (case p of None \<Rightarrow> d | Some v \<Rightarrow> v)"

definition IsGatewayParentRef :: "ParentReference \<Rightarrow> bool" where
  "IsGatewayParentRef parent \<longleftrightarrow> (pa_Group parent = None \<or> pa_Group parent = Some GroupName) \<and>
     (pa_Kind parent = None \<or> pa_Kind parent = Some ''Gateway'')"

definition ParentRefsEqual :: "ParentReference \<Rightarrow> string \<Rightarrow> ParentReference \<Rightarrow> string \<Rightarrow> bool" where
  "ParentRefsEqual left leftRouteNamespace right rightRouteNamespace \<longleftrightarrow>
     orDefault (pa_Group left) GroupName = orDefault (pa_Group right) GroupName \<and>
     orDefault (pa_Kind left) ''Gateway'' = orDefault (pa_Kind right) ''Gateway'' \<and>
     orDefault (pa_Namespace left) leftRouteNamespace = orDefault (pa_Namespace right) rightRouteNamespace \<and>
     pa_Name left = pa_Name right \<and> pa_SectionName left = pa_SectionName right \<and> pa_Port left = pa_Port right"

definition SameGatewayTarget :: "ParentReference \<Rightarrow> string \<Rightarrow> ParentReference \<Rightarrow> string \<Rightarrow> bool" where
  "SameGatewayTarget left leftRouteNamespace right rightRouteNamespace =
     ParentRefsEqual (left\<lparr>pa_SectionName := None, pa_Port := None\<rparr>) leftRouteNamespace
       (right\<lparr>pa_SectionName := None, pa_Port := None\<rparr>) rightRouteNamespace"

record managedRouteParent =
  mp_ref :: ParentReference
  mp_gateway :: Gateway
  mp_gatewayClass :: "GatewayClass option"
  mp_listener :: "GatewayListener option"

definition managedParent :: "apiReader \<Rightarrow> Config \<Rightarrow> HTTPRoute \<Rightarrow> ParentReference \<Rightarrow> managedRouteParent list \<Rightarrow>
    readError + managedRouteParent list" where
  "managedParent reader c route parentRef parents =
     (if \<not> IsGatewayParentRef parentRef then Inr parents
      else case rd_Gateway reader (orDefault (pa_Namespace parentRef) (om_Namespace (ht_Meta route))) (pa_Name parentRef) of
         Inl NotFound \<Rightarrow> Inr parents
       | Inl e \<Rightarrow> Inl e
       | Inr gateway \<Rightarrow>
           (case rd_GatewayClass reader (gw_GatewayClassName gateway) of
              Inl NotFound \<Rightarrow> Inr parents
            | Inl e \<Rightarrow> Inl e
            | Inr class \<Rightarrow>
                if gc_ControllerName class \<noteq> cf_ControllerName c then Inr parents
                else Inr (parents @ [\<lparr>mp_ref = parentRef, mp_gateway = gateway, mp_gatewayClass = Some class,
                  mp_listener = (case gw_Listeners gateway of [listener] \<Rightarrow> Some listener | _ \<Rightarrow> None)\<rparr>])))"

definition managedParentsWithReader :: "apiReader \<Rightarrow> Config \<Rightarrow> HTTPRoute \<Rightarrow> readError + managedRouteParent list" where
  "managedParentsWithReader reader c route = foldE (managedParent reader c route) (ht_ParentRefs route) []"

definition isHTTPRouteGroupKind :: "RouteGroupKind \<Rightarrow> bool" where
  "isHTTPRouteGroupKind routeKind \<longleftrightarrow> orDefault (rk_Group routeKind) GroupName = GroupName \<and> rk_Kind routeKind = ''HTTPRoute''"

definition buildError :: "routeErrorKind \<Rightarrow> routeError" where
  "buildError kind = routeBuildError kind"

definition validateRouteParent :: "HTTPRoute \<Rightarrow> managedRouteParent \<Rightarrow> routeError + unit" where
  "validateRouteParent route parent =
     (if om_Deleting (gw_Meta (mp_gateway parent)) then Inl (buildError routeErrorPending)
      else if om_Namespace (gw_Meta (mp_gateway parent)) \<noteq> om_Namespace (ht_Meta route) then Inl (buildError routeErrorNotAllowed)
      else case mp_listener parent of
         None \<Rightarrow> Inl (buildError routeErrorUnsupported)
       | Some listener \<Rightarrow>
           if gl_Protocol listener \<noteq> HTTPProtocolType \<or> gl_TLS listener then Inl (buildError routeErrorUnsupported)
           else if pa_SectionName (mp_ref parent) \<noteq> None \<and> pa_SectionName (mp_ref parent) \<noteq> Some (gl_Name listener)
           then Inl (buildError routeErrorNoMatchingParent)
           else if pa_Port (mp_ref parent) \<noteq> None \<and> pa_Port (mp_ref parent) \<noteq> Some (gl_Port listener)
           then Inl (buildError routeErrorNoMatchingParent)
           else case gl_AllowedRoutes listener of
              None \<Rightarrow> Inr ()
            | Some allowed \<Rightarrow>
                if \<not> (ar_Kinds allowed = [] \<or> list_ex isHTTPRouteGroupKind (ar_Kinds allowed))
                then Inl (buildError routeErrorNotAllowed)
                else if ar_NamespacesFrom allowed \<noteq> None \<and> ar_NamespacesFrom allowed \<noteq> Some NamespacesFromSame
                then Inl (buildError routeErrorNotAllowed)
                else Inr ())"

section \<open>Supported Gateways\<close>

text \<open>A plain error of the validation has no reason and no invalid route kinds.\<close>

datatype gatewayConditionReason = GatewayReasonUnsupportedAddress | GatewayReasonInvalidParameters

record gatewayValidationError =
  ve_message :: string
  ve_invalidRouteKinds :: bool
  ve_gatewayReason :: "gatewayConditionReason option"

definition validationError :: "string \<Rightarrow> bool \<Rightarrow> gatewayConditionReason option \<Rightarrow> gatewayValidationError" where
  "validationError msg kinds reason = \<lparr>ve_message = msg, ve_invalidRouteKinds = kinds, ve_gatewayReason = reason\<rparr>"

definition ValidateGateway :: "Gateway \<Rightarrow> gatewayValidationError + GatewayListener" where
  "ValidateGateway gateway =
     (if gw_Addresses gateway \<noteq> 0
      then Inl (validationError ''spec.addresses is not supported in Phase 1'' False (Some GatewayReasonUnsupportedAddress))
      else if gw_Infrastructure gateway
      then Inl (validationError ''spec.infrastructure is not supported in Phase 1'' False (Some GatewayReasonInvalidParameters))
      else if gw_AllowedListeners gateway
      then Inl (validationError ''spec.allowedListeners and ListenerSet attachment are not supported in Phase 1'' False (Some GatewayReasonInvalidParameters))
      else if gw_TLS gateway
      then Inl (validationError ''gateway-wide spec.tls is not supported in Phase 1'' False (Some GatewayReasonInvalidParameters))
      else case gw_Listeners gateway of
         [listener] \<Rightarrow>
           if gl_Protocol listener \<noteq> HTTPProtocolType \<or> gl_TLS listener
           then Inl (validationError ''only a plain HTTP listener is supported in Phase 1'' False None)
           else if gl_Hostname listener \<noteq> None
           then Inl (validationError ''listener hostname is not supported in Phase 1; put one exact hostname on HTTPRoute'' False None)
           else (case gl_AllowedRoutes listener of
              None \<Rightarrow> Inr listener
            | Some allowed \<Rightarrow>
                if ar_NamespacesFrom allowed \<noteq> None \<and> ar_NamespacesFrom allowed \<noteq> Some NamespacesFromSame
                then Inl (validationError ''only same-namespace HTTPRoutes are supported in Phase 1'' False None)
                else if \<not> list_all isHTTPRouteGroupKind (ar_Kinds allowed)
                then Inl (validationError ''only HTTPRoute is supported in listener allowedRoutes.kinds in Phase 1'' True None)
                else Inr listener)
       | _ \<Rightarrow> Inl (validationError ''exactly one listener is supported in Phase 1'' False None))"

definition listenerAllowsHTTPRoute :: "GatewayListener \<Rightarrow> bool" where
  "listenerAllowsHTTPRoute listener = (case gl_AllowedRoutes listener of
      None \<Rightarrow> True | Some allowed \<Rightarrow> ar_Kinds allowed = [] \<or> list_ex isHTTPRouteGroupKind (ar_Kinds allowed))"

section \<open>Backends\<close>

definition nodePortForBackend :: "Service \<Rightarrow> int \<Rightarrow> routeError + ServicePort" where
  "nodePortForBackend service port = (case find (\<lambda>candidate. sp_Port candidate = port) (sv_Ports service) of
      None \<Rightarrow> Inl (buildError routeErrorPending)
    | Some candidate \<Rightarrow>
        if sp_Protocol candidate \<noteq> [] \<and> sp_Protocol candidate \<noteq> ''TCP'' then Inl (buildError routeErrorUnsupportedProtocol)
        else if (case sp_AppProtocol candidate of None \<Rightarrow> False
          | Some protocol \<Rightarrow> protocol \<noteq> ''http'' \<and> protocol \<noteq> ''kubernetes.io/http'') then Inl (buildError routeErrorUnsupportedProtocol)
        else if sp_NodePort candidate = 0 then Inl (buildError routeErrorUnsupported)
        else Inr candidate)"

definition endpointReady :: "Endpoint \<Rightarrow> bool" where
  "endpointReady e = (if ep_Terminating e = Some True then False else ep_Ready e = None \<or> ep_Ready e = Some True)"

definition readyNode :: "Node \<Rightarrow> bool" where
  "readyNode node = (if no_Deleting node \<or> no_Unschedulable node then False
     else case find (\<lambda>(t, _). t = ''Ready'') (no_Conditions node) of None \<Rightarrow> False | Some (_, status) \<Rightarrow> status = ''True'')"

text \<open>net.ParseIP accepts what netip.ParseAddr accepts, without a zone.\<close>

definition ParseIP :: "string \<Rightarrow> bool" where
  "ParseIP s = (case ParseAddr s of None \<Rightarrow> False | Some (Addr4 _) \<Rightarrow> True | Some (Addr6 _ zone) \<Rightarrow> zone = [])"

definition nodeAddress :: "Node \<Rightarrow> string \<Rightarrow> string" where
  "nodeAddress node addressType =
     (case find (\<lambda>(t, address). t = addressType \<and> ParseIP address) (no_Addresses node) of None \<Rightarrow> [] | Some (_, address) \<Rightarrow> address)"

text \<open>net.JoinHostPort puts a host with a colon or percent sign in brackets.\<close>

definition JoinHostPort :: "string \<Rightarrow> string \<Rightarrow> string" where
  "JoinHostPort host port = (if CHR '':'' \<in> set host \<or> CHR ''%'' \<in> set host then ''['' @ host @ '']:'' @ port else host @ '':'' @ port)"

definition Local :: string where "Local = ''Local''"

definition localNodes :: "Endpoint list list \<Rightarrow> string set" where
  "localNodes slices = {name. \<exists>e \<in> set (concat slices). endpointReady e \<and> ep_NodeName e = Some name}"

definition addNode :: "Config \<Rightarrow> Service \<Rightarrow> int \<Rightarrow> string set \<Rightarrow> Node \<Rightarrow> string list \<times> Member list \<Rightarrow> string list \<times> Member list" where
  "addNode c service nodePort locals node acc = (case acc of (seen, members) \<Rightarrow>
     if \<not> readyNode node then acc
     else if sv_ExternalTrafficPolicy service = Local \<and> no_Name node \<notin> locals then acc
     else let address = nodeAddress node (cf_NodeAddressType c); key = JoinHostPort address (itoaInt nodePort) in
       if address = [] then acc
       else if key \<in> set seen then acc
       else (key # seen, members @ [\<lparr>m_Address = address, m_Port = nodePort\<rparr>]))"

definition memberOrder :: "Member \<Rightarrow> string \<times> int" where
  "memberOrder m = (m_Address m, m_Port m)"

definition nodePortMembersWithReader :: "apiReader \<Rightarrow> Config \<Rightarrow> Service \<Rightarrow> int \<Rightarrow> routeError + Member list" where
  "nodePortMembersWithReader reader c service nodePort =
     bindE (mapErr wrappedReadError (rd_EndpointSlices reader (sv_Namespace service) (sv_Name service))) (\<lambda>slices.
     bindE (guardE (list_ex endpointReady (concat slices)) (buildError routeErrorPending)) (\<lambda>_.
     bindE (guardE (\<not> (sv_ExternalTrafficPolicy service = Local \<and> localNodes slices = {})) (buildError routeErrorPending)) (\<lambda>_.
     bindE (mapErr wrappedReadError (rd_Nodes reader)) (\<lambda>nodes.
     let members = snd (fold (addNode c service nodePort (localNodes slices)) nodes ([], [])) in
     bindE (guardE (members \<noteq> []) (buildError routeErrorPending)) (\<lambda>_.
     Inr (sort_key memberOrder members))))))"

section \<open>The route specification\<close>

definition containsText :: "string \<Rightarrow> string \<Rightarrow> bool" where
  "containsText s t = snd (snd (Cut s t))"

definition HasSuffix :: "string \<Rightarrow> string \<Rightarrow> bool" where
  "HasSuffix s t = HasPrefix (rev s) (rev t)"

definition validHTTPPath :: "string \<Rightarrow> bool" where
  "validHTTPPath v =
     (if \<not> HasPrefix v ''/'' \<or> containsText v ''//'' \<or> containsText v ''/./'' \<or> containsText v ''/../'' then False
      else v \<noteq> ''/.'' \<and> v \<noteq> ''/..'' \<and> \<not> HasSuffix v ''/.'' \<and> \<not> HasSuffix v ''/..'')"

definition supportedMatch :: "HTTPRouteMatch list \<Rightarrow> routeError + string \<times> string" where
  "supportedMatch matches = (case matches of
      [] \<Rightarrow> Inr (PathMatchPrefix, ''/'')
    | [match] \<Rightarrow>
        if ma_Headers match \<noteq> 0 \<or> ma_QueryParams match \<noteq> 0 \<or> ma_Method match then Inl (buildError routeErrorUnsupported)
        else let pathType = (case ma_Path match of None \<Rightarrow> ''PathPrefix'' | Some p \<Rightarrow> orDefault (pm_Type p) ''PathPrefix'');
                 pathValue = (case ma_Path match of None \<Rightarrow> ''/'' | Some p \<Rightarrow> orDefault (pm_Value p) ''/'') in
          if \<not> validHTTPPath pathValue then Inl (buildError routeErrorUnsupported)
          else if pathType = ''Exact'' then Inr (PathMatchExact, pathValue)
          else if pathType = ''PathPrefix'' then Inr (PathMatchPrefix, pathValue)
          else Inl (buildError routeErrorUnsupported)
    | _ \<Rightarrow> Inl (buildError routeErrorUnsupported))"

definition ruleHasExtensions :: "HTTPRouteRule \<Rightarrow> bool" where
  "ruleHasExtensions rule \<longleftrightarrow> hr_Name rule \<or> hr_Filters rule \<noteq> 0 \<or> hr_Timeouts rule \<or> hr_Retry rule \<or> hr_SessionPersistence rule"

definition backendNamespace :: "HTTPRoute \<Rightarrow> HTTPBackendRef \<Rightarrow> string" where
  "backendNamespace route backend = orDefault (br_Namespace backend) (om_Namespace (ht_Meta route))"

definition structurallySupportedRoute :: "HTTPRoute \<Rightarrow> bool" where
  "structurallySupportedRoute route =
     (if length (ht_ParentRefs route) \<noteq> 1 \<or> length (ht_Hostnames route) > 1 \<or>
         length (ht_Hostnames route) = 1 \<and> HasPrefix (ht_Hostnames route ! 0) ''*.'' \<or> length (ht_Rules route) \<noteq> 1 then False
      else let rule = ht_Rules route ! 0 in
        if ruleHasExtensions rule \<or> length (hr_BackendRefs rule) \<noteq> 1 then False
        else if \<not> isOk (supportedMatch (hr_Matches rule)) then False
        else let backend = hr_BackendRefs rule ! 0 in
          br_Filters backend = 0 \<and> (br_Weight backend = None \<or> br_Weight backend \<noteq> Some 0) \<and>
          (br_Group backend = None \<or> br_Group backend = Some []) \<and>
          (br_Kind backend = None \<or> br_Kind backend = Some ''Service'') \<and>
          backendNamespace route backend = om_Namespace (ht_Meta route) \<and> br_Port backend \<noteq> None)"

text \<open>The hostname of the route, and the one backend reference that the first part of the function accepts.\<close>

definition routeHostname :: "HTTPRoute \<Rightarrow> routeError + string" where
  "routeHostname route = (case ht_Hostnames route of
      [] \<Rightarrow> Inr []
    | [hostname] \<Rightarrow> if HasPrefix hostname ''*.'' then Inl (buildError routeErrorUnsupported) else Inr hostname
    | _ \<Rightarrow> Inl (buildError routeErrorUnsupported))"

definition acceptBackend :: "HTTPRoute \<Rightarrow> HTTPBackendRef \<Rightarrow> routeError + int" where
  "acceptBackend route backend =
     (if br_Filters backend \<noteq> 0 then Inl (buildError routeErrorUnsupported)
      else if br_Weight backend = Some 0 then Inl (buildError routeErrorUnsupported)
      else if br_Group backend \<noteq> None \<and> br_Group backend \<noteq> Some [] then Inl (buildError routeErrorInvalidKind)
      else if br_Kind backend \<noteq> None \<and> br_Kind backend \<noteq> Some ''Service'' then Inl (buildError routeErrorInvalidKind)
      else if backendNamespace route backend \<noteq> om_Namespace (ht_Meta route) then Inl (buildError routeErrorRefNotPermitted)
      else case br_Port backend of None \<Rightarrow> Inl (buildError routeErrorUnsupported) | Some port \<Rightarrow> Inr port)"

text \<open>A Gateway without listener makes the index expression panic; the model then has no specification.\<close>

definition buildRouteSpecWithReader :: "apiReader \<Rightarrow> Config \<Rightarrow> HTTPRoute \<Rightarrow> Gateway \<Rightarrow> routeError + RouteSpec option" where
  "buildRouteSpecWithReader reader c route gateway =
     bindE (routeHostname route) (\<lambda>hostname.
     case ht_Rules route of
        [rule] \<Rightarrow>
          bindE (guardE (\<not> ruleHasExtensions rule) (buildError routeErrorUnsupported)) (\<lambda>_.
          bindE (supportedMatch (hr_Matches rule)) (\<lambda>(pathType, pathValue).
          case hr_BackendRefs rule of
             [backend] \<Rightarrow>
               bindE (acceptBackend route backend) (\<lambda>port.
               bindE (mapErr wrappedReadError (rd_Service reader (backendNamespace route backend) (br_Name backend))) (\<lambda>service.
               bindE (guardE (sv_Type service = ''NodePort'') (buildError routeErrorUnsupported)) (\<lambda>_.
               bindE (nodePortForBackend service port) (\<lambda>servicePort.
               bindE (nodePortMembersWithReader reader c service (sp_NodePort servicePort)) (\<lambda>members.
               Inr (case gw_Listeners gateway of
                  [] \<Rightarrow> None
                | listener # _ \<Rightarrow> Some \<lparr>rs_Identity = RouteIdentity c (gw_Meta gateway) (ht_Meta route), rs_Gateway = emptyGatewayState,
                    rs_GatewayRequirements = \<lparr>gr_Provider = cf_Provider c, gr_VIPSubnetID = cf_VIPSubnetID c,
                      gr_ExternalNetworkID = cf_ExternalNetworkID c, gr_ListenerPort = gl_Port listener\<rparr>,
                    rs_MemberSubnetID = cf_MemberSubnetID c, rs_HealthPath = cf_HealthPath c, rs_Hostname = hostname,
                    rs_PathType = pathType, rs_PathValue = pathValue, rs_Members = members\<rparr>))))))
           | _ \<Rightarrow> Inl (buildError routeErrorUnsupported)))
      | _ \<Rightarrow> Inl (buildError routeErrorUnsupported))"

section \<open>Selecting one route\<close>

definition routePrecedes :: "HTTPRoute \<Rightarrow> HTTPRoute \<Rightarrow> bool" where
  "routePrecedes left right =
     (if om_CreationTimestamp (ht_Meta left) \<noteq> om_CreationTimestamp (ht_Meta right)
      then om_CreationTimestamp (ht_Meta left) < om_CreationTimestamp (ht_Meta right)
      else om_Namespace (ht_Meta left) @ ''/'' @ om_Name (ht_Meta left) < om_Namespace (ht_Meta right) @ ''/'' @ om_Name (ht_Meta right))"

record routeSlotDecision =
  sd_canReserve :: bool
  sd_rejection :: "routeError option"

text \<open>The callers have checked that the route is structurally supported; otherwise the index expressions panic.\<close>

definition evaluateRouteSlotWithReader :: "apiReader \<Rightarrow> HTTPRoute \<Rightarrow> readError + routeSlotDecision" where
  "evaluateRouteSlotWithReader reader route = (let backend = hr_BackendRefs (ht_Rules route ! 0) ! 0 in
     case rd_Service reader (om_Namespace (ht_Meta route)) (br_Name backend) of
        Inl NotFound \<Rightarrow> Inr \<lparr>sd_canReserve = True, sd_rejection = None\<rparr>
      | Inl e \<Rightarrow> Inl e
      | Inr service \<Rightarrow>
          if sv_Type service \<noteq> ''NodePort'' then Inr \<lparr>sd_canReserve = False, sd_rejection = Some (buildError routeErrorUnsupported)\<rparr>
          else (case nodePortForBackend service (the (br_Port backend)) of
             Inl e \<Rightarrow> if e = routeBuildError routeErrorPending then Inr \<lparr>sd_canReserve = True, sd_rejection = None\<rparr>
               else Inr \<lparr>sd_canReserve = False, sd_rejection = Some e\<rparr>
           | Inr _ \<Rightarrow> Inr \<lparr>sd_canReserve = True, sd_rejection = None\<rparr>))"

definition routeCanReserveSlotWithReader :: "apiReader \<Rightarrow> HTTPRoute \<Rightarrow> readError + bool" where
  "routeCanReserveSlotWithReader reader route = bindE (evaluateRouteSlotWithReader reader route) (\<lambda>d. Inr (sd_canReserve d))"

text \<open>The candidates that the loop compares before it reads their Services.\<close>

definition competes :: "HTTPRoute \<Rightarrow> managedRouteParent \<Rightarrow> HTTPRoute \<Rightarrow> bool" where
  "competes route parent candidate \<longleftrightarrow>
     \<not> (om_Name (ht_Meta candidate) = om_Name (ht_Meta route) \<or> om_Deleting (ht_Meta candidate) \<or> length (ht_ParentRefs candidate) \<noteq> 1) \<and>
     (let candidateParent = \<lparr>mp_ref = ht_ParentRefs candidate ! 0, mp_gateway = mp_gateway parent, mp_gatewayClass = None,
        mp_listener = mp_listener parent\<rparr> in
      \<not> (\<not> SameGatewayTarget (mp_ref candidateParent) (om_Namespace (ht_Meta candidate)) (mp_ref parent) (om_Namespace (ht_Meta route)) \<or>
         \<not> isOk (validateRouteParent candidate candidateParent) \<or> \<not> structurallySupportedRoute candidate))"

definition chooseWinner :: "apiReader \<Rightarrow> HTTPRoute \<Rightarrow> managedRouteParent \<Rightarrow> HTTPRoute \<Rightarrow> HTTPRoute \<Rightarrow> readError + HTTPRoute" where
  "chooseWinner reader route parent candidate winner =
     (if \<not> competes route parent candidate then Inr winner
      else bindE (routeCanReserveSlotWithReader reader candidate) (\<lambda>canReserve.
        if \<not> canReserve then Inr winner
        else if routePrecedes candidate winner then Inr candidate else Inr winner))"

definition isSelectedRouteWithReader :: "apiReader \<Rightarrow> HTTPRoute \<Rightarrow> managedRouteParent \<Rightarrow> readError + bool" where
  "isSelectedRouteWithReader reader route parent =
     bindE (rd_HTTPRoutes reader (om_Namespace (ht_Meta route))) (\<lambda>routes.
     bindE (foldE (chooseWinner reader route parent) routes route) (\<lambda>winner.
     Inr (om_Name (ht_Meta winner) = om_Name (ht_Meta route))))"

end
