(* ===== verification/RouteSpecs.thy ===== *)
theory RouteSpecs
  imports RouteModel
begin

text \<open>
  What the construction of a route specification promises (httproute\_model.go, httproute\_backend.go): which
  nodes become members, which routes are supported, and that the resource graph accepts what is built.
\<close>

section \<open>Members\<close>

text \<open>The node serves the backend: it is ready, has an address of the configured type, and runs an endpoint if the Service routes locally.\<close>

definition serves :: "Config \<Rightarrow> Service \<Rightarrow> string set \<Rightarrow> Node \<Rightarrow> bool" where
  "serves c service locals node \<longleftrightarrow> readyNode node \<and>
     (sv_ExternalTrafficPolicy service = Local \<longrightarrow> no_Name node \<in> locals) \<and> nodeAddress node (cf_NodeAddressType c) \<noteq> []"

lemma find_SomeD: "find P xs = Some x \<Longrightarrow> x \<in> set xs \<and> P x"
  by (auto simp: find_Some_iff)

lemma readyNode_condition:
  "readyNode node \<Longrightarrow> \<not> no_Deleting node \<and> \<not> no_Unschedulable node \<and> (''Ready'', ''True'') \<in> set (no_Conditions node)"
  by (auto simp: readyNode_def dest!: find_SomeD split: if_splits option.splits)

lemma nodeAddress_nonempty:
  "nodeAddress node t \<noteq> [] \<Longrightarrow> (t, nodeAddress node t) \<in> set (no_Addresses node) \<and> ParseIP (nodeAddress node t)"
  unfolding nodeAddress_def
  by (cases "find (\<lambda>(t', address). t' = t \<and> ParseIP address) (no_Addresses node)") (auto dest!: find_SomeD)

lemma JoinHostPort_inj: "JoinHostPort a port = JoinHostPort b port \<longleftrightarrow> a = b"
  by (auto simp: JoinHostPort_def)

definition membersOf :: "int \<Rightarrow> string list \<Rightarrow> string list \<times> Member list" where
  "membersOf port addresses = (map (\<lambda>a. JoinHostPort a (itoaInt port)) (rev addresses), map (\<lambda>a. \<lparr>m_Address = a, m_Port = port\<rparr>) addresses)"

lemma addNode_membersOf:
  "addNode c service port locals node (membersOf port as) = membersOf port
     (if serves c service locals node \<and> nodeAddress node (cf_NodeAddressType c) \<notin> set as
      then as @ [nodeAddress node (cf_NodeAddressType c)] else as)"
  by (auto simp: addNode_def serves_def membersOf_def Let_def JoinHostPort_inj image_iff)

lemma fold_addNode:
  assumes "distinct as"
  shows "\<exists>bs. fold (addNode c service port locals) nodes (membersOf port as) = membersOf port bs \<and> distinct bs \<and>
    set bs = set as \<union> {nodeAddress node (cf_NodeAddressType c) | node. node \<in> set nodes \<and> serves c service locals node}"
  using assms
proof (induction nodes arbitrary: as)
  case (Cons node nodes)
  let ?a = "nodeAddress node (cf_NodeAddressType c)"
  define bs where "bs = (if serves c service locals node \<and> ?a \<notin> set as then as @ [?a] else as)"
  have "distinct bs" and bs: "set bs = set as \<union> {a. a = ?a \<and> serves c service locals node}"
    using Cons.prems by (auto simp: bs_def)
  from Cons.IH [OF this(1)] show ?case
    by (auto simp: addNode_membersOf bs bs_def [symmetric])
qed auto

lemma sort_members_distinct:
  assumes "distinct as"
  shows "sorted (map m_Address (sort_key memberOrder (map (\<lambda>a. \<lparr>m_Address = a, m_Port = port\<rparr>) as)))"
proof -
  let ?ms = "sort_key memberOrder (map (\<lambda>a. \<lparr>m_Address = a, m_Port = port\<rparr>) as)"
  have "sorted (map memberOrder ?ms)" by (rule sorted_sort_key)
  then show ?thesis unfolding sorted_map
    by (rule sorted_wrt_mono_rel [rotated]) (auto simp: memberOrder_def less_eq_prod_def)
qed

lemma members_exact:
  assumes "nodePortMembersWithReader reader c service nodePort = Inr members"
    and "rd_Nodes reader = Inr nodes" and "rd_EndpointSlices reader (sv_Namespace service) (sv_Name service) = Inr slices"
  shows "members \<noteq> [] \<and> sorted_wrt (<) (map m_Address members) \<and> (\<forall>m \<in> set members. m_Port m = nodePort \<and> ParseIP (m_Address m)) \<and>
     m_Address ` set members = {nodeAddress node (cf_NodeAddressType c) | node. node \<in> set nodes \<and> serves c service (localNodes slices) node} \<and>
     list_ex endpointReady (concat slices)"
proof -
  obtain bs where bs: "fold (addNode c service nodePort (localNodes slices)) nodes ([], []) = membersOf nodePort bs" "distinct bs"
    "set bs = {nodeAddress node (cf_NodeAddressType c) | node. node \<in> set nodes \<and> serves c service (localNodes slices) node}"
    using fold_addNode [of "[]" c service nodePort "localNodes slices" nodes] by (auto simp: membersOf_def)
  let ?ms = "map (\<lambda>a. \<lparr>m_Address = a, m_Port = nodePort\<rparr>) bs"
  have members: "members = sort_key memberOrder ?ms" "bs \<noteq> []" "list_ex endpointReady (concat slices)"
    using assms bs(1) by (auto simp: nodePortMembersWithReader_def go_simps Let_def membersOf_def)
  have set: "set members = set ?ms" using members(1) by simp
  have "distinct (map m_Address members)"
  proof -
    have "mset (map m_Address members) = mset bs" unfolding members(1) by (simp add: comp_def multiset.map_comp)
    then show ?thesis using bs(2) mset_eq_imp_distinct_iff by blast
  qed
  then have "sorted_wrt (<) (map m_Address members)"
    using sort_members_distinct [OF bs(2), of nodePort] unfolding members(1) strict_sorted_iff by simp
  moreover have "members \<noteq> []" using members(2) set by (metis set_empty list.map_disc_iff)
  moreover have "m_Port m = nodePort \<and> ParseIP (m_Address m)" if "m \<in> set members" for m
    using that nodeAddress_nonempty unfolding set by (auto simp: bs(3) serves_def)
  moreover have "m_Address ` set members = set bs" unfolding set by force
  ultimately show ?thesis using bs(3) members(3) by simp
qed

text \<open>
  C29. When the members of a backend are found, they are the addresses of exactly the nodes that serve it:
  nodes that are ready, schedulable and not being deleted, with a valid address of the configured type, and, if
  the Service keeps traffic on the node, with a ready endpoint on the node. There is at least one, none occurs
  twice, all have the NodePort, and they are sorted by address.
\<close>

theorem nodePortMembers_exact:
  assumes "nodePortMembersWithReader reader c service nodePort = Inr members"
    and "rd_Nodes reader = Inr nodes" and "rd_EndpointSlices reader (sv_Namespace service) (sv_Name service) = Inr slices"
  shows "members \<noteq> [] \<and> sorted_wrt (<) (map m_Address members) \<and> (\<forall>m \<in> set members. m_Port m = nodePort \<and> ParseIP (m_Address m)) \<and>
     m_Address ` set members = {nodeAddress node (cf_NodeAddressType c) | node. node \<in> set nodes \<and> serves c service (localNodes slices) node} \<and>
     list_ex endpointReady (concat slices)"
  by (rule members_exact [OF assms])

section \<open>Supported routes\<close>

text \<open>What \<open>structurallySupportedRoute\<close> tests, with the one rule and backend named.\<close>

definition supportedParts :: "HTTPRoute \<Rightarrow> HTTPRouteRule \<Rightarrow> HTTPBackendRef \<Rightarrow> bool" where
  "supportedParts route rule backend \<longleftrightarrow> ht_Rules route = [rule] \<and> hr_BackendRefs rule = [backend] \<and> isOk (routeHostname route) \<and>
     \<not> ruleHasExtensions rule \<and> isOk (supportedMatch (hr_Matches rule)) \<and> isOk (acceptBackend route backend)"

lemma singleton_iff: "length xs = Suc 0 \<longleftrightarrow> xs = [xs ! 0]"
  by (cases xs) auto

lemma routeHostname_ok:
  "isOk (routeHostname route) \<longleftrightarrow> \<not> (length (ht_Hostnames route) > 1 \<or> length (ht_Hostnames route) = 1 \<and> HasPrefix (ht_Hostnames route ! 0) ''*.'')"
  by (auto simp: routeHostname_def isOk_def split: list.splits)

lemma acceptBackend_ok:
  "isOk (acceptBackend route backend) \<longleftrightarrow> br_Filters backend = 0 \<and> (br_Weight backend = None \<or> br_Weight backend \<noteq> Some 0) \<and>
     (br_Group backend = None \<or> br_Group backend = Some []) \<and> (br_Kind backend = None \<or> br_Kind backend = Some ''Service'') \<and>
     backendNamespace route backend = om_Namespace (ht_Meta route) \<and> br_Port backend \<noteq> None"
  by (auto simp: acceptBackend_def isOk_def split: option.splits)

lemma structurallySupportedRoute_iff:
  "structurallySupportedRoute route \<longleftrightarrow> length (ht_ParentRefs route) = 1 \<and> (\<exists>rule backend. supportedParts route rule backend)"
proof -
  have "structurallySupportedRoute route \<longleftrightarrow> length (ht_ParentRefs route) = 1 \<and> length (ht_Rules route) = 1 \<and>
      length (hr_BackendRefs (ht_Rules route ! 0)) = 1 \<and> isOk (routeHostname route) \<and> \<not> ruleHasExtensions (ht_Rules route ! 0) \<and>
      isOk (supportedMatch (hr_Matches (ht_Rules route ! 0))) \<and> isOk (acceptBackend route (hr_BackendRefs (ht_Rules route ! 0) ! 0))"
    unfolding structurallySupportedRoute_def routeHostname_ok acceptBackend_ok Let_def by auto
  also have "\<dots> \<longleftrightarrow> length (ht_ParentRefs route) = 1 \<and> (\<exists>rule backend. supportedParts route rule backend)"
    unfolding supportedParts_def by (auto simp: length_Suc_conv)
  finally show ?thesis .
qed

text \<open>The part of the construction that depends on the cluster: the Service, its port and the nodes.\<close>

definition resolveBackend :: "apiReader \<Rightarrow> Config \<Rightarrow> HTTPRoute \<Rightarrow> HTTPBackendRef \<Rightarrow> int \<Rightarrow> Member list \<Rightarrow> bool" where
  "resolveBackend reader c route backend nodePort members \<longleftrightarrow> (\<exists>port service servicePort. br_Port backend = Some port \<and>
     rd_Service reader (backendNamespace route backend) (br_Name backend) = Inr service \<and> sv_Type service = ''NodePort'' \<and>
     nodePortForBackend service port = Inr servicePort \<and> nodePort = sp_NodePort servicePort \<and>
     nodePortMembersWithReader reader c service nodePort = Inr members)"

lemma acceptBackend_port: "acceptBackend route backend = Inr port \<Longrightarrow> br_Port backend = Some port"
  by (auto simp: acceptBackend_def split: if_splits option.splits)

lemma case_singleton_Inr [go_simps]:
  "(case xs of [] \<Rightarrow> Inl e | [x] \<Rightarrow> f x | x # y # zs \<Rightarrow> Inl e) = Inr r \<longleftrightarrow> (\<exists>x. xs = [x] \<and> f x = Inr r)"
  by (auto split: list.splits)

lemma buildRouteSpec_cases:
  assumes "buildRouteSpecWithReader reader c route gateway = Inr (Some spec)"
  obtains rule backend listener nodePort pathType pathValue where "supportedParts route rule backend"
    and "listener \<in> set (gw_Listeners gateway)" "resolveBackend reader c route backend nodePort (rs_Members spec)"
    and "supportedMatch (hr_Matches rule) = Inr (pathType, pathValue)" "rs_PathType spec = pathType" "rs_PathValue spec = pathValue"
    and "rs_Identity spec = RouteIdentity c (gw_Meta gateway) (ht_Meta route)" "rs_MemberSubnetID spec = cf_MemberSubnetID c"
    and "rs_GatewayRequirements spec = \<lparr>gr_Provider = cf_Provider c, gr_VIPSubnetID = cf_VIPSubnetID c,
      gr_ExternalNetworkID = cf_ExternalNetworkID c, gr_ListenerPort = gl_Port listener\<rparr>" "rs_HealthPath spec = cf_HealthPath c"
proof -
  from assms obtain hostname where h: "routeHostname route = Inr hostname"
    by (auto simp: buildRouteSpecWithReader_def go_simps)
  from assms obtain rule where r: "ht_Rules route = [rule]"
    by (auto simp: buildRouteSpecWithReader_def go_simps)
  from assms r obtain pathType pathValue where p: "\<not> ruleHasExtensions rule" "supportedMatch (hr_Matches rule) = Inr (pathType, pathValue)"
    by (auto simp: buildRouteSpecWithReader_def go_simps)
  from assms r p obtain backend where b: "hr_BackendRefs rule = [backend]"
    by (auto simp: buildRouteSpecWithReader_def go_simps)
  from assms h r p b obtain port service servicePort members where s: "acceptBackend route backend = Inr port"
    "rd_Service reader (backendNamespace route backend) (br_Name backend) = Inr service" "sv_Type service = ''NodePort''"
    "nodePortForBackend service port = Inr servicePort"
    "nodePortMembersWithReader reader c service (sp_NodePort servicePort) = Inr members"
    by (auto simp: buildRouteSpecWithReader_def go_simps)
  from assms h r p b s obtain listener rest where l: "gw_Listeners gateway = listener # rest"
    by (auto simp: buildRouteSpecWithReader_def guardE_def split: list.splits)
  show thesis
  proof (rule that [of rule backend listener "sp_NodePort servicePort" pathType pathValue])
    show "supportedParts route rule backend" using h r p b s(1) by (simp add: supportedParts_def isOk_def)
    show "resolveBackend reader c route backend (sp_NodePort servicePort) (rs_Members spec)"
      using assms h r p b s l acceptBackend_port [OF s(1)]
      by (auto simp: resolveBackend_def buildRouteSpecWithReader_def guardE_def)
  qed (use assms h r p b s l in \<open>auto simp: buildRouteSpecWithReader_def guardE_def\<close>)
qed

lemma buildRouteSpec_resolved:
  assumes "supportedParts route rule backend" "resolveBackend reader c route backend nodePort members" "gw_Listeners gateway \<noteq> []"
  shows "\<exists>spec. buildRouteSpecWithReader reader c route gateway = Inr (Some spec)"
proof -
  obtain listener rest where "gw_Listeners gateway = listener # rest" using assms(3) by (cases "gw_Listeners gateway") auto
  then show ?thesis
    using assms(1,2) acceptBackend_port
    by (fastforce simp: supportedParts_def resolveBackend_def isOk_iff buildRouteSpecWithReader_def guardE_def)
qed

section \<open>An example cluster\<close>

text \<open>A cluster with one NodePort Service for every name, an endpoint and a node with an address of the configured type.\<close>

definition sampleService :: "string \<Rightarrow> string \<Rightarrow> int \<Rightarrow> Service" where
  "sampleService namespace name port = \<lparr>sv_Namespace = namespace, sv_Name = name, sv_Type = ''NodePort'', sv_ExternalTrafficPolicy = ''Cluster'',
     sv_Ports = [\<lparr>sp_Port = port, sp_Protocol = ''TCP'', sp_AppProtocol = None, sp_NodePort = 30080\<rparr>]\<rparr>"

definition sampleNode :: "string \<Rightarrow> Node" where
  "sampleNode addressType = \<lparr>no_Name = ''node-1'', no_Deleting = False, no_Unschedulable = False, no_Conditions = [(''Ready'', ''True'')],
     no_Addresses = [(addressType, ''10.0.0.1'')]\<rparr>"

definition sampleReader :: "Config \<Rightarrow> int \<Rightarrow> HTTPRoute list \<Rightarrow> apiReader" where
  "sampleReader c port routes = \<lparr>rd_Gateway = \<lambda>_ _. Inl NotFound, rd_GatewayClass = \<lambda>_. Inl NotFound,
     rd_Service = \<lambda>namespace name. Inr (sampleService namespace name port),
     rd_EndpointSlices = \<lambda>_ _. Inr [[\<lparr>ep_Ready = Some True, ep_Terminating = None, ep_NodeName = Some ''node-1''\<rparr>]],
     rd_Nodes = Inr [sampleNode (cf_NodeAddressType c)], rd_HTTPRoutes = \<lambda>_. Inr routes,
     rd_HTTPRoute = \<lambda>_ _. Inl NotFound, rd_CustomResources = Inr [], rd_Indexed = \<lambda>_ _. Inr []\<rparr>"

definition sampleMember :: Member where
  "sampleMember = \<lparr>m_Address = ''10.0.0.1'', m_Port = 30080\<rparr>"

lemma sample_address: "ParseIP ''10.0.0.1''"
  by code_simp

lemma sample_members:
  "nodePortMembersWithReader (sampleReader c port routes) c (sampleService namespace name port) 30080 = Inr [sampleMember]"
  by (simp add: nodePortMembersWithReader_def sampleReader_def sampleService_def sampleNode_def sampleMember_def endpointReady_def
    guardE_def addNode_def readyNode_def nodeAddress_def sample_address Local_def Let_def)

lemma sample_resolves:
  assumes "br_Port backend = Some port"
  shows "resolveBackend (sampleReader c port routes) c route backend 30080 [sampleMember]"
  unfolding resolveBackend_def
  by (rule exI [of _ port], rule exI [of _ "sampleService (backendNamespace route backend) (br_Name backend) port"],
      rule exI [of _ "\<lparr>sp_Port = port, sp_Protocol = ''TCP'', sp_AppProtocol = None, sp_NodePort = 30080\<rparr>"])
    (use assms sample_members in \<open>simp add: nodePortForBackend_def sampleReader_def sampleService_def\<close>)

text \<open>
  The check that decides whether a route may reserve a Gateway agrees with the construction of its
  specification: a route with one parent is structurally supported exactly when there is a state of the
  cluster in which the specification can be built.
\<close>

theorem supported_iff_buildable:
  assumes "length (ht_ParentRefs route) = 1" "gw_Listeners gateway \<noteq> []"
  shows "structurallySupportedRoute route \<longleftrightarrow> (\<exists>reader spec. buildRouteSpecWithReader reader c route gateway = Inr (Some spec))"
proof
  assume "structurallySupportedRoute route"
  then obtain rule backend where parts: "supportedParts route rule backend" by (auto simp: structurallySupportedRoute_iff)
  then obtain port where "br_Port backend = Some port" by (auto simp: supportedParts_def acceptBackend_ok)
  from buildRouteSpec_resolved [OF parts sample_resolves [OF this] assms(2)]
  show "\<exists>reader spec. buildRouteSpecWithReader reader c route gateway = Inr (Some spec)" by blast
next
  assume "\<exists>reader spec. buildRouteSpecWithReader reader c route gateway = Inr (Some spec)"
  then obtain reader spec where "buildRouteSpecWithReader reader c route gateway = Inr (Some spec)" by blast
  then show "structurallySupportedRoute route" using assms(1) by (auto simp: structurallySupportedRoute_iff elim!: buildRouteSpec_cases)
qed

definition sampleListener :: GatewayListener where
  "sampleListener = \<lparr>gl_Name = ''http'', gl_Hostname = None, gl_Port = 80, gl_Protocol = ''HTTP'', gl_TLS = False, gl_AllowedRoutes = None\<rparr>"

definition sampleGateway :: Gateway where
  "sampleGateway = \<lparr>gw_Meta = sampleMeta ''gw'' ''uid-1'', gw_GatewayClassName = ''openstack'', gw_Addresses = 0, gw_Infrastructure = False,
     gw_AllowedListeners = False, gw_TLS = False, gw_Listeners = [sampleListener], gw_Conditions = [],
     gw_StatusAddresses = [], gw_ListenerStatuses = []\<rparr>"

definition sampleRoute :: "string \<Rightarrow> string \<Rightarrow> HTTPRoute" where
  "sampleRoute name uid = \<lparr>ht_Meta = sampleMeta name uid,
     ht_ParentRefs = [\<lparr>pa_Group = None, pa_Kind = None, pa_Namespace = None, pa_Name = ''gw'', pa_SectionName = None, pa_Port = None\<rparr>],
     ht_Hostnames = [''www.example.com''],
     ht_Rules = [\<lparr>hr_Name = False, hr_Matches = [], hr_Filters = 0,
       hr_BackendRefs = [\<lparr>br_Group = None, br_Kind = None, br_Namespace = None, br_Name = ''web'', br_Port = Some 8080, br_Weight = None, br_Filters = 0\<rparr>],
       hr_Timeouts = False, hr_Retry = False, hr_SessionPersistence = False\<rparr>], ht_Parents = []\<rparr>"

lemma sampleRoute_supported: "structurallySupportedRoute (sampleRoute name uid)"
  by (simp add: structurallySupportedRoute_def sampleRoute_def sampleMeta_def HasPrefix_def ruleHasExtensions_def supportedMatch_def
    isOk_def backendNamespace_def orDefault_def)

theorem supported_iff_buildable_witness:
  "\<exists>reader spec. buildRouteSpecWithReader reader sampleConfig (sampleRoute ''a'' ''uid-2'') sampleGateway = Inr (Some spec)"
  using supported_iff_buildable [of "sampleRoute ''a'' ''uid-2''" sampleGateway sampleConfig] sampleRoute_supported
  by (simp add: sampleRoute_def sampleGateway_def)

theorem nodePortMembers_exact_witness:
  "m_Address ` set [sampleMember] = {nodeAddress node ''InternalIP'' | node. node \<in> set [sampleNode ''InternalIP''] \<and>
     serves sampleConfig (sampleService ''default'' ''web'' 8080)
       (localNodes [[\<lparr>ep_Ready = Some True, ep_Terminating = None, ep_NodeName = Some ''node-1''\<rparr>]]) node}"
  using nodePortMembers_exact [OF sample_members [of sampleConfig 8080 "[]" "''default''" "''web''"]]
  by (simp add: sampleReader_def sampleConfig_def)

section \<open>The resource graph accepts what is built\<close>

lemma foldE_total:
  assumes "\<And>x s. x \<in> set xs \<Longrightarrow> isOk (f x s)"
  shows "isOk (foldE f xs s)"
  using assms
proof (induction xs arbitrary: s)
  case (Cons x xs)
  then obtain s' where "f x s = Inr s'" by (meson isOk_iff list.set_intros(1))
  then show ?case using Cons by simp
qed (simp add: isOk_def)

lemma addMember_accepts: "1 \<le> m_Port m \<Longrightarrow> m_Port m \<le> 65535 \<Longrightarrow> ParseIP (m_Address m) \<Longrightarrow> isOk (addMember m table)"
  by (auto simp: addMember_def ParseIP_def isOk_def Let_def split: option.splits)

lemma route_roles_nonblank:
  "role \<in> set [RolePool, RoleMember, RoleMonitor, RolePolicyExact, RolePolicyPrefix, RoleRulePath, RoleRuleHost] \<Longrightarrow> TrimSpace role \<noteq> []"
  by (rule TrimSpace_nonblank [of "hd role"]) (auto simp: role_defs)

lemma supportedMatch_type: "supportedMatch ms = Inr (t, v) \<Longrightarrow> t = PathMatchExact \<or> t = PathMatchPrefix"
  by (auto simp: supportedMatch_def Let_def split: list.splits if_splits)

definition servicePortsInRange :: "Service \<Rightarrow> bool" where
  "servicePortsInRange service = list_all (\<lambda>p. 0 \<le> sp_NodePort p \<and> sp_NodePort p \<le> 65535) (sv_Ports service)"

lemma nodePortForBackend_range:
  "nodePortForBackend service port = Inr p \<Longrightarrow> servicePortsInRange service \<Longrightarrow> 1 \<le> sp_NodePort p \<and> sp_NodePort p \<le> 65535"
  by (auto simp: nodePortForBackend_def servicePortsInRange_def list_all_iff dest!: find_SomeD split: option.splits if_splits)

text \<open>The API server gives every object a name and a UID, and a namespaced object a namespace.\<close>

definition identified :: "ObjectMeta \<Rightarrow> bool" where
  "identified m \<longleftrightarrow> om_Namespace m \<noteq> [] \<and> om_Name m \<noteq> [] \<and> om_UID m \<noteq> []"

lemma blank_empty: "TrimSpace [] = []" "\<not> gatewayControllerNamePattern []"
  by (simp_all add: TrimSpace_def trimLeading.simps spaceRunes_def HasPrefix_def gatewayControllerNamePattern_def)

lemma identified_valid:
  assumes "ValidateConfig c = Inr ()" "identified gateway \<and> identified route"
  shows "isOk (ValidateRouteIdentity (RouteIdentity c gateway route))"
proof -
  have "cf_ClusterID c \<noteq> []" "cf_ControllerName c \<noteq> []"
    using assms(1) by (auto simp: ValidateConfig_def go_simps IsValidControllerName_def blank_empty)
  then show ?thesis using assms(2)
    by (simp add: isOk_iff go_simps RouteIdentity_def GatewayIdentity_def identified_def)
qed

lemma resolved_members:
  assumes "resolveBackend reader c route backend nodePort members"
    and "\<And>namespace name service. rd_Service reader namespace name = Inr service \<Longrightarrow> servicePortsInRange service"
  shows "members \<noteq> [] \<and> (\<forall>m \<in> set members. 1 \<le> m_Port m \<and> m_Port m \<le> 65535 \<and> ParseIP (m_Address m))"
proof -
  from assms(1) obtain port service servicePort where s: "rd_Service reader (backendNamespace route backend) (br_Name backend) = Inr service"
    "nodePortForBackend service port = Inr servicePort" "nodePort = sp_NodePort servicePort"
    "nodePortMembersWithReader reader c service nodePort = Inr members" by (auto simp: resolveBackend_def)
  from s(4) obtain nodes slices where "rd_Nodes reader = Inr nodes" "rd_EndpointSlices reader (sv_Namespace service) (sv_Name service) = Inr slices"
    by (auto simp: nodePortMembersWithReader_def go_simps)
  from members_exact [OF s(4) this] show ?thesis
    using nodePortForBackend_range [OF s(2) assms(2) [OF s(1)]] s(3) by auto
qed

text \<open>
  C30. A specification that the controller builds is never refused by the resource graph as invalid: with a
  valid configuration, the project of the provider, objects with names and UIDs and ports in the
  range the API server enforces, the desired route can be computed from it, for this identity and with its Members.
\<close>

theorem built_spec_accepted:
  assumes "ValidateConfig c = Inr ()" and "cf_OpenStackProjectID c = pv_projectID p" "TrimSpace (pv_projectID p) \<noteq> []"
    and "identified (gw_Meta gateway) \<and> identified (ht_Meta route)"
    and "list_all (\<lambda>listener. 1 \<le> gl_Port listener \<and> gl_Port listener \<le> 65535) (gw_Listeners gateway)"
    and "\<And>namespace name service. rd_Service reader namespace name = Inr service \<Longrightarrow> servicePortsInRange service"
    and "buildRouteSpecWithReader reader c route gateway = Inr (Some spec)"
  shows "\<exists>desired. buildDesiredRoute p spec = Inr desired \<and> want_spec desired = spec \<and>
     want_identity desired = RouteIdentity c (gw_Meta gateway) (ht_Meta route) \<and> want_healthPath desired = cf_HealthPath c"
  using assms(7)
proof (rule buildRouteSpec_cases)
  fix rule backend listener nodePort pathType pathValue
  assume b: "listener \<in> set (gw_Listeners gateway)" "resolveBackend reader c route backend nodePort (rs_Members spec)"
    "supportedMatch (hr_Matches rule) = Inr (pathType, pathValue)" "rs_PathType spec = pathType"
    "rs_Identity spec = RouteIdentity c (gw_Meta gateway) (ht_Meta route)" "rs_MemberSubnetID spec = cf_MemberSubnetID c"
    "rs_GatewayRequirements spec = \<lparr>gr_Provider = cf_Provider c, gr_VIPSubnetID = cf_VIPSubnetID c,
      gr_ExternalNetworkID = cf_ExternalNetworkID c, gr_ListenerPort = gl_Port listener\<rparr>" "rs_HealthPath spec = cf_HealthPath c"
  let ?i = "RouteIdentity c (gw_Meta gateway) (ht_Meta route)"
  have c: "TrimSpace (cf_Provider c) \<noteq> []" "TrimSpace (cf_VIPSubnetID c) \<noteq> []" "TrimSpace (cf_MemberSubnetID c) \<noteq> []" "HasPrefix (cf_HealthPath c) ''/''"
    using assms(1) by (auto simp: ValidateConfig_def go_simps)
  have valid: "isOk (ValidateRouteIdentity ?i)" by (rule identified_valid [OF assms(1,4)])
  have i: "identity p ?i = Inr ?i"
    using assms(2,3) valid by (simp add: identity_ok isOk_iff go_simps RouteIdentity_def GatewayIdentity_def)
  have tags: "foreachE (\<lambda>role. mapErr (\<lambda>e. NewProviderError TerminalValidation (Wrapf e)) (bindE (RouteTags ?i role) (\<lambda>_. Inr ())))
      [RolePool, RoleMember, RoleMonitor, RolePolicyExact, RolePolicyPrefix, RoleRulePath, RoleRuleHost] = Inr ()"
    using route_roles_nonblank valid by (simp add: go_simps RouteTags_eq)
  note m = resolved_members [OF b(2) assms(6)]
  have "isOk (foldE addMember (rs_Members spec) [])" using m by (intro foldE_total addMember_accepts) auto
  then obtain table where table: "foldE addMember (rs_Members spec) [] = Inr table" by (auto simp: isOk_iff)
  have "1 \<le> gl_Port listener" "gl_Port listener \<le> 65535" using assms(5) b(1) by (auto simp: list_all_iff)
  then show ?thesis
    using b(4-8) c i tags m table supportedMatch_type [OF b(3)] by (auto simp: buildDesiredRoute_def guardE_def Let_def HasPrefix_def)
qed

lemma sample_nonblank:
  "TrimSpace ''project-1'' \<noteq> []" "TrimSpace ''cluster-1'' \<noteq> []" "TrimSpace ''amphora'' \<noteq> []" "TrimSpace ''subnet-1'' \<noteq> []" "TrimSpace ''subnet-2'' \<noteq> []"
  by (rule TrimSpace_nonblank [of "hd s" s for s]; simp)+

lemma sampleConfig_valid: "ValidateConfig sampleConfig = Inr ()"
  by (simp add: ValidateConfig_def sampleConfig_def guardE_def sample_nonblank MemberModeNodePort_def NodeInternalIP_def HasPrefix_def
    IsValidControllerName_def gatewayControllerNamePattern_def domainLabel_def isLowerAlnum_def pathChar_def)

theorem built_spec_accepted_witness:
  "\<exists>spec desired. buildRouteSpecWithReader (sampleReader sampleConfig 8080 []) sampleConfig (sampleRoute ''a'' ''uid-2'') sampleGateway = Inr (Some spec) \<and>
     buildDesiredRoute (NewProvider ''project-1'' \<lparr>cfg_OperationTimeout = 0, cfg_PollInterval = 0\<rparr>) spec = Inr desired"
proof -
  have "supportedParts (sampleRoute ''a'' ''uid-2'') (ht_Rules (sampleRoute ''a'' ''uid-2'') ! 0) (hr_BackendRefs (ht_Rules (sampleRoute ''a'' ''uid-2'') ! 0) ! 0)"
    using sampleRoute_supported [of "''a''" "''uid-2''"] by (auto simp: structurallySupportedRoute_iff supportedParts_def sampleRoute_def)
  from buildRouteSpec_resolved [OF this sample_resolves, of 8080 sampleGateway sampleConfig "[]"]
  obtain spec where spec: "buildRouteSpecWithReader (sampleReader sampleConfig 8080 []) sampleConfig (sampleRoute ''a'' ''uid-2'') sampleGateway = Inr (Some spec)"
    by (auto simp: sampleRoute_def sampleGateway_def)
  let ?p = "NewProvider ''project-1'' \<lparr>cfg_OperationTimeout = 0, cfg_PollInterval = 0\<rparr>"
  have "cf_OpenStackProjectID sampleConfig = pv_projectID ?p" "TrimSpace (pv_projectID ?p) \<noteq> []"
    by (simp_all add: sampleConfig_def NewProvider_def sample_nonblank)
  moreover have "identified (gw_Meta sampleGateway) \<and> identified (ht_Meta (sampleRoute ''a'' ''uid-2''))"
    by (simp add: identified_def sampleGateway_def sampleRoute_def sampleMeta_def)
  moreover have "list_all (\<lambda>listener. 1 \<le> gl_Port listener \<and> gl_Port listener \<le> 65535) (gw_Listeners sampleGateway)"
    by (simp add: sampleGateway_def sampleListener_def)
  moreover have "servicePortsInRange service" if "rd_Service (sampleReader sampleConfig 8080 []) namespace name = Inr service" for namespace name service
    using that by (auto simp: sampleReader_def sampleService_def servicePortsInRange_def)
  ultimately have "\<exists>desired. buildDesiredRoute ?p spec = Inr desired" using built_spec_accepted [OF sampleConfig_valid _ _ _ _ _ spec] by blast
  with spec show ?thesis by blast
qed

end
