(* ===== verification/RouteSelection.thy ===== *)
theory RouteSelection
  imports RouteSpecs
begin

text \<open>
  What the selection of a route promises (httproute/httproute\_selection.go): of all routes that may take the
  one slot of a Gateway exactly one is selected, whichever of them is asked, and it is the oldest.
\<close>

section \<open>The order of routes\<close>

definition routeRank :: "HTTPRoute \<Rightarrow> int \<times> string" where
  "routeRank r = (om_CreationTimestamp (ht_Meta r), om_Namespace (ht_Meta r) @ ''/'' @ om_Name (ht_Meta r))"

lemma routePrecedes_rank: "routePrecedes left right \<longleftrightarrow> routeRank left < routeRank right"
  by (auto simp: routePrecedes_def routeRank_def less_prod_def)

lemma routeRank_inj: "om_Namespace (ht_Meta a) = om_Namespace (ht_Meta b) \<Longrightarrow> routeRank a = routeRank b \<Longrightarrow>
    om_Name (ht_Meta a) = om_Name (ht_Meta b)"
  by (simp add: routeRank_def)

section \<open>The routes that may take the slot\<close>

text \<open>
  A route attached to the Gateway: a managed parent of it, as \<open>managedParentsWithReader\<close> finds it, has this
  reference, Gateway and listener.
\<close>

definition slotParent :: "Gateway \<Rightarrow> GatewayClass option \<Rightarrow> GatewayListener option \<Rightarrow> HTTPRoute \<Rightarrow> managedRouteParent" where
  "slotParent gateway cls listener r = \<lparr>mp_ref = ht_ParentRefs r ! 0, mp_gateway = gateway, mp_gatewayClass = cls, mp_listener = listener\<rparr>"

definition refersTo :: "Gateway \<Rightarrow> HTTPRoute \<Rightarrow> bool" where
  "refersTo gateway r \<longleftrightarrow> IsGatewayParentRef (ht_ParentRefs r ! 0) \<and>
     orDefault (pa_Namespace (ht_ParentRefs r ! 0)) (om_Namespace (ht_Meta r)) = om_Namespace (gw_Meta gateway) \<and>
     pa_Name (ht_ParentRefs r ! 0) = om_Name (gw_Meta gateway)"

definition eligible :: "Gateway \<Rightarrow> GatewayListener option \<Rightarrow> HTTPRoute \<Rightarrow> bool" where
  "eligible gateway listener r \<longleftrightarrow> \<not> om_Deleting (ht_Meta r) \<and> length (ht_ParentRefs r) = 1 \<and> refersTo gateway r \<and>
     isOk (validateRouteParent r (slotParent gateway None listener r)) \<and> structurallySupportedRoute r"

definition contends :: "apiReader \<Rightarrow> Gateway \<Rightarrow> GatewayListener option \<Rightarrow> HTTPRoute \<Rightarrow> bool" where
  "contends reader gateway listener r \<longleftrightarrow> eligible gateway listener r \<and> routeCanReserveSlotWithReader reader r = Inr True"

lemma IsGatewayParentRef_default:
  "IsGatewayParentRef ref \<longleftrightarrow> orDefault (pa_Group ref) GroupName = GroupName \<and> orDefault (pa_Kind ref) ''Gateway'' = ''Gateway''"
  by (cases "pa_Group ref"; cases "pa_Kind ref") (simp_all add: IsGatewayParentRef_def orDefault_def)

lemma SameGatewayTarget_refersTo:
  assumes "refersTo gateway r"
  shows "SameGatewayTarget (ht_ParentRefs x ! 0) (om_Namespace (ht_Meta x)) (ht_ParentRefs r ! 0) (om_Namespace (ht_Meta r)) \<longleftrightarrow> refersTo gateway x"
  using assms unfolding refersTo_def SameGatewayTarget_def ParentRefsEqual_def IsGatewayParentRef_default by auto

lemma competes_eligible:
  assumes "refersTo gateway r"
  shows "competes r (slotParent gateway cls listener r) x \<longleftrightarrow> om_Name (ht_Meta x) \<noteq> om_Name (ht_Meta r) \<and> eligible gateway listener x"
  unfolding competes_def eligible_def Let_def using SameGatewayTarget_refersTo [OF assms, of x]
  by (auto simp: slotParent_def)

section \<open>The winner of the loop\<close>

lemma chooseWinner_step:
  assumes "refersTo gateway r" "\<And>x. x \<in> set (y # xs) \<Longrightarrow> eligible gateway listener x \<Longrightarrow> isOk (routeCanReserveSlotWithReader reader x)"
  shows "chooseWinner reader r (slotParent gateway cls listener r) y w =
    Inr (if om_Name (ht_Meta y) \<noteq> om_Name (ht_Meta r) \<and> contends reader gateway listener y \<and> routeRank y < routeRank w then y else w)"
proof (cases "eligible gateway listener y")
  case True
  then obtain b where "routeCanReserveSlotWithReader reader y = Inr b" using assms(2) [of y] by (auto simp: isOk_iff)
  with True show ?thesis by (simp add: chooseWinner_def competes_eligible [OF assms(1)] contends_def routePrecedes_rank)
next
  case False
  then show ?thesis by (simp add: chooseWinner_def competes_eligible [OF assms(1)] contends_def)
qed

lemma winner_is_least:
  assumes "refersTo gateway r" "\<And>x. x \<in> set xs \<Longrightarrow> eligible gateway listener x \<Longrightarrow> isOk (routeCanReserveSlotWithReader reader x)"
  obtains w where "foldE (chooseWinner reader r (slotParent gateway cls listener r)) xs v = Inr w"
    and "w = v \<or> w \<in> set xs \<and> om_Name (ht_Meta w) \<noteq> om_Name (ht_Meta r) \<and> contends reader gateway listener w \<and> routeRank w < routeRank v"
    and "routeRank w \<le> routeRank v"
    and "\<And>x. x \<in> set xs \<Longrightarrow> om_Name (ht_Meta x) \<noteq> om_Name (ht_Meta r) \<Longrightarrow> contends reader gateway listener x \<Longrightarrow> routeRank w \<le> routeRank x"
  using assms(2)
proof (induction xs arbitrary: v thesis)
  case Nil
  then show ?case by simp
next
  case (Cons y ys)
  define u where "u = (if om_Name (ht_Meta y) \<noteq> om_Name (ht_Meta r) \<and> contends reader gateway listener y \<and> routeRank y < routeRank v then y else v)"
  have u: "foldE (chooseWinner reader r (slotParent gateway cls listener r)) (y # ys) v =
      foldE (chooseWinner reader r (slotParent gateway cls listener r)) ys u"
    using chooseWinner_step [OF assms(1) Cons.prems(2)] by (simp add: u_def)
  have ok: "isOk (routeCanReserveSlotWithReader reader x)" if "x \<in> set ys" "eligible gateway listener x" for x
    using Cons.prems(2) that by simp
  show ?case
  proof (rule Cons.IH [OF _ ok, of u])
    fix w
    assume w: "foldE (chooseWinner reader r (slotParent gateway cls listener r)) ys u = Inr w"
      "w = u \<or> w \<in> set ys \<and> om_Name (ht_Meta w) \<noteq> om_Name (ht_Meta r) \<and> contends reader gateway listener w \<and> routeRank w < routeRank u"
      "routeRank w \<le> routeRank u"
      "\<And>x. x \<in> set ys \<Longrightarrow> om_Name (ht_Meta x) \<noteq> om_Name (ht_Meta r) \<Longrightarrow> contends reader gateway listener x \<Longrightarrow> routeRank w \<le> routeRank x"
    show thesis
    proof (rule Cons.prems(1) [of w])
      show "foldE (chooseWinner reader r (slotParent gateway cls listener r)) (y # ys) v = Inr w" using u w(1) by simp
      show "w = v \<or> w \<in> set (y # ys) \<and> om_Name (ht_Meta w) \<noteq> om_Name (ht_Meta r) \<and> contends reader gateway listener w \<and> routeRank w < routeRank v"
        using w(2) by (auto simp: u_def split: if_splits intro: less_trans)
      show "routeRank w \<le> routeRank v" using w(3) by (auto simp: u_def split: if_splits)
      show "routeRank w \<le> routeRank x" if "x \<in> set (y # ys)" "om_Name (ht_Meta x) \<noteq> om_Name (ht_Meta r)" "contends reader gateway listener x" for x
        using that w(3,4) by (auto simp: u_def split: if_splits)
    qed
  qed
qed

text \<open>What the listing of a namespace looks like, and that the Services of the eligible routes can be read or are absent.\<close>

definition namespaceListing :: "apiReader \<Rightarrow> Gateway \<Rightarrow> GatewayListener option \<Rightarrow> string \<Rightarrow> HTTPRoute list \<Rightarrow> bool" where
  "namespaceListing reader gateway listener namespace routes \<longleftrightarrow> rd_HTTPRoutes reader namespace = Inr routes \<and>
     distinct (map (\<lambda>r. om_Name (ht_Meta r)) routes) \<and> list_all (\<lambda>r. om_Namespace (ht_Meta r) = namespace) routes \<and>
     list_all (\<lambda>r. eligible gateway listener r \<longrightarrow> isOk (routeCanReserveSlotWithReader reader r)) routes"

lemma namespaceListing_names:
  assumes "namespaceListing reader gateway listener namespace routes" "a \<in> set routes" "b \<in> set routes"
  shows "om_Name (ht_Meta a) = om_Name (ht_Meta b) \<longleftrightarrow> a = b" "routeRank a = routeRank b \<longleftrightarrow> a = b"
proof -
  have inj: "inj_on (\<lambda>r. om_Name (ht_Meta r)) (set routes)" and ns: "om_Namespace (ht_Meta a) = om_Namespace (ht_Meta b)"
    using assms by (auto simp: namespaceListing_def distinct_map list_all_iff)
  show names: "om_Name (ht_Meta a) = om_Name (ht_Meta b) \<longleftrightarrow> a = b" using inj assms by (auto dest: inj_onD)
  show "routeRank a = routeRank b \<longleftrightarrow> a = b" using routeRank_inj [OF ns] names by auto
qed

lemma selected_iff_oldest:
  assumes listing: "namespaceListing reader gateway listener namespace routes"
    and r: "r \<in> set routes" "refersTo gateway r"
  shows "isSelectedRouteWithReader reader r (slotParent gateway cls listener r) =
    Inr (\<forall>x \<in> set routes. contends reader gateway listener x \<longrightarrow> x = r \<or> routePrecedes r x)"
proof -
  have "isOk (routeCanReserveSlotWithReader reader x)" if "x \<in> set routes" "eligible gateway listener x" for x
    using listing that by (auto simp: namespaceListing_def list_all_iff)
  then obtain w where w: "foldE (chooseWinner reader r (slotParent gateway cls listener r)) routes r = Inr w"
    "w = r \<or> w \<in> set routes \<and> om_Name (ht_Meta w) \<noteq> om_Name (ht_Meta r) \<and> contends reader gateway listener w \<and> routeRank w < routeRank r"
    "\<And>x. x \<in> set routes \<Longrightarrow> om_Name (ht_Meta x) \<noteq> om_Name (ht_Meta r) \<Longrightarrow> contends reader gateway listener x \<Longrightarrow> routeRank w \<le> routeRank x"
    by (rule winner_is_least [OF r(2)]) blast+
  have names: "om_Name (ht_Meta x) = om_Name (ht_Meta r) \<longleftrightarrow> x = r" "routeRank x = routeRank r \<longleftrightarrow> x = r" if "x \<in> set routes" for x
    using namespaceListing_names [OF listing that r(1)] by auto
  have "rd_HTTPRoutes reader (om_Namespace (ht_Meta r)) = Inr routes"
    using listing r(1) by (auto simp: namespaceListing_def list_all_iff)
  then have "isSelectedRouteWithReader reader r (slotParent gateway cls listener r) = Inr (om_Name (ht_Meta w) = om_Name (ht_Meta r))"
    unfolding isSelectedRouteWithReader_def using w(1) by simp
  moreover have "om_Name (ht_Meta w) = om_Name (ht_Meta r) \<longleftrightarrow>
      (\<forall>x \<in> set routes. contends reader gateway listener x \<longrightarrow> x = r \<or> routePrecedes r x)"
  proof (cases "w = r")
    case True
    have "routeRank r < routeRank x" if "x \<in> set routes" "contends reader gateway listener x" "x \<noteq> r" for x
      using w(3) [of x] names [of x] that True by (simp add: less_le)
    with True show ?thesis unfolding routePrecedes_rank by blast
  next
    case False
    then have "w \<in> set routes" "om_Name (ht_Meta w) \<noteq> om_Name (ht_Meta r)" "contends reader gateway listener w" "\<not> routeRank r < routeRank w"
      using w(2) by auto
    with False show ?thesis unfolding routePrecedes_rank by blast
  qed
  ultimately show ?thesis by simp
qed

text \<open>
  C28. Of the routes of a namespace that may take the slot of a Gateway exactly one is selected: the one that
  precedes all others by creation time and then by name. Every other route that refers to the Gateway is told
  that it is not selected, so two routes never program the Gateway at the same time.
\<close>

theorem one_route_selected:
  assumes "namespaceListing reader gateway listener namespace routes"
    and "list_ex (contends reader gateway listener) routes"
  shows "\<exists>winner \<in> set routes. contends reader gateway listener winner \<and>
     (\<forall>r \<in> set routes. contends reader gateway listener r \<longrightarrow> r = winner \<or> routePrecedes winner r) \<and>
     (\<forall>r \<in> set routes. contends reader gateway listener r \<longrightarrow>
        isSelectedRouteWithReader reader r (slotParent gateway cls listener r) = Inr (r = winner))"
proof -
  define C where "C = {r \<in> set routes. contends reader gateway listener r}"
  have "finite (routeRank ` C)" "routeRank ` C \<noteq> {}" using assms(2) by (auto simp: C_def list_ex_iff)
  then have "Min (routeRank ` C) \<in> routeRank ` C" by (rule Min_in)
  then obtain w where w: "w \<in> C" "routeRank w = Min (routeRank ` C)" by auto
  have le_C: "routeRank w \<le> routeRank r" if "r \<in> C" for r unfolding w(2) by (rule Min_le) (use that C_def in auto)
  have first: "r = w \<or> routePrecedes w r" if "r \<in> C" for r
    using le_C [OF that] namespaceListing_names(2) [OF assms(1), of r w] that w(1) unfolding routePrecedes_rank C_def by (auto simp: less_le)
  have sel: "isSelectedRouteWithReader reader r (slotParent gateway cls listener r) = Inr (r = w)" if "r \<in> C" for r
  proof -
    have "(\<forall>x \<in> set routes. contends reader gateway listener x \<longrightarrow> x = r \<or> routePrecedes r x) \<longleftrightarrow> r = w"
      using first that w(1) unfolding routePrecedes_rank C_def by (auto dest: less_asym)
    then show ?thesis using selected_iff_oldest [OF assms(1), of r cls] that by (auto simp: C_def contends_def eligible_def)
  qed
  show ?thesis by (rule bexI [of _ w]) (use w(1) first sel in \<open>auto simp: C_def\<close>)
qed

definition sampleRoutes :: "HTTPRoute list" where
  "sampleRoutes = [sampleRoute ''b'' ''uid-3'', sampleRoute ''a'' ''uid-2'']"

lemma sample_contends:
  "contends (sampleReader sampleConfig 8080 routes) sampleGateway (Some sampleListener) (sampleRoute name uid)"
proof -
  have "refersTo sampleGateway (sampleRoute name uid)"
    by (simp add: refersTo_def IsGatewayParentRef_def orDefault_def sampleRoute_def sampleGateway_def sampleMeta_def)
  moreover have "isOk (validateRouteParent (sampleRoute name uid) (slotParent sampleGateway None (Some sampleListener) (sampleRoute name uid)))"
    by (simp add: validateRouteParent_def slotParent_def sampleRoute_def sampleGateway_def sampleMeta_def sampleListener_def HTTPProtocolType_def isOk_def)
  moreover have "routeCanReserveSlotWithReader (sampleReader sampleConfig 8080 routes) (sampleRoute name uid) = Inr True"
    by (simp add: routeCanReserveSlotWithReader_def evaluateRouteSlotWithReader_def sampleReader_def sampleService_def sampleRoute_def nodePortForBackend_def)
  ultimately show ?thesis using sampleRoute_supported
    by (simp add: contends_def eligible_def) (simp add: sampleRoute_def sampleMeta_def)
qed

theorem one_route_selected_witness:
  "\<exists>winner \<in> set sampleRoutes. \<forall>r \<in> set sampleRoutes.
     isSelectedRouteWithReader (sampleReader sampleConfig 8080 sampleRoutes) r (slotParent sampleGateway None (Some sampleListener) r) = Inr (r = winner)"
proof -
  have all: "contends (sampleReader sampleConfig 8080 sampleRoutes) sampleGateway (Some sampleListener) r" if "r \<in> set sampleRoutes" for r
    using that sample_contends by (auto simp: sampleRoutes_def)
  have "list_all (\<lambda>r. isOk (routeCanReserveSlotWithReader (sampleReader sampleConfig 8080 sampleRoutes) r)) sampleRoutes"
    using all by (simp add: list_all_iff contends_def isOk_def)
  then have "namespaceListing (sampleReader sampleConfig 8080 sampleRoutes) sampleGateway (Some sampleListener) ''default'' sampleRoutes"
    unfolding namespaceListing_def list_all_iff by (simp add: sampleRoutes_def sampleRoute_def sampleMeta_def sampleReader_def)
  moreover have "list_ex (contends (sampleReader sampleConfig 8080 sampleRoutes) sampleGateway (Some sampleListener)) sampleRoutes"
    using all [of "sampleRoute ''b'' ''uid-3''"] by (simp add: sampleRoutes_def)
  ultimately obtain winner where "winner \<in> set sampleRoutes" "\<forall>r \<in> set sampleRoutes. contends (sampleReader sampleConfig 8080 sampleRoutes) sampleGateway (Some sampleListener) r \<longrightarrow>
      isSelectedRouteWithReader (sampleReader sampleConfig 8080 sampleRoutes) r (slotParent sampleGateway None (Some sampleListener) r) = Inr (r = winner)"
    using one_route_selected [of "sampleReader sampleConfig 8080 sampleRoutes" sampleGateway "Some sampleListener" _ sampleRoutes None] by blast
  with all show ?thesis by blast
qed

section \<open>Gateways and their routes\<close>

lemma ValidateGateway_ok:
  "ValidateGateway gateway = Inr listener \<Longrightarrow> gw_Listeners gateway = [listener] \<and> gl_Protocol listener = HTTPProtocolType \<and> \<not> gl_TLS listener \<and>
     (case gl_AllowedRoutes listener of None \<Rightarrow> True
      | Some allowed \<Rightarrow> (ar_NamespacesFrom allowed = None \<or> ar_NamespacesFrom allowed = Some NamespacesFromSame) \<and>
          list_all isHTTPRouteGroupKind (ar_Kinds allowed))"
  by (auto simp: ValidateGateway_def split: if_splits list.splits option.splits)

lemma all_kinds_admit: "list_all P xs \<Longrightarrow> xs = [] \<or> list_ex P xs"
  by (cases xs) auto

text \<open>
  The Gateway and the HTTPRoute controller agree: when the Gateway controller accepts a Gateway, the parent
  that the route controller finds for a reference to it has its listener, and the route is attached to it
  exactly when the Gateway is not being deleted, both are in one namespace and the section and port of the
  reference, if given, are those of the listener. No route is refused for the listener itself.
\<close>

theorem accepted_gateway_admits_routes:
  assumes "ValidateGateway gateway = Inr listener" and "managedParent reader c route ref [] = Inr [parent]" and "mp_gateway parent = gateway"
  shows "mp_listener parent = Some listener \<and>
    (validateRouteParent route parent = Inr () \<longleftrightarrow> \<not> om_Deleting (gw_Meta gateway) \<and>
       om_Namespace (gw_Meta gateway) = om_Namespace (ht_Meta route) \<and>
       (pa_SectionName ref = None \<or> pa_SectionName ref = Some (gl_Name listener)) \<and>
       (pa_Port ref = None \<or> pa_Port ref = Some (gl_Port listener)))"
proof -
  have ref: "mp_ref parent = ref" and l: "mp_listener parent = Some listener"
    using assms(2,3) ValidateGateway_ok [OF assms(1)]
    by (auto simp: managedParent_def split: if_splits sum.splits readError.splits)
  show ?thesis
    using ref l assms(3) ValidateGateway_ok [OF assms(1)] all_kinds_admit
    by (auto simp: validateRouteParent_def split: option.splits)
qed

definition attachedReader :: apiReader where
  "attachedReader = (sampleReader sampleConfig 8080 [])\<lparr>rd_Gateway := \<lambda>_ _. Inr sampleGateway,
     rd_GatewayClass := \<lambda>_. Inr \<lparr>gc_Meta = sampleMeta ''openstack'' ''uid-0'', gc_ControllerName = ''example.com/openstack'', gc_ParametersRef = False,
       gc_SupportedFeatures = [], gc_Conditions = []\<rparr>\<rparr>"

theorem accepted_gateway_admits_routes_witness:
  "\<exists>parent. managedParent attachedReader sampleConfig (sampleRoute ''a'' ''uid-2'') (ht_ParentRefs (sampleRoute ''a'' ''uid-2'') ! 0) [] = Inr [parent] \<and>
     validateRouteParent (sampleRoute ''a'' ''uid-2'') parent = Inr ()"
proof -
  let ?route = "sampleRoute ''a'' ''uid-2''"
  let ?ref = "ht_ParentRefs ?route ! 0"
  let ?gc = "\<lparr>gc_Meta = sampleMeta ''openstack'' ''uid-0'', gc_ControllerName = ''example.com/openstack'', gc_ParametersRef = False,
       gc_SupportedFeatures = [], gc_Conditions = []\<rparr>"
  have "managedParent attachedReader sampleConfig ?route ?ref [] =
      Inr [\<lparr>mp_ref = ?ref, mp_gateway = sampleGateway, mp_gatewayClass = Some ?gc, mp_listener = Some sampleListener\<rparr>]"
    by (simp add: managedParent_def attachedReader_def IsGatewayParentRef_def sampleRoute_def sampleConfig_def) (simp add: sampleGateway_def)
  moreover have "ValidateGateway sampleGateway = Inr sampleListener"
    by (simp add: ValidateGateway_def sampleGateway_def sampleListener_def HTTPProtocolType_def)
  ultimately show ?thesis
    using accepted_gateway_admits_routes [of sampleGateway sampleListener attachedReader sampleConfig ?route ?ref]
    by (simp add: sampleRoute_def sampleMeta_def) (simp add: sampleGateway_def sampleMeta_def)
qed

end
