(* ===== verification/ApiVersion.thy ===== *)
theory ApiVersion
  imports GatewayAPI ProviderOutcomes
begin

text \<open>
  internal/controller/gateway\_api\_version.go, status.go and provider\_events.go: the Gateway API version check and the
  conditions the reconcilers publish. The supported bundle version and its annotation key are constants of
  the Gateway API module and parameters here.
\<close>

section \<open>Conditions\<close>

definition Condition :: "string \<Rightarrow> ConditionStatus \<Rightarrow> string \<Rightarrow> string \<Rightarrow> int \<Rightarrow> StatusCondition" where
  "Condition conditionType status reason message generation =
     \<lparr>co_Type = conditionType, co_Status = status, co_ObservedGeneration = generation, co_LastTransitionTime = 0,
      co_Reason = reason, co_Message = message\<rparr>"

definition SetCondition :: "conditionUtil \<Rightarrow> StatusCondition list \<Rightarrow> StatusCondition \<Rightarrow> StatusCondition list" where
  "SetCondition u conditions v = SetStatusCondition u conditions v"

definition ConditionTransitioned :: "conditionUtil \<Rightarrow> StatusCondition list \<Rightarrow> string \<Rightarrow> ConditionStatus \<Rightarrow> string \<Rightarrow> string \<Rightarrow> int \<Rightarrow> bool" where
  "ConditionTransitioned u conditions conditionType status reason message generation =
     (case FindStatusCondition u conditions conditionType of
        None \<Rightarrow> True
      | Some existing \<Rightarrow> co_Status existing \<noteq> status \<or> co_Reason existing \<noteq> reason \<or> co_Message existing \<noteq> message \<or>
          co_ObservedGeneration existing \<noteq> generation)"

definition ConditionObservedGeneration :: "conditionUtil \<Rightarrow> StatusCondition list \<Rightarrow> string \<Rightarrow> int \<Rightarrow> bool \<Rightarrow> int" where
  "ConditionObservedGeneration u conditions conditionType currentGeneration advance =
     (if advance then currentGeneration
      else case FindStatusCondition u conditions conditionType of None \<Rightarrow> 0 | Some existing \<Rightarrow> co_ObservedGeneration existing)"

section \<open>The installed Gateway API version\<close>

record gatewayConsts =
  BundleVersion :: string
  BundleVersionAnnotation :: string

definition requiredGatewayAPICRDs :: "string list" where
  "requiredGatewayAPICRDs = [''gatewayclasses.gateway.networking.k8s.io'', ''gateways.gateway.networking.k8s.io'',
     ''httproutes.gateway.networking.k8s.io'']"

definition UnsupportedGatewayAPIVersionMessage :: string where
  "UnsupportedGatewayAPIVersionMessage = ''GatewayClass does not support the installed Gateway API CRD version''"

definition gatewayAPIExperimentalGroup :: string where
  "gatewayAPIExperimentalGroup = ''gateway.networking.x-k8s.io''"

definition gatewayAPIVersionRequeue :: int where
  "gatewayAPIVersionRequeue = 60 * second"

definition GatewayAPIVersionRequeueAfter :: "string \<Rightarrow> int" where
  "GatewayAPIVersionRequeueAfter uid = stableJitter gatewayAPIVersionRequeue (uid @ ''/gateway-api-version'')"

record GatewayAPIVersionObservation =
  vo_Supported :: bool
  vo_Message :: string

definition isGatewayAPIGroup :: "string \<Rightarrow> bool" where
  "isGatewayAPIGroup apiGroup \<longleftrightarrow> apiGroup = GroupName \<or> apiGroup = gatewayAPIExperimentalGroup"

definition IsGatewayAPICRDName :: "string \<Rightarrow> bool" where
  "IsGatewayAPICRDName name = (case Cut name ''.'' of (resource, apiGroup, found) \<Rightarrow> found \<and> resource \<noteq> [] \<and> isGatewayAPIGroup apiGroup)"

definition definitionIssue :: "gatewayConsts \<Rightarrow> CustomResource \<Rightarrow> string list" where
  "definitionIssue g crd =
     (if crd_Deleting crd then [crd_Name crd @ '' is being deleted'']
      else let installedVersion = (case crd_Annotations crd (BundleVersionAnnotation g) of None \<Rightarrow> [] | Some v \<Rightarrow> v) in
        if installedVersion = [] then [crd_Name crd @ '' has no bundle version annotation'']
        else if installedVersion \<noteq> BundleVersion g then [crd_Name crd @ '' uses bundle version '' @ installedVersion]
        else [])"

definition ObserveGatewayAPIVersion :: "gatewayConsts \<Rightarrow> apiReader \<Rightarrow> readError + GatewayAPIVersionObservation" where
  "ObserveGatewayAPIVersion g reader = bindE (rd_CustomResources reader) (\<lambda>items.
     let definitions = filter (\<lambda>crd. IsGatewayAPICRDName (crd_Name crd)) items;
         present = map crd_Name definitions;
         issues = concat (map (definitionIssue g) definitions) @
           map (\<lambda>name. name @ '' is not installed'') (filter (\<lambda>name. name \<notin> set present) requiredGatewayAPICRDs) in
     if issues = [] then Inr \<lparr>vo_Supported = True,
       vo_Message = ''Installed Gateway API CRDs use supported bundle version '' @ BundleVersion g\<rparr>
     else Inr \<lparr>vo_Supported = False, vo_Message = ''Installed Gateway API CRDs do not match supported bundle version '' @ BundleVersion g @
       '': '' @ Join (sort issues) '', ''\<rparr>)"

definition GatewayClassSupportsInstalledVersion :: "conditionUtil \<Rightarrow> GatewayClass \<Rightarrow> bool" where
  "GatewayClassSupportsInstalledVersion u gatewayClass =
     (case FindStatusCondition u (gc_Conditions gatewayClass) ''SupportedVersion'' of
        None \<Rightarrow> False
      | Some condition \<Rightarrow> co_Status condition = ConditionTrue \<and> co_ObservedGeneration condition = gc_Generation gatewayClass)"

datatype versionError = versionReadError readError | ErrAPIReaderRequired | ErrUnsupportedGatewayAPIVersion

text \<open>A nil reader is \<^term>\<open>None\<close>.\<close>

definition ValidateInstalledGatewayAPIVersion :: "gatewayConsts \<Rightarrow> apiReader option \<Rightarrow> versionError + unit" where
  "ValidateInstalledGatewayAPIVersion g reader = (case reader of
      None \<Rightarrow> Inl ErrAPIReaderRequired
    | Some reader \<Rightarrow> bindE (mapErr versionReadError (ObserveGatewayAPIVersion g reader)) (\<lambda>observation.
        guardE (vo_Supported observation) ErrUnsupportedGatewayAPIVersion))"

text \<open>The check succeeds exactly when every definition of the Gateway API has the supported version and the required ones are installed.\<close>

lemma definitionIssue_Nil:
  "definitionIssue g crd = [] \<longleftrightarrow> \<not> crd_Deleting crd \<and> crd_Annotations crd (BundleVersionAnnotation g) = Some (BundleVersion g) \<and> BundleVersion g \<noteq> []"
  by (auto simp: definitionIssue_def Let_def split: option.splits)

lemma version_supported_iff:
  assumes "rd_CustomResources reader = Inr items"
  shows "ValidateInstalledGatewayAPIVersion g (Some reader) = Inr () \<longleftrightarrow>
     (\<forall>crd \<in> set items. IsGatewayAPICRDName (crd_Name crd) \<longrightarrow> \<not> crd_Deleting crd \<and>
        crd_Annotations crd (BundleVersionAnnotation g) = Some (BundleVersion g) \<and> BundleVersion g \<noteq> []) \<and>
     set requiredGatewayAPICRDs \<subseteq> crd_Name ` {crd \<in> set items. IsGatewayAPICRDName (crd_Name crd)}"
  using assms by (auto simp: ValidateInstalledGatewayAPIVersion_def ObserveGatewayAPIVersion_def Let_def go_simps filter_empty_conv definitionIssue_Nil)

end
