(* ===== verification/ControllerEffects.thy ===== *)
theory ControllerEffects
  imports Prelude
begin

text \<open>
  Computations of the reconcilers. A computation maps a state to an error or a value and a new state;
  the state holds the scope that a reconciliation fills in, the log of what was done so far and the world
  outside. \<open>bindA\<close> is a call followed by \<^verbatim>\<open>if err != nil { return err }\<close>, \<open>tryA\<close> gives the error to the code that
  inspects it, and \<open>deferA\<close> is a deferred call that changes the state.

  What a computation does is stated with triples: from a state with \<open>P\<close>, a result satisfies \<open>Q\<close> and an error
  satisfies \<open>E\<close>. The rules follow the structure of the code, and an invariant is a triple with the same
  predicate in all three places.
\<close>

type_synonym ('s, 'e, 'a) act = "'s \<Rightarrow> ('e + 'a) \<times> 's"

definition returnA :: "'a \<Rightarrow> ('s, 'e, 'a) act" where
  "returnA x = (\<lambda>s. (Inr x, s))"

definition throwA :: "'e \<Rightarrow> ('s, 'e, 'a) act" where
  "throwA e = (\<lambda>s. (Inl e, s))"

definition liftA :: "'e + 'a \<Rightarrow> ('s, 'e, 'a) act" where
  "liftA r = (\<lambda>s. (r, s))"

definition bindA :: "('s, 'e, 'a) act \<Rightarrow> ('a \<Rightarrow> ('s, 'e, 'b) act) \<Rightarrow> ('s, 'e, 'b) act" where
  "bindA m f = (\<lambda>s. case m s of (Inl e, s') \<Rightarrow> (Inl e, s') | (Inr x, s') \<Rightarrow> f x s')"

definition tryA :: "('s, 'e, 'a) act \<Rightarrow> ('s, 'f, 'e + 'a) act" where
  "tryA m = (\<lambda>s. case m s of (r, s') \<Rightarrow> (Inr r, s'))"

definition deferA :: "('s \<Rightarrow> 's) \<Rightarrow> ('s, 'e, 'a) act \<Rightarrow> ('s, 'e, 'a) act" where
  "deferA d m = (\<lambda>s. case m s of (r, s') \<Rightarrow> (r, d s'))"

definition getA :: "('s \<Rightarrow> 'a) \<Rightarrow> ('s, 'e, 'a) act" where
  "getA f = (\<lambda>s. (Inr (f s), s))"

definition modifyA :: "('s \<Rightarrow> 's) \<Rightarrow> ('s, 'e, unit) act" where
  "modifyA f = (\<lambda>s. (Inr (), f s))"

definition guardA :: "bool \<Rightarrow> 'e \<Rightarrow> ('s, 'e, unit) act" where
  "guardA ok e = liftA (guardE ok e)"

text \<open>
  A call that is made again while it fails with a conflict, as the retry helper of client-go does it. The
  number of attempts is a parameter of the models that use it; the error of the last attempt is returned.
\<close>

fun retryA :: "nat \<Rightarrow> ('e \<Rightarrow> bool) \<Rightarrow> (nat \<Rightarrow> ('s, 'e, 'a) act) \<Rightarrow> ('s, 'e, 'a) act" where
  "retryA 0 conflict m = m 0"
| "retryA (Suc n) conflict m = bindA (tryA (m (Suc n))) (\<lambda>r. case r of
      Inl e \<Rightarrow> if conflict e then retryA n conflict m else throwA e
    | Inr x \<Rightarrow> returnA x)"

section \<open>Triples\<close>

definition post :: "('a \<Rightarrow> 's \<Rightarrow> bool) \<Rightarrow> ('e \<Rightarrow> 's \<Rightarrow> bool) \<Rightarrow> ('e + 'a) \<times> 's \<Rightarrow> bool" where
  "post Q E p = (case p of (Inl e, s') \<Rightarrow> E e s' | (Inr x, s') \<Rightarrow> Q x s')"

definition triple :: "('s \<Rightarrow> bool) \<Rightarrow> ('s, 'e, 'a) act \<Rightarrow> ('a \<Rightarrow> 's \<Rightarrow> bool) \<Rightarrow> ('e \<Rightarrow> 's \<Rightarrow> bool) \<Rightarrow> bool" where
  "triple P m Q E \<longleftrightarrow> (\<forall>s. P s \<longrightarrow> post Q E (m s))"

named_theorems triples

lemma post_simps [simp]: "post Q E (Inl e, s) = E e s" "post Q E (Inr x, s) = Q x s"
  by (simp_all add: post_def)

lemma post_mono: "post Q' E' p \<Longrightarrow> (\<And>x s. Q' x s \<Longrightarrow> Q x s) \<Longrightarrow> (\<And>e s. E' e s \<Longrightarrow> E e s) \<Longrightarrow> post Q E p"
  by (auto simp: post_def split: prod.splits sum.splits)

lemma tripleI: "(\<And>s. P s \<Longrightarrow> post Q E (m s)) \<Longrightarrow> triple P m Q E"
  by (simp add: triple_def)

lemma triple_ok: "triple P m Q E \<Longrightarrow> P s \<Longrightarrow> m s = (Inr x, s') \<Longrightarrow> Q x s'"
  unfolding triple_def by (metis post_simps(2))

lemma triple_error: "triple P m Q E \<Longrightarrow> P s \<Longrightarrow> m s = (Inl e, s') \<Longrightarrow> E e s'"
  unfolding triple_def by (metis post_simps(1))

lemma triple_conseq:
  assumes "triple P' m Q' E'" "\<And>s. P s \<Longrightarrow> P' s" "\<And>x s. Q' x s \<Longrightarrow> Q x s" "\<And>e s. E' e s \<Longrightarrow> E e s"
  shows "triple P m Q E"
  using assms unfolding triple_def by (blast intro: post_mono)

lemma triple_pre: "triple P' m Q E \<Longrightarrow> (\<And>s. P s \<Longrightarrow> P' s) \<Longrightarrow> triple P m Q E"
  by (rule triple_conseq)

lemma triple_ex: "(\<And>y. triple (P y) m Q E) \<Longrightarrow> triple (\<lambda>s. \<exists>y. P y s) m Q E"
  unfolding triple_def by blast

lemma triple_fact: "(C \<Longrightarrow> triple P m Q E) \<Longrightarrow> triple (\<lambda>s. P s \<and> C) m Q E"
  unfolding triple_def by blast

lemma triple_return [triples]: "(\<And>s. P s \<Longrightarrow> Q x s) \<Longrightarrow> triple P (returnA x) Q E"
  by (simp add: triple_def returnA_def)

lemma triple_throw [triples]: "(\<And>s. P s \<Longrightarrow> E e s) \<Longrightarrow> triple P (throwA e) Q E"
  by (simp add: triple_def throwA_def)

lemma triple_lift [triples]:
  "(\<And>x s. r = Inr x \<Longrightarrow> P s \<Longrightarrow> Q x s) \<Longrightarrow> (\<And>e s. r = Inl e \<Longrightarrow> P s \<Longrightarrow> E e s) \<Longrightarrow> triple P (liftA r) Q E"
  by (cases r) (auto simp: triple_def liftA_def)

lemma triple_guard [triples]: "(\<And>s. ok \<Longrightarrow> P s \<Longrightarrow> Q () s) \<Longrightarrow> (\<And>s. \<not> ok \<Longrightarrow> P s \<Longrightarrow> E e s) \<Longrightarrow> triple P (guardA ok e) Q E"
  unfolding guardA_def by (rule triple_lift) (auto simp: guardE_def split: if_splits)

lemma triple_get [triples]: "(\<And>s. P s \<Longrightarrow> Q (f s) s) \<Longrightarrow> triple P (getA f) Q E"
  by (simp add: triple_def getA_def)

lemma triple_modify [triples]: "(\<And>s. P s \<Longrightarrow> Q () (f s)) \<Longrightarrow> triple P (modifyA f) Q E"
  by (simp add: triple_def modifyA_def)

lemma triple_bind:
  assumes "triple P m R E" "\<And>x. triple (R x) (f x) Q E"
  shows "triple P (bindA m f) Q E"
proof (rule tripleI)
  fix s assume "P s"
  then have m: "post R E (m s)" using assms(1) by (simp add: triple_def)
  obtain r s' where r: "m s = (r, s')" by fastforce
  show "post Q E (bindA m f s)"
    using m r assms(2) by (cases r) (auto simp: bindA_def triple_def)
qed

lemma triple_bind_lift:
  "(\<And>x. r = Inr x \<Longrightarrow> triple P (f x) Q E) \<Longrightarrow> (\<And>e s. P s \<Longrightarrow> E e s) \<Longrightarrow> triple P (bindA (liftA r) f) Q E"
  by (cases r) (auto simp: triple_def bindA_def liftA_def)

lemma triple_bind_guard:
  "(ok \<Longrightarrow> triple P (f ()) Q E) \<Longrightarrow> (\<And>s. P s \<Longrightarrow> E e s) \<Longrightarrow> triple P (bindA (guardA ok e) f) Q E"
  by (cases ok) (auto simp: triple_def bindA_def guardA_def guardE_def liftA_def)

lemma triple_try:
  assumes "triple P m (\<lambda>x. Q (Inr x)) (\<lambda>e. Q (Inl e))"
  shows "triple P (tryA m) Q E"
  using assms unfolding triple_def tryA_def post_def by (fastforce split: prod.splits sum.splits)

lemma triple_defer:
  assumes "triple P m (\<lambda>x s. Q x (d s)) (\<lambda>e s. E e (d s))"
  shows "triple P (deferA d m) Q E"
  using assms unfolding triple_def deferA_def post_def by (fastforce split: prod.splits sum.splits)

lemma triple_if [triples]:
  "(b \<Longrightarrow> triple P m Q E) \<Longrightarrow> (\<not> b \<Longrightarrow> triple P n Q E) \<Longrightarrow> triple P (if b then m else n) Q E"
  by simp

lemma triple_option [triples]:
  "(v = None \<Longrightarrow> triple P m Q E) \<Longrightarrow> (\<And>x. v = Some x \<Longrightarrow> triple P (f x) Q E) \<Longrightarrow> triple P (case v of None \<Rightarrow> m | Some x \<Rightarrow> f x) Q E"
  by (cases v) auto

lemma triple_sum [triples]:
  "(\<And>e. v = Inl e \<Longrightarrow> triple P (g e) Q E) \<Longrightarrow> (\<And>x. v = Inr x \<Longrightarrow> triple P (f x) Q E) \<Longrightarrow> triple P (case v of Inl e \<Rightarrow> g e | Inr x \<Rightarrow> f x) Q E"
  by (cases v) auto

lemma triple_prod [triples]: "(\<And>x y. v = (x, y) \<Longrightarrow> triple P (f x y) Q E) \<Longrightarrow> triple P (case v of (x, y) \<Rightarrow> f x y) Q E"
  by (cases v) auto

text \<open>A retried call keeps what every attempt keeps.\<close>

lemma triple_retry:
  assumes "\<And>n. triple I (m n) Q E" "\<And>e s. conflict e \<Longrightarrow> E e s \<Longrightarrow> I s"
  shows "triple I (retryA n conflict m) Q E"
proof (induction n)
  case 0
  then show ?case using assms(1) by simp
next
  case (Suc n)
  have "triple I (tryA (m (Suc n))) (\<lambda>r s. case r of Inl e \<Rightarrow> E e s | Inr x \<Rightarrow> Q x s) E"
    by (rule triple_try) (simp add: assms(1))
  moreover have "triple (\<lambda>s. case r of Inl e \<Rightarrow> E e s | Inr x \<Rightarrow> Q x s)
      (case r of Inl e \<Rightarrow> if conflict e then retryA n conflict m else throwA e | Inr x \<Rightarrow> returnA x) Q E" for r
    using Suc assms(2) by (cases r) (auto intro!: triples intro: triple_pre)
  ultimately show ?case by (simp add: triple_bind)
qed

section \<open>Invariants\<close>

definition keeps :: "('s \<Rightarrow> bool) \<Rightarrow> ('s, 'e, 'a) act \<Rightarrow> bool" where
  "keeps I m \<longleftrightarrow> triple I m (\<lambda>_. I) (\<lambda>_. I)"

named_theorems keeping

lemma keepsI: "triple I m (\<lambda>_. I) (\<lambda>_. I) \<Longrightarrow> keeps I m"
  by (simp add: keeps_def)

lemma keepsD: "keeps I m \<Longrightarrow> triple I m (\<lambda>_. I) (\<lambda>_. I)"
  by (simp add: keeps_def)

lemma keeps_run: "keeps I m \<Longrightarrow> I s \<Longrightarrow> I (snd (m s))"
  by (cases "m s"; cases "fst (m s)") (force simp: keeps_def triple_def)+

lemma keeps_pure [keeping]: "keeps I (returnA x)" "keeps I (throwA e)" "keeps I (liftA r)" "keeps I (guardA b e)" "keeps I (getA f)"
  by (auto intro!: keepsI triples)

lemma keeps_bind [keeping]: "keeps I m \<Longrightarrow> (\<And>x. keeps I (f x)) \<Longrightarrow> keeps I (bindA m f)"
  by (auto intro!: keepsI triple_bind dest!: keepsD)

lemma keeps_try [keeping]: "keeps I m \<Longrightarrow> keeps I (tryA m)"
  by (auto intro!: keepsI triple_try dest!: keepsD)

lemma keeps_cases [keeping]:
  "keeps I m \<Longrightarrow> keeps I n \<Longrightarrow> keeps I (if b then m else n)"
  "keeps I m \<Longrightarrow> (\<And>x. keeps I (f x)) \<Longrightarrow> keeps I (case v of None \<Rightarrow> m | Some x \<Rightarrow> f x)"
  "(\<And>e. keeps I (g e)) \<Longrightarrow> (\<And>x. keeps I (h x)) \<Longrightarrow> keeps I (case w of Inl e \<Rightarrow> g e | Inr x \<Rightarrow> h x)"
  "(\<And>x y. keeps I (k x y)) \<Longrightarrow> keeps I (case z of (x, y) \<Rightarrow> k x y)"
  by (simp_all split: option.splits sum.splits prod.splits)

lemma keeps_retry [keeping]: "(\<And>n. keeps I (m n)) \<Longrightarrow> keeps I (retryA n conflict m)"
  by (auto intro!: keepsI triple_retry dest!: keepsD)

lemma triple_keeps: "keeps I m \<Longrightarrow> triple I m (\<lambda>_. I) (\<lambda>_. I)"
  by (rule keepsD)

end
