(* ===== verification/ReconcileErrors.thy ===== *)
theory ReconcileErrors
  imports RouteModel ApiVersion ControllerEffects
begin

text \<open>
  What the reconcilers share: their errors, with the chain that errors.Is and errors.As walk, calls that ignore or wrap an
  error, and the results they return to controller-runtime.
\<close>

section \<open>Errors of the reconcilers\<close>

text \<open>
  The errors the reconcilers tell apart. \<open>BuildError\<close> is *routeBuildError; \<open>NotFoundError\<close>, \<open>ConflictError\<close> and \<open>APIError\<close>
  are errors of the API server; \<open>PlainError\<close> is an error nobody inspects; \<open>WrappedError\<close> is fmt.Errorf with \<^verbatim>\<open>%w\<close>.
\<close>

datatype rcError =
    errHTTPRouteChanged
  | errGatewayChanged
  | UnsupportedVersionError
  | APIReaderRequiredError
  | BuildError routeErrorKind
  | NotFoundError
  | ConflictError
  | APIError
  | PlainError
  | ProviderFailure go_error
  | SafeProviderError providerReconcileError
  | routeBindingCheckpointError rcError
  | WrappedError rcError
  | JoinedErrors "rcError list"

text \<open>The errors that errors.Is and errors.As visit, in their order.\<close>

fun errorParts :: "rcError \<Rightarrow> rcError list" where
  "errorParts (routeBindingCheckpointError e) = routeBindingCheckpointError e # errorParts e"
| "errorParts (WrappedError e) = WrappedError e # errorParts e"
| "errorParts (JoinedErrors es) = JoinedErrors es # concat (map errorParts es)"
| "errorParts e = [e]"

definition isError :: "rcError \<Rightarrow> rcError \<Rightarrow> bool" where
  "isError e target \<longleftrightarrow> target \<in> set (errorParts e)"

definition asBuildError :: "rcError \<Rightarrow> routeErrorKind option" where
  "asBuildError e = firstSome (\<lambda>part. case part of BuildError kind \<Rightarrow> Some kind | _ \<Rightarrow> None) (errorParts e)"

definition asBindingError :: "rcError \<Rightarrow> rcError option" where
  "asBindingError e = firstSome (\<lambda>part. case part of routeBindingCheckpointError inner \<Rightarrow> Some part | _ \<Rightarrow> None) (errorParts e)"

text \<open>The first error of the API server decides.\<close>

definition apiStatus :: "rcError \<Rightarrow> rcError option" where
  "apiStatus e = find (\<lambda>part. part \<in> {NotFoundError, ConflictError, APIError}) (errorParts e)"

definition IsNotFoundError :: "rcError \<Rightarrow> bool" where
  "IsNotFoundError e \<longleftrightarrow> apiStatus e = Some NotFoundError"

definition IsConflictError :: "rcError \<Rightarrow> bool" where
  "IsConflictError e \<longleftrightarrow> apiStatus e = Some ConflictError"

definition providerErrorOf :: "rcError \<Rightarrow> go_error option" where
  "providerErrorOf e = firstSome (\<lambda>part. case part of
      ProviderFailure g \<Rightarrow> if ErrorCategoryOf g = None then None else Some g
    | SafeProviderError p \<Rightarrow> if ErrorCategoryOf (pre_cause p) = None then None else Some (pre_cause p)
    | _ \<Rightarrow> None) (errorParts e)"

definition failurePolicyFor :: "rcError \<Rightarrow> (go_error \<times> ProviderFailurePolicy) option" where
  "failurePolicyFor e = (case providerErrorOf e of None \<Rightarrow> None
     | Some g \<Rightarrow> map_option (\<lambda>policy. (g, policy)) (ProviderFailurePolicyFor g))"

definition readErrorOf :: "readError \<Rightarrow> rcError" where
  "readErrorOf e = (case e of NotFound \<Rightarrow> NotFoundError | ReadFailed \<Rightarrow> APIError)"

definition modelError :: "routeError \<Rightarrow> rcError" where
  "modelError e = (case e of routeBuildError kind \<Rightarrow> BuildError kind | wrappedReadError r \<Rightarrow> WrappedError (readErrorOf r))"

definition versionErrorOf :: "versionError \<Rightarrow> rcError" where
  "versionErrorOf e = (case e of versionReadError r \<Rightarrow> WrappedError (readErrorOf r) | ErrAPIReaderRequired \<Rightarrow> APIReaderRequiredError
     | ErrUnsupportedGatewayAPIVersion \<Rightarrow> UnsupportedVersionError)"

datatype patchError = PatchNotFound | PatchConflict | PatchFailed

definition patchErrorOf :: "patchError \<Rightarrow> rcError" where
  "patchErrorOf e = (case e of PatchNotFound \<Rightarrow> NotFoundError | PatchConflict \<Rightarrow> ConflictError | PatchFailed \<Rightarrow> APIError)"

section \<open>Calls that fail\<close>

definition failingAs :: "(rcError \<Rightarrow> rcError) \<Rightarrow> ('s, rcError, 'a) act \<Rightarrow> ('s, rcError, 'a) act" where
  "failingAs h m = bindA (tryA m) (\<lambda>r. liftA (mapErr h r))"

definition ignoringNotFound :: "('s, rcError, 'a) act \<Rightarrow> ('s, rcError, 'a option) act" where
  "ignoringNotFound m = bindA (tryA m) (\<lambda>r. case r of
      Inl e \<Rightarrow> if IsNotFoundError e then returnA None else throwA e
    | Inr x \<Rightarrow> returnA (Some x))"

definition validOutcome :: "Outcome \<Rightarrow> ('s, rcError, unit) act" where
  "validOutcome outcome = liftA (mapErr (\<lambda>_. WrappedError PlainError) (Validate outcome))"

section \<open>Results\<close>

definition noResult :: ctrlResult where
  "noResult = \<lparr>cr_Requeue = False, cr_RequeueAfter = 0\<rparr>"

definition requeueNow :: ctrlResult where
  "requeueNow = \<lparr>cr_Requeue = True, cr_RequeueAfter = 0\<rparr>"

definition requeueAfter :: "int \<Rightarrow> ctrlResult" where
  "requeueAfter d = \<lparr>cr_Requeue = False, cr_RequeueAfter = d\<rparr>"

definition resultOf :: "reconcileResult \<Rightarrow> ('s, rcError, ctrlResult) act" where
  "resultOf res = (case res of (r, None) \<Rightarrow> returnA r | (_, Some e) \<Rightarrow> throwA (SafeProviderError e))"

section \<open>Rules\<close>

lemma triple_failingAs:
  assumes "triple P m Q (\<lambda>e. E (h e))"
  shows "triple P (failingAs h m) Q E"
  unfolding failingAs_def
proof (rule triple_bind [where R = "\<lambda>r s. case r of Inl e \<Rightarrow> E (h e) s | Inr x \<Rightarrow> Q x s"])
  show "triple P (tryA m) (\<lambda>r s. case r of Inl e \<Rightarrow> E (h e) s | Inr x \<Rightarrow> Q x s) E" by (rule triple_try) (simp add: assms)
  show "triple (\<lambda>s. case r of Inl e \<Rightarrow> E (h e) s | Inr x \<Rightarrow> Q x s) (liftA (mapErr h r)) Q E" for r
    by (cases r) (auto intro: triple_lift)
qed

lemma policy_not_true:
  assumes "failurePolicyFor e = Some (cause, policy)"
  shows "fp_ConditionStatus policy \<noteq> ConditionTrue" "fp_ConditionStatus (ProviderCleanupFailurePolicy policy kind) \<noteq> ConditionTrue"
proof -
  obtain category where "policy = policyFor category"
    using assms by (auto simp: failurePolicyFor_def ProviderFailurePolicyFor_def split: option.splits)
  then show "fp_ConditionStatus policy \<noteq> ConditionTrue" by (cases category) (simp_all add: policyFor_def failurePolicy_def)
  then show "fp_ConditionStatus (ProviderCleanupFailurePolicy policy kind) \<noteq> ConditionTrue" by (simp add: ProviderCleanupFailurePolicy_def)
qed

lemma keeps_failingAs [keeping]: "keeps I m \<Longrightarrow> keeps I (failingAs h m)"
  unfolding failingAs_def by (intro keeping)

lemma keeps_ignoringNotFound [keeping]: "keeps I m \<Longrightarrow> keeps I (ignoringNotFound m)"
  unfolding ignoringNotFound_def by (auto intro!: keeping split: sum.splits)

lemma keeps_resultOf [keeping]: "keeps I (resultOf res)"
  unfolding resultOf_def by (intro keeping)

end
