(* ===== verification/RouteStatus.thy ===== *)
theory RouteStatus
  imports ReconcileErrors
begin

text \<open>
  The statuses a route gets: httproute/httproute\_status.go and the status plans of httproute\_scope.go. The text
  of an error in a message is a parameter.
\<close>

section \<open>Statuses\<close>

record routeReconcileStatus =
  accepted :: ConditionStatus
  acceptedReason :: string
  acceptedMessage :: string
  resolved :: ConditionStatus
  resolvedReason :: string
  resolvedMessage :: string
  programmed :: ConditionStatus
  programmedReason :: string
  programmedMessage :: string

record parentStatusUpdate =
  up_parent :: ParentReference
  up_status :: routeReconcileStatus

definition programmedRouteStatus :: routeReconcileStatus where
  "programmedRouteStatus =
     \<lparr>accepted = ConditionTrue, acceptedReason = ''Accepted'', acceptedMessage = ''HTTPRoute is accepted by the Gateway'',
      resolved = ConditionTrue, resolvedReason = ''ResolvedRefs'', resolvedMessage = ''All backend references are resolved'',
      programmed = ConditionTrue, programmedReason = ''Programmed'',
      programmedMessage = ''Octavia pool, members, health monitor, and L7 policies are active''\<rparr>"

definition pendingRouteStatus :: "string \<Rightarrow> routeReconcileStatus" where
  "pendingRouteStatus msg = programmedRouteStatus
     \<lparr>programmed := ConditionFalse, programmedReason := ''Pending'', programmedMessage := msg\<rparr>"

definition unsupportedVersionRouteStatus :: routeReconcileStatus where
  "unsupportedVersionRouteStatus =
     \<lparr>accepted = ConditionUnknown, acceptedReason = ''Pending'', acceptedMessage = UnsupportedGatewayAPIVersionMessage,
      resolved = ConditionUnknown, resolvedReason = ''Pending'', resolvedMessage = ''Backend references were not evaluated'',
      programmed = ConditionFalse, programmedReason = ''Pending'', programmedMessage = UnsupportedGatewayAPIVersionMessage\<rparr>"

definition rejectedRouteStatus :: "string \<Rightarrow> string \<Rightarrow> routeReconcileStatus" where
  "rejectedRouteStatus reason msg =
     \<lparr>accepted = ConditionFalse, acceptedReason = reason, acceptedMessage = msg,
      resolved = ConditionUnknown, resolvedReason = ''Pending'',
      resolvedMessage = ''Backend references were not evaluated because the route is unsupported'',
      programmed = ConditionFalse, programmedReason = ''Invalid'', programmedMessage = msg\<rparr>"

definition unresolvedRouteStatus :: "string \<Rightarrow> string \<Rightarrow> routeReconcileStatus" where
  "unresolvedRouteStatus reason msg = programmedRouteStatus
     \<lparr>resolved := ConditionFalse, resolvedReason := reason, resolvedMessage := msg,
      programmed := ConditionFalse, programmedReason := ''Invalid'', programmedMessage := msg\<rparr>"

definition statusForRouteBuildError :: "(rcError \<Rightarrow> string) \<Rightarrow> rcError \<Rightarrow> routeReconcileStatus" where
  "statusForRouteBuildError errText err =
     (if IsNotFoundError err then unresolvedRouteStatus ''BackendNotFound'' (errText err)
      else case asBuildError err of
         Some kind \<Rightarrow> (let msg = errText (BuildError kind) in case kind of
            routeErrorInvalidKind \<Rightarrow> unresolvedRouteStatus ''InvalidKind'' msg
          | routeErrorRefNotPermitted \<Rightarrow> unresolvedRouteStatus ''RefNotPermitted'' msg
          | routeErrorUnsupportedProtocol \<Rightarrow> unresolvedRouteStatus ''UnsupportedProtocol'' msg
          | routeErrorNoMatchingParent \<Rightarrow> rejectedRouteStatus ''NoMatchingParent'' msg
          | routeErrorNotAllowed \<Rightarrow> rejectedRouteStatus ''NotAllowedByListeners'' msg
          | routeErrorPending \<Rightarrow> pendingRouteStatus msg
          | routeErrorUnsupported \<Rightarrow> rejectedRouteStatus ''UnsupportedValue'' msg)
       | None \<Rightarrow> rejectedRouteStatus ''UnsupportedValue'' (errText err))"

definition rejectedServiceProfileStatus :: "(rcError \<Rightarrow> string) \<Rightarrow> rcError \<Rightarrow> routeReconcileStatus" where
  "rejectedServiceProfileStatus errText err = (statusForRouteBuildError errText err)
     \<lparr>accepted := ConditionFalse, acceptedReason := ''UnsupportedValue'', acceptedMessage := errText err\<rparr>"

definition providerFailureRouteStatus :: "ProviderFailurePolicy \<Rightarrow> bool \<Rightarrow> routeReconcileStatus" where
  "providerFailureRouteStatus policy referencesEvaluated =
     (let status = (if referencesEvaluated then programmedRouteStatus else programmedRouteStatus
        \<lparr>resolved := ConditionUnknown, resolvedReason := ''Pending'', resolvedMessage := ''Backend references have not been evaluated''\<rparr>) in
      status\<lparr>programmed := fp_ConditionStatus policy, programmedReason := fp_Reason policy, programmedMessage := fp_Message policy\<rparr>)"

definition routeProviderFailureUpdates :: "parentStatusUpdate list \<Rightarrow> ProviderFailurePolicy \<Rightarrow> parentStatusUpdate list" where
  "routeProviderFailureUpdates updates policy = map (\<lambda>update. update\<lparr>up_status := (up_status update)
     \<lparr>programmed := fp_ConditionStatus policy, programmedReason := fp_Reason policy, programmedMessage := fp_Message policy\<rparr>\<rparr>) updates"

definition isProviderFailureReason :: "string \<Rightarrow> bool" where
  "isProviderFailureReason reason \<longleftrightarrow> reason \<in> set
     [ProviderReasonAuthenticationFailed, ProviderReasonAuthorizationFailed, ProviderReasonQuotaExceeded, ProviderReasonRateLimited,
      ProviderReasonRequestTimedOut, ProviderReasonUnavailable, ProviderReasonInvalidConfiguration, ProviderReasonResourceFailed,
      ProviderReasonOwnershipConflict]"

text \<open>The condition type of the controller, and whether a parent status shows a failure of the provider.\<close>

definition programmedType :: "Config \<Rightarrow> string" where
  "programmedType c = Domain c @ ''/Programmed''"

definition showsProviderFailure :: "conditionUtil \<Rightarrow> string \<Rightarrow> RouteParentStatus \<Rightarrow> bool" where
  "showsProviderFailure u conditionType parent = (case FindStatusCondition u (ps_Conditions parent) conditionType of
      None \<Rightarrow> False
    | Some condition \<Rightarrow> co_Status condition \<noteq> ConditionTrue \<and> isProviderFailureReason (co_Reason condition))"

definition routeHasProviderFailureStatus :: "conditionUtil \<Rightarrow> HTTPRoute \<Rightarrow> parentStatusUpdate list \<Rightarrow> string \<Rightarrow> string \<Rightarrow> bool" where
  "routeHasProviderFailureStatus u route updates controllerName conditionType =
     (let ns = om_Namespace (ht_Meta route);
          matches = (\<lambda>parent update. ParentRefsEqual (ps_ParentRef parent) ns (up_parent update) ns) in
      updates \<noteq> [] \<and>
      list_all (\<lambda>update. list_ex (\<lambda>parent. ps_ControllerName parent = controllerName \<and> matches parent update \<and>
        showsProviderFailure u conditionType parent) (ht_Parents route)) updates \<and>
      list_all (\<lambda>parent. ps_ControllerName parent \<noteq> controllerName \<or>
        list_ex (matches parent) updates \<and> showsProviderFailure u conditionType parent) (ht_Parents route))"

definition parentRefForStoredGateway :: "HTTPRoute \<Rightarrow> Identity \<Rightarrow> ParentReference option" where
  "parentRefForStoredGateway route i =
     (let ns = om_Namespace (ht_Meta route);
          parent = \<lparr>pa_Group = None, pa_Kind = None, pa_Namespace = (if GatewayNamespace i \<noteq> ns then Some (GatewayNamespace i) else None),
            pa_Name = GatewayName i, pa_SectionName = None, pa_Port = None\<rparr> in
      find (\<lambda>candidate. SameGatewayTarget candidate ns parent ns) (ht_ParentRefs route))"

section \<open>Status plans\<close>

datatype routeStatusPlanKind = routeStatusPlanReplace | routeStatusPlanProviderFailure | routeStatusPlanDeletingFailure

record routeStatusPlan =
  pl_kind :: routeStatusPlanKind
  pl_updates :: "parentStatusUpdate list"
  pl_parent :: "ParentReference option"
  pl_policy :: "ProviderFailurePolicy option"
  pl_referencesEvaluated :: bool
  pl_validateOwnership :: bool

definition routeParentStatus :: "HTTPRoute \<Rightarrow> string \<Rightarrow> RouteParentStatus list \<Rightarrow> ParentReference \<Rightarrow> RouteParentStatus" where
  "routeParentStatus route controllerName existing parent =
     (let ns = om_Namespace (ht_Meta route) in
      \<lparr>ps_ParentRef = parent, ps_ControllerName = controllerName,
       ps_Conditions = (case find (\<lambda>candidate. ps_ControllerName candidate = controllerName \<and>
           ParentRefsEqual (ps_ParentRef candidate) ns parent ns) existing of None \<Rightarrow> [] | Some candidate \<Rightarrow> ps_Conditions candidate)\<rparr>)"

definition parentStatusUpdateAppearedEarlier :: "string \<Rightarrow> parentStatusUpdate list \<Rightarrow> nat \<Rightarrow> bool" where
  "parentStatusUpdateAppearedEarlier routeNamespace updates index =
     list_ex (\<lambda>earlier. ParentRefsEqual (up_parent earlier) routeNamespace (up_parent (updates ! index)) routeNamespace) (take index updates)"

text \<open>The updates that are not repetitions of an earlier one.\<close>

definition distinctUpdates :: "string \<Rightarrow> parentStatusUpdate list \<Rightarrow> parentStatusUpdate list" where
  "distinctUpdates routeNamespace updates =
     map (\<lambda>index. updates ! index) (filter (\<lambda>index. \<not> parentStatusUpdateAppearedEarlier routeNamespace updates index) [0..<length updates])"

definition setConditions :: "conditionUtil \<Rightarrow> Config \<Rightarrow> routeReconcileStatus \<Rightarrow> int \<Rightarrow> int \<Rightarrow> int \<Rightarrow> StatusCondition list \<Rightarrow> StatusCondition list" where
  "setConditions u c status acceptedGeneration resolvedGeneration programmedGeneration conditions =
     (let conditions = SetCondition u conditions (Condition ''Accepted'' (accepted status) (acceptedReason status) (acceptedMessage status) acceptedGeneration);
          conditions = SetCondition u conditions (Condition ''ResolvedRefs'' (resolved status) (resolvedReason status) (resolvedMessage status) resolvedGeneration) in
      SetCondition u conditions (Condition (programmedType c) (programmed status) (programmedReason status) (programmedMessage status) programmedGeneration))"

definition otherParents :: "Config \<Rightarrow> RouteParentStatus list \<Rightarrow> RouteParentStatus list" where
  "otherParents c existing = filter (\<lambda>parent. ps_ControllerName parent \<noteq> cf_ControllerName c) existing"

definition applyRouteParentStatuses :: "conditionUtil \<Rightarrow> Config \<Rightarrow> HTTPRoute \<Rightarrow> parentStatusUpdate list \<Rightarrow> HTTPRoute" where
  "applyRouteParentStatuses u c route updates =
     (let existing = ht_Parents route; generation = om_Generation (ht_Meta route) in
      route\<lparr>ht_Parents := otherParents c existing @ map (\<lambda>update.
        let parentStatus = routeParentStatus route (cf_ControllerName c) existing (up_parent update) in
        parentStatus\<lparr>ps_Conditions := setConditions u c (up_status update) generation generation generation (ps_Conditions parentStatus)\<rparr>)
        (distinctUpdates (om_Namespace (ht_Meta route)) updates)\<rparr>)"

definition applyFailureUpdate :: "conditionUtil \<Rightarrow> Config \<Rightarrow> HTTPRoute \<Rightarrow> ProviderFailurePolicy \<Rightarrow> bool \<Rightarrow> parentStatusUpdate \<Rightarrow> RouteParentStatus \<times> bool" where
  "applyFailureUpdate u c route policy referencesEvaluated update =
     (let parentStatus = routeParentStatus route (cf_ControllerName c) (ht_Parents route) (up_parent update);
          generation = om_Generation (ht_Meta route); status = up_status update;
          resolvedGeneration = ConditionObservedGeneration u (ps_Conditions parentStatus) ''ResolvedRefs'' generation referencesEvaluated;
          programmedGeneration = ConditionObservedGeneration u (ps_Conditions parentStatus) (programmedType c) generation
            (fp_AdvancesObservedGeneration policy);
          transitioned = ConditionTransitioned u (ps_Conditions parentStatus) (programmedType c) (programmed status) (programmedReason status)
            (programmedMessage status) programmedGeneration in
      (parentStatus\<lparr>ps_Conditions := setConditions u c status generation resolvedGeneration programmedGeneration (ps_Conditions parentStatus)\<rparr>, transitioned))"

definition applyRouteProviderFailureStatuses :: "conditionUtil \<Rightarrow> Config \<Rightarrow> HTTPRoute \<Rightarrow> parentStatusUpdate list \<Rightarrow> ProviderFailurePolicy \<Rightarrow> bool \<Rightarrow>
    HTTPRoute \<times> bool" where
  "applyRouteProviderFailureStatuses u c route updates policy referencesEvaluated =
     (let applied = map (applyFailureUpdate u c route policy referencesEvaluated) (distinctUpdates (om_Namespace (ht_Meta route)) updates) in
      (route\<lparr>ht_Parents := otherParents c (ht_Parents route) @ map fst applied\<rparr>, list_ex snd applied))"

fun updateFirst :: "('a \<Rightarrow> bool) \<Rightarrow> ('a \<Rightarrow> 'a) \<Rightarrow> 'a list \<Rightarrow> 'a list" where
  "updateFirst p f [] = []"
| "updateFirst p f (x # xs) = (if p x then f x # xs else x # updateFirst p f xs)"

definition applyDeletingRouteProviderFailure :: "conditionUtil \<Rightarrow> Config \<Rightarrow> HTTPRoute \<Rightarrow> ParentReference \<Rightarrow> ProviderFailurePolicy \<Rightarrow> HTTPRoute \<times> bool" where
  "applyDeletingRouteProviderFailure u c route parent policy =
     (let ns = om_Namespace (ht_Meta route);
          isCandidate = (\<lambda>candidate. ps_ControllerName candidate = cf_ControllerName c \<and> ParentRefsEqual (ps_ParentRef candidate) ns parent ns) in
      if \<not> list_ex (\<lambda>candidate. ParentRefsEqual candidate ns parent ns) (ht_ParentRefs route) then (route, False)
      else case find isCandidate (ht_Parents route) of
         None \<Rightarrow> (route, False)
       | Some candidate \<Rightarrow>
           let programmedGeneration = ConditionObservedGeneration u (ps_Conditions candidate) (programmedType c) (om_Generation (ht_Meta route))
                 (fp_AdvancesObservedGeneration policy);
               transitioned = ConditionTransitioned u (ps_Conditions candidate) (programmedType c) (fp_ConditionStatus policy) (fp_Reason policy)
                 (fp_Message policy) programmedGeneration in
           (route\<lparr>ht_Parents := updateFirst isCandidate (\<lambda>candidate. candidate\<lparr>ps_Conditions := SetCondition u (ps_Conditions candidate)
              (Condition (programmedType c) (fp_ConditionStatus policy) (fp_Reason policy) (fp_Message policy) programmedGeneration)\<rparr>)
              (ht_Parents route)\<rparr>, transitioned))"

text \<open>A plan of the second kind has a policy, one of the third kind a parent and a policy.\<close>

definition applyPlan :: "conditionUtil \<Rightarrow> Config \<Rightarrow> routeStatusPlan \<Rightarrow> HTTPRoute \<Rightarrow> HTTPRoute \<times> bool" where
  "applyPlan u c p route = (case pl_kind p of
      routeStatusPlanReplace \<Rightarrow> (applyRouteParentStatuses u c route (pl_updates p), False)
    | routeStatusPlanProviderFailure \<Rightarrow>
        applyRouteProviderFailureStatuses u c route (pl_updates p) (the (pl_policy p)) (pl_referencesEvaluated p)
    | routeStatusPlanDeletingFailure \<Rightarrow>
        applyDeletingRouteProviderFailure u c route (the (pl_parent p)) (the (pl_policy p)))"

end
