(* ===== verification/RouteSnapshot.thy ===== *)
theory RouteSnapshot
  imports RouteStatus ControllerEffects
begin

text \<open>
  What the route reconciler observes before it changes anything: the environment of the reconciler, its
  scope, and the snapshots of httproute/httproute\_snapshot.go.

  The environment is a record of what the reconciler calls. A reader of the API server answers the requests of
  one call of a function of this package; every such call gets a new reader, so that the cluster may change
  between any two calls and between different requests of one call. The clients, the graph lock and the provider
  are called with the world outside and change it. Everything done is logged.
\<close>

section \<open>The environment and the state\<close>

record 'w routeEnv =
  rv_Config :: Config
  rv_finalizers :: finalizerUtil
  rv_conditions :: conditionUtil
  rv_consts :: gatewayConsts
  rv_text :: "rcError \<Rightarrow> string"
  rv_hasAPIReader :: bool
  rv_hasRecorder :: bool
  rv_attempts :: nat
  rv_read :: "bool \<Rightarrow> 'w \<Rightarrow> apiReader \<times> 'w"
  rv_patch :: "HTTPRoute \<Rightarrow> HTTPRoute \<Rightarrow> 'w \<Rightarrow> (patchError + HTTPRoute) \<times> 'w"
  rv_patchStatus :: "HTTPRoute \<Rightarrow> HTTPRoute \<Rightarrow> 'w \<Rightarrow> (patchError + HTTPRoute) \<times> 'w"
  rv_acquire :: "string \<Rightarrow> 'w \<Rightarrow> bool \<times> 'w"
  rv_release :: "string \<Rightarrow> 'w \<Rightarrow> 'w"
  rv_EnsureRoute :: "RouteSpec \<Rightarrow> 'w \<Rightarrow> RouteResult result \<times> 'w"
  rv_DeleteRoute :: "Identity \<Rightarrow> 'w \<Rightarrow> Outcome result \<times> 'w"

datatype routeEvent =
    ReadAPI bool apiReader
  | PatchedRoute HTTPRoute HTTPRoute "patchError + HTTPRoute"
  | PatchedStatus HTTPRoute HTTPRoute "patchError + HTTPRoute"
  | AcquiredGraph string
  | ReleasedGraph string
  | CalledEnsureRoute RouteSpec "RouteResult result"
  | CalledDeleteRoute Identity "Outcome result"
  | RecordedWarning ProviderFailurePolicy string

record routeProviderWarning =
  wa_policy :: ProviderFailurePolicy
  wa_action :: string
  wa_cleanupCheckpointSaved :: bool
  wa_recordOnStatusChange :: bool

record httpRouteScope =
  hs_route :: HTTPRoute
  hs_statusPlan :: "routeStatusPlan option"
  hs_warning :: "routeProviderWarning option"
  hs_patchCause :: "rcError option"
  hs_skipPatch :: bool

record 'w routeState =
  rt_world :: 'w
  rt_log :: "routeEvent list"
  rt_scope :: httpRouteScope

type_synonym ('w, 'a) rc = "('w routeState, rcError, 'a) act"

section \<open>Calls\<close>

definition readAPI :: "'w routeEnv \<Rightarrow> bool \<Rightarrow> ('w, apiReader) rc" where
  "readAPI env live = (\<lambda>s. case rv_read env live (rt_world s) of (reader, w) \<Rightarrow>
     (Inr reader, s\<lparr>rt_world := w, rt_log := rt_log s @ [ReadAPI live reader]\<rparr>))"

definition patchRoute :: "'w routeEnv \<Rightarrow> HTTPRoute \<Rightarrow> HTTPRoute \<Rightarrow> ('w, HTTPRoute) rc" where
  "patchRoute env base desired = (\<lambda>s. case rv_patch env base desired (rt_world s) of (r, w) \<Rightarrow>
     (mapErr patchErrorOf r, s\<lparr>rt_world := w, rt_log := rt_log s @ [PatchedRoute base desired r]\<rparr>))"

definition patchStatus :: "'w routeEnv \<Rightarrow> HTTPRoute \<Rightarrow> HTTPRoute \<Rightarrow> ('w, HTTPRoute) rc" where
  "patchStatus env base desired = (\<lambda>s. case rv_patchStatus env base desired (rt_world s) of (r, w) \<Rightarrow>
     (mapErr patchErrorOf r, s\<lparr>rt_world := w, rt_log := rt_log s @ [PatchedStatus base desired r]\<rparr>))"

definition callEnsureRoute :: "'w routeEnv \<Rightarrow> RouteSpec \<Rightarrow> ('w, RouteResult) rc" where
  "callEnsureRoute env spec = (\<lambda>s. case rv_EnsureRoute env spec (rt_world s) of (r, w) \<Rightarrow>
     (mapErr ProviderFailure r, s\<lparr>rt_world := w, rt_log := rt_log s @ [CalledEnsureRoute spec r]\<rparr>))"

definition callDeleteRoute :: "'w routeEnv \<Rightarrow> Identity \<Rightarrow> ('w, Outcome) rc" where
  "callDeleteRoute env i = (\<lambda>s. case rv_DeleteRoute env i (rt_world s) of (r, w) \<Rightarrow>
     (mapErr ProviderFailure r, s\<lparr>rt_world := w, rt_log := rt_log s @ [CalledDeleteRoute i r]\<rparr>))"

text \<open>graph.Acquire with the deferred release; the lock itself is the subject of the theory Coordinator.\<close>

definition acquireGraph :: "'w routeEnv \<Rightarrow> string \<Rightarrow> ('w, unit) rc" where
  "acquireGraph env uid = (\<lambda>s. case rv_acquire env uid (rt_world s) of (ok, w) \<Rightarrow>
     if ok then (Inr (), s\<lparr>rt_world := w, rt_log := rt_log s @ [AcquiredGraph uid]\<rparr>)
     else (Inl (WrappedError PlainError), s\<lparr>rt_world := w\<rparr>))"

definition releaseGraph :: "'w routeEnv \<Rightarrow> string \<Rightarrow> 'w routeState \<Rightarrow> 'w routeState" where
  "releaseGraph env uid s = s\<lparr>rt_world := rv_release env uid (rt_world s), rt_log := rt_log s @ [ReleasedGraph uid]\<rparr>"

definition withGraph :: "'w routeEnv \<Rightarrow> string \<Rightarrow> ('w, 'a) rc \<Rightarrow> ('w, 'a) rc" where
  "withGraph env uid m = bindA (acquireGraph env uid) (\<lambda>_. deferA (releaseGraph env uid) m)"

definition recordWarning :: "'w routeEnv \<Rightarrow> ProviderFailurePolicy \<Rightarrow> string \<Rightarrow> ('w, unit) rc" where
  "recordWarning env policy action =
     (if \<not> rv_hasRecorder env \<or> \<not> fp_EmitEvent policy then returnA ()
      else modifyA (\<lambda>s. s\<lparr>rt_log := rt_log s @ [RecordedWarning policy action]\<rparr>))"

definition changeScope :: "(httpRouteScope \<Rightarrow> httpRouteScope) \<Rightarrow> ('w, unit) rc" where
  "changeScope f = modifyA (\<lambda>s. s\<lparr>rt_scope := f (rt_scope s)\<rparr>)"

definition setRoute :: "HTTPRoute \<Rightarrow> ('w, unit) rc" where
  "setRoute route = changeScope (\<lambda>scope. scope\<lparr>hs_route := route\<rparr>)"

definition scopeRoute :: "('w, HTTPRoute) rc" where
  "scopeRoute = getA (\<lambda>s. hs_route (rt_scope s))"

text \<open>Reading one object, and the error of a read that a changed object explains.\<close>

definition getHTTPRoute :: "'w routeEnv \<Rightarrow> bool \<Rightarrow> HTTPRoute \<Rightarrow> ('w, HTTPRoute) rc" where
  "getHTTPRoute env live route = bindA (readAPI env live) (\<lambda>reader.
     liftA (mapErr readErrorOf (rd_HTTPRoute reader (om_Namespace (ht_Meta route)) (om_Name (ht_Meta route)))))"

definition getGateway :: "'w routeEnv \<Rightarrow> Gateway \<Rightarrow> ('w, Gateway) rc" where
  "getGateway env gateway = bindA (readAPI env True) (\<lambda>reader.
     liftA (mapErr readErrorOf (rd_Gateway reader (om_Namespace (gw_Meta gateway)) (om_Name (gw_Meta gateway)))))"

definition getGatewayClassOf :: "'w routeEnv \<Rightarrow> Gateway \<Rightarrow> ('w, GatewayClass) rc" where
  "getGatewayClassOf env gateway = bindA (readAPI env True) (\<lambda>reader.
     liftA (mapErr readErrorOf (rd_GatewayClass reader (gw_GatewayClassName gateway))))"

definition changedBy :: "rcError \<Rightarrow> rcError" where
  "changedBy e = JoinedErrors (errHTTPRouteChanged # (if IsNotFoundError e then [] else [e]))"

definition orChanged :: "('w, 'a) rc \<Rightarrow> ('w, 'a) rc" where
  "orChanged m = bindA (tryA m) (\<lambda>r. case r of Inl e \<Rightarrow> throwA (changedBy e) | Inr x \<Rightarrow> returnA x)"

definition storedRouteIdentity :: "'w routeEnv \<Rightarrow> HTTPRoute \<Rightarrow> rcError + Identity option" where
  "storedRouteIdentity env route = mapErr (\<lambda>_. PlainError) (StoredRouteIdentity (rv_finalizers env) (rv_Config env) (ht_Meta route))"

definition sameRevision :: "HTTPRoute \<Rightarrow> HTTPRoute \<Rightarrow> bool" where
  "sameRevision current expected =
     sameHTTPRouteRevision (ht_Meta current) (om_UID (ht_Meta expected)) (om_Generation (ht_Meta expected)) (om_Deleting (ht_Meta expected))"

section \<open>The validation snapshot\<close>

datatype routeSnapshotPurpose = routeSnapshotForEnsure | routeSnapshotForBinding

datatype routeValidationDisposition = routeValidationGatewayPending | routeValidationBindingRequired | routeValidationReady

datatype routeBindingRequirement = routeBindingOptional | routeBindingRequired

text \<open>The stored identity is present or not.\<close>

record routeBindingSnapshot =
  rb_identity :: "Identity option"
  rb_hasFinalizer :: bool
  rb_matchesDesired :: bool

record routeSelectionSnapshot =
  ss_slot :: routeSlotDecision
  ss_selected :: bool

record routeValidationSnapshot =
  vs_route :: HTTPRoute
  vs_gateway :: Gateway
  vs_gatewayClass :: GatewayClass
  vs_listener :: "GatewayListener option"
  vs_binding :: routeBindingSnapshot
  vs_selection :: routeSelectionSnapshot
  vs_desired :: "RouteSpec option"
  vs_gatewayProgrammed :: bool
  vs_disposition :: routeValidationDisposition

definition noBinding :: routeBindingSnapshot where
  "noBinding = \<lparr>rb_identity = None, rb_hasFinalizer = False, rb_matchesDesired = False\<rparr>"

definition noSelection :: routeSelectionSnapshot where
  "noSelection = \<lparr>ss_slot = \<lparr>sd_canReserve = False, sd_rejection = None\<rparr>, ss_selected = False\<rparr>"

definition observeRouteValidationInputs :: "'w routeEnv \<Rightarrow> HTTPRoute \<Rightarrow> Gateway \<Rightarrow> routeSnapshotPurpose \<Rightarrow> ('w, routeValidationSnapshot) rc" where
  "observeRouteValidationInputs env expectedRoute expectedGateway purpose = (let c = rv_Config env in
     bindA (guardA (rv_hasAPIReader env) APIReaderRequiredError) (\<lambda>_.
     bindA (orChanged (getHTTPRoute env True expectedRoute)) (\<lambda>route.
     bindA (guardA (sameRevision route expectedRoute) errHTTPRouteChanged) (\<lambda>_.
     bindA (orChanged (getGateway env expectedGateway)) (\<lambda>gateway.
     bindA (guardA (\<not> (om_UID (gw_Meta gateway) \<noteq> om_UID (gw_Meta expectedGateway) \<or>
       om_Generation (gw_Meta gateway) \<noteq> om_Generation (gw_Meta expectedGateway) \<or> om_Deleting (gw_Meta gateway))) errHTTPRouteChanged) (\<lambda>_.
     bindA (orChanged (getGatewayClassOf env gateway)) (\<lambda>gatewayClass.
     bindA (guardA (\<not> (gc_ControllerName gatewayClass \<noteq> cf_ControllerName c \<or> gc_ParametersRef gatewayClass \<or>
       purpose = routeSnapshotForEnsure \<and> length (ht_ParentRefs route) \<noteq> 1)) errHTTPRouteChanged) (\<lambda>_.
     bindA (guardA (GatewayClassSupportsInstalledVersion (rv_conditions env) gatewayClass) UnsupportedVersionError) (\<lambda>_.
     bindA (guardA (ContainsFinalizer (rv_finalizers env) (gw_Meta gateway) (GatewayFinalizer c) \<and>
       isOk (ValidateGatewayBinding (rv_finalizers env) c (gw_Meta gateway))) errHTTPRouteChanged) (\<lambda>_.
     bindA (guardA (length (ht_ParentRefs route) = 1) errHTTPRouteChanged) (\<lambda>_.
     returnA \<lparr>vs_route = route, vs_gateway = gateway, vs_gatewayClass = gatewayClass, vs_listener = None, vs_binding = noBinding,
       vs_selection = noSelection, vs_desired = None, vs_gatewayProgrammed = False, vs_disposition = routeValidationReady\<rparr>)))))))))))"

definition gatewayProgrammedForGeneration :: "conditionUtil \<Rightarrow> Gateway \<Rightarrow> bool" where
  "gatewayProgrammedForGeneration u gateway = (case FindStatusCondition u (gw_Conditions gateway) ''Programmed'' of
      None \<Rightarrow> False
    | Some condition \<Rightarrow> co_Status condition = ConditionTrue \<and> co_ObservedGeneration condition = om_Generation (gw_Meta gateway))"

text \<open>The updated snapshot, and the parent unless the Gateway is pending.\<close>

definition validateRouteSnapshotParent :: "'w routeEnv \<Rightarrow> routeValidationSnapshot \<Rightarrow> routeSnapshotPurpose \<Rightarrow>
    rcError + routeValidationSnapshot \<times> managedRouteParent option" where
  "validateRouteSnapshotParent env snapshot purpose = (case ValidateGateway (vs_gateway snapshot) of
      Inl _ \<Rightarrow> if purpose = routeSnapshotForBinding then Inl errHTTPRouteChanged
        else Inr (snapshot\<lparr>vs_disposition := routeValidationGatewayPending\<rparr>, None)
    | Inr listener \<Rightarrow>
        let snapshot = snapshot\<lparr>vs_listener := Some listener\<rparr>;
            parent = \<lparr>mp_ref = ht_ParentRefs (vs_route snapshot) ! 0, mp_gateway = vs_gateway snapshot,
              mp_gatewayClass = Some (vs_gatewayClass snapshot), mp_listener = Some listener\<rparr> in
        case validateRouteParent (vs_route snapshot) parent of
           Inl e \<Rightarrow> if purpose = routeSnapshotForBinding then Inl errHTTPRouteChanged else Inl (modelError e)
         | Inr _ \<Rightarrow>
             if annotation (gw_Meta (vs_gateway snapshot)) (GatewayListenerPortAnnotation (rv_Config env)) \<noteq> itoaInt (gl_Port listener)
             then Inl errHTTPRouteChanged
             else Inr (snapshot\<lparr>vs_gatewayProgrammed := gatewayProgrammedForGeneration (rv_conditions env) (vs_gateway snapshot)\<rparr>, Some parent))"

definition routeSnapshotReadError :: "routeSnapshotPurpose \<Rightarrow> rcError \<Rightarrow> rcError" where
  "routeSnapshotReadError purpose err = (if purpose = routeSnapshotForBinding then JoinedErrors [errHTTPRouteChanged, err] else err)"

definition routeSnapshotRejection :: "routeSnapshotPurpose \<Rightarrow> rcError \<Rightarrow> rcError" where
  "routeSnapshotRejection purpose rejection = (if purpose = routeSnapshotForBinding then errHTTPRouteChanged else rejection)"

definition wrappedRead :: "readError \<Rightarrow> rcError" where
  "wrappedRead e = WrappedError (readErrorOf e)"

text \<open>A rejected slot has a rejection. A specification that does not exist is the panic of an index expression.\<close>

definition evaluateSlot :: "'w routeEnv \<Rightarrow> bool \<Rightarrow> HTTPRoute \<Rightarrow> ('w, routeSlotDecision) rc" where
  "evaluateSlot env live route = bindA (readAPI env live) (\<lambda>reader. liftA (mapErr wrappedRead (evaluateRouteSlotWithReader reader route)))"

definition isSelected :: "'w routeEnv \<Rightarrow> bool \<Rightarrow> HTTPRoute \<Rightarrow> managedRouteParent \<Rightarrow> ('w, bool) rc" where
  "isSelected env live route parent = bindA (readAPI env live) (\<lambda>reader. liftA (mapErr wrappedRead (isSelectedRouteWithReader reader route parent)))"

definition buildSpec :: "'w routeEnv \<Rightarrow> HTTPRoute \<Rightarrow> Gateway \<Rightarrow> ('w, RouteSpec) rc" where
  "buildSpec env route gateway = bindA (readAPI env True) (\<lambda>reader.
     bindA (liftA (mapErr modelError (buildRouteSpecWithReader reader (rv_Config env) route gateway))) (\<lambda>spec.
     case spec of None \<Rightarrow> throwA PlainError | Some spec \<Rightarrow> returnA spec))"

definition rejectionOf :: "routeSlotDecision \<Rightarrow> rcError" where
  "rejectionOf decision = (case sd_rejection decision of None \<Rightarrow> PlainError | Some e \<Rightarrow> modelError e)"

definition reserveSlot :: "'w routeEnv \<Rightarrow> routeSnapshotPurpose \<Rightarrow> HTTPRoute \<Rightarrow> ('w, routeSlotDecision) rc" where
  "reserveSlot env purpose route = bindA (failingAs (routeSnapshotReadError purpose) (evaluateSlot env True route)) (\<lambda>decision.
     if sd_canReserve decision then returnA decision else throwA (routeSnapshotRejection purpose (rejectionOf decision)))"

definition selectAndBuildRouteModel :: "'w routeEnv \<Rightarrow> routeValidationSnapshot \<Rightarrow> managedRouteParent \<Rightarrow> routeSnapshotPurpose \<Rightarrow>
    ('w, routeSelectionSnapshot \<times> RouteSpec) rc" where
  "selectAndBuildRouteModel env snapshot parent purpose = (let route = vs_route snapshot in
     bindA (guardA (\<not> (\<not> structurallySupportedRoute route \<and> purpose = routeSnapshotForBinding)) errHTTPRouteChanged) (\<lambda>_.
     bindA (if structurallySupportedRoute route then reserveSlot env purpose route else returnA (ss_slot noSelection)) (\<lambda>slot.
     bindA (failingAs (routeSnapshotReadError purpose) (isSelected env True route parent)) (\<lambda>selected.
     bindA (guardA selected (routeSnapshotRejection purpose (BuildError routeErrorUnsupported))) (\<lambda>_.
     bindA (failingAs (routeSnapshotReadError purpose) (buildSpec env route (vs_gateway snapshot))) (\<lambda>desired.
     returnA (\<lparr>ss_slot = slot, ss_selected = selected\<rparr>, desired)))))))"

definition validateRouteBindingTransition :: "'w routeEnv \<Rightarrow> routeValidationSnapshot \<Rightarrow> rcError + unit" where
  "validateRouteBindingTransition env snapshot =
     (if \<not> vs_gatewayProgrammed snapshot then Inl errHTTPRouteChanged
      else case rb_identity (vs_binding snapshot) of
         None \<Rightarrow> if rb_hasFinalizer (vs_binding snapshot) then Inl PlainError else Inr ()
       | Some stored \<Rightarrow>
           if \<not> SameGatewayIdentity stored (RouteIdentity (rv_Config env) (gw_Meta (vs_gateway snapshot)) (ht_Meta (vs_route snapshot)))
           then Inl errHTTPRouteChanged else Inr ())"

definition bindTo :: "'w routeEnv \<Rightarrow> Gateway \<Rightarrow> HTTPRoute \<Rightarrow> HTTPRoute" where
  "bindTo env gateway route = route\<lparr>ht_Meta := applyRouteBinding (rv_finalizers env) (rv_Config env) (gw_Meta gateway) (ht_Meta route)\<rparr>"

definition finishRouteBindingSnapshot :: "'w routeEnv \<Rightarrow> routeValidationSnapshot \<Rightarrow> routeSnapshotPurpose \<Rightarrow> rcError + routeValidationSnapshot" where
  "finishRouteBindingSnapshot env snapshot purpose = bindE (storedRouteIdentity env (vs_route snapshot)) (\<lambda>stored.
     let route = vs_route snapshot;
         desiredIdentity = RouteIdentity (rv_Config env) (gw_Meta (vs_gateway snapshot)) (ht_Meta route);
         binding = \<lparr>rb_identity = stored, rb_hasFinalizer = ContainsFinalizer (rv_finalizers env) (ht_Meta route) (RouteFinalizer (rv_Config env)),
           rb_matchesDesired = (stored = Some desiredIdentity)\<rparr>;
         snapshot = snapshot\<lparr>vs_binding := binding\<rparr> in
     if purpose = routeSnapshotForBinding then bindE (validateRouteBindingTransition env snapshot) (\<lambda>_. Inr snapshot)
     else let boundToCurrentGateway = rb_matchesDesired binding \<and> rb_hasFinalizer binding in
       if \<not> vs_gatewayProgrammed snapshot \<and> \<not> boundToCurrentGateway then Inr (snapshot\<lparr>vs_disposition := routeValidationGatewayPending\<rparr>)
       else if \<not> routeBindingMetadataEqual (ht_Meta route) (ht_Meta (bindTo env (vs_gateway snapshot) route))
       then Inr (snapshot\<lparr>vs_disposition := routeValidationBindingRequired\<rparr>)
       else Inr snapshot)"

definition buildRouteValidationSnapshot :: "'w routeEnv \<Rightarrow> HTTPRoute \<Rightarrow> Gateway \<Rightarrow> routeSnapshotPurpose \<Rightarrow> ('w, routeValidationSnapshot) rc" where
  "buildRouteValidationSnapshot env expectedRoute expectedGateway purpose =
     bindA (observeRouteValidationInputs env expectedRoute expectedGateway purpose) (\<lambda>snapshot.
     bindA (liftA (validateRouteSnapshotParent env snapshot purpose)) (\<lambda>(snapshot, parent).
     case parent of
        None \<Rightarrow> returnA snapshot
      | Some parent \<Rightarrow>
          bindA (guardA (\<not> (purpose = routeSnapshotForBinding \<and> \<not> vs_gatewayProgrammed snapshot)) errHTTPRouteChanged) (\<lambda>_.
          bindA (selectAndBuildRouteModel env snapshot parent purpose) (\<lambda>(selection, desired).
          liftA (finishRouteBindingSnapshot env (snapshot\<lparr>vs_selection := selection, vs_desired := Some desired\<rparr>) purpose)))))"

section \<open>The mutation fence\<close>

definition sealRouteMutationSnapshot :: "'w routeEnv \<Rightarrow> routeValidationSnapshot \<Rightarrow> routeBindingRequirement \<Rightarrow> ('w, unit) rc" where
  "sealRouteMutationSnapshot env snapshot bindingRequirement = (let c = rv_Config env; k = rv_finalizers env in
     bindA (readAPI env True) (\<lambda>reader.
     bindA (liftA (mapErr versionErrorOf (ValidateInstalledGatewayAPIVersion (rv_consts env) (Some reader)))) (\<lambda>_.
     bindA (orChanged (getHTTPRoute env True (vs_route snapshot))) (\<lambda>route.
     bindA (guardA (sameRevision route (vs_route snapshot)) errHTTPRouteChanged) (\<lambda>_.
     bindA (orChanged (getGateway env (vs_gateway snapshot))) (\<lambda>gateway.
     bindA (guardA (\<not> (om_UID (gw_Meta gateway) \<noteq> om_UID (gw_Meta (vs_gateway snapshot)) \<or>
       om_Generation (gw_Meta gateway) \<noteq> om_Generation (gw_Meta (vs_gateway snapshot)) \<or> om_Deleting (gw_Meta gateway))) errHTTPRouteChanged) (\<lambda>_.
     bindA (guardA (ContainsFinalizer k (gw_Meta gateway) (GatewayFinalizer c) \<and>
       GatewayBindingMetadataEqual k c (gw_Meta gateway) (gw_Meta (vs_gateway snapshot)) \<and>
       isOk (ValidateGatewayBinding k c (gw_Meta gateway))) errHTTPRouteChanged) (\<lambda>_.
     bindA (if bindingRequirement = routeBindingRequired then
         bindA (liftA (storedRouteIdentity env route)) (\<lambda>stored.
         guardA (stored = Some (RouteIdentity c (gw_Meta gateway) (ht_Meta route)) \<and> ContainsFinalizer k (ht_Meta route) (RouteFinalizer c))
           errHTTPRouteChanged)
       else returnA ()) (\<lambda>_.
     bindA (orChanged (getGatewayClassOf env gateway)) (\<lambda>gatewayClass.
     bindA (guardA (\<not> (gc_ControllerName gatewayClass \<noteq> cf_ControllerName c \<or> gc_ParametersRef gatewayClass)) errHTTPRouteChanged) (\<lambda>_.
     guardA (GatewayClassSupportsInstalledVersion (rv_conditions env) gatewayClass) UnsupportedVersionError)))))))))))"

section \<open>The cleanup snapshot\<close>

datatype routeCleanupDisposition = routeCleanupRequired | routeCleanupStillDesired

record routeCleanupSnapshot =
  cs_route :: HTTPRoute
  cs_identity :: Identity
  cs_disposition :: routeCleanupDisposition

record routeParentObservation =
  po_ref :: ParentReference
  po_gateway :: "Gateway option"
  po_gatewayClass :: "GatewayClass option"
  po_listener :: "GatewayListener option"
  po_managed :: bool

definition observeRouteParent :: "apiReader \<Rightarrow> Config \<Rightarrow> HTTPRoute \<Rightarrow> ParentReference \<Rightarrow> routeParentObservation list \<Rightarrow>
    readError + routeParentObservation list" where
  "observeRouteParent reader c route parentRef parents =
     (if \<not> IsGatewayParentRef parentRef then Inr parents
      else let observation = \<lparr>po_ref = parentRef, po_gateway = None, po_gatewayClass = None, po_listener = None, po_managed = False\<rparr> in
        case rd_Gateway reader (orDefault (pa_Namespace parentRef) (om_Namespace (ht_Meta route))) (pa_Name parentRef) of
           Inl NotFound \<Rightarrow> Inr (parents @ [observation])
         | Inl e \<Rightarrow> Inl e
         | Inr gateway \<Rightarrow>
             let observation = observation\<lparr>po_gateway := Some gateway\<rparr> in
             case rd_GatewayClass reader (gw_GatewayClassName gateway) of
                Inl NotFound \<Rightarrow> Inr (parents @ [observation])
              | Inl e \<Rightarrow> Inl e
              | Inr gatewayClass \<Rightarrow>
                  let observation = observation\<lparr>po_gatewayClass := Some gatewayClass\<rparr> in
                  Inr (parents @ [if gc_ControllerName gatewayClass = cf_ControllerName c
                    then observation\<lparr>po_managed := True,
                      po_listener := (case gw_Listeners gateway of [listener] \<Rightarrow> Some listener | _ \<Rightarrow> None)\<rparr>
                    else observation]))"

definition observeRouteParentsForCleanup :: "'w routeEnv \<Rightarrow> HTTPRoute \<Rightarrow> ('w, routeParentObservation list) rc" where
  "observeRouteParentsForCleanup env route = bindA (readAPI env True) (\<lambda>reader.
     liftA (mapErr wrappedRead (foldE (observeRouteParent reader (rv_Config env) route) (ht_ParentRefs route) [])))"

definition boundGatewayIsDeleting :: "Identity \<Rightarrow> Gateway \<Rightarrow> bool" where
  "boundGatewayIsDeleting stored gateway \<longleftrightarrow> om_Namespace (gw_Meta gateway) = GatewayNamespace stored \<and>
     om_Name (gw_Meta gateway) = GatewayName stored \<and> om_UID (gw_Meta gateway) = GatewayUID stored \<and> om_Deleting (gw_Meta gateway)"

definition routeCleanupAllowedDuringVersionMismatch :: "routeParentObservation list \<Rightarrow> Identity \<Rightarrow> bool" where
  "routeCleanupAllowedDuringVersionMismatch parents stored = list_all (\<lambda>parent. case po_gateway parent of
      None \<Rightarrow> True
    | Some gateway \<Rightarrow> po_gatewayClass parent \<noteq> None \<and> (\<not> po_managed parent \<or> boundGatewayIsDeleting stored gateway)) parents"

definition managedParentsFromObservations :: "routeParentObservation list \<Rightarrow> managedRouteParent list" where
  "managedParentsFromObservations observations = map (\<lambda>observation. \<lparr>mp_ref = po_ref observation, mp_gateway = the (po_gateway observation),
      mp_gatewayClass = po_gatewayClass observation, mp_listener = po_listener observation\<rparr>) (filter po_managed observations)"

text \<open>The part of \<open>buildRouteCleanupSnapshot\<close> that decides whether the route still wants what it stored.\<close>

definition routeStillDesired :: "'w routeEnv \<Rightarrow> HTTPRoute \<Rightarrow> Identity \<Rightarrow> managedRouteParent \<Rightarrow> ('w, bool) rc" where
  "routeStillDesired env route stored parent =
     bindA (guardA (GatewayClassSupportsInstalledVersion (rv_conditions env) (the (mp_gatewayClass parent))) UnsupportedVersionError) (\<lambda>_.
     bindA (guardA (\<not> gc_ParametersRef (the (mp_gatewayClass parent))) errHTTPRouteChanged) (\<lambda>_.
     if \<not> isOk (validateRouteParent route parent) \<or> \<not> structurallySupportedRoute route then returnA False
     else bindA (evaluateSlot env True route) (\<lambda>decision.
       if \<not> sd_canReserve decision then returnA False
       else bindA (isSelected env True route parent) (\<lambda>selected.
         if \<not> selected then returnA False
         else bindA (tryA (buildSpec env route (mp_gateway parent))) (\<lambda>r. case r of
            Inl e \<Rightarrow> if asBuildError e \<noteq> None \<or> IsNotFoundError e then returnA False else throwA e
          | Inr desired \<Rightarrow> returnA (rs_Identity desired = stored))))))"

definition buildRouteCleanupSnapshot :: "'w routeEnv \<Rightarrow> HTTPRoute \<Rightarrow> Identity \<Rightarrow> ('w, routeCleanupSnapshot) rc" where
  "buildRouteCleanupSnapshot env expected expectedIdentity =
     bindA (guardA (rv_hasAPIReader env) APIReaderRequiredError) (\<lambda>_.
     bindA (orChanged (getHTTPRoute env True expected)) (\<lambda>route.
     bindA (guardA (sameRevision route expected \<and> om_ResourceVersion (ht_Meta route) = om_ResourceVersion (ht_Meta expected)) errHTTPRouteChanged) (\<lambda>_.
     bindA (liftA (storedRouteIdentity env route)) (\<lambda>stored.
     bindA (guardA (stored = Some expectedIdentity) errHTTPRouteChanged) (\<lambda>_.
     let snapshot = \<lparr>cs_route = route, cs_identity = expectedIdentity, cs_disposition = routeCleanupRequired\<rparr> in
     if om_Deleting (ht_Meta route) then returnA snapshot
     else bindA (observeRouteParentsForCleanup env route) (\<lambda>observations.
       if routeCleanupAllowedDuringVersionMismatch observations expectedIdentity then returnA snapshot
       else bindA (readAPI env True) (\<lambda>reader.
         bindA (liftA (mapErr versionErrorOf (ValidateInstalledGatewayAPIVersion (rv_consts env) (Some reader)))) (\<lambda>_.
         bindA (observeRouteParentsForCleanup env route) (\<lambda>observations.
         case managedParentsFromObservations observations of
            [parent] \<Rightarrow>
              if length (ht_ParentRefs route) \<noteq> 1 then returnA snapshot
              else bindA (routeStillDesired env route expectedIdentity parent) (\<lambda>desired.
                returnA (if desired then snapshot\<lparr>cs_disposition := routeCleanupStillDesired\<rparr> else snapshot))
          | _ \<Rightarrow> returnA snapshot)))))))))"

definition sealRouteCleanupSnapshot :: "'w routeEnv \<Rightarrow> routeCleanupSnapshot \<Rightarrow> ('w, unit) rc" where
  "sealRouteCleanupSnapshot env snapshot =
     bindA (orChanged (getHTTPRoute env True (cs_route snapshot))) (\<lambda>route.
     bindA (guardA (sameRevision route (cs_route snapshot) \<and>
       om_ResourceVersion (ht_Meta route) = om_ResourceVersion (ht_Meta (cs_route snapshot))) errHTTPRouteChanged) (\<lambda>_.
     bindA (liftA (storedRouteIdentity env route)) (\<lambda>stored.
     guardA (stored = Some (cs_identity snapshot)) errHTTPRouteChanged)))"

end
