(* ===== verification/RouteReconciler.thy ===== *)
theory RouteReconciler
  imports RouteSnapshot
begin

text \<open>
  The HTTPRoute reconciler: httproute/httproute\_controller.go, the patches of httproute\_scope.go, httproute\_graph.go,
  httproute\_cleanup.go, the patches of httproute\_binding.go, httproute\_version\_status.go and the failure handling of
  httproute\_status.go. The route that the Go code passes by pointer is the route of the scope in the state; logging
  is left out.
\<close>

section \<open>Bindings\<close>

definition bindAttempt :: "'w routeEnv \<Rightarrow> HTTPRoute \<Rightarrow> Gateway \<Rightarrow> routeValidationSnapshot \<Rightarrow> nat \<Rightarrow> ('w, bool) rc" where
  "bindAttempt env route gateway initial n =
     bindA (if n = rv_attempts env then returnA initial else buildRouteValidationSnapshot env route gateway routeSnapshotForBinding) (\<lambda>snapshot.
     bindA (liftA (validateRouteBindingTransition env snapshot)) (\<lambda>_.
     bindA (sealRouteMutationSnapshot env snapshot routeBindingOptional) (\<lambda>_.
     let base = vs_route snapshot; desired = bindTo env (vs_gateway snapshot) base in
     if routeBindingMetadataEqual (ht_Meta base) (ht_Meta desired) then bindA (setRoute desired) (\<lambda>_. returnA False)
     else bindA (patchRoute env base desired) (\<lambda>patched. bindA (setRoute patched) (\<lambda>_. returnA True)))))"

definition bindRouteFromSnapshot :: "'w routeEnv \<Rightarrow> HTTPRoute \<Rightarrow> Gateway \<Rightarrow> routeValidationSnapshot \<Rightarrow> ('w, bool) rc" where
  "bindRouteFromSnapshot env route gateway initial = retryA (rv_attempts env) IsConflictError (bindAttempt env route gateway initial)"

definition bindRoute :: "'w routeEnv \<Rightarrow> HTTPRoute \<Rightarrow> Gateway \<Rightarrow> ('w, bool) rc" where
  "bindRoute env route gateway =
     bindA (guardA (rv_hasAPIReader env) APIReaderRequiredError) (\<lambda>_.
     bindA (buildRouteValidationSnapshot env route gateway routeSnapshotForBinding) (\<lambda>snapshot.
     bindRouteFromSnapshot env route gateway snapshot))"

text \<open>No route is \<^term>\<open>None\<close>; otherwise the route with its stored identity.\<close>

definition getRouteBindingWithReader :: "'w routeEnv \<Rightarrow> bool \<Rightarrow> HTTPRoute \<Rightarrow> ('w, (HTTPRoute \<times> Identity option) option) rc" where
  "getRouteBindingWithReader env live route = bindA (tryA (getHTTPRoute env live route)) (\<lambda>r. case r of
      Inl e \<Rightarrow> if IsNotFoundError e then returnA None else throwA e
    | Inr current \<Rightarrow>
        bindA (guardA (sameRevision current route) errHTTPRouteChanged) (\<lambda>_.
        bindA (liftA (storedRouteIdentity env current)) (\<lambda>stored. returnA (Some (current, stored)))))"

definition clearBinding :: "'w routeEnv \<Rightarrow> HTTPRoute \<Rightarrow> HTTPRoute" where
  "clearBinding env route = route\<lparr>ht_Meta := clearRouteBinding (rv_finalizers env) (rv_Config env) (ht_Meta route)\<rparr>"

definition clearStoredRouteBinding :: "'w routeEnv \<Rightarrow> HTTPRoute \<Rightarrow> Identity option \<Rightarrow> ('w, unit) rc" where
  "clearStoredRouteBinding env route expected =
     bindA (guardA (rv_hasAPIReader env) APIReaderRequiredError) (\<lambda>_.
     retryA (rv_attempts env) IsConflictError (\<lambda>_.
       bindA (getRouteBindingWithReader env True route) (\<lambda>binding. case binding of
          None \<Rightarrow> returnA ()
        | Some (current, stored) \<Rightarrow>
            bindA (guardA (stored = expected) errHTTPRouteChanged) (\<lambda>_.
            let cleared = clearBinding env current in
            if routeBindingMetadataEqual (ht_Meta current) (ht_Meta cleared) then setRoute cleared
            else bindA (ignoringNotFound (patchRoute env current cleared)) (\<lambda>patched. case patched of
               None \<Rightarrow> returnA ()
             | Some patched \<Rightarrow> setRoute patched)))))"

section \<open>The cleanup failure annotation\<close>

definition withAnnotation :: "HTTPRoute \<Rightarrow> string \<Rightarrow> string option \<Rightarrow> HTTPRoute" where
  "withAnnotation route key v = route\<lparr>ht_Meta := (ht_Meta route)\<lparr>om_Annotations := (om_Annotations (ht_Meta route))(key := v)\<rparr>\<rparr>"

definition livePatchReader :: "'w routeEnv \<Rightarrow> bool" where
  "livePatchReader env = rv_hasAPIReader env"

text \<open>Whether the annotation changed, and the route that replaces the argument.\<close>

definition patchRouteCleanupFailure :: "'w routeEnv \<Rightarrow> HTTPRoute \<Rightarrow> string \<Rightarrow> ('w, bool \<times> HTTPRoute) rc" where
  "patchRouteCleanupFailure env route reason = retryA (rv_attempts env) IsConflictError (\<lambda>_.
     bindA (ignoringNotFound (getHTTPRoute env (livePatchReader env) route)) (\<lambda>found. case found of
        None \<Rightarrow> returnA (False, route)
      | Some current \<Rightarrow>
          bindA (guardA (sameRevision current route) errHTTPRouteChanged) (\<lambda>_.
          let key = RouteCleanupFailureAnnotation (rv_Config env) in
          if annotation (ht_Meta current) key = reason then returnA (False, current)
          else bindA (ignoringNotFound (patchRoute env current (withAnnotation current key (if reason = [] then None else Some reason)))) (\<lambda>patched.
            case patched of None \<Rightarrow> returnA (False, route) | Some patched \<Rightarrow> returnA (True, patched)))))"

section \<open>The route graph\<close>

text \<open>The binding checkpoint is \<^term>\<open>None\<close>; a Gateway that is not ready gives the zero outcome.\<close>

definition zeroOutcome :: Outcome where
  "zeroOutcome = \<lparr>o_State = OutcomeUnset, o_Message = [], o_RequeueAfter = 0\<rparr>"

definition ensureRouteGraph :: "'w routeEnv \<Rightarrow> Gateway \<Rightarrow> ('w, Outcome option) rc" where
  "ensureRouteGraph env expectedGateway = bindA scopeRoute (\<lambda>expectedRoute.
     bindA (guardA (rv_hasAPIReader env) APIReaderRequiredError) (\<lambda>_.
     withGraph env (om_UID (gw_Meta expectedGateway)) (
       bindA (buildRouteValidationSnapshot env expectedRoute expectedGateway routeSnapshotForEnsure) (\<lambda>snapshot.
       case vs_disposition snapshot of
          routeValidationGatewayPending \<Rightarrow> returnA (Some zeroOutcome)
        | routeValidationBindingRequired \<Rightarrow>
            bindA (failingAs routeBindingCheckpointError (bindRouteFromSnapshot env expectedRoute expectedGateway snapshot)) (\<lambda>_. returnA None)
        | routeValidationReady \<Rightarrow>
            bindA (sealRouteMutationSnapshot env snapshot routeBindingRequired) (\<lambda>_.
            case vs_desired snapshot of
               None \<Rightarrow> throwA PlainError
             | Some desired \<Rightarrow>
                 bindA (failingAs WrappedError (callEnsureRoute env desired)) (\<lambda>r.
                 bindA (validOutcome (rres_Outcome r)) (\<lambda>_. returnA (Some (rres_Outcome r)))))))))"

definition deleteRoute :: "'w routeEnv \<Rightarrow> HTTPRoute \<Rightarrow> Identity \<Rightarrow> ('w, Outcome) rc" where
  "deleteRoute env expected i =
     bindA (guardA (rv_hasAPIReader env) APIReaderRequiredError) (\<lambda>_.
     withGraph env (GatewayUID i) (
       bindA (buildRouteCleanupSnapshot env expected i) (\<lambda>snapshot.
       case cs_disposition snapshot of
          routeCleanupStillDesired \<Rightarrow> throwA errHTTPRouteChanged
        | routeCleanupRequired \<Rightarrow>
            bindA (sealRouteCleanupSnapshot env snapshot) (\<lambda>_. callDeleteRoute env (cs_identity snapshot)))))"

section \<open>Detaching a route\<close>

definition hasRouteFinalizer :: "'w routeEnv \<Rightarrow> HTTPRoute \<Rightarrow> bool" where
  "hasRouteFinalizer env route = ContainsFinalizer (rv_finalizers env) (ht_Meta route) (RouteFinalizer (rv_Config env))"

text \<open>What follows a deletion that returned: progress is waited for, and only a finished deletion goes on.\<close>

definition afterDeletion :: "'w routeEnv \<Rightarrow> HTTPRoute \<Rightarrow> Outcome \<Rightarrow> ('w, ctrlResult) rc \<Rightarrow> ('w, ctrlResult) rc" where
  "afterDeletion env current outcome finished =
     bindA (validOutcome outcome) (\<lambda>_.
     if o_State outcome = OutcomeProgressing then
       bindA (failingAs WrappedError (patchRouteCleanupFailure env current [])) (\<lambda>(_, current).
       bindA (setRoute current) (\<lambda>_.
       returnA (requeueAfter (ProviderProgressRequeueAfter outcome (om_UID (ht_Meta current))))))
     else finished)"

definition detachRoute :: "'w routeEnv \<Rightarrow> ('w, ctrlResult) rc" where
  "detachRoute env = bindA scopeRoute (\<lambda>route.
     bindA (getRouteBindingWithReader env False route) (\<lambda>binding. case binding of
        None \<Rightarrow> returnA noResult
      | Some (current, stored) \<Rightarrow>
          (case stored of
             None \<Rightarrow>
               if hasRouteFinalizer env current then throwA PlainError
               else bindA (clearStoredRouteBinding env route None) (\<lambda>_. returnA noResult)
           | Some i \<Rightarrow>
               bindA (failingAs WrappedError (deleteRoute env current i)) (\<lambda>outcome.
               afterDeletion env current outcome
                 (bindA (clearStoredRouteBinding env route (Some i)) (\<lambda>_. returnA noResult))))))"

definition detachPreviousGateway :: "'w routeEnv \<Rightarrow> Gateway \<Rightarrow> ('w, ctrlResult) rc" where
  "detachPreviousGateway env gateway = bindA scopeRoute (\<lambda>route.
     bindA (ignoringNotFound (getHTTPRoute env False route)) (\<lambda>found. case found of
        None \<Rightarrow> returnA noResult
      | Some current \<Rightarrow>
          bindA (guardA (sameRevision current route) errHTTPRouteChanged) (\<lambda>_.
          bindA (setRoute current) (\<lambda>_.
          bindA (liftA (storedRouteIdentity env current)) (\<lambda>stored. case stored of
             None \<Rightarrow> if hasRouteFinalizer env current then throwA PlainError else returnA noResult
           | Some i \<Rightarrow>
               if GatewayNamespace i = om_Namespace (gw_Meta gateway) \<and> GatewayName i = om_Name (gw_Meta gateway) \<and>
                  GatewayUID i = om_UID (gw_Meta gateway) then returnA noResult
               else detachRoute env)))))"

section \<open>Status plans of the scope\<close>

definition replacePlan :: "parentStatusUpdate list \<Rightarrow> routeStatusPlan" where
  "replacePlan updates = \<lparr>pl_kind = routeStatusPlanReplace, pl_updates = updates, pl_parent = None, pl_policy = None,
     pl_referencesEvaluated = False, pl_validateOwnership = True\<rparr>"

definition setStatuses :: "parentStatusUpdate list \<Rightarrow> ('w, unit) rc" where
  "setStatuses updates = changeScope (\<lambda>scope. scope\<lparr>hs_statusPlan := Some (replacePlan updates)\<rparr>)"

definition setProviderFailureStatuses :: "parentStatusUpdate list \<Rightarrow> ProviderFailurePolicy \<Rightarrow> bool \<Rightarrow> ('w, unit) rc" where
  "setProviderFailureStatuses updates policy referencesEvaluated = changeScope (\<lambda>scope. scope\<lparr>hs_statusPlan := Some
     \<lparr>pl_kind = routeStatusPlanProviderFailure, pl_updates = updates, pl_parent = None, pl_policy = Some policy,
      pl_referencesEvaluated = referencesEvaluated, pl_validateOwnership = True\<rparr>\<rparr>)"

definition setDeletingFailureStatus :: "ParentReference \<Rightarrow> ProviderFailurePolicy \<Rightarrow> ('w, unit) rc" where
  "setDeletingFailureStatus parent policy = changeScope (\<lambda>scope. scope\<lparr>hs_statusPlan := Some
     \<lparr>pl_kind = routeStatusPlanDeletingFailure, pl_updates = [], pl_parent = Some parent, pl_policy = Some policy,
      pl_referencesEvaluated = False, pl_validateOwnership = False\<rparr>\<rparr>)"

definition queueWarning :: "routeProviderWarning \<Rightarrow> ('w, unit) rc" where
  "queueWarning warning = changeScope (\<lambda>scope. scope\<lparr>hs_warning := Some warning\<rparr>)"

definition managedParents :: "'w routeEnv \<Rightarrow> bool \<Rightarrow> HTTPRoute \<Rightarrow> ('w, managedRouteParent list) rc" where
  "managedParents env live route = bindA (readAPI env live) (\<lambda>reader.
     liftA (mapErr wrappedRead (managedParentsWithReader reader (rv_Config env) route)))"

definition validateRouteStatusOwnership :: "'w routeEnv \<Rightarrow> HTTPRoute \<Rightarrow> parentStatusUpdate list \<Rightarrow> ('w, unit) rc" where
  "validateRouteStatusOwnership env route updates = (let ns = om_Namespace (ht_Meta route) in
     bindA (managedParents env (livePatchReader env) route) (\<lambda>parents.
     bindA (guardA (list_all (\<lambda>update. list_ex (\<lambda>parent. ParentRefsEqual (mp_ref parent) ns (up_parent update) ns) parents) updates)
       errHTTPRouteChanged) (\<lambda>_.
     guardA (list_all (\<lambda>parent. list_ex (\<lambda>update. ParentRefsEqual (mp_ref parent) ns (up_parent update) ns) updates) parents)
       errHTTPRouteChanged)))"

definition ownershipOf :: "'w routeEnv \<Rightarrow> routeStatusPlan \<Rightarrow> HTTPRoute \<Rightarrow> ('w, unit) rc" where
  "ownershipOf env p current = (if pl_validateOwnership p then validateRouteStatusOwnership env current (pl_updates p) else returnA ())"

text \<open>Whether the plan was applied, changed the status, and changed the programmed condition.\<close>

definition patchHTTPRouteStatus :: "'w routeEnv \<Rightarrow> HTTPRoute \<Rightarrow> routeStatusPlan \<Rightarrow> ('w, bool \<times> bool \<times> bool) rc" where
  "patchHTTPRouteStatus env route p = retryA (rv_attempts env) IsConflictError (\<lambda>_.
     bindA (ignoringNotFound (getHTTPRoute env (livePatchReader env) route)) (\<lambda>found. case found of
        None \<Rightarrow> returnA (False, False, False)
      | Some current \<Rightarrow>
          bindA (guardA (sameRevision current route) errHTTPRouteChanged) (\<lambda>_.
          bindA (ownershipOf env p current) (\<lambda>_.
          case applyPlan (rv_conditions env) (rv_Config env) p current of (desired, transitioned) \<Rightarrow>
            if ht_Parents current = ht_Parents desired then bindA (setRoute desired) (\<lambda>_. returnA (True, False, transitioned))
            else bindA (patchStatus env current desired) (\<lambda>patched.
              bindA (setRoute patched) (\<lambda>_. returnA (True, True, transitioned)))))))"

definition warningDue :: "routeProviderWarning \<Rightarrow> bool \<Rightarrow> bool \<Rightarrow> bool" where
  "warningDue warning changed transitioned \<longleftrightarrow>
     wa_cleanupCheckpointSaved warning \<or> transitioned \<or> wa_recordOnStatusChange warning \<and> changed"

definition patchHTTPRoute :: "'w routeEnv \<Rightarrow> ('w, unit) rc" where
  "patchHTTPRoute env = bindA (getA rt_scope) (\<lambda>scope.
     if hs_skipPatch scope then returnA ()
     else bindA (case hs_statusPlan scope of None \<Rightarrow> returnA (True, False, False)
         | Some p \<Rightarrow> failingAs WrappedError (patchHTTPRouteStatus env (hs_route scope) p)) (\<lambda>(applied, changed, transitioned).
       case hs_warning scope of
          None \<Rightarrow> returnA ()
        | Some warning \<Rightarrow>
            if applied \<and> warningDue warning changed transitioned then recordWarning env (wa_policy warning) (wa_action warning) else returnA ()))"

definition routeStatusCheckpointNeeded :: "'w routeEnv \<Rightarrow> ('w, bool) rc" where
  "routeStatusCheckpointNeeded env = bindA (getA rt_scope) (\<lambda>scope. case hs_statusPlan scope of
      None \<Rightarrow> returnA False
    | Some p \<Rightarrow>
        bindA (failingAs WrappedError (getHTTPRoute env (livePatchReader env) (hs_route scope))) (\<lambda>current.
        bindA (guardA (sameRevision current (hs_route scope)) errHTTPRouteChanged) (\<lambda>_.
        bindA (ownershipOf env p current) (\<lambda>_.
        bindA (setRoute current) (\<lambda>_.
        returnA (ht_Parents current \<noteq> ht_Parents (fst (applyPlan (rv_conditions env) (rv_Config env) p current))))))))"

definition routeProviderFailureCheckpointExists :: "'w routeEnv \<Rightarrow> parentStatusUpdate list \<Rightarrow> ('w, bool) rc" where
  "routeProviderFailureCheckpointExists env updates = bindA scopeRoute (\<lambda>route.
     bindA (failingAs WrappedError (getHTTPRoute env (livePatchReader env) route)) (\<lambda>current.
     bindA (guardA (sameRevision current route) errHTTPRouteChanged) (\<lambda>_.
     bindA (setRoute current) (\<lambda>_.
     returnA (routeHasProviderFailureStatus (rv_conditions env) current updates (cf_ControllerName (rv_Config env)) (programmedType (rv_Config env)))))))"

definition routeCleanupStatusCheckpointNeeded :: "'w routeEnv \<Rightarrow> parentStatusUpdate list \<Rightarrow> ('w, bool) rc" where
  "routeCleanupStatusCheckpointNeeded env updates = bindA scopeRoute (\<lambda>route.
     bindA (if routeHasProviderFailureStatus (rv_conditions env) route updates (cf_ControllerName (rv_Config env)) (programmedType (rv_Config env))
       then routeProviderFailureCheckpointExists env updates else returnA False) (\<lambda>durable.
     if durable then returnA False
     else bindA (setStatuses updates) (\<lambda>_. routeStatusCheckpointNeeded env)))"

section \<open>Failures of the provider\<close>

definition setPatchCause :: "ProviderFailurePolicy \<Rightarrow> go_error \<Rightarrow> ('w, unit) rc" where
  "setPatchCause policy cause = (if fp_ReturnError policy then returnA ()
     else changeScope (\<lambda>scope. scope\<lparr>hs_patchCause := Some (SafeProviderError (SafeProviderReconcileError policy cause))\<rparr>))"

definition handleRouteProviderFailure :: "'w routeEnv \<Rightarrow> ParentReference \<Rightarrow> bool \<Rightarrow> rcError \<Rightarrow> string \<Rightarrow> ('w, ctrlResult) rc" where
  "handleRouteProviderFailure env parent referencesEvaluated providerErr action = (case failurePolicyFor providerErr of
      None \<Rightarrow> throwA providerErr
    | Some (cause, policy) \<Rightarrow>
        bindA scopeRoute (\<lambda>route.
        bindA (setProviderFailureStatuses [\<lparr>up_parent = parent, up_status = providerFailureRouteStatus policy referencesEvaluated\<rparr>]
          policy referencesEvaluated) (\<lambda>_.
        bindA (queueWarning \<lparr>wa_policy = policy, wa_action = action, wa_cleanupCheckpointSaved = False, wa_recordOnStatusChange = False\<rparr>) (\<lambda>_.
        bindA (setPatchCause policy cause) (\<lambda>_.
        resultOf (ProviderFailureResult policy cause (om_UID (ht_Meta route))))))))"

text \<open>The annotation is stored on the route of the scope, which is replaced when that succeeds.\<close>

definition setRouteCleanupFailure :: "'w routeEnv \<Rightarrow> string \<Rightarrow> ('w, bool) rc" where
  "setRouteCleanupFailure env reason = bindA scopeRoute (\<lambda>route.
     bindA (patchRouteCleanupFailure env route reason) (\<lambda>(changed, route). bindA (setRoute route) (\<lambda>_. returnA changed)))"

definition handleRouteFinalizationFailure :: "'w routeEnv \<Rightarrow> Identity \<Rightarrow> rcError \<Rightarrow> ('w, ctrlResult) rc" where
  "handleRouteFinalizationFailure env i providerErr = (case failurePolicyFor providerErr of
      None \<Rightarrow> throwA providerErr
    | Some (cause, policy) \<Rightarrow>
        let policy = ProviderCleanupFailurePolicy policy ''HTTPRoute'' in
        bindA (tryA (setRouteCleanupFailure env (fp_Reason policy))) (\<lambda>diagnostic.
        bindA scopeRoute (\<lambda>route.
        bindA (case parentRefForStoredGateway route i of None \<Rightarrow> returnA () | Some parent \<Rightarrow> setDeletingFailureStatus parent policy) (\<lambda>_.
        case diagnostic of
           Inl e \<Rightarrow> throwA (JoinedErrors [SafeProviderError (SafeProviderReconcileError policy cause), WrappedError e])
         | Inr transitioned \<Rightarrow>
             bindA (queueWarning \<lparr>wa_policy = policy, wa_action = ''DeleteHTTPRoute'', wa_cleanupCheckpointSaved = transitioned,
               wa_recordOnStatusChange = False\<rparr>) (\<lambda>_.
             bindA (setPatchCause policy cause) (\<lambda>_.
             resultOf (ProviderFinalizationFailureResult policy cause (om_UID (ht_Meta route)))))))))"

definition finalizeRoute :: "'w routeEnv \<Rightarrow> ('w, ctrlResult) rc" where
  "finalizeRoute env = bindA scopeRoute (\<lambda>route.
     bindA (getRouteBindingWithReader env False route) (\<lambda>binding. case binding of
        None \<Rightarrow> returnA noResult
      | Some (current, stored) \<Rightarrow>
          (case stored of
             None \<Rightarrow> if \<not> hasRouteFinalizer env current then returnA noResult else throwA PlainError
           | Some i \<Rightarrow>
               bindA (tryA (deleteRoute env current i)) (\<lambda>r. case r of
                  Inl e \<Rightarrow> bindA (setRoute current) (\<lambda>_. handleRouteFinalizationFailure env i (WrappedError e))
                | Inr outcome \<Rightarrow>
                    afterDeletion env current outcome
                      (bindA (clearStoredRouteBinding env route (Some i)) (\<lambda>_. returnA noResult))))))"

section \<open>An unsupported Gateway API version\<close>

definition unsupportedGatewayAPIVersionRouteStatus :: "'w routeEnv \<Rightarrow> HTTPRoute \<Rightarrow> ParentReference \<Rightarrow> routeReconcileStatus" where
  "unsupportedGatewayAPIVersionRouteStatus env route parentRef = (let ns = om_Namespace (ht_Meta route) in
     case find (\<lambda>parent. ps_ControllerName parent = cf_ControllerName (rv_Config env) \<and> ParentRefsEqual (ps_ParentRef parent) ns parentRef ns)
       (ht_Parents route) of
        None \<Rightarrow> unsupportedVersionRouteStatus
      | Some parent \<Rightarrow>
          (case FindStatusCondition (rv_conditions env) (ps_Conditions parent) (programmedType (rv_Config env)) of
             None \<Rightarrow> unsupportedVersionRouteStatus
           | Some condition \<Rightarrow>
               if co_Status condition = ConditionTrue \<and> co_ObservedGeneration condition = om_Generation (ht_Meta route)
               then unsupportedVersionRouteStatus\<lparr>programmed := co_Status condition, programmedReason := co_Reason condition,
                 programmedMessage := co_Message condition\<rparr>
               else unsupportedVersionRouteStatus))"

definition managedParentsSupportInstalledVersion :: "'w routeEnv \<Rightarrow> managedRouteParent list \<Rightarrow> bool" where
  "managedParentsSupportInstalledVersion env parents =
     list_all (\<lambda>parent. GatewayClassSupportsInstalledVersion (rv_conditions env) (the (mp_gatewayClass parent))) parents"

definition skipPatch :: "('w, unit) rc" where
  "skipPatch = changeScope (\<lambda>scope. scope\<lparr>hs_skipPatch := True\<rparr>)"

text \<open>Whether the installed version must be checked again: the live classes support it but the installation does not.\<close>

definition recheckVersion :: "'w routeEnv \<Rightarrow> managedRouteParent list \<Rightarrow> ('w, bool) rc" where
  "recheckVersion env parents =
     (if \<not> managedParentsSupportInstalledVersion env parents then returnA False
      else bindA (readAPI env True) (\<lambda>reader. case ValidateInstalledGatewayAPIVersion (rv_consts env) (Some reader) of
         Inr _ \<Rightarrow> throwA errHTTPRouteChanged
       | Inl ErrUnsupportedGatewayAPIVersion \<Rightarrow> returnA True
       | Inl e \<Rightarrow> throwA (versionErrorOf e)))"

definition setRouteUnsupportedVersion :: "'w routeEnv \<Rightarrow> ('w, ctrlResult) rc" where
  "setRouteUnsupportedVersion env = bindA scopeRoute (\<lambda>route.
     bindA (changeScope (\<lambda>scope. scope\<lparr>hs_statusPlan := None\<rparr>)) (\<lambda>_.
     bindA (guardA (rv_hasAPIReader env) APIReaderRequiredError) (\<lambda>_.
     bindA (ignoringNotFound (getHTTPRoute env True route)) (\<lambda>found. case found of
        None \<Rightarrow> bindA skipPatch (\<lambda>_. returnA noResult)
      | Some current \<Rightarrow>
          if \<not> sameHTTPRouteRevision (ht_Meta current) (om_UID (ht_Meta route)) (om_Generation (ht_Meta route)) False
          then bindA skipPatch (\<lambda>_. returnA noResult)
          else bindA (managedParents env True current) (\<lambda>parents.
            if parents = [] then bindA skipPatch (\<lambda>_. returnA noResult)
            else bindA (recheckVersion env parents) (\<lambda>recheck.
              bindA (setRoute current) (\<lambda>_.
              bindA (setStatuses (map (\<lambda>parent. \<lparr>up_parent = mp_ref parent,
                up_status = unsupportedGatewayAPIVersionRouteStatus env current (mp_ref parent)\<rparr>) parents)) (\<lambda>_.
              returnA (if recheck then requeueAfter (GatewayAPIVersionRequeueAfter (om_UID (ht_Meta current))) else noResult)))))))))"

section \<open>Statuses and detaching\<close>

definition handleRouteCleanupFailure :: "'w routeEnv \<Rightarrow> parentStatusUpdate list \<Rightarrow> rcError \<Rightarrow> ('w, ctrlResult) rc" where
  "handleRouteCleanupFailure env updates cleanupErr = (case failurePolicyFor cleanupErr of
      None \<Rightarrow> throwA cleanupErr
    | Some (cause, policy) \<Rightarrow>
        let policy = ProviderCleanupFailurePolicy policy ''HTTPRoute'';
            providerUpdates = routeProviderFailureUpdates updates policy in
        bindA (tryA (setRouteCleanupFailure env (fp_Reason policy))) (\<lambda>diagnostic.
        bindA (if providerUpdates = [] then setStatuses [] else setProviderFailureStatuses providerUpdates policy True) (\<lambda>_.
        case diagnostic of
           Inl e \<Rightarrow> throwA (JoinedErrors [e, SafeProviderError (SafeProviderReconcileError policy cause)])
         | Inr transitioned \<Rightarrow>
             bindA (queueWarning \<lparr>wa_policy = policy, wa_action = ''DeleteHTTPRoute'', wa_cleanupCheckpointSaved = transitioned,
               wa_recordOnStatusChange = (providerUpdates = [])\<rparr>) (\<lambda>_.
             bindA (setPatchCause policy cause) (\<lambda>_.
             bindA scopeRoute (\<lambda>route.
             resultOf (ProviderFinalizationFailureResult policy cause (om_UID (ht_Meta route)))))))))"

definition setRouteStatusesAndDetach :: "'w routeEnv \<Rightarrow> parentStatusUpdate list \<Rightarrow> ('w, ctrlResult) rc" where
  "setRouteStatusesAndDetach env updates = bindA scopeRoute (\<lambda>route.
     let providerStatusPublished = routeHasProviderFailureStatus (rv_conditions env) route updates (cf_ControllerName (rv_Config env))
       (programmedType (rv_Config env)) in
     bindA (routeCleanupStatusCheckpointNeeded env updates) (\<lambda>checkpointNeeded.
     if checkpointNeeded then returnA requeueNow
     else bindA (tryA (detachRoute env)) (\<lambda>detached. case detached of
        Inr r \<Rightarrow> bindA (if providerStatusPublished then setStatuses updates else returnA ()) (\<lambda>_. returnA r)
      | Inl cleanupErr \<Rightarrow>
          if isError cleanupErr UnsupportedVersionError then
            bindA scopeRoute (\<lambda>route.
            bindA (liftA (storedRouteIdentity env route)) (\<lambda>stored.
            if stored = None then throwA cleanupErr else setRouteUnsupportedVersion env))
          else handleRouteCleanupFailure env updates cleanupErr)))"

section \<open>Reconciling\<close>

datatype cachedRouteDisposition = cachedRouteUnsupportedVersion | cachedRouteDetach | cachedRouteReady

record cachedRouteDecision =
  cd_parent :: "managedRouteParent option"
  cd_storedIdentity :: "Identity option"
  cd_statusUpdates :: "parentStatusUpdate list"
  cd_disposition :: cachedRouteDisposition

definition unsupportedParentCountUpdates :: "managedRouteParent list \<Rightarrow> parentStatusUpdate list" where
  "unsupportedParentCountUpdates parents = map (\<lambda>parent. \<lparr>up_parent = mp_ref parent,
     up_status = rejectedRouteStatus ''UnsupportedValue'' ''Phase 1 supports exactly one Gateway parentRef''\<rparr>) parents"

definition detachDecision :: "cachedRouteDecision \<Rightarrow> managedRouteParent \<Rightarrow> routeReconcileStatus \<Rightarrow> cachedRouteDecision" where
  "detachDecision decision parent status = decision\<lparr>cd_disposition := cachedRouteDetach,
     cd_statusUpdates := [\<lparr>up_parent = mp_ref parent, up_status = status\<rparr>]\<rparr>"

definition validateCachedRouteDecision :: "'w routeEnv \<Rightarrow> HTTPRoute \<Rightarrow> managedRouteParent \<Rightarrow> cachedRouteDecision \<Rightarrow> ('w, cachedRouteDecision) rc" where
  "validateCachedRouteDecision env route parent decision = (let decision = decision\<lparr>cd_parent := Some parent\<rparr> in
     case validateRouteParent route parent of
        Inl e \<Rightarrow> returnA (detachDecision decision parent (statusForRouteBuildError (rv_text env) (modelError e)))
      | Inr _ \<Rightarrow>
          bindA (if structurallySupportedRoute route then evaluateSlot env False route
            else returnA \<lparr>sd_canReserve = True, sd_rejection = None\<rparr>) (\<lambda>slot.
          if \<not> sd_canReserve slot then returnA (detachDecision decision parent (rejectedServiceProfileStatus (rv_text env) (rejectionOf slot)))
          else bindA (isSelected env False route parent) (\<lambda>selected.
            if \<not> selected then returnA (detachDecision decision parent (rejectedRouteStatus ''UnsupportedValue''
              ''Phase 1 supports one HTTPRoute per Gateway; an older route is already selected''))
            else returnA (decision\<lparr>cd_disposition := cachedRouteReady\<rparr>))))"

definition buildCachedRouteDecision :: "'w routeEnv \<Rightarrow> HTTPRoute \<Rightarrow> ('w, cachedRouteDecision) rc" where
  "buildCachedRouteDecision env route = bindA (tryA (managedParents env False route)) (\<lambda>r. case r of
      Inl e \<Rightarrow> bindA (liftA (storedRouteIdentity env route)) (\<lambda>_. throwA e)
    | Inr parents \<Rightarrow>
        bindA (liftA (storedRouteIdentity env route)) (\<lambda>stored.
        let base = \<lparr>cd_parent = None, cd_storedIdentity = stored, cd_statusUpdates = [], cd_disposition = cachedRouteDetach\<rparr> in
        if \<not> managedParentsSupportInstalledVersion env parents then returnA (base\<lparr>cd_disposition := cachedRouteUnsupportedVersion\<rparr>)
        else case parents of
           [] \<Rightarrow> returnA base
         | parent # _ \<Rightarrow>
             if length (ht_ParentRefs route) \<noteq> 1 \<or> length parents \<noteq> 1
             then returnA (base\<lparr>cd_statusUpdates := unsupportedParentCountUpdates parents\<rparr>)
             else validateCachedRouteDecision env route parent base))"

definition previousGatewayMessage :: string where
  "previousGatewayMessage = ''OpenStack resources for the previous Gateway are being removed''"

text \<open>The outcome of the graph as a status and a result.\<close>

definition publishOutcome :: "'w routeEnv \<Rightarrow> managedRouteParent \<Rightarrow> Outcome \<Rightarrow> ('w, ctrlResult) rc" where
  "publishOutcome env parent outcome = bindA scopeRoute (\<lambda>route.
     let update = (\<lambda>status. [\<lparr>up_parent = mp_ref parent, up_status = status\<rparr>]) in
     case o_State outcome of
        OutcomeProgressing \<Rightarrow>
          bindA (setStatuses (update (pendingRouteStatus (ProviderProgressMessage outcome ''Octavia resources for the HTTPRoute are still progressing'')))) (\<lambda>_.
          returnA (requeueAfter (ProviderProgressRequeueAfter outcome (om_UID (ht_Meta route)))))
      | OutcomeReady \<Rightarrow>
          bindA (setStatuses (update programmedRouteStatus)) (\<lambda>_.
          returnA (requeueAfter (OpenStackResyncAfter (cf_OpenStackResyncInterval (rv_Config env)) (om_UID (ht_Meta route)))))
      | OutcomeUnset \<Rightarrow>
          bindA (setStatuses (update (pendingRouteStatus ''Controller-owned Octavia load balancer or listener is not ready''))) (\<lambda>_.
          returnA (requeueAfter (5 * second))))"

definition reconcileSelectedRouteGraph :: "'w routeEnv \<Rightarrow> managedRouteParent \<Rightarrow> ('w, ctrlResult) rc" where
  "reconcileSelectedRouteGraph env parent = bindA (tryA (ensureRouteGraph env (mp_gateway parent))) (\<lambda>r. case r of
      Inl err \<Rightarrow>
        if isError err UnsupportedVersionError then setRouteUnsupportedVersion env
        else (case asBindingError err of
           Some bindingError \<Rightarrow> throwA (WrappedError bindingError)
         | None \<Rightarrow>
             if asBuildError err \<noteq> None \<or> IsNotFoundError err then
               setRouteStatusesAndDetach env [\<lparr>up_parent = mp_ref parent, up_status = statusForRouteBuildError (rv_text env) err\<rparr>]
             else if isError err errHTTPRouteChanged then throwA err
             else handleRouteProviderFailure env (mp_ref parent) True err ''EnsureHTTPRoute'')
    | Inr None \<Rightarrow> returnA requeueNow
    | Inr (Some outcome) \<Rightarrow> publishOutcome env parent outcome)"

definition reconcileSelectedRoute :: "'w routeEnv \<Rightarrow> managedRouteParent \<Rightarrow> Identity option \<Rightarrow> ('w, ctrlResult) rc" where
  "reconcileSelectedRoute env parent storedIdentity = bindA scopeRoute (\<lambda>route.
     let updates = [\<lparr>up_parent = mp_ref parent, up_status = pendingRouteStatus previousGatewayMessage\<rparr>];
         moved = (case storedIdentity of None \<Rightarrow> False
           | Some i \<Rightarrow> \<not> SameGatewayIdentity i (RouteIdentity (rv_Config env) (gw_Meta (mp_gateway parent)) (ht_Meta route))) in
     bindA (if moved then routeCleanupStatusCheckpointNeeded env updates else returnA False) (\<lambda>checkpointNeeded.
     if checkpointNeeded then returnA requeueNow
     else bindA (tryA (detachPreviousGateway env (mp_gateway parent))) (\<lambda>r. case r of
        Inl err \<Rightarrow> if isError err UnsupportedVersionError then setRouteUnsupportedVersion env
          else handleRouteProviderFailure env (mp_ref parent) False err ''DeleteHTTPRoute''
      | Inr detachResult \<Rightarrow>
          if cr_RequeueAfter detachResult > 0 then bindA (setStatuses updates) (\<lambda>_. returnA detachResult)
          else reconcileSelectedRouteGraph env parent)))"

definition reconcileNormal :: "'w routeEnv \<Rightarrow> ('w, ctrlResult) rc" where
  "reconcileNormal env = bindA scopeRoute (\<lambda>route.
     bindA (buildCachedRouteDecision env route) (\<lambda>decision. case cd_disposition decision of
        cachedRouteUnsupportedVersion \<Rightarrow> setRouteUnsupportedVersion env
      | cachedRouteDetach \<Rightarrow> setRouteStatusesAndDetach env (cd_statusUpdates decision)
      | cachedRouteReady \<Rightarrow> reconcileSelectedRoute env (the (cd_parent decision)) (cd_storedIdentity decision)))"

definition reconcileDelete :: "'w routeEnv \<Rightarrow> ('w, ctrlResult) rc" where
  "reconcileDelete env = bindA (finalizeRoute env) (\<lambda>r.
     bindA scopeRoute (\<lambda>route.
     if cr_RequeueAfter r = 0 \<and> \<not> hasRouteFinalizer env route then bindA skipPatch (\<lambda>_. returnA r) else returnA r))"

definition newScope :: "HTTPRoute \<Rightarrow> httpRouteScope" where
  "newScope route = \<lparr>hs_route = route, hs_statusPlan = None, hs_warning = None, hs_patchCause = None, hs_skipPatch = False\<rparr>"

text \<open>The deferred patch of the status replaces the result when it fails.\<close>

definition withStatusPatch :: "'w routeEnv \<Rightarrow> ('w, ctrlResult) rc \<Rightarrow> ('w, ctrlResult) rc" where
  "withStatusPatch env m = bindA (tryA m) (\<lambda>r.
     bindA (getA rt_scope) (\<lambda>scope.
     bindA (tryA (patchHTTPRoute env)) (\<lambda>patched. case patched of
        Inl err \<Rightarrow> throwA (JoinedErrors ((case r of Inl e \<Rightarrow> [e] | Inr _ \<Rightarrow> []) @
          (case hs_patchCause scope of None \<Rightarrow> [] | Some cause \<Rightarrow> [cause]) @ [err]))
      | Inr _ \<Rightarrow> liftA r)))"

text \<open>No scope is \<^term>\<open>None\<close>: the route is gone, or deleted and not bound by this controller.\<close>

definition newHTTPRouteScope :: "'w routeEnv \<Rightarrow> string \<Rightarrow> string \<Rightarrow> ('w, httpRouteScope option) rc" where
  "newHTTPRouteScope env namespace name = bindA (readAPI env False) (\<lambda>reader. case rd_HTTPRoute reader namespace name of
      Inl NotFound \<Rightarrow> returnA None
    | Inl e \<Rightarrow> throwA (readErrorOf e)
    | Inr route \<Rightarrow> returnA (if \<not> om_Deleting (ht_Meta route) \<or> RouteHasControllerBinding (rv_finalizers env) (rv_Config env) (ht_Meta route)
        then Some (newScope route) else None))"

definition Reconcile :: "'w routeEnv \<Rightarrow> string \<Rightarrow> string \<Rightarrow> ('w, ctrlResult) rc" where
  "Reconcile env namespace name = bindA (newHTTPRouteScope env namespace name) (\<lambda>responsible. case responsible of
      None \<Rightarrow> returnA noResult
    | Some scope \<Rightarrow>
        bindA (changeScope (\<lambda>_. scope)) (\<lambda>_.
        withStatusPatch env (if om_Deleting (ht_Meta (hs_route scope)) then reconcileDelete env else reconcileNormal env)))"

end
