(* ===== verification/ReconcilerLogs.thy ===== *)
theory ReconcilerLogs
  imports ReconcileErrors
begin

text \<open>
  Reasoning about the log of a reconciler. The state of a reconciler has a log and a scope; \<open>logged\<close> is about computations that
  only read, and \<open>reconciler_law\<close> about the law that a reconciler keeps: every event of the log is justified by what came before
  it, and the scope fits to the log. Its rules follow the graph lock: what was seen since the lock was taken.
\<close>

named_theorems observations

lemma guard_run: "ok \<Longrightarrow> bindA (guardA ok e) f s = f () s"
  by (simp add: bindA_def guardA_def guardE_def liftA_def)

section \<open>Computations that only read\<close>

locale logged =
  fixes logOf :: "'s \<Rightarrow> 'e list" and scopeOf :: "'s \<Rightarrow> 'c" and isRead :: "'e \<Rightarrow> bool"
begin

definition observing :: "('s, rcError, 'a) act \<Rightarrow> ('a \<Rightarrow> 'e list \<Rightarrow> bool) \<Rightarrow> bool" where
  "observing m Q \<longleftrightarrow> (\<forall>s r s'. m s = (r, s') \<longrightarrow> scopeOf s' = scopeOf s \<and>
     (\<exists>es. logOf s' = logOf s @ es \<and> list_all isRead es \<and> (\<forall>x. r = Inr x \<longrightarrow> Q x es)))"

lemma observingD:
  assumes "observing m Q" "m s = (r, s')"
  obtains es where "scopeOf s' = scopeOf s" "logOf s' = logOf s @ es" "list_all isRead es" "\<forall>x. r = Inr x \<longrightarrow> Q x es"
  using assms unfolding observing_def by metis

lemma observingI:
  assumes "\<And>s r s'. m s = (r, s') \<Longrightarrow> scopeOf s' = scopeOf s \<and>
     (\<exists>es. logOf s' = logOf s @ es \<and> list_all isRead es \<and> (\<forall>x. r = Inr x \<longrightarrow> Q x es))"
  shows "observing m Q"
  using assms unfolding observing_def by blast

lemma observing_weaken:
  assumes "observing m Q" "\<And>x es. Q x es \<Longrightarrow> R x es"
  shows "observing m R"
proof (rule observingI)
  fix s r s'
  assume "m s = (r, s')"
  from observingD [OF assms(1) this] show "scopeOf s' = scopeOf s \<and>
     (\<exists>es. logOf s' = logOf s @ es \<and> list_all isRead es \<and> (\<forall>x. r = Inr x \<longrightarrow> R x es))" using assms(2) by metis
qed

lemma observing_lift [observations]: "(\<And>x. r = Inr x \<Longrightarrow> Q x []) \<Longrightarrow> observing (liftA r) Q"
  by (auto simp: observing_def liftA_def)

lemma observing_return [observations]: "Q x [] \<Longrightarrow> observing (returnA x) Q"
  by (auto simp: observing_def returnA_def)

lemma observing_throw [observations]: "observing (throwA e) Q"
  by (auto simp: observing_def throwA_def)

lemma observing_guard [observations]: "(ok \<Longrightarrow> Q () []) \<Longrightarrow> observing (guardA ok e) Q"
  unfolding guardA_def by (rule observing_lift) (auto simp: guardE_def split: if_splits)

lemma observing_get [observations]: "(\<And>x. Q x []) \<Longrightarrow> observing (getA f) Q"
  by (auto simp: observing_def getA_def)

lemma observing_bind:
  assumes "observing m Q" "\<And>x es. Q x es \<Longrightarrow> observing (f x) (\<lambda>y fs. R y (es @ fs))"
  shows "observing (bindA m f) R"
  unfolding observing_def
proof (intro allI impI)
  fix s r s'
  assume run: "bindA m f s = (r, s')"
  obtain q s1 where m: "m s = (q, s1)" by fastforce
  obtain es where es: "scopeOf s1 = scopeOf s" "logOf s1 = logOf s @ es" "list_all isRead es" "\<forall>x. q = Inr x \<longrightarrow> Q x es"
    by (rule observingD [OF assms(1) m])
  show "scopeOf s' = scopeOf s \<and> (\<exists>es. logOf s' = logOf s @ es \<and> list_all isRead es \<and> (\<forall>x. r = Inr x \<longrightarrow> R x es))"
  proof (cases q)
    case (Inl e)
    with run m es show ?thesis by (auto simp: bindA_def)
  next
    case (Inr x)
    with run m have f: "f x s1 = (r, s')" by (simp add: bindA_def)
    have o: "observing (f x) (\<lambda>y fs. R y (es @ fs))" using assms(2) es(4) Inr by blast
    obtain fs where "scopeOf s' = scopeOf s1" "logOf s' = logOf s1 @ fs" "list_all isRead fs"
      "\<forall>y. r = Inr y \<longrightarrow> R y (es @ fs)" by (rule observingD [OF o f])
    with es show ?thesis by auto
  qed
qed

lemma observing_bind_guard [observations]: "(ok \<Longrightarrow> observing (f ()) R) \<Longrightarrow> observing (bindA (guardA ok e) f) R"
  by (rule observing_bind [where Q = "\<lambda>_ es. ok \<and> es = []"]) (auto intro: observing_guard)

lemma observing_bind_lift [observations]: "(\<And>x. r = Inr x \<Longrightarrow> observing (f x) R) \<Longrightarrow> observing (bindA (liftA r) f) R"
  by (rule observing_bind [where Q = "\<lambda>x es. r = Inr x \<and> es = []"]) (auto intro: observing_lift)

lemma observing_bind_value:
  "observing m (\<lambda>x _. Q x) \<Longrightarrow> (\<And>x. Q x \<Longrightarrow> observing (f x) (\<lambda>y _. R y)) \<Longrightarrow> observing (bindA m f) (\<lambda>y _. R y)"
  by (rule observing_bind)

lemma observing_after:
  assumes "observing m (\<lambda>x es. Q x es)" "\<And>x. (\<exists>es. Q x es) \<Longrightarrow> observing (f x) (\<lambda>y _. R y)"
  shows "observing (bindA m f) (\<lambda>y _. R y)"
  by (rule observing_bind [OF assms(1)]) (use assms(2) in blast)

lemma observing_try:
  assumes "observing m Q"
  shows "observing (tryA m) (\<lambda>r es. \<forall>x. r = Inr x \<longrightarrow> Q x es)"
proof (rule observingI)
  fix s r s'
  assume "tryA m s = (r, s')"
  then obtain q where q: "m s = (q, s')" "r = Inr q" by (auto simp: tryA_def split: prod.splits)
  from observingD [OF assms q(1)] show "scopeOf s' = scopeOf s \<and>
     (\<exists>es. logOf s' = logOf s @ es \<and> list_all isRead es \<and> (\<forall>x. r = Inr x \<longrightarrow> (\<forall>y. x = Inr y \<longrightarrow> Q y es)))" using q(2) by (metis sum.inject(2))
qed

lemma observing_failingAs [observations]:
  assumes "observing m Q"
  shows "observing (failingAs h m) Q"
  unfolding failingAs_def
proof (rule observing_bind [OF observing_try [OF assms]])
  fix r :: "rcError + 'a" and es assume "\<forall>x. r = Inr x \<longrightarrow> Q x es"
  then show "observing (liftA (mapErr h r)) (\<lambda>y fs. Q y (es @ fs))" by (cases r) (auto intro: observing_lift)
qed

lemma observing_ignoringNotFound:
  assumes "observing m Q"
  shows "observing (ignoringNotFound m) (\<lambda>found es. \<forall>x. found = Some x \<longrightarrow> Q x es)"
  unfolding ignoringNotFound_def
proof (rule observing_bind [OF observing_try [OF assms]])
  fix r :: "rcError + 'a" and es assume "\<forall>x. r = Inr x \<longrightarrow> Q x es"
  then show "observing (case r of Inl e \<Rightarrow> if IsNotFoundError e then returnA None else throwA e | Inr x \<Rightarrow> returnA (Some x))
      (\<lambda>found fs. \<forall>x. found = Some x \<longrightarrow> Q x (es @ fs))"
    by (cases r) (auto intro: observing_throw observing_return)
qed

lemma observing_cases [observations]:
  "(b \<Longrightarrow> observing m Q) \<Longrightarrow> (\<not> b \<Longrightarrow> observing n Q) \<Longrightarrow> observing (if b then m else n) Q"
  "(v = None \<Longrightarrow> observing m Q) \<Longrightarrow> (\<And>x. v = Some x \<Longrightarrow> observing (f x) Q) \<Longrightarrow> observing (case v of None \<Rightarrow> m | Some x \<Rightarrow> f x) Q"
  by (auto split: option.splits)

text \<open>What a computation does besides reading are its effects; a computation that only reads has a result in a settled world.\<close>

definition effects :: "'e list \<Rightarrow> 'e list" where
  "effects log = filter (\<lambda>e. \<not> isRead e) log"

lemma effects_append [simp]: "effects (log @ es) = effects log @ effects es"
  by (simp add: effects_def)

lemma effects_reads [simp]: "list_all isRead es \<Longrightarrow> effects es = []"
  by (simp add: effects_def list_all_iff)

lemma effects_Nil [simp]: "effects [] = []"
  by (simp add: effects_def)

lemma effect_split:
  assumes "e \<in> set (effects log)"
  obtains prior later where "log = prior @ e # later"
  using assms split_list [of e log] by (auto simp: effects_def)

definition quiet :: "('s, rcError, 'a) act \<Rightarrow> rcError + 'a \<Rightarrow> bool" where
  "quiet m r \<longleftrightarrow> (\<forall>s. \<exists>s'. m s = (r, s') \<and> scopeOf s' = scopeOf s \<and> effects (logOf s') = effects (logOf s))"

lemma quiet_run:
  assumes "quiet m r"
  obtains s1 where "m s = (r, s1)" "scopeOf s1 = scopeOf s" "effects (logOf s1) = effects (logOf s)"
  using assms unfolding quiet_def by blast

lemma quiet_pure: "(\<And>s. m s = (r, s)) \<Longrightarrow> quiet m r"
  by (simp add: quiet_def)

lemma quiet_units: "quiet (returnA x) (Inr x)" "quiet (throwA e) (Inl e)" "quiet (liftA r) r" "quiet (guardA ok e) (if ok then Inr () else Inl e)"
  by (rule quiet_pure, simp add: returnA_def throwA_def liftA_def guardA_def guardE_def)+

lemma quiet_bind:
  assumes "quiet m (Inr x)" "quiet (f x) r"
  shows "quiet (bindA m f) r"
  unfolding quiet_def
proof
  fix s
  obtain s1 where s1: "m s = (Inr x, s1)" "scopeOf s1 = scopeOf s" "effects (logOf s1) = effects (logOf s)" by (rule quiet_run [OF assms(1)])
  obtain s2 where "f x s1 = (r, s2)" "scopeOf s2 = scopeOf s1" "effects (logOf s2) = effects (logOf s1)" by (rule quiet_run [OF assms(2)])
  with s1 show "\<exists>s'. bindA m f s = (r, s') \<and> scopeOf s' = scopeOf s \<and> effects (logOf s') = effects (logOf s)" by (simp add: bindA_def)
qed

lemma quiet_bind_guard: "ok \<Longrightarrow> quiet (f ()) r \<Longrightarrow> quiet (bindA (guardA ok e) f) r"
  by (rule quiet_bind [of _ "()"]) (use quiet_units(4) [of ok e] in auto)

lemma quiet_bind_lift: "x = Inr y \<Longrightarrow> quiet (f y) r \<Longrightarrow> quiet (bindA (liftA x) f) r"
  by (rule quiet_bind [of _ y]) (use quiet_units(3) [of x] in auto)

lemma quiet_guard: "ok \<Longrightarrow> quiet (guardA ok e) (Inr ())"
  using quiet_units(4) [of ok e] by simp

lemma quiet_try: "quiet m r \<Longrightarrow> quiet (tryA m) (Inr r)"
  unfolding quiet_def tryA_def by (metis case_prod_conv)

lemma quiet_failingAs: "quiet m (Inr x) \<Longrightarrow> quiet (failingAs h m) (Inr x)"
  unfolding failingAs_def by (rule quiet_bind [OF quiet_try]) (use quiet_units(3) [of "mapErr h (Inr x)"] in auto)

lemma quiet_ignoringNotFound: "quiet m (Inr x) \<Longrightarrow> quiet (ignoringNotFound m) (Inr (Some x))"
  unfolding ignoringNotFound_def by (rule quiet_bind [OF quiet_try], assumption) (use quiet_units(1) [of "Some x"] in simp)

end

section \<open>The law of a reconciler\<close>

locale reconciler_law = logged logOf scopeOf isRead
  for logOf :: "'s \<Rightarrow> 'e list" and scopeOf :: "'s \<Rightarrow> 'c" and isRead :: "'e \<Rightarrow> bool" +
  fixes acquired :: "string \<Rightarrow> 'e" and released :: "string \<Rightarrow> 'e" and justified :: "'e list \<Rightarrow> 'e \<Rightarrow> bool" and fits :: "'e list \<Rightarrow> 'c \<Rightarrow> bool"
  assumes read_justified: "isRead e \<Longrightarrow> justified log e"
    and read_not_released: "isRead e \<Longrightarrow> e \<noteq> released uid"
    and lock_justified: "justified log (acquired uid)" "justified log (released uid)"
    and fits_mono: "fits log c \<Longrightarrow> fits (log @ es) c"
begin

definition lawful :: "'e list \<Rightarrow> bool" where
  "lawful log \<longleftrightarrow> (\<forall>prior e later. log = prior @ e # later \<longrightarrow> justified prior e)"

definition lockedSince :: "string \<Rightarrow> 'e list \<Rightarrow> 'e list \<Rightarrow> bool" where
  "lockedSince uid log since \<longleftrightarrow> (\<exists>before_lock. log = before_lock @ acquired uid # since) \<and> released uid \<notin> set since"

definition Inv :: "'s \<Rightarrow> bool" where
  "Inv s \<longleftrightarrow> lawful (logOf s) \<and> fits (logOf s) (scopeOf s)"

definition locked :: "string \<Rightarrow> 'e list \<Rightarrow> 's \<Rightarrow> bool" where
  "locked uid since s \<longleftrightarrow> Inv s \<and> lockedSince uid (logOf s) since"

lemma lawful_Nil: "lawful []"
  by (simp add: lawful_def)

lemma lawful_snoc: "lawful (log @ [e]) \<longleftrightarrow> lawful log \<and> justified log e"
proof
  assume "lawful (log @ [e])"
  then show "lawful log \<and> justified log e"
    unfolding lawful_def by (metis append.assoc append_Cons append_Nil)
next
  assume "lawful log \<and> justified log e"
  then show "lawful (log @ [e])" unfolding lawful_def
    by (auto simp: append_eq_append_conv2 append_eq_Cons_conv Cons_eq_append_conv)
qed

lemma lawful_reads: "list_all isRead es \<Longrightarrow> lawful (log @ es) \<longleftrightarrow> lawful log"
proof (induction es rule: rev_induct)
  case (snoc e es)
  then have "lawful (log @ es @ [e]) \<longleftrightarrow> lawful (log @ es) \<and> justified (log @ es) e"
    using lawful_snoc [of "log @ es" e] by simp
  then show ?case using snoc read_justified by auto
qed simp

lemma lockedSince_append: "lockedSince uid log since \<Longrightarrow> released uid \<notin> set es \<Longrightarrow> lockedSince uid (log @ es) (since @ es)"
  by (auto simp: lockedSince_def)

lemma lockedSince_acquired: "lockedSince uid (log @ [acquired uid]) []"
  by (auto simp: lockedSince_def)

lemma lockedSince_reads: "lockedSince uid log since \<Longrightarrow> list_all isRead es \<Longrightarrow> lockedSince uid (log @ es) (since @ es)"
  by (rule lockedSince_append) (use read_not_released in \<open>auto simp: list_all_iff\<close>)

lemma Inv_extend: "Inv s \<Longrightarrow> logOf s' = logOf s @ [e] \<Longrightarrow> scopeOf s' = scopeOf s \<Longrightarrow> justified (logOf s) e \<Longrightarrow> Inv s'"
  by (auto simp: Inv_def lawful_snoc fits_mono)

lemma Inv_reads: "Inv s \<Longrightarrow> logOf s' = logOf s @ es \<Longrightarrow> list_all isRead es \<Longrightarrow> scopeOf s' = scopeOf s \<Longrightarrow> Inv s'"
  by (auto simp: Inv_def lawful_reads fits_mono)

lemma locked_Inv: "locked uid since s \<Longrightarrow> Inv s"
  by (simp add: locked_def)

text \<open>Running on after an observation under the lock.\<close>

lemma observing_locked:
  assumes "observing m Q"
  shows "triple (locked uid since) m (\<lambda>x s. \<exists>es. locked uid (since @ es) s \<and> Q x es) (\<lambda>_ s. \<exists>es. locked uid (since @ es) s)"
proof (rule tripleI)
  fix s
  assume s: "locked uid since s"
  obtain r s' where run: "m s = (r, s')" by fastforce
  obtain es where es: "scopeOf s' = scopeOf s" "logOf s' = logOf s @ es" "list_all isRead es" "\<forall>x. r = Inr x \<longrightarrow> Q x es"
    by (rule observingD [OF assms run])
  have "locked uid (since @ es) s'"
    using s es Inv_reads [of s s' es] by (simp add: locked_def lockedSince_reads)
  with es(4) run show "post (\<lambda>x s. \<exists>es. locked uid (since @ es) s \<and> Q x es) (\<lambda>_ s. \<exists>es. locked uid (since @ es) s) (m s)"
    by (cases r) auto
qed

lemma observe_then:
  assumes "observing m Q" "\<And>x es. Q x es \<Longrightarrow> triple (locked uid (since @ es)) (f x) R E"
    and "\<And>e s. \<exists>es. locked uid (since @ es) s \<Longrightarrow> E e s"
  shows "triple (locked uid since) (bindA m f) R E"
proof (rule triple_bind)
  show "triple (locked uid since) m (\<lambda>x s. \<exists>es. locked uid (since @ es) s \<and> Q x es) E"
    by (rule triple_conseq [OF observing_locked [OF assms(1)]]) (use assms(3) in auto)
  show "triple (\<lambda>s. \<exists>es. locked uid (since @ es) s \<and> Q x es) (f x) R E" for x
    by (rule triple_ex, rule triple_fact) (rule assms(2))
qed

text \<open>Facts about the log that stay true, and computations that keep them with the law.\<close>

definition growing :: "('e list \<Rightarrow> bool) \<Rightarrow> bool" where
  "growing M \<longleftrightarrow> (\<forall>log es. M log \<longrightarrow> M (log @ es))"

definition steady :: "('e list \<Rightarrow> bool) \<Rightarrow> 's \<Rightarrow> bool" where
  "steady M s \<longleftrightarrow> Inv s \<and> M (logOf s)"

lemma Inv_steady: "Inv = steady (\<lambda>_. True)"
  by (simp add: steady_def fun_eq_iff)

lemma growing_const: "growing (\<lambda>_. C)"
  by (simp add: growing_def)

lemma steady_reads:
  assumes "steady M s" "growing M" "logOf s' = logOf s @ es" "list_all isRead es" "scopeOf s' = scopeOf s"
  shows "steady M s'"
  using assms Inv_reads [of s s' es] by (simp add: steady_def growing_def)

lemma observe_steady:
  assumes "observing m Q" "growing M" "\<And>x es. Q x es \<Longrightarrow> triple (\<lambda>s. steady M s \<and> (\<exists>prior. logOf s = prior @ es)) (f x) R E"
    and "\<And>e s. steady M s \<Longrightarrow> E e s"
  shows "triple (steady M) (bindA m f) R E"
proof (rule triple_bind [where R = "\<lambda>x s. \<exists>es. (steady M s \<and> (\<exists>prior. logOf s = prior @ es)) \<and> Q x es"])
  show "triple (steady M) m (\<lambda>x s. \<exists>es. (steady M s \<and> (\<exists>prior. logOf s = prior @ es)) \<and> Q x es) E"
  proof (rule tripleI)
    fix s
    assume s: "steady M s"
    obtain r s' where run: "m s = (r, s')" by fastforce
    obtain es where es: "scopeOf s' = scopeOf s" "logOf s' = logOf s @ es" "list_all isRead es" "\<forall>x. r = Inr x \<longrightarrow> Q x es"
      by (rule observingD [OF assms(1) run])
    with steady_reads [OF s assms(2)] have "steady M s'" by blast
    with es run assms(4) show "post (\<lambda>x s. \<exists>es. (steady M s \<and> (\<exists>prior. logOf s = prior @ es)) \<and> Q x es) E (m s)" by (cases r) auto
  qed
  show "triple (\<lambda>s. \<exists>es. (steady M s \<and> (\<exists>prior. logOf s = prior @ es)) \<and> Q x es) (f x) R E" for x
    by (rule triple_ex, rule triple_fact) (rule assms(3))
qed

lemma observe_value:
  assumes "observing m (\<lambda>x _. Q x)" "growing M" "\<And>x. Q x \<Longrightarrow> triple (steady M) (f x) R E" "\<And>e s. steady M s \<Longrightarrow> E e s"
  shows "triple (steady M) (bindA m f) R E"
  by (rule observe_steady [OF assms(1,2)]) (use assms(3,4) in \<open>auto intro: triple_pre\<close>)

lemma observing_steady:
  assumes "observing m Q" "growing M"
  shows "keeps (steady M) m"
proof (rule keepsI, rule tripleI)
  fix s
  assume s: "steady M s"
  obtain r s' where run: "m s = (r, s')" by fastforce
  obtain es where "scopeOf s' = scopeOf s" "logOf s' = logOf s @ es" "list_all isRead es" by (rule observingD [OF assms(1) run])
  then have "steady M s'" using steady_reads [OF s assms(2)] by blast
  with run show "post (\<lambda>_. steady M) (\<lambda>_. steady M) (m s)" by (cases r) simp_all
qed

lemma observing_keeps: "observing m Q \<Longrightarrow> keeps Inv m"
  unfolding Inv_steady by (rule observing_steady) (auto intro: growing_const)

lemma keeps_observed:
  assumes "observing m (\<lambda>x _. Q x)" "growing M" "\<And>x. Q x \<Longrightarrow> keeps (steady M) (f x)"
  shows "keeps (steady M) (bindA m f)"
  using assms by (auto intro!: keepsI observe_value dest: keepsD)

text \<open>A call that leaves one event in the log.\<close>

definition calls :: "('s, rcError, 'a) act \<Rightarrow> ('q \<Rightarrow> rcError + 'a) \<Rightarrow> ('q \<Rightarrow> 'e) \<Rightarrow> bool" where
  "calls m h ev \<longleftrightarrow> (\<forall>s. \<exists>q s'. m s = (h q, s') \<and> logOf s' = logOf s @ [ev q] \<and> scopeOf s' = scopeOf s)"

lemma calls_triple:
  assumes "calls m h ev" "\<And>s q. P s \<Longrightarrow> Inv s \<and> justified (logOf s) (ev q)"
  shows "triple P m (\<lambda>x s. Inv s \<and> (\<exists>q. h q = Inr x \<and> ev q \<in> set (logOf s))) (\<lambda>_. Inv)"
proof (rule tripleI)
  fix s assume "P s"
  obtain q s' where m: "m s = (h q, s')" "logOf s' = logOf s @ [ev q]" "scopeOf s' = scopeOf s" using assms(1) unfolding calls_def by blast
  have "Inv s'" by (rule Inv_extend [of s]) (use m assms(2) [OF \<open>P s\<close>] in auto)
  with m show "post (\<lambda>x s. Inv s \<and> (\<exists>q. h q = Inr x \<and> ev q \<in> set (logOf s))) (\<lambda>_. Inv) (m s)" by (cases "h q") auto
qed

lemma calls_steady:
  assumes "calls m h ev" "growing M" "\<And>log q. M log \<Longrightarrow> justified log (ev q)"
  shows "keeps (steady M) m"
proof (rule keepsI, rule tripleI)
  fix s assume s: "steady M s"
  obtain q s' where m: "m s = (h q, s')" "logOf s' = logOf s @ [ev q]" "scopeOf s' = scopeOf s" using assms(1) unfolding calls_def by blast
  have "Inv s'" by (rule Inv_extend [of s]) (use m s assms(3) in \<open>auto simp: steady_def\<close>)
  then have "steady M s'" using s m assms(2) by (simp add: steady_def growing_def)
  with m show "post (\<lambda>_. steady M) (\<lambda>_. steady M) (m s)" by (cases "h q") auto
qed

text \<open>Taking the lock and releasing it when the call returns.\<close>

definition acquires :: "string \<Rightarrow> ('s, rcError, unit) act \<Rightarrow> bool" where
  "acquires uid m \<longleftrightarrow> (\<forall>s. \<exists>r s'. m s = (r, s') \<and> scopeOf s' = scopeOf s \<and> logOf s' = (case r of Inl _ \<Rightarrow> logOf s | Inr _ \<Rightarrow> logOf s @ [acquired uid]))"

definition releases :: "string \<Rightarrow> ('s \<Rightarrow> 's) \<Rightarrow> bool" where
  "releases uid d \<longleftrightarrow> (\<forall>s. scopeOf (d s) = scopeOf s \<and> logOf (d s) = logOf s @ [released uid])"

lemma acquires_locks:
  assumes "acquires uid m"
  shows "triple Inv m (\<lambda>_. locked uid []) (\<lambda>_. Inv)"
proof (rule tripleI)
  fix s assume s: "Inv s"
  obtain r s' where m: "m s = (r, s')" "scopeOf s' = scopeOf s" "logOf s' = (case r of Inl _ \<Rightarrow> logOf s | Inr _ \<Rightarrow> logOf s @ [acquired uid])"
    using assms unfolding acquires_def by blast
  show "post (\<lambda>_. locked uid []) (\<lambda>_. Inv) (m s)"
  proof (cases r)
    case (Inl e)
    then show ?thesis using m s by (simp add: Inv_def)
  next
    case (Inr x)
    then have "Inv s'" using m by (intro Inv_extend [OF s]) (auto simp: lock_justified)
    then show ?thesis using Inr m by (simp add: locked_def lockedSince_acquired)
  qed
qed

lemma locked_region:
  assumes "acquires uid a" "releases uid d" "triple (locked uid []) m (\<lambda>x s. Inv s \<and> Q x (logOf s)) (\<lambda>_. Inv)" "\<And>x log e. Q x log \<Longrightarrow> Q x (log @ [e])"
  shows "triple Inv (bindA a (\<lambda>_. deferA d m)) (\<lambda>x s. Inv s \<and> Q x (logOf s)) (\<lambda>_. Inv)"
proof -
  have release: "Inv s \<Longrightarrow> Inv (d s)" for s
    by (rule Inv_extend [of s]) (use assms(2) in \<open>auto simp: releases_def lock_justified\<close>)
  have "triple (locked uid []) (deferA d m) (\<lambda>x s. Inv s \<and> Q x (logOf s)) (\<lambda>_. Inv)"
    by (rule triple_defer, rule triple_conseq [OF assms(3)]) (use assms(2,4) in \<open>auto intro: release simp: releases_def\<close>)
  then show ?thesis by (rule triple_bind [OF acquires_locks [OF assms(1)]])
qed

end

end
