(* ===== verification/RouteLaw.thy ===== *)
theory RouteLaw
  imports RouteReconciler RouteSpecs ReconcilerLogs
begin

text \<open>
  What the route reconciler promises, whatever the API server, the provider and other controllers do: the log
  of a reconciliation is lawful. Every call of the provider happens under the graph lock of the Gateway, after a live
  read showed the binding that authorises it; a binding is given up only after the provider reported that the
  resources are gone; and a route is reported as programmed only when the provider reported it ready.
\<close>

section \<open>The law\<close>

definition heldSince :: "string \<Rightarrow> routeEvent list \<Rightarrow> routeEvent list \<Rightarrow> bool" where
  "heldSince uid log since \<longleftrightarrow> (\<exists>before_lock. log = before_lock @ AcquiredGraph uid # since) \<and> ReleasedGraph uid \<notin> set since"

definition sawRoute :: "routeEvent list \<Rightarrow> HTTPRoute \<Rightarrow> bool" where
  "sawRoute es route \<longleftrightarrow> (\<exists>reader namespace name. ReadAPI True reader \<in> set es \<and> rd_HTTPRoute reader namespace name = Inr route)"

definition sawGateway :: "routeEvent list \<Rightarrow> Gateway \<Rightarrow> bool" where
  "sawGateway es gateway \<longleftrightarrow> (\<exists>reader namespace name. ReadAPI True reader \<in> set es \<and> rd_Gateway reader namespace name = Inr gateway)"

definition stores :: "'w routeEnv \<Rightarrow> HTTPRoute \<Rightarrow> Identity \<Rightarrow> bool" where
  "stores env route i \<longleftrightarrow> StoredRouteIdentity (rv_finalizers env) (rv_Config env) (ht_Meta route) = Inr (Some i)"

definition boundGateway :: "'w routeEnv \<Rightarrow> Gateway \<Rightarrow> bool" where
  "boundGateway env gateway \<longleftrightarrow> \<not> om_Deleting (gw_Meta gateway) \<and>
     ContainsFinalizer (rv_finalizers env) (gw_Meta gateway) (GatewayFinalizer (rv_Config env)) \<and>
     isOk (ValidateGatewayBinding (rv_finalizers env) (rv_Config env) (gw_Meta gateway))"

definition mayEnsure :: "'w routeEnv \<Rightarrow> routeEvent list \<Rightarrow> Identity \<Rightarrow> bool" where
  "mayEnsure env log i \<longleftrightarrow> (\<exists>since route gateway. heldSince (GatewayUID i) log since \<and>
     sawRoute since route \<and> stores env route i \<and> hasRouteFinalizer env route \<and>
     sawGateway since gateway \<and> boundGateway env gateway \<and> om_UID (gw_Meta gateway) = GatewayUID i)"

definition mayDelete :: "'w routeEnv \<Rightarrow> routeEvent list \<Rightarrow> Identity \<Rightarrow> bool" where
  "mayDelete env log i \<longleftrightarrow> (\<exists>since route. heldSince (GatewayUID i) log since \<and> sawRoute since route \<and> stores env route i)"

definition resourcesGone :: "routeEvent list \<Rightarrow> Identity \<Rightarrow> bool" where
  "resourcesGone log i \<longleftrightarrow> (\<exists>outcome. CalledDeleteRoute i (Inr outcome) \<in> set log \<and> o_State outcome = OutcomeReady)"

definition rebinds :: "'w routeEnv \<Rightarrow> routeEvent list \<Rightarrow> HTTPRoute \<Rightarrow> HTTPRoute \<Rightarrow> Identity \<Rightarrow> bool" where
  "rebinds env log base desired i \<longleftrightarrow> (\<exists>gateway since. desired = bindTo env gateway base \<and>
     SameGatewayIdentity i (RouteIdentity (rv_Config env) (gw_Meta gateway) (ht_Meta base)) \<and> heldSince (GatewayUID i) log since)"

definition mayPatch :: "'w routeEnv \<Rightarrow> routeEvent list \<Rightarrow> HTTPRoute \<Rightarrow> HTTPRoute \<Rightarrow> bool" where
  "mayPatch env log base desired \<longleftrightarrow> (\<forall>i. stores env base i \<longrightarrow>
     stores env desired i \<and> (hasRouteFinalizer env base \<longrightarrow> hasRouteFinalizer env desired) \<or> rebinds env log base desired i \<or> resourcesGone log i)"

text \<open>A parent status of this controller that claims the route is programmed.\<close>

definition claimsProgrammed :: "'w routeEnv \<Rightarrow> RouteParentStatus \<Rightarrow> bool" where
  "claimsProgrammed env parent \<longleftrightarrow> ps_ControllerName parent = cf_ControllerName (rv_Config env) \<and>
     (\<exists>condition. FindStatusCondition (rv_conditions env) (ps_Conditions parent) (programmedType (rv_Config env)) = Some condition \<and>
        co_Status condition = ConditionTrue)"

definition wasReady :: "routeEvent list \<Rightarrow> bool" where
  "wasReady log \<longleftrightarrow> (\<exists>spec r. CalledEnsureRoute spec (Inr r) \<in> set log \<and> o_State (rres_Outcome r) = OutcomeReady)"

definition wasProgrammed :: "'w routeEnv \<Rightarrow> routeEvent list \<Rightarrow> bool" where
  "wasProgrammed env log \<longleftrightarrow> (\<exists>route. sawRoute log route \<and> list_ex (claimsProgrammed env) (ht_Parents route))"

definition mayPublish :: "'w routeEnv \<Rightarrow> routeEvent list \<Rightarrow> HTTPRoute \<Rightarrow> HTTPRoute \<Rightarrow> bool" where
  "mayPublish env log base desired \<longleftrightarrow> list_ex (claimsProgrammed env) (ht_Parents desired) \<longrightarrow>
     wasReady log \<or> wasProgrammed env log \<or> list_ex (claimsProgrammed env) (ht_Parents base)"

definition justified :: "'w routeEnv \<Rightarrow> routeEvent list \<Rightarrow> routeEvent \<Rightarrow> bool" where
  "justified env log e = (case e of
      CalledEnsureRoute spec _ \<Rightarrow> mayEnsure env log (rs_Identity spec)
    | CalledDeleteRoute i _ \<Rightarrow> mayDelete env log i
    | PatchedRoute base desired _ \<Rightarrow> mayPatch env log base desired
    | PatchedStatus base desired _ \<Rightarrow> mayPublish env log base desired
    | _ \<Rightarrow> True)"

definition isRead :: "routeEvent \<Rightarrow> bool" where
  "isRead e \<longleftrightarrow> (\<exists>live reader. e = ReadAPI live reader)"

lemma saw_mono:
  "sawRoute es route \<Longrightarrow> sawRoute (es @ fs) route" "sawRoute fs route \<Longrightarrow> sawRoute (es @ fs) route"
  "sawGateway es gateway \<Longrightarrow> sawGateway (es @ fs) gateway" "sawGateway fs gateway \<Longrightarrow> sawGateway (es @ fs) gateway"
  by (auto simp: sawRoute_def sawGateway_def)

lemma backed_mono: "wasReady log \<Longrightarrow> wasReady (log @ es)" "wasProgrammed env log \<Longrightarrow> wasProgrammed env (log @ es)"
  by (auto simp: wasReady_def wasProgrammed_def intro: saw_mono)

section \<open>The invariant\<close>

text \<open>Together with the law: the status planned in the scope claims that the route is programmed only when that is backed.\<close>

definition claims :: "parentStatusUpdate list \<Rightarrow> bool" where
  "claims updates \<longleftrightarrow> list_ex (\<lambda>update. programmed (up_status update) = ConditionTrue) updates"

definition planOK :: "'w routeEnv \<Rightarrow> routeEvent list \<Rightarrow> routeStatusPlan \<Rightarrow> bool" where
  "planOK env log p = (case pl_kind p of
      routeStatusPlanReplace \<Rightarrow> claims (pl_updates p) \<longrightarrow> wasReady log \<or> wasProgrammed env log
    | routeStatusPlanProviderFailure \<Rightarrow> \<not> claims (pl_updates p)
    | routeStatusPlanDeletingFailure \<Rightarrow> \<exists>policy. pl_policy p = Some policy \<and> fp_ConditionStatus policy \<noteq> ConditionTrue)"

definition planned :: "'w routeEnv \<Rightarrow> routeEvent list \<Rightarrow> httpRouteScope \<Rightarrow> bool" where
  "planned env log scope \<longleftrightarrow> (\<forall>p. hs_statusPlan scope = Some p \<longrightarrow> planOK env log p)"

lemma planOK_mono: "planOK env log p \<Longrightarrow> planOK env (log @ es) p"
  by (auto simp: planOK_def intro: backed_mono split: routeStatusPlanKind.splits)

interpretation route?: logged rt_log rt_scope isRead
  by unfold_locales

interpretation route?: reconciler_law rt_log rt_scope isRead AcquiredGraph ReleasedGraph "justified env" "planned env" for env :: "'w routeEnv"
  by unfold_locales (auto simp: justified_def isRead_def planned_def planOK_mono)

text \<open>The invariant and its variants, by the environment.\<close>

abbreviation Inv :: "'w routeEnv \<Rightarrow> 'w routeState \<Rightarrow> bool" where
  "Inv env \<equiv> reconciler_law.Inv rt_log rt_scope (justified env) (planned env)"

abbreviation steady :: "'w routeEnv \<Rightarrow> (routeEvent list \<Rightarrow> bool) \<Rightarrow> 'w routeState \<Rightarrow> bool" where
  "steady env \<equiv> reconciler_law.steady rt_log rt_scope (justified env) (planned env)"

abbreviation locked :: "'w routeEnv \<Rightarrow> string \<Rightarrow> routeEvent list \<Rightarrow> 'w routeState \<Rightarrow> bool" where
  "locked env \<equiv> reconciler_law.locked rt_log rt_scope AcquiredGraph ReleasedGraph (justified env) (planned env)"

abbreviation lawful :: "'w routeEnv \<Rightarrow> routeEvent list \<Rightarrow> bool" where
  "lawful env \<equiv> reconciler_law.lawful (justified env)"

lemma held_lockedSince: "lockedSince uid log since \<longleftrightarrow> heldSince uid log since"
  by (simp add: lockedSince_def heldSince_def)

section \<open>Observing\<close>

lemma observing_read [observations]: "(\<And>reader. Q reader [ReadAPI live reader]) \<Longrightarrow> observing (readAPI env live) Q"
  by (auto simp: observing_def readAPI_def isRead_def split: prod.splits)

lemma observing_orChanged [observations]:
  assumes "observing m Q"
  shows "observing (orChanged m) Q"
  unfolding orChanged_def
proof (rule observing_bind [OF observing_try [OF assms]])
  fix r :: "rcError + 'b" and es assume "\<forall>x. r = Inr x \<longrightarrow> Q x es"
  then show "observing (case r of Inl e \<Rightarrow> throwA (changedBy e) | Inr x \<Rightarrow> returnA x) (\<lambda>y fs. Q y (es @ fs))"
    by (cases r) (simp_all add: observing_throw observing_return)
qed

section \<open>Primitive calls\<close>

lemma route_calls:
  "calls (patchRoute env base desired) (mapErr patchErrorOf) (PatchedRoute base desired)"
  "calls (callEnsureRoute env spec) (mapErr ProviderFailure) (CalledEnsureRoute spec)"
  "calls (callDeleteRoute env i) (mapErr ProviderFailure) (CalledDeleteRoute i)"
  by (auto simp: calls_def patchRoute_def callEnsureRoute_def callDeleteRoute_def split: prod.splits)

lemma graph_lock: "acquires uid (acquireGraph env uid)" "releases uid (releaseGraph env uid)"
  by (auto simp: acquires_def releases_def acquireGraph_def releaseGraph_def split: prod.splits)

lemma patchRoute_triple:
  assumes "\<And>s. P s \<Longrightarrow> Inv env s \<and> mayPatch env (rt_log s) base desired"
  shows "triple P (patchRoute env base desired) (\<lambda>_. Inv env) (\<lambda>_. Inv env)"
  by (rule triple_conseq [OF calls_triple [where P = P, OF route_calls(1)]]) (use assms in \<open>auto simp: justified_def\<close>)

lemma withGraph_triple:
  assumes "triple (locked env uid []) m (\<lambda>x s. Inv env s \<and> Q x (rt_log s)) (\<lambda>_. Inv env)" "\<And>x log e. Q x log \<Longrightarrow> Q x (log @ [e])"
  shows "triple (Inv env) (withGraph env uid m) (\<lambda>x s. Inv env s \<and> Q x (rt_log s)) (\<lambda>_. Inv env)"
  unfolding withGraph_def by (rule locked_region [OF graph_lock assms])

lemma keeps_withGraph: "triple (locked env uid []) m (\<lambda>_. Inv env) (\<lambda>_. Inv env) \<Longrightarrow> keeps (Inv env) (withGraph env uid m)"
  using withGraph_triple [of env uid m "\<lambda>_ _. True"] by (simp add: keeps_def)

section \<open>Reading objects\<close>

text \<open>The API server returns the object with the requested key.\<close>

definition keyedReader :: "apiReader \<Rightarrow> bool" where
  "keyedReader reader \<longleftrightarrow>
     (\<forall>namespace name route. rd_HTTPRoute reader namespace name = Inr route \<longrightarrow> om_Namespace (ht_Meta route) = namespace \<and> om_Name (ht_Meta route) = name) \<and>
     (\<forall>namespace name gateway. rd_Gateway reader namespace name = Inr gateway \<longrightarrow> om_Namespace (gw_Meta gateway) = namespace \<and> om_Name (gw_Meta gateway) = name)"

definition keyedReads :: "'w routeEnv \<Rightarrow> bool" where
  "keyedReads env \<longleftrightarrow> (\<forall>live w. keyedReader (fst (rv_read env live w)))"

definition sameKey :: "ObjectMeta \<Rightarrow> ObjectMeta \<Rightarrow> bool" where
  "sameKey m m' \<longleftrightarrow> om_Namespace m = om_Namespace m' \<and> om_Name m = om_Name m'"

lemma observing_reader:
  assumes "keyedReads env"
  shows "observing (readAPI env live) (\<lambda>reader es. keyedReader reader \<and> es = [ReadAPI live reader])"
proof (rule observingI)
  fix s r s'
  assume run: "readAPI env live s = (r, s')"
  obtain reader w where read: "rv_read env live (rt_world s) = (reader, w)" by fastforce
  then have "keyedReader reader" using assms unfolding keyedReads_def by (metis fst_conv)
  with run read show "rt_scope s' = rt_scope s \<and>
     (\<exists>es. rt_log s' = rt_log s @ es \<and> list_all isRead es \<and> (\<forall>x. r = Inr x \<longrightarrow> keyedReader x \<and> es = [ReadAPI live x]))"
    by (auto simp: readAPI_def isRead_def)
qed

lemma getHTTPRoute_observing:
  assumes "keyedReads env"
  shows "observing (getHTTPRoute env live route) (\<lambda>current es. sameKey (ht_Meta current) (ht_Meta route) \<and> (live \<longrightarrow> sawRoute es current))"
  unfolding getHTTPRoute_def
  by (rule observing_bind [OF observing_reader [OF assms]], rule observing_lift)
    (auto simp: mapErr_eq_Inr keyedReader_def sameKey_def sawRoute_def)

lemma getGateway_observing:
  assumes "keyedReads env"
  shows "observing (getGateway env gateway) (\<lambda>current es. sameKey (gw_Meta current) (gw_Meta gateway) \<and> sawGateway es current)"
  unfolding getGateway_def
  by (rule observing_bind [OF observing_reader [OF assms]], rule observing_lift)
    (auto simp: mapErr_eq_Inr keyedReader_def sameKey_def sawGateway_def)

lemma RouteIdentity_same:
  "sameKey g g' \<Longrightarrow> om_UID g = om_UID g' \<Longrightarrow> sameKey r r' \<Longrightarrow> om_UID r = om_UID r' \<Longrightarrow> RouteIdentity c g r = RouteIdentity c g' r'"
  by (simp add: RouteIdentity_def GatewayIdentity_def sameKey_def)

text \<open>Computations that only read, whatever they return.\<close>

lemma getGatewayClassOf_observing [observations]: "(\<And>x es. Q x es) \<Longrightarrow> observing (getGatewayClassOf env gateway) Q"
  unfolding getGatewayClassOf_def by (rule observing_bind [where Q = "\<lambda>_ _. True"]) (auto intro!: observations)

lemma slot_observing [observations]:
  "(\<And>x es. Q x es) \<Longrightarrow> observing (evaluateSlot env live route) Q"
  "(\<And>x es. Q' x es) \<Longrightarrow> observing (isSelected env live route parent) Q'"
  unfolding evaluateSlot_def isSelected_def by (rule observing_bind [where Q = "\<lambda>_ _. True"]; auto intro!: observations)+

lemma buildSpec_observing:
  "observing (buildSpec env route gateway) (\<lambda>spec _. rs_Identity spec = RouteIdentity (rv_Config env) (gw_Meta gateway) (ht_Meta route))"
  unfolding buildSpec_def
  by (rule observing_bind_value [where Q = "\<lambda>_. True"])
    (auto intro!: observations simp: mapErr_eq_Inr elim!: buildRouteSpec_cases)

section \<open>Observing the snapshots\<close>

lemma selectAndBuild_observing:
  "observing (selectAndBuildRouteModel env snapshot parent purpose)
     (\<lambda>x _. rs_Identity (snd x) = RouteIdentity (rv_Config env) (gw_Meta (vs_gateway snapshot)) (ht_Meta (vs_route snapshot)))"
proof -
  have slot: "observing (reserveSlot env purpose route) (\<lambda>_ _. True)" for route
    unfolding reserveSlot_def by (rule observing_bind_value [where Q = "\<lambda>_. True"]) (auto intro!: observations)
  have "observing (if b then reserveSlot env purpose route else returnA x) (\<lambda>_ _. True)" for b route x
    using slot by (auto intro: observations)
  then show ?thesis
    unfolding selectAndBuildRouteModel_def Let_def
    apply (intro observations)
    apply (rule observing_bind_value [where Q = "\<lambda>_. True"], assumption)
    apply (rule observing_bind_value [where Q = "\<lambda>_. True"], intro observations, simp)
    apply (intro observations)
    apply (rule observing_bind_value [OF observing_failingAs [OF buildSpec_observing]])
    apply (auto intro!: observations)
    done
qed

lemma observeInputs_observing:
  assumes "keyedReads env"
  shows "observing (observeRouteValidationInputs env expectedRoute expectedGateway purpose)
    (\<lambda>snapshot _. om_UID (gw_Meta (vs_gateway snapshot)) = om_UID (gw_Meta expectedGateway) \<and> vs_disposition snapshot = routeValidationReady)"
  unfolding observeRouteValidationInputs_def Let_def
  apply (intro observations)
  apply (rule observing_after [OF observing_orChanged [OF getHTTPRoute_observing [OF assms]]])
  apply (intro observations)
  apply (rule observing_after [OF observing_orChanged [OF getGateway_observing [OF assms]]])
  apply (intro observations)
  apply (rule observing_bind_value [where Q = "\<lambda>_. True"], intro observations, simp)
  apply (auto intro!: observations)
  done

definition routeSnapshotOK :: "'w routeEnv \<Rightarrow> string \<Rightarrow> routeValidationSnapshot \<Rightarrow> bool" where
  "routeSnapshotOK env uid snapshot \<longleftrightarrow> om_UID (gw_Meta (vs_gateway snapshot)) = uid \<and>
     (vs_disposition snapshot \<noteq> routeValidationGatewayPending \<longrightarrow>
        storedRouteIdentity env (vs_route snapshot) = Inr (rb_identity (vs_binding snapshot)) \<and>
        (\<exists>spec. vs_desired snapshot = Some spec \<and>
           rs_Identity spec = RouteIdentity (rv_Config env) (gw_Meta (vs_gateway snapshot)) (ht_Meta (vs_route snapshot))))"

lemma finish_ok:
  assumes "finishRouteBindingSnapshot env snapshot purpose = Inr snapshot'" "om_UID (gw_Meta (vs_gateway snapshot)) = uid"
    "vs_desired snapshot = Some spec" "rs_Identity spec = RouteIdentity (rv_Config env) (gw_Meta (vs_gateway snapshot)) (ht_Meta (vs_route snapshot))"
  shows "routeSnapshotOK env uid snapshot' \<and> (purpose = routeSnapshotForBinding \<longrightarrow> vs_disposition snapshot' = vs_disposition snapshot)"
proof -
  obtain stored where stored: "storedRouteIdentity env (vs_route snapshot) = Inr stored"
    using assms(1) by (auto simp: finishRouteBindingSnapshot_def bindE_eq_Inr)
  define b where "b = \<lparr>rb_identity = stored,
      rb_hasFinalizer = ContainsFinalizer (rv_finalizers env) (ht_Meta (vs_route snapshot)) (RouteFinalizer (rv_Config env)),
      rb_matchesDesired = (stored = Some (RouteIdentity (rv_Config env) (gw_Meta (vs_gateway snapshot)) (ht_Meta (vs_route snapshot))))\<rparr>"
  have "snapshot' = snapshot\<lparr>vs_binding := b\<rparr> \<or> purpose \<noteq> routeSnapshotForBinding \<and> (\<exists>d. snapshot' = snapshot\<lparr>vs_binding := b, vs_disposition := d\<rparr>)"
    using assms(1) unfolding finishRouteBindingSnapshot_def stored b_def [symmetric] Let_def
    by (simp add: bindE_eq_Inr b_def [symmetric] split: if_splits) blast+
  then show ?thesis
    using assms(2-4) stored by (elim disjE conjE exE) (simp_all add: routeSnapshotOK_def b_def)
qed

lemma validateParent_ok:
  assumes "validateRouteSnapshotParent env snapshot purpose = Inr (snapshot', parent)"
  shows "vs_gateway snapshot' = vs_gateway snapshot" "vs_route snapshot' = vs_route snapshot"
    "parent = None \<Longrightarrow> vs_disposition snapshot' = routeValidationGatewayPending \<and> purpose \<noteq> routeSnapshotForBinding"
    "parent \<noteq> None \<Longrightarrow> vs_disposition snapshot' = vs_disposition snapshot"
  using assms by (auto simp: validateRouteSnapshotParent_def Let_def split: sum.splits if_splits)

lemma snapshot_observing:
  assumes "keyedReads env"
  shows "observing (buildRouteValidationSnapshot env expectedRoute expectedGateway purpose)
    (\<lambda>snapshot _. routeSnapshotOK env (om_UID (gw_Meta expectedGateway)) snapshot \<and>
       (purpose = routeSnapshotForBinding \<longrightarrow> vs_disposition snapshot = routeValidationReady))"
  unfolding buildRouteValidationSnapshot_def
proof (rule observing_bind_value [OF observeInputs_observing [OF assms]], rule observing_bind_lift)
  fix snapshot :: routeValidationSnapshot and x
  assume uid: "om_UID (gw_Meta (vs_gateway snapshot)) = om_UID (gw_Meta expectedGateway) \<and> vs_disposition snapshot = routeValidationReady"
    and parent: "validateRouteSnapshotParent env snapshot purpose = Inr x"
  obtain snapshot' p where x: "x = (snapshot', p)" by fastforce
  note ok = validateParent_ok [OF parent [unfolded x]]
  show "observing (case x of (snapshot, None) \<Rightarrow> returnA snapshot
      | (snapshot, Some parent) \<Rightarrow>
          bindA (guardA (\<not> (purpose = routeSnapshotForBinding \<and> \<not> vs_gatewayProgrammed snapshot)) errHTTPRouteChanged)
            (\<lambda>_. bindA (selectAndBuildRouteModel env snapshot parent purpose)
              (\<lambda>(selection, desired). liftA (finishRouteBindingSnapshot env (snapshot\<lparr>vs_selection := selection, vs_desired := Some desired\<rparr>) purpose))))
      (\<lambda>snapshot _. routeSnapshotOK env (om_UID (gw_Meta expectedGateway)) snapshot \<and>
         (purpose = routeSnapshotForBinding \<longrightarrow> vs_disposition snapshot = routeValidationReady))"
  proof (cases p)
    case None
    then show ?thesis using x ok uid by (auto intro!: observations simp: routeSnapshotOK_def)
  next
    case (Some q)
    then have same: "om_UID (gw_Meta (vs_gateway snapshot')) = om_UID (gw_Meta expectedGateway)" "vs_disposition snapshot' = routeValidationReady"
      using uid ok by simp_all
    have fin: "routeSnapshotOK env (om_UID (gw_Meta expectedGateway)) snapshot'' \<and> (purpose = routeSnapshotForBinding \<longrightarrow> vs_disposition snapshot'' = routeValidationReady)"
      if "rs_Identity (snd y) = RouteIdentity (rv_Config env) (gw_Meta (vs_gateway snapshot')) (ht_Meta (vs_route snapshot'))"
        "finishRouteBindingSnapshot env (snapshot'\<lparr>vs_selection := fst y, vs_desired := Some (snd y)\<rparr>) purpose = Inr snapshot''" for y snapshot''
      using finish_ok [OF that(2), of "om_UID (gw_Meta expectedGateway)" "snd y"] that(1) same by simp
    show ?thesis unfolding x Some prod.case option.case
      by (rule observing_bind_guard, rule observing_bind_value [OF selectAndBuild_observing], simp add: case_prod_beta, rule observing_lift) (rule fin)
  qed
qed

lemma seal_observing:
  assumes "keyedReads env"
  shows "observing (sealRouteMutationSnapshot env snapshot requirement) (\<lambda>_ es. \<exists>route gateway.
    sawRoute es route \<and> sameKey (ht_Meta route) (ht_Meta (vs_route snapshot)) \<and> om_UID (ht_Meta route) = om_UID (ht_Meta (vs_route snapshot)) \<and>
    sawGateway es gateway \<and> sameKey (gw_Meta gateway) (gw_Meta (vs_gateway snapshot)) \<and>
    om_UID (gw_Meta gateway) = om_UID (gw_Meta (vs_gateway snapshot)) \<and> boundGateway env gateway \<and>
    (requirement = routeBindingRequired \<longrightarrow> stores env route (RouteIdentity (rv_Config env) (gw_Meta gateway) (ht_Meta route)) \<and> hasRouteFinalizer env route))"
  unfolding sealRouteMutationSnapshot_def Let_def
proof (rule observing_bind [OF observing_reader [OF assms]], rule observing_bind_lift,
    rule observing_bind [OF observing_orChanged [OF getHTTPRoute_observing [OF assms]]], rule observing_bind_guard,
    rule observing_bind [OF observing_orChanged [OF getGateway_observing [OF assms]]], rule observing_bind_guard, rule observing_bind_guard)
  fix reader es x route es' gateway es''
  let ?c = "rv_Config env" and ?k = "rv_finalizers env"
  assume route: "sameKey (ht_Meta route) (ht_Meta (vs_route snapshot)) \<and> (True \<longrightarrow> sawRoute es' route)" "sameRevision route (vs_route snapshot)"
    and gateway: "sameKey (gw_Meta gateway) (gw_Meta (vs_gateway snapshot)) \<and> sawGateway es'' gateway"
      "\<not> (om_UID (gw_Meta gateway) \<noteq> om_UID (gw_Meta (vs_gateway snapshot)) \<or>
        om_Generation (gw_Meta gateway) \<noteq> om_Generation (gw_Meta (vs_gateway snapshot)) \<or> om_Deleting (gw_Meta gateway))"
      "ContainsFinalizer ?k (gw_Meta gateway) (GatewayFinalizer ?c) \<and>
        GatewayBindingMetadataEqual ?k ?c (gw_Meta gateway) (gw_Meta (vs_gateway snapshot)) \<and> isOk (ValidateGatewayBinding ?k ?c (gw_Meta gateway))"
  let ?Q = "\<lambda>fs. \<exists>r g. sawRoute fs r \<and> sameKey (ht_Meta r) (ht_Meta (vs_route snapshot)) \<and> om_UID (ht_Meta r) = om_UID (ht_Meta (vs_route snapshot)) \<and>
    sawGateway fs g \<and> sameKey (gw_Meta g) (gw_Meta (vs_gateway snapshot)) \<and> om_UID (gw_Meta g) = om_UID (gw_Meta (vs_gateway snapshot)) \<and>
    boundGateway env g \<and> (requirement = routeBindingRequired \<longrightarrow> stores env r (RouteIdentity ?c (gw_Meta g) (ht_Meta r)) \<and> hasRouteFinalizer env r)"
  let ?bound = "requirement = routeBindingRequired \<longrightarrow> stores env route (RouteIdentity ?c (gw_Meta gateway) (ht_Meta route)) \<and> hasRouteFinalizer env route"
  have final: "?Q (es @ es' @ es'' @ fs)" if ?bound for fs
  proof (intro exI conjI)
    show "sawRoute (es @ es' @ es'' @ fs) route" "sawGateway (es @ es' @ es'' @ fs) gateway" using route gateway by (blast intro: saw_mono)+
    show "boundGateway env gateway" using gateway by (auto simp: boundGateway_def)
  qed (use that route gateway in \<open>auto simp: sameRevision_def sameHTTPRouteRevision_def\<close>)
  show "observing (bindA (if requirement = routeBindingRequired then
         bindA (liftA (storedRouteIdentity env route)) (\<lambda>stored. guardA (stored = Some (RouteIdentity ?c (gw_Meta gateway) (ht_Meta route)) \<and>
           ContainsFinalizer ?k (ht_Meta route) (RouteFinalizer ?c)) errHTTPRouteChanged) else returnA ()) (\<lambda>_.
       bindA (orChanged (getGatewayClassOf env gateway)) (\<lambda>gatewayClass.
       bindA (guardA (\<not> (gc_ControllerName gatewayClass \<noteq> cf_ControllerName ?c \<or> gc_ParametersRef gatewayClass)) errHTTPRouteChanged) (\<lambda>_.
       guardA (GatewayClassSupportsInstalledVersion (rv_conditions env) gatewayClass) UnsupportedVersionError))))
     (\<lambda>_ fs. ?Q (es @ es' @ es'' @ fs))"
  proof (rule observing_bind [where Q = "\<lambda>_ fs. ?bound \<and> fs = []"])
    show "observing (if requirement = routeBindingRequired then
         bindA (liftA (storedRouteIdentity env route)) (\<lambda>stored. guardA (stored = Some (RouteIdentity ?c (gw_Meta gateway) (ht_Meta route)) \<and>
           ContainsFinalizer ?k (ht_Meta route) (RouteFinalizer ?c)) errHTTPRouteChanged) else returnA ()) (\<lambda>_ fs. ?bound \<and> fs = [])"
      by (intro observations) (auto simp: storedRouteIdentity_def mapErr_eq_Inr stores_def hasRouteFinalizer_def)
  next
    fix y :: unit and fs :: "routeEvent list"
    assume "?bound \<and> fs = []"
    then have b: ?bound by blast
    show "observing (bindA (orChanged (getGatewayClassOf env gateway)) (\<lambda>gatewayClass.
       bindA (guardA (\<not> (gc_ControllerName gatewayClass \<noteq> cf_ControllerName ?c \<or> gc_ParametersRef gatewayClass)) errHTTPRouteChanged) (\<lambda>_.
       guardA (GatewayClassSupportsInstalledVersion (rv_conditions env) gatewayClass) UnsupportedVersionError)))
     (\<lambda>_ gs. ?Q (es @ es' @ es'' @ fs @ gs))"
      by (rule observing_bind [where Q = "\<lambda>_ _. True"]; intro observations) (use final [OF b] in simp_all)
  qed
qed

end
