(* ===== verification/RouteReconcilerSafety.thy ===== *)
theory RouteReconcilerSafety
  imports RouteLaw
begin

text \<open>
  The route reconciler keeps the law of the theory RouteLaw: first the operations that hold the graph lock,
  then the patches of the route, the statuses, and the reconciliation as a whole.
\<close>

section \<open>Under the graph lock\<close>

lemma stored_stores: "storedRouteIdentity env route = Inr (Some i) \<longleftrightarrow> stores env route i"
  by (simp add: storedRouteIdentity_def stores_def mapErr_eq_Inr)

lemma GatewayUID_RouteIdentity [simp]: "GatewayUID (RouteIdentity c gateway route) = om_UID gateway"
  by (simp add: RouteIdentity_def GatewayIdentity_def)

text \<open>Binding a route: the patch keeps the Gateway of a stored identity.\<close>

lemma transition_rebinds:
  assumes "validateRouteBindingTransition env snapshot = Inr ()" "routeSnapshotOK env uid snapshot" "vs_disposition snapshot \<noteq> routeValidationGatewayPending"
    and "heldSince uid log since"
  shows "mayPatch env log (vs_route snapshot) (bindTo env (vs_gateway snapshot) (vs_route snapshot))"
  unfolding mayPatch_def
proof (intro allI impI)
  fix i assume "stores env (vs_route snapshot) i"
  then have "rb_identity (vs_binding snapshot) = Some i"
    using assms(2,3) by (simp add: routeSnapshotOK_def stored_stores [symmetric])
  then have same: "SameGatewayIdentity i (RouteIdentity (rv_Config env) (gw_Meta (vs_gateway snapshot)) (ht_Meta (vs_route snapshot)))"
    using assms(1) by (simp add: validateRouteBindingTransition_def split: if_splits)
  then have "GatewayUID i = uid" using assms(2) by (simp add: SameGatewayIdentity_def routeSnapshotOK_def)
  with same assms(4) show "stores env (bindTo env (vs_gateway snapshot) (vs_route snapshot)) i \<and>
      (hasRouteFinalizer env (vs_route snapshot) \<longrightarrow> hasRouteFinalizer env (bindTo env (vs_gateway snapshot) (vs_route snapshot))) \<or>
      rebinds env log (vs_route snapshot) (bindTo env (vs_gateway snapshot) (vs_route snapshot)) i \<or> resourcesGone log i"
    unfolding rebinds_def by blast
qed

definition held :: "'w routeEnv \<Rightarrow> string \<Rightarrow> 'w routeState \<Rightarrow> bool" where
  "held env uid s \<longleftrightarrow> (\<exists>since. locked env uid since s)"

lemma held_Inv: "held env uid s \<Longrightarrow> Inv env s"
  by (auto simp: held_def locked_def held_lockedSince)

lemma observe_held:
  assumes "observing m Q" "\<And>x. (\<exists>es. Q x es) \<Longrightarrow> triple (held env uid) (f x) R E" "\<And>e s. held env uid s \<Longrightarrow> E e s"
  shows "triple (held env uid) (bindA m f) R E"
  unfolding held_def
proof (rule triple_ex, rule observe_then [OF assms(1)])
  fix since x es
  assume "Q x es"
  then have "triple (held env uid) (f x) R E" using assms(2) by blast
  then show "triple (locked env uid (since @ es)) (f x) R E" by (rule triple_pre) (auto simp: held_def)
qed (use assms(3) in \<open>auto simp: held_def\<close>)

lemma patch_held:
  assumes "\<And>log since. heldSince uid log since \<Longrightarrow> mayPatch env log base desired"
  shows "triple (held env uid) (patchRoute env base desired) (\<lambda>_. held env uid) (\<lambda>_. held env uid)"
proof (rule tripleI)
  fix s :: "'a routeState"
  assume "held env uid s"
  then obtain since where s: "Inv env s" "heldSince uid (rt_log s) since" by (auto simp: held_def locked_def held_lockedSince)
  obtain r w where r: "rv_patch env base desired (rt_world s) = (r, w)" by fastforce
  let ?s = "s\<lparr>rt_world := w, rt_log := rt_log s @ [PatchedRoute base desired r]\<rparr>"
  have "Inv env ?s" by (rule Inv_extend [OF s(1)]) (auto simp: justified_def assms [OF s(2)])
  moreover have "heldSince uid (rt_log ?s) (since @ [PatchedRoute base desired r])" using lockedSince_append [unfolded held_lockedSince, OF s(2)] by simp
  ultimately have "held env uid ?s" by (auto simp: held_def locked_def held_lockedSince)
  then show "post (\<lambda>_. held env uid) (\<lambda>_. held env uid) (patchRoute env base desired s)"
    by (cases r) (simp_all add: patchRoute_def \<open>rv_patch env base desired (rt_world s) = (r, w)\<close>)
qed

text \<open>Changing the scope keeps the invariant unless a plan is put in.\<close>

lemma changeScope_held:
  assumes "\<And>scope. hs_statusPlan (f scope) = hs_statusPlan scope"
  shows "triple (held env uid) (changeScope f) (\<lambda>_. held env uid) (\<lambda>_. held env uid)"
  unfolding changeScope_def by (rule triple_modify) (use assms in \<open>auto simp: held_def locked_def held_lockedSince Inv_def planned_def\<close>)

lemma setRoute_held: "triple (held env uid) (setRoute route) (\<lambda>_. held env uid) (\<lambda>_. held env uid)"
  unfolding setRoute_def by (rule changeScope_held) simp

lemma bindAttempt_held:
  assumes "keyedReads env" "routeSnapshotOK env uid initial" "vs_disposition initial \<noteq> routeValidationGatewayPending" "uid = om_UID (gw_Meta gateway)"
  shows "triple (held env uid) (bindAttempt env route gateway initial n) (\<lambda>_. held env uid) (\<lambda>_. held env uid)"
proof -
  have "observing (buildRouteValidationSnapshot env route gateway routeSnapshotForBinding)
      (\<lambda>snapshot _. routeSnapshotOK env uid snapshot \<and> vs_disposition snapshot \<noteq> routeValidationGatewayPending)"
    using snapshot_observing [OF assms(1), of route gateway routeSnapshotForBinding] assms(4) by (auto elim: observing_weaken)
  then have snap: "observing (if n = rv_attempts env then returnA initial else buildRouteValidationSnapshot env route gateway routeSnapshotForBinding)
      (\<lambda>snapshot _. routeSnapshotOK env uid snapshot \<and> vs_disposition snapshot \<noteq> routeValidationGatewayPending)"
    using assms(2,3) by (simp add: observing_return)
  have step: "triple (held env uid)
      (if routeBindingMetadataEqual (ht_Meta base) (ht_Meta desired) then bindA (setRoute desired) (\<lambda>_. returnA False)
       else bindA (patchRoute env base desired) (\<lambda>patched. bindA (setRoute patched) (\<lambda>_. returnA True))) (\<lambda>_. held env uid) (\<lambda>_. held env uid)"
    if "\<And>log since. heldSince uid log since \<Longrightarrow> mayPatch env log base desired" for base desired
    by (intro triple_if triple_bind [OF setRoute_held] triple_bind [OF patch_held [OF that]] triple_return) auto
  show ?thesis
    unfolding bindAttempt_def Let_def
    by (rule observe_held [OF snap], rule triple_bind_lift, rule observe_held [OF seal_observing [OF assms(1)]], rule step)
      (auto intro: transition_rebinds)
qed

lemma bindRoute_held:
  assumes "keyedReads env" "routeSnapshotOK env uid initial" "vs_disposition initial \<noteq> routeValidationGatewayPending" "uid = om_UID (gw_Meta gateway)"
  shows "triple (held env uid) (bindRouteFromSnapshot env route gateway initial) (\<lambda>_. held env uid) (\<lambda>_. held env uid)"
  unfolding bindRouteFromSnapshot_def by (rule triple_retry [OF bindAttempt_held [OF assms]])

lemma callEnsureRoute_triple:
  assumes "\<And>s. P s \<Longrightarrow> Inv env s \<and> mayEnsure env (rt_log s) (rs_Identity spec)"
  shows "triple P (callEnsureRoute env spec) (\<lambda>r s. Inv env s \<and> (o_State (rres_Outcome r) = OutcomeReady \<longrightarrow> wasReady (rt_log s))) (\<lambda>_. Inv env)"
  by (rule triple_conseq [OF calls_triple [where P = P, OF route_calls(2)]])
    (use assms in \<open>auto simp: justified_def wasReady_def mapErr_eq_Inr\<close>)

lemma callDeleteRoute_triple:
  assumes "\<And>s. P s \<Longrightarrow> Inv env s \<and> mayDelete env (rt_log s) i"
  shows "triple P (callDeleteRoute env i) (\<lambda>outcome s. Inv env s \<and> CalledDeleteRoute i (Inr outcome) \<in> set (rt_log s)) (\<lambda>_. Inv env)"
  by (rule triple_conseq [OF calls_triple [where P = P, OF route_calls(3)]])
    (use assms in \<open>auto simp: justified_def mapErr_eq_Inr\<close>)

lemma sealed_mayEnsure:
  assumes "locked env uid (es @ fs) s" "routeSnapshotOK env uid snapshot" "vs_disposition snapshot \<noteq> routeValidationGatewayPending" "vs_desired snapshot = Some spec"
    and "sawRoute fs route" "sameKey (ht_Meta route) (ht_Meta (vs_route snapshot))" "om_UID (ht_Meta route) = om_UID (ht_Meta (vs_route snapshot))"
    and "sawGateway fs gateway" "sameKey (gw_Meta gateway) (gw_Meta (vs_gateway snapshot))" "om_UID (gw_Meta gateway) = om_UID (gw_Meta (vs_gateway snapshot))"
    and "boundGateway env gateway" "stores env route (RouteIdentity (rv_Config env) (gw_Meta gateway) (ht_Meta route))" "hasRouteFinalizer env route"
  shows "Inv env s \<and> mayEnsure env (rt_log s) (rs_Identity spec)"
proof -
  have i: "rs_Identity spec = RouteIdentity (rv_Config env) (gw_Meta gateway) (ht_Meta route)"
    using assms(2-4) RouteIdentity_same [OF assms(9,10,6,7)] by (simp add: routeSnapshotOK_def)
  have "om_UID (gw_Meta gateway) = uid" using assms(2,10) by (simp add: routeSnapshotOK_def)
  then show ?thesis
    using assms(1,11-13) saw_mono(2) [OF assms(5), of es] saw_mono(4) [OF assms(8), of es] unfolding mayEnsure_def i locked_def held_lockedSince GatewayUID_RouteIdentity by blast
qed

text \<open>An outcome that says ready comes from the provider.\<close>

definition backedOutcome :: "Outcome option \<Rightarrow> routeEvent list \<Rightarrow> bool" where
  "backedOutcome r log \<longleftrightarrow> (\<forall>outcome. r = Some outcome \<and> o_State outcome = OutcomeReady \<longrightarrow> wasReady log)"

lemma ensureRouteGraph_triple:
  assumes "keyedReads env"
  shows "triple (Inv env) (ensureRouteGraph env gateway)
    (\<lambda>r s. Inv env s \<and> backedOutcome r (rt_log s)) (\<lambda>_. Inv env)"
proof -
  let ?uid = "om_UID (gw_Meta gateway)" and ?Q = backedOutcome
  have finish: "triple (\<lambda>s. Inv env s \<and> (o_State (rres_Outcome r) = OutcomeReady \<longrightarrow> wasReady (rt_log s)))
      (bindA (validOutcome (rres_Outcome r)) (\<lambda>_. returnA (Some (rres_Outcome r)))) (\<lambda>r s. Inv env s \<and> ?Q r (rt_log s)) (\<lambda>_. Inv env)" for r
    unfolding validOutcome_def by (rule triple_bind_lift, rule triple_return) (auto simp: backedOutcome_def)
  have ready: "triple (locked env ?uid es) (bindA (sealRouteMutationSnapshot env snapshot routeBindingRequired) (\<lambda>_. case vs_desired snapshot of
        None \<Rightarrow> throwA PlainError
      | Some desired \<Rightarrow> bindA (failingAs WrappedError (callEnsureRoute env desired)) (\<lambda>r.
          bindA (validOutcome (rres_Outcome r)) (\<lambda>_. returnA (Some (rres_Outcome r)))))) (\<lambda>r s. Inv env s \<and> ?Q r (rt_log s)) (\<lambda>_. Inv env)"
    if ok: "routeSnapshotOK env ?uid snapshot" "vs_disposition snapshot = routeValidationReady" for snapshot es
  proof (rule observe_then [OF seal_observing [OF assms]], rule triple_option)
    fix fs desired
    assume "vs_desired snapshot = Some desired"
      and "\<exists>route g. sawRoute fs route \<and> sameKey (ht_Meta route) (ht_Meta (vs_route snapshot)) \<and> om_UID (ht_Meta route) = om_UID (ht_Meta (vs_route snapshot)) \<and>
        sawGateway fs g \<and> sameKey (gw_Meta g) (gw_Meta (vs_gateway snapshot)) \<and> om_UID (gw_Meta g) = om_UID (gw_Meta (vs_gateway snapshot)) \<and> boundGateway env g \<and>
        (routeBindingRequired = routeBindingRequired \<longrightarrow> stores env route (RouteIdentity (rv_Config env) (gw_Meta g) (ht_Meta route)) \<and> hasRouteFinalizer env route)"
    then have "Inv env s \<and> mayEnsure env (rt_log s) (rs_Identity desired)" if "locked env ?uid (es @ fs) s" for s
      using sealed_mayEnsure [OF that ok(1)] ok(2) by auto
    then show "triple (locked env ?uid (es @ fs)) (bindA (failingAs WrappedError (callEnsureRoute env desired)) (\<lambda>r.
        bindA (validOutcome (rres_Outcome r)) (\<lambda>_. returnA (Some (rres_Outcome r))))) (\<lambda>r s. Inv env s \<and> ?Q r (rt_log s)) (\<lambda>_. Inv env)"
      by (rule triple_bind [OF triple_failingAs [OF callEnsureRoute_triple] finish])
  qed (auto intro!: triple_throw simp: locked_def held_lockedSince)
  have bind: "triple (locked env ?uid es) (bindA (failingAs routeBindingCheckpointError (bindRouteFromSnapshot env route gateway snapshot)) (\<lambda>_. returnA None))
      (\<lambda>r s. Inv env s \<and> ?Q r (rt_log s)) (\<lambda>_. Inv env)"
    if "routeSnapshotOK env ?uid snapshot" "vs_disposition snapshot = routeValidationBindingRequired" for snapshot es route
  proof (rule triple_pre)
    show "triple (held env ?uid) (bindA (failingAs routeBindingCheckpointError (bindRouteFromSnapshot env route gateway snapshot)) (\<lambda>_. returnA None))
        (\<lambda>r s. Inv env s \<and> ?Q r (rt_log s)) (\<lambda>_. Inv env)"
      by (rule triple_bind [where R = "\<lambda>_. Inv env"], rule triple_failingAs, rule triple_conseq [OF bindRoute_held [OF assms that(1)]])
        (use that in \<open>auto intro!: triple_return simp: held_Inv backedOutcome_def\<close>)
  qed (auto simp: held_def)
  show ?thesis
    unfolding ensureRouteGraph_def scopeRoute_def
    apply (rule triple_bind [OF triple_get [where Q = "\<lambda>_. Inv env"]], assumption)
    apply (rule triple_bind_guard)
     apply (rule withGraph_triple [where Q = ?Q])
      apply (rule observe_then [OF snapshot_observing [OF assms]])
    subgoal premises ok for route snapshot es
    proof (cases "vs_disposition snapshot")
      case routeValidationGatewayPending
      then show ?thesis by (auto intro!: triple_return simp: locked_def held_lockedSince backedOutcome_def zeroOutcome_def)
    next
      case routeValidationBindingRequired
      then show ?thesis using ok bind by simp
    next
      case routeValidationReady
      then show ?thesis using ok ready by simp
    qed
      apply (auto simp: locked_def held_lockedSince backedOutcome_def intro: backed_mono)
    done
qed

lemma cleanup_observing:
  assumes "keyedReads env"
  shows "observing (buildRouteCleanupSnapshot env expected i) (\<lambda>snapshot es. cs_identity snapshot = i \<and> (\<exists>route. sawRoute es route \<and> stores env route i))"
proof -
  have parents: "observing (observeRouteParentsForCleanup env route) (\<lambda>_ _. True)" for route
    unfolding observeRouteParentsForCleanup_def by (rule observing_bind [OF observing_reader [OF assms]]) (auto intro: observing_lift)
  have spec: "observing (buildSpec env route gateway) (\<lambda>_ _. True)" for route gateway
    by (rule observing_weaken [OF buildSpec_observing]) simp
  have try_spec: "observing (tryA (buildSpec env route gateway)) (\<lambda>_ _. True)" for route gateway
    by (rule observing_weaken [OF observing_try [OF spec]]) simp
  have desired: "observing (routeStillDesired env route stored parent) (\<lambda>_ _. True)" for route stored parent
    unfolding routeStillDesired_def
    by (intro observations observing_bind_value [where Q = "\<lambda>_. True"] try_spec) (auto intro!: observations split: sum.splits)
  let ?S = "\<lambda>route. \<lparr>cs_route = route, cs_identity = i, cs_disposition = routeCleanupRequired\<rparr>"
  have rest: "observing (if om_Deleting (ht_Meta route) then returnA (?S route)
      else bindA (observeRouteParentsForCleanup env route) (\<lambda>observations.
       if routeCleanupAllowedDuringVersionMismatch observations i then returnA (?S route)
       else bindA (readAPI env True) (\<lambda>reader.
         bindA (liftA (mapErr versionErrorOf (ValidateInstalledGatewayAPIVersion (rv_consts env) (Some reader)))) (\<lambda>_.
         bindA (observeRouteParentsForCleanup env route) (\<lambda>observations.
         case managedParentsFromObservations observations of
            [parent] \<Rightarrow>
              if length (ht_ParentRefs route) \<noteq> 1 then returnA (?S route)
              else bindA (routeStillDesired env route i parent) (\<lambda>desired.
                returnA (if desired then (?S route)\<lparr>cs_disposition := routeCleanupStillDesired\<rparr> else ?S route))
          | _ \<Rightarrow> returnA (?S route)))))) (\<lambda>snapshot _. cs_identity snapshot = i)" for route
    by (intro observations observing_bind_value [where Q = "\<lambda>_. True"] parents)
      (auto intro!: observations observing_bind_value [where Q = "\<lambda>_. True"] desired split: list.splits)
  show ?thesis
    unfolding buildRouteCleanupSnapshot_def Let_def
    apply (rule observing_bind_guard)
    apply (rule observing_bind [OF observing_orChanged [OF getHTTPRoute_observing [OF assms]]])
    apply (rule observing_bind_guard)
    apply (rule observing_bind_lift)
    apply (rule observing_bind_guard)
    subgoal premises prems for route es stored
      by (rule observing_weaken [OF rest]) (use prems in \<open>auto simp: stored_stores intro: saw_mono\<close>)
    done
qed

lemma sealCleanup_observing:
  assumes "keyedReads env"
  shows "observing (sealRouteCleanupSnapshot env snapshot) (\<lambda>_ es. True)"
  unfolding sealRouteCleanupSnapshot_def
  by (rule observing_bind [OF observing_orChanged [OF getHTTPRoute_observing [OF assms]]]) (auto intro!: observations)

lemma deleteRoute_triple:
  assumes "keyedReads env"
  shows "triple (Inv env) (deleteRoute env expected i) (\<lambda>outcome s. Inv env s \<and> CalledDeleteRoute i (Inr outcome) \<in> set (rt_log s)) (\<lambda>_. Inv env)"
proof -
  have "triple (locked env (GatewayUID i) [])
      (bindA (buildRouteCleanupSnapshot env expected i) (\<lambda>snapshot. case cs_disposition snapshot of
          routeCleanupStillDesired \<Rightarrow> throwA errHTTPRouteChanged
        | routeCleanupRequired \<Rightarrow> bindA (sealRouteCleanupSnapshot env snapshot) (\<lambda>_. callDeleteRoute env (cs_identity snapshot))))
      (\<lambda>outcome s. Inv env s \<and> CalledDeleteRoute i (Inr outcome) \<in> set (rt_log s)) (\<lambda>_. Inv env)"
  proof (rule observe_then [OF cleanup_observing [OF assms]])
    fix snapshot :: routeCleanupSnapshot and es
    assume ok: "cs_identity snapshot = i \<and> (\<exists>route. sawRoute es route \<and> stores env route i)"
    have may: "Inv env s \<and> mayDelete env (rt_log s) i" if "locked env (GatewayUID i) (([] @ es) @ fs) s" for s fs
      using ok that unfolding mayDelete_def locked_def held_lockedSince by (auto intro: saw_mono)
    show "triple (locked env (GatewayUID i) ([] @ es)) (case cs_disposition snapshot of
          routeCleanupStillDesired \<Rightarrow> throwA errHTTPRouteChanged
        | routeCleanupRequired \<Rightarrow> bindA (sealRouteCleanupSnapshot env snapshot) (\<lambda>_. callDeleteRoute env (cs_identity snapshot)))
      (\<lambda>outcome s. Inv env s \<and> CalledDeleteRoute i (Inr outcome) \<in> set (rt_log s)) (\<lambda>_. Inv env)"
    proof (cases "cs_disposition snapshot")
      case routeCleanupRequired
      have "triple (locked env (GatewayUID i) ([] @ es)) (bindA (sealRouteCleanupSnapshot env snapshot) (\<lambda>_. callDeleteRoute env i))
        (\<lambda>outcome s. Inv env s \<and> CalledDeleteRoute i (Inr outcome) \<in> set (rt_log s)) (\<lambda>_. Inv env)"
        by (rule observe_then [OF sealCleanup_observing [OF assms]], rule callDeleteRoute_triple [OF may]) (auto simp: locked_def held_lockedSince)
      then show ?thesis using routeCleanupRequired ok by simp
    qed (auto intro: triple_throw simp: locked_def held_lockedSince)
  qed (auto simp: locked_def held_lockedSince)
  from withGraph_triple [where Q = "\<lambda>outcome log. CalledDeleteRoute i (Inr outcome) \<in> set log", OF this]
  show ?thesis unfolding deleteRoute_def by (intro triple_bind_guard) auto
qed

end
