(* ===== verification/RouteStatusSafety.thy ===== *)
theory RouteStatusSafety
  imports RouteReconcilerSafety
begin

text \<open>
  The rest of the route reconciler keeps the law: the patches of the route outside the lock, the statuses and
  the deferred patch of the status, and then a whole reconciliation.
\<close>

section \<open>Facts about the log that stay true\<close>

lemma growing_facts [simp]:
  "growing (\<lambda>_. C)" "growing wasReady" "growing (wasProgrammed env)" "growing (\<lambda>log. resourcesGone log i)" "growing (\<lambda>log. sawRoute log route)"
  by (auto simp: growing_def backed_mono resourcesGone_def intro: saw_mono)

lemma patchRoute_steady:
  assumes "growing M" "\<And>log. M log \<Longrightarrow> mayPatch env log base desired"
  shows "keeps (steady env M) (patchRoute env base desired)"
  by (rule calls_steady [OF route_calls(1) assms(1)]) (use assms(2) in \<open>simp add: justified_def\<close>)

lemma changeScope_steady: "(\<And>scope. hs_statusPlan (f scope) = hs_statusPlan scope) \<Longrightarrow> keeps (steady env M) (changeScope f)"
  unfolding changeScope_def by (rule keepsI, rule triple_modify) (auto simp: steady_def Inv_def planned_def)

lemma scope_steady [keeping]:
  "keeps (steady env M) (setRoute route)" "keeps (steady env M) (queueWarning warning)" "keeps (steady env M) (setPatchCause policy cause)"
  "keeps (steady env M) skipPatch" "keeps (steady env M) scopeRoute"
  by (auto simp: setRoute_def queueWarning_def setPatchCause_def skipPatch_def scopeRoute_def intro!: changeScope_steady keeping)

section \<open>Patches of the route\<close>

lemma stores_withAnnotation:
  assumes "finalizerLaws (rv_finalizers env)" "stores env route i"
  shows "stores env (withAnnotation route (RouteCleanupFailureAnnotation (rv_Config env)) v) i"
proof -
  let ?c = "rv_Config env" and ?m = "ht_Meta route"
  let ?m' = "?m\<lparr>om_Annotations := (om_Annotations ?m)(RouteCleanupFailureAnnotation ?c := v)\<rparr>"
  have "annotatedIdentity ?c ?m' = annotatedIdentity ?c ?m"
    using keys_distinct [of ?c] by (simp add: annotatedIdentity_def annotation_def)
  then have "boundTo (rv_finalizers env) ?c ?m' i" if "boundTo (rv_finalizers env) ?c ?m i"
    using that by (auto simp: boundTo_def finalizerLaws_rules(1) [OF assms(1)])
  then show ?thesis using assms(2) by (simp add: stores_def StoredRouteIdentity_Some withAnnotation_def)
qed

lemma finalizer_withAnnotation:
  "finalizerLaws (rv_finalizers env) \<Longrightarrow> hasRouteFinalizer env (withAnnotation route key v) = hasRouteFinalizer env route"
  by (simp add: hasRouteFinalizer_def withAnnotation_def finalizerLaws_rules(1))

lemma patchRouteCleanupFailure_keeps:
  assumes "finalizerLaws (rv_finalizers env)" "keyedReads env"
  shows "keeps (Inv env) (patchRouteCleanupFailure env route reason)"
proof -
  have patch: "keeps (steady env (\<lambda>_. True)) (patchRoute env current (withAnnotation current (RouteCleanupFailureAnnotation (rv_Config env)) v))" for current v
    by (rule patchRoute_steady) (auto simp: mayPatch_def finalizer_withAnnotation [OF assms(1)] intro: stores_withAnnotation [OF assms(1)])
  have read: "keeps (steady env (\<lambda>_. True)) (getHTTPRoute env live route)" for live
    by (rule observing_steady [OF getHTTPRoute_observing [OF assms(2)]]) simp
  show ?thesis
    unfolding patchRouteCleanupFailure_def Inv_steady Let_def
    by (intro keeping patch read)
qed

lemma setRouteCleanupFailure_keeps:
  assumes "finalizerLaws (rv_finalizers env)" "keyedReads env"
  shows "keeps (Inv env) (setRouteCleanupFailure env reason)"
  using patchRouteCleanupFailure_keeps [OF assms] unfolding setRouteCleanupFailure_def Inv_steady
  by (intro keeping) auto

lemma getBinding_observing:
  assumes "keyedReads env"
  shows "observing (getRouteBindingWithReader env live route)
    (\<lambda>binding _. \<forall>current stored. binding = Some (current, stored) \<longrightarrow> storedRouteIdentity env current = Inr stored)"
  unfolding getRouteBindingWithReader_def
  by (rule observing_bind_value [where Q = "\<lambda>_. True"], rule observing_weaken [OF observing_try [OF getHTTPRoute_observing [OF assms]]])
    (auto intro!: observations split: sum.splits)

lemma clearStored_keeps:
  assumes "keyedReads env" "growing M" "\<And>i log. expected = Some i \<Longrightarrow> M log \<Longrightarrow> resourcesGone log i"
  shows "keeps (steady env M) (clearStoredRouteBinding env route expected)"
proof -
  have patch: "keeps (steady env M) (patchRoute env current (clearBinding env current))" if "storedRouteIdentity env current = Inr expected" for current
    by (rule patchRoute_steady [OF assms(2)]) (use assms(3) that in \<open>auto simp: mayPatch_def stored_stores [symmetric]\<close>)
  have step: "keeps (steady env M) (bindA (guardA (stored = expected) errHTTPRouteChanged) (\<lambda>_.
      let cleared = clearBinding env current in
      if routeBindingMetadataEqual (ht_Meta current) (ht_Meta cleared) then setRoute cleared
      else bindA (ignoringNotFound (patchRoute env current cleared)) (\<lambda>patched. case patched of
         None \<Rightarrow> returnA ()
       | Some patched \<Rightarrow> setRoute patched)))" if "storedRouteIdentity env current = Inr stored" for current stored
  proof (cases "stored = expected")
    case True
    then show ?thesis unfolding Let_def by (intro keeping patch) (use that in simp)
  qed (simp add: guardA_def guardE_def bindA_def liftA_def keeps_def triple_def)
  show ?thesis
    unfolding clearStoredRouteBinding_def
    by (rule keeps_bind [OF keeps_pure(4)], rule keeps_retry, rule keeps_observed [OF getBinding_observing [OF assms(1)] assms(2)])
      (use step in \<open>auto intro: keeping split: option.splits\<close>)
qed

section \<open>Statuses in the scope\<close>

lemma setPlan_keeps:
  assumes "\<And>log. M log \<Longrightarrow> planOK env log p"
  shows "keeps (steady env M) (changeScope (\<lambda>scope. scope\<lparr>hs_statusPlan := Some p\<rparr>))"
  unfolding changeScope_def by (rule keepsI, rule triple_modify) (use assms in \<open>auto simp: steady_def Inv_def planned_def\<close>)

lemma setStatuses_keeps:
  assumes "\<And>log. M log \<Longrightarrow> claims updates \<Longrightarrow> wasReady log \<or> wasProgrammed env log"
  shows "keeps (steady env M) (setStatuses updates)"
  unfolding setStatuses_def by (rule setPlan_keeps) (use assms in \<open>auto simp: planOK_def replacePlan_def\<close>)

lemma setProviderFailureStatuses_keeps: "\<not> claims updates \<Longrightarrow> keeps (steady env M) (setProviderFailureStatuses updates policy b)"
  unfolding setProviderFailureStatuses_def by (rule setPlan_keeps) (simp add: planOK_def)

lemma setDeletingFailureStatus_keeps: "fp_ConditionStatus policy \<noteq> ConditionTrue \<Longrightarrow> keeps (steady env M) (setDeletingFailureStatus parent policy)"
  unfolding setDeletingFailureStatus_def by (rule setPlan_keeps) (simp add: planOK_def)

lemma status_not_true [simp]:
  "programmed (pendingRouteStatus msg) \<noteq> ConditionTrue" "programmed (rejectedRouteStatus reason msg) \<noteq> ConditionTrue"
  "programmed (unresolvedRouteStatus reason msg) \<noteq> ConditionTrue"
  by (simp_all add: pendingRouteStatus_def rejectedRouteStatus_def unresolvedRouteStatus_def)

lemma statusForRouteBuildError_not_true [simp]:
  "programmed (statusForRouteBuildError errText e) \<noteq> ConditionTrue" "programmed (rejectedServiceProfileStatus errText e) \<noteq> ConditionTrue"
proof -
  show "programmed (statusForRouteBuildError errText e) \<noteq> ConditionTrue"
    by (auto simp: statusForRouteBuildError_def Let_def split: option.splits routeErrorKind.splits)
  then show "programmed (rejectedServiceProfileStatus errText e) \<noteq> ConditionTrue" by (simp add: rejectedServiceProfileStatus_def)
qed

lemma claims_simps [simp]:
  "\<not> claims []" "claims [update] \<longleftrightarrow> programmed (up_status update) = ConditionTrue"
  "claims (map f xs) \<longleftrightarrow> (\<exists>x \<in> set xs. programmed (up_status (f x)) = ConditionTrue)"
  by (auto simp: claims_def list_ex_iff)

lemma claims_failure [simp]: "fp_ConditionStatus policy \<noteq> ConditionTrue \<Longrightarrow> \<not> claims (routeProviderFailureUpdates updates policy)"
  by (simp add: routeProviderFailureUpdates_def)

section \<open>Detaching a route\<close>

lemma afterDeletion_triple:
  assumes "finalizerLaws (rv_finalizers env)" "keyedReads env" "keeps (steady env (\<lambda>log. resourcesGone log i)) finished"
  shows "triple (\<lambda>s. Inv env s \<and> CalledDeleteRoute i (Inr outcome) \<in> set (rt_log s)) (afterDeletion env current outcome finished)
    (\<lambda>_. Inv env) (\<lambda>_. Inv env)"
proof -
  let ?P = "\<lambda>s. Inv env s \<and> CalledDeleteRoute i (Inr outcome) \<in> set (rt_log s)"
  have wait: "keeps (Inv env) (bindA (failingAs WrappedError (patchRouteCleanupFailure env current [])) (\<lambda>(_, current).
       bindA (setRoute current) (\<lambda>_. returnA (requeueAfter (ProviderProgressRequeueAfter outcome (om_UID (ht_Meta current)))))))"
    using patchRouteCleanupFailure_keeps [OF assms(1,2)] unfolding Inv_steady by (intro keeping)
  have go_on: "triple ?P finished (\<lambda>_. Inv env) (\<lambda>_. Inv env)" if "o_State outcome = OutcomeReady"
    by (rule triple_conseq [OF keepsD [OF assms(3)]]) (use that in \<open>auto simp: steady_def resourcesGone_def\<close>)
  have ready: "o_State outcome = OutcomeReady" if "mapErr (\<lambda>_. WrappedError PlainError) (Validate outcome) = Inr x" "o_State outcome \<noteq> OutcomeProgressing" for x
    using that by (cases "o_State outcome") (auto simp: Validate_def mapErr_eq_Inr split: if_splits)
  show ?thesis
    unfolding afterDeletion_def validOutcome_def
    by (rule triple_bind_lift, rule triple_if, rule triple_pre [OF keepsD [OF wait]]) (auto intro: go_on dest: ready)
qed

lemma clearDetached_keeps:
  assumes "keyedReads env"
  shows "keeps (steady env (\<lambda>log. resourcesGone log i)) (bindA (clearStoredRouteBinding env route (Some i)) (\<lambda>_. returnA noResult))"
  by (intro keeping clearStored_keeps [OF assms]) auto

lemma detachRoute_keeps:
  assumes "finalizerLaws (rv_finalizers env)" "keyedReads env"
  shows "keeps (Inv env) (detachRoute env)"
proof -
  have delete: "keeps (Inv env) (bindA (failingAs WrappedError (deleteRoute env current i)) (\<lambda>outcome.
      afterDeletion env current outcome (bindA (clearStoredRouteBinding env route (Some i)) (\<lambda>_. returnA noResult))))" for current i route
    by (rule keepsI, rule triple_bind [OF triple_failingAs [OF deleteRoute_triple [OF assms(2)]]],
        rule afterDeletion_triple [OF assms clearDetached_keeps [OF assms(2)]])
  have clear: "keeps (Inv env) (clearStoredRouteBinding env route None)" for route
    unfolding Inv_steady by (rule clearStored_keeps [OF assms(2)]) auto
  have read: "keeps (Inv env) (getRouteBindingWithReader env False route)" for route
    by (rule observing_keeps [OF getBinding_observing [OF assms(2)]])
  have scope: "keeps (Inv env) scopeRoute" unfolding Inv_steady by (intro keeping)
  show ?thesis
    unfolding detachRoute_def by (intro keeping delete clear read scope)
qed

lemma handleRouteFinalizationFailure_keeps:
  assumes "finalizerLaws (rv_finalizers env)" "keyedReads env"
  shows "keeps (Inv env) (handleRouteFinalizationFailure env i e)"
  using setRouteCleanupFailure_keeps [OF assms] policy_not_true(2) [of e]
  unfolding handleRouteFinalizationFailure_def Let_def Inv_steady
  by (cases "failurePolicyFor e") (auto intro!: keeping setDeletingFailureStatus_keeps)

lemma finalizeRoute_keeps:
  assumes "finalizerLaws (rv_finalizers env)" "keyedReads env"
  shows "keeps (Inv env) (finalizeRoute env)"
proof -
  have failed: "keeps (Inv env) (bindA (setRoute current) (\<lambda>_. handleRouteFinalizationFailure env i (WrappedError e)))" for current i e
    using handleRouteFinalizationFailure_keeps [OF assms] unfolding Inv_steady by (intro keeping)
  have delete: "keeps (Inv env) (bindA (tryA (deleteRoute env current i)) (\<lambda>r. case r of
      Inl e \<Rightarrow> bindA (setRoute current) (\<lambda>_. handleRouteFinalizationFailure env i (WrappedError e))
    | Inr outcome \<Rightarrow> afterDeletion env current outcome (bindA (clearStoredRouteBinding env route (Some i)) (\<lambda>_. returnA noResult))))" for current i route
  proof (rule keepsI, rule triple_bind [where R = "\<lambda>r s. case r of Inl _ \<Rightarrow> Inv env s | Inr outcome \<Rightarrow> Inv env s \<and> CalledDeleteRoute i (Inr outcome) \<in> set (rt_log s)"])
    show "triple (Inv env) (tryA (deleteRoute env current i)) (\<lambda>r s. case r of Inl _ \<Rightarrow> Inv env s
        | Inr outcome \<Rightarrow> Inv env s \<and> CalledDeleteRoute i (Inr outcome) \<in> set (rt_log s)) (\<lambda>_. Inv env)"
      by (rule triple_try) (simp add: deleteRoute_triple [OF assms(2)])
    fix r :: "rcError + Outcome"
    show "triple (\<lambda>s. case r of Inl _ \<Rightarrow> Inv env s | Inr outcome \<Rightarrow> Inv env s \<and> CalledDeleteRoute i (Inr outcome) \<in> set (rt_log s)) (case r of
        Inl e \<Rightarrow> bindA (setRoute current) (\<lambda>_. handleRouteFinalizationFailure env i (WrappedError e))
      | Inr outcome \<Rightarrow> afterDeletion env current outcome (bindA (clearStoredRouteBinding env route (Some i)) (\<lambda>_. returnA noResult)))
      (\<lambda>_. Inv env) (\<lambda>_. Inv env)"
      by (cases r) (simp_all add: keepsD [OF failed] afterDeletion_triple [OF assms clearDetached_keeps [OF assms(2)]])
  qed
  have read: "keeps (Inv env) (getRouteBindingWithReader env False route)" for route
    by (rule observing_keeps [OF getBinding_observing [OF assms(2)]])
  have scope: "keeps (Inv env) scopeRoute" unfolding Inv_steady by (intro keeping)
  show ?thesis
    unfolding finalizeRoute_def by (intro keeping delete read scope)
qed

section \<open>Publishing a status\<close>

lemma claimed_condition:
  assumes "conditionLaws (rv_conditions env)"
    and "claimsProgrammed env (parent\<lparr>ps_Conditions := SetCondition (rv_conditions env) conditions (Condition (programmedType (rv_Config env)) status reason msg g)\<rparr>)"
  shows "status = ConditionTrue"
proof -
  let ?v = "Condition (programmedType (rv_Config env)) status reason msg g"
  obtain d where "FindStatusCondition (rv_conditions env) (SetStatusCondition (rv_conditions env) conditions ?v) (co_Type ?v) = Some d" "co_Status d = co_Status ?v"
    by (rule conditionLaws_same [OF assms(1)])
  with assms(2) show ?thesis by (simp add: claimsProgrammed_def SetCondition_def Condition_def)
qed

lemma claimed_update:
  assumes "conditionLaws (rv_conditions env)"
    and "claimsProgrammed env (parent\<lparr>ps_Conditions := setConditions (rv_conditions env) (rv_Config env) status g g' g'' conditions\<rparr>)"
  shows "programmed status = ConditionTrue"
  using assms(2) claimed_condition [OF assms(1)] unfolding setConditions_def Let_def by blast

lemma otherParents_no_claim: "\<not> list_ex (claimsProgrammed env) (otherParents (rv_Config env) parents)"
  by (auto simp: list_ex_iff otherParents_def claimsProgrammed_def)

lemma distinctUpdates_subset: "set (distinctUpdates ns updates) \<subseteq> set updates"
  by (auto simp: distinctUpdates_def)

lemma updateFirst_set: "x \<in> set (updateFirst p f xs) \<Longrightarrow> x \<in> set xs \<or> (\<exists>y. x = f y)"
  by (induction xs) (auto split: if_splits)

lemma deleting_claims:
  assumes "conditionLaws (rv_conditions env)" "fp_ConditionStatus policy \<noteq> ConditionTrue"
    and "list_ex (claimsProgrammed env) (ht_Parents (fst (applyDeletingRouteProviderFailure (rv_conditions env) (rv_Config env) route parent policy)))"
  shows "list_ex (claimsProgrammed env) (ht_Parents route)"
proof -
  obtain x where x: "claimsProgrammed env x"
    "x \<in> set (ht_Parents (fst (applyDeletingRouteProviderFailure (rv_conditions env) (rv_Config env) route parent policy)))"
    using assms(3) by (auto simp: list_ex_iff)
  have "x \<in> set (ht_Parents route)"
    using x(2) claimed_condition [OF assms(1)] x(1) assms(2) unfolding applyDeletingRouteProviderFailure_def Let_def
    by (auto split: if_splits option.splits dest!: updateFirst_set)
  with x(1) show ?thesis by (auto simp: list_ex_iff)
qed

lemma applyPlan_claims:
  assumes "conditionLaws (rv_conditions env)" "planOK env log p"
  shows "mayPublish env log current (fst (applyPlan (rv_conditions env) (rv_Config env) p current))"
proof -
  let ?u = "rv_conditions env" and ?c = "rv_Config env"
  have "wasReady log \<or> wasProgrammed env log \<or> list_ex (claimsProgrammed env) (ht_Parents current)"
    if claim: "list_ex (claimsProgrammed env) (ht_Parents (fst (applyPlan ?u ?c p current)))"
  proof (cases "pl_kind p")
    case routeStatusPlanReplace
    then obtain update where "update \<in> set (distinctUpdates (om_Namespace (ht_Meta current)) (pl_updates p))" "programmed (up_status update) = ConditionTrue"
      using claim otherParents_no_claim [of env] claimed_update [OF assms(1)]
      by (auto simp: applyPlan_def applyRouteParentStatuses_def Let_def list_ex_iff)
    then have "claims (pl_updates p)" using distinctUpdates_subset by (auto simp: claims_def list_ex_iff)
    then show ?thesis using assms(2) routeStatusPlanReplace by (auto simp: planOK_def)
  next
    case routeStatusPlanProviderFailure
    then obtain update where "update \<in> set (distinctUpdates (om_Namespace (ht_Meta current)) (pl_updates p))" "programmed (up_status update) = ConditionTrue"
      using claim otherParents_no_claim [of env] claimed_update [OF assms(1)]
      by (auto simp: applyPlan_def applyRouteProviderFailureStatuses_def applyFailureUpdate_def Let_def list_ex_iff)
    then have "claims (pl_updates p)" using distinctUpdates_subset by (auto simp: claims_def list_ex_iff)
    then show ?thesis using assms(2) routeStatusPlanProviderFailure by (simp add: planOK_def)
  next
    case routeStatusPlanDeletingFailure
    then obtain policy where policy: "pl_policy p = Some policy" "fp_ConditionStatus policy \<noteq> ConditionTrue"
      using assms(2) by (auto simp: planOK_def)
    have "list_ex (claimsProgrammed env) (ht_Parents current)"
      by (rule deleting_claims [OF assms(1) policy(2), of current "the (pl_parent p)"])
        (use claim routeStatusPlanDeletingFailure policy(1) in \<open>simp add: applyPlan_def\<close>)
    then show ?thesis by blast
  qed
  then show ?thesis by (simp add: mayPublish_def)
qed

lemma patchStatus_steady:
  assumes "growing M" "\<And>log. M log \<Longrightarrow> mayPublish env log base desired"
  shows "keeps (steady env M) (patchStatus env base desired)"
proof (rule keepsI, rule tripleI)
  fix s :: "'a routeState"
  assume s: "steady env M s"
  obtain r w where r: "rv_patchStatus env base desired (rt_world s) = (r, w)" by fastforce
  have "Inv env (s\<lparr>rt_world := w, rt_log := rt_log s @ [PatchedStatus base desired r]\<rparr>)"
    by (rule Inv_extend [of env s]) (use s assms(2) in \<open>auto simp: justified_def steady_def\<close>)
  then have "steady env M (s\<lparr>rt_world := w, rt_log := rt_log s @ [PatchedStatus base desired r]\<rparr>)"
    using s assms(1) by (simp add: steady_def growing_def)
  then show "post (\<lambda>_. steady env M) (\<lambda>_. steady env M) (patchStatus env base desired s)"
    using r by (cases r) (simp_all add: patchStatus_def)
qed

lemma growing_planOK [simp]: "growing (\<lambda>log. planOK env log p)"
  by (simp add: growing_def planOK_mono)

lemma managedParents_observing: "observing (managedParents env live route) (\<lambda>_ _. True)"
  unfolding managedParents_def by (rule observing_bind_value [where Q = "\<lambda>_. True"]) (auto intro!: observations)

lemma ownership_observing: "observing (ownershipOf env p current) (\<lambda>_ _. True)"
  unfolding ownershipOf_def validateRouteStatusOwnership_def Let_def
  by (auto intro!: observing_bind_value [OF managedParents_observing] observations)

lemma patchHTTPRouteStatus_keeps:
  assumes "conditionLaws (rv_conditions env)" "keyedReads env"
  shows "keeps (steady env (\<lambda>log. planOK env log p)) (patchHTTPRouteStatus env route p)"
proof -
  let ?M = "\<lambda>log. planOK env log p"
  have patch: "keeps (steady env ?M) (patchStatus env current desired)"
    if "applyPlan (rv_conditions env) (rv_Config env) p current = (desired, transitioned)" for current desired transitioned
    by (rule patchStatus_steady) (use applyPlan_claims [OF assms(1), of _ p current] that in auto)
  have read: "keeps (steady env ?M) (getHTTPRoute env live route)" for live
    by (rule observing_steady [OF getHTTPRoute_observing [OF assms(2)]]) simp
  have owned: "keeps (steady env ?M) (ownershipOf env p current)" for current
    by (rule observing_steady [OF ownership_observing]) simp
  have publish: "keeps (steady env ?M) (case applyPlan (rv_conditions env) (rv_Config env) p current of (desired, transitioned) \<Rightarrow>
      if ht_Parents current = ht_Parents desired then bindA (setRoute desired) (\<lambda>_. returnA (True, False, transitioned))
      else bindA (patchStatus env current desired) (\<lambda>patched. bindA (setRoute patched) (\<lambda>_. returnA (True, True, transitioned))))" for current
  proof (cases "applyPlan (rv_conditions env) (rv_Config env) p current")
    case (Pair desired transitioned)
    show ?thesis unfolding Pair prod.case by (intro keeping patch [OF Pair])
  qed
  show ?thesis
    unfolding patchHTTPRouteStatus_def by (intro keeping read owned publish)
qed

lemma patchHTTPRoute_keeps:
  assumes "conditionLaws (rv_conditions env)" "keyedReads env"
  shows "keeps (Inv env) (patchHTTPRoute env)"
proof -
  have warn: "keeps (Inv env) (recordWarning env policy action)" for policy action
    unfolding recordWarning_def
    by (rule keeps_cases(1) [OF keeps_pure(1)], rule keepsI, rule triple_modify, erule Inv_extend [where e = "RecordedWarning policy action"])
      (simp_all add: justified_def)
  let ?status = "\<lambda>scope. case hs_statusPlan scope of None \<Rightarrow> returnA (True, False, False)
      | Some p \<Rightarrow> failingAs WrappedError (patchHTTPRouteStatus env (hs_route scope) p)"
  have status: "triple (\<lambda>s. Inv env s \<and> rt_scope s = scope) (?status scope) (\<lambda>_. Inv env) (\<lambda>_. Inv env)" for scope
  proof (rule triple_option)
    fix p assume "hs_statusPlan scope = Some p"
    then show "triple (\<lambda>s. Inv env s \<and> rt_scope s = scope) (failingAs WrappedError (patchHTTPRouteStatus env (hs_route scope) p)) (\<lambda>_. Inv env) (\<lambda>_. Inv env)"
      by (intro triple_conseq [OF keepsD [OF keeps_failingAs [OF patchHTTPRouteStatus_keeps [OF assms]]]])
        (auto simp: steady_def Inv_def planned_def)
  qed (auto intro: triple_return)
  have rest: "keeps (Inv env) (case x of (applied, changed, transitioned) \<Rightarrow> case hs_warning scope of
          None \<Rightarrow> returnA ()
        | Some warning \<Rightarrow>
            if applied \<and> warningDue warning changed transitioned then recordWarning env (wa_policy warning) (wa_action warning) else returnA ())" for x scope
    by (intro keeping warn)
  show ?thesis
    unfolding patchHTTPRoute_def
    apply (rule keepsI, rule triple_bind [OF triple_get [where Q = "\<lambda>scope s. Inv env s \<and> rt_scope s = scope"]])
     apply simp
    apply (rule triple_if)
     apply (rule triple_return, simp)
    apply (rule triple_bind [OF status keepsD [OF rest]])
    done
qed

section \<open>Reconciling\<close>

lemma handleRouteProviderFailure_keeps: "keeps (Inv env) (handleRouteProviderFailure env parent b e action)"
  using policy_not_true(1) [of e] unfolding handleRouteProviderFailure_def Inv_steady
  by (cases "failurePolicyFor e") (auto intro!: keeping setProviderFailureStatuses_keeps simp: providerFailureRouteStatus_def Let_def)

lemma handleRouteCleanupFailure_keeps:
  assumes "finalizerLaws (rv_finalizers env)" "keyedReads env"
  shows "keeps (Inv env) (handleRouteCleanupFailure env updates e)"
  using policy_not_true(2) [of e] setRouteCleanupFailure_keeps [OF assms] unfolding handleRouteCleanupFailure_def Inv_steady Let_def
  by (cases "failurePolicyFor e") (auto intro!: keeping setStatuses_keeps setProviderFailureStatuses_keeps)

text \<open>The status for an unsupported version repeats a programmed condition that a live read showed.\<close>

lemma unsupported_claims:
  assumes "programmed (unsupportedGatewayAPIVersionRouteStatus env current parentRef) = ConditionTrue" "sawRoute log current"
  shows "wasProgrammed env log"
proof -
  let ?ns = "om_Namespace (ht_Meta current)"
  obtain parent condition where parent: "find (\<lambda>parent. ps_ControllerName parent = cf_ControllerName (rv_Config env) \<and>
        ParentRefsEqual (ps_ParentRef parent) ?ns parentRef ?ns) (ht_Parents current) = Some parent"
    "FindStatusCondition (rv_conditions env) (ps_Conditions parent) (programmedType (rv_Config env)) = Some condition" "co_Status condition = ConditionTrue"
    using assms(1) by (auto simp: unsupportedGatewayAPIVersionRouteStatus_def Let_def unsupportedVersionRouteStatus_def split: option.splits if_splits)
  then have "claimsProgrammed env parent" "parent \<in> set (ht_Parents current)"
    by (auto simp: claimsProgrammed_def find_Some_iff)
  with assms(2) show ?thesis by (auto simp: wasProgrammed_def list_ex_iff)
qed

lemma recheck_observing: "observing (recheckVersion env parents) (\<lambda>_ _. True)"
  unfolding recheckVersion_def
  by (rule observing_cases(1), rule observing_return, simp, rule observing_bind_value [where Q = "\<lambda>_. True"])
    (auto intro!: observations split: sum.splits versionError.splits)

lemma clearPlan_keeps: "keeps (Inv env) (changeScope (\<lambda>scope. scope\<lparr>hs_statusPlan := None\<rparr>))"
  unfolding changeScope_def by (rule keepsI, rule triple_modify) (simp add: Inv_def planned_def)

lemma setRouteUnsupportedVersion_keeps:
  assumes "keyedReads env"
  shows "keeps (Inv env) (setRouteUnsupportedVersion env)"
proof -
  have skip: "keeps (steady env M) (bindA skipPatch (\<lambda>_. returnA noResult))" for M by (intro keeping)
  have parents: "keeps (steady env M) (managedParents env live current)" if "growing M" for M live current
    by (rule observing_steady [OF managedParents_observing that])
  have recheck: "keeps (steady env M) (recheckVersion env ps)" if "growing M" for M ps
    by (rule observing_steady [OF recheck_observing that])
  have publish: "keeps (steady env (\<lambda>log. sawRoute log current)) (setStatuses (map (\<lambda>parent. \<lparr>up_parent = mp_ref parent,
        up_status = unsupportedGatewayAPIVersionRouteStatus env current (mp_ref parent)\<rparr>) ps))" for current ps
    by (rule setStatuses_keeps) (auto dest: unsupported_claims)
  have found: "keeps (steady env (\<lambda>log. sawRoute log current)) (
      if \<not> sameHTTPRouteRevision (ht_Meta current) (om_UID (ht_Meta route)) (om_Generation (ht_Meta route)) False
      then bindA skipPatch (\<lambda>_. returnA noResult)
      else bindA (managedParents env True current) (\<lambda>parents.
        if parents = [] then bindA skipPatch (\<lambda>_. returnA noResult)
        else bindA (recheckVersion env parents) (\<lambda>recheck.
          bindA (setRoute current) (\<lambda>_.
          bindA (setStatuses (map (\<lambda>parent. \<lparr>up_parent = mp_ref parent,
            up_status = unsupportedGatewayAPIVersionRouteStatus env current (mp_ref parent)\<rparr>) parents)) (\<lambda>_.
          returnA (if recheck then requeueAfter (GatewayAPIVersionRequeueAfter (om_UID (ht_Meta current))) else noResult))))))" for current route
    by (intro keeping skip parents recheck publish growing_facts)
  show ?thesis
    unfolding setRouteUnsupportedVersion_def scopeRoute_def
    apply (rule keeps_bind [OF keeps_pure(5)])
    apply (rule keeps_bind [OF clearPlan_keeps])
    apply (rule keeps_bind [OF keeps_pure(4)])
    apply (unfold Inv_steady)
    apply (rule keepsI, rule observe_steady [OF observing_ignoringNotFound [OF getHTTPRoute_observing [OF assms]]])
      apply simp
    subgoal premises saw for route _ _ found es
    proof (cases found)
      case None
      then show ?thesis by (auto intro: triple_conseq [OF keepsD [OF skip]])
    next
      case (Some current)
      then have "sawRoute es current" using saw by simp
      then show ?thesis unfolding Some option.case
        by (intro triple_conseq [OF keepsD [OF found]]) (auto simp: steady_def intro: saw_mono)
    qed
    apply simp
    done
qed

lemma checkpoint_keeps:
  assumes "keyedReads env"
  shows "keeps (Inv env) (routeStatusCheckpointNeeded env)" "keeps (Inv env) (routeProviderFailureCheckpointExists env updates)"
    "\<not> claims updates \<Longrightarrow> keeps (Inv env) (routeCleanupStatusCheckpointNeeded env updates)"
proof -
  have read: "keeps (steady env (\<lambda>_. True)) (getHTTPRoute env live route)" for live route
    by (rule observing_steady [OF getHTTPRoute_observing [OF assms]]) simp
  have owned: "keeps (steady env (\<lambda>_. True)) (ownershipOf env p current)" for p current
    by (rule observing_steady [OF ownership_observing]) simp
  show needed: "keeps (Inv env) (routeStatusCheckpointNeeded env)"
    unfolding routeStatusCheckpointNeeded_def Inv_steady by (intro keeping read owned)
  show exists: "keeps (Inv env) (routeProviderFailureCheckpointExists env updates)"
    unfolding routeProviderFailureCheckpointExists_def Inv_steady by (intro keeping read)
  show "keeps (Inv env) (routeCleanupStatusCheckpointNeeded env updates)" if "\<not> claims updates"
    using needed exists that unfolding routeCleanupStatusCheckpointNeeded_def Inv_steady by (intro keeping setStatuses_keeps) auto
qed

lemma setRouteStatusesAndDetach_keeps:
  assumes "finalizerLaws (rv_finalizers env)" "keyedReads env" "\<not> claims updates"
  shows "keeps (Inv env) (setRouteStatusesAndDetach env updates)"
  using detachRoute_keeps [OF assms(1,2)] checkpoint_keeps(3) [OF assms(2,3)] setRouteUnsupportedVersion_keeps [OF assms(2)]
    handleRouteCleanupFailure_keeps [OF assms(1,2)] assms(3)
  unfolding setRouteStatusesAndDetach_def Let_def Inv_steady by (intro keeping setStatuses_keeps) auto

lemma claims_count [simp]: "\<not> claims (unsupportedParentCountUpdates parents)"
  by (simp add: unsupportedParentCountUpdates_def)

lemma decision_observing: "observing (buildCachedRouteDecision env route) (\<lambda>decision _. \<not> claims (cd_statusUpdates decision))"
proof -
  have slot: "observing (if b then evaluateSlot env live route else returnA x) (\<lambda>_ _. True)" for b live route x
    by (auto intro: observations)
  have decide: "observing (validateCachedRouteDecision env route parent decision) (\<lambda>decision _. \<not> claims (cd_statusUpdates decision))"
    if "\<not> claims (cd_statusUpdates decision)" for parent decision
    using that unfolding validateCachedRouteDecision_def Let_def
    by (auto intro!: observing_bind_value [OF slot] observing_bind_value [where Q = "\<lambda>_. True"] observations simp: detachDecision_def split: sum.splits)
  show ?thesis
    unfolding buildCachedRouteDecision_def Let_def
    by (rule observing_bind_value [where Q = "\<lambda>_. True"], rule observing_weaken [OF observing_try [OF managedParents_observing]])
      (auto intro!: observing_bind_lift observations decide split: sum.splits list.splits)
qed

lemma publishOutcome_triple:
  "triple (\<lambda>s. Inv env s \<and> backedOutcome (Some outcome) (rt_log s)) (publishOutcome env parent outcome) (\<lambda>_. Inv env) (\<lambda>_. Inv env)"
proof -
  let ?M = "\<lambda>log. o_State outcome = OutcomeReady \<longrightarrow> wasReady log"
  have "keeps (steady env ?M) (publishOutcome env parent outcome)"
    unfolding publishOutcome_def Let_def
    by (cases "o_State outcome") (auto intro!: keeping setStatuses_keeps)
  from triple_conseq [OF keepsD [OF this]] show ?thesis by (auto simp: steady_def backedOutcome_def)
qed

lemma reconcileSelectedRouteGraph_keeps:
  assumes "finalizerLaws (rv_finalizers env)" "keyedReads env"
  shows "keeps (Inv env) (reconcileSelectedRouteGraph env parent)"
proof -
  let ?P = "\<lambda>r s. case r of Inl _ \<Rightarrow> Inv env s | Inr outcome \<Rightarrow> Inv env s \<and> backedOutcome outcome (rt_log s)"
  let ?failed = "\<lambda>err. if isError err UnsupportedVersionError then setRouteUnsupportedVersion env
        else (case asBindingError err of
           Some bindingError \<Rightarrow> throwA (WrappedError bindingError)
         | None \<Rightarrow>
             if asBuildError err \<noteq> None \<or> IsNotFoundError err then
               setRouteStatusesAndDetach env [\<lparr>up_parent = mp_ref parent, up_status = statusForRouteBuildError (rv_text env) err\<rparr>]
             else if isError err errHTTPRouteChanged then throwA err
             else handleRouteProviderFailure env (mp_ref parent) True err ''EnsureHTTPRoute'')"
  have failed: "keeps (Inv env) (?failed err)" for err
    by (intro keeping setRouteUnsupportedVersion_keeps [OF assms(2)] setRouteStatusesAndDetach_keeps [OF assms] handleRouteProviderFailure_keeps) simp
  have ensure: "triple (Inv env) (tryA (ensureRouteGraph env (mp_gateway parent))) ?P (\<lambda>_. Inv env)"
    by (rule triple_try) (simp add: ensureRouteGraph_triple [OF assms(2)])
  have rest: "triple (?P r) (case r of Inl err \<Rightarrow> ?failed err | Inr None \<Rightarrow> returnA requeueNow | Inr (Some outcome) \<Rightarrow> publishOutcome env parent outcome)
      (\<lambda>_. Inv env) (\<lambda>_. Inv env)" for r
  proof (cases r)
    case (Inl err)
    then show ?thesis using keepsD [OF failed] by simp
  next
    case (Inr x)
    then show ?thesis by (cases x) (auto intro: triple_return publishOutcome_triple)
  qed
  show ?thesis
    unfolding reconcileSelectedRouteGraph_def by (rule keepsI, rule triple_bind [OF ensure rest])
qed

lemma detachPreviousGateway_keeps:
  assumes "finalizerLaws (rv_finalizers env)" "keyedReads env"
  shows "keeps (Inv env) (detachPreviousGateway env gateway)"
proof -
  have read: "keeps (steady env (\<lambda>_. True)) (getHTTPRoute env live route)" for live route
    by (rule observing_steady [OF getHTTPRoute_observing [OF assms(2)]]) simp
  show ?thesis
    using detachRoute_keeps [OF assms] unfolding detachPreviousGateway_def Inv_steady by (intro keeping read)
qed

lemma reconcile_keeps:
  assumes "finalizerLaws (rv_finalizers env)" "keyedReads env"
  shows "keeps (Inv env) (reconcileSelectedRoute env parent stored)" "keeps (Inv env) (reconcileNormal env)" "keeps (Inv env) (reconcileDelete env)"
proof -
  show selected: "keeps (Inv env) (reconcileSelectedRoute env parent stored)" for parent stored
    using reconcileSelectedRouteGraph_keeps [OF assms] detachPreviousGateway_keeps [OF assms] setRouteUnsupportedVersion_keeps [OF assms(2)]
      handleRouteProviderFailure_keeps checkpoint_keeps(3) [OF assms(2)]
    unfolding reconcileSelectedRoute_def Let_def Inv_steady by (intro keeping setStatuses_keeps) auto
  have branch: "keeps (Inv env) (case cd_disposition decision of
        cachedRouteUnsupportedVersion \<Rightarrow> setRouteUnsupportedVersion env
      | cachedRouteDetach \<Rightarrow> setRouteStatusesAndDetach env (cd_statusUpdates decision)
      | cachedRouteReady \<Rightarrow> reconcileSelectedRoute env (the (cd_parent decision)) (cd_storedIdentity decision))"
    if "\<not> claims (cd_statusUpdates decision)" for decision
    using selected setRouteUnsupportedVersion_keeps [OF assms(2)] setRouteStatusesAndDetach_keeps [OF assms that]
    by (cases "cd_disposition decision") simp_all
  show "keeps (Inv env) (reconcileNormal env)"
    unfolding reconcileNormal_def Inv_steady
    by (rule keeps_bind [OF scope_steady(5)], rule keeps_observed [OF decision_observing]) (use branch in \<open>simp_all add: Inv_steady\<close>)
  show "keeps (Inv env) (reconcileDelete env)"
    using finalizeRoute_keeps [OF assms] unfolding reconcileDelete_def Inv_steady by (intro keeping)
qed

lemma Reconcile_keeps:
  assumes "finalizerLaws (rv_finalizers env)" "conditionLaws (rv_conditions env)" "keyedReads env"
  shows "keeps (Inv env) (Reconcile env namespace name)"
proof -
  have scope: "observing (newHTTPRouteScope env namespace name) (\<lambda>r _. \<forall>scope. r = Some scope \<longrightarrow> hs_statusPlan scope = None)"
    unfolding newHTTPRouteScope_def
    by (rule observing_bind_value [where Q = "\<lambda>_. True"]) (auto intro!: observations simp: newScope_def split: sum.splits readError.splits)
  have new: "keeps (Inv env) (changeScope (\<lambda>_. scope))" if "hs_statusPlan scope = None" for scope
    unfolding changeScope_def by (rule keepsI, rule triple_modify) (simp add: Inv_def planned_def that)
  have patched: "keeps (Inv env) (withStatusPatch env m)" if "keeps (Inv env) m" for m
    unfolding withStatusPatch_def by (intro keeping that patchHTTPRoute_keeps [OF assms(2,3)])
  have rest: "keeps (Inv env) (case r of None \<Rightarrow> returnA noResult
      | Some scope \<Rightarrow> bindA (changeScope (\<lambda>_. scope)) (\<lambda>_.
          withStatusPatch env (if om_Deleting (ht_Meta (hs_route scope)) then reconcileDelete env else reconcileNormal env)))"
    if "\<forall>scope. r = Some scope \<longrightarrow> hs_statusPlan scope = None" for r
    using that by (cases r) (auto intro!: keeping new patched reconcile_keeps [OF assms(1,3)])
  show ?thesis
    unfolding Reconcile_def Inv_steady by (rule keeps_observed [OF scope]) (use rest in \<open>simp_all add: Inv_steady\<close>)
qed

section \<open>What a reconciliation does\<close>

text \<open>A reconciliation starts with nothing done and no status planned.\<close>

definition fresh :: "'w routeState \<Rightarrow> bool" where
  "fresh s \<longleftrightarrow> rt_log s = [] \<and> hs_statusPlan (rt_scope s) = None"

lemma Reconcile_lawful:
  assumes "finalizerLaws (rv_finalizers env)" "conditionLaws (rv_conditions env)" "keyedReads env" "fresh s"
    and "Reconcile env namespace name s = (r, s')"
  shows "lawful env (rt_log s')"
proof -
  have "Inv env s" using assms(4) by (simp add: Inv_def planned_def fresh_def lawful_Nil)
  from keeps_run [OF Reconcile_keeps [OF assms(1-3)] this, of namespace name] assms(5) show ?thesis by (simp add: Inv_def)
qed

lemma Reconcile_justified:
  assumes "finalizerLaws (rv_finalizers env)" "conditionLaws (rv_conditions env)" "keyedReads env" "fresh s"
    and "Reconcile env namespace name s = (r, s')" "rt_log s' = prior @ e # later"
  shows "justified env prior e"
  using Reconcile_lawful [OF assms(1-5)] assms(6) by (simp add: lawful_def)

end
