(* ===== verification/RouteRuns.thy ===== *)
theory RouteRuns
  imports RouteStatusSafety
begin

text \<open>
  Whole reconciliations in a cluster that answers every read the same way. A read leaves only its event in the log;
  what else a reconciliation does are its effects, and they are determined exactly: a route that is not bound is
  bound first, a bound route is programmed and published, and a deleted route is cleaned up and released.
\<close>

section \<open>Effects\<close>

lemma effects_events [simp]:
  "effects [AcquiredGraph uid] = [AcquiredGraph uid]" "effects [ReleasedGraph uid] = [ReleasedGraph uid]"
  "effects [CalledDeleteRoute i r] = [CalledDeleteRoute i r]" "effects [CalledEnsureRoute spec q] = [CalledEnsureRoute spec q]"
  "effects [PatchedRoute base desired p] = [PatchedRoute base desired p]" "effects [PatchedStatus base desired p] = [PatchedStatus base desired p]"
  by (simp_all add: effects_def isRead_def)

lemma quiet_orChanged: "quiet m (Inr x) \<Longrightarrow> quiet (orChanged m) (Inr x)"
  unfolding orChanged_def by (rule quiet_bind [OF quiet_try], assumption) (use quiet_units(1) [of x] in simp)

text \<open>A cluster whose reads all give the same answers.\<close>

definition settledCluster :: "'w routeEnv \<Rightarrow> apiReader \<Rightarrow> bool" where
  "settledCluster env reader \<longleftrightarrow> (\<forall>live w. rv_read env live w = (reader, w))"

lemma quiet_read: "settledCluster env reader \<Longrightarrow> quiet (readAPI env live) (Inr reader)"
  by (simp add: quiet_def settledCluster_def readAPI_def isRead_def effects_def)

definition finds :: "apiReader \<Rightarrow> HTTPRoute \<Rightarrow> bool" where
  "finds reader route \<longleftrightarrow> rd_HTTPRoute reader (om_Namespace (ht_Meta route)) (om_Name (ht_Meta route)) = Inr route"

lemma quiet_getHTTPRoute:
  "settledCluster env reader \<Longrightarrow> rd_HTTPRoute reader (om_Namespace (ht_Meta r)) (om_Name (ht_Meta r)) = Inr route \<Longrightarrow> quiet (getHTTPRoute env live r) (Inr route)"
  unfolding getHTTPRoute_def by (rule quiet_bind [OF quiet_read], assumption) (use quiet_units(3) [of "mapErr readErrorOf (Inr route)"] in simp)

lemma sameRevision_refl [simp]: "sameRevision route route"
  by (simp add: sameRevision_def sameHTTPRouteRevision_def)

lemma quiet_binding:
  assumes "settledCluster env reader" "finds reader route" "stores env route i"
  shows "quiet (getRouteBindingWithReader env live route) (Inr (Some (route, Some i)))"
proof -
  have "storedRouteIdentity env route = Inr (Some i)" using assms(3) by (simp add: stored_stores)
  then show ?thesis
    unfolding getRouteBindingWithReader_def
    by (intro quiet_bind [OF quiet_try [OF quiet_getHTTPRoute [OF assms(1)]]])
      (use assms(2) in \<open>auto simp: finds_def intro!: quiet_bind_guard quiet_bind_lift quiet_units\<close>)
qed

section \<open>Cleaning up a deleted route\<close>

text \<open>The lock is free, and a patch of the route is stored as it is.\<close>

definition cooperative :: "'w routeEnv \<Rightarrow> bool" where
  "cooperative env \<longleftrightarrow> rv_hasAPIReader env \<and> (\<forall>uid w. fst (rv_acquire env uid w)) \<and> (\<forall>base desired w. fst (rv_patch env base desired w) = Inr desired)"

lemma patchRoute_cooperative:
  assumes "cooperative env"
  obtains s1 where "patchRoute env base desired s = (Inr desired, s1)" "rt_scope s1 = rt_scope s"
    "effects (rt_log s1) = effects (rt_log s) @ [PatchedRoute base desired (Inr desired)]"
proof -
  obtain w where "rv_patch env base desired (rt_world s) = (Inr desired, w)"
    using assms unfolding cooperative_def by (metis prod.collapse)
  then show thesis by (intro that [of "s\<lparr>rt_world := w, rt_log := rt_log s @ [PatchedRoute base desired (Inr desired)]\<rparr>"]) (simp_all add: patchRoute_def)
qed

lemma withGraph_run:
  assumes "cooperative env" "\<And>s1. rt_scope s1 = rt_scope s \<Longrightarrow> \<exists>s2. m s1 = (r, s2) \<and> rt_scope s2 = scope \<and> effects (rt_log s2) = effects (rt_log s1) @ es"
  shows "\<exists>s2. withGraph env uid m s = (r, s2) \<and> rt_scope s2 = scope \<and> effects (rt_log s2) = effects (rt_log s) @ AcquiredGraph uid # es @ [ReleasedGraph uid]"
proof -
  obtain w where "rv_acquire env uid (rt_world s) = (True, w)" using assms(1) unfolding cooperative_def by (metis (full_types) prod.collapse)
  then have acquired: "acquireGraph env uid s = (Inr (), s\<lparr>rt_world := w, rt_log := rt_log s @ [AcquiredGraph uid]\<rparr>)" (is "_ = (_, ?s1)")
    by (simp add: acquireGraph_def)
  obtain s2 where "m ?s1 = (r, s2)" "rt_scope s2 = scope" "effects (rt_log s2) = effects (rt_log ?s1) @ es" using assms(2) [of ?s1] by auto
  then show ?thesis
    by (intro exI [of _ "releaseGraph env uid s2"]) (simp add: withGraph_def bindA_def acquired deferA_def releaseGraph_def)
qed

definition deletes :: "'w routeEnv \<Rightarrow> Identity \<Rightarrow> Outcome \<Rightarrow> bool" where
  "deletes env i outcome \<longleftrightarrow> (\<forall>w. fst (rv_DeleteRoute env i w) = Inr outcome) \<and> Validate outcome = Inr () \<and> o_State outcome = OutcomeReady"

lemma deleteRoute_run:
  assumes "settledCluster env reader" "cooperative env" "finds reader route" "stores env route i" "om_Deleting (ht_Meta route)" "deletes env i outcome"
  shows "\<exists>s'. deleteRoute env route i s = (Inr outcome, s') \<and> rt_scope s' = rt_scope s \<and>
    effects (rt_log s') = effects (rt_log s) @ [AcquiredGraph (GatewayUID i), CalledDeleteRoute i (Inr outcome), ReleasedGraph (GatewayUID i)]"
proof -
  have stored: "storedRouteIdentity env route = Inr (Some i)" using assms(4) by (simp add: stored_stores)
  have live: "quiet (orChanged (getHTTPRoute env True route)) (Inr route)"
    using assms(1,3) by (intro quiet_orChanged quiet_getHTTPRoute) (auto simp: finds_def)
  let ?S = "\<lparr>cs_route = route, cs_identity = i, cs_disposition = routeCleanupRequired\<rparr>"
  have snapshot: "quiet (buildRouteCleanupSnapshot env route i) (Inr ?S)"
    unfolding buildRouteCleanupSnapshot_def Let_def
    by (intro quiet_bind_guard quiet_bind [OF live] quiet_bind_lift [OF stored])
      (use assms(2,5) in \<open>auto simp: cooperative_def intro: quiet_units\<close>)
  have seal: "quiet (sealRouteCleanupSnapshot env ?S) (Inr ())"
    unfolding sealRouteCleanupSnapshot_def by (simp, intro quiet_bind_guard quiet_bind [OF live] quiet_bind_lift [OF stored] quiet_guard) simp_all
  have "\<exists>s2. (bindA (buildRouteCleanupSnapshot env route i) (\<lambda>snapshot. case cs_disposition snapshot of
          routeCleanupStillDesired \<Rightarrow> throwA errHTTPRouteChanged
        | routeCleanupRequired \<Rightarrow> bindA (sealRouteCleanupSnapshot env snapshot) (\<lambda>_. callDeleteRoute env (cs_identity snapshot)))) s1 = (Inr outcome, s2) \<and>
      rt_scope s2 = rt_scope s1 \<and> effects (rt_log s2) = effects (rt_log s1) @ [CalledDeleteRoute i (Inr outcome)]" for s1
  proof -
    obtain s2 where s2: "buildRouteCleanupSnapshot env route i s1 = (Inr ?S, s2)" "rt_scope s2 = rt_scope s1" "effects (rt_log s2) = effects (rt_log s1)"
      by (rule quiet_run [OF snapshot])
    obtain s3 where s3: "sealRouteCleanupSnapshot env ?S s2 = (Inr (), s3)" "rt_scope s3 = rt_scope s2" "effects (rt_log s3) = effects (rt_log s2)"
      by (rule quiet_run [OF seal])
    obtain w where "rv_DeleteRoute env i (rt_world s3) = (Inr outcome, w)" using assms(6) unfolding deletes_def by (metis prod.collapse)
    with s2 s3 show ?thesis by (simp add: bindA_def callDeleteRoute_def)
  qed
  then have "\<exists>s2. withGraph env (GatewayUID i) (bindA (buildRouteCleanupSnapshot env route i) (\<lambda>snapshot. case cs_disposition snapshot of
          routeCleanupStillDesired \<Rightarrow> throwA errHTTPRouteChanged
        | routeCleanupRequired \<Rightarrow> bindA (sealRouteCleanupSnapshot env snapshot) (\<lambda>_. callDeleteRoute env (cs_identity snapshot)))) s = (Inr outcome, s2) \<and>
      rt_scope s2 = rt_scope s \<and> effects (rt_log s2) = effects (rt_log s) @ AcquiredGraph (GatewayUID i) # [CalledDeleteRoute i (Inr outcome)] @ [ReleasedGraph (GatewayUID i)]"
    by (intro withGraph_run [OF assms(2)]) metis
  then show ?thesis using assms(2) by (simp add: deleteRoute_def cooperative_def guard_run)
qed

lemma cleared_differs:
  assumes "finalizerLaws (rv_finalizers env)" "stores env route i"
  shows "\<not> routeBindingMetadataEqual (ht_Meta route) (ht_Meta (clearBinding env route))" "\<not> hasRouteFinalizer env (clearBinding env route)"
    "RouteHasControllerBinding (rv_finalizers env) (rv_Config env) (ht_Meta route)"
proof -
  let ?c = "rv_Config env" and ?k = "rv_finalizers env"
  have i: "boundTo ?k ?c (ht_Meta route) i" using assms(2) by (simp add: stores_def StoredRouteIdentity_Some)
  then have ns: "annotation (ht_Meta route) (RouteGatewayNamespaceAnnotation ?c) \<noteq> []"
    by (auto simp: boundTo_def isOk_iff go_simps annotatedIdentity_def)
  then show "RouteHasControllerBinding ?k ?c (ht_Meta route)" by (simp add: RouteHasControllerBinding_def routeHasBindingAnnotations_def)
  have "annotation (ht_Meta (clearBinding env route)) (RouteGatewayNamespaceAnnotation ?c) = []"
    by (simp add: clearBinding_def cleared_annotations clearRouteBinding_fields(2) [OF assms(1)] annotation_def)
  with ns show "\<not> routeBindingMetadataEqual (ht_Meta route) (ht_Meta (clearBinding env route))"
    by (auto simp: routeBindingMetadataEqual_def annotation_def)
  show "\<not> hasRouteFinalizer env (clearBinding env route)"
    by (simp add: hasRouteFinalizer_def clearBinding_def finalizerLaws_rules(1) [OF assms(1)] clearRouteBinding_fields [OF assms(1)])
qed

lemma retry_run: "m n s = (Inr x, s') \<Longrightarrow> retryA n retriable m s = (Inr x, s')"
  by (cases n) (simp_all add: bindA_def tryA_def returnA_def)

lemma clearStored_run:
  assumes "settledCluster env reader" "cooperative env" "finds reader route" "stores env route i" "finalizerLaws (rv_finalizers env)"
  shows "\<exists>s'. clearStoredRouteBinding env route (Some i) s = (Inr (), s') \<and> rt_scope s' = (rt_scope s)\<lparr>hs_route := clearBinding env route\<rparr> \<and>
    effects (rt_log s') = effects (rt_log s) @ [PatchedRoute route (clearBinding env route) (Inr (clearBinding env route))]"
proof -
  obtain s1 where s1: "getRouteBindingWithReader env True route s = (Inr (Some (route, Some i)), s1)" "rt_scope s1 = rt_scope s" "effects (rt_log s1) = effects (rt_log s)"
    by (rule quiet_run [OF quiet_binding [OF assms(1,3,4)]])
  obtain s2 where s2: "patchRoute env route (clearBinding env route) s1 = (Inr (clearBinding env route), s2)" "rt_scope s2 = rt_scope s1"
    "effects (rt_log s2) = effects (rt_log s1) @ [PatchedRoute route (clearBinding env route) (Inr (clearBinding env route))]"
    by (rule patchRoute_cooperative [OF assms(2)])
  let ?body = "bindA (getRouteBindingWithReader env True route) (\<lambda>binding. case binding of
          None \<Rightarrow> returnA ()
        | Some (current, stored) \<Rightarrow>
            bindA (guardA (stored = Some i) errHTTPRouteChanged) (\<lambda>_.
            let cleared = clearBinding env current in
            if routeBindingMetadataEqual (ht_Meta current) (ht_Meta cleared) then setRoute cleared
            else bindA (ignoringNotFound (patchRoute env current cleared)) (\<lambda>patched. case patched of
               None \<Rightarrow> returnA ()
             | Some patched \<Rightarrow> setRoute patched)))"
  have "?body s = (Inr (), s2\<lparr>rt_scope := (rt_scope s2)\<lparr>hs_route := clearBinding env route\<rparr>\<rparr>)"
    using s1(1) s2(1) cleared_differs(1) [OF assms(5,4)]
    by (simp add: bindA_def guardA_def guardE_def liftA_def ignoringNotFound_def tryA_def returnA_def setRoute_def changeScope_def modifyA_def Let_def)
  from retry_run [of "\<lambda>_. ?body", OF this] show ?thesis
    using assms(2) s1 s2 by (simp add: clearStoredRouteBinding_def cooperative_def guard_run)
qed

lemma finalizeRoute_run:
  assumes "settledCluster env reader" "cooperative env" "finds reader route" "stores env route i" "om_Deleting (ht_Meta route)" "deletes env i outcome"
    and "finalizerLaws (rv_finalizers env)" "hs_route (rt_scope s) = route"
  shows "\<exists>s'. finalizeRoute env s = (Inr noResult, s') \<and> rt_scope s' = (rt_scope s)\<lparr>hs_route := clearBinding env route\<rparr> \<and>
    effects (rt_log s') = effects (rt_log s) @ [AcquiredGraph (GatewayUID i), CalledDeleteRoute i (Inr outcome), ReleasedGraph (GatewayUID i),
      PatchedRoute route (clearBinding env route) (Inr (clearBinding env route))]"
proof -
  obtain s1 where s1: "getRouteBindingWithReader env False route s = (Inr (Some (route, Some i)), s1)" "rt_scope s1 = rt_scope s" "effects (rt_log s1) = effects (rt_log s)"
    by (rule quiet_run [OF quiet_binding [OF assms(1,3,4)]])
  obtain s2 where s2: "deleteRoute env route i s1 = (Inr outcome, s2)" "rt_scope s2 = rt_scope s1"
    "effects (rt_log s2) = effects (rt_log s1) @ [AcquiredGraph (GatewayUID i), CalledDeleteRoute i (Inr outcome), ReleasedGraph (GatewayUID i)]"
    using deleteRoute_run [OF assms(1-6), of s1] by blast
  obtain s3 where s3: "clearStoredRouteBinding env route (Some i) s2 = (Inr (), s3)" "rt_scope s3 = (rt_scope s2)\<lparr>hs_route := clearBinding env route\<rparr>"
    "effects (rt_log s3) = effects (rt_log s2) @ [PatchedRoute route (clearBinding env route) (Inr (clearBinding env route))]"
    using clearStored_run [OF assms(1-4,7), of s2] by blast
  show ?thesis
    using s1 s2 s3 assms(6,8)
    by (simp add: finalizeRoute_def bindA_def scopeRoute_def getA_def tryA_def afterDeletion_def validOutcome_def liftA_def deletes_def returnA_def)
qed

lemma withStatusPatch_skipped:
  assumes "m s = (r, s')" "hs_skipPatch (rt_scope s')"
  shows "withStatusPatch env m s = (r, s')"
  using assms by (simp add: withStatusPatch_def bindA_def tryA_def getA_def patchHTTPRoute_def returnA_def liftA_def)

lemma deletion_run:
  assumes "settledCluster env reader" "cooperative env" "finds reader route" "stores env route i" "om_Deleting (ht_Meta route)" "deletes env i outcome"
    and "finalizerLaws (rv_finalizers env)"
  shows "\<exists>s'. Reconcile env (om_Namespace (ht_Meta route)) (om_Name (ht_Meta route)) s = (Inr noResult, s') \<and>
    effects (rt_log s') = effects (rt_log s) @ [AcquiredGraph (GatewayUID i), CalledDeleteRoute i (Inr outcome), ReleasedGraph (GatewayUID i),
      PatchedRoute route (clearBinding env route) (Inr (clearBinding env route))]"
proof -
  obtain s1 where s1: "readAPI env False s = (Inr reader, s1)" "effects (rt_log s1) = effects (rt_log s)"
    by (rule quiet_run [OF quiet_read [OF assms(1)]])
  let ?s2 = "s1\<lparr>rt_scope := newScope route\<rparr>"
  obtain s3 where s3: "finalizeRoute env ?s2 = (Inr noResult, s3)" "rt_scope s3 = (rt_scope ?s2)\<lparr>hs_route := clearBinding env route\<rparr>"
    "effects (rt_log s3) = effects (rt_log ?s2) @ [AcquiredGraph (GatewayUID i), CalledDeleteRoute i (Inr outcome), ReleasedGraph (GatewayUID i),
      PatchedRoute route (clearBinding env route) (Inr (clearBinding env route))]"
    using finalizeRoute_run [OF assms, of ?s2] by (auto simp: newScope_def)
  let ?s4 = "s3\<lparr>rt_scope := (rt_scope s3)\<lparr>hs_skipPatch := True\<rparr>\<rparr>"
  have "reconcileDelete env ?s2 = (Inr noResult, ?s4)"
    using s3(1,2) cleared_differs(2) [OF assms(7,4)]
    by (simp add: reconcileDelete_def bindA_def scopeRoute_def getA_def noResult_def skipPatch_def changeScope_def modifyA_def returnA_def)
  then have "withStatusPatch env (reconcileDelete env) ?s2 = (Inr noResult, ?s4)" by (rule withStatusPatch_skipped) simp
  then show ?thesis
    using s1 s3 assms(3,5) cleared_differs(3) [OF assms(7,4)]
    by (simp add: Reconcile_def newHTTPRouteScope_def bindA_def returnA_def finds_def changeScope_def modifyA_def newScope_def)
qed

end
