(* ===== verification/RouteProgress.thy ===== *)
theory RouteProgress
  imports RouteRuns
begin

text \<open>
  An accepted route in a cluster that answers every read the same way: it is bound first, and a bound route is
  programmed and published.
\<close>

section \<open>An accepted route\<close>

text \<open>
  What the reads show of a route that the controller accepts: one parent, a programmed and bound Gateway of a class
  of this controller, a free slot, and a specification.
\<close>

record acceptedRoute =
  ac_route :: HTTPRoute
  ac_gateway :: Gateway
  ac_class :: GatewayClass
  ac_listener :: GatewayListener
  ac_slot :: routeSlotDecision
  ac_spec :: RouteSpec

definition ac_parent :: "acceptedRoute \<Rightarrow> managedRouteParent" where
  "ac_parent a = \<lparr>mp_ref = ht_ParentRefs (ac_route a) ! 0, mp_gateway = ac_gateway a, mp_gatewayClass = Some (ac_class a), mp_listener = Some (ac_listener a)\<rparr>"

definition acceptedGateway :: "'w routeEnv \<Rightarrow> apiReader \<Rightarrow> acceptedRoute \<Rightarrow> bool" where
  "acceptedGateway env reader a \<longleftrightarrow>
     rd_Gateway reader (om_Namespace (gw_Meta (ac_gateway a))) (om_Name (gw_Meta (ac_gateway a))) = Inr (ac_gateway a) \<and>
     boundGateway env (ac_gateway a) \<and> ValidateGateway (ac_gateway a) = Inr (ac_listener a) \<and>
     annotation (gw_Meta (ac_gateway a)) (GatewayListenerPortAnnotation (rv_Config env)) = itoaInt (gl_Port (ac_listener a)) \<and>
     gatewayProgrammedForGeneration (rv_conditions env) (ac_gateway a) \<and>
     rd_GatewayClass reader (gw_GatewayClassName (ac_gateway a)) = Inr (ac_class a) \<and>
     gc_ControllerName (ac_class a) = cf_ControllerName (rv_Config env) \<and> \<not> gc_ParametersRef (ac_class a) \<and>
     GatewayClassSupportsInstalledVersion (rv_conditions env) (ac_class a) \<and>
     ValidateInstalledGatewayAPIVersion (rv_consts env) (Some reader) = Inr ()"

definition accepts :: "'w routeEnv \<Rightarrow> apiReader \<Rightarrow> acceptedRoute \<Rightarrow> bool" where
  "accepts env reader a \<longleftrightarrow> acceptedGateway env reader a \<and> finds reader (ac_route a) \<and> \<not> om_Deleting (ht_Meta (ac_route a)) \<and>
     length (ht_ParentRefs (ac_route a)) = 1 \<and> structurallySupportedRoute (ac_route a) \<and>
     managedParentsWithReader reader (rv_Config env) (ac_route a) = Inr [ac_parent a] \<and> validateRouteParent (ac_route a) (ac_parent a) = Inr () \<and>
     evaluateRouteSlotWithReader reader (ac_route a) = Inr (ac_slot a) \<and> sd_canReserve (ac_slot a) \<and>
     isSelectedRouteWithReader reader (ac_route a) (ac_parent a) = Inr True \<and>
     buildRouteSpecWithReader reader (rv_Config env) (ac_route a) (ac_gateway a) = Inr (Some (ac_spec a))"

lemma scope_run: "bindA scopeRoute f s = f (hs_route (rt_scope s)) s" "bindA (getA g) h s = h (g s) s"
  by (simp_all add: bindA_def scopeRoute_def getA_def)

lemma quiet_read_lift:
  assumes "settledCluster env reader" "g reader = Inr x"
  shows "quiet (bindA (readAPI env live) (\<lambda>reader. liftA (mapErr h (g reader)))) (Inr x)"
  by (rule quiet_bind [OF quiet_read [OF assms(1)]]) (use assms(2) quiet_units(3) [of "mapErr h (Inr x)"] in simp)

lemma quiet_reads:
  "settledCluster env reader \<Longrightarrow> rd_Gateway reader (om_Namespace (gw_Meta g)) (om_Name (gw_Meta g)) = Inr gateway \<Longrightarrow> quiet (getGateway env g) (Inr gateway)"
  "settledCluster env reader \<Longrightarrow> rd_GatewayClass reader (gw_GatewayClassName g) = Inr gc \<Longrightarrow> quiet (getGatewayClassOf env g) (Inr gc)"
  "settledCluster env reader \<Longrightarrow> evaluateRouteSlotWithReader reader route = Inr d \<Longrightarrow> quiet (evaluateSlot env live route) (Inr d)"
  "settledCluster env reader \<Longrightarrow> isSelectedRouteWithReader reader route parent = Inr b \<Longrightarrow> quiet (isSelected env live route parent) (Inr b)"
  "settledCluster env reader \<Longrightarrow> managedParentsWithReader reader (rv_Config env) route = Inr ps \<Longrightarrow> quiet (managedParents env live route) (Inr ps)"
  unfolding getGateway_def getGatewayClassOf_def evaluateSlot_def isSelected_def managedParents_def
  by (rule quiet_read_lift; assumption)+

lemma quiet_spec:
  assumes "settledCluster env reader" "buildRouteSpecWithReader reader (rv_Config env) route gateway = Inr (Some spec)"
  shows "quiet (buildSpec env route gateway) (Inr spec)"
  unfolding buildSpec_def
  by (rule quiet_bind [OF quiet_read [OF assms(1)]], rule quiet_bind_lift [of _ "Some spec"]) (use assms(2) quiet_units(1) [of spec] in simp_all)

definition boundSnapshot :: "'w routeEnv \<Rightarrow> acceptedRoute \<Rightarrow> Identity option \<Rightarrow> routeValidationSnapshot" where
  "boundSnapshot env a stored = \<lparr>vs_route = ac_route a, vs_gateway = ac_gateway a, vs_gatewayClass = ac_class a, vs_listener = Some (ac_listener a),
     vs_binding = \<lparr>rb_identity = stored, rb_hasFinalizer = hasRouteFinalizer env (ac_route a),
       rb_matchesDesired = (stored = Some (RouteIdentity (rv_Config env) (gw_Meta (ac_gateway a)) (ht_Meta (ac_route a))))\<rparr>,
     vs_selection = \<lparr>ss_slot = ac_slot a, ss_selected = True\<rparr>, vs_desired = Some (ac_spec a), vs_gatewayProgrammed = True,
     vs_disposition = (if routeBindingMetadataEqual (ht_Meta (ac_route a)) (ht_Meta (bindTo env (ac_gateway a) (ac_route a)))
       then routeValidationReady else routeValidationBindingRequired)\<rparr>"

lemma snapshot_quiet:
  assumes "settledCluster env reader" "accepts env reader a" "rv_hasAPIReader env" "storedRouteIdentity env (ac_route a) = Inr stored"
  shows "quiet (buildRouteValidationSnapshot env (ac_route a) (ac_gateway a) routeSnapshotForEnsure) (Inr (boundSnapshot env a stored))"
proof -
  let ?r = "ac_route a" and ?g = "ac_gateway a"
  have route: "quiet (orChanged (getHTTPRoute env True ?r)) (Inr ?r)"
    using assms(2) by (intro quiet_orChanged quiet_getHTTPRoute [OF assms(1)]) (simp add: accepts_def finds_def)
  have gateway: "quiet (orChanged (getGateway env ?g)) (Inr ?g)"
    using assms(2) by (intro quiet_orChanged quiet_reads(1) [OF assms(1)]) (simp add: accepts_def acceptedGateway_def)
  have gc: "quiet (orChanged (getGatewayClassOf env ?g)) (Inr (ac_class a))"
    using assms(2) by (intro quiet_orChanged quiet_reads(2) [OF assms(1)]) (simp add: accepts_def acceptedGateway_def)
  define inputs where "inputs = \<lparr>vs_route = ?r, vs_gateway = ?g, vs_gatewayClass = ac_class a, vs_listener = None, vs_binding = noBinding,
       vs_selection = noSelection, vs_desired = None, vs_gatewayProgrammed = False, vs_disposition = routeValidationReady\<rparr>"
  have observed: "quiet (observeRouteValidationInputs env ?r ?g routeSnapshotForEnsure) (Inr inputs)"
    unfolding observeRouteValidationInputs_def Let_def inputs_def
    by (intro quiet_bind_guard quiet_bind [OF route] quiet_bind [OF gateway] quiet_bind [OF gc] quiet_units)
      (use assms(2,3) in \<open>auto simp: accepts_def acceptedGateway_def boundGateway_def\<close>)
  define snap where "snap = inputs\<lparr>vs_listener := Some (ac_listener a), vs_gatewayProgrammed := True\<rparr>"
  have parent: "validateRouteSnapshotParent env inputs routeSnapshotForEnsure = Inr (snap, Some (ac_parent a))"
    using assms(2) by (simp add: validateRouteSnapshotParent_def inputs_def snap_def accepts_def acceptedGateway_def ac_parent_def)
  have model: "quiet (selectAndBuildRouteModel env snap (ac_parent a) routeSnapshotForEnsure) (Inr (\<lparr>ss_slot = ac_slot a, ss_selected = True\<rparr>, ac_spec a))"
  proof -
    have slot: "quiet (reserveSlot env routeSnapshotForEnsure ?r) (Inr (ac_slot a))"
      unfolding reserveSlot_def
      by (rule quiet_bind [OF quiet_failingAs [OF quiet_reads(3) [OF assms(1)]]]) (use assms(2) quiet_units(1) [of "ac_slot a"] in \<open>auto simp: accepts_def\<close>)
    have sel: "quiet (failingAs (routeSnapshotReadError routeSnapshotForEnsure) (isSelected env True ?r (ac_parent a))) (Inr True)"
      by (rule quiet_failingAs [OF quiet_reads(4) [OF assms(1)]]) (use assms(2) in \<open>simp add: accepts_def\<close>)
    have spec: "quiet (failingAs (routeSnapshotReadError routeSnapshotForEnsure) (buildSpec env ?r ?g)) (Inr (ac_spec a))"
      by (rule quiet_failingAs [OF quiet_spec [OF assms(1)]]) (use assms(2) in \<open>simp add: accepts_def\<close>)
    have fields: "vs_route snap = ?r" "vs_gateway snap = ?g" by (simp_all add: snap_def inputs_def)
    have supported: "structurallySupportedRoute ?r" using assms(2) by (simp add: accepts_def)
    show ?thesis
      unfolding selectAndBuildRouteModel_def Let_def fields
      by (simp add: supported, intro quiet_bind_guard quiet_bind [OF slot] quiet_bind [OF sel] quiet_bind [OF spec] quiet_units) simp_all
  qed
  have finish: "finishRouteBindingSnapshot env (snap\<lparr>vs_selection := \<lparr>ss_slot = ac_slot a, ss_selected = True\<rparr>, vs_desired := Some (ac_spec a)\<rparr>) routeSnapshotForEnsure =
      Inr (boundSnapshot env a stored)"
    using assms(4) by (simp add: finishRouteBindingSnapshot_def snap_def inputs_def boundSnapshot_def hasRouteFinalizer_def Let_def)
  show ?thesis
    unfolding buildRouteValidationSnapshot_def
    by (rule quiet_bind [OF observed], rule quiet_bind_lift [OF parent])
      (simp, intro quiet_bind_guard quiet_bind [OF model], simp_all add: finish quiet_units(3) [of "Inr _"])
qed

lemma seal_quiet:
  assumes "settledCluster env reader" "accepts env reader a"
    and "requirement = routeBindingRequired \<Longrightarrow>
      stores env (ac_route a) (RouteIdentity (rv_Config env) (gw_Meta (ac_gateway a)) (ht_Meta (ac_route a))) \<and> hasRouteFinalizer env (ac_route a)"
  shows "quiet (sealRouteMutationSnapshot env (boundSnapshot env a stored) requirement) (Inr ())"
proof -
  let ?r = "ac_route a" and ?g = "ac_gateway a" and ?c = "rv_Config env"
  have fields: "vs_route (boundSnapshot env a stored) = ?r" "vs_gateway (boundSnapshot env a stored) = ?g" by (simp_all add: boundSnapshot_def)
  have route: "quiet (orChanged (getHTTPRoute env True ?r)) (Inr ?r)"
    using assms(2) by (intro quiet_orChanged quiet_getHTTPRoute [OF assms(1)]) (simp add: accepts_def finds_def)
  have gateway: "quiet (orChanged (getGateway env ?g)) (Inr ?g)"
    using assms(2) by (intro quiet_orChanged quiet_reads(1) [OF assms(1)]) (simp add: accepts_def acceptedGateway_def)
  have gc: "quiet (orChanged (getGatewayClassOf env ?g)) (Inr (ac_class a))"
    using assms(2) by (intro quiet_orChanged quiet_reads(2) [OF assms(1)]) (simp add: accepts_def acceptedGateway_def)
  have version: "mapErr versionErrorOf (ValidateInstalledGatewayAPIVersion (rv_consts env) (Some reader)) = Inr ()"
    using assms(2) by (simp add: accepts_def acceptedGateway_def)
  have binding: "quiet (if requirement = routeBindingRequired then
         bindA (liftA (storedRouteIdentity env ?r)) (\<lambda>stored.
         guardA (stored = Some (RouteIdentity ?c (gw_Meta ?g) (ht_Meta ?r)) \<and> ContainsFinalizer (rv_finalizers env) (ht_Meta ?r) (RouteFinalizer ?c))
           errHTTPRouteChanged)
       else returnA ()) (Inr ())"
  proof (cases "requirement = routeBindingRequired")
    case True
    then have "storedRouteIdentity env ?r = Inr (Some (RouteIdentity ?c (gw_Meta ?g) (ht_Meta ?r)))" "hasRouteFinalizer env ?r"
      using assms(3) by (simp_all add: stored_stores)
    then show ?thesis using True by (simp, intro quiet_bind_lift quiet_guard) (auto simp: hasRouteFinalizer_def)
  qed (simp add: quiet_units)
  show ?thesis
    unfolding sealRouteMutationSnapshot_def Let_def fields
    by (intro quiet_bind [OF quiet_read [OF assms(1)]] quiet_bind_lift [OF version] quiet_bind_guard quiet_bind [OF route] quiet_bind [OF gateway]
        quiet_bind [OF binding] quiet_bind [OF gc] quiet_guard)
      (use assms(2) in \<open>auto simp: accepts_def acceptedGateway_def boundGateway_def GatewayBindingMetadataEqual_def list_all_iff\<close>)
qed

section \<open>Programming a bound route\<close>

definition bindingCurrent :: "'w routeEnv \<Rightarrow> acceptedRoute \<Rightarrow> bool" where
  "bindingCurrent env a \<longleftrightarrow> stores env (ac_route a) (RouteIdentity (rv_Config env) (gw_Meta (ac_gateway a)) (ht_Meta (ac_route a))) \<and>
     hasRouteFinalizer env (ac_route a) \<and> routeBindingMetadataEqual (ht_Meta (ac_route a)) (ht_Meta (bindTo env (ac_gateway a) (ac_route a)))"

definition ensures :: "'w routeEnv \<Rightarrow> RouteSpec \<Rightarrow> RouteResult \<Rightarrow> bool" where
  "ensures env spec r \<longleftrightarrow> (\<forall>w. fst (rv_EnsureRoute env spec w) = Inr r) \<and> Validate (rres_Outcome r) = Inr () \<and> o_State (rres_Outcome r) = OutcomeReady"

text \<open>What ensureRouteGraph does under the lock.\<close>

definition graphBody :: "'w routeEnv \<Rightarrow> HTTPRoute \<Rightarrow> Gateway \<Rightarrow> ('w, Outcome option) rc" where
  "graphBody env route gateway = bindA (buildRouteValidationSnapshot env route gateway routeSnapshotForEnsure) (\<lambda>snapshot.
       case vs_disposition snapshot of
          routeValidationGatewayPending \<Rightarrow> returnA (Some zeroOutcome)
        | routeValidationBindingRequired \<Rightarrow>
            bindA (failingAs routeBindingCheckpointError (bindRouteFromSnapshot env route gateway snapshot)) (\<lambda>_. returnA None)
        | routeValidationReady \<Rightarrow>
            bindA (sealRouteMutationSnapshot env snapshot routeBindingRequired) (\<lambda>_.
            case vs_desired snapshot of
               None \<Rightarrow> throwA PlainError
             | Some desired \<Rightarrow>
                 bindA (failingAs WrappedError (callEnsureRoute env desired)) (\<lambda>r.
                 bindA (validOutcome (rres_Outcome r)) (\<lambda>_. returnA (Some (rres_Outcome r))))))"

lemma ensureRouteGraph_body:
  "rv_hasAPIReader env \<Longrightarrow>
    ensureRouteGraph env gateway s = withGraph env (om_UID (gw_Meta gateway)) (graphBody env (hs_route (rt_scope s)) gateway) s"
  by (simp add: ensureRouteGraph_def scope_run guard_run graphBody_def)

lemma ensureRouteGraph_run:
  assumes "settledCluster env reader" "cooperative env" "accepts env reader a" "bindingCurrent env a" "ensures env (ac_spec a) r" "hs_route (rt_scope s) = ac_route a"
  shows "\<exists>s'. ensureRouteGraph env (ac_gateway a) s = (Inr (Some (rres_Outcome r)), s') \<and> rt_scope s' = rt_scope s \<and>
    effects (rt_log s') = effects (rt_log s) @ AcquiredGraph (om_UID (gw_Meta (ac_gateway a))) # [CalledEnsureRoute (ac_spec a) (Inr r)] @
      [ReleasedGraph (om_UID (gw_Meta (ac_gateway a)))]"
proof -
  let ?i = "RouteIdentity (rv_Config env) (gw_Meta (ac_gateway a)) (ht_Meta (ac_route a))"
  let ?S = "boundSnapshot env a (Some ?i)"
  have stored: "storedRouteIdentity env (ac_route a) = Inr (Some ?i)" using assms(4) by (simp add: bindingCurrent_def stored_stores)
  have snapshot: "quiet (buildRouteValidationSnapshot env (ac_route a) (ac_gateway a) routeSnapshotForEnsure) (Inr ?S)"
    by (rule snapshot_quiet [OF assms(1,3) _ stored]) (use assms(2) in \<open>simp add: cooperative_def\<close>)
  have seal: "quiet (sealRouteMutationSnapshot env ?S routeBindingRequired) (Inr ())"
    by (rule seal_quiet [OF assms(1,3)]) (use assms(4) in \<open>simp add: bindingCurrent_def\<close>)
  have S: "vs_disposition ?S = routeValidationReady" "vs_desired ?S = Some (ac_spec a)" using assms(4) by (simp_all add: boundSnapshot_def bindingCurrent_def)
  have "\<exists>s2. graphBody env (ac_route a) (ac_gateway a) s1 = (Inr (Some (rres_Outcome r)), s2) \<and>
      rt_scope s2 = rt_scope s \<and> effects (rt_log s2) = effects (rt_log s1) @ [CalledEnsureRoute (ac_spec a) (Inr r)]" if scope: "rt_scope s1 = rt_scope s" for s1
  proof -
    obtain s2 where s2: "buildRouteValidationSnapshot env (ac_route a) (ac_gateway a) routeSnapshotForEnsure s1 = (Inr ?S, s2)" "rt_scope s2 = rt_scope s1"
      "effects (rt_log s2) = effects (rt_log s1)" by (rule quiet_run [OF snapshot])
    obtain s3 where s3: "sealRouteMutationSnapshot env ?S routeBindingRequired s2 = (Inr (), s3)" "rt_scope s3 = rt_scope s2"
      "effects (rt_log s3) = effects (rt_log s2)" by (rule quiet_run [OF seal])
    obtain w where "rv_EnsureRoute env (ac_spec a) (rt_world s3) = (Inr r, w)" using assms(5) unfolding ensures_def by (metis prod.collapse)
    with s2 s3 S scope assms(5) show ?thesis
      by (simp add: graphBody_def bindA_def failingAs_def tryA_def liftA_def callEnsureRoute_def validOutcome_def returnA_def ensures_def)
  qed
  from withGraph_run [OF assms(2) this, where s = s and uid = "om_UID (gw_Meta (ac_gateway a))"] show ?thesis
    using assms(2,6) by (simp add: ensureRouteGraph_body cooperative_def)
qed

lemma decision_quiet:
  assumes "settledCluster env reader" "accepts env reader a" "storedRouteIdentity env (ac_route a) = Inr stored"
  shows "quiet (buildCachedRouteDecision env (ac_route a)) (Inr \<lparr>cd_parent = Some (ac_parent a), cd_storedIdentity = stored, cd_statusUpdates = [],
    cd_disposition = cachedRouteReady\<rparr>)"
proof -
  have parents: "quiet (tryA (managedParents env False (ac_route a))) (Inr (Inr [ac_parent a]))"
    using assms(2) by (intro quiet_try quiet_reads(5) [OF assms(1)]) (simp add: accepts_def)
  have slot: "quiet (evaluateSlot env False (ac_route a)) (Inr (ac_slot a))"
    using assms(2) by (intro quiet_reads(3) [OF assms(1)]) (simp add: accepts_def)
  have sel: "quiet (isSelected env False (ac_route a) (ac_parent a)) (Inr True)"
    using assms(2) by (intro quiet_reads(4) [OF assms(1)]) (simp add: accepts_def)
  let ?base = "\<lparr>cd_parent = None, cd_storedIdentity = stored, cd_statusUpdates = [], cd_disposition = cachedRouteDetach\<rparr>"
  have validated: "quiet (validateCachedRouteDecision env (ac_route a) (ac_parent a) ?base)
      (Inr \<lparr>cd_parent = Some (ac_parent a), cd_storedIdentity = stored, cd_statusUpdates = [], cd_disposition = cachedRouteReady\<rparr>)"
    using assms(2) unfolding validateCachedRouteDecision_def Let_def
    by (simp add: accepts_def, intro quiet_bind [OF slot], simp, intro quiet_bind [OF sel], simp add: quiet_units)
  have supported: "managedParentsSupportInstalledVersion env [ac_parent a]"
    using assms(2) by (simp add: managedParentsSupportInstalledVersion_def ac_parent_def accepts_def acceptedGateway_def)
  show ?thesis
    unfolding buildCachedRouteDecision_def
    by (rule quiet_bind [OF parents], simp, rule quiet_bind_lift [OF assms(3)]) (use assms(2) supported validated in \<open>simp add: accepts_def\<close>)
qed

text \<open>A stored identity of this Gateway, or none, leaves nothing to detach.\<close>

lemma detachPrevious_run:
  assumes "settledCluster env reader" "accepts env reader a" "hs_route (rt_scope s) = ac_route a"
    and "storedRouteIdentity env (ac_route a) = Inr stored"
    and "stored = Some (RouteIdentity (rv_Config env) (gw_Meta (ac_gateway a)) (ht_Meta (ac_route a))) \<or> stored = None \<and> \<not> hasRouteFinalizer env (ac_route a)"
  shows "\<exists>s'. detachPreviousGateway env (ac_gateway a) s = (Inr noResult, s') \<and> rt_scope s' = rt_scope s \<and> effects (rt_log s') = effects (rt_log s)"
proof -
  have "quiet (ignoringNotFound (getHTTPRoute env False (ac_route a))) (Inr (Some (ac_route a)))"
    using assms(2) by (intro quiet_ignoringNotFound quiet_getHTTPRoute [OF assms(1)]) (simp add: accepts_def finds_def)
  then obtain s1 where s1: "ignoringNotFound (getHTTPRoute env False (ac_route a)) s = (Inr (Some (ac_route a)), s1)" "rt_scope s1 = rt_scope s"
    "effects (rt_log s1) = effects (rt_log s)" by (rule quiet_run)
  have "s1\<lparr>rt_scope := (rt_scope s1)\<lparr>hs_route := ac_route a\<rparr>\<rparr> = s1" using s1(2) assms(3) by (metis httpRouteScope.surjective httpRouteScope.update_convs(1)
      routeState.surjective routeState.update_convs(3))
  then show ?thesis
    using s1 assms(3-5)
    by (auto simp: detachPreviousGateway_def bindA_def scopeRoute_def getA_def guardA_def guardE_def liftA_def setRoute_def changeScope_def modifyA_def returnA_def
        RouteIdentity_def GatewayIdentity_def)
qed

lemma selected_run:
  assumes "buildCachedRouteDecision env (hs_route (rt_scope s)) s =
      (Inr \<lparr>cd_parent = Some parent, cd_storedIdentity = stored, cd_statusUpdates = [], cd_disposition = cachedRouteReady\<rparr>, s1)"
    and "case stored of None \<Rightarrow> True | Some i \<Rightarrow> SameGatewayIdentity i (RouteIdentity (rv_Config env) (gw_Meta (mp_gateway parent)) (ht_Meta (hs_route (rt_scope s1))))"
    and "detachPreviousGateway env (mp_gateway parent) s1 = (Inr noResult, s2)"
  shows "reconcileNormal env s = reconcileSelectedRouteGraph env parent s2"
proof -
  have "reconcileSelectedRoute env parent stored s1 = reconcileSelectedRouteGraph env parent s2"
    using assms(2,3) unfolding reconcileSelectedRoute_def Let_def scope_run
    by (cases stored) (simp_all add: bindA_def tryA_def returnA_def noResult_def)
  then show ?thesis using assms(1) unfolding reconcileNormal_def scope_run by (simp add: bindA_def)
qed

section \<open>Binding a route\<close>

lemma bindRoute_run:
  assumes "settledCluster env reader" "cooperative env" "accepts env reader a" "storedRouteIdentity env (ac_route a) = Inr None" "\<not> hasRouteFinalizer env (ac_route a)"
    and "\<not> routeBindingMetadataEqual (ht_Meta (ac_route a)) (ht_Meta (bindTo env (ac_gateway a) (ac_route a)))"
  shows "\<exists>s'. bindRouteFromSnapshot env (ac_route a) (ac_gateway a) (boundSnapshot env a None) s = (Inr True, s') \<and>
    rt_scope s' = (rt_scope s)\<lparr>hs_route := bindTo env (ac_gateway a) (ac_route a)\<rparr> \<and>
    effects (rt_log s') = effects (rt_log s) @
      [PatchedRoute (ac_route a) (bindTo env (ac_gateway a) (ac_route a)) (Inr (bindTo env (ac_gateway a) (ac_route a)))]"
proof -
  let ?S = "boundSnapshot env a None" and ?r = "ac_route a" and ?d = "bindTo env (ac_gateway a) (ac_route a)"
  have transition: "validateRouteBindingTransition env ?S = Inr ()"
    using assms(5) by (simp add: validateRouteBindingTransition_def boundSnapshot_def)
  have "quiet (sealRouteMutationSnapshot env ?S routeBindingOptional) (Inr ())" by (rule seal_quiet [OF assms(1,3)]) simp
  then obtain s1 where s1: "sealRouteMutationSnapshot env ?S routeBindingOptional s = (Inr (), s1)" "rt_scope s1 = rt_scope s" "effects (rt_log s1) = effects (rt_log s)"
    by (rule quiet_run)
  obtain s2 where s2: "patchRoute env ?r ?d s1 = (Inr ?d, s2)" "rt_scope s2 = rt_scope s1" "effects (rt_log s2) = effects (rt_log s1) @ [PatchedRoute ?r ?d (Inr ?d)]"
    by (rule patchRoute_cooperative [OF assms(2)])
  have fields: "vs_route ?S = ?r" "vs_gateway ?S = ac_gateway a" by (simp_all add: boundSnapshot_def)
  have "bindAttempt env ?r (ac_gateway a) ?S (rv_attempts env) s = (Inr True, s2\<lparr>rt_scope := (rt_scope s2)\<lparr>hs_route := ?d\<rparr>\<rparr>)"
    using transition s1 s2 assms(6) fields unfolding bindAttempt_def Let_def
    by (simp add: bindA_def liftA_def returnA_def setRoute_def changeScope_def modifyA_def)
  from retry_run [where m = "bindAttempt env ?r (ac_gateway a) ?S", OF this] show ?thesis using s1 s2 by (simp add: bindRouteFromSnapshot_def)
qed

lemma bindGraph_run:
  assumes "settledCluster env reader" "cooperative env" "accepts env reader a" "storedRouteIdentity env (ac_route a) = Inr None" "\<not> hasRouteFinalizer env (ac_route a)"
    and "\<not> routeBindingMetadataEqual (ht_Meta (ac_route a)) (ht_Meta (bindTo env (ac_gateway a) (ac_route a)))" "hs_route (rt_scope s) = ac_route a"
  shows "\<exists>s'. ensureRouteGraph env (ac_gateway a) s = (Inr None, s') \<and> rt_scope s' = (rt_scope s)\<lparr>hs_route := bindTo env (ac_gateway a) (ac_route a)\<rparr> \<and>
    effects (rt_log s') = effects (rt_log s) @ AcquiredGraph (om_UID (gw_Meta (ac_gateway a))) #
      [PatchedRoute (ac_route a) (bindTo env (ac_gateway a) (ac_route a)) (Inr (bindTo env (ac_gateway a) (ac_route a)))] @
      [ReleasedGraph (om_UID (gw_Meta (ac_gateway a)))]"
proof -
  let ?S = "boundSnapshot env a None" and ?d = "bindTo env (ac_gateway a) (ac_route a)"
  have snapshot: "quiet (buildRouteValidationSnapshot env (ac_route a) (ac_gateway a) routeSnapshotForEnsure) (Inr ?S)"
    by (rule snapshot_quiet [OF assms(1,3) _ assms(4)]) (use assms(2) in \<open>simp add: cooperative_def\<close>)
  have S: "vs_disposition ?S = routeValidationBindingRequired" using assms(6) by (simp add: boundSnapshot_def)
  have "\<exists>s2. graphBody env (ac_route a) (ac_gateway a) s1 = (Inr None, s2) \<and>
      rt_scope s2 = (rt_scope s)\<lparr>hs_route := ?d\<rparr> \<and> effects (rt_log s2) = effects (rt_log s1) @ [PatchedRoute (ac_route a) ?d (Inr ?d)]"
    if scope: "rt_scope s1 = rt_scope s" for s1
  proof -
    obtain s2 where s2: "buildRouteValidationSnapshot env (ac_route a) (ac_gateway a) routeSnapshotForEnsure s1 = (Inr ?S, s2)" "rt_scope s2 = rt_scope s1"
      "effects (rt_log s2) = effects (rt_log s1)" by (rule quiet_run [OF snapshot])
    show ?thesis
      using bindRoute_run [OF assms(1-6), of s2] s2 S scope by (auto simp: graphBody_def bindA_def failingAs_def tryA_def liftA_def returnA_def)
  qed
  from withGraph_run [OF assms(2) this, where s = s and uid = "om_UID (gw_Meta (ac_gateway a))"] show ?thesis
    using assms(2,7) by (simp add: ensureRouteGraph_body cooperative_def)
qed

lemma binding_run:
  assumes "settledCluster env reader" "cooperative env" "accepts env reader a" "storedRouteIdentity env (ac_route a) = Inr None" "\<not> hasRouteFinalizer env (ac_route a)"
    and "\<not> routeBindingMetadataEqual (ht_Meta (ac_route a)) (ht_Meta (bindTo env (ac_gateway a) (ac_route a)))"
  shows "\<exists>s'. Reconcile env (om_Namespace (ht_Meta (ac_route a))) (om_Name (ht_Meta (ac_route a))) s = (Inr requeueNow, s') \<and>
    effects (rt_log s') = effects (rt_log s) @ [AcquiredGraph (om_UID (gw_Meta (ac_gateway a))),
      PatchedRoute (ac_route a) (bindTo env (ac_gateway a) (ac_route a)) (Inr (bindTo env (ac_gateway a) (ac_route a))),
      ReleasedGraph (om_UID (gw_Meta (ac_gateway a)))]"
proof -
  let ?r = "ac_route a" and ?g = "ac_gateway a"
  obtain s1 where s1: "readAPI env False s = (Inr reader, s1)" "effects (rt_log s1) = effects (rt_log s)"
    by (rule quiet_run [OF quiet_read [OF assms(1)]])
  let ?s2 = "s1\<lparr>rt_scope := newScope ?r\<rparr>"
  let ?D = "\<lparr>cd_parent = Some (ac_parent a), cd_storedIdentity = None, cd_statusUpdates = [], cd_disposition = cachedRouteReady\<rparr>"
  obtain s3 where s3: "buildCachedRouteDecision env ?r ?s2 = (Inr ?D, s3)" "rt_scope s3 = newScope ?r" "effects (rt_log s3) = effects (rt_log s)"
    using quiet_run [OF decision_quiet [OF assms(1,3,4)], of ?s2] s1(2) by auto
  obtain s4 where s4: "detachPreviousGateway env ?g s3 = (Inr noResult, s4)" "rt_scope s4 = newScope ?r" "effects (rt_log s4) = effects (rt_log s)"
    using detachPrevious_run [OF assms(1,3) _ assms(4), of s3] assms(5) s3(2,3) by (auto simp: newScope_def)
  obtain s5 where s5: "ensureRouteGraph env ?g s4 = (Inr None, s5)" "rt_scope s5 = (newScope ?r)\<lparr>hs_route := bindTo env ?g ?r\<rparr>"
    "effects (rt_log s5) = effects (rt_log s) @ [AcquiredGraph (om_UID (gw_Meta ?g)), PatchedRoute ?r (bindTo env ?g ?r) (Inr (bindTo env ?g ?r)), ReleasedGraph (om_UID (gw_Meta ?g))]"
    using bindGraph_run [OF assms, of s4] s4(2,3) by (auto simp: newScope_def)
  have g: "mp_gateway (ac_parent a) = ?g" by (simp add: ac_parent_def)
  have normal: "reconcileNormal env ?s2 = (Inr requeueNow, s5)"
    using selected_run [of env ?s2 "ac_parent a" None s3 s4] s3(1) s4(1) s5(1)
    by (simp add: g newScope_def reconcileSelectedRouteGraph_def bindA_def tryA_def returnA_def)
  have "withStatusPatch env (reconcileNormal env) ?s2 = (Inr requeueNow, s5)"
    using normal s5(2) by (simp add: withStatusPatch_def bindA_def tryA_def getA_def patchHTTPRoute_def newScope_def returnA_def liftA_def)
  then show ?thesis
    using s1 s5(3) assms(3) by (simp add: Reconcile_def newHTTPRouteScope_def bindA_def returnA_def accepts_def finds_def changeScope_def modifyA_def newScope_def)
qed

section \<open>Publishing the status\<close>

definition publishes :: "'w routeEnv \<Rightarrow> bool" where
  "publishes env \<longleftrightarrow> (\<forall>base desired w. fst (rv_patchStatus env base desired w) = Inr desired)"

lemma ParentRefsEqual_refl [simp]: "ParentRefsEqual ref ns ref ns"
  by (simp add: ParentRefsEqual_def)

definition programmedUpdate :: "acceptedRoute \<Rightarrow> parentStatusUpdate" where
  "programmedUpdate a = \<lparr>up_parent = ht_ParentRefs (ac_route a) ! 0, up_status = programmedRouteStatus\<rparr>"

definition publishedRoute :: "'w routeEnv \<Rightarrow> acceptedRoute \<Rightarrow> HTTPRoute" where
  "publishedRoute env a = applyRouteParentStatuses (rv_conditions env) (rv_Config env) (ac_route a) [programmedUpdate a]"

definition publication :: "'w routeEnv \<Rightarrow> acceptedRoute \<Rightarrow> routeEvent list" where
  "publication env a = (if ht_Parents (ac_route a) = ht_Parents (publishedRoute env a) then []
     else [PatchedStatus (ac_route a) (publishedRoute env a) (Inr (publishedRoute env a))])"

lemma publish_run:
  assumes "settledCluster env reader" "accepts env reader a" "publishes env"
  shows "\<exists>s' r. patchHTTPRouteStatus env (ac_route a) (replacePlan [programmedUpdate a]) s = (Inr r, s') \<and>
    effects (rt_log s') = effects (rt_log s) @ publication env a"
proof -
  let ?p = "replacePlan [programmedUpdate a]" and ?r = "ac_route a" and ?d = "publishedRoute env a"
  have "quiet (ignoringNotFound (getHTTPRoute env (livePatchReader env) ?r)) (Inr (Some ?r))"
    using assms(2) by (intro quiet_ignoringNotFound quiet_getHTTPRoute [OF assms(1)]) (simp add: accepts_def finds_def)
  then obtain s1 where s1: "ignoringNotFound (getHTTPRoute env (livePatchReader env) ?r) s = (Inr (Some ?r), s1)" "effects (rt_log s1) = effects (rt_log s)"
    by (rule quiet_run)
  have parents: "quiet (managedParents env (livePatchReader env) ?r) (Inr [ac_parent a])"
    using assms(2) by (intro quiet_reads(5) [OF assms(1)]) (simp add: accepts_def)
  have "quiet (ownershipOf env ?p ?r) (Inr ())"
    unfolding ownershipOf_def validateRouteStatusOwnership_def Let_def
    by (simp add: replacePlan_def, intro quiet_bind [OF parents] quiet_bind_guard quiet_guard) (simp_all add: programmedUpdate_def ac_parent_def)
  then obtain s2 where s2: "ownershipOf env ?p ?r s1 = (Inr (), s2)" "effects (rt_log s2) = effects (rt_log s1)" by (rule quiet_run)
  have plan: "applyPlan (rv_conditions env) (rv_Config env) ?p ?r = (?d, False)" by (simp add: applyPlan_def replacePlan_def publishedRoute_def)
  obtain w where w: "rv_patchStatus env ?r ?d (rt_world s2) = (Inr ?d, w)" using assms(3) unfolding publishes_def by (metis prod.collapse)
  let ?body = "bindA (ignoringNotFound (getHTTPRoute env (livePatchReader env) ?r)) (\<lambda>found. case found of
        None \<Rightarrow> returnA (False, False, False)
      | Some current \<Rightarrow>
          bindA (guardA (sameRevision current ?r) errHTTPRouteChanged) (\<lambda>_.
          bindA (ownershipOf env ?p current) (\<lambda>_.
          case applyPlan (rv_conditions env) (rv_Config env) ?p current of (desired, transitioned) \<Rightarrow>
            if ht_Parents current = ht_Parents desired then bindA (setRoute desired) (\<lambda>_. returnA (True, False, transitioned))
            else bindA (patchStatus env current desired) (\<lambda>patched.
              bindA (setRoute patched) (\<lambda>_. returnA (True, True, transitioned))))))"
  have "\<exists>s' r. ?body s = (Inr r, s') \<and> effects (rt_log s') = effects (rt_log s) @ publication env a"
    using s1 s2 w
    by (simp add: bindA_def guardA_def guardE_def liftA_def plan patchStatus_def setRoute_def changeScope_def modifyA_def returnA_def publication_def ex_bool_eq)
  then obtain s' r where "?body s = (Inr r, s')" "effects (rt_log s') = effects (rt_log s) @ publication env a" by blast
  with retry_run [where m = "\<lambda>_. ?body", OF this(1)] show ?thesis by (intro exI [of _ s'] exI [of _ r]) (simp add: patchHTTPRouteStatus_def)
qed

lemma programming_run:
  assumes "settledCluster env reader" "cooperative env" "publishes env" "accepts env reader a" "bindingCurrent env a" "ensures env (ac_spec a) r"
  shows "\<exists>s'. Reconcile env (om_Namespace (ht_Meta (ac_route a))) (om_Name (ht_Meta (ac_route a))) s =
      (Inr (requeueAfter (OpenStackResyncAfter (cf_OpenStackResyncInterval (rv_Config env)) (om_UID (ht_Meta (ac_route a))))), s') \<and>
    effects (rt_log s') = effects (rt_log s) @ [AcquiredGraph (om_UID (gw_Meta (ac_gateway a))), CalledEnsureRoute (ac_spec a) (Inr r),
      ReleasedGraph (om_UID (gw_Meta (ac_gateway a)))] @ publication env a"
proof -
  let ?r = "ac_route a" and ?g = "ac_gateway a"
  let ?i = "RouteIdentity (rv_Config env) (gw_Meta ?g) (ht_Meta ?r)"
  let ?result = "requeueAfter (OpenStackResyncAfter (cf_OpenStackResyncInterval (rv_Config env)) (om_UID (ht_Meta ?r)))"
  have stored: "storedRouteIdentity env ?r = Inr (Some ?i)" using assms(5) by (simp add: bindingCurrent_def stored_stores)
  obtain s1 where s1: "readAPI env False s = (Inr reader, s1)" "effects (rt_log s1) = effects (rt_log s)"
    by (rule quiet_run [OF quiet_read [OF assms(1)]])
  let ?s2 = "s1\<lparr>rt_scope := newScope ?r\<rparr>"
  let ?D = "\<lparr>cd_parent = Some (ac_parent a), cd_storedIdentity = Some ?i, cd_statusUpdates = [], cd_disposition = cachedRouteReady\<rparr>"
  obtain s3 where s3: "buildCachedRouteDecision env ?r ?s2 = (Inr ?D, s3)" "rt_scope s3 = newScope ?r" "effects (rt_log s3) = effects (rt_log s)"
    using quiet_run [OF decision_quiet [OF assms(1,4) stored], of ?s2] s1(2) by auto
  obtain s4 where s4: "detachPreviousGateway env ?g s3 = (Inr noResult, s4)" "rt_scope s4 = newScope ?r" "effects (rt_log s4) = effects (rt_log s)"
    using detachPrevious_run [OF assms(1,4) _ stored, of s3] s3(2,3) by (auto simp: newScope_def)
  obtain s5 where s5: "ensureRouteGraph env ?g s4 = (Inr (Some (rres_Outcome r)), s5)" "rt_scope s5 = newScope ?r"
    "effects (rt_log s5) = effects (rt_log s) @ [AcquiredGraph (om_UID (gw_Meta ?g)), CalledEnsureRoute (ac_spec a) (Inr r), ReleasedGraph (om_UID (gw_Meta ?g))]"
    using ensureRouteGraph_run [OF assms(1,2,4-6), of s4] s4(2,3) by (auto simp: newScope_def)
  let ?s6 = "s5\<lparr>rt_scope := (newScope ?r)\<lparr>hs_statusPlan := Some (replacePlan [programmedUpdate a])\<rparr>\<rparr>"
  have g: "mp_gateway (ac_parent a) = ?g" "mp_ref (ac_parent a) = ht_ParentRefs ?r ! 0" by (simp_all add: ac_parent_def)
  have ready: "o_State (rres_Outcome r) = OutcomeReady" using assms(6) by (simp add: ensures_def)
  have publish: "publishOutcome env (ac_parent a) (rres_Outcome r) s5 = (Inr ?result, ?s6)"
    using s5(2) by (simp add: publishOutcome_def scopeRoute_def getA_def ready setStatuses_def changeScope_def modifyA_def bindA_def returnA_def newScope_def g programmedUpdate_def)
  have normal: "reconcileNormal env ?s2 = (Inr ?result, ?s6)"
    using selected_run [of env ?s2 "ac_parent a" "Some ?i" s3 s4] s3(1,2) s4(1) s5(1) publish
    by (simp add: g newScope_def reconcileSelectedRouteGraph_def bindA_def tryA_def SameGatewayIdentity_def)
  obtain s7 x where s7: "patchHTTPRouteStatus env ?r (replacePlan [programmedUpdate a]) ?s6 = (Inr x, s7)"
    "effects (rt_log s7) = effects (rt_log ?s6) @ publication env a"
    using publish_run [OF assms(1,4,3), of ?s6] by blast
  have "patchHTTPRoute env ?s6 = (Inr (), s7)"
    using s7(1) by (cases x) (simp add: patchHTTPRoute_def getA_def newScope_def failingAs_def bindA_def tryA_def liftA_def returnA_def)
  then have "withStatusPatch env (reconcileNormal env) ?s2 = (Inr ?result, s7)"
    using normal by (simp add: withStatusPatch_def bindA_def tryA_def getA_def returnA_def liftA_def)
  then show ?thesis
    using s1 s5(3) s7(2) assms(4) by (simp add: Reconcile_def newHTTPRouteScope_def bindA_def returnA_def accepts_def finds_def changeScope_def modifyA_def newScope_def)
qed

end
