(* ===== verification/RouteLocks.thy ===== *)
theory RouteLocks
  imports RouteReconciler
begin

text \<open>
  How a reconciliation uses the graph locks: it never holds two of them at a time, and it holds none when it
  returns, whether with a result or with an error. Two reconciliations can therefore not wait for each other.
\<close>

section \<open>Held locks\<close>

definition lockEffect :: "routeEvent \<Rightarrow> string list \<Rightarrow> string list" where
  "lockEffect e held = (case e of AcquiredGraph uid \<Rightarrow> uid # held | ReleasedGraph uid \<Rightarrow> remove1 uid held | _ \<Rightarrow> held)"

definition heldLocks :: "routeEvent list \<Rightarrow> string list" where
  "heldLocks log = fold lockEffect log []"

definition atMostOneLock :: "routeEvent list \<Rightarrow> bool" where
  "atMostOneLock log \<longleftrightarrow> list_all (\<lambda>n. length (heldLocks (take n log)) \<le> 1) [0..<Suc (length log)]"

definition holding :: "string list \<Rightarrow> 'w routeState \<Rightarrow> bool" where
  "holding h s \<longleftrightarrow> atMostOneLock (rt_log s) \<and> heldLocks (rt_log s) = h"

lemma heldLocks_snoc: "heldLocks (log @ [e]) = lockEffect e (heldLocks log)"
  by (simp add: heldLocks_def)

lemma atMostOneLock_snoc: "atMostOneLock (log @ [e]) \<longleftrightarrow> atMostOneLock log \<and> length (heldLocks (log @ [e])) \<le> 1"
proof -
  have "[0..<Suc (length (log @ [e]))] = [0..<Suc (length log)] @ [Suc (length log)]" by simp
  then have "atMostOneLock (log @ [e]) \<longleftrightarrow>
      list_all (\<lambda>n. length (heldLocks (take n (log @ [e]))) \<le> 1) [0..<Suc (length log)] \<and> length (heldLocks (log @ [e])) \<le> 1"
    unfolding atMostOneLock_def by (simp del: upt_Suc)
  then show ?thesis unfolding atMostOneLock_def by (simp add: list_all_iff del: upt_Suc)
qed

definition neutral :: "routeEvent \<Rightarrow> bool" where
  "neutral e \<longleftrightarrow> (\<forall>held. lockEffect e held = held)"

lemma holding_neutral:
  assumes "holding h s" "neutral e" "rt_log s' = rt_log s @ [e]"
  shows "holding h s'"
proof -
  have "atMostOneLock (rt_log s)" "heldLocks (rt_log s) = h" using assms(1) by (simp_all add: holding_def)
  moreover have "length (heldLocks (rt_log s)) \<le> 1" using assms(1) unfolding holding_def atMostOneLock_def list_all_iff by force
  ultimately show ?thesis using assms(2,3) by (simp add: holding_def atMostOneLock_snoc heldLocks_snoc neutral_def)
qed

lemma neutral_events [simp]:
  "neutral (ReadAPI live reader)" "neutral (PatchedRoute base desired r)" "neutral (PatchedStatus base desired r)" "neutral (CalledEnsureRoute spec q)"
  "neutral (CalledDeleteRoute i p)" "neutral (RecordedWarning policy action)"
  by (simp_all add: neutral_def lockEffect_def)

lemma keeps_call:
  assumes "\<And>s. \<exists>r s' e. m s = (r, s') \<and> neutral e \<and> rt_log s' = rt_log s @ [e]"
  shows "keeps (holding h) m"
proof (rule keepsI, rule tripleI)
  fix s :: "'a routeState"
  assume s: "holding h s"
  obtain r s' e where m: "m s = (r, s')" "neutral e" "rt_log s' = rt_log s @ [e]" using assms by blast
  have "holding h s'" by (rule holding_neutral [OF s m(2,3)])
  with m(1) show "post (\<lambda>_. holding h) (\<lambda>_. holding h) (m s)" by (cases r) simp_all
qed

lemma calls_hold [keeping]:
  "keeps (holding h) (readAPI env live)" "keeps (holding h) (patchRoute env base desired)" "keeps (holding h) (patchStatus env base desired)"
  "keeps (holding h) (callEnsureRoute env spec)" "keeps (holding h) (callDeleteRoute env i)"
  by (rule keeps_call; simp add: readAPI_def patchRoute_def patchStatus_def callEnsureRoute_def callDeleteRoute_def split: prod.splits; fastforce)+

lemma scope_hold [keeping]:
  "keeps (holding h) (changeScope f)" "keeps (holding h) (setRoute route)" "keeps (holding h) scopeRoute" "keeps (holding h) skipPatch"
  "keeps (holding h) (queueWarning warning)" "keeps (holding h) (setStatuses updates)" "keeps (holding h) (setProviderFailureStatuses updates policy b)"
  "keeps (holding h) (setDeletingFailureStatus parent policy)"
proof -
  show change: "keeps (holding h) (changeScope f)" for f
    unfolding changeScope_def by (rule keepsI, rule triple_modify) (simp add: holding_def)
  show "keeps (holding h) (setRoute route)" "keeps (holding h) scopeRoute" "keeps (holding h) skipPatch" "keeps (holding h) (queueWarning warning)"
    "keeps (holding h) (setStatuses updates)" "keeps (holding h) (setProviderFailureStatuses updates policy b)" "keeps (holding h) (setDeletingFailureStatus parent policy)"
    unfolding setRoute_def skipPatch_def queueWarning_def setStatuses_def setProviderFailureStatuses_def setDeletingFailureStatus_def scopeRoute_def
    by (rule change keeps_pure)+
qed

lemma recordWarning_holds [keeping]: "keeps (holding h) (recordWarning env policy action)"
  unfolding recordWarning_def
  by (rule keeps_cases(1) [OF keeps_pure(1)], rule keepsI, rule triple_modify, erule holding_neutral [where e = "RecordedWarning policy action"]) simp_all

lemma withGraph_holds:
  assumes "keeps (holding [uid]) m"
  shows "keeps (holding []) (withGraph env uid m)"
proof -
  have acquire: "triple (holding []) (acquireGraph env uid) (\<lambda>_. holding [uid]) (\<lambda>_. holding [])"
    by (rule tripleI) (auto simp: acquireGraph_def holding_def atMostOneLock_snoc heldLocks_snoc lockEffect_def split: prod.splits)
  have release: "holding [] (releaseGraph env uid s)" if "holding [uid] s" for s
    using that by (simp add: releaseGraph_def holding_def atMostOneLock_snoc heldLocks_snoc lockEffect_def)
  have "triple (holding [uid]) (deferA (releaseGraph env uid) m) (\<lambda>_. holding []) (\<lambda>_. holding [])"
    by (rule triple_defer, rule triple_conseq [OF keepsD [OF assms]]) (auto intro: release)
  then show ?thesis unfolding withGraph_def by (intro keepsI triple_bind [OF acquire])
qed

section \<open>Every operation\<close>

lemma wrappers_hold [keeping]:
  "keeps (holding h) m \<Longrightarrow> keeps (holding h) (failingAs f m)" "keeps (holding h) n \<Longrightarrow> keeps (holding h) (orChanged n)"
  "keeps (holding h) p \<Longrightarrow> keeps (holding h) (ignoringNotFound p)"
  unfolding failingAs_def orChanged_def ignoringNotFound_def by (intro keeping; assumption)+

lemma reads_hold [keeping]:
  "keeps (holding h) (getHTTPRoute env live route)" "keeps (holding h) (getGateway env gateway)" "keeps (holding h) (getGatewayClassOf env gateway)"
  "keeps (holding h) (evaluateSlot env live route)" "keeps (holding h) (isSelected env live route parent)" "keeps (holding h) (buildSpec env route gateway)"
  "keeps (holding h) (managedParents env live route)" "keeps (holding h) (observeRouteParentsForCleanup env route)" "keeps (holding h) (validOutcome outcome)"
  "keeps (holding h) (resultOf res)" "keeps (holding h) (setPatchCause policy cause)"
  unfolding getHTTPRoute_def getGateway_def getGatewayClassOf_def evaluateSlot_def isSelected_def buildSpec_def managedParents_def
    observeRouteParentsForCleanup_def validOutcome_def resultOf_def setPatchCause_def
  by (intro keeping)+

lemma snapshots_hold [keeping]:
  "keeps (holding h) (observeRouteValidationInputs env route gateway purpose)" "keeps (holding h) (reserveSlot env purpose route)"
  "keeps (holding h) (routeStillDesired env route stored parent)" "keeps (holding h) (sealRouteMutationSnapshot env snapshot requirement)"
  "keeps (holding h) (sealRouteCleanupSnapshot env cleanup)" "keeps (holding h) (getRouteBindingWithReader env live route)"
  unfolding observeRouteValidationInputs_def reserveSlot_def routeStillDesired_def sealRouteMutationSnapshot_def sealRouteCleanupSnapshot_def
    getRouteBindingWithReader_def Let_def
  by (intro keeping)+

lemma select_holds [keeping]: "keeps (holding h) (selectAndBuildRouteModel env snapshot parent purpose)"
  unfolding selectAndBuildRouteModel_def Let_def by (intro keeping)

lemma snapshot_holds [keeping]: "keeps (holding h) (buildRouteValidationSnapshot env route gateway purpose)"
  unfolding buildRouteValidationSnapshot_def by (intro keeping)

lemma cleanupSnapshot_holds [keeping]: "keeps (holding h) (buildRouteCleanupSnapshot env route i)"
  unfolding buildRouteCleanupSnapshot_def Let_def by (auto intro!: keeping split: list.splits)

lemma binding_holds [keeping]:
  "keeps (holding h) (bindRouteFromSnapshot env route gateway snapshot)" "keeps (holding h) (clearStoredRouteBinding env route expected)"
  "keeps (holding h) (patchRouteCleanupFailure env route reason)"
  unfolding bindRouteFromSnapshot_def bindAttempt_def clearStoredRouteBinding_def patchRouteCleanupFailure_def Let_def by (intro keeping)+

lemma graph_holds [keeping]: "keeps (holding []) (ensureRouteGraph env gateway)" "keeps (holding []) (deleteRoute env route i)"
proof -
  have "keeps (holding h) (case vs_disposition snapshot of
          routeValidationGatewayPending \<Rightarrow> returnA (Some zeroOutcome)
        | routeValidationBindingRequired \<Rightarrow>
            bindA (failingAs routeBindingCheckpointError (bindRouteFromSnapshot env route gateway snapshot)) (\<lambda>_. returnA None)
        | routeValidationReady \<Rightarrow>
            bindA (sealRouteMutationSnapshot env snapshot routeBindingRequired) (\<lambda>_.
            case vs_desired snapshot of
               None \<Rightarrow> throwA PlainError
             | Some desired \<Rightarrow>
                 bindA (failingAs WrappedError (callEnsureRoute env desired)) (\<lambda>r.
                 bindA (validOutcome (rres_Outcome r)) (\<lambda>_. returnA (Some (rres_Outcome r))))))" for h route gateway snapshot
    by (cases "vs_disposition snapshot"; simp; intro keeping)
  then show "keeps (holding []) (ensureRouteGraph env gateway)"
    unfolding ensureRouteGraph_def by (intro keeping withGraph_holds)
  have "keeps (holding h) (case cs_disposition snapshot of
          routeCleanupStillDesired \<Rightarrow> throwA errHTTPRouteChanged
        | routeCleanupRequired \<Rightarrow> bindA (sealRouteCleanupSnapshot env snapshot) (\<lambda>_. callDeleteRoute env (cs_identity snapshot)))" for h snapshot
    by (cases "cs_disposition snapshot"; simp; intro keeping)
  then show "keeps (holding []) (deleteRoute env route i)"
    unfolding deleteRoute_def by (intro keeping withGraph_holds)
qed

lemma detach_holds [keeping]: "keeps (holding []) (detachRoute env)" "keeps (holding []) (detachPreviousGateway env gateway)"
proof -
  show detach: "keeps (holding []) (detachRoute env)" unfolding detachRoute_def afterDeletion_def by (intro keeping)
  show "keeps (holding []) (detachPreviousGateway env gateway)" unfolding detachPreviousGateway_def by (intro keeping detach)
qed

lemma status_holds [keeping]:
  "keeps (holding h) (ownershipOf env p current)" "keeps (holding h) (patchHTTPRouteStatus env route p)" "keeps (holding h) (routeStatusCheckpointNeeded env)"
  "keeps (holding h) (routeCleanupStatusCheckpointNeeded env updates)" "keeps (holding h) (patchHTTPRoute env)"
proof -
  show owned: "keeps (holding h) (ownershipOf env p current)" for p current
    unfolding ownershipOf_def validateRouteStatusOwnership_def Let_def by (intro keeping)
  show status: "keeps (holding h) (patchHTTPRouteStatus env route p)" for route p
    unfolding patchHTTPRouteStatus_def by (intro keeping owned)
  show needed: "keeps (holding h) (routeStatusCheckpointNeeded env)"
    unfolding routeStatusCheckpointNeeded_def by (intro keeping owned)
  show "keeps (holding h) (routeCleanupStatusCheckpointNeeded env updates)"
    unfolding routeCleanupStatusCheckpointNeeded_def routeProviderFailureCheckpointExists_def by (intro keeping needed)
  show "keeps (holding h) (patchHTTPRoute env)"
    unfolding patchHTTPRoute_def by (intro keeping status)
qed

lemma failures_hold [keeping]:
  "keeps (holding h) (handleRouteProviderFailure env parent b e action)" "keeps (holding h) (handleRouteFinalizationFailure env i e)"
  "keeps (holding h) (handleRouteCleanupFailure env updates e)"
  unfolding handleRouteProviderFailure_def handleRouteFinalizationFailure_def handleRouteCleanupFailure_def setRouteCleanupFailure_def Let_def
  by (intro keeping)+

lemma recheck_holds [keeping]: "keeps (holding h) (recheckVersion env parents)"
  unfolding recheckVersion_def by (auto intro!: keeping split: sum.splits versionError.splits)

lemma version_holds [keeping]: "keeps (holding h) (setRouteUnsupportedVersion env)"
  unfolding setRouteUnsupportedVersion_def by (intro keeping)

lemma reconcilers_hold [keeping]:
  "keeps (holding []) (setRouteStatusesAndDetach env updates)" "keeps (holding []) (reconcileSelectedRouteGraph env parent)"
  "keeps (holding []) (reconcileSelectedRoute env parent stored)" "keeps (holding []) (reconcileDelete env)"
proof -
  show statuses: "keeps (holding []) (setRouteStatusesAndDetach env updates)" for updates
    unfolding setRouteStatusesAndDetach_def Let_def by (intro keeping)
  have publish: "keeps (holding []) (publishOutcome env parent outcome)" for outcome
    unfolding publishOutcome_def Let_def by (cases "o_State outcome") (auto intro!: keeping)
  show graph: "keeps (holding []) (reconcileSelectedRouteGraph env parent)"
    unfolding reconcileSelectedRouteGraph_def by (intro keeping statuses publish)
  show "keeps (holding []) (reconcileSelectedRoute env parent stored)"
    unfolding reconcileSelectedRoute_def Let_def by (intro keeping graph)
  show "keeps (holding []) (reconcileDelete env)"
    unfolding reconcileDelete_def finalizeRoute_def afterDeletion_def by (intro keeping)
qed

lemma decision_holds [keeping]: "keeps (holding h) (buildCachedRouteDecision env route)"
  unfolding buildCachedRouteDecision_def validateCachedRouteDecision_def Let_def by (auto intro!: keeping split: sum.splits list.splits)

lemma Reconcile_holds: "keeps (holding []) (Reconcile env namespace name)"
proof -
  have branch: "keeps (holding []) (case cd_disposition decision of
        cachedRouteUnsupportedVersion \<Rightarrow> setRouteUnsupportedVersion env
      | cachedRouteDetach \<Rightarrow> setRouteStatusesAndDetach env (cd_statusUpdates decision)
      | cachedRouteReady \<Rightarrow> reconcileSelectedRoute env (the (cd_parent decision)) (cd_storedIdentity decision))" for decision
    by (cases "cd_disposition decision"; simp; intro keeping)
  have normal: "keeps (holding []) (reconcileNormal env)" unfolding reconcileNormal_def by (intro keeping branch)
  have patched: "keeps (holding []) (withStatusPatch env m)" if "keeps (holding []) m" for m
    unfolding withStatusPatch_def by (intro keeping that)
  show ?thesis
    unfolding Reconcile_def newHTTPRouteScope_def
    by (rule keeps_bind) (auto intro!: keeping normal patched split: sum.splits readError.splits option.splits)
qed

end
