(* ===== verification/SampleCluster.thy ===== *)
theory SampleCluster
  imports RouteSpecs ApiVersion
begin

text \<open>
  A small cluster on which the hypotheses of the theorems about the reconcilers hold: a class, a bound Gateway, and the
  Gateway API in the supported version.
\<close>

definition boundSampleGateway :: Gateway where
  "boundSampleGateway = sampleGateway\<lparr>gw_Meta := applyGatewayBinding listFinalizers sampleConfig ''80'' (sampleMeta ''gw'' ''uid-1''),
     gw_Conditions := [Condition ''Programmed'' ConditionTrue ''Programmed'' [] 1]\<rparr>"

definition sampleClass :: GatewayClass where
  "sampleClass = \<lparr>gc_Meta = (sampleMeta ''openstack'' ''uid-0'')\<lparr>om_Namespace := []\<rparr>, gc_ControllerName = ''example.com/openstack'', gc_ParametersRef = False,
     gc_SupportedFeatures = [], gc_Conditions = [Condition ''SupportedVersion'' ConditionTrue ''SupportedVersion'' [] 1]\<rparr>"

definition clusterReader :: "HTTPRoute \<Rightarrow> apiReader" where
  "clusterReader route = (sampleReader sampleConfig 8080 [])
     \<lparr>rd_Gateway := \<lambda>namespace name. if namespace = ''default'' \<and> name = ''gw'' then Inr boundSampleGateway else Inl NotFound,
      rd_GatewayClass := \<lambda>_. Inr sampleClass,
      rd_HTTPRoute := \<lambda>namespace name. if namespace = om_Namespace (ht_Meta route) \<and> name = om_Name (ht_Meta route) then Inr route else Inl NotFound,
      rd_CustomResources := Inr (map (\<lambda>name. \<lparr>crd_Name = name, crd_Deleting = False, crd_Annotations = [''bundle-version'' \<mapsto> ''v1.4.0'']\<rparr>)
        requiredGatewayAPICRDs)\<rparr>"

lemma boundSampleGateway_meta:
  "om_Namespace (gw_Meta boundSampleGateway) = ''default''" "om_Name (gw_Meta boundSampleGateway) = ''gw''" "om_UID (gw_Meta boundSampleGateway) = ''uid-1''"
  "om_Generation (gw_Meta boundSampleGateway) = 1" "\<not> om_Deleting (gw_Meta boundSampleGateway)"
  unfolding boundSampleGateway_def applyGatewayBinding_def
  by (simp_all add: sameButFinalizers_fields [OF finalizerLaws_rules(4) [OF listFinalizers_laws]] sampleMeta_def)

lemma boundSampleGateway_fields:
  "gw_GatewayClassName boundSampleGateway = ''openstack''" "gw_Listeners boundSampleGateway = [sampleListener]" "gw_Addresses boundSampleGateway = 0"
  "\<not> gw_Infrastructure boundSampleGateway" "\<not> gw_AllowedListeners boundSampleGateway" "\<not> gw_TLS boundSampleGateway"
  "gw_Conditions boundSampleGateway = [Condition ''Programmed'' ConditionTrue ''Programmed'' [] 1]"
  by (simp_all add: boundSampleGateway_def sampleGateway_def)

definition sampleConsts :: gatewayConsts where
  "sampleConsts = \<lparr>BundleVersion = ''v1.4.0'', BundleVersionAnnotation = ''bundle-version''\<rparr>"

lemma sample_version:
  assumes "rd_CustomResources reader = rd_CustomResources (clusterReader route)"
  shows "ValidateInstalledGatewayAPIVersion sampleConsts (Some reader) = Inr ()"
proof -
  let ?crd = "\<lambda>name. \<lparr>crd_Name = name, crd_Deleting = False, crd_Annotations = [''bundle-version'' \<mapsto> ''v1.4.0'']\<rparr>"
  have "IsGatewayAPICRDName name" if "name \<in> set requiredGatewayAPICRDs" for name
    using that by (auto simp: requiredGatewayAPICRDs_def IsGatewayAPICRDName_def isGatewayAPIGroup_def GroupName_def HasPrefix_def)
  then have "name \<in> crd_Name ` {crd \<in> ?crd ` set requiredGatewayAPICRDs. IsGatewayAPICRDName (crd_Name crd)}" if "name \<in> set requiredGatewayAPICRDs" for name
    using that by (intro image_eqI [of _ _ "?crd name"]) simp_all
  moreover have "rd_CustomResources reader = Inr (map ?crd requiredGatewayAPICRDs)" using assms by (simp add: clusterReader_def)
  ultimately show ?thesis by (auto simp: version_supported_iff sampleConsts_def)
qed

lemma sample_port: "itoaInt (gl_Port sampleListener) = ''80''"
  unfolding sampleListener_def by code_simp

lemma sample_binding:
  "isOk (ValidateGatewayBinding listFinalizers sampleConfig (gw_Meta boundSampleGateway))"
  "ContainsFinalizer listFinalizers (gw_Meta boundSampleGateway) (GatewayFinalizer sampleConfig)"
  "annotation (gw_Meta boundSampleGateway) (GatewayListenerPortAnnotation sampleConfig) = ''80''"
proof -
  show "isOk (ValidateGatewayBinding listFinalizers sampleConfig (gw_Meta boundSampleGateway))"
    by (simp add: boundSampleGateway_def applied_gateway_valid [OF listFinalizers_laws] sampleConfig_def)
  show "ContainsFinalizer listFinalizers (gw_Meta boundSampleGateway) (GatewayFinalizer sampleConfig)"
    by (simp add: boundSampleGateway_def finalizerLaws_rules(1,2) [OF listFinalizers_laws] applyGatewayBinding_def)
  show "annotation (gw_Meta boundSampleGateway) (GatewayListenerPortAnnotation sampleConfig) = ''80''"
    by (simp add: boundSampleGateway_def applied_gateway_annotations [OF listFinalizers_laws])
qed

lemma sample_validates: "gw_Listeners gateway = [sampleListener] \<Longrightarrow> gw_Addresses gateway = 0 \<Longrightarrow> \<not> gw_Infrastructure gateway \<Longrightarrow>
    \<not> gw_AllowedListeners gateway \<Longrightarrow> \<not> gw_TLS gateway \<Longrightarrow> ValidateGateway gateway = Inr sampleListener"
  by (simp add: ValidateGateway_def) (simp add: sampleListener_def HTTPProtocolType_def)

lemma clusterReader_backends:
  "rd_Service (clusterReader route) = rd_Service (sampleReader sampleConfig 8080 [])"
  "rd_EndpointSlices (clusterReader route) = rd_EndpointSlices (sampleReader sampleConfig 8080 [])"
  "rd_Nodes (clusterReader route) = rd_Nodes (sampleReader sampleConfig 8080 [])"
  by (simp_all add: clusterReader_def)

end
