(* ===== verification/RouteClaims.thy ===== *)
theory RouteClaims
  imports RouteProgress RouteLocks SampleCluster
begin

text \<open>
  The theorems about a whole reconciliation of a route, and a small cluster on which their hypotheses hold.
\<close>

section \<open>A cluster\<close>

text \<open>The world is empty: every read is answered alike, every call succeeds.\<close>

definition clusterEnv :: "HTTPRoute \<Rightarrow> unit routeEnv" where
  "clusterEnv route = \<lparr>rv_Config = sampleConfig, rv_finalizers = listFinalizers, rv_conditions = listConditions,
     rv_consts = sampleConsts, rv_text = \<lambda>_. [], rv_hasAPIReader = True,
     rv_hasRecorder = True, rv_attempts = 4, rv_read = \<lambda>_ w. (clusterReader route, w), rv_patch = \<lambda>_ desired w. (Inr desired, w),
     rv_patchStatus = \<lambda>_ desired w. (Inr desired, w), rv_acquire = \<lambda>_ w. (True, w), rv_release = \<lambda>_ w. w,
     rv_EnsureRoute = \<lambda>_ w. (Inr (RouteReadyResult emptyRouteState), w), rv_DeleteRoute = \<lambda>_ w. (Inr ReadyOutcome, w)\<rparr>"

definition startState :: "unit routeState" where
  "startState = \<lparr>rt_world = (), rt_log = [], rt_scope = newScope (sampleRoute ''a'' ''uid-2'')\<rparr>"

lemma cluster_laws:
  "finalizerLaws (rv_finalizers (clusterEnv route))" "conditionLaws (rv_conditions (clusterEnv route))" "settledCluster (clusterEnv route) (clusterReader route)"
  "cooperative (clusterEnv route)" "publishes (clusterEnv route)" "deletes (clusterEnv route) i ReadyOutcome" "ensures (clusterEnv route) spec (RouteReadyResult emptyRouteState)"
  "fresh startState" "finds (clusterReader route) route"
  by (simp_all add: clusterEnv_def listFinalizers_laws listConditions_laws settledCluster_def cooperative_def publishes_def deletes_def ensures_def
    ReadyOutcome_def RouteReadyResult_def Validate_def fresh_def startState_def newScope_def finds_def clusterReader_def)

lemma cluster_keyed: "keyedReads (clusterEnv route)"
  by (auto simp: keyedReads_def keyedReader_def clusterEnv_def clusterReader_def boundSampleGateway_meta split: if_splits)

text \<open>The route of the cluster, with metadata that has its name.\<close>

definition clusterRoute :: "ObjectMeta \<Rightarrow> HTTPRoute" where
  "clusterRoute m = (sampleRoute ''a'' ''uid-2'')\<lparr>ht_Meta := m\<rparr>"

definition clusterCase :: "ObjectMeta \<Rightarrow> RouteSpec \<Rightarrow> acceptedRoute" where
  "clusterCase m spec = \<lparr>ac_route = clusterRoute m, ac_gateway = boundSampleGateway, ac_class = sampleClass, ac_listener = sampleListener,
     ac_slot = \<lparr>sd_canReserve = True, sd_rejection = None\<rparr>, ac_spec = spec\<rparr>"

lemma clusterRoute_supported: "om_Namespace m = ''default'' \<Longrightarrow> structurallySupportedRoute (clusterRoute m)"
  by (simp add: structurallySupportedRoute_def clusterRoute_def sampleRoute_def sampleMeta_def HasPrefix_def ruleHasExtensions_def supportedMatch_def
    isOk_def backendNamespace_def orDefault_def)

lemma clusterRoute_fields [simp]: "ht_Meta (clusterRoute m) = m" "ht_Parents (clusterRoute m) = []"
  by (simp_all add: clusterRoute_def sampleRoute_def)

lemma cluster_spec:
  assumes "om_Namespace m = ''default''"
  obtains spec where "buildRouteSpecWithReader (clusterReader (clusterRoute m)) sampleConfig (clusterRoute m) boundSampleGateway = Inr (Some spec)"
proof -
  let ?route = "clusterRoute m"
  have same: "buildRouteSpecWithReader (clusterReader ?route) sampleConfig ?route boundSampleGateway =
      buildRouteSpecWithReader (sampleReader sampleConfig 8080 []) sampleConfig ?route boundSampleGateway"
    unfolding buildRouteSpecWithReader_def nodePortMembersWithReader_def clusterReader_backends ..
  have "supportedParts ?route (ht_Rules ?route ! 0) (hr_BackendRefs (ht_Rules ?route ! 0) ! 0)"
    using clusterRoute_supported [OF assms] by (auto simp: structurallySupportedRoute_iff supportedParts_def clusterRoute_def sampleRoute_def)
  from buildRouteSpec_resolved [OF this sample_resolves, of 8080 boundSampleGateway sampleConfig "[]"]
  obtain spec where "buildRouteSpecWithReader (sampleReader sampleConfig 8080 []) sampleConfig ?route boundSampleGateway = Inr (Some spec)"
    by (auto simp: clusterRoute_def sampleRoute_def boundSampleGateway_fields)
  with same that show thesis by metis
qed

lemma cluster_gateway: "acceptedGateway (clusterEnv route) (clusterReader route) (clusterCase m spec)"
proof -
  have "ValidateGateway boundSampleGateway = Inr sampleListener" by (rule sample_validates) (simp_all add: boundSampleGateway_fields)
  then show ?thesis
    using sample_version [of "clusterReader route" route] sample_binding sample_port unfolding acceptedGateway_def boundGateway_def
    by (simp add: clusterCase_def boundSampleGateway_meta boundSampleGateway_fields gatewayProgrammedForGeneration_def
        GatewayClassSupportsInstalledVersion_def Condition_def clusterEnv_def listConditions_def sampleClass_def sampleMeta_def sampleConfig_def clusterReader_def)
qed

lemma cluster_accepts:
  assumes "om_Namespace m = ''default''" "om_Name m = ''a''" "\<not> om_Deleting m"
    and "buildRouteSpecWithReader (clusterReader (clusterRoute m)) sampleConfig (clusterRoute m) boundSampleGateway = Inr (Some spec)"
  shows "accepts (clusterEnv (clusterRoute m)) (clusterReader (clusterRoute m)) (clusterCase m spec)"
proof -
  let ?route = "clusterRoute m" and ?a = "clusterCase m spec"
  have parents: "managedParentsWithReader (clusterReader ?route) sampleConfig ?route = Inr [ac_parent ?a]"
    using assms(1) by (simp add: managedParentsWithReader_def managedParent_def clusterReader_def IsGatewayParentRef_def sampleConfig_def clusterRoute_def
        sampleRoute_def orDefault_def sampleClass_def boundSampleGateway_fields ac_parent_def clusterCase_def)
  have parent: "validateRouteParent ?route (ac_parent ?a) = Inr ()"
    using assms(1) by (simp add: validateRouteParent_def ac_parent_def clusterCase_def boundSampleGateway_meta)
      (simp add: clusterRoute_def sampleRoute_def sampleListener_def HTTPProtocolType_def)
  have slot: "evaluateRouteSlotWithReader (clusterReader ?route) ?route = Inr (ac_slot ?a)"
    by (simp add: evaluateRouteSlotWithReader_def clusterReader_def sampleReader_def sampleService_def clusterRoute_def sampleRoute_def nodePortForBackend_def clusterCase_def)
  have selected: "isSelectedRouteWithReader (clusterReader ?route) ?route (ac_parent ?a) = Inr True"
    by (simp add: isSelectedRouteWithReader_def clusterReader_def sampleReader_def)
  have "length (ht_ParentRefs ?route) = 1" by (simp add: clusterRoute_def sampleRoute_def)
  then show ?thesis
    using assms parents parent slot selected cluster_gateway [of ?route m spec] cluster_laws(9) [of ?route] clusterRoute_supported [OF assms(1)]
    unfolding accepts_def by (simp add: clusterCase_def) (simp add: clusterEnv_def)
qed

text \<open>The metadata of the route without and with a binding, and of the deleted route.\<close>

definition boundMeta :: ObjectMeta where
  "boundMeta = applyRouteBinding listFinalizers sampleConfig (gw_Meta boundSampleGateway) (sampleMeta ''a'' ''uid-2'')"

definition clusterIdentity :: Identity where
  "clusterIdentity = RouteIdentity sampleConfig (gw_Meta boundSampleGateway) (sampleMeta ''a'' ''uid-2'')"

lemma boundMeta_fields:
  "om_Namespace boundMeta = ''default''" "om_Name boundMeta = ''a''" "om_UID boundMeta = ''uid-2''" "\<not> om_Deleting boundMeta"
  unfolding boundMeta_def applyRouteBinding_def removeStaleRouteBindingFinalizers_def Let_def
  by (simp_all add: sameButFinalizers_fields [OF finalizerLaws_rules(4) [OF listFinalizers_laws]] sampleMeta_def)

lemma clusterIdentity_eq: "RouteIdentity sampleConfig (gw_Meta boundSampleGateway) boundMeta = clusterIdentity"
  by (simp add: clusterIdentity_def RouteIdentity_def boundMeta_fields sampleMeta_def)

lemma boundMeta_bound: "boundTo listFinalizers sampleConfig boundMeta clusterIdentity"
  unfolding boundMeta_def clusterIdentity_def
  by (rule applied_boundTo [OF listFinalizers_laws])
    (simp add: isOk_iff go_simps RouteIdentity_def GatewayIdentity_def sampleConfig_def sampleMeta_def boundSampleGateway_meta)

lemma boundMeta_stores: "stores (clusterEnv route) (clusterRoute boundMeta) clusterIdentity"
  using boundMeta_bound by (simp add: stores_def StoredRouteIdentity_Some clusterEnv_def)

lemma boundMeta_finalizers: "om_Finalizers boundMeta = [bindingFinalizerOf sampleConfig clusterIdentity, RouteFinalizer sampleConfig]"
proof -
  have "RouteFinalizer sampleConfig \<noteq> RouteBindingFinalizer sampleConfig a b d e f" for a b d e f
    using RouteFinalizer_not_binding binding_isBindingFinalizer by metis
  then show ?thesis
    by (simp add: boundMeta_def applyRouteBinding_def removeStaleRouteBindingFinalizers_def Let_def listFinalizers_def bindingFinalizerOf_def clusterIdentity_def
        RouteIdentity_def GatewayIdentity_def) (simp add: sampleMeta_def)
qed

lemma boundMeta_again:
  "routeBindingMetadataEqual boundMeta (applyRouteBinding listFinalizers sampleConfig (gw_Meta boundSampleGateway) boundMeta)"
proof -
  let ?b = "RouteBindingFinalizer sampleConfig (cf_ClusterID sampleConfig) (cf_OpenStackProjectID sampleConfig) (om_Namespace (gw_Meta boundSampleGateway))
    (om_Name (gw_Meta boundSampleGateway)) (om_UID (gw_Meta boundSampleGateway))"
  have b: "bindingFinalizerOf sampleConfig clusterIdentity = ?b"
    by (simp add: bindingFinalizerOf_def clusterIdentity_def RouteIdentity_def GatewayIdentity_def)
  have "om_Finalizers (applyRouteBinding listFinalizers sampleConfig (gw_Meta boundSampleGateway) boundMeta) = om_Finalizers boundMeta"
    using boundMeta_finalizers RouteFinalizer_not_binding [of sampleConfig] unfolding b
    by (simp add: applyRouteBinding_def removeStaleRouteBindingFinalizers_def Let_def listFinalizers_def)
  moreover have "om_Annotations (applyRouteBinding listFinalizers sampleConfig (gw_Meta boundSampleGateway) boundMeta) = om_Annotations boundMeta"
    unfolding boundMeta_def applyRouteBinding_fields(4) [OF listFinalizers_laws] using keys_distinct [of sampleConfig] by (auto simp: fun_eq_iff)
  ultimately show ?thesis by (simp add: routeBindingMetadataEqual_def)
qed

lemma cluster_current: "bindingCurrent (clusterEnv (clusterRoute boundMeta)) (clusterCase boundMeta spec)"
  using boundMeta_stores [of "clusterRoute boundMeta"] boundMeta_again boundMeta_finalizers
  by (simp add: bindingCurrent_def clusterCase_def clusterIdentity_eq hasRouteFinalizer_def bindTo_def clusterEnv_def finalizerLaws_rules(1) [OF listFinalizers_laws])

lemma cluster_unbound:
  "storedRouteIdentity (clusterEnv route) (clusterRoute (sampleMeta ''a'' ''uid-2'')) = Inr None"
  "\<not> hasRouteFinalizer (clusterEnv route) (clusterRoute (sampleMeta ''a'' ''uid-2''))"
  "\<not> routeBindingMetadataEqual (sampleMeta ''a'' ''uid-2'') boundMeta"
proof -
  have "StoredRouteIdentity listFinalizers sampleConfig (sampleMeta ''a'' ''uid-2'') = Inr None"
    by (simp add: StoredRouteIdentity_None routeHasBindingAnnotations_def hasRouteBindingFinalizer_def annotation_def sampleMeta_def)
  then show "storedRouteIdentity (clusterEnv route) (clusterRoute (sampleMeta ''a'' ''uid-2'')) = Inr None"
    by (simp add: storedRouteIdentity_def clusterEnv_def)
  show "\<not> hasRouteFinalizer (clusterEnv route) (clusterRoute (sampleMeta ''a'' ''uid-2''))"
    by (simp add: hasRouteFinalizer_def clusterEnv_def listFinalizers_def) (simp add: sampleMeta_def)
  show "\<not> routeBindingMetadataEqual (sampleMeta ''a'' ''uid-2'') boundMeta"
    by (simp add: routeBindingMetadataEqual_def boundMeta_finalizers) (simp add: sampleMeta_def)
qed

definition deletedMeta :: ObjectMeta where
  "deletedMeta = boundMeta\<lparr>om_DeletionTimestamp := Some 1\<rparr>"

lemma deletedMeta_stores: "stores (clusterEnv route) (clusterRoute deletedMeta) clusterIdentity"
proof -
  have "boundTo listFinalizers sampleConfig deletedMeta clusterIdentity"
    using boundMeta_bound by (simp add: boundTo_def deletedMeta_def annotatedIdentity_def annotation_def finalizerLaws_rules(1) [OF listFinalizers_laws])
  then show ?thesis by (simp add: stores_def StoredRouteIdentity_Some clusterEnv_def)
qed

section \<open>Safety\<close>

text \<open>
  C5. The provider is asked to create or change the resources of a route only under the graph lock of its Gateway,
  and only after a live read under that lock showed the route with the finalizer and a binding to exactly this
  identity, and the Gateway, not deleted, with the finalizer and a valid binding. This holds whatever the API server,
  the provider and other clients do.
\<close>

theorem ensure_needs_lock_and_binding:
  assumes "finalizerLaws (rv_finalizers env)" "conditionLaws (rv_conditions env)" "keyedReads env" "fresh s"
    and "Reconcile env namespace name s = (r, s')" "rt_log s' = prior @ CalledEnsureRoute spec result # later"
  shows "\<exists>since route gateway. heldSince (GatewayUID (rs_Identity spec)) prior since \<and>
    sawRoute since route \<and> stores env route (rs_Identity spec) \<and> hasRouteFinalizer env route \<and>
    sawGateway since gateway \<and> boundGateway env gateway \<and> om_UID (gw_Meta gateway) = GatewayUID (rs_Identity spec)"
  using Reconcile_justified [OF assms] by (simp add: justified_def mayEnsure_def)

text \<open>
  C7. The provider is asked to delete the resources of a route only under the graph lock of the Gateway they belong to,
  and only after a live read under that lock showed the route with a binding to exactly the identity that is deleted.
\<close>

theorem delete_needs_lock_and_binding:
  assumes "finalizerLaws (rv_finalizers env)" "conditionLaws (rv_conditions env)" "keyedReads env" "fresh s"
    and "Reconcile env namespace name s = (r, s')" "rt_log s' = prior @ CalledDeleteRoute i result # later"
  shows "\<exists>since route. heldSince (GatewayUID i) prior since \<and> sawRoute since route \<and> stores env route i"
  using Reconcile_justified [OF assms] by (simp add: justified_def mayDelete_def)

text \<open>
  C6. A binding is not lost: a patch of a route that stores an identity keeps the identity and the finalizer, or
  is the binding to the same Gateway, written under its graph lock, or comes after the provider reported that
  the resources of the identity are deleted.
\<close>

theorem binding_outlives_resources:
  assumes "finalizerLaws (rv_finalizers env)" "conditionLaws (rv_conditions env)" "keyedReads env" "fresh s"
    and "Reconcile env namespace name s = (r, s')" "rt_log s' = prior @ PatchedRoute base desired result # later" "stores env base i"
  shows "stores env desired i \<and> (hasRouteFinalizer env base \<longrightarrow> hasRouteFinalizer env desired) \<or>
    (\<exists>gateway since. desired = bindTo env gateway base \<and>
       SameGatewayIdentity i (RouteIdentity (rv_Config env) (gw_Meta gateway) (ht_Meta base)) \<and> heldSince (GatewayUID i) prior since) \<or>
    (\<exists>outcome. CalledDeleteRoute i (Inr outcome) \<in> set prior \<and> o_State outcome = OutcomeReady)"
  using Reconcile_justified [OF assms(1-6)] assms(7) by (simp add: justified_def mayPatch_def rebinds_def resourcesGone_def)


text \<open>
  A reconciliation of a route holds at most one graph lock at any moment, and none when it returns, with a
  result or with an error.
\<close>

theorem Reconcile_locks_once:
  assumes "rt_log s = []" "Reconcile env namespace name s = (r, s')"
  shows "atMostOneLock (rt_log s') \<and> heldLocks (rt_log s') = []"
proof -
  have "holding [] s" using assms(1) by (simp add: holding_def atMostOneLock_def heldLocks_def)
  from keeps_run [OF Reconcile_holds this, of env namespace name] assms(2) show ?thesis by (simp add: holding_def)
qed

section \<open>Progress\<close>

text \<open>
  A deleted route is released: when reads are answered alike, the lock is free and the provider deletes the
  resources, one reconciliation of a deleted route with a binding deletes the resources once, under the
  lock, removes the binding and the finalizer, and is done.
\<close>

theorem deleted_route_is_released:
  assumes "finalizerLaws (rv_finalizers env)" "settledCluster env reader" "cooperative env" "deletes env i outcome" "rt_log s = []"
    and "finds reader route" "om_Deleting (ht_Meta route)" "stores env route i"
  shows "\<exists>s'. Reconcile env (om_Namespace (ht_Meta route)) (om_Name (ht_Meta route)) s = (Inr noResult, s') \<and>
    effects (rt_log s') = [AcquiredGraph (GatewayUID i), CalledDeleteRoute i (Inr outcome), ReleasedGraph (GatewayUID i),
      PatchedRoute route (clearBinding env route) (Inr (clearBinding env route))] \<and> \<not> hasRouteFinalizer env (clearBinding env route)"
  using deletion_run [OF assms(2,3,6,8,7,4,1), of s] cleared_differs(2) [OF assms(1,8)] assms(5) by simp

text \<open>
  A route is bound before anything is created: when reads are answered alike and the lock is free, the
  reconciliation of an accepted route without a binding writes the binding under the lock and does nothing else.
\<close>

theorem accepted_route_is_bound_first:
  assumes "settledCluster env reader" "cooperative env" "accepts env reader a" "rt_log s = []"
    and "storedRouteIdentity env (ac_route a) = Inr None" "\<not> hasRouteFinalizer env (ac_route a)"
    and "\<not> routeBindingMetadataEqual (ht_Meta (ac_route a)) (ht_Meta (bindTo env (ac_gateway a) (ac_route a)))"
  shows "\<exists>s'. Reconcile env (om_Namespace (ht_Meta (ac_route a))) (om_Name (ht_Meta (ac_route a))) s = (Inr requeueNow, s') \<and>
    effects (rt_log s') = [AcquiredGraph (om_UID (gw_Meta (ac_gateway a))),
      PatchedRoute (ac_route a) (bindTo env (ac_gateway a) (ac_route a)) (Inr (bindTo env (ac_gateway a) (ac_route a))),
      ReleasedGraph (om_UID (gw_Meta (ac_gateway a)))]"
  using binding_run [OF assms(1-3,5-7), of s] assms(4) by simp

text \<open>
  C15. A bound route is programmed: when reads are answered alike, the lock is free and the provider reports the
  route ready, the reconciliation of an accepted route with a current binding calls the provider once, under the lock, with the
  specification of the route, then publishes the programmed status unless it is published already, and comes back
  after the resync interval.
\<close>

theorem bound_route_is_programmed:
  assumes "settledCluster env reader" "cooperative env" "publishes env" "accepts env reader a" "bindingCurrent env a" "ensures env (ac_spec a) q" "rt_log s = []"
  shows "\<exists>s'. Reconcile env (om_Namespace (ht_Meta (ac_route a))) (om_Name (ht_Meta (ac_route a))) s =
      (Inr (requeueAfter (OpenStackResyncAfter (cf_OpenStackResyncInterval (rv_Config env)) (om_UID (ht_Meta (ac_route a))))), s') \<and>
    effects (rt_log s') = [AcquiredGraph (om_UID (gw_Meta (ac_gateway a))), CalledEnsureRoute (ac_spec a) (Inr q),
      ReleasedGraph (om_UID (gw_Meta (ac_gateway a)))] @ publication env a"
  using programming_run [OF assms(1-6), of s] assms(7) by simp

section \<open>On the cluster\<close>

theorem deleted_route_is_released_witness:
  "\<exists>s'. Reconcile (clusterEnv (clusterRoute deletedMeta)) ''default'' ''a'' startState = (Inr noResult, s') \<and>
     CalledDeleteRoute clusterIdentity (Inr ReadyOutcome) \<in> set (effects (rt_log s'))"
  using deleted_route_is_released [OF cluster_laws(1,3,4,6) _ cluster_laws(9) _ deletedMeta_stores, of startState]
  by (auto simp: startState_def deletedMeta_def boundMeta_fields)

theorem delete_needs_lock_and_binding_witness:
  "\<exists>r s' prior later. Reconcile (clusterEnv (clusterRoute deletedMeta)) ''default'' ''a'' startState = (r, s') \<and>
     rt_log s' = prior @ CalledDeleteRoute clusterIdentity (Inr ReadyOutcome) # later \<and> (\<exists>since. heldSince ''uid-1'' prior since)"
proof -
  let ?env = "clusterEnv (clusterRoute deletedMeta)"
  obtain s' where run: "Reconcile ?env ''default'' ''a'' startState = (Inr noResult, s')"
    "CalledDeleteRoute clusterIdentity (Inr ReadyOutcome) \<in> set (effects (rt_log s'))"
    using deletion_run [OF cluster_laws(3,4,9) deletedMeta_stores _ cluster_laws(6,1), of startState]
    by (auto simp: deletedMeta_def boundMeta_fields)
  obtain prior later where split: "rt_log s' = prior @ CalledDeleteRoute clusterIdentity (Inr ReadyOutcome) # later" by (rule effect_split [OF run(2)])
  have "GatewayUID clusterIdentity = ''uid-1''" by (simp add: clusterIdentity_def boundSampleGateway_meta)
  with delete_needs_lock_and_binding [OF cluster_laws(1,2) cluster_keyed cluster_laws(8) run(1) split]
  have "\<exists>since. heldSince ''uid-1'' prior since" by auto
  with run(1) split show ?thesis by blast
qed

theorem binding_outlives_resources_witness:
  "\<exists>r s' prior later desired result. Reconcile (clusterEnv (clusterRoute deletedMeta)) ''default'' ''a'' startState = (r, s') \<and>
     rt_log s' = prior @ PatchedRoute (clusterRoute deletedMeta) desired result # later \<and> \<not> hasRouteFinalizer (clusterEnv (clusterRoute deletedMeta)) desired \<and>
     (\<exists>outcome. CalledDeleteRoute clusterIdentity (Inr outcome) \<in> set prior \<and> o_State outcome = OutcomeReady)"
proof -
  let ?env = "clusterEnv (clusterRoute deletedMeta)"
  let ?cleared = "clearBinding ?env (clusterRoute deletedMeta)"
  obtain s' where run: "Reconcile ?env ''default'' ''a'' startState = (Inr noResult, s')"
    "PatchedRoute (clusterRoute deletedMeta) ?cleared (Inr ?cleared) \<in> set (effects (rt_log s'))"
    using deletion_run [OF cluster_laws(3,4,9) deletedMeta_stores _ cluster_laws(6,1), of startState]
    by (auto simp: deletedMeta_def boundMeta_fields)
  obtain prior later where split: "rt_log s' = prior @ PatchedRoute (clusterRoute deletedMeta) ?cleared (Inr ?cleared) # later" by (rule effect_split [OF run(2)])
  have gone: "\<not> hasRouteFinalizer ?env ?cleared" by (rule cleared_differs(2) [OF cluster_laws(1) deletedMeta_stores])
  have had: "hasRouteFinalizer ?env (clusterRoute deletedMeta)"
    using boundMeta_finalizers by (simp add: hasRouteFinalizer_def clusterEnv_def finalizerLaws_rules(1) [OF listFinalizers_laws] deletedMeta_def)
  have "?cleared \<noteq> bindTo ?env gateway (clusterRoute deletedMeta)" for gateway
  proof
    assume "?cleared = bindTo ?env gateway (clusterRoute deletedMeta)"
    moreover have "hasRouteFinalizer ?env (bindTo ?env gateway (clusterRoute deletedMeta))"
      by (simp add: hasRouteFinalizer_def bindTo_def clusterEnv_def finalizerLaws_rules(1) [OF listFinalizers_laws] applyRouteBinding_fields(5) [OF listFinalizers_laws])
    ultimately show False using gone by simp
  qed
  with binding_outlives_resources [OF cluster_laws(1,2) cluster_keyed cluster_laws(8) run(1) split deletedMeta_stores] gone had
  have "\<exists>outcome. CalledDeleteRoute clusterIdentity (Inr outcome) \<in> set prior \<and> o_State outcome = OutcomeReady" by blast
  with run(1) split gone show ?thesis by blast
qed

theorem accepted_route_is_bound_first_witness:
  "\<exists>s'. Reconcile (clusterEnv (clusterRoute (sampleMeta ''a'' ''uid-2''))) ''default'' ''a'' startState = (Inr requeueNow, s') \<and> length (effects (rt_log s')) = 3"
proof -
  let ?m = "sampleMeta ''a'' ''uid-2''"
  have m: "om_Namespace ?m = ''default''" "om_Name ?m = ''a''" "\<not> om_Deleting ?m" by (simp_all add: sampleMeta_def)
  obtain spec where "buildRouteSpecWithReader (clusterReader (clusterRoute ?m)) sampleConfig (clusterRoute ?m) boundSampleGateway = Inr (Some spec)"
    by (rule cluster_spec [OF m(1)])
  note acc = cluster_accepts [OF m this]
  have "bindTo (clusterEnv (clusterRoute ?m)) boundSampleGateway (clusterRoute ?m) = clusterRoute boundMeta"
    by (simp add: bindTo_def clusterRoute_def clusterEnv_def boundMeta_def)
  then show ?thesis
    using accepted_route_is_bound_first [OF cluster_laws(3,4) acc, of startState] cluster_unbound m by (auto simp: clusterCase_def startState_def)
qed

lemma cluster_programs:
  obtains spec s' where "Reconcile (clusterEnv (clusterRoute boundMeta)) ''default'' ''a'' startState =
      (Inr (requeueAfter (OpenStackResyncAfter 600000000000 ''uid-2'')), s')"
    "accepts (clusterEnv (clusterRoute boundMeta)) (clusterReader (clusterRoute boundMeta)) (clusterCase boundMeta spec)"
    "rs_Identity spec = clusterIdentity"
    "effects (rt_log s') = [AcquiredGraph ''uid-1'', CalledEnsureRoute spec (Inr (RouteReadyResult emptyRouteState)), ReleasedGraph ''uid-1''] @
       publication (clusterEnv (clusterRoute boundMeta)) (clusterCase boundMeta spec)"
proof -
  obtain spec where spec: "buildRouteSpecWithReader (clusterReader (clusterRoute boundMeta)) sampleConfig (clusterRoute boundMeta) boundSampleGateway = Inr (Some spec)"
    by (rule cluster_spec [OF boundMeta_fields(1)])
  note acc = cluster_accepts [OF boundMeta_fields(1,2,4) spec]
  have i: "rs_Identity spec = clusterIdentity" using spec by (auto elim!: buildRouteSpec_cases simp: clusterIdentity_eq)
  show thesis
    using programming_run [OF cluster_laws(3,4,5) acc cluster_current cluster_laws(7), of startState] that [OF _ acc i]
    by (auto simp: clusterCase_def boundMeta_fields boundSampleGateway_meta clusterEnv_def sampleConfig_def startState_def)
qed

theorem bound_route_is_programmed_witness:
  "\<exists>s'. Reconcile (clusterEnv (clusterRoute boundMeta)) ''default'' ''a'' startState =
      (Inr (requeueAfter (OpenStackResyncAfter 600000000000 ''uid-2'')), s') \<and> AcquiredGraph ''uid-1'' \<in> set (effects (rt_log s'))"
proof -
  obtain spec where spec: "buildRouteSpecWithReader (clusterReader (clusterRoute boundMeta)) sampleConfig (clusterRoute boundMeta) boundSampleGateway = Inr (Some spec)"
    by (rule cluster_spec [OF boundMeta_fields(1)])
  show ?thesis
    using bound_route_is_programmed [OF cluster_laws(3,4,5) cluster_accepts [OF boundMeta_fields(1,2,4) spec] cluster_current cluster_laws(7), of startState]
    by (auto simp: clusterCase_def boundMeta_fields boundSampleGateway_meta clusterEnv_def sampleConfig_def startState_def)
qed

theorem ensure_needs_lock_and_binding_witness:
  "\<exists>r s' prior spec result later. Reconcile (clusterEnv (clusterRoute boundMeta)) ''default'' ''a'' startState = (r, s') \<and>
     rt_log s' = prior @ CalledEnsureRoute spec result # later \<and> (\<exists>since route. heldSince ''uid-1'' prior since \<and> sawRoute since route)"
proof -
  obtain spec r s' where run: "Reconcile (clusterEnv (clusterRoute boundMeta)) ''default'' ''a'' startState = (r, s')" "rs_Identity spec = clusterIdentity"
    "CalledEnsureRoute spec (Inr (RouteReadyResult emptyRouteState)) \<in> set (effects (rt_log s'))"
    by (rule cluster_programs) auto
  obtain prior later where split: "rt_log s' = prior @ CalledEnsureRoute spec (Inr (RouteReadyResult emptyRouteState)) # later" by (rule effect_split [OF run(3)])
  have "GatewayUID (rs_Identity spec) = ''uid-1''" by (simp add: run(2) clusterIdentity_def boundSampleGateway_meta)
  with ensure_needs_lock_and_binding [OF cluster_laws(1,2) cluster_keyed cluster_laws(8) run(1) split] run(1) split show ?thesis by metis
qed

lemma setConditions_found:
  assumes "conditionLaws u"
  shows "\<exists>d. FindStatusCondition u (setConditions u c status g g' g'' conditions) (programmedType c) = Some d \<and> co_Status d = programmed status"
  unfolding setConditions_def Let_def SetCondition_def
  using conditionLaws_same [OF assms, of _ "Condition (programmedType c) (programmed status) (programmedReason status) (programmedMessage status) g''"]
  by (metis (no_types, lifting) Condition_def StatusCondition.select_convs(1,2))

lemma cluster_publishes:
  "list_ex (claimsProgrammed (clusterEnv route)) (ht_Parents (publishedRoute (clusterEnv route) (clusterCase m spec)))"
proof -
  have "programmed programmedRouteStatus = ConditionTrue" by (simp add: programmedRouteStatus_def)
  then show ?thesis
    using setConditions_found [OF cluster_laws(2) [of route], of "rv_Config (clusterEnv route)" programmedRouteStatus]
    by (simp add: publishedRoute_def applyRouteParentStatuses_def clusterCase_def distinctUpdates_def parentStatusUpdateAppearedEarlier_def programmedUpdate_def
        routeParentStatus_def claimsProgrammed_def otherParents_def Let_def)
qed


theorem Reconcile_locks_once_witness:
  "\<exists>r s'. Reconcile (clusterEnv (clusterRoute boundMeta)) ''default'' ''a'' startState = (r, s') \<and> AcquiredGraph ''uid-1'' \<in> set (rt_log s') \<and>
     atMostOneLock (rt_log s') \<and> heldLocks (rt_log s') = []"
proof -
  obtain r s' where run: "Reconcile (clusterEnv (clusterRoute boundMeta)) ''default'' ''a'' startState = (r, s')" "AcquiredGraph ''uid-1'' \<in> set (effects (rt_log s'))"
    by (rule cluster_programs) auto
  have "rt_log startState = []" by (simp add: startState_def)
  from Reconcile_locks_once [OF this run(1)] run show ?thesis by (auto simp: effects_def)
qed

end
