(* ===== verification/GatewayStatus.thy ===== *)
theory GatewayStatus
  imports ReconcileErrors
begin

text \<open>
  The status of a Gateway: gateway/gateway\_status.go without its error handling. The functions of the code that change the
  Gateway in place return the changed Gateway here.
\<close>

section \<open>Listener statuses\<close>

definition supportedHTTPRouteKinds :: "RouteGroupKind list" where
  "supportedHTTPRouteKinds = [\<lparr>rk_Group = Some GroupName, rk_Kind = ''HTTPRoute''\<rparr>]"

definition existingListenerConditionsFrom :: "ListenerStatus list \<Rightarrow> string \<Rightarrow> StatusCondition list" where
  "existingListenerConditionsFrom statuses listenerName = (case find (\<lambda>status. ls_Name status = listenerName) statuses of
      None \<Rightarrow> []
    | Some status \<Rightarrow> ls_Conditions status)"

definition existingListenerConditions :: "Gateway \<Rightarrow> string \<Rightarrow> StatusCondition list" where
  "existingListenerConditions gateway listenerName = existingListenerConditionsFrom (gw_ListenerStatuses gateway) listenerName"

definition isControllerOwnedListenerCondition :: "string \<Rightarrow> bool" where
  "isControllerOwnedListenerCondition conditionType \<longleftrightarrow> conditionType \<in> {''Accepted'', ''ResolvedRefs'', ''Conflicted'', ''Programmed''}"

definition listenerStatusesWithoutControllerConditions :: "Gateway \<Rightarrow> ListenerStatus list" where
  "listenerStatusesWithoutControllerConditions gateway =
     map (\<lambda>(name, conditions). \<lparr>ls_Name = name, ls_SupportedKinds = [], ls_AttachedRoutes = 0, ls_Conditions = conditions\<rparr>)
       (filter (\<lambda>(name, conditions). conditions \<noteq> [])
         (map (\<lambda>existing. (ls_Name existing, filter (\<lambda>candidate. \<not> isControllerOwnedListenerCondition (co_Type candidate)) (ls_Conditions existing)))
           (gw_ListenerStatuses gateway)))"

definition setAcceptedListenerConditions :: "conditionUtil \<Rightarrow> StatusCondition list \<Rightarrow> int \<Rightarrow> StatusCondition list" where
  "setAcceptedListenerConditions u conditions generation =
     (let conditions = SetCondition u conditions (Condition ''Accepted'' ConditionTrue ''Accepted'' ''Listener is accepted'' generation);
          conditions = SetCondition u conditions (Condition ''ResolvedRefs'' ConditionTrue ''ResolvedRefs'' ''Listener references are resolved'' generation) in
      SetCondition u conditions (Condition ''Conflicted'' ConditionFalse ''NoConflicts'' ''Listener has no conflicts'' generation))"

section \<open>Rejected Gateways\<close>

definition setGatewayConditions :: "conditionUtil \<Rightarrow> Gateway \<Rightarrow> StatusCondition list \<Rightarrow> Gateway" where
  "setGatewayConditions u gateway conditions = gateway\<lparr>gw_Conditions := foldl (SetCondition u) (gw_Conditions gateway) conditions\<rparr>"

definition gatewayReasonText :: "gatewayConditionReason \<Rightarrow> string" where
  "gatewayReasonText reason = (case reason of GatewayReasonUnsupportedAddress \<Rightarrow> ''UnsupportedAddress'' | GatewayReasonInvalidParameters \<Rightarrow> ''InvalidParameters'')"

definition failedListenerStatus :: "conditionUtil \<Rightarrow> gatewayValidationError \<Rightarrow> Gateway \<Rightarrow> GatewayListener \<Rightarrow> ListenerStatus" where
  "failedListenerStatus u err gateway listener =
     (let msg = ve_message err; generation = om_Generation (gw_Meta gateway); listenerSpecific = (ve_gatewayReason err = None);
          accepted = (if \<not> listenerSpecific then Condition ''Accepted'' ConditionTrue ''Accepted'' ''Listener configuration is accepted'' generation
            else Condition ''Accepted'' ConditionFalse
              (if gl_Protocol listener \<noteq> HTTPProtocolType then ''UnsupportedProtocol'' else ''UnsupportedValue'') msg generation);
          resolved = (if ve_invalidRouteKinds err then Condition ''ResolvedRefs'' ConditionFalse ''InvalidRouteKinds'' msg generation
            else Condition ''ResolvedRefs'' ConditionTrue ''ResolvedRefs'' ''Listener has no unresolved references'' generation);
          conflicted = Condition ''Conflicted'' ConditionFalse ''NoConflicts'' ''Listener has no conflicts'' generation;
          programmed = Condition ''Programmed'' ConditionFalse (if listenerSpecific then ''Invalid'' else ''Pending'') msg generation in
      \<lparr>ls_Name = gl_Name listener,
       ls_SupportedKinds = (if \<not> ve_invalidRouteKinds err \<or> listenerAllowsHTTPRoute listener then supportedHTTPRouteKinds else []),
       ls_AttachedRoutes = 0,
       ls_Conditions = foldl (SetCondition u) (existingListenerConditionsFrom (gw_ListenerStatuses gateway) (gl_Name listener))
         [accepted, resolved, conflicted, programmed]\<rparr>)"

definition setGatewayFailure :: "conditionUtil \<Rightarrow> gatewayValidationError \<Rightarrow> Gateway \<Rightarrow> Gateway" where
  "setGatewayFailure u err gateway =
     (let generation = om_Generation (gw_Meta gateway);
          reason = (case ve_gatewayReason err of None \<Rightarrow> ''ListenersNotValid'' | Some reason \<Rightarrow> gatewayReasonText reason) in
      (setGatewayConditions u gateway [Condition ''Accepted'' ConditionFalse reason (ve_message err) generation,
         Condition ''Programmed'' ConditionFalse ''Invalid'' (ve_message err) generation])
      \<lparr>gw_StatusAddresses := [], gw_ListenerStatuses := map (failedListenerStatus u err gateway) (gw_Listeners gateway)\<rparr>)"

definition setGatewayFailureReason :: "conditionUtil \<Rightarrow> string \<Rightarrow> string \<Rightarrow> Gateway \<Rightarrow> Gateway" where
  "setGatewayFailureReason u reason msg gateway = (let generation = om_Generation (gw_Meta gateway) in
     (setGatewayConditions u gateway [Condition ''Accepted'' ConditionFalse reason msg generation,
        Condition ''Programmed'' ConditionFalse ''Invalid'' msg generation])
     \<lparr>gw_StatusAddresses := [], gw_ListenerStatuses := listenerStatusesWithoutControllerConditions gateway\<rparr>)"

section \<open>Failures of the provider\<close>

definition gatewayProviderFailureReasons :: "ErrorCategory \<Rightarrow> string \<times> string" where
  "gatewayProviderFailureReasons category = (case category of
      Quota \<Rightarrow> (''NoResources'', ''Pending'')
    | TerminalValidation \<Rightarrow> (''Invalid'', ''Invalid'')
    | ResourceFailure \<Rightarrow> (''ResourceFailed'', ''ResourceFailed'')
    | OwnershipConflict \<Rightarrow> (''OwnershipConflict'', ''OwnershipConflict'')
    | _ \<Rightarrow> (''Pending'', ''Pending''))"

definition programmedGeneration :: "conditionUtil \<Rightarrow> Gateway \<Rightarrow> bool \<Rightarrow> int" where
  "programmedGeneration u gateway advance =
     ConditionObservedGeneration u (gw_Conditions gateway) ''Programmed'' (om_Generation (gw_Meta gateway)) advance"

definition failureTransitions :: "conditionUtil \<Rightarrow> Gateway \<Rightarrow> ProviderFailurePolicy \<Rightarrow> bool" where
  "failureTransitions u gateway policy = ConditionTransitioned u (gw_Conditions gateway) ''Programmed'' (fp_ConditionStatus policy)
     (fst (gatewayProviderFailureReasons (fp_Category policy))) (fp_Message policy) (programmedGeneration u gateway (fp_AdvancesObservedGeneration policy))"

definition cleanupFailedListener :: "conditionUtil \<Rightarrow> ProviderFailurePolicy \<Rightarrow> string \<Rightarrow> int \<Rightarrow> ListenerStatus \<Rightarrow> ListenerStatus" where
  "cleanupFailedListener u policy listenerReason generation status = status\<lparr>ls_Conditions := SetCondition u (ls_Conditions status)
     (Condition ''Programmed'' (fp_ConditionStatus policy) listenerReason (fp_Message policy)
       (ConditionObservedGeneration u (ls_Conditions status) ''Programmed'' generation (fp_AdvancesObservedGeneration policy)))\<rparr>"

definition setGatewayCleanupFailure :: "conditionUtil \<Rightarrow> ProviderFailurePolicy \<Rightarrow> string \<Rightarrow> string \<Rightarrow> Gateway \<Rightarrow> Gateway" where
  "setGatewayCleanupFailure u policy gatewayReason listenerReason gateway =
     (setGatewayConditions u gateway [Condition ''Programmed'' (fp_ConditionStatus policy) gatewayReason (fp_Message policy)
        (programmedGeneration u gateway (fp_AdvancesObservedGeneration policy))])
     \<lparr>gw_ListenerStatuses := map (cleanupFailedListener u policy listenerReason (om_Generation (gw_Meta gateway))) (gw_ListenerStatuses gateway)\<rparr>"

section \<open>Attached routes\<close>

definition routeParentStatusTargetsListener :: "RouteParentStatus \<Rightarrow> Gateway \<Rightarrow> GatewayListener \<Rightarrow> string \<Rightarrow> bool" where
  "routeParentStatusTargetsListener parentStatus gateway listener controllerName = (let parentRef = ps_ParentRef parentStatus in
     if ps_ControllerName parentStatus \<noteq> controllerName \<or> \<not> IsGatewayParentRef parentRef \<or> pa_Name parentRef \<noteq> om_Name (gw_Meta gateway) then False
     else if pa_Namespace parentRef \<noteq> None \<and> pa_Namespace parentRef \<noteq> Some (om_Namespace (gw_Meta gateway)) then False
     else if pa_SectionName parentRef \<noteq> None \<and> pa_SectionName parentRef \<noteq> Some (gl_Name listener) then False
     else pa_Port parentRef = None \<or> pa_Port parentRef = Some (gl_Port listener))"

definition routeAttached :: "conditionUtil \<Rightarrow> Gateway \<Rightarrow> GatewayListener \<Rightarrow> string \<Rightarrow> HTTPRoute \<Rightarrow> bool" where
  "routeAttached u gateway listener controllerName route =
     (case find (\<lambda>parentStatus. routeParentStatusTargetsListener parentStatus gateway listener controllerName) (ht_Parents route) of
        None \<Rightarrow> False
      | Some parentStatus \<Rightarrow> (case FindStatusCondition u (ps_Conditions parentStatus) ''Accepted'' of
           None \<Rightarrow> False
         | Some accepted \<Rightarrow> co_Status accepted = ConditionTrue \<and> co_ObservedGeneration accepted = om_Generation (ht_Meta route)))"

text \<open>The key of an object in an index, and the index of the routes by the Gateways in their status.\<close>

definition ObjectKeyString :: "string \<Rightarrow> string \<Rightarrow> string" where
  "ObjectKeyString namespace name = namespace @ ''/'' @ name"

definition IndexHTTPRouteByStatusGateway :: string where "IndexHTTPRouteByStatusGateway = ''status.parentGateway''"

text \<open>The count is an int32 of the code; a list of the API server is shorter than that.\<close>

definition attachedRouteCount :: "conditionUtil \<Rightarrow> Config \<Rightarrow> apiReader \<Rightarrow> Gateway \<Rightarrow> GatewayListener \<Rightarrow> readError + int" where
  "attachedRouteCount u c reader gateway listener =
     bindE (rd_Indexed reader IndexHTTPRouteByStatusGateway (ObjectKeyString (om_Namespace (gw_Meta gateway)) (om_Name (gw_Meta gateway)))) (\<lambda>routes.
     Inr (int (length (filter (routeAttached u gateway listener (cf_ControllerName c)) routes))))"

section \<open>Accepted Gateways\<close>

text \<open>The last two arguments of a status are the programmed condition of the Gateway and that of the listener, given its conditions.\<close>

definition acceptedListenerStatus :: "conditionUtil \<Rightarrow> Gateway \<Rightarrow> GatewayListener \<Rightarrow> int \<Rightarrow> (StatusCondition list \<Rightarrow> StatusCondition) \<Rightarrow> ListenerStatus" where
  "acceptedListenerStatus u gateway listener attachedRoutes programmed =
     (let conditions = setAcceptedListenerConditions u (existingListenerConditions gateway (gl_Name listener)) (om_Generation (gw_Meta gateway)) in
      \<lparr>ls_Name = gl_Name listener, ls_SupportedKinds = supportedHTTPRouteKinds, ls_AttachedRoutes = attachedRoutes,
       ls_Conditions = SetCondition u conditions (programmed conditions)\<rparr>)"

definition gatewayAccepted :: "Gateway \<Rightarrow> StatusCondition" where
  "gatewayAccepted gateway = Condition ''Accepted'' ConditionTrue ''Accepted'' ''Gateway configuration is accepted'' (om_Generation (gw_Meta gateway))"

definition setGatewayProvisioningStatus ::
    "conditionUtil \<Rightarrow> GatewayListener \<Rightarrow> int \<Rightarrow> ConditionStatus \<Rightarrow> string \<Rightarrow> string \<Rightarrow> string \<Rightarrow> bool \<Rightarrow> Gateway \<Rightarrow> Gateway" where
  "setGatewayProvisioningStatus u listener attachedRoutes programmed gatewayReason listenerReason msg advance gateway =
     (let generation = om_Generation (gw_Meta gateway) in
      (setGatewayConditions u gateway [gatewayAccepted gateway,
         Condition ''Programmed'' programmed gatewayReason msg (programmedGeneration u gateway advance)])
      \<lparr>gw_ListenerStatuses := [acceptedListenerStatus u gateway listener attachedRoutes (\<lambda>conditions.
         Condition ''Programmed'' programmed listenerReason msg (ConditionObservedGeneration u conditions ''Programmed'' generation advance))]\<rparr>)"

definition setGatewayProgressing :: "conditionUtil \<Rightarrow> GatewayListener \<Rightarrow> int \<Rightarrow> string \<Rightarrow> Gateway \<Rightarrow> Gateway" where
  "setGatewayProgressing u listener attachedRoutes msg =
     setGatewayProvisioningStatus u listener attachedRoutes ConditionFalse ''NoResources'' ''Pending'' msg True"

definition IPAddressType :: string where "IPAddressType = ''IPAddress''"

definition setGatewayProgrammed :: "conditionUtil \<Rightarrow> GatewayListener \<Rightarrow> int \<Rightarrow> GatewayState \<Rightarrow> Gateway \<Rightarrow> Gateway" where
  "setGatewayProgrammed u listener attachedRoutes gatewayState gateway = (let generation = om_Generation (gw_Meta gateway) in
     (setGatewayConditions u gateway [gatewayAccepted gateway,
        Condition ''Programmed'' ConditionTrue ''Programmed'' ''Octavia load balancer and listener are active'' generation])
     \<lparr>gw_StatusAddresses := [(Some IPAddressType, Address gatewayState)],
      gw_ListenerStatuses := [acceptedListenerStatus u gateway listener attachedRoutes (\<lambda>_.
        Condition ''Programmed'' ConditionTrue ''Programmed'' ''Octavia listener is active'' generation)]\<rparr>)"

section \<open>An unsupported Gateway API version\<close>

definition unsupportedVersionGatewayStatus :: "conditionUtil \<Rightarrow> Gateway \<Rightarrow> Gateway" where
  "unsupportedVersionGatewayStatus u gateway =
     (let generation = om_Generation (gw_Meta gateway);
          gateway = setGatewayConditions u gateway [Condition ''Accepted'' ConditionUnknown ''Pending'' UnsupportedGatewayAPIVersionMessage generation];
          pending = setGatewayConditions u gateway [Condition ''Programmed'' ConditionUnknown ''Pending'' UnsupportedGatewayAPIVersionMessage generation] in
      case FindStatusCondition u (gw_Conditions gateway) ''Programmed'' of
         None \<Rightarrow> pending
       | Some programmed \<Rightarrow> if co_ObservedGeneration programmed \<noteq> generation then pending else gateway)"

end
