(* ===== verification/Watches.thy ===== *)
theory Watches
  imports GatewayStatus
begin

text \<open>
  Which objects are reconciled when something changes: the field indexes (indexes.go, requests.go) and the mappers from a
  changed object to reconcile requests (gateway\_watch.go, httproute\_watch.go and those of gatewayclass\_controller.go). A mapper reads
  the cache in one state. What the mappers log is left out; a list that fails gives no requests.
\<close>

section \<open>Objects\<close>

text \<open>\<open>sl_ServiceName\<close> is the value of the label kubernetes.io/service-name, empty without it.\<close>

record EndpointSlice =
  sl_Meta :: ObjectMeta
  sl_ServiceName :: string
  sl_Endpoints :: "Endpoint list"

text \<open>What a client.Object is, as far as a type assertion of the code tells.\<close>

datatype clientObject =
    GatewayClassObject GatewayClass
  | GatewayObject Gateway
  | HTTPRouteObject HTTPRoute
  | ServiceObject ObjectMeta Service
  | EndpointSliceObject EndpointSlice
  | NodeObject ObjectMeta Node
  | DefinitionObject ObjectMeta
  | OtherObject ObjectMeta

section \<open>Field indexes\<close>

definition IndexGatewayClassByController :: string where "IndexGatewayClassByController = ''spec.controllerName''"
definition IndexGatewayByClass :: string where "IndexGatewayByClass = ''spec.gatewayClassName''"
definition IndexHTTPRouteByParentGateway :: string where "IndexHTTPRouteByParentGateway = ''spec.parentGateway''"
definition IndexHTTPRouteByBackendService :: string where "IndexHTTPRouteByBackendService = ''spec.backendService''"
definition IndexHTTPRouteByBoundGateway :: string where "IndexHTTPRouteByBoundGateway = ''metadata.boundGateway''"
definition indexHTTPRouteByBoundGatewayUID :: string where "indexHTTPRouteByBoundGatewayUID = ''metadata.boundGatewayUID''"
definition IndexHTTPRouteByNodeBackend :: string where "IndexHTTPRouteByNodeBackend = ''spec.nodeBackend''"
definition IndexEndpointSliceByService :: string where "IndexEndpointSliceByService = ''metadata.service''"
definition NodeBackendIndexValue :: string where "NodeBackendIndexValue = ''true''"

text \<open>A map with empty values is the list of its keys, in any order.\<close>

definition sortedIndexKeys :: "string list \<Rightarrow> string list" where
  "sortedIndexKeys keys = sort (remdups keys)"

definition parentGatewayKey :: "string \<Rightarrow> ParentReference \<Rightarrow> string list" where
  "parentGatewayKey routeNamespace parent =
     (if \<not> IsGatewayParentRef parent \<or> pa_Name parent = [] then []
      else let namespace = orDefault (pa_Namespace parent) routeNamespace in
        if namespace = [] then [] else [ObjectKeyString namespace (pa_Name parent)])"

definition ParentGatewayKeys :: "HTTPRoute \<Rightarrow> string list" where
  "ParentGatewayKeys route = sortedIndexKeys (concat (map (parentGatewayKey (om_Namespace (ht_Meta route))) (ht_ParentRefs route)))"

definition statusParentGatewayKeys :: "Config \<Rightarrow> HTTPRoute \<Rightarrow> string list" where
  "statusParentGatewayKeys c route = sortedIndexKeys (concat (map (\<lambda>parent.
     if ps_ControllerName parent \<noteq> cf_ControllerName c then [] else parentGatewayKey (om_Namespace (ht_Meta route)) (ps_ParentRef parent)) (ht_Parents route)))"

definition isCoreServiceBackend :: "HTTPBackendRef \<Rightarrow> bool" where
  "isCoreServiceBackend backend \<longleftrightarrow> (br_Group backend = None \<or> br_Group backend = Some []) \<and> (br_Kind backend = None \<or> br_Kind backend = Some ''Service'')"

definition backendServiceKey :: "string \<Rightarrow> HTTPBackendRef \<Rightarrow> string list" where
  "backendServiceKey routeNamespace backend =
     (if \<not> isCoreServiceBackend backend \<or> br_Name backend = [] then []
      else let namespace = orDefault (br_Namespace backend) routeNamespace in
        if namespace = [] then [] else [ObjectKeyString namespace (br_Name backend)])"

definition routeBackends :: "HTTPRoute \<Rightarrow> HTTPBackendRef list" where
  "routeBackends route = concat (map hr_BackendRefs (ht_Rules route))"

definition backendServiceKeys :: "HTTPRoute \<Rightarrow> string list" where
  "backendServiceKeys route = sortedIndexKeys (concat (map (backendServiceKey (om_Namespace (ht_Meta route))) (routeBackends route)))"

definition hasCoreServiceBackend :: "HTTPRoute \<Rightarrow> bool" where
  "hasCoreServiceBackend route = list_ex isCoreServiceBackend (routeBackends route)"

definition boundGatewayKey :: "Config \<Rightarrow> HTTPRoute \<Rightarrow> string" where
  "boundGatewayKey c route =
     (let namespace = annotation (ht_Meta route) (RouteGatewayNamespaceAnnotation c);
          name = annotation (ht_Meta route) (RouteGatewayNameAnnotation c);
          uid = annotation (ht_Meta route) (RouteGatewayUIDAnnotation c) in
      if namespace = [] \<or> name = [] \<or> uid = [] then [] else ObjectKeyString namespace name)"

datatype objectKind = KindGatewayClass | KindGateway | KindHTTPRoute | KindService | KindEndpointSlice | KindNode | KindDefinition

record controllerFieldIndex =
  ix_object :: objectKind
  ix_field :: string
  ix_extract :: "clientObject \<Rightarrow> string list"

definition nonEmpty :: "string \<Rightarrow> string list" where
  "nonEmpty s = (if s = [] then [] else [s])"

definition classIndex :: "clientObject \<Rightarrow> string list" where
  "classIndex obj = (case obj of GatewayClassObject gatewayClass \<Rightarrow> nonEmpty (gc_ControllerName gatewayClass) | _ \<Rightarrow> [])"

definition gatewayIndex :: "clientObject \<Rightarrow> string list" where
  "gatewayIndex obj = (case obj of GatewayObject gateway \<Rightarrow> nonEmpty (gw_GatewayClassName gateway) | _ \<Rightarrow> [])"

definition routeIndex :: "(HTTPRoute \<Rightarrow> string list) \<Rightarrow> clientObject \<Rightarrow> string list" where
  "routeIndex extract obj = (case obj of HTTPRouteObject route \<Rightarrow> extract route | _ \<Rightarrow> [])"

definition boundGatewayUIDs :: "Config \<Rightarrow> HTTPRoute \<Rightarrow> string list" where
  "boundGatewayUIDs c route = (if boundGatewayKey c route = [] then [] else [annotation (ht_Meta route) (RouteGatewayUIDAnnotation c)])"

definition nodeBackendValues :: "HTTPRoute \<Rightarrow> string list" where
  "nodeBackendValues route = (if hasCoreServiceBackend route then [NodeBackendIndexValue] else [])"

definition sliceIndex :: "clientObject \<Rightarrow> string list" where
  "sliceIndex obj = (case obj of
      EndpointSliceObject endpointSlice \<Rightarrow>
        if om_Namespace (sl_Meta endpointSlice) = [] \<or> sl_ServiceName endpointSlice = [] then []
        else [ObjectKeyString (om_Namespace (sl_Meta endpointSlice)) (sl_ServiceName endpointSlice)]
    | _ \<Rightarrow> [])"

definition fieldIndex :: "objectKind \<Rightarrow> string \<Rightarrow> (clientObject \<Rightarrow> string list) \<Rightarrow> controllerFieldIndex" where
  "fieldIndex kind field extract = \<lparr>ix_object = kind, ix_field = field, ix_extract = extract\<rparr>"

definition controllerFieldIndexes :: "Config \<Rightarrow> controllerFieldIndex list" where
  "controllerFieldIndexes c =
     [fieldIndex KindGatewayClass IndexGatewayClassByController classIndex,
      fieldIndex KindGateway IndexGatewayByClass gatewayIndex,
      fieldIndex KindHTTPRoute IndexHTTPRouteByParentGateway (routeIndex ParentGatewayKeys),
      fieldIndex KindHTTPRoute IndexHTTPRouteByStatusGateway (routeIndex (statusParentGatewayKeys c)),
      fieldIndex KindHTTPRoute IndexHTTPRouteByBackendService (routeIndex backendServiceKeys),
      fieldIndex KindHTTPRoute IndexHTTPRouteByBoundGateway (routeIndex (\<lambda>route. nonEmpty (boundGatewayKey c route))),
      fieldIndex KindHTTPRoute indexHTTPRouteByBoundGatewayUID (routeIndex (boundGatewayUIDs c)),
      fieldIndex KindHTTPRoute IndexHTTPRouteByNodeBackend (routeIndex nodeBackendValues),
      fieldIndex KindEndpointSlice IndexEndpointSliceByService sliceIndex]"

text \<open>The registration of an index is a parameter.\<close>

definition SetupIndexes :: "(controllerFieldIndex \<Rightarrow> 'e + unit) \<Rightarrow> Config \<Rightarrow> 'e + unit" where
  "SetupIndexes IndexField c = foreachE IndexField (controllerFieldIndexes c)"

section \<open>Requests\<close>

type_synonym request = "string \<times> string"

definition SortedRequests :: "request list \<Rightarrow> request list" where
  "SortedRequests keys = sort (remdups keys)"

definition ObjectKeyFromObject :: "ObjectMeta \<Rightarrow> request" where
  "ObjectKeyFromObject m = (om_Namespace m, om_Name m)"

text \<open>The cached client: the objects by key, and the lists by the value of an index.\<close>

record watchReader =
  wr_reader :: apiReader
  wr_Gateways :: "string \<Rightarrow> string \<Rightarrow> readError + Gateway list"
  wr_GatewayClasses :: "string \<Rightarrow> string \<Rightarrow> readError + GatewayClass list"
  wr_EndpointSlices :: "string \<Rightarrow> string \<Rightarrow> readError + EndpointSlice list"

definition listedRoutes :: "watchReader \<Rightarrow> string \<Rightarrow> string \<Rightarrow> HTTPRoute list" where
  "listedRoutes reader field value = (case rd_Indexed (wr_reader reader) field value of Inl _ \<Rightarrow> [] | Inr routes \<Rightarrow> routes)"

definition routeKeys :: "HTTPRoute list \<Rightarrow> request list" where
  "routeKeys routes = map (\<lambda>route. ObjectKeyFromObject (ht_Meta route)) routes"

section \<open>Gateways\<close>

definition parentRequest :: "string \<Rightarrow> ParentReference \<Rightarrow> request list" where
  "parentRequest routeNamespace parentRef =
     (if \<not> IsGatewayParentRef parentRef \<or> pa_Name parentRef = [] then [] else [(orDefault (pa_Namespace parentRef) routeNamespace, pa_Name parentRef)])"

definition boundRequest :: "Config \<Rightarrow> HTTPRoute \<Rightarrow> request list" where
  "boundRequest c route =
     (let namespace = annotation (ht_Meta route) (RouteGatewayNamespaceAnnotation c);
          name = annotation (ht_Meta route) (RouteGatewayNameAnnotation c);
          uid = annotation (ht_Meta route) (RouteGatewayUIDAnnotation c) in
      if namespace \<noteq> [] \<and> name \<noteq> [] \<and> uid \<noteq> [] then [(namespace, name)] else [])"

definition gatewayRequestsForHTTPRoute :: "Config \<Rightarrow> clientObject \<Rightarrow> request list" where
  "gatewayRequestsForHTTPRoute c obj = (case obj of
      HTTPRouteObject route \<Rightarrow>
        let namespace = om_Namespace (ht_Meta route) in
        SortedRequests (concat (map (parentRequest namespace) (ht_ParentRefs route)) @
          concat (map (\<lambda>parent. if ps_ControllerName parent \<noteq> cf_ControllerName c then [] else parentRequest namespace (ps_ParentRef parent)) (ht_Parents route)) @
          boundRequest c route)
    | _ \<Rightarrow> [])"

definition gatewayRequestsForGatewayClass :: "watchReader \<Rightarrow> clientObject \<Rightarrow> request list" where
  "gatewayRequestsForGatewayClass reader obj = (case obj of
      GatewayClassObject gatewayClass \<Rightarrow>
        (case wr_Gateways reader IndexGatewayByClass (gc_Name gatewayClass) of
           Inl _ \<Rightarrow> []
         | Inr gateways \<Rightarrow> SortedRequests (map (\<lambda>gateway. ObjectKeyFromObject (gw_Meta gateway)) gateways))
    | _ \<Rightarrow> [])"

section \<open>Routes\<close>

definition enqueueHTTPRoutePeers :: "watchReader \<Rightarrow> clientObject \<Rightarrow> request list" where
  "enqueueHTTPRoutePeers reader obj = (case obj of
      HTTPRouteObject route \<Rightarrow>
        SortedRequests (concat (map (\<lambda>gatewayKey. routeKeys (listedRoutes reader IndexHTTPRouteByParentGateway gatewayKey)) (ParentGatewayKeys route)))
    | _ \<Rightarrow> [])"

definition enqueueHTTPRoutesForGateway :: "watchReader \<Rightarrow> clientObject \<Rightarrow> request list" where
  "enqueueHTTPRoutesForGateway reader obj = (case obj of
      GatewayObject gateway \<Rightarrow>
        let gatewayKey = ObjectKeyString (om_Namespace (gw_Meta gateway)) (om_Name (gw_Meta gateway)) in
        SortedRequests (concat (map (\<lambda>indexName. routeKeys (listedRoutes reader indexName gatewayKey))
          [IndexHTTPRouteByParentGateway, IndexHTTPRouteByStatusGateway, IndexHTTPRouteByBoundGateway]))
    | _ \<Rightarrow> [])"

definition enqueueHTTPRoutesForServiceKey :: "watchReader \<Rightarrow> request \<Rightarrow> request list" where
  "enqueueHTTPRoutesForServiceKey reader serviceKey = (case serviceKey of (namespace, name) \<Rightarrow>
     SortedRequests (concat (map (\<lambda>route. ObjectKeyFromObject (ht_Meta route) #
         concat (map (\<lambda>gatewayKey. routeKeys (listedRoutes reader IndexHTTPRouteByParentGateway gatewayKey)) (ParentGatewayKeys route)))
       (listedRoutes reader IndexHTTPRouteByBackendService (ObjectKeyString namespace name)))))"

definition objectMeta :: "clientObject \<Rightarrow> ObjectMeta" where
  "objectMeta obj = (case obj of
      GatewayClassObject gatewayClass \<Rightarrow> gc_Meta gatewayClass
    | GatewayObject gateway \<Rightarrow> gw_Meta gateway
    | HTTPRouteObject route \<Rightarrow> ht_Meta route
    | ServiceObject m _ \<Rightarrow> m
    | EndpointSliceObject endpointSlice \<Rightarrow> sl_Meta endpointSlice
    | NodeObject m _ \<Rightarrow> m
    | DefinitionObject m \<Rightarrow> m
    | OtherObject m \<Rightarrow> m)"

definition enqueueHTTPRoutesForService :: "watchReader \<Rightarrow> clientObject \<Rightarrow> request list" where
  "enqueueHTTPRoutesForService reader obj = enqueueHTTPRoutesForServiceKey reader (ObjectKeyFromObject (objectMeta obj))"

text \<open>Only an EndpointSlice is watched here, and only it has the label of a Service.\<close>

definition serviceNameLabel :: "clientObject \<Rightarrow> string" where
  "serviceNameLabel obj = (case obj of EndpointSliceObject endpointSlice \<Rightarrow> sl_ServiceName endpointSlice | _ \<Rightarrow> [])"

definition enqueueHTTPRoutesForEndpointSlice :: "watchReader \<Rightarrow> clientObject \<Rightarrow> request list" where
  "enqueueHTTPRoutesForEndpointSlice reader obj = (let serviceName = serviceNameLabel obj in
     if serviceName = [] then [] else enqueueHTTPRoutesForServiceKey reader (om_Namespace (objectMeta obj), serviceName))"

definition nodeHasReadyEndpoint :: "watchReader \<Rightarrow> request \<Rightarrow> string \<Rightarrow> readError + bool" where
  "nodeHasReadyEndpoint reader serviceKey nodeName = (case serviceKey of (namespace, name) \<Rightarrow>
     bindE (wr_EndpointSlices reader IndexEndpointSliceByService (ObjectKeyString namespace name)) (\<lambda>slices.
     Inr (list_ex (\<lambda>endpoint. ep_NodeName endpoint = Some nodeName \<and> endpointReady endpoint) (concat (map sl_Endpoints slices)))))"

text \<open>Whether the loop of enqueueHTTPRoutesForNode adds a route. A read that fails skips the route.\<close>

definition routeDependsOnNode :: "Config \<Rightarrow> watchReader \<Rightarrow> Node \<Rightarrow> HTTPRoute \<Rightarrow> bool" where
  "routeDependsOnNode c reader node route =
     (if \<not> structurallySupportedRoute route then False
      else case managedParentsWithReader (wr_reader reader) c route of
         Inl _ \<Rightarrow> False
       | Inr [] \<Rightarrow> False
       | Inr _ \<Rightarrow>
           let backend = hr_BackendRefs (ht_Rules route ! 0) ! 0; serviceKey = (om_Namespace (ht_Meta route), br_Name backend) in
           (case rd_Service (wr_reader reader) (om_Namespace (ht_Meta route)) (br_Name backend) of
              Inl _ \<Rightarrow> False
            | Inr service \<Rightarrow>
                if sv_Type service \<noteq> ''NodePort'' then False
                else if sv_ExternalTrafficPolicy service = Local
                then (case nodeHasReadyEndpoint reader serviceKey (no_Name node) of Inl _ \<Rightarrow> False | Inr local \<Rightarrow> local)
                else True))"

definition enqueueHTTPRoutesForNode :: "Config \<Rightarrow> watchReader \<Rightarrow> clientObject \<Rightarrow> request list" where
  "enqueueHTTPRoutesForNode c reader obj = (case obj of
      NodeObject _ node \<Rightarrow>
        SortedRequests (routeKeys (filter (routeDependsOnNode c reader node) (listedRoutes reader IndexHTTPRouteByNodeBackend NodeBackendIndexValue)))
    | _ \<Rightarrow> [])"

section \<open>Gateway classes\<close>

definition gatewayClassRequestsForGateway :: "clientObject \<Rightarrow> request list" where
  "gatewayClassRequestsForGateway obj = (case obj of GatewayObject gateway \<Rightarrow> [([], gw_GatewayClassName gateway)] | _ \<Rightarrow> [])"

definition gatewayClassRequestsForGatewayAPICRD :: "Config \<Rightarrow> watchReader \<Rightarrow> clientObject option \<Rightarrow> request list" where
  "gatewayClassRequestsForGatewayAPICRD c reader obj = (case obj of
      None \<Rightarrow> []
    | Some obj \<Rightarrow>
        if \<not> IsGatewayAPICRDName (om_Name (objectMeta obj)) then []
        else (case wr_GatewayClasses reader IndexGatewayClassByController (cf_ControllerName c) of
           Inl _ \<Rightarrow> []
         | Inr gatewayClasses \<Rightarrow> SortedRequests (map (\<lambda>gatewayClass. ([], gc_Name gatewayClass)) gatewayClasses)))"

end
