(* ===== verification/GatewayClassReconciler.thy ===== *)
theory GatewayClassReconciler
  imports Watches ReconcilerLogs
begin

text \<open>
  The GatewayClass reconciler: gatewayclass\_controller.go and gatewayclass\_scope.go, without the mappers, which are in
  \<open>Watches\<close>. It publishes whether the installed Gateway API is supported, and keeps a finalizer on a class that
  Gateways use. The environment, the log and the scope are as in the other reconcilers; logging is left out. The name of the
  finalizer is a constant of the Gateway API, a parameter here.
\<close>

section \<open>The environment and the state\<close>

text \<open>\<open>cv_list\<close> is a list of Gateways by an index; the Gateways are those the cache has when it is called.\<close>

record 'w classEnv =
  cv_Config :: Config
  cv_finalizers :: finalizerUtil
  cv_conditions :: conditionUtil
  cv_consts :: gatewayConsts
  cv_gatewaysExist :: string
  cv_hasAPIReader :: bool
  cv_read :: "bool \<Rightarrow> 'w \<Rightarrow> apiReader \<times> 'w"
  cv_list :: "string \<Rightarrow> string \<Rightarrow> 'w \<Rightarrow> (readError + Gateway list) \<times> 'w"
  cv_patch :: "GatewayClass \<Rightarrow> GatewayClass \<Rightarrow> 'w \<Rightarrow> (patchError + GatewayClass) \<times> 'w"
  cv_patchStatus :: "GatewayClass \<Rightarrow> GatewayClass \<Rightarrow> 'w \<Rightarrow> (patchError + GatewayClass) \<times> 'w"

datatype classEvent =
    ReadForClass bool apiReader
  | ListedGateways string string "readError + Gateway list"
  | PatchedClass GatewayClass GatewayClass "patchError + GatewayClass"
  | PatchedClassStatus GatewayClass GatewayClass "patchError + GatewayClass"

record gatewayClassScope =
  ks_gatewayClass :: GatewayClass
  ks_original :: GatewayClass

record 'w classReconcileState =
  kt_world :: 'w
  kt_log :: "classEvent list"
  kt_scope :: gatewayClassScope

type_synonym ('w, 'a) kc = "('w classReconcileState, rcError, 'a) act"

section \<open>Calls\<close>

definition readForClass :: "'w classEnv \<Rightarrow> bool \<Rightarrow> ('w, apiReader) kc" where
  "readForClass env live = (\<lambda>s. case cv_read env live (kt_world s) of (reader, w) \<Rightarrow>
     (Inr reader, s\<lparr>kt_world := w, kt_log := kt_log s @ [ReadForClass live reader]\<rparr>))"

definition listGateways :: "'w classEnv \<Rightarrow> string \<Rightarrow> string \<Rightarrow> ('w, Gateway list) kc" where
  "listGateways env field v = (\<lambda>s. case cv_list env field v (kt_world s) of (r, w) \<Rightarrow>
     (mapErr readErrorOf r, s\<lparr>kt_world := w, kt_log := kt_log s @ [ListedGateways field v r]\<rparr>))"

definition patchClassMetadata :: "'w classEnv \<Rightarrow> GatewayClass \<Rightarrow> GatewayClass \<Rightarrow> ('w, GatewayClass) kc" where
  "patchClassMetadata env base target = (\<lambda>s. case cv_patch env base target (kt_world s) of (r, w) \<Rightarrow>
     (mapErr patchErrorOf r, s\<lparr>kt_world := w, kt_log := kt_log s @ [PatchedClass base target r]\<rparr>))"

definition patchClassStatus :: "'w classEnv \<Rightarrow> GatewayClass \<Rightarrow> GatewayClass \<Rightarrow> ('w, GatewayClass) kc" where
  "patchClassStatus env base target = (\<lambda>s. case cv_patchStatus env base target (kt_world s) of (r, w) \<Rightarrow>
     (mapErr patchErrorOf r, s\<lparr>kt_world := w, kt_log := kt_log s @ [PatchedClassStatus base target r]\<rparr>))"

definition changeClass :: "(GatewayClass \<Rightarrow> GatewayClass) \<Rightarrow> ('w, unit) kc" where
  "changeClass f = modifyA (\<lambda>s. s\<lparr>kt_scope := (kt_scope s)\<lparr>ks_gatewayClass := f (ks_gatewayClass (kt_scope s))\<rparr>\<rparr>)"

section \<open>The scope\<close>

definition finalizerChanged :: "gatewayClassScope \<Rightarrow> bool" where
  "finalizerChanged scope \<longleftrightarrow> om_Finalizers (gc_Meta (ks_original scope)) \<noteq> om_Finalizers (gc_Meta (ks_gatewayClass scope))"

definition newGatewayClassScope :: "'w classEnv \<Rightarrow> string \<Rightarrow> ('w, gatewayClassScope option) kc" where
  "newGatewayClassScope env name = bindA (readForClass env False) (\<lambda>reader. case rd_GatewayClass reader name of
      Inl NotFound \<Rightarrow> returnA None
    | Inl e \<Rightarrow> throwA (readErrorOf e)
    | Inr gatewayClass \<Rightarrow>
        returnA (if gc_ControllerName gatewayClass \<noteq> cf_ControllerName (cv_Config env) then None
          else Some \<lparr>ks_gatewayClass = gatewayClass, ks_original = gatewayClass\<rparr>))"

definition classStatus :: "GatewayClass \<Rightarrow> string list \<times> StatusCondition list" where
  "classStatus gatewayClass = (gc_SupportedFeatures gatewayClass, gc_Conditions gatewayClass)"

definition withClassStatus :: "GatewayClass \<Rightarrow> GatewayClass \<Rightarrow> GatewayClass" where
  "withClassStatus gatewayClass other = gatewayClass\<lparr>gc_SupportedFeatures := gc_SupportedFeatures other, gc_Conditions := gc_Conditions other\<rparr>"

definition withFinalizers :: "GatewayClass \<Rightarrow> string list \<Rightarrow> GatewayClass" where
  "withFinalizers gatewayClass finalizers = gatewayClass\<lparr>gc_Meta := (gc_Meta gatewayClass)\<lparr>om_Finalizers := finalizers\<rparr>\<rparr>"

definition withResourceVersion :: "GatewayClass \<Rightarrow> string \<Rightarrow> GatewayClass" where
  "withResourceVersion gatewayClass version = gatewayClass\<lparr>gc_Meta := (gc_Meta gatewayClass)\<lparr>om_ResourceVersion := version\<rparr>\<rparr>"

definition patchFinalizers :: "'w classEnv \<Rightarrow> gatewayClassScope \<Rightarrow> ('w, GatewayClass) kc" where
  "patchFinalizers env scope = (let desired = ks_gatewayClass scope; metadataBase = ks_original scope in
     if \<not> finalizerChanged scope then returnA desired
     else bindA (failingAs WrappedError (patchClassMetadata env metadataBase (withFinalizers metadataBase (om_Finalizers (gc_Meta desired))))) (\<lambda>metadataTarget.
       returnA (withResourceVersion desired (om_ResourceVersion (gc_Meta metadataTarget)))))"

definition patchGatewayClass :: "'w classEnv \<Rightarrow> ('w, unit) kc" where
  "patchGatewayClass env = bindA (getA kt_scope) (\<lambda>scope.
     bindA (patchFinalizers env scope) (\<lambda>desired.
     if classStatus (ks_original scope) = classStatus (ks_gatewayClass scope) then returnA ()
     else bindA (failingAs WrappedError (patchClassStatus env (withClassStatus desired (ks_original scope)) desired)) (\<lambda>statusTarget.
       changeClass (\<lambda>_. statusTarget))))"

section \<open>References\<close>

definition hasReferencingGateways :: "'w classEnv \<Rightarrow> string \<Rightarrow> ('w, bool) kc" where
  "hasReferencingGateways env className = bindA (listGateways env IndexGatewayByClass className) (\<lambda>gateways. returnA (gateways \<noteq> []))"

definition reconcileGatewayClassReferences :: "'w classEnv \<Rightarrow> ('w, bool) kc" where
  "reconcileGatewayClassReferences env = bindA (getA kt_scope) (\<lambda>scope.
     bindA (failingAs WrappedError (hasReferencingGateways env (gc_Name (ks_gatewayClass scope)))) (\<lambda>hasGateways.
     bindA (changeClass (\<lambda>gatewayClass. gatewayClass\<lparr>gc_Meta :=
       (if hasGateways then AddFinalizer (cv_finalizers env) (gc_Meta gatewayClass) (cv_gatewaysExist env)
        else RemoveFinalizer (cv_finalizers env) (gc_Meta gatewayClass) (cv_gatewaysExist env))\<rparr>)) (\<lambda>_.
     returnA hasGateways)))"

section \<open>Status\<close>

definition phase1SupportedFeatures :: "string list" where
  "phase1SupportedFeatures = []"

definition setClassCondition :: "conditionUtil \<Rightarrow> string \<Rightarrow> ConditionStatus \<Rightarrow> string \<Rightarrow> string \<Rightarrow> GatewayClass \<Rightarrow> GatewayClass" where
  "setClassCondition u conditionType status reason text gatewayClass = gatewayClass\<lparr>gc_Conditions :=
     SetCondition u (gc_Conditions gatewayClass) (Condition conditionType status reason text (gc_Generation gatewayClass))\<rparr>"

definition setSupportedFeatures :: "string list \<Rightarrow> GatewayClass \<Rightarrow> GatewayClass" where
  "setSupportedFeatures features gatewayClass = gatewayClass\<lparr>gc_SupportedFeatures := features\<rparr>"

text \<open>The change of the status that reconcileGatewayClassStatus makes after the observation.\<close>

definition observedVersion :: "conditionUtil \<Rightarrow> GatewayAPIVersionObservation \<Rightarrow> GatewayClass \<Rightarrow> GatewayClass" where
  "observedVersion u observation gatewayClass =
     (if vo_Supported observation
      then setClassCondition u ''SupportedVersion'' ConditionTrue ''SupportedVersion'' (vo_Message observation) gatewayClass
      else setClassCondition u ''Accepted'' ConditionFalse ''UnsupportedVersion'' (vo_Message observation)
        (setClassCondition u ''SupportedVersion'' ConditionFalse ''UnsupportedVersion'' (vo_Message observation) (setSupportedFeatures [] gatewayClass)))"

definition acceptedClass :: "conditionUtil \<Rightarrow> GatewayAPIVersionObservation \<Rightarrow> GatewayClass \<Rightarrow> GatewayClass" where
  "acceptedClass u observation gatewayClass =
     (if vo_Supported observation \<and> gc_ParametersRef gatewayClass
      then setClassCondition u ''Accepted'' ConditionFalse ''InvalidParameters'' ''GatewayClass parametersRef is not supported in Phase 1''
        (setSupportedFeatures [] gatewayClass)
      else if vo_Supported observation
      then setClassCondition u ''Accepted'' ConditionTrue ''Accepted'' ''GatewayClass is accepted'' (setSupportedFeatures phase1SupportedFeatures gatewayClass)
      else gatewayClass)"

definition reconcileGatewayClassStatus :: "'w classEnv \<Rightarrow> ('w, ctrlResult) kc" where
  "reconcileGatewayClassStatus env = bindA (readForClass env True) (\<lambda>reader.
     bindA (liftA (mapErr (\<lambda>e. WrappedError (readErrorOf e)) (ObserveGatewayAPIVersion (cv_consts env) reader))) (\<lambda>observation.
     bindA (changeClass (\<lambda>gatewayClass. acceptedClass (cv_conditions env) observation (observedVersion (cv_conditions env) observation gatewayClass))) (\<lambda>_.
     bindA (getA kt_scope) (\<lambda>scope.
     returnA (if \<not> vo_Supported observation then requeueAfter (GatewayAPIVersionRequeueAfter (om_UID (gc_Meta (ks_gatewayClass scope)))) else noResult)))))"

section \<open>Reconciling\<close>

definition reconcileClassDelete :: "'w classEnv \<Rightarrow> ('w, ctrlResult) kc" where
  "reconcileClassDelete env = bindA (reconcileGatewayClassReferences env) (\<lambda>hasGateways.
     bindA (getA kt_scope) (\<lambda>scope.
     if finalizerChanged scope then returnA noResult
     else if \<not> hasGateways then returnA noResult
     else reconcileGatewayClassStatus env))"

definition reconcileClassNormal :: "'w classEnv \<Rightarrow> ('w, ctrlResult) kc" where
  "reconcileClassNormal env = bindA (reconcileGatewayClassReferences env) (\<lambda>_.
     bindA (getA kt_scope) (\<lambda>scope.
     if finalizerChanged scope then returnA noResult else reconcileGatewayClassStatus env))"

text \<open>The deferred patch replaces the result when it fails.\<close>

definition withClassPatch :: "'w classEnv \<Rightarrow> ('w, ctrlResult) kc \<Rightarrow> ('w, ctrlResult) kc" where
  "withClassPatch env m = bindA (tryA m) (\<lambda>r.
     bindA (tryA (patchGatewayClass env)) (\<lambda>patched. case patched of
        Inl err \<Rightarrow> throwA (JoinedErrors ((case r of Inl e \<Rightarrow> [e] | Inr _ \<Rightarrow> []) @ [err]))
      | Inr _ \<Rightarrow> liftA r))"

definition ReconcileClass :: "'w classEnv \<Rightarrow> string \<Rightarrow> ('w, ctrlResult) kc" where
  "ReconcileClass env name = bindA (guardA (cv_hasAPIReader env) APIReaderRequiredError) (\<lambda>_.
     bindA (newGatewayClassScope env name) (\<lambda>responsible. case responsible of
        None \<Rightarrow> returnA noResult
      | Some scope \<Rightarrow>
          bindA (modifyA (\<lambda>s. s\<lparr>kt_scope := scope\<rparr>)) (\<lambda>_.
          withClassPatch env (if om_Deleting (gc_Meta (ks_gatewayClass scope)) then reconcileClassDelete env else reconcileClassNormal env))))"

end
