(* ===== verification/GatewayClassSafety.thy ===== *)
theory GatewayClassSafety
  imports GatewayClassReconciler
begin

text \<open>
  What a reconciliation of a class may write. The body of the reconciliation only reads and plans one change, of the finalizers or of
  the status, and the deferred patch makes it.
\<close>

section \<open>Plans\<close>

definition classRead :: "classEvent \<Rightarrow> bool" where
  "classRead e = (case e of ReadForClass _ _ \<Rightarrow> True | ListedGateways _ _ _ \<Rightarrow> True | _ \<Rightarrow> False)"

definition referencedMeta :: "'w classEnv \<Rightarrow> Gateway list \<Rightarrow> ObjectMeta \<Rightarrow> ObjectMeta" where
  "referencedMeta env gateways m = (if gateways \<noteq> [] then AddFinalizer (cv_finalizers env) m (cv_gatewaysExist env)
     else RemoveFinalizer (cv_finalizers env) m (cv_gatewaysExist env))"

definition finalizersPlanned :: "'w classEnv \<Rightarrow> classEvent list \<Rightarrow> gatewayClassScope \<Rightarrow> bool" where
  "finalizersPlanned env log scope \<longleftrightarrow> (\<exists>gateways. ListedGateways IndexGatewayByClass (gc_Name (ks_original scope)) (Inr gateways) \<in> set log \<and>
     ks_gatewayClass scope = (ks_original scope)\<lparr>gc_Meta := referencedMeta env gateways (gc_Meta (ks_original scope))\<rparr>)"

definition publishedClass :: "'w classEnv \<Rightarrow> GatewayAPIVersionObservation \<Rightarrow> GatewayClass \<Rightarrow> GatewayClass" where
  "publishedClass env observation gatewayClass =
     acceptedClass (cv_conditions env) observation (observedVersion (cv_conditions env) observation gatewayClass)"

definition statusPlanned :: "'w classEnv \<Rightarrow> classEvent list \<Rightarrow> gatewayClassScope \<Rightarrow> bool" where
  "statusPlanned env log scope \<longleftrightarrow> (\<exists>reader observation. ReadForClass True reader \<in> set log \<and>
     ObserveGatewayAPIVersion (cv_consts env) reader = Inr observation \<and> ks_gatewayClass scope = publishedClass env observation (ks_original scope))"

definition classPlan :: "'w classEnv \<Rightarrow> 'w classReconcileState \<Rightarrow> bool" where
  "classPlan env s \<longleftrightarrow> list_all classRead (kt_log s) \<and> gc_ControllerName (ks_original (kt_scope s)) = cf_ControllerName (cv_Config env) \<and>
     (finalizersPlanned env (kt_log s) (kt_scope s) \<or> statusPlanned env (kt_log s) (kt_scope s) \<or> ks_gatewayClass (kt_scope s) = ks_original (kt_scope s))"

definition freshScope :: "'w classEnv \<Rightarrow> 'w classReconcileState \<Rightarrow> bool" where
  "freshScope env s \<longleftrightarrow> list_all classRead (kt_log s) \<and> gc_ControllerName (ks_original (kt_scope s)) = cf_ControllerName (cv_Config env) \<and>
     ks_gatewayClass (kt_scope s) = ks_original (kt_scope s)"

lemma same_meta: "sameButFinalizers m m' \<Longrightarrow> om_Finalizers m = om_Finalizers m' \<Longrightarrow> m' = m"
  unfolding sameButFinalizers_def by (metis ObjectMeta.surjective ObjectMeta.update_convs(9))

lemma referencedMeta_same: "finalizerLaws (cv_finalizers env) \<Longrightarrow> sameButFinalizers m (referencedMeta env gateways m)"
  by (simp add: referencedMeta_def finalizerLaws_rules)

lemma publishedClass_meta [simp]: "gc_Meta (publishedClass env observation gatewayClass) = gc_Meta gatewayClass"
    "gc_ParametersRef (publishedClass env observation gatewayClass) = gc_ParametersRef gatewayClass"
  by (simp_all add: publishedClass_def acceptedClass_def observedVersion_def setClassCondition_def setSupportedFeatures_def)

section \<open>The body only plans\<close>

lemma references_run:
  assumes "reconcileGatewayClassReferences env s = (r, s')" "freshScope env s"
  obtains (failed) e where "r = Inl e" "freshScope env s'"
    | (listed) gateways where "r = Inr (gateways \<noteq> [])" "list_all classRead (kt_log s')" "ks_original (kt_scope s') = ks_original (kt_scope s)"
      "ListedGateways IndexGatewayByClass (gc_Name (ks_original (kt_scope s))) (Inr gateways) \<in> set (kt_log s')"
      "ks_gatewayClass (kt_scope s') = (ks_original (kt_scope s))\<lparr>gc_Meta := referencedMeta env gateways (gc_Meta (ks_original (kt_scope s)))\<rparr>"
proof -
  obtain q w where q: "cv_list env IndexGatewayByClass (gc_Name (ks_gatewayClass (kt_scope s))) (kt_world s) = (q, w)" by fastforce
  note run = assms(1) [unfolded reconcileGatewayClassReferences_def failingAs_def hasReferencingGateways_def listGateways_def changeClass_def bindA_def tryA_def
      liftA_def returnA_def getA_def modifyA_def, simplified, simplified q]
  show thesis
  proof (cases q)
    case (Inl e)
    show thesis by (rule failed) (use run Inl assms(2) in \<open>auto simp: freshScope_def classRead_def\<close>)
  next
    case (Inr gateways)
    show thesis
      by (rule listed [of gateways]) (use run Inr assms(2) in \<open>auto simp: freshScope_def classRead_def referencedMeta_def\<close>)
  qed
qed

lemma status_run:
  assumes "reconcileGatewayClassStatus env s = (r, s')" "freshScope env s"
  shows "classPlan env s'"
  using assms unfolding reconcileGatewayClassStatus_def readForClass_def changeClass_def bindA_def liftA_def returnA_def getA_def modifyA_def
  by (auto simp: freshScope_def classPlan_def statusPlanned_def publishedClass_def classRead_def go_simps split: prod.splits sum.splits)

lemma references_plan:
  assumes "finalizerLaws (cv_finalizers env)" "reconcileGatewayClassReferences env s = (Inr hasGateways, s1)" "freshScope env s"
  shows "classPlan env s1" "\<not> finalizerChanged (kt_scope s1) \<Longrightarrow> freshScope env s1"
proof -
  from assms(2,3) obtain gateways where g: "list_all classRead (kt_log s1)" "ks_original (kt_scope s1) = ks_original (kt_scope s)"
      "ListedGateways IndexGatewayByClass (gc_Name (ks_original (kt_scope s))) (Inr gateways) \<in> set (kt_log s1)"
      "ks_gatewayClass (kt_scope s1) = (ks_original (kt_scope s))\<lparr>gc_Meta := referencedMeta env gateways (gc_Meta (ks_original (kt_scope s)))\<rparr>"
    by (cases rule: references_run) auto
  show "classPlan env s1" using g assms(3) by (auto simp: classPlan_def finalizersPlanned_def freshScope_def)
  assume "\<not> finalizerChanged (kt_scope s1)"
  then have "referencedMeta env gateways (gc_Meta (ks_original (kt_scope s))) = gc_Meta (ks_original (kt_scope s))"
    using g by (intro same_meta referencedMeta_same assms(1)) (simp add: finalizerChanged_def)
  with g assms(3) show "freshScope env s1" by (simp add: freshScope_def)
qed

lemma body_plans:
  assumes "finalizerLaws (cv_finalizers env)" "freshScope env s"
  shows "classPlan env (snd (reconcileClassNormal env s))" "classPlan env (snd (reconcileClassDelete env s))"
proof -
  obtain r s1 where r: "reconcileGatewayClassReferences env s = (r, s1)" by fastforce
  have "classPlan env (snd (reconcileClassNormal env s)) \<and> classPlan env (snd (reconcileClassDelete env s))"
  proof (cases r)
    case (Inl e)
    with r assms(2) have "classPlan env s1" by (cases rule: references_run) (auto simp: freshScope_def classPlan_def)
    then show ?thesis using r Inl by (simp add: reconcileClassNormal_def reconcileClassDelete_def bindA_def)
  next
    case (Inr hasGateways)
    note plan = references_plan [OF assms(1) r [unfolded Inr] assms(2)]
    have "classPlan env (snd (reconcileGatewayClassStatus env s1))" if "\<not> finalizerChanged (kt_scope s1)"
      using status_run [OF _ plan(2) [OF that]] by (metis surjective_pairing)
    with plan(1) show ?thesis using r Inr by (simp add: reconcileClassNormal_def reconcileClassDelete_def bindA_def getA_def returnA_def)
  qed
  then show "classPlan env (snd (reconcileClassNormal env s))" "classPlan env (snd (reconcileClassDelete env s))" by simp_all
qed

section \<open>The patch makes the plan\<close>

text \<open>What a reconciliation may write: nothing, the finalizer, or the status.\<close>

definition writesFinalizer :: "'w classEnv \<Rightarrow> classEvent list \<Rightarrow> classEvent \<Rightarrow> bool" where
  "writesFinalizer env seen e \<longleftrightarrow> (\<exists>base target answer gateways. e = PatchedClass base target answer \<and>
     gc_ControllerName base = cf_ControllerName (cv_Config env) \<and>
     ListedGateways IndexGatewayByClass (gc_Name base) (Inr gateways) \<in> set seen \<and>
     target = withFinalizers base (om_Finalizers (referencedMeta env gateways (gc_Meta base))))"

definition writesStatus :: "'w classEnv \<Rightarrow> classEvent list \<Rightarrow> classEvent \<Rightarrow> bool" where
  "writesStatus env seen e \<longleftrightarrow> (\<exists>base reader observation answer. e = PatchedClassStatus base (publishedClass env observation base) answer \<and>
     gc_ControllerName base = cf_ControllerName (cv_Config env) \<and>
     ReadForClass True reader \<in> set seen \<and> ObserveGatewayAPIVersion (cv_consts env) reader = Inr observation)"

lemma published_base: "withClassStatus (publishedClass env observation gatewayClass) gatewayClass = gatewayClass"
  by (simp add: withClassStatus_def publishedClass_def acceptedClass_def observedVersion_def setClassCondition_def setSupportedFeatures_def)

lemma patch_writes:
  assumes "classPlan env s" "finalizerLaws (cv_finalizers env)"
  shows "\<exists>writes. kt_log (snd (patchGatewayClass env s)) = kt_log s @ writes \<and>
    (writes = [] \<or> (\<exists>e. writes = [e] \<and> (writesFinalizer env (kt_log s) e \<or> writesStatus env (kt_log s) e)))"
proof -
  let ?scope = "kt_scope s"
  consider (finalizers) "finalizersPlanned env (kt_log s) ?scope" | (status) "statusPlanned env (kt_log s) ?scope" | (none) "ks_gatewayClass ?scope = ks_original ?scope"
    using assms(1) unfolding classPlan_def by blast
  then show ?thesis
  proof cases
    case finalizers
    then obtain gateways where g: "ListedGateways IndexGatewayByClass (gc_Name (ks_original ?scope)) (Inr gateways) \<in> set (kt_log s)"
      "ks_gatewayClass ?scope = (ks_original ?scope)\<lparr>gc_Meta := referencedMeta env gateways (gc_Meta (ks_original ?scope))\<rparr>"
      unfolding finalizersPlanned_def by blast
    then have "classStatus (ks_original ?scope) = classStatus (ks_gatewayClass ?scope)" by (simp add: classStatus_def)
    with g assms(1) show ?thesis
      by (auto simp: patchGatewayClass_def patchFinalizers_def patchClassMetadata_def failingAs_def bindA_def tryA_def getA_def returnA_def liftA_def Let_def
        writesFinalizer_def classPlan_def split: prod.splits sum.splits)
  next
    case status
    then obtain reader observation where o: "ReadForClass True reader \<in> set (kt_log s)" "ObserveGatewayAPIVersion (cv_consts env) reader = Inr observation"
      "ks_gatewayClass ?scope = publishedClass env observation (ks_original ?scope)" unfolding statusPlanned_def by blast
    then have "\<not> finalizerChanged ?scope" by (simp add: finalizerChanged_def)
    with o assms(1) show ?thesis
      by (auto simp: patchGatewayClass_def patchFinalizers_def patchClassStatus_def failingAs_def bindA_def tryA_def getA_def returnA_def liftA_def Let_def
        changeClass_def modifyA_def published_base writesStatus_def classPlan_def split: prod.splits sum.splits)
  next
    case none
    then show ?thesis
      by (simp add: patchGatewayClass_def patchFinalizers_def finalizerChanged_def bindA_def getA_def returnA_def Let_def)
  qed
qed

lemma withClassPatch_log: "kt_log (snd (withClassPatch env m s)) = kt_log (snd (patchGatewayClass env (snd (m s))))"
proof -
  obtain r s1 where m: "m s = (r, s1)" by fastforce
  obtain q s2 where "patchGatewayClass env s1 = (q, s2)" by fastforce
  with m show ?thesis by (cases q) (simp_all add: withClassPatch_def bindA_def tryA_def liftA_def throwA_def)
qed

text \<open>A reconciliation reads, and then writes at most once.\<close>

lemma reconciliation_writes:
  assumes "finalizerLaws (cv_finalizers env)" "kt_log s = []" "ReconcileClass env name s = (r, s')"
  shows "\<exists>seen writes. kt_log s' = seen @ writes \<and> list_all classRead seen \<and>
    (writes = [] \<or> (\<exists>e. writes = [e] \<and> (writesFinalizer env seen e \<or> writesStatus env seen e)))"
proof -
  obtain reader w where read: "cv_read env False (kt_world s) = (reader, w)" by fastforce
  let ?s = "s\<lparr>kt_world := w, kt_log := [ReadForClass False reader]\<rparr>"
  consider (stopped) "kt_log s' = [] \<or> kt_log s' = [ReadForClass False reader]"
    | (responsible) gatewayClass where "gc_ControllerName gatewayClass = cf_ControllerName (cv_Config env)"
      "withClassPatch env (if om_Deleting (gc_Meta gatewayClass) then reconcileClassDelete env else reconcileClassNormal env)
        (?s\<lparr>kt_scope := \<lparr>ks_gatewayClass = gatewayClass, ks_original = gatewayClass\<rparr>\<rparr>) = (r, s')"
    using assms(2,3) read
    by (auto simp: ReconcileClass_def newGatewayClassScope_def readForClass_def bindA_def guardA_def guardE_def liftA_def returnA_def throwA_def modifyA_def
      split: sum.splits readError.splits if_splits)
  then show ?thesis
  proof cases
    case stopped
    then show ?thesis by (auto intro: exI [of _ "kt_log s'"] simp: classRead_def)
  next
    case responsible
    let ?body = "if om_Deleting (gc_Meta gatewayClass) then reconcileClassDelete env else reconcileClassNormal env"
    let ?s' = "?s\<lparr>kt_scope := \<lparr>ks_gatewayClass = gatewayClass, ks_original = gatewayClass\<rparr>\<rparr>"
    obtain q ran where ran: "?body ?s' = (q, ran)" by fastforce
    have "freshScope env ?s'" using responsible(1) by (simp add: freshScope_def classRead_def)
    then have plan: "classPlan env ran" using body_plans [OF assms(1), of ?s'] ran by (simp split: if_splits)
    have "kt_log s' = kt_log (snd (patchGatewayClass env ran))"
      using withClassPatch_log [of env ?body ?s'] unfolding responsible(2) ran by simp
    moreover have "list_all classRead (kt_log ran)" using plan by (simp add: classPlan_def)
    moreover obtain writes where "kt_log (snd (patchGatewayClass env ran)) = kt_log ran @ writes"
      "writes = [] \<or> (\<exists>e. writes = [e] \<and> (writesFinalizer env (kt_log ran) e \<or> writesStatus env (kt_log ran) e))"
      using patch_writes [OF plan assms(1)] by blast
    ultimately show ?thesis by (intro exI [of _ "kt_log ran"] exI [of _ writes]) simp
  qed
qed

end
