(* ===== verification/Predicates.thy ===== *)
theory Predicates
  imports Watches
begin

text \<open>
  Which events are looked at: predicates.go and the registration of the watches in SetupWithManager of the three controllers. A predicate of controller-runtime without a function for a kind of event accepts it.
\<close>

section \<open>Events\<close>

datatype watchEvent =
    CreateEvent "clientObject option"
  | DeleteEvent "clientObject option"
  | UpdateEvent "clientObject option" "clientObject option"
  | GenericEvent "clientObject option"

definition updatePredicate :: "(clientObject \<Rightarrow> clientObject \<Rightarrow> bool) \<Rightarrow> watchEvent \<Rightarrow> bool" where
  "updatePredicate changed e = (case e of UpdateEvent (Some oldObject) (Some newObject) \<Rightarrow> changed oldObject newObject | _ \<Rightarrow> True)"

definition generationOrDeletionChanged :: "ObjectMeta \<Rightarrow> ObjectMeta \<Rightarrow> bool" where
  "generationOrDeletionChanged oldObject newObject \<longleftrightarrow>
     om_Generation oldObject \<noteq> om_Generation newObject \<or> om_DeletionTimestamp oldObject \<noteq> om_DeletionTimestamp newObject"

definition finalizerPresenceChanged :: "ObjectMeta \<Rightarrow> ObjectMeta \<Rightarrow> string \<Rightarrow> bool" where
  "finalizerPresenceChanged oldObject newObject finalizer \<longleftrightarrow>
     (finalizer \<in> set (om_Finalizers oldObject)) \<noteq> (finalizer \<in> set (om_Finalizers newObject))"

definition GenerationOrDeletionChangedPredicate :: "watchEvent \<Rightarrow> bool" where
  "GenerationOrDeletionChangedPredicate = updatePredicate (\<lambda>oldObject newObject. generationOrDeletionChanged (objectMeta oldObject) (objectMeta newObject))"

section \<open>Conditions\<close>

record gatewayClassConditionState =
  cs_present :: bool
  cs_status :: "ConditionStatus option"
  cs_reason :: string
  cs_observedGeneration :: int

definition conditionState :: "conditionUtil \<Rightarrow> StatusCondition list \<Rightarrow> string \<Rightarrow> gatewayClassConditionState" where
  "conditionState u conditions conditionType = (case FindStatusCondition u conditions conditionType of
      None \<Rightarrow> \<lparr>cs_present = False, cs_status = None, cs_reason = [], cs_observedGeneration = 0\<rparr>
    | Some condition \<Rightarrow> \<lparr>cs_present = True, cs_status = Some (co_Status condition), cs_reason = co_Reason condition,
        cs_observedGeneration = co_ObservedGeneration condition\<rparr>)"

definition gatewayClassConditionStateFor :: "conditionUtil \<Rightarrow> GatewayClass \<Rightarrow> string \<Rightarrow> gatewayClassConditionState" where
  "gatewayClassConditionStateFor u gatewayClass conditionType = conditionState u (gc_Conditions gatewayClass) conditionType"

definition gatewayAcceptedState :: "conditionUtil \<Rightarrow> Gateway \<Rightarrow> gatewayClassConditionState" where
  "gatewayAcceptedState u gateway = conditionState u (gw_Conditions gateway) ''Accepted''"

definition gatewayProgrammedState :: "conditionUtil \<Rightarrow> Gateway \<Rightarrow> gatewayClassConditionState" where
  "gatewayProgrammedState u gateway = conditionState u (gw_Conditions gateway) ''Programmed''"

section \<open>Gateway classes\<close>

text \<open>The finalizer of a class that Gateways use is a constant of the Gateway API, a parameter here.\<close>

definition classConditionsChanged :: "conditionUtil \<Rightarrow> GatewayClass \<Rightarrow> GatewayClass \<Rightarrow> bool" where
  "classConditionsChanged u oldClass newClass \<longleftrightarrow>
     gatewayClassConditionStateFor u oldClass ''Accepted'' \<noteq> gatewayClassConditionStateFor u newClass ''Accepted'' \<or>
     gatewayClassConditionStateFor u oldClass ''SupportedVersion'' \<noteq> gatewayClassConditionStateFor u newClass ''SupportedVersion''"

definition GatewayClassReconcilePredicate :: "conditionUtil \<Rightarrow> string \<Rightarrow> watchEvent \<Rightarrow> bool" where
  "GatewayClassReconcilePredicate u gatewaysExist = updatePredicate (\<lambda>oldObject newObject. case (oldObject, newObject) of
      (GatewayClassObject oldClass, GatewayClassObject newClass) \<Rightarrow>
        generationOrDeletionChanged (gc_Meta oldClass) (gc_Meta newClass) \<or>
        finalizerPresenceChanged (gc_Meta oldClass) (gc_Meta newClass) gatewaysExist \<or> classConditionsChanged u oldClass newClass
    | _ \<Rightarrow> True)"

definition GatewayClassForGatewayPredicate :: "conditionUtil \<Rightarrow> watchEvent \<Rightarrow> bool" where
  "GatewayClassForGatewayPredicate u = updatePredicate (\<lambda>oldObject newObject. case (oldObject, newObject) of
      (GatewayClassObject oldClass, GatewayClassObject newClass) \<Rightarrow>
        generationOrDeletionChanged (gc_Meta oldClass) (gc_Meta newClass) \<or> classConditionsChanged u oldClass newClass
    | _ \<Rightarrow> True)"

definition isGatewayAPICRD :: "clientObject option \<Rightarrow> bool" where
  "isGatewayAPICRD obj = (case obj of None \<Rightarrow> False | Some obj \<Rightarrow> IsGatewayAPICRDName (om_Name (objectMeta obj)))"

definition GatewayAPICRDReconcilePredicate :: "gatewayConsts \<Rightarrow> watchEvent \<Rightarrow> bool" where
  "GatewayAPICRDReconcilePredicate g e = (case e of
      CreateEvent obj \<Rightarrow> isGatewayAPICRD obj
    | DeleteEvent obj \<Rightarrow> isGatewayAPICRD obj
    | GenericEvent obj \<Rightarrow> isGatewayAPICRD obj
    | UpdateEvent (Some oldObject) (Some newObject) \<Rightarrow>
        let old = objectMeta oldObject; new = objectMeta newObject in
        if \<not> IsGatewayAPICRDName (om_Name old) \<and> \<not> IsGatewayAPICRDName (om_Name new) then False
        else generationOrDeletionChanged old new \<or> om_Name old \<noteq> om_Name new \<or>
          annotation old (BundleVersionAnnotation g) \<noteq> annotation new (BundleVersionAnnotation g)
    | UpdateEvent _ _ \<Rightarrow> True)"

section \<open>Gateways\<close>

definition gatewayBindingChanged :: "Config \<Rightarrow> Gateway \<Rightarrow> Gateway \<Rightarrow> bool" where
  "gatewayBindingChanged c oldGateway newGateway \<longleftrightarrow>
     finalizerPresenceChanged (gw_Meta oldGateway) (gw_Meta newGateway) (GatewayFinalizer c) \<or>
     list_ex (\<lambda>key. annotation (gw_Meta oldGateway) key \<noteq> annotation (gw_Meta newGateway) key) (gatewayBindingKeys c)"

definition GatewayReconcilePredicate :: "Config \<Rightarrow> watchEvent \<Rightarrow> bool" where
  "GatewayReconcilePredicate c = updatePredicate (\<lambda>oldObject newObject. case (oldObject, newObject) of
      (GatewayObject oldGateway, GatewayObject newGateway) \<Rightarrow>
        generationOrDeletionChanged (gw_Meta oldGateway) (gw_Meta newGateway) \<or> gatewayBindingChanged c oldGateway newGateway
    | _ \<Rightarrow> True)"

definition GatewayForHTTPRoutePredicate :: "conditionUtil \<Rightarrow> Config \<Rightarrow> watchEvent \<Rightarrow> bool" where
  "GatewayForHTTPRoutePredicate u c = updatePredicate (\<lambda>oldObject newObject. case (oldObject, newObject) of
      (GatewayObject oldGateway, GatewayObject newGateway) \<Rightarrow>
        generationOrDeletionChanged (gw_Meta oldGateway) (gw_Meta newGateway) \<or> gatewayBindingChanged c oldGateway newGateway \<or>
        gatewayAcceptedState u oldGateway \<noteq> gatewayAcceptedState u newGateway \<or> gatewayProgrammedState u oldGateway \<noteq> gatewayProgrammedState u newGateway
    | _ \<Rightarrow> True)"

section \<open>Routes\<close>

definition routeAnnotationKeys :: "Config \<Rightarrow> string list" where
  "routeAnnotationKeys c = [RouteGatewayNamespaceAnnotation c, RouteGatewayNameAnnotation c, RouteGatewayUIDAnnotation c,
     RouteClusterIDAnnotation c, RouteProjectIDAnnotation c]"

definition controllerRouteFinalizers :: "Config \<Rightarrow> HTTPRoute \<Rightarrow> string list" where
  "controllerRouteFinalizers c route =
     sort (filter (\<lambda>finalizer. finalizer = RouteFinalizer c \<or> HasPrefix finalizer (RouteBindingFinalizerPrefix c)) (om_Finalizers (ht_Meta route)))"

definition routeBindingChanged :: "Config \<Rightarrow> HTTPRoute \<Rightarrow> HTTPRoute \<Rightarrow> bool" where
  "routeBindingChanged c oldRoute newRoute \<longleftrightarrow>
     list_ex (\<lambda>key. annotation (ht_Meta oldRoute) key \<noteq> annotation (ht_Meta newRoute) key) (routeAnnotationKeys c) \<or>
     controllerRouteFinalizers c oldRoute \<noteq> controllerRouteFinalizers c newRoute"

definition controllerRouteParentStatuses :: "HTTPRoute \<Rightarrow> string \<Rightarrow> RouteParentStatus list" where
  "controllerRouteParentStatuses route controllerName = filter (\<lambda>status. ps_ControllerName status = controllerName) (ht_Parents route)"

definition HTTPRouteReconcilePredicate :: "Config \<Rightarrow> watchEvent \<Rightarrow> bool" where
  "HTTPRouteReconcilePredicate c = updatePredicate (\<lambda>oldObject newObject. case (oldObject, newObject) of
      (HTTPRouteObject oldRoute, HTTPRouteObject newRoute) \<Rightarrow>
        generationOrDeletionChanged (ht_Meta oldRoute) (ht_Meta newRoute) \<or> routeBindingChanged c oldRoute newRoute
    | _ \<Rightarrow> True)"

definition HTTPRoutePeerPredicate :: "watchEvent \<Rightarrow> bool" where
  "HTTPRoutePeerPredicate = updatePredicate (\<lambda>oldObject newObject. generationOrDeletionChanged (objectMeta oldObject) (objectMeta newObject))"

definition HTTPRouteForGatewayPredicate :: "Config \<Rightarrow> watchEvent \<Rightarrow> bool" where
  "HTTPRouteForGatewayPredicate c = updatePredicate (\<lambda>oldObject newObject. case (oldObject, newObject) of
      (HTTPRouteObject oldRoute, HTTPRouteObject newRoute) \<Rightarrow>
        generationOrDeletionChanged (ht_Meta oldRoute) (ht_Meta newRoute) \<or> routeBindingChanged c oldRoute newRoute \<or>
        controllerRouteParentStatuses oldRoute (cf_ControllerName c) \<noteq> controllerRouteParentStatuses newRoute (cf_ControllerName c)
    | _ \<Rightarrow> True)"

section \<open>Backends\<close>

record endpointBackendState =
  eb_serviceName :: string
  eb_hasReady :: bool
  eb_readyNodes :: string
  eb_deleting :: bool

definition readyNodeNames :: "EndpointSlice \<Rightarrow> string list" where
  "readyNodeNames endpointSlice = sort (remdups (concat (map (\<lambda>endpoint. case ep_NodeName endpoint of None \<Rightarrow> [] | Some name \<Rightarrow> [name])
     (filter endpointReady (sl_Endpoints endpointSlice)))))"

definition NUL :: string where
  "NUL = [CHR 0x00]"

definition endpointSliceBackendState :: "EndpointSlice \<Rightarrow> endpointBackendState" where
  "endpointSliceBackendState endpointSlice =
     \<lparr>eb_serviceName = sl_ServiceName endpointSlice, eb_hasReady = list_ex endpointReady (sl_Endpoints endpointSlice),
      eb_readyNodes = Join (readyNodeNames endpointSlice) NUL, eb_deleting = om_Deleting (sl_Meta endpointSlice)\<rparr>"

definition EndpointSlicePredicate :: "watchEvent \<Rightarrow> bool" where
  "EndpointSlicePredicate = updatePredicate (\<lambda>oldObject newObject. case (oldObject, newObject) of
      (EndpointSliceObject oldSlice, EndpointSliceObject newSlice) \<Rightarrow> endpointSliceBackendState oldSlice \<noteq> endpointSliceBackendState newSlice
    | _ \<Rightarrow> True)"

record nodeBackendState =
  nb_address :: string
  nb_ready :: string
  nb_readyPresent :: bool
  nb_unschedulable :: bool
  nb_deleting :: bool

definition nodeBackendStateFor :: "Node \<Rightarrow> string \<Rightarrow> nodeBackendState" where
  "nodeBackendStateFor node addressType = (case find (\<lambda>(t, _). t = ''Ready'') (no_Conditions node) of
      None \<Rightarrow> \<lparr>nb_address = nodeAddress node addressType, nb_ready = [], nb_readyPresent = False, nb_unschedulable = no_Unschedulable node,
        nb_deleting = no_Deleting node\<rparr>
    | Some (_, status) \<Rightarrow> \<lparr>nb_address = nodeAddress node addressType, nb_ready = status, nb_readyPresent = True,
        nb_unschedulable = no_Unschedulable node, nb_deleting = no_Deleting node\<rparr>)"

definition NodePredicate :: "string \<Rightarrow> watchEvent \<Rightarrow> bool" where
  "NodePredicate addressType = updatePredicate (\<lambda>oldObject newObject. case (oldObject, newObject) of
      (NodeObject _ oldNode, NodeObject _ newNode) \<Rightarrow> nodeBackendStateFor oldNode addressType \<noteq> nodeBackendStateFor newNode addressType
    | _ \<Rightarrow> True)"

text \<open>GenerationChangedPredicate of controller-runtime: an update without both objects is dropped.\<close>

definition ServicePredicate :: "watchEvent \<Rightarrow> bool" where
  "ServicePredicate e = (case e of
      UpdateEvent (Some oldObject) (Some newObject) \<Rightarrow> om_Generation (objectMeta newObject) \<noteq> om_Generation (objectMeta oldObject)
    | UpdateEvent _ _ \<Rightarrow> False
    | _ \<Rightarrow> True)"

section \<open>Registration\<close>

text \<open>A watch has the kind of object, the mapper to requests and the predicate. The object that is reconciled maps to itself.\<close>

record watchRegistration =
  wa_kind :: objectKind
  wa_mapper :: "watchReader \<Rightarrow> clientObject \<Rightarrow> request list"
  wa_predicate :: "watchEvent \<Rightarrow> bool"

definition watchOf :: "objectKind \<Rightarrow> (watchReader \<Rightarrow> clientObject \<Rightarrow> request list) \<Rightarrow> (watchEvent \<Rightarrow> bool) \<Rightarrow> watchRegistration" where
  "watchOf kind mapper pred = \<lparr>wa_kind = kind, wa_mapper = mapper, wa_predicate = pred\<rparr>"

definition forObject :: "objectKind \<Rightarrow> (watchEvent \<Rightarrow> bool) \<Rightarrow> watchRegistration" where
  "forObject kind pred = watchOf kind (\<lambda>_ obj. [ObjectKeyFromObject (objectMeta obj)]) pred"

datatype setupError = setupCoordinatorRequired | setupAPIReaderRequired

definition setupClassController :: "conditionUtil \<Rightarrow> gatewayConsts \<Rightarrow> string \<Rightarrow> Config \<Rightarrow> bool \<Rightarrow> setupError + watchRegistration list" where
  "setupClassController u g gatewaysExist c hasAPIReader =
     (if \<not> hasAPIReader then Inl setupAPIReaderRequired
      else Inr [forObject KindGatewayClass (GatewayClassReconcilePredicate u gatewaysExist),
        watchOf KindGateway (\<lambda>_. gatewayClassRequestsForGateway) GenerationOrDeletionChangedPredicate,
        watchOf KindDefinition (\<lambda>reader obj. gatewayClassRequestsForGatewayAPICRD c reader (Some obj)) (GatewayAPICRDReconcilePredicate g)])"

definition setupGatewayController :: "conditionUtil \<Rightarrow> Config \<Rightarrow> bool \<Rightarrow> bool \<Rightarrow> setupError + watchRegistration list" where
  "setupGatewayController u c hasCoordinator hasAPIReader =
     (if \<not> hasCoordinator then Inl setupCoordinatorRequired
      else if \<not> hasAPIReader then Inl setupAPIReaderRequired
      else Inr [forObject KindGateway (GatewayReconcilePredicate c),
        watchOf KindHTTPRoute (\<lambda>_. gatewayRequestsForHTTPRoute c) (HTTPRouteForGatewayPredicate c),
        watchOf KindGatewayClass gatewayRequestsForGatewayClass (GatewayClassForGatewayPredicate u)])"

definition setupRouteController :: "conditionUtil \<Rightarrow> Config \<Rightarrow> bool \<Rightarrow> bool \<Rightarrow> setupError + watchRegistration list" where
  "setupRouteController u c hasCoordinator hasAPIReader =
     (if \<not> hasCoordinator then Inl setupCoordinatorRequired
      else if \<not> hasAPIReader then Inl setupAPIReaderRequired
      else Inr [forObject KindHTTPRoute (HTTPRouteReconcilePredicate c),
        watchOf KindHTTPRoute enqueueHTTPRoutePeers HTTPRoutePeerPredicate,
        watchOf KindGateway enqueueHTTPRoutesForGateway (GatewayForHTTPRoutePredicate u c),
        watchOf KindService enqueueHTTPRoutesForService ServicePredicate,
        watchOf KindEndpointSlice enqueueHTTPRoutesForEndpointSlice EndpointSlicePredicate,
        watchOf KindNode (enqueueHTTPRoutesForNode c) (NodePredicate (cf_NodeAddressType c))])"

text \<open>A watch of a kind lets an event through and maps the object to a request.\<close>

definition delivers :: "'e + watchRegistration list \<Rightarrow> watchReader \<Rightarrow> objectKind \<Rightarrow> watchEvent \<Rightarrow> clientObject \<Rightarrow> request \<Rightarrow> bool" where
  "delivers setup reader kind e obj key = (case setup of
      Inl _ \<Rightarrow> False
    | Inr watches \<Rightarrow> list_ex (\<lambda>w. wa_kind w = kind \<and> wa_predicate w e \<and> key \<in> set (wa_mapper w reader obj)) watches)"

end
