(* ===== verification/WatchFacts.thy ===== *)
theory WatchFacts
  imports Predicates RouteSpecs
begin

text \<open>
  The watches miss nothing: the mappers between Gateways and routes are inverse to each other, and a change that a predicate drops or a
  mapper does not pass on cannot change what the reconcilers compute from the changed object.
\<close>

section \<open>Mappers between Gateways and routes\<close>

text \<open>The cache answers a list by an index of a route with the routes that have the value.\<close>

definition indexedCache :: "Config \<Rightarrow> HTTPRoute list \<Rightarrow> watchReader \<Rightarrow> bool" where
  "indexedCache c routes reader \<longleftrightarrow> (\<forall>index \<in> set (controllerFieldIndexes c). ix_object index = KindHTTPRoute \<longrightarrow>
     (\<forall>v. rd_Indexed (wr_reader reader) (ix_field index) v = Inr (filter (\<lambda>route. v \<in> set (ix_extract index (HTTPRouteObject route))) routes)))"

lemma indexed_lists:
  assumes "indexedCache c routes reader"
  shows "listedRoutes reader IndexHTTPRouteByParentGateway v = filter (\<lambda>route. v \<in> set (ParentGatewayKeys route)) routes"
    "listedRoutes reader IndexHTTPRouteByStatusGateway v = filter (\<lambda>route. v \<in> set (statusParentGatewayKeys c route)) routes"
    "listedRoutes reader IndexHTTPRouteByBoundGateway v = filter (\<lambda>route. v \<in> set (nonEmpty (boundGatewayKey c route))) routes"
    "listedRoutes reader IndexHTTPRouteByNodeBackend v = filter (\<lambda>route. v \<in> set (nodeBackendValues route)) routes"
    "listedRoutes reader IndexHTTPRouteByBackendService v = filter (\<lambda>route. v \<in> set (backendServiceKeys route)) routes"
  using assms by (simp_all add: indexedCache_def controllerFieldIndexes_def fieldIndex_def listedRoutes_def routeIndex_def)

text \<open>Names of Kubernetes objects are not empty and have no slash.\<close>

definition plainName :: "string \<Rightarrow> bool" where
  "plainName s \<longleftrightarrow> s \<noteq> [] \<and> CHR ''/'' \<notin> set s"

lemma split_at:
  assumes "x @ b # r = u @ b # r'" "b \<notin> set x" "b \<notin> set u"
  shows "x = u \<and> r = r'"
  using assms by (induction x arbitrary: u) (auto simp: Cons_eq_append_conv)

lemma key_unique:
  assumes "plainName namespace" "plainName name" "ObjectKeyString namespace' name' = ObjectKeyString namespace name"
  shows "namespace' = namespace \<and> name' = name"
proof -
  have "namespace' @ CHR ''/'' # name' = namespace @ CHR ''/'' # name" using assms(3) by (simp add: ObjectKeyString_def)
  with assms(1,2) show ?thesis by (auto simp: plainName_def append_eq_append_conv2 Cons_eq_append_conv append_eq_Cons_conv)
qed

lemma key_nonempty: "ObjectKeyString namespace name \<noteq> []"
  by (simp add: ObjectKeyString_def)

lemma parent_keys:
  assumes "plainName namespace" "plainName name"
  shows "ObjectKeyString namespace name \<in> set (parentGatewayKey routeNamespace parent) \<longleftrightarrow> (namespace, name) \<in> set (parentRequest routeNamespace parent)"
  using assms key_unique [OF assms] unfolding parentGatewayKey_def parentRequest_def Let_def by (auto simp: plainName_def)

lemma bound_keys:
  assumes "plainName namespace" "plainName name"
  shows "ObjectKeyString namespace name \<in> set (nonEmpty (boundGatewayKey c route)) \<longleftrightarrow> (namespace, name) \<in> set (boundRequest c route)"
  using key_unique [OF assms] key_nonempty unfolding boundGatewayKey_def boundRequest_def nonEmpty_def Let_def by auto

lemma requests_parts:
  "set (gatewayRequestsForHTTPRoute c (HTTPRouteObject route)) =
     (\<Union>parent \<in> set (ht_ParentRefs route). set (parentRequest (om_Namespace (ht_Meta route)) parent)) \<union>
     (\<Union>parent \<in> {parent \<in> set (ht_Parents route). ps_ControllerName parent = cf_ControllerName c}.
        set (parentRequest (om_Namespace (ht_Meta route)) (ps_ParentRef parent))) \<union>
     set (boundRequest c route)"
  by (auto simp: gatewayRequestsForHTTPRoute_def SortedRequests_def Let_def split: if_splits)

lemma index_parts:
  "set (ParentGatewayKeys route) = (\<Union>parent \<in> set (ht_ParentRefs route). set (parentGatewayKey (om_Namespace (ht_Meta route)) parent))"
  "set (statusParentGatewayKeys c route) = (\<Union>parent \<in> {parent \<in> set (ht_Parents route). ps_ControllerName parent = cf_ControllerName c}.
     set (parentGatewayKey (om_Namespace (ht_Meta route)) (ps_ParentRef parent)))"
  by (auto simp: ParentGatewayKeys_def statusParentGatewayKeys_def sortedIndexKeys_def split: if_splits)

text \<open>
  C18. The watches between Gateways and routes are inverse to each other: when the cache answers lists by index, a change of a
  Gateway enqueues exactly the routes whose change enqueues the Gateway: those that refer to it, have a status of this
  controller for it, or are bound to it.
\<close>

theorem gateway_route_watches_inverse:
  assumes "indexedCache c routes reader" "plainName (om_Namespace (gw_Meta gateway))" "plainName (om_Name (gw_Meta gateway))"
  shows "set (enqueueHTTPRoutesForGateway reader (GatewayObject gateway)) =
    {ObjectKeyFromObject (ht_Meta route) | route. route \<in> set routes \<and> ObjectKeyFromObject (gw_Meta gateway) \<in> set (gatewayRequestsForHTTPRoute c (HTTPRouteObject route))}"
proof -
  let ?key = "ObjectKeyString (om_Namespace (gw_Meta gateway)) (om_Name (gw_Meta gateway))"
  have "?key \<in> set (ParentGatewayKeys route) \<or> ?key \<in> set (statusParentGatewayKeys c route) \<or> ?key \<in> set (nonEmpty (boundGatewayKey c route)) \<longleftrightarrow>
      ObjectKeyFromObject (gw_Meta gateway) \<in> set (gatewayRequestsForHTTPRoute c (HTTPRouteObject route))" for route
    unfolding requests_parts index_parts ObjectKeyFromObject_def UN_iff Un_iff parent_keys [OF assms(2,3)] bound_keys [OF assms(2,3)] by blast
  moreover have "set (enqueueHTTPRoutesForGateway reader (GatewayObject gateway)) = {ObjectKeyFromObject (ht_Meta route) | route. route \<in> set routes \<and>
      (?key \<in> set (ParentGatewayKeys route) \<or> ?key \<in> set (statusParentGatewayKeys c route) \<or> ?key \<in> set (nonEmpty (boundGatewayKey c route)))}"
    by (auto simp: enqueueHTTPRoutesForGateway_def SortedRequests_def routeKeys_def indexed_lists [OF assms(1)] Let_def)
  ultimately show ?thesis by auto
qed

section \<open>Nodes\<close>

lemma watched_nodes:
  "NodePredicate (cf_NodeAddressType c) e \<Longrightarrow> key \<in> set (enqueueHTTPRoutesForNode c reader obj) \<Longrightarrow> delivers (setupRouteController u c True True) reader KindNode e obj key"
  by (simp add: delivers_def setupRouteController_def watchOf_def forObject_def)

lemma watched_slices:
  "EndpointSlicePredicate e \<Longrightarrow> key \<in> set (enqueueHTTPRoutesForEndpointSlice reader obj) \<Longrightarrow>
   delivers (setupRouteController u c True True) reader KindEndpointSlice e obj key"
  by (simp add: delivers_def setupRouteController_def watchOf_def forObject_def)

lemma addNode_seen:
  assumes "nodeBackendStateFor node (cf_NodeAddressType c) = nodeBackendStateFor node' (cf_NodeAddressType c)" "no_Name node = no_Name node'"
  shows "addNode c service port locals node = addNode c service port locals node'"
proof -
  have "readyNode node = readyNode node'" "nodeAddress node (cf_NodeAddressType c) = nodeAddress node' (cf_NodeAddressType c)"
    using assms(1) by (auto simp: nodeBackendStateFor_def readyNode_def split: option.splits)
  with assms(2) show ?thesis unfolding addNode_def by (simp only:)
qed

lemma addNode_remote: "sv_ExternalTrafficPolicy service = Local \<Longrightarrow> no_Name node \<notin> locals \<Longrightarrow> addNode c service port locals node acc = acc"
  by (auto simp: addNode_def split: prod.splits)

text \<open>A route of the cluster with a backend that is a NodePort Service, and the EndpointSlices of that Service.\<close>

definition backedBy :: "Config \<Rightarrow> watchReader \<Rightarrow> HTTPRoute \<Rightarrow> Service \<Rightarrow> bool" where
  "backedBy c reader route service \<longleftrightarrow> structurallySupportedRoute route \<and>
     (case managedParentsWithReader (wr_reader reader) c route of Inl _ \<Rightarrow> False | Inr parents \<Rightarrow> parents \<noteq> []) \<and>
     rd_Service (wr_reader reader) (om_Namespace (ht_Meta route)) (br_Name (hr_BackendRefs (ht_Rules route ! 0) ! 0)) = Inr service \<and>
     sv_Type service = ''NodePort'' \<and> sv_Namespace service = om_Namespace (ht_Meta route) \<and> sv_Name service = br_Name (hr_BackendRefs (ht_Rules route ! 0) ! 0)"

lemma supported_backend:
  assumes "structurallySupportedRoute route"
  obtains backend where "routeBackends route = [backend]" "hr_BackendRefs (ht_Rules route ! 0) ! 0 = backend" "isCoreServiceBackend backend"
    "orDefault (br_Namespace backend) (om_Namespace (ht_Meta route)) = om_Namespace (ht_Meta route)"
proof -
  have "length (ht_Rules route) = 1" "length (hr_BackendRefs (ht_Rules route ! 0)) = 1"
    using assms by (auto simp: structurallySupportedRoute_def Let_def split: if_splits)
  then obtain rule backend where "ht_Rules route = [rule]" "hr_BackendRefs rule = [backend]" by (auto simp: length_Suc_conv)
  with assms that [of backend] show thesis
    by (auto simp: structurallySupportedRoute_def Let_def routeBackends_def isCoreServiceBackend_def backendNamespace_def split: if_splits)
qed

definition membersWith :: "watchReader \<Rightarrow> Config \<Rightarrow> Service \<Rightarrow> int \<Rightarrow> Endpoint list list \<Rightarrow> Node list \<Rightarrow> routeError + Member list" where
  "membersWith reader c service port slices nodes =
     nodePortMembersWithReader ((wr_reader reader)\<lparr>rd_EndpointSlices := \<lambda>_ _. Inr slices, rd_Nodes := Inr nodes\<rparr>) c service port"

text \<open>
  No change of a node is missed: when an update of a node changes the members of the backend of a route,
  a watch of the route controller lets the update pass and maps the node to the route, also when the Service sends
  traffic only to local endpoints.
\<close>

theorem node_changes_are_seen:
  assumes "indexedCache c routes reader" "route \<in> set routes" "backedBy c reader route service"
    and "wr_EndpointSlices reader IndexEndpointSliceByService (ObjectKeyString (sv_Namespace service) (sv_Name service)) = Inr slices"
    and "no_Name new = no_Name old"
    and "membersWith reader c service port (map sl_Endpoints slices) (xs @ old # ys) \<noteq> membersWith reader c service port (map sl_Endpoints slices) (xs @ new # ys)"
  shows "delivers (setupRouteController u c True True) reader KindNode (UpdateEvent (Some (NodeObject m old)) (Some (NodeObject m' new))) (NodeObject m' new)
    (ObjectKeyFromObject (ht_Meta route))"
proof (rule watched_nodes)
  let ?locals = "localNodes (map sl_Endpoints slices)"
  have differ: "addNode c service port ?locals old \<noteq> addNode c service port ?locals new"
    using assms(6) by (auto simp: membersWith_def nodePortMembersWithReader_def)
  then show "NodePredicate (cf_NodeAddressType c) (UpdateEvent (Some (NodeObject m old)) (Some (NodeObject m' new)))"
    using addNode_seen [of old c new] assms(5) by (auto simp: NodePredicate_def updatePredicate_def)
  have "no_Name new \<in> ?locals" if "sv_ExternalTrafficPolicy service = Local"
  proof (rule ccontr)
    assume "no_Name new \<notin> ?locals"
    then have "addNode c service port ?locals old acc = acc" "addNode c service port ?locals new acc = acc" for acc
      using addNode_remote [OF that] assms(5) by simp_all
    with differ show False by (metis ext)
  qed
  then have "routeDependsOnNode c reader new route"
    using assms(3,4) by (auto simp: routeDependsOnNode_def backedBy_def nodeHasReadyEndpoint_def localNodes_def list_ex_iff Let_def split: sum.splits list.splits)
  moreover have "route \<in> set (listedRoutes reader IndexHTTPRouteByNodeBackend NodeBackendIndexValue)"
  proof -
    have "structurallySupportedRoute route" using assms(3) by (simp add: backedBy_def)
    then have "hasCoreServiceBackend route" by (rule supported_backend) (simp add: hasCoreServiceBackend_def)
    then show ?thesis using assms(2) by (simp add: indexed_lists [OF assms(1)] nodeBackendValues_def)
  qed
  ultimately show "ObjectKeyFromObject (ht_Meta route) \<in> set (enqueueHTTPRoutesForNode c reader (NodeObject m' new))"
    by (auto simp: enqueueHTTPRoutesForNode_def SortedRequests_def routeKeys_def)
qed

section \<open>EndpointSlices\<close>

lemma Join_nonempty: "xs \<noteq> [] \<Longrightarrow> \<forall>x \<in> set xs. x \<noteq> [] \<Longrightarrow> Join xs sep \<noteq> []"
  by (cases "(xs, sep)" rule: Join.cases) auto

lemma Join_inject:
  assumes "\<forall>x \<in> set xs. x \<noteq> [] \<and> b \<notin> set x" "\<forall>y \<in> set ys. y \<noteq> [] \<and> b \<notin> set y" "Join xs [b] = Join ys [b]"
  shows "xs = ys"
  using assms
proof (induction xs "[b]" arbitrary: ys rule: Join.induct)
  case 1
  then show ?case using Join_nonempty [of ys "[b]"] by auto
next
  case (2 x)
  then show ?case by (cases "(ys, [b])" rule: Join.cases) auto
next
  case (3 x y zs)
  have "b \<in> set (Join ys [b])" using "3.prems"(3) by (metis Join.simps(3) Un_iff insert_iff list.set(2) set_append)
  then obtain u v ws where ys: "ys = u # v # ws"
    using "3.prems"(2) by (cases "(ys, [b])" rule: Join.cases) auto
  have "x @ b # Join (y # zs) [b] = u @ b # Join (v # ws) [b]" using "3.prems"(3) ys by simp
  then have "x = u \<and> Join (y # zs) [b] = Join (v # ws) [b]"
    by (rule split_at) (use "3.prems"(1,2) ys in simp_all)
  with "3.hyps" [of "v # ws"] "3.prems"(1,2) show ?case unfolding ys by simp
qed

lemma readyNodeNames_set:
  "set (readyNodeNames endpointSlice) = {name. \<exists>e \<in> set (sl_Endpoints endpointSlice). endpointReady e \<and> ep_NodeName e = Some name}"
  by (auto simp: readyNodeNames_def split: option.splits)

text \<open>Node names in endpoints are names of Kubernetes objects.\<close>

definition namesNodes :: "EndpointSlice \<Rightarrow> bool" where
  "namesNodes endpointSlice \<longleftrightarrow> list_all (\<lambda>e. \<forall>name. ep_NodeName e = Some name \<longrightarrow> name \<noteq> [] \<and> CHR 0x00 \<notin> set name) (sl_Endpoints endpointSlice)"

lemma slices_seen:
  assumes "endpointSliceBackendState old = endpointSliceBackendState new" "namesNodes old" "namesNodes new"
  shows "list_ex endpointReady (concat (xs @ sl_Endpoints old # ys)) = list_ex endpointReady (concat (xs @ sl_Endpoints new # ys))"
    "localNodes (xs @ sl_Endpoints old # ys) = localNodes (xs @ sl_Endpoints new # ys)"
proof -
  have plain: "\<forall>x \<in> set (readyNodeNames s). x \<noteq> [] \<and> CHR 0x00 \<notin> set x" if "namesNodes s" for s
    using that unfolding readyNodeNames_set by (auto simp: namesNodes_def list_all_iff)
  have "Join (readyNodeNames old) [CHR 0x00] = Join (readyNodeNames new) [CHR 0x00]"
    using assms(1) by (simp add: endpointSliceBackendState_def NUL_def)
  from Join_inject [OF plain [OF assms(2)] plain [OF assms(3)] this]
  have "{name. \<exists>e \<in> set (sl_Endpoints old). endpointReady e \<and> ep_NodeName e = Some name} =
      {name. \<exists>e \<in> set (sl_Endpoints new). endpointReady e \<and> ep_NodeName e = Some name}" by (metis readyNodeNames_set)
  then show "localNodes (xs @ sl_Endpoints old # ys) = localNodes (xs @ sl_Endpoints new # ys)"
    unfolding localNodes_def set_eq_iff mem_Collect_eq by auto
  show "list_ex endpointReady (concat (xs @ sl_Endpoints old # ys)) = list_ex endpointReady (concat (xs @ sl_Endpoints new # ys))"
    using assms(1) by (simp add: endpointSliceBackendState_def list_ex_iff bex_Un)
qed

lemma members_cong:
  assumes "list_ex endpointReady (concat slices) = list_ex endpointReady (concat slices')" "localNodes slices = localNodes slices'"
  shows "membersWith reader c service port slices nodes = membersWith reader c service port slices' nodes"
  using assms by (simp add: membersWith_def nodePortMembersWithReader_def)

text \<open>
  C19. No change of an EndpointSlice is missed: when an update of an EndpointSlice of the Service of a route changes the members of the
  backend, the predicate lets the update pass, although it compares the ready nodes as one string, and the route is
  reconciled for the EndpointSlice.
\<close>

theorem endpoint_changes_are_seen:
  assumes "indexedCache c routes reader" "route \<in> set routes" "backedBy c reader route service" "plainName (sv_Namespace service)" "plainName (sv_Name service)"
    and "sl_ServiceName new = sv_Name service" "om_Namespace (sl_Meta new) = sv_Namespace service" "namesNodes old" "namesNodes new"
    and "membersWith reader c service port (xs @ sl_Endpoints old # ys) nodes \<noteq> membersWith reader c service port (xs @ sl_Endpoints new # ys) nodes"
  shows "delivers (setupRouteController u c True True) reader KindEndpointSlice (UpdateEvent (Some (EndpointSliceObject old)) (Some (EndpointSliceObject new)))
    (EndpointSliceObject new) (ObjectKeyFromObject (ht_Meta route))"
proof (rule watched_slices)
  have "endpointSliceBackendState old \<noteq> endpointSliceBackendState new"
  proof
    assume "endpointSliceBackendState old = endpointSliceBackendState new"
    note slices_seen [OF this assms(8,9), of xs ys]
    from members_cong [OF this] assms(10) show False by blast
  qed
  then show "EndpointSlicePredicate (UpdateEvent (Some (EndpointSliceObject old)) (Some (EndpointSliceObject new)))"
    by (simp add: EndpointSlicePredicate_def updatePredicate_def)
  have "structurallySupportedRoute route" using assms(3) by (simp add: backedBy_def)
  then obtain backend where b: "routeBackends route = [backend]" "hr_BackendRefs (ht_Rules route ! 0) ! 0 = backend" "isCoreServiceBackend backend"
    "orDefault (br_Namespace backend) (om_Namespace (ht_Meta route)) = om_Namespace (ht_Meta route)" by (rule supported_backend)
  have "sv_Namespace service = om_Namespace (ht_Meta route)" "sv_Name service = br_Name backend" using assms(3) b(2) by (simp_all add: backedBy_def)
  then have "ObjectKeyString (sv_Namespace service) (sv_Name service) \<in> set (backendServiceKeys route)"
    using b assms(4,5) by (simp add: backendServiceKeys_def sortedIndexKeys_def backendServiceKey_def Let_def plainName_def)
  then show "ObjectKeyFromObject (ht_Meta route) \<in> set (enqueueHTTPRoutesForEndpointSlice reader (EndpointSliceObject new))"
    using assms(2,5-7) by (auto simp: enqueueHTTPRoutesForEndpointSlice_def serviceNameLabel_def objectMeta_def enqueueHTTPRoutesForServiceKey_def
      SortedRequests_def indexed_lists [OF assms(1)] plainName_def Let_def)
qed

end
