(* ===== verification/GatewayReconciler.thy ===== *)
theory GatewayReconciler
  imports GatewayStatus
begin

text \<open>
  The Gateway reconciler: the package internal/controller/gateway without its watches. As in the route reconciler, the
  environment is a record of what the reconciler calls, every call of the API server sees a new reader, and the state has the
  world outside, the log and the scope of the reconciliation. The Gateway that the Go code passes by pointer is the Gateway of
  the scope; logging is left out.
\<close>

section \<open>The environment and the state\<close>

text \<open>\<open>gv_bindingText\<close> is the text of the error of ValidateGatewayBinding.\<close>

record 'w gatewayEnv =
  gv_Config :: Config
  gv_finalizers :: finalizerUtil
  gv_conditions :: conditionUtil
  gv_consts :: gatewayConsts
  gv_bindingText :: "ObjectMeta \<Rightarrow> string"
  gv_hasAPIReader :: bool
  gv_hasRecorder :: bool
  gv_read :: "bool \<Rightarrow> 'w \<Rightarrow> apiReader \<times> 'w"
  gv_patch :: "Gateway \<Rightarrow> Gateway \<Rightarrow> 'w \<Rightarrow> (patchError + Gateway) \<times> 'w"
  gv_patchStatus :: "Gateway \<Rightarrow> Gateway \<Rightarrow> 'w \<Rightarrow> (patchError + Gateway) \<times> 'w"
  gv_acquire :: "string \<Rightarrow> 'w \<Rightarrow> bool \<times> 'w"
  gv_release :: "string \<Rightarrow> 'w \<Rightarrow> 'w"
  gv_EnsureGateway :: "GatewaySpec \<Rightarrow> 'w \<Rightarrow> GatewayResult result \<times> 'w"
  gv_DeleteGateway :: "Identity \<Rightarrow> 'w \<Rightarrow> Outcome result \<times> 'w"

datatype gatewayEvent =
    ReadCluster bool apiReader
  | PatchedGateway Gateway Gateway "patchError + Gateway"
  | PatchedGatewayStatus Gateway Gateway "patchError + Gateway"
  | AcquiredLock string
  | ReleasedLock string
  | CalledEnsureGateway GatewaySpec "GatewayResult result"
  | CalledDeleteGateway Identity "Outcome result"
  | RecordedGatewayWarning ProviderFailurePolicy string

record gatewayProviderWarning =
  gw_policy :: ProviderFailurePolicy
  gw_operation :: string

record gatewayScope =
  gs_gateway :: Gateway
  gs_original :: Gateway
  gs_gatewayClass :: "GatewayClass option"
  gs_managed :: bool
  gs_skipPatch :: bool
  gs_warnings :: "gatewayProviderWarning list"
  gs_patchCause :: "rcError option"

record 'w gatewayReconcileState =
  gt_world :: 'w
  gt_log :: "gatewayEvent list"
  gt_scope :: gatewayScope

type_synonym ('w, 'a) gc = "('w gatewayReconcileState, rcError, 'a) act"

section \<open>Calls\<close>

definition readCluster :: "'w gatewayEnv \<Rightarrow> bool \<Rightarrow> ('w, apiReader) gc" where
  "readCluster env live = (\<lambda>s. case gv_read env live (gt_world s) of (reader, w) \<Rightarrow>
     (Inr reader, s\<lparr>gt_world := w, gt_log := gt_log s @ [ReadCluster live reader]\<rparr>))"

definition patchMetadata :: "'w gatewayEnv \<Rightarrow> Gateway \<Rightarrow> Gateway \<Rightarrow> ('w, Gateway) gc" where
  "patchMetadata env base desired = (\<lambda>s. case gv_patch env base desired (gt_world s) of (r, w) \<Rightarrow>
     (mapErr patchErrorOf r, s\<lparr>gt_world := w, gt_log := gt_log s @ [PatchedGateway base desired r]\<rparr>))"

definition patchGatewayStatus :: "'w gatewayEnv \<Rightarrow> Gateway \<Rightarrow> Gateway \<Rightarrow> ('w, Gateway) gc" where
  "patchGatewayStatus env base desired = (\<lambda>s. case gv_patchStatus env base desired (gt_world s) of (r, w) \<Rightarrow>
     (mapErr patchErrorOf r, s\<lparr>gt_world := w, gt_log := gt_log s @ [PatchedGatewayStatus base desired r]\<rparr>))"

definition callEnsureGateway :: "'w gatewayEnv \<Rightarrow> GatewaySpec \<Rightarrow> ('w, GatewayResult) gc" where
  "callEnsureGateway env spec = (\<lambda>s. case gv_EnsureGateway env spec (gt_world s) of (r, w) \<Rightarrow>
     (mapErr ProviderFailure r, s\<lparr>gt_world := w, gt_log := gt_log s @ [CalledEnsureGateway spec r]\<rparr>))"

definition callDeleteGateway :: "'w gatewayEnv \<Rightarrow> Identity \<Rightarrow> ('w, Outcome) gc" where
  "callDeleteGateway env i = (\<lambda>s. case gv_DeleteGateway env i (gt_world s) of (r, w) \<Rightarrow>
     (mapErr ProviderFailure r, s\<lparr>gt_world := w, gt_log := gt_log s @ [CalledDeleteGateway i r]\<rparr>))"

definition acquireLock :: "'w gatewayEnv \<Rightarrow> string \<Rightarrow> ('w, unit) gc" where
  "acquireLock env uid = (\<lambda>s. case gv_acquire env uid (gt_world s) of (ok, w) \<Rightarrow>
     if ok then (Inr (), s\<lparr>gt_world := w, gt_log := gt_log s @ [AcquiredLock uid]\<rparr>)
     else (Inl (WrappedError PlainError), s\<lparr>gt_world := w\<rparr>))"

definition releaseLock :: "'w gatewayEnv \<Rightarrow> string \<Rightarrow> 'w gatewayReconcileState \<Rightarrow> 'w gatewayReconcileState" where
  "releaseLock env uid s = s\<lparr>gt_world := gv_release env uid (gt_world s), gt_log := gt_log s @ [ReleasedLock uid]\<rparr>"

definition withLock :: "'w gatewayEnv \<Rightarrow> string \<Rightarrow> ('w, 'a) gc \<Rightarrow> ('w, 'a) gc" where
  "withLock env uid m = bindA (acquireLock env uid) (\<lambda>_. deferA (releaseLock env uid) m)"

definition recordGatewayWarning :: "'w gatewayEnv \<Rightarrow> gatewayProviderWarning \<Rightarrow> ('w, unit) gc" where
  "recordGatewayWarning env warning =
     (if \<not> gv_hasRecorder env \<or> \<not> fp_EmitEvent (gw_policy warning) then returnA ()
      else modifyA (\<lambda>s. s\<lparr>gt_log := gt_log s @ [RecordedGatewayWarning (gw_policy warning) (gw_operation warning)]\<rparr>))"

fun recordGatewayWarnings :: "'w gatewayEnv \<Rightarrow> gatewayProviderWarning list \<Rightarrow> ('w, unit) gc" where
  "recordGatewayWarnings env [] = returnA ()"
| "recordGatewayWarnings env (warning # warnings) = bindA (recordGatewayWarning env warning) (\<lambda>_. recordGatewayWarnings env warnings)"

definition changeGatewayScope :: "(gatewayScope \<Rightarrow> gatewayScope) \<Rightarrow> ('w, unit) gc" where
  "changeGatewayScope f = modifyA (\<lambda>s. s\<lparr>gt_scope := f (gt_scope s)\<rparr>)"

definition theScope :: "('w, gatewayScope) gc" where
  "theScope = getA gt_scope"

text \<open>Reading a Gateway and a class by their keys.\<close>

definition getGateway :: "'w gatewayEnv \<Rightarrow> bool \<Rightarrow> Gateway \<Rightarrow> ('w, Gateway) gc" where
  "getGateway env live gateway = bindA (readCluster env live) (\<lambda>reader.
     liftA (mapErr readErrorOf (rd_Gateway reader (om_Namespace (gw_Meta gateway)) (om_Name (gw_Meta gateway)))))"

definition getClass :: "'w gatewayEnv \<Rightarrow> bool \<Rightarrow> string \<Rightarrow> ('w, GatewayClass) gc" where
  "getClass env live name = bindA (readCluster env live) (\<lambda>reader. liftA (mapErr readErrorOf (rd_GatewayClass reader name)))"

definition validateVersion :: "'w gatewayEnv \<Rightarrow> ('w, unit) gc" where
  "validateVersion env = bindA (readCluster env True) (\<lambda>reader.
     liftA (mapErr versionErrorOf (ValidateInstalledGatewayAPIVersion (gv_consts env) (Some reader))))"

definition gatewayChangedBy :: "rcError \<Rightarrow> rcError" where
  "gatewayChangedBy e = JoinedErrors (errGatewayChanged # (if IsNotFoundError e then [] else [e]))"

section \<open>The scope\<close>

definition getGatewayClass :: "'w gatewayEnv \<Rightarrow> Gateway \<Rightarrow> ('w, GatewayClass option \<times> bool) gc" where
  "getGatewayClass env gateway = bindA (tryA (getClass env False (gw_GatewayClassName gateway))) (\<lambda>r. case r of
      Inl e \<Rightarrow> if IsNotFoundError e then returnA (None, False) else throwA (WrappedError e)
    | Inr gatewayClass \<Rightarrow> returnA (Some gatewayClass, gc_ControllerName gatewayClass = cf_ControllerName (gv_Config env)))"

definition newScopeOf :: "Gateway \<Rightarrow> gatewayScope" where
  "newScopeOf gateway = \<lparr>gs_gateway = gateway, gs_original = gateway, gs_gatewayClass = None, gs_managed = False, gs_skipPatch = False,
     gs_warnings = [], gs_patchCause = None\<rparr>"

definition hasControllerBinding :: "'w gatewayEnv \<Rightarrow> Gateway \<Rightarrow> bool" where
  "hasControllerBinding env gateway = GatewayHasControllerBinding (gv_finalizers env) (gv_Config env) (gw_Meta gateway)"

text \<open>No scope is \<^term>\<open>None\<close>: the Gateway is gone or this controller is not responsible for it.\<close>

definition newGatewayScope :: "'w gatewayEnv \<Rightarrow> string \<Rightarrow> string \<Rightarrow> ('w, gatewayScope option) gc" where
  "newGatewayScope env namespace name = bindA (readCluster env False) (\<lambda>reader. case rd_Gateway reader namespace name of
      Inl NotFound \<Rightarrow> returnA None
    | Inl e \<Rightarrow> throwA (readErrorOf e)
    | Inr gateway \<Rightarrow>
        if om_Deleting (gw_Meta gateway) then returnA (if hasControllerBinding env gateway then Some (newScopeOf gateway) else None)
        else bindA (getGatewayClass env gateway) (\<lambda>(gatewayClass, managed).
          returnA (if managed \<or> hasControllerBinding env gateway
            then Some ((newScopeOf gateway)\<lparr>gs_gatewayClass := gatewayClass, gs_managed := managed\<rparr>) else None)))"

type_synonym gatewayStatus = "StatusCondition list \<times> (string option \<times> string) list \<times> ListenerStatus list"

definition statusOf :: "Gateway \<Rightarrow> gatewayStatus" where
  "statusOf gateway = (gw_Conditions gateway, gw_StatusAddresses gateway, gw_ListenerStatuses gateway)"

definition withStatus :: "Gateway \<Rightarrow> Gateway \<Rightarrow> Gateway" where
  "withStatus gateway other = gateway\<lparr>gw_Conditions := gw_Conditions other, gw_StatusAddresses := gw_StatusAddresses other,
     gw_ListenerStatuses := gw_ListenerStatuses other\<rparr>"

definition statusChanged :: "gatewayScope \<Rightarrow> bool" where
  "statusChanged scope \<longleftrightarrow> statusOf (gs_original scope) \<noteq> statusOf (gs_gateway scope)"

definition refresh :: "Gateway \<Rightarrow> ('w, unit) gc" where
  "refresh gateway = bindA theScope (\<lambda>scope.
     bindA (guardA (\<not> (statusChanged scope \<and> statusOf (gs_original scope) \<noteq> statusOf gateway)) errGatewayChanged) (\<lambda>_.
     changeGatewayScope (\<lambda>scope. scope\<lparr>gs_gateway := (if statusChanged scope then withStatus gateway (gs_gateway scope) else gateway),
       gs_original := gateway\<rparr>)))"

definition queueGatewayWarning :: "ProviderFailurePolicy \<Rightarrow> string \<Rightarrow> ('w, unit) gc" where
  "queueGatewayWarning policy operation = changeGatewayScope (\<lambda>scope. scope\<lparr>gs_warnings := gs_warnings scope @ [\<lparr>gw_policy = policy, gw_operation = operation\<rparr>]\<rparr>)"

definition skipGatewayPatch :: "('w, unit) gc" where
  "skipGatewayPatch = changeGatewayScope (\<lambda>scope. scope\<lparr>gs_skipPatch := True\<rparr>)"

definition changeGateway :: "(Gateway \<Rightarrow> Gateway) \<Rightarrow> ('w, unit) gc" where
  "changeGateway f = changeGatewayScope (\<lambda>scope. scope\<lparr>gs_gateway := f (gs_gateway scope)\<rparr>)"

definition patchGateway :: "'w gatewayEnv \<Rightarrow> ('w, unit) gc" where
  "patchGateway env = bindA theScope (\<lambda>scope.
     if gs_skipPatch scope then returnA ()
     else let desired = gs_gateway scope in
       bindA (if statusChanged scope
         then bindA (failingAs WrappedError (patchGatewayStatus env (withStatus desired (gs_original scope)) desired)) (\<lambda>patched.
           changeGatewayScope (\<lambda>scope. scope\<lparr>gs_gateway := patched, gs_original := patched\<rparr>))
         else returnA ()) (\<lambda>_.
       bindA (changeGatewayScope (\<lambda>scope. scope\<lparr>gs_warnings := []\<rparr>)) (\<lambda>_.
       recordGatewayWarnings env (gs_warnings scope))))"

definition gatewayOwnedMetadataChanged :: "finalizerUtil \<Rightarrow> Config \<Rightarrow> ObjectMeta \<Rightarrow> ObjectMeta \<Rightarrow> bool" where
  "gatewayOwnedMetadataChanged k c left right \<longleftrightarrow>
     ContainsFinalizer k left (GatewayFinalizer c) \<noteq> ContainsFinalizer k right (GatewayFinalizer c) \<or>
     list_ex (\<lambda>key. annotation left key \<noteq> annotation right key) (gatewayBindingKeys c)"

definition copyAnnotation :: "ObjectMeta \<Rightarrow> string \<Rightarrow> ObjectMeta \<Rightarrow> ObjectMeta" where
  "copyAnnotation desired key m = m\<lparr>om_Annotations := (om_Annotations m)(key := (if annotation desired key \<noteq> [] then Some (annotation desired key) else None))\<rparr>"

definition copyGatewayOwnedMetadata :: "finalizerUtil \<Rightarrow> Config \<Rightarrow> ObjectMeta \<Rightarrow> ObjectMeta \<Rightarrow> ObjectMeta" where
  "copyGatewayOwnedMetadata k c target desired =
     fold (copyAnnotation desired) (gatewayBindingKeys c)
       (if ContainsFinalizer k desired (GatewayFinalizer c) then AddFinalizer k target (GatewayFinalizer c)
        else RemoveFinalizer k target (GatewayFinalizer c))"

definition patchGatewayMetadata :: "'w gatewayEnv \<Rightarrow> ('w, unit) gc" where
  "patchGatewayMetadata env = bindA theScope (\<lambda>scope.
     if \<not> gatewayOwnedMetadataChanged (gv_finalizers env) (gv_Config env) (gw_Meta (gs_original scope)) (gw_Meta (gs_gateway scope)) then returnA ()
     else let base = gs_original scope;
              target = base\<lparr>gw_Meta := copyGatewayOwnedMetadata (gv_finalizers env) (gv_Config env) (gw_Meta base) (gw_Meta (gs_gateway scope))\<rparr> in
       bindA (failingAs WrappedError (patchMetadata env base target)) (\<lambda>patched.
       changeGatewayScope (\<lambda>scope. scope\<lparr>gs_gateway := withStatus patched (gs_gateway scope), gs_original := patched\<rparr>)))"

section \<open>The mutation snapshot\<close>

datatype gatewayBindingRequirement = gatewayBindingOptional | gatewayBindingRequired

record gatewayMutationSnapshot =
  mu_gateway :: Gateway
  mu_gatewayClass :: GatewayClass
  mu_listener :: GatewayListener
  mu_binding :: gatewayBindingRequirement

definition hasGatewayFinalizer :: "'w gatewayEnv \<Rightarrow> Gateway \<Rightarrow> bool" where
  "hasGatewayFinalizer env gateway = ContainsFinalizer (gv_finalizers env) (gw_Meta gateway) (GatewayFinalizer (gv_Config env))"

definition validBinding :: "'w gatewayEnv \<Rightarrow> Gateway \<Rightarrow> bool" where
  "validBinding env gateway = isOk (ValidateGatewayBinding (gv_finalizers env) (gv_Config env) (gw_Meta gateway))"

definition storedListenerPort :: "'w gatewayEnv \<Rightarrow> Gateway \<Rightarrow> string" where
  "storedListenerPort env gateway = annotation (gw_Meta gateway) (GatewayListenerPortAnnotation (gv_Config env))"

definition observeGatewayMutationSnapshot :: "'w gatewayEnv \<Rightarrow> Gateway \<Rightarrow> gatewayBindingRequirement \<Rightarrow> string \<Rightarrow> ('w, gatewayMutationSnapshot) gc" where
  "observeGatewayMutationSnapshot env expected binding expectedListenerPort = (let c = gv_Config env in
     bindA (guardA (gv_hasAPIReader env) APIReaderRequiredError) (\<lambda>_.
     bindA (failingAs gatewayChangedBy (getGateway env True expected)) (\<lambda>gateway.
     bindA (guardA (\<not> (om_UID (gw_Meta gateway) \<noteq> om_UID (gw_Meta expected) \<or> om_Generation (gw_Meta gateway) \<noteq> om_Generation (gw_Meta expected) \<or>
       om_Deleting (gw_Meta gateway))) errGatewayChanged) (\<lambda>_.
     bindA (failingAs gatewayChangedBy (getClass env True (gw_GatewayClassName gateway))) (\<lambda>gatewayClass.
     bindA (guardA (\<not> (gc_ControllerName gatewayClass \<noteq> cf_ControllerName c \<or> gc_ParametersRef gatewayClass)) errGatewayChanged) (\<lambda>_.
     bindA (guardA (GatewayClassSupportsInstalledVersion (gv_conditions env) gatewayClass) UnsupportedVersionError) (\<lambda>_.
     bindA (guardA (\<not> (binding = gatewayBindingRequired \<and> \<not> hasGatewayFinalizer env gateway)) errGatewayChanged) (\<lambda>_.
     bindA (guardA (validBinding env gateway) (JoinedErrors [errGatewayChanged, PlainError])) (\<lambda>_.
     bindA (liftA (mapErr (\<lambda>_. errGatewayChanged) (ValidateGateway gateway))) (\<lambda>listener.
     let listenerPort = itoaInt (gl_Port listener) in
     bindA (guardA (\<not> (expectedListenerPort \<noteq> [] \<and> listenerPort \<noteq> expectedListenerPort)) errGatewayChanged) (\<lambda>_.
     bindA (guardA (\<not> (binding = gatewayBindingRequired \<and> storedListenerPort env gateway \<noteq> listenerPort)) errGatewayChanged) (\<lambda>_.
     returnA \<lparr>mu_gateway = gateway, mu_gatewayClass = gatewayClass, mu_listener = listener, mu_binding = binding\<rparr>))))))))))))"

definition sealGatewayMutationSnapshot :: "'w gatewayEnv \<Rightarrow> gatewayMutationSnapshot \<Rightarrow> ('w, unit) gc" where
  "sealGatewayMutationSnapshot env snapshot = (let c = gv_Config env; expected = mu_gateway snapshot in
     bindA (validateVersion env) (\<lambda>_.
     bindA (failingAs gatewayChangedBy (getGateway env True expected)) (\<lambda>gateway.
     bindA (guardA (\<not> (om_UID (gw_Meta gateway) \<noteq> om_UID (gw_Meta expected) \<or> om_Generation (gw_Meta gateway) \<noteq> om_Generation (gw_Meta expected) \<or>
       om_Deleting (gw_Meta gateway) \<or> \<not> GatewayBindingMetadataEqual (gv_finalizers env) c (gw_Meta gateway) (gw_Meta expected))) errGatewayChanged) (\<lambda>_.
     bindA (guardA (\<not> (mu_binding snapshot = gatewayBindingRequired \<and>
       (\<not> hasGatewayFinalizer env gateway \<or> list_ex (\<lambda>key. annotation (gw_Meta gateway) key = []) (gatewayBindingKeys c) \<or> \<not> validBinding env gateway)))
       errGatewayChanged) (\<lambda>_.
     bindA (guardA (gw_GatewayClassName gateway = gc_Name (mu_gatewayClass snapshot)) errGatewayChanged) (\<lambda>_.
     bindA (failingAs gatewayChangedBy (getClass env True (gc_Name (mu_gatewayClass snapshot)))) (\<lambda>gatewayClass.
     bindA (guardA (\<not> (gc_ControllerName gatewayClass \<noteq> cf_ControllerName c \<or> gc_ParametersRef gatewayClass)) errGatewayChanged) (\<lambda>_.
     guardA (GatewayClassSupportsInstalledVersion (gv_conditions env) gatewayClass) UnsupportedVersionError))))))))"

section \<open>Binding a Gateway\<close>

definition bindGateway :: "'w gatewayEnv \<Rightarrow> Gateway \<Rightarrow> string \<Rightarrow> ('w, unit) gc" where
  "bindGateway env expected desiredListenerPort =
     bindA (observeGatewayMutationSnapshot env expected gatewayBindingOptional desiredListenerPort) (\<lambda>snapshot.
     let base = mu_gateway snapshot;
         gateway = base\<lparr>gw_Meta := applyGatewayBinding (gv_finalizers env) (gv_Config env) desiredListenerPort (gw_Meta base)\<rparr> in
     if gw_Meta base = gw_Meta gateway then returnA ()
     else bindA (sealGatewayMutationSnapshot env snapshot) (\<lambda>_.
       bindA (failingAs WrappedError (patchMetadata env base gateway)) (\<lambda>_. returnA ())))"

section \<open>The graph of a Gateway\<close>

definition openStackResourceNamePrefix :: string where "openStackResourceNamePrefix = ''gateway-api-openstack''"

definition resourceDisplayName :: "string list \<Rightarrow> string" where
  "resourceDisplayName parts = (let name = Join (openStackResourceNamePrefix # parts) ''-'' in if length name > 200 then take 200 name else name)"

definition gatewaySpec :: "Config \<Rightarrow> Gateway \<Rightarrow> GatewayListener \<Rightarrow> GatewaySpec" where
  "gatewaySpec c gateway listener =
     \<lparr>gs_Identity = GatewayIdentity c (gw_Meta gateway), gs_Provider = cf_Provider c, gs_VIPSubnetID = cf_VIPSubnetID c,
      gs_ExternalNetworkID = cf_ExternalNetworkID c,
      gs_ListenerName = resourceDisplayName [om_Namespace (gw_Meta gateway), om_Name (gw_Meta gateway), gl_Name listener],
      gs_ListenerPort = gl_Port listener\<rparr>"

definition ensureGateway :: "'w gatewayEnv \<Rightarrow> Gateway \<Rightarrow> ('w, GatewayResult) gc" where
  "ensureGateway env expected =
     bindA (guardA (gv_hasAPIReader env) APIReaderRequiredError) (\<lambda>_.
     withLock env (om_UID (gw_Meta expected)) (
       bindA (observeGatewayMutationSnapshot env expected gatewayBindingRequired []) (\<lambda>snapshot.
       let desired = gatewaySpec (gv_Config env) (mu_gateway snapshot) (mu_listener snapshot) in
       bindA (sealGatewayMutationSnapshot env snapshot) (\<lambda>_.
       bindA (callEnsureGateway env desired) (\<lambda>result.
       bindA (validOutcome (gres_Outcome result)) (\<lambda>_. returnA result))))))"

section \<open>The cleanup snapshot\<close>

datatype gatewayCleanupDisposition = gatewayCleanupDelete | gatewayCleanupHold

record gatewayCleanupSnapshot =
  cu_identity :: Identity
  cu_disposition :: gatewayCleanupDisposition

definition listenerPortChanged :: "'w gatewayEnv \<Rightarrow> Gateway \<Rightarrow> GatewayListener \<Rightarrow> bool" where
  "listenerPortChanged env gateway listener \<longleftrightarrow> storedListenerPort env gateway \<noteq> [] \<and> storedListenerPort env gateway \<noteq> itoaInt (gl_Port listener)"

text \<open>Whether a Gateway of a class of this controller is still wanted as it is.\<close>

definition gatewayStillDesired :: "'w gatewayEnv \<Rightarrow> Gateway \<Rightarrow> GatewayClass \<Rightarrow> bool" where
  "gatewayStillDesired env gateway gatewayClass =
     (if gc_ParametersRef gatewayClass then False
      else case ValidateGateway gateway of
         Inl _ \<Rightarrow> False
       | Inr listener \<Rightarrow> \<not> listenerPortChanged env gateway listener)"

definition judgeCleanup :: "'w gatewayEnv \<Rightarrow> Gateway \<Rightarrow> rcError + GatewayClass \<Rightarrow> ('w, gatewayCleanupDisposition) gc" where
  "judgeCleanup env gateway r = (case r of
      Inl e \<Rightarrow> if IsNotFoundError e then bindA (validateVersion env) (\<lambda>_. returnA gatewayCleanupDelete) else throwA (WrappedError e)
    | Inr gatewayClass \<Rightarrow>
        if gc_ControllerName gatewayClass \<noteq> cf_ControllerName (gv_Config env) then returnA gatewayCleanupDelete
        else bindA (guardA (GatewayClassSupportsInstalledVersion (gv_conditions env) gatewayClass) UnsupportedVersionError) (\<lambda>_.
          bindA (validateVersion env) (\<lambda>_.
          returnA (if gatewayStillDesired env gateway gatewayClass then gatewayCleanupHold else gatewayCleanupDelete))))"

definition observeGatewayCleanupSnapshot :: "'w gatewayEnv \<Rightarrow> Gateway \<Rightarrow> ('w, gatewayCleanupSnapshot) gc" where
  "observeGatewayCleanupSnapshot env expected = (let m = gw_Meta expected in
     bindA (guardA (gv_hasAPIReader env) APIReaderRequiredError) (\<lambda>_.
     bindA (failingAs gatewayChangedBy (getGateway env True expected)) (\<lambda>gateway.
     bindA (guardA (\<not> (om_UID (gw_Meta gateway) \<noteq> om_UID m \<or> om_Generation (gw_Meta gateway) \<noteq> om_Generation m \<or>
       om_ResourceVersion (gw_Meta gateway) \<noteq> om_ResourceVersion m \<or> om_Deleting (gw_Meta gateway) \<noteq> om_Deleting m)) errGatewayChanged) (\<lambda>_.
     bindA (guardA (validBinding env gateway) (JoinedErrors [errGatewayChanged, PlainError])) (\<lambda>_.
     bindA (if om_Deleting (gw_Meta gateway) then returnA gatewayCleanupDelete
       else bindA (tryA (getClass env True (gw_GatewayClassName gateway))) (judgeCleanup env gateway)) (\<lambda>disposition.
     returnA \<lparr>cu_identity = StoredGatewayIdentity (gv_Config env) (gw_Meta gateway), cu_disposition = disposition\<rparr>))))))"

definition deleteGateway :: "'w gatewayEnv \<Rightarrow> Gateway \<Rightarrow> ('w, Outcome) gc" where
  "deleteGateway env expected =
     bindA (guardA (gv_hasAPIReader env) APIReaderRequiredError) (\<lambda>_.
     withLock env (om_UID (gw_Meta expected)) (
       bindA (observeGatewayCleanupSnapshot env expected) (\<lambda>snapshot.
       bindA (guardA (cu_disposition snapshot = gatewayCleanupDelete) errGatewayChanged) (\<lambda>_.
       callDeleteGateway env (cu_identity snapshot)))))"

section \<open>Failures of the provider\<close>

definition setGatewayPatchCause :: "ProviderFailurePolicy \<Rightarrow> go_error \<Rightarrow> ('w, unit) gc" where
  "setGatewayPatchCause policy cause = (if fp_ReturnError policy then returnA ()
     else changeGatewayScope (\<lambda>scope. scope\<lparr>gs_patchCause := Some (SafeProviderError (SafeProviderReconcileError policy cause))\<rparr>))"

definition queueIf :: "bool \<Rightarrow> ProviderFailurePolicy \<Rightarrow> string \<Rightarrow> ('w, unit) gc" where
  "queueIf transitioned policy operation = (if transitioned then queueGatewayWarning policy operation else returnA ())"

definition countAttachedRoutes :: "'w gatewayEnv \<Rightarrow> GatewayListener \<Rightarrow> ('w, int) gc" where
  "countAttachedRoutes env listener = bindA theScope (\<lambda>scope. bindA (readCluster env False) (\<lambda>reader.
     liftA (mapErr readErrorOf (attachedRouteCount (gv_conditions env) (gv_Config env) reader (gs_gateway scope) listener))))"

definition handleGatewayProviderFailure :: "'w gatewayEnv \<Rightarrow> GatewayListener \<Rightarrow> rcError \<Rightarrow> ('w, ctrlResult) gc" where
  "handleGatewayProviderFailure env listener providerErr = (case failurePolicyFor providerErr of
      None \<Rightarrow> throwA providerErr
    | Some (cause, policy) \<Rightarrow>
        bindA theScope (\<lambda>scope.
        let u = gv_conditions env; gateway = gs_gateway scope;
            (gatewayReason, listenerReason) = gatewayProviderFailureReasons (fp_Category policy) in
        bindA (failingAs (\<lambda>err. JoinedErrors [SafeProviderError (SafeProviderReconcileError policy cause), err]) (countAttachedRoutes env listener)) (\<lambda>attachedRoutes.
        bindA (changeGateway (setGatewayProvisioningStatus u listener attachedRoutes (fp_ConditionStatus policy) gatewayReason listenerReason (fp_Message policy)
          (fp_AdvancesObservedGeneration policy))) (\<lambda>_.
        bindA (queueIf (failureTransitions u gateway policy) policy ''EnsureGateway'') (\<lambda>_.
        bindA (setGatewayPatchCause policy cause) (\<lambda>_.
        resultOf (ProviderFailureResult policy cause (om_UID (gw_Meta gateway)))))))))"

definition handleGatewayDeleteFailure :: "'w gatewayEnv \<Rightarrow> rcError \<Rightarrow> ('w, ctrlResult) gc" where
  "handleGatewayDeleteFailure env providerErr = (case failurePolicyFor providerErr of
      None \<Rightarrow> throwA providerErr
    | Some (cause, policy) \<Rightarrow>
        let u = gv_conditions env; policy = ProviderCleanupFailurePolicy policy ''Gateway'';
            (gatewayReason, listenerReason) = gatewayProviderFailureReasons (fp_Category policy) in
        bindA theScope (\<lambda>scope.
        bindA (changeGateway (setGatewayCleanupFailure u policy gatewayReason listenerReason)) (\<lambda>_.
        bindA (queueIf (failureTransitions u (gs_gateway scope) policy) policy ''DeleteGateway'') (\<lambda>_.
        bindA (setGatewayPatchCause policy cause) (\<lambda>_.
        resultOf (ProviderFinalizationFailureResult policy cause (om_UID (gw_Meta (gs_gateway scope)))))))))"

section \<open>An unsupported Gateway API version\<close>

definition gatewayStillManaged :: "'w gatewayEnv \<Rightarrow> Gateway \<Rightarrow> ('w, (Gateway \<times> GatewayClass) option) gc" where
  "gatewayStillManaged env expected =
     bindA (guardA (gv_hasAPIReader env) APIReaderRequiredError) (\<lambda>_.
     bindA (failingAs WrappedError (ignoringNotFound (getGateway env True expected))) (\<lambda>found. case found of
        None \<Rightarrow> returnA None
      | Some gateway \<Rightarrow>
          if om_UID (gw_Meta gateway) \<noteq> om_UID (gw_Meta expected) \<or> om_Generation (gw_Meta gateway) \<noteq> om_Generation (gw_Meta expected) \<or>
             om_Deleting (gw_Meta gateway) then returnA None
          else bindA (failingAs WrappedError (ignoringNotFound (getClass env True (gw_GatewayClassName gateway)))) (\<lambda>found. case found of
             None \<Rightarrow> returnA None
           | Some gatewayClass \<Rightarrow>
               returnA (if gc_ControllerName gatewayClass \<noteq> cf_ControllerName (gv_Config env) then None else Some (gateway, gatewayClass)))))"

text \<open>Whether the installed version must be checked again: the class supports it but the installation does not.\<close>

definition recheckGatewayVersion :: "'w gatewayEnv \<Rightarrow> GatewayClass \<Rightarrow> ('w, bool) gc" where
  "recheckGatewayVersion env gatewayClass =
     (if \<not> GatewayClassSupportsInstalledVersion (gv_conditions env) gatewayClass then returnA False
      else bindA (tryA (validateVersion env)) (\<lambda>r. case r of
         Inr _ \<Rightarrow> throwA errGatewayChanged
       | Inl e \<Rightarrow> if isError e UnsupportedVersionError then returnA True else throwA e))"

definition setGatewayUnsupportedVersion :: "'w gatewayEnv \<Rightarrow> ('w, ctrlResult) gc" where
  "setGatewayUnsupportedVersion env = bindA theScope (\<lambda>scope.
     bindA (gatewayStillManaged env (gs_gateway scope)) (\<lambda>managed. case managed of
        None \<Rightarrow> bindA skipGatewayPatch (\<lambda>_. returnA noResult)
      | Some (gateway, gatewayClass) \<Rightarrow>
          bindA (refresh gateway) (\<lambda>_.
          bindA (recheckGatewayVersion env gatewayClass) (\<lambda>recheck.
          bindA (changeGateway (unsupportedVersionGatewayStatus (gv_conditions env))) (\<lambda>_.
          returnA (if recheck then requeueAfter (GatewayAPIVersionRequeueAfter (om_UID (gw_Meta gateway))) else noResult))))))"

section \<open>Cleaning up\<close>

definition removeGatewayBinding :: "finalizerUtil \<Rightarrow> Config \<Rightarrow> Gateway \<Rightarrow> Gateway" where
  "removeGatewayBinding k c gateway = (let m = RemoveFinalizer k (gw_Meta gateway) (GatewayFinalizer c) in
     gateway\<lparr>gw_Meta := m\<lparr>om_Annotations := (om_Annotations m)(GatewayListenerPortAnnotation c := None,
       GatewayClusterIDAnnotation c := None, GatewayProjectIDAnnotation c := None)\<rparr>\<rparr>)"

definition releaseGateway :: "'w gatewayEnv \<Rightarrow> ('w, ctrlResult) gc" where
  "releaseGateway env =
     bindA (changeGateway (removeGatewayBinding (gv_finalizers env) (gv_Config env))) (\<lambda>_.
     bindA (tryA (patchGatewayMetadata env)) (\<lambda>r.
     bindA (case r of Inr _ \<Rightarrow> returnA ()
       | Inl e \<Rightarrow> if IsNotFoundError e then skipGatewayPatch else throwA (WrappedError e)) (\<lambda>_.
     bindA theScope (\<lambda>scope.
     bindA (if om_Deleting (gw_Meta (gs_gateway scope)) then skipGatewayPatch else returnA ()) (\<lambda>_. returnA noResult)))))"

definition bindingTraces :: "'w gatewayEnv \<Rightarrow> Gateway \<Rightarrow> bool" where
  "bindingTraces env gateway \<longleftrightarrow> hasGatewayFinalizer env gateway \<or>
     list_ex (\<lambda>key. om_Annotations (gw_Meta gateway) key \<noteq> None) (gatewayBindingKeys (gv_Config env))"

definition cleanupBoundGateway :: "'w gatewayEnv \<Rightarrow> ('w, ctrlResult) gc" where
  "cleanupBoundGateway env = bindA theScope (\<lambda>scope.
     bindA (guardA (validBinding env (gs_gateway scope)) PlainError) (\<lambda>_.
     bindA (tryA (deleteGateway env (gs_gateway scope))) (\<lambda>r. case r of
        Inl err \<Rightarrow>
          if isError err UnsupportedVersionError then setGatewayUnsupportedVersion env
          else if isError err errGatewayChanged then throwA err
          else handleGatewayDeleteFailure env (WrappedError err)
      | Inr outcome \<Rightarrow>
          bindA (validOutcome outcome) (\<lambda>_.
          if o_State outcome = OutcomeProgressing
          then returnA (requeueAfter (ProviderProgressRequeueAfter outcome (om_UID (gw_Meta (gs_gateway scope)))))
          else releaseGateway env))))"

definition cleanupGateway :: "'w gatewayEnv \<Rightarrow> ('w, ctrlResult) gc" where
  "cleanupGateway env = bindA theScope (\<lambda>scope. let expected = gs_gateway scope in
     bindA (tryA (getGateway env False expected)) (\<lambda>r. case r of
        Inl e \<Rightarrow> if IsNotFoundError e then bindA skipGatewayPatch (\<lambda>_. returnA noResult) else throwA e
      | Inr gateway \<Rightarrow>
          if om_ResourceVersion (gw_Meta expected) \<noteq> [] \<and> om_ResourceVersion (gw_Meta gateway) \<noteq> om_ResourceVersion (gw_Meta expected)
          then throwA ConflictError
          else bindA (refresh gateway) (\<lambda>_.
            bindA theScope (\<lambda>scope.
            if \<not> bindingTraces env (gs_gateway scope) then returnA noResult else cleanupBoundGateway env))))"

section \<open>Phases\<close>

datatype gatewayReconcilePhase = gatewayPhaseIgnore | gatewayPhaseCleanupUnmanaged | gatewayPhaseUnsupportedVersion | gatewayPhaseInvalidBinding |
  gatewayPhaseUnsupportedParameters | gatewayPhaseInvalidSpec | gatewayPhaseReplaceGraph | gatewayPhaseBind | gatewayPhaseEnsure

record gatewayPhaseDecision =
  gd_phase :: gatewayReconcilePhase
  gd_listener :: "GatewayListener option"
  gd_listenerPort :: string
  gd_validation :: "gatewayValidationError option"

definition phaseDecision :: "gatewayReconcilePhase \<Rightarrow> gatewayPhaseDecision" where
  "phaseDecision phase = \<lparr>gd_phase = phase, gd_listener = None, gd_listenerPort = [], gd_validation = None\<rparr>"

definition gatewayBindingComplete :: "'w gatewayEnv \<Rightarrow> Gateway \<Rightarrow> bool" where
  "gatewayBindingComplete env gateway \<longleftrightarrow> hasGatewayFinalizer env gateway \<and>
     list_all (\<lambda>key. annotation (gw_Meta gateway) key \<noteq> []) (gatewayBindingKeys (gv_Config env))"

definition classOf :: "gatewayScope \<Rightarrow> (GatewayClass \<Rightarrow> bool) \<Rightarrow> bool" where
  "classOf scope P = (case gs_gatewayClass scope of None \<Rightarrow> False | Some gatewayClass \<Rightarrow> P gatewayClass)"

definition decideGatewayPhase :: "'w gatewayEnv \<Rightarrow> gatewayScope \<Rightarrow> gatewayPhaseDecision" where
  "decideGatewayPhase env scope = (let gateway = gs_gateway scope in
     if \<not> gs_managed scope then phaseDecision (if hasControllerBinding env gateway then gatewayPhaseCleanupUnmanaged else gatewayPhaseIgnore)
     else if classOf scope (\<lambda>gatewayClass. \<not> GatewayClassSupportsInstalledVersion (gv_conditions env) gatewayClass)
     then phaseDecision gatewayPhaseUnsupportedVersion
     else if \<not> validBinding env gateway
     then (phaseDecision gatewayPhaseInvalidBinding)\<lparr>gd_validation := Some (validationError (gv_bindingText env (gw_Meta gateway)) False None)\<rparr>
     else if classOf scope gc_ParametersRef then phaseDecision gatewayPhaseUnsupportedParameters
     else case ValidateGateway gateway of
        Inl err \<Rightarrow> (phaseDecision gatewayPhaseInvalidSpec)\<lparr>gd_validation := Some err\<rparr>
      | Inr listener \<Rightarrow>
          (phaseDecision (if listenerPortChanged env gateway listener then gatewayPhaseReplaceGraph
             else if \<not> gatewayBindingComplete env gateway then gatewayPhaseBind else gatewayPhaseEnsure))
          \<lparr>gd_listener := Some listener, gd_listenerPort := itoaInt (gl_Port listener)\<rparr>)"

section \<open>Reconciling\<close>

definition cleanupGatewayAfterStatusCheckpoint :: "'w gatewayEnv \<Rightarrow> ('w, ctrlResult) gc" where
  "cleanupGatewayAfterStatusCheckpoint env = bindA theScope (\<lambda>scope. if statusChanged scope then returnA requeueNow else cleanupGateway env)"

definition reconcileRejectedGateway :: "'w gatewayEnv \<Rightarrow> gatewayPhaseDecision \<Rightarrow> ('w, ctrlResult) gc" where
  "reconcileRejectedGateway env decision = (let u = gv_conditions env in
     bindA (case gd_phase decision of
        gatewayPhaseUnsupportedParameters \<Rightarrow>
          changeGateway (setGatewayFailureReason u ''InvalidParameters'' ''GatewayClass parametersRef is not supported in Phase 1'')
      | gatewayPhaseInvalidSpec \<Rightarrow> changeGateway (setGatewayFailure u (the (gd_validation decision)))
      | _ \<Rightarrow> throwA PlainError) (\<lambda>_.
     cleanupGatewayAfterStatusCheckpoint env))"

definition reconcileGatewayReplacement :: "'w gatewayEnv \<Rightarrow> GatewayListener \<Rightarrow> ('w, ctrlResult) gc" where
  "reconcileGatewayReplacement env listener =
     bindA (countAttachedRoutes env listener) (\<lambda>attachedRoutes.
     bindA (changeGateway (setGatewayProgressing (gv_conditions env) listener attachedRoutes
       ''Listener port changed; replacing the controller-owned OpenStack resource graph'')) (\<lambda>_.
     cleanupGatewayAfterStatusCheckpoint env))"

definition reconcileGatewayBinding :: "'w gatewayEnv \<Rightarrow> string \<Rightarrow> ('w, ctrlResult) gc" where
  "reconcileGatewayBinding env listenerPort = bindA theScope (\<lambda>scope.
     bindA (tryA (bindGateway env (gs_gateway scope) listenerPort)) (\<lambda>r. case r of
        Inl err \<Rightarrow> if isError err UnsupportedVersionError then setGatewayUnsupportedVersion env else throwA err
      | Inr _ \<Rightarrow> returnA requeueNow))"

definition publishGatewayResult :: "'w gatewayEnv \<Rightarrow> GatewayListener \<Rightarrow> GatewayResult \<Rightarrow> ('w, ctrlResult) gc" where
  "publishGatewayResult env listener result = (let u = gv_conditions env; outcome = gres_Outcome result in
     bindA theScope (\<lambda>scope. let uid = om_UID (gw_Meta (gs_gateway scope)) in
     bindA (countAttachedRoutes env listener) (\<lambda>attachedRoutes.
     if o_State outcome = OutcomeProgressing then
       bindA (changeGateway (setGatewayProgressing u listener attachedRoutes
         (ProviderProgressMessage outcome ''Octavia resources for the Gateway are still progressing''))) (\<lambda>_.
       returnA (requeueAfter (ProviderProgressRequeueAfter outcome uid)))
     else
       bindA (changeGateway (setGatewayProgrammed u listener attachedRoutes (gres_State result))) (\<lambda>_.
       returnA (requeueAfter (OpenStackResyncAfter (cf_OpenStackResyncInterval (gv_Config env)) uid))))))"

definition reconcileGatewayGraph :: "'w gatewayEnv \<Rightarrow> GatewayListener \<Rightarrow> ('w, ctrlResult) gc" where
  "reconcileGatewayGraph env listener = bindA theScope (\<lambda>scope.
     bindA (tryA (ensureGateway env (gs_gateway scope))) (\<lambda>r. case r of
        Inl err \<Rightarrow>
          if isError err UnsupportedVersionError then setGatewayUnsupportedVersion env
          else if isError err errGatewayChanged then throwA err
          else handleGatewayProviderFailure env listener err
      | Inr result \<Rightarrow> publishGatewayResult env listener result))"

definition reconcileNormal :: "'w gatewayEnv \<Rightarrow> ('w, ctrlResult) gc" where
  "reconcileNormal env = bindA theScope (\<lambda>scope. let decision = decideGatewayPhase env scope; listener = the (gd_listener decision) in
     case gd_phase decision of
        gatewayPhaseIgnore \<Rightarrow> returnA noResult
      | gatewayPhaseCleanupUnmanaged \<Rightarrow> cleanupGateway env
      | gatewayPhaseUnsupportedVersion \<Rightarrow> setGatewayUnsupportedVersion env
      | gatewayPhaseInvalidBinding \<Rightarrow>
          bindA (changeGateway (setGatewayFailureReason (gv_conditions env) ''InvalidParameters'' (ve_message (the (gd_validation decision))))) (\<lambda>_.
          returnA noResult)
      | gatewayPhaseUnsupportedParameters \<Rightarrow> reconcileRejectedGateway env decision
      | gatewayPhaseInvalidSpec \<Rightarrow> reconcileRejectedGateway env decision
      | gatewayPhaseReplaceGraph \<Rightarrow> reconcileGatewayReplacement env listener
      | gatewayPhaseBind \<Rightarrow> reconcileGatewayBinding env (gd_listenerPort decision)
      | gatewayPhaseEnsure \<Rightarrow> reconcileGatewayGraph env listener)"

definition reconcileDelete :: "'w gatewayEnv \<Rightarrow> ('w, ctrlResult) gc" where
  "reconcileDelete env = bindA (cleanupGateway env) (\<lambda>r. returnA (if cr_RequeueAfter r > 0 then r else noResult))"

text \<open>The deferred patch of the status replaces the result when it fails.\<close>

definition withGatewayPatch :: "'w gatewayEnv \<Rightarrow> ('w, ctrlResult) gc \<Rightarrow> ('w, ctrlResult) gc" where
  "withGatewayPatch env m = bindA (tryA m) (\<lambda>r.
     bindA theScope (\<lambda>scope.
     bindA (tryA (patchGateway env)) (\<lambda>patched. case patched of
        Inl err \<Rightarrow> throwA (JoinedErrors ((case r of Inl e \<Rightarrow> [e] | Inr _ \<Rightarrow> []) @
          (case gs_patchCause scope of None \<Rightarrow> [] | Some cause \<Rightarrow> [cause]) @ [err]))
      | Inr _ \<Rightarrow> liftA r)))"

definition Reconcile :: "'w gatewayEnv \<Rightarrow> string \<Rightarrow> string \<Rightarrow> ('w, ctrlResult) gc" where
  "Reconcile env namespace name = bindA (newGatewayScope env namespace name) (\<lambda>responsible. case responsible of
      None \<Rightarrow> returnA noResult
    | Some scope \<Rightarrow>
        bindA (changeGatewayScope (\<lambda>_. scope)) (\<lambda>_.
        withGatewayPatch env (if om_Deleting (gw_Meta (gs_gateway scope)) then reconcileDelete env else reconcileNormal env)))"

end
