(* ===== verification/GatewayLaw.thy ===== *)
theory GatewayLaw
  imports GatewayReconciler ReconcilerLogs
begin

text \<open>
  What the Gateway reconciler promises, whatever the API server, the provider and other controllers do. The provider is asked
  to create or change resources only under the graph lock and after two live reads under that lock showed the Gateway bound and
  accepted; it is asked to delete them only when a live read showed that the Gateway is deleted or no longer wanted; the finalizer is given
  up only after the provider reported that the resources are gone; and a Gateway is reported as programmed only when the provider
  reported it ready, with its address.
\<close>

section \<open>The law\<close>

definition heldSince :: "string \<Rightarrow> gatewayEvent list \<Rightarrow> gatewayEvent list \<Rightarrow> bool" where
  "heldSince uid log since \<longleftrightarrow> (\<exists>before_lock. log = before_lock @ AcquiredLock uid # since) \<and> ReleasedLock uid \<notin> set since"

definition sawGateway :: "gatewayEvent list \<Rightarrow> Gateway \<Rightarrow> bool" where
  "sawGateway es gateway \<longleftrightarrow> (\<exists>reader namespace name. ReadCluster True reader \<in> set es \<and> rd_Gateway reader namespace name = Inr gateway)"

definition sawClass :: "gatewayEvent list \<Rightarrow> string \<Rightarrow> GatewayClass \<Rightarrow> bool" where
  "sawClass es name gatewayClass \<longleftrightarrow> (\<exists>reader. ReadCluster True reader \<in> set es \<and> rd_GatewayClass reader name = Inr gatewayClass)"

definition sawNoClass :: "gatewayEvent list \<Rightarrow> string \<Rightarrow> bool" where
  "sawNoClass es name \<longleftrightarrow> (\<exists>reader. ReadCluster True reader \<in> set es \<and> rd_GatewayClass reader name = Inl NotFound)"

definition boundGateway :: "'w gatewayEnv \<Rightarrow> Gateway \<Rightarrow> bool" where
  "boundGateway env gateway \<longleftrightarrow> \<not> om_Deleting (gw_Meta gateway) \<and> hasGatewayFinalizer env gateway \<and> validBinding env gateway"

text \<open>The second read agrees with the first in everything that authorises the call.\<close>

definition unchanged :: "'w gatewayEnv \<Rightarrow> Gateway \<Rightarrow> Gateway \<Rightarrow> bool" where
  "unchanged env gateway again \<longleftrightarrow> om_UID (gw_Meta again) = om_UID (gw_Meta gateway) \<and> om_Generation (gw_Meta again) = om_Generation (gw_Meta gateway) \<and>
     \<not> om_Deleting (gw_Meta again) \<and> GatewayBindingMetadataEqual (gv_finalizers env) (gv_Config env) (gw_Meta again) (gw_Meta gateway)"

definition ownClass :: "'w gatewayEnv \<Rightarrow> GatewayClass \<Rightarrow> bool" where
  "ownClass env gatewayClass \<longleftrightarrow> gc_ControllerName gatewayClass = cf_ControllerName (gv_Config env) \<and> \<not> gc_ParametersRef gatewayClass"

definition mayEnsure :: "'w gatewayEnv \<Rightarrow> gatewayEvent list \<Rightarrow> GatewaySpec \<Rightarrow> bool" where
  "mayEnsure env log spec \<longleftrightarrow> (\<exists>es fs gateway listener gatewayClass again.
     heldSince (GatewayUID (gs_Identity spec)) log (es @ fs) \<and>
     sawGateway es gateway \<and> boundGateway env gateway \<and> ValidateGateway gateway = Inr listener \<and>
     spec = gatewaySpec (gv_Config env) gateway listener \<and> storedListenerPort env gateway = itoaInt (gl_Port listener) \<and>
     sawClass es (gw_GatewayClassName gateway) gatewayClass \<and> ownClass env gatewayClass \<and>
     sawGateway fs again \<and> unchanged env gateway again)"

definition unwanted :: "'w gatewayEnv \<Rightarrow> gatewayEvent list \<Rightarrow> Gateway \<Rightarrow> bool" where
  "unwanted env es gateway \<longleftrightarrow> om_Deleting (gw_Meta gateway) \<or> sawNoClass es (gw_GatewayClassName gateway) \<or>
     (\<exists>gatewayClass. sawClass es (gw_GatewayClassName gateway) gatewayClass \<and>
        (gc_ControllerName gatewayClass \<noteq> cf_ControllerName (gv_Config env) \<or> \<not> gatewayStillDesired env gateway gatewayClass))"

definition mayDelete :: "'w gatewayEnv \<Rightarrow> gatewayEvent list \<Rightarrow> Identity \<Rightarrow> bool" where
  "mayDelete env log i \<longleftrightarrow> (\<exists>since gateway. heldSince (GatewayUID i) log since \<and> sawGateway since gateway \<and> validBinding env gateway \<and>
     StoredGatewayIdentity (gv_Config env) (gw_Meta gateway) = i \<and> unwanted env since gateway)"

definition gatewayGone :: "gatewayEvent list \<Rightarrow> Identity \<Rightarrow> bool" where
  "gatewayGone log i \<longleftrightarrow> (\<exists>outcome. CalledDeleteGateway i (Inr outcome) \<in> set log \<and> o_State outcome = OutcomeReady)"

definition mayPatch :: "'w gatewayEnv \<Rightarrow> gatewayEvent list \<Rightarrow> Gateway \<Rightarrow> Gateway \<Rightarrow> bool" where
  "mayPatch env log base desired \<longleftrightarrow> hasGatewayFinalizer env base \<longrightarrow>
     hasGatewayFinalizer env desired \<and>
       StoredGatewayIdentity (gv_Config env) (gw_Meta desired) = StoredGatewayIdentity (gv_Config env) (gw_Meta base) \<or>
     gatewayGone log (StoredGatewayIdentity (gv_Config env) (gw_Meta base))"

definition claimsProgrammed :: "'w gatewayEnv \<Rightarrow> Gateway \<Rightarrow> bool" where
  "claimsProgrammed env gateway = (case FindStatusCondition (gv_conditions env) (gw_Conditions gateway) ''Programmed'' of
      None \<Rightarrow> False | Some condition \<Rightarrow> co_Status condition = ConditionTrue)"

definition readyWith :: "gatewayEvent list \<Rightarrow> (string option \<times> string) list \<Rightarrow> bool" where
  "readyWith log addresses \<longleftrightarrow> (\<exists>spec r. CalledEnsureGateway spec (Inr r) \<in> set log \<and> o_State (gres_Outcome r) = OutcomeReady \<and>
     addresses = [(Some IPAddressType, Address (gres_State r))])"

definition readGateway :: "gatewayEvent list \<Rightarrow> Gateway \<Rightarrow> bool" where
  "readGateway es gateway \<longleftrightarrow> (\<exists>live reader namespace name. ReadCluster live reader \<in> set es \<and> rd_Gateway reader namespace name = Inr gateway)"

definition wasClaimed :: "'w gatewayEnv \<Rightarrow> gatewayEvent list \<Rightarrow> bool" where
  "wasClaimed env log \<longleftrightarrow> (\<exists>gateway. readGateway log gateway \<and> claimsProgrammed env gateway)"

definition mayPublish :: "'w gatewayEnv \<Rightarrow> gatewayEvent list \<Rightarrow> Gateway \<Rightarrow> bool" where
  "mayPublish env log desired \<longleftrightarrow> claimsProgrammed env desired \<longrightarrow> readyWith log (gw_StatusAddresses desired) \<or> wasClaimed env log"

definition justified :: "'w gatewayEnv \<Rightarrow> gatewayEvent list \<Rightarrow> gatewayEvent \<Rightarrow> bool" where
  "justified env log e = (case e of
      CalledEnsureGateway spec _ \<Rightarrow> mayEnsure env log spec
    | CalledDeleteGateway i _ \<Rightarrow> mayDelete env log i
    | PatchedGateway base desired _ \<Rightarrow> mayPatch env log base desired
    | PatchedGatewayStatus base desired _ \<Rightarrow> mayPublish env log desired
    | _ \<Rightarrow> True)"

text \<open>The Gateway of the scope claims to be programmed only when that may be published.\<close>

definition fitting :: "'w gatewayEnv \<Rightarrow> gatewayEvent list \<Rightarrow> gatewayScope \<Rightarrow> bool" where
  "fitting env log scope = mayPublish env log (gs_gateway scope)"

definition isClusterRead :: "gatewayEvent \<Rightarrow> bool" where
  "isClusterRead e = (case e of ReadCluster _ _ \<Rightarrow> True | _ \<Rightarrow> False)"

lemma gateway_saw_mono:
  "sawGateway es gateway \<Longrightarrow> sawGateway (es @ fs) gateway" "sawGateway fs gateway \<Longrightarrow> sawGateway (es @ fs) gateway"
  "sawClass es name c \<Longrightarrow> sawClass (es @ fs) name c" "sawClass fs name c \<Longrightarrow> sawClass (es @ fs) name c"
  "sawNoClass es name \<Longrightarrow> sawNoClass (es @ fs) name" "sawNoClass fs name \<Longrightarrow> sawNoClass (es @ fs) name"
  "readGateway es gateway \<Longrightarrow> readGateway (es @ fs) gateway" "readGateway fs gateway \<Longrightarrow> readGateway (es @ fs) gateway"
  by (auto simp: sawGateway_def sawClass_def sawNoClass_def readGateway_def)

lemma unwanted_mono: "unwanted env es gateway \<Longrightarrow> unwanted env (es @ fs) gateway"
  "unwanted env fs gateway \<Longrightarrow> unwanted env (es @ fs) gateway"
  unfolding unwanted_def by (blast intro: gateway_saw_mono)+

lemma mayPublish_mono: "mayPublish env log gateway \<Longrightarrow> mayPublish env (log @ es) gateway"
  unfolding mayPublish_def readyWith_def wasClaimed_def by (force intro: gateway_saw_mono)

interpretation gateway?: logged gt_log gt_scope isClusterRead
  by unfold_locales

interpretation gateway?: reconciler_law gt_log gt_scope isClusterRead AcquiredLock ReleasedLock "justified env" "fitting env" for env :: "'w gatewayEnv"
  by unfold_locales (auto simp: justified_def isClusterRead_def fitting_def mayPublish_mono split: gatewayEvent.splits)

text \<open>The invariant and its variants, by the environment.\<close>

abbreviation Inv :: "'w gatewayEnv \<Rightarrow> 'w gatewayReconcileState \<Rightarrow> bool" where
  "Inv env \<equiv> reconciler_law.Inv gt_log gt_scope (justified env) (fitting env)"

abbreviation steady :: "'w gatewayEnv \<Rightarrow> (gatewayEvent list \<Rightarrow> bool) \<Rightarrow> 'w gatewayReconcileState \<Rightarrow> bool" where
  "steady env \<equiv> reconciler_law.steady gt_log gt_scope (justified env) (fitting env)"

abbreviation locked :: "'w gatewayEnv \<Rightarrow> string \<Rightarrow> gatewayEvent list \<Rightarrow> 'w gatewayReconcileState \<Rightarrow> bool" where
  "locked env \<equiv> reconciler_law.locked gt_log gt_scope AcquiredLock ReleasedLock (justified env) (fitting env)"

abbreviation lawful :: "'w gatewayEnv \<Rightarrow> gatewayEvent list \<Rightarrow> bool" where
  "lawful env \<equiv> reconciler_law.lawful (justified env)"

lemma lockedSince_held: "lockedSince uid log since \<longleftrightarrow> heldSince uid log since"
  by (simp add: lockedSince_def heldSince_def)

section \<open>Reading\<close>

text \<open>The API server returns the Gateway with the requested key.\<close>

definition keyedGateways :: "'w gatewayEnv \<Rightarrow> bool" where
  "keyedGateways env \<longleftrightarrow> (\<forall>live w namespace name gateway. rd_Gateway (fst (gv_read env live w)) namespace name = Inr gateway \<longrightarrow>
     om_Namespace (gw_Meta gateway) = namespace \<and> om_Name (gw_Meta gateway) = name)"

definition sameKey :: "ObjectMeta \<Rightarrow> ObjectMeta \<Rightarrow> bool" where
  "sameKey m m' \<longleftrightarrow> om_Namespace m = om_Namespace m' \<and> om_Name m = om_Name m'"

lemma gateway_observing_reader [observations]: "(\<And>reader. Q reader [ReadCluster live reader]) \<Longrightarrow> observing (readCluster env live) Q"
  by (auto simp: observing_def readCluster_def isClusterRead_def split: prod.splits)

lemma keyedReader_observing:
  assumes "keyedGateways env"
  shows "observing (readCluster env live) (\<lambda>reader es. (\<forall>namespace name gateway. rd_Gateway reader namespace name = Inr gateway \<longrightarrow>
      om_Namespace (gw_Meta gateway) = namespace \<and> om_Name (gw_Meta gateway) = name) \<and> es = [ReadCluster live reader])"
proof (rule observingI)
  fix s r s'
  assume run: "readCluster env live s = (r, s')"
  obtain reader w where read: "gv_read env live (gt_world s) = (reader, w)" by fastforce
  then have "\<forall>namespace name gateway. rd_Gateway reader namespace name = Inr gateway \<longrightarrow>
      om_Namespace (gw_Meta gateway) = namespace \<and> om_Name (gw_Meta gateway) = name" using assms unfolding keyedGateways_def by (metis fst_conv)
  with run read show "gt_scope s' = gt_scope s \<and> (\<exists>es. gt_log s' = gt_log s @ es \<and> list_all isClusterRead es \<and>
      (\<forall>x. r = Inr x \<longrightarrow> (\<forall>namespace name gateway. rd_Gateway x namespace name = Inr gateway \<longrightarrow>
         om_Namespace (gw_Meta gateway) = namespace \<and> om_Name (gw_Meta gateway) = name) \<and> es = [ReadCluster live x]))"
    by (auto simp: readCluster_def isClusterRead_def)
qed

lemma gateway_getGateway_observing:
  assumes "keyedGateways env"
  shows "observing (getGateway env live expected) (\<lambda>gateway es. sameKey (gw_Meta gateway) (gw_Meta expected) \<and> readGateway es gateway \<and>
    (live \<longrightarrow> sawGateway es gateway))"
  unfolding getGateway_def
  by (rule observing_bind [OF keyedReader_observing [OF assms]], rule observing_lift)
    (auto simp: mapErr_eq_Inr sameKey_def readGateway_def sawGateway_def)

lemma getClass_observing:
  "observing (getClass env live name) (\<lambda>gatewayClass es. live \<longrightarrow> sawClass es name gatewayClass)"
  unfolding getClass_def
  by (rule observing_bind [where Q = "\<lambda>reader es. es = [ReadCluster live reader]"], rule gateway_observing_reader)
    (auto intro!: observing_lift simp: mapErr_eq_Inr sawClass_def)

lemma tryClass_observing:
  "observing (tryA (getClass env True name)) (\<lambda>r es. (\<forall>gatewayClass. r = Inr gatewayClass \<longrightarrow> sawClass es name gatewayClass) \<and>
     (\<forall>e. r = Inl e \<and> IsNotFoundError e \<longrightarrow> sawNoClass es name))"
proof (rule observingI)
  fix s r s'
  assume run: "tryA (getClass env True name) s = (r, s')"
  obtain reader w where read: "gv_read env True (gt_world s) = (reader, w)" by fastforce
  have "e = NotFound" if "IsNotFoundError (readErrorOf e)" for e
    using that by (cases e) (simp_all add: readErrorOf_def IsNotFoundError_def apiStatus_def)
  with run read show "gt_scope s' = gt_scope s \<and> (\<exists>es. gt_log s' = gt_log s @ es \<and> list_all isClusterRead es \<and>
      (\<forall>x. r = Inr x \<longrightarrow> (\<forall>gatewayClass. x = Inr gatewayClass \<longrightarrow> sawClass es name gatewayClass) \<and>
        (\<forall>e. x = Inl e \<and> IsNotFoundError e \<longrightarrow> sawNoClass es name)))"
    by (cases "rd_GatewayClass reader name")
      (auto simp: tryA_def getClass_def bindA_def readCluster_def liftA_def isClusterRead_def sawClass_def sawNoClass_def)
qed

lemma validateVersion_observing [observations]: "(\<And>es. Q () es) \<Longrightarrow> observing (validateVersion env) Q"
  unfolding validateVersion_def by (rule observing_bind [where Q = "\<lambda>_ _. True"]) (auto intro!: observations)

section \<open>Snapshots\<close>

text \<open>What an observed snapshot says about the reads since it was begun.\<close>

definition snapshotOK :: "'w gatewayEnv \<Rightarrow> Gateway \<Rightarrow> gatewayBindingRequirement \<Rightarrow> string \<Rightarrow> gatewayMutationSnapshot \<Rightarrow> gatewayEvent list \<Rightarrow> bool" where
  "snapshotOK env expected binding port snapshot es \<longleftrightarrow> (let gateway = mu_gateway snapshot in
     sameKey (gw_Meta gateway) (gw_Meta expected) \<and> om_UID (gw_Meta gateway) = om_UID (gw_Meta expected) \<and> sawGateway es gateway \<and>
     \<not> om_Deleting (gw_Meta gateway) \<and> validBinding env gateway \<and> ValidateGateway gateway = Inr (mu_listener snapshot) \<and>
     sawClass es (gw_GatewayClassName gateway) (mu_gatewayClass snapshot) \<and> ownClass env (mu_gatewayClass snapshot) \<and>
     (binding = gatewayBindingRequired \<longrightarrow> hasGatewayFinalizer env gateway \<and> storedListenerPort env gateway = itoaInt (gl_Port (mu_listener snapshot))) \<and>
     (port \<noteq> [] \<longrightarrow> itoaInt (gl_Port (mu_listener snapshot)) = port))"

lemma gateway_snapshot_observing:
  assumes "keyedGateways env"
  shows "observing (observeGatewayMutationSnapshot env expected binding port) (snapshotOK env expected binding port)"
  unfolding observeGatewayMutationSnapshot_def Let_def
  apply (rule observing_bind_guard)
  apply (rule observing_bind [OF observing_failingAs [OF gateway_getGateway_observing [OF assms]]])
  apply (rule observing_bind_guard)
  apply (rule observing_bind [OF observing_failingAs [OF getClass_observing]])
  apply (rule observing_bind_guard, rule observing_bind_guard, rule observing_bind_guard, rule observing_bind_guard)
  apply (rule observing_bind_lift)
  apply (rule observing_bind_guard, rule observing_bind_guard, rule observing_return)
  apply (auto simp: snapshotOK_def Let_def ownClass_def mapErr_eq_Inr intro: gateway_saw_mono)
  done

lemma gateway_seal_observing:
  assumes "keyedGateways env"
  shows "observing (sealGatewayMutationSnapshot env snapshot) (\<lambda>_ es. \<exists>again. sawGateway es again \<and> unchanged env (mu_gateway snapshot) again)"
  unfolding sealGatewayMutationSnapshot_def Let_def
  apply (rule observing_bind [where Q = "\<lambda>_ _. True"], rule validateVersion_observing, simp)
  apply (rule observing_bind [OF observing_failingAs [OF gateway_getGateway_observing [OF assms]]])
  apply (rule observing_bind_guard, rule observing_bind_guard, rule observing_bind_guard)
  apply (rule observing_bind [OF observing_failingAs [OF getClass_observing]])
  apply (rule observing_bind_guard, rule observing_guard)
  apply (auto simp: unchanged_def intro: gateway_saw_mono)
  done

lemma judge_observing:
  assumes "(\<forall>c. r = Inr c \<longrightarrow> sawClass es (gw_GatewayClassName gateway) c) \<and> (\<forall>e. r = Inl e \<and> IsNotFoundError e \<longrightarrow> sawNoClass es (gw_GatewayClassName gateway))"
  shows "observing (judgeCleanup env gateway r) (\<lambda>d fs. d = gatewayCleanupDelete \<longrightarrow> unwanted env (es @ fs) gateway)"
proof (cases r)
  case (Inl e)
  then have "unwanted env (es @ fs) gateway" if "IsNotFoundError e" for fs
    using that assms by (auto simp: unwanted_def intro: gateway_saw_mono)
  then show ?thesis unfolding Inl judgeCleanup_def by (auto intro!: observations observing_bind [where Q = "\<lambda>_ _. True"])
next
  case (Inr c)
  then have other: "unwanted env (es @ fs) gateway" if "gc_ControllerName c \<noteq> cf_ControllerName (gv_Config env) \<or> \<not> gatewayStillDesired env gateway c" for fs
    using that assms unfolding unwanted_def by (blast intro: gateway_saw_mono)
  show ?thesis unfolding Inr judgeCleanup_def sum.case
    apply (rule observing_cases(1))
     apply (rule observing_return, simp add: other [of "[]", simplified])
    apply (rule observing_bind_guard)
    apply (rule observing_bind [where Q = "\<lambda>_ _. True"], rule validateVersion_observing, simp)
    apply (rule observing_return)
    apply (auto intro: other)
    done
qed

lemma gateway_cleanup_observing:
  assumes "keyedGateways env"
  shows "observing (observeGatewayCleanupSnapshot env expected) (\<lambda>snapshot es. \<exists>gateway. sameKey (gw_Meta gateway) (gw_Meta expected) \<and>
    om_UID (gw_Meta gateway) = om_UID (gw_Meta expected) \<and> sawGateway es gateway \<and> validBinding env gateway \<and>
    cu_identity snapshot = StoredGatewayIdentity (gv_Config env) (gw_Meta gateway) \<and>
    (cu_disposition snapshot = gatewayCleanupDelete \<longrightarrow> unwanted env es gateway))"
proof -
  have class_read: "observing (bindA (tryA (getClass env True (gw_GatewayClassName gateway))) (judgeCleanup env gateway))
      (\<lambda>d es. d = gatewayCleanupDelete \<longrightarrow> unwanted env es gateway)" for gateway
    by (rule observing_bind [OF tryClass_observing judge_observing])
  have disposition: "observing (if om_Deleting (gw_Meta gateway) then returnA gatewayCleanupDelete
      else bindA (tryA (getClass env True (gw_GatewayClassName gateway))) (judgeCleanup env gateway))
      (\<lambda>d es. d = gatewayCleanupDelete \<longrightarrow> unwanted env es gateway)" for gateway
    by (rule observing_cases(1), rule observing_return, simp add: unwanted_def, rule class_read)
  show ?thesis
    unfolding observeGatewayCleanupSnapshot_def Let_def
    apply (rule observing_bind_guard)
    apply (rule observing_bind [OF observing_failingAs [OF gateway_getGateway_observing [OF assms]]])
    apply (rule observing_bind_guard, rule observing_bind_guard)
    apply (rule observing_bind [OF disposition], rule observing_return)
    apply (auto intro: gateway_saw_mono unwanted_mono)
    done
qed

end
