(* ===== verification/GatewaySafety.thy ===== *)
theory GatewaySafety
  imports GatewayLaw
begin

text \<open>
  The Gateway reconciler keeps the law of the theory GatewayLaw: the calls under the graph lock, the statuses, the cleanup, and
  then a whole reconciliation.
\<close>

section \<open>Calls\<close>

lemma calls_facts:
  "calls (patchMetadata env base desired) (mapErr patchErrorOf) (PatchedGateway base desired)"
  "calls (patchGatewayStatus env base desired) (mapErr patchErrorOf) (PatchedGatewayStatus base desired)"
  "calls (callEnsureGateway env spec) (mapErr ProviderFailure) (CalledEnsureGateway spec)"
  "calls (callDeleteGateway env i) (mapErr ProviderFailure) (CalledDeleteGateway i)"
  by (auto simp: calls_def patchMetadata_def patchGatewayStatus_def callEnsureGateway_def callDeleteGateway_def split: prod.splits)

lemma lock_facts: "acquires uid (acquireLock env uid)" "releases uid (releaseLock env uid)"
  by (auto simp: acquires_def releases_def acquireLock_def releaseLock_def split: prod.splits)

lemma withLock_triple:
  assumes "triple (locked env uid []) m (\<lambda>x s. Inv env s \<and> Q x (gt_log s)) (\<lambda>_. Inv env)" "\<And>x log e. Q x log \<Longrightarrow> Q x (log @ [e])"
  shows "triple (Inv env) (withLock env uid m) (\<lambda>x s. Inv env s \<and> Q x (gt_log s)) (\<lambda>_. Inv env)"
  unfolding withLock_def by (rule locked_region [OF lock_facts assms])

lemma GatewayUID_GatewayIdentity [simp]: "GatewayUID (GatewayIdentity c m) = om_UID m"
  by (simp add: GatewayIdentity_def)

lemma GatewayIdentity_same: "sameKey m m' \<Longrightarrow> om_UID m = om_UID m' \<Longrightarrow> GatewayIdentity c m = GatewayIdentity c m'"
  by (simp add: GatewayIdentity_def sameKey_def)

text \<open>A valid binding stands for the identity of the Gateway under the configuration.\<close>

lemma stored_valid:
  assumes "validBinding env gateway"
  shows "StoredGatewayIdentity (gv_Config env) (gw_Meta gateway) = GatewayIdentity (gv_Config env) (gw_Meta gateway)"
  using assms by (auto simp: validBinding_def isOk_iff ValidateGatewayBinding_def StoredGatewayIdentity_def GatewayIdentity_def Let_def split: if_splits)

section \<open>Under the lock\<close>

definition ensured :: "GatewayResult \<Rightarrow> gatewayEvent list \<Rightarrow> bool" where
  "ensured r log \<longleftrightarrow> (o_State (gres_Outcome r) = OutcomeProgressing \<or> readyWith log [(Some IPAddressType, Address (gres_State r))])"

lemma gateway_sealed_mayEnsure:
  assumes "snapshotOK env expected gatewayBindingRequired [] snapshot es" "sawGateway fs again" "unchanged env (mu_gateway snapshot) again"
    and "locked env (om_UID (gw_Meta expected)) (es @ fs) s"
  shows "Inv env s \<and> justified env (gt_log s) (CalledEnsureGateway (gatewaySpec (gv_Config env) (mu_gateway snapshot) (mu_listener snapshot)) q)"
proof -
  let ?spec = "gatewaySpec (gv_Config env) (mu_gateway snapshot) (mu_listener snapshot)"
  have "GatewayUID (gs_Identity ?spec) = om_UID (gw_Meta expected)"
    using assms(1) by (simp add: gatewaySpec_def snapshotOK_def Let_def)
  moreover have "heldSince (om_UID (gw_Meta expected)) (gt_log s) (es @ fs)"
    using assms(4) by (simp add: locked_def lockedSince_held)
  ultimately have "mayEnsure env (gt_log s) ?spec"
    using assms(1-3) unfolding mayEnsure_def snapshotOK_def Let_def boundGateway_def by metis
  then show ?thesis using locked_Inv [OF assms(4)] by (simp add: justified_def)
qed

lemma ensureGateway_triple:
  assumes "keyedGateways env"
  shows "triple (Inv env) (ensureGateway env expected) (\<lambda>r s. Inv env s \<and> ensured r (gt_log s)) (\<lambda>_. Inv env)"
proof -
  let ?spec = "\<lambda>snapshot. gatewaySpec (gv_Config env) (mu_gateway snapshot) (mu_listener snapshot)"
  have finish: "triple (\<lambda>s. Inv env s \<and> (\<exists>q. mapErr ProviderFailure q = Inr r \<and> CalledEnsureGateway spec q \<in> set (gt_log s)))
      (bindA (validOutcome (gres_Outcome r)) (\<lambda>_. returnA r)) (\<lambda>r s. Inv env s \<and> ensured r (gt_log s)) (\<lambda>_. Inv env)" for spec r
    unfolding validOutcome_def
    by (rule triple_bind_lift, rule triple_return)
      (auto simp: ensured_def readyWith_def mapErr_eq_Inr Validate_def split: if_splits OutcomeState.splits)
  have call: "triple (locked env (om_UID (gw_Meta expected)) (es @ fs)) (bindA (callEnsureGateway env (?spec snapshot)) (\<lambda>result.
       bindA (validOutcome (gres_Outcome result)) (\<lambda>_. returnA result))) (\<lambda>r s. Inv env s \<and> ensured r (gt_log s)) (\<lambda>_. Inv env)"
    if ok: "snapshotOK env expected gatewayBindingRequired [] snapshot es" "\<exists>again. sawGateway fs again \<and> unchanged env (mu_gateway snapshot) again" for snapshot es fs
  proof -
    obtain again where "sawGateway fs again" "unchanged env (mu_gateway snapshot) again" using ok(2) by blast
    note may = gateway_sealed_mayEnsure [OF ok(1) this]
    show ?thesis by (rule triple_bind [OF calls_triple [OF calls_facts(3) may] finish])
  qed
  show ?thesis
    unfolding ensureGateway_def Let_def
    apply (rule triple_bind_guard)
     apply (rule withLock_triple [where Q = ensured])
      apply (rule observe_then [OF gateway_snapshot_observing [OF assms]], simp)
       apply (rule observe_then [OF gateway_seal_observing [OF assms]], rule call, assumption, assumption)
      apply (auto simp: locked_def ensured_def readyWith_def)
    done
qed

lemma deleteGateway_triple:
  assumes "keyedGateways env"
  shows "triple (Inv env) (deleteGateway env expected)
    (\<lambda>outcome s. Inv env s \<and> CalledDeleteGateway (GatewayIdentity (gv_Config env) (gw_Meta expected)) (Inr outcome) \<in> set (gt_log s)) (\<lambda>_. Inv env)"
proof -
  let ?Q = "\<lambda>outcome log. CalledDeleteGateway (GatewayIdentity (gv_Config env) (gw_Meta expected)) (Inr outcome) \<in> set log"
  have call: "triple (locked env (om_UID (gw_Meta expected)) es) (callDeleteGateway env (cu_identity snapshot)) (\<lambda>outcome s. Inv env s \<and> ?Q outcome (gt_log s)) (\<lambda>_. Inv env)"
    if gateway: "sameKey (gw_Meta gateway) (gw_Meta expected)" "om_UID (gw_Meta gateway) = om_UID (gw_Meta expected)" "sawGateway es gateway" "validBinding env gateway"
      "cu_identity snapshot = StoredGatewayIdentity (gv_Config env) (gw_Meta gateway)" "unwanted env es gateway" for snapshot es gateway
  proof -
    have i: "cu_identity snapshot = GatewayIdentity (gv_Config env) (gw_Meta expected)"
      using gateway(1,2,4,5) by (simp add: stored_valid GatewayIdentity_same)
    then have "mayDelete env (gt_log s) (cu_identity snapshot)" if "locked env (om_UID (gw_Meta expected)) es s" for s
      using that gateway(3-6)
      unfolding mayDelete_def locked_def lockedSince_held by auto
    then have may: "Inv env s \<and> justified env (gt_log s) (CalledDeleteGateway (cu_identity snapshot) q)" if "locked env (om_UID (gw_Meta expected)) es s" for s q
      using that locked_Inv by (auto simp: justified_def)
    show ?thesis by (rule triple_conseq [OF calls_triple [where P = "locked env (om_UID (gw_Meta expected)) es", OF calls_facts(4) may]]) (auto simp: mapErr_eq_Inr i)
  qed
  show ?thesis
    unfolding deleteGateway_def
    apply (rule triple_bind_guard)
     apply (rule withLock_triple [where Q = ?Q])
      apply (rule observe_then [OF gateway_cleanup_observing [OF assms]], simp)
       apply (rule triple_bind_guard, erule exE, (erule conjE)+)
        apply (rule call)
    by (auto simp: locked_def)
qed

section \<open>Statuses\<close>

lemma claims_conditions:
  assumes "conditionLaws (gv_conditions env)"
  shows "claimsProgrammed env (setGatewayConditions (gv_conditions env) gateway (cs @ [c])) \<longleftrightarrow>
     (if co_Type c = ''Programmed'' then co_Status c = ConditionTrue else claimsProgrammed env (setGatewayConditions (gv_conditions env) gateway cs))"
proof (cases "co_Type c = ''Programmed''")
  case True
  obtain d where "FindStatusCondition (gv_conditions env)
      (SetStatusCondition (gv_conditions env) (gw_Conditions (setGatewayConditions (gv_conditions env) gateway cs)) c) (co_Type c) = Some d"
    "co_Status d = co_Status c" by (rule conditionLaws_same [OF assms])
  then show ?thesis using True by (simp add: claimsProgrammed_def setGatewayConditions_def SetCondition_def)
next
  case False
  then show ?thesis by (simp add: claimsProgrammed_def setGatewayConditions_def SetCondition_def conditionLaws_other [OF assms])
qed

lemma claims_conditions_Nil: "claimsProgrammed env (setGatewayConditions u gateway []) = claimsProgrammed env gateway"
  by (simp add: setGatewayConditions_def claimsProgrammed_def)

lemma claims_status: "gw_Conditions gateway = gw_Conditions gateway' \<Longrightarrow> claimsProgrammed env gateway = claimsProgrammed env gateway'"
  by (simp add: claimsProgrammed_def)

lemma claims_update [simp]:
  "claimsProgrammed env (gateway\<lparr>gw_ListenerStatuses := x\<rparr>) = claimsProgrammed env gateway"
  "claimsProgrammed env (gateway\<lparr>gw_StatusAddresses := y\<rparr>) = claimsProgrammed env gateway"
  "claimsProgrammed env (gateway\<lparr>gw_Meta := m\<rparr>) = claimsProgrammed env gateway"
  by (simp_all add: claimsProgrammed_def)

lemma claims_one:
  "conditionLaws (gv_conditions env) \<Longrightarrow> claimsProgrammed env (setGatewayConditions (gv_conditions env) gateway [c]) \<longleftrightarrow>
     (if co_Type c = ''Programmed'' then co_Status c = ConditionTrue else claimsProgrammed env gateway)"
  using claims_conditions [of env gateway "[]" c] by (simp add: claims_conditions_Nil)

lemma claims_two:
  "conditionLaws (gv_conditions env) \<Longrightarrow> co_Type d = ''Programmed'' \<Longrightarrow>
     claimsProgrammed env (setGatewayConditions (gv_conditions env) gateway [c, d]) \<longleftrightarrow> co_Status d = ConditionTrue"
  using claims_conditions [of env gateway "[c]" d] by simp

lemma Condition_fields [simp]: "co_Type (Condition ty st reason msg generation) = ty" "co_Status (Condition ty st reason msg generation) = st"
  by (simp_all add: Condition_def)

lemma unclaimed:
  assumes "conditionLaws (gv_conditions env)"
  shows "\<not> claimsProgrammed env (setGatewayFailure (gv_conditions env) err gateway)"
    "\<not> claimsProgrammed env (setGatewayFailureReason (gv_conditions env) reason msg gateway)"
    "st \<noteq> ConditionTrue \<Longrightarrow> \<not> claimsProgrammed env (setGatewayProvisioningStatus (gv_conditions env) listener n st reason reason' msg advance gateway)"
    "fp_ConditionStatus policy \<noteq> ConditionTrue \<Longrightarrow> \<not> claimsProgrammed env (setGatewayCleanupFailure (gv_conditions env) policy reason reason' gateway)"
  by (simp_all add: setGatewayFailure_def setGatewayFailureReason_def setGatewayProvisioningStatus_def setGatewayCleanupFailure_def Let_def
      claims_two [OF assms] claims_one [OF assms])

lemma unclaimed_publish: "\<not> claimsProgrammed env gateway \<Longrightarrow> mayPublish env log gateway"
  by (simp add: mayPublish_def)

lemma unsupported_publish:
  assumes "conditionLaws (gv_conditions env)" "mayPublish env log gateway"
  shows "mayPublish env log (unsupportedVersionGatewayStatus (gv_conditions env) gateway)"
proof -
  let ?u = "gv_conditions env"
  have "gw_StatusAddresses (unsupportedVersionGatewayStatus ?u gateway) = gw_StatusAddresses gateway"
    by (simp add: unsupportedVersionGatewayStatus_def setGatewayConditions_def Let_def split: option.splits)
  moreover have "claimsProgrammed env gateway" if "claimsProgrammed env (unsupportedVersionGatewayStatus ?u gateway)"
    using that by (auto simp: unsupportedVersionGatewayStatus_def Let_def claims_one [OF assms(1)] split: option.splits if_splits)
  ultimately show ?thesis using assms(2) by (simp add: mayPublish_def)
qed

lemma programmed_publish: "readyWith log [(Some IPAddressType, Address gatewayState)] \<Longrightarrow> mayPublish env log (setGatewayProgrammed u listener n gatewayState gateway)"
  by (simp add: mayPublish_def setGatewayProgrammed_def Let_def)

section \<open>The scope\<close>

lemma gateway_scope_steady:
  assumes "\<And>log scope. M log \<Longrightarrow> fitting env log scope \<Longrightarrow> fitting env log (f scope)"
  shows "keeps (steady env M) (changeGatewayScope f)"
  unfolding changeGatewayScope_def by (rule keepsI, rule triple_modify) (use assms in \<open>auto simp: steady_def Inv_def\<close>)

lemma changeGateway_steady:
  assumes "\<And>log gateway. M log \<Longrightarrow> mayPublish env log gateway \<Longrightarrow> mayPublish env log (f gateway)"
  shows "keeps (steady env M) (changeGateway f)"
  unfolding changeGateway_def by (rule gateway_scope_steady) (use assms in \<open>auto simp: fitting_def\<close>)

lemma scope_keeps [keeping]:
  "keeps (steady env M) theScope" "keeps (steady env M) skipGatewayPatch" "keeps (steady env M) (queueIf b policy operation)"
  "keeps (steady env M) (setGatewayPatchCause policy cause)"
  by (auto simp: theScope_def skipGatewayPatch_def queueIf_def queueGatewayWarning_def setGatewayPatchCause_def fitting_def
      intro!: keeping gateway_scope_steady)

lemma mayPublish_withStatus: "mayPublish env log (withStatus gateway other) = mayPublish env log other"
  by (simp add: mayPublish_def withStatus_def claimsProgrammed_def)

lemma readGateway_publish: "readGateway log gateway \<Longrightarrow> mayPublish env log gateway"
  by (auto simp: mayPublish_def wasClaimed_def)

lemma growing_read: "growing (\<lambda>log. readGateway log gateway)"
  by (auto simp: growing_def intro: gateway_saw_mono)

text \<open>After a refresh, the Gateway and the original have the same metadata.\<close>

definition refreshed :: "Gateway \<Rightarrow> 'w gatewayReconcileState \<Rightarrow> bool" where
  "refreshed gateway s \<longleftrightarrow> gs_original (gt_scope s) = gateway \<and> gw_Meta (gs_gateway (gt_scope s)) = gw_Meta gateway"

lemma refresh_triple:
  "triple (steady env (\<lambda>log. readGateway log gateway)) (refresh gateway) (\<lambda>_ s. Inv env s \<and> refreshed gateway s) (\<lambda>_. Inv env)"
proof (rule tripleI)
  fix s :: "'a gatewayReconcileState"
  assume s: "steady env (\<lambda>log. readGateway log gateway) s"
  then have inv: "Inv env s" "readGateway (gt_log s) gateway" by (simp_all add: steady_def)
  let ?f = "\<lambda>scope. scope\<lparr>gs_gateway := (if statusChanged scope then withStatus gateway (gs_gateway scope) else gateway), gs_original := gateway\<rparr>"
  have "Inv env (s\<lparr>gt_scope := ?f (gt_scope s)\<rparr>)"
    using inv readGateway_publish [of "gt_log s" gateway env] by (auto simp: Inv_def fitting_def mayPublish_withStatus)
  then show "post (\<lambda>_ s. Inv env s \<and> refreshed gateway s) (\<lambda>_. Inv env) (refresh gateway s)"
    using inv(1) by (auto simp: refresh_def theScope_def getA_def bindA_def guardA_def guardE_def liftA_def changeGatewayScope_def modifyA_def refreshed_def withStatus_def)
qed

section \<open>Handling failures\<close>

lemma countAttachedRoutes_observing [observations]: "(\<And>x es. Q x es) \<Longrightarrow> observing (countAttachedRoutes env listener) Q"
  unfolding countAttachedRoutes_def theScope_def
  by (rule observing_bind [where Q = "\<lambda>_ _. True"]; (rule observing_bind [where Q = "\<lambda>_ _. True"])?) (auto intro!: observations)

lemma count_keeps [keeping]: "growing M \<Longrightarrow> keeps (steady env M) (countAttachedRoutes env listener)"
  by (rule observing_steady [where Q = "\<lambda>_ _. True"]) (auto intro: observations)

lemma handleProvider_keeps:
  assumes "conditionLaws (gv_conditions env)"
  shows "keeps (Inv env) (handleGatewayProviderFailure env listener e)"
proof (cases "failurePolicyFor e")
  case None
  then show ?thesis unfolding handleGatewayProviderFailure_def by (simp add: keeps_pure)
next
  case (Some x)
  obtain cause policy where x: "x = (cause, policy)" by fastforce
  have "keeps (steady env (\<lambda>_. True)) (changeGateway (setGatewayProvisioningStatus (gv_conditions env) listener n (fp_ConditionStatus policy) a b c d))" for n a b c d
    by (rule changeGateway_steady, rule unclaimed_publish, rule unclaimed(3) [OF assms]) (use policy_not_true(1) Some x in auto)
  then show ?thesis
    unfolding handleGatewayProviderFailure_def Some x option.case prod.case Let_def case_prod_beta fst_conv snd_conv Inv_steady
    by (intro keeping growing_const)
qed

lemma handleDelete_keeps:
  assumes "conditionLaws (gv_conditions env)"
  shows "keeps (Inv env) (handleGatewayDeleteFailure env e)"
proof (cases "failurePolicyFor e")
  case None
  then show ?thesis unfolding handleGatewayDeleteFailure_def by (simp add: keeps_pure)
next
  case (Some x)
  obtain cause policy where x: "x = (cause, policy)" by fastforce
  have "keeps (steady env (\<lambda>_. True)) (changeGateway (setGatewayCleanupFailure (gv_conditions env) (ProviderCleanupFailurePolicy policy ''Gateway'') a b))" for a b
    by (rule changeGateway_steady, rule unclaimed_publish, rule unclaimed(4) [OF assms]) (use policy_not_true(2) Some x in auto)
  then show ?thesis
    unfolding handleGatewayDeleteFailure_def Some x option.case prod.case Let_def case_prod_beta fst_conv snd_conv Inv_steady
    by (intro keeping)
qed

section \<open>An unsupported version\<close>

lemma stillManaged_observing:
  assumes "keyedGateways env"
  shows "observing (gatewayStillManaged env expected) (\<lambda>managed es. \<forall>gateway gatewayClass. managed = Some (gateway, gatewayClass) \<longrightarrow> readGateway es gateway)"
proof -
  have cls: "observing (failingAs WrappedError (ignoringNotFound (getClass env True name))) (\<lambda>_ _. True)" for name
    by (rule observing_weaken [OF observing_failingAs [OF observing_ignoringNotFound [OF getClass_observing]]]) simp
  show ?thesis
    unfolding gatewayStillManaged_def
    apply (rule observing_bind_guard)
    apply (rule observing_bind [OF observing_failingAs [OF observing_ignoringNotFound [OF gateway_getGateway_observing [OF assms]]]])
    apply (rule observing_cases(2), rule observing_return, simp)
    apply (rule observing_cases(1), rule observing_return, simp)
    apply (rule observing_bind [OF cls])
    apply (rule observing_cases(2), rule observing_return, simp)
    apply (rule observing_return)
    apply (auto intro: gateway_saw_mono)
    done
qed

lemma recheck_keeps: "keeps (Inv env) (recheckGatewayVersion env gatewayClass)"
proof -
  have "observing (tryA (validateVersion env)) (\<lambda>_ _. True)"
    by (rule observing_weaken [OF observing_try [OF validateVersion_observing]]) auto
  then show ?thesis unfolding recheckGatewayVersion_def
    by (intro keeping observing_keeps)
qed

lemma unsupported_keeps:
  assumes "keyedGateways env" "conditionLaws (gv_conditions env)"
  shows "keeps (Inv env) (setGatewayUnsupportedVersion env)"
proof -
  have change: "keeps (Inv env) (changeGateway (unsupportedVersionGatewayStatus (gv_conditions env)))"
    unfolding Inv_steady by (rule changeGateway_steady) (rule unsupported_publish [OF assms(2)])
  have rest: "triple (steady env (\<lambda>log. readGateway log gateway)) (bindA (refresh gateway) (\<lambda>_.
          bindA (recheckGatewayVersion env gatewayClass) (\<lambda>recheck.
          bindA (changeGateway (unsupportedVersionGatewayStatus (gv_conditions env))) (\<lambda>_.
          returnA (if recheck then requeueAfter (GatewayAPIVersionRequeueAfter (om_UID (gw_Meta gateway))) else noResult))))) (\<lambda>_. Inv env) (\<lambda>_. Inv env)"
    for gateway gatewayClass
    by (rule triple_bind [OF triple_conseq [OF refresh_triple]], assumption, assumption, assumption)
      (rule triple_pre [OF keepsD], intro keeping recheck_keeps change, simp)
  show ?thesis
    unfolding setGatewayUnsupportedVersion_def theScope_def
    apply (rule keepsI, rule triple_bind [OF triple_get [where Q = "\<lambda>_. Inv env"]], assumption)
    unfolding Inv_steady
    apply (rule observe_steady [OF stillManaged_observing [OF assms(1)] growing_const])
     apply (rule triple_option)
      apply (rule triple_pre [OF keepsD], intro keeping, simp)
     apply (rule triple_prod)
     apply (rule triple_pre [OF rest [unfolded Inv_steady]])
     apply (auto simp: steady_def intro: gateway_saw_mono)
    done
qed

section \<open>Giving up a Gateway\<close>

lemma removed_status: "mayPublish env log (removeGatewayBinding k c gateway) = mayPublish env log gateway"
  by (simp add: removeGatewayBinding_def mayPublish_def Let_def)

text \<open>The identity of the original Gateway is known to be gone.\<close>

definition released :: "'w gatewayEnv \<Rightarrow> 'w gatewayReconcileState \<Rightarrow> bool" where
  "released env s \<longleftrightarrow> Inv env s \<and> gatewayGone (gt_log s) (StoredGatewayIdentity (gv_Config env) (gw_Meta (gs_original (gt_scope s))))"

lemma patchMetadata_triple:
  "triple (\<lambda>s. released env s \<and> gs_original (gt_scope s) = base) (patchMetadata env base desired) (\<lambda>_. Inv env) (\<lambda>_. Inv env)"
  by (rule triple_conseq [OF calls_triple [where P = "\<lambda>s. released env s \<and> gs_original (gt_scope s) = base", OF calls_facts(1)]])
    (auto simp: released_def justified_def mayPatch_def)

lemma changeGateway_released:
  "triple (released env) (changeGateway (removeGatewayBinding k c)) (\<lambda>_. released env) (\<lambda>_. Inv env)"
  unfolding changeGateway_def changeGatewayScope_def
  by (rule triple_modify) (auto simp: released_def Inv_def fitting_def removed_status)

lemma takePatched_keeps:
  "keeps (Inv env) (changeGatewayScope (\<lambda>scope. scope\<lparr>gs_gateway := withStatus patched (gs_gateway scope), gs_original := patched\<rparr>))"
  unfolding Inv_steady by (rule gateway_scope_steady) (simp add: fitting_def mayPublish_withStatus)

lemma patchGatewayMetadata_triple: "triple (released env) (patchGatewayMetadata env) (\<lambda>_. Inv env) (\<lambda>_. Inv env)"
proof -
  have "triple (\<lambda>s. released env s \<and> gt_scope s = scope) (let base = gs_original scope;
              target = base\<lparr>gw_Meta := copyGatewayOwnedMetadata (gv_finalizers env) (gv_Config env) (gw_Meta base) (gw_Meta (gs_gateway scope))\<rparr> in
       bindA (failingAs WrappedError (patchMetadata env base target)) (\<lambda>patched.
       changeGatewayScope (\<lambda>scope. scope\<lparr>gs_gateway := withStatus patched (gs_gateway scope), gs_original := patched\<rparr>))) (\<lambda>_. Inv env) (\<lambda>_. Inv env)" for scope
    unfolding Let_def
    by (rule triple_bind [OF triple_failingAs [OF triple_pre [OF patchMetadata_triple]] keepsD [OF takePatched_keeps]]) auto
  then show ?thesis
    unfolding patchGatewayMetadata_def theScope_def
    by (intro triple_bind [OF triple_get [where Q = "\<lambda>scope s. released env s \<and> gt_scope s = scope"]] triple_if triple_return) (auto simp: released_def)
qed

lemma releaseGateway_triple: "triple (released env) (releaseGateway env) (\<lambda>_. Inv env) (\<lambda>_. Inv env)"
proof -
  have tail: "keeps (Inv env) (bindA (case r of Inr _ \<Rightarrow> returnA ()
       | Inl e \<Rightarrow> if IsNotFoundError e then skipGatewayPatch else throwA (WrappedError e)) (\<lambda>_.
     bindA theScope (\<lambda>scope.
     bindA (if om_Deleting (gw_Meta (gs_gateway scope)) then skipGatewayPatch else returnA ()) (\<lambda>_. returnA noResult))))" for r :: "rcError + unit"
    unfolding Inv_steady by (intro keeping)
  show ?thesis unfolding releaseGateway_def
    by (rule triple_bind [OF changeGateway_released], rule triple_bind [OF triple_try keepsD [OF tail]], rule patchGatewayMetadata_triple)
qed

text \<open>Deleting does not touch the scope.\<close>

definition scopeIs :: "gatewayScope \<Rightarrow> 'w gatewayReconcileState \<Rightarrow> bool" where
  "scopeIs scope s \<longleftrightarrow> gt_scope s = scope"

lemma observing_scope: "observing m Q \<Longrightarrow> keeps (scopeIs scope) m"
proof (rule keepsI, rule tripleI)
  fix s :: "'a gatewayReconcileState"
  assume m: "observing m Q" and s: "scopeIs scope s"
  obtain r s' where run: "m s = (r, s')" by fastforce
  show "post (\<lambda>_. scopeIs scope) (\<lambda>_. scopeIs scope) (m s)"
    by (rule observingD [OF m run]) (use s run in \<open>cases r; simp add: scopeIs_def\<close>)
qed

lemma deleteGateway_scope:
  assumes "keyedGateways env"
  shows "keeps (scopeIs scope) (deleteGateway env expected)"
proof -
  have call: "keeps (scopeIs scope) (callDeleteGateway env i)" for i
    by (rule keepsI, rule tripleI) (auto simp: callDeleteGateway_def scopeIs_def post_def split: prod.splits sum.splits)
  have lock: "keeps (scopeIs scope) (acquireLock env uid)" for uid
    by (rule keepsI, rule tripleI) (auto simp: acquireLock_def scopeIs_def split: prod.splits)
  have region: "keeps (scopeIs scope) (withLock env uid m)" if m: "keeps (scopeIs scope) m" for uid and m :: "('a, Outcome) gc"
    unfolding withLock_def
    by (rule keeps_bind [OF lock], rule keepsI, rule triple_defer, rule triple_conseq [OF keepsD [OF m]]) (auto simp: scopeIs_def releaseLock_def)
  show ?thesis unfolding deleteGateway_def
    by (intro keeping region observing_scope [OF gateway_cleanup_observing [OF assms]] call)
qed

lemma triple_both:
  assumes "triple P m Q E" "keeps I m"
  shows "triple (\<lambda>s. P s \<and> I s) m (\<lambda>x s. Q x s \<and> I s) E"
proof (rule tripleI)
  fix s assume s: "P s \<and> I s"
  obtain r s' where run: "m s = (r, s')" by fastforce
  have "I s'" using keeps_run [OF assms(2), of s] s run by simp
  then show "post (\<lambda>x s. Q x s \<and> I s) E (m s)" using assms(1) s run by (cases r) (force simp: triple_def)+
qed

lemma cleanupBound_triple:
  assumes "keyedGateways env" "conditionLaws (gv_conditions env)"
  shows "triple (\<lambda>s. Inv env s \<and> refreshed gateway s) (cleanupBoundGateway env) (\<lambda>_. Inv env) (\<lambda>_. Inv env)"
proof -
  let ?gone = "\<lambda>scope outcome s. (Inv env s \<and> CalledDeleteGateway (GatewayIdentity (gv_Config env) (gw_Meta (gs_gateway scope))) (Inr outcome) \<in> set (gt_log s)) \<and> scopeIs scope s"
  have ok: "triple (?gone scope outcome) (bindA (validOutcome outcome) (\<lambda>_.
          if o_State outcome = OutcomeProgressing
          then returnA (requeueAfter (ProviderProgressRequeueAfter outcome (om_UID (gw_Meta (gs_gateway scope)))))
          else releaseGateway env)) (\<lambda>_. Inv env) (\<lambda>_. Inv env)"
    if scope: "gw_Meta (gs_original scope) = gw_Meta (gs_gateway scope)" "validBinding env (gs_gateway scope)" for scope outcome
  proof -
    have stored: "StoredGatewayIdentity (gv_Config env) (gw_Meta (gs_original scope)) = GatewayIdentity (gv_Config env) (gw_Meta (gs_gateway scope))"
      using scope stored_valid by metis
    have ready: "o_State outcome = OutcomeReady" if "mapErr (\<lambda>_. WrappedError PlainError) (Validate outcome) = Inr x" "o_State outcome \<noteq> OutcomeProgressing" for x
      using that by (cases "o_State outcome") (auto simp: Validate_def mapErr_eq_Inr split: if_splits)
    have "triple (?gone scope outcome) (releaseGateway env) (\<lambda>_. Inv env) (\<lambda>_. Inv env)" if "o_State outcome = OutcomeReady"
      by (rule triple_pre [OF releaseGateway_triple]) (use that stored in \<open>auto simp: released_def scopeIs_def gatewayGone_def\<close>)
    then show ?thesis unfolding validOutcome_def
      by (intro triple_bind_lift triple_if triple_return) (auto dest: ready)
  qed
  have failed: "keeps (Inv env) (if isError err UnsupportedVersionError then setGatewayUnsupportedVersion env
          else if isError err errGatewayChanged then throwA err else handleGatewayDeleteFailure env (WrappedError err))" for err
    by (intro keeping unsupported_keeps [OF assms] handleDelete_keeps [OF assms(2)])
  have body: "triple (\<lambda>s. Inv env s \<and> scopeIs scope s) (bindA (tryA (deleteGateway env (gs_gateway scope))) (\<lambda>r. case r of
        Inl err \<Rightarrow>
          if isError err UnsupportedVersionError then setGatewayUnsupportedVersion env
          else if isError err errGatewayChanged then throwA err
          else handleGatewayDeleteFailure env (WrappedError err)
      | Inr outcome \<Rightarrow>
          bindA (validOutcome outcome) (\<lambda>_.
          if o_State outcome = OutcomeProgressing
          then returnA (requeueAfter (ProviderProgressRequeueAfter outcome (om_UID (gw_Meta (gs_gateway scope)))))
          else releaseGateway env))) (\<lambda>_. Inv env) (\<lambda>_. Inv env)"
    if "gw_Meta (gs_original scope) = gw_Meta (gs_gateway scope)" "validBinding env (gs_gateway scope)" for scope
  proof (rule triple_bind [where R = "\<lambda>r s. case r of Inl _ \<Rightarrow> Inv env s | Inr outcome \<Rightarrow> ?gone scope outcome s"])
    show "triple (\<lambda>s. Inv env s \<and> scopeIs scope s) (tryA (deleteGateway env (gs_gateway scope)))
        (\<lambda>r s. case r of Inl _ \<Rightarrow> Inv env s | Inr outcome \<Rightarrow> ?gone scope outcome s) (\<lambda>_. Inv env)"
      by (rule triple_try) (use triple_both [OF deleteGateway_triple [OF assms(1)] deleteGateway_scope [OF assms(1)]] in simp)
  next
    fix r :: "rcError + Outcome"
    show "triple (\<lambda>s. case r of Inl _ \<Rightarrow> Inv env s | Inr outcome \<Rightarrow> ?gone scope outcome s) (case r of
        Inl err \<Rightarrow>
          if isError err UnsupportedVersionError then setGatewayUnsupportedVersion env
          else if isError err errGatewayChanged then throwA err
          else handleGatewayDeleteFailure env (WrappedError err)
      | Inr outcome \<Rightarrow>
          bindA (validOutcome outcome) (\<lambda>_.
          if o_State outcome = OutcomeProgressing
          then returnA (requeueAfter (ProviderProgressRequeueAfter outcome (om_UID (gw_Meta (gs_gateway scope)))))
          else releaseGateway env)) (\<lambda>_. Inv env) (\<lambda>_. Inv env)"
      using keepsD [OF failed] ok [OF that] by (cases r) simp_all
  qed
  show ?thesis
    unfolding cleanupBoundGateway_def theScope_def
  proof (rule triple_bind [OF triple_get [where Q = "\<lambda>scope s. (Inv env s \<and> scopeIs scope s) \<and> gw_Meta (gs_original scope) = gw_Meta (gs_gateway scope)"]])
    fix s :: "'a gatewayReconcileState"
    assume "Inv env s \<and> refreshed gateway s"
    then show "(Inv env s \<and> scopeIs (gt_scope s) s) \<and> gw_Meta (gs_original (gt_scope s)) = gw_Meta (gs_gateway (gt_scope s))"
      by (auto simp: refreshed_def scopeIs_def)
  qed (rule triple_fact, rule triple_bind_guard, rule body, auto)
qed

lemma cleanup_keeps:
  assumes "keyedGateways env" "conditionLaws (gv_conditions env)"
  shows "keeps (Inv env) (cleanupGateway env)"
proof -
  have found: "triple (steady env (\<lambda>log. readGateway log gateway)) (bindA (refresh gateway) (\<lambda>_.
            bindA theScope (\<lambda>scope. if \<not> bindingTraces env (gs_gateway scope) then returnA noResult else cleanupBoundGateway env))) (\<lambda>_. Inv env) (\<lambda>_. Inv env)" for gateway
    unfolding theScope_def
    by (rule triple_bind [OF refresh_triple], rule triple_bind [OF triple_get [where Q = "\<lambda>_ s. Inv env s \<and> refreshed gateway s"]], assumption)
      (auto intro!: triple_if triple_return cleanupBound_triple [OF assms])
  have read: "observing (tryA (getGateway env False expected)) (\<lambda>r es. \<forall>gateway. r = Inr gateway \<longrightarrow> readGateway es gateway)" for expected
    by (rule observing_weaken [OF observing_try [OF gateway_getGateway_observing [OF assms(1)]]]) auto
  have after: "triple (\<lambda>s. steady env (\<lambda>_. True) s \<and> (\<exists>prior. gt_log s = prior @ es)) (case r of
        Inl e \<Rightarrow> if IsNotFoundError e then bindA skipGatewayPatch (\<lambda>_. returnA noResult) else throwA e
      | Inr gateway \<Rightarrow>
          if om_ResourceVersion m \<noteq> [] \<and> om_ResourceVersion (gw_Meta gateway) \<noteq> om_ResourceVersion m then throwA ConflictError
          else bindA (refresh gateway) (\<lambda>_.
            bindA theScope (\<lambda>scope.
            if \<not> bindingTraces env (gs_gateway scope) then returnA noResult else cleanupBoundGateway env))) (\<lambda>_. Inv env) (\<lambda>_. Inv env)"
    if "\<forall>gateway. r = Inr gateway \<longrightarrow> readGateway es gateway" for r es m
  proof (cases r)
    case (Inl e)
    have "keeps (Inv env) (if IsNotFoundError e then bindA skipGatewayPatch (\<lambda>_. returnA noResult) else throwA e)"
      unfolding Inv_steady by (intro keeping)
    then show ?thesis unfolding Inl sum.case Inv_steady [symmetric] by (intro triple_pre [OF keepsD]) auto
  next
    case (Inr gateway)
    have "triple (\<lambda>s. steady env (\<lambda>_. True) s \<and> (\<exists>prior. gt_log s = prior @ es)) (bindA (refresh gateway) (\<lambda>_.
            bindA theScope (\<lambda>scope. if \<not> bindingTraces env (gs_gateway scope) then returnA noResult else cleanupBoundGateway env))) (\<lambda>_. Inv env) (\<lambda>_. Inv env)"
      by (rule triple_pre [OF found]) (use that Inr in \<open>auto simp: steady_def intro: gateway_saw_mono\<close>)
    then show ?thesis unfolding Inr sum.case by (intro triple_if triple_throw) (auto simp: steady_def)
  qed
  show ?thesis
    unfolding cleanupGateway_def theScope_def [symmetric] Let_def
    apply (rule keepsI)
    apply (rule triple_bind [OF keepsD], subst Inv_steady, rule scope_keeps(1))
    apply (subst Inv_steady)
    apply (rule observe_steady [OF read growing_const after], assumption)
    apply (simp add: steady_def)
    done
qed

section \<open>Binding a Gateway\<close>

lemma bound_mayPatch:
  assumes "finalizerLaws (gv_finalizers env)" "validBinding env base"
  shows "mayPatch env log base (base\<lparr>gw_Meta := applyGatewayBinding (gv_finalizers env) (gv_Config env) port (gw_Meta base)\<rparr>)"
proof -
  let ?m = "applyGatewayBinding (gv_finalizers env) (gv_Config env) port (gw_Meta base)"
  have "hasGatewayFinalizer env (base\<lparr>gw_Meta := ?m\<rparr>)"
    by (simp add: hasGatewayFinalizer_def finalizerLaws_rules(1,2) [OF assms(1)] applyGatewayBinding_def)
  moreover have "StoredGatewayIdentity (gv_Config env) ?m = GatewayIdentity (gv_Config env) (gw_Meta base)"
    using sameButFinalizers_fields [OF finalizerLaws_rules(4) [OF assms(1)]] keys_distinct [of "gv_Config env"]
    by (simp add: StoredGatewayIdentity_def GatewayIdentity_def applyGatewayBinding_def annotation_def Let_def)
  ultimately show ?thesis by (simp add: mayPatch_def stored_valid [OF assms(2)])
qed

lemma bindGateway_keeps:
  assumes "keyedGateways env" "finalizerLaws (gv_finalizers env)"
  shows "keeps (Inv env) (bindGateway env expected port)"
proof -
  have seal: "keeps (steady env (\<lambda>_. True)) (sealGatewayMutationSnapshot env snapshot)" for snapshot
    by (rule observing_steady [OF gateway_seal_observing [OF assms(1)] growing_const])
  have patch: "keeps (steady env (\<lambda>_. True)) (patchMetadata env base (base\<lparr>gw_Meta := applyGatewayBinding (gv_finalizers env) (gv_Config env) port (gw_Meta base)\<rparr>))"
    if "validBinding env base" for base
    by (rule calls_steady [OF calls_facts(1) growing_const]) (simp add: justified_def bound_mayPatch [OF assms(2) that])
  have snap: "observing (observeGatewayMutationSnapshot env expected gatewayBindingOptional port) (\<lambda>snapshot _. validBinding env (mu_gateway snapshot))"
    by (rule observing_weaken [OF gateway_snapshot_observing [OF assms(1)]]) (simp add: snapshotOK_def Let_def)
  show ?thesis
    unfolding bindGateway_def Inv_steady Let_def
    by (rule keeps_observed [OF snap growing_const], intro keeping seal patch)
qed

section \<open>A reconciliation\<close>

lemma gateway_checkpoint_keeps:
  assumes "keyedGateways env" "conditionLaws (gv_conditions env)"
  shows "keeps (Inv env) (cleanupGatewayAfterStatusCheckpoint env)"
proof -
  have "keeps (Inv env) theScope" unfolding Inv_steady by (rule scope_keeps)
  then show ?thesis unfolding cleanupGatewayAfterStatusCheckpoint_def by (intro keeping cleanup_keeps [OF assms])
qed

lemma unclaimed_keeps: "(\<And>gateway. \<not> claimsProgrammed env (f gateway)) \<Longrightarrow> keeps (Inv env) (changeGateway f)"
  unfolding Inv_steady by (rule changeGateway_steady, rule unclaimed_publish)

lemma rejected_keeps:
  assumes "keyedGateways env" "conditionLaws (gv_conditions env)"
  shows "keeps (Inv env) (reconcileRejectedGateway env decision)"
  unfolding reconcileRejectedGateway_def Let_def
  by (rule keeps_bind [OF _ gateway_checkpoint_keeps [OF assms]], cases "gd_phase decision")
    (simp_all add: keeps_pure unclaimed_keeps unclaimed [OF assms(2)])

lemma replacement_keeps:
  assumes "keyedGateways env" "conditionLaws (gv_conditions env)"
  shows "keeps (Inv env) (reconcileGatewayReplacement env listener)"
proof -
  have "keeps (Inv env) (countAttachedRoutes env listener)" unfolding Inv_steady by (intro keeping growing_const)
  then show ?thesis unfolding reconcileGatewayReplacement_def
    by (intro keeping gateway_checkpoint_keeps [OF assms] unclaimed_keeps) (simp_all add: setGatewayProgressing_def unclaimed [OF assms(2)])
qed

lemma publish_triple:
  assumes "conditionLaws (gv_conditions env)"
  shows "triple (\<lambda>s. Inv env s \<and> ensured r (gt_log s)) (publishGatewayResult env listener r) (\<lambda>_. Inv env) (\<lambda>_. Inv env)"
proof -
  have grow: "growing (ensured r)" by (auto simp: growing_def ensured_def readyWith_def)
  have wait: "keeps (steady env (ensured r)) (changeGateway (setGatewayProgressing (gv_conditions env) listener n msg))" for n msg
    by (rule changeGateway_steady, rule unclaimed_publish) (simp add: setGatewayProgressing_def unclaimed [OF assms])
  have done_: "keeps (steady env (ensured r)) (changeGateway (setGatewayProgrammed (gv_conditions env) listener n (gres_State r)))"
    if "o_State (gres_Outcome r) \<noteq> OutcomeProgressing" for n
    by (rule changeGateway_steady, rule programmed_publish) (use that in \<open>simp add: ensured_def\<close>)
  have "keeps (steady env (ensured r)) (publishGatewayResult env listener r)"
    unfolding publishGatewayResult_def Let_def
    by (cases "o_State (gres_Outcome r) = OutcomeProgressing"; simp; intro keeping wait done_ grow; simp)
  then show ?thesis by (auto intro: triple_conseq [OF keepsD] simp: steady_def)
qed

lemma graph_keeps:
  assumes "keyedGateways env" "conditionLaws (gv_conditions env)"
  shows "keeps (Inv env) (reconcileGatewayGraph env listener)"
proof -
  have failed: "keeps (Inv env) (if isError err UnsupportedVersionError then setGatewayUnsupportedVersion env
          else if isError err errGatewayChanged then throwA err else handleGatewayProviderFailure env listener err)" for err
    by (intro keeping unsupported_keeps [OF assms] handleProvider_keeps [OF assms(2)])
  have graph: "triple (Inv env) (tryA (ensureGateway env gateway)) (\<lambda>r s. case r of Inl _ \<Rightarrow> Inv env s | Inr result \<Rightarrow> Inv env s \<and> ensured result (gt_log s)) (\<lambda>_. Inv env)" for gateway
    by (rule triple_try) (simp add: ensureGateway_triple [OF assms(1)])
  have rest: "triple (\<lambda>s. case r of Inl _ \<Rightarrow> Inv env s | Inr result \<Rightarrow> Inv env s \<and> ensured result (gt_log s)) (case r of
        Inl err \<Rightarrow> if isError err UnsupportedVersionError then setGatewayUnsupportedVersion env
          else if isError err errGatewayChanged then throwA err else handleGatewayProviderFailure env listener err
      | Inr result \<Rightarrow> publishGatewayResult env listener result) (\<lambda>_. Inv env) (\<lambda>_. Inv env)" for r
    using keepsD [OF failed] publish_triple [OF assms(2)] by (cases r) simp_all
  show ?thesis
    unfolding reconcileGatewayGraph_def theScope_def
    by (rule keepsI, rule triple_bind [OF triple_get [where Q = "\<lambda>_. Inv env"]], assumption, rule triple_bind [OF graph rest])
qed

lemma normal_keeps:
  assumes "keyedGateways env" "conditionLaws (gv_conditions env)" "finalizerLaws (gv_finalizers env)"
  shows "keeps (Inv env) (reconcileNormal env)"
proof -
  have scope: "keeps (Inv env) theScope" unfolding Inv_steady by (rule scope_keeps)
  have binding: "keeps (Inv env) (reconcileGatewayBinding env port)" for port
    unfolding reconcileGatewayBinding_def
    by (intro keeping scope bindGateway_keeps [OF assms(1,3)] unsupported_keeps [OF assms(1,2)])
  show ?thesis
    unfolding reconcileNormal_def Let_def
  proof (rule keeps_bind [OF scope])
    fix scope :: gatewayScope
    show "keeps (Inv env) (case gd_phase (decideGatewayPhase env scope) of
        gatewayPhaseIgnore \<Rightarrow> returnA noResult
      | gatewayPhaseCleanupUnmanaged \<Rightarrow> cleanupGateway env
      | gatewayPhaseUnsupportedVersion \<Rightarrow> setGatewayUnsupportedVersion env
      | gatewayPhaseInvalidBinding \<Rightarrow>
          bindA (changeGateway (setGatewayFailureReason (gv_conditions env) ''InvalidParameters'' (ve_message (the (gd_validation (decideGatewayPhase env scope)))))) (\<lambda>_.
          returnA noResult)
      | gatewayPhaseUnsupportedParameters \<Rightarrow> reconcileRejectedGateway env (decideGatewayPhase env scope)
      | gatewayPhaseInvalidSpec \<Rightarrow> reconcileRejectedGateway env (decideGatewayPhase env scope)
      | gatewayPhaseReplaceGraph \<Rightarrow> reconcileGatewayReplacement env (the (gd_listener (decideGatewayPhase env scope)))
      | gatewayPhaseBind \<Rightarrow> reconcileGatewayBinding env (gd_listenerPort (decideGatewayPhase env scope))
      | gatewayPhaseEnsure \<Rightarrow> reconcileGatewayGraph env (the (gd_listener (decideGatewayPhase env scope))))"
      by (cases "gd_phase (decideGatewayPhase env scope)")
        (simp_all add: keeps_pure keeps_bind cleanup_keeps [OF assms(1,2)] unsupported_keeps [OF assms(1,2)] rejected_keeps [OF assms(1,2)]
          replacement_keeps [OF assms(1,2)] graph_keeps [OF assms(1,2)] binding unclaimed_keeps unclaimed [OF assms(2)])
  qed
qed

text \<open>The deferred patch publishes what the scope may publish; afterwards the scope holds whatever the server returned.\<close>

lemma recordWarnings_lawful: "keeps (\<lambda>s. lawful env (gt_log s)) (recordGatewayWarnings env warnings)"
proof (induction warnings)
  case (Cons warning warnings)
  have "keeps (\<lambda>s. lawful env (gt_log s)) (recordGatewayWarning env warning)"
    unfolding recordGatewayWarning_def
    by (rule keeps_cases(1) [OF keeps_pure(1)], rule keepsI, rule triple_modify) (simp add: lawful_snoc justified_def)
  then show ?case using Cons by (simp add: keeps_bind)
qed (simp add: keeps_pure)

lemma patchGateway_lawful: "triple (Inv env) (patchGateway env) (\<lambda>_ s. lawful env (gt_log s)) (\<lambda>_ s. lawful env (gt_log s))"
proof -
  let ?L = "\<lambda>s. lawful env (gt_log s)"
  have weak: "Inv env s \<Longrightarrow> ?L s" for s by (simp add: Inv_def)
  have change: "keeps ?L (changeGatewayScope f)" for f :: "gatewayScope \<Rightarrow> gatewayScope"
    unfolding changeGatewayScope_def by (rule keepsI, rule triple_modify) simp
  have patch: "triple (\<lambda>s. Inv env s \<and> gt_scope s = scope) (bindA (failingAs WrappedError (patchGatewayStatus env base (gs_gateway scope))) (\<lambda>patched.
           changeGatewayScope (\<lambda>scope. scope\<lparr>gs_gateway := patched, gs_original := patched\<rparr>))) (\<lambda>_. ?L) (\<lambda>_. ?L)" for scope base
  proof (rule triple_bind [where R = "\<lambda>_. ?L"])
    show "triple (\<lambda>s. Inv env s \<and> gt_scope s = scope) (failingAs WrappedError (patchGatewayStatus env base (gs_gateway scope))) (\<lambda>_. ?L) (\<lambda>_. ?L)"
      by (rule triple_failingAs, rule triple_conseq [OF calls_triple [where P = "\<lambda>s. Inv env s \<and> gt_scope s = scope", OF calls_facts(2)]])
        (auto simp: justified_def Inv_def fitting_def)
  qed (rule keepsD [OF change])
  show ?thesis
    unfolding patchGateway_def theScope_def Let_def
    apply (rule triple_bind [OF triple_get [where Q = "\<lambda>scope s. Inv env s \<and> gt_scope s = scope"]], simp)
    apply (rule triple_if, rule triple_return, simp add: weak)
    apply (rule triple_bind [where R = "\<lambda>_. ?L"])
     apply (rule triple_if, rule patch, rule triple_return, simp add: weak)
    apply (rule keepsD, intro keeping change recordWarnings_lawful)
    done
qed

lemma withGatewayPatch_lawful:
  assumes "keeps (Inv env) m"
  shows "triple (Inv env) (withGatewayPatch env m) (\<lambda>_ s. lawful env (gt_log s)) (\<lambda>_ s. lawful env (gt_log s))"
proof -
  let ?L = "\<lambda>s. lawful env (gt_log s)"
  have body: "triple (Inv env) (tryA m) (\<lambda>_. Inv env) (\<lambda>_. ?L)" by (rule triple_try) (use keepsD [OF assms] in simp)
  have patch: "triple (Inv env) (tryA (patchGateway env)) (\<lambda>_. ?L) (\<lambda>_. ?L)" by (rule triple_try) (rule patchGateway_lawful)
  show ?thesis unfolding withGatewayPatch_def theScope_def
    by (rule triple_bind [OF body], rule triple_bind [OF triple_get [where Q = "\<lambda>_. Inv env"]], assumption, rule triple_bind [OF patch])
      (rule keepsD, intro keeping)
qed

lemma newGatewayScope_observing:
  "observing (newGatewayScope env namespace name) (\<lambda>found es. \<forall>scope. found = Some scope \<longrightarrow> readGateway es (gs_gateway scope))"
proof -
  have class_read: "observing (getGatewayClass env gateway) (\<lambda>_ _. True)" for gateway
    unfolding getGatewayClass_def
    by (rule observing_bind [OF observing_try [OF getClass_observing]]) (auto intro!: observations split: sum.splits)
  show ?thesis
    unfolding newGatewayScope_def
    apply (rule observing_bind [where Q = "\<lambda>reader es. es = [ReadCluster False reader]"], rule gateway_observing_reader, simp)
    subgoal premises es for reader es
    proof (cases "rd_Gateway reader namespace name")
      case (Inl e)
      then show ?thesis by (cases e) (auto intro: observing_return observing_throw)
    next
      case (Inr gateway)
      have "readGateway es gateway" "readGateway (es @ fs) gateway" for fs using Inr es by (auto simp: readGateway_def)
      then show ?thesis unfolding Inr sum.case
        by (intro observing_cases(1) observing_return observing_bind [OF class_read])
          (auto simp: newScopeOf_def case_prod_beta intro!: observing_return)
    qed
    done
qed

lemma scoped_lawful:
  assumes "keyedGateways env" "conditionLaws (gv_conditions env)" "finalizerLaws (gv_finalizers env)"
  shows "triple (\<lambda>s. lawful env (gt_log s) \<and> readGateway (gt_log s) (gs_gateway scope))
    (bindA (changeGatewayScope (\<lambda>_. scope)) (\<lambda>_.
       withGatewayPatch env (if om_Deleting (gw_Meta (gs_gateway scope)) then reconcileDelete env else reconcileNormal env)))
    (\<lambda>_ s. lawful env (gt_log s)) (\<lambda>_ s. lawful env (gt_log s))"
proof -
  have delete: "keeps (Inv env) (reconcileDelete env)"
    unfolding reconcileDelete_def by (intro keeping cleanup_keeps [OF assms(1,2)])
  show ?thesis unfolding changeGatewayScope_def
    by (rule triple_bind [OF triple_modify withGatewayPatch_lawful [OF keeps_cases(1) [OF delete normal_keeps [OF assms]]]])
      (auto simp: Inv_def fitting_def readGateway_publish)
qed

lemma gateway_Reconcile_lawful:
  assumes "keyedGateways env" "conditionLaws (gv_conditions env)" "finalizerLaws (gv_finalizers env)"
    and "gt_log s = []" "Reconcile env namespace name s = (r, s')"
  shows "lawful env (gt_log s')"
proof -
  obtain q s1 where scope: "newGatewayScope env namespace name s = (q, s1)" by fastforce
  obtain es where es: "gt_log s1 = es" "list_all isClusterRead es" "\<forall>x. q = Inr x \<longrightarrow> (\<forall>scope. x = Some scope \<longrightarrow> readGateway es (gs_gateway scope))"
    using observingD [OF newGatewayScope_observing scope] assms(4) by (metis append_Nil)
  then have law: "lawful env (gt_log s1)" using lawful_reads [of es env "[]"] by (simp add: lawful_Nil)
  consider (failed) e where "q = Inl e" | (none) "q = Inr None" | (found) sc where "q = Inr (Some sc)"
    by (metis sum.exhaust option.exhaust)
  then show ?thesis
  proof cases
    case (found sc)
    then have "bindA (changeGatewayScope (\<lambda>_. sc)) (\<lambda>_.
       withGatewayPatch env (if om_Deleting (gw_Meta (gs_gateway sc)) then reconcileDelete env else reconcileNormal env)) s1 = (r, s')"
      using assms(5) scope by (simp add: Reconcile_def bindA_def)
    moreover have "lawful env (gt_log s1) \<and> readGateway (gt_log s1) (gs_gateway sc)" using law es found by auto
    ultimately show ?thesis
      using triple_ok [OF scoped_lawful [OF assms(1-3)]] triple_error [OF scoped_lawful [OF assms(1-3)]] by (cases r) blast+
  qed (use assms(5) scope law in \<open>auto simp: Reconcile_def bindA_def returnA_def\<close>)
qed

lemma gateway_Reconcile_justified:
  assumes "keyedGateways env" "conditionLaws (gv_conditions env)" "finalizerLaws (gv_finalizers env)"
    and "gt_log s = []" "Reconcile env namespace name s = (r, s')" "gt_log s' = prior @ e # later"
  shows "justified env prior e"
  using gateway_Reconcile_lawful [OF assms(1-5)] assms(6) by (simp add: lawful_def)

end
