(* ===== verification/GatewayRuns.thy ===== *)
theory GatewayRuns
  imports GatewaySafety
begin

text \<open>
  Whole reconciliations of a Gateway in a cluster that answers every read the same way: a Gateway without a binding is bound first, a
  bound Gateway is created and published, and a deleted Gateway is cleaned up and released. The effects of each
  reconciliation are determined exactly.
\<close>

section \<open>A settled cluster\<close>

lemma gateway_effects [simp]:
  "effects [AcquiredLock uid] = [AcquiredLock uid]" "effects [ReleasedLock uid] = [ReleasedLock uid]"
  "effects [CalledDeleteGateway i r] = [CalledDeleteGateway i r]" "effects [CalledEnsureGateway spec q] = [CalledEnsureGateway spec q]"
  "effects [PatchedGateway base desired p] = [PatchedGateway base desired p]"
  "effects [PatchedGatewayStatus base desired p] = [PatchedGatewayStatus base desired p]"
  by (simp_all add: effects_def isClusterRead_def)

text \<open>Every read is answered by the same reader, locks are free, and a patch is stored as it is.\<close>

definition settledReads :: "'w gatewayEnv \<Rightarrow> apiReader \<Rightarrow> bool" where
  "settledReads env reader \<longleftrightarrow> (\<forall>live w. gv_read env live w = (reader, w))"

definition cooperates :: "'w gatewayEnv \<Rightarrow> bool" where
  "cooperates env \<longleftrightarrow> gv_hasAPIReader env \<and> (\<forall>uid w. fst (gv_acquire env uid w)) \<and>
     (\<forall>base desired w. fst (gv_patch env base desired w) = Inr desired) \<and> (\<forall>base desired w. fst (gv_patchStatus env base desired w) = Inr desired)"

definition findsGateway :: "apiReader \<Rightarrow> Gateway \<Rightarrow> bool" where
  "findsGateway reader gateway \<longleftrightarrow> rd_Gateway reader (om_Namespace (gw_Meta gateway)) (om_Name (gw_Meta gateway)) = Inr gateway"

lemma quiet_cluster: "settledReads env reader \<Longrightarrow> quiet (readCluster env live) (Inr reader)"
  by (simp add: quiet_def settledReads_def readCluster_def isClusterRead_def effects_def)

lemma quiet_gateway: "settledReads env reader \<Longrightarrow> findsGateway reader gateway \<Longrightarrow> quiet (getGateway env live gateway) (Inr gateway)"
  unfolding getGateway_def by (rule quiet_bind [OF quiet_cluster], assumption) (use quiet_units(3) [of "mapErr readErrorOf (Inr gateway)"] in \<open>simp add: findsGateway_def\<close>)

lemma quiet_class: "settledReads env reader \<Longrightarrow> rd_GatewayClass reader name = Inr gatewayClass \<Longrightarrow> quiet (getClass env live name) (Inr gatewayClass)"
  unfolding getClass_def by (rule quiet_bind [OF quiet_cluster], assumption) (use quiet_units(3) [of "mapErr readErrorOf (Inr gatewayClass)"] in simp)

lemma quiet_version:
  "settledReads env reader \<Longrightarrow> ValidateInstalledGatewayAPIVersion (gv_consts env) (Some reader) = Inr () \<Longrightarrow> quiet (validateVersion env) (Inr ())"
  unfolding validateVersion_def by (rule quiet_bind [OF quiet_cluster], assumption) (use quiet_units(3) [of "mapErr versionErrorOf (Inr ())"] in simp)

section \<open>Calls that succeed\<close>

lemma patchMetadata_run:
  assumes "cooperates env"
  obtains s1 where "patchMetadata env base desired s = (Inr desired, s1)" "gt_scope s1 = gt_scope s"
    "effects (gt_log s1) = effects (gt_log s) @ [PatchedGateway base desired (Inr desired)]"
proof -
  obtain w where "gv_patch env base desired (gt_world s) = (Inr desired, w)" using assms unfolding cooperates_def by (metis prod.collapse)
  then show thesis by (intro that [of "s\<lparr>gt_world := w, gt_log := gt_log s @ [PatchedGateway base desired (Inr desired)]\<rparr>"]) (simp_all add: patchMetadata_def)
qed

lemma patchStatus_run:
  assumes "cooperates env"
  obtains s1 where "patchGatewayStatus env base desired s = (Inr desired, s1)" "gt_scope s1 = gt_scope s"
    "effects (gt_log s1) = effects (gt_log s) @ [PatchedGatewayStatus base desired (Inr desired)]"
proof -
  obtain w where "gv_patchStatus env base desired (gt_world s) = (Inr desired, w)" using assms unfolding cooperates_def by (metis prod.collapse)
  then show thesis
    by (intro that [of "s\<lparr>gt_world := w, gt_log := gt_log s @ [PatchedGatewayStatus base desired (Inr desired)]\<rparr>"]) (simp_all add: patchGatewayStatus_def)
qed

lemma withLock_run:
  assumes "cooperates env" "\<And>s1. \<exists>s2. m s1 = (r, s2) \<and> gt_scope s2 = gt_scope s1 \<and> effects (gt_log s2) = effects (gt_log s1) @ es"
  shows "\<exists>s2. withLock env uid m s = (r, s2) \<and> gt_scope s2 = gt_scope s \<and> effects (gt_log s2) = effects (gt_log s) @ AcquiredLock uid # es @ [ReleasedLock uid]"
proof -
  obtain w where "gv_acquire env uid (gt_world s) = (True, w)" using assms(1) unfolding cooperates_def by (metis (full_types) prod.collapse)
  then have acquired: "acquireLock env uid s = (Inr (), s\<lparr>gt_world := w, gt_log := gt_log s @ [AcquiredLock uid]\<rparr>)" (is "_ = (_, ?s1)")
    by (simp add: acquireLock_def)
  obtain s2 where "m ?s1 = (r, s2)" "gt_scope s2 = gt_scope ?s1" "effects (gt_log s2) = effects (gt_log ?s1) @ es" using assms(2) by blast
  then show ?thesis
    by (intro exI [of _ "releaseLock env uid s2"]) (simp add: withLock_def bindA_def acquired deferA_def releaseLock_def)
qed

section \<open>A deleted Gateway\<close>

definition deletesGateway :: "'w gatewayEnv \<Rightarrow> Identity \<Rightarrow> Outcome \<Rightarrow> bool" where
  "deletesGateway env i outcome \<longleftrightarrow> (\<forall>w. fst (gv_DeleteGateway env i w) = Inr outcome) \<and> Validate outcome = Inr () \<and> o_State outcome = OutcomeReady"

abbreviation storedIdentity :: "'w gatewayEnv \<Rightarrow> Gateway \<Rightarrow> Identity" where
  "storedIdentity env gateway \<equiv> StoredGatewayIdentity (gv_Config env) (gw_Meta gateway)"

definition releasedGateway :: "'w gatewayEnv \<Rightarrow> Gateway \<Rightarrow> Gateway" where
  "releasedGateway env gateway = gateway\<lparr>gw_Meta := copyGatewayOwnedMetadata (gv_finalizers env) (gv_Config env) (gw_Meta gateway)
     (gw_Meta (removeGatewayBinding (gv_finalizers env) (gv_Config env) gateway))\<rparr>"

lemma deleteGateway_run:
  assumes "settledReads env reader" "cooperates env" "findsGateway reader gateway" "om_Deleting (gw_Meta gateway)" "validBinding env gateway"
    and "deletesGateway env (storedIdentity env gateway) outcome"
  shows "\<exists>s'. deleteGateway env gateway s = (Inr outcome, s') \<and> gt_scope s' = gt_scope s \<and>
    effects (gt_log s') = effects (gt_log s) @ [AcquiredLock (om_UID (gw_Meta gateway)), CalledDeleteGateway (storedIdentity env gateway) (Inr outcome),
      ReleasedLock (om_UID (gw_Meta gateway))]"
proof -
  let ?i = "storedIdentity env gateway"
  let ?S = "\<lparr>cu_identity = ?i, cu_disposition = gatewayCleanupDelete\<rparr>"
  have snapshot: "quiet (observeGatewayCleanupSnapshot env gateway) (Inr ?S)"
    unfolding observeGatewayCleanupSnapshot_def Let_def
    by (intro quiet_bind_guard quiet_bind [OF quiet_failingAs [OF quiet_gateway [OF assms(1,3)]]])
      (use assms(2,4,5) in \<open>auto simp: cooperates_def intro!: quiet_bind quiet_units\<close>)
  have "\<exists>s2. (bindA (observeGatewayCleanupSnapshot env gateway) (\<lambda>snapshot.
       bindA (guardA (cu_disposition snapshot = gatewayCleanupDelete) errGatewayChanged) (\<lambda>_.
       callDeleteGateway env (cu_identity snapshot)))) s1 = (Inr outcome, s2) \<and>
      gt_scope s2 = gt_scope s1 \<and> effects (gt_log s2) = effects (gt_log s1) @ [CalledDeleteGateway ?i (Inr outcome)]" for s1
  proof -
    obtain s2 where s2: "observeGatewayCleanupSnapshot env gateway s1 = (Inr ?S, s2)" "gt_scope s2 = gt_scope s1" "effects (gt_log s2) = effects (gt_log s1)"
      by (rule quiet_run [OF snapshot])
    obtain w where "gv_DeleteGateway env ?i (gt_world s2) = (Inr outcome, w)" using assms(6) unfolding deletesGateway_def by (metis prod.collapse)
    with s2 show ?thesis by (simp add: bindA_def [of "observeGatewayCleanupSnapshot env gateway"] guard_run callDeleteGateway_def)
  qed
  from withLock_run [OF assms(2) this, of "om_UID (gw_Meta gateway)" s] show ?thesis
    using assms(2) by (simp add: deleteGateway_def guard_run cooperates_def)
qed

lemma fold_copy_fields:
  "om_Deleting (fold (copyAnnotation desired) keys m) = om_Deleting m" "om_Finalizers (fold (copyAnnotation desired) keys m) = om_Finalizers m"
  by (induction keys arbitrary: m) (simp_all add: copyAnnotation_def)

lemma removed_finalizers:
  assumes "finalizerLaws (gv_finalizers env)"
  shows "\<not> hasGatewayFinalizer env (removeGatewayBinding (gv_finalizers env) (gv_Config env) gateway)"
  by (simp add: hasGatewayFinalizer_def removeGatewayBinding_def Let_def finalizerLaws_rules(1,3) [OF assms])

lemma releasedGateway_fields:
  assumes "finalizerLaws (gv_finalizers env)"
  shows "om_Deleting (gw_Meta (releasedGateway env gateway)) = om_Deleting (gw_Meta gateway)" "\<not> hasGatewayFinalizer env (releasedGateway env gateway)"
  using removed_finalizers [OF assms, of gateway] sameButFinalizers_fields(6) [OF finalizerLaws_rules(5) [OF assms]]
  by (simp_all add: releasedGateway_def copyGatewayOwnedMetadata_def fold_copy_fields hasGatewayFinalizer_def finalizerLaws_rules(1,3) [OF assms])

lemma releaseGateway_run:
  assumes "cooperates env" "finalizerLaws (gv_finalizers env)" "om_Deleting (gw_Meta gateway)" "hasGatewayFinalizer env gateway"
    and "gs_gateway (gt_scope s) = gateway" "gs_original (gt_scope s) = gateway"
  shows "\<exists>s'. releaseGateway env s = (Inr noResult, s') \<and> gs_skipPatch (gt_scope s') \<and>
    effects (gt_log s') = effects (gt_log s) @ [PatchedGateway gateway (releasedGateway env gateway) (Inr (releasedGateway env gateway))]"
proof -
  let ?k = "gv_finalizers env" and ?c = "gv_Config env" and ?new = "releasedGateway env gateway"
  let ?removed = "removeGatewayBinding ?k ?c gateway"
  let ?s1 = "s\<lparr>gt_scope := (gt_scope s)\<lparr>gs_gateway := ?removed\<rparr>\<rparr>"
  have changed: "gatewayOwnedMetadataChanged ?k ?c (gw_Meta gateway) (gw_Meta ?removed)"
    using assms(4) removed_finalizers [OF assms(2), of gateway] by (simp add: gatewayOwnedMetadataChanged_def hasGatewayFinalizer_def)
  obtain s2 where s2: "patchMetadata env gateway ?new ?s1 = (Inr ?new, s2)" "gt_scope s2 = gt_scope ?s1"
    "effects (gt_log s2) = effects (gt_log ?s1) @ [PatchedGateway gateway ?new (Inr ?new)]" by (rule patchMetadata_run [OF assms(1)])
  let ?s3 = "s2\<lparr>gt_scope := (gt_scope s2)\<lparr>gs_gateway := withStatus ?new (gs_gateway (gt_scope s2)), gs_original := ?new\<rparr>\<rparr>"
  have metadata: "patchGatewayMetadata env ?s1 = (Inr (), ?s3)"
    using changed s2(1) assms(6)
    by (simp add: patchGatewayMetadata_def bindA_def theScope_def getA_def failingAs_def tryA_def liftA_def changeGatewayScope_def modifyA_def releasedGateway_def Let_def)
  have "om_Deleting (gw_Meta (gs_gateway (gt_scope ?s3)))"
    using releasedGateway_fields(1) [OF assms(2)] assms(3) by (simp add: withStatus_def)
  then have "releaseGateway env s = (Inr noResult, ?s3\<lparr>gt_scope := (gt_scope ?s3)\<lparr>gs_skipPatch := True\<rparr>\<rparr>)"
    using metadata assms(5)
    by (simp add: releaseGateway_def bindA_def changeGateway_def changeGatewayScope_def modifyA_def tryA_def returnA_def theScope_def getA_def skipGatewayPatch_def)
  then show ?thesis using s2(3) by auto
qed

lemma cleanup_run:
  assumes "settledReads env reader" "cooperates env" "finalizerLaws (gv_finalizers env)" "findsGateway reader gateway"
    and "om_Deleting (gw_Meta gateway)" "hasGatewayFinalizer env gateway" "validBinding env gateway"
    and "deletesGateway env (storedIdentity env gateway) outcome" "gt_scope s = newScopeOf gateway"
  shows "\<exists>s'. cleanupGateway env s = (Inr noResult, s') \<and> gs_skipPatch (gt_scope s') \<and>
    effects (gt_log s') = effects (gt_log s) @ [AcquiredLock (om_UID (gw_Meta gateway)), CalledDeleteGateway (storedIdentity env gateway) (Inr outcome),
      ReleasedLock (om_UID (gw_Meta gateway)), PatchedGateway gateway (releasedGateway env gateway) (Inr (releasedGateway env gateway))]"
proof -
  obtain s1 where s1: "getGateway env False gateway s = (Inr gateway, s1)" "gt_scope s1 = gt_scope s" "effects (gt_log s1) = effects (gt_log s)"
    by (rule quiet_run [OF quiet_gateway [OF assms(1,4)]])
  have scope: "gs_gateway (gt_scope s1) = gateway" "gs_original (gt_scope s1) = gateway" "\<not> statusChanged (gt_scope s1)"
    using s1(2) assms(9) by (simp_all add: newScopeOf_def statusChanged_def)
  have same: "s1\<lparr>gt_scope := (gt_scope s1)\<lparr>gs_gateway := gateway, gs_original := gateway\<rparr>\<rparr> = s1"
    using scope by (cases s1) simp
  have refreshed: "refresh gateway s1 = (Inr (), s1)"
    using scope(3) same by (simp add: refresh_def bindA_def theScope_def getA_def guardA_def guardE_def liftA_def changeGatewayScope_def modifyA_def)
  obtain s2 where s2: "deleteGateway env gateway s1 = (Inr outcome, s2)" "gt_scope s2 = gt_scope s1"
    "effects (gt_log s2) = effects (gt_log s1) @ [AcquiredLock (om_UID (gw_Meta gateway)), CalledDeleteGateway (storedIdentity env gateway) (Inr outcome),
      ReleasedLock (om_UID (gw_Meta gateway))]" using deleteGateway_run [OF assms(1,2,4,5,7,8)] by blast
  obtain s3 where s3: "releaseGateway env s2 = (Inr noResult, s3)" "gs_skipPatch (gt_scope s3)"
    "effects (gt_log s3) = effects (gt_log s2) @ [PatchedGateway gateway (releasedGateway env gateway) (Inr (releasedGateway env gateway))]"
    using releaseGateway_run [OF assms(2,3,5,6), of s2] scope s2(2) by auto
  have "cleanupBoundGateway env s1 = (Inr noResult, s3)"
    using s2(1) s3(1) scope assms(7,8)
    by (simp add: cleanupBoundGateway_def bindA_def theScope_def getA_def guardA_def guardE_def liftA_def tryA_def validOutcome_def deletesGateway_def)
  then have "cleanupGateway env s = (Inr noResult, s3)"
    using s1(1) scope refreshed assms(6,9)
    by (simp add: cleanupGateway_def bindA_def theScope_def getA_def tryA_def Let_def bindingTraces_def newScopeOf_def)
  with s1 s2 s3 show ?thesis by auto
qed

lemma withGatewayPatch_skipped:
  assumes "m s = (r, s')" "gs_skipPatch (gt_scope s')"
  shows "withGatewayPatch env m s = (r, s')"
  using assms by (simp add: withGatewayPatch_def bindA_def tryA_def theScope_def getA_def patchGateway_def returnA_def liftA_def)

lemma gateway_deletion_run:
  assumes "settledReads env reader" "cooperates env" "finalizerLaws (gv_finalizers env)" "findsGateway reader gateway"
    and "om_Deleting (gw_Meta gateway)" "hasGatewayFinalizer env gateway" "validBinding env gateway"
    and "deletesGateway env (storedIdentity env gateway) outcome"
  shows "\<exists>s'. Reconcile env (om_Namespace (gw_Meta gateway)) (om_Name (gw_Meta gateway)) s = (Inr noResult, s') \<and>
    effects (gt_log s') = effects (gt_log s) @ [AcquiredLock (om_UID (gw_Meta gateway)), CalledDeleteGateway (storedIdentity env gateway) (Inr outcome),
      ReleasedLock (om_UID (gw_Meta gateway)), PatchedGateway gateway (releasedGateway env gateway) (Inr (releasedGateway env gateway))]"
proof -
  obtain s1 where s1: "readCluster env False s = (Inr reader, s1)" "effects (gt_log s1) = effects (gt_log s)"
    by (rule quiet_run [OF quiet_cluster [OF assms(1)]])
  have "hasControllerBinding env gateway" using assms(6) by (simp add: hasControllerBinding_def GatewayHasControllerBinding_def hasGatewayFinalizer_def)
  then have scope: "newGatewayScope env (om_Namespace (gw_Meta gateway)) (om_Name (gw_Meta gateway)) s = (Inr (Some (newScopeOf gateway)), s1)"
    using s1(1) assms(4,5) by (simp add: newGatewayScope_def bindA_def findsGateway_def returnA_def)
  let ?s2 = "s1\<lparr>gt_scope := newScopeOf gateway\<rparr>"
  obtain s3 where s3: "cleanupGateway env ?s2 = (Inr noResult, s3)" "gs_skipPatch (gt_scope s3)"
    "effects (gt_log s3) = effects (gt_log ?s2) @ [AcquiredLock (om_UID (gw_Meta gateway)), CalledDeleteGateway (storedIdentity env gateway) (Inr outcome),
      ReleasedLock (om_UID (gw_Meta gateway)), PatchedGateway gateway (releasedGateway env gateway) (Inr (releasedGateway env gateway))]"
    using cleanup_run [OF assms, of ?s2] by auto
  have "reconcileDelete env ?s2 = (Inr noResult, s3)" using s3(1) by (simp add: reconcileDelete_def bindA_def returnA_def)
  from withGatewayPatch_skipped [where m = "reconcileDelete env" and s = ?s2, OF this s3(2)] scope assms(5)
  have "Reconcile env (om_Namespace (gw_Meta gateway)) (om_Name (gw_Meta gateway)) s = (Inr noResult, s3)"
    by (simp add: Reconcile_def bindA_def changeGatewayScope_def modifyA_def) (simp add: newScopeOf_def)
  with s1 s3 show ?thesis by auto
qed

section \<open>An accepted Gateway\<close>

definition acceptedIn :: "'w gatewayEnv \<Rightarrow> apiReader \<Rightarrow> Gateway \<Rightarrow> GatewayClass \<Rightarrow> GatewayListener \<Rightarrow> bool" where
  "acceptedIn env reader gateway gatewayClass listener \<longleftrightarrow> findsGateway reader gateway \<and> \<not> om_Deleting (gw_Meta gateway) \<and>
     validBinding env gateway \<and> ValidateGateway gateway = Inr listener \<and>
     rd_GatewayClass reader (gw_GatewayClassName gateway) = Inr gatewayClass \<and> gc_Name gatewayClass = gw_GatewayClassName gateway \<and>
     ownClass env gatewayClass \<and> GatewayClassSupportsInstalledVersion (gv_conditions env) gatewayClass \<and>
     ValidateInstalledGatewayAPIVersion (gv_consts env) (Some reader) = Inr ()"

lemma acceptedD:
  assumes "acceptedIn env reader gateway gatewayClass listener"
  shows "findsGateway reader gateway" "\<not> om_Deleting (gw_Meta gateway)" "validBinding env gateway" "ValidateGateway gateway = Inr listener"
    "rd_GatewayClass reader (gw_GatewayClassName gateway) = Inr gatewayClass" "gc_Name gatewayClass = gw_GatewayClassName gateway" "ownClass env gatewayClass"
    "GatewayClassSupportsInstalledVersion (gv_conditions env) gatewayClass" "ValidateInstalledGatewayAPIVersion (gv_consts env) (Some reader) = Inr ()"
  using assms by (simp_all add: acceptedIn_def)

definition listenerPort :: "GatewayListener \<Rightarrow> string" where
  "listenerPort listener = itoaInt (gl_Port listener)"

lemma binding_complete:
  assumes "validBinding env gateway" "hasGatewayFinalizer env gateway"
  shows "gatewayBindingComplete env gateway" "\<not> list_ex (\<lambda>key. annotation (gw_Meta gateway) key = []) (gatewayBindingKeys (gv_Config env))"
proof -
  let ?keys = "gatewayBindingKeys (gv_Config env)"
  have "length (filter (\<lambda>v. v \<noteq> []) (map (annotation (gw_Meta gateway)) ?keys)) = length (map (annotation (gw_Meta gateway)) ?keys)"
    using assms by (auto simp: validBinding_def ValidateGatewayBinding_def isOk_iff Let_def hasGatewayFinalizer_def split: if_splits)
  then have full: "\<forall>key \<in> set ?keys. annotation (gw_Meta gateway) key \<noteq> []" by (auto simp: gatewayBindingKeys_def split: if_splits)
  from full assms(2) show "gatewayBindingComplete env gateway" by (simp add: gatewayBindingComplete_def list_all_iff)
  from full show "\<not> list_ex (\<lambda>key. annotation (gw_Meta gateway) key = []) ?keys" by (simp add: list_ex_iff)
qed

section \<open>Snapshots of an accepted Gateway\<close>

lemma observe_quiet:
  assumes "settledReads env reader" "cooperates env" "acceptedIn env reader gateway gatewayClass listener"
    and "binding = gatewayBindingRequired \<Longrightarrow> hasGatewayFinalizer env gateway \<and> storedListenerPort env gateway = listenerPort listener"
    and "port = [] \<or> port = listenerPort listener"
  shows "quiet (observeGatewayMutationSnapshot env gateway binding port)
    (Inr \<lparr>mu_gateway = gateway, mu_gatewayClass = gatewayClass, mu_listener = listener, mu_binding = binding\<rparr>)"
proof -
  note accepted = acceptedD [OF assms(3)]
  have listener: "mapErr (\<lambda>_. errGatewayChanged) (ValidateGateway gateway) = Inr listener" using accepted(4) by simp
  show ?thesis
    unfolding observeGatewayMutationSnapshot_def Let_def
    apply (rule quiet_bind_guard)
    subgoal using assms(2) by (simp add: cooperates_def)
    apply (rule quiet_bind [OF quiet_failingAs [OF quiet_gateway [OF assms(1) accepted(1)]]])
    apply (rule quiet_bind_guard)
    subgoal using accepted(2) by simp
    apply (rule quiet_bind [OF quiet_failingAs [OF quiet_class [OF assms(1) accepted(5)]]])
    apply (rule quiet_bind_guard)
    subgoal using accepted(7) by (simp add: ownClass_def)
    apply (rule quiet_bind_guard [OF accepted(8)])
    apply (rule quiet_bind_guard)
    subgoal using assms(4) by simp
    apply (rule quiet_bind_guard [OF accepted(3)])
    apply (rule quiet_bind_lift [OF listener])
    apply (rule quiet_bind_guard)
    subgoal using assms(5) by (auto simp: listenerPort_def)
    apply (rule quiet_bind_guard)
    subgoal using assms(4) by (simp add: listenerPort_def)
    apply (rule quiet_units)
    done
qed

lemma gateway_seal_quiet:
  assumes "settledReads env reader" "acceptedIn env reader gateway gatewayClass listener"
    and "binding = gatewayBindingRequired \<Longrightarrow> hasGatewayFinalizer env gateway"
  shows "quiet (sealGatewayMutationSnapshot env \<lparr>mu_gateway = gateway, mu_gatewayClass = gatewayClass, mu_listener = listener, mu_binding = binding\<rparr>) (Inr ())"
proof -
  note accepted = acceptedD [OF assms(2)]
  have class_found: "rd_GatewayClass reader (gc_Name gatewayClass) = Inr gatewayClass" using accepted(5,6) by simp
  show ?thesis
    unfolding sealGatewayMutationSnapshot_def Let_def gatewayMutationSnapshot.select_convs
    apply (rule quiet_bind [OF quiet_version [OF assms(1) accepted(9)]])
    apply (rule quiet_bind [OF quiet_failingAs [OF quiet_gateway [OF assms(1) accepted(1)]]])
    apply (rule quiet_bind_guard)
    subgoal using accepted(2) by (simp add: GatewayBindingMetadataEqual_def list_all_iff)
    apply (rule quiet_bind_guard)
    subgoal using assms(3) accepted(3) binding_complete(2) by blast
    apply (rule quiet_bind_guard)
    subgoal using accepted(6) by simp
    apply (rule quiet_bind [OF quiet_failingAs [OF quiet_class [OF assms(1) class_found]]])
    apply (rule quiet_bind_guard)
    subgoal using accepted(7) by (simp add: ownClass_def)
    apply (rule quiet_guard [OF accepted(8)])
    done
qed

lemma accepted_scope:
  assumes "settledReads env reader" "acceptedIn env reader gateway gatewayClass listener"
  shows "quiet (newGatewayScope env (om_Namespace (gw_Meta gateway)) (om_Name (gw_Meta gateway)))
    (Inr (Some ((newScopeOf gateway)\<lparr>gs_gatewayClass := Some gatewayClass, gs_managed := True\<rparr>)))"
proof -
  note accepted = acceptedD [OF assms(2)]
  have class_read: "quiet (getGatewayClass env gateway) (Inr (Some gatewayClass, True))"
    unfolding getGatewayClass_def
    by (rule quiet_bind [OF quiet_try [OF quiet_class [OF assms(1) accepted(5)]]])
      (use accepted(7) quiet_units(1) [of "(Some gatewayClass, True)"] in \<open>simp add: ownClass_def\<close>)
  show ?thesis
    unfolding newGatewayScope_def
    apply (rule quiet_bind [OF quiet_cluster [OF assms(1)]])
    apply (simp add: accepted(1) [unfolded findsGateway_def] accepted(2))
    apply (rule quiet_bind [OF class_read])
    apply (simp add: quiet_units)
    done
qed

section \<open>Programming a bound Gateway\<close>

definition ensuresGateway :: "'w gatewayEnv \<Rightarrow> GatewaySpec \<Rightarrow> GatewayResult \<Rightarrow> bool" where
  "ensuresGateway env spec q \<longleftrightarrow> (\<forall>w. fst (gv_EnsureGateway env spec w) = Inr q) \<and> Validate (gres_Outcome q) = Inr () \<and> o_State (gres_Outcome q) = OutcomeReady"

lemma ensureGateway_run:
  assumes "settledReads env reader" "cooperates env" "acceptedIn env reader gateway gatewayClass listener"
    and "hasGatewayFinalizer env gateway" "storedListenerPort env gateway = listenerPort listener" "ensuresGateway env (gatewaySpec (gv_Config env) gateway listener) q"
  shows "\<exists>s'. ensureGateway env gateway s = (Inr q, s') \<and> gt_scope s' = gt_scope s \<and>
    effects (gt_log s') = effects (gt_log s) @ [AcquiredLock (om_UID (gw_Meta gateway)),
      CalledEnsureGateway (gatewaySpec (gv_Config env) gateway listener) (Inr q), ReleasedLock (om_UID (gw_Meta gateway))]"
proof -
  let ?spec = "gatewaySpec (gv_Config env) gateway listener"
  let ?S = "\<lparr>mu_gateway = gateway, mu_gatewayClass = gatewayClass, mu_listener = listener, mu_binding = gatewayBindingRequired\<rparr>"
  let ?body = "bindA (observeGatewayMutationSnapshot env gateway gatewayBindingRequired []) (\<lambda>snapshot.
       let desired = gatewaySpec (gv_Config env) (mu_gateway snapshot) (mu_listener snapshot) in
       bindA (sealGatewayMutationSnapshot env snapshot) (\<lambda>_.
       bindA (callEnsureGateway env desired) (\<lambda>result.
       bindA (validOutcome (gres_Outcome result)) (\<lambda>_. returnA result))))"
  have "\<exists>s2. ?body s1 = (Inr q, s2) \<and> gt_scope s2 = gt_scope s1 \<and> effects (gt_log s2) = effects (gt_log s1) @ [CalledEnsureGateway ?spec (Inr q)]" for s1
  proof -
    obtain s2 where s2: "observeGatewayMutationSnapshot env gateway gatewayBindingRequired [] s1 = (Inr ?S, s2)" "gt_scope s2 = gt_scope s1"
      "effects (gt_log s2) = effects (gt_log s1)"
      by (rule quiet_run [OF observe_quiet [OF assms(1-3)]]) (use assms(4,5) in auto)
    obtain s3 where s3: "sealGatewayMutationSnapshot env ?S s2 = (Inr (), s3)" "gt_scope s3 = gt_scope s2" "effects (gt_log s3) = effects (gt_log s2)"
      by (rule quiet_run [OF gateway_seal_quiet [OF assms(1,3)]]) (use assms(4) in auto)
    obtain w where "gv_EnsureGateway env ?spec (gt_world s3) = (Inr q, w)" using assms(6) unfolding ensuresGateway_def by (metis prod.collapse)
    with s2 s3 assms(6) show ?thesis
      by (simp add: bindA_def callEnsureGateway_def validOutcome_def liftA_def returnA_def ensuresGateway_def Let_def)
  qed
  from withLock_run [OF assms(2) this, of "om_UID (gw_Meta gateway)" s] show ?thesis
    using assms(2) by (simp add: ensureGateway_def guard_run cooperates_def)
qed

lemma countAttached_run:
  assumes "settledReads env reader" "gs_gateway (gt_scope s) = gateway"
    and "attachedRouteCount (gv_conditions env) (gv_Config env) reader gateway listener = Inr n"
  obtains s1 where "countAttachedRoutes env listener s = (Inr n, s1)" "gt_scope s1 = gt_scope s" "effects (gt_log s1) = effects (gt_log s)"
proof -
  obtain s1 where "readCluster env False s = (Inr reader, s1)" "gt_scope s1 = gt_scope s" "effects (gt_log s1) = effects (gt_log s)"
    by (rule quiet_run [OF quiet_cluster [OF assms(1)]])
  with assms(2,3) show thesis by (intro that [of s1]) (simp_all add: countAttachedRoutes_def bindA_def theScope_def getA_def liftA_def)
qed

lemma gateway_publish_run:
  assumes "settledReads env reader" "gs_gateway (gt_scope s) = gateway"
    and "attachedRouteCount (gv_conditions env) (gv_Config env) reader gateway listener = Inr n" "o_State (gres_Outcome q) = OutcomeReady"
  obtains s1 where "publishGatewayResult env listener q s =
      (Inr (requeueAfter (OpenStackResyncAfter (cf_OpenStackResyncInterval (gv_Config env)) (om_UID (gw_Meta gateway)))), s1)"
    "gt_scope s1 = (gt_scope s)\<lparr>gs_gateway := setGatewayProgrammed (gv_conditions env) listener n (gres_State q) gateway\<rparr>"
    "effects (gt_log s1) = effects (gt_log s)"
proof -
  obtain s1 where "countAttachedRoutes env listener s = (Inr n, s1)" "gt_scope s1 = gt_scope s" "effects (gt_log s1) = effects (gt_log s)"
    by (rule countAttached_run [OF assms(1-3)])
  with assms(2,4) show thesis
    by (intro that [of "s1\<lparr>gt_scope := (gt_scope s)\<lparr>gs_gateway := setGatewayProgrammed (gv_conditions env) listener n (gres_State q) gateway\<rparr>\<rparr>"])
      (simp_all add: publishGatewayResult_def bindA_def theScope_def getA_def changeGateway_def changeGatewayScope_def modifyA_def returnA_def Let_def)
qed

definition publishedStatus :: "Gateway \<Rightarrow> Gateway \<Rightarrow> gatewayEvent list" where
  "publishedStatus gateway desired = (if statusOf gateway = statusOf desired then [] else [PatchedGatewayStatus gateway desired (Inr desired)])"

lemma withGatewayPatch_run:
  assumes "cooperates env" "m s = (r, s1)" "gs_warnings (gt_scope s1) = []" "\<not> gs_skipPatch (gt_scope s1)"
    and "withStatus (gs_gateway (gt_scope s1)) (gs_original (gt_scope s1)) = gs_original (gt_scope s1)"
  shows "\<exists>s2. withGatewayPatch env m s = (r, s2) \<and>
    effects (gt_log s2) = effects (gt_log s1) @ publishedStatus (gs_original (gt_scope s1)) (gs_gateway (gt_scope s1))"
proof -
  let ?base = "gs_original (gt_scope s1)" and ?new = "gs_gateway (gt_scope s1)"
  have patched: "\<exists>s2. patchGateway env s1 = (Inr (), s2) \<and> effects (gt_log s2) = effects (gt_log s1) @ publishedStatus ?base ?new"
  proof (cases "statusChanged (gt_scope s1)")
    case True
    obtain s2 where "patchGatewayStatus env ?base ?new s1 = (Inr ?new, s2)" "gt_scope s2 = gt_scope s1"
      "effects (gt_log s2) = effects (gt_log s1) @ [PatchedGatewayStatus ?base ?new (Inr ?new)]" by (rule patchStatus_run [OF assms(1)])
    with True assms(3-5) show ?thesis
      by (simp add: patchGateway_def bindA_def theScope_def getA_def failingAs_def tryA_def liftA_def changeGatewayScope_def modifyA_def returnA_def Let_def
        publishedStatus_def statusChanged_def)
  next
    case False
    with assms(3,4) show ?thesis
      by (simp add: patchGateway_def bindA_def theScope_def getA_def changeGatewayScope_def modifyA_def returnA_def Let_def publishedStatus_def statusChanged_def)
  qed
  then obtain s2 where "patchGateway env s1 = (Inr (), s2)" "effects (gt_log s2) = effects (gt_log s1) @ publishedStatus ?base ?new" by blast
  with assms(2) show ?thesis by (simp add: withGatewayPatch_def bindA_def tryA_def theScope_def getA_def liftA_def)
qed

lemma programmed_meta: "withStatus (setGatewayProgrammed u listener n gatewayState gateway) gateway = gateway"
  by (simp add: withStatus_def setGatewayProgrammed_def setGatewayConditions_def Let_def)

lemma withStatus_self: "withStatus gateway gateway = gateway"
  by (simp add: withStatus_def)

text \<open>A reconciliation of an accepted Gateway, when its phase does what is said.\<close>

definition acceptedScope :: "Gateway \<Rightarrow> GatewayClass \<Rightarrow> gatewayScope" where
  "acceptedScope gateway gatewayClass = (newScopeOf gateway)\<lparr>gs_gatewayClass := Some gatewayClass, gs_managed := True\<rparr>"

lemma accepted_run:
  assumes "settledReads env reader" "cooperates env" "acceptedIn env reader gateway gatewayClass listener"
    and phase: "\<And>s1. gt_scope s1 = acceptedScope gateway gatewayClass \<Longrightarrow> \<exists>s2. reconcileNormal env s1 = (r, s2) \<and>
      gt_scope s2 = (acceptedScope gateway gatewayClass)\<lparr>gs_gateway := desired\<rparr> \<and> effects (gt_log s2) = effects (gt_log s1) @ es"
    and "withStatus desired gateway = gateway"
  shows "\<exists>s'. Reconcile env (om_Namespace (gw_Meta gateway)) (om_Name (gw_Meta gateway)) s = (r, s') \<and>
    effects (gt_log s') = effects (gt_log s) @ es @ publishedStatus gateway desired"
proof -
  let ?scope = "acceptedScope gateway gatewayClass"
  obtain s1 where s1: "newGatewayScope env (om_Namespace (gw_Meta gateway)) (om_Name (gw_Meta gateway)) s = (Inr (Some ?scope), s1)"
    "effects (gt_log s1) = effects (gt_log s)"
    by (rule quiet_run [OF accepted_scope [OF assms(1,3)]]) (simp add: acceptedScope_def)
  let ?s2 = "s1\<lparr>gt_scope := ?scope\<rparr>"
  obtain s3 where s3: "reconcileNormal env ?s2 = (r, s3)" "gt_scope s3 = ?scope\<lparr>gs_gateway := desired\<rparr>" "effects (gt_log s3) = effects (gt_log ?s2) @ es"
    using phase [of ?s2] by auto
  obtain s4 where s4: "withGatewayPatch env (reconcileNormal env) ?s2 = (r, s4)"
    "effects (gt_log s4) = effects (gt_log s3) @ publishedStatus gateway desired"
    using withGatewayPatch_run [of env "reconcileNormal env" ?s2 r s3, OF assms(2) s3(1)] s3(2) assms(5) by (auto simp: acceptedScope_def newScopeOf_def)
  have "\<not> om_Deleting (gw_Meta (gs_gateway ?scope))" using acceptedD(2) [OF assms(3)] by (simp add: acceptedScope_def newScopeOf_def)
  then have "Reconcile env (om_Namespace (gw_Meta gateway)) (om_Name (gw_Meta gateway)) s = (r, s4)"
    using s1(1) s4(1) by (simp add: Reconcile_def bindA_def changeGatewayScope_def modifyA_def)
  with s1 s3 s4 show ?thesis by auto
qed

lemma accepted_phase:
  assumes "acceptedIn env reader gateway gatewayClass listener"
  shows "decideGatewayPhase env (acceptedScope gateway gatewayClass) =
    (phaseDecision (if listenerPortChanged env gateway listener then gatewayPhaseReplaceGraph
       else if \<not> gatewayBindingComplete env gateway then gatewayPhaseBind else gatewayPhaseEnsure))
    \<lparr>gd_listener := Some listener, gd_listenerPort := listenerPort listener\<rparr>"
  using acceptedD [OF assms] by (simp add: decideGatewayPhase_def acceptedScope_def newScopeOf_def classOf_def ownClass_def listenerPort_def Let_def)

lemma gateway_programming_run:
  assumes "settledReads env reader" "cooperates env" "acceptedIn env reader gateway gatewayClass listener"
    and "hasGatewayFinalizer env gateway" "storedListenerPort env gateway = listenerPort listener" "ensuresGateway env (gatewaySpec (gv_Config env) gateway listener) q"
    and "attachedRouteCount (gv_conditions env) (gv_Config env) reader gateway listener = Inr n"
  shows "\<exists>s'. Reconcile env (om_Namespace (gw_Meta gateway)) (om_Name (gw_Meta gateway)) s =
      (Inr (requeueAfter (OpenStackResyncAfter (cf_OpenStackResyncInterval (gv_Config env)) (om_UID (gw_Meta gateway)))), s') \<and>
    effects (gt_log s') = effects (gt_log s) @ [AcquiredLock (om_UID (gw_Meta gateway)),
      CalledEnsureGateway (gatewaySpec (gv_Config env) gateway listener) (Inr q), ReleasedLock (om_UID (gw_Meta gateway))] @
      publishedStatus gateway (setGatewayProgrammed (gv_conditions env) listener n (gres_State q) gateway)"
proof (rule accepted_run [OF assms(1-3) _ programmed_meta])
  fix s1 :: "'a gatewayReconcileState"
  assume scope: "gt_scope s1 = acceptedScope gateway gatewayClass"
  then have gateway: "gs_gateway (gt_scope s1) = gateway" by (simp add: acceptedScope_def newScopeOf_def)
  obtain s2 where s2: "ensureGateway env gateway s1 = (Inr q, s2)" "gt_scope s2 = gt_scope s1"
    "effects (gt_log s2) = effects (gt_log s1) @ [AcquiredLock (om_UID (gw_Meta gateway)),
      CalledEnsureGateway (gatewaySpec (gv_Config env) gateway listener) (Inr q), ReleasedLock (om_UID (gw_Meta gateway))]"
    using ensureGateway_run [OF assms(1-6)] by blast
  obtain s3 where s3: "publishGatewayResult env listener q s2 =
      (Inr (requeueAfter (OpenStackResyncAfter (cf_OpenStackResyncInterval (gv_Config env)) (om_UID (gw_Meta gateway)))), s3)"
    "gt_scope s3 = (gt_scope s2)\<lparr>gs_gateway := setGatewayProgrammed (gv_conditions env) listener n (gres_State q) gateway\<rparr>"
    "effects (gt_log s3) = effects (gt_log s2)"
    by (rule gateway_publish_run [OF assms(1) _ assms(7), of s2 q]) (use gateway s2(2) assms(6) in \<open>simp_all add: ensuresGateway_def\<close>)
  have phase: "decideGatewayPhase env (gt_scope s1) = (phaseDecision gatewayPhaseEnsure)\<lparr>gd_listener := Some listener, gd_listenerPort := listenerPort listener\<rparr>"
    using accepted_phase [OF assms(3)] scope assms(5) binding_complete(1) [OF acceptedD(3) [OF assms(3)] assms(4)]
    by (simp add: listenerPortChanged_def listenerPort_def)
  have "reconcileGatewayGraph env listener s1 =
      (Inr (requeueAfter (OpenStackResyncAfter (cf_OpenStackResyncInterval (gv_Config env)) (om_UID (gw_Meta gateway)))), s3)"
    using gateway s2(1) s3(1) by (simp add: reconcileGatewayGraph_def bindA_def theScope_def getA_def tryA_def)
  then have "reconcileNormal env s1 =
      (Inr (requeueAfter (OpenStackResyncAfter (cf_OpenStackResyncInterval (gv_Config env)) (om_UID (gw_Meta gateway)))), s3)"
    by (simp add: reconcileNormal_def bindA_def theScope_def getA_def phase phaseDecision_def)
  with s2 s3 scope show "\<exists>s2. reconcileNormal env s1 =
      (Inr (requeueAfter (OpenStackResyncAfter (cf_OpenStackResyncInterval (gv_Config env)) (om_UID (gw_Meta gateway)))), s2) \<and>
      gt_scope s2 = (acceptedScope gateway gatewayClass)\<lparr>gs_gateway := setGatewayProgrammed (gv_conditions env) listener n (gres_State q) gateway\<rparr> \<and>
      effects (gt_log s2) = effects (gt_log s1) @ [AcquiredLock (om_UID (gw_Meta gateway)),
      CalledEnsureGateway (gatewaySpec (gv_Config env) gateway listener) (Inr q), ReleasedLock (om_UID (gw_Meta gateway))]" by auto
qed

section \<open>Binding\<close>

definition boundWith :: "'w gatewayEnv \<Rightarrow> Gateway \<Rightarrow> GatewayListener \<Rightarrow> Gateway" where
  "boundWith env gateway listener = gateway\<lparr>gw_Meta := applyGatewayBinding (gv_finalizers env) (gv_Config env) (listenerPort listener) (gw_Meta gateway)\<rparr>"

lemma bindGateway_run:
  assumes "settledReads env reader" "cooperates env" "acceptedIn env reader gateway gatewayClass listener" "boundWith env gateway listener \<noteq> gateway"
  shows "\<exists>s'. bindGateway env gateway (listenerPort listener) s = (Inr (), s') \<and> gt_scope s' = gt_scope s \<and>
    effects (gt_log s') = effects (gt_log s) @ [PatchedGateway gateway (boundWith env gateway listener) (Inr (boundWith env gateway listener))]"
proof -
  let ?S = "\<lparr>mu_gateway = gateway, mu_gatewayClass = gatewayClass, mu_listener = listener, mu_binding = gatewayBindingOptional\<rparr>"
  let ?new = "boundWith env gateway listener"
  obtain s1 where s1: "observeGatewayMutationSnapshot env gateway gatewayBindingOptional (listenerPort listener) s = (Inr ?S, s1)" "gt_scope s1 = gt_scope s"
    "effects (gt_log s1) = effects (gt_log s)"
    by (rule quiet_run [OF observe_quiet [OF assms(1-3), of gatewayBindingOptional "listenerPort listener"]]) auto
  obtain s2 where s2: "sealGatewayMutationSnapshot env ?S s1 = (Inr (), s2)" "gt_scope s2 = gt_scope s1" "effects (gt_log s2) = effects (gt_log s1)"
    by (rule quiet_run [OF gateway_seal_quiet [OF assms(1,3)]]) auto
  obtain s3 where s3: "patchMetadata env gateway ?new s2 = (Inr ?new, s3)" "gt_scope s3 = gt_scope s2"
    "effects (gt_log s3) = effects (gt_log s2) @ [PatchedGateway gateway ?new (Inr ?new)]" by (rule patchMetadata_run [OF assms(2)])
  have "gw_Meta gateway \<noteq> gw_Meta ?new" using assms(4) by (auto simp: boundWith_def)
  then have "bindGateway env gateway (listenerPort listener) s = (Inr (), s3)"
    using s1(1) s2(1) s3(1) by (simp add: bindGateway_def bindA_def Let_def failingAs_def tryA_def liftA_def returnA_def boundWith_def)
  with s1 s2 s3 show ?thesis by auto
qed

lemma gateway_binding_run:
  assumes "settledReads env reader" "cooperates env" "finalizerLaws (gv_finalizers env)" "acceptedIn env reader gateway gatewayClass listener"
    and "\<not> hasGatewayFinalizer env gateway" "storedListenerPort env gateway = []"
  shows "\<exists>s'. Reconcile env (om_Namespace (gw_Meta gateway)) (om_Name (gw_Meta gateway)) s = (Inr requeueNow, s') \<and>
    effects (gt_log s') = effects (gt_log s) @ [PatchedGateway gateway (boundWith env gateway listener) (Inr (boundWith env gateway listener))]"
proof -
  have has: "hasGatewayFinalizer env (boundWith env gateway listener)"
    by (simp add: hasGatewayFinalizer_def boundWith_def applyGatewayBinding_def finalizerLaws_rules(1,2) [OF assms(3)])
  with assms(5) have new: "boundWith env gateway listener \<noteq> gateway" by auto
  have "\<exists>s2. reconcileNormal env s1 = (Inr requeueNow, s2) \<and> gt_scope s2 = (acceptedScope gateway gatewayClass)\<lparr>gs_gateway := gateway\<rparr> \<and>
      effects (gt_log s2) = effects (gt_log s1) @ [PatchedGateway gateway (boundWith env gateway listener) (Inr (boundWith env gateway listener))]"
    if scope: "gt_scope s1 = acceptedScope gateway gatewayClass" for s1
  proof -
    have gateway: "gs_gateway (gt_scope s1) = gateway" using scope by (simp add: acceptedScope_def newScopeOf_def)
    obtain s2 where s2: "bindGateway env gateway (listenerPort listener) s1 = (Inr (), s2)" "gt_scope s2 = gt_scope s1"
      "effects (gt_log s2) = effects (gt_log s1) @ [PatchedGateway gateway (boundWith env gateway listener) (Inr (boundWith env gateway listener))]"
      using bindGateway_run [OF assms(1,2,4) new] by blast
    have phase: "decideGatewayPhase env (gt_scope s1) = (phaseDecision gatewayPhaseBind)\<lparr>gd_listener := Some listener, gd_listenerPort := listenerPort listener\<rparr>"
      using accepted_phase [OF assms(4)] scope assms(5,6) by (simp add: listenerPortChanged_def gatewayBindingComplete_def)
    have "reconcileNormal env s1 = (Inr requeueNow, s2)"
      using gateway s2(1) by (simp add: reconcileNormal_def reconcileGatewayBinding_def bindA_def theScope_def getA_def tryA_def returnA_def phase phaseDecision_def)
    with s2 scope show ?thesis by (auto simp: acceptedScope_def newScopeOf_def)
  qed
  from accepted_run [OF assms(1,2,4) this withStatus_self] show ?thesis by (simp add: publishedStatus_def)
qed

end
