(* ===== verification/GatewayClaims.thy ===== *)
theory GatewayClaims
  imports GatewayRuns SampleCluster
begin

text \<open>
  The theorems about a whole reconciliation of a Gateway, and a small cluster on which their hypotheses hold.
\<close>

section \<open>A cluster with one Gateway\<close>

text \<open>Every read is answered alike, and every call succeeds.\<close>

definition gatewayReader :: "Gateway \<Rightarrow> apiReader" where
  "gatewayReader gateway = (clusterReader (sampleRoute ''a'' ''uid-2''))
     \<lparr>rd_Gateway := \<lambda>namespace name. if namespace = ''default'' \<and> name = ''gw'' then Inr gateway else Inl NotFound, rd_Indexed := \<lambda>_ _. Inr []\<rparr>"

definition sampleGatewayState :: GatewayState where
  "sampleGatewayState = emptyGatewayState\<lparr>st_VIPAddress := ''192.0.2.10''\<rparr>"

definition gatewayClusterEnv :: "Gateway \<Rightarrow> unit gatewayEnv" where
  "gatewayClusterEnv gateway = \<lparr>gv_Config = sampleConfig, gv_finalizers = listFinalizers, gv_conditions = listConditions, gv_consts = sampleConsts,
     gv_bindingText = \<lambda>_. [], gv_hasAPIReader = True, gv_hasRecorder = True, gv_read = \<lambda>_ w. (gatewayReader gateway, w),
     gv_patch = \<lambda>_ desired w. (Inr desired, w), gv_patchStatus = \<lambda>_ desired w. (Inr desired, w), gv_acquire = \<lambda>_ w. (True, w), gv_release = \<lambda>_ w. w,
     gv_EnsureGateway = \<lambda>_ w. (Inr (GatewayReadyResult sampleGatewayState), w), gv_DeleteGateway = \<lambda>_ w. (Inr ReadyOutcome, w)\<rparr>"

definition gatewayStart :: "unit gatewayReconcileState" where
  "gatewayStart = \<lparr>gt_world = (), gt_log = [], gt_scope = newScopeOf sampleGateway\<rparr>"

text \<open>The Gateway of the cluster: without a binding, bound, and deleted.\<close>

definition gatewayOf :: "ObjectMeta \<Rightarrow> Gateway" where
  "gatewayOf m = sampleGateway\<lparr>gw_Meta := m\<rparr>"

definition boundGatewayMeta :: ObjectMeta where
  "boundGatewayMeta = gw_Meta boundSampleGateway"

definition deletedGatewayMeta :: ObjectMeta where
  "deletedGatewayMeta = boundGatewayMeta\<lparr>om_DeletionTimestamp := Some 1\<rparr>"

lemma gatewayOf_fields [simp]: "gw_Meta (gatewayOf m) = m" "gw_GatewayClassName (gatewayOf m) = ''openstack''" "gw_Conditions (gatewayOf m) = []"
  "ValidateGateway (gatewayOf m) = Inr sampleListener"
  using sample_validates [of "gatewayOf m"] by (simp_all add: gatewayOf_def sampleGateway_def)

lemma clusterMeta:
  "om_Namespace boundGatewayMeta = ''default''" "om_Name boundGatewayMeta = ''gw''" "om_UID boundGatewayMeta = ''uid-1''" "\<not> om_Deleting boundGatewayMeta"
  "om_Namespace deletedGatewayMeta = ''default''" "om_Name deletedGatewayMeta = ''gw''" "om_UID deletedGatewayMeta = ''uid-1''" "om_Deleting deletedGatewayMeta"
  by (simp_all add: deletedGatewayMeta_def boundGatewayMeta_def boundSampleGateway_meta)

lemma gatewayCluster_laws:
  "finalizerLaws (gv_finalizers (gatewayClusterEnv gateway))" "conditionLaws (gv_conditions (gatewayClusterEnv gateway))"
  "settledReads (gatewayClusterEnv gateway) (gatewayReader gateway)" "cooperates (gatewayClusterEnv gateway)"
  "deletesGateway (gatewayClusterEnv gateway) i ReadyOutcome" "ensuresGateway (gatewayClusterEnv gateway) spec (GatewayReadyResult sampleGatewayState)"
  "attachedRouteCount u c (gatewayReader gateway) gateway listener = Inr 0"
  by (simp_all add: gatewayClusterEnv_def listFinalizers_laws listConditions_laws settledReads_def cooperates_def deletesGateway_def ensuresGateway_def
    ReadyOutcome_def GatewayReadyResult_def Validate_def attachedRouteCount_def gatewayReader_def)

lemma gatewayCluster_keyed: "om_Namespace m = ''default'' \<Longrightarrow> om_Name m = ''gw'' \<Longrightarrow> keyedGateways (gatewayClusterEnv (gatewayOf m))"
  by (auto simp: keyedGateways_def gatewayClusterEnv_def gatewayReader_def split: if_splits)

lemma gatewayCluster_finds: "om_Namespace m = ''default'' \<Longrightarrow> om_Name m = ''gw'' \<Longrightarrow> findsGateway (gatewayReader (gatewayOf m)) (gatewayOf m)"
  by (simp add: findsGateway_def gatewayReader_def)

lemma binding_deleting: "ContainsFinalizer listFinalizers (m\<lparr>om_DeletionTimestamp := b\<rparr>) f = ContainsFinalizer listFinalizers m f"
    "ValidateGatewayBinding listFinalizers c (m\<lparr>om_DeletionTimestamp := b\<rparr>) = ValidateGatewayBinding listFinalizers c m"
proof -
  show "ContainsFinalizer listFinalizers (m\<lparr>om_DeletionTimestamp := b\<rparr>) f = ContainsFinalizer listFinalizers m f" for f by (simp add: listFinalizers_def)
  moreover have "annotation (m\<lparr>om_DeletionTimestamp := b\<rparr>) = annotation m" by (simp add: annotation_def fun_eq_iff)
  ultimately show "ValidateGatewayBinding listFinalizers c (m\<lparr>om_DeletionTimestamp := b\<rparr>) = ValidateGatewayBinding listFinalizers c m"
    by (simp only: ValidateGatewayBinding_def)
qed

lemma gatewayCluster_bound:
  "validBinding (gatewayClusterEnv gateway) (gatewayOf boundGatewayMeta)" "hasGatewayFinalizer (gatewayClusterEnv gateway) (gatewayOf boundGatewayMeta)"
  "validBinding (gatewayClusterEnv gateway) (gatewayOf deletedGatewayMeta)" "hasGatewayFinalizer (gatewayClusterEnv gateway) (gatewayOf deletedGatewayMeta)"
  "storedListenerPort (gatewayClusterEnv gateway) (gatewayOf boundGatewayMeta) = listenerPort sampleListener"
  using sample_binding sample_port unfolding validBinding_def hasGatewayFinalizer_def storedListenerPort_def
  by (simp_all add: gatewayClusterEnv_def deletedGatewayMeta_def boundGatewayMeta_def binding_deleting listenerPort_def)

lemma gatewayCluster_accepts:
  assumes "om_Namespace m = ''default''" "om_Name m = ''gw''" "\<not> om_Deleting m" "validBinding (gatewayClusterEnv (gatewayOf m)) (gatewayOf m)"
  shows "acceptedIn (gatewayClusterEnv (gatewayOf m)) (gatewayReader (gatewayOf m)) (gatewayOf m) sampleClass sampleListener"
proof -
  have "ValidateInstalledGatewayAPIVersion sampleConsts (Some (gatewayReader (gatewayOf m))) = Inr ()"
    by (rule sample_version [of _ "sampleRoute ''a'' ''uid-2''"]) (simp add: gatewayReader_def)
  moreover have "rd_GatewayClass (gatewayReader (gatewayOf m)) ''openstack'' = Inr sampleClass" by (simp add: gatewayReader_def clusterReader_def)
  ultimately show ?thesis
    using assms gatewayCluster_finds [OF assms(1,2)]
    by (simp add: acceptedIn_def) (simp add: gatewayClusterEnv_def ownClass_def sampleClass_def sampleMeta_def sampleConfig_def GatewayClassSupportsInstalledVersion_def
      Condition_def listConditions_def)
qed

lemmas gatewayCluster_boundAccepts = gatewayCluster_accepts [OF clusterMeta(1,2,4) gatewayCluster_bound(1)]

lemma gatewayCluster_deletion:
  obtains s' where "Reconcile (gatewayClusterEnv (gatewayOf deletedGatewayMeta)) ''default'' ''gw'' gatewayStart = (Inr noResult, s')"
    "effects (gt_log s') = [AcquiredLock ''uid-1'',
       CalledDeleteGateway (StoredGatewayIdentity sampleConfig deletedGatewayMeta) (Inr ReadyOutcome), ReleasedLock ''uid-1'',
       PatchedGateway (gatewayOf deletedGatewayMeta) (releasedGateway (gatewayClusterEnv (gatewayOf deletedGatewayMeta)) (gatewayOf deletedGatewayMeta))
         (Inr (releasedGateway (gatewayClusterEnv (gatewayOf deletedGatewayMeta)) (gatewayOf deletedGatewayMeta)))]"
  using gateway_deletion_run [OF gatewayCluster_laws(3,4,1) gatewayCluster_finds [OF clusterMeta(5,6)] _ gatewayCluster_bound(4,3) gatewayCluster_laws(5), of gatewayStart]
  by (auto simp: clusterMeta gatewayStart_def) (simp add: gatewayClusterEnv_def)

definition programmedSample :: Gateway where
  "programmedSample = setGatewayProgrammed listConditions sampleListener 0 sampleGatewayState (gatewayOf boundGatewayMeta)"

lemma gatewayCluster_programming:
  obtains s' where "Reconcile (gatewayClusterEnv (gatewayOf boundGatewayMeta)) ''default'' ''gw'' gatewayStart =
      (Inr (requeueAfter (OpenStackResyncAfter 600000000000 ''uid-1'')), s')"
    "effects (gt_log s') = [AcquiredLock ''uid-1'', CalledEnsureGateway (gatewaySpec sampleConfig (gatewayOf boundGatewayMeta) sampleListener)
       (Inr (GatewayReadyResult sampleGatewayState)), ReleasedLock ''uid-1''] @ publishedStatus (gatewayOf boundGatewayMeta) programmedSample"
  using gateway_programming_run [OF gatewayCluster_laws(3,4) gatewayCluster_boundAccepts gatewayCluster_bound(2,5) gatewayCluster_laws(6,7), of gatewayStart]
  by (auto simp: clusterMeta gatewayStart_def programmedSample_def) (simp add: gatewayClusterEnv_def GatewayReadyResult_def sampleConfig_def)

section \<open>Safety\<close>

text \<open>
  C9. The provider is asked to create or change the resources of a Gateway only under the graph lock of that Gateway, and only
  after live reads under that lock: one showed the Gateway bound, not deleted and valid, with its port stored in the
  binding and with a class of this controller, and the specification is built from it; a later one showed the
  Gateway unchanged.
\<close>

theorem gateway_ensure_authorised:
  assumes "keyedGateways env" "conditionLaws (gv_conditions env)" "finalizerLaws (gv_finalizers env)" "gt_log s = []"
    and "Reconcile env namespace name s = (r, s')" "gt_log s' = prior @ CalledEnsureGateway spec result # later"
  shows "\<exists>es fs gateway listener gatewayClass again. heldSince (GatewayUID (gs_Identity spec)) prior (es @ fs) \<and>
    sawGateway es gateway \<and> boundGateway env gateway \<and> ValidateGateway gateway = Inr listener \<and>
    spec = gatewaySpec (gv_Config env) gateway listener \<and> storedListenerPort env gateway = itoaInt (gl_Port listener) \<and>
    sawClass es (gw_GatewayClassName gateway) gatewayClass \<and> ownClass env gatewayClass \<and> sawGateway fs again \<and> unchanged env gateway again"
  using gateway_Reconcile_justified [OF assms] by (simp add: justified_def mayEnsure_def)

text \<open>
  C11. The provider is asked to delete the resources of a Gateway only under the graph lock of that Gateway, and only after a live
  read under that lock showed the Gateway with a valid binding to exactly the identity that is deleted, and the Gateway is deleted or no longer wanted:
  its class is gone, belongs to another controller or has parameters, or the Gateway is invalid or has a new listener port.
\<close>

theorem gateway_delete_authorised:
  assumes "keyedGateways env" "conditionLaws (gv_conditions env)" "finalizerLaws (gv_finalizers env)" "gt_log s = []"
    and "Reconcile env namespace name s = (r, s')" "gt_log s' = prior @ CalledDeleteGateway i result # later"
  shows "\<exists>since gateway. heldSince (GatewayUID i) prior since \<and> sawGateway since gateway \<and> validBinding env gateway \<and>
    StoredGatewayIdentity (gv_Config env) (gw_Meta gateway) = i \<and>
    (om_Deleting (gw_Meta gateway) \<or> sawNoClass since (gw_GatewayClassName gateway) \<or>
     (\<exists>gatewayClass. sawClass since (gw_GatewayClassName gateway) gatewayClass \<and>
       (gc_ControllerName gatewayClass \<noteq> cf_ControllerName (gv_Config env) \<or> \<not> gatewayStillDesired env gateway gatewayClass)))"
  using gateway_Reconcile_justified [OF assms] by (simp add: justified_def mayDelete_def unwanted_def)

text \<open>
  C10. The finalizer of a Gateway outlives its resources: a patch of a Gateway with the finalizer keeps the finalizer and the
  stored identity, or comes after the provider reported that the resources of that identity are deleted.
\<close>

theorem gateway_finalizer_outlives_resources:
  assumes "keyedGateways env" "conditionLaws (gv_conditions env)" "finalizerLaws (gv_finalizers env)" "gt_log s = []"
    and "Reconcile env namespace name s = (r, s')" "gt_log s' = prior @ PatchedGateway base desired result # later" "hasGatewayFinalizer env base"
  shows "hasGatewayFinalizer env desired \<and> storedIdentity env desired = storedIdentity env base \<or>
    (\<exists>outcome. CalledDeleteGateway (storedIdentity env base) (Inr outcome) \<in> set prior \<and> o_State outcome = OutcomeReady)"
  using gateway_Reconcile_justified [OF assms(1-6)] assms(7) by (simp add: justified_def mayPatch_def gatewayGone_def)


section \<open>Progress\<close>

text \<open>
  C14. A deleted Gateway is released: when reads are answered alike, the lock is free and the provider deletes the
  resources, one reconciliation of a deleted Gateway with a binding deletes the resources once, under the
  lock, gives up the finalizer with one patch, writes nothing else, and is done.
\<close>

theorem deleted_gateway_is_released:
  assumes "finalizerLaws (gv_finalizers env)" "settledReads env reader" "cooperates env" "deletesGateway env (storedIdentity env gateway) outcome" "gt_log s = []"
    and "findsGateway reader gateway" "om_Deleting (gw_Meta gateway)" "hasGatewayFinalizer env gateway" "validBinding env gateway"
  shows "\<exists>s'. Reconcile env (om_Namespace (gw_Meta gateway)) (om_Name (gw_Meta gateway)) s = (Inr noResult, s') \<and>
    effects (gt_log s') = [AcquiredLock (om_UID (gw_Meta gateway)), CalledDeleteGateway (storedIdentity env gateway) (Inr outcome),
      ReleasedLock (om_UID (gw_Meta gateway)), PatchedGateway gateway (releasedGateway env gateway) (Inr (releasedGateway env gateway))] \<and>
    \<not> hasGatewayFinalizer env (releasedGateway env gateway)"
  using gateway_deletion_run [OF assms(2,3,1,6-9,4), of s] releasedGateway_fields(2) [OF assms(1), of gateway] assms(5) by simp

text \<open>
  C13. A Gateway is bound, then programmed: when reads are answered alike, the lock is free and the provider reports
  the Gateway ready, the reconciliation of an accepted Gateway without a binding writes the binding and nothing else, and asks to be
  repeated; that of an accepted Gateway with a binding calls the provider once, under the lock, with the specification of the
  Gateway, then publishes the programmed status unless it is published already, and comes back after the resync interval.
\<close>

theorem accepted_gateway_is_programmed:
  assumes "finalizerLaws (gv_finalizers env)" "settledReads env reader" "cooperates env" "acceptedIn env reader gateway gatewayClass listener" "gt_log s = []"
    and "ensuresGateway env (gatewaySpec (gv_Config env) gateway listener) q"
    and "attachedRouteCount (gv_conditions env) (gv_Config env) reader gateway listener = Inr n"
    and "if hasGatewayFinalizer env gateway then storedListenerPort env gateway = listenerPort listener else storedListenerPort env gateway = []"
  shows "\<exists>r s'. Reconcile env (om_Namespace (gw_Meta gateway)) (om_Name (gw_Meta gateway)) s = (Inr r, s') \<and>
    (if hasGatewayFinalizer env gateway
     then r = requeueAfter (OpenStackResyncAfter (cf_OpenStackResyncInterval (gv_Config env)) (om_UID (gw_Meta gateway))) \<and>
       effects (gt_log s') = [AcquiredLock (om_UID (gw_Meta gateway)), CalledEnsureGateway (gatewaySpec (gv_Config env) gateway listener) (Inr q),
         ReleasedLock (om_UID (gw_Meta gateway))] @ publishedStatus gateway (setGatewayProgrammed (gv_conditions env) listener n (gres_State q) gateway)
     else r = requeueNow \<and>
       effects (gt_log s') = [PatchedGateway gateway (boundWith env gateway listener) (Inr (boundWith env gateway listener))])"
  using gateway_programming_run [OF assms(2-4) _ _ assms(6,7), of s] gateway_binding_run [OF assms(2,3,1,4), of s] assms(5,8) by auto

section \<open>On the cluster\<close>

theorem gateway_ensure_authorised_witness:
  "\<exists>r s' prior spec result later. Reconcile (gatewayClusterEnv (gatewayOf boundGatewayMeta)) ''default'' ''gw'' gatewayStart = (r, s') \<and>
     gt_log s' = prior @ CalledEnsureGateway spec result # later \<and> (\<exists>since gateway. heldSince ''uid-1'' prior since \<and> sawGateway since gateway)"
proof -
  let ?spec = "gatewaySpec sampleConfig (gatewayOf boundGatewayMeta) sampleListener" and ?q = "Inr (GatewayReadyResult sampleGatewayState)"
  obtain r s' where run: "Reconcile (gatewayClusterEnv (gatewayOf boundGatewayMeta)) ''default'' ''gw'' gatewayStart = (r, s')"
    "CalledEnsureGateway ?spec ?q \<in> set (effects (gt_log s'))"
    by (rule gatewayCluster_programming) auto
  obtain prior later where split: "gt_log s' = prior @ CalledEnsureGateway ?spec ?q # later" by (rule effect_split [OF run(2)])
  have "GatewayUID (gs_Identity ?spec) = ''uid-1''" by (simp add: gatewaySpec_def clusterMeta)
  moreover have "gt_log gatewayStart = []" by (simp add: gatewayStart_def)
  ultimately have "\<exists>since gateway. heldSince ''uid-1'' prior since \<and> sawGateway since gateway"
    using gateway_ensure_authorised [OF gatewayCluster_keyed [OF clusterMeta(1,2)] gatewayCluster_laws(2,1) _ run(1) split] by (metis gateway_saw_mono(1))
  with run(1) split show ?thesis by blast
qed

theorem gateway_delete_authorised_witness:
  "\<exists>r s' prior i result later. Reconcile (gatewayClusterEnv (gatewayOf deletedGatewayMeta)) ''default'' ''gw'' gatewayStart = (r, s') \<and>
     gt_log s' = prior @ CalledDeleteGateway i result # later \<and> (\<exists>since gateway. heldSince (GatewayUID i) prior since \<and> sawGateway since gateway)"
proof -
  let ?i = "StoredGatewayIdentity sampleConfig deletedGatewayMeta"
  obtain r s' where run: "Reconcile (gatewayClusterEnv (gatewayOf deletedGatewayMeta)) ''default'' ''gw'' gatewayStart = (r, s')"
    "CalledDeleteGateway ?i (Inr ReadyOutcome) \<in> set (effects (gt_log s'))"
    by (rule gatewayCluster_deletion) auto
  obtain prior later where split: "gt_log s' = prior @ CalledDeleteGateway ?i (Inr ReadyOutcome) # later" by (rule effect_split [OF run(2)])
  have "gt_log gatewayStart = []" by (simp add: gatewayStart_def)
  from gateway_delete_authorised [OF gatewayCluster_keyed [OF clusterMeta(5,6)] gatewayCluster_laws(2,1) this run(1) split] run(1) split
  show ?thesis by blast
qed

theorem gateway_finalizer_outlives_resources_witness:
  "\<exists>r s' prior base desired result later outcome. Reconcile (gatewayClusterEnv (gatewayOf deletedGatewayMeta)) ''default'' ''gw'' gatewayStart = (r, s') \<and>
     gt_log s' = prior @ PatchedGateway base desired result # later \<and> hasGatewayFinalizer (gatewayClusterEnv (gatewayOf deletedGatewayMeta)) base \<and>
     CalledDeleteGateway (StoredGatewayIdentity sampleConfig deletedGatewayMeta) (Inr outcome) \<in> set prior \<and> o_State outcome = OutcomeReady"
proof -
  let ?env = "gatewayClusterEnv (gatewayOf deletedGatewayMeta)"
  let ?base = "gatewayOf deletedGatewayMeta"
  let ?new = "releasedGateway ?env ?base"
  obtain r s' where run: "Reconcile ?env ''default'' ''gw'' gatewayStart = (r, s')" "PatchedGateway ?base ?new (Inr ?new) \<in> set (effects (gt_log s'))"
    by (rule gatewayCluster_deletion) auto
  obtain prior later where split: "gt_log s' = prior @ PatchedGateway ?base ?new (Inr ?new) # later" by (rule effect_split [OF run(2)])
  have start: "gt_log gatewayStart = []" by (simp add: gatewayStart_def)
  have "\<not> hasGatewayFinalizer ?env ?new" by (rule releasedGateway_fields(2) [OF gatewayCluster_laws(1)])
  with gateway_finalizer_outlives_resources [OF gatewayCluster_keyed [OF clusterMeta(5,6)] gatewayCluster_laws(2,1) start run(1) split gatewayCluster_bound(4)]
  obtain outcome where "CalledDeleteGateway (storedIdentity ?env ?base) (Inr outcome) \<in> set prior" "o_State outcome = OutcomeReady" by blast
  moreover have "storedIdentity ?env ?base = StoredGatewayIdentity sampleConfig deletedGatewayMeta" by (simp add: gatewayClusterEnv_def)
  ultimately have "CalledDeleteGateway (StoredGatewayIdentity sampleConfig deletedGatewayMeta) (Inr outcome) \<in> set prior \<and> o_State outcome = OutcomeReady" by metis
  with run(1) split gatewayCluster_bound(4) show ?thesis by blast
qed

lemma programmed_claims:
  "conditionLaws (gv_conditions env) \<Longrightarrow> claimsProgrammed env (setGatewayProgrammed (gv_conditions env) listener n gatewayState gateway)"
  by (simp add: setGatewayProgrammed_def Let_def claims_two)


theorem deleted_gateway_is_released_witness:
  "\<exists>s'. Reconcile (gatewayClusterEnv (gatewayOf deletedGatewayMeta)) ''default'' ''gw'' gatewayStart = (Inr noResult, s') \<and> length (effects (gt_log s')) = 4"
  using deleted_gateway_is_released [OF gatewayCluster_laws(1,3,4,5) _ gatewayCluster_finds [OF clusterMeta(5,6)] _ gatewayCluster_bound(4,3), of gatewayStart]
  by (auto simp: gatewayStart_def clusterMeta)

theorem accepted_gateway_is_programmed_witness:
  "\<exists>r s'. Reconcile (gatewayClusterEnv (gatewayOf boundGatewayMeta)) ''default'' ''gw'' gatewayStart = (Inr r, s') \<and> AcquiredLock ''uid-1'' \<in> set (effects (gt_log s'))"
  using accepted_gateway_is_programmed [OF gatewayCluster_laws(1,3,4) gatewayCluster_boundAccepts _ gatewayCluster_laws(6,7), of gatewayStart]
    gatewayCluster_bound(2,5)
  by (auto simp: gatewayStart_def clusterMeta)

end
