(* ===== verification/WatchClaims.thy ===== *)
theory WatchClaims
  imports WatchFacts GatewayClaims
begin

text \<open>
  The watches on a sample cluster, and what an update that is dropped leaves the same for the Gateway reconciler.
\<close>

section \<open>A cluster with one route\<close>

text \<open>A cache that computes the lists by index from the extractors.\<close>

definition sampleSlice :: EndpointSlice where
  "sampleSlice = \<lparr>sl_Meta = sampleMeta ''web-1'' ''uid-3'', sl_ServiceName = ''web'',
     sl_Endpoints = [\<lparr>ep_Ready = Some True, ep_Terminating = None, ep_NodeName = Some ''node-1''\<rparr>]\<rparr>"

definition indexRoutes :: "Config \<Rightarrow> HTTPRoute list \<Rightarrow> string \<Rightarrow> string \<Rightarrow> readError + HTTPRoute list" where
  "indexRoutes c routes field v = (case find (\<lambda>index. ix_object index = KindHTTPRoute \<and> ix_field index = field) (controllerFieldIndexes c) of
      None \<Rightarrow> Inl ReadFailed
    | Some index \<Rightarrow> Inr (filter (\<lambda>route. v \<in> set (ix_extract index (HTTPRouteObject route))) routes))"

definition sampleCache :: "HTTPRoute \<Rightarrow> watchReader" where
  "sampleCache route = \<lparr>wr_reader = (clusterReader route)\<lparr>rd_Indexed := indexRoutes sampleConfig [route]\<rparr>,
     wr_Gateways = \<lambda>_ _. Inr [boundSampleGateway], wr_GatewayClasses = \<lambda>_ _. Inr [sampleClass],
     wr_EndpointSlices = \<lambda>_ _. Inr [sampleSlice]\<rparr>"

lemma sampleCache_indexed: "indexedCache sampleConfig [route] (sampleCache route)"
  unfolding indexedCache_def sampleCache_def indexRoutes_def
  by (simp add: controllerFieldIndexes_def fieldIndex_def IndexHTTPRouteByParentGateway_def IndexHTTPRouteByStatusGateway_def
    IndexHTTPRouteByBackendService_def IndexHTTPRouteByBoundGateway_def indexHTTPRouteByBoundGatewayUID_def IndexHTTPRouteByNodeBackend_def)

lemma sample_backedBy: "backedBy sampleConfig (sampleCache (sampleRoute ''a'' ''uid-2'')) (sampleRoute ''a'' ''uid-2'') (sampleService ''default'' ''web'' 8080)"
  unfolding backedBy_def using sampleRoute_supported [of "''a''" "''uid-2''"]
  by (simp add: managedParentsWithReader_def managedParent_def sampleRoute_def sampleCache_def clusterReader_def sampleMeta_def IsGatewayParentRef_def
    orDefault_def boundSampleGateway_fields sampleClass_def sampleConfig_def sampleReader_def sampleService_def)

lemma sample_names: "plainName ''default''" "plainName ''gw''" "plainName ''web''" "plainName ''node-1''"
  by (simp_all add: plainName_def)

theorem gateway_route_watches_inverse_witness:
  "(''default'', ''a'') \<in> set (enqueueHTTPRoutesForGateway (sampleCache (sampleRoute ''a'' ''uid-2'')) (GatewayObject boundSampleGateway))"
proof -
  have "(''default'', ''gw'') \<in> set (gatewayRequestsForHTTPRoute sampleConfig (HTTPRouteObject (sampleRoute ''a'' ''uid-2'')))"
    unfolding requests_parts by (simp add: sampleRoute_def sampleMeta_def parentRequest_def IsGatewayParentRef_def orDefault_def)
  then show ?thesis
    using gateway_route_watches_inverse [OF sampleCache_indexed, of boundSampleGateway "sampleRoute ''a'' ''uid-2''"] boundSampleGateway_meta sample_names
    by (simp add: ObjectKeyFromObject_def) (simp add: sampleRoute_def sampleMeta_def)
qed

definition cordoned :: "Node \<Rightarrow> Node" where
  "cordoned node = node\<lparr>no_Unschedulable := True\<rparr>"

theorem node_changes_are_seen_witness:
  "delivers (setupRouteController listConditions sampleConfig True True) (sampleCache (sampleRoute ''a'' ''uid-2'')) KindNode
     (UpdateEvent (Some (NodeObject (sampleMeta ''node-1'' ''uid-4'') (sampleNode ''InternalIP'')))
       (Some (NodeObject (sampleMeta ''node-1'' ''uid-4'') (cordoned (sampleNode ''InternalIP'')))))
     (NodeObject (sampleMeta ''node-1'' ''uid-4'') (cordoned (sampleNode ''InternalIP''))) (''default'', ''a'')"
proof -
  let ?reader = "sampleCache (sampleRoute ''a'' ''uid-2'')"
  have "membersWith ?reader sampleConfig (sampleService ''default'' ''web'' 8080) 30080 (map sl_Endpoints [sampleSlice]) ([] @ sampleNode ''InternalIP'' # []) \<noteq>
      membersWith ?reader sampleConfig (sampleService ''default'' ''web'' 8080) 30080 (map sl_Endpoints [sampleSlice]) ([] @ cordoned (sampleNode ''InternalIP'') # [])"
    by (simp add: membersWith_def nodePortMembersWithReader_def sampleSlice_def sampleService_def sampleNode_def cordoned_def endpointReady_def
      guardE_def addNode_def readyNode_def nodeAddress_def sample_address Local_def sampleConfig_def Let_def)
  from node_changes_are_seen [OF sampleCache_indexed _ sample_backedBy _ _ this] show ?thesis
    by (simp add: ObjectKeyFromObject_def) (simp add: sampleCache_def cordoned_def sampleRoute_def sampleMeta_def)
qed

definition unready :: "EndpointSlice \<Rightarrow> EndpointSlice" where
  "unready endpointSlice = endpointSlice\<lparr>sl_Endpoints := map (\<lambda>endpoint. endpoint\<lparr>ep_Ready := Some False\<rparr>) (sl_Endpoints endpointSlice)\<rparr>"

theorem endpoint_changes_are_seen_witness:
  "delivers (setupRouteController listConditions sampleConfig True True) (sampleCache (sampleRoute ''a'' ''uid-2'')) KindEndpointSlice
     (UpdateEvent (Some (EndpointSliceObject sampleSlice)) (Some (EndpointSliceObject (unready sampleSlice)))) (EndpointSliceObject (unready sampleSlice)) (''default'', ''a'')"
proof -
  let ?reader = "sampleCache (sampleRoute ''a'' ''uid-2'')"
  have "membersWith ?reader sampleConfig (sampleService ''default'' ''web'' 8080) 30080 ([] @ sl_Endpoints sampleSlice # []) [sampleNode ''InternalIP''] \<noteq>
      membersWith ?reader sampleConfig (sampleService ''default'' ''web'' 8080) 30080 ([] @ sl_Endpoints (unready sampleSlice) # []) [sampleNode ''InternalIP'']"
    by (simp add: membersWith_def nodePortMembersWithReader_def sampleSlice_def sampleService_def sampleNode_def unready_def endpointReady_def
      guardE_def addNode_def readyNode_def nodeAddress_def sample_address Local_def sampleConfig_def Let_def)
  from endpoint_changes_are_seen [OF sampleCache_indexed _ sample_backedBy _ _ _ _ _ _ this] sample_names show ?thesis
    by (simp add: ObjectKeyFromObject_def) (simp add: sampleSlice_def unready_def namesNodes_def sampleRoute_def sampleMeta_def sampleService_def)
qed

section \<open>Updates that are dropped\<close>

text \<open>The API server raises the generation of an object with every change of its specification.\<close>

definition gatewayGenerations :: "Gateway \<Rightarrow> Gateway \<Rightarrow> bool" where
  "gatewayGenerations old new \<longleftrightarrow> (om_Generation (gw_Meta old) = om_Generation (gw_Meta new) \<longrightarrow>
     gw_GatewayClassName old = gw_GatewayClassName new \<and> gw_Addresses old = gw_Addresses new \<and> gw_Infrastructure old = gw_Infrastructure new \<and>
     gw_AllowedListeners old = gw_AllowedListeners new \<and> gw_TLS old = gw_TLS new \<and> gw_Listeners old = gw_Listeners new)"

definition classGenerations :: "GatewayClass \<Rightarrow> GatewayClass \<Rightarrow> bool" where
  "classGenerations old new \<longleftrightarrow> (gc_Generation old = gc_Generation new \<longrightarrow>
     gc_ControllerName old = gc_ControllerName new \<and> gc_ParametersRef old = gc_ParametersRef new)"

definition observedScope :: "'w gatewayEnv \<Rightarrow> Gateway \<Rightarrow> GatewayClass \<Rightarrow> gatewayScope" where
  "observedScope env gateway gatewayClass =
     (newScopeOf gateway)\<lparr>gs_gatewayClass := Some gatewayClass, gs_managed := (gc_ControllerName gatewayClass = cf_ControllerName (gv_Config env))\<rparr>"

lemma dropped_gateway:
  assumes "finalizerLaws (gv_finalizers env)" "gatewayGenerations old new"
    and "\<not> GatewayReconcilePredicate (gv_Config env) (UpdateEvent (Some (GatewayObject old)) (Some (GatewayObject new)))"
  shows "hasControllerBinding env old = hasControllerBinding env new" "validBinding env old = validBinding env new"
    "listenerPortChanged env old listener = listenerPortChanged env new listener" "gatewayBindingComplete env old = gatewayBindingComplete env new"
    "ValidateGateway old = ValidateGateway new"
proof -
  note dropped = assms(3) [unfolded GatewayReconcilePredicate_def updatePredicate_def gatewayBindingChanged_def finalizerPresenceChanged_def
      generationOrDeletionChanged_def gatewayBindingKeys_def, simplified]
  note k = finalizerLaws_rules(1) [OF assms(1)]
  show "hasControllerBinding env old = hasControllerBinding env new"
    using dropped by (simp add: hasControllerBinding_def GatewayHasControllerBinding_def k gatewayBindingKeys_def)
  show "validBinding env old = validBinding env new"
    using dropped by (simp add: validBinding_def ValidateGatewayBinding_def k gatewayBindingKeys_def)
  show "listenerPortChanged env old listener = listenerPortChanged env new listener"
    using dropped by (simp add: listenerPortChanged_def storedListenerPort_def)
  show "gatewayBindingComplete env old = gatewayBindingComplete env new"
    using dropped by (simp add: gatewayBindingComplete_def hasGatewayFinalizer_def k gatewayBindingKeys_def)
  show "ValidateGateway old = ValidateGateway new"
    using dropped assms(2) by (simp add: gatewayGenerations_def ValidateGateway_def)
qed

lemma dropped_class:
  assumes "classGenerations old new" "\<not> GatewayClassForGatewayPredicate u (UpdateEvent (Some (GatewayClassObject old)) (Some (GatewayClassObject new)))"
  shows "GatewayClassSupportsInstalledVersion u old = GatewayClassSupportsInstalledVersion u new" "gc_ControllerName old = gc_ControllerName new"
    "gc_ParametersRef old = gc_ParametersRef new"
proof -
  note dropped = assms(2) [unfolded GatewayClassForGatewayPredicate_def updatePredicate_def classConditionsChanged_def generationOrDeletionChanged_def, simplified]
  show "GatewayClassSupportsInstalledVersion u old = GatewayClassSupportsInstalledVersion u new"
    using dropped by (auto simp: GatewayClassSupportsInstalledVersion_def gatewayClassConditionStateFor_def conditionState_def split: option.splits)
  show "gc_ControllerName old = gc_ControllerName new" "gc_ParametersRef old = gc_ParametersRef new"
    using dropped assms(1) by (simp_all add: classGenerations_def)
qed

text \<open>
  C20. An update that the predicates of the Gateway controller drop does not matter: when neither the update of a Gateway nor
  the update of its class is let through, the reconciler would decide on the same phase, the same listener and
  the same listener port before and after the updates.
\<close>

theorem dropped_updates_keep_phase:
  assumes "finalizerLaws (gv_finalizers env)" "gatewayGenerations old new" "classGenerations oldClass newClass"
    and "\<not> GatewayReconcilePredicate (gv_Config env) (UpdateEvent (Some (GatewayObject old)) (Some (GatewayObject new)))"
    and "\<not> GatewayClassForGatewayPredicate (gv_conditions env) (UpdateEvent (Some (GatewayClassObject oldClass)) (Some (GatewayClassObject newClass)))"
  shows "let earlier = decideGatewayPhase env (observedScope env old oldClass); later = decideGatewayPhase env (observedScope env new newClass) in
    gd_phase earlier = gd_phase later \<and> gd_listener earlier = gd_listener later \<and> gd_listenerPort earlier = gd_listenerPort later"
  using dropped_gateway [OF assms(1,2,4)] dropped_class [OF assms(3,5)]
  by (simp add: decideGatewayPhase_def observedScope_def newScopeOf_def classOf_def phaseDecision_def Let_def split: sum.splits)

text \<open>Only the status of the Gateway and the message of a condition of the class differ.\<close>

definition rewordedClass :: GatewayClass where
  "rewordedClass = sampleClass\<lparr>gc_Conditions := [Condition ''SupportedVersion'' ConditionTrue ''SupportedVersion'' ''supported'' 1]\<rparr>"

theorem dropped_updates_keep_phase_witness:
  "gd_phase (decideGatewayPhase (gatewayClusterEnv sampleGateway) (observedScope (gatewayClusterEnv sampleGateway) boundSampleGateway sampleClass)) =
   gd_phase (decideGatewayPhase (gatewayClusterEnv sampleGateway) (observedScope (gatewayClusterEnv sampleGateway) (gatewayOf boundGatewayMeta) rewordedClass))"
proof -
  let ?env = "gatewayClusterEnv sampleGateway"
  have "gatewayGenerations boundSampleGateway (gatewayOf boundGatewayMeta)" "classGenerations sampleClass rewordedClass"
    by (simp_all add: gatewayGenerations_def classGenerations_def rewordedClass_def boundSampleGateway_def gatewayOf_def)
  moreover have "\<not> GatewayReconcilePredicate (gv_Config ?env) (UpdateEvent (Some (GatewayObject boundSampleGateway)) (Some (GatewayObject (gatewayOf boundGatewayMeta))))"
    by (simp add: GatewayReconcilePredicate_def updatePredicate_def generationOrDeletionChanged_def gatewayBindingChanged_def finalizerPresenceChanged_def
      list_ex_iff boundGatewayMeta_def)
  moreover have "\<not> GatewayClassForGatewayPredicate (gv_conditions ?env) (UpdateEvent (Some (GatewayClassObject sampleClass)) (Some (GatewayClassObject rewordedClass)))"
    by (simp add: GatewayClassForGatewayPredicate_def updatePredicate_def generationOrDeletionChanged_def classConditionsChanged_def
      gatewayClassConditionStateFor_def conditionState_def gatewayClusterEnv_def listConditions_def rewordedClass_def sampleClass_def Condition_def)
  ultimately show ?thesis using dropped_updates_keep_phase [OF gatewayCluster_laws(1)] unfolding Let_def by blast
qed

end
