(* ===== verification/GatewayClassClaims.thy ===== *)
theory GatewayClassClaims
  imports GatewayClassSafety WatchClaims
begin

text \<open>
  The theorems about a reconciliation of a class, and what the published class means for the Gateways that use it.
\<close>

section \<open>The published conditions\<close>

definition conditionTrue :: "conditionUtil \<Rightarrow> GatewayClass \<Rightarrow> string \<Rightarrow> bool" where
  "conditionTrue u gatewayClass conditionType = (case FindStatusCondition u (gc_Conditions gatewayClass) conditionType of
      None \<Rightarrow> False
    | Some condition \<Rightarrow> co_Status condition = ConditionTrue \<and> co_ObservedGeneration condition = gc_Generation gatewayClass)"

lemma conditionTrue_set:
  assumes "conditionLaws u"
  shows "conditionTrue u (setClassCondition u t status reason text gatewayClass) t' =
    (if t' = t then status = ConditionTrue else conditionTrue u gatewayClass t')"
proof (cases "t' = t")
  case True
  obtain d where "FindStatusCondition u (SetStatusCondition u (gc_Conditions gatewayClass) (Condition t status reason text (gc_Generation gatewayClass))) t = Some d"
    "co_Status d = status" "co_ObservedGeneration d = gc_Generation gatewayClass"
    by (rule conditionLaws_same [OF assms, of "gc_Conditions gatewayClass" "Condition t status reason text (gc_Generation gatewayClass)"]) (simp add: Condition_def)
  with True show ?thesis by (simp add: conditionTrue_def setClassCondition_def SetCondition_def)
next
  case False
  then show ?thesis
    using conditionLaws_other [OF assms, of t' "Condition t status reason text (gc_Generation gatewayClass)" "gc_Conditions gatewayClass"]
    by (simp add: conditionTrue_def setClassCondition_def SetCondition_def Condition_def split: option.split)
qed

lemma conditionTrue_features [simp]: "conditionTrue u (setSupportedFeatures features gatewayClass) t = conditionTrue u gatewayClass t"
  by (simp add: conditionTrue_def setSupportedFeatures_def split: option.split)

lemma supports_conditionTrue: "GatewayClassSupportsInstalledVersion u gatewayClass = conditionTrue u gatewayClass ''SupportedVersion''"
  by (simp add: GatewayClassSupportsInstalledVersion_def conditionTrue_def)

lemma setClassCondition_parameters [simp]: "gc_ParametersRef (setClassCondition u t status reason text gatewayClass) = gc_ParametersRef gatewayClass"
  by (simp add: setClassCondition_def)

lemma published_conditions:
  assumes "conditionLaws (cv_conditions env)"
  shows "conditionTrue (cv_conditions env) (publishedClass env observation gatewayClass) ''SupportedVersion'' \<longleftrightarrow> vo_Supported observation"
    "conditionTrue (cv_conditions env) (publishedClass env observation gatewayClass) ''Accepted'' \<longleftrightarrow> vo_Supported observation \<and> \<not> gc_ParametersRef gatewayClass"
  by (simp_all add: publishedClass_def acceptedClass_def observedVersion_def conditionTrue_set [OF assms])

section \<open>Claims\<close>

lemma written_event:
  assumes "finalizerLaws (cv_finalizers env)" "kt_log s = []" "ReconcileClass env name s = (r, s')" "kt_log s' = prior @ e # later" "\<not> classRead e"
  shows "later = [] \<and> list_all classRead prior \<and> (writesFinalizer env prior e \<or> writesStatus env prior e)"
proof -
  obtain seen writes where w: "kt_log s' = seen @ writes" "list_all classRead seen"
    "writes = [] \<or> (\<exists>e. writes = [e] \<and> (writesFinalizer env seen e \<or> writesStatus env seen e))"
    using reconciliation_writes [OF assms(1-3)] by blast
  have "prior @ e # later = seen @ writes" using w(1) assms(4) by simp
  with w(2,3) assms(5) show ?thesis by (auto simp: append_eq_append_conv2 append_eq_Cons_conv Cons_eq_append_conv list_all_iff)
qed

text \<open>
  C16. The finalizer of a class follows the Gateways that use it: when a reconciliation patches the metadata of a class, then the class
  is one of this controller, a list of the Gateways of the class was read before, the patched class has the finalizer exactly when
  the list was not empty, all other finalizers and fields stay, and nothing is written after it.
\<close>

theorem class_finalizer_follows_gateways:
  assumes "finalizerLaws (cv_finalizers env)" "kt_log s = []" "ReconcileClass env name s = (r, s')"
    and "kt_log s' = prior @ PatchedClass base target answer # later"
  shows "later = [] \<and> gc_ControllerName base = cf_ControllerName (cv_Config env) \<and>
    (\<exists>gateways. ListedGateways IndexGatewayByClass (gc_Name base) (Inr gateways) \<in> set prior \<and>
       (cv_gatewaysExist env \<in> set (om_Finalizers (gc_Meta target)) \<longleftrightarrow> gateways \<noteq> [])) \<and>
    set (om_Finalizers (gc_Meta target)) - {cv_gatewaysExist env} = set (om_Finalizers (gc_Meta base)) - {cv_gatewaysExist env} \<and>
    target = withFinalizers base (om_Finalizers (gc_Meta target))"
  using written_event [OF assms(1-4)] finalizerLaws_rules(2,3) [OF assms(1)]
  by (auto simp: classRead_def writesFinalizer_def writesStatus_def withFinalizers_def referencedMeta_def split: if_splits)


text \<open>
  The two controllers agree: with the class that the class controller publishes, the Gateway controller decides to bind a Gateway, to ensure its
  resources or to replace them only when the installed Gateway API is supported and the class has no parameters.
\<close>

theorem published_class_gates_gateways:
  assumes "conditionLaws (cv_conditions env)" "gv_conditions genv = cv_conditions env"
    and "gd_phase (decideGatewayPhase genv (observedScope genv gateway (publishedClass env observation gatewayClass))) \<in>
      {gatewayPhaseBind, gatewayPhaseEnsure, gatewayPhaseReplaceGraph}"
  shows "vo_Supported observation \<and> \<not> gc_ParametersRef gatewayClass \<and>
    conditionTrue (cv_conditions env) (publishedClass env observation gatewayClass) ''Accepted''"
  using assms(3) published_conditions [OF assms(1), of observation gatewayClass] assms(2)
  by (auto simp: decideGatewayPhase_def observedScope_def newScopeOf_def classOf_def phaseDecision_def supports_conditionTrue Let_def split: if_splits)

section \<open>A sample class\<close>

text \<open>A class that Gateways use, with and without its finalizer.\<close>

definition usedFinalizer :: string where
  "usedFinalizer = ''gateway-exists-finalizer.gateway.networking.k8s.io''"

definition classCluster :: "GatewayClass \<Rightarrow> unit classEnv" where
  "classCluster gatewayClass = \<lparr>cv_Config = sampleConfig, cv_finalizers = listFinalizers, cv_conditions = listConditions, cv_consts = sampleConsts,
     cv_gatewaysExist = usedFinalizer, cv_hasAPIReader = True,
     cv_read = \<lambda>_ w. ((clusterReader (sampleRoute ''a'' ''uid-2''))\<lparr>rd_GatewayClass := \<lambda>_. Inr gatewayClass\<rparr>, w),
     cv_list = \<lambda>_ _ w. (Inr [boundSampleGateway], w), cv_patch = \<lambda>_ target w. (Inr target, w), cv_patchStatus = \<lambda>_ target w. (Inr target, w)\<rparr>"

definition classStart :: "unit classReconcileState" where
  "classStart = \<lparr>kt_world = (), kt_log = [], kt_scope = \<lparr>ks_gatewayClass = sampleClass, ks_original = sampleClass\<rparr>\<rparr>"

definition newClass :: GatewayClass where
  "newClass = \<lparr>gc_Meta = (sampleMeta ''openstack'' ''uid-0'')\<lparr>om_Namespace := []\<rparr>, gc_ControllerName = ''example.com/openstack'', gc_ParametersRef = False,
     gc_SupportedFeatures = [], gc_Conditions = []\<rparr>"

definition heldClass :: GatewayClass where
  "heldClass = withFinalizers newClass [usedFinalizer]"

lemmas class_run = ReconcileClass_def newGatewayClassScope_def readForClass_def withClassPatch_def reconcileClassNormal_def reconcileGatewayClassReferences_def
  hasReferencingGateways_def listGateways_def changeClass_def patchGatewayClass_def patchFinalizers_def patchClassMetadata_def patchClassStatus_def
  reconcileGatewayClassStatus_def failingAs_def bindA_def tryA_def getA_def modifyA_def returnA_def liftA_def guardA_def guardE_def

lemmas class_cluster = classCluster_def classStart_def newClass_def heldClass_def sampleMeta_def sampleConfig_def withFinalizers_def finalizerChanged_def
  classStatus_def listFinalizers_def

lemma new_class_log: "kt_log (snd (ReconcileClass (classCluster newClass) ''openstack'' classStart)) =
    [ReadForClass False ((clusterReader (sampleRoute ''a'' ''uid-2''))\<lparr>rd_GatewayClass := \<lambda>_. Inr newClass\<rparr>),
     ListedGateways IndexGatewayByClass ''openstack'' (Inr [boundSampleGateway]), PatchedClass newClass heldClass (Inr heldClass)]"
  by (simp add: class_run class_cluster Let_def)

theorem class_finalizer_follows_gateways_witness:
  "usedFinalizer \<in> set (om_Finalizers (gc_Meta heldClass)) \<and> heldClass = withFinalizers newClass (om_Finalizers (gc_Meta heldClass))"
proof -
  let ?env = "classCluster newClass"
  obtain r s' where run: "ReconcileClass ?env ''openstack'' classStart = (r, s')" by fastforce
  have "kt_log s' = [ReadForClass False ((clusterReader (sampleRoute ''a'' ''uid-2''))\<lparr>rd_GatewayClass := \<lambda>_. Inr newClass\<rparr>),
     ListedGateways IndexGatewayByClass ''openstack'' (Inr [boundSampleGateway])] @ PatchedClass newClass heldClass (Inr heldClass) # []"
    using new_class_log run by simp
  from class_finalizer_follows_gateways [OF _ _ run this] show ?thesis
    using listFinalizers_laws by (auto simp: classCluster_def classStart_def)
qed

lemma held_class_log:
  assumes "ObserveGatewayAPIVersion sampleConsts ((clusterReader (sampleRoute ''a'' ''uid-2''))\<lparr>rd_GatewayClass := \<lambda>_. Inr heldClass\<rparr>) = Inr observation"
  shows "kt_log (snd (ReconcileClass (classCluster heldClass) ''openstack'' classStart)) =
    [ReadForClass False ((clusterReader (sampleRoute ''a'' ''uid-2''))\<lparr>rd_GatewayClass := \<lambda>_. Inr heldClass\<rparr>),
     ListedGateways IndexGatewayByClass ''openstack'' (Inr [boundSampleGateway]),
     ReadForClass True ((clusterReader (sampleRoute ''a'' ''uid-2''))\<lparr>rd_GatewayClass := \<lambda>_. Inr heldClass\<rparr>)] @
     PatchedClassStatus heldClass (publishedClass (classCluster heldClass) observation heldClass)
       (Inr (publishedClass (classCluster heldClass) observation heldClass)) # []"
proof -
  let ?env = "classCluster heldClass"
  have differ: "classStatus heldClass \<noteq> classStatus (publishedClass ?env observation heldClass)"
    by (simp add: classStatus_def publishedClass_def acceptedClass_def observedVersion_def setClassCondition_def setSupportedFeatures_def SetCondition_def
      class_cluster listConditions_def)
  have held: "AddFinalizer listFinalizers (gc_Meta heldClass) usedFinalizer = gc_Meta heldClass" "gc_Name heldClass = ''openstack''"
    "\<not> om_Deleting (gc_Meta heldClass)" "gc_ControllerName heldClass = cf_ControllerName sampleConfig"
    by (simp_all add: class_cluster)
  have env: "cv_list ?env = (\<lambda>_ _ w. (Inr [boundSampleGateway], w))" "cv_finalizers ?env = listFinalizers" "cv_gatewaysExist ?env = usedFinalizer"
    "cv_Config ?env = sampleConfig" "cv_consts ?env = sampleConsts" "cv_hasAPIReader ?env" "cv_patchStatus ?env = (\<lambda>_ target w. (Inr target, w))"
    "cv_read ?env = (\<lambda>_ w. ((clusterReader (sampleRoute ''a'' ''uid-2''))\<lparr>rd_GatewayClass := \<lambda>_. Inr heldClass\<rparr>, w))" "kt_log classStart = []"
    by (simp_all add: classCluster_def classStart_def)
  show ?thesis using assms differ
    by (simp add: class_run held env finalizerChanged_def Let_def publishedClass_def [symmetric] published_base)
qed


theorem published_class_gates_gateways_witness:
  "conditionTrue listConditions (publishedClass (classCluster newClass) \<lparr>vo_Supported = True, vo_Message = []\<rparr> newClass) ''Accepted''"
proof -
  let ?genv = "gatewayClusterEnv sampleGateway" and ?published = "publishedClass (classCluster newClass) \<lparr>vo_Supported = True, vo_Message = []\<rparr> newClass"
  have laws: "conditionLaws (cv_conditions (classCluster newClass))" "gv_conditions ?genv = cv_conditions (classCluster newClass)"
    by (simp_all add: classCluster_def gatewayClusterEnv_def listConditions_laws)
  have "gc_ControllerName ?published = cf_ControllerName (gv_Config ?genv)" "\<not> gc_ParametersRef ?published"
    by (simp_all add: publishedClass_def acceptedClass_def observedVersion_def setClassCondition_def setSupportedFeatures_def newClass_def gatewayClusterEnv_def sampleConfig_def)
  then have "gd_phase (decideGatewayPhase ?genv (observedScope ?genv (gatewayOf boundGatewayMeta) ?published)) \<in> {gatewayPhaseBind, gatewayPhaseEnsure, gatewayPhaseReplaceGraph}"
    using published_conditions [OF laws(1), of "\<lparr>vo_Supported = True, vo_Message = []\<rparr>" newClass] laws(2) gatewayCluster_bound
    by (simp add: decideGatewayPhase_def observedScope_def newScopeOf_def classOf_def phaseDecision_def supports_conditionTrue Let_def)
  from published_class_gates_gateways [OF laws this] show ?thesis by (simp add: classCluster_def)
qed

end
