(* ===== verification/Probe.thy ===== *)
theory Probe
  imports Metadata Gophercloud
begin

text \<open>
  The Octavia capability probe and the waits it uses: octavia/wait.go, and identity.go, state.go and cleanup.go of internal/probe. The
  gophercloud calls, the file of the state and the clock are parameters. A computation may fail to return, because a wait polls until
  the load balancer has the status it waits for or its context ends: it gives \<^term>\<open>None\<close> then.
\<close>

section \<open>Identities\<close>

record probeIdentity =
  pi_ClusterID :: string
  pi_Controller :: string
  pi_GatewayNamespace :: string
  pi_GatewayName :: string
  pi_GatewayUID :: string

definition controllerIdentifier :: string where
  "controllerIdentifier = ''openstack-gateway-controller''"

definition cloudIdentity :: "probeIdentity \<Rightarrow> Identity" where
  "cloudIdentity i = \<lparr>OpenStackProjectID = [], ClusterID = pi_ClusterID i, Controller = pi_Controller i, ControllerVersion = [], GatewayNamespace = pi_GatewayNamespace i,
     GatewayName = pi_GatewayName i, GatewayUID = pi_GatewayUID i, RouteNamespace = [], RouteName = [], RouteUID = []\<rparr>"

definition validateProbeIdentity :: "probeIdentity \<Rightarrow> unit result" where
  "validateProbeIdentity i = ValidateGatewayIdentity (cloudIdentity i)"

definition probeTags :: "probeIdentity \<Rightarrow> string \<Rightarrow> string list result" where
  "probeTags i role = bindE (NewIdentity (cloudIdentity i)) (\<lambda>v. GatewayTags v role)"

definition probeMatches :: "probeIdentity \<Rightarrow> string list \<Rightarrow> string \<Rightarrow> bool" where
  "probeMatches i tags role = (case NewIdentity (cloudIdentity i) of Inl _ \<Rightarrow> False | Inr v \<Rightarrow> MatchesGateway v tags role)"

definition probeDescription :: "probeIdentity \<Rightarrow> string \<Rightarrow> string" where
  "probeDescription i role = (case NewIdentity (cloudIdentity i) of Inl _ \<Rightarrow> [] | Inr v \<Rightarrow> Phase0Description v role)"

definition probeMatchesDescription :: "probeIdentity \<Rightarrow> string \<Rightarrow> string \<Rightarrow> bool" where
  "probeMatchesDescription i d role = (case NewIdentity (cloudIdentity i) of Inl _ \<Rightarrow> False | Inr v \<Rightarrow> HasPrefix d (Phase0Description v role))"

section \<open>The state\<close>

text \<open>The version and the time of the creation, which nothing reads back but LoadState, are left out.\<close>

record probeState =
  pt_Region :: string
  pt_OctaviaMicroversion :: string
  pt_Identity :: probeIdentity
  pt_LoadBalancerID :: string
  pt_VIPPortID :: string
  pt_FloatingIPID :: string
  pt_ListenerID :: string
  pt_PoolID :: string
  pt_MemberIDs :: "string list"
  pt_MonitorID :: string
  pt_L7PolicyID :: string
  pt_L7RuleID :: string

section \<open>Requests\<close>

datatype resourceKind = LoadBalancerKind | FloatingIPKind | ListenerKind | PoolKind | MemberKind | MonitorKind | PolicyKind | RuleKind

datatype createRequest =
    NewLoadBalancer LoadBalancerCreateOpts
  | NewFloatingIP FloatingIPCreateOpts
  | NewListener ListenerCreateOpts
  | NewPool PoolCreateOpts
  | NewMember string MemberCreateOpts
  | NewMonitor MonitorCreateOpts
  | NewPolicy PolicyCreateOpts
  | NewRule string RuleCreateOpts

text \<open>The options of an update; a field that the probe does not set is \<^term>\<open>None\<close>. \<open>up_Match\<close> has the type, the comparison and the value of a rule.\<close>

record resourceUpdate =
  up_Name :: "string option"
  up_Description :: "string option"
  up_Tags :: "string list option"
  up_Match :: "(string \<times> string \<times> string) option"

text \<open>A resource is addressed by the identifiers of its path: a member and a rule by their parent and themselves.\<close>

datatype probeRequest =
    GetResource resourceKind "string list"
  | DeleteResource resourceKind "string list"
  | CreateResource createRequest
  | UpdateResource resourceKind "string list" resourceUpdate

text \<open>The fields of a resource that the probe reads. \<open>rv_PortID\<close> is the VIP port of a load balancer and the port of a Floating IP.\<close>

record resourceView =
  rv_ID :: string
  rv_Tags :: "string list"
  rv_Description :: string
  rv_PortID :: string
  rv_ProvisioningStatus :: string

datatype removal = FileRemoved | FileNotThere | FileNotRemoved

datatype probeEvent =
    Requested probeRequest "resourceView result"
  | SavedState probeState bool
  | RemovedState removal

datatype probeError = CallError go_error | RefusedCleanup | LoadBalancerFailed | WaitEnded | StateFileError | TagsError go_error | IdentityMismatch | Panicked

text \<open>
  \<open>pe_call\<close> is a request under a context with a deadline, if the code sets one; \<open>pe_select\<close> waits for the end of the context with the
  deadline, which gives \<^term>\<open>True\<close>, or for the tick that is due at the time given.
\<close>

record 'w probeEnv =
  pe_call :: "int option \<Rightarrow> probeRequest \<Rightarrow> 'w \<Rightarrow> resourceView result \<times> 'w"
  pe_now :: "'w \<Rightarrow> int"
  pe_select :: "int \<Rightarrow> int \<Rightarrow> 'w \<Rightarrow> bool \<times> 'w"
  pe_ResponseCodeIs :: "go_error \<Rightarrow> int \<Rightarrow> bool"
  pe_save :: "probeState \<Rightarrow> 'w \<Rightarrow> bool \<times> 'w"
  pe_remove :: "'w \<Rightarrow> removal \<times> 'w"

record 'w probeRun =
  pn_world :: 'w
  pn_log :: "probeEvent list"
  pn_state :: probeState

type_synonym ('w, 'a) pc = "'w probeRun \<Rightarrow> ((probeError + 'a) \<times> 'w probeRun) option"

definition returnP :: "'a \<Rightarrow> ('w, 'a) pc" where
  "returnP x = (\<lambda>s. Some (Inr x, s))"

definition throwP :: "probeError \<Rightarrow> ('w, 'a) pc" where
  "throwP e = (\<lambda>s. Some (Inl e, s))"

definition bindP :: "('w, 'a) pc \<Rightarrow> ('a \<Rightarrow> ('w, 'b) pc) \<Rightarrow> ('w, 'b) pc" where
  "bindP m f = (\<lambda>s. Option.bind (m s) (\<lambda>(r, s'). case r of Inl e \<Rightarrow> Some (Inl e, s') | Inr x \<Rightarrow> f x s'))"

definition stateP :: "('w, probeState) pc" where
  "stateP = (\<lambda>s. Some (Inr (pn_state s), s))"

definition guardP :: "bool \<Rightarrow> probeError \<Rightarrow> ('w, unit) pc" where
  "guardP ok e = (if ok then returnP () else throwP e)"

definition callAt :: "'w probeEnv \<Rightarrow> int option \<Rightarrow> probeRequest \<Rightarrow> 'w probeRun \<Rightarrow> resourceView result \<times> 'w probeRun" where
  "callAt env deadline req s = (case pe_call env deadline req (pn_world s) of (answer, w) \<Rightarrow>
     (answer, s\<lparr>pn_world := w, pn_log := pn_log s @ [Requested req answer]\<rparr>))"

text \<open>A call whose error the code looks at, and one whose error it returns.\<close>

definition askP :: "'w probeEnv \<Rightarrow> probeRequest \<Rightarrow> ('w, resourceView result) pc" where
  "askP env req = (\<lambda>s. case callAt env None req s of (answer, s') \<Rightarrow> Some (Inr answer, s'))"

definition callP :: "'w probeEnv \<Rightarrow> probeRequest \<Rightarrow> ('w, resourceView) pc" where
  "callP env req = bindP (askP env req) (\<lambda>answer. case answer of Inl e \<Rightarrow> throwP (CallError e) | Inr view \<Rightarrow> returnP view)"

definition notFoundError :: "'w probeEnv \<Rightarrow> go_error \<Rightarrow> bool" where
  "notFoundError env e = pe_ResponseCodeIs env e 404"

section \<open>Waiting\<close>

partial_function (option) pollActive :: "'w probeEnv \<Rightarrow> string \<Rightarrow> int \<Rightarrow> int \<Rightarrow> int \<Rightarrow> ('w, resourceView) pc" where
  "pollActive env loadBalancerID deadline tick interval s =
     (case callAt env (Some deadline) (GetResource LoadBalancerKind [loadBalancerID]) s of (answer, s1) \<Rightarrow>
        (case answer of
           Inl e \<Rightarrow> Some (Inl (CallError e), s1)
         | Inr view \<Rightarrow>
             if rv_ProvisioningStatus view = ''ACTIVE'' then Some (Inr view, s1)
             else if rv_ProvisioningStatus view = ''ERROR'' then Some (Inl LoadBalancerFailed, s1)
             else (case pe_select env deadline tick (pn_world s1) of (ended, w) \<Rightarrow>
               if ended then Some (Inl WaitEnded, s1\<lparr>pn_world := w\<rparr>)
               else pollActive env loadBalancerID deadline (tick + interval) interval (s1\<lparr>pn_world := w\<rparr>))))"

partial_function (option) pollDeleted :: "'w probeEnv \<Rightarrow> string \<Rightarrow> int \<Rightarrow> int \<Rightarrow> int \<Rightarrow> ('w, unit) pc" where
  "pollDeleted env loadBalancerID deadline tick interval s =
     (case callAt env (Some deadline) (GetResource LoadBalancerKind [loadBalancerID]) s of (answer, s1) \<Rightarrow>
        (case answer of
           Inl e \<Rightarrow> if notFoundError env e then Some (Inr (), s1) else Some (Inl (CallError e), s1)
         | Inr _ \<Rightarrow>
             (case pe_select env deadline tick (pn_world s1) of (ended, w) \<Rightarrow>
               if ended then Some (Inl WaitEnded, s1\<lparr>pn_world := w\<rparr>)
               else pollDeleted env loadBalancerID deadline (tick + interval) interval (s1\<lparr>pn_world := w\<rparr>))))"

text \<open>A ticker panics when its interval is not positive.\<close>

definition WaitLoadBalancerActive :: "'w probeEnv \<Rightarrow> string \<Rightarrow> int \<Rightarrow> int \<Rightarrow> ('w, resourceView) pc" where
  "WaitLoadBalancerActive env loadBalancerID timeout interval = (\<lambda>s. let now = pe_now env (pn_world s) in
     if interval \<le> 0 then throwP Panicked s else pollActive env loadBalancerID (now + timeout) (now + interval) interval s)"

definition WaitLoadBalancerDeleted :: "'w probeEnv \<Rightarrow> string \<Rightarrow> int \<Rightarrow> int \<Rightarrow> ('w, unit) pc" where
  "WaitLoadBalancerDeleted env loadBalancerID timeout interval = (\<lambda>s. let now = pe_now env (pn_world s) in
     if interval \<le> 0 then throwP Panicked s else pollDeleted env loadBalancerID (now + timeout) (now + interval) interval s)"

section \<open>Cleanup\<close>

definition roleLoadBalancer :: string where "roleLoadBalancer = ''loadbalancer''"
definition roleListener :: string where "roleListener = ''listener''"
definition rolePool :: string where "rolePool = ''pool''"
definition roleMember :: string where "roleMember = ''member''"
definition roleMonitor :: string where "roleMonitor = ''health-monitor''"
definition roleL7Policy :: string where "roleL7Policy = ''l7-policy''"
definition roleL7Rule :: string where "roleL7Rule = ''l7-rule''"
definition roleFloatingIP :: string where "roleFloatingIP = ''floating-ip''"

definition waitAfterChildDelete :: "'w probeEnv \<Rightarrow> string \<Rightarrow> int \<Rightarrow> int \<Rightarrow> ('w, unit) pc" where
  "waitAfterChildDelete env loadBalancerID timeout interval = bindP (WaitLoadBalancerActive env loadBalancerID timeout interval) (\<lambda>_. returnP ())"

text \<open>
  What the functions that delete one child have in common: look at the child, refuse when it has another identity, delete it and wait for
  the load balancer.
\<close>

definition deleteChild :: "'w probeEnv \<Rightarrow> probeState \<Rightarrow> resourceKind \<Rightarrow> string list \<Rightarrow> string \<Rightarrow> int \<Rightarrow> int \<Rightarrow> ('w, unit) pc" where
  "deleteChild env state kind path role timeout interval = bindP (askP env (GetResource kind path)) (\<lambda>answer. case answer of
      Inl e \<Rightarrow> if notFoundError env e then returnP () else throwP (CallError e)
    | Inr view \<Rightarrow>
        bindP (guardP (probeMatches (pt_Identity state) (rv_Tags view) role) RefusedCleanup) (\<lambda>_.
        bindP (callP env (DeleteResource kind path)) (\<lambda>_.
        waitAfterChildDelete env (pt_LoadBalancerID state) timeout interval)))"

definition deleteL7Rule :: "'w probeEnv \<Rightarrow> probeState \<Rightarrow> int \<Rightarrow> int \<Rightarrow> ('w, unit) pc" where
  "deleteL7Rule env state timeout interval = (if pt_L7PolicyID state = [] \<or> pt_L7RuleID state = [] then returnP ()
     else deleteChild env state RuleKind [pt_L7PolicyID state, pt_L7RuleID state] roleL7Rule timeout interval)"

definition deleteL7Policy :: "'w probeEnv \<Rightarrow> probeState \<Rightarrow> int \<Rightarrow> int \<Rightarrow> ('w, unit) pc" where
  "deleteL7Policy env state timeout interval = (if pt_L7PolicyID state = [] then returnP ()
     else deleteChild env state PolicyKind [pt_L7PolicyID state] roleL7Policy timeout interval)"

definition deleteMonitor :: "'w probeEnv \<Rightarrow> probeState \<Rightarrow> int \<Rightarrow> int \<Rightarrow> ('w, unit) pc" where
  "deleteMonitor env state timeout interval = (if pt_MonitorID state = [] then returnP ()
     else deleteChild env state MonitorKind [pt_MonitorID state] roleMonitor timeout interval)"

fun deleteMembersFrom :: "'w probeEnv \<Rightarrow> probeState \<Rightarrow> int \<Rightarrow> int \<Rightarrow> string list \<Rightarrow> ('w, unit) pc" where
  "deleteMembersFrom env state timeout interval [] = returnP ()"
| "deleteMembersFrom env state timeout interval (memberID # memberIDs) =
     bindP (deleteChild env state MemberKind [pt_PoolID state, memberID] roleMember timeout interval) (\<lambda>_.
     deleteMembersFrom env state timeout interval memberIDs)"

definition deleteMembers :: "'w probeEnv \<Rightarrow> probeState \<Rightarrow> int \<Rightarrow> int \<Rightarrow> ('w, unit) pc" where
  "deleteMembers env state timeout interval = deleteMembersFrom env state timeout interval (pt_MemberIDs state)"

definition deletePool :: "'w probeEnv \<Rightarrow> probeState \<Rightarrow> int \<Rightarrow> int \<Rightarrow> ('w, unit) pc" where
  "deletePool env state timeout interval = (if pt_PoolID state = [] then returnP ()
     else deleteChild env state PoolKind [pt_PoolID state] rolePool timeout interval)"

definition deleteListener :: "'w probeEnv \<Rightarrow> probeState \<Rightarrow> int \<Rightarrow> int \<Rightarrow> ('w, unit) pc" where
  "deleteListener env state timeout interval = (if pt_ListenerID state = [] then returnP ()
     else deleteChild env state ListenerKind [pt_ListenerID state] roleListener timeout interval)"

text \<open>The parts of cleanupWithClients.\<close>

definition inspectLoadBalancer :: "'w probeEnv \<Rightarrow> probeState \<Rightarrow> ('w, bool) pc" where
  "inspectLoadBalancer env state = (if pt_LoadBalancerID state = [] then returnP False
     else bindP (askP env (GetResource LoadBalancerKind [pt_LoadBalancerID state])) (\<lambda>answer. case answer of
        Inl e \<Rightarrow> if notFoundError env e then returnP False else throwP (CallError e)
      | Inr view \<Rightarrow> bindP (guardP (probeMatches (pt_Identity state) (rv_Tags view) roleLoadBalancer) RefusedCleanup) (\<lambda>_. returnP True)))"

definition cleanupFloatingIP :: "'w probeEnv \<Rightarrow> probeState \<Rightarrow> ('w, unit) pc" where
  "cleanupFloatingIP env state = (if pt_FloatingIPID state = [] then returnP ()
     else bindP (askP env (GetResource FloatingIPKind [pt_FloatingIPID state])) (\<lambda>answer. case answer of
        Inl e \<Rightarrow> if notFoundError env e then returnP () else throwP (CallError e)
      | Inr view \<Rightarrow>
          bindP (guardP (probeMatchesDescription (pt_Identity state) (rv_Description view) roleFloatingIP \<and> rv_PortID view = pt_VIPPortID state) RefusedCleanup) (\<lambda>_.
          bindP (callP env (DeleteResource FloatingIPKind [pt_FloatingIPID state])) (\<lambda>_. returnP ()))))"

definition cleanupLoadBalancer :: "'w probeEnv \<Rightarrow> probeState \<Rightarrow> int \<Rightarrow> int \<Rightarrow> ('w, unit) pc" where
  "cleanupLoadBalancer env state timeout interval =
     bindP (deleteL7Rule env state timeout interval) (\<lambda>_.
     bindP (deleteL7Policy env state timeout interval) (\<lambda>_.
     bindP (deleteMonitor env state timeout interval) (\<lambda>_.
     bindP (deleteMembers env state timeout interval) (\<lambda>_.
     bindP (deletePool env state timeout interval) (\<lambda>_.
     bindP (deleteListener env state timeout interval) (\<lambda>_.
     bindP (callP env (DeleteResource LoadBalancerKind [pt_LoadBalancerID state])) (\<lambda>_.
     WaitLoadBalancerDeleted env (pt_LoadBalancerID state) timeout interval)))))))"

definition removeStateFile :: "'w probeEnv \<Rightarrow> ('w, unit) pc" where
  "removeStateFile env = (\<lambda>s. case pe_remove env (pn_world s) of (r, w) \<Rightarrow>
     Some (if r = FileNotRemoved then Inl StateFileError else Inr (), s\<lparr>pn_world := w, pn_log := pn_log s @ [RemovedState r]\<rparr>))"

definition cleanupWithClients :: "'w probeEnv \<Rightarrow> probeState \<Rightarrow> int \<Rightarrow> int \<Rightarrow> ('w, unit) pc" where
  "cleanupWithClients env state timeout interval =
     bindP (inspectLoadBalancer env state) (\<lambda>loadBalancerExists.
     bindP (cleanupFloatingIP env state) (\<lambda>_.
     bindP (if loadBalancerExists then cleanupLoadBalancer env state timeout interval else returnP ()) (\<lambda>_.
     removeStateFile env)))"

end
