(* ===== verification/ProbeFacts.thy ===== *)
theory ProbeFacts
  imports Probe
begin

text \<open>
  The waits and the cleanup of the probe: they return, a wait within a bounded number of requests, and the cleanup deletes only what carries
  the identity of the probe, children before parents, and forgets the state only when everything is gone.
\<close>

section \<open>Waits return\<close>

text \<open>
  Documented behaviour of contexts and tickers: a request under a context whose deadline has passed fails, and a tick does not come before it
  is due.
\<close>

definition timedEnv :: "'w probeEnv \<Rightarrow> bool" where
  "timedEnv env \<longleftrightarrow> (\<forall>d req w r w'. pe_call env (Some d) req w = (r, w') \<and> d \<le> pe_now env w \<longrightarrow> \<not> isOk r) \<and>
     (\<forall>d t w w'. pe_select env d t w = (False, w') \<longrightarrow> t \<le> pe_now env w')"

definition pollingLog :: "string \<Rightarrow> probeEvent list \<Rightarrow> bool" where
  "pollingLog loadBalancerID es \<longleftrightarrow> list_all (\<lambda>e. \<exists>answer. e = Requested (GetResource LoadBalancerKind [loadBalancerID]) answer) es"

text \<open>The interface of a loop that polls a load balancer: an answer ends it or not, and a failed request always does.\<close>

locale polling =
  fixes decide :: "'w probeEnv \<Rightarrow> resourceView result \<Rightarrow> (probeError + 'a) option"
    and loop :: "'w probeEnv \<Rightarrow> string \<Rightarrow> int \<Rightarrow> int \<Rightarrow> int \<Rightarrow> ('w, 'a) pc"
  assumes step: "loop env lb deadline tick interval s =
      (case callAt env (Some deadline) (GetResource LoadBalancerKind [lb]) s of (answer, s1) \<Rightarrow>
        (case decide env answer of
           Some r \<Rightarrow> Some (r, s1)
         | None \<Rightarrow> (case pe_select env deadline tick (pn_world s1) of (ended, w) \<Rightarrow>
             if ended then Some (Inl WaitEnded, s1\<lparr>pn_world := w\<rparr>) else loop env lb deadline (tick + interval) interval (s1\<lparr>pn_world := w\<rparr>))))"
    and failed: "decide env (Inl e) \<noteq> None"
begin

definition ends :: "'w probeEnv \<Rightarrow> string \<Rightarrow> nat \<Rightarrow> 'w probeRun \<Rightarrow> ((probeError + 'a) \<times> 'w probeRun) option \<Rightarrow> bool" where
  "ends env lb n s outcome \<longleftrightarrow> (\<exists>r s' es answer. outcome = Some (r, s') \<and> pn_log s' = pn_log s @ es @ [Requested (GetResource LoadBalancerKind [lb]) answer] \<and>
     pollingLog lb es \<and> length es < n \<and> pn_state s' = pn_state s \<and> (r = Inl WaitEnded \<or> decide env answer = Some r))"

lemma ends_first:
  assumes "callAt env (Some deadline) (GetResource LoadBalancerKind [lb]) s = (answer, s1)" "decide env answer = Some r" "0 < n"
  shows "ends env lb n s (loop env lb deadline tick interval s)"
  using assms by (subst step) (auto simp: ends_def callAt_def pollingLog_def split: prod.splits intro!: exI [of _ "[]"])

lemma ends_done:
  assumes "callAt env (Some deadline) (GetResource LoadBalancerKind [lb]) s = (answer, s1)" "decide env answer = None"
    and "pe_select env deadline tick (pn_world s1) = (True, w)" "0 < n"
  shows "ends env lb n s (loop env lb deadline tick interval s)"
  using assms by (subst step) (auto simp: ends_def callAt_def pollingLog_def split: prod.splits intro!: exI [of _ "[]"])

lemma ends_later:
  assumes "callAt env (Some deadline) (GetResource LoadBalancerKind [lb]) s = (answer, s1)" "decide env answer = None"
    and "pe_select env deadline tick (pn_world s1) = (False, w)"
    and "ends env lb n (s1\<lparr>pn_world := w\<rparr>) (loop env lb deadline (tick + interval) interval (s1\<lparr>pn_world := w\<rparr>))"
  shows "ends env lb (Suc n) s (loop env lb deadline tick interval s)"
proof -
  obtain r s' es answer' where later: "loop env lb deadline (tick + interval) interval (s1\<lparr>pn_world := w\<rparr>) = Some (r, s')"
    "pn_log s' = pn_log s1 @ es @ [Requested (GetResource LoadBalancerKind [lb]) answer']" "pollingLog lb es" "length es < n" "pn_state s' = pn_state s1"
    "r = Inl WaitEnded \<or> decide env answer' = Some r"
    using assms(4) unfolding ends_def by auto
  have "pn_log s1 = pn_log s @ [Requested (GetResource LoadBalancerKind [lb]) answer]" "pn_state s1 = pn_state s"
    using assms(1) by (auto simp: callAt_def split: prod.splits)
  with later assms(1-3) show ?thesis
    unfolding ends_def by (subst step) (auto simp: pollingLog_def intro!: exI [of _ "Requested (GetResource LoadBalancerKind [lb]) answer # es"])
qed

lemma loop_expired:
  assumes "timedEnv env" "deadline \<le> pe_now env (pn_world s)" "0 < n"
  shows "ends env lb n s (loop env lb deadline tick interval s)"
proof -
  obtain answer s1 where c: "callAt env (Some deadline) (GetResource LoadBalancerKind [lb]) s = (answer, s1)" by fastforce
  then have "\<exists>w. pe_call env (Some deadline) (GetResource LoadBalancerKind [lb]) (pn_world s) = (answer, w)" by (auto simp: callAt_def split: prod.splits)
  then have "\<not> isOk answer" using assms(1,2) unfolding timedEnv_def by blast
  then obtain e where "answer = Inl e" by (cases answer) simp_all
  then obtain r where "decide env answer = Some r" using failed by blast
  with c show ?thesis using assms(3) by (rule ends_first)
qed

lemma loop_returns:
  assumes "timedEnv env" "deadline \<le> tick + int k * interval"
  shows "ends env lb (k + 2) s (loop env lb deadline tick interval s)"
  using assms(2)
proof (induction k arbitrary: tick s)
  case (0 tick s)
  obtain answer s1 where c: "callAt env (Some deadline) (GetResource LoadBalancerKind [lb]) s = (answer, s1)" by fastforce
  obtain ended w where sel: "pe_select env deadline tick (pn_world s1) = (ended, w)" by fastforce
  have "ends env lb 1 (s1\<lparr>pn_world := w\<rparr>) (loop env lb deadline (tick + interval) interval (s1\<lparr>pn_world := w\<rparr>))" if "\<not> ended"
  proof (rule loop_expired [OF assms(1)])
    have "tick \<le> pe_now env w" using assms(1) sel that unfolding timedEnv_def by simp
    then show "deadline \<le> pe_now env (pn_world (s1\<lparr>pn_world := w\<rparr>))" using 0 by simp
  qed simp
  with c sel show ?case
    by (cases "decide env answer"; cases ended) (auto intro: ends_first ends_done dest: ends_later [OF c])
next
  case (Suc k tick s)
  obtain answer s1 where c: "callAt env (Some deadline) (GetResource LoadBalancerKind [lb]) s = (answer, s1)" by fastforce
  obtain ended w where sel: "pe_select env deadline tick (pn_world s1) = (ended, w)" by fastforce
  have "ends env lb (k + 2) (s1\<lparr>pn_world := w\<rparr>) (loop env lb deadline (tick + interval) interval (s1\<lparr>pn_world := w\<rparr>))"
    by (rule Suc.IH) (use Suc.prems in \<open>simp add: algebra_simps\<close>)
  with c sel show ?case
    by (cases "decide env answer"; cases ended) (auto intro: ends_first ends_done dest: ends_later [OF c])
qed

text \<open>Started now, with a deadline and ticks at an interval, the loop makes at most \<open>timeout div interval + 2\<close> requests.\<close>

lemma wait_returns:
  assumes "timedEnv env" "0 < interval" "0 \<le> timeout"
  shows "ends env lb (nat (timeout div interval) + 2) s (loop env lb (now + timeout) (now + interval) interval s)"
proof (rule loop_returns [OF assms(1)])
  have "timeout div interval * interval + timeout mod interval = timeout" by (rule div_mult_mod_eq)
  moreover have "timeout mod interval < interval" using assms(2) by simp
  moreover have "int (nat (timeout div interval)) = timeout div interval" using assms(2,3) by (simp add: pos_imp_zdiv_nonneg_iff)
  ultimately show "now + timeout \<le> now + interval + int (nat (timeout div interval)) * interval" by (simp only:)
qed

end

definition activeDecision :: "'w probeEnv \<Rightarrow> resourceView result \<Rightarrow> (probeError + resourceView) option" where
  "activeDecision env answer = (case answer of
      Inl e \<Rightarrow> Some (Inl (CallError e))
    | Inr view \<Rightarrow> if rv_ProvisioningStatus view = ''ACTIVE'' then Some (Inr view)
        else if rv_ProvisioningStatus view = ''ERROR'' then Some (Inl LoadBalancerFailed) else None)"

definition deletedDecision :: "'w probeEnv \<Rightarrow> resourceView result \<Rightarrow> (probeError + unit) option" where
  "deletedDecision env answer = (case answer of
      Inl e \<Rightarrow> Some (if notFoundError env e then Inr () else Inl (CallError e))
    | Inr view \<Rightarrow> None)"

interpretation active: polling activeDecision pollActive
proof unfold_locales
  show "pollActive env lb deadline tick interval s =
      (case callAt env (Some deadline) (GetResource LoadBalancerKind [lb]) s of (answer, s1) \<Rightarrow>
        (case activeDecision env answer of
           Some r \<Rightarrow> Some (r, s1)
         | None \<Rightarrow> (case pe_select env deadline tick (pn_world s1) of (ended, w) \<Rightarrow>
             if ended then Some (Inl WaitEnded, s1\<lparr>pn_world := w\<rparr>) else pollActive env lb deadline (tick + interval) interval (s1\<lparr>pn_world := w\<rparr>))))"
    for env lb deadline tick interval s
    by (subst pollActive.simps) (auto simp: activeDecision_def split: sum.split prod.split)
qed (simp add: activeDecision_def)

interpretation deleted: polling deletedDecision pollDeleted
proof unfold_locales
  show "pollDeleted env lb deadline tick interval s =
      (case callAt env (Some deadline) (GetResource LoadBalancerKind [lb]) s of (answer, s1) \<Rightarrow>
        (case deletedDecision env answer of
           Some r \<Rightarrow> Some (r, s1)
         | None \<Rightarrow> (case pe_select env deadline tick (pn_world s1) of (ended, w) \<Rightarrow>
             if ended then Some (Inl WaitEnded, s1\<lparr>pn_world := w\<rparr>) else pollDeleted env lb deadline (tick + interval) interval (s1\<lparr>pn_world := w\<rparr>))))"
    for env lb deadline tick interval s
    by (subst pollDeleted.simps) (auto simp: deletedDecision_def split: sum.split prod.split)
qed (simp add: deletedDecision_def)

section \<open>Cleanup\<close>

text \<open>From a state with \<open>P\<close> a computation returns, with a value and \<open>Q\<close> or with an error and \<open>E\<close>.\<close>

definition total :: "('w probeRun \<Rightarrow> bool) \<Rightarrow> ('w, 'a) pc \<Rightarrow> ('a \<Rightarrow> 'w probeRun \<Rightarrow> bool) \<Rightarrow> ('w probeRun \<Rightarrow> bool) \<Rightarrow> bool" where
  "total P m Q E \<longleftrightarrow> (\<forall>s. P s \<longrightarrow> (\<exists>r s'. m s = Some (r, s') \<and> (case r of Inl _ \<Rightarrow> E s' | Inr x \<Rightarrow> Q x s')))"

lemma total_return: "(\<And>s. P s \<Longrightarrow> Q x s) \<Longrightarrow> total P (returnP x) Q E"
  by (simp add: total_def returnP_def)

lemma total_throw: "(\<And>s. P s \<Longrightarrow> E s) \<Longrightarrow> total P (throwP e) Q E"
  by (simp add: total_def throwP_def)

lemma total_bind:
  assumes "total P m R E" "\<And>x. total (R x) (f x) Q E"
  shows "total P (bindP m f) Q E"
  unfolding total_def
proof (intro allI impI)
  fix s assume "P s"
  then obtain r s1 where "m s = Some (r, s1)" "case r of Inl _ \<Rightarrow> E s1 | Inr x \<Rightarrow> R x s1" using assms(1) unfolding total_def by blast
  then show "\<exists>r s'. bindP m f s = Some (r, s') \<and> (case r of Inl _ \<Rightarrow> E s' | Inr x \<Rightarrow> Q x s')"
    using assms(2) by (cases r) (auto simp: bindP_def total_def)
qed

lemma total_weaken:
  assumes "total P m Q E" "\<And>s. P' s \<Longrightarrow> P s" "\<And>x s. Q x s \<Longrightarrow> Q' x s" "\<And>s. E s \<Longrightarrow> E' s"
  shows "total P' m Q' E'"
  unfolding total_def
proof (intro allI impI)
  fix s assume "P' s"
  then obtain r s1 where "m s = Some (r, s1)" "case r of Inl _ \<Rightarrow> E s1 | Inr x \<Rightarrow> Q x s1" using assms(1,2) unfolding total_def by blast
  then show "\<exists>r s'. m s = Some (r, s') \<and> (case r of Inl _ \<Rightarrow> E' s' | Inr x \<Rightarrow> Q' x s')" using assms(3,4) by (cases r) auto
qed

lemma total_bind_guard: "(ok \<Longrightarrow> total P (f ()) Q E) \<Longrightarrow> (\<And>s. P s \<Longrightarrow> E s) \<Longrightarrow> total P (bindP (guardP ok e) f) Q E"
  by (cases ok) (auto simp: total_def guardP_def bindP_def returnP_def throwP_def)

text \<open>What cleanup deletes, in its order, with the roles.\<close>

fun probeRoleOf :: "resourceKind \<Rightarrow> string" where
  "probeRoleOf LoadBalancerKind = roleLoadBalancer"
| "probeRoleOf FloatingIPKind = roleFloatingIP"
| "probeRoleOf ListenerKind = roleListener"
| "probeRoleOf PoolKind = rolePool"
| "probeRoleOf MemberKind = roleMember"
| "probeRoleOf MonitorKind = roleMonitor"
| "probeRoleOf PolicyKind = roleL7Policy"
| "probeRoleOf RuleKind = roleL7Rule"

type_synonym target = "resourceKind \<times> string list"

definition childTargets :: "probeState \<Rightarrow> target list" where
  "childTargets state =
     (if pt_L7PolicyID state = [] \<or> pt_L7RuleID state = [] then [] else [(RuleKind, [pt_L7PolicyID state, pt_L7RuleID state])]) @
     (if pt_L7PolicyID state = [] then [] else [(PolicyKind, [pt_L7PolicyID state])]) @
     (if pt_MonitorID state = [] then [] else [(MonitorKind, [pt_MonitorID state])]) @
     map (\<lambda>memberID. (MemberKind, [pt_PoolID state, memberID])) (pt_MemberIDs state) @
     (if pt_PoolID state = [] then [] else [(PoolKind, [pt_PoolID state])]) @
     (if pt_ListenerID state = [] then [] else [(ListenerKind, [pt_ListenerID state])])"

definition graphTargets :: "probeState \<Rightarrow> target list" where
  "graphTargets state = childTargets state @ [(LoadBalancerKind, [pt_LoadBalancerID state])]"

definition ownedBy :: "probeState \<Rightarrow> resourceKind \<Rightarrow> resourceView \<Rightarrow> bool" where
  "ownedBy state kind view \<longleftrightarrow> (if kind = FloatingIPKind
     then probeMatchesDescription (pt_Identity state) (rv_Description view) roleFloatingIP \<and> rv_PortID view = pt_VIPPortID state
     else probeMatches (pt_Identity state) (rv_Tags view) (probeRoleOf kind))"

text \<open>The service said that a resource is gone or, of another resource than a load balancer, accepted its deletion.\<close>

definition goneIn :: "'w probeEnv \<Rightarrow> probeEvent list \<Rightarrow> target \<Rightarrow> bool" where
  "goneIn env log t \<longleftrightarrow> (case t of (kind, path) \<Rightarrow> (\<exists>e. Requested (GetResource kind path) (Inl e) \<in> set log \<and> notFoundError env e) \<or>
     (kind \<noteq> LoadBalancerKind \<and> (\<exists>view. Requested (DeleteResource kind path) (Inr view) \<in> set log)))"

definition seenOwned :: "probeState \<Rightarrow> probeEvent list \<Rightarrow> target \<Rightarrow> bool" where
  "seenOwned state log t \<longleftrightarrow> (case t of (kind, path) \<Rightarrow> \<exists>view. Requested (GetResource kind path) (Inr view) \<in> set log \<and> ownedBy state kind view)"

definition childrenGone :: "'w probeEnv \<Rightarrow> probeState \<Rightarrow> probeEvent list \<Rightarrow> target \<Rightarrow> bool" where
  "childrenGone env state log t \<longleftrightarrow> (\<exists>earlier later. graphTargets state = earlier @ t # later \<and> (\<forall>u \<in> set earlier. goneIn env log u))"

definition everythingGone :: "'w probeEnv \<Rightarrow> probeState \<Rightarrow> probeEvent list \<Rightarrow> bool" where
  "everythingGone env state log \<longleftrightarrow>
     (pt_FloatingIPID state = [] \<or> goneIn env log (FloatingIPKind, [pt_FloatingIPID state])) \<and>
     (pt_LoadBalancerID state = [] \<or> goneIn env log (LoadBalancerKind, [pt_LoadBalancerID state]))"

fun cleanupJustified :: "'w probeEnv \<Rightarrow> probeState \<Rightarrow> probeEvent list \<Rightarrow> probeEvent \<Rightarrow> bool" where
  "cleanupJustified env state prior (Requested (DeleteResource kind path) _) \<longleftrightarrow> seenOwned state prior (kind, path) \<and>
     ((kind, path) = (FloatingIPKind, [pt_FloatingIPID state]) \<or> childrenGone env state prior (kind, path))"
| "cleanupJustified env state prior (Requested (GetResource _ _) _) \<longleftrightarrow> True"
| "cleanupJustified env state prior (RemovedState _) \<longleftrightarrow> everythingGone env state prior"
| "cleanupJustified env state prior _ \<longleftrightarrow> False"

definition cleanupLawful :: "'w probeEnv \<Rightarrow> probeState \<Rightarrow> probeEvent list \<Rightarrow> bool" where
  "cleanupLawful env state log \<longleftrightarrow> (\<forall>prior e later. log = prior @ e # later \<longrightarrow> cleanupJustified env state prior e)"

lemma cleanupLawful_snoc: "cleanupLawful env state (log @ [e]) \<longleftrightarrow> cleanupLawful env state log \<and> cleanupJustified env state log e"
proof
  assume "cleanupLawful env state (log @ [e])"
  then show "cleanupLawful env state log \<and> cleanupJustified env state log e"
    unfolding cleanupLawful_def by (metis append.assoc append_Cons append_Nil)
next
  assume "cleanupLawful env state log \<and> cleanupJustified env state log e"
  then show "cleanupLawful env state (log @ [e])" unfolding cleanupLawful_def
    by (auto simp: append_eq_append_conv2 append_eq_Cons_conv Cons_eq_append_conv)
qed

lemma cleanupLawful_polls: "pollingLog lb es \<Longrightarrow> cleanupLawful env state (log @ es) \<longleftrightarrow> cleanupLawful env state log"
proof (induction es rule: rev_induct)
  case (snoc e es)
  have "cleanupLawful env state ((log @ es) @ [e]) \<longleftrightarrow> cleanupLawful env state (log @ es) \<and> cleanupJustified env state (log @ es) e"
    by (rule cleanupLawful_snoc)
  with snoc show ?case by (auto simp: pollingLog_def)
qed simp

lemma goneIn_append: "goneIn env log t \<Longrightarrow> goneIn env (log @ es) t"
  by (auto simp: goneIn_def)

text \<open>While cleaning up, the log from its \<open>n\<close>-th event on is lawful, the targets in \<open>us\<close> were seen with the identity and those in \<open>ts\<close> are gone.\<close>

definition since :: "nat \<Rightarrow> 'w probeRun \<Rightarrow> probeEvent list" where
  "since n s = drop n (pn_log s)"

definition cleaning :: "nat \<Rightarrow> 'w probeEnv \<Rightarrow> probeState \<Rightarrow> target set \<Rightarrow> target set \<Rightarrow> 'w probeRun \<Rightarrow> bool" where
  "cleaning n env state us ts s \<longleftrightarrow> n \<le> length (pn_log s) \<and> cleanupLawful env state (since n s) \<and> (\<forall>u \<in> us. seenOwned state (since n s) u) \<and>
     (\<forall>t \<in> ts. goneIn env (since n s) t)"

lemma seenOwned_append: "seenOwned state log t \<Longrightarrow> seenOwned state (log @ es) t"
  by (auto simp: seenOwned_def)

abbreviation lawfulRun :: "nat \<Rightarrow> 'w probeEnv \<Rightarrow> probeState \<Rightarrow> 'w probeRun \<Rightarrow> bool" where
  "lawfulRun n env state s \<equiv> cleanupLawful env state (since n s)"

lemma since_append: "n \<le> length (pn_log s) \<Longrightarrow> pn_log s' = pn_log s @ es \<Longrightarrow> since n s' = since n s @ es"
  by (simp add: since_def)

lemma cleaning_lawful: "cleaning n env state us ts s \<Longrightarrow> lawfulRun n env state s"
  by (simp add: cleaning_def)

lemma cleaning_extend:
  assumes "cleaning n env state us ts s" "pn_log s' = pn_log s @ [e]" "cleanupJustified env state (since n s) e"
  shows "cleaning n env state us ts s'"
  using assms since_append [of n s s' "[e]"] by (auto simp: cleaning_def cleanupLawful_snoc intro: goneIn_append seenOwned_append)

lemma cleaning_since: "cleaning n env state us ts s \<Longrightarrow> pn_log s' = pn_log s @ es \<Longrightarrow> since n s' = since n s @ es"
  by (auto simp: cleaning_def intro: since_append)

lemma ask_cleaning:
  "total (cleaning n env state us ts) (askP env (GetResource kind path))
     (\<lambda>answer s. cleaning n env state us ts s \<and> Requested (GetResource kind path) answer \<in> set (since n s)) (lawfulRun n env state)"
  unfolding total_def
proof (intro allI impI)
  fix s assume s: "cleaning n env state us ts s"
  obtain answer s' where c: "callAt env None (GetResource kind path) s = (answer, s')" by fastforce
  then have l: "pn_log s' = pn_log s @ [Requested (GetResource kind path) answer]" by (auto simp: callAt_def split: prod.splits)
  with cleaning_extend [OF s l] cleaning_since [OF s l] c show "\<exists>r s'. askP env (GetResource kind path) s = Some (r, s') \<and>
     (case r of Inl _ \<Rightarrow> lawfulRun n env state s' | Inr answer \<Rightarrow> cleaning n env state us ts s' \<and> Requested (GetResource kind path) answer \<in> set (since n s'))"
    by (simp add: askP_def)
qed

lemma delete_cleaning:
  assumes "\<And>s. P s \<Longrightarrow> cleaning n env state us ts s \<and> cleanupJustified env state (since n s) (Requested (DeleteResource kind path) (Inl undefined))"
  shows "total P (callP env (DeleteResource kind path)) (\<lambda>_. cleaning n env state us (if kind = LoadBalancerKind then ts else insert (kind, path) ts)) (lawfulRun n env state)"
  unfolding total_def
proof (intro allI impI)
  fix s assume "P s"
  then have s: "cleaning n env state us ts s" "cleanupJustified env state (since n s) (Requested (DeleteResource kind path) answer)" for answer using assms by auto
  obtain answer s' where c: "callAt env None (DeleteResource kind path) s = (answer, s')" by fastforce
  then have l: "pn_log s' = pn_log s @ [Requested (DeleteResource kind path) answer]" by (auto simp: callAt_def split: prod.splits)
  then have "cleaning n env state us ts s'" using cleaning_extend [OF s(1)] s(2) by blast
  with c cleaning_since [OF s(1) l] show "\<exists>r s'. callP env (DeleteResource kind path) s = Some (r, s') \<and>
     (case r of Inl _ \<Rightarrow> lawfulRun n env state s' | Inr _ \<Rightarrow> cleaning n env state us (if kind = LoadBalancerKind then ts else insert (kind, path) ts) s')"
    by (cases answer) (auto simp: callP_def askP_def bindP_def throwP_def returnP_def cleaning_def goneIn_def)
qed

lemma cleaning_polls:
  assumes "cleaning n env state us ts s" "pn_log s' = pn_log s @ es" "pollingLog lb es"
  shows "cleaning n env state us ts s'"
  using assms cleaning_since [OF assms(1,2)] by (auto simp: cleaning_def cleanupLawful_polls intro: goneIn_append seenOwned_append)

context polling
begin

lemma ends_log:
  assumes "ends env lb n s outcome"
  obtains r s' es answer where "outcome = Some (r, s')" "pn_log s' = pn_log s @ es" "pollingLog lb es" "length es \<le> n" "pn_state s' = pn_state s"
    "Requested (GetResource LoadBalancerKind [lb]) answer \<in> set es" "r = Inl WaitEnded \<or> decide env answer = Some r"
proof -
  obtain r s' es answer where e: "outcome = Some (r, s')" "pn_log s' = pn_log s @ es @ [Requested (GetResource LoadBalancerKind [lb]) answer]"
    "pollingLog lb es" "length es < n" "pn_state s' = pn_state s" "r = Inl WaitEnded \<or> decide env answer = Some r"
    using assms unfolding ends_def by blast
  show thesis
    by (rule that [of r s' "es @ [Requested (GetResource LoadBalancerKind [lb]) answer]" answer]) (use e in \<open>auto simp: pollingLog_def\<close>)
qed

end

text \<open>The waits, as the cleanup and the runner use them.\<close>

definition maxPolls :: "int \<Rightarrow> int \<Rightarrow> nat" where
  "maxPolls timeout interval = nat (timeout div interval) + 2"

lemma waitActive_ends:
  assumes "timedEnv env" "0 < interval" "0 \<le> timeout"
  shows "active.ends env lb (maxPolls timeout interval) s (WaitLoadBalancerActive env lb timeout interval s)"
  using active.wait_returns [OF assms] assms(2) by (simp add: WaitLoadBalancerActive_def maxPolls_def Let_def)

lemma waitDeleted_ends:
  assumes "timedEnv env" "0 < interval" "0 \<le> timeout"
  shows "deleted.ends env lb (maxPolls timeout interval) s (WaitLoadBalancerDeleted env lb timeout interval s)"
  using deleted.wait_returns [OF assms] assms(2) by (simp add: WaitLoadBalancerDeleted_def maxPolls_def Let_def)

lemma waitAfterChildDelete_cleaning:
  assumes "timedEnv env" "0 < interval" "0 \<le> timeout"
  shows "total (cleaning n env state us ts) (waitAfterChildDelete env lb timeout interval) (\<lambda>_. cleaning n env state us ts) (lawfulRun n env state)"
  unfolding total_def
proof (intro allI impI)
  fix s assume s: "cleaning n env state us ts s"
  obtain r s' es where run: "WaitLoadBalancerActive env lb timeout interval s = Some (r, s')" "pn_log s' = pn_log s @ es" "pollingLog lb es"
    by (rule active.ends_log [OF waitActive_ends [OF assms]])
  with cleaning_polls [OF s run(2,3)] show "\<exists>r s'. waitAfterChildDelete env lb timeout interval s = Some (r, s') \<and>
     (case r of Inl _ \<Rightarrow> lawfulRun n env state s' | Inr _ \<Rightarrow> cleaning n env state us ts s')"
    by (cases r) (auto simp: waitAfterChildDelete_def bindP_def returnP_def cleaning_def)
qed

lemma deleteChild_cleaning:
  assumes "timedEnv env" "0 < interval" "0 \<le> timeout" "graphTargets state = earlier @ (kind, path) # later" "kind \<notin> {FloatingIPKind, LoadBalancerKind}"
  shows "total (cleaning n env state us (ts0 \<union> set earlier)) (deleteChild env state kind path (probeRoleOf kind) timeout interval)
    (\<lambda>_. cleaning n env state us (insert (kind, path) (ts0 \<union> set earlier))) (lawfulRun n env state)"
  unfolding deleteChild_def
proof (rule total_bind [OF ask_cleaning])
  fix answer
  let ?P = "\<lambda>s. cleaning n env state us (ts0 \<union> set earlier) s \<and> Requested (GetResource kind path) answer \<in> set (since n s)"
  show "total ?P (case answer of Inl e \<Rightarrow> if notFoundError env e then returnP () else throwP (CallError e)
      | Inr view \<Rightarrow> bindP (guardP (probeMatches (pt_Identity state) (rv_Tags view) (probeRoleOf kind)) RefusedCleanup) (\<lambda>_.
        bindP (callP env (DeleteResource kind path)) (\<lambda>_. waitAfterChildDelete env (pt_LoadBalancerID state) timeout interval)))
    (\<lambda>_. cleaning n env state us (insert (kind, path) (ts0 \<union> set earlier))) (lawfulRun n env state)"
  proof (cases answer)
    case (Inl e)
    then show ?thesis by (auto intro!: total_return total_throw simp: cleaning_def goneIn_def)
  next
    case (Inr view)
    have "total ?P (bindP (callP env (DeleteResource kind path)) (\<lambda>_. waitAfterChildDelete env (pt_LoadBalancerID state) timeout interval))
      (\<lambda>_. cleaning n env state us (insert (kind, path) (ts0 \<union> set earlier))) (lawfulRun n env state)" if "probeMatches (pt_Identity state) (rv_Tags view) (probeRoleOf kind)"
    proof (rule total_bind [OF delete_cleaning])
      show "total (cleaning n env state us (if kind = LoadBalancerKind then ts0 \<union> set earlier else insert (kind, path) (ts0 \<union> set earlier)))
          (waitAfterChildDelete env (pt_LoadBalancerID state) timeout interval) (\<lambda>_. cleaning n env state us (insert (kind, path) (ts0 \<union> set earlier))) (lawfulRun n env state)"
        using waitAfterChildDelete_cleaning [OF assms(1-3)] assms(5) by simp
      fix s assume "?P s"
      then show "cleaning n env state us (ts0 \<union> set earlier) s \<and> cleanupJustified env state (since n s) (Requested (DeleteResource kind path) (Inl undefined))"
        using that Inr assms(4,5) by (auto simp: seenOwned_def ownedBy_def childrenGone_def cleaning_def)
    qed
    with Inr show ?thesis by (auto intro!: total_bind_guard simp: cleaning_def)
  qed
qed

text \<open>The children are deleted one after the other.\<close>

definition deleteTargets :: "'w probeEnv \<Rightarrow> probeState \<Rightarrow> int \<Rightarrow> int \<Rightarrow> target list \<Rightarrow> ('w, unit) pc" where
  "deleteTargets env state timeout interval ts =
     foldr (\<lambda>(kind, path) m. bindP (deleteChild env state kind path (probeRoleOf kind) timeout interval) (\<lambda>_. m)) ts (returnP ())"

lemma bindP_laws: "bindP (returnP x) f = f x" "bindP (bindP m k) f = bindP m (\<lambda>y. bindP (k y) f)" "bindP m returnP = m"
proof -
  show "bindP (returnP x) f = f x" by (simp add: bindP_def returnP_def)
  show "bindP (bindP m k) f = bindP m (\<lambda>y. bindP (k y) f)"
    by (auto simp: bindP_def fun_eq_iff bind_split split: option.splits sum.splits prod.splits)
  show "bindP m returnP = m"
  proof
    fix s show "bindP m returnP s = m s" by (cases "m s") (auto simp: bindP_def returnP_def split: sum.splits)
  qed
qed

lemma deleteTargets_append:
  "deleteTargets env state timeout interval (ts @ us) = bindP (deleteTargets env state timeout interval ts) (\<lambda>_. deleteTargets env state timeout interval us)"
  by (induction ts) (auto simp: deleteTargets_def bindP_laws)

lemma deleteTargets_simps:
  "deleteTargets env state timeout interval [] = returnP ()"
  "deleteTargets env state timeout interval [(kind, path)] = deleteChild env state kind path (probeRoleOf kind) timeout interval"
  by (simp_all add: deleteTargets_def bindP_laws)

lemma deleteMembers_targets:
  "deleteMembersFrom env state timeout interval memberIDs = deleteTargets env state timeout interval (map (\<lambda>memberID. (MemberKind, [pt_PoolID state, memberID])) memberIDs)"
  by (induction memberIDs) (simp_all add: deleteTargets_def)

lemma children_targets:
  "deleteTargets env state timeout interval (childTargets state) =
     bindP (deleteL7Rule env state timeout interval) (\<lambda>_.
     bindP (deleteL7Policy env state timeout interval) (\<lambda>_.
     bindP (deleteMonitor env state timeout interval) (\<lambda>_.
     bindP (deleteMembers env state timeout interval) (\<lambda>_.
     bindP (deletePool env state timeout interval) (\<lambda>_.
     deleteListener env state timeout interval)))))"
proof -
  let ?del = "deleteTargets env state timeout interval"
  have "deleteL7Rule env state timeout interval =
      ?del (if pt_L7PolicyID state = [] \<or> pt_L7RuleID state = [] then [] else [(RuleKind, [pt_L7PolicyID state, pt_L7RuleID state])])"
    "deleteL7Policy env state timeout interval = ?del (if pt_L7PolicyID state = [] then [] else [(PolicyKind, [pt_L7PolicyID state])])"
    "deleteMonitor env state timeout interval = ?del (if pt_MonitorID state = [] then [] else [(MonitorKind, [pt_MonitorID state])])"
    "deleteMembers env state timeout interval = ?del (map (\<lambda>memberID. (MemberKind, [pt_PoolID state, memberID])) (pt_MemberIDs state))"
    "deletePool env state timeout interval = ?del (if pt_PoolID state = [] then [] else [(PoolKind, [pt_PoolID state])])"
    "deleteListener env state timeout interval = ?del (if pt_ListenerID state = [] then [] else [(ListenerKind, [pt_ListenerID state])])"
    by (simp_all add: deleteL7Rule_def deleteL7Policy_def deleteMonitor_def deleteMembers_def deleteMembers_targets deletePool_def deleteListener_def deleteTargets_simps)
  then show ?thesis by (simp only: childTargets_def deleteTargets_append)
qed

lemma deleteTargets_cleaning:
  assumes "timedEnv env" "0 < interval" "0 \<le> timeout" "graphTargets state = earlier @ ts @ later" "\<forall>t \<in> set ts. fst t \<notin> {FloatingIPKind, LoadBalancerKind}"
  shows "total (cleaning n env state us (ts0 \<union> set earlier)) (deleteTargets env state timeout interval ts) (\<lambda>_. cleaning n env state us (ts0 \<union> set (earlier @ ts))) (lawfulRun n env state)"
  using assms(4,5)
proof (induction ts arbitrary: earlier)
  case Nil
  then show ?case by (auto intro: total_return simp: deleteTargets_def)
next
  case (Cons t ts)
  obtain kind path where t: "t = (kind, path)" by fastforce
  have "total (cleaning n env state us (ts0 \<union> set earlier)) (bindP (deleteChild env state kind path (probeRoleOf kind) timeout interval) (\<lambda>_. deleteTargets env state timeout interval ts))
      (\<lambda>_. cleaning n env state us (ts0 \<union> set ((earlier @ [t]) @ ts))) (lawfulRun n env state)"
  proof (rule total_bind)
    show "total (cleaning n env state us (ts0 \<union> set earlier)) (deleteChild env state kind path (probeRoleOf kind) timeout interval)
        (\<lambda>_. cleaning n env state us (ts0 \<union> set (earlier @ [t]))) (lawfulRun n env state)"
      using deleteChild_cleaning [OF assms(1-3), of state earlier kind path "ts @ later"] Cons.prems t by simp
    show "total (cleaning n env state us (ts0 \<union> set (earlier @ [t]))) (deleteTargets env state timeout interval ts) (\<lambda>_. cleaning n env state us (ts0 \<union> set ((earlier @ [t]) @ ts))) (lawfulRun n env state)"
      by (rule Cons.IH) (use Cons.prems in auto)
  qed
  then show ?case by (simp add: deleteTargets_def t)
qed

lemma children_kinds: "t \<in> set (childTargets state) \<Longrightarrow> fst t \<notin> {FloatingIPKind, LoadBalancerKind}"
  by (auto simp: childTargets_def split: if_splits)

lemma inspect_cleaning:
  "total (cleaning n env state {} {}) (inspectLoadBalancer env state)
     (\<lambda>found s. if found then cleaning n env state {(LoadBalancerKind, [pt_LoadBalancerID state])} {} s
       else cleaning n env state {} (if pt_LoadBalancerID state = [] then {} else {(LoadBalancerKind, [pt_LoadBalancerID state])}) s)
     (lawfulRun n env state)"
proof (cases "pt_LoadBalancerID state = []")
  case True
  then show ?thesis by (auto simp: inspectLoadBalancer_def intro: total_return)
next
  case False
  then show ?thesis unfolding inspectLoadBalancer_def
    by (auto intro!: total_bind [OF ask_cleaning] total_return total_throw total_bind_guard split: sum.split
      simp: cleaning_def goneIn_def seenOwned_def ownedBy_def)
qed

lemma cleanupFloatingIP_cleaning:
  "total (cleaning n env state us ts) (cleanupFloatingIP env state)
     (\<lambda>_. cleaning n env state us (ts \<union> (if pt_FloatingIPID state = [] then {} else {(FloatingIPKind, [pt_FloatingIPID state])}))) (lawfulRun n env state)"
proof (cases "pt_FloatingIPID state = []")
  case True
  then show ?thesis by (auto simp: cleanupFloatingIP_def intro: total_return)
next
  case False
  let ?id = "pt_FloatingIPID state"
  have deletes: "total (\<lambda>s. cleaning n env state us ts s \<and> Requested (GetResource FloatingIPKind [?id]) (Inr view) \<in> set (since n s))
      (bindP (callP env (DeleteResource FloatingIPKind [?id])) (\<lambda>_. returnP ())) (\<lambda>_. cleaning n env state us (insert (FloatingIPKind, [?id]) ts)) (lawfulRun n env state)"
    if "ownedBy state FloatingIPKind view" for view
    by (rule total_bind [OF delete_cleaning]) (use that in \<open>auto intro: total_return simp: seenOwned_def\<close>)
  show ?thesis using False unfolding cleanupFloatingIP_def
    by (auto intro!: total_bind [OF ask_cleaning] total_return total_throw total_bind_guard deletes split: sum.split simp: ownedBy_def)
      (auto simp: cleaning_def goneIn_def)
qed

lemma waitDeleted_cleaning:
  assumes "timedEnv env" "0 < interval" "0 \<le> timeout"
  shows "total (cleaning n env state us ts) (WaitLoadBalancerDeleted env lb timeout interval)
    (\<lambda>_. cleaning n env state us (insert (LoadBalancerKind, [lb]) ts)) (lawfulRun n env state)"
  unfolding total_def
proof (intro allI impI)
  fix s assume s: "cleaning n env state us ts s"
  obtain r s' es answer where run: "WaitLoadBalancerDeleted env lb timeout interval s = Some (r, s')" "pn_log s' = pn_log s @ es" "pollingLog lb es"
    "Requested (GetResource LoadBalancerKind [lb]) answer \<in> set es" "r = Inl WaitEnded \<or> deletedDecision env answer = Some r"
    by (rule deleted.ends_log [OF waitDeleted_ends [OF assms]])
  have "cleaning n env state us ts s'" by (rule cleaning_polls [OF s run(2,3)])
  with run cleaning_since [OF s run(2)] show "\<exists>r s'. WaitLoadBalancerDeleted env lb timeout interval s = Some (r, s') \<and> (case r of Inl _ \<Rightarrow> lawfulRun n env state s'
      | Inr _ \<Rightarrow> cleaning n env state us (insert (LoadBalancerKind, [lb]) ts) s')"
    by (cases r; cases answer) (auto simp: cleaning_def goneIn_def deletedDecision_def split: if_splits)
qed

lemma cleanupLoadBalancer_targets:
  "cleanupLoadBalancer env state timeout interval = bindP (deleteTargets env state timeout interval (childTargets state)) (\<lambda>_.
     bindP (callP env (DeleteResource LoadBalancerKind [pt_LoadBalancerID state])) (\<lambda>_. WaitLoadBalancerDeleted env (pt_LoadBalancerID state) timeout interval))"
  unfolding children_targets cleanupLoadBalancer_def bindP_laws ..

lemma cleanupLoadBalancer_cleaning:
  assumes "timedEnv env" "0 < interval" "0 \<le> timeout"
  shows "total (cleaning n env state {(LoadBalancerKind, [pt_LoadBalancerID state])} ts) (cleanupLoadBalancer env state timeout interval)
    (\<lambda>_. cleaning n env state {} (insert (LoadBalancerKind, [pt_LoadBalancerID state]) ts)) (lawfulRun n env state)"
  unfolding cleanupLoadBalancer_targets
proof (rule total_bind)
  let ?lb = "(LoadBalancerKind, [pt_LoadBalancerID state])" and ?ts = "ts \<union> set (childTargets state)"
  show "total (cleaning n env state {?lb} ts) (deleteTargets env state timeout interval (childTargets state)) (\<lambda>_. cleaning n env state {?lb} ?ts) (lawfulRun n env state)"
    using deleteTargets_cleaning [OF assms, where us = "{?lb}" and ?ts0.0 = ts and ts = "childTargets state" and earlier = "[]" and later = "[?lb]" and state = state] children_kinds by (simp add: graphTargets_def)
  have "total (cleaning n env state {?lb} ?ts) (callP env (DeleteResource LoadBalancerKind [pt_LoadBalancerID state])) (\<lambda>_. cleaning n env state {?lb} ?ts) (lawfulRun n env state)"
    using delete_cleaning [where P = "cleaning n env state {?lb} ?ts" and n = n and env = env and state = state and us = "{?lb}" and ts = ?ts and kind = LoadBalancerKind and path = "[pt_LoadBalancerID state]"]
    by (auto simp: cleaning_def childrenGone_def graphTargets_def)
  moreover have "total (cleaning n env state {?lb} ?ts) (WaitLoadBalancerDeleted env (pt_LoadBalancerID state) timeout interval)
      (\<lambda>_. cleaning n env state {} (insert ?lb ts)) (lawfulRun n env state)"
    by (rule total_weaken [OF waitDeleted_cleaning [OF assms, where us = "{?lb}" and ts = ?ts]]) (auto simp: cleaning_def)
  ultimately show "total (cleaning n env state {?lb} ?ts)
      (bindP (callP env (DeleteResource LoadBalancerKind [pt_LoadBalancerID state])) (\<lambda>_. WaitLoadBalancerDeleted env (pt_LoadBalancerID state) timeout interval))
      (\<lambda>_. cleaning n env state {} (insert ?lb ts)) (lawfulRun n env state)"
    by (rule total_bind)
qed

definition cleanupFinished :: "nat \<Rightarrow> 'w probeEnv \<Rightarrow> probeState \<Rightarrow> 'w probeRun \<Rightarrow> bool" where
  "cleanupFinished n env state s \<longleftrightarrow> cleanupLawful env state (since n s) \<and> (\<exists>removal. RemovedState removal \<in> set (since n s))"

lemma removeStateFile_finished:
  "total (\<lambda>s. n \<le> length (pn_log s) \<and> lawfulRun n env state s \<and> everythingGone env state (since n s)) (removeStateFile env) (\<lambda>_. cleanupFinished n env state) (lawfulRun n env state)"
  by (auto simp: total_def removeStateFile_def cleanupFinished_def since_def cleanupLawful_snoc split: prod.splits)

lemma cleanup_total:
  assumes "timedEnv env" "0 < interval" "0 \<le> timeout"
  shows "total (\<lambda>s. length (pn_log s) = n) (cleanupWithClients env state timeout interval) (\<lambda>_. cleanupFinished n env state) (lawfulRun n env state)"
  unfolding cleanupWithClients_def
proof (rule total_bind)
  let ?lb = "(LoadBalancerKind, [pt_LoadBalancerID state])"
  let ?gone = "if pt_LoadBalancerID state = [] then {} else {?lb}" and ?ip = "if pt_FloatingIPID state = [] then {} else {(FloatingIPKind, [pt_FloatingIPID state])}"
  show "total (\<lambda>s. length (pn_log s) = n) (inspectLoadBalancer env state)
     (\<lambda>found. cleaning n env state (if found then {?lb} else {}) (if found then {} else ?gone)) (lawfulRun n env state)"
    by (rule total_weaken [OF inspect_cleaning]) (auto simp: cleaning_def since_def cleanupLawful_def split: if_splits)
  have body: "total (cleaning n env state (if found then {?lb} else {}) ((if found then {} else ?gone) \<union> ?ip))
      (if found then cleanupLoadBalancer env state timeout interval else returnP ()) (\<lambda>_. cleaning n env state {} (?gone \<union> ?ip)) (lawfulRun n env state)" for found
    by (cases found) (auto intro!: total_return total_weaken [OF cleanupLoadBalancer_cleaning [OF assms, where ts = ?ip]] simp: cleaning_def split: if_splits)
  have remove: "total (cleaning n env state {} (?gone \<union> ?ip)) (removeStateFile env) (\<lambda>_. cleanupFinished n env state) (lawfulRun n env state)"
    by (rule total_weaken [OF removeStateFile_finished]) (auto simp: cleaning_def everythingGone_def split: if_splits)
  show "total (cleaning n env state (if found then {?lb} else {}) (if found then {} else ?gone))
      (bindP (cleanupFloatingIP env state) (\<lambda>_. bindP (if found then cleanupLoadBalancer env state timeout interval else returnP ()) (\<lambda>_. removeStateFile env)))
      (\<lambda>_. cleanupFinished n env state) (lawfulRun n env state)" for found
    by (rule total_bind [OF cleanupFloatingIP_cleaning total_bind [OF body remove]])
qed

section \<open>Claims\<close>

text \<open>
  C37. Waits end: waiting for a load balancer to become active or to be deleted returns, whatever the service answers, after at most
  two requests more than there are intervals in the timeout; without an error only after an answer that the load balancer is
  active, or that it does not exist.
\<close>

theorem waits_return:
  assumes "timedEnv env" "0 < interval" "0 \<le> timeout"
  shows "(\<exists>r s' es. WaitLoadBalancerActive env lb timeout interval s = Some (r, s') \<and> pn_log s' = pn_log s @ es \<and> length es \<le> nat (timeout div interval) + 2 \<and>
      (isOk r \<longrightarrow> (\<exists>view. r = Inr view \<and> Requested (GetResource LoadBalancerKind [lb]) (Inr view) \<in> set es \<and> rv_ProvisioningStatus view = ''ACTIVE''))) \<and>
    (\<exists>r s' es. WaitLoadBalancerDeleted env lb timeout interval s = Some (r, s') \<and> pn_log s' = pn_log s @ es \<and> length es \<le> nat (timeout div interval) + 2 \<and>
      (isOk r \<longrightarrow> (\<exists>e. Requested (GetResource LoadBalancerKind [lb]) (Inl e) \<in> set es \<and> pe_ResponseCodeIs env e 404)))"
proof
  obtain r s' es answer where run: "WaitLoadBalancerActive env lb timeout interval s = Some (r, s')" "pn_log s' = pn_log s @ es"
    "length es \<le> maxPolls timeout interval" "Requested (GetResource LoadBalancerKind [lb]) answer \<in> set es" "r = Inl WaitEnded \<or> activeDecision env answer = Some r"
    by (rule active.ends_log [OF waitActive_ends [OF assms]])
  then have "isOk r \<longrightarrow> (\<exists>view. r = Inr view \<and> Requested (GetResource LoadBalancerKind [lb]) (Inr view) \<in> set es \<and> rv_ProvisioningStatus view = ''ACTIVE'')"
    by (cases answer) (auto simp: activeDecision_def split: if_splits)
  with run show "\<exists>r s' es. WaitLoadBalancerActive env lb timeout interval s = Some (r, s') \<and> pn_log s' = pn_log s @ es \<and> length es \<le> nat (timeout div interval) + 2 \<and>
      (isOk r \<longrightarrow> (\<exists>view. r = Inr view \<and> Requested (GetResource LoadBalancerKind [lb]) (Inr view) \<in> set es \<and> rv_ProvisioningStatus view = ''ACTIVE''))"
    unfolding maxPolls_def by blast
  obtain r s' es answer where run: "WaitLoadBalancerDeleted env lb timeout interval s = Some (r, s')" "pn_log s' = pn_log s @ es"
    "length es \<le> maxPolls timeout interval" "Requested (GetResource LoadBalancerKind [lb]) answer \<in> set es" "r = Inl WaitEnded \<or> deletedDecision env answer = Some r"
    by (rule deleted.ends_log [OF waitDeleted_ends [OF assms]])
  then have "isOk r \<longrightarrow> (\<exists>e. Requested (GetResource LoadBalancerKind [lb]) (Inl e) \<in> set es \<and> pe_ResponseCodeIs env e 404)"
    by (cases answer) (auto simp: deletedDecision_def notFoundError_def split: if_splits)
  with run show "\<exists>r s' es. WaitLoadBalancerDeleted env lb timeout interval s = Some (r, s') \<and> pn_log s' = pn_log s @ es \<and> length es \<le> nat (timeout div interval) + 2 \<and>
      (isOk r \<longrightarrow> (\<exists>e. Requested (GetResource LoadBalancerKind [lb]) (Inl e) \<in> set es \<and> pe_ResponseCodeIs env e 404))"
    unfolding maxPolls_def by blast
qed

text \<open>
  C36. The cleanup of the probe returns, and deletes only what is its own: before every deletion the resource was read and carried the identity of the
  state, and the resources of the graph that come before it, from the rules to the listener, were gone. The state file is removed only when the
  service has said that the load balancer does not exist, and the Floating IP is deleted, and this is the case when cleanup succeeds.
\<close>

theorem cleanup_deletes_its_own:
  assumes "timedEnv env" "0 < interval" "0 \<le> timeout" "pn_log s = []"
  shows "\<exists>r s'. cleanupWithClients env state timeout interval s = Some (r, s') \<and>
    (\<forall>prior kind path answer later. pn_log s' = prior @ Requested (DeleteResource kind path) answer # later \<longrightarrow> seenOwned state prior (kind, path) \<and>
       (kind = FloatingIPKind \<or> childrenGone env state prior (kind, path))) \<and>
    ((isOk r \<or> (\<exists>removal. RemovedState removal \<in> set (pn_log s'))) \<longrightarrow> everythingGone env state (pn_log s'))"
proof -
  obtain r s' where run: "cleanupWithClients env state timeout interval s = Some (r, s')" "case r of Inl _ \<Rightarrow> lawfulRun 0 env state s' | Inr _ \<Rightarrow> cleanupFinished 0 env state s'"
    using cleanup_total [OF assms(1-3), of 0 state] assms(4) unfolding total_def by auto
  then have lawful: "cleanupLawful env state (pn_log s')" by (auto simp: cleanupFinished_def since_def split: sum.splits)
  have "everythingGone env state (pn_log s')" if "RemovedState removal \<in> set (pn_log s')" for removal
  proof -
    from split_list [OF that] obtain prior later where log: "pn_log s' = prior @ RemovedState removal # later" by blast
    then have "cleanupJustified env state prior (RemovedState removal)" using lawful unfolding cleanupLawful_def by blast
    then show ?thesis using goneIn_append [of env prior _ "RemovedState removal # later"] log by (auto simp: everythingGone_def)
  qed
  moreover have "\<exists>removal. RemovedState removal \<in> set (pn_log s')" if "isOk r" using run(2) that by (cases r) (auto simp: cleanupFinished_def since_def)
  moreover have "seenOwned state prior (kind, path) \<and> (kind = FloatingIPKind \<or> childrenGone env state prior (kind, path))"
    if "pn_log s' = prior @ Requested (DeleteResource kind path) answer # later" for prior kind path answer later
  proof -
    have "cleanupJustified env state prior (Requested (DeleteResource kind path) answer)" using lawful that unfolding cleanupLawful_def by blast
    then show ?thesis by auto
  qed
  ultimately show ?thesis using run(1) by blast
qed

text \<open>A service whose load balancer stays pending until the deadline, and one that has lost everything.\<close>

definition pendingView :: resourceView where
  "pendingView = \<lparr>rv_ID = ''lb-1'', rv_Tags = [], rv_Description = [], rv_PortID = [], rv_ProvisioningStatus = ''PENDING_UPDATE''\<rparr>"

definition pendingService :: "int probeEnv" where
  "pendingService = \<lparr>pe_call = \<lambda>deadline _ now. (case deadline of None \<Rightarrow> Inr pendingView | Some d \<Rightarrow> if d \<le> now then Inl Errorf else Inr pendingView, now),
     pe_now = \<lambda>now. now, pe_select = \<lambda>_ tick now. (False, tick), pe_ResponseCodeIs = \<lambda>_ _. False, pe_save = \<lambda>_ now. (True, now), pe_remove = \<lambda>now. (FileRemoved, now)\<rparr>"

definition emptyService :: "int probeEnv" where
  "emptyService = pendingService\<lparr>pe_call := \<lambda>_ _ now. (Inl Errorf, now), pe_ResponseCodeIs := \<lambda>_ code. code = 404\<rparr>"

definition sampleProbeState :: probeState where
  "sampleProbeState = \<lparr>pt_Region = [], pt_OctaviaMicroversion = [],
     pt_Identity = \<lparr>pi_ClusterID = ''c'', pi_Controller = controllerIdentifier, pi_GatewayNamespace = ''ns'', pi_GatewayName = ''gw'', pi_GatewayUID = ''uid''\<rparr>,
     pt_LoadBalancerID = ''lb-1'', pt_VIPPortID = ''port-1'', pt_FloatingIPID = ''fip-1'', pt_ListenerID = [], pt_PoolID = [], pt_MemberIDs = [], pt_MonitorID = [],
     pt_L7PolicyID = [], pt_L7RuleID = []\<rparr>"

definition probeStart :: "int probeRun" where
  "probeStart = \<lparr>pn_world = 0, pn_log = [], pn_state = sampleProbeState\<rparr>"

lemma sample_services: "timedEnv pendingService" "timedEnv emptyService"
  by (auto simp: timedEnv_def pendingService_def emptyService_def)

theorem waits_return_witness: "\<exists>r s'. WaitLoadBalancerActive pendingService ''lb-1'' 60 5 probeStart = Some (r, s') \<and> length (pn_log s') \<le> 14"
  using waits_return [OF sample_services(1), of 5 60 "''lb-1''" probeStart] by (auto simp: probeStart_def)

theorem cleanup_deletes_its_own_witness:
  "\<exists>r s'. cleanupWithClients emptyService sampleProbeState 60 5 probeStart = Some (r, s') \<and> (isOk r \<longrightarrow> everythingGone emptyService sampleProbeState (pn_log s'))"
  using cleanup_deletes_its_own [OF sample_services(2), of 5 60 probeStart sampleProbeState] by (auto simp: probeStart_def)

end
