(* ===== verification/ProbeRunner.thy ===== *)
theory ProbeRunner
  imports Probe RoutePlan
begin

text \<open>
  A run of the probe: config.go and runner.go of internal/probe. Parsing the flags, the report and what is only written to it (the list of
  providers, the steps with their times) are left out; the traffic check is a parameter that succeeds or not. So the configuration has no
  Host and no AllowInsecureOpenStack, which only the traffic check and the authentication read. A panic of a ticker is an error here; it takes an interval that
  is not positive, which Validate refuses.
\<close>

section \<open>Configuration\<close>

record probeConfig =
  pg_Region :: string
  pg_VIPSubnetID :: string
  pg_ExternalNetworkID :: string
  pg_Provider :: string
  pg_OctaviaMicroversion :: string
  pg_MemberAddresses :: "string list"
  pg_MemberPort :: int
  pg_MemberSubnetID :: string
  pg_ListenerPort :: int
  pg_HealthPath :: string
  pg_MatchPath :: string
  pg_RequestPath :: string
  pg_ClusterID :: string
  pg_GatewayNamespace :: string
  pg_GatewayName :: string
  pg_GatewayUID :: string
  pg_StateFile :: string
  pg_ReportFile :: string
  pg_OperationTimeout :: int
  pg_PollInterval :: int
  pg_TrafficTimeout :: int
  pg_KeepResources :: bool
  pg_SkipTrafficCheck :: bool

text \<open>filepath.Clean is a parameter.\<close>

definition validateProbeConfig :: "(string \<Rightarrow> string) \<Rightarrow> probeConfig \<Rightarrow> unit result" where
  "validateProbeConfig Clean cfg =
     bindE (foreachE (\<lambda>v. guardE (TrimSpace v \<noteq> []) Errorf) [pg_VIPSubnetID cfg, Join (pg_MemberAddresses cfg) '','', pg_ClusterID cfg,
       pg_GatewayNamespace cfg, pg_GatewayName cfg, pg_GatewayUID cfg, pg_StateFile cfg, pg_ReportFile cfg]) (\<lambda>_.
     bindE (guardE (1 \<le> pg_MemberPort cfg \<and> pg_MemberPort cfg \<le> 65535) Errorf) (\<lambda>_.
     bindE (guardE (1 \<le> pg_ListenerPort cfg \<and> pg_ListenerPort cfg \<le> 65535) Errorf) (\<lambda>_.
     bindE (foreachE (\<lambda>v. guardE (HasPrefix v ''/'') Errorf) [pg_HealthPath cfg, pg_MatchPath cfg, pg_RequestPath cfg]) (\<lambda>_.
     bindE (guardE (\<not> (pg_OperationTimeout cfg \<le> 0 \<or> pg_PollInterval cfg \<le> 0 \<or> pg_TrafficTimeout cfg \<le> 0)) Errorf) (\<lambda>_.
     guardE (Clean (pg_StateFile cfg) \<noteq> Clean (pg_ReportFile cfg)) Errorf)))))"

definition newProbeIdentity :: "probeConfig \<Rightarrow> probeIdentity" where
  "newProbeIdentity cfg = \<lparr>pi_ClusterID = pg_ClusterID cfg, pi_Controller = controllerIdentifier, pi_GatewayNamespace = pg_GatewayNamespace cfg,
     pi_GatewayName = pg_GatewayName cfg, pi_GatewayUID = pg_GatewayUID cfg\<rparr>"

definition NewState :: "probeConfig \<Rightarrow> probeState" where
  "NewState cfg = \<lparr>pt_Region = pg_Region cfg, pt_OctaviaMicroversion = pg_OctaviaMicroversion cfg, pt_Identity = newProbeIdentity cfg,
     pt_LoadBalancerID = [], pt_VIPPortID = [], pt_FloatingIPID = [], pt_ListenerID = [], pt_PoolID = [], pt_MemberIDs = [], pt_MonitorID = [],
     pt_L7PolicyID = [], pt_L7RuleID = []\<rparr>"

section \<open>Names\<close>

definition shortValue :: "string \<Rightarrow> nat \<Rightarrow> string" where
  "shortValue v n = (if length v \<le> n then v else take n v)"

definition nameCharacter :: "char \<Rightarrow> bool" where
  "nameCharacter ch \<longleftrightarrow> CHR ''a'' \<le> ch \<and> ch \<le> CHR ''z'' \<or> CHR ''0'' \<le> ch \<and> ch \<le> CHR ''9''"

fun sanitizeFrom :: "bool \<Rightarrow> string \<Rightarrow> string" where
  "sanitizeFrom lastWasDash [] = []"
| "sanitizeFrom lastWasDash (ch # rest) =
     (if nameCharacter ch then ch # sanitizeFrom False rest
      else if \<not> lastWasDash then CHR ''-'' # sanitizeFrom True rest
      else sanitizeFrom True rest)"

definition TrimDashes :: "string \<Rightarrow> string" where
  "TrimDashes s = TrimRightByte (dropWhile (\<lambda>ch. ch = CHR ''-'') s) CHR ''-''"

text \<open>strings.ToLower is a parameter. A rune of more than one byte is one dash, like each of its bytes.\<close>

definition sanitizeName :: "(string \<Rightarrow> string) \<Rightarrow> string \<Rightarrow> string" where
  "sanitizeName ToLower v = TrimDashes (sanitizeFrom False (ToLower v))"

definition probeResourceName :: "(string \<Rightarrow> string) \<Rightarrow> probeState \<Rightarrow> string \<Rightarrow> string" where
  "probeResourceName ToLower state role = shortValue (sanitizeName ToLower (Join [''gateway-api-openstack-p0'', pi_GatewayNamespace (pt_Identity state),
     pi_GatewayName (pt_Identity state), shortValue (pi_GatewayUID (pt_Identity state)) 8, role] ''-'')) 200"

section \<open>Steps\<close>

definition changeState :: "(probeState \<Rightarrow> probeState) \<Rightarrow> ('w, unit) pc" where
  "changeState f = (\<lambda>s. Some (Inr (), s\<lparr>pn_state := f (pn_state s)\<rparr>))"

definition saveState :: "'w probeEnv \<Rightarrow> ('w, unit) pc" where
  "saveState env = (\<lambda>s. case pe_save env (pn_state s) (pn_world s) of (ok, w) \<Rightarrow>
     Some (if ok then Inr () else Inl StateFileError, s\<lparr>pn_world := w, pn_log := pn_log s @ [SavedState (pn_state s) ok]\<rparr>))"

definition tagsFor :: "string \<Rightarrow> ('w, string list) pc" where
  "tagsFor role = bindP stateP (\<lambda>state. case probeTags (pt_Identity state) role of Inl e \<Rightarrow> throwP (TagsError e) | Inr tags \<Rightarrow> returnP tags)"

definition waitActive :: "'w probeEnv \<Rightarrow> probeConfig \<Rightarrow> ('w, unit) pc" where
  "waitActive env cfg = bindP stateP (\<lambda>state.
     bindP (WaitLoadBalancerActive env (pt_LoadBalancerID state) (pg_OperationTimeout cfg) (pg_PollInterval cfg)) (\<lambda>_. returnP ()))"

text \<open>Creating a resource, recording its identifier and saving the state.\<close>

definition createRecorded :: "'w probeEnv \<Rightarrow> createRequest \<Rightarrow> (resourceView \<Rightarrow> probeState \<Rightarrow> probeState) \<Rightarrow> ('w, resourceView) pc" where
  "createRecorded env req note =
     bindP (callP env (CreateResource req)) (\<lambda>view.
     bindP (changeState (note view)) (\<lambda>_.
     bindP (saveState env) (\<lambda>_.
     returnP view)))"

definition phaseText :: "probeState \<Rightarrow> string \<Rightarrow> string \<Rightarrow> string" where
  "phaseText state role phase = probeDescription (pt_Identity state) role @ ''; phase='' @ phase"

definition describedUpdate :: "string \<Rightarrow> string list \<Rightarrow> resourceUpdate" where
  "describedUpdate d tags = \<lparr>up_Name = None, up_Description = Some d, up_Tags = Some tags, up_Match = None\<rparr>"

definition namedUpdate :: "string \<Rightarrow> string list \<Rightarrow> resourceUpdate" where
  "namedUpdate name tags = \<lparr>up_Name = Some name, up_Description = None, up_Tags = Some tags, up_Match = None\<rparr>"

definition updateResource :: "'w probeEnv \<Rightarrow> probeConfig \<Rightarrow> resourceKind \<Rightarrow> string list \<Rightarrow> resourceUpdate \<Rightarrow> ('w, unit) pc" where
  "updateResource env cfg kind path update = bindP (callP env (UpdateResource kind path update)) (\<lambda>_. waitActive env cfg)"

definition createAndUpdateFloatingIP :: "'w probeEnv \<Rightarrow> probeConfig \<Rightarrow> ('w, unit) pc" where
  "createAndUpdateFloatingIP env cfg = bindP stateP (\<lambda>state.
     bindP (createRecorded env (NewFloatingIP \<lparr>fic_Description = phaseText state roleFloatingIP ''created'', fic_FloatingNetworkID = pg_ExternalNetworkID cfg,
       fic_PortID = pt_VIPPortID state\<rparr>) (\<lambda>view st. st\<lparr>pt_FloatingIPID := rv_ID view\<rparr>)) (\<lambda>view.
     bindP (callP env (UpdateResource FloatingIPKind [rv_ID view]
       \<lparr>up_Name = None, up_Description = Some (phaseText state roleFloatingIP ''verified''), up_Tags = None, up_Match = None\<rparr>)) (\<lambda>_.
     returnP ())))"

definition createAndUpdateListener :: "(string \<Rightarrow> string) \<Rightarrow> 'w probeEnv \<Rightarrow> probeConfig \<Rightarrow> ('w, unit) pc" where
  "createAndUpdateListener ToLower env cfg = bindP (tagsFor roleListener) (\<lambda>tags. bindP stateP (\<lambda>state.
     bindP (createRecorded env (NewListener \<lparr>lic_LoadbalancerID = pt_LoadBalancerID state, lic_Protocol = ProtocolHTTP, lic_ProtocolPort = pg_ListenerPort cfg,
       lic_Name = probeResourceName ToLower state roleListener, lic_Description = phaseText state roleListener ''created'', lic_AdminStateUp = Some True,
       lic_Tags = tags\<rparr>) (\<lambda>view st. st\<lparr>pt_ListenerID := rv_ID view\<rparr>)) (\<lambda>view.
     bindP (waitActive env cfg) (\<lambda>_.
     updateResource env cfg ListenerKind [rv_ID view] (describedUpdate (phaseText state roleListener ''verified'') tags)))))"

definition createAndUpdatePool :: "(string \<Rightarrow> string) \<Rightarrow> 'w probeEnv \<Rightarrow> probeConfig \<Rightarrow> ('w, unit) pc" where
  "createAndUpdatePool ToLower env cfg = bindP (tagsFor rolePool) (\<lambda>tags. bindP stateP (\<lambda>state.
     bindP (createRecorded env (NewPool \<lparr>poc_LBMethod = LBMethodRoundRobin, poc_Protocol = ProtocolHTTP, poc_LoadbalancerID = pt_LoadBalancerID state,
       poc_Name = probeResourceName ToLower state rolePool, poc_Description = phaseText state rolePool ''created'', poc_AdminStateUp = Some True,
       poc_Tags = tags\<rparr>) (\<lambda>view st. st\<lparr>pt_PoolID := rv_ID view\<rparr>)) (\<lambda>view.
     bindP (waitActive env cfg) (\<lambda>_.
     updateResource env cfg PoolKind [rv_ID view] (describedUpdate (phaseText state rolePool ''verified'') tags)))))"

definition createAndUpdateMember :: "(string \<Rightarrow> string) \<Rightarrow> 'w probeEnv \<Rightarrow> probeConfig \<Rightarrow> nat \<Rightarrow> string \<Rightarrow> ('w, unit) pc" where
  "createAndUpdateMember ToLower env cfg index address = bindP (tagsFor roleMember) (\<lambda>tags. bindP stateP (\<lambda>state.
     bindP (createRecorded env (NewMember (pt_PoolID state) \<lparr>mec_Address = address, mec_ProtocolPort = pg_MemberPort cfg,
       mec_Name = probeResourceName ToLower state roleMember @ ''-'' @ itoa index, mec_SubnetID = pg_MemberSubnetID cfg, mec_AdminStateUp = Some True,
       mec_Tags = tags\<rparr>) (\<lambda>view st. st\<lparr>pt_MemberIDs := pt_MemberIDs st @ [rv_ID view]\<rparr>)) (\<lambda>view.
     bindP (waitActive env cfg) (\<lambda>_.
     updateResource env cfg MemberKind [pt_PoolID state, rv_ID view] (namedUpdate (probeResourceName ToLower state roleMember @ ''-'' @ itoa index @ ''-verified'') tags)))))"

fun createAndUpdateMembersFrom :: "(string \<Rightarrow> string) \<Rightarrow> 'w probeEnv \<Rightarrow> probeConfig \<Rightarrow> nat \<Rightarrow> string list \<Rightarrow> ('w, unit) pc" where
  "createAndUpdateMembersFrom ToLower env cfg index [] = returnP ()"
| "createAndUpdateMembersFrom ToLower env cfg index (address # addresses) =
     bindP (createAndUpdateMember ToLower env cfg index address) (\<lambda>_. createAndUpdateMembersFrom ToLower env cfg (Suc index) addresses)"

definition createAndUpdateMembers :: "(string \<Rightarrow> string) \<Rightarrow> 'w probeEnv \<Rightarrow> probeConfig \<Rightarrow> ('w, unit) pc" where
  "createAndUpdateMembers ToLower env cfg = createAndUpdateMembersFrom ToLower env cfg 0 (pg_MemberAddresses cfg)"

definition createAndUpdateMonitor :: "(string \<Rightarrow> string) \<Rightarrow> 'w probeEnv \<Rightarrow> probeConfig \<Rightarrow> ('w, unit) pc" where
  "createAndUpdateMonitor ToLower env cfg = bindP (tagsFor roleMonitor) (\<lambda>tags. bindP stateP (\<lambda>state.
     bindP (createRecorded env (NewMonitor \<lparr>moc_PoolID = pt_PoolID state, moc_Type = ''HTTP'', moc_Delay = 10, moc_Timeout = 5, moc_MaxRetries = 3,
       moc_MaxRetriesDown = 3, moc_URLPath = pg_HealthPath cfg, moc_HTTPMethod = ''GET'', moc_ExpectedCodes = ''200-399'',
       moc_Name = probeResourceName ToLower state roleMonitor, moc_AdminStateUp = Some True, moc_Tags = tags\<rparr>) (\<lambda>view st. st\<lparr>pt_MonitorID := rv_ID view\<rparr>)) (\<lambda>view.
     bindP (waitActive env cfg) (\<lambda>_.
     updateResource env cfg MonitorKind [rv_ID view] (namedUpdate (probeResourceName ToLower state roleMonitor @ ''-verified'') tags)))))"

definition createAndUpdateL7Policy :: "(string \<Rightarrow> string) \<Rightarrow> 'w probeEnv \<Rightarrow> probeConfig \<Rightarrow> ('w, unit) pc" where
  "createAndUpdateL7Policy ToLower env cfg = bindP (tagsFor roleL7Policy) (\<lambda>tags. bindP stateP (\<lambda>state.
     bindP (createRecorded env (NewPolicy \<lparr>plc_Name = probeResourceName ToLower state roleL7Policy, plc_ListenerID = pt_ListenerID state, plc_Action = ActionRedirectToPool,
       plc_Position = 1, plc_Description = phaseText state roleL7Policy ''created'', plc_RedirectPoolID = pt_PoolID state, plc_AdminStateUp = Some True,
       plc_Tags = tags\<rparr>) (\<lambda>view st. st\<lparr>pt_L7PolicyID := rv_ID view\<rparr>)) (\<lambda>view.
     bindP (waitActive env cfg) (\<lambda>_.
     updateResource env cfg PolicyKind [rv_ID view] (describedUpdate (phaseText state roleL7Policy ''verified'') tags)))))"

definition createAndUpdateL7Rule :: "'w probeEnv \<Rightarrow> probeConfig \<Rightarrow> ('w, unit) pc" where
  "createAndUpdateL7Rule env cfg = bindP (tagsFor roleL7Rule) (\<lambda>tags. bindP stateP (\<lambda>state.
     bindP (createRecorded env (NewRule (pt_L7PolicyID state) \<lparr>ruc_RuleType = TypePath, ruc_CompareType = CompareTypeStartWith,
       ruc_Value = ''/__gateway_api_openstack_initial_no_match'', ruc_AdminStateUp = Some True, ruc_Tags = tags\<rparr>) (\<lambda>view st. st\<lparr>pt_L7RuleID := rv_ID view\<rparr>)) (\<lambda>view.
     bindP (waitActive env cfg) (\<lambda>_.
     updateResource env cfg RuleKind [pt_L7PolicyID state, rv_ID view]
       \<lparr>up_Name = None, up_Description = None, up_Tags = Some tags, up_Match = Some (TypePath, CompareTypeStartWith, pg_MatchPath cfg)\<rparr>))))"

definition createLoadBalancer :: "(string \<Rightarrow> string) \<Rightarrow> 'w probeEnv \<Rightarrow> probeConfig \<Rightarrow> ('w, unit) pc" where
  "createLoadBalancer ToLower env cfg = bindP (tagsFor roleLoadBalancer) (\<lambda>tags. bindP stateP (\<lambda>state.
     bindP (createRecorded env (NewLoadBalancer \<lparr>lbc_Name = probeResourceName ToLower state roleLoadBalancer, lbc_Description = phaseText state roleLoadBalancer ''created'',
       lbc_VipSubnetID = pg_VIPSubnetID cfg, lbc_Provider = pg_Provider cfg, lbc_AdminStateUp = Some True, lbc_Tags = tags\<rparr>)
       (\<lambda>view st. st\<lparr>pt_LoadBalancerID := rv_ID view, pt_VIPPortID := rv_PortID view\<rparr>)) (\<lambda>view.
     bindP (waitActive env cfg) (\<lambda>_.
     updateResource env cfg LoadBalancerKind [rv_ID view] (describedUpdate (phaseText state roleLoadBalancer ''verified'') tags)))))"

definition createAndExerciseResources :: "(string \<Rightarrow> string) \<Rightarrow> 'w probeEnv \<Rightarrow> probeConfig \<Rightarrow> ('w, unit) pc" where
  "createAndExerciseResources ToLower env cfg =
     bindP (createLoadBalancer ToLower env cfg) (\<lambda>_.
     bindP (if pg_ExternalNetworkID cfg \<noteq> [] then createAndUpdateFloatingIP env cfg else returnP ()) (\<lambda>_.
     bindP (createAndUpdateListener ToLower env cfg) (\<lambda>_.
     bindP (createAndUpdatePool ToLower env cfg) (\<lambda>_.
     bindP (createAndUpdateMembers ToLower env cfg) (\<lambda>_.
     bindP (createAndUpdateMonitor ToLower env cfg) (\<lambda>_.
     bindP (createAndUpdateL7Policy ToLower env cfg) (\<lambda>_.
     createAndUpdateL7Rule env cfg)))))))"

section \<open>Inspecting\<close>

definition inspectResource :: "'w probeEnv \<Rightarrow> resourceKind \<Rightarrow> string list \<Rightarrow> string \<Rightarrow> ('w, unit) pc" where
  "inspectResource env kind path role = bindP stateP (\<lambda>state.
     bindP (callP env (GetResource kind path)) (\<lambda>view.
     guardP (probeMatches (pt_Identity state) (rv_Tags view) role) IdentityMismatch))"

fun inspectMembers :: "'w probeEnv \<Rightarrow> string \<Rightarrow> string list \<Rightarrow> ('w, unit) pc" where
  "inspectMembers env poolID [] = returnP ()"
| "inspectMembers env poolID (memberID # memberIDs) =
     bindP (inspectResource env MemberKind [poolID, memberID] roleMember) (\<lambda>_. inspectMembers env poolID memberIDs)"

definition inspectFloatingIP :: "'w probeEnv \<Rightarrow> ('w, unit) pc" where
  "inspectFloatingIP env = bindP stateP (\<lambda>state.
     if pt_FloatingIPID state = [] then returnP ()
     else bindP (callP env (GetResource FloatingIPKind [pt_FloatingIPID state])) (\<lambda>view.
       guardP (probeMatchesDescription (pt_Identity state) (rv_Description view) roleFloatingIP \<and> rv_PortID view = pt_VIPPortID state) IdentityMismatch))"

definition inspectResources :: "'w probeEnv \<Rightarrow> ('w, unit) pc" where
  "inspectResources env = bindP stateP (\<lambda>state.
     bindP (inspectResource env LoadBalancerKind [pt_LoadBalancerID state] roleLoadBalancer) (\<lambda>_.
     bindP (inspectResource env ListenerKind [pt_ListenerID state] roleListener) (\<lambda>_.
     bindP (inspectResource env PoolKind [pt_PoolID state] rolePool) (\<lambda>_.
     bindP (inspectMembers env (pt_PoolID state) (pt_MemberIDs state)) (\<lambda>_.
     bindP (inspectResource env MonitorKind [pt_MonitorID state] roleMonitor) (\<lambda>_.
     bindP (inspectResource env PolicyKind [pt_L7PolicyID state] roleL7Policy) (\<lambda>_.
     bindP (inspectResource env RuleKind [pt_L7PolicyID state, pt_L7RuleID state] roleL7Rule) (\<lambda>_.
     inspectFloatingIP env))))))))"

section \<open>Running\<close>

text \<open>
  What a run does besides: it authenticates, claims the state file, asks for the providers, sends a request through the load balancer and saves the report.
  Each changes the world and succeeds or not.
\<close>

record 'w runServices =
  sv_authenticate :: "'w \<Rightarrow> bool \<times> 'w"
  sv_claim :: "probeState \<Rightarrow> 'w \<Rightarrow> bool \<times> 'w"
  sv_providers :: "'w \<Rightarrow> bool \<times> 'w"
  sv_traffic :: "'w \<Rightarrow> bool \<times> 'w"
  sv_report :: "'w \<Rightarrow> bool \<times> 'w"

definition outside :: "('w \<Rightarrow> bool \<times> 'w) \<Rightarrow> ('w, bool) pc" where
  "outside f = (\<lambda>s. case f (pn_world s) of (ok, w) \<Rightarrow> Some (Inr ok, s\<lparr>pn_world := w\<rparr>))"

definition succeeding :: "('w \<Rightarrow> bool \<times> 'w) \<Rightarrow> ('w, unit) pc" where
  "succeeding f = bindP (outside f) (\<lambda>ok. guardP ok StateFileError)"

definition tryP :: "('w, 'a) pc \<Rightarrow> ('w, probeError + 'a) pc" where
  "tryP m = (\<lambda>s. Option.bind (m s) (\<lambda>(r, s'). Some (Inr r, s')))"

definition runBody :: "(string \<Rightarrow> string) \<Rightarrow> 'w probeEnv \<Rightarrow> 'w runServices \<Rightarrow> probeConfig \<Rightarrow> ('w, unit) pc" where
  "runBody ToLower env services cfg =
     bindP (succeeding (sv_authenticate services)) (\<lambda>_.
     bindP stateP (\<lambda>state.
     bindP (succeeding (sv_claim services state)) (\<lambda>_.
     bindP (outside (sv_providers services)) (\<lambda>_.
     bindP (createAndExerciseResources ToLower env cfg) (\<lambda>_.
     bindP (inspectResources env) (\<lambda>_.
     if pg_SkipTrafficCheck cfg then returnP () else succeeding (sv_traffic services)))))))"

definition errorsOf :: "probeError + 'a \<Rightarrow> probeError list" where
  "errorsOf r = (case r of Inl e \<Rightarrow> [e] | Inr _ \<Rightarrow> [])"

text \<open>The deferred function cleans up what the state names; the errors are joined.\<close>

definition deferredCleanup :: "'w probeEnv \<Rightarrow> probeConfig \<Rightarrow> probeState \<Rightarrow> ('w, unit) pc" where
  "deferredCleanup env cfg state = (if \<not> pg_KeepResources cfg \<and> pt_LoadBalancerID state \<noteq> []
     then cleanupWithClients env state (pg_OperationTimeout cfg) (pg_PollInterval cfg) else returnP ())"

definition RunProbe :: "(string \<Rightarrow> string) \<Rightarrow> 'w probeEnv \<Rightarrow> 'w runServices \<Rightarrow> probeConfig \<Rightarrow> ('w, probeError list) pc" where
  "RunProbe ToLower env services cfg =
     bindP (changeState (\<lambda>_. NewState cfg)) (\<lambda>_.
     bindP (tryP (runBody ToLower env services cfg)) (\<lambda>r.
     bindP stateP (\<lambda>state.
     bindP (tryP (deferredCleanup env cfg state)) (\<lambda>cleanup.
     bindP (outside (sv_report services)) (\<lambda>saved.
     returnP (errorsOf r @ errorsOf cleanup @ (if saved then [] else [StateFileError])))))))"

end
