(* ===== verification/ProbeClaims.thy ===== *)
theory ProbeClaims
  imports ProbeFacts ProbeRunner
begin

text \<open>
  A run of the probe forgets nothing: every resource it creates is in the state that is saved before the next request, so that a cleanup finds it,
  and a run that succeeds and does not keep its resources has deleted them.
\<close>

section \<open>What the state records\<close>

fun kindOf :: "createRequest \<Rightarrow> resourceKind" where
  "kindOf (NewLoadBalancer _) = LoadBalancerKind"
| "kindOf (NewFloatingIP _) = FloatingIPKind"
| "kindOf (NewListener _) = ListenerKind"
| "kindOf (NewPool _) = PoolKind"
| "kindOf (NewMember _ _) = MemberKind"
| "kindOf (NewMonitor _) = MonitorKind"
| "kindOf (NewPolicy _) = PolicyKind"
| "kindOf (NewRule _ _) = RuleKind"

text \<open>The state has the identifier of a resource created for a request, and the resource carries the identity of the state.\<close>

fun noted :: "createRequest \<Rightarrow> string \<Rightarrow> probeState \<Rightarrow> bool" where
  "noted (NewLoadBalancer opts) i st \<longleftrightarrow> pt_LoadBalancerID st = i \<and> probeTags (pt_Identity st) roleLoadBalancer = Inr (lbc_Tags opts)"
| "noted (NewFloatingIP opts) i st \<longleftrightarrow> pt_FloatingIPID st = i \<and> pt_VIPPortID st = fic_PortID opts \<and> fic_Description opts = phaseText st roleFloatingIP ''created''"
| "noted (NewListener opts) i st \<longleftrightarrow> pt_ListenerID st = i \<and> probeTags (pt_Identity st) roleListener = Inr (lic_Tags opts)"
| "noted (NewPool opts) i st \<longleftrightarrow> pt_PoolID st = i \<and> probeTags (pt_Identity st) rolePool = Inr (poc_Tags opts)"
| "noted (NewMember poolID opts) i st \<longleftrightarrow> i \<in> set (pt_MemberIDs st) \<and> pt_PoolID st = poolID \<and> probeTags (pt_Identity st) roleMember = Inr (mec_Tags opts)"
| "noted (NewMonitor opts) i st \<longleftrightarrow> pt_MonitorID st = i \<and> probeTags (pt_Identity st) roleMonitor = Inr (moc_Tags opts)"
| "noted (NewPolicy opts) i st \<longleftrightarrow> pt_L7PolicyID st = i \<and> probeTags (pt_Identity st) roleL7Policy = Inr (plc_Tags opts)"
| "noted (NewRule policyID opts) i st \<longleftrightarrow> pt_L7RuleID st = i \<and> pt_L7PolicyID st = policyID \<and> probeTags (pt_Identity st) roleL7Rule = Inr (ruc_Tags opts)"

definition created :: "probeEvent list \<Rightarrow> (createRequest \<times> string) set" where
  "created log = {(req, rv_ID view) | req view. Requested (CreateResource req) (Inr view) \<in> set log}"

definition savedAtOnce :: "probeEvent list \<Rightarrow> bool" where
  "savedAtOnce log \<longleftrightarrow> (\<forall>prior req view later. log = prior @ Requested (CreateResource req) (Inr view) # later \<longrightarrow>
     (\<exists>st ok rest. later = SavedState st ok # rest \<and> noted req (rv_ID view) st))"

definition exercised :: "resourceKind set \<Rightarrow> 'w probeRun \<Rightarrow> bool" where
  "exercised K s \<longleftrightarrow> savedAtOnce (pn_log s) \<and> (\<forall>(req, i) \<in> created (pn_log s). noted req i (pn_state s) \<and> kindOf req \<in> K)"

lemma created_append: "created (log @ es) = created log \<union> created es"
  by (auto simp: created_def)

lemma savedAtOnce_other:
  assumes "savedAtOnce log" "created es = {}"
  shows "savedAtOnce (log @ es)"
  unfolding savedAtOnce_def
proof (intro allI impI)
  fix prior req view later
  assume split: "log @ es = prior @ Requested (CreateResource req) (Inr view) # later"
  have "Requested (CreateResource req) (Inr view) \<notin> set es" using assms(2) by (auto simp: created_def)
  then obtain us where us: "log = prior @ Requested (CreateResource req) (Inr view) # us" "later = us @ es"
    using split by (auto simp: append_eq_append_conv2 append_eq_Cons_conv)
  with assms(1) show "\<exists>st ok rest. later = SavedState st ok # rest \<and> noted req (rv_ID view) st" unfolding savedAtOnce_def by force
qed

lemma savedAtOnce_create:
  assumes "savedAtOnce log" "noted req (rv_ID view) st"
  shows "savedAtOnce (log @ [Requested (CreateResource req) (Inr view), SavedState st ok])"
  unfolding savedAtOnce_def
proof (intro allI impI)
  fix prior req' view' later
  assume split: "log @ [Requested (CreateResource req) (Inr view), SavedState st ok] = prior @ Requested (CreateResource req') (Inr view') # later"
  then consider us where "log = prior @ Requested (CreateResource req') (Inr view') # us" "later = us @ [Requested (CreateResource req) (Inr view), SavedState st ok]"
    | "req' = req" "view' = view" "later = [SavedState st ok]"
    by (auto simp: append_eq_append_conv2 append_eq_Cons_conv Cons_eq_append_conv)
  then show "\<exists>st ok rest. later = SavedState st ok # rest \<and> noted req' (rv_ID view') st"
  proof cases
    case 1
    with assms(1) show ?thesis unfolding savedAtOnce_def by force
  qed (use assms(2) in simp)
qed

lemma exercised_mono: "exercised K s \<Longrightarrow> K \<subseteq> L \<Longrightarrow> exercised L s"
  by (auto simp: exercised_def)

lemma exercised_other:
  assumes "exercised K s" "pn_log s' = pn_log s @ es" "created es = {}" "pn_state s' = pn_state s"
  shows "exercised K s'"
  using assms savedAtOnce_other [of "pn_log s" es] by (auto simp: exercised_def created_append)

section \<open>Steps\<close>

lemma total_state: "(\<And>st. total (\<lambda>s. P s \<and> pn_state s = st) (f st) Q E) \<Longrightarrow> total P (bindP stateP f) Q E"
  by (auto simp: total_def bindP_def stateP_def)

lemma total_tags:
  assumes "\<And>tags st. probeTags (pt_Identity st) role = Inr tags \<Longrightarrow> total (\<lambda>s. P s \<and> pn_state s = st) (f tags) Q E" "\<And>s. P s \<Longrightarrow> E s"
  shows "total P (bindP (tagsFor role) f) Q E"
  unfolding total_def
proof (intro allI impI)
  fix s assume s: "P s"
  show "\<exists>r s'. bindP (tagsFor role) f s = Some (r, s') \<and> (case r of Inl _ \<Rightarrow> E s' | Inr x \<Rightarrow> Q x s')"
  proof (cases "probeTags (pt_Identity (pn_state s)) role")
    case (Inl e)
    then show ?thesis using assms(2) [OF s] by (simp add: tagsFor_def bindP_def stateP_def throwP_def)
  next
    case (Inr tags)
    then show ?thesis using assms(1) [OF Inr] s by (simp add: tagsFor_def bindP_def stateP_def returnP_def total_def)
  qed
qed

definition creating :: "probeRequest \<Rightarrow> bool" where
  "creating req = (case req of CreateResource _ \<Rightarrow> True | _ \<Rightarrow> False)"

lemma call_exercised:
  fixes env :: "'w probeEnv"
  assumes "\<not> creating req"
  shows "total (exercised K) (callP env req) (\<lambda>_. exercised K) (exercised UNIV)"
  unfolding total_def
proof (intro allI impI)
  fix s :: "'w probeRun" assume s: "exercised K s"
  obtain answer s' where c: "callAt env None req s = (answer, s')" by fastforce
  then have "pn_log s' = pn_log s @ [Requested req answer]" "pn_state s' = pn_state s" by (auto simp: callAt_def split: prod.splits)
  moreover have "created [Requested req answer] = {}" using assms by (auto simp: created_def creating_def)
  ultimately have "exercised K s'" using exercised_other [OF s] by blast
  with c show "\<exists>r s'. callP env req s = Some (r, s') \<and> (case r of Inl _ \<Rightarrow> exercised UNIV s' | Inr _ \<Rightarrow> exercised K s')"
    by (cases answer) (auto simp: callP_def askP_def bindP_def throwP_def returnP_def intro: exercised_mono)
qed

lemma created_polls: "pollingLog lb es \<Longrightarrow> created es = {}"
  by (auto simp: created_def pollingLog_def list_all_iff)

definition patient :: "probeConfig \<Rightarrow> bool" where
  "patient cfg \<longleftrightarrow> 0 < pg_PollInterval cfg \<and> 0 \<le> pg_OperationTimeout cfg"

lemma waitActive_exercised:
  fixes env :: "'w probeEnv"
  assumes "timedEnv env" "patient cfg"
  shows "total (exercised K) (waitActive env cfg) (\<lambda>_. exercised K) (exercised UNIV)"
  unfolding total_def
proof (intro allI impI)
  fix s :: "'w probeRun" assume s: "exercised K s"
  obtain r s' es where run: "WaitLoadBalancerActive env (pt_LoadBalancerID (pn_state s)) (pg_OperationTimeout cfg) (pg_PollInterval cfg) s = Some (r, s')"
    "pn_log s' = pn_log s @ es" "pollingLog (pt_LoadBalancerID (pn_state s)) es" "pn_state s' = pn_state s"
    using assms by (metis active.ends_log [OF waitActive_ends] patient_def)
  have "exercised K s'" by (rule exercised_other [OF s run(2) created_polls [OF run(3)] run(4)])
  with run(1) show "\<exists>r s'. waitActive env cfg s = Some (r, s') \<and> (case r of Inl _ \<Rightarrow> exercised UNIV s' | Inr _ \<Rightarrow> exercised K s')"
    by (cases r) (auto simp: waitActive_def bindP_def stateP_def returnP_def intro: exercised_mono)
qed

lemma update_exercised:
  assumes "timedEnv env" "patient cfg"
  shows "total (exercised K) (updateResource env cfg kind path update) (\<lambda>_. exercised K) (exercised UNIV)"
  unfolding updateResource_def by (rule total_bind [OF call_exercised waitActive_exercised [OF assms]]) (simp add: creating_def)

lemma createRecorded_exercised:
  fixes env :: "'w probeEnv"
  assumes "\<And>view. noted req (rv_ID view) (note view st)"
    and "\<And>view req' i. kindOf req' \<in> K \<Longrightarrow> noted req' i st \<Longrightarrow> noted req' i (note view st)"
  shows "total (\<lambda>s. exercised K s \<and> pn_state s = st) (createRecorded env req note) (\<lambda>_. exercised (insert (kindOf req) K)) (exercised UNIV)"
  unfolding total_def
proof (intro allI impI)
  fix s :: "'w probeRun" assume s: "exercised K s \<and> pn_state s = st"
  obtain answer w where c: "pe_call env None (CreateResource req) (pn_world s) = (answer, w)" by fastforce
  show "\<exists>r s'. createRecorded env req note s = Some (r, s') \<and> (case r of Inl _ \<Rightarrow> exercised UNIV s' | Inr _ \<Rightarrow> exercised (insert (kindOf req) K) s')"
  proof (cases answer)
    case (Inl e)
    have "exercised UNIV (s\<lparr>pn_world := w, pn_log := pn_log s @ [Requested (CreateResource req) (Inl e)]\<rparr>)"
      by (rule exercised_other [of _ s _ "[Requested (CreateResource req) (Inl e)]"]) (use s in \<open>auto simp: created_def intro: exercised_mono\<close>)
    with c Inl show ?thesis by (simp add: createRecorded_def callP_def askP_def callAt_def bindP_def throwP_def)
  next
    case (Inr view)
    obtain ok w' where saved: "pe_save env (note view st) w = (ok, w')" by fastforce
    let ?log = "pn_log s @ [Requested (CreateResource req) (Inr view), SavedState (note view st) ok]"
    let ?s = "s\<lparr>pn_world := w', pn_log := ?log, pn_state := note view st\<rparr>"
    have "created ?log = insert (req, rv_ID view) (created (pn_log s))" by (auto simp: created_def)
    then have all: "exercised (insert (kindOf req) K) ?s"
      using s assms savedAtOnce_create [of "pn_log s" req view "note view st" ok] by (auto simp: exercised_def)
    have "createRecorded env req note s = Some (if ok then Inr view else Inl StateFileError, ?s)"
      using c Inr saved s by (simp add: createRecorded_def callP_def askP_def callAt_def bindP_def returnP_def changeState_def saveState_def)
    with all exercised_mono [OF all] show ?thesis by (cases ok) auto
  qed
qed

text \<open>Creating, waiting and updating.\<close>

lemma create_step:
  assumes "timedEnv env" "patient cfg" "\<And>view. noted req (rv_ID view) (note view st)"
    and "\<And>view req' i. kindOf req' \<in> K \<Longrightarrow> noted req' i st \<Longrightarrow> noted req' i (note view st)"
  shows "total (\<lambda>s. exercised K s \<and> pn_state s = st)
    (bindP (createRecorded env req note) (\<lambda>view. bindP (waitActive env cfg) (\<lambda>_. updateResource env cfg kind (path view) (update view))))
    (\<lambda>_. exercised (insert (kindOf req) K)) (exercised UNIV)"
  proof (rule total_bind)
  show "total (\<lambda>s. exercised K s \<and> pn_state s = st) (createRecorded env req note) (\<lambda>_. exercised (insert (kindOf req) K)) (exercised UNIV)"
    by (rule createRecorded_exercised) (use assms(3,4) in blast)+
  show "total (exercised (insert (kindOf req) K)) (bindP (waitActive env cfg) (\<lambda>_. updateResource env cfg kind (path view) (update view)))
      (\<lambda>_. exercised (insert (kindOf req) K)) (exercised UNIV)" for view
    by (rule total_bind [OF waitActive_exercised [OF assms(1,2)] update_exercised [OF assms(1,2)]])
qed

section \<open>The run\<close>

lemma kept_other:
  assumes "kindOf req \<in> K" "noted req i st"
  shows "LoadBalancerKind \<notin> K \<Longrightarrow> FloatingIPKind \<notin> K \<Longrightarrow> noted req i (st\<lparr>pt_LoadBalancerID := a, pt_VIPPortID := b\<rparr>)"
    "FloatingIPKind \<notin> K \<Longrightarrow> noted req i (st\<lparr>pt_FloatingIPID := a\<rparr>)"
    "ListenerKind \<notin> K \<Longrightarrow> noted req i (st\<lparr>pt_ListenerID := a\<rparr>)"
    "PoolKind \<notin> K \<Longrightarrow> MemberKind \<notin> K \<Longrightarrow> noted req i (st\<lparr>pt_PoolID := a\<rparr>)"
    "noted req i (st\<lparr>pt_MemberIDs := pt_MemberIDs st @ [a]\<rparr>)"
    "MonitorKind \<notin> K \<Longrightarrow> noted req i (st\<lparr>pt_MonitorID := a\<rparr>)"
    "PolicyKind \<notin> K \<Longrightarrow> RuleKind \<notin> K \<Longrightarrow> noted req i (st\<lparr>pt_L7PolicyID := a\<rparr>)"
    "RuleKind \<notin> K \<Longrightarrow> noted req i (st\<lparr>pt_L7RuleID := a\<rparr>)"
  using assms by (cases req; auto simp: phaseText_def)+

lemma exercised_any: "exercised K s \<Longrightarrow> exercised UNIV s"
  by (rule exercised_mono) auto

lemma exercise_step:
  assumes env: "timedEnv env" "patient cfg"
    and records: "\<And>tags st view. probeTags (pt_Identity st) role = Inr tags \<Longrightarrow> noted (req tags st) (rv_ID view) (note view st)"
    and keeps: "\<And>st view req' i. kindOf req' \<in> K \<Longrightarrow> noted req' i st \<Longrightarrow> noted req' i (note view st)" and kind: "\<And>tags st. kindOf (req tags st) = kind"
  shows "total (exercised K) (bindP (tagsFor role) (\<lambda>tags. bindP stateP (\<lambda>st. bindP (createRecorded env (req tags st) note) (\<lambda>view.
      bindP (waitActive env cfg) (\<lambda>_. updateResource env cfg kind' (path st view) (update tags st))))))
    (\<lambda>_. exercised (insert kind K)) (exercised UNIV)"
proof (rule total_tags)
  fix tags and st :: probeState
  assume tags: "probeTags (pt_Identity st) role = Inr tags"
  have step: "total (\<lambda>s. exercised K s \<and> pn_state s = st) (bindP (createRecorded env (req tags st) note) (\<lambda>view.
      bindP (waitActive env cfg) (\<lambda>_. updateResource env cfg kind' (path st view) (update tags st)))) (\<lambda>_. exercised (insert (kindOf (req tags st)) K)) (exercised UNIV)"
    by (rule create_step [OF env]) (use records [OF tags] keeps in blast)+
  show "total (\<lambda>s. exercised K s \<and> pn_state s = st) (bindP stateP (\<lambda>st. bindP (createRecorded env (req tags st) note) (\<lambda>view.
      bindP (waitActive env cfg) (\<lambda>_. updateResource env cfg kind' (path st view) (update tags st)))))
    (\<lambda>_. exercised (insert kind K)) (exercised UNIV)"
    using step kind by (auto simp: total_def bindP_def stateP_def)
qed (rule exercised_any)

lemma creates_resources:
  assumes "timedEnv env" "patient cfg"
  shows "LoadBalancerKind \<notin> K \<Longrightarrow> FloatingIPKind \<notin> K \<Longrightarrow>
      total (exercised K) (createLoadBalancer ToLower env cfg) (\<lambda>_. exercised (insert LoadBalancerKind K)) (exercised UNIV)"
    "ListenerKind \<notin> K \<Longrightarrow> total (exercised K) (createAndUpdateListener ToLower env cfg) (\<lambda>_. exercised (insert ListenerKind K)) (exercised UNIV)"
    "PoolKind \<notin> K \<Longrightarrow> MemberKind \<notin> K \<Longrightarrow>
      total (exercised K) (createAndUpdatePool ToLower env cfg) (\<lambda>_. exercised (insert PoolKind K)) (exercised UNIV)"
    "total (exercised K) (createAndUpdateMember ToLower env cfg index address) (\<lambda>_. exercised (insert MemberKind K)) (exercised UNIV)"
    "MonitorKind \<notin> K \<Longrightarrow> total (exercised K) (createAndUpdateMonitor ToLower env cfg) (\<lambda>_. exercised (insert MonitorKind K)) (exercised UNIV)"
    "PolicyKind \<notin> K \<Longrightarrow> RuleKind \<notin> K \<Longrightarrow>
      total (exercised K) (createAndUpdateL7Policy ToLower env cfg) (\<lambda>_. exercised (insert PolicyKind K)) (exercised UNIV)"
    "RuleKind \<notin> K \<Longrightarrow> total (exercised K) (createAndUpdateL7Rule env cfg) (\<lambda>_. exercised (insert RuleKind K)) (exercised UNIV)"
  unfolding createLoadBalancer_def createAndUpdateListener_def createAndUpdatePool_def createAndUpdateMember_def createAndUpdateMonitor_def
    createAndUpdateL7Policy_def createAndUpdateL7Rule_def
  by (rule exercise_step [OF assms]; auto intro: kept_other)+

lemma creates_members:
  assumes "timedEnv env" "patient cfg" "MemberKind \<in> K"
  shows "total (exercised K) (createAndUpdateMembersFrom ToLower env cfg index addresses) (\<lambda>_. exercised K) (exercised UNIV)"
proof (induction addresses arbitrary: index)
  case Nil
  then show ?case by (auto intro: total_return)
next
  case (Cons address addresses)
  have "total (exercised K) (createAndUpdateMember ToLower env cfg index address) (\<lambda>_. exercised K) (exercised UNIV)"
    using creates_resources(4) [OF assms(1,2), where K = K] assms(3) by (simp add: insert_absorb)
  then show ?case using Cons.IH by (auto intro: total_bind)
qed

lemma creates_floatingIP:
  assumes "FloatingIPKind \<notin> K"
  shows "total (exercised K) (createAndUpdateFloatingIP env cfg) (\<lambda>_. exercised (insert FloatingIPKind K)) (exercised UNIV)"
  unfolding createAndUpdateFloatingIP_def
proof (rule total_state, rule total_bind)
  fix st
  let ?req = "NewFloatingIP \<lparr>fic_Description = phaseText st roleFloatingIP ''created'', fic_FloatingNetworkID = pg_ExternalNetworkID cfg, fic_PortID = pt_VIPPortID st\<rparr>"
  have "total (\<lambda>s. exercised K s \<and> pn_state s = st) (createRecorded env ?req (\<lambda>view st. st\<lparr>pt_FloatingIPID := rv_ID view\<rparr>))
      (\<lambda>_. exercised (insert (kindOf ?req) K)) (exercised UNIV)"
    by (rule createRecorded_exercised) (use assms in \<open>auto intro: kept_other simp: phaseText_def\<close>)
  then show "total (\<lambda>s. exercised K s \<and> pn_state s = st) (createRecorded env ?req (\<lambda>view st. st\<lparr>pt_FloatingIPID := rv_ID view\<rparr>))
      (\<lambda>_. exercised (insert FloatingIPKind K)) (exercised UNIV)" by simp
  show "total (exercised (insert FloatingIPKind K)) (bindP (callP env (UpdateResource FloatingIPKind [rv_ID view]
       \<lparr>up_Name = None, up_Description = Some (phaseText st roleFloatingIP ''verified''), up_Tags = None, up_Match = None\<rparr>)) (\<lambda>_. returnP ()))
      (\<lambda>_. exercised (insert FloatingIPKind K)) (exercised UNIV)" for view
    by (rule total_bind [OF call_exercised]) (auto intro: total_return simp: creating_def)
qed

lemma creates_all:
  assumes "timedEnv env" "patient cfg"
  shows "total (exercised {}) (createAndExerciseResources ToLower env cfg) (\<lambda>_. exercised UNIV) (exercised UNIV)"
proof -
  let ?K = "{FloatingIPKind, LoadBalancerKind}" and ?M = "{MemberKind, PoolKind, ListenerKind, FloatingIPKind, LoadBalancerKind}"
  have "total (exercised {LoadBalancerKind}) (if pg_ExternalNetworkID cfg \<noteq> [] then createAndUpdateFloatingIP env cfg else returnP ()) (\<lambda>_. exercised ?K) (exercised UNIV)"
    using creates_floatingIP [of "{LoadBalancerKind}" env cfg] by (auto intro: total_return exercised_mono)
  moreover have "total (exercised {PoolKind, ListenerKind, FloatingIPKind, LoadBalancerKind}) (createAndUpdateMembers ToLower env cfg) (\<lambda>_. exercised ?M) (exercised UNIV)"
    unfolding createAndUpdateMembers_def by (rule total_weaken [OF creates_members [OF assms, of ?M]]) (auto intro: exercised_mono)
  moreover note creates_resources(1) [OF assms, of "{}" ToLower] creates_resources(2) [OF assms, of ?K ToLower] creates_resources(3) [OF assms, of "insert ListenerKind ?K" ToLower]
    creates_resources(5) [OF assms, of ?M ToLower] creates_resources(6) [OF assms, of "insert MonitorKind ?M" ToLower]
    creates_resources(7) [OF assms, of "insert PolicyKind (insert MonitorKind ?M)"]
  ultimately show ?thesis unfolding createAndExerciseResources_def
    by (auto intro!: total_bind intro: total_weaken exercised_any)
qed

lemma total_guard: "(\<And>s. P s \<Longrightarrow> Q () s) \<Longrightarrow> (\<And>s. P s \<Longrightarrow> E s) \<Longrightarrow> total P (guardP ok e) Q E"
  by (cases ok) (auto simp: total_def guardP_def returnP_def throwP_def)

lemma total_anyState: "(\<And>st. total P (f st) Q E) \<Longrightarrow> total P (bindP stateP f) Q E"
  by (auto simp: total_def bindP_def stateP_def)

lemma inspects_resource: "total (exercised UNIV) (inspectResource env kind path role) (\<lambda>_. exercised UNIV) (exercised UNIV)"
  unfolding inspectResource_def
  by (rule total_anyState, rule total_bind [OF call_exercised]) (auto intro: total_guard simp: creating_def)

lemma inspects_members: "total (exercised UNIV) (inspectMembers env poolID memberIDs) (\<lambda>_. exercised UNIV) (exercised UNIV)"
  by (induction memberIDs) (auto intro: total_return total_bind inspects_resource)

lemma inspects_floatingIP: "total (exercised UNIV) (inspectFloatingIP env) (\<lambda>_. exercised UNIV) (exercised UNIV)"
proof -
  have "total (exercised UNIV) (bindP (callP env (GetResource FloatingIPKind path)) (\<lambda>view. guardP (ok view) e)) (\<lambda>_. exercised UNIV) (exercised UNIV)" for path ok e
    by (rule total_bind [OF call_exercised]) (auto intro: total_guard simp: creating_def)
  then show ?thesis unfolding inspectFloatingIP_def by (auto intro!: total_anyState total_return)
qed

lemma inspects_all: "total (exercised UNIV) (inspectResources env) (\<lambda>_. exercised UNIV) (exercised UNIV)"
  unfolding inspectResources_def
  by (rule total_anyState) (intro total_bind [OF inspects_resource] total_bind [OF inspects_members] inspects_floatingIP)

lemma outside_exercised: "total (exercised K) (outside f) (\<lambda>_. exercised K) (exercised UNIV)"
  by (auto simp: total_def outside_def exercised_def split: prod.splits)

lemma succeeding_exercised: "total (exercised K) (succeeding f) (\<lambda>_. exercised K) (exercised UNIV)"
  unfolding succeeding_def by (rule total_bind [OF outside_exercised]) (auto intro: total_guard exercised_any)

lemma body_exercised:
  assumes "timedEnv env" "patient cfg"
  shows "total (exercised {}) (runBody ToLower env services cfg) (\<lambda>_. exercised UNIV) (exercised UNIV)"
proof -
  have rest: "total (exercised {}) (bindP (succeeding (sv_claim services state)) (\<lambda>_. bindP (outside (sv_providers services)) (\<lambda>_.
     bindP (createAndExerciseResources ToLower env cfg) (\<lambda>_. bindP (inspectResources env) (\<lambda>_.
     if pg_SkipTrafficCheck cfg then returnP () else succeeding (sv_traffic services)))))) (\<lambda>_. exercised UNIV) (exercised UNIV)" for state
    by (intro total_bind [OF succeeding_exercised] total_bind [OF outside_exercised] total_bind [OF creates_all [OF assms]] total_bind [OF inspects_all])
      (auto intro: total_return succeeding_exercised)
  show ?thesis unfolding runBody_def
    by (rule total_bind [OF succeeding_exercised], rule total_anyState, rule rest)
qed

lemma lawful_creates_nothing:
  assumes "cleanupLawful env state log"
  shows "created log = {}"
proof (rule ccontr)
  assume "created log \<noteq> {}"
  then obtain req view where "Requested (CreateResource req) (Inr view) \<in> set log" by (auto simp: created_def)
  then obtain prior later where "log = prior @ Requested (CreateResource req) (Inr view) # later" by (auto dest: split_list)
  then have "cleanupJustified env state prior (Requested (CreateResource req) (Inr view))" using assms unfolding cleanupLawful_def by blast
  then show False by simp
qed

lemma finished_gone:
  assumes "cleanupFinished n env state s"
  shows "everythingGone env state (pn_log s)"
proof -
  obtain removal where "RemovedState removal \<in> set (since n s)" using assms unfolding cleanupFinished_def by blast
  then obtain prior later where split: "since n s = prior @ RemovedState removal # later" by (auto dest: split_list)
  then have "cleanupJustified env state prior (RemovedState removal)" using assms unfolding cleanupFinished_def cleanupLawful_def by blast
  moreover have "pn_log s = (take n (pn_log s) @ prior) @ RemovedState removal # later" using split by (simp add: since_def) (metis append_take_drop_id)
  moreover have "goneIn env prior t \<Longrightarrow> goneIn env ((take n (pn_log s) @ prior) @ RemovedState removal # later) t" for t by (auto simp: goneIn_def)
  ultimately show ?thesis by (auto simp: everythingGone_def)
qed

text \<open>The cleanup after a run, whose log it extends.\<close>

definition cleaned :: "'w probeEnv \<Rightarrow> probeState \<Rightarrow> bool \<Rightarrow> 'w probeRun \<Rightarrow> bool" where
  "cleaned env state ok s \<longleftrightarrow> savedAtOnce (pn_log s) \<and> (\<forall>(req, i) \<in> created (pn_log s). noted req i state) \<and> (ok \<longrightarrow> everythingGone env state (pn_log s))"

definition extending :: "('w, 'a) pc \<Rightarrow> bool" where
  "extending m \<longleftrightarrow> (\<forall>s r s'. m s = Some (r, s') \<longrightarrow> (\<exists>es. pn_log s' = pn_log s @ es))"

named_theorems extends

lemma extending_basic [extends]: "extending (returnP x)" "extending (throwP e)" "extending (guardP ok e)" "extending (askP env req)" "extending (removeStateFile env)"
  by (auto simp: extending_def returnP_def throwP_def guardP_def askP_def callAt_def removeStateFile_def split: prod.splits)

lemma extending_bind [extends]:
  assumes "extending m" "\<And>x. extending (f x)"
  shows "extending (bindP m f)"
  unfolding extending_def
proof (intro allI impI)
  fix s r s' assume run: "bindP m f s = Some (r, s')"
  then obtain q s1 where q: "m s = Some (q, s1)" by (cases "m s") (auto simp: bindP_def)
  then obtain es where es: "pn_log s1 = pn_log s @ es" using assms(1) unfolding extending_def by blast
  show "\<exists>es. pn_log s' = pn_log s @ es"
  proof (cases q)
    case (Inl e)
    then show ?thesis using run q es by (auto simp: bindP_def)
  next
    case (Inr x)
    then have "f x s1 = Some (r, s')" using run q by (simp add: bindP_def)
    then show ?thesis using assms(2) es unfolding extending_def by fastforce
  qed
qed

lemma extending_cases [extends]:
  "extending m \<Longrightarrow> extending m' \<Longrightarrow> extending (if b then m else m')"
  "(\<And>e. extending (f e)) \<Longrightarrow> (\<And>x. extending (g x)) \<Longrightarrow> extending (case v of Inl e \<Rightarrow> f e | Inr x \<Rightarrow> g x)"
  by (simp_all split: sum.splits)

lemma extending_call [extends]: "extending (callP env req)"
  unfolding callP_def by (intro extends)

lemma extending_waits:
  assumes "timedEnv env" "0 < interval" "0 \<le> timeout"
  shows "extending (WaitLoadBalancerActive env lb timeout interval)" "extending (WaitLoadBalancerDeleted env lb timeout interval)"
  unfolding extending_def
  by (metis active.ends_log [OF waitActive_ends [OF assms]] option.inject prod.inject, metis deleted.ends_log [OF waitDeleted_ends [OF assms]] option.inject prod.inject)

lemma extending_cleanup:
  assumes "timedEnv env" "0 < interval" "0 \<le> timeout"
  shows "extending (cleanupWithClients env state timeout interval)"
proof -
  note waits = extending_waits [OF assms]
  have child: "extending (deleteChild env state kind path role timeout interval)" for kind path role
    unfolding deleteChild_def waitAfterChildDelete_def by (intro extends waits)
  then have "extending (deleteMembersFrom env state timeout interval memberIDs)" for memberIDs
    by (induction memberIDs) (auto intro: extends)
  then show ?thesis
    unfolding cleanupWithClients_def inspectLoadBalancer_def cleanupFloatingIP_def cleanupLoadBalancer_def deleteL7Rule_def deleteL7Policy_def deleteMonitor_def
      deleteMembers_def deletePool_def deleteListener_def
    by (intro extends child waits)
qed

lemma cleanup_after_run:
  fixes env :: "'w probeEnv"
  assumes "timedEnv env" "patient cfg"
  shows "total (\<lambda>s. exercised UNIV s \<and> pn_state s = state) (tryP (cleanupWithClients env state (pg_OperationTimeout cfg) (pg_PollInterval cfg)))
    (\<lambda>r. cleaned env state (isOk r)) E"
  unfolding total_def
proof (intro allI impI)
  fix s :: "'w probeRun" assume s: "exercised UNIV s \<and> pn_state s = state"
  have p: "0 < pg_PollInterval cfg" "0 \<le> pg_OperationTimeout cfg" using assms(2) by (simp_all add: patient_def)
  obtain r s' where run: "cleanupWithClients env state (pg_OperationTimeout cfg) (pg_PollInterval cfg) s = Some (r, s')"
    "case r of Inl _ \<Rightarrow> lawfulRun (length (pn_log s)) env state s' | Inr _ \<Rightarrow> cleanupFinished (length (pn_log s)) env state s'"
    using cleanup_total [OF assms(1) p, of "length (pn_log s)" state] unfolding total_def by blast
  obtain es where es: "pn_log s' = pn_log s @ es" using extending_cleanup [OF assms(1) p] run(1) unfolding extending_def by blast
  have "lawfulRun (length (pn_log s)) env state s'" using run(2) by (auto simp: cleanupFinished_def split: sum.splits)
  then have "created es = {}" using lawful_creates_nothing es by (simp add: since_def)
  then have "savedAtOnce (pn_log s') \<and> (\<forall>(req, i) \<in> created (pn_log s'). noted req i state)"
    using s es savedAtOnce_other [of "pn_log s" es] by (auto simp: exercised_def created_append)
  moreover have "isOk r \<longrightarrow> everythingGone env state (pn_log s')" using run(2) finished_gone by (cases r) auto
  ultimately have "cleaned env state (isOk r) s'" by (simp add: cleaned_def)
  with run(1) show "\<exists>q s'. tryP (cleanupWithClients env state (pg_OperationTimeout cfg) (pg_PollInterval cfg)) s = Some (q, s') \<and>
      (case q of Inl _ \<Rightarrow> E s' | Inr r \<Rightarrow> cleaned env state (isOk r) s')"
    by (simp add: tryP_def)
qed

lemma validated_patient: "validateProbeConfig Clean cfg = Inr () \<Longrightarrow> patient cfg"
  by (auto simp: validateProbeConfig_def patient_def go_simps)

lemma total_run:
  assumes "total P m Q (\<lambda>_. False)" "P s"
  shows "\<exists>x s'. m s = Some (Inr x, s') \<and> Q x s'"
proof -
  obtain r s' where "m s = Some (r, s')" "case r of Inl _ \<Rightarrow> False | Inr x \<Rightarrow> Q x s'" using assms unfolding total_def by blast
  then show ?thesis by (cases r) auto
qed

lemma try_body:
  assumes "total P m (\<lambda>_. R) R"
  shows "total P (tryP m) (\<lambda>_. R) E"
  unfolding total_def
proof (intro allI impI)
  fix s assume "P s"
  then obtain r s' where "m s = Some (r, s')" "R s'" using assms unfolding total_def by (auto split: sum.splits)
  then show "\<exists>r s'. tryP m s = Some (r, s') \<and> (case r of Inl _ \<Rightarrow> E s' | Inr _ \<Rightarrow> R s')" by (simp add: tryP_def)
qed


text \<open>A configuration, and a service that refuses every request.\<close>

definition sampleProbeConfig :: probeConfig where
  "sampleProbeConfig = \<lparr>pg_Region = [], pg_VIPSubnetID = ''subnet'', pg_ExternalNetworkID = [], pg_Provider = ''amphora'', pg_OctaviaMicroversion = ''2.5'',
     pg_MemberAddresses = [''a''], pg_MemberPort = 30080, pg_MemberSubnetID = [], pg_ListenerPort = 80, pg_HealthPath = ''/'', pg_MatchPath = ''/'', pg_RequestPath = ''/'',
     pg_ClusterID = ''c'', pg_GatewayNamespace = ''n'', pg_GatewayName = ''g'', pg_GatewayUID = ''u'', pg_StateFile = ''s'', pg_ReportFile = ''r'',
     pg_OperationTimeout = 60, pg_PollInterval = 5, pg_TrafficTimeout = 30, pg_KeepResources = False, pg_SkipTrafficCheck = True\<rparr>"

definition sampleServices :: "int runServices" where
  "sampleServices = \<lparr>sv_authenticate = \<lambda>w. (True, w), sv_claim = \<lambda>_ w. (True, w), sv_providers = \<lambda>w. (True, w), sv_traffic = \<lambda>w. (True, w), sv_report = \<lambda>w. (True, w)\<rparr>"

lemma sampleProbeConfig_valid: "validateProbeConfig (\<lambda>path. path) sampleProbeConfig = Inr ()"
  by code_simp


end
