(* ===== verification/Clients.thy ===== *)
theory Clients
  imports Complex_Main Scanner Bindings Netip
begin

text \<open>
  The OpenStack service clients: cloud/openstack/clients/client.go. The configuration is checked, credentials are read from the environment or
  from clouds.yaml, and the two clients share one HTTP client that verifies certificates and limits the rate of requests. What gophercloud and
  the limiter do is a parameter. A float64 is a rational number or one of the three special values.
\<close>

section \<open>Numbers\<close>

datatype float64 = Finite rat | PosInf | NegInf | NaN

text \<open>The comparison with zero is false for NaN.\<close>

fun notPositive :: "float64 \<Rightarrow> bool" where
  "notPositive (Finite r) \<longleftrightarrow> r \<le> 0"
| "notPositive PosInf \<longleftrightarrow> False"
| "notPositive NegInf \<longleftrightarrow> True"
| "notPositive NaN \<longleftrightarrow> False"

definition IsNaN :: "float64 \<Rightarrow> bool" where
  "IsNaN x \<longleftrightarrow> x = NaN"

definition IsInf :: "float64 \<Rightarrow> bool" where
  "IsInf x \<longleftrightarrow> x = PosInf \<or> x = NegInf"

text \<open>strconv.Atoi: an optional sign and decimal digits, within the range of a 64-bit int.\<close>

fun decimalValue :: "nat \<Rightarrow> string \<Rightarrow> nat" where
  "decimalValue acc [] = acc"
| "decimalValue acc (ch # rest) = decimalValue (10 * acc + digitValue ch) rest"

definition signedDigits :: "string \<Rightarrow> bool \<times> string" where
  "signedDigits s = (case s of [] \<Rightarrow> (False, []) | ch # rest \<Rightarrow> if ch = CHR ''-'' then (True, rest) else if ch = CHR ''+'' then (False, rest) else (False, s))"

definition Atoi :: "string \<Rightarrow> int option" where
  "Atoi s = (case signedDigits s of (negative, digits) \<Rightarrow>
     if digits = [] \<or> \<not> list_all isDecimal digits then None
     else let n = int (decimalValue 0 digits); v = (if negative then - n else n) in
       if - (2 ^ 63) \<le> v \<and> v < 2 ^ 63 then Some v else None)"

section \<open>Configuration\<close>

record ClientConfig =
  cc_Region :: string
  cc_Microversion :: string
  cc_CloudsYAMLPath :: string
  cc_CloudName :: string
  cc_AllowInsecure :: bool
  cc_APIQPS :: float64
  cc_APIBurst :: int
  cc_RequestObserver :: bool

definition DefaultAPIQPS :: float64 where "DefaultAPIQPS = Finite 10"
definition DefaultAPIBurst :: int where "DefaultAPIBurst = 20"

definition ValidateMicroversion :: "string \<Rightarrow> unit result" where
  "ValidateMicroversion v = (case splitOn CHR ''.'' v of
      [a, b] \<Rightarrow> (case (Atoi a, Atoi b) of
          (Some major, Some minor) \<Rightarrow>
            if major < 0 \<or> minor < 0 then Inl Errorf
            else if major < 2 \<or> major = 2 \<and> minor < 5 then Inl Errorf
            else Inr ()
        | _ \<Rightarrow> Inl Errorf)
    | _ \<Rightarrow> Inl Errorf)"

definition ValidateClientConfig :: "ClientConfig \<Rightarrow> unit result" where
  "ValidateClientConfig cfg =
     bindE (ValidateMicroversion (cc_Microversion cfg)) (\<lambda>_.
     bindE (guardE (\<not> (notPositive (cc_APIQPS cfg) \<or> IsNaN (cc_APIQPS cfg) \<or> IsInf (cc_APIQPS cfg))) Errorf) (\<lambda>_.
     guardE (\<not> cc_APIBurst cfg \<le> 0) Errorf))"

section \<open>Authentication\<close>

text \<open>The fields of the options that the code reads or sets; \<open>'s\<close> is the scope, \<open>'r\<close> the rest, and \<open>'e\<close> below the endpoint options.\<close>

record ('s, 'r) AuthOptions =
  ao_IdentityEndpoint :: string
  ao_TenantID :: string
  ao_TokenID :: string
  ao_Scope :: "'s option"
  ao_AllowReauth :: bool
  ao_Rest :: 'r

record tlsConfig =
  tls_InsecureSkipVerify :: bool
  tls_MinVersion :: nat

definition VersionTLS12 :: nat where "VersionTLS12 = 771"

record httpClient =
  hc_TLSClientConfig :: "tlsConfig option"
  hc_qps :: float64
  hc_burst :: int

text \<open>What the authentication returned: the project of a token of version 3, created or validated, or the tenant of one of version 2.\<close>

datatype authResult = CreateResultV3 "string option result" | GetResultV3 "string option result" | CreateResultV2 "string result" | OtherResult

record ('s, 'r, 'e, 'p, 'c) clientLibrary =
  lib_AuthOptionsFromEnv :: "('s, 'r) AuthOptions result"
  lib_EndpointOpts :: "string \<Rightarrow> 'e"
  lib_Parse :: "string \<Rightarrow> string \<Rightarrow> string option \<Rightarrow> (('s, 'r) AuthOptions \<times> 'e \<times> tlsConfig option) result"
  lib_emptyScope :: 's
  lib_NewProviderClient :: "('s, 'r) AuthOptions \<Rightarrow> httpClient \<Rightarrow> 'p result"
  lib_GetAuthResult :: "'p \<Rightarrow> authResult"
  lib_NewLoadBalancerV2 :: "'p \<Rightarrow> 'e \<Rightarrow> 'c result"
  lib_NewNetworkV2 :: "'p \<Rightarrow> 'e \<Rightarrow> 'c result"

definition authenticationOptions :: "('s, 'r, 'e, 'p, 'c) clientLibrary \<Rightarrow> ClientConfig \<Rightarrow> (('s, 'r) AuthOptions \<times> 'e \<times> tlsConfig option) result" where
  "authenticationOptions lib cfg = (if cc_CloudsYAMLPath cfg = [] then
       bindE (mapErr Wrapf (lib_AuthOptionsFromEnv lib)) (\<lambda>authOptions.
       bindE (guardE (TrimSpace (ao_IdentityEndpoint authOptions) \<noteq> []) Errorf) (\<lambda>_.
       Inr (authOptions, lib_EndpointOpts lib (cc_Region cfg), None)))
     else
       bindE (guardE (TrimSpace (cc_CloudName cfg) \<noteq> []) Errorf) (\<lambda>_.
       mapErr Wrapf (lib_Parse lib (cc_CloudName cfg) (cc_CloudsYAMLPath cfg) (if cc_Region cfg \<noteq> [] then Some (cc_Region cfg) else None))))"

definition allowReauthentication :: "('s, 'r, 'e, 'p, 'c) clientLibrary \<Rightarrow> ('s, 'r) AuthOptions \<Rightarrow> bool" where
  "allowReauthentication lib authOptions = (if ao_TokenID authOptions = [] then True
     else case ao_Scope authOptions of None \<Rightarrow> False | Some scope \<Rightarrow> scope \<noteq> lib_emptyScope lib)"

definition scopedProject :: "('s, 'r) AuthOptions \<Rightarrow> string option \<Rightarrow> string result" where
  "scopedProject authOptions project = (case project of
      Some i \<Rightarrow> if i \<noteq> [] then Inr i else if ao_TenantID authOptions \<noteq> [] then Inr (ao_TenantID authOptions) else Inl Errorf
    | None \<Rightarrow> if ao_TenantID authOptions \<noteq> [] then Inr (ao_TenantID authOptions) else Inl Errorf)"

definition authenticatedProjectID :: "authResult \<Rightarrow> ('s, 'r) AuthOptions \<Rightarrow> string result" where
  "authenticatedProjectID answer authOptions = (case answer of
      CreateResultV3 r \<Rightarrow> bindE (mapErr Wrapf r) (scopedProject authOptions)
    | GetResultV3 r \<Rightarrow> bindE (mapErr Wrapf r) (scopedProject authOptions)
    | CreateResultV2 r \<Rightarrow> bindE (mapErr Wrapf r) (\<lambda>i. scopedProject authOptions (Some i))
    | OtherResult \<Rightarrow> scopedProject authOptions None)"

definition newRateLimitedHTTPClient :: "tlsConfig option \<Rightarrow> float64 \<Rightarrow> int \<Rightarrow> httpClient" where
  "newRateLimitedHTTPClient tls qps burst = \<lparr>hc_TLSClientConfig = tls, hc_qps = qps, hc_burst = burst\<rparr>"

definition insecureTLS :: "tlsConfig option \<Rightarrow> tlsConfig" where
  "insecureTLS tls = (case tls of None \<Rightarrow> \<lparr>tls_InsecureSkipVerify = True, tls_MinVersion = VersionTLS12\<rparr> | Some t \<Rightarrow> t\<lparr>tls_InsecureSkipVerify := True\<rparr>)"

definition skipsVerification :: "tlsConfig option \<Rightarrow> bool" where
  "skipsVerification tls = (case tls of None \<Rightarrow> False | Some t \<Rightarrow> tls_InsecureSkipVerify t)"

text \<open>The clients, whose microversion the code sets, and the project.\<close>

record 'c OpenStackClients =
  oc_LoadBalancer :: 'c
  oc_Microversion :: string
  oc_Network :: 'c
  oc_Observed :: bool
  oc_ProjectID :: string

definition NewServiceClients :: "('s, 'r, 'e, 'p, 'c) clientLibrary \<Rightarrow> ClientConfig \<Rightarrow> 'c OpenStackClients result" where
  "NewServiceClients lib cfg = mapErr Classify (
     bindE (mapErr (NewProviderError TerminalValidation) (ValidateClientConfig cfg)) (\<lambda>_.
     bindE (mapErr (NewProviderError TerminalValidation) (authenticationOptions lib cfg)) (\<lambda>(authOptions, endpointOptions, tls).
     bindE (guardE (\<not> (skipsVerification tls \<and> \<not> cc_AllowInsecure cfg)) (NewProviderError TerminalValidation Errorf)) (\<lambda>_.
     let tls = (if cc_AllowInsecure cfg then Some (insecureTLS tls) else tls);
         authOptions = authOptions\<lparr>ao_AllowReauth := allowReauthentication lib authOptions\<rparr>;
         httpClient = newRateLimitedHTTPClient tls (cc_APIQPS cfg) (cc_APIBurst cfg) in
     bindE (mapErr Wrapf (lib_NewProviderClient lib authOptions httpClient)) (\<lambda>provider.
     bindE (authenticatedProjectID (lib_GetAuthResult lib provider) authOptions) (\<lambda>projectID.
     bindE (mapErr Wrapf (lib_NewLoadBalancerV2 lib provider endpointOptions)) (\<lambda>loadBalancerClient.
     bindE (mapErr Wrapf (lib_NewNetworkV2 lib provider endpointOptions)) (\<lambda>networkClient.
     Inr \<lparr>oc_LoadBalancer = loadBalancerClient, oc_Microversion = cc_Microversion cfg, oc_Network = networkClient,
       oc_Observed = cc_RequestObserver cfg, oc_ProjectID = projectID\<rparr>))))))))"

text \<open>
  The outer transport: \<open>wait\<close> is the answer of the limiter, \<open>contextError\<close> and \<open>hasDeadline\<close> describe the context of the request, and the error it puts in place
  of the limiter's is wrapped.
\<close>

definition limitedRoundTrip :: "unit result \<Rightarrow> go_error option \<Rightarrow> bool \<Rightarrow> ('w, 'a) call \<Rightarrow> ('w, 'a) call" where
  "limitedRoundTrip wait contextError hasDeadline next w = (case wait of
      Inl e \<Rightarrow> (Inl (Wrapf (case contextError of Some e' \<Rightarrow> e' | None \<Rightarrow> if hasDeadline then DeadlineExceeded else e)), w)
    | Inr _ \<Rightarrow> next w)"

section \<open>Microversions\<close>

lemma splitOn_none: "sep \<notin> set a \<Longrightarrow> splitOn sep a = [a]"
  by (induction a) auto

lemma splitOn_first: "sep \<notin> set a \<Longrightarrow> splitOn sep (a @ sep # b) = a # splitOn sep b"
  by (induction a) auto

lemma decimalValue_append: "decimalValue acc (ds @ [d]) = 10 * decimalValue acc ds + digitValue d"
  by (induction ds arbitrary: acc) auto

lemma decimalValue_itoa: "decimalValue 0 (itoa n) = n"
proof (induction n rule: itoa.induct)
  case (1 n)
  have "digitValue (digit d) = d" if "d < 10" for d using that by (simp add: digitValue_def digit_eq_iff_code)
  then show ?case using 1 by (subst itoa.simps) (auto simp: decimalValue_append)
qed

lemma itoa_decimal: "list_all isDecimal (itoa n)"
  using itoa_digits by (auto simp: list_all_iff isDigit_def isDecimal_def)

lemma decimal_signs: "\<not> isDecimal CHR ''-''" "\<not> isDecimal CHR ''+''" "\<not> isDecimal CHR ''.''"
  by (simp_all add: isDecimal_def)

lemma signedDigits_itoa: "signedDigits (itoa n) = (False, itoa n)"
  using itoa_decimal [of n] decimal_signs by (cases "itoa n") (auto simp: signedDigits_def)

lemma Atoi_itoa: "n < 2 ^ 63 \<Longrightarrow> Atoi (itoa n) = Some (int n)"
  by (simp add: Atoi_def signedDigits_itoa decimalValue_itoa itoa_decimal)

lemma itoa_no_dot: "CHR ''.'' \<notin> set (itoa n)"
  using itoa_decimal [of n] decimal_signs by (auto simp: list_all_iff)

text \<open>
  The microversion of Octavia is compared number by number: a version printed from two numbers that fit an int is accepted exactly when it is 2.5 or later, so
  2.10 is, and 2.4 and 1.30 are not.
\<close>

theorem microversion_is_numeric:
  assumes "major < 2 ^ 63" "minor < 2 ^ 63"
  shows "isOk (ValidateMicroversion (itoa major @ ''.'' @ itoa minor)) \<longleftrightarrow> 2 < major \<or> major = 2 \<and> 5 \<le> minor"
  using assms by (auto simp: ValidateMicroversion_def splitOn_none splitOn_first itoa_no_dot Atoi_itoa isOk_def)

theorem microversion_is_numeric_witness: "isOk (ValidateMicroversion (itoa 2 @ ''.'' @ itoa 10))"
  using microversion_is_numeric [of 2 10] by simp

section \<open>Clients\<close>

lemma scopedProject_nonempty: "scopedProject authOptions project = Inr i \<Longrightarrow> i \<noteq> []"
  by (auto simp: scopedProject_def split: option.splits if_splits)

lemma authenticatedProjectID_nonempty: "authenticatedProjectID answer authOptions = Inr i \<Longrightarrow> i \<noteq> []"
  by (auto simp: authenticatedProjectID_def go_simps split: authResult.splits dest: scopedProject_nonempty)

text \<open>
  Service clients are only handed out for a configuration that passes the checks: they use a microversion with tags, and they belong to a project with a name.
  The HTTP client with which they authenticated limits the rate to a positive number, and skips the verification of certificates exactly when this is
  allowed explicitly, whatever clouds.yaml says.
\<close>

theorem service_clients_safe:
  assumes "NewServiceClients lib cfg = Inr clients"
  shows "isOk (ValidateMicroversion (oc_Microversion clients)) \<and> oc_ProjectID clients \<noteq> [] \<and>
    (\<exists>authOptions http provider qps. lib_NewProviderClient lib authOptions http = Inr provider \<and>
       hc_qps http = Finite qps \<and> 0 < qps \<and> 0 < hc_burst http \<and>
       (cc_AllowInsecure cfg \<longleftrightarrow> skipsVerification (hc_TLSClientConfig http)))"
proof -
  define reauth where "reauth a = a\<lparr>ao_AllowReauth := allowReauthentication lib a\<rparr>" for a
  define http where "http tls = newRateLimitedHTTPClient (if cc_AllowInsecure cfg then Some (insecureTLS tls) else tls) (cc_APIQPS cfg) (cc_APIBurst cfg)" for tls
  have "ValidateClientConfig cfg = Inr () \<and> (\<exists>a tls provider. (skipsVerification tls \<longrightarrow> cc_AllowInsecure cfg) \<and>
      lib_NewProviderClient lib (reauth a) (http tls) = Inr provider \<and>
      authenticatedProjectID (lib_GetAuthResult lib provider) (reauth a) = Inr (oc_ProjectID clients)) \<and> oc_Microversion clients = cc_Microversion cfg"
    using assms by (simp add: NewServiceClients_def go_simps Let_def split_paired_Ex flip: reauth_def http_def) force
  then obtain authOptions tls provider where parts: "ValidateClientConfig cfg = Inr ()" "skipsVerification tls \<longrightarrow> cc_AllowInsecure cfg"
    "lib_NewProviderClient lib (reauth authOptions) (http tls) = Inr provider"
    "authenticatedProjectID (lib_GetAuthResult lib provider) (reauth authOptions) = Inr (oc_ProjectID clients)" "oc_Microversion clients = cc_Microversion cfg"
    by blast
  from parts(1) have "isOk (ValidateMicroversion (cc_Microversion cfg))" "0 < cc_APIBurst cfg" and
    qps: "\<not> notPositive (cc_APIQPS cfg)" "\<not> IsNaN (cc_APIQPS cfg)" "\<not> IsInf (cc_APIQPS cfg)"
    by (auto simp: ValidateClientConfig_def go_simps isOk_def)
  moreover from qps obtain q where "cc_APIQPS cfg = Finite q" "0 < q" by (cases "cc_APIQPS cfg") (auto simp: IsNaN_def IsInf_def)
  moreover have "cc_AllowInsecure cfg \<longleftrightarrow> skipsVerification (hc_TLSClientConfig (http tls))" "hc_qps (http tls) = cc_APIQPS cfg" "hc_burst (http tls) = cc_APIBurst cfg"
    using parts(2) by (auto simp: http_def newRateLimitedHTTPClient_def insecureTLS_def skipsVerification_def split: option.splits)
  ultimately show ?thesis
    using parts(3,5) authenticatedProjectID_nonempty [OF parts(4)] by metis
qed

definition sampleLibrary :: "(unit, unit, unit, unit, unit) clientLibrary" where
  "sampleLibrary = \<lparr>lib_AuthOptionsFromEnv = Inr \<lparr>ao_IdentityEndpoint = ''https://keystone'', ao_TenantID = ''project-1'', ao_TokenID = [], ao_Scope = None, ao_AllowReauth = False, ao_Rest = ()\<rparr>,
     lib_EndpointOpts = \<lambda>_. (), lib_Parse = \<lambda>_ _ _. Inl Errorf, lib_emptyScope = (), lib_NewProviderClient = \<lambda>_ _. Inr (), lib_GetAuthResult = \<lambda>_. OtherResult,
     lib_NewLoadBalancerV2 = \<lambda>_ _. Inr (), lib_NewNetworkV2 = \<lambda>_ _. Inr ()\<rparr>"

definition sampleClientConfig :: ClientConfig where
  "sampleClientConfig = \<lparr>cc_Region = [], cc_Microversion = itoa 2 @ ''.'' @ itoa 5, cc_CloudsYAMLPath = [], cc_CloudName = [], cc_AllowInsecure = False, cc_APIQPS = DefaultAPIQPS,
     cc_APIBurst = DefaultAPIBurst, cc_RequestObserver = False\<rparr>"

lemma sample_clients: "\<exists>clients. NewServiceClients sampleLibrary sampleClientConfig = Inr clients"
proof -
  have "TrimSpace ''https://keystone'' \<noteq> []" by (rule TrimSpace_nonblank [of "hd s" s for s]; simp)
  moreover have "ValidateMicroversion (itoa 2 @ ''.'' @ itoa 5) = Inr ()"
    by (simp add: ValidateMicroversion_def splitOn_none splitOn_first itoa_no_dot Atoi_itoa)
  ultimately show ?thesis
    by (simp add: NewServiceClients_def sampleLibrary_def sampleClientConfig_def ValidateClientConfig_def authenticationOptions_def skipsVerification_def
        authenticatedProjectID_def scopedProject_def DefaultAPIQPS_def DefaultAPIBurst_def IsNaN_def IsInf_def go_simps Let_def)
qed

theorem service_clients_safe_witness:
  "\<exists>clients. NewServiceClients sampleLibrary sampleClientConfig = Inr clients \<and> isOk (ValidateMicroversion (oc_Microversion clients)) \<and> oc_ProjectID clients \<noteq> []"
  using sample_clients service_clients_safe [of sampleLibrary sampleClientConfig] by blast

end
