(* ===== verification/AuditCommand.thy ===== *)
theory AuditCommand
  imports InventorySound Bindings ProviderOutcomes Clients
begin

text \<open>
  The audit command: cmd/openstack-gateway-audit, options.go and command.go. It reads the bindings of the cluster and the resources of the project, and writes a report.
  The flag package, the loading of the Kubernetes configuration, the encoding of the report and the streams are parameters; the snapshot, the
  scan and the report are the ones of the other theories.
\<close>

section \<open>Options\<close>

record commandOptions =
  co_controllerName :: string
  co_clusterID :: string
  co_kubeconfig :: string
  co_kubeContext :: string
  co_openStack :: ClientConfig
  co_operationTimeout :: int
  co_failOnFindings :: bool

record commandError =
  ce_message :: string
  ce_cause :: "go_error option"

definition newCommandError :: "string \<Rightarrow> go_error \<Rightarrow> commandError" where
  "newCommandError text cause = \<lparr>ce_message = text, ce_cause = Some cause\<rparr>"

definition plainCommandError :: "string \<Rightarrow> commandError" where
  "plainCommandError text = \<lparr>ce_message = text, ce_cause = None\<rparr>"

definition newOpenStackCommandError :: "string \<Rightarrow> go_error \<Rightarrow> commandError" where
  "newOpenStackCommandError text cause = (case ErrorCategoryOf cause of
      Some category \<Rightarrow> newCommandError (text @ '' ('' @ categoryText category @ '')'') cause
    | None \<Rightarrow> newCommandError text cause)"

text \<open>
  What the flag package makes of the arguments: a request for help, an error, or the options with the defaults of the flags, the names of the
  flags that were set, and the number of positional arguments.
\<close>

datatype parsedFlags = HelpRequested | BadFlags go_error | ParsedFlags commandOptions "string list" nat

record optionLibrary =
  ol_Parse :: "string list \<Rightarrow> parsedFlags"
  ol_ParseFloat :: "string \<Rightarrow> float64 result"
  ol_IsDomainPrefixedPath :: "string \<Rightarrow> bool"
  ol_getenv :: "string \<Rightarrow> string"

definition auditFloat64EnvOr :: "optionLibrary \<Rightarrow> string \<Rightarrow> float64 \<Rightarrow> commandError + float64" where
  "auditFloat64EnvOr lib name fallback = (if ol_getenv lib name = [] then Inr fallback
     else mapErr (newCommandError (name @ '' must be a number'')) (ol_ParseFloat lib (ol_getenv lib name)))"

definition auditIntEnvOr :: "optionLibrary \<Rightarrow> string \<Rightarrow> int \<Rightarrow> commandError + int" where
  "auditIntEnvOr lib name fallback = (if ol_getenv lib name = [] then Inr fallback
     else case Atoi (ol_getenv lib name) of None \<Rightarrow> Inl (newCommandError (name @ '' must be an integer'') Errorf) | Some v \<Rightarrow> Inr v)"

definition envUnlessSet :: "optionLibrary \<Rightarrow> string list \<Rightarrow> string \<Rightarrow> string \<Rightarrow> string \<Rightarrow> string" where
  "envUnlessSet lib setFlags flag name current = (if flag \<in> set setFlags then current else ol_getenv lib name)"

definition applyOptionEnvironment :: "optionLibrary \<Rightarrow> string list \<Rightarrow> commandOptions \<Rightarrow> commandError + commandOptions" where
  "applyOptionEnvironment lib setFlags options = (let o1 = options\<lparr>
       co_controllerName := envUnlessSet lib setFlags ''controller-name'' ''GATEWAY_OPENSTACK_CONTROLLER_NAME'' (co_controllerName options),
       co_clusterID := envUnlessSet lib setFlags ''cluster-id'' ''GATEWAY_OPENSTACK_CLUSTER_ID'' (co_clusterID options),
       co_openStack := (co_openStack options)\<lparr>
         cc_Region := envUnlessSet lib setFlags ''openstack-region'' ''OS_REGION_NAME'' (cc_Region (co_openStack options)),
         cc_CloudsYAMLPath := envUnlessSet lib setFlags ''clouds-yaml'' ''OS_CLIENT_CONFIG_FILE'' (cc_CloudsYAMLPath (co_openStack options)),
         cc_CloudName := envUnlessSet lib setFlags ''openstack-cloud'' ''OS_CLOUD'' (cc_CloudName (co_openStack options))\<rparr>\<rparr> in
     bindE (if ''openstack-api-qps'' \<in> set setFlags then Inr (cc_APIQPS (co_openStack o1))
            else auditFloat64EnvOr lib ''GATEWAY_OPENSTACK_API_QPS'' DefaultAPIQPS) (\<lambda>qps.
     bindE (if ''openstack-api-burst'' \<in> set setFlags then Inr (cc_APIBurst (co_openStack o1))
            else auditIntEnvOr lib ''GATEWAY_OPENSTACK_API_BURST'' DefaultAPIBurst) (\<lambda>burst.
     Inr (o1\<lparr>co_openStack := (co_openStack o1)\<lparr>cc_APIQPS := qps, cc_APIBurst := burst\<rparr>\<rparr>))))"

text \<open>\<^term>\<open>None\<close> is a request for help.\<close>

definition parseOptions :: "optionLibrary \<Rightarrow> string list \<Rightarrow> (commandError + commandOptions) option" where
  "parseOptions lib args = (case ol_Parse lib args of
      HelpRequested \<Rightarrow> None
    | BadFlags e \<Rightarrow> Some (Inl (newCommandError ''invalid command options'' e))
    | ParsedFlags options setFlags nArg \<Rightarrow> Some (
        bindE (guardE (nArg = 0) (plainCommandError ''positional arguments are not supported'')) (\<lambda>_.
        bindE (applyOptionEnvironment lib setFlags options) (\<lambda>options.
        bindE (guardE (\<not> (length (co_controllerName options) > 253 \<or> \<not> ol_IsDomainPrefixedPath lib (co_controllerName options)))
          (plainCommandError ''controller name must be a domain prefixed path'')) (\<lambda>_.
        bindE (guardE (TrimSpace (co_clusterID options) \<noteq> []) (plainCommandError ''cluster ID must not be empty'')) (\<lambda>_.
        bindE (guardE (\<not> co_operationTimeout options \<le> 0) (plainCommandError ''operation timeout for OpenStack must be greater than zero'')) (\<lambda>_.
        bindE (mapErr (newCommandError ''invalid OpenStack client configuration'') (ValidateClientConfig (co_openStack options))) (\<lambda>_.
        Inr options))))))))"

section \<open>The command\<close>

definition exitSuccess :: int where "exitSuccess = 0"
definition exitFailure :: int where "exitFailure = 1"
definition exitFindings :: int where "exitFindings = 2"

text \<open>
  \<open>dp_lists\<close> is what the reader answers to the two list requests of the snapshot; \<open>dp_scan\<close> is the scanner made of the clients and the timeout.
\<close>

record ('w, 'k, 'r) commandDependencies =
  dp_now :: "'w \<Rightarrow> Time"
  dp_loadKubeConfig :: "commandOptions \<Rightarrow> ('w, 'k) call"
  dp_newKubeReader :: "'k \<Rightarrow> ('w, 'r) call"
  dp_lists :: "'r \<Rightarrow> 'w \<Rightarrow> (ObjectMeta list result \<times> ObjectMeta list result) \<times> 'w"
  dp_newServiceClients :: "ClientConfig \<Rightarrow> ('w, ServiceClients) call"
  dp_scan :: "ServiceClients \<Rightarrow> int \<Rightarrow> Scope \<Rightarrow> OwnershipRecord list \<Rightarrow> ('w, Inventory) io"

text \<open>The scanner of production, which openstack.NewProvider makes.\<close>

definition newOpenStackScanner :: "('w, 'p) gophercloud \<Rightarrow> ServiceClients \<Rightarrow> int \<Rightarrow> Scope \<Rightarrow> OwnershipRecord list \<Rightarrow> ('w, Inventory) io" where
  "newOpenStackScanner g clients operationTimeout = Scan g (NewScanner clients operationTimeout)"

definition production :: "('w, 'p) gophercloud \<Rightarrow> ('w, 'k, 'r) commandDependencies \<Rightarrow> ('w, 'k, 'r) commandDependencies" where
  "production g outer = outer\<lparr>dp_scan := newOpenStackScanner g\<rparr>"

definition outerCall :: "('w, 'a) call \<Rightarrow> ('w, 'a) io" where
  "outerCall c = (\<lambda>s. case c (world s) of (r, w) \<Rightarrow> (r, s\<lparr>world := w\<rparr>))"

text \<open>A call whose error ends the command with a message.\<close>

definition attempt :: "(go_error \<Rightarrow> commandError) \<Rightarrow> ('w, 'a) io \<Rightarrow> ('a \<Rightarrow> 'w io_state \<Rightarrow> (commandError + 'b) \<times> 'w io_state) \<Rightarrow>
    'w io_state \<Rightarrow> (commandError + 'b) \<times> 'w io_state" where
  "attempt wrap m f = (\<lambda>s. case m s of (Inl e, s') \<Rightarrow> (Inl (wrap e), s') | (Inr x, s') \<Rightarrow> f x s')"

definition auditConfig :: "string \<Rightarrow> commandOptions \<Rightarrow> ServiceClients \<Rightarrow> Config" where
  "auditConfig version options clients = \<lparr>cf_ControllerName = co_controllerName options, cf_ControllerVersion = version, cf_OpenStackProjectID = cl_ProjectID clients,
     cf_ClusterID = co_clusterID options, cf_Provider = [], cf_VIPSubnetID = [], cf_ExternalNetworkID = [], cf_MemberSubnetID = [], cf_MemberMode = [], cf_NodeAddressType = [],
     cf_HealthPath = [], cf_OpenStackResyncInterval = 0\<rparr>"

definition auditScope :: "commandOptions \<Rightarrow> ServiceClients \<Rightarrow> Scope" where
  "auditScope options clients = \<lparr>sc_ClusterID = co_clusterID options, sc_ControllerName = co_controllerName options, sc_OpenStackProjectID = cl_ProjectID clients\<rparr>"

definition collectBindings :: "finalizerUtil \<Rightarrow> ('w, 'k, 'r) commandDependencies \<Rightarrow> 'r \<Rightarrow> Config \<Rightarrow> ('w, KubernetesSnapshot) io" where
  "collectBindings k deps reader c = (\<lambda>s. case dp_lists deps reader (world s) of (answers, w) \<Rightarrow>
     (CollectOwnershipSnapshot k (Some answers) c, s\<lparr>world := w\<rparr>))"

definition executeAudit :: "string \<Rightarrow> finalizerUtil \<Rightarrow> ('w, 'k, 'r) commandDependencies \<Rightarrow> commandOptions \<Rightarrow> 'w io_state \<Rightarrow> (commandError + Report) \<times> 'w io_state" where
  "executeAudit version k deps options =
     attempt (newCommandError ''could not load Kubernetes client configuration'') (outerCall (dp_loadKubeConfig deps options)) (\<lambda>restConfig.
     attempt (newCommandError ''could not create Kubernetes API client'') (outerCall (dp_newKubeReader deps restConfig)) (\<lambda>reader.
     attempt (newOpenStackCommandError ''could not create OpenStack service clients'') (outerCall (dp_newServiceClients deps (co_openStack options))) (\<lambda>clients.
     attempt (newCommandError ''could not read Kubernetes ownership bindings'') (collectBindings k deps reader (auditConfig version options clients)) (\<lambda>snapshot.
     attempt (newOpenStackCommandError ''could not scan OpenStack ownership'')
       (dp_scan deps clients (co_operationTimeout options) (auditScope options clients) (snap_Records snapshot)) (\<lambda>inventory s.
     (mapErr (newCommandError ''could not build audit report'') (BuildReport (dp_now deps (world s)) version (auditScope options clients) snapshot inventory), s))))))"

text \<open>What the command writes: the usage or an error to the error stream, the report to the output with the number of bytes that were written.\<close>

datatype commandOutput = WroteUsage | WroteError commandError | WroteReport string nat "go_error option"

record 'w streams =
  st_MarshalIndent :: "Report \<Rightarrow> string result"
  st_Write :: "string \<Rightarrow> 'w \<Rightarrow> (nat \<times> go_error option) \<times> 'w"

definition writeReport :: "'w streams \<Rightarrow> commandOptions \<Rightarrow> Report \<Rightarrow> 'w io_state \<Rightarrow> (int \<times> commandOutput list) \<times> 'w io_state" where
  "writeReport streams options report s = (case st_MarshalIndent streams report of
      Inl e \<Rightarrow> ((exitFailure, [WroteError (newCommandError ''could not encode audit report'' e)]), s)
    | Inr text \<Rightarrow> (let output = text @ [CHR 0x0A] in
        case st_Write streams output (world s) of ((written, err), w) \<Rightarrow>
        let s' = s\<lparr>world := w\<rparr>; wrote = WroteReport output written err in
        (case err of
           Some e \<Rightarrow> ((exitFailure, [wrote, WroteError (newCommandError ''could not write audit report'' e)]), s')
         | None \<Rightarrow>
             if written \<noteq> length output then ((exitFailure, [wrote, WroteError (newCommandError ''could not write audit report'' Errorf)]), s')
             else if co_failOnFindings options \<and> HasFindings report then ((exitFindings, [wrote]), s')
             else ((exitSuccess, [wrote]), s'))))"

definition runCommand :: "string \<Rightarrow> finalizerUtil \<Rightarrow> optionLibrary \<Rightarrow> 'w streams \<Rightarrow> ('w, 'k, 'r) commandDependencies \<Rightarrow> string list \<Rightarrow> 'w io_state \<Rightarrow>
    (int \<times> commandOutput list) \<times> 'w io_state" where
  "runCommand version k lib streams deps args s = (case parseOptions lib args of
      None \<Rightarrow> ((exitSuccess, [WroteUsage]), s)
    | Some (Inl e) \<Rightarrow> ((exitFailure, [WroteError e]), s)
    | Some (Inr options) \<Rightarrow> (case executeAudit version k deps options s of
        (Inl e, s') \<Rightarrow> ((exitFailure, [WroteError e]), s')
      | (Inr report, s') \<Rightarrow> writeReport streams options report s'))"

section \<open>What a scan returns\<close>

text \<open>An inventory that accounts for the requests, whose matched findings are proven by the records.\<close>

definition soundInventory :: "Scope \<Rightarrow> OwnershipRecord list \<Rightarrow> Inventory \<Rightarrow> event list \<Rightarrow> bool" where
  "soundInventory scope records inventory es \<longleftrightarrow> inventoryAccounts es inventory \<and>
     (\<exists>candidates prepared. accounts es candidates \<and> prepareAuditRecords scope records = Inr prepared \<and>
     list_all (verdictHolds candidates prepared (ScopeTags (sc_ClusterID scope) (sc_ControllerName scope)) (sc_OpenStackProjectID scope)) (inv_Resources inventory))"

lemma classify_verdicts:
  "list_all (verdictHolds candidates records scopeTags scopeProjectID) (classifyAuditCandidates candidates records scopeTags scopeProjectID)"
  unfolding classifyAuditCandidates_def settled_def [symmetric] list_all_iff using settled_items item_verdict by fastforce

lemma Scan_inspects_prepared:
  assumes "\<And>es candidates prepared. accounts es candidates \<Longrightarrow> prepareAuditRecords scope records = Inr prepared \<Longrightarrow>
    Q \<lparr>inv_Resources = classifyAuditCandidates candidates prepared (ScopeTags (sc_ClusterID scope) (sc_ControllerName scope)) (sc_OpenStackProjectID scope),
      inv_Limitations = auditInventoryLimitations\<rparr> es"
  shows "inspects (Scan g p scope records) Q"
  unfolding Scan_def Let_def
  by (intro inspects_mapErr inspects_bind_lift collect_rules [where es = "[]" and R = Q, simplified] collect_rules [where R = Q] inspects_return)
    (simp_all add: assms mapErr_eq_Inr)

lemma Scan_sound: "inspects (Scan g p scope records) (soundInventory scope records)"
proof (rule Scan_inspects_prepared)
  fix es candidates prepared assume "accounts es candidates" "prepareAuditRecords scope records = Inr prepared"
  then show "soundInventory scope records \<lparr>inv_Resources = classifyAuditCandidates candidates prepared (ScopeTags (sc_ClusterID scope) (sc_ControllerName scope))
      (sc_OpenStackProjectID scope), inv_Limitations = auditInventoryLimitations\<rparr> es"
    unfolding soundInventory_def using classify_accounts [of es candidates] classify_verdicts by auto
qed

section \<open>What the command promises\<close>

text \<open>An audit without findings: no binding is broken, and every resource that was listed is in the report as proven by the bindings.\<close>

definition cleanAudit :: "Scope \<Rightarrow> KubernetesSnapshot \<Rightarrow> event list \<Rightarrow> Report \<Rightarrow> bool" where
  "cleanAudit scope snapshot es report \<longleftrightarrow> snap_Issues snapshot = [] \<and>
     required es \<subseteq> (\<lambda>f. (rf_Type f, rf_ID f)) ` set (rep_Resources report) \<and>
     (\<exists>candidates prepared. accounts es candidates \<and> prepareAuditRecords scope (snap_Records snapshot) = Inr prepared \<and>
        (\<forall>f \<in> set (rep_Resources report). rf_Disposition f = DispositionMatched \<and> (\<exists>c \<in> snd ` set candidates. candidateName c = findingName f \<and>
           provenCandidate candidates prepared (ScopeTags (sc_ClusterID scope) (sc_ControllerName scope)) (sc_OpenStackProjectID scope) c)))"

lemma normalizeFinding_kept [simp]:
  "rf_Type (normalizeFinding f) = rf_Type f" "rf_ID (normalizeFinding f) = rf_ID f" "rf_Disposition (normalizeFinding f) = rf_Disposition f"
  "findingName (normalizeFinding f) = findingName f"
  by (simp_all add: normalizeFinding_def findingName_def)

lemma clean_report:
  assumes "BuildReport now version scope snapshot inventory = Inr report" "soundInventory scope (snap_Records snapshot) inventory es" "\<not> HasFindings report"
  shows "cleanAudit scope snapshot es report"
proof -
  note report = report_accounts [OF assms(1)]
  then have resources: "set (rep_Resources report) = normalizeFinding ` set (inv_Resources inventory)"
    by (metis set_image_mset set_mset_mset)
  have matched: "snap_Issues snapshot = []" "\<forall>f \<in> set (inv_Resources inventory). rf_Disposition f = DispositionMatched" using report assms(3) by auto
  moreover have "required es \<subseteq> (\<lambda>f. (rf_Type f, rf_ID f)) ` set (rep_Resources report)"
    using assms(2) by (auto simp: soundInventory_def inventoryAccounts_def resources image_image)
  ultimately show ?thesis
    using assms(2) unfolding cleanAudit_def soundInventory_def resources by (fastforce simp: list_all_iff verdictHolds_def)
qed

definition quietCall :: "('w, 'a) io \<Rightarrow> bool" where
  "quietCall m \<longleftrightarrow> (\<forall>s r s'. m s = (r, s') \<longrightarrow> trace s' = trace s)"

lemma quiet_calls: "quietCall (outerCall c)" "quietCall (collectBindings k deps reader cfg)"
  by (auto simp: quietCall_def outerCall_def collectBindings_def split: prod.splits)

lemma attempt_quiet:
  assumes "attempt wrap m f s = (r, s')" "quietCall m"
  obtains e where "r = Inl e" "trace s' = trace s" | x s1 where "m s = (Inr x, s1)" "trace s1 = trace s" "f x s1 = (r, s')"
  using assms by (cases "m s"; cases "fst (m s)") (auto simp: attempt_def quietCall_def)

text \<open>The clients that were made with the options, and the snapshot of the bindings that the cluster answered.\<close>

definition observed :: "string \<Rightarrow> finalizerUtil \<Rightarrow> ('w, 'k, 'r) commandDependencies \<Rightarrow> commandOptions \<Rightarrow> ServiceClients \<Rightarrow> KubernetesSnapshot \<Rightarrow> bool" where
  "observed version k deps options clients snapshot \<longleftrightarrow> (\<exists>w. fst (dp_newServiceClients deps (co_openStack options) w) = Inr clients) \<and>
     (\<exists>reader w. CollectOwnershipSnapshot k (Some (fst (dp_lists deps reader w))) (auditConfig version options clients) = Inr snapshot)"

lemma observedI:
  "outerCall (dp_newServiceClients deps (co_openStack options)) s = (Inr clients, s1) \<Longrightarrow>
    collectBindings k deps reader (auditConfig version options clients) s2 = (Inr snapshot, s3) \<Longrightarrow> observed version k deps options clients snapshot"
  unfolding observed_def outerCall_def collectBindings_def by (auto split: prod.splits) (metis fst_conv)+

definition auditRun :: "string \<Rightarrow> finalizerUtil \<Rightarrow> ('w, 'k, 'r) commandDependencies \<Rightarrow> commandOptions \<Rightarrow> 'w io_state \<Rightarrow> (commandError + Report) \<Rightarrow> 'w io_state \<Rightarrow> bool" where
  "auditRun version k deps options s r s' \<longleftrightarrow> (\<exists>es. trace s' = trace s @ es \<and> reads es \<and>
     (\<forall>report. r = Inr report \<and> \<not> HasFindings report \<longrightarrow>
        (\<exists>clients snapshot. observed version k deps options clients snapshot \<and> cleanAudit (auditScope options clients) snapshot es report)))"

lemma executeAudit_sound:
  assumes "executeAudit version k (production g deps) options s = (r, s')"
  shows "auditRun version k deps options s r s'"
proof -
  have stopped: "auditRun version k deps options s (Inl e) s'" if "trace s' = trace s" for e using that by (auto simp: auditRun_def)
  from assms show ?thesis
    unfolding executeAudit_def
  proof (elim attempt_quiet [OF _ quiet_calls(1)] attempt_quiet [OF _ quiet_calls(2)]; (use stopped in simp; fail)?)
    fix restConfig reader clients snapshot s1 s2 s3 s4
    assume made: "outerCall (dp_newServiceClients (production g deps) (co_openStack options)) s2 = (Inr clients, s3)"
      "collectBindings k (production g deps) reader (auditConfig version options clients) s3 = (Inr snapshot, s4)"
    assume run: "trace s1 = trace s" "trace s2 = trace s1" "trace s3 = trace s2" "trace s4 = trace s3"
      "attempt (newOpenStackCommandError ''could not scan OpenStack ownership'')
         (dp_scan (production g deps) clients (co_operationTimeout options) (auditScope options clients) (snap_Records snapshot)) (\<lambda>inventory s.
         (mapErr (newCommandError ''could not build audit report'')
            (BuildReport (dp_now (production g deps) (world s)) version (auditScope options clients) snapshot inventory), s)) s4 = (r, s')"
    let ?scan = "Scan g (NewScanner clients (co_operationTimeout options)) (auditScope options clients) (snap_Records snapshot)"
    obtain q s5 where q: "?scan s4 = (q, s5)" by fastforce
    then obtain es where es: "trace s5 = trace s4 @ es" "reads es" "\<forall>inventory. q = Inr inventory \<longrightarrow> soundInventory (auditScope options clients) (snap_Records snapshot) inventory es"
      using behavesD [OF Scan_sound [unfolded inspects_def] q] by fastforce
    have final: "s' = s5" "r = Inr report \<Longrightarrow> \<exists>inventory now. q = Inr inventory \<and> BuildReport now version (auditScope options clients) snapshot inventory = Inr report" for report
      using run(5) q by (auto simp: attempt_def production_def newOpenStackScanner_def go_simps split: sum.splits)
    have "observed version k deps options clients snapshot"
      using observedI [OF made] by (simp add: observed_def production_def)
    moreover have "cleanAudit (auditScope options clients) snapshot es report" if report: "r = Inr report" "\<not> HasFindings report" for report
    proof -
      obtain inventory now where built: "q = Inr inventory" "BuildReport now version (auditScope options clients) snapshot inventory = Inr report" using final(2) [OF report(1)] by blast
      then show ?thesis using clean_report [OF built(2) _ report(2)] es(3) by simp
    qed
    moreover have "trace s' = trace s @ es" using final(1) es(1) run(1-4) by simp
    ultimately show ?thesis using es(2) unfolding auditRun_def by blast
  qed
qed

lemma writeReport_codes:
  assumes "writeReport streams options report s = ((code, outs), s')"
  shows "trace s' = trace s" "code = exitFailure \<or> (\<exists>text. st_MarshalIndent streams report = Inr text \<and> outs = [WroteReport (text @ [CHR 0x0A]) (length text + 1) None] \<and>
      code = (if co_failOnFindings options \<and> HasFindings report then exitFindings else exitSuccess))"
  using assms by (auto simp: writeReport_def Let_def split: sum.splits prod.splits option.splits if_splits)


text \<open>An empty cluster and an empty project.\<close>

definition refusing :: "('w, 'a) call" where
  "refusing w = (Inl Errorf, w)"

definition emptyProject :: "(unit, unit) gophercloud" where
  "emptyProject = \<lparr>
     loadbalancers = \<lparr>loadbalancers_List = \<lambda>_ w. (Inr (), w), ExtractLoadBalancers = \<lambda>_. Inr [], loadbalancers_Get = \<lambda>_. refusing, loadbalancers_Create = \<lambda>_. refusing,
       loadbalancers_Update = \<lambda>_ _. refusing, loadbalancers_Delete = \<lambda>_. refusing\<rparr>,
     listeners = \<lparr>listeners_List = \<lambda>_ w. (Inr (), w), ExtractListeners = \<lambda>_. Inr [], listeners_Create = \<lambda>_. refusing, listeners_Update = \<lambda>_ _. refusing,
       listeners_Delete = \<lambda>_. refusing\<rparr>,
     pools = \<lparr>pools_List = \<lambda>_ w. (Inr (), w), ExtractPools = \<lambda>_. Inr [], pools_Create = \<lambda>_. refusing, pools_Update = \<lambda>_ _. refusing, pools_Delete = \<lambda>_. refusing,
       pools_ListMembers = \<lambda>_ _. refusing, ExtractMembers = \<lambda>_. Inr [], pools_CreateMember = \<lambda>_ _. refusing, pools_UpdateMember = \<lambda>_ _ _. refusing,
       pools_DeleteMember = \<lambda>_ _. refusing\<rparr>,
     monitors = \<lparr>monitors_List = \<lambda>_ w. (Inr (), w), ExtractMonitors = \<lambda>_. Inr [], monitors_Create = \<lambda>_. refusing, monitors_Update = \<lambda>_ _. refusing, monitors_Delete = \<lambda>_. refusing\<rparr>,
     l7policies = \<lparr>l7policies_List = \<lambda>_ w. (Inr (), w), ExtractL7Policies = \<lambda>_. Inr [], l7policies_Create = \<lambda>_. refusing, l7policies_Update = \<lambda>_ _. refusing,
       l7policies_Delete = \<lambda>_. refusing, l7policies_ListRules = \<lambda>_ _. refusing, ExtractRules = \<lambda>_. Inr [], l7policies_CreateRule = \<lambda>_ _. refusing,
       l7policies_UpdateRule = \<lambda>_ _ _. refusing, l7policies_DeleteRule = \<lambda>_ _. refusing\<rparr>,
     floatingips = \<lparr>floatingips_List = \<lambda>_ w. (Inr (), w), ExtractFloatingIPs = \<lambda>_. Inr [], floatingips_Create = \<lambda>_. refusing, floatingips_Delete = \<lambda>_. refusing\<rparr>,
     ResponseCodeIs = \<lambda>_ _. False\<rparr>"

definition sampleDependencies :: "(unit, unit, unit) commandDependencies" where
  "sampleDependencies = \<lparr>dp_now = \<lambda>_. \<lparr>tm_instant = 1, tm_location = []\<rparr>, dp_loadKubeConfig = \<lambda>_ w. (Inr (), w), dp_newKubeReader = \<lambda>_ w. (Inr (), w),
     dp_lists = \<lambda>_ w. ((Inr [], Inr []), w), dp_newServiceClients = \<lambda>_ w. (Inr \<lparr>cl_LoadBalancer = True, cl_Network = True, cl_ProjectID = ''p''\<rparr>, w),
     dp_scan = \<lambda>_ _ _ _. returnIO \<lparr>inv_Resources = [], inv_Limitations = []\<rparr>\<rparr>"

definition sampleOptions :: commandOptions where
  "sampleOptions = \<lparr>co_controllerName = ''a.b/c'', co_clusterID = ''c'', co_kubeconfig = [], co_kubeContext = [], co_openStack = \<lparr>cc_Region = [], cc_Microversion = ''2.5'',
     cc_CloudsYAMLPath = [], cc_CloudName = [], cc_AllowInsecure = False, cc_APIQPS = Finite 10, cc_APIBurst = 20, cc_RequestObserver = False\<rparr>,
     co_operationTimeout = 60, co_failOnFindings = True\<rparr>"

definition sampleOptionLibrary :: optionLibrary where
  "sampleOptionLibrary = \<lparr>ol_Parse = \<lambda>_. ParsedFlags sampleOptions [''controller-name'', ''cluster-id''] 0, ol_ParseFloat = \<lambda>_. Inl Errorf, ol_IsDomainPrefixedPath = \<lambda>_. True,
     ol_getenv = \<lambda>_. []\<rparr>"

definition sampleStreams :: "unit streams" where
  "sampleStreams = \<lparr>st_MarshalIndent = \<lambda>_. Inr ''report'', st_Write = \<lambda>text w. ((length text, None), w)\<rparr>"

text \<open>A computation that returns one value, whatever the state.\<close>

definition yields :: "('w, 'a) io \<Rightarrow> 'a \<Rightarrow> bool" where
  "yields m x \<longleftrightarrow> (\<forall>s. \<exists>s'. m s = (Inr x, s'))"

lemma yields_rules:
  "x = y \<Longrightarrow> yields (returnIO x) y" "r = Inr y \<Longrightarrow> yields (liftE r) y" "yields m y \<Longrightarrow> yields (mapErrIO h m) y"
  by (auto simp: yields_def returnIO_def liftE_def mapErrIO_def) (metis case_prod_conv mapErr.simps(2))

lemma yields_bind: "yields m x \<Longrightarrow> yields (f x) y \<Longrightarrow> yields (bindIO m f) y"
  unfolding yields_def bindIO_ok by blast

lemma empty_lists:
  "yields (ListLoadBalancers emptyProject loadBalancerOpts) []" "yields (ListListeners emptyProject opts) []" "yields (ListPools emptyProject opts) []"
  "yields (ListMonitors emptyProject opts) []" "yields (ListPolicies emptyProject policyOpts) []" "yields (ListFloatingIPs emptyProject floatingIPOpts) []"
  unfolding yields_def
  by (simp_all add: ListLoadBalancers_def ListListeners_def ListPools_def ListMonitors_def ListPolicies_def ListFloatingIPs_def request_def listAll_def emptyProject_def)

lemma empty_collects:
  "yields (collectAuditLoadBalancers emptyProject p tags []) []" "yields (collectAuditListeners emptyProject p tags {} []) []" "yields (collectAuditPools emptyProject p tags {} []) []"
  "yields (collectAuditPolicies emptyProject p tags {} []) []" "yields (collectAuditMembers emptyProject p {} []) []" "yields (collectAuditMonitors emptyProject p tags {} []) []"
  "yields (collectAuditRules emptyProject p {} []) []" "yields (collectAuditFloatingIPs emptyProject p {} records []) []"
  unfolding collectAuditLoadBalancers_def collectAuditListeners_def listAuditListeners_def collectAuditPools_def listAuditPools_def collectAuditPolicies_def collectAuditMembers_def
    collectAuditMonitors_def listAuditMonitors_def collectAuditRules_def collectAuditFloatingIPs_def Let_def sortedSetValues_def sorted_list_of_set_empty foldIO.simps
  by (rule yields_rules yields_bind empty_lists | simp; fail)+

lemma empty_scan:
  assumes "ValidateScope scope = Inr ()" "sc_OpenStackProjectID scope = sn_projectID p" "sn_octavia p" "sn_neutron p"
  shows "yields (Scan emptyProject p scope []) \<lparr>inv_Resources = [], inv_Limitations = auditInventoryLimitations\<rparr>"
proof -
  have scoped: "scopedIDs [] t tags i = {}" for t tags i by (simp add: scopedIDs_def)
  have empty: "classifyAuditCandidates [] records tags i = []" for records tags i
    using arg_cong [OF classify_names [of "[]" records tags i], of size] by simp
  show ?thesis
    unfolding Scan_def Let_def
    by (rule yields_rules yields_bind [where x = "()"] yields_bind [where x = "[]"] | rule empty_collects | simp add: assms scoped empty prepareAuditRecords_def guardE_def; fail | simp only: scoped)+
qed

lemma sample_texts: "TrimSpace ''c'' \<noteq> []" "TrimSpace ''a.b/c'' \<noteq> []" "TrimSpace ''p'' \<noteq> []" "TrimSpace ''v1'' \<noteq> []"
  by (rule TrimSpace_nonblank [of "hd s" s for s]; simp; fail)+

lemma sample_options: "parseOptions sampleOptionLibrary [] = Some (Inr sampleOptions)"
proof -
  have "ValidateMicroversion ''2.5'' = Inr ()" by code_simp
  then show ?thesis
    using sample_texts
    by (simp add: parseOptions_def sampleOptionLibrary_def applyOptionEnvironment_def envUnlessSet_def auditFloat64EnvOr_def auditIntEnvOr_def sampleOptions_def
        DefaultAPIQPS_def DefaultAPIBurst_def ValidateClientConfig_def guardE_def IsNaN_def IsInf_def Let_def)
qed

lemma limitations_nonblank: "foreachE nonBlank auditInventoryLimitations = Inr ()"
proof -
  have "\<forall>x \<in> set auditInventoryLimitations. TrimSpace x \<noteq> []"
    unfolding auditInventoryLimitations_def list.set ball_simps by (intro conjI TrimSpace_nonblank [of "hd s" s for s]) (simp_all)
  then show ?thesis by (simp add: foreachE_eq_Inr nonBlank_def guardE_def)
qed

lemma sample_audit:
  "\<exists>outs s'. runCommand ''v1'' listFinalizers sampleOptionLibrary sampleStreams (production emptyProject sampleDependencies) [] \<lparr>world = (), trace = []\<rparr> = ((exitSuccess, outs), s')"
proof -
  let ?clients = "\<lparr>cl_LoadBalancer = True, cl_Network = True, cl_ProjectID = ''p''\<rparr>" and ?empty = "\<lparr>snap_Records = [], snap_Issues = []\<rparr>" and ?s = "\<lparr>world = (), trace = []\<rparr>"
  let ?scope = "auditScope sampleOptions ?clients" and ?inventory = "\<lparr>inv_Resources = [], inv_Limitations = auditInventoryLimitations\<rparr>"
  have scope: "ValidateScope ?scope = Inr ()" using sample_texts by (simp add: ValidateScope_def auditScope_def nonBlank_def guardE_def sampleOptions_def)
  have "IsValidControllerName ''a.b/c''"
    by (simp add: IsValidControllerName_def gatewayControllerNamePattern_def HasPrefix_def domainLabel_def isLowerAlnum_def pathChar_def less_eq_char_def)
  then have collected: "CollectOwnershipSnapshot listFinalizers (Some (Inr [], Inr [])) (auditConfig ''v1'' sampleOptions ?clients) = Inr ?empty"
    using sample_texts by (simp add: CollectOwnershipSnapshot_def validateOwnershipSnapshotConfig_def snapshotScope_def auditConfig_def ValidateScope_def nonBlank_def guardE_def
        sampleOptions_def sortOwnershipSnapshot_def)
  obtain s1 where scan: "newOpenStackScanner emptyProject ?clients 60 ?scope [] ?s = (Inr ?inventory, s1)"
    using empty_scan [OF scope, of "NewScanner ?clients 60"] unfolding yields_def by (force simp: newOpenStackScanner_def auditScope_def NewScanner_def)
  obtain report where report: "BuildReport \<lparr>tm_instant = 1, tm_location = []\<rparr> ''v1'' ?scope ?empty ?inventory = Inr report"
    using scope sample_texts by (simp add: BuildReport_def IsZero_def validateSnapshot_def validateInventory_def limitations_nonblank guardE_def Let_def)
  then have "\<not> HasFindings report" using report_accounts [OF report] by simp
  moreover have "executeAudit ''v1'' listFinalizers (production emptyProject sampleDependencies) sampleOptions ?s = (Inr report, s1)"
    using collected scan report by (simp add: executeAudit_def production_def sampleDependencies_def attempt_def outerCall_def collectBindings_def sampleOptions_def)
  ultimately show ?thesis
    by (simp add: runCommand_def sample_options writeReport_def sampleStreams_def Let_def)
qed


end
