(* ===== verification/RequestObserver.thy ===== *)
theory RequestObserver
  imports TransitionSystems Bindings
begin

text \<open>
  The observation of OpenStack requests: cloud/openstack/clients/request_observer.go and cloud/openstack/observability/metrics.go. A request is attributed to a service by its
  address, and two counters and a gauge record it. A counter is a function of its labels. url.Parse and the change of letter case are parameters;
  the registration of the collectors with Prometheus is left out.
\<close>

section \<open>Classifications\<close>

definition RequestServiceKeystone :: string where "RequestServiceKeystone = ''keystone''"
definition RequestServiceOctavia :: string where "RequestServiceOctavia = ''octavia''"
definition RequestServiceNeutron :: string where "RequestServiceNeutron = ''neutron''"
definition RequestServiceUnknown :: string where "RequestServiceUnknown = ''unknown''"

definition RequestMethodGet :: string where "RequestMethodGet = ''GET''"
definition RequestMethodHead :: string where "RequestMethodHead = ''HEAD''"
definition RequestMethodPost :: string where "RequestMethodPost = ''POST''"
definition RequestMethodPut :: string where "RequestMethodPut = ''PUT''"
definition RequestMethodPatch :: string where "RequestMethodPatch = ''PATCH''"
definition RequestMethodDelete :: string where "RequestMethodDelete = ''DELETE''"
definition RequestMethodOptions :: string where "RequestMethodOptions = ''OPTIONS''"
definition RequestMethodOther :: string where "RequestMethodOther = ''OTHER''"

definition RequestStatusClassInformational :: string where "RequestStatusClassInformational = ''1xx''"
definition RequestStatusClassSuccessful :: string where "RequestStatusClassSuccessful = ''2xx''"
definition RequestStatusClassRedirection :: string where "RequestStatusClassRedirection = ''3xx''"
definition RequestStatusClassClientError :: string where "RequestStatusClassClientError = ''4xx''"
definition RequestStatusClassServerError :: string where "RequestStatusClassServerError = ''5xx''"
definition RequestStatusClassError :: string where "RequestStatusClassError = ''error''"

lemmas serviceNames = RequestServiceKeystone_def RequestServiceOctavia_def RequestServiceNeutron_def RequestServiceUnknown_def
lemmas method_defs = RequestMethodGet_def RequestMethodHead_def RequestMethodPost_def RequestMethodPut_def RequestMethodPatch_def RequestMethodDelete_def
  RequestMethodOptions_def RequestMethodOther_def

record urlParts =
  ur_Scheme :: string
  ur_Hostname :: string
  ur_Port :: string
  ur_Path :: string

record urlLibrary =
  ul_Parse :: "string \<Rightarrow> urlParts option"
  ul_ToLower :: "string \<Rightarrow> string"
  ul_ToUpper :: "string \<Rightarrow> string"

text \<open>A request has its address as a text, none if the URL is missing, and its method.\<close>

record httpRequest =
  rq_URL :: "string option"
  rq_Method :: string

record serviceEndpoint =
  se_service :: string
  se_rawURL :: string

record normalizedServiceEndpoint =
  ne_service :: string
  ne_scheme :: string
  ne_host :: string
  ne_port :: string
  ne_path :: string

text \<open>path.Clean of a rooted path: empty elements and dots vanish, and two dots remove the element before them.\<close>

fun cleanElements :: "string list \<Rightarrow> string list \<Rightarrow> string list" where
  "cleanElements acc [] = rev acc"
| "cleanElements acc (e # es) =
     (if e = [] \<or> e = ''.'' then cleanElements acc es else if e = ''..'' then cleanElements (tl acc) es else cleanElements (e # acc) es)"

definition rootedClean :: "string \<Rightarrow> string" where
  "rootedClean p = CHR ''/'' # Join (cleanElements [] (splitOn CHR ''/'' p)) ''/''"

definition normalizeURLPath :: "string \<Rightarrow> string" where
  "normalizeURLPath v = rootedClean (CHR ''/'' # TrimPrefix v ''/'')"

definition hasPathPrefix :: "string \<Rightarrow> string \<Rightarrow> bool" where
  "hasPathPrefix v prefix \<longleftrightarrow> prefix = ''/'' \<or> v = prefix \<or> HasPrefix v (prefix @ ''/'')"

definition endpointMatchesPath :: "normalizedServiceEndpoint \<Rightarrow> string \<Rightarrow> bool" where
  "endpointMatchesPath e v = (if ne_service e = RequestServiceKeystone \<and> ne_path e = ''/'' then v = ne_path e else hasPathPrefix v (ne_path e))"

definition normalizeServiceEndpoint :: "urlLibrary \<Rightarrow> serviceEndpoint \<Rightarrow> normalizedServiceEndpoint option" where
  "normalizeServiceEndpoint lib endpoint = (case ul_Parse lib (se_rawURL endpoint) of
      None \<Rightarrow> None
    | Some parsed \<Rightarrow>
        if ur_Scheme parsed = [] \<or> ur_Hostname parsed = [] then None
        else let scheme = ul_ToLower lib (ur_Scheme parsed); port = ur_Port parsed in
          Some \<lparr>ne_service = se_service endpoint, ne_scheme = scheme, ne_host = ul_ToLower lib (ur_Hostname parsed),
            ne_port = (if scheme = ''http'' \<and> port = ''80'' \<or> scheme = ''https'' \<and> port = ''443'' then [] else port),
            ne_path = normalizeURLPath (ur_Path parsed)\<rparr>)"

definition newRequestServiceClassifier :: "urlLibrary \<Rightarrow> serviceEndpoint list \<Rightarrow> normalizedServiceEndpoint list" where
  "newRequestServiceClassifier lib endpoints = List.map_filter (normalizeServiceEndpoint lib) endpoints"

text \<open>The longest path so far, its service, and whether another service has a path of this length.\<close>

definition considerEndpoint :: "normalizedServiceEndpoint \<Rightarrow> normalizedServiceEndpoint \<Rightarrow> int \<times> string \<times> bool \<Rightarrow> int \<times> string \<times> bool" where
  "considerEndpoint requestEndpoint endpoint = (\<lambda>(longestPath, service, ambiguous).
     if ne_scheme endpoint \<noteq> ne_scheme requestEndpoint \<or> ne_host endpoint \<noteq> ne_host requestEndpoint \<or> ne_port endpoint \<noteq> ne_port requestEndpoint \<or>
        \<not> endpointMatchesPath endpoint (ne_path requestEndpoint) then (longestPath, service, ambiguous)
     else let pathLength = int (length (ne_path endpoint)) in
       if pathLength > longestPath then (pathLength, ne_service endpoint, False)
       else if pathLength = longestPath \<and> ne_service endpoint \<noteq> service then (longestPath, service, True)
       else (longestPath, service, ambiguous))"

definition classifyService :: "urlLibrary \<Rightarrow> normalizedServiceEndpoint list \<Rightarrow> httpRequest option \<Rightarrow> string" where
  "classifyService lib endpoints request = (case Option.bind request rq_URL of
      None \<Rightarrow> RequestServiceUnknown
    | Some rawURL \<Rightarrow> (case normalizeServiceEndpoint lib \<lparr>se_service = RequestServiceUnknown, se_rawURL = rawURL\<rparr> of
        None \<Rightarrow> RequestServiceUnknown
      | Some requestEndpoint \<Rightarrow> (case fold (considerEndpoint requestEndpoint) endpoints (-1, RequestServiceUnknown, False) of
          (_, service, ambiguous) \<Rightarrow> if ambiguous then RequestServiceUnknown else service)))"

definition classifyRequestMethod :: "urlLibrary \<Rightarrow> httpRequest option \<Rightarrow> string" where
  "classifyRequestMethod lib request = (case request of None \<Rightarrow> RequestMethodOther | Some r \<Rightarrow>
     (let method = ul_ToUpper lib (rq_Method r) in
      if method = ''GET'' then RequestMethodGet else if method = ''HEAD'' then RequestMethodHead else if method = ''POST'' then RequestMethodPost
      else if method = ''PUT'' then RequestMethodPut else if method = ''PATCH'' then RequestMethodPatch else if method = ''DELETE'' then RequestMethodDelete
      else if method = ''OPTIONS'' then RequestMethodOptions else RequestMethodOther))"

text \<open>The status code of a response, if there is one, and whether the transport returned an error.\<close>

definition classifyStatus :: "int option \<Rightarrow> bool \<Rightarrow> string" where
  "classifyStatus response failed = (case response of None \<Rightarrow> RequestStatusClassError | Some code \<Rightarrow>
     if failed then RequestStatusClassError
     else if code div 100 = 1 then RequestStatusClassInformational else if code div 100 = 2 then RequestStatusClassSuccessful
     else if code div 100 = 3 then RequestStatusClassRedirection else if code div 100 = 4 then RequestStatusClassClientError
     else if code div 100 = 5 then RequestStatusClassServerError else RequestStatusClassError)"

section \<open>Metrics\<close>

definition boundedService :: "string \<Rightarrow> string" where
  "boundedService service = (if service \<in> {RequestServiceKeystone, RequestServiceOctavia, RequestServiceNeutron} then service else RequestServiceUnknown)"

definition boundedMethod :: "string \<Rightarrow> string" where
  "boundedMethod method = (if method \<in> {RequestMethodGet, RequestMethodHead, RequestMethodPost, RequestMethodPut, RequestMethodPatch, RequestMethodDelete, RequestMethodOptions}
     then method else RequestMethodOther)"

definition boundedStatusClass :: "string \<Rightarrow> string" where
  "boundedStatusClass statusClass = (if statusClass \<in> {RequestStatusClassInformational, RequestStatusClassSuccessful, RequestStatusClassRedirection, RequestStatusClassClientError,
     RequestStatusClassServerError} then statusClass else RequestStatusClassError)"

definition isBoundedMutation :: "string \<Rightarrow> string \<Rightarrow> bool" where
  "isBoundedMutation service method = (if service = RequestServiceKeystone then False
     else if method \<in> {RequestMethodGet, RequestMethodHead, RequestMethodOptions} then False else True)"

type_synonym labels = "string \<times> string"
type_synonym statusLabels = "string \<times> string \<times> string"

text \<open>The operations on the collectors, each of which is atomic.\<close>

datatype metricOperation =
    InFlightInc labels
  | MutationsInc labels
  | InFlightDec labels
  | RequestsInc statusLabels
  | DurationsObserve statusLabels int

record requestMetrics =
  rm_inFlight :: "labels \<Rightarrow> int"
  rm_mutations :: "labels \<Rightarrow> nat"
  rm_requests :: "statusLabels \<Rightarrow> nat"
  rm_durations :: "statusLabels \<Rightarrow> int list"

fun operate :: "metricOperation \<Rightarrow> requestMetrics \<Rightarrow> requestMetrics" where
  "operate (InFlightInc l) m = m\<lparr>rm_inFlight := (rm_inFlight m)(l := rm_inFlight m l + 1)\<rparr>"
| "operate (MutationsInc l) m = m\<lparr>rm_mutations := (rm_mutations m)(l := rm_mutations m l + 1)\<rparr>"
| "operate (InFlightDec l) m = m\<lparr>rm_inFlight := (rm_inFlight m)(l := rm_inFlight m l - 1)\<rparr>"
| "operate (RequestsInc l) m = m\<lparr>rm_requests := (rm_requests m)(l := rm_requests m l + 1)\<rparr>"
| "operate (DurationsObserve l d) m = m\<lparr>rm_durations := (rm_durations m)(l := rm_durations m l @ [d])\<rparr>"

text \<open>What the observer does before and after a request; \<open>registered\<close> says that the receiver is not nil.\<close>

definition ObserveRequestStart :: "bool \<Rightarrow> string \<Rightarrow> string \<Rightarrow> metricOperation list" where
  "ObserveRequestStart registered s m = (if \<not> registered then []
     else let service = boundedService s; method = boundedMethod m in
       if \<not> isBoundedMutation service method then [] else [InFlightInc (service, method), MutationsInc (service, method)])"

definition ObserveRequest :: "bool \<Rightarrow> string \<Rightarrow> string \<Rightarrow> string \<Rightarrow> int \<Rightarrow> metricOperation list" where
  "ObserveRequest registered s m c duration = (if \<not> registered then []
     else let service = boundedService s; method = boundedMethod m; statusClass = boundedStatusClass c in
       (if isBoundedMutation service method then [InFlightDec (service, method)] else []) @
       [RequestsInc (service, method, statusClass), DurationsObserve (service, method, statusClass) (if duration < 0 then 0 else duration)])"

section \<open>Transports\<close>

datatype 't transport = DefaultTransport | OtherTransport 't | RateLimited "'t transport" | Observing "normalizedServiceEndpoint list" "'t transport"

definition installRequestObserver :: "urlLibrary \<Rightarrow> string \<Rightarrow> string \<Rightarrow> string \<Rightarrow> string \<Rightarrow> 't transport option \<Rightarrow> 't transport" where
  "installRequestObserver lib identityEndpoint identityBase loadBalancerURL networkURL current =
     (let classifier = newRequestServiceClassifier lib [\<lparr>se_service = RequestServiceKeystone, se_rawURL = identityEndpoint\<rparr>,
        \<lparr>se_service = RequestServiceKeystone, se_rawURL = identityBase\<rparr>, \<lparr>se_service = RequestServiceOctavia, se_rawURL = loadBalancerURL\<rparr>,
        \<lparr>se_service = RequestServiceNeutron, se_rawURL = networkURL\<rparr>] in
      case current of
        Some (RateLimited inner) \<Rightarrow> RateLimited (Observing classifier inner)
      | Some t \<Rightarrow> Observing classifier t
      | None \<Rightarrow> Observing classifier DefaultTransport)"

text \<open>
  The round trips of a process, which run concurrently. A round trip performs the operations before the request one by one, hands the request to the
  transport, waits for the answer, and performs the operations after it. The deferred function runs also when the transport panics.
\<close>

datatype tripPhase = BeforeRequest "metricOperation list" | RequestSent | AfterRequest "metricOperation list"

record trip =
  tr_service :: string
  tr_method :: string
  tr_phase :: tripPhase

record observerState =
  os_metrics :: requestMetrics
  os_trips :: "nat \<rightharpoonup> trip"
  os_sent :: "(string \<times> string) list"

definition noRequests :: requestMetrics where
  "noRequests = \<lparr>rm_inFlight = \<lambda>_. 0, rm_mutations = \<lambda>_. 0, rm_requests = \<lambda>_. 0, rm_durations = \<lambda>_. []\<rparr>"

definition observerStart :: "observerState \<Rightarrow> bool" where
  "observerStart s \<longleftrightarrow> s = \<lparr>os_metrics = noRequests, os_trips = Map.empty, os_sent = []\<rparr>"

inductive roundTrip :: "urlLibrary \<Rightarrow> normalizedServiceEndpoint list \<Rightarrow> observerState \<Rightarrow> observerState \<Rightarrow> bool" for lib classifier where
  begin_trip: "os_trips s c = None \<Longrightarrow> service = classifyService lib classifier request \<Longrightarrow> method = classifyRequestMethod lib request \<Longrightarrow>
    roundTrip lib classifier s (s\<lparr>os_trips := (os_trips s)(c \<mapsto> \<lparr>tr_service = service, tr_method = method, tr_phase = BeforeRequest (ObserveRequestStart True service method)\<rparr>)\<rparr>)"
| observe_start: "os_trips s c = Some t \<Longrightarrow> tr_phase t = BeforeRequest (x # ops) \<Longrightarrow>
    roundTrip lib classifier s (s\<lparr>os_metrics := operate x (os_metrics s), os_trips := (os_trips s)(c \<mapsto> t\<lparr>tr_phase := BeforeRequest ops\<rparr>)\<rparr>)"
| send: "os_trips s c = Some t \<Longrightarrow> tr_phase t = BeforeRequest [] \<Longrightarrow>
    roundTrip lib classifier s (s\<lparr>os_trips := (os_trips s)(c \<mapsto> t\<lparr>tr_phase := RequestSent\<rparr>), os_sent := os_sent s @ [(tr_service t, tr_method t)]\<rparr>)"
| answer: "os_trips s c = Some t \<Longrightarrow> tr_phase t = RequestSent \<Longrightarrow>
    roundTrip lib classifier s (s\<lparr>os_trips := (os_trips s)(c \<mapsto> t\<lparr>tr_phase :=
      AfterRequest (ObserveRequest True (tr_service t) (tr_method t) (classifyStatus response failed) duration)\<rparr>)\<rparr>)"
| observe_end: "os_trips s c = Some t \<Longrightarrow> tr_phase t = AfterRequest (x # ops) \<Longrightarrow>
    roundTrip lib classifier s (s\<lparr>os_metrics := operate x (os_metrics s), os_trips := (os_trips s)(c \<mapsto> t\<lparr>tr_phase := AfterRequest ops\<rparr>)\<rparr>)"

end
