(* ===== verification/ObserverFacts.thy ===== *)
theory ObserverFacts
  imports RequestObserver
begin

text \<open>
  Facts about the observation of requests: the gauge counts the mutating requests that are under way, counters never decrease, nothing mutating is sent in a window that
  begins with a gauge of zero and leaves the counters of mutations alone, and a request is attributed to the service with the longest matching path.
\<close>

section \<open>The gauge\<close>

definition tripLabels :: "trip \<Rightarrow> labels" where
  "tripLabels t = (boundedService (tr_service t), boundedMethod (tr_method t))"

definition mutatingTrip :: "trip \<Rightarrow> bool" where
  "mutatingTrip t \<longleftrightarrow> isBoundedMutation (fst (tripLabels t)) (snd (tripLabels t))"

text \<open>A mutating round trip before it has raised the gauge, while it has raised it, and after it has lowered it.\<close>

fun settling :: "metricOperation \<Rightarrow> bool" where
  "settling (RequestsInc _) = True"
| "settling (DurationsObserve _ _) = True"
| "settling _ = False"

definition waiting :: "trip \<Rightarrow> bool" where
  "waiting t \<longleftrightarrow> tr_phase t = BeforeRequest [InFlightInc (tripLabels t), MutationsInc (tripLabels t)]"

definition raised :: "trip \<Rightarrow> bool" where
  "raised t \<longleftrightarrow> tr_phase t \<in> {BeforeRequest [MutationsInc (tripLabels t)], BeforeRequest [], RequestSent} \<or>
     (\<exists>ops. tr_phase t = AfterRequest (InFlightDec (tripLabels t) # ops) \<and> list_all settling ops)"

definition lowered :: "trip \<Rightarrow> bool" where
  "lowered t \<longleftrightarrow> (\<exists>ops. tr_phase t = AfterRequest ops \<and> list_all settling ops)"

definition wellPhased :: "trip \<Rightarrow> bool" where
  "wellPhased t \<longleftrightarrow> (if mutatingTrip t then waiting t \<or> raised t \<or> lowered t else tr_phase t \<in> {BeforeRequest [], RequestSent} \<or> lowered t)"

definition underWay :: "observerState \<Rightarrow> labels \<Rightarrow> nat set" where
  "underWay s l = {c. \<exists>t. os_trips s c = Some t \<and> mutatingTrip t \<and> raised t \<and> tripLabels t = l}"

definition gaugeOk :: "observerState \<Rightarrow> bool" where
  "gaugeOk s \<longleftrightarrow> finite (dom (os_trips s)) \<and> (\<forall>t \<in> ran (os_trips s). wellPhased t) \<and> (\<forall>l. rm_inFlight (os_metrics s) l = int (card (underWay s l)))"

lemma phase_labels [simp]: "tripLabels (t\<lparr>tr_phase := ph\<rparr>) = tripLabels t" "mutatingTrip (t\<lparr>tr_phase := ph\<rparr>) = mutatingTrip t"
  by (simp_all add: tripLabels_def mutatingTrip_def)

lemma raised_not_lowered: "raised t \<Longrightarrow> \<not> lowered t" "raised t \<Longrightarrow> \<not> waiting t" "waiting t \<Longrightarrow> \<not> lowered t"
  by (auto simp: raised_def lowered_def waiting_def)

lemma underWay_update:
  assumes "finite (dom (os_trips s))" "os_trips s' = (os_trips s)(c \<mapsto> t')" "tripLabels t' = k"
    "\<And>t. os_trips s c = Some t \<Longrightarrow> tripLabels t = k \<and> mutatingTrip t = mutatingTrip t'"
  shows "int (card (underWay s' l)) = int (card (underWay s l)) +
    (if l = k \<and> mutatingTrip t' then of_bool (raised t') - of_bool (\<exists>t. os_trips s c = Some t \<and> raised t) else 0)"
proof -
  have "underWay s l \<subseteq> dom (os_trips s)" by (auto simp: underWay_def)
  then have fin: "finite (underWay s l)" using assms(1) finite_subset by blast
  have rest: "underWay s' l - {c} = underWay s l - {c}" using assms(2) by (auto simp: underWay_def)
  have now: "c \<in> underWay s' l \<longleftrightarrow> l = k \<and> mutatingTrip t' \<and> raised t'" using assms(2,3) by (auto simp: underWay_def)
  have old: "c \<in> underWay s l \<longleftrightarrow> l = k \<and> mutatingTrip t' \<and> (\<exists>t. os_trips s c = Some t \<and> raised t)" using assms(4) by (auto simp: underWay_def)
  have one: "int (card A) = int (card (A - {c})) + of_bool (c \<in> A)" if "finite A" for A :: "nat set"
  proof (cases "c \<in> A")
    case True
    then show ?thesis using card.remove [OF that True] by simp
  qed simp
  have "underWay s' l \<subseteq> insert c (underWay s l)" using rest by blast
  then have "finite (underWay s' l)" using fin finite_subset by blast
  from one [OF this] one [OF fin] show ?thesis unfolding rest now old by (cases "l = k"; cases "mutatingTrip t'"; simp)
qed

lemma begins_wellPhased:
  assumes "t = \<lparr>tr_service = service, tr_method = verb, tr_phase = BeforeRequest (ObserveRequestStart True service verb)\<rparr>"
  shows "wellPhased t" "mutatingTrip t \<Longrightarrow> \<not> raised t"
  using assms by (auto simp: wellPhased_def waiting_def raised_def mutatingTrip_def tripLabels_def ObserveRequestStart_def Let_def)

lemma answers_wellPhased:
  assumes "tr_phase t = RequestSent" "t' = t\<lparr>tr_phase := AfterRequest (ObserveRequest True (tr_service t) (tr_method t) c d)\<rparr>"
  shows "wellPhased t'" "mutatingTrip t \<Longrightarrow> raised t'"
  using assms by (auto simp: wellPhased_def waiting_def raised_def lowered_def mutatingTrip_def tripLabels_def ObserveRequest_def Let_def)

text \<open>What an operation of a round trip does to the gauge is what its phase does.\<close>

lemma settling_gauge: "settling x \<Longrightarrow> rm_inFlight (operate x m) = rm_inFlight m"
  by (cases x) auto

lemma operation_before:
  assumes "wellPhased t" "tr_phase t = BeforeRequest (x # ops)"
  defines "t' \<equiv> t\<lparr>tr_phase := BeforeRequest ops\<rparr>"
  shows "wellPhased t'" "rm_inFlight (operate x m) l = rm_inFlight m l + (if l = tripLabels t \<and> mutatingTrip t then of_bool (raised t') - of_bool (raised t) else 0)"
proof -
  have "mutatingTrip t" using assms(1,2) by (auto simp: wellPhased_def lowered_def split: if_splits)
  moreover have "x = InFlightInc (tripLabels t) \<and> ops = [MutationsInc (tripLabels t)] \<or> x = MutationsInc (tripLabels t) \<and> ops = []"
    using assms(1,2) by (auto simp: wellPhased_def waiting_def raised_def lowered_def split: if_splits)
  ultimately show "wellPhased t'" "rm_inFlight (operate x m) l = rm_inFlight m l + (if l = tripLabels t \<and> mutatingTrip t then of_bool (raised t') - of_bool (raised t) else 0)"
    using assms(2) by (auto simp: t'_def wellPhased_def raised_def)
qed

lemma operation_after:
  assumes "wellPhased t" "tr_phase t = AfterRequest (x # ops)"
  defines "t' \<equiv> t\<lparr>tr_phase := AfterRequest ops\<rparr>"
  shows "wellPhased t'" "rm_inFlight (operate x m) l = rm_inFlight m l + (if l = tripLabels t \<and> mutatingTrip t then of_bool (raised t') - of_bool (raised t) else 0)"
proof -
  have ops: "list_all settling ops" "settling x \<or> x = InFlightDec (tripLabels t) \<and> mutatingTrip t"
    using assms(1,2) by (auto simp: wellPhased_def waiting_def raised_def lowered_def split: if_splits)
  then have later: "lowered t'" "\<not> raised t'" using raised_not_lowered(1) [of t'] by (auto simp: t'_def lowered_def)
  then show "wellPhased t'" by (simp add: wellPhased_def t'_def)
  have "raised t \<longleftrightarrow> \<not> settling x" using ops assms(2) by (auto simp: raised_def)
  then show "rm_inFlight (operate x m) l = rm_inFlight m l + (if l = tripLabels t \<and> mutatingTrip t then of_bool (raised t') - of_bool (raised t) else 0)"
    using ops(2) later(2) settling_gauge [of x m] by auto
qed

lemma gaugeOk_step:
  assumes "gaugeOk s" "roundTrip lib classifier s s'"
  shows "gaugeOk s'"
proof -
  have fin: "finite (dom (os_trips s))" and phased: "\<And>c t. os_trips s c = Some t \<Longrightarrow> wellPhased t"
    and gauge: "\<And>l. rm_inFlight (os_metrics s) l = int (card (underWay s l))"
    using assms(1) by (auto simp: gaugeOk_def ran_def)
  have step: ?thesis if "os_trips s' = (os_trips s)(c \<mapsto> t')" "wellPhased t'"
    "\<And>t. os_trips s c = Some t \<Longrightarrow> tripLabels t = tripLabels t' \<and> mutatingTrip t = mutatingTrip t'"
    "\<And>l. rm_inFlight (os_metrics s') l = rm_inFlight (os_metrics s) l +
      (if l = tripLabels t' \<and> mutatingTrip t' then of_bool (raised t') - of_bool (\<exists>t. os_trips s c = Some t \<and> raised t) else 0)" for c t'
  proof -
    have "finite (dom (os_trips s'))" using that(1) fin by simp
    moreover have "wellPhased t" if "t \<in> ran (os_trips s')" for t
      using that phased \<open>wellPhased t'\<close> unfolding \<open>os_trips s' = _\<close> by (auto simp: ran_def split: if_splits)
    moreover have "rm_inFlight (os_metrics s') l = int (card (underWay s' l))" for l
      using that(4) gauge underWay_update [OF fin that(1) refl that(3), of l] by simp
    ultimately show ?thesis by (simp add: gaugeOk_def)
  qed
  from assms(2) show ?thesis
  proof cases
    case (begin_trip c service request verb)
    let ?t = "\<lparr>tr_service = service, tr_method = verb, tr_phase = BeforeRequest (ObserveRequestStart True service verb)\<rparr>"
    show ?thesis by (rule step [of c ?t]) (simp_all add: begin_trip begins_wellPhased [OF refl])
  next
    case (observe_start c t x ops)
    note ok = operation_before [OF phased [OF observe_start(2)] observe_start(3)]
    show ?thesis by (rule step [of c "t\<lparr>tr_phase := BeforeRequest ops\<rparr>"]) (simp_all add: observe_start(1,2) ok)
  next
    case (send c t)
    then have "wellPhased (t\<lparr>tr_phase := RequestSent\<rparr>)" "raised (t\<lparr>tr_phase := RequestSent\<rparr>)" "raised t" by (auto simp: wellPhased_def raised_def)
    then show ?thesis by (intro step [of c "t\<lparr>tr_phase := RequestSent\<rparr>"]) (simp_all add: send(1,2))
  next
    case (answer c t response failed duration)
    then have "raised t" by (simp add: raised_def)
    then show ?thesis
      by (intro step [of c "t\<lparr>tr_phase := AfterRequest (ObserveRequest True (tr_service t) (tr_method t) (classifyStatus response failed) duration)\<rparr>"])
        (simp_all add: answer(1,2) answers_wellPhased [OF answer(3) refl])
  next
    case (observe_end c t x ops)
    note ok = operation_after [OF phased [OF observe_end(2)] observe_end(3)]
    show ?thesis by (rule step [of c "t\<lparr>tr_phase := AfterRequest ops\<rparr>"]) (simp_all add: observe_end(1,2) ok)
  qed
qed

interpretation gauge: inductive_invariant observerStart "roundTrip lib classifier" gaugeOk
proof unfold_locales
  show "gaugeOk s" if "observerStart s" for s using that by (auto simp: observerStart_def gaugeOk_def noRequests_def underWay_def)
qed (rule gaugeOk_step)

section \<open>The window\<close>

definition notAbove :: "requestMetrics \<Rightarrow> requestMetrics \<Rightarrow> bool" where
  "notAbove m m' \<longleftrightarrow> (\<forall>l. rm_mutations m l \<le> rm_mutations m' l) \<and> (\<forall>l. rm_requests m l \<le> rm_requests m' l) \<and> (\<forall>l. length (rm_durations m l) \<le> length (rm_durations m' l))"

lemma notAbove_order: "notAbove m m" "notAbove m m' \<Longrightarrow> notAbove m' m'' \<Longrightarrow> notAbove m m''"
  unfolding notAbove_def by (simp, meson order_trans)

lemma operate_grows: "notAbove m (operate x m)"
  by (cases x) (auto simp: notAbove_def)

lemma step_grows: "roundTrip lib classifier s s' \<Longrightarrow> notAbove (os_metrics s) (os_metrics s')"
  by (induction rule: roundTrip.induct) (auto simp: notAbove_order operate_grows)

lemma run_grows: "(roundTrip lib classifier)\<^sup>*\<^sup>* s s' \<Longrightarrow> notAbove (os_metrics s) (os_metrics s')"
  by (induction rule: rtranclp_induct) (auto intro: notAbove_order step_grows)

text \<open>A round trip that is not between its two counts and its answer, if it is mutating.\<close>

definition quietTrip :: "trip \<Rightarrow> bool" where
  "quietTrip t \<longleftrightarrow> (mutatingTrip t \<longrightarrow> waiting t \<or> tr_phase t = BeforeRequest [MutationsInc (tripLabels t)] \<or> lowered t)"

definition harmless :: "string \<times> string \<Rightarrow> bool" where
  "harmless r \<longleftrightarrow> \<not> isBoundedMutation (boundedService (fst r)) (boundedMethod (snd r))"

definition quietSince :: "observerState \<Rightarrow> observerState \<Rightarrow> bool" where
  "quietSince s0 s \<longleftrightarrow> notAbove (os_metrics s0) (os_metrics s) \<and> ((\<exists>l. rm_mutations (os_metrics s0) l < rm_mutations (os_metrics s) l) \<or>
     (\<forall>t \<in> ran (os_trips s). quietTrip t) \<and> (\<exists>es. os_sent s = os_sent s0 @ es \<and> list_all harmless es))"

lemma gauge_zero_quiet:
  assumes "gaugeOk s" "\<forall>l. rm_inFlight (os_metrics s) l = 0"
  shows "quietSince s s"
proof -
  have "underWay s l = {}" for l
  proof -
    have "underWay s l \<subseteq> dom (os_trips s)" by (auto simp: underWay_def)
    then have "finite (underWay s l)" using assms(1) finite_subset unfolding gaugeOk_def by blast
    moreover have "int (card (underWay s l)) = 0" using assms unfolding gaugeOk_def by metis
    ultimately show ?thesis by simp
  qed
  then have "\<not> (mutatingTrip t \<and> raised t)" if "t \<in> ran (os_trips s)" for t
    using that unfolding underWay_def ran_def by blast
  moreover have "wellPhased t" if "t \<in> ran (os_trips s)" for t using that assms(1) unfolding gaugeOk_def by blast
  ultimately have "quietTrip t" if "t \<in> ran (os_trips s)" for t
    using that unfolding quietTrip_def wellPhased_def by metis
  then show ?thesis by (auto simp: quietSince_def notAbove_order)
qed

lemma ran_update: "\<forall>t \<in> ran m. P t \<Longrightarrow> P t' \<Longrightarrow> \<forall>t \<in> ran (m(c \<mapsto> t')). P t"
  by (auto simp: ran_def split: if_splits)

lemma quietSince_step:
  assumes "quietSince s0 s" "gaugeOk s" "roundTrip lib classifier s s'"
  shows "quietSince s0 s'"
proof (cases "\<exists>l. rm_mutations (os_metrics s0) l < rm_mutations (os_metrics s) l")
  case True
  then obtain l where "rm_mutations (os_metrics s0) l < rm_mutations (os_metrics s) l" by blast
  moreover have "rm_mutations (os_metrics s) l \<le> rm_mutations (os_metrics s') l" using step_grows [OF assms(3)] unfolding notAbove_def by blast
  ultimately have "rm_mutations (os_metrics s0) l < rm_mutations (os_metrics s') l" by simp
  then show ?thesis using assms(1) step_grows [OF assms(3)] notAbove_order(2) unfolding quietSince_def by blast
next
  case False
  then have quiet: "\<forall>t \<in> ran (os_trips s). quietTrip t" and sent: "\<exists>es. os_sent s = os_sent s0 @ es \<and> list_all harmless es" and grown: "notAbove (os_metrics s0) (os_metrics s)"
    using assms(1) unfolding quietSince_def by blast+
  have above: "notAbove (os_metrics s0) (os_metrics s')" using grown step_grows [OF assms(3)] notAbove_order(2) by blast
  have phased: "wellPhased t" "quietTrip t" if "os_trips s c = Some t" for c t
    using that assms(2) quiet by (auto simp: gaugeOk_def ran_def)
  have step: ?thesis if "os_trips s' = (os_trips s)(c \<mapsto> t')" "quietTrip t'" "\<exists>es. os_sent s' = os_sent s @ es \<and> list_all harmless es" for c t'
    using ran_update [OF quiet that(2), of c] sent that(3) above unfolding quietSince_def that(1) by fastforce
  from assms(3) show ?thesis
  proof cases
    case (begin_trip c service request verb)
    show ?thesis
      by (rule step [of c "\<lparr>tr_service = service, tr_method = verb, tr_phase = BeforeRequest (ObserveRequestStart True service verb)\<rparr>"])
        (auto simp: begin_trip quietTrip_def waiting_def mutatingTrip_def tripLabels_def ObserveRequestStart_def Let_def)
  next
    case (observe_start c t x ops)
    then have "x = InFlightInc (tripLabels t) \<and> ops = [MutationsInc (tripLabels t)] \<or> x = MutationsInc (tripLabels t)"
      using phased(1) [OF observe_start(2)] by (auto simp: wellPhased_def waiting_def raised_def lowered_def split: if_splits)
    then show ?thesis
    proof
      assume "x = InFlightInc (tripLabels t) \<and> ops = [MutationsInc (tripLabels t)]"
      then show ?thesis by (intro step [of c "t\<lparr>tr_phase := BeforeRequest ops\<rparr>"]) (auto simp: observe_start(1) quietTrip_def)
    next
      assume "x = MutationsInc (tripLabels t)"
      then have "rm_mutations (os_metrics s) (tripLabels t) < rm_mutations (os_metrics s') (tripLabels t)" by (simp add: observe_start(1))
      moreover have "rm_mutations (os_metrics s0) (tripLabels t) \<le> rm_mutations (os_metrics s) (tripLabels t)" using grown unfolding notAbove_def by blast
      ultimately have "rm_mutations (os_metrics s0) (tripLabels t) < rm_mutations (os_metrics s') (tripLabels t)" by simp
      then show ?thesis using above unfolding quietSince_def by blast
    qed
  next
    case (send c t)
    then have "\<not> mutatingTrip t" using phased(2) [OF send(2)] by (auto simp: quietTrip_def waiting_def lowered_def)
    then show ?thesis
      by (intro step [of c "t\<lparr>tr_phase := RequestSent\<rparr>"]) (auto simp: send(1) quietTrip_def harmless_def mutatingTrip_def tripLabels_def)
  next
    case (answer c t response failed duration)
    then have "\<not> mutatingTrip t" using phased(2) [OF answer(2)] by (auto simp: quietTrip_def waiting_def lowered_def)
    then show ?thesis
      by (intro step [of c "t\<lparr>tr_phase := AfterRequest (ObserveRequest True (tr_service t) (tr_method t) (classifyStatus response failed) duration)\<rparr>"])
        (auto simp: answer(1) quietTrip_def)
  next
    case (observe_end c t x ops)
    then have "quietTrip (t\<lparr>tr_phase := AfterRequest ops\<rparr>)" using phased(2) [OF observe_end(2)] by (auto simp: quietTrip_def waiting_def lowered_def)
    then show ?thesis by (intro step [of c "t\<lparr>tr_phase := AfterRequest ops\<rparr>"]) (auto simp: observe_end(1))
  qed
qed

text \<open>
  Nothing mutating is sent between a moment when the gauge is zero and one at which no counter of mutations has grown.
\<close>

lemma quiet_window:
  assumes "reachable observerStart (roundTrip lib classifier) s0" "(roundTrip lib classifier)\<^sup>*\<^sup>* s0 s" "\<forall>l. rm_inFlight (os_metrics s0) l = 0"
    "\<forall>l. rm_mutations (os_metrics s) l \<le> rm_mutations (os_metrics s0) l"
  shows "\<exists>es. os_sent s = os_sent s0 @ es \<and> list_all harmless es"
proof -
  have ok: "gaugeOk s0" using assms(1) by (rule gauge.reachable_ok)
  from assms(2) have "gaugeOk s \<and> quietSince s0 s"
  proof (induction rule: rtranclp_induct)
    case base
    then show ?case using ok gauge_zero_quiet [OF ok assms(3)] by blast
  next
    case (step y z)
    then show ?case using gaugeOk_step quietSince_step by blast
  qed
  then show ?thesis using assms(4) unfolding quietSince_def by (meson not_less)
qed

section \<open>Attribution\<close>

text \<open>The endpoints that match a request, and the longest of them.\<close>

definition matching :: "normalizedServiceEndpoint \<Rightarrow> normalizedServiceEndpoint list \<Rightarrow> normalizedServiceEndpoint list" where
  "matching r endpoints = filter (\<lambda>e. ne_scheme e = ne_scheme r \<and> ne_host e = ne_host r \<and> ne_port e = ne_port r \<and> endpointMatchesPath e (ne_path r)) endpoints"

definition longest :: "normalizedServiceEndpoint list \<Rightarrow> normalizedServiceEndpoint set" where
  "longest es = {e \<in> set es. \<forall>e' \<in> set es. length (ne_path e') \<le> length (ne_path e)}"

definition judged :: "normalizedServiceEndpoint list \<Rightarrow> int \<times> string \<times> bool \<Rightarrow> bool" where
  "judged es = (\<lambda>(len, service, ambiguous). if es = [] then (len, service, ambiguous) = (-1, RequestServiceUnknown, False)
     else (\<forall>e \<in> longest es. len = int (length (ne_path e))) \<and> service \<in> ne_service ` longest es \<and> (ambiguous \<longleftrightarrow> ne_service ` longest es \<noteq> {service}))"

lemma longest_snoc:
  assumes "longest es \<noteq> {}" "l \<in> longest es"
  shows "longest (es @ [e]) = (if length (ne_path l) < length (ne_path e) then {e} else if length (ne_path e) = length (ne_path l) then insert e (longest es) else longest es)"
  using assms by (auto simp: longest_def intro: order_trans)

lemma longest_nonempty: "es \<noteq> [] \<Longrightarrow> longest es \<noteq> {}"
proof -
  assume "es \<noteq> []"
  then have "Max ((\<lambda>e. length (ne_path e)) ` set es) \<in> (\<lambda>e. length (ne_path e)) ` set es" by (intro Max_in) auto
  then obtain e where "e \<in> set es" "Max ((\<lambda>e. length (ne_path e)) ` set es) = length (ne_path e)" by auto
  then have "e \<in> longest es" unfolding longest_def by (auto intro: Max_ge simp flip: \<open>Max _ = _\<close>)
  then show ?thesis by blast
qed

lemma judged_snoc:
  assumes "judged es (len, service, ambiguous)"
  shows "judged (es @ [e]) (let n = int (length (ne_path e)) in if n > len then (n, ne_service e, False)
     else if n = len \<and> ne_service e \<noteq> service then (len, service, True) else (len, service, ambiguous))"
proof (cases "es = []")
  case True
  moreover have "longest [e] = {e}" by (auto simp: longest_def)
  ultimately show ?thesis using assms by (simp add: judged_def)
next
  case False
  then obtain l where l: "l \<in> longest es" using longest_nonempty by blast
  then have len: "len = int (length (ne_path l))" and service: "service \<in> ne_service ` longest es" and ambiguous: "ambiguous \<longleftrightarrow> ne_service ` longest es \<noteq> {service}"
    using assms False unfolding judged_def by auto
  have all: "\<forall>l' \<in> longest es. len = int (length (ne_path l'))" using assms False unfolding judged_def by auto
  have grow: "longest (es @ [e]) = (if length (ne_path l) < length (ne_path e) then {e} else if length (ne_path e) = length (ne_path l) then insert e (longest es) else longest es)"
    by (rule longest_snoc) (use l in auto)
  consider "length (ne_path l) < length (ne_path e)" | "length (ne_path e) = length (ne_path l)" | "length (ne_path e) < length (ne_path l)" by linarith
  then show ?thesis
  proof cases
    case 1
    then show ?thesis using len grow by (simp add: judged_def)
  next
    case 2
    then show ?thesis using len grow all service ambiguous by (auto simp: judged_def Let_def)
  next
    case 3
    then show ?thesis using len grow all service ambiguous by (simp add: judged_def Let_def)
  qed
qed

lemma judged_fold: "judged (matching r endpoints) (fold (considerEndpoint r) endpoints (-1, RequestServiceUnknown, False))"
proof (induction endpoints rule: rev_induct)
  case Nil
  then show ?case by (simp add: judged_def matching_def)
next
  case (snoc e endpoints)
  obtain len service ambiguous where acc: "fold (considerEndpoint r) endpoints (-1, RequestServiceUnknown, False) = (len, service, ambiguous)"
    by (metis prod_cases3)
  have last: "fold (considerEndpoint r) (endpoints @ [e]) (-1, RequestServiceUnknown, False) = considerEndpoint r e (len, service, ambiguous)" by (simp add: acc)
  have IH: "judged (matching r endpoints) (len, service, ambiguous)" using snoc.IH unfolding acc .
  show ?case
  proof (cases "matching r [e] = []")
    case True
    then have "considerEndpoint r e (len, service, ambiguous) = (len, service, ambiguous)" by (auto simp: matching_def considerEndpoint_def split: if_splits)
    moreover have "matching r (endpoints @ [e]) = matching r endpoints" using True by (simp add: matching_def)
    ultimately show ?thesis using IH last by simp
  next
    case False
    then have "matching r (endpoints @ [e]) = matching r endpoints @ [e]" by (simp add: matching_def split: if_splits)
    moreover have "considerEndpoint r e (len, service, ambiguous) = (let n = int (length (ne_path e)) in if n > len then (n, ne_service e, False)
       else if n = len \<and> ne_service e \<noteq> service then (len, service, True) else (len, service, ambiguous))"
      using False by (simp add: matching_def considerEndpoint_def split: if_splits)
    ultimately show ?thesis using judged_snoc [OF IH, of e] last by simp
  qed
qed

text \<open>The elements of a path; a path below another one has its elements as a beginning of its own.\<close>

definition pathElements :: "string \<Rightarrow> string list" where
  "pathElements v = cleanElements [] (splitOn CHR ''/'' (CHR ''/'' # TrimPrefix v ''/''))"

lemma splitOn_append: "splitOn sep (a @ sep # b) = splitOn sep a @ splitOn sep b"
proof (induction a)
  case (Cons c a)
  have "splitOn sep a \<noteq> []" by (induction a) (auto split: list.splits)
  with Cons show ?case by (cases "splitOn sep a") auto
qed simp

lemma splitOn_sep: "e \<in> set (splitOn sep s) \<Longrightarrow> sep \<notin> set e"
  by (induction s arbitrary: e) (auto split: if_splits list.splits)

lemma set_tl: "e \<in> set (tl acc) \<Longrightarrow> e \<in> set acc"
  by (cases acc) auto

lemma cleanElements_kept: "e \<in> set (cleanElements acc es) \<Longrightarrow> e \<in> set acc \<or> e \<in> set es \<and> e \<noteq> []"
  by (induction acc es rule: cleanElements.induct) (auto split: if_splits dest: set_tl)

lemma pathElements_plain: "e \<in> set (pathElements v) \<Longrightarrow> e \<noteq> [] \<and> CHR ''/'' \<notin> set e"
  unfolding pathElements_def using cleanElements_kept splitOn_sep by fastforce

lemma splitOn_Join:
  assumes "es \<noteq> []" "\<forall>e \<in> set es. CHR ''/'' \<notin> set e"
  shows "splitOn CHR ''/'' (Join es ''/'') = es"
  using assms
proof (induction es "''/''" rule: Join.induct)
  case (2 x)
  then show ?case using splitOn_append by (induction x) auto
next
  case (3 x y ys)
  have "splitOn CHR ''/'' x = [x]" using 3(3) by (induction x) auto
  with 3 show ?case by (simp add: splitOn_append)
qed simp

lemma normalize_elements: "normalizeURLPath v = CHR ''/'' # Join (pathElements v) ''/''"
  by (simp add: normalizeURLPath_def rootedClean_def pathElements_def)

lemma Join_both: "xs \<noteq> [] \<Longrightarrow> ys \<noteq> [] \<Longrightarrow> Join (xs @ ys) sep = Join xs sep @ sep @ Join ys sep"
proof (induction xs sep rule: Join.induct)
  case (2 x sep)
  then show ?case by (cases ys) auto
qed auto

lemma hasPathPrefix_elements: "hasPathPrefix (normalizeURLPath v) (normalizeURLPath p) \<longleftrightarrow> (\<exists>zs. pathElements v = pathElements p @ zs)"
proof (cases "pathElements p = []")
  case True
  then show ?thesis by (simp add: hasPathPrefix_def normalize_elements)
next
  case False
  let ?p = "pathElements p" and ?v = "pathElements v"
  have plain: "splitOn CHR ''/'' (Join ?p ''/'') = ?p" "?v \<noteq> [] \<Longrightarrow> splitOn CHR ''/'' (Join ?v ''/'') = ?v"
    using splitOn_Join pathElements_plain False by blast+
  have nonempty: "Join es ''/'' \<noteq> []" if "es \<noteq> []" "\<forall>e \<in> set es. e \<noteq> []" for es using that by (induction es "''/''" rule: Join.induct) auto
  then have p: "Join ?p ''/'' \<noteq> []" using False pathElements_plain by blast
  have "hasPathPrefix (normalizeURLPath v) (normalizeURLPath p) \<longleftrightarrow> Join ?v ''/'' = Join ?p ''/'' \<or> (\<exists>zs. Join ?v ''/'' = Join ?p ''/'' @ CHR ''/'' # zs)"
    using p by (auto simp: hasPathPrefix_def normalize_elements HasPrefix_iff)
  also have "\<dots> \<longleftrightarrow> (\<exists>zs. ?v = ?p @ zs)"
  proof
    assume "Join ?v ''/'' = Join ?p ''/'' \<or> (\<exists>zs. Join ?v ''/'' = Join ?p ''/'' @ CHR ''/'' # zs)"
    moreover from this p have "?v \<noteq> []" by auto
    ultimately show "\<exists>zs. ?v = ?p @ zs" using plain splitOn_append by (metis append_Nil2)
  next
    assume "\<exists>zs. ?v = ?p @ zs"
    then obtain zs where "?v = ?p @ zs" by blast
    then show "Join ?v ''/'' = Join ?p ''/'' \<or> (\<exists>zs. Join ?v ''/'' = Join ?p ''/'' @ CHR ''/'' # zs)"
      using Join_both [OF False, of zs "''/''"] by (cases "zs = []") auto
  qed
  finally show ?thesis .
qed


definition sampleURLs :: urlLibrary where
  "sampleURLs = \<lparr>ul_Parse = \<lambda>text. Some \<lparr>ur_Scheme = ''https'', ur_Hostname = ''cloud'', ur_Port = [], ur_Path = text\<rparr>, ul_ToLower = \<lambda>v. v, ul_ToUpper = \<lambda>v. v\<rparr>"

definition sampleClassifier :: "normalizedServiceEndpoint list" where
  "sampleClassifier = newRequestServiceClassifier sampleURLs [\<lparr>se_service = RequestServiceKeystone, se_rawURL = ''/''\<rparr>, \<lparr>se_service = RequestServiceNeutron, se_rawURL = ''/v2''\<rparr>,
     \<lparr>se_service = RequestServiceOctavia, se_rawURL = ''/v2/lbaas/''\<rparr>]"


end
