(* ===== verification/ConvergenceCheck.thy ===== *)
theory ConvergenceCheck
  imports Complex_Main ObserverFacts
begin

text \<open>
  The convergence check of the end-to-end tests: the judgement on two scrapes of the metrics in test/e2e/metrics.go. A snapshot is built from the samples of a
  scrape; the text format is not modelled. Values are rational numbers. Two label sets are compared as maps; the code compares canonical texts of them.
\<close>

section \<open>Snapshots\<close>

definition mutationCounterMetricName :: string where "mutationCounterMetricName = ''gateway_api_openstack_openstack_mutations_total''"
definition mutationInFlightMetricName :: string where "mutationInFlightMetricName = ''gateway_api_openstack_openstack_mutations_in_flight''"
definition requestCounterMetricName :: string where "requestCounterMetricName = ''gateway_api_openstack_openstack_requests_total''"
definition requestDurationCountMetricName :: string where "requestDurationCountMetricName = ''gateway_api_openstack_openstack_request_duration_seconds_count''"
definition leaderElectionStatusMetricName :: string where "leaderElectionStatusMetricName = ''leader_election_master_status''"
definition processStartTimeMetricName :: string where "processStartTimeMetricName = ''process_start_time_seconds''"

lemmas metric_names = mutationCounterMetricName_def mutationInFlightMetricName_def requestCounterMetricName_def requestDurationCountMetricName_def
  leaderElectionStatusMetricName_def processStartTimeMetricName_def

record metricSample =
  ms_labels :: "string \<rightharpoonup> string"
  ms_value :: rat

record metricSnapshot =
  mn_values :: "string \<rightharpoonup> rat"
  mn_samples :: "string \<Rightarrow> metricSample list"

definition noSamples :: metricSnapshot where
  "noSamples = \<lparr>mn_values = Map.empty, mn_samples = \<lambda>_. []\<rparr>"

text \<open>The samples of a family are also the label sets that were seen; the value of an absent family is zero.\<close>

definition recordMetricSample :: "string \<times> metricSample \<Rightarrow> metricSnapshot \<Rightarrow> metricSnapshot result" where
  "recordMetricSample = (\<lambda>(name, sample) snapshot.
     if \<exists>seen \<in> set (mn_samples snapshot name). ms_labels seen = ms_labels sample then Inl Errorf
     else Inr \<lparr>mn_values = (mn_values snapshot)(name \<mapsto> (case mn_values snapshot name of None \<Rightarrow> 0 | Some v \<Rightarrow> v) + ms_value sample),
       mn_samples = (mn_samples snapshot)(name := mn_samples snapshot name @ [sample])\<rparr>)"

definition parseMetricSnapshot :: "(string \<times> metricSample) list \<Rightarrow> metricSnapshot result" where
  "parseMetricSnapshot samples = foldE recordMetricSample samples noSamples"

definition validateRequiredMetricFamilies :: "metricSnapshot \<Rightarrow> unit result" where
  "validateRequiredMetricFamilies snapshot = foreachE (\<lambda>name. guardE (mn_values snapshot name \<noteq> None) Errorf)
     [mutationCounterMetricName, mutationInFlightMetricName, requestCounterMetricName, requestDurationCountMetricName, leaderElectionStatusMetricName, processStartTimeMetricName]"

section \<open>The judgement\<close>

definition metricCounterDelta :: "metricSnapshot \<Rightarrow> metricSnapshot \<Rightarrow> string \<Rightarrow> rat result" where
  "metricCounterDelta earlier later name = (case mn_values earlier name of None \<Rightarrow> Inl Errorf | Some earlierValue \<Rightarrow>
     (case mn_values later name of None \<Rightarrow> Inl Errorf | Some laterValue \<Rightarrow> if laterValue < earlierValue then Inl Errorf else Inr (laterValue - earlierValue)))"

definition sumMetricSamples :: "metricSample list \<Rightarrow> (string \<times> string) list \<Rightarrow> rat" where
  "sumMetricSamples samples labels = (\<Sum>sample \<leftarrow> samples. if \<forall>(name, expected) \<in> set labels. (case ms_labels sample name of None \<Rightarrow> [] | Some v \<Rightarrow> v) = expected then ms_value sample else 0)"

definition boundedMetricDelta :: "metricSnapshot \<Rightarrow> metricSnapshot \<Rightarrow> string \<Rightarrow> (string \<times> string) list \<Rightarrow> rat result" where
  "boundedMetricDelta earlier later name labels =
     (let earlierValue = sumMetricSamples (mn_samples earlier name) labels; laterValue = sumMetricSamples (mn_samples later name) labels in
      if laterValue < earlierValue then Inl Errorf else Inr (laterValue - earlierValue))"

definition octaviaReads :: "(string \<times> string) list" where
  "octaviaReads = [(''service'', ''octavia''), (''method'', ''GET'')]"

definition convergedMetricDeltas :: "metricSnapshot \<Rightarrow> metricSnapshot \<Rightarrow> (rat \<times> rat \<times> rat) result" where
  "convergedMetricDeltas earlier later =
     bindE (boundedMetricDelta earlier later requestCounterMetricName octaviaReads) (\<lambda>requestDelta.
     bindE (boundedMetricDelta earlier later requestDurationCountMetricName octaviaReads) (\<lambda>durationDelta.
     bindE (metricCounterDelta earlier later mutationCounterMetricName) (\<lambda>mutationDelta.
     Inr (requestDelta, durationDelta, mutationDelta))))"

definition validateMetricEndpointIdentity :: "metricSnapshot \<Rightarrow> string \<Rightarrow> unit result" where
  "validateMetricEndpointIdentity snapshot leaderLease =
     bindE (case mn_samples snapshot leaderElectionStatusMetricName of
        [sample] \<Rightarrow> guardE (ms_labels sample = [''name'' \<mapsto> leaderLease] \<and> ms_value sample = 1) Errorf
      | _ \<Rightarrow> Inl Errorf) (\<lambda>_.
     bindE (case mn_samples snapshot processStartTimeMetricName of
        [sample] \<Rightarrow> guardE (ms_labels sample = Map.empty \<and> \<not> ms_value sample \<le> 0) Errorf
      | _ \<Rightarrow> Inl Errorf) (\<lambda>_.
     foreachE (\<lambda>sample. guardE (ms_value sample = 0) Errorf) (mn_samples snapshot mutationInFlightMetricName)))"

text \<open>The code keeps the last of the later samples with the same labels.\<close>

definition validateCounterSeriesDoNotDecrease :: "metricSnapshot \<Rightarrow> metricSnapshot \<Rightarrow> string \<Rightarrow> unit result" where
  "validateCounterSeriesDoNotDecrease earlier later name =
     foreachE (\<lambda>sample. case find (\<lambda>x. ms_labels x = ms_labels sample) (rev (mn_samples later name)) of
         None \<Rightarrow> Inl Errorf
       | Some x \<Rightarrow> guardE (\<not> ms_value x < ms_value sample) Errorf) (mn_samples earlier name)"

definition validateConvergedMetricSnapshots :: "metricSnapshot \<Rightarrow> metricSnapshot \<Rightarrow> string \<Rightarrow> unit result" where
  "validateConvergedMetricSnapshots earlier later leaderLease =
     bindE (validateRequiredMetricFamilies earlier) (\<lambda>_.
     bindE (validateRequiredMetricFamilies later) (\<lambda>_.
     bindE (mapErr Wrapf (validateMetricEndpointIdentity earlier leaderLease)) (\<lambda>_.
     bindE (mapErr Wrapf (validateMetricEndpointIdentity later leaderLease)) (\<lambda>_.
     bindE (guardE (mn_values earlier processStartTimeMetricName = mn_values later processStartTimeMetricName) Errorf) (\<lambda>_.
     foreachE (validateCounterSeriesDoNotDecrease earlier later) [requestCounterMetricName, requestDurationCountMetricName, mutationCounterMetricName])))))"

definition validateConvergedNoOp :: "metricSnapshot \<Rightarrow> metricSnapshot \<Rightarrow> string \<Rightarrow> unit result" where
  "validateConvergedNoOp earlier later leaderLease =
     bindE (validateConvergedMetricSnapshots earlier later leaderLease) (\<lambda>_.
     bindE (convergedMetricDeltas earlier later) (\<lambda>(requestDelta, durationDelta, mutationDelta).
     bindE (guardE (\<not> (requestDelta \<le> 0 \<or> durationDelta \<le> 0)) Errorf) (\<lambda>_.
     guardE (\<not> mutationDelta \<noteq> 0) Errorf)))"

section \<open>What a snapshot holds\<close>

definition familyOf :: "string \<Rightarrow> (string \<times> metricSample) list \<Rightarrow> metricSample list" where
  "familyOf name samples = map snd (filter (\<lambda>(n, _). n = name) samples)"

definition snapshotHolds :: "(string \<times> metricSample) list \<Rightarrow> metricSnapshot \<Rightarrow> bool" where
  "snapshotHolds samples snapshot \<longleftrightarrow> (\<forall>name. mn_samples snapshot name = familyOf name samples \<and> distinct (map ms_labels (familyOf name samples)) \<and>
     mn_values snapshot name = (if familyOf name samples = [] then None else Some (\<Sum>sample \<leftarrow> familyOf name samples. ms_value sample)))"

lemma familyOf_snoc: "familyOf name (samples @ [(n, sample)]) = familyOf name samples @ (if n = name then [sample] else [])"
  by (simp add: familyOf_def)

lemma record_holds:
  assumes "snapshotHolds samples snapshot" "recordMetricSample (n, sample) snapshot = Inr snapshot'"
  shows "snapshotHolds (samples @ [(n, sample)]) snapshot'"
  using assms by (auto simp: snapshotHolds_def recordMetricSample_def familyOf_snoc split: if_splits)

lemma fold_holds: "snapshotHolds done_samples snapshot \<Longrightarrow> foldE recordMetricSample samples snapshot = Inr snapshot' \<Longrightarrow> snapshotHolds (done_samples @ samples) snapshot'"
proof (induction samples arbitrary: done_samples snapshot)
  case (Cons x samples)
  then obtain snapshot1 where one: "recordMetricSample x snapshot = Inr snapshot1" "foldE recordMetricSample samples snapshot1 = Inr snapshot'" by (auto simp: go_simps)
  have "snapshotHolds (done_samples @ [x]) snapshot1" using record_holds [of done_samples snapshot "fst x" "snd x" snapshot1] Cons.prems(1) one(1) by simp
  from Cons.IH [OF this one(2)] show ?case by simp
qed simp

lemma parse_holds: "parseMetricSnapshot samples = Inr snapshot \<Longrightarrow> snapshotHolds samples snapshot"
  using fold_holds [of "[]" noSamples samples snapshot] by (simp add: parseMetricSnapshot_def snapshotHolds_def noSamples_def familyOf_def)

section \<open>Scrapes\<close>

text \<open>
  The samples of one family show a counter: every sample has the labels of one label set and its value, no label set is shown twice, and one that is not
  shown is zero, because a series exists from its first use on.
\<close>

definition shows_family :: "('l \<Rightarrow> string \<rightharpoonup> string) \<Rightarrow> ('l \<Rightarrow> rat) \<Rightarrow> metricSample list \<Rightarrow> bool" where
  "shows_family labelled counter samples \<longleftrightarrow> (\<exists>ls. samples = map (\<lambda>l. \<lparr>ms_labels = labelled l, ms_value = counter l\<rparr>) ls \<and> distinct ls \<and> (\<forall>l. l \<notin> set ls \<longrightarrow> counter l = 0))"

definition mutationLabels :: "labels \<Rightarrow> string \<rightharpoonup> string" where
  "mutationLabels l = [''service'' \<mapsto> fst l, ''method'' \<mapsto> snd l]"

definition requestLabels :: "statusLabels \<Rightarrow> string \<rightharpoonup> string" where
  "requestLabels l = [''service'' \<mapsto> fst l, ''method'' \<mapsto> fst (snd l), ''status_class'' \<mapsto> snd (snd l)]"

text \<open>
  A scrape that reads the counters of requests and mutations at one moment, and the gauge at the same or a later one.
\<close>

definition scraped :: "requestMetrics \<Rightarrow> requestMetrics \<Rightarrow> (string \<times> metricSample) list \<Rightarrow> bool" where
  "scraped counters gauges samples \<longleftrightarrow>
     shows_family mutationLabels (\<lambda>l. of_nat (rm_mutations counters l)) (familyOf mutationCounterMetricName samples) \<and>
     shows_family requestLabels (\<lambda>l. of_nat (rm_requests counters l)) (familyOf requestCounterMetricName samples) \<and>
     shows_family mutationLabels (\<lambda>l. of_int (rm_inFlight gauges l)) (familyOf mutationInFlightMetricName samples)"

lemma shows_total:
  assumes "shows_family labelled counter samples"
  shows "\<exists>A. finite A \<and> (\<forall>l. l \<notin> A \<longrightarrow> counter l = 0) \<and> (\<Sum>sample \<leftarrow> samples. ms_value sample) = sum counter A"
proof -
  obtain ls where "samples = map (\<lambda>l. \<lparr>ms_labels = labelled l, ms_value = counter l\<rparr>) ls" "distinct ls" "\<forall>l. l \<notin> set ls \<longrightarrow> counter l = 0"
    using assms unfolding shows_family_def by blast
  then show ?thesis by (intro exI [of _ "set ls"]) (simp add: sum_list_distinct_conv_sum_set comp_def)
qed

lemma shows_zero:
  assumes "shows_family labelled counter samples" "\<forall>sample \<in> set samples. ms_value sample = 0"
  shows "counter l = 0"
proof -
  obtain ls where "samples = map (\<lambda>l. \<lparr>ms_labels = labelled l, ms_value = counter l\<rparr>) ls" "\<forall>l. l \<notin> set ls \<longrightarrow> counter l = 0"
    using assms(1) unfolding shows_family_def by blast
  then show ?thesis using assms(2) by (cases "l \<in> set ls") auto
qed

text \<open>Two sums over everything that is not zero agree only when the counters do, if one is not above the other.\<close>

lemma equal_totals:
  fixes f g :: "'l \<Rightarrow> rat"
  assumes "finite A" "finite B" "\<forall>l. l \<notin> A \<longrightarrow> f l = 0" "\<forall>l. l \<notin> B \<longrightarrow> g l = 0" "sum f A = sum g B" "\<forall>l. f l \<le> g l"
  shows "f l = g l"
proof -
  have "sum f A = sum f (A \<union> B)" "sum g B = sum g (A \<union> B)"
    by (rule sum.mono_neutral_left; use assms in auto)+
  then have "sum (\<lambda>l. g l - f l) (A \<union> B) = 0" using assms(5) by (simp add: sum_subtractf)
  moreover have "\<And>l. 0 \<le> g l - f l" using assms(6) by simp
  ultimately have "\<forall>l \<in> A \<union> B. g l - f l = 0" using assms(1,2) by (subst (asm) sum_nonneg_eq_0_iff) auto
  then show ?thesis using assms(3,4) by (cases "l \<in> A \<union> B") auto
qed

lemma sum_samples:
  assumes "shows_family labelled counter samples"
  shows "\<exists>A. finite A \<and> (\<forall>l. l \<notin> A \<longrightarrow> counter l = 0) \<and>
    sumMetricSamples samples labels = (\<Sum>l \<in> A. if \<forall>(name, expected) \<in> set labels. (case labelled l name of None \<Rightarrow> [] | Some v \<Rightarrow> v) = expected then counter l else 0)"
proof -
  obtain ls where "samples = map (\<lambda>l. \<lparr>ms_labels = labelled l, ms_value = counter l\<rparr>) ls" "distinct ls" "\<forall>l. l \<notin> set ls \<longrightarrow> counter l = 0"
    using assms unfolding shows_family_def by blast
  then show ?thesis by (intro exI [of _ "set ls"]) (auto simp: sumMetricSamples_def sum_list_distinct_conv_sum_set comp_def intro!: sum.cong)
qed

lemma octavia_read: "(\<forall>(name, expected) \<in> set octaviaReads. (case requestLabels l name of None \<Rightarrow> [] | Some v \<Rightarrow> v) = expected) \<longleftrightarrow>
    (\<exists>status. l = (RequestServiceOctavia, RequestMethodGet, status))"
  by (cases l) (auto simp: octaviaReads_def requestLabels_def serviceNames method_defs)

lemma mutation_totals:
  assumes "scraped m g samples" "scraped m' g' samples'" "snapshotHolds samples earlier" "snapshotHolds samples' later"
    "convergedMetricDeltas earlier later = Inr (requestDelta, durationDelta, 0)" "\<forall>l. rm_mutations m l \<le> rm_mutations m' l"
  shows "rat_of_nat (rm_mutations m l) = rat_of_nat (rm_mutations m' l)"
proof -
  let ?name = mutationCounterMetricName
  have shown: "shows_family mutationLabels (\<lambda>l. rat_of_nat (rm_mutations m l)) (familyOf ?name samples)"
    "shows_family mutationLabels (\<lambda>l. rat_of_nat (rm_mutations m' l)) (familyOf ?name samples')"
    using assms(1,2) by (simp_all add: scraped_def)
  obtain A where A: "finite A" "\<forall>l. l \<notin> A \<longrightarrow> rat_of_nat (rm_mutations m l) = 0" "(\<Sum>sample \<leftarrow> familyOf ?name samples. ms_value sample) = (\<Sum>l \<in> A. rat_of_nat (rm_mutations m l))"
    using shows_total [OF shown(1)] by blast
  obtain B where B: "finite B" "\<forall>l. l \<notin> B \<longrightarrow> rat_of_nat (rm_mutations m' l) = 0" "(\<Sum>sample \<leftarrow> familyOf ?name samples'. ms_value sample) = (\<Sum>l \<in> B. rat_of_nat (rm_mutations m' l))"
    using shows_total [OF shown(2)] by blast
  have total: "mn_values snapshot ?name = (if familyOf ?name xs = [] then None else Some (\<Sum>sample \<leftarrow> familyOf ?name xs. ms_value sample))" if "snapshotHolds xs snapshot" for xs snapshot
    using that unfolding snapshotHolds_def by blast
  have "metricCounterDelta earlier later ?name = Inr 0" using assms(5) by (auto simp: convergedMetricDeltas_def go_simps)
  then have "(\<Sum>sample \<leftarrow> familyOf ?name samples. ms_value sample) = (\<Sum>sample \<leftarrow> familyOf ?name samples'. ms_value sample)"
    using total [OF assms(3)] total [OF assms(4)] by (auto simp: metricCounterDelta_def split: option.splits if_splits)
  then have "(\<Sum>l \<in> A. rat_of_nat (rm_mutations m l)) = (\<Sum>l \<in> B. rat_of_nat (rm_mutations m' l))" using A(3) B(3) by simp
  from equal_totals [OF A(1) B(1) A(2) B(2) this] show ?thesis using assms(6) by simp
qed

lemma request_growth:
  assumes "scraped m g samples" "scraped m' g' samples'" "snapshotHolds samples earlier" "snapshotHolds samples' later"
    "convergedMetricDeltas earlier later = Inr (requestDelta, durationDelta, d)" "0 < requestDelta"
  shows "\<exists>status. rm_requests m (RequestServiceOctavia, RequestMethodGet, status) < rm_requests m' (RequestServiceOctavia, RequestMethodGet, status)"
proof (rule ccontr)
  let ?name = requestCounterMetricName
  let ?f = "\<lambda>m l. if \<exists>status. l = (RequestServiceOctavia, RequestMethodGet, status) then rat_of_nat (rm_requests m l) else 0"
  have shown: "shows_family requestLabels (\<lambda>l. rat_of_nat (rm_requests m l)) (familyOf ?name samples)"
    "shows_family requestLabels (\<lambda>l. rat_of_nat (rm_requests m' l)) (familyOf ?name samples')"
    using assms(1,2) by (simp_all add: scraped_def)
  assume "\<not> ?thesis"
  then have least: "?f m' l \<le> ?f m l" for l by (auto simp: not_less)
  obtain A where A: "finite A" "\<forall>l. l \<notin> A \<longrightarrow> rat_of_nat (rm_requests m l) = 0" "sumMetricSamples (familyOf ?name samples) octaviaReads = sum (?f m) A"
    using sum_samples [OF shown(1), of octaviaReads] unfolding octavia_read by blast
  obtain B where B: "finite B" "\<forall>l. l \<notin> B \<longrightarrow> rat_of_nat (rm_requests m' l) = 0" "sumMetricSamples (familyOf ?name samples') octaviaReads = sum (?f m') B"
    using sum_samples [OF shown(2), of octaviaReads] unfolding octavia_read by blast
  have "sum (?f m) A = sum (?f m) (A \<union> B)" "sum (?f m') B = sum (?f m') (A \<union> B)"
    by (rule sum.mono_neutral_left; use A(1,2) B(1,2) in auto)+
  then have "sum (?f m') B \<le> sum (?f m) A" using sum_mono [of "A \<union> B", OF least] by simp
  moreover have "boundedMetricDelta earlier later ?name octaviaReads = Inr requestDelta" using assms(5) by (auto simp: convergedMetricDeltas_def go_simps)
  then have "requestDelta = sum (?f m') B - sum (?f m) A"
    using assms(3,4) A(3) B(3) by (auto simp: boundedMetricDelta_def snapshotHolds_def Let_def split: if_splits)
  ultimately show False using assms(6) by simp
qed


text \<open>A request to Octavia between two scrapes.\<close>

definition sampleSamples :: "rat \<Rightarrow> (string \<times> metricSample) list" where
  "sampleSamples n = [
     (mutationCounterMetricName, \<lparr>ms_labels = mutationLabels (RequestServiceUnknown, RequestMethodOther), ms_value = 0\<rparr>),
     (mutationInFlightMetricName, \<lparr>ms_labels = mutationLabels (RequestServiceUnknown, RequestMethodOther), ms_value = 0\<rparr>),
     (requestCounterMetricName, \<lparr>ms_labels = requestLabels (RequestServiceOctavia, RequestMethodGet, RequestStatusClassSuccessful), ms_value = n\<rparr>),
     (requestDurationCountMetricName, \<lparr>ms_labels = requestLabels (RequestServiceOctavia, RequestMethodGet, RequestStatusClassSuccessful), ms_value = n\<rparr>),
     (leaderElectionStatusMetricName, \<lparr>ms_labels = [''name'' \<mapsto> ''lease''], ms_value = 1\<rparr>),
     (processStartTimeMetricName, \<lparr>ms_labels = Map.empty, ms_value = 1\<rparr>)]"

definition sampleSnapshot :: "rat \<Rightarrow> metricSnapshot" where
  "sampleSnapshot n = \<lparr>mn_values = [mutationCounterMetricName \<mapsto> 0, mutationInFlightMetricName \<mapsto> 0, requestCounterMetricName \<mapsto> n, requestDurationCountMetricName \<mapsto> n,
       leaderElectionStatusMetricName \<mapsto> 1, processStartTimeMetricName \<mapsto> 1],
     mn_samples = (\<lambda>_. [])(mutationCounterMetricName := [\<lparr>ms_labels = mutationLabels (RequestServiceUnknown, RequestMethodOther), ms_value = 0\<rparr>], mutationInFlightMetricName := [\<lparr>ms_labels = mutationLabels (RequestServiceUnknown, RequestMethodOther), ms_value = 0\<rparr>],
       requestCounterMetricName := [\<lparr>ms_labels = requestLabels (RequestServiceOctavia, RequestMethodGet, RequestStatusClassSuccessful), ms_value = n\<rparr>],
       requestDurationCountMetricName := [\<lparr>ms_labels = requestLabels (RequestServiceOctavia, RequestMethodGet, RequestStatusClassSuccessful), ms_value = n\<rparr>],
       leaderElectionStatusMetricName := [\<lparr>ms_labels = [''name'' \<mapsto> ''lease''], ms_value = 1\<rparr>], processStartTimeMetricName := [\<lparr>ms_labels = Map.empty, ms_value = 1\<rparr>])\<rparr>"

lemma metric_names_distinct: "distinct [mutationCounterMetricName, mutationInFlightMetricName, requestCounterMetricName, requestDurationCountMetricName, leaderElectionStatusMetricName,
    processStartTimeMetricName]"
  by (simp add: metric_names)

lemmas names_apart = metric_names_distinct [simplified] metric_names_distinct [THEN distinct_rev [THEN iffD2], simplified]

lemma sample_parse: "parseMetricSnapshot (sampleSamples n) = Inr (sampleSnapshot n)"
  by (simp add: parseMetricSnapshot_def recordMetricSample_def sampleSamples_def sampleSnapshot_def noSamples_def names_apart)

lemma sample_families:
  "mn_samples (sampleSnapshot n) mutationCounterMetricName = [\<lparr>ms_labels = mutationLabels (RequestServiceUnknown, RequestMethodOther), ms_value = 0\<rparr>]"
  "mn_samples (sampleSnapshot n) mutationInFlightMetricName = [\<lparr>ms_labels = mutationLabels (RequestServiceUnknown, RequestMethodOther), ms_value = 0\<rparr>]"
  "mn_samples (sampleSnapshot n) requestCounterMetricName = [\<lparr>ms_labels = requestLabels (RequestServiceOctavia, RequestMethodGet, RequestStatusClassSuccessful), ms_value = n\<rparr>]"
  "mn_samples (sampleSnapshot n) requestDurationCountMetricName = [\<lparr>ms_labels = requestLabels (RequestServiceOctavia, RequestMethodGet, RequestStatusClassSuccessful), ms_value = n\<rparr>]"
  "mn_samples (sampleSnapshot n) leaderElectionStatusMetricName = [\<lparr>ms_labels = [''name'' \<mapsto> ''lease''], ms_value = 1\<rparr>]"
  "mn_samples (sampleSnapshot n) processStartTimeMetricName = [\<lparr>ms_labels = Map.empty, ms_value = 1\<rparr>]"
  by (simp_all add: sampleSnapshot_def names_apart)

lemma sample_values:
  "mn_values (sampleSnapshot n) mutationCounterMetricName = Some 0" "mn_values (sampleSnapshot n) mutationInFlightMetricName = Some 0"
  "mn_values (sampleSnapshot n) requestCounterMetricName = Some n" "mn_values (sampleSnapshot n) requestDurationCountMetricName = Some n"
  "mn_values (sampleSnapshot n) leaderElectionStatusMetricName = Some 1" "mn_values (sampleSnapshot n) processStartTimeMetricName = Some 1"
  by (simp_all add: sampleSnapshot_def names_apart)

lemma sample_octavia: "sumMetricSamples [\<lparr>ms_labels = requestLabels (RequestServiceOctavia, RequestMethodGet, RequestStatusClassSuccessful), ms_value = n\<rparr>] octaviaReads = n"
  unfolding sumMetricSamples_def by (simp add: octaviaReads_def requestLabels_def serviceNames method_defs)

lemma sample_accepted: "validateConvergedNoOp (sampleSnapshot 0) (sampleSnapshot 1) ''lease'' = Inr ()"
  unfolding validateConvergedNoOp_def validateConvergedMetricSnapshots_def validateRequiredMetricFamilies_def validateMetricEndpointIdentity_def validateCounterSeriesDoNotDecrease_def
    convergedMetricDeltas_def boundedMetricDelta_def metricCounterDelta_def
  by (simp add: sample_families sample_values sample_octavia guardE_def)

definition quietStart :: observerState where
  "quietStart = \<lparr>os_metrics = noRequests, os_trips = Map.empty, os_sent = []\<rparr>"

definition sampleRequest :: "httpRequest option" where
  "sampleRequest = Some \<lparr>rq_URL = Some ''/v2/lbaas/pools'', rq_Method = ''GET''\<rparr>"

lemma sample_request: "classifyService sampleURLs sampleClassifier sampleRequest = RequestServiceOctavia" "classifyRequestMethod sampleURLs sampleRequest = RequestMethodGet"
  by code_simp+

lemma sample_operations:
  "ObserveRequestStart True RequestServiceOctavia RequestMethodGet = []"
  "ObserveRequest True RequestServiceOctavia RequestMethodGet (classifyStatus (Some 200) False) 5 =
     [RequestsInc (RequestServiceOctavia, RequestMethodGet, RequestStatusClassSuccessful), DurationsObserve (RequestServiceOctavia, RequestMethodGet, RequestStatusClassSuccessful) 5]"
  by code_simp+

lemma sample_run:
  "\<exists>s. (roundTrip sampleURLs sampleClassifier)\<^sup>*\<^sup>* quietStart s \<and> os_metrics s = operate (RequestsInc (RequestServiceOctavia, RequestMethodGet, RequestStatusClassSuccessful)) noRequests"
proof -
  let ?step = "roundTrip sampleURLs sampleClassifier" and ?l = "(RequestServiceOctavia, RequestMethodGet, RequestStatusClassSuccessful)"
  let ?t = "\<lambda>phase. \<lparr>tr_service = RequestServiceOctavia, tr_method = RequestMethodGet, tr_phase = phase\<rparr>"
  let ?s = "\<lambda>m phase sent. \<lparr>os_metrics = m, os_trips = [0 \<mapsto> ?t phase], os_sent = sent\<rparr>" and ?sent = "[(RequestServiceOctavia, RequestMethodGet)]"
  have "?step quietStart (?s noRequests (BeforeRequest []) [])"
    using begin_trip [of quietStart 0 RequestServiceOctavia sampleURLs sampleClassifier sampleRequest RequestMethodGet] by (simp add: quietStart_def sample_request sample_operations)
  moreover have "?step (?s noRequests (BeforeRequest []) []) (?s noRequests RequestSent ?sent)"
    using send [of "?s noRequests (BeforeRequest []) []" 0 "?t (BeforeRequest [])" sampleURLs sampleClassifier] by simp
  moreover have "?step (?s noRequests RequestSent ?sent) (?s noRequests (AfterRequest [RequestsInc ?l, DurationsObserve ?l 5]) ?sent)"
    using answer [of "?s noRequests RequestSent ?sent" 0 "?t RequestSent" sampleURLs sampleClassifier "Some 200" False 5] by (simp add: sample_operations)
  moreover have "?step (?s noRequests (AfterRequest [RequestsInc ?l, DurationsObserve ?l 5]) ?sent) (?s (operate (RequestsInc ?l) noRequests) (AfterRequest [DurationsObserve ?l 5]) ?sent)"
    using observe_end [of "?s noRequests (AfterRequest [RequestsInc ?l, DurationsObserve ?l 5]) ?sent" 0 "?t (AfterRequest [RequestsInc ?l, DurationsObserve ?l 5])" "RequestsInc ?l"
      "[DurationsObserve ?l 5]" sampleURLs sampleClassifier] by simp
  ultimately have "?step\<^sup>*\<^sup>* quietStart (?s (operate (RequestsInc ?l) noRequests) (AfterRequest [DurationsObserve ?l 5]) ?sent)"
    by (meson converse_rtranclp_into_rtranclp rtranclp.rtrancl_refl)
  then show ?thesis by (intro exI conjI) auto
qed

lemma sample_scrapes:
  "scraped noRequests noRequests (sampleSamples 0)"
  "scraped (operate (RequestsInc (RequestServiceOctavia, RequestMethodGet, RequestStatusClassSuccessful)) noRequests) noRequests (sampleSamples 1)"
proof -
  have families: "familyOf mutationCounterMetricName (sampleSamples n) = map (\<lambda>l. \<lparr>ms_labels = mutationLabels l, ms_value = 0\<rparr>) [(RequestServiceUnknown, RequestMethodOther)]"
    "familyOf mutationInFlightMetricName (sampleSamples n) = map (\<lambda>l. \<lparr>ms_labels = mutationLabels l, ms_value = 0\<rparr>) [(RequestServiceUnknown, RequestMethodOther)]"
    "familyOf requestCounterMetricName (sampleSamples n) = map (\<lambda>l. \<lparr>ms_labels = requestLabels l, ms_value = n\<rparr>) [(RequestServiceOctavia, RequestMethodGet, RequestStatusClassSuccessful)]" for n
    by (simp_all add: familyOf_def sampleSamples_def names_apart)
  have shown: "shows_family labelled counter (map (\<lambda>l. \<lparr>ms_labels = labelled l, ms_value = v\<rparr>) [k])" if "counter = (\<lambda>_. 0)(k := v)" for labelled :: "'l \<Rightarrow> string \<rightharpoonup> string" and counter k v
    unfolding shows_family_def using that by (intro exI [of _ "[k]"]) auto
  show "scraped noRequests noRequests (sampleSamples 0)"
    "scraped (operate (RequestsInc (RequestServiceOctavia, RequestMethodGet, RequestStatusClassSuccessful)) noRequests) noRequests (sampleSamples 1)"
    unfolding scraped_def families by (intro conjI shown; simp add: noRequests_def fun_eq_iff)+
qed


end
