(* ===== verification/Spec2Isabelle.thy ===== *)
theory Spec2Isabelle
  imports RouteSafety InventorySound Coordinator ProviderOutcomes RouteSelection RouteClaims GatewayClassClaims ProbeClaims AuditCommand ConvergenceCheck
begin

text \<open>
  Verification of gateway-api-openstack, a Kubernetes controller that serves the Gateway API with OpenStack
  load balancers.

  \<^bold>\<open>The program.\<close> A Gateway becomes an Octavia load balancer with one HTTP listener and, if an external network is
  configured, a Neutron Floating IP; an HTTPRoute becomes a pool with members and a health monitor and the L7
  policies that send requests to the pool. Three layers cooperate:
  \<^item> internal/controller: the reconcilers read Kubernetes objects, decide what they want, write durable bindings
    (finalizers and annotations) to the objects before anything is created, call the provider, and publish conditions.
    internal/controller/graph holds one lock per Gateway, because the Gateway and its routes change one graph.
  \<^item> internal/cloud: the provider-neutral types, errors and outcomes that the two other layers exchange.
  \<^item> internal/cloud/openstack: the provider. It observes the resources that carry the identity of an object, plans
    the next step and performs at most one mutation per call, so that a call never waits for OpenStack. Another command
    of the program, the ownership audit (internal/audit and openstack/inventory), compares all resources with all bindings.

  \<^bold>\<open>The theories\<close>, bottom up, with the code under src/internal that they model.
  \<^item> Prelude, Encoding, Netip, Effects, ControllerEffects, TransitionSystems: the shared library. Results are a sum type with
    the error on the left; Effects has the computations of the provider (a trace of requests and answers) and
    ControllerEffects those of the reconcilers (state, error and log) with triples and invariants; TransitionSystems has invariants and
    refinement of step relations; Encoding has base64, hexadecimal and the strings functions; Netip the addresses.
  \<^item> Cloud: cloud/types.go, errors.go, outcome.go. Metadata: cloud/openstack/identity/metadata.go.
  \<^item> Gophercloud: the client library as a record of functions; Services: cloud/openstack/octavia and neutron; ApiErrors:
    apierrors/classify.go.
  \<^item> GraphProvider, GatewayPlan, GatewayOps, RoutePlan, RouteOps, RouteSafety: cloud/openstack/graph, the observation
    of a graph, the plans, and EnsureGateway, GetGateway, DeleteGateway, EnsureRoute and DeleteRoute.
  \<^item> AuditReport: audit/types.go and report.go; Scanner, Classification, InventoryFacts, InventorySound: openstack/inventory.
  \<^item> Kubernetes, GatewayAPI: the parts of the Kubernetes objects that are used, and the API reader.
  \<^item> Bindings: controller/config.go, identity.go, binding.go, the metadata of the binding files and ownershipaudit/collector.go.
  \<^item> ProviderOutcomes: controller/provider\_outcomes.go; ApiVersion: gateway\_api\_version.go and status.go; Coordinator: graph/coordinator.go.
  \<^item> RouteModel, RouteSpecs, RouteSelection: httproute parents, backends, model and selection, and gateway\_validation.go.
  \<^item> RouteStatus, RouteSnapshot, RouteReconciler: the HTTPRoute reconciler; RouteLaw, RouteReconcilerSafety, RouteStatusSafety,
    RouteLocks, RouteRuns, RouteProgress, RouteClaims: what it promises.
  \<^item> ReconcileErrors, ReconcilerLogs, SampleCluster: what the reconcilers share, and a cluster for the witnesses.
  \<^item> GatewayStatus, GatewayReconciler: controller/gateway, the statuses, scope, snapshots, phases and the whole reconciliation; GatewayLaw, GatewaySafety,
    GatewayRuns, GatewayClaims: what it promises.
  \<^item> GatewayClassReconciler, GatewayClassSafety, GatewayClassClaims: controller/gatewayclass.
  \<^item> Watches, Predicates, WatchFacts, WatchClaims: indexes.go, requests.go, predicates.go and the watch files: which changes reach which reconciler.
  \<^item> Clients: cloud/openstack/clients/client.go; AuditCommand: cmd/openstack-gateway-audit, over the snapshot, the scan and the report.
  \<^item> RequestObserver, ObserverFacts: clients/request\_observer.go and observability/metrics.go; ConvergenceCheck: test/e2e/metrics.go, which judges two scrapes.
  \<^item> Probe, ProbeFacts, ProbeRunner, ProbeClaims: the capability probe (internal/probe) and octavia/wait.go.

  \<^bold>\<open>What is shown.\<close>
  \<^item> The provider: a call issues at most one mutation, as its last request, after every answer described only
    resources of the identity; a route is changed in an order in which traffic never meets a half-built policy; ready
    means that the observed graph is the wanted one; deletion removes leaves first.
  \<^item> Ownership: tags and descriptions isolate identities (barring a SHA-256 collision); bindings can be read back, and an edited
    binding is refused; the audit has every resource exactly once and calls a resource matched only when one binding owns it.
  \<^item> The reconcilers, whatever the API server, the provider and other controllers do: the provider is called only under the
    graph lock and after a live read showed the binding; a binding is given up only after the resources are gone; programmed is
    published only when the provider said so; locks are released. In a quiet cluster: a route or a Gateway is bound, then
    programmed, and a deleted one is released. The finalizer of a class follows the list of its Gateways, and its status the installed version.
  \<^item> The watches: a change of a Gateway reaches exactly the routes whose change reaches the Gateway, a change of the nodes or endpoints behind a route
    reaches the route, and an update that is dropped does not change what a reconciler decides.
  \<^item> The audit command never changes OpenStack, and its exit status agrees with what it read; clients are handed out only after the checks.
  \<^item> The metrics, for every interleaving of requests: the gauge counts what is under way, and when the convergence check accepts
    two scrapes, nothing was changed in between. A scrape must read the gauge not before the counters: the order in which Prometheus collects families is not in the code.
  \<^item> The probe: waits return, a run records every resource before the next request, and cleanup deletes only what carries its identity, leaves first.
  \<^item> The coordinator, for every interleaving: mutual exclusion, no lost wake-up, exact reference counts, and a
    refinement to one lock per Gateway.
  \<^item> Arithmetic: requeue intervals stay within their bounds at int64, with the saturation of the code.

  \<^bold>\<open>Abstractions.\<close>
  \<^item> Code outside the repository is a parameter: the Gophercloud calls, the API reader and the patches, the finalizer
    and condition helpers (with their laws as hypotheses), the number of attempts of the retry helper, SHA-256 collisions as a named disjunct.
    Each hypothesis is satisfied by a concrete instance in a witness.
  \<^item> The text of an error is modelled only where it reaches a status or a report; the chain that errors.Is and errors.As walk is
    modelled. The provider error inside a returned error is the classified one.
  \<^item> A Go map is an association list or a partial function; nil and empty maps and slices are not told apart, as the
    code does not. sort.Slice is a stable sort, which differs from Go only between equal keys.
  \<^item> A deadline of a context shows only in the answers of a client. Each read of the API server may see another cluster: the
    reconcilers get a new reader per call.
  \<^item> A step of the coordinator runs from one channel operation or critical section to the next.
  \<^item> Loops over data are structural recursion or folds. The retry loop is bounded by the number of attempts, a parameter; the polls of the probe are partial
    functions, which are shown to return under a clock that moves; no other fuel is used.
  \<^item> A float64 is a rational number or a special value, and sums of counters are exact.

  \<^bold>\<open>Not modelled\<close>, with the reasons in the manifest: the facade of the adapter (aliases and delegation), the main functions with their flags
    (process start), the registration of collectors, the state file, report and traffic check of the probe (files and HTTP), the text format of the
    metrics, and the harness of the end-to-end tests.
\<close>

end
